(* ===== verification/Prelude.thy ===== *)
theory Prelude
  imports Main "HOL-Library.AList" "HOL-Library.Char_ord" "HOL-Library.List_Lexorder"
begin

text \<open>
  Shared vocabulary of the development: the model of JavaScript's insertion-ordered
  \<open>Map\<close>, error results, folds that stop at the first exception, and the interfaces
  (locales) that several components rely on: a keyed store, an exception-stopping
  replay and a fenced lease.
\<close>

section \<open>Collections of facts\<close>

named_theorems jsmap_simps \<open>rewrite rules for insertion-ordered maps\<close>
named_theorems frame_simps \<open>fields an operation does not touch\<close>

section \<open>Basic types\<close>

text \<open>
  Timestamps are milliseconds since the epoch: every timestamp the kernel compares is
  produced by \<open>Date.prototype.toISOString\<close>, whose fixed-width rendering orders as the
  instants do. Identifiers (UUIDs) and digests are strings.
\<close>

type_synonym timestamp = int
type_synonym uuid = string
type_synonym digest = string

text \<open>An exception is the text of its message; a fallible function returns a sum.\<close>

type_synonym 'a result = "string + 'a"

section \<open>Insertion-ordered maps\<close>

text \<open>
  \<open>Map.prototype.set\<close> keeps the position of an existing key and appends a new one, which
  is what \<^const>\<open>AList.update\<close> does; \<open>get\<close> is \<^const>\<open>map_of\<close>, \<open>values()\<close> lists the
  values in insertion order.
\<close>

type_synonym ('k, 'v) jsmap = "('k \<times> 'v) list"

abbreviation mget :: "('k, 'v) jsmap \<Rightarrow> 'k \<Rightarrow> 'v option" where
  "mget m k \<equiv> map_of m k"

abbreviation mput :: "'k \<Rightarrow> 'v \<Rightarrow> ('k, 'v) jsmap \<Rightarrow> ('k, 'v) jsmap" where
  "mput \<equiv> AList.update"

definition mhas :: "('k, 'v) jsmap \<Rightarrow> 'k \<Rightarrow> bool" where
  "mhas m k \<longleftrightarrow> mget m k \<noteq> None"

definition mvalues :: "('k, 'v) jsmap \<Rightarrow> 'v list" where
  "mvalues m = map snd m"

definition mwf :: "('k, 'v) jsmap \<Rightarrow> bool" where
  "mwf m \<longleftrightarrow> distinct (map fst m)"

lemma mget_mput [simp, jsmap_simps]:
  "mget (mput k v m) k' = (if k' = k then Some v else mget m k')"
  by (simp add: update_conv')

lemma mhas_mput [simp, jsmap_simps]: "mhas (mput k v m) k' \<longleftrightarrow> k' = k \<or> mhas m k'"
  by (simp add: mhas_def)

lemma mwf_mput [simp, intro, jsmap_simps]: "mwf m \<Longrightarrow> mwf (mput k v m)"
  by (simp add: mwf_def distinct_update)

lemma mwf_Nil [simp]: "mwf []"
  by (simp add: mwf_def)

lemma mvalues_Nil [simp]: "mvalues [] = []"
  by (simp add: mvalues_def)

lemma mvalues_get: "mget m k = Some v \<Longrightarrow> v \<in> set (mvalues m)"
  by (force simp: mvalues_def dest: map_of_SomeD)

lemma mvalues_iff:
  assumes m: "mwf m"
  shows "v \<in> set (mvalues m) \<longleftrightarrow> (\<exists>k. mget m k = Some v)"
proof
  assume "v \<in> set (mvalues m)"
  then obtain k where "(k, v) \<in> set m" by (auto simp: mvalues_def)
  with m show "\<exists>k. mget m k = Some v" by (auto simp: mwf_def)
qed (auto dest: mvalues_get)

text \<open>A map is keyed by \<open>f\<close> when every value is stored under its own identifier.\<close>

definition keyed :: "('v \<Rightarrow> 'k) \<Rightarrow> ('k, 'v) jsmap \<Rightarrow> bool" where
  "keyed f m \<longleftrightarrow> mwf m \<and> (\<forall>k v. mget m k = Some v \<longrightarrow> f v = k)"

lemma keyed_Nil [simp]: "keyed f []"
  by (simp add: keyed_def)

lemma keyed_mput [intro]: "keyed f m \<Longrightarrow> f v = k \<Longrightarrow> keyed f (mput k v m)"
  by (auto simp: keyed_def)

lemma keyedD: "keyed f m \<Longrightarrow> mget m k = Some v \<Longrightarrow> f v = k"
  by (simp add: keyed_def)

lemma keyed_values: "keyed f m \<Longrightarrow> v \<in> set (mvalues m) \<longleftrightarrow> mget m (f v) = Some v"
  by (metis keyed_def mvalues_get mvalues_iff)

lemma keyed_distinct: "keyed f m \<Longrightarrow> distinct (map f (mvalues m))"
proof -
  assume k: "keyed f m"
  have "map f (mvalues m) = map fst m"
    unfolding mvalues_def map_map
  proof (rule map_cong [OF refl])
    fix p assume "p \<in> set m"
    then have "mget m (fst p) = Some (snd p)"
      using k by (simp add: keyed_def mwf_def)
    then show "(f \<circ> snd) p = fst p"
      using k by (simp add: keyed_def)
  qed
  with k show ?thesis by (simp add: keyed_def mwf_def)
qed

section \<open>Interface: a keyed store\<close>

text \<open>
  What the kernel's components rely on in their state maps: reading back what was stored,
  keeping the other entries, and enumerating exactly the stored values.
\<close>

locale keyed_store =
  fixes lookup :: "'m \<Rightarrow> 'k \<Rightarrow> 'v option"
    and store :: "'k \<Rightarrow> 'v \<Rightarrow> 'm \<Rightarrow> 'm"
    and elems :: "'m \<Rightarrow> 'v list"
    and wf :: "'m \<Rightarrow> bool"
  assumes lookup_store: "lookup (store k v m) k' = (if k' = k then Some v else lookup m k')"
    and wf_store: "wf m \<Longrightarrow> wf (store k v m)"
    and elems_lookup: "wf m \<Longrightarrow> v \<in> set (elems m) \<longleftrightarrow> (\<exists>k. lookup m k = Some v)"
begin

lemma some_elem_iff:
  "wf m \<Longrightarrow> list_ex P (elems m) \<longleftrightarrow> (\<exists>k v. lookup m k = Some v \<and> P v)"
  unfolding list_ex_iff Bex_def elems_lookup by blast

lemma every_elem_iff:
  "wf m \<Longrightarrow> list_all P (elems m) \<longleftrightarrow> (\<forall>k v. lookup m k = Some v \<longrightarrow> P v)"
  unfolding list_all_iff Ball_def elems_lookup by blast

lemma every_elem_store:
  assumes "wf m" and "list_all P (elems m)" and "P v"
  shows "list_all P (elems (store k v m))"
  using assms by (auto simp: every_elem_iff wf_store lookup_store)

lemma find_elem_sound:
  "wf m \<Longrightarrow> find P (elems m) = Some v \<Longrightarrow> (\<exists>k. lookup m k = Some v) \<and> P v"
  by (auto simp: find_Some_iff elems_lookup [symmetric])

lemma find_elem_complete:
  "wf m \<Longrightarrow> find P (elems m) = None \<Longrightarrow> lookup m k = Some v \<Longrightarrow> \<not> P v"
  by (auto simp: find_None_iff elems_lookup)

end

interpretation jsm: keyed_store mget mput mvalues mwf
  by unfold_locales (simp_all add: mvalues_iff mwf_mput)

section \<open>Folds that stop at an exception\<close>

fun try_fold :: "('s \<Rightarrow> 'e \<Rightarrow> 's result) \<Rightarrow> 's \<Rightarrow> 'e list \<Rightarrow> 's result" where
  "try_fold f s [] = Inr s"
| "try_fold f s (e # es) = (case f s e of Inl x \<Rightarrow> Inl x | Inr s' \<Rightarrow> try_fold f s' es)"

lemma try_fold_append:
  "try_fold f s (xs @ ys) = (case try_fold f s xs of Inl x \<Rightarrow> Inl x | Inr s' \<Rightarrow> try_fold f s' ys)"
  by (induction xs arbitrary: s) (auto split: sum.splits)

lemma try_fold_append_Inr:
  "try_fold f s (xs @ ys) = Inr s'' \<longleftrightarrow>
     (\<exists>s'. try_fold f s xs = Inr s' \<and> try_fold f s' ys = Inr s'')"
  by (auto simp: try_fold_append split: sum.splits)

lemma try_fold_Cons_Inr:
  "try_fold f s (x # xs) = Inr s'' \<longleftrightarrow> (\<exists>s'. f s x = Inr s' \<and> try_fold f s' xs = Inr s'')"
  by (auto split: sum.splits)

text \<open>
  A property every single step keeps is kept by the whole fold: the interface between one
  event's transition and the replay of a log.
\<close>

locale step_invariant =
  fixes step :: "'s \<Rightarrow> 'e \<Rightarrow> 's result"
    and inv :: "'s \<Rightarrow> bool"
  assumes step_keeps: "inv s \<Longrightarrow> step s e = Inr s' \<Longrightarrow> inv s'"
begin

lemma fold_keeps: "inv s \<Longrightarrow> try_fold step s es = Inr s' \<Longrightarrow> inv s'"
  by (induction es arbitrary: s) (auto split: sum.splits dest: step_keeps)

end

text \<open>A transitive relation every step respects relates the ends of the whole fold.\<close>

locale step_monotone =
  fixes step :: "'s \<Rightarrow> 'e \<Rightarrow> 's result"
    and le :: "'s \<Rightarrow> 's \<Rightarrow> bool"
  assumes le_refl: "le s s"
    and le_trans: "le s t \<Longrightarrow> le t u \<Longrightarrow> le s u"
    and step_le: "step s e = Inr s' \<Longrightarrow> le s s'"
begin

lemma fold_le: "try_fold step s es = Inr s' \<Longrightarrow> le s s'"
  by (induction es arbitrary: s) (auto split: sum.splits intro: le_refl dest: step_le le_trans)

end

section \<open>Interface: a fenced lease\<close>

text \<open>
  Jobs, outbox messages and integration work are claimed through leases with a fencing
  token. The interface: who holds the lease and until when, the check every state-changing
  command of a holder passes through, the acquisition, and the changes the item may
  undergo otherwise.
\<close>

locale fenced_lease =
  fixes holder :: "'s \<Rightarrow> 'o option"
    and token :: "'s \<Rightarrow> nat"
    and expires :: "'s \<Rightarrow> timestamp option"
    and admits :: "'s \<Rightarrow> 'o \<Rightarrow> nat \<Rightarrow> timestamp \<Rightarrow> bool"
    and acquired :: "'s \<Rightarrow> 'o \<Rightarrow> timestamp \<Rightarrow> timestamp \<Rightarrow> 's \<Rightarrow> bool"
    and changed :: "'s \<Rightarrow> 's \<Rightarrow> bool"
  assumes admits_holder: "admits s w t now \<Longrightarrow> holder s = Some w \<and> token s = t"
    and admits_unexpired: "admits s w t now \<Longrightarrow> \<exists>e. expires s = Some e \<and> now < e"
    and acquired_token: "acquired s w now e s' \<Longrightarrow> token s' = Suc (token s)"
    and acquired_holder: "acquired s w now e s' \<Longrightarrow> holder s' = Some w \<and> expires s' = Some e"
    and acquired_free: "acquired s w now e s' \<Longrightarrow> \<not> admits s w' t now"
    and changed_token: "changed s s' \<Longrightarrow> token s \<le> token s'"
begin

lemma exclusive: "admits s w t now \<Longrightarrow> admits s w' t' now' \<Longrightarrow> w = w' \<and> t = t'"
  by (metis admits_holder option.inject)

lemma later_token: "changed\<^sup>*\<^sup>* s s' \<Longrightarrow> token s \<le> token s'"
  by (induction rule: rtranclp_induct) (auto dest: changed_token)

lemma fenced_out:
  assumes "admits s w t now" and "changed\<^sup>*\<^sup>* s s1" and "acquired s1 w1 now1 e1 s2"
    and "changed\<^sup>*\<^sup>* s2 s3"
  shows "\<not> admits s3 w t now3"
proof -
  have "t < token s3"
    using admits_holder [OF assms(1)] later_token [OF assms(2)] acquired_token [OF assms(3)]
      later_token [OF assms(4)] by simp
  then show ?thesis by (auto dest: admits_holder)
qed

lemma expired_rejected: "expires s = Some e \<Longrightarrow> e \<le> now \<Longrightarrow> \<not> admits s w t now"
  by (auto dest: admits_unexpired)

end

end
