(* ===== verification/Graph.thy ===== *)
theory Graph
  imports Prelude
begin

text \<open>
  The depth-first search both graph checks of packages/kernel/src/schema.ts share (the local
  function \<open>visit\<close> of \<open>validateWorkflowGraph\<close> and \<open>validateProgramGraph\<close>), and its
  correctness: it answers \<open>true\<close> exactly when the dependency relation has a cycle.
\<close>

section \<open>The search\<close>

text \<open>
  \<open>visiting\<close> is the path of the recursion: an identifier is added before its dependencies
  are visited and deleted after them, so that at every call the set is the one the caller
  had. When a cycle is found the whole search ends and the sets are not used again. The
  result is the answer and the set \<open>visited\<close> afterwards. An identifier that is not a key
  has no dependencies (\<open>?? []\<close>).
\<close>

type_synonym deps = "(string, string list) jsmap"

definition deps_of :: "deps \<Rightarrow> string \<Rightarrow> string list" where
  "deps_of m i = (case mget m i of None \<Rightarrow> [] | Some ds \<Rightarrow> ds)"

text \<open>Every call of \<open>visit\<close> adds a key of the map to the path, or visits the empty list: the keys
  not on the path are its measure.\<close>

definition unvisited :: "deps \<Rightarrow> string list \<Rightarrow> nat" where
  "unvisited m visiting = card (set (map fst m) - set visiting)"

lemma unvisited_less: "i \<notin> set visiting \<Longrightarrow> deps_of m i \<noteq> [] \<Longrightarrow>
    unvisited m (i # visiting) < unvisited m visiting"
  unfolding unvisited_def
  by (rule psubset_card_mono) (force simp: deps_of_def split: option.splits dest: map_of_SomeD)+

lemma unvisited_le: "unvisited m (i # visiting) \<le> unvisited m visiting"
  unfolding unvisited_def by (rule card_mono) auto

function visit :: "deps \<Rightarrow> string list \<Rightarrow> string list \<Rightarrow> string \<Rightarrow> bool \<times> string list"
  and visit_any :: "deps \<Rightarrow> string list \<Rightarrow> string list \<Rightarrow> string list \<Rightarrow> bool \<times> string list"
where
  "visit m visiting visited i =
     (if i \<in> set visiting then (True, visited)
      else if i \<in> set visited then (False, visited)
      else (case visit_any m (i # visiting) visited (deps_of m i) of
          (True, v) \<Rightarrow> (True, v)
        | (False, v) \<Rightarrow> (False, i # v)))"
| "visit_any m visiting visited [] = (False, visited)"
| "visit_any m visiting visited (d # ds) =
     (case visit m visiting visited d of
        (True, v) \<Rightarrow> (True, v)
      | (False, v) \<Rightarrow> visit_any m visiting v ds)"
  by pat_completeness auto

termination
proof (relation "measures [\<lambda>x. case x of Inl (m, g, v, i) \<Rightarrow> unvisited m g | Inr (m, g, v, ds) \<Rightarrow> unvisited m g,
    \<lambda>x. case x of Inl _ \<Rightarrow> 1 | Inr (m, g, v, ds) \<Rightarrow> 2 * length ds]", goal_cases)
  case (2 m visiting visited i)
  then show ?case
    using unvisited_less [of i visiting m] unvisited_le [of m i visiting]
    by (cases "deps_of m i = []") auto
qed auto

declare visit.simps [simp del]

section \<open>The dependency relation\<close>

definition depends :: "deps \<Rightarrow> (string \<times> string) set" where
  "depends m = {(i, d). d \<in> set (deps_of m i)}"

text \<open>A set of nodes that is closed under dependencies and on no cycle.\<close>

definition settled :: "deps \<Rightarrow> string set \<Rightarrow> bool" where
  "settled m S \<longleftrightarrow> (\<forall>i d. i \<in> S \<and> (i, d) \<in> depends m \<longrightarrow> d \<in> S) \<and> (\<forall>i\<in>S. (i, i) \<notin> (depends m)\<^sup>+)"

lemma settled_empty [simp]: "settled m {}"
  by (simp add: settled_def)

lemma settled_trancl: "settled m S \<Longrightarrow> (i, j) \<in> (depends m)\<^sup>+ \<Longrightarrow> i \<in> S \<Longrightarrow> j \<in> S"
  by (erule trancl_induct) (auto simp: settled_def)

lemma settled_insert:
  assumes s: "settled m S" and d: "set (deps_of m i) \<subseteq> S"
  shows "settled m (insert i S)"
proof (cases "i \<in> S")
  case True
  then show ?thesis using s by (simp add: insert_absorb)
next
  case False
  have "(i, i) \<notin> (depends m)\<^sup>+"
  proof
    assume "(i, i) \<in> (depends m)\<^sup>+"
    then obtain x where "(i, x) \<in> depends m" "(x, i) \<in> (depends m)\<^sup>*" by (blast dest: tranclD)
    then have "x \<in> S" "x = i \<or> (x, i) \<in> (depends m)\<^sup>+" using d by (auto simp: depends_def rtrancl_eq_or_trancl)
    then show False using False settled_trancl [OF s] by blast
  qed
  with s d show ?thesis by (auto simp: settled_def depends_def)
qed

text \<open>
  The search answers \<open>false\<close> with a larger settled set that contains what it visited, and
  answers \<open>true\<close> only for a cycle, provided every node of the path reaches the visited one.
\<close>

lemma visit_correct:
  "settled m (set visited) \<Longrightarrow>
     (\<forall>v. visit m visiting visited i = (False, v) \<longrightarrow>
        settled m (set v) \<and> set visited \<subseteq> set v \<and> i \<in> set v) \<and>
     ((\<forall>x\<in>set visiting. (x, i) \<in> (depends m)\<^sup>+) \<and> fst (visit m visiting visited i) \<longrightarrow>
        (\<exists>x. (x, x) \<in> (depends m)\<^sup>+))"
  "settled m (set visited) \<Longrightarrow>
     (\<forall>v. visit_any m visiting visited ds = (False, v) \<longrightarrow>
        settled m (set v) \<and> set visited \<subseteq> set v \<and> set ds \<subseteq> set v) \<and>
     ((\<forall>x\<in>set visiting. \<forall>d\<in>set ds. (x, d) \<in> (depends m)\<^sup>+) \<and> fst (visit_any m visiting visited ds) \<longrightarrow>
        (\<exists>x. (x, x) \<in> (depends m)\<^sup>+))"
proof (induction m visiting visited i and m visiting visited ds rule: visit_visit_any.induct)
  case (1 m visiting visited i)
  show ?case
  proof (cases "i \<in> set visiting \<or> i \<in> set visited")
    case True
    then show ?thesis using "1.prems" by (auto simp: visit.simps [of m visiting])
  next
    case False
    then have u: "visit m visiting visited i =
        (case visit_any m (i # visiting) visited (deps_of m i) of
           (True, v) \<Rightarrow> (True, v) | (False, v) \<Rightarrow> (False, i # v))"
      by (simp add: visit.simps [of m visiting])
    note IH = "1.IH" [OF _ _ "1.prems"]
    obtain b w where w: "visit_any m (i # visiting) visited (deps_of m i) = (b, w)" by fastforce
    have step: "\<forall>x\<in>set (i # visiting). \<forall>d\<in>set (deps_of m i). (x, d) \<in> (depends m)\<^sup>+"
      if "\<forall>x\<in>set visiting. (x, i) \<in> (depends m)\<^sup>+"
      using that by (auto simp: depends_def intro: trancl_into_trancl)
    show ?thesis
    proof (cases b)
      case True
      then show ?thesis using IH step u w False by auto
    next
      case b: False
      then have "settled m (set w)" "set visited \<subseteq> set w" "set (deps_of m i) \<subseteq> set w"
        using IH w False by auto
      then show ?thesis using u w b settled_insert [of m "set w" i] by auto
    qed
  qed
next
  case (2 m visiting visited)
  then show ?case by simp
next
  case (3 m visiting visited d ds)
  obtain b w where w: "visit m visiting visited d = (b, w)" by fastforce
  note IH1 = "3.IH"(1) [OF "3.prems"]
  show ?case
  proof (cases b)
    case True
    then show ?thesis using IH1 w by auto
  next
    case False
    then have s: "settled m (set w)" "set visited \<subseteq> set w" "d \<in> set w" using IH1 w by auto
    note IH2 = "3.IH"(2) [OF w [symmetric] _ s(1)]
    show ?thesis using IH2 False w s by auto
  qed
qed

text \<open>Searching from every key decides whether the relation has a cycle.\<close>

lemma visit_any_acyclic:
  assumes "set (map fst m) \<subseteq> set ids"
  shows "fst (visit_any m [] [] ids) \<longleftrightarrow> \<not> acyclic (depends m)"
proof
  assume "fst (visit_any m [] [] ids)"
  then show "\<not> acyclic (depends m)"
    using visit_correct(2) [of m "[]" "[]" ids] by (auto simp: acyclic_def)
next
  assume c: "\<not> acyclic (depends m)"
  show "fst (visit_any m [] [] ids)"
  proof (rule ccontr)
    assume "\<not> fst (visit_any m [] [] ids)"
    then obtain v where "visit_any m [] [] ids = (False, v)" by (cases "visit_any m [] [] ids") auto
    then have v: "settled m (set v)" "set ids \<subseteq> set v" using visit_correct(2) [of m "[]" "[]" ids] by auto
    obtain x where x: "(x, x) \<in> (depends m)\<^sup>+" using c by (auto simp: acyclic_def)
    then obtain y where "(x, y) \<in> depends m" by (blast dest: tranclD)
    then have "mget m x \<noteq> None" by (cases "mget m x") (simp_all add: depends_def deps_of_def)
    then have "x \<in> set (map fst m)" by (auto simp: map_of_eq_None_iff)
    then have "x \<in> set v" using v(2) assms by blast
    then show False using v(1) x by (simp add: settled_def)
  qed
qed

text \<open>Acyclicity along a map, and of two relations on disjoint sets.\<close>

lemma acyclic_map:
  assumes "acyclic s" and "\<And>x y. (x, y) \<in> r \<Longrightarrow> (f x, f y) \<in> s"
  shows "acyclic r"
proof -
  have "(f x, f y) \<in> s\<^sup>+" if "(x, y) \<in> r\<^sup>+" for x y
    using that by induction (blast intro: assms(2) trancl_into_trancl)+
  with assms(1) show ?thesis unfolding acyclic_def by blast
qed

lemma acyclic_disjoint:
  assumes "acyclic r" and "acyclic s" and r: "r \<subseteq> A \<times> A" and s: "s \<subseteq> (- A) \<times> (- A)"
  shows "acyclic (r \<union> s)"
proof -
  have "(if x \<in> A then y \<in> A \<and> (x, y) \<in> r\<^sup>+ else y \<notin> A \<and> (x, y) \<in> s\<^sup>+)" if "(x, y) \<in> (r \<union> s)\<^sup>+" for x y
    using that
  proof induction
    case (base y)
    then show ?case using r s by auto
  next
    case (step y z)
    then show ?case using r s by (auto split: if_splits intro: trancl_into_trancl)
  qed
  then show ?thesis using assms(1,2) unfolding acyclic_def by metis
qed

section \<open>Distinct lists as sets\<close>

text \<open>\<open>new Set(xs).size !== xs.length\<close> asks for a repeated element.\<close>

definition has_repeats :: "'a list \<Rightarrow> bool" where
  "has_repeats xs \<longleftrightarrow> length (remdups xs) \<noteq> length xs"

lemma has_repeats_iff [simp]: "has_repeats xs \<longleftrightarrow> \<not> distinct xs"
  by (metis has_repeats_def length_remdups_eq remdups_id_iff_distinct)

text \<open>A map built from a list of entries, a later entry replacing an earlier one.\<close>

definition map_from :: "('a \<Rightarrow> 'k) \<Rightarrow> ('a \<Rightarrow> 'v) \<Rightarrow> 'a list \<Rightarrow> ('k, 'v) jsmap" where
  "map_from key val xs = fold (\<lambda>x m. mput (key x) (val x) m) xs []"

lemma find_key:
  "distinct (map key xs) \<Longrightarrow> find (\<lambda>x. key x = k) xs = Some x \<longleftrightarrow> x \<in> set xs \<and> key x = k"
  by (induction xs) (auto simp: image_iff)

lemma map_from_fold:
  "distinct (map key xs) \<Longrightarrow> mget (fold (\<lambda>x m. mput (key x) (val x) m) xs m) k =
     (case find (\<lambda>x. key x = k) xs of Some x \<Rightarrow> Some (val x) | None \<Rightarrow> mget m k)"
proof (induction xs arbitrary: m)
  case (Cons x xs)
  have "find (\<lambda>y. key y = k) xs = None" if "key x = k"
    unfolding find_None_iff using Cons.prems that by (metis distinct.simps(2) image_eqI list.set_map list.simps(9))
  then show ?case using Cons by (auto split: option.splits)
qed simp

lemma map_from_get:
  assumes "distinct (map key xs)"
  shows "mget (map_from key val xs) k = Some v \<longleftrightarrow> (\<exists>x\<in>set xs. key x = k \<and> val x = v)"
proof -
  have m: "mget (map_from key val xs) k =
      (case find (\<lambda>x. key x = k) xs of Some x \<Rightarrow> Some (val x) | None \<Rightarrow> None)"
    unfolding map_from_def map_from_fold [OF assms] by (simp split: option.split)
  show ?thesis
  proof (cases "find (\<lambda>x. key x = k) xs")
    case None
    then have "\<forall>x\<in>set xs. key x \<noteq> k" by (auto simp: find_None_iff)
    then show ?thesis unfolding m None by auto
  next
    case (Some x)
    then have x: "x \<in> set xs" "key x = k" using find_key [OF assms, of k x] by auto
    have "y = x" if "y \<in> set xs" "key y = k" for y
      using that Some find_key [OF assms, of k y] by simp
    with x show ?thesis unfolding m Some option.case option.inject by blast
  qed
qed

lemma map_from_keys: "set (map fst (map_from key val xs)) = key ` set xs"
proof -
  have "fst ` set (fold (\<lambda>x m. mput (key x) (val x) m) xs m) = fst ` set m \<union> key ` set xs" for m
    by (induction xs arbitrary: m) (simp_all add: dom_update)
  from this [of "[]"] show ?thesis by (simp add: map_from_def)
qed

end
