(* ===== verification/Closure.thy ===== *)
theory Closure
  imports Prelude "HOL-Library.While_Combinator"
begin

text \<open>
  The closure loop of schema.ts and domain.ts: passes over a list of nodes add the key of every
  node that a collected key pulls in, until a pass adds none. The interface of its visit, and
  what the loop does: it ends, and collects exactly what is reachable.
\<close>

lemma image_step:
  assumes "(p, q) \<in> r" and "p \<in> S"
  shows "r\<^sup>* `` insert q S \<subseteq> r\<^sup>* `` S"
proof
  fix x assume "x \<in> r\<^sup>* `` insert q S"
  then obtain y where "y = q \<or> y \<in> S" "(y, x) \<in> r\<^sup>*" by blast
  with assms have "\<exists>z\<in>S. (z, x) \<in> r\<^sup>*" by (auto intro: converse_rtrancl_into_rtrancl)
  then show "x \<in> r\<^sup>* `` S" by blast
qed

lemma image_trans: "S \<subseteq> r\<^sup>* `` T \<Longrightarrow> r\<^sup>* `` S \<subseteq> r\<^sup>* `` T"
  by (metis Image_mono relcomp_Image rtrancl_idemp_self_comp subset_refl)

text \<open>A node pulled in by the key \<open>p\<close>: \<open>pulls e p\<close>; the edges of a list of nodes.\<close>

definition pull_edges :: "('a \<Rightarrow> 'k) \<Rightarrow> ('a \<Rightarrow> 'k \<Rightarrow> bool) \<Rightarrow> 'a list \<Rightarrow> ('k \<times> 'k) set" where
  "pull_edges key pulls ms = {(p, key e) | p e. e \<in> set ms \<and> pulls e p}"

definition pull_closed :: "('a \<Rightarrow> 'k) \<Rightarrow> ('a \<Rightarrow> 'k \<Rightarrow> bool) \<Rightarrow> 'a list \<Rightarrow> 'k list \<Rightarrow> bool" where
  "pull_closed key pulls ms r \<longleftrightarrow> (\<forall>e\<in>set ms. \<forall>p\<in>set r. pulls e p \<longrightarrow> key e \<in> set r)"

definition collected ::
    "('a \<Rightarrow> 'k) \<Rightarrow> ('a \<Rightarrow> 'k \<Rightarrow> bool) \<Rightarrow> 'a list \<Rightarrow> 'k list \<Rightarrow> 'k list \<times> bool \<Rightarrow> bool" where
  "collected key pulls ms start acc \<longleftrightarrow> set start \<subseteq> set (fst acc) \<and> distinct (fst acc) \<and>
     set (fst acc) \<subseteq> set start \<union> key ` set ms \<and>
     set (fst acc) \<subseteq> (pull_edges key pulls ms)\<^sup>* `` set start \<and>
     (snd acc \<or> pull_closed key pulls ms (fst acc))"

definition uncollected :: "'a list \<Rightarrow> 'k list \<Rightarrow> 'k list \<times> bool \<Rightarrow> nat" where
  "uncollected ms start acc = 2 * (length start + length ms - length (fst acc)) + (if snd acc then 1 else 0)"

lemma pull_closed_reach:
  assumes "pull_closed key pulls ms r" and "set start \<subseteq> set r"
  shows "(pull_edges key pulls ms)\<^sup>* `` set start \<subseteq> set r"
proof (clarsimp)
  fix x y
  assume "x \<in> set start" and "(x, y) \<in> (pull_edges key pulls ms)\<^sup>*"
  from this(2,1) show "y \<in> set r"
    by induction (use assms in \<open>auto simp: pull_closed_def pull_edges_def\<close>)
qed

lemma collected_length:
  assumes "collected key pulls ms start acc"
  shows "length (fst acc) \<le> length start + length ms"
proof -
  have "length (fst acc) = card (set (fst acc))" using assms by (simp add: collected_def distinct_card)
  also have "\<dots> \<le> card (set (start @ map key ms))"
    using assms by (intro card_mono) (auto simp: collected_def)
  also have "\<dots> \<le> length start + length ms" using card_length [of "start @ map key ms"] by simp
  finally show ?thesis .
qed

locale closure_pass =
  fixes key :: "'a \<Rightarrow> 'k" and pulls :: "'a \<Rightarrow> 'k \<Rightarrow> bool"
    and visit :: "'a \<Rightarrow> 'k list \<times> bool \<Rightarrow> 'k list \<times> bool"
  assumes visit_adds: "(\<exists>p\<in>set r. pulls e p) \<Longrightarrow> key e \<notin> set r \<Longrightarrow> visit e (r, b) = (r @ [key e], True)"
    and visit_skips: "\<not> ((\<exists>p\<in>set r. pulls e p) \<and> key e \<notin> set r) \<Longrightarrow> visit e (r, b) = (r, b)"
begin

lemma pass:
  assumes "set es \<subseteq> set ms" and "distinct r"
  shows "\<exists>xs. fold visit es (r, b) = (r @ xs, b \<or> xs \<noteq> []) \<and> distinct (r @ xs) \<and>
    set xs \<subseteq> key ` set ms \<and> set xs \<subseteq> (pull_edges key pulls ms)\<^sup>* `` set r \<and>
    (xs = [] \<longrightarrow> pull_closed key pulls es r)"
  using assms
proof (induction es arbitrary: r b)
  case (Cons e es)
  show ?case
  proof (cases "(\<exists>p\<in>set r. pulls e p) \<and> key e \<notin> set r")
    case True
    then obtain p where p: "p \<in> set r" "pulls e p" "key e \<notin> set r" by blast
    have l: "(p, key e) \<in> pull_edges key pulls ms" using p Cons.prems(1) by (auto simp: pull_edges_def)
    obtain xs where xs: "fold visit es (r @ [key e], True) = ((r @ [key e]) @ xs, True)"
      "distinct ((r @ [key e]) @ xs)" "set xs \<subseteq> key ` set ms"
      "set xs \<subseteq> (pull_edges key pulls ms)\<^sup>* `` set (r @ [key e])"
      using Cons.IH [of "r @ [key e]" True] Cons.prems p(3) by auto
    have "set xs \<subseteq> (pull_edges key pulls ms)\<^sup>* `` set r" using xs(4) image_step [OF l p(1)] by simp
    moreover have "key e \<in> (pull_edges key pulls ms)\<^sup>* `` set r" using l p(1) by blast
    moreover have "fold visit (e # es) (r, b) = (r @ key e # xs, True)" using True xs(1) by (simp add: visit_adds)
    ultimately show ?thesis
      using xs Cons.prems(1) by (intro exI [of _ "key e # xs"]) simp
  next
    case False
    then have "visit e (r, b) = (r, b)" "pull_closed key pulls [e] r" by (auto simp: visit_skips pull_closed_def)
    with Cons.IH [of r b] Cons.prems show ?thesis by (auto simp: pull_closed_def)
  qed
qed (auto simp: pull_closed_def)

lemma pass_step:
  assumes g: "collected key pulls ms start acc" and b: "snd acc"
  shows "collected key pulls ms start (fold visit ms (fst acc, False)) \<and>
    uncollected ms start (fold visit ms (fst acc, False)) < uncollected ms start acc"
proof -
  obtain r where acc: "acc = (r, True)" using b by (cases acc) auto
  have r: "distinct r" using g by (simp add: collected_def acc)
  obtain xs where xs: "fold visit ms (r, False) = (r @ xs, xs \<noteq> [])" "distinct (r @ xs)"
    "set xs \<subseteq> key ` set ms" "set xs \<subseteq> (pull_edges key pulls ms)\<^sup>* `` set r"
    "xs = [] \<longrightarrow> pull_closed key pulls ms r"
    using pass [OF subset_refl r, of ms False] by auto
  have c: "collected key pulls ms start (r @ xs, xs \<noteq> [])"
  proof -
    have "set r \<subseteq> (pull_edges key pulls ms)\<^sup>* `` set start" using g by (simp add: collected_def acc)
    with xs(4) image_trans have "set xs \<subseteq> (pull_edges key pulls ms)\<^sup>* `` set start" by blast
    with g xs(2,3,5) show ?thesis by (cases xs) (auto simp: collected_def acc)
  qed
  from collected_length [OF c] show ?thesis
    using c by (cases xs) (auto simp: xs(1) acc uncollected_def)
qed

lemma loop_ends:
  assumes "distinct start"
  shows "\<exists>reached. while_option snd (\<lambda>acc. fold visit ms (fst acc, False)) (start, True) = Some (reached, False) \<and>
    distinct reached \<and> set reached = (pull_edges key pulls ms)\<^sup>* `` set start"
proof -
  let ?loop = "while_option snd (\<lambda>acc. fold visit ms (fst acc, False)) (start, True)"
  have start: "collected key pulls ms start (start, True)" using assms by (auto simp: collected_def)
  obtain acc where a: "?loop = Some acc"
    using measure_while_option_Some [of "collected key pulls ms start" snd
        "\<lambda>acc. fold visit ms (fst acc, False)" "uncollected ms start" "(start, True)"] pass_step start
    by auto
  have "collected key pulls ms start acc"
    using while_option_rule [where P = "collected key pulls ms start", OF _ a start] pass_step by blast
  moreover have "\<not> snd acc" by (rule while_option_stop [OF a])
  ultimately show ?thesis
    using a pull_closed_reach [of key pulls ms "fst acc" start] by (cases acc) (auto simp: collected_def)
qed

end

end
