(* ===== verification/Canonical.thy ===== *)
theory Canonical
  imports Prelude "HOL-Library.Multiset"
begin

text \<open>
  Canonical JSON and content digests (packages/kernel/src/canonical.ts), and the
  deterministic identifiers derived from a hash (domain.ts, \<open>deterministicUuid\<close>).
  The hash itself (node:crypto) is the parameter \<open>sha\<close>: the lower-case hexadecimal
  SHA-256 of a text. Strings are lists of code units below 256.
\<close>

section \<open>JavaScript values\<close>

text \<open>
  The values \<open>normalize\<close> can meet. A finite number is given by its
  \<open>Number.prototype.toString\<close> text; \<open>JOther\<close> stands for functions, symbols and
  bigints, tagged with what \<open>typeof\<close> answers.
\<close>

datatype jsval =
    JUndefined
  | JNull
  | JBool bool
  | JNumber string
  | JNonFinite
  | JString string
  | JArray "jsval list"
  | JObject "(string \<times> jsval) list"
  | JOther string

subsection \<open>Decimal text of integers\<close>

definition digit_char :: "nat \<Rightarrow> char" where
  "digit_char n = char_of (48 + n)"

fun string_of_nat :: "nat \<Rightarrow> string" where
  "string_of_nat n =
     (if n < 10 then [digit_char n] else string_of_nat (n div 10) @ [digit_char (n mod 10)])"

declare string_of_nat.simps [simp del]

definition string_of_int :: "int \<Rightarrow> string" where
  "string_of_int i = (if i < 0 then CHR ''-'' # string_of_nat (nat (- i)) else string_of_nat (nat i))"

definition is_digit :: "char \<Rightarrow> bool" where
  "is_digit c \<longleftrightarrow> 48 \<le> (of_char c :: nat) \<and> (of_char c :: nat) \<le> 57"

definition nat_of_digits :: "string \<Rightarrow> nat" where
  "nat_of_digits s = foldl (\<lambda>n c. 10 * n + (of_char c - 48)) 0 s"

abbreviation jint :: "int \<Rightarrow> jsval" where
  "jint i \<equiv> JNumber (string_of_int i)"

abbreviation jnat :: "nat \<Rightarrow> jsval" where
  "jnat n \<equiv> JNumber (string_of_nat n)"

subsection \<open>Own-property order\<close>

text \<open>
  A JavaScript object lists array-index keys in numeric order before the other keys in
  insertion order.
\<close>

definition is_index_key :: "string \<Rightarrow> bool" where
  "is_index_key k \<longleftrightarrow>
     k \<noteq> [] \<and> list_all is_digit k \<and> (hd k = CHR ''0'' \<longrightarrow> length k = 1) \<and> nat_of_digits k < 4294967295"

definition own_order :: "(string \<times> 'a) list \<Rightarrow> (string \<times> 'a) list" where
  "own_order es =
     sort_key (nat_of_digits \<circ> fst) (filter (is_index_key \<circ> fst) es) @ filter (\<lambda>e. \<not> is_index_key (fst e)) es"

section \<open>normalize\<close>

text \<open>
  Members are visited in sorted key order and assigned to a fresh object; assigning to the
  key \<open>__proto__\<close> reaches the prototype setter and makes no own property. The first
  exception in visiting order is the one thrown.
\<close>

fun try_all :: "(string \<times> jsval result) list \<Rightarrow> (string \<times> jsval) list result" where
  "try_all [] = Inr []"
| "try_all ((k, r) # es) =
     (case r of Inl x \<Rightarrow> Inl x
      | Inr v \<Rightarrow> (case try_all es of Inl x \<Rightarrow> Inl x | Inr vs \<Rightarrow> Inr ((k, v) # vs)))"

definition proto_key :: string where
  "proto_key = ''__proto__''"

fun normalize :: "jsval \<Rightarrow> jsval result"
  and normalize_list :: "jsval list \<Rightarrow> jsval list result"
  and normalize_members :: "(string \<times> jsval) list \<Rightarrow> (string \<times> jsval result) list"
where
  "normalize JNull = Inr JNull"
| "normalize (JString s) = Inr (JString s)"
| "normalize (JBool b) = Inr (JBool b)"
| "normalize JNonFinite = Inl ''Canonical JSON cannot contain non-finite numbers''"
| "normalize (JNumber s) = Inr (JNumber s)"
| "normalize (JArray xs) =
     (case normalize_list xs of Inl x \<Rightarrow> Inl x | Inr ys \<Rightarrow> Inr (JArray ys))"
| "normalize (JObject es) =
     (case try_all (sort_key fst (normalize_members es)) of
        Inl x \<Rightarrow> Inl x
      | Inr vs \<Rightarrow> Inr (JObject (own_order (filter (\<lambda>e. fst e \<noteq> proto_key) vs))))"
| "normalize JUndefined = Inl ''Canonical JSON cannot contain undefined''"
| "normalize (JOther ty) = Inl (''Canonical JSON cannot contain '' @ ty)"
| "normalize_list [] = Inr []"
| "normalize_list (x # xs) =
     (case normalize x of Inl e \<Rightarrow> Inl e
      | Inr y \<Rightarrow> (case normalize_list xs of Inl e \<Rightarrow> Inl e | Inr ys \<Rightarrow> Inr (y # ys)))"
| "normalize_members [] = []"
| "normalize_members ((k, v) # es) =
     (k, if v = JUndefined then Inl ''Canonical JSON cannot contain undefined values''
         else normalize v) # normalize_members es"

section \<open>JSON.stringify\<close>

definition hex_char :: "nat \<Rightarrow> char" where
  "hex_char n = (if n < 10 then char_of (48 + n) else char_of (87 + n))"

definition escape_char :: "char \<Rightarrow> string" where
  "escape_char c =
     (let n = of_char c :: nat in
      if n = 34 then [CHR 0x5C, CHR 0x22]
      else if n = 92 then [CHR 0x5C, CHR 0x5C]
      else if n = 8 then [CHR 0x5C, CHR ''b'']
      else if n = 9 then [CHR 0x5C, CHR ''t'']
      else if n = 10 then [CHR 0x5C, CHR ''n'']
      else if n = 12 then [CHR 0x5C, CHR ''f'']
      else if n = 13 then [CHR 0x5C, CHR ''r'']
      else if n < 32 then [CHR 0x5C, CHR ''u'', CHR ''0'', CHR ''0'', hex_char (n div 16), hex_char (n mod 16)]
      else [c])"

definition quote :: "string \<Rightarrow> string" where
  "quote s = CHR 0x22 # concat (map escape_char s) @ [CHR 0x22]"

fun stringify :: "jsval \<Rightarrow> string"
  and stringify_rest :: "jsval list \<Rightarrow> string"
  and stringify_members :: "(string \<times> jsval) list \<Rightarrow> string"
where
  "stringify JNull = ''null''"
| "stringify (JBool b) = (if b then ''true'' else ''false'')"
| "stringify (JNumber s) = s"
| "stringify (JString s) = quote s"
| "stringify (JArray []) = ''[]''"
| "stringify (JArray (x # xs)) = ''['' @ stringify x @ stringify_rest xs"
| "stringify (JObject []) = ''{}''"
| "stringify (JObject ((k, v) # es)) =
     ''{'' @ quote k @ '':'' @ stringify v @ stringify_members es"
| "stringify JNonFinite = ''null''"
| "stringify JUndefined = ''''"
| "stringify (JOther ty) = ''''"
| "stringify_rest [] = '']''"
| "stringify_rest (x # xs) = '','' @ stringify x @ stringify_rest xs"
| "stringify_members [] = ''}''"
| "stringify_members ((k, v) # es) =
     '','' @ quote k @ '':'' @ stringify v @ stringify_members es"

definition canonicalJson :: "jsval \<Rightarrow> string result" where
  "canonicalJson v = (case normalize v of Inl x \<Rightarrow> Inl x | Inr w \<Rightarrow> Inr (stringify w))"

definition canonicalDigest :: "(string \<Rightarrow> string) \<Rightarrow> jsval \<Rightarrow> digest result" where
  "canonicalDigest sha v = (case canonicalJson v of Inl x \<Rightarrow> Inl x | Inr s \<Rightarrow> Inr (sha s))"

text \<open>
  The digest of a value that is known to normalise: the typed records of the kernel are
  encoded by functions whose results contain no undefined value
  (\<open>plain\<close> below), so the exception of \<^const>\<open>canonicalDigest\<close> never arises for them.
\<close>

definition digest_of :: "(string \<Rightarrow> string) \<Rightarrow> jsval \<Rightarrow> digest" where
  "digest_of sha v = (case canonicalDigest sha v of Inl x \<Rightarrow> [] | Inr d \<Rightarrow> d)"

section \<open>Deterministic identifiers\<close>

definition deterministicUuid :: "(string \<Rightarrow> string) \<Rightarrow> string \<Rightarrow> uuid" where
  "deterministicUuid sha seed =
     (let hash = ((take 32 (sha seed))[12 := CHR ''5''])[16 := CHR ''8''];
          slice = (\<lambda>i j. drop i (take j hash))
      in slice 0 8 @ ''-'' @ slice 8 12 @ ''-'' @ slice 12 16 @ ''-'' @ slice 16 20 @ ''-'' @ drop 20 hash)"

end
