(* ===== verification/Schema.thy ===== *)
theory Schema
  imports Canonical
begin

text \<open>
  The value types of packages/kernel/src/schema.ts that the run lifecycle, the program
  graph and the evidence digests use, as records and datatypes, with the encoding of each
  digested type as the JavaScript object the code passes to \<open>canonicalDigest\<close>. A field the
  schema marks optional is an \<open>option\<close> whose \<open>None\<close> is an absent member; a nullable field is
  an \<open>option\<close> whose \<open>None\<close> is \<open>null\<close>.
\<close>

section \<open>Encoding helpers\<close>

definition jobj :: "(string \<times> jsval option) list \<Rightarrow> jsval" where
  "jobj fs = JObject (List.map_filter (\<lambda>(k, v). map_option (Pair k) v) fs)"

definition jstr :: "string \<Rightarrow> jsval option" where
  "jstr s = Some (JString s)"

definition jstrs :: "string list \<Rightarrow> jsval option" where
  "jstrs ss = Some (JArray (map JString ss))"

definition jnum :: "nat \<Rightarrow> jsval option" where
  "jnum n = Some (jnat n)"

definition jnullable :: "('a \<Rightarrow> jsval) \<Rightarrow> 'a option \<Rightarrow> jsval option" where
  "jnullable f x = Some (case x of None \<Rightarrow> JNull | Some y \<Rightarrow> f y)"

section \<open>Execution and verification contracts\<close>

record ToolProbe =
  probe_name :: string
  probe_argv :: "string list"
  probe_expectedExitCode :: nat
  probe_expectedStdoutDigest :: digest

definition enc_ToolProbe :: "ToolProbe \<Rightarrow> jsval" where
  "enc_ToolProbe p = jobj
     [(''name'', jstr (probe_name p)), (''argv'', jstrs (probe_argv p)),
      (''expectedExitCode'', jnum (probe_expectedExitCode p)),
      (''expectedStdoutDigest'', jstr (probe_expectedStdoutDigest p))]"

record VerifierContract =
  vc_argv :: "string list"
  vc_cwd :: string
  vc_timeoutMs :: nat
  vc_environment :: "(string \<times> string) list"
  vc_toolProbes :: "ToolProbe list"

definition enc_VerifierContract :: "VerifierContract \<Rightarrow> jsval" where
  "enc_VerifierContract c = jobj
     [(''mode'', jstr ''verify''), (''argv'', jstrs (vc_argv c)), (''cwd'', jstr (vc_cwd c)),
      (''timeoutMs'', jnum (vc_timeoutMs c)),
      (''environment'', Some (JObject (map (\<lambda>(k, v). (k, JString v)) (vc_environment c)))),
      (''toolProbes'', Some (JArray (map enc_ToolProbe (vc_toolProbes c))))]"

text \<open>
  Generic command contracts: protocol version 1, or version 2 with the context packet it is
  bound to (id and digest, absent until a generation is scheduled).
\<close>

datatype ExecutionContract =
    ContractV1 (ec_image: string) (ec_argv: "string list")
  | ContractV2 (ec_image: string) (ec_argv: "string list")
      (ec_contextPacketId: "uuid option") (ec_contextPacketDigest: "digest option")

fun ec_protocolVersion :: "ExecutionContract \<Rightarrow> nat" where
  "ec_protocolVersion (ContractV1 _ _) = 1"
| "ec_protocolVersion (ContractV2 _ _ _ _) = 2"

fun enc_ExecutionContract :: "ExecutionContract \<Rightarrow> jsval" where
  "enc_ExecutionContract (ContractV1 img argv) = jobj
     [(''protocolVersion'', jnum 1), (''image'', jstr img), (''argv'', jstrs argv),
      (''workingDirectory'', jstr ''/workspace'')]"
| "enc_ExecutionContract (ContractV2 img argv cid cdig) = jobj
     [(''protocolVersion'', jnum 2), (''image'', jstr img), (''argv'', jstrs argv),
      (''workingDirectory'', jstr ''/workspace''),
      (''context'', Some (jobj
         [(''target'', jstr ''/context/context.json''),
          (''contextPacketId'', map_option JString cid),
          (''contextPacketDigest'', map_option JString cdig)]))]"

datatype WorkspaceAccess = Read_only | Read_write

fun enc_WorkspaceAccess :: "WorkspaceAccess \<Rightarrow> jsval" where
  "enc_WorkspaceAccess Read_only = JString ''read_only''"
| "enc_WorkspaceAccess Read_write = JString ''read_write''"

text \<open>The CPU limit may be fractional; it is kept as its JavaScript number text.\<close>

record CapabilityLimits =
  cap_workspace :: WorkspaceAccess
  cap_cpuLimit :: string
  cap_memoryLimitBytes :: nat
  cap_pidsLimit :: nat

datatype CapabilityManifest =
    ManifestV1 CapabilityLimits
  | ManifestV2 CapabilityLimits "uuid option" "digest option"

fun cm_schemaVersion :: "CapabilityManifest \<Rightarrow> nat" where
  "cm_schemaVersion (ManifestV1 _) = 1"
| "cm_schemaVersion (ManifestV2 _ _ _) = 2"

definition enc_limits :: "CapabilityLimits \<Rightarrow> (string \<times> jsval option) list" where
  "enc_limits l =
     [(''workspace'', Some (enc_WorkspaceAccess (cap_workspace l))),
      (''artifactOutput'', jstr ''read_write''), (''scratch'', jstr ''read_write''),
      (''cpuLimit'', Some (JNumber (cap_cpuLimit l))),
      (''memoryLimitBytes'', jnum (cap_memoryLimitBytes l)),
      (''pidsLimit'', jnum (cap_pidsLimit l)),
      (''network'', Some (JArray [])), (''secrets'', Some (JArray [])), (''git'', Some (JArray []))]"

fun enc_CapabilityManifest :: "CapabilityManifest \<Rightarrow> jsval" where
  "enc_CapabilityManifest (ManifestV1 l) = jobj ((''schemaVersion'', jnum 1) # enc_limits l)"
| "enc_CapabilityManifest (ManifestV2 l cid cdig) = jobj
     ((''schemaVersion'', jnum 2) #
      (''context'', Some (jobj
         [(''access'', jstr ''read_only''),
          (''contextPacketId'', map_option JString cid),
          (''contextPacketDigest'', map_option JString cdig)])) # enc_limits l)"

section \<open>Driver receipts and protocol events\<close>

record DriverUsage =
  cpuMillis :: nat
  memoryPeakBytes :: nat

datatype MonetaryCost =
    CostKnown string string string string  \<comment> \<open>amount, currency, pricing source, pricing version\<close>
  | CostUnavailable string

fun enc_MonetaryCost :: "MonetaryCost \<Rightarrow> jsval" where
  "enc_MonetaryCost (CostKnown amount currency source version) = jobj
     [(''status'', jstr ''known''), (''amount'', jstr amount), (''currency'', jstr currency),
      (''pricingSource'', jstr source), (''pricingVersion'', jstr version)]"
| "enc_MonetaryCost (CostUnavailable reason) = jobj
     [(''status'', jstr ''unavailable''), (''reason'', jstr reason)]"

record ArtifactEntry =
  art_path :: string
  art_role :: string
  art_size :: nat
  art_sha256 :: digest

definition enc_ArtifactEntry :: "ArtifactEntry \<Rightarrow> jsval" where
  "enc_ArtifactEntry a = jobj
     [(''path'', jstr (art_path a)), (''role'', jstr (art_role a)), (''size'', jnum (art_size a)),
      (''sha256'', jstr (art_sha256 a))]"

record DriverApproval =
  appr_requestId :: uuid
  appr_capability :: string
  appr_reason :: string
  appr_sequence :: nat

definition enc_DriverApproval :: "DriverApproval \<Rightarrow> jsval" where
  "enc_DriverApproval a = jobj
     [(''requestId'', jstr (appr_requestId a)), (''capability'', jstr (appr_capability a)),
      (''reason'', jstr (appr_reason a)), (''sequence'', jnum (appr_sequence a))]"

datatype DriverOutcome =
    DO_succeeded | DO_failed | DO_approval_required | DO_capability_violation
  | DO_protocol_invalid | DO_operator_cancelled | DO_timed_out

fun text_DriverOutcome :: "DriverOutcome \<Rightarrow> string" where
  "text_DriverOutcome DO_succeeded = ''succeeded''"
| "text_DriverOutcome DO_failed = ''failed''"
| "text_DriverOutcome DO_approval_required = ''approval_required''"
| "text_DriverOutcome DO_capability_violation = ''capability_violation''"
| "text_DriverOutcome DO_protocol_invalid = ''protocol_invalid''"
| "text_DriverOutcome DO_operator_cancelled = ''operator_cancelled''"
| "text_DriverOutcome DO_timed_out = ''timed_out''"

text \<open>What distinguishes a version 2 receipt: its context binding and its cost.\<close>

datatype ReceiptVersion =
    ReceiptV1
  | ReceiptV2 (rv_contextPacketId: uuid) (rv_contextPacketDigest: digest) (rv_cost: MonetaryCost)

record DriverReceipt =
  rc_version :: ReceiptVersion
  rc_driver :: string
  rc_driverVersion :: string
  rc_runId :: uuid
  rc_jobId :: uuid
  rc_attemptId :: uuid
  rc_externalRunId :: string
  rc_image :: string
  rc_baseRevisionId :: uuid
  rc_baseRevisionDigest :: digest
  rc_candidateRevisionId :: "uuid option"
  rc_candidateRevisionDigest :: "digest option"
  rc_executionContractDigest :: digest
  rc_capabilityManifestDigest :: digest
  rc_eventStreamDigest :: digest
  rc_eventCount :: nat
  rc_usage :: DriverUsage
  rc_approvals :: "DriverApproval list"
  rc_capabilitiesUsed :: "string list"
  rc_artifacts :: "ArtifactEntry list"
  rc_outcome :: DriverOutcome
  rc_terminalReason :: string
  rc_receiptDigest :: digest

definition rc_schemaVersion :: "DriverReceipt \<Rightarrow> nat" where
  "rc_schemaVersion r = (case rc_version r of ReceiptV1 \<Rightarrow> 1 | ReceiptV2 _ _ _ \<Rightarrow> 2)"

text \<open>Everything of a receipt but its own digest.\<close>

definition enc_receipt_content :: "DriverReceipt \<Rightarrow> (string \<times> jsval option) list" where
  "enc_receipt_content r =
     [(''schemaVersion'', jnum (rc_schemaVersion r)), (''driver'', jstr (rc_driver r)),
      (''driverVersion'', jstr (rc_driverVersion r)),
      (''protocolVersion'', jnum (rc_schemaVersion r)),
      (''runId'', jstr (rc_runId r)), (''jobId'', jstr (rc_jobId r)),
      (''attemptId'', jstr (rc_attemptId r)), (''externalRunId'', jstr (rc_externalRunId r)),
      (''image'', jstr (rc_image r)), (''baseRevisionId'', jstr (rc_baseRevisionId r)),
      (''baseRevisionDigest'', jstr (rc_baseRevisionDigest r)),
      (''candidateRevisionId'', jnullable JString (rc_candidateRevisionId r)),
      (''candidateRevisionDigest'', jnullable JString (rc_candidateRevisionDigest r)),
      (''executionContractDigest'', jstr (rc_executionContractDigest r)),
      (''capabilityManifestDigest'', jstr (rc_capabilityManifestDigest r)),
      (''contextPacketId'', case rc_version r of ReceiptV1 \<Rightarrow> None | ReceiptV2 i _ _ \<Rightarrow> jstr i),
      (''contextPacketDigest'', case rc_version r of ReceiptV1 \<Rightarrow> None | ReceiptV2 _ d _ \<Rightarrow> jstr d),
      (''eventStreamDigest'', jstr (rc_eventStreamDigest r)),
      (''eventCount'', jnum (rc_eventCount r)),
      (''usage'', Some (jobj
         [(''cpuMillis'', jnum (cpuMillis (rc_usage r))),
          (''memoryPeakBytes'', jnum (memoryPeakBytes (rc_usage r))),
          (''monetaryCost'', case rc_version r of ReceiptV1 \<Rightarrow> None
             | ReceiptV2 _ _ c \<Rightarrow> Some (enc_MonetaryCost c))])),
      (''approvals'', Some (JArray (map enc_DriverApproval (rc_approvals r)))),
      (''capabilitiesUsed'', jstrs (rc_capabilitiesUsed r)),
      (''artifacts'', Some (JArray (map enc_ArtifactEntry (rc_artifacts r)))),
      (''outcome'', jstr (text_DriverOutcome (rc_outcome r))),
      (''terminalReason'', jstr (rc_terminalReason r))]"

definition enc_DriverReceipt :: "DriverReceipt \<Rightarrow> jsval" where
  "enc_DriverReceipt r = jobj (enc_receipt_content r @ [(''receiptDigest'', jstr (rc_receiptDigest r))])"

text \<open>
  Driver protocol events; the \<open>issue.raised\<close> event of protocol version 2, which routes into
  the program graph, is not part of this model.
\<close>

datatype DriverEventBody =
    DE_started
  | DE_usage nat nat
  | DE_artifact_declared string string
  | DE_capability_used string
  | DE_approval_requested uuid string string  \<comment> \<open>request, capability, reason\<close>
  | DE_terminal DriverOutcome "string option"

record DriverProtocolEvent =
  de_schemaVersion :: nat
  de_sequence :: nat
  de_body :: DriverEventBody

section \<open>Workflows\<close>

text \<open>
  One step type for the three workflow versions: a legacy step has no execution and
  capability contract and may lack a verifier; version 2 and 3 steps have all three.
\<close>

record WorkflowStep =
  ws_id :: string
  ws_capability :: string
  ws_dependsOn :: "string list"
  ws_execution :: "ExecutionContract option"
  ws_capabilities :: "CapabilityManifest option"
  ws_verification :: "VerifierContract option"

record WorkflowDefinition =
  wd_schemaVersion :: "nat option"
  wd_workflowId :: uuid
  wd_version :: nat
  wd_name :: string
  wd_steps :: "WorkflowStep list"

definition enc_WorkflowStep :: "WorkflowStep \<Rightarrow> jsval" where
  "enc_WorkflowStep s = jobj
     [(''id'', jstr (ws_id s)), (''capability'', jstr (ws_capability s)),
      (''dependsOn'', jstrs (ws_dependsOn s)),
      (''execution'', map_option enc_ExecutionContract (ws_execution s)),
      (''capabilities'', map_option enc_CapabilityManifest (ws_capabilities s)),
      (''verification'', map_option enc_VerifierContract (ws_verification s))]"

definition enc_WorkflowDefinition :: "WorkflowDefinition \<Rightarrow> jsval" where
  "enc_WorkflowDefinition w = jobj
     [(''workflowId'', jstr (wd_workflowId w)), (''version'', jnum (wd_version w)),
      (''name'', jstr (wd_name w)), (''schemaVersion'', map_option jnat (wd_schemaVersion w)),
      (''steps'', Some (JArray (map enc_WorkflowStep (wd_steps w))))]"

section \<open>Job policy\<close>

record JobPolicy =
  jp_maxAttempts :: nat
  jp_attemptTimeoutMs :: nat
  jp_retryDelaysMs :: "nat list"

text \<open>What \<open>JobPolicySchema\<close> admits.\<close>

definition job_policy_valid :: "JobPolicy \<Rightarrow> bool" where
  "job_policy_valid p \<longleftrightarrow>
     1 \<le> jp_maxAttempts p \<and> jp_maxAttempts p \<le> 10 \<and>
     1000 \<le> jp_attemptTimeoutMs p \<and> jp_attemptTimeoutMs p \<le> 86400000 \<and>
     list_all (\<lambda>d. d \<le> 86400000) (jp_retryDelaysMs p) \<and> length (jp_retryDelaysMs p) \<le> 9 \<and>
     Suc (length (jp_retryDelaysMs p)) = jp_maxAttempts p"

section \<open>Actors, source revisions, verification results\<close>

datatype ActorKind = Operator | System

record Actor =
  actor_kind :: ActorKind
  actor_id :: string

datatype ObjectFormat = Sha1 | Sha256

fun enc_ObjectFormat :: "ObjectFormat \<Rightarrow> jsval" where
  "enc_ObjectFormat Sha1 = JString ''sha1''"
| "enc_ObjectFormat Sha256 = JString ''sha256''"

record SourceRevision =
  sr_revisionId :: uuid
  sr_repositoryId :: uuid
  sr_objectFormat :: ObjectFormat
  sr_commitOid :: string
  sr_treeOid :: string
  sr_storageRef :: string
  sr_revisionDigest :: digest

datatype VerificationOutcome = VO_passed | VO_failed | VO_invalid

fun text_VerificationOutcome :: "VerificationOutcome \<Rightarrow> string" where
  "text_VerificationOutcome VO_passed = ''passed''"
| "text_VerificationOutcome VO_failed = ''failed''"
| "text_VerificationOutcome VO_invalid = ''invalid''"

record VerificationResult =
  vr_outcome :: VerificationOutcome
  vr_exitCode :: "nat option"
  vr_failureReason :: "string option"
  vr_environmentDigest :: digest
  vr_sourceStatusBeforeDigest :: digest
  vr_sourceStatusAfterDigest :: digest
  vr_contractDigestBefore :: digest
  vr_contractDigestAfter :: digest
  vr_artifactManifestDigest :: digest

section \<open>Timestamps as text\<close>

text \<open>
  \<open>Date.prototype.toISOString\<close>: the proleptic Gregorian date of a number of milliseconds,
  in UTC, with a fixed-width rendering (a signed six-digit year outside 0 to 9999).
\<close>

definition pad :: "nat \<Rightarrow> nat \<Rightarrow> string" where
  "pad w n = (let s = string_of_nat n in replicate (w - length s) CHR ''0'' @ s)"

definition civil_from_days :: "int \<Rightarrow> int \<times> nat \<times> nat" where
  "civil_from_days days =
     (let z = days + 719468;
          era = z div 146097;
          doe = z mod 146097;
          yoe = (doe - doe div 1460 + doe div 36524 - doe div 146096) div 365;
          doy = doe - (365 * yoe + yoe div 4 - yoe div 100);
          mp = (5 * doy + 2) div 153;
          d = doy - (153 * mp + 2) div 5 + 1;
          m = (if mp < 10 then mp + 3 else mp - 9)
      in (yoe + era * 400 + (if m \<le> 2 then 1 else 0), nat m, nat d))"

definition year_text :: "int \<Rightarrow> string" where
  "year_text y =
     (if 0 \<le> y \<and> y \<le> 9999 then pad 4 (nat y)
      else (if y < 0 then CHR ''-'' else CHR ''+'') # pad 6 (nat \<bar>y\<bar>))"

definition toISOString :: "timestamp \<Rightarrow> string" where
  "toISOString ms =
     (let (y, m, d) = civil_from_days (ms div 86400000);
          t = nat (ms mod 86400000)
      in year_text y @ ''-'' @ pad 2 m @ ''-'' @ pad 2 d @ ''T'' @
         pad 2 (t div 3600000) @ '':'' @ pad 2 (t div 60000 mod 60) @ '':'' @
         pad 2 (t div 1000 mod 60) @ ''.'' @ pad 3 (t mod 1000) @ ''Z'')"

definition jtime :: "timestamp \<Rightarrow> jsval option" where
  "jtime t = jstr (toISOString t)"

section \<open>Context packets\<close>

record ImmutableReference =
  ref_kind :: string
  ref_id :: uuid
  ref_digest :: digest

definition enc_Reference :: "ImmutableReference \<Rightarrow> jsval" where
  "enc_Reference r = jobj
     [(''kind'', jstr (ref_kind r)), (''id'', jstr (ref_id r)), (''digest'', jstr (ref_digest r))]"

datatype RecordScope = ScopeProgram | ScopeMilestones "uuid list"

fun enc_RecordScope :: "RecordScope \<Rightarrow> jsval" where
  "enc_RecordScope ScopeProgram = jobj [(''kind'', jstr ''program'')]"
| "enc_RecordScope (ScopeMilestones ids) =
     jobj [(''kind'', jstr ''milestones''), (''milestoneIds'', jstrs ids)]"

record ScopedRecord =
  scr_entryId :: uuid
  scr_scope :: RecordScope
  scr_text :: string
  scr_refs :: "ImmutableReference list"

definition enc_ScopedRecord :: "ScopedRecord \<Rightarrow> jsval" where
  "enc_ScopedRecord r = jobj
     [(''entryId'', jstr (scr_entryId r)), (''scope'', Some (enc_RecordScope (scr_scope r))),
      (''text'', jstr (scr_text r)), (''refs'', Some (JArray (map enc_Reference (scr_refs r))))]"

record ContextPacket =
  cp_contextPacketId :: uuid
  cp_programId :: uuid
  cp_milestoneId :: uuid
  cp_generationId :: uuid
  cp_generation :: nat
  cp_intentPlaybackRef :: ImmutableReference
  cp_graphRevisionRef :: ImmutableReference
  cp_milestoneContractRef :: ImmutableReference
  cp_sourceRevisionRef :: ImmutableReference
  cp_dependencyOutcomeRefs :: "ImmutableReference list"
  cp_dependencyVerificationRefs :: "ImmutableReference list"
  cp_decisions :: "ScopedRecord list"
  cp_assumptions :: "ScopedRecord list"
  cp_risks :: "ScopedRecord list"
  cp_unresolvedQuestions :: "ScopedRecord list"
  cp_refs :: "ImmutableReference list"
  cp_allowedWorkSurfaces :: "string list"
  cp_compiledAt :: timestamp

definition enc_ContextPacket :: "ContextPacket \<Rightarrow> jsval" where
  "enc_ContextPacket p =
     (let refs = (\<lambda>rs. Some (JArray (map enc_Reference rs)));
          recs = (\<lambda>rs. Some (JArray (map enc_ScopedRecord rs)))
      in jobj
     [(''schemaVersion'', jnum 1), (''contextPacketId'', jstr (cp_contextPacketId p)),
      (''programId'', jstr (cp_programId p)), (''milestoneId'', jstr (cp_milestoneId p)),
      (''generationId'', jstr (cp_generationId p)), (''generation'', jnum (cp_generation p)),
      (''intentPlaybackRef'', Some (enc_Reference (cp_intentPlaybackRef p))),
      (''graphRevisionRef'', Some (enc_Reference (cp_graphRevisionRef p))),
      (''milestoneContractRef'', Some (enc_Reference (cp_milestoneContractRef p))),
      (''sourceRevisionRef'', Some (enc_Reference (cp_sourceRevisionRef p))),
      (''dependencyOutcomeRefs'', refs (cp_dependencyOutcomeRefs p)),
      (''dependencyVerificationRefs'', refs (cp_dependencyVerificationRefs p)),
      (''decisions'', recs (cp_decisions p)), (''assumptions'', recs (cp_assumptions p)),
      (''risks'', recs (cp_risks p)), (''unresolvedQuestions'', recs (cp_unresolvedQuestions p)),
      (''refs'', refs (cp_refs p)), (''allowedWorkSurfaces'', jstrs (cp_allowedWorkSurfaces p)),
      (''compiledAt'', jtime (cp_compiledAt p))])"

end
