(* ===== verification/State.thy ===== *)
theory State
  imports Schema
begin

text \<open>
  The projection state of the run lifecycle (packages/kernel/src/schema.ts and model.ts):
  the records of programs, workflows, runs, jobs, attempts, outbox messages and evidence, the
  events of their streams and the commands that are decided over them.
\<close>

section \<open>Statuses\<close>

datatype RunStatus = R_created | R_scheduled | R_running | R_succeeded | R_failed | R_cancelled

datatype JobStatus =
  J_blocked | J_ready | J_active | J_retry_wait | J_succeeded | J_failed | J_cancelled

datatype AttemptStatus =
    A_allocated | A_starting | A_running | A_verifying
  | A_succeeded | A_failed | A_timed_out | A_cancelled | A_approval_required

datatype OutboxStatus = O_pending | O_leased | O_delivered | O_obsolete | O_dead_letter

datatype VerificationStatus = V_requested | V_passed | V_failed | V_invalid | V_cancelled

datatype TerminationReason =
    TR_completed | TR_driver_error | TR_timed_out | TR_operator_cancelled | TR_run_failed
  | TR_verification_failed | TR_verification_invalid | TR_approval_required
  | TR_protocol_invalid | TR_capability_violation

fun text_TerminationReason :: "TerminationReason \<Rightarrow> string" where
  "text_TerminationReason TR_completed = ''completed''"
| "text_TerminationReason TR_driver_error = ''driver_error''"
| "text_TerminationReason TR_timed_out = ''timed_out''"
| "text_TerminationReason TR_operator_cancelled = ''operator_cancelled''"
| "text_TerminationReason TR_run_failed = ''run_failed''"
| "text_TerminationReason TR_verification_failed = ''verification_failed''"
| "text_TerminationReason TR_verification_invalid = ''verification_invalid''"
| "text_TerminationReason TR_approval_required = ''approval_required''"
| "text_TerminationReason TR_protocol_invalid = ''protocol_invalid''"
| "text_TerminationReason TR_capability_violation = ''capability_violation''"

definition terminal_run :: "RunStatus \<Rightarrow> bool" where
  "terminal_run st \<longleftrightarrow> st \<in> {R_succeeded, R_failed, R_cancelled}"

definition terminal_job :: "JobStatus \<Rightarrow> bool" where
  "terminal_job st \<longleftrightarrow> st \<in> {J_succeeded, J_failed, J_cancelled}"

definition terminal_attempt :: "AttemptStatus \<Rightarrow> bool" where
  "terminal_attempt st \<longleftrightarrow> st \<in> {A_succeeded, A_failed, A_timed_out, A_cancelled}"

section \<open>Entities\<close>

record ProgramState =
  prog_programId :: uuid
  prog_name :: string
  prog_programMode :: string
  prog_phase :: string
  prog_createdAt :: timestamp
  prog_version :: nat

record WorkflowState =
  wf_workflowId :: uuid
  wf_version :: nat
  wf_name :: string
  wf_definition :: WorkflowDefinition
  wf_definitionDigest :: digest
  wf_registeredAt :: timestamp
  wf_streamVersion :: nat

record RunState =
  run_runId :: uuid
  run_programId :: uuid
  run_workflowId :: uuid
  run_workflowVersion :: nat
  run_milestoneId :: "uuid option"
  run_generationId :: "uuid option"
  run_generation :: "nat option"
  run_status :: RunStatus
  run_createdAt :: timestamp
  run_scheduledAt :: "timestamp option"
  run_startedAt :: "timestamp option"
  run_completedAt :: "timestamp option"
  run_cancelledAt :: "timestamp option"
  run_cancellationReason :: "string option"
  run_failureReason :: "string option"
  run_version :: nat

record AttemptState =
  att_attemptId :: uuid
  att_runId :: uuid
  att_jobId :: "uuid option"
  att_ordinal :: nat
  att_status :: AttemptStatus
  att_allocatedAt :: timestamp
  att_startedAt :: "timestamp option"
  att_deadlineAt :: "timestamp option"
  att_externalRunId :: "string option"
  att_driverCursor :: nat
  att_cumulativeUsage :: "DriverUsage option"
  att_candidateRevisionId :: "uuid option"
  att_driverReceiptId :: "uuid option"
  att_finishedAt :: "timestamp option"
  att_cancelledAt :: "timestamp option"
  att_cancellationReason :: "string option"
  att_terminationReason :: "TerminationReason option"
  att_version :: nat

record JobState =
  job_jobId :: uuid
  job_runId :: uuid
  job_stepId :: string
  job_capability :: string
  job_dependencyJobIds :: "uuid list"
  job_status :: JobStatus
  job_policy :: JobPolicy
  job_sourceRevisionId :: "uuid option"
  job_executionContract :: "ExecutionContract option"
  job_executionContractDigest :: "digest option"
  job_capabilityManifest :: "CapabilityManifest option"
  job_capabilityManifestDigest :: "digest option"
  job_contextPacketId :: "uuid option"
  job_contextPacketDigest :: "digest option"
  job_verifierContract :: "VerifierContract option"
  job_verifierContractDigest :: "digest option"
  job_candidateRevisionId :: "uuid option"
  job_attemptCount :: nat
  job_activeAttemptId :: "uuid option"
  job_availableAt :: timestamp
  job_leaseOwnerId :: "uuid option"
  job_leaseFencingToken :: nat
  job_leaseAcquiredAt :: "timestamp option"
  job_leaseExpiresAt :: "timestamp option"
  job_createdAt :: timestamp
  job_completedAt :: "timestamp option"
  job_failureReason :: "string option"
  job_version :: nat

section \<open>Outbox effects\<close>

datatype CancelReason = CR_operator_cancelled | CR_timed_out | CR_approval_required

record AgentStart =
  as_driver :: string
  as_capability :: string
  as_attemptId :: uuid
  as_attemptStartedAt :: "timestamp option"
  as_jobId :: uuid
  as_runId :: uuid
  as_baseRevisionId :: "uuid option"
  as_executionContract :: "ExecutionContract option"
  as_executionContractDigest :: "digest option"
  as_capabilityManifest :: "CapabilityManifest option"
  as_capabilityManifestDigest :: "digest option"
  as_contextPacket :: "ContextPacket option"
  as_contextPacketDigest :: "digest option"

record VerificationRun =
  vn_verificationId :: uuid
  vn_sourceRevisionId :: uuid
  vn_workflowId :: uuid
  vn_workflowVersion :: nat
  vn_workflowDigest :: digest
  vn_verifierContract :: VerifierContract
  vn_verifierContractDigest :: digest
  vn_attemptId :: uuid
  vn_jobId :: uuid
  vn_runId :: uuid

datatype OutboxEffect =
    EffectAgentStart AgentStart
  | EffectAgentCancel string CancelReason uuid uuid uuid
      \<comment> \<open>externalRunId, reason, attemptId, jobId, runId\<close>
  | EffectVerificationRun VerificationRun

fun is_agent_cancel :: "OutboxEffect \<Rightarrow> bool" where
  "is_agent_cancel (EffectAgentCancel _ _ _ _ _) = True"
| "is_agent_cancel _ = False"

fun is_agent_start :: "OutboxEffect \<Rightarrow> bool" where
  "is_agent_start (EffectAgentStart _) = True"
| "is_agent_start _ = False"

fun runs_verification :: "OutboxEffect \<Rightarrow> uuid \<Rightarrow> bool" where
  "runs_verification (EffectVerificationRun v) vid = (vn_verificationId v = vid)"
| "runs_verification _ vid = False"

record OutboxState =
  out_outboxId :: uuid
  out_runId :: uuid
  out_jobId :: uuid
  out_attemptId :: uuid
  out_effectKey :: uuid
  out_effect :: OutboxEffect
  out_status :: OutboxStatus
  out_deliveryAttempts :: nat
  out_retryDelaysMs :: "nat list"
  out_availableAt :: timestamp
  out_leaseOwnerId :: "uuid option"
  out_leaseFencingToken :: nat
  out_leaseAcquiredAt :: "timestamp option"
  out_leaseExpiresAt :: "timestamp option"
  out_externalEffectId :: "string option"
  out_createdAt :: timestamp
  out_deliveredAt :: "timestamp option"
  out_lastError :: "string option"
  out_version :: nat

section \<open>Evidence\<close>

record SourceRevisionState =
  srs_revision :: SourceRevision
  srs_capturedAt :: timestamp
  srs_version :: nat

datatype Producer = P_agent | P_verifier

record ArtifactManifest =
  am_artifactManifestId :: uuid
  am_runId :: uuid
  am_jobId :: uuid
  am_attemptId :: uuid
  am_sourceRevisionId :: uuid
  am_producer :: Producer
  am_entries :: "ArtifactEntry list"
  am_manifestDigest :: digest
  am_totalBytes :: nat

record ArtifactManifestState =
  ams_manifest :: ArtifactManifest
  ams_createdAt :: timestamp
  ams_version :: nat

record VerificationRequest =
  vq_verificationId :: uuid
  vq_runId :: uuid
  vq_jobId :: uuid
  vq_attemptId :: uuid
  vq_workflowId :: uuid
  vq_workflowVersion :: nat
  vq_workflowDigest :: digest
  vq_sourceRevisionId :: uuid
  vq_verifierContractDigest :: digest

record VerificationState =
  ver_request :: VerificationRequest
  ver_artifactManifestId :: "uuid option"
  ver_status :: VerificationStatus
  ver_result :: "VerificationResult option"
  ver_resultDigest :: "digest option"
  ver_receiptDigest :: "digest option"
  ver_exitCode :: "nat option"
  ver_failureReason :: "string option"
  ver_requestedAt :: timestamp
  ver_completedAt :: "timestamp option"
  ver_version :: nat

abbreviation ver_verificationId :: "VerificationState \<Rightarrow> uuid" where
  "ver_verificationId v \<equiv> vq_verificationId (ver_request v)"

abbreviation ver_attemptId :: "VerificationState \<Rightarrow> uuid" where
  "ver_attemptId v \<equiv> vq_attemptId (ver_request v)"

abbreviation ver_jobId :: "VerificationState \<Rightarrow> uuid" where
  "ver_jobId v \<equiv> vq_jobId (ver_request v)"

record DriverReceiptRecord =
  drr_driverReceiptId :: uuid
  drr_runId :: uuid
  drr_jobId :: uuid
  drr_attemptId :: uuid
  drr_baseRevisionId :: uuid
  drr_candidateRevisionId :: "uuid option"
  drr_receipt :: DriverReceipt
  drr_receiptDigest :: digest
  drr_outcome :: DriverOutcome
  drr_terminalReason :: string

record DriverReceiptState =
  drs_record :: DriverReceiptRecord
  drs_recordedAt :: timestamp
  drs_version :: nat

record ApprovalRequest =
  apr_approvalRequestId :: uuid
  apr_runId :: uuid
  apr_jobId :: uuid
  apr_attemptId :: uuid
  apr_capability :: string
  apr_reason :: string
  apr_sequence :: nat

record ApprovalRequestState =
  ars_request :: ApprovalRequest
  ars_requestedAt :: timestamp
  ars_version :: nat

record ContextPacketState =
  cps_packet :: ContextPacket
  cps_packetDigest :: digest
  cps_version :: nat

section \<open>The projection state\<close>

record ProjectionState =
  programs :: "(uuid, ProgramState) jsmap"
  workflows :: "(string, WorkflowState) jsmap"
  runs :: "(uuid, RunState) jsmap"
  attempts :: "(uuid, AttemptState) jsmap"
  jobs :: "(uuid, JobState) jsmap"
  outbox :: "(uuid, OutboxState) jsmap"
  sourceRevisions :: "(uuid, SourceRevisionState) jsmap"
  artifactManifests :: "(uuid, ArtifactManifestState) jsmap"
  verifications :: "(uuid, VerificationState) jsmap"
  driverReceipts :: "(uuid, DriverReceiptState) jsmap"
  approvalRequests :: "(uuid, ApprovalRequestState) jsmap"
  contextPackets :: "(uuid, ContextPacketState) jsmap"
  lastAppliedPosition :: nat

definition emptyProjectionState :: ProjectionState where
  "emptyProjectionState =
     \<lparr>programs = [], workflows = [], runs = [], attempts = [], jobs = [], outbox = [],
      sourceRevisions = [], artifactManifests = [], verifications = [], driverReceipts = [],
      approvalRequests = [], contextPackets = [], lastAppliedPosition = 0\<rparr>"

definition workflowKey :: "uuid \<Rightarrow> nat \<Rightarrow> string" where
  "workflowKey wid version = wid @ '':'' @ string_of_nat version"

section \<open>Events\<close>

datatype StreamType =
    ST_program | ST_workflow | ST_run | ST_attempt | ST_job | ST_outbox | ST_source_revision
  | ST_artifact_manifest | ST_verification | ST_driver_receipt | ST_approval_request
  | ST_context_packet

primrec text_StreamType :: "StreamType \<Rightarrow> string" where
  "text_StreamType ST_program = ''program''"
| "text_StreamType ST_workflow = ''workflow''"
| "text_StreamType ST_run = ''run''"
| "text_StreamType ST_attempt = ''attempt''"
| "text_StreamType ST_job = ''job''"
| "text_StreamType ST_outbox = ''outbox''"
| "text_StreamType ST_source_revision = ''source_revision''"
| "text_StreamType ST_artifact_manifest = ''artifact_manifest''"
| "text_StreamType ST_verification = ''verification''"
| "text_StreamType ST_driver_receipt = ''driver_receipt''"
| "text_StreamType ST_approval_request = ''approval_request''"
| "text_StreamType ST_context_packet = ''context_packet''"

record JobScheduledData =
  js_jobId :: uuid
  js_runId :: uuid
  js_stepId :: string
  js_capability :: string
  js_dependencyJobIds :: "uuid list"
  js_initialStatus :: JobStatus
  js_policy :: JobPolicy
  js_sourceRevisionId :: "uuid option"
  js_executionContract :: "ExecutionContract option"
  js_executionContractDigest :: "digest option"
  js_capabilityManifest :: "CapabilityManifest option"
  js_capabilityManifestDigest :: "digest option"
  js_contextPacketId :: "uuid option"
  js_contextPacketDigest :: "digest option"
  js_verifierContract :: "VerifierContract option"
  js_verifierContractDigest :: "digest option"

record AttemptFinishedData =
  af_attemptId :: uuid
  af_jobId :: uuid
  af_runId :: uuid
  af_status :: AttemptStatus
  af_terminationReason :: TerminationReason
  af_detail :: "string option"

record OutboxEnqueuedData =
  oe_outboxId :: uuid
  oe_runId :: uuid
  oe_jobId :: uuid
  oe_attemptId :: uuid
  oe_effectKey :: uuid
  oe_effect :: OutboxEffect
  oe_retryDelaysMs :: "nat list"

record DriverEventsObservedData =
  deo_attemptId :: uuid
  deo_jobId :: uuid
  deo_runId :: uuid
  deo_afterSequence :: nat
  deo_cursor :: nat
  deo_events :: "DriverProtocolEvent list"
  deo_cumulativeUsage :: DriverUsage

record VerificationReceiptData =
  vrd_verificationId :: uuid
  vrd_runId :: uuid
  vrd_jobId :: uuid
  vrd_attemptId :: uuid
  vrd_artifactManifestId :: uuid
  vrd_status :: VerificationOutcome
  vrd_result :: VerificationResult
  vrd_resultDigest :: digest
  vrd_receiptDigest :: digest
  vrd_exitCode :: "nat option"
  vrd_failureReason :: "string option"

datatype EventData =
    SourceRevisionRegistered SourceRevision
  | ProgramCreated uuid string
  | WorkflowDefinitionRegistered WorkflowDefinition digest
  | ContextPacketCompiled ContextPacket digest
  | RunCreated uuid uuid uuid nat  \<comment> \<open>run, program, workflow, workflow version\<close>
  | RunScheduled uuid
  | RunStarted uuid
  | RunSucceeded uuid
  | RunFailed uuid string
  | RunCancelled uuid string
  | AttemptAllocated uuid uuid nat  \<comment> \<open>attempt, run, ordinal\<close>
  | AttemptCancelled uuid uuid string  \<comment> \<open>attempt, run, reason\<close>
  | JobScheduled JobScheduledData
  | JobUnblocked uuid uuid
  | JobLeaseAcquired uuid uuid uuid nat timestamp bool
      \<comment> \<open>job, run, owner, fencing token, expiry, resumed\<close>
  | JobLeaseRenewed uuid uuid uuid nat timestamp
  | JobLeaseReleased uuid uuid uuid nat
  | JobRetryScheduled uuid uuid timestamp TerminationReason
  | JobSucceeded uuid uuid
  | JobFailed uuid uuid string
  | JobCancelled uuid uuid TerminationReason
  | AttemptStarted uuid uuid uuid nat timestamp  \<comment> \<open>attempt, job, run, ordinal, deadline\<close>
  | AttemptRunning uuid uuid uuid string  \<comment> \<open>attempt, job, run, external run\<close>
  | DriverEventsObserved DriverEventsObservedData
  | AttemptVerificationRequested uuid uuid uuid uuid  \<comment> \<open>attempt, job, run, verification\<close>
  | AttemptFinished AttemptFinishedData
  | OutboxEnqueued OutboxEnqueuedData
  | OutboxLeaseAcquired uuid uuid uuid nat timestamp nat
      \<comment> \<open>outbox, run, owner, fencing token, expiry, delivery attempt\<close>
  | OutboxDeliveryFailed uuid uuid "timestamp option" bool string
      \<comment> \<open>outbox, run, available at, dead letter, error\<close>
  | OutboxDelivered uuid uuid string
  | OutboxObsoleted uuid uuid string
  | ArtifactManifestRecorded ArtifactManifest
  | DriverReceiptRecorded DriverReceiptRecord
  | ApprovalRequestRecorded ApprovalRequest
  | VerificationRequested VerificationRequest
  | VerificationReceiptRecorded VerificationReceiptData
  | VerificationCancelled uuid uuid string

record DomainEventInput =
  ev_streamType :: StreamType
  ev_streamId :: string
  ev_data :: EventData

definition event :: "StreamType \<Rightarrow> string \<Rightarrow> EventData \<Rightarrow> DomainEventInput" where
  "event ty i d = \<lparr>ev_streamType = ty, ev_streamId = i, ev_data = d\<rparr>"

record StoredEvent = DomainEventInput +
  se_eventId :: uuid
  se_commandId :: uuid
  se_globalPosition :: nat
  se_streamVersion :: nat
  se_occurredAt :: timestamp
  se_actor :: Actor
  se_correlationId :: "uuid option"

section \<open>Commands\<close>

record RunScheduleJob =
  rsj_jobId :: uuid
  rsj_stepId :: string
  rsj_sourceRevisionId :: "uuid option"
  rsj_policy :: JobPolicy

record JobLeaseAcquirePayload =
  jla_jobId :: uuid
  jla_ownerId :: uuid
  jla_leaseDurationMs :: nat
  jla_attemptId :: uuid
  jla_startOutboxId :: uuid

record AttemptObservePayload =
  ao_jobId :: uuid
  ao_attemptId :: uuid
  ao_ownerId :: uuid
  ao_fencingToken :: nat
  ao_succeeded :: bool
  ao_detail :: "string option"
  ao_verificationId :: "uuid option"
  ao_verificationOutboxId :: "uuid option"

record DriverEventsPayload =
  dep_jobId :: uuid
  dep_attemptId :: uuid
  dep_ownerId :: uuid
  dep_fencingToken :: nat
  dep_afterSequence :: nat
  dep_events :: "DriverProtocolEvent list"

record DriverReceiptPayload =
  drp_driverReceiptId :: uuid
  drp_artifactManifestId :: uuid
  drp_verificationId :: "uuid option"
  drp_verificationOutboxId :: "uuid option"
  drp_jobId :: uuid
  drp_attemptId :: uuid
  drp_ownerId :: uuid
  drp_fencingToken :: nat
  drp_receipt :: DriverReceipt
  drp_candidateRevision :: "SourceRevision option"
  drp_entries :: "ArtifactEntry list"

record TerminalReceiptPayload =
  trp_driverReceiptId :: uuid
  trp_artifactManifestId :: uuid
  trp_outboxId :: uuid
  trp_jobId :: uuid
  trp_attemptId :: uuid
  trp_ownerId :: uuid
  trp_outboxFencingToken :: nat
  trp_afterSequence :: nat
  trp_events :: "DriverProtocolEvent list"
  trp_receipt :: DriverReceipt
  trp_entries :: "ArtifactEntry list"

record VerificationCompletePayload =
  vcp_verificationId :: uuid
  vcp_outboxId :: uuid
  vcp_artifactManifestId :: uuid
  vcp_jobId :: uuid
  vcp_attemptId :: uuid
  vcp_ownerId :: uuid
  vcp_jobFencingToken :: nat
  vcp_outboxFencingToken :: nat
  vcp_result :: VerificationResult
  vcp_resultDigest :: digest
  vcp_receiptDigest :: digest
  vcp_entries :: "ArtifactEntry list"

record VerificationFailPayload =
  vfp_verificationId :: uuid
  vfp_outboxId :: uuid
  vfp_jobId :: uuid
  vfp_attemptId :: uuid
  vfp_ownerId :: uuid
  vfp_jobFencingToken :: nat
  vfp_outboxFencingToken :: nat
  vfp_detail :: string

datatype CommandBody =
    Cmd_source_revision_register SourceRevision
  | Cmd_program_create uuid string
  | Cmd_workflow_register WorkflowDefinition
  | Cmd_run_create uuid uuid uuid nat
  | Cmd_run_schedule uuid "RunScheduleJob list"
  | Cmd_attempt_allocate
  | Cmd_attempt_cancel
  | Cmd_run_cancel uuid string
  | Cmd_job_lease_acquire JobLeaseAcquirePayload
  | Cmd_job_lease_renew uuid uuid nat nat  \<comment> \<open>job, owner, fencing token, duration\<close>
  | Cmd_job_lease_release uuid uuid nat
  | Cmd_attempt_driver_events_observe DriverEventsPayload
  | Cmd_driver_receipt_record DriverReceiptPayload
  | Cmd_driver_terminal_receipt_record TerminalReceiptPayload
  | Cmd_attempt_observe AttemptObservePayload
  | Cmd_attempt_timeout uuid uuid uuid nat  \<comment> \<open>job, attempt, owner, fencing token\<close>
  | Cmd_verification_complete VerificationCompletePayload
  | Cmd_verification_execution_fail VerificationFailPayload
  | Cmd_outbox_lease_acquire uuid uuid nat  \<comment> \<open>outbox, owner, duration\<close>
  | Cmd_outbox_delivery_succeed uuid uuid nat string  \<comment> \<open>outbox, owner, token, external effect\<close>
  | Cmd_outbox_delivery_fail uuid uuid nat string  \<comment> \<open>outbox, owner, token, error\<close>

record Command =
  cmd_idempotencyKey :: string
  cmd_actor :: Actor
  cmd_correlationId :: "uuid option"
  cmd_body :: CommandBody

end
