(* ===== verification/Evidence.thy ===== *)
theory Evidence
  imports State
begin

text \<open>
  Evidence digests (packages/kernel/src/evidence.ts). Every function takes the hash \<open>sha\<close>.
\<close>

definition sourceRevisionDigest :: "(string \<Rightarrow> string) \<Rightarrow> SourceRevision \<Rightarrow> digest" where
  "sourceRevisionDigest sha r = digest_of sha (jobj
     [(''schemaVersion'', jnum 1), (''repositoryId'', jstr (sr_repositoryId r)),
      (''objectFormat'', Some (enc_ObjectFormat (sr_objectFormat r))),
      (''commitOid'', jstr (sr_commitOid r)), (''treeOid'', jstr (sr_treeOid r))])"

definition canonicalArtifactEntries :: "ArtifactEntry list \<Rightarrow> ArtifactEntry list" where
  "canonicalArtifactEntries es = sort_key art_path es"

definition enc_entries :: "ArtifactEntry list \<Rightarrow> jsval" where
  "enc_entries es = JArray (map enc_ArtifactEntry es)"

definition artifactManifestDigest :: "(string \<Rightarrow> string) \<Rightarrow> ArtifactEntry list \<Rightarrow> digest" where
  "artifactManifestDigest sha es = digest_of sha (jobj
     [(''schemaVersion'', jnum 1), (''entries'', Some (enc_entries (canonicalArtifactEntries es)))])"

definition driverReceiptDigest :: "(string \<Rightarrow> string) \<Rightarrow> DriverReceipt \<Rightarrow> digest" where
  "driverReceiptDigest sha r = digest_of sha (jobj (enc_receipt_content r))"

definition verificationResultDigest :: "(string \<Rightarrow> string) \<Rightarrow> VerificationResult \<Rightarrow> digest" where
  "verificationResultDigest sha r = digest_of sha (jobj
     [(''schemaVersion'', jnum 1), (''outcome'', jstr (text_VerificationOutcome (vr_outcome r))),
      (''exitCode'', jnullable jnat (vr_exitCode r)),
      (''failureReason'', jnullable JString (vr_failureReason r)),
      (''environmentDigest'', jstr (vr_environmentDigest r)),
      (''sourceStatusBeforeDigest'', jstr (vr_sourceStatusBeforeDigest r)),
      (''sourceStatusAfterDigest'', jstr (vr_sourceStatusAfterDigest r)),
      (''contractDigestBefore'', jstr (vr_contractDigestBefore r)),
      (''contractDigestAfter'', jstr (vr_contractDigestAfter r)),
      (''artifactManifestDigest'', jstr (vr_artifactManifestDigest r))])"

record VerificationReceiptIdentity =
  vi_request :: VerificationRequest
  vi_artifactManifestId :: uuid
  vi_artifactManifestDigest :: digest
  vi_resultDigest :: digest

definition receiptIdentity ::
    "VerificationState \<Rightarrow> uuid \<Rightarrow> digest \<Rightarrow> digest \<Rightarrow> VerificationReceiptIdentity" where
  "receiptIdentity v artifactManifestId artifactDigest resultDigest =
     \<lparr>vi_request = ver_request v, vi_artifactManifestId = artifactManifestId,
      vi_artifactManifestDigest = artifactDigest, vi_resultDigest = resultDigest\<rparr>"

definition verificationReceiptDigest :: "(string \<Rightarrow> string) \<Rightarrow> VerificationReceiptIdentity \<Rightarrow> digest" where
  "verificationReceiptDigest sha i =
     (let q = vi_request i in digest_of sha (jobj
     [(''schemaVersion'', jnum 1), (''verificationId'', jstr (vq_verificationId q)),
      (''runId'', jstr (vq_runId q)), (''jobId'', jstr (vq_jobId q)),
      (''attemptId'', jstr (vq_attemptId q)), (''workflowId'', jstr (vq_workflowId q)),
      (''workflowVersion'', jnum (vq_workflowVersion q)),
      (''workflowDigest'', jstr (vq_workflowDigest q)),
      (''sourceRevisionId'', jstr (vq_sourceRevisionId q)),
      (''verifierContractDigest'', jstr (vq_verifierContractDigest q)),
      (''artifactManifestId'', jstr (vi_artifactManifestId i)),
      (''artifactManifestDigest'', jstr (vi_artifactManifestDigest i)),
      (''resultDigest'', jstr (vi_resultDigest i))]))"

section \<open>Facts\<close>

text \<open>The manifest digest does not depend on the order of entries with distinct paths.\<close>

lemma canonicalArtifactEntries_perm:
  assumes "mset es = mset fs" and "distinct (map art_path es)"
  shows "canonicalArtifactEntries es = canonicalArtifactEntries fs"
  unfolding canonicalArtifactEntries_def
  using assms by (intro sort_key_inj_key_eq) (auto simp: distinct_map)

lemma canonicalArtifactEntries_idem [simp]:
  "canonicalArtifactEntries (canonicalArtifactEntries es) = canonicalArtifactEntries es"
  by (simp add: canonicalArtifactEntries_def sort_key_id_if_sorted)

lemma artifactManifestDigest_canonical [simp]:
  "artifactManifestDigest sha (canonicalArtifactEntries es) = artifactManifestDigest sha es"
  by (simp add: artifactManifestDigest_def)

lemma mset_canonicalArtifactEntries [simp]: "mset (canonicalArtifactEntries es) = mset es"
  by (simp add: canonicalArtifactEntries_def)

end
