(* ===== verification/PortfolioTypes.thy ===== *)
theory PortfolioTypes
  imports Evidence State
begin

text \<open>
  The records of the portfolio and its integration lane (schema.ts): policies, integration
  targets, candidate diffs, integration candidates and their work, verifications, conflicts,
  promotion receipts and incidents, with the encodings their digests are taken over. The
  timestamps the kernel sets are instants, those it only carries are texts.
\<close>

section \<open>References and policies\<close>

definition reference :: "string \<Rightarrow> uuid \<Rightarrow> digest \<Rightarrow> ImmutableReference" where
  "reference k i d = \<lparr>ref_kind = k, ref_id = i, ref_digest = d\<rparr>"

definition jref :: "ImmutableReference \<Rightarrow> jsval option" where
  "jref r = Some (enc_Reference r)"

definition jlist :: "('a \<Rightarrow> jsval) \<Rightarrow> 'a list \<Rightarrow> jsval option" where
  "jlist f xs = Some (JArray (map f xs))"

definition jbool :: "bool \<Rightarrow> jsval option" where
  "jbool b = Some (JBool b)"

record PortfolioResource =
  res_resourceId :: string
  res_kind :: string

record PortfolioLimits =
  lim_maxExecutingPrograms :: nat
  lim_maxIntegrationReadyCandidates :: nat
  lim_maxPipelineWip :: nat
  lim_maxAttemptMs :: nat
  lim_maxMergeQueueAgeMs :: nat
  lim_maxTrialWallTimeMs :: nat
  lim_maxActiveHumanTimeMs :: nat

record CapabilityCapacity =
  cc_capability :: string
  cc_capacity :: nat

datatype CostMode =
    Unpriced_local_only string \<comment> \<open>unavailableReason\<close>
  | Known_priced string string \<comment> \<open>currency, cap\<close>

fun enc_CostMode :: "CostMode \<Rightarrow> jsval" where
  "enc_CostMode (Unpriced_local_only reason) = jobj
     [(''kind'', jstr ''unpriced_local_only''), (''allowedDriver'', jstr ''generic-command''),
      (''unavailableReason'', jstr reason)]"
| "enc_CostMode (Known_priced currency cap) = jobj
     [(''kind'', jstr ''known_priced''), (''currency'', jstr currency), (''cap'', jstr cap)]"

record PortfolioPolicyInput =
  pol_policyId :: uuid
  pol_policyRevisionId :: uuid
  pol_revision :: nat
  pol_priorPolicyRef :: "ImmutableReference option"
  pol_limits :: PortfolioLimits
  pol_resources :: "PortfolioResource list"
  pol_capabilityCapacities :: "CapabilityCapacity list"
  pol_attentionPolicyRef :: ImmutableReference
  pol_costMode :: CostMode

record PortfolioPolicy = PortfolioPolicyInput +
  pol_approvedBy :: string
  pol_approvedAt :: timestamp

definition enc_PortfolioLimits :: "PortfolioLimits \<Rightarrow> jsval" where
  "enc_PortfolioLimits l = jobj
     [(''maxExecutingPrograms'', jnum (lim_maxExecutingPrograms l)),
      (''maxIntegrationReadyCandidates'', jnum (lim_maxIntegrationReadyCandidates l)),
      (''maxPipelineWip'', jnum (lim_maxPipelineWip l)), (''maxAttemptMs'', jnum (lim_maxAttemptMs l)),
      (''maxMergeQueueAgeMs'', jnum (lim_maxMergeQueueAgeMs l)),
      (''maxTrialWallTimeMs'', jnum (lim_maxTrialWallTimeMs l)),
      (''maxActiveHumanTimeMs'', jnum (lim_maxActiveHumanTimeMs l))]"

definition enc_PortfolioPolicy :: "PortfolioPolicy \<Rightarrow> jsval" where
  "enc_PortfolioPolicy p = jobj
     [(''schemaVersion'', jnum 1), (''policyId'', jstr (pol_policyId p)),
      (''policyRevisionId'', jstr (pol_policyRevisionId p)), (''revision'', jnum (pol_revision p)),
      (''priorPolicyRef'', jnullable enc_Reference (pol_priorPolicyRef p)),
      (''limits'', Some (enc_PortfolioLimits (pol_limits p))),
      (''resources'', jlist (\<lambda>r. jobj [(''resourceId'', jstr (res_resourceId r)),
         (''kind'', jstr (res_kind r)), (''capacity'', jnum 1)]) (pol_resources p)),
      (''capabilityCapacities'', jlist (\<lambda>c. jobj [(''capability'', jstr (cc_capability c)),
         (''capacity'', jnum (cc_capacity c))]) (pol_capabilityCapacities p)),
      (''attention'', Some (jobj [(''policyRef'', jref (pol_attentionPolicyRef p)),
         (''maxRoutinePagesPer24Hours'', jnum 0), (''safetyCriticalUncapped'', jbool True)])),
      (''costMode'', Some (enc_CostMode (pol_costMode p))),
      (''approvedBy'', jstr (pol_approvedBy p)), (''approvedAt'', jtime (pol_approvedAt p))]"

section \<open>Integration targets\<close>

record IntegrationTargetInput =
  tgt_targetId :: uuid
  tgt_targetRevisionId :: uuid
  tgt_revision :: nat
  tgt_priorTargetRef :: "ImmutableReference option"
  tgt_repositoryId :: uuid
  tgt_initialHeadRef :: ImmutableReference
  tgt_managedRef :: string
  tgt_verifierContract :: VerifierContract
  tgt_verifierContractDigest :: digest
  tgt_mergeLaneResourceId :: string

record IntegrationTarget = IntegrationTargetInput +
  tgt_approvedBy :: string
  tgt_approvedAt :: timestamp

definition enc_IntegrationTarget :: "IntegrationTarget \<Rightarrow> jsval" where
  "enc_IntegrationTarget t = jobj
     [(''schemaVersion'', jnum 1), (''targetId'', jstr (tgt_targetId t)),
      (''targetRevisionId'', jstr (tgt_targetRevisionId t)), (''revision'', jnum (tgt_revision t)),
      (''priorTargetRef'', jnullable enc_Reference (tgt_priorTargetRef t)),
      (''repositoryId'', jstr (tgt_repositoryId t)), (''initialHeadRef'', jref (tgt_initialHeadRef t)),
      (''managedRef'', jstr (tgt_managedRef t)),
      (''verifierContract'', Some (enc_VerifierContract (tgt_verifierContract t))),
      (''verifierContractDigest'', jstr (tgt_verifierContractDigest t)),
      (''mergeLaneResourceId'', jstr (tgt_mergeLaneResourceId t)),
      (''approvedBy'', jstr (tgt_approvedBy t)), (''approvedAt'', jtime (tgt_approvedAt t))]"

section \<open>Work surfaces and candidate diffs\<close>

datatype SurfaceKind = File | Subtree

record WorkSurface =
  sf_kind :: SurfaceKind
  sf_path :: string

fun surface_kind_text :: "SurfaceKind \<Rightarrow> string" where
  "surface_kind_text File = ''file''"
| "surface_kind_text Subtree = ''subtree''"

definition enc_WorkSurface :: "WorkSurface \<Rightarrow> jsval" where
  "enc_WorkSurface s = jobj [(''kind'', jstr (surface_kind_text (sf_kind s))), (''path'', jstr (sf_path s))]"

datatype DiffChange = Add | Modify | Delete

fun change_text :: "DiffChange \<Rightarrow> string" where
  "change_text Add = ''add''"
| "change_text Modify = ''modify''"
| "change_text Delete = ''delete''"

record CandidateDiffEntry =
  de_change :: DiffChange
  de_path :: string
  de_oldOid :: "string option"
  de_newOid :: "string option"

definition enc_CandidateDiffEntry :: "CandidateDiffEntry \<Rightarrow> jsval" where
  "enc_CandidateDiffEntry e = jobj
     [(''change'', jstr (change_text (de_change e))), (''path'', jstr (de_path e)),
      (''oldOid'', jnullable JString (de_oldOid e)), (''newOid'', jnullable JString (de_newOid e))]"

record CandidateDiffManifest =
  cdm_manifestId :: uuid
  cdm_programId :: uuid
  cdm_graphRevisionId :: uuid
  cdm_generationId :: uuid
  cdm_baseRevisionRef :: ImmutableReference
  cdm_candidateRevisionRef :: ImmutableReference
  cdm_entries :: "CandidateDiffEntry list"
  cdm_allowedSurfaces :: "WorkSurface list"
  cdm_violations :: "string list"
  cdm_eligible :: bool
  cdm_generatedAt :: string

definition enc_CandidateDiffManifest :: "CandidateDiffManifest \<Rightarrow> jsval" where
  "enc_CandidateDiffManifest m = jobj
     [(''schemaVersion'', jnum 1), (''manifestId'', jstr (cdm_manifestId m)),
      (''programId'', jstr (cdm_programId m)), (''graphRevisionId'', jstr (cdm_graphRevisionId m)),
      (''generationId'', jstr (cdm_generationId m)), (''baseRevisionRef'', jref (cdm_baseRevisionRef m)),
      (''candidateRevisionRef'', jref (cdm_candidateRevisionRef m)),
      (''entries'', jlist enc_CandidateDiffEntry (cdm_entries m)),
      (''allowedSurfaces'', jlist enc_WorkSurface (cdm_allowedSurfaces m)),
      (''violations'', jstrs (cdm_violations m)), (''eligible'', jbool (cdm_eligible m)),
      (''generatedAt'', jstr (cdm_generatedAt m))]"

section \<open>Candidates, work and evidence of integration\<close>

record IntegrationCandidate =
  ic_candidateId :: uuid
  ic_programId :: uuid
  ic_graphRevisionRef :: ImmutableReference
  ic_policyRef :: ImmutableReference
  ic_targetRef :: ImmutableReference
  ic_originalCandidateRef :: ImmutableReference
  ic_diffManifestRef :: ImmutableReference
  ic_finalAdmissionSequence :: nat
  ic_dependencyCandidateIds :: "uuid list"
  ic_actualOverlapPredecessorIds :: "uuid list"
  ic_queuedAt :: string

definition enc_IntegrationCandidate :: "IntegrationCandidate \<Rightarrow> jsval" where
  "enc_IntegrationCandidate c = jobj
     [(''schemaVersion'', jnum 1), (''candidateId'', jstr (ic_candidateId c)),
      (''programId'', jstr (ic_programId c)), (''graphRevisionRef'', jref (ic_graphRevisionRef c)),
      (''policyRef'', jref (ic_policyRef c)), (''targetRef'', jref (ic_targetRef c)),
      (''originalCandidateRef'', jref (ic_originalCandidateRef c)),
      (''diffManifestRef'', jref (ic_diffManifestRef c)),
      (''finalAdmissionSequence'', jnum (ic_finalAdmissionSequence c)),
      (''dependencyCandidateIds'', jstrs (ic_dependencyCandidateIds c)),
      (''actualOverlapPredecessorIds'', jstrs (ic_actualOverlapPredecessorIds c)),
      (''queuedAt'', jstr (ic_queuedAt c))]"

datatype VerdictResult = Verdict_passed | Verdict_failed

record IntegrationVerification =
  iv_integrationVerificationId :: uuid
  iv_candidateId :: uuid
  iv_expectedHeadRef :: ImmutableReference
  iv_rebasedCandidateRef :: ImmutableReference
  iv_verifierContractDigest :: digest
  iv_result :: VerdictResult
  iv_exitCode :: "nat option"
  iv_failureReason :: "string option"
  iv_resultDigest :: digest
  iv_receiptDigest :: digest
  iv_completedAt :: string

definition enc_IntegrationVerification :: "IntegrationVerification \<Rightarrow> jsval" where
  "enc_IntegrationVerification v = jobj
     [(''schemaVersion'', jnum 1),
      (''integrationVerificationId'', jstr (iv_integrationVerificationId v)),
      (''candidateId'', jstr (iv_candidateId v)), (''expectedHeadRef'', jref (iv_expectedHeadRef v)),
      (''rebasedCandidateRef'', jref (iv_rebasedCandidateRef v)),
      (''verifierContractDigest'', jstr (iv_verifierContractDigest v)),
      (''result'', jstr (if iv_result v = Verdict_passed then ''passed'' else ''failed'')),
      (''exitCode'', jnullable jnat (iv_exitCode v)),
      (''failureReason'', jnullable JString (iv_failureReason v)),
      (''resultDigest'', jstr (iv_resultDigest v)), (''receiptDigest'', jstr (iv_receiptDigest v)),
      (''completedAt'', jstr (iv_completedAt v))]"

datatype WorkStatus =
    W_pending | W_leased | W_prepared | W_verified | W_authorized | W_promoted | W_conflicted
  | W_failed | W_obsolete

fun work_status_text :: "WorkStatus \<Rightarrow> string" where
  "work_status_text W_pending = ''pending''"
| "work_status_text W_leased = ''leased''"
| "work_status_text W_prepared = ''prepared''"
| "work_status_text W_verified = ''verified''"
| "work_status_text W_authorized = ''authorized''"
| "work_status_text W_promoted = ''promoted''"
| "work_status_text W_conflicted = ''conflicted''"
| "work_status_text W_failed = ''failed''"
| "work_status_text W_obsolete = ''obsolete''"

text \<open>\<open>completedAt\<close> is the time a receipt states, a text; the other times are the kernel's.\<close>

record IntegrationWork =
  iw_workId :: uuid
  iw_candidateId :: uuid
  iw_status :: WorkStatus
  iw_availableAt :: timestamp
  iw_leaseOwnerId :: "uuid option"
  iw_leaseFencingToken :: nat
  iw_leaseAcquiredAt :: "timestamp option"
  iw_leaseExpiresAt :: "timestamp option"
  iw_expectedHeadRef :: "ImmutableReference option"
  iw_rebasedCandidateRef :: "ImmutableReference option"
  iw_verification :: "IntegrationVerification option"
  iw_authorizationRef :: "ImmutableReference option"
  iw_createdAt :: timestamp
  iw_completedAt :: "string option"
  iw_lastError :: "string option"

definition jtime_or_null :: "timestamp option \<Rightarrow> jsval option" where
  "jtime_or_null t = jnullable (\<lambda>t. JString (toISOString t)) t"

definition enc_IntegrationWork :: "IntegrationWork \<Rightarrow> jsval" where
  "enc_IntegrationWork w = jobj
     [(''schemaVersion'', jnum 1), (''workId'', jstr (iw_workId w)),
      (''candidateId'', jstr (iw_candidateId w)),
      (''status'', jstr (work_status_text (iw_status w))), (''availableAt'', jtime (iw_availableAt w)),
      (''leaseOwnerId'', jnullable JString (iw_leaseOwnerId w)),
      (''leaseFencingToken'', jnum (iw_leaseFencingToken w)),
      (''leaseAcquiredAt'', jtime_or_null (iw_leaseAcquiredAt w)),
      (''leaseExpiresAt'', jtime_or_null (iw_leaseExpiresAt w)),
      (''expectedHeadRef'', jnullable enc_Reference (iw_expectedHeadRef w)),
      (''rebasedCandidateRef'', jnullable enc_Reference (iw_rebasedCandidateRef w)),
      (''verification'', jnullable enc_IntegrationVerification (iw_verification w)),
      (''authorizationRef'', jnullable enc_Reference (iw_authorizationRef w)),
      (''createdAt'', jtime (iw_createdAt w)), (''completedAt'', jnullable JString (iw_completedAt w)),
      (''lastError'', jnullable JString (iw_lastError w))]"

record IntegrationConflict =
  ix_conflictId :: uuid
  ix_candidateId :: uuid
  ix_expectedHeadRef :: ImmutableReference
  ix_originalCandidateRef :: ImmutableReference
  ix_mergeBaseOid :: string
  ix_paths :: "string list"
  ix_recordedAt :: string

definition enc_IntegrationConflict :: "IntegrationConflict \<Rightarrow> jsval" where
  "enc_IntegrationConflict x = jobj
     [(''schemaVersion'', jnum 1), (''conflictId'', jstr (ix_conflictId x)),
      (''candidateId'', jstr (ix_candidateId x)), (''expectedHeadRef'', jref (ix_expectedHeadRef x)),
      (''originalCandidateRef'', jref (ix_originalCandidateRef x)),
      (''mergeBaseOid'', jstr (ix_mergeBaseOid x)), (''paths'', jstrs (ix_paths x)),
      (''recordedAt'', jstr (ix_recordedAt x))]"

record PromotionReceipt =
  pr_receiptId :: uuid
  pr_candidateId :: uuid
  pr_programId :: uuid
  pr_targetRef :: ImmutableReference
  pr_managedRef :: string
  pr_expectedOldHeadRef :: ImmutableReference
  pr_newHeadRef :: ImmutableReference
  pr_authorizationRef :: ImmutableReference
  pr_refEffectKey :: digest
  pr_promotedBy :: string
  pr_promotedAt :: string

definition enc_PromotionReceipt :: "PromotionReceipt \<Rightarrow> jsval" where
  "enc_PromotionReceipt r = jobj
     [(''schemaVersion'', jnum 1), (''receiptId'', jstr (pr_receiptId r)),
      (''candidateId'', jstr (pr_candidateId r)), (''programId'', jstr (pr_programId r)),
      (''targetRef'', jref (pr_targetRef r)), (''managedRef'', jstr (pr_managedRef r)),
      (''expectedOldHeadRef'', jref (pr_expectedOldHeadRef r)), (''newHeadRef'', jref (pr_newHeadRef r)),
      (''authorizationRef'', jref (pr_authorizationRef r)), (''refEffectKey'', jstr (pr_refEffectKey r)),
      (''promotedBy'', jstr (pr_promotedBy r)), (''promotedAt'', jstr (pr_promotedAt r))]"

datatype IncidentStatus = Incident_open | Incident_resolved

record PortfolioSloIncident =
  si_incidentId :: uuid
  si_policyRef :: ImmutableReference
  si_kind :: string
  si_observed :: string
  si_limit :: string
  si_status :: IncidentStatus
  si_recordedAt :: string
  si_resolvedAt :: "string option"

definition enc_PortfolioSloIncident :: "PortfolioSloIncident \<Rightarrow> jsval" where
  "enc_PortfolioSloIncident i = jobj
     [(''schemaVersion'', jnum 1), (''incidentId'', jstr (si_incidentId i)),
      (''policyRef'', jref (si_policyRef i)), (''kind'', jstr (si_kind i)),
      (''observed'', jstr (si_observed i)), (''limit'', jstr (si_limit i)),
      (''status'', jstr (if si_status i = Incident_open then ''open'' else ''resolved'')),
      (''admissionFrozen'', jbool True), (''recordedAt'', jstr (si_recordedAt i)),
      (''resolvedAt'', jnullable JString (si_resolvedAt i))]"

section \<open>Admissions and concurrency leases\<close>

record PortfolioAdmission =
  pa_admissionId :: uuid
  pa_admissionSequence :: nat
  pa_requestId :: uuid
  pa_programId :: uuid
  pa_graphRevisionRef :: ImmutableReference
  pa_policyRef :: ImmutableReference
  pa_targetRef :: ImmutableReference
  pa_milestoneId :: uuid
  pa_generationId :: uuid
  pa_runId :: uuid
  pa_executionSlot :: nat
  pa_capabilityClaims :: "string list"
  pa_resourceClaims :: "string list"
  pa_surfaceClaims :: "WorkSurface list"
  pa_admittedAt :: timestamp
  pa_releasedAt :: "timestamp option"
  pa_fencedAt :: "timestamp option"

definition enc_PortfolioAdmission :: "PortfolioAdmission \<Rightarrow> jsval" where
  "enc_PortfolioAdmission a = jobj
     [(''schemaVersion'', jnum 1), (''admissionId'', jstr (pa_admissionId a)),
      (''admissionSequence'', jnum (pa_admissionSequence a)), (''requestId'', jstr (pa_requestId a)),
      (''programId'', jstr (pa_programId a)), (''graphRevisionRef'', jref (pa_graphRevisionRef a)),
      (''policyRef'', jref (pa_policyRef a)), (''targetRef'', jref (pa_targetRef a)),
      (''milestoneId'', jstr (pa_milestoneId a)), (''generationId'', jstr (pa_generationId a)),
      (''runId'', jstr (pa_runId a)), (''executionSlot'', jnum (pa_executionSlot a)),
      (''capabilityClaims'', jstrs (pa_capabilityClaims a)),
      (''resourceClaims'', jstrs (pa_resourceClaims a)),
      (''surfaceClaims'', jlist enc_WorkSurface (pa_surfaceClaims a)),
      (''admittedAt'', jtime (pa_admittedAt a)), (''releasedAt'', jtime_or_null (pa_releasedAt a)),
      (''fencedAt'', jtime_or_null (pa_fencedAt a))]"

datatype ClaimKind = Claim_execution_slot | Claim_capability | Claim_resource | Claim_surface

fun claim_kind_text :: "ClaimKind \<Rightarrow> string" where
  "claim_kind_text Claim_execution_slot = ''execution_slot''"
| "claim_kind_text Claim_capability = ''capability''"
| "claim_kind_text Claim_resource = ''resource''"
| "claim_kind_text Claim_surface = ''surface''"

record ConcurrencyLease =
  cl_leaseId :: uuid
  cl_admissionId :: uuid
  cl_programId :: uuid
  cl_generationId :: uuid
  cl_claimKind :: ClaimKind
  cl_claimKey :: string
  cl_fencingToken :: nat
  cl_acquiredAt :: timestamp
  cl_expiresAt :: timestamp
  cl_renewedAt :: "timestamp option"
  cl_releasedAt :: "timestamp option"
  cl_fencedAt :: "timestamp option"

definition enc_ConcurrencyLease :: "ConcurrencyLease \<Rightarrow> jsval" where
  "enc_ConcurrencyLease l = jobj
     [(''schemaVersion'', jnum 1), (''leaseId'', jstr (cl_leaseId l)),
      (''admissionId'', jstr (cl_admissionId l)), (''programId'', jstr (cl_programId l)),
      (''generationId'', jstr (cl_generationId l)),
      (''claimKind'', jstr (claim_kind_text (cl_claimKind l))), (''claimKey'', jstr (cl_claimKey l)),
      (''fencingToken'', jnum (cl_fencingToken l)), (''acquiredAt'', jtime (cl_acquiredAt l)),
      (''expiresAt'', jtime (cl_expiresAt l)), (''renewedAt'', jtime_or_null (cl_renewedAt l)),
      (''releasedAt'', jtime_or_null (cl_releasedAt l)), (''fencedAt'', jtime_or_null (cl_fencedAt l))]"

end
