(* ===== verification/GraphTypes.thy ===== *)
theory GraphTypes
  imports PortfolioTypes
begin

text \<open>
  Program graphs (schema.ts) in their two versions, and the records of the program component
  that the portfolio reads: programs, milestones, outcome packets and their validations, and
  the projection state of the run lifecycle, with which they form the context of a decision.
\<close>

section \<open>Milestones\<close>

record MilestoneCriterion =
  mcr_criterionId :: string
  mcr_statement :: string
  mcr_verificationStepId :: string

record MilestoneContract =
  mc_milestoneId :: uuid
  mc_title :: string
  mc_objective :: string
  mc_taskType :: string
  mc_priority :: string
  mc_tags :: "string list"
  mc_workflowId :: uuid
  mc_workflowVersion :: nat
  mc_criteria :: "MilestoneCriterion list"

definition enc_MilestoneContract :: "MilestoneContract \<Rightarrow> jsval" where
  "enc_MilestoneContract c = jobj
     [(''schemaVersion'', jnum 1), (''milestoneId'', jstr (mc_milestoneId c)),
      (''title'', jstr (mc_title c)), (''objective'', jstr (mc_objective c)),
      (''taskType'', jstr (mc_taskType c)), (''priority'', jstr (mc_priority c)),
      (''tags'', jstrs (mc_tags c)), (''workflowId'', jstr (mc_workflowId c)),
      (''workflowVersion'', jnum (mc_workflowVersion c)),
      (''criteria'', jlist (\<lambda>k. jobj [(''criterionId'', jstr (mcr_criterionId k)),
         (''statement'', jstr (mcr_statement k)),
         (''verificationStepId'', jstr (mcr_verificationStepId k))]) (mc_criteria c))]"

text \<open>What the milestones of both graph versions share.\<close>

record GraphNode =
  gm_contract :: MilestoneContract
  gm_dependencies :: "uuid list"
  gm_sourcePredecessor :: "uuid option"
  gm_refs :: "ImmutableReference list"

record GraphMilestoneV1 = GraphNode +
  gm_allowedWorkSurfaces :: "string list"

record GraphMilestone = GraphNode +
  gm_workSurfaces :: "WorkSurface list"
  gm_resourceClaims :: "string list"
  gm_capabilityClaims :: "string list"

abbreviation gm_milestoneId :: "'a GraphNode_scheme \<Rightarrow> uuid" where
  "gm_milestoneId m \<equiv> mc_milestoneId (gm_contract m)"

section \<open>Graph revisions\<close>

record InitialContext =
  ictx_decisions :: "ScopedRecord list"
  ictx_assumptions :: "ScopedRecord list"
  ictx_risks :: "ScopedRecord list"
  ictx_unresolvedQuestions :: "ScopedRecord list"
  ictx_refs :: "ImmutableReference list"

record CrossProgramDependency =
  cd_programId :: uuid
  cd_graphRevisionId :: uuid
  cd_graphDigest :: digest

record GraphRevision =
  gr_graphRevisionId :: uuid
  gr_programId :: uuid
  gr_revision :: nat
  gr_priorGraphRef :: "ImmutableReference option"
  gr_intentPlaybackRef :: ImmutableReference
  gr_initialSourceRef :: ImmutableReference
  gr_initialContext :: InitialContext

record GraphV1 = GraphRevision +
  g1_milestones :: "GraphMilestoneV1 list"

record GraphV2 = GraphRevision +
  gv_portfolioPolicyRef :: ImmutableReference
  gv_integrationTargetRef :: ImmutableReference
  gv_crossProgramDependencies :: "CrossProgramDependency list"
  gv_milestones :: "GraphMilestone list"

datatype Graph = Graph_v1 GraphV1 | Graph_v2 GraphV2

fun graph_base :: "Graph \<Rightarrow> GraphRevision" where
  "graph_base (Graph_v1 g) = GraphRevision.truncate g"
| "graph_base (Graph_v2 g) = GraphRevision.truncate g"

record ProgramGraphState =
  gs_graphRevisionId :: uuid
  gs_programId :: uuid
  gs_graph :: Graph
  gs_graphDigest :: digest

text \<open>The graph where \<open>graph.graph.schemaVersion === 2\<close>.\<close>

definition gs_v2 :: "'a ProgramGraphState_scheme \<Rightarrow> GraphV2 option" where
  "gs_v2 g = (case gs_graph g of Graph_v1 _ \<Rightarrow> None | Graph_v2 v \<Rightarrow> Some v)"

section \<open>What the branches read of other components\<close>

record AttentionPolicyState =
  aps_policyRevisionId :: uuid
  aps_policyDigest :: digest
  aps_supersededAt :: "timestamp option"
  aps_maxPages :: nat

record DecisionPacketState =
  dps_packetId :: uuid
  dps_status :: string
  dps_currentRevisionId :: "uuid option"
  dps_currentRevisionDigest :: "digest option"

text \<open>An outcome packet: its JSON, which is digested, and the members the branches read.\<close>

record OutcomePacketState =
  ops_outcomePacketId :: uuid
  ops_programId :: uuid
  ops_packet :: jsval
  ops_packetDigest :: digest
  ops_candidateRevisionId :: "uuid option"
  ops_recommendation :: string
  ops_driverReceipts :: "ImmutableReference list"
  ops_verificationReceipts :: "ImmutableReference list"
  ops_artifactManifests :: "ImmutableReference list"
  ops_recordedAt :: timestamp

record OutcomeValidation =
  ov_validationId :: uuid
  ov_programId :: uuid
  ov_milestoneId :: uuid
  ov_outcomePacketId :: uuid
  ov_packetDigest :: digest
  ov_candidateRevisionId :: "uuid option"

record OutcomeValidationState =
  ovs_milestoneId :: uuid
  ovs_outcomePacketId :: uuid
  ovs_validation :: OutcomeValidation

datatype MilestoneStatus = M_approved | M_eligible | M_running | M_paused | M_outcome_ready

record MilestoneState =
  mst_milestoneId :: uuid
  mst_status :: MilestoneStatus
  mst_generation :: "nat option"
  mst_latestValidatedOutcomePacketId :: "uuid option"

text \<open>A program with the members of graph programs; an absent member is \<open>None\<close>.\<close>

record GraphProgramState = ProgramState +
  gp_executionRequestId :: "uuid option"
  gp_executionRequestedAt :: "timestamp option"
  gp_executionPolicy :: "JobPolicy option"
  gp_initialSourceRevisionId :: "uuid option"
  gp_activeGraphRevisionId :: "uuid option"
  gp_startedAt :: "timestamp option"

text \<open>
  \<open>cx_state\<close> is the state of the run lifecycle; \<open>cx_playbacks\<close> lists the identifiers of the
  playbacks of all program interviews, \<open>cx_generations\<close> those of all milestone generations.
\<close>

record PortfolioContext =
  cx_state :: ProjectionState
  cx_programs :: "(uuid, GraphProgramState) jsmap"
  cx_milestones :: "(uuid, MilestoneState) jsmap"
  cx_programGraphs :: "(uuid, ProgramGraphState) jsmap"
  cx_playbacks :: "uuid list"
  cx_generations :: "uuid list"
  cx_outcomeValidations :: "(uuid, OutcomeValidationState) jsmap"
  cx_attentionPolicies :: "(uuid, AttentionPolicyState) jsmap"
  cx_decisionPackets :: "(uuid, DecisionPacketState) jsmap"
  cx_outcomePackets :: "(uuid, OutcomePacketState) jsmap"
  cx_outcomeDispositions :: "uuid list"

end
