(* ===== verification/PlanTypes.thy ===== *)
theory PlanTypes
  imports GraphTypes
begin

text \<open>
  The program component (schema.ts): interviews, graphs and issues with the encodings their
  digests are taken over, the entities it keeps, and its events. The records extend those of
  GraphTypes, which are what other components read of these entities.
\<close>

section \<open>Intents and interviews\<close>

record ProgramIntent =
  in_objective :: string
  in_nonGoals :: "string list"
  in_tenets :: "string list"
  in_riskClass :: string

definition enc_ProgramIntent :: "ProgramIntent \<Rightarrow> jsval" where
  "enc_ProgramIntent n = jobj
     [(''schemaVersion'', jnum 1), (''objective'', jstr (in_objective n)),
      (''nonGoals'', jstrs (in_nonGoals n)), (''tenets'', jstrs (in_tenets n)),
      (''riskClass'', jstr (in_riskClass n))]"

record InterviewTurn =
  it_questionId :: string
  it_question :: string
  it_answer :: string

definition enc_transcript :: "InterviewTurn list \<Rightarrow> jsval" where
  "enc_transcript ts = JArray (map (\<lambda>t. jobj [(''questionId'', jstr (it_questionId t)),
     (''question'', jstr (it_question t)), (''answer'', jstr (it_answer t))]) ts)"

record InterviewAnswers =
  ia_objective :: string
  ia_desiredBehaviors :: "string list"
  ia_nonGoals :: "string list"
  ia_edgeCases :: "string list"
  ia_ownershipBoundaries :: "string list"
  ia_successMeasures :: "string list"
  ia_riskTolerance :: string
  ia_tenets :: "string list"

record IntentPlayback = InterviewAnswers +
  ip_playbackId :: uuid
  ip_interviewId :: uuid
  ip_programId :: uuid
  ip_transcriptDigest :: digest

definition enc_IntentPlayback :: "IntentPlayback \<Rightarrow> jsval" where
  "enc_IntentPlayback p = jobj
     [(''schemaVersion'', jnum 1), (''playbackId'', jstr (ip_playbackId p)),
      (''interviewId'', jstr (ip_interviewId p)), (''programId'', jstr (ip_programId p)),
      (''transcriptDigest'', jstr (ip_transcriptDigest p)), (''objective'', jstr (ia_objective p)),
      (''desiredBehaviors'', jstrs (ia_desiredBehaviors p)), (''nonGoals'', jstrs (ia_nonGoals p)),
      (''edgeCases'', jstrs (ia_edgeCases p)),
      (''ownershipBoundaries'', jstrs (ia_ownershipBoundaries p)),
      (''successMeasures'', jstrs (ia_successMeasures p)),
      (''riskTolerance'', jstr (ia_riskTolerance p)), (''tenets'', jstrs (ia_tenets p))]"

record Interview =
  ivw_interviewId :: uuid
  ivw_programId :: uuid
  ivw_transcript :: "InterviewTurn list"
  ivw_transcriptDigest :: digest
  ivw_playback :: IntentPlayback
  ivw_playbackDigest :: digest

record InterviewState = Interview +
  ivw_capturedAt :: timestamp
  ivw_version :: nat

section \<open>Graphs\<close>

definition enc_node :: "'a GraphNode_scheme \<Rightarrow> (string \<times> jsval option) list" where
  "enc_node m =
     [(''contract'', Some (enc_MilestoneContract (gm_contract m))),
      (''dependencies'', jstrs (gm_dependencies m)),
      (''sourcePredecessorMilestoneId'', jnullable JString (gm_sourcePredecessor m)),
      (''refs'', jlist enc_Reference (gm_refs m))]"

definition enc_InitialContext :: "InitialContext \<Rightarrow> jsval" where
  "enc_InitialContext x = jobj
     [(''decisions'', jlist enc_ScopedRecord (ictx_decisions x)),
      (''assumptions'', jlist enc_ScopedRecord (ictx_assumptions x)),
      (''risks'', jlist enc_ScopedRecord (ictx_risks x)),
      (''unresolvedQuestions'', jlist enc_ScopedRecord (ictx_unresolvedQuestions x)),
      (''refs'', jlist enc_Reference (ictx_refs x))]"

definition enc_revision :: "nat \<Rightarrow> jsval list \<Rightarrow> 'a GraphRevision_scheme \<Rightarrow> (string \<times> jsval option) list" where
  "enc_revision version milestones g =
     [(''schemaVersion'', jnum version), (''graphRevisionId'', jstr (gr_graphRevisionId g)),
      (''programId'', jstr (gr_programId g)), (''revision'', jnum (gr_revision g)),
      (''priorGraphRef'', jnullable enc_Reference (gr_priorGraphRef g)),
      (''intentPlaybackRef'', jref (gr_intentPlaybackRef g)),
      (''initialSourceRef'', jref (gr_initialSourceRef g)),
      (''milestones'', Some (JArray milestones)),
      (''initialContext'', Some (enc_InitialContext (gr_initialContext g)))]"

fun enc_Graph :: "Graph \<Rightarrow> jsval" where
  "enc_Graph (Graph_v1 g) = jobj (enc_revision 1
     (map (\<lambda>m. jobj ((''allowedWorkSurfaces'', jstrs (gm_allowedWorkSurfaces m)) # enc_node m)) (g1_milestones g)) g)"
| "enc_Graph (Graph_v2 g) = jobj (enc_revision 2
     (map (\<lambda>m. jobj (enc_node m @
        [(''workSurfaces'', jlist enc_WorkSurface (gm_workSurfaces m)),
         (''resourceClaims'', jstrs (gm_resourceClaims m)),
         (''capabilityClaims'', jstrs (gm_capabilityClaims m))])) (gv_milestones g)) g @
     [(''portfolioPolicyRef'', jref (gv_portfolioPolicyRef g)),
      (''integrationTargetRef'', jref (gv_integrationTargetRef g)),
      (''crossProgramDependencies'', jlist (\<lambda>d. jobj [(''programId'', jstr (cd_programId d)),
         (''graphRevisionId'', jstr (cd_graphRevisionId d)), (''graphDigest'', jstr (cd_graphDigest d))])
         (gv_crossProgramDependencies g))])"

section \<open>Issues\<close>

datatype IssueClass = Clarification | New_idea | Contradiction | Blocker | Authority_boundary

fun issue_class_text :: "IssueClass \<Rightarrow> string" where
  "issue_class_text Clarification = ''clarification''"
| "issue_class_text New_idea = ''new_idea''"
| "issue_class_text Contradiction = ''contradiction''"
| "issue_class_text Blocker = ''blocker''"
| "issue_class_text Authority_boundary = ''authority_boundary''"

datatype ResultImpact = Impact_none | May_change_accepted_result

fun impact_text :: "ResultImpact \<Rightarrow> string" where
  "impact_text Impact_none = ''none''"
| "impact_text May_change_accepted_result = ''may_change_accepted_result''"

datatype IssueRoute = Record_only | Pause_affected | Retry_exhausted | Operator_required

fun route_text :: "IssueRoute \<Rightarrow> string" where
  "route_text Record_only = ''record_only''"
| "route_text Pause_affected = ''pause_affected''"
| "route_text Retry_exhausted = ''retry_exhausted''"
| "route_text Operator_required = ''operator_required''"

datatype IssueSource = Source_command | Source_driver_event uuid nat \<comment> \<open>attempt, sequence\<close>

fun enc_IssueSource :: "IssueSource \<Rightarrow> jsval" where
  "enc_IssueSource Source_command = jobj [(''kind'', jstr ''command'')]"
| "enc_IssueSource (Source_driver_event i n) =
     jobj [(''kind'', jstr ''driver_event''), (''attemptId'', jstr i), (''sequence'', jnum n)]"

datatype IssueStatus = Issue_open | Issue_resolved | Issue_requires_graph_revision

fun issue_status_text :: "IssueStatus \<Rightarrow> string" where
  "issue_status_text Issue_open = ''open''"
| "issue_status_text Issue_resolved = ''resolved''"
| "issue_status_text Issue_requires_graph_revision = ''requires_graph_revision''"

datatype IssueAction = Action_record_only | Action_resume | Action_graph_revision

fun issue_action_text :: "IssueAction \<Rightarrow> string" where
  "issue_action_text Action_record_only = ''record_only''"
| "issue_action_text Action_resume = ''resume_unchanged_contract''"
| "issue_action_text Action_graph_revision = ''requires_graph_revision''"

record IssueResolution =
  isr_action :: IssueAction
  isr_text :: string
  isr_resolvedBy :: string
  isr_resolvedAt :: timestamp
  isr_satisfiedBy :: "uuid option"

record RoutedIssue =
  iss_issueId :: uuid
  iss_programId :: uuid
  iss_originalText :: string
  iss_proposedClass :: IssueClass
  iss_resultImpact :: ResultImpact
  iss_affectedMilestoneIds :: "uuid list"
  iss_refs :: "ImmutableReference list"
  iss_route :: IssueRoute
  iss_source :: IssueSource
  iss_status :: IssueStatus
  iss_resolution :: "IssueResolution option"
  iss_raisedAt :: timestamp

definition enc_IssueResolution :: "IssueResolution \<Rightarrow> jsval" where
  "enc_IssueResolution r = jobj
     [(''action'', jstr (issue_action_text (isr_action r))), (''text'', jstr (isr_text r)),
      (''resolvedBy'', jstr (isr_resolvedBy r)), (''resolvedAt'', jtime (isr_resolvedAt r)),
      (''satisfiedByGraphRevisionId'', map_option JString (isr_satisfiedBy r))]"

definition enc_RoutedIssue :: "RoutedIssue \<Rightarrow> jsval" where
  "enc_RoutedIssue i = jobj
     [(''schemaVersion'', jnum 1), (''issueId'', jstr (iss_issueId i)),
      (''programId'', jstr (iss_programId i)), (''originalText'', jstr (iss_originalText i)),
      (''proposedClass'', jstr (issue_class_text (iss_proposedClass i))),
      (''resultImpact'', jstr (impact_text (iss_resultImpact i))),
      (''affectedMilestoneIds'', jstrs (iss_affectedMilestoneIds i)),
      (''refs'', jlist enc_Reference (iss_refs i)), (''requiredAuthority'', jstr ''operator''),
      (''route'', jstr (route_text (iss_route i))), (''source'', Some (enc_IssueSource (iss_source i))),
      (''status'', jstr (issue_status_text (iss_status i))),
      (''resolution'', jnullable enc_IssueResolution (iss_resolution i)),
      (''raisedAt'', jtime (iss_raisedAt i))]"

record IssueState =
  ris_issue :: RoutedIssue
  ris_issueDigest :: digest
  ris_version :: nat

section \<open>Generations, outcomes and spans\<close>

datatype GenerationStatus = Gen_running | Gen_outcome_ready | Gen_paused

datatype Recommendation = Rec_merge | Rec_reject | Rec_investigate

fun recommendation_text :: "Recommendation \<Rightarrow> string" where
  "recommendation_text Rec_merge = ''merge''"
| "recommendation_text Rec_reject = ''reject''"
| "recommendation_text Rec_investigate = ''investigate''"

record Generation =
  gen_generationId :: uuid
  gen_programId :: uuid
  gen_milestoneId :: uuid
  gen_graphRevisionId :: uuid
  gen_generation :: nat
  gen_runId :: uuid
  gen_jobId :: uuid
  gen_contextPacketId :: uuid
  gen_baseRevisionId :: uuid
  gen_startedAt :: timestamp

record GenerationState = Generation +
  gen_status :: GenerationStatus
  gen_outcomePacketId :: "uuid option"
  gen_recommendation :: "Recommendation option"
  gen_completedAt :: "timestamp option"
  gen_version :: nat

record ValidationRecord = OutcomeValidation +
  ov_computedDigest :: digest
  ov_primaryEvidenceDigests :: "digest list"
  ov_criteriaPassed :: bool
  ov_recommendation :: Recommendation
  ov_validatedAt :: timestamp

definition enc_ValidationRecord :: "ValidationRecord \<Rightarrow> jsval" where
  "enc_ValidationRecord v = jobj
     [(''schemaVersion'', jnum 1), (''validationId'', jstr (ov_validationId v)),
      (''programId'', jstr (ov_programId v)), (''milestoneId'', jstr (ov_milestoneId v)),
      (''outcomePacketId'', jstr (ov_outcomePacketId v)), (''packetDigest'', jstr (ov_packetDigest v)),
      (''computedDigest'', jstr (ov_computedDigest v)),
      (''primaryEvidenceDigests'', jstrs (ov_primaryEvidenceDigests v)),
      (''criteriaPassed'', jbool (ov_criteriaPassed v)),
      (''recommendation'', jstr (recommendation_text (ov_recommendation v))),
      (''candidateRevisionId'', jnullable JString (ov_candidateRevisionId v)),
      (''valid'', jbool True), (''validatedAt'', jtime (ov_validatedAt v))]"

record ValidationState =
  vds_validation :: ValidationRecord
  vds_validationDigest :: digest
  vds_version :: nat

datatype CriterionVerdict = Criterion_pass | Criterion_fail | Criterion_unverified

fun criterion_text :: "CriterionVerdict \<Rightarrow> string" where
  "criterion_text Criterion_pass = ''pass''"
| "criterion_text Criterion_fail = ''fail''"
| "criterion_text Criterion_unverified = ''unverified''"

record AttentionSpan =
  asp_attentionSpanId :: uuid
  asp_programId :: uuid
  asp_actorId :: string
  asp_label :: string
  asp_startedAt :: timestamp
  asp_stoppedAt :: "timestamp option"
  asp_version :: nat

record OutcomeDisposition =
  od_outcomePacketId :: uuid
  od_programId :: uuid
  od_disposition :: string
  od_reason :: "string option"
  od_actorId :: string
  od_recordedAt :: timestamp

section \<open>Outcome packets\<close>

record OutcomeCriterion =
  ocr_criterionId :: string
  ocr_statement :: string
  ocr_result :: CriterionVerdict
  ocr_evidenceRefs :: "ImmutableReference list"

record OutcomeAttempt =
  oat_attemptId :: uuid
  oat_jobId :: uuid
  oat_ordinal :: nat
  oat_status :: AttemptStatus
  oat_terminationReason :: "TerminationReason option"
  oat_usage :: "DriverUsage option"

text \<open>What version 2 of the packet has beyond version 1.\<close>

record OutcomeBinding =
  obn_generationId :: uuid
  obn_generation :: nat
  obn_graphRevisionId :: uuid
  obn_graphDigest :: digest
  obn_contextPacketId :: uuid
  obn_contextPacketDigest :: digest
  obn_dependencyOutcomeRefs :: "ImmutableReference list"
  obn_dependencyValidationRefs :: "ImmutableReference list"

record OutcomePacket =
  opk_outcomePacketId :: uuid
  opk_programId :: uuid
  opk_milestoneId :: uuid
  opk_runId :: uuid
  opk_baseRevisionId :: uuid
  opk_candidateRevisionId :: "uuid option"
  opk_intentDigest :: digest
  opk_milestoneContractDigest :: digest
  opk_workflowDigest :: digest
  opk_criteriaResults :: "OutcomeCriterion list"
  opk_attemptHistory :: "OutcomeAttempt list"
  opk_driverReceipts :: "ImmutableReference list"
  opk_verificationReceipts :: "ImmutableReference list"
  opk_artifactManifests :: "ImmutableReference list"
  opk_capabilitiesUsed :: "string list"
  opk_terminalReason :: string
  opk_summary :: string
  opk_deviationReasons :: "string list"
  opk_recommendation :: Recommendation
  opk_humanEvidenceFocus :: "string list"
  opk_generatedAt :: timestamp
  opk_binding :: "OutcomeBinding option"

fun attempt_status_text :: "AttemptStatus \<Rightarrow> string" where
  "attempt_status_text A_allocated = ''allocated''"
| "attempt_status_text A_starting = ''starting''"
| "attempt_status_text A_running = ''running''"
| "attempt_status_text A_verifying = ''verifying''"
| "attempt_status_text A_succeeded = ''succeeded''"
| "attempt_status_text A_failed = ''failed''"
| "attempt_status_text A_timed_out = ''timed_out''"
| "attempt_status_text A_cancelled = ''cancelled''"
| "attempt_status_text A_approval_required = ''approval_required''"

definition enc_OutcomeCriterion :: "OutcomeCriterion \<Rightarrow> jsval" where
  "enc_OutcomeCriterion c = jobj
     [(''criterionId'', jstr (ocr_criterionId c)), (''statement'', jstr (ocr_statement c)),
      (''result'', jstr (criterion_text (ocr_result c))),
      (''evidenceRefs'', jlist enc_Reference (ocr_evidenceRefs c))]"

definition enc_OutcomeAttempt :: "OutcomeAttempt \<Rightarrow> jsval" where
  "enc_OutcomeAttempt a = jobj
     [(''attemptId'', jstr (oat_attemptId a)), (''jobId'', jstr (oat_jobId a)),
      (''ordinal'', jnum (oat_ordinal a)), (''status'', jstr (attempt_status_text (oat_status a))),
      (''terminationReason'', jnullable (\<lambda>r. JString (text_TerminationReason r)) (oat_terminationReason a)),
      (''usage'', jnullable (\<lambda>u. jobj [(''cpuMillis'', jnum (cpuMillis u)),
         (''memoryPeakBytes'', jnum (memoryPeakBytes u))]) (oat_usage a))]"

definition enc_OutcomeBinding :: "OutcomeBinding \<Rightarrow> (string \<times> jsval option) list" where
  "enc_OutcomeBinding b =
     [(''generationId'', jstr (obn_generationId b)), (''generation'', jnum (obn_generation b)),
      (''graphRevisionId'', jstr (obn_graphRevisionId b)), (''graphDigest'', jstr (obn_graphDigest b)),
      (''contextPacketId'', jstr (obn_contextPacketId b)),
      (''contextPacketDigest'', jstr (obn_contextPacketDigest b)),
      (''dependencyOutcomeRefs'', jlist enc_Reference (obn_dependencyOutcomeRefs b)),
      (''dependencyValidationRefs'', jlist enc_Reference (obn_dependencyValidationRefs b))]"

definition enc_OutcomePacket :: "OutcomePacket \<Rightarrow> jsval" where
  "enc_OutcomePacket p =
     (let version = (if opk_binding p = None then 1 else 2) in jobj
     ([(''schemaVersion'', jnum version), (''packetVersion'', jnum version),
       (''outcomePacketId'', jstr (opk_outcomePacketId p)), (''programId'', jstr (opk_programId p)),
       (''milestoneId'', jstr (opk_milestoneId p)), (''runId'', jstr (opk_runId p)),
       (''baseRevisionId'', jstr (opk_baseRevisionId p)),
       (''candidateRevisionId'', jnullable JString (opk_candidateRevisionId p)),
       (''intentDigest'', jstr (opk_intentDigest p)),
       (''milestoneContractDigest'', jstr (opk_milestoneContractDigest p)),
       (''workflowDigest'', jstr (opk_workflowDigest p)),
       (''criteriaResults'', jlist enc_OutcomeCriterion (opk_criteriaResults p)),
       (''attemptHistory'', jlist enc_OutcomeAttempt (opk_attemptHistory p)),
       (''driverReceipts'', jlist enc_Reference (opk_driverReceipts p)),
       (''verificationReceipts'', jlist enc_Reference (opk_verificationReceipts p)),
       (''artifactManifests'', jlist enc_Reference (opk_artifactManifests p)),
       (''capabilitiesUsed'', jstrs (opk_capabilitiesUsed p)),
       (''terminalReason'', jstr (opk_terminalReason p)), (''summary'', jstr (opk_summary p)),
       (''deviationReasons'', jstrs (opk_deviationReasons p)),
       (''recommendation'', jstr (recommendation_text (opk_recommendation p))),
       (''humanEvidenceFocus'', jstrs (opk_humanEvidenceFocus p)),
       (''generatedAt'', jtime (opk_generatedAt p))] @
      (case opk_binding p of None \<Rightarrow> [] | Some b \<Rightarrow> enc_OutcomeBinding b)))"

record OutcomePacketEntity =
  ope_packet :: OutcomePacket
  ope_packetDigest :: digest
  ope_recordedAt :: timestamp
  ope_version :: nat

section \<open>Programs and milestones\<close>

record ProgramEntity = GraphProgramState +
  pge_intent :: "ProgramIntent option"
  pge_intentDigest :: "digest option"
  pge_approvedBy :: "string option"
  pge_approvedAt :: "timestamp option"
  pge_resumePhase :: "string option"
  pge_attentionPriority :: string
  pge_initialSourceRevisionDigest :: "digest option"
  pge_activeGraphDigest :: "digest option"

record MilestoneApproval =
  mla_milestoneId :: uuid
  mla_programId :: uuid
  mla_contract :: MilestoneContract
  mla_contractDigest :: digest
  mla_workflowDigest :: digest
  mla_approvedBy :: string
  mla_graphRevisionId :: "uuid option"
  mla_dependencies :: "uuid list"
  mla_sourcePredecessorMilestoneId :: "uuid option"
  mla_allowedWorkSurfaces :: "string list"
  mla_structuredWorkSurfaces :: "WorkSurface list"
  mla_resourceClaims :: "string list"
  mla_capabilityClaims :: "string list"

text \<open>A milestone: what was approved and its progress.\<close>

record MilestoneEntity = MilestoneState +
  mle_approval :: MilestoneApproval
  mle_activeGenerationId :: "uuid option"
  mle_runId :: "uuid option"
  mle_jobId :: "uuid option"
  mle_baseRevisionId :: "uuid option"
  mle_outcomePacketId :: "uuid option"
  mle_recommendation :: "Recommendation option"
  mle_pauseReason :: "string option"
  mle_approvedAt :: timestamp
  mle_startedAt :: "timestamp option"
  mle_completedAt :: "timestamp option"
  mle_version :: nat

record GraphEntity = ProgramGraphState +
  gre_priorGraphRevisionId :: "uuid option"
  gre_approvedBy :: string
  gre_approvedAt :: timestamp
  gre_supersededAt :: "timestamp option"
  gre_version :: nat

section \<open>Events\<close>

text \<open>
  The events of the component. In \<open>MilestoneApproved\<close> a member that is left out is the value
  that \<open>evolve\<close> takes for it.
\<close>

datatype PlanData =
    ProgramKickedOff uuid string uuid digest \<comment> \<open>program, name, source revision and its digest\<close>
  | ProgramInterviewCaptured Interview
  | ProgramGraphApproved Graph digest string \<comment> \<open>approvedBy\<close>
  | ProgramGraphSuperseded uuid uuid uuid \<comment> \<open>graph, program, superseding graph\<close>
  | ProgramStarted uuid uuid digest string \<comment> \<open>program, graph, its digest, startedBy\<close>
  | ProgramExecutionRequested uuid uuid uuid digest JobPolicy string
    \<comment> \<open>request, program, graph, its digest, policy, requestedBy\<close>
  | ProgramIntegrationPending uuid uuid digest uuid \<comment> \<open>program, graph, its digest, candidate\<close>
  | ProgramCompleted uuid uuid digest
  | ProgramParked uuid string string \<comment> \<open>reason, parkedBy\<close>
  | ProgramResumed uuid string
  | ProgramAttentionPriorityChanged uuid string string
  | ProgramApproved uuid ProgramIntent digest string
  | MilestoneApproved MilestoneApproval
  | MilestoneGenerationStarted Generation
  | MilestoneRunCreated uuid uuid uuid uuid nat "(uuid \<times> nat) option"
    \<comment> \<open>run, milestone, program, workflow and version, generation\<close>
  | MilestoneStarted uuid uuid uuid uuid \<comment> \<open>milestone, run, job, base revision\<close>
  | MilestoneOutcomeReady uuid uuid uuid Recommendation \<comment> \<open>milestone, run, packet\<close>
  | MilestoneGenerationOutcomeReady uuid uuid Recommendation \<comment> \<open>generation, packet\<close>
  | OutcomePacketRecorded OutcomePacket digest
  | OutcomeValidationRecorded ValidationRecord digest
  | RoutedIssueRaised RoutedIssue digest "uuid list" \<comment> \<open>paused milestones\<close>
  | RoutedIssueResolved uuid uuid IssueAction string string "uuid list"
    \<comment> \<open>issue, program, action, text, resolvedBy, resumed milestones\<close>
  | RoutedIssueGraphRevisionSatisfied uuid uuid uuid string \<comment> \<open>issue, program, graph, resolvedBy\<close>
  | AttentionSpanStarted AttentionSpan
  | AttentionSpanStopped uuid uuid timestamp
  | OutcomeDispositionRecorded OutcomeDisposition

end
