(* ===== verification/PortfolioState.thy ===== *)
theory PortfolioState
  imports PlanTypes
begin

text \<open>
  The state of the portfolio and its integration lane (model.ts), its events, and the cases of
  \<open>evolve\<close> for them. The phase of a program, which three of the events also set, belongs to
  the program state and is left to it.
\<close>

section \<open>Entities\<close>

record PortfolioPolicyState =
  ps_policy :: PortfolioPolicy
  ps_policyDigest :: digest
  ps_supersededAt :: "timestamp option"
  ps_version :: nat

record IntegrationTargetState =
  ts_target :: IntegrationTarget
  ts_targetDigest :: digest
  ts_supersededAt :: "timestamp option"
  ts_currentHeadRef :: ImmutableReference
  ts_version :: nat

datatype ClaimStatus = Claim_active | Claim_released | Claim_fenced

record PortfolioAdmissionState =
  as_admission :: PortfolioAdmission
  as_admissionDigest :: digest
  as_status :: ClaimStatus
  as_reason :: "string option"
  as_version :: nat

record ConcurrencyLeaseState =
  ls_lease :: ConcurrencyLease
  ls_leaseDigest :: digest
  ls_status :: ClaimStatus
  ls_version :: nat

record CandidateDiffManifestState =
  ms_manifest :: CandidateDiffManifest
  ms_manifestDigest :: digest
  ms_version :: nat

datatype CandidateStatus =
    C_pending | C_blocked | C_preparing | C_conflicted | C_verifying | C_awaiting_authorization
  | C_authorized | C_promoting | C_promoted | C_ineligible

record IntegrationCandidateState =
  cs_candidate :: IntegrationCandidate
  cs_candidateDigest :: digest
  cs_status :: CandidateStatus
  cs_version :: nat

record IntegrationWorkState =
  ws_work :: IntegrationWork
  ws_workDigest :: digest
  ws_version :: nat

record IntegrationConflictState =
  xs_conflict :: IntegrationConflict
  xs_conflictDigest :: digest
  xs_version :: nat

record IntegrationVerificationState =
  vs_verification :: IntegrationVerification
  vs_verificationDigest :: digest
  vs_version :: nat

record PromotionReceiptState =
  rs_receipt :: PromotionReceipt
  rs_receiptDigest :: digest
  rs_version :: nat

record PortfolioSloIncidentState =
  is_incident :: PortfolioSloIncident
  is_incidentDigest :: digest
  is_version :: nat

section \<open>Packets that ask for a promotion\<close>

text \<open>The action a version 2 decision option authorizes.\<close>

record PromotionAction =
  pac_workId :: uuid
  pac_candidateId :: uuid
  pac_programId :: uuid
  pac_graphRef :: ImmutableReference
  pac_policyRef :: ImmutableReference
  pac_targetRef :: ImmutableReference
  pac_expectedHeadRef :: ImmutableReference
  pac_originalCandidateRef :: ImmutableReference
  pac_rebasedCandidateRef :: ImmutableReference
  pac_finalOutcomeRef :: ImmutableReference
  pac_diffManifestRef :: ImmutableReference
  pac_integrationVerificationRef :: ImmutableReference
  pac_targetPreconditionDigest :: digest

definition enc_PromotionAction :: "PromotionAction \<Rightarrow> jsval" where
  "enc_PromotionAction a = jobj
     [(''kind'', jstr ''integrate''),
      (''target'', Some (jobj
        [(''kind'', jstr ''managed_integration_promotion''), (''workId'', jstr (pac_workId a)),
         (''candidateId'', jstr (pac_candidateId a)), (''programId'', jstr (pac_programId a)),
         (''graphRef'', jref (pac_graphRef a)), (''policyRef'', jref (pac_policyRef a)),
         (''targetRef'', jref (pac_targetRef a)), (''expectedHeadRef'', jref (pac_expectedHeadRef a)),
         (''originalCandidateRef'', jref (pac_originalCandidateRef a)),
         (''rebasedCandidateRef'', jref (pac_rebasedCandidateRef a)),
         (''finalOutcomeRef'', jref (pac_finalOutcomeRef a)),
         (''diffManifestRef'', jref (pac_diffManifestRef a)),
         (''integrationVerificationRef'', jref (pac_integrationVerificationRef a)),
         (''targetPreconditionDigest'', jstr (pac_targetPreconditionDigest a))]))]"

record DecisionOption =
  dop_optionId :: uuid
  dop_label :: string
  dop_consequences :: "string list"
  dop_reversalCost :: string
  dop_action :: PromotionAction

definition enc_DecisionOption :: "DecisionOption \<Rightarrow> jsval" where
  "enc_DecisionOption opt = jobj
     [(''schemaVersion'', jnum 2), (''optionId'', jstr (dop_optionId opt)),
      (''label'', jstr (dop_label opt)), (''consequences'', jstrs (dop_consequences opt)),
      (''reversalCost'', jstr (dop_reversalCost opt)),
      (''action'', Some (enc_PromotionAction (dop_action opt)))]"

text \<open>
  A version 2 revision of a decision packet: the members that vary, the others are constants of
  the one command that compiles such packets.
\<close>

record PacketRevision =
  prv_packetRevisionId :: uuid
  prv_packetId :: uuid
  prv_programId :: uuid
  prv_source :: ImmutableReference
  prv_originalQuestion :: string
  prv_context :: string
  prv_options :: "DecisionOption list"
  prv_evidenceBundleRef :: ImmutableReference
  prv_policyBinding :: ImmutableReference
  prv_deduplicationKey :: digest
  prv_createdAt :: timestamp

definition PROMPT :: string where
  "PROMPT = ''Authorize the exact verified managed-ref promotion''"

definition enc_PacketRevision :: "PacketRevision \<Rightarrow> jsval" where
  "enc_PacketRevision r = jobj
     [(''schemaVersion'', jnum 2), (''packetRevisionId'', jstr (prv_packetRevisionId r)),
      (''packetId'', jstr (prv_packetId r)), (''programId'', jstr (prv_programId r)),
      (''milestoneId'', Some JNull), (''revision'', jnum 1), (''priorRevisionRef'', Some JNull),
      (''source'', jref (prv_source r)), (''originalQuestion'', jstr (prv_originalQuestion r)),
      (''prompt'', jstr PROMPT), (''context'', jstr (prv_context r)),
      (''requiredAuthority'', jstr ''operator''), (''riskClass'', jstr ''reserved''),
      (''safetyClass'', jstr ''safety_critical''), (''reversibility'', jstr ''one_way''),
      (''options'', jlist enc_DecisionOption (prv_options r)),
      (''evidenceBundleRef'', jref (prv_evidenceBundleRef r)),
      (''policyBinding'', jref (prv_policyBinding r)), (''precedentRefs'', Some (JArray [])),
      (''deadlineAt'', Some JNull), (''defaultOnTimeout'', Some JNull),
      (''deduplicationKey'', jstr (prv_deduplicationKey r)),
      (''routing'', Some (jobj
        [(''route'', jstr ''page''), (''urgency'', jstr ''p0''), (''matchedRuleId'', Some JNull),
         (''requireAcknowledgement'', jbool True), (''reason'', jstr ''human_integration_authority''),
         (''routineBudget'', Some (jobj
           [(''applied'', jbool False), (''allowed'', jbool True), (''used'', jnum 0),
            (''limit'', jnum 0), (''windowMs'', jnum 86400000)]))])),
      (''createdAt'', jtime (prv_createdAt r))]"

record PacketRevisionState =
  ds_revision :: PacketRevision
  ds_revisionDigest :: digest
  ds_version :: nat

section \<open>The state\<close>

record Portfolio =
  portfolioPolicies :: "(uuid, PortfolioPolicyState) jsmap"
  integrationTargets :: "(uuid, IntegrationTargetState) jsmap"
  portfolioAdmissions :: "(uuid, PortfolioAdmissionState) jsmap"
  concurrencyLeases :: "(uuid, ConcurrencyLeaseState) jsmap"
  candidateDiffManifests :: "(uuid, CandidateDiffManifestState) jsmap"
  integrationCandidates :: "(uuid, IntegrationCandidateState) jsmap"
  integrationWork :: "(uuid, IntegrationWorkState) jsmap"
  integrationConflicts :: "(uuid, IntegrationConflictState) jsmap"
  integrationVerifications :: "(uuid, IntegrationVerificationState) jsmap"
  promotionReceipts :: "(uuid, PromotionReceiptState) jsmap"
  portfolioSloIncidents :: "(uuid, PortfolioSloIncidentState) jsmap"
  packetRevisions :: "(uuid, PacketRevisionState) jsmap"

definition emptyPortfolio :: Portfolio where
  "emptyPortfolio =
     \<lparr>portfolioPolicies = [], integrationTargets = [], portfolioAdmissions = [], concurrencyLeases = [],
      candidateDiffManifests = [], integrationCandidates = [], integrationWork = [],
      integrationConflicts = [], integrationVerifications = [], promotionReceipts = [],
      portfolioSloIncidents = [], packetRevisions = []\<rparr>"

section \<open>Events\<close>

text \<open>
  The events of the portfolio. \<open>Foreign\<close> is an event of another component that these
  commands also write, as its type and the JSON of its data; \<open>Lifecycle\<close> is one of the run
  lifecycle, \<open>Planned\<close> one of the program component.
\<close>

datatype PortfolioData =
    PortfolioPolicyApproved PortfolioPolicy digest "uuid option"
  | IntegrationTargetApproved IntegrationTarget digest "uuid option"
  | PortfolioAdmissionGranted PortfolioAdmission digest "(ConcurrencyLease \<times> digest) list"
  | PortfolioLeaseRenewed ConcurrencyLease digest
  | PortfolioAdmissionReleased uuid uuid nat string timestamp "uuid list"
    \<comment> \<open>admission, generation, token, reason, releasedAt, leases\<close>
  | PortfolioAdmissionFenced uuid uuid nat string timestamp "uuid list"
  | CandidateDiffManifestRecorded CandidateDiffManifest digest
  | IntegrationCandidateQueued IntegrationCandidate digest IntegrationWork digest
  | IntegrationWorkLeaseAcquired uuid uuid nat timestamp \<comment> \<open>work, owner, token, expiry\<close>
  | IntegrationCandidatePrepared uuid uuid uuid nat ImmutableReference ImmutableReference
    \<comment> \<open>work, candidate, owner, token, expected head, rebased candidate\<close>
  | IntegrationConflictRecorded uuid uuid nat IntegrationConflict digest
  | IntegrationVerificationRecorded uuid uuid nat IntegrationVerification digest
  | IntegrationPromotionAuthorized uuid uuid ImmutableReference ImmutableReference ImmutableReference
    \<comment> \<open>work, candidate, action result, expected head, rebased candidate\<close>
  | IntegrationPromotionRecorded PromotionReceipt digest
  | PortfolioSloIncidentRecorded PortfolioSloIncident digest
  | DecisionPacketRevisionRecorded PacketRevision digest
  | Foreign string jsval
  | Lifecycle EventData
  | Planned PlanData

record PortfolioInput =
  pi_streamType :: string
  pi_streamId :: uuid
  pi_data :: PortfolioData

record PortfolioEvent = PortfolioInput +
  pe_streamVersion :: nat
  pe_occurredAt :: timestamp

definition pf_event :: "string \<Rightarrow> uuid \<Rightarrow> PortfolioData \<Rightarrow> PortfolioInput" where
  "pf_event ty i d = \<lparr>pi_streamType = ty, pi_streamId = i, pi_data = d\<rparr>"

end
