(* ===== verification/PortfolioEvolve.thy ===== *)
theory PortfolioEvolve
  imports PortfolioState
begin

text \<open>
  The cases of \<open>evolve\<close> (model.ts) for the events of the portfolio, one function per event
  type. \<open>v\<close> is the event's stream version and \<open>at\<close> its time. The check that data and
  digest agree, and the lookups of entities that must exist, raise exceptions.
\<close>

definition check_digest :: "(string \<Rightarrow> string) \<Rightarrow> jsval \<Rightarrow> digest \<Rightarrow> string \<Rightarrow> 'a result \<Rightarrow> 'a result" where
  "check_digest sha v d message r = (if digest_of sha v \<noteq> d then Inl message else r)"

definition found :: "('k, 'v) jsmap \<Rightarrow> 'k \<Rightarrow> string \<Rightarrow> ('v \<Rightarrow> 'a result) \<Rightarrow> 'a result" where
  "found m k message f = (case mget m k of None \<Rightarrow> Inl message | Some v \<Rightarrow> f v)"

section \<open>Policies and targets\<close>

definition supersede_policy :: "uuid option \<Rightarrow> timestamp \<Rightarrow> Portfolio \<Rightarrow> Portfolio result" where
  "supersede_policy prior at s =
     (case prior of
        None \<Rightarrow> Inr s
      | Some i \<Rightarrow> found (portfolioPolicies s) i (''Missing portfolio policy '' @ i)
          (\<lambda>p. Inr (s\<lparr>portfolioPolicies := mput i (p\<lparr>ps_supersededAt := Some at\<rparr>) (portfolioPolicies s)\<rparr>)))"

definition apply_policy_approved ::
    "(string \<Rightarrow> string) \<Rightarrow> nat \<Rightarrow> timestamp \<Rightarrow> PortfolioPolicy \<Rightarrow> digest \<Rightarrow> uuid option \<Rightarrow> Portfolio \<Rightarrow> Portfolio result" where
  "apply_policy_approved sha v at p d prior s =
     check_digest sha (enc_PortfolioPolicy p) d ''Portfolio policy event digest does not match its content''
       (case supersede_policy prior at s of
          Inl x \<Rightarrow> Inl x
        | Inr s' \<Rightarrow> Inr (s'\<lparr>portfolioPolicies := mput (pol_policyRevisionId p)
            \<lparr>ps_policy = p, ps_policyDigest = d, ps_supersededAt = None, ps_version = v\<rparr>
            (portfolioPolicies s')\<rparr>))"

definition supersede_target :: "uuid option \<Rightarrow> timestamp \<Rightarrow> Portfolio \<Rightarrow> Portfolio result" where
  "supersede_target prior at s =
     (case prior of
        None \<Rightarrow> Inr s
      | Some i \<Rightarrow> found (integrationTargets s) i (''Missing integration target '' @ i)
          (\<lambda>t. Inr (s\<lparr>integrationTargets := mput i (t\<lparr>ts_supersededAt := Some at\<rparr>) (integrationTargets s)\<rparr>)))"

definition apply_target_approved ::
    "(string \<Rightarrow> string) \<Rightarrow> nat \<Rightarrow> timestamp \<Rightarrow> IntegrationTarget \<Rightarrow> digest \<Rightarrow> uuid option \<Rightarrow> Portfolio \<Rightarrow> Portfolio result" where
  "apply_target_approved sha v at t d prior s =
     (if digest_of sha (enc_IntegrationTarget t) \<noteq> d \<or>
         digest_of sha (enc_VerifierContract (tgt_verifierContract t)) \<noteq> tgt_verifierContractDigest t
      then Inl ''Integration target event digest does not match its content''
      else (case supersede_target prior at s of
          Inl x \<Rightarrow> Inl x
        | Inr s' \<Rightarrow> Inr (s'\<lparr>integrationTargets := mput (tgt_targetRevisionId t)
            \<lparr>ts_target = t, ts_targetDigest = d, ts_supersededAt = None,
             ts_currentHeadRef = tgt_initialHeadRef t, ts_version = v\<rparr>
            (integrationTargets s')\<rparr>)))"

section \<open>Admissions and leases\<close>

definition add_lease :: "(string \<Rightarrow> string) \<Rightarrow> nat \<Rightarrow> Portfolio \<Rightarrow> ConcurrencyLease \<times> digest \<Rightarrow> Portfolio result" where
  "add_lease sha v s entry = (let (l, d) = entry in
     check_digest sha (enc_ConcurrencyLease l) d ''Concurrency lease event digest does not match its content''
       (Inr (s\<lparr>concurrencyLeases := mput (cl_leaseId l)
          \<lparr>ls_lease = l, ls_leaseDigest = d, ls_status = Claim_active, ls_version = v\<rparr>
          (concurrencyLeases s)\<rparr>)))"

definition apply_admission_granted ::
    "(string \<Rightarrow> string) \<Rightarrow> nat \<Rightarrow> PortfolioAdmission \<Rightarrow> digest \<Rightarrow> (ConcurrencyLease \<times> digest) list \<Rightarrow>
       Portfolio \<Rightarrow> Portfolio result" where
  "apply_admission_granted sha v a d leases s =
     check_digest sha (enc_PortfolioAdmission a) d ''Portfolio admission event digest does not match its content''
       (try_fold (add_lease sha v)
          (s\<lparr>portfolioAdmissions := mput (pa_admissionId a)
             \<lparr>as_admission = a, as_admissionDigest = d, as_status = Claim_active, as_reason = None,
              as_version = v\<rparr> (portfolioAdmissions s)\<rparr>) leases)"

definition apply_lease_renewed ::
    "(string \<Rightarrow> string) \<Rightarrow> nat \<Rightarrow> ConcurrencyLease \<Rightarrow> digest \<Rightarrow> Portfolio \<Rightarrow> Portfolio result" where
  "apply_lease_renewed sha v l d s =
     check_digest sha (enc_ConcurrencyLease l) d ''Renewed concurrency lease digest does not match its content''
       (found (concurrencyLeases s) (cl_leaseId l) (''Missing concurrency lease '' @ cl_leaseId l)
          (\<lambda>p. Inr (s\<lparr>concurrencyLeases := mput (cl_leaseId l)
             (p\<lparr>ls_lease := l, ls_leaseDigest := d, ls_version := v\<rparr>) (concurrencyLeases s)\<rparr>)))"

text \<open>Release and fencing differ in the status and in the time they set.\<close>

definition end_admission :: "ClaimStatus \<Rightarrow> timestamp \<Rightarrow> PortfolioAdmission \<Rightarrow> PortfolioAdmission" where
  "end_admission st at a =
     (if st = Claim_released then a\<lparr>pa_releasedAt := Some at\<rparr> else a\<lparr>pa_fencedAt := Some at\<rparr>)"

definition end_lease :: "ClaimStatus \<Rightarrow> timestamp \<Rightarrow> ConcurrencyLease \<Rightarrow> ConcurrencyLease" where
  "end_lease st at l =
     (if st = Claim_released then l\<lparr>cl_releasedAt := Some at\<rparr> else l\<lparr>cl_fencedAt := Some at\<rparr>)"

definition close_lease ::
    "(string \<Rightarrow> string) \<Rightarrow> nat \<Rightarrow> ClaimStatus \<Rightarrow> timestamp \<Rightarrow> Portfolio \<Rightarrow> uuid \<Rightarrow> Portfolio result" where
  "close_lease sha v st at s i =
     found (concurrencyLeases s) i (''Missing concurrency lease '' @ i)
       (\<lambda>p. let l = end_lease st at (ls_lease p) in
          Inr (s\<lparr>concurrencyLeases := mput i (p\<lparr>ls_lease := l,
            ls_leaseDigest := digest_of sha (enc_ConcurrencyLease l), ls_status := st, ls_version := v\<rparr>)
            (concurrencyLeases s)\<rparr>))"

definition apply_admission_ended ::
    "(string \<Rightarrow> string) \<Rightarrow> nat \<Rightarrow> ClaimStatus \<Rightarrow> uuid \<Rightarrow> string \<Rightarrow> timestamp \<Rightarrow> uuid list \<Rightarrow>
       Portfolio \<Rightarrow> Portfolio result" where
  "apply_admission_ended sha v st i reason at leaseIds s =
     found (portfolioAdmissions s) i (''Missing portfolio admission '' @ i)
       (\<lambda>p. let a = end_admission st at (as_admission p) in
          try_fold (close_lease sha v st at)
            (s\<lparr>portfolioAdmissions := mput i (p\<lparr>as_admission := a,
               as_admissionDigest := digest_of sha (enc_PortfolioAdmission a), as_status := st,
               as_reason := Some reason, as_version := v\<rparr>) (portfolioAdmissions s)\<rparr>)
            leaseIds)"

section \<open>Candidates and their work\<close>

definition apply_manifest_recorded ::
    "(string \<Rightarrow> string) \<Rightarrow> nat \<Rightarrow> CandidateDiffManifest \<Rightarrow> digest \<Rightarrow> Portfolio \<Rightarrow> Portfolio result" where
  "apply_manifest_recorded sha v m d s =
     check_digest sha (enc_CandidateDiffManifest m) d ''Candidate diff manifest event digest does not match its content''
       (Inr (s\<lparr>candidateDiffManifests := mput (cdm_manifestId m)
          \<lparr>ms_manifest = m, ms_manifestDigest = d, ms_version = v\<rparr> (candidateDiffManifests s)\<rparr>))"

definition apply_candidate_queued ::
    "(string \<Rightarrow> string) \<Rightarrow> nat \<Rightarrow> IntegrationCandidate \<Rightarrow> digest \<Rightarrow> IntegrationWork \<Rightarrow> digest \<Rightarrow>
       Portfolio \<Rightarrow> Portfolio result" where
  "apply_candidate_queued sha v c d w wd s =
     (if digest_of sha (enc_IntegrationCandidate c) \<noteq> d \<or> digest_of sha (enc_IntegrationWork w) \<noteq> wd
      then Inl ''Integration candidate event digest does not match its content''
      else Inr (s\<lparr>integrationCandidates := mput (ic_candidateId c)
             \<lparr>cs_candidate = c, cs_candidateDigest = d, cs_status = C_pending, cs_version = v\<rparr>
             (integrationCandidates s),
           integrationWork := mput (iw_workId w)
             \<lparr>ws_work = w, ws_workDigest = wd, ws_version = v\<rparr> (integrationWork s)\<rparr>))"

text \<open>What four events share: new work under its old key, and a new status of its candidate.\<close>

definition put_work ::
    "(string \<Rightarrow> string) \<Rightarrow> nat \<Rightarrow> uuid \<Rightarrow> IntegrationWorkState \<Rightarrow> IntegrationWork \<Rightarrow> Portfolio \<Rightarrow> Portfolio" where
  "put_work sha v i st w s = s\<lparr>integrationWork := mput i
     (st\<lparr>ws_work := w, ws_workDigest := digest_of sha (enc_IntegrationWork w), ws_version := v\<rparr>)
     (integrationWork s)\<rparr>"

definition set_candidate :: "nat \<Rightarrow> uuid \<Rightarrow> CandidateStatus \<Rightarrow> Portfolio \<Rightarrow> Portfolio result" where
  "set_candidate v i st s =
     found (integrationCandidates s) i (''Missing integration candidate '' @ i)
       (\<lambda>c. Inr (s\<lparr>integrationCandidates := mput i (c\<lparr>cs_status := st, cs_version := v\<rparr>)
          (integrationCandidates s)\<rparr>))"

definition on_work ::
    "(string \<Rightarrow> string) \<Rightarrow> nat \<Rightarrow> uuid \<Rightarrow> (IntegrationWork \<Rightarrow> IntegrationWork) \<Rightarrow> CandidateStatus \<Rightarrow>
       Portfolio \<Rightarrow> Portfolio result" where
  "on_work sha v i f st s =
     found (integrationWork s) i (''Missing integration work '' @ i)
       (\<lambda>p. set_candidate v (iw_candidateId (ws_work p)) st (put_work sha v i p (f (ws_work p)) s))"

definition work_leased :: "uuid \<Rightarrow> nat \<Rightarrow> timestamp \<Rightarrow> timestamp \<Rightarrow> IntegrationWork \<Rightarrow> IntegrationWork" where
  "work_leased owner t at expires w =
     w\<lparr>iw_status := W_leased, iw_leaseOwnerId := Some owner, iw_leaseFencingToken := t,
       iw_leaseAcquiredAt := Some at, iw_leaseExpiresAt := Some expires\<rparr>"

definition work_prepared :: "ImmutableReference \<Rightarrow> ImmutableReference \<Rightarrow> IntegrationWork \<Rightarrow> IntegrationWork" where
  "work_prepared head rebased w =
     w\<lparr>iw_status := W_prepared, iw_expectedHeadRef := Some head, iw_rebasedCandidateRef := Some rebased\<rparr>"

definition work_conflicted :: "IntegrationConflict \<Rightarrow> IntegrationWork \<Rightarrow> IntegrationWork" where
  "work_conflicted x w =
     w\<lparr>iw_status := W_conflicted, iw_leaseOwnerId := None, iw_leaseAcquiredAt := None,
       iw_leaseExpiresAt := None, iw_lastError := Some (''conflict:'' @ ix_conflictId x)\<rparr>"

definition work_verified :: "IntegrationVerification \<Rightarrow> IntegrationWork \<Rightarrow> IntegrationWork" where
  "work_verified vf w =
     w\<lparr>iw_status := (if iv_result vf = Verdict_passed then W_verified else W_failed),
       iw_verification := Some vf, iw_leaseOwnerId := None, iw_leaseAcquiredAt := None,
       iw_leaseExpiresAt := None,
       iw_lastError := (if iv_result vf = Verdict_passed then None else iv_failureReason vf)\<rparr>"

definition work_authorized :: "ImmutableReference \<Rightarrow> IntegrationWork \<Rightarrow> IntegrationWork" where
  "work_authorized r w = w\<lparr>iw_status := W_authorized, iw_authorizationRef := Some r\<rparr>"

definition work_promoted :: "string \<Rightarrow> IntegrationWork \<Rightarrow> IntegrationWork" where
  "work_promoted at w = w\<lparr>iw_status := W_promoted, iw_completedAt := Some at\<rparr>"

definition apply_conflict_recorded ::
    "(string \<Rightarrow> string) \<Rightarrow> nat \<Rightarrow> uuid \<Rightarrow> IntegrationConflict \<Rightarrow> digest \<Rightarrow> Portfolio \<Rightarrow> Portfolio result" where
  "apply_conflict_recorded sha v i x d s =
     check_digest sha (enc_IntegrationConflict x) d ''Integration conflict event digest does not match its content''
       (on_work sha v i (work_conflicted x) C_conflicted
          (s\<lparr>integrationConflicts := mput (ix_conflictId x)
             \<lparr>xs_conflict = x, xs_conflictDigest = d, xs_version = v\<rparr> (integrationConflicts s)\<rparr>))"

definition apply_verification_recorded ::
    "(string \<Rightarrow> string) \<Rightarrow> nat \<Rightarrow> uuid \<Rightarrow> IntegrationVerification \<Rightarrow> digest \<Rightarrow> Portfolio \<Rightarrow> Portfolio result" where
  "apply_verification_recorded sha v i vf d s =
     check_digest sha (enc_IntegrationVerification vf) d
       ''Integration verification event digest does not match its content''
       (on_work sha v i (work_verified vf)
          (if iv_result vf = Verdict_passed then C_awaiting_authorization else C_ineligible)
          (s\<lparr>integrationVerifications := mput (iv_integrationVerificationId vf)
             \<lparr>vs_verification = vf, vs_verificationDigest = d, vs_version = v\<rparr> (integrationVerifications s)\<rparr>))"

definition apply_promotion_authorized ::
    "(string \<Rightarrow> string) \<Rightarrow> nat \<Rightarrow> uuid \<Rightarrow> uuid \<Rightarrow> ImmutableReference \<Rightarrow> Portfolio \<Rightarrow> Portfolio result" where
  "apply_promotion_authorized sha v i c r s =
     found (integrationWork s) i (''Missing integration work '' @ i)
       (\<lambda>p. set_candidate v c C_authorized (put_work sha v i p (work_authorized r (ws_work p)) s))"

section \<open>Promotions\<close>

definition work_of :: "uuid \<Rightarrow> Portfolio \<Rightarrow> IntegrationWorkState option" where
  "work_of c s = find (\<lambda>e. iw_candidateId (ws_work e) = c) (mvalues (integrationWork s))"

definition promote_work :: "(string \<Rightarrow> string) \<Rightarrow> nat \<Rightarrow> PromotionReceipt \<Rightarrow> Portfolio \<Rightarrow> Portfolio" where
  "promote_work sha v r s =
     (case work_of (pr_candidateId r) s of
        None \<Rightarrow> s
      | Some p \<Rightarrow> put_work sha v (iw_workId (ws_work p)) p (work_promoted (pr_promotedAt r) (ws_work p)) s)"

definition move_head :: "nat \<Rightarrow> PromotionReceipt \<Rightarrow> Portfolio \<Rightarrow> Portfolio result" where
  "move_head v r s =
     found (integrationTargets s) (ref_id (pr_targetRef r)) (''Missing integration target '' @ ref_id (pr_targetRef r))
       (\<lambda>t. Inr (s\<lparr>integrationTargets := mput (tgt_targetRevisionId (ts_target t))
          (t\<lparr>ts_currentHeadRef := pr_newHeadRef r, ts_version := v\<rparr>) (integrationTargets s)\<rparr>))"

definition apply_promotion_recorded ::
    "(string \<Rightarrow> string) \<Rightarrow> nat \<Rightarrow> PromotionReceipt \<Rightarrow> digest \<Rightarrow> Portfolio \<Rightarrow> Portfolio result" where
  "apply_promotion_recorded sha v r d s =
     check_digest sha (enc_PromotionReceipt r) d ''Promotion receipt event digest does not match its content''
       (case set_candidate v (pr_candidateId r) C_promoted
           (s\<lparr>promotionReceipts := mput (pr_receiptId r)
              \<lparr>rs_receipt = r, rs_receiptDigest = d, rs_version = v\<rparr> (promotionReceipts s)\<rparr>) of
          Inl x \<Rightarrow> Inl x
        | Inr s' \<Rightarrow> move_head v r (promote_work sha v r s'))"

definition apply_incident_recorded ::
    "(string \<Rightarrow> string) \<Rightarrow> nat \<Rightarrow> PortfolioSloIncident \<Rightarrow> digest \<Rightarrow> Portfolio \<Rightarrow> Portfolio result" where
  "apply_incident_recorded sha v i d s =
     check_digest sha (enc_PortfolioSloIncident i) d ''Portfolio SLO incident event digest does not match its content''
       (Inr (s\<lparr>portfolioSloIncidents := mput (si_incidentId i)
          \<lparr>is_incident = i, is_incidentDigest = d, is_version = v\<rparr> (portfolioSloIncidents s)\<rparr>))"

definition apply_revision_recorded ::
    "(string \<Rightarrow> string) \<Rightarrow> nat \<Rightarrow> PacketRevision \<Rightarrow> digest \<Rightarrow> Portfolio \<Rightarrow> Portfolio result" where
  "apply_revision_recorded sha v r d s =
     check_digest sha (enc_PacketRevision r) d
       ''Decision packet revision event digest does not match its content''
       (Inr (s\<lparr>packetRevisions := mput (prv_packetRevisionId r)
          \<lparr>ds_revision = r, ds_revisionDigest = d, ds_version = v\<rparr> (packetRevisions s)\<rparr>))"

section \<open>The dispatch\<close>

fun apply_portfolio ::
    "(string \<Rightarrow> string) \<Rightarrow> nat \<Rightarrow> timestamp \<Rightarrow> PortfolioData \<Rightarrow> Portfolio \<Rightarrow> Portfolio result" where
  "apply_portfolio sha v at (PortfolioPolicyApproved p d prior) s = apply_policy_approved sha v at p d prior s"
| "apply_portfolio sha v at (IntegrationTargetApproved t d prior) s = apply_target_approved sha v at t d prior s"
| "apply_portfolio sha v at (PortfolioAdmissionGranted a d ls) s = apply_admission_granted sha v a d ls s"
| "apply_portfolio sha v at (PortfolioLeaseRenewed l d) s = apply_lease_renewed sha v l d s"
| "apply_portfolio sha v at (PortfolioAdmissionReleased i g t reason released ls) s =
     apply_admission_ended sha v Claim_released i reason released ls s"
| "apply_portfolio sha v at (PortfolioAdmissionFenced i g t reason fenced ls) s =
     apply_admission_ended sha v Claim_fenced i reason fenced ls s"
| "apply_portfolio sha v at (CandidateDiffManifestRecorded m d) s = apply_manifest_recorded sha v m d s"
| "apply_portfolio sha v at (IntegrationCandidateQueued c d w wd) s = apply_candidate_queued sha v c d w wd s"
| "apply_portfolio sha v at (IntegrationWorkLeaseAcquired i owner t expires) s =
     on_work sha v i (work_leased owner t at expires) C_preparing s"
| "apply_portfolio sha v at (IntegrationCandidatePrepared i c owner t head rebased) s =
     on_work sha v i (work_prepared head rebased) C_verifying s"
| "apply_portfolio sha v at (IntegrationConflictRecorded i owner t x d) s = apply_conflict_recorded sha v i x d s"
| "apply_portfolio sha v at (IntegrationVerificationRecorded i owner t vf d) s =
     apply_verification_recorded sha v i vf d s"
| "apply_portfolio sha v at (IntegrationPromotionAuthorized i c r head rebased) s =
     apply_promotion_authorized sha v i c r s"
| "apply_portfolio sha v at (IntegrationPromotionRecorded r d) s = apply_promotion_recorded sha v r d s"
| "apply_portfolio sha v at (PortfolioSloIncidentRecorded i d) s = apply_incident_recorded sha v i d s"
| "apply_portfolio sha v at (DecisionPacketRevisionRecorded r d) s =
     apply_revision_recorded sha v r d s"
| "apply_portfolio sha v at (Foreign ty data) s = Inr s"
| "apply_portfolio sha v at (Lifecycle e) s = Inr s"
| "apply_portfolio sha v at (Planned e) s = Inr s"

definition evolve_portfolio :: "(string \<Rightarrow> string) \<Rightarrow> Portfolio \<Rightarrow> PortfolioEvent \<Rightarrow> Portfolio result" where
  "evolve_portfolio sha s e = apply_portfolio sha (pe_streamVersion e) (pe_occurredAt e) (pi_data e) s"

end
