(* ===== verification/JsSort.thy ===== *)
theory JsSort
  imports Main
begin

text \<open>
  \<open>Array.prototype.sort\<close> with a comparison function: a stable sort, here by insertion.
  Comparisons are integers, as in JavaScript; \<open>then_by\<close> is the idiom
  \<open>first || second\<close>.
\<close>

definition then_by :: "int \<Rightarrow> int \<Rightarrow> int" where
  "then_by a b = (if a = 0 then b else a)"

fun insert_by :: "('a \<Rightarrow> 'a \<Rightarrow> int) \<Rightarrow> 'a \<Rightarrow> 'a list \<Rightarrow> 'a list" where
  "insert_by cmp x [] = [x]"
| "insert_by cmp x (y # ys) = (if cmp x y \<le> 0 then x # y # ys else y # insert_by cmp x ys)"

definition sort_by :: "('a \<Rightarrow> 'a \<Rightarrow> int) \<Rightarrow> 'a list \<Rightarrow> 'a list" where
  "sort_by cmp xs = foldr (insert_by cmp) xs []"

lemma set_insert_by [simp]: "set (insert_by cmp x ys) = insert x (set ys)"
  by (induction ys) auto

lemma set_sort_by [simp]: "set (sort_by cmp xs) = set xs"
  by (induction xs) (simp_all add: sort_by_def)

lemma sort_by_Nil [simp]: "sort_by cmp [] = []"
  by (simp add: sort_by_def)

lemma sort_by_Cons: "sort_by cmp (x # xs) = insert_by cmp x (sort_by cmp xs)"
  by (simp add: sort_by_def)

lemma sort_by_empty_iff [simp]: "sort_by cmp xs = [] \<longleftrightarrow> xs = []"
  using set_sort_by [of cmp xs] by (metis set_empty)

text \<open>
  For a comparison that is a total preorder, what the language asks of a comparison function,
  the result is sorted and its first element a smallest one.
\<close>

definition consistent :: "('a \<Rightarrow> 'a \<Rightarrow> int) \<Rightarrow> bool" where
  "consistent cmp \<longleftrightarrow> (\<forall>x y. 0 < cmp x y \<longleftrightarrow> cmp y x < 0) \<and>
     (\<forall>x y z. cmp x y \<le> 0 \<longrightarrow> cmp y z \<le> 0 \<longrightarrow> cmp x z \<le> 0)"

lemma consistent_refl: "consistent cmp \<Longrightarrow> cmp x x = 0"
  unfolding consistent_def by (metis linorder_neqE less_asym)

lemma consistent_total: "consistent cmp \<Longrightarrow> \<not> cmp x y \<le> 0 \<Longrightarrow> cmp y x \<le> 0"
  unfolding consistent_def by (simp add: not_le less_imp_le)

lemma consistent_trans: "consistent cmp \<Longrightarrow> cmp x y \<le> 0 \<Longrightarrow> cmp y z \<le> 0 \<Longrightarrow> cmp x z \<le> 0"
  unfolding consistent_def by blast

lemma sorted_insert_by:
  assumes c: "consistent cmp" and s: "sorted_wrt (\<lambda>x y. cmp x y \<le> 0) ys"
  shows "sorted_wrt (\<lambda>x y. cmp x y \<le> 0) (insert_by cmp x ys)"
  using s
proof (induction ys)
  case (Cons y ys)
  then show ?case
    using consistent_total [OF c, of x y] consistent_trans [OF c, of x y] by auto
qed simp

lemma sorted_sort_by: "consistent cmp \<Longrightarrow> sorted_wrt (\<lambda>x y. cmp x y \<le> 0) (sort_by cmp xs)"
  by (induction xs) (simp_all add: sort_by_Cons sorted_insert_by)

lemma sort_by_first:
  assumes c: "consistent cmp" and "sort_by cmp xs = y # ys" and "x \<in> set xs"
  shows "cmp y x \<le> 0"
proof -
  have "x \<in> set (y # ys)" using assms set_sort_by [of cmp xs] by simp
  then show ?thesis
    using sorted_sort_by [OF c, of xs] assms(2) consistent_refl [OF c] by auto
qed

end
