(* ===== verification/Evolve.thy ===== *)
theory Evolve
  imports Evidence
begin

text \<open>
  \<open>evolve\<close> and \<open>replayEvents\<close> of packages/kernel/src/model.ts for the streams of the run
  lifecycle: what each stored event does to the projection. The effect on a single entity
  is a definition of its own; \<open>evolve\<close> finds the entity (or throws) and stores the result.
\<close>

section \<open>Effects on one entity\<close>

text \<open>Runs.\<close>

definition run_new :: "uuid \<Rightarrow> uuid \<Rightarrow> uuid \<Rightarrow> nat \<Rightarrow> timestamp \<Rightarrow> nat \<Rightarrow> RunState" where
  "run_new rid pid wid wv at v =
     \<lparr>run_runId = rid, run_programId = pid, run_workflowId = wid, run_workflowVersion = wv,
      run_milestoneId = None, run_generationId = None, run_generation = None,
      run_status = R_created, run_createdAt = at, run_scheduledAt = None, run_startedAt = None,
      run_completedAt = None, run_cancelledAt = None, run_cancellationReason = None,
      run_failureReason = None, run_version = v\<rparr>"

definition run_scheduled :: "timestamp \<Rightarrow> nat \<Rightarrow> RunState \<Rightarrow> RunState" where
  "run_scheduled at v r = r\<lparr>run_status := R_scheduled, run_scheduledAt := Some at, run_version := v\<rparr>"

definition run_started :: "timestamp \<Rightarrow> nat \<Rightarrow> RunState \<Rightarrow> RunState" where
  "run_started at v r = r\<lparr>run_status := R_running,
     run_startedAt := (case run_startedAt r of None \<Rightarrow> Some at | Some t \<Rightarrow> Some t), run_version := v\<rparr>"

definition run_succeeded :: "timestamp \<Rightarrow> nat \<Rightarrow> RunState \<Rightarrow> RunState" where
  "run_succeeded at v r = r\<lparr>run_status := R_succeeded, run_completedAt := Some at, run_version := v\<rparr>"

definition run_failed :: "string \<Rightarrow> timestamp \<Rightarrow> nat \<Rightarrow> RunState \<Rightarrow> RunState" where
  "run_failed reason at v r = r\<lparr>run_status := R_failed, run_failureReason := Some reason,
     run_completedAt := Some at, run_version := v\<rparr>"

definition run_cancelled :: "string \<Rightarrow> timestamp \<Rightarrow> nat \<Rightarrow> RunState \<Rightarrow> RunState" where
  "run_cancelled reason at v r = r\<lparr>run_status := R_cancelled, run_cancelledAt := Some at,
     run_cancellationReason := Some reason, run_completedAt := Some at, run_version := v\<rparr>"

text \<open>Attempts.\<close>

definition attempt_allocated :: "uuid \<Rightarrow> uuid \<Rightarrow> nat \<Rightarrow> timestamp \<Rightarrow> nat \<Rightarrow> AttemptState" where
  "attempt_allocated aid rid ordinal at v =
     \<lparr>att_attemptId = aid, att_runId = rid, att_jobId = None, att_ordinal = ordinal,
      att_status = A_allocated, att_allocatedAt = at, att_startedAt = None, att_deadlineAt = None,
      att_externalRunId = None, att_driverCursor = 0, att_cumulativeUsage = None,
      att_candidateRevisionId = None, att_driverReceiptId = None, att_finishedAt = None,
      att_cancelledAt = None, att_cancellationReason = None, att_terminationReason = None,
      att_version = v\<rparr>"

definition attempt_cancelled :: "string \<Rightarrow> timestamp \<Rightarrow> nat \<Rightarrow> AttemptState \<Rightarrow> AttemptState" where
  "attempt_cancelled reason at v a = a\<lparr>att_status := A_cancelled, att_finishedAt := Some at,
     att_cancelledAt := Some at, att_cancellationReason := Some reason,
     att_terminationReason := Some TR_operator_cancelled, att_version := v\<rparr>"

definition attempt_started ::
    "uuid \<Rightarrow> uuid \<Rightarrow> uuid \<Rightarrow> nat \<Rightarrow> timestamp \<Rightarrow> timestamp \<Rightarrow> nat \<Rightarrow> AttemptState" where
  "attempt_started aid jid rid ordinal deadline at v =
     \<lparr>att_attemptId = aid, att_runId = rid, att_jobId = Some jid, att_ordinal = ordinal,
      att_status = A_starting, att_allocatedAt = at, att_startedAt = Some at,
      att_deadlineAt = Some deadline, att_externalRunId = None, att_driverCursor = 0,
      att_cumulativeUsage = None, att_candidateRevisionId = None, att_driverReceiptId = None,
      att_finishedAt = None, att_cancelledAt = None, att_cancellationReason = None,
      att_terminationReason = None, att_version = v\<rparr>"

definition attempt_running :: "string \<Rightarrow> nat \<Rightarrow> AttemptState \<Rightarrow> AttemptState" where
  "attempt_running ext v a =
     a\<lparr>att_status := A_running, att_externalRunId := Some ext, att_version := v\<rparr>"

definition attempt_observed :: "nat \<Rightarrow> DriverUsage \<Rightarrow> nat \<Rightarrow> AttemptState \<Rightarrow> AttemptState" where
  "attempt_observed cursor usage v a =
     a\<lparr>att_driverCursor := cursor, att_cumulativeUsage := Some usage, att_version := v\<rparr>"

definition attempt_verifying :: "nat \<Rightarrow> AttemptState \<Rightarrow> AttemptState" where
  "attempt_verifying v a = a\<lparr>att_status := A_verifying, att_version := v\<rparr>"

definition attempt_finished :: "AttemptFinishedData \<Rightarrow> timestamp \<Rightarrow> nat \<Rightarrow> AttemptState \<Rightarrow> AttemptState" where
  "attempt_finished d at v a = a\<lparr>att_status := af_status d, att_finishedAt := Some at,
     att_cancelledAt := (if af_status d = A_cancelled then Some at else None),
     att_cancellationReason :=
       (if af_status d = A_cancelled
        then Some (case af_detail d of Some x \<Rightarrow> x
                   | None \<Rightarrow> text_TerminationReason (af_terminationReason d))
        else None),
     att_terminationReason := Some (af_terminationReason d), att_version := v\<rparr>"

text \<open>Jobs.\<close>

definition job_new :: "JobScheduledData \<Rightarrow> timestamp \<Rightarrow> nat \<Rightarrow> JobState" where
  "job_new d at v =
     \<lparr>job_jobId = js_jobId d, job_runId = js_runId d, job_stepId = js_stepId d,
      job_capability = js_capability d, job_dependencyJobIds = js_dependencyJobIds d,
      job_status = js_initialStatus d, job_policy = js_policy d,
      job_sourceRevisionId = js_sourceRevisionId d,
      job_executionContract = js_executionContract d,
      job_executionContractDigest = js_executionContractDigest d,
      job_capabilityManifest = js_capabilityManifest d,
      job_capabilityManifestDigest = js_capabilityManifestDigest d,
      job_contextPacketId = js_contextPacketId d,
      job_contextPacketDigest = js_contextPacketDigest d,
      job_verifierContract = js_verifierContract d,
      job_verifierContractDigest = js_verifierContractDigest d,
      job_candidateRevisionId = None, job_attemptCount = 0, job_activeAttemptId = None,
      job_availableAt = at, job_leaseOwnerId = None, job_leaseFencingToken = 0,
      job_leaseAcquiredAt = None, job_leaseExpiresAt = None, job_createdAt = at,
      job_completedAt = None, job_failureReason = None, job_version = v\<rparr>"

definition job_unblocked :: "timestamp \<Rightarrow> nat \<Rightarrow> JobState \<Rightarrow> JobState" where
  "job_unblocked at v j = j\<lparr>job_status := J_ready, job_availableAt := at, job_version := v\<rparr>"

definition job_lease_acquired :: "uuid \<Rightarrow> nat \<Rightarrow> timestamp \<Rightarrow> timestamp \<Rightarrow> nat \<Rightarrow> JobState \<Rightarrow> JobState" where
  "job_lease_acquired owner token expiry at v j = j\<lparr>job_status := J_active,
     job_leaseOwnerId := Some owner, job_leaseFencingToken := token,
     job_leaseAcquiredAt := Some at, job_leaseExpiresAt := Some expiry, job_version := v\<rparr>"

definition job_lease_renewed :: "timestamp \<Rightarrow> nat \<Rightarrow> JobState \<Rightarrow> JobState" where
  "job_lease_renewed expiry v j = j\<lparr>job_leaseExpiresAt := Some expiry, job_version := v\<rparr>"

definition job_lease_cleared :: "JobState \<Rightarrow> JobState" where
  "job_lease_cleared j =
     j\<lparr>job_leaseOwnerId := None, job_leaseAcquiredAt := None, job_leaseExpiresAt := None\<rparr>"

definition job_lease_released :: "nat \<Rightarrow> JobState \<Rightarrow> JobState" where
  "job_lease_released v j = (job_lease_cleared j)\<lparr>job_version := v\<rparr>"

definition job_retry_scheduled :: "timestamp \<Rightarrow> TerminationReason \<Rightarrow> nat \<Rightarrow> JobState \<Rightarrow> JobState" where
  "job_retry_scheduled available reason v j = (job_lease_cleared j)\<lparr>job_status := J_retry_wait,
     job_activeAttemptId := None, job_availableAt := available,
     job_failureReason := Some (text_TerminationReason reason), job_version := v\<rparr>"

definition job_completed :: "JobStatus \<Rightarrow> string option \<Rightarrow> timestamp \<Rightarrow> nat \<Rightarrow> JobState \<Rightarrow> JobState" where
  "job_completed st reason at v j = (job_lease_cleared j)\<lparr>job_status := st,
     job_activeAttemptId := None, job_completedAt := Some at, job_failureReason := reason,
     job_version := v\<rparr>"

definition job_attempt_started :: "uuid \<Rightarrow> nat \<Rightarrow> JobState \<Rightarrow> JobState" where
  "job_attempt_started aid ordinal j =
     j\<lparr>job_attemptCount := ordinal, job_activeAttemptId := Some aid\<rparr>"

text \<open>Outbox messages.\<close>

definition outbox_new :: "OutboxEnqueuedData \<Rightarrow> timestamp \<Rightarrow> nat \<Rightarrow> OutboxState" where
  "outbox_new d at v =
     \<lparr>out_outboxId = oe_outboxId d, out_runId = oe_runId d, out_jobId = oe_jobId d,
      out_attemptId = oe_attemptId d, out_effectKey = oe_effectKey d, out_effect = oe_effect d,
      out_status = O_pending, out_deliveryAttempts = 0, out_retryDelaysMs = oe_retryDelaysMs d,
      out_availableAt = at, out_leaseOwnerId = None, out_leaseFencingToken = 0,
      out_leaseAcquiredAt = None, out_leaseExpiresAt = None, out_externalEffectId = None,
      out_createdAt = at, out_deliveredAt = None, out_lastError = None, out_version = v\<rparr>"

definition outbox_lease_acquired ::
    "uuid \<Rightarrow> nat \<Rightarrow> timestamp \<Rightarrow> nat \<Rightarrow> timestamp \<Rightarrow> nat \<Rightarrow> OutboxState \<Rightarrow> OutboxState" where
  "outbox_lease_acquired owner token expiry deliveries at v b = b\<lparr>out_status := O_leased,
     out_deliveryAttempts := deliveries, out_leaseOwnerId := Some owner,
     out_leaseFencingToken := token, out_leaseAcquiredAt := Some at,
     out_leaseExpiresAt := Some expiry, out_version := v\<rparr>"

definition outbox_lease_cleared :: "OutboxState \<Rightarrow> OutboxState" where
  "outbox_lease_cleared b =
     b\<lparr>out_leaseOwnerId := None, out_leaseAcquiredAt := None, out_leaseExpiresAt := None\<rparr>"

definition outbox_delivery_failed ::
    "timestamp option \<Rightarrow> bool \<Rightarrow> string \<Rightarrow> nat \<Rightarrow> OutboxState \<Rightarrow> OutboxState" where
  "outbox_delivery_failed available dead error v b = (outbox_lease_cleared b)
     \<lparr>out_status := (if dead then O_dead_letter else O_pending),
      out_availableAt := (case available of None \<Rightarrow> out_availableAt b | Some t \<Rightarrow> t),
      out_lastError := Some error, out_version := v\<rparr>"

definition outbox_delivered :: "string \<Rightarrow> timestamp \<Rightarrow> nat \<Rightarrow> OutboxState \<Rightarrow> OutboxState" where
  "outbox_delivered ext at v b = (outbox_lease_cleared b)\<lparr>out_status := O_delivered,
     out_externalEffectId := Some ext, out_deliveredAt := Some at, out_lastError := None,
     out_version := v\<rparr>"

definition outbox_obsoleted :: "string \<Rightarrow> nat \<Rightarrow> OutboxState \<Rightarrow> OutboxState" where
  "outbox_obsoleted reason v b = (outbox_lease_cleared b)\<lparr>out_status := O_obsolete,
     out_lastError := Some reason, out_version := v\<rparr>"

text \<open>Verifications.\<close>

definition verification_new :: "VerificationRequest \<Rightarrow> timestamp \<Rightarrow> nat \<Rightarrow> VerificationState" where
  "verification_new q at v =
     \<lparr>ver_request = q, ver_artifactManifestId = None, ver_status = V_requested, ver_result = None,
      ver_resultDigest = None, ver_receiptDigest = None, ver_exitCode = None,
      ver_failureReason = None, ver_requestedAt = at, ver_completedAt = None, ver_version = v\<rparr>"

fun verification_status :: "VerificationOutcome \<Rightarrow> VerificationStatus" where
  "verification_status VO_passed = V_passed"
| "verification_status VO_failed = V_failed"
| "verification_status VO_invalid = V_invalid"

definition verification_recorded ::
    "VerificationReceiptData \<Rightarrow> timestamp \<Rightarrow> nat \<Rightarrow> VerificationState \<Rightarrow> VerificationState" where
  "verification_recorded d at v r = r\<lparr>ver_artifactManifestId := Some (vrd_artifactManifestId d),
     ver_status := verification_status (vrd_status d), ver_result := Some (vrd_result d),
     ver_resultDigest := Some (vrd_resultDigest d), ver_receiptDigest := Some (vrd_receiptDigest d),
     ver_exitCode := vrd_exitCode d, ver_failureReason := vrd_failureReason d,
     ver_completedAt := Some at, ver_version := v\<rparr>"

definition verification_cancelled :: "string \<Rightarrow> timestamp \<Rightarrow> nat \<Rightarrow> VerificationState \<Rightarrow> VerificationState" where
  "verification_cancelled reason at v r = r\<lparr>ver_status := V_cancelled,
     ver_failureReason := Some reason, ver_completedAt := Some at, ver_version := v\<rparr>"

section \<open>Storing the effect\<close>

text \<open>
  \<open>required\<close>: reading an entity that is not there is an exception. An updated entity is
  stored under its own identifier, as the source does.
\<close>

definition required :: "'a option \<Rightarrow> string \<Rightarrow> 'a result" where
  "required x message = (case x of None \<Rightarrow> Inl message | Some v \<Rightarrow> Inr v)"

definition on_run :: "uuid \<Rightarrow> (RunState \<Rightarrow> RunState) \<Rightarrow> ProjectionState \<Rightarrow> ProjectionState result" where
  "on_run i f st = (case required (mget (runs st) i) (''Missing run '' @ i) of Inl e \<Rightarrow> Inl e
     | Inr r \<Rightarrow> Inr (st\<lparr>runs := mput (run_runId r) (f r) (runs st)\<rparr>))"

definition on_attempt ::
    "uuid \<Rightarrow> (AttemptState \<Rightarrow> AttemptState) \<Rightarrow> ProjectionState \<Rightarrow> ProjectionState result" where
  "on_attempt i f st = (case required (mget (attempts st) i) (''Missing attempt '' @ i) of Inl e \<Rightarrow> Inl e
     | Inr a \<Rightarrow> Inr (st\<lparr>attempts := mput (att_attemptId a) (f a) (attempts st)\<rparr>))"

definition on_job :: "uuid \<Rightarrow> (JobState \<Rightarrow> JobState) \<Rightarrow> ProjectionState \<Rightarrow> ProjectionState result" where
  "on_job i f st = (case required (mget (jobs st) i) (''Missing job '' @ i) of Inl e \<Rightarrow> Inl e
     | Inr j \<Rightarrow> Inr (st\<lparr>jobs := mput (job_jobId j) (f j) (jobs st)\<rparr>))"

definition on_outbox ::
    "uuid \<Rightarrow> (OutboxState \<Rightarrow> OutboxState) \<Rightarrow> ProjectionState \<Rightarrow> ProjectionState result" where
  "on_outbox i f st = (case required (mget (outbox st) i) (''Missing outbox '' @ i) of Inl e \<Rightarrow> Inl e
     | Inr b \<Rightarrow> Inr (st\<lparr>outbox := mput (out_outboxId b) (f b) (outbox st)\<rparr>))"

definition on_verification ::
    "uuid \<Rightarrow> (VerificationState \<Rightarrow> VerificationState) \<Rightarrow> ProjectionState \<Rightarrow> ProjectionState result" where
  "on_verification i f st =
     (case required (mget (verifications st) i) (''Missing verification '' @ i) of Inl e \<Rightarrow> Inl e
     | Inr v \<Rightarrow> Inr (st\<lparr>verifications := mput (ver_verificationId v) (f v) (verifications st)\<rparr>))"

section \<open>Checks an event must pass\<close>

definition revision_digest_ok :: "(string \<Rightarrow> string) \<Rightarrow> SourceRevision \<Rightarrow> bool" where
  "revision_digest_ok sha r \<longleftrightarrow> sr_revisionDigest r = sourceRevisionDigest sha r"

text \<open>
  A version 2 job must be bound, in its contract, its manifest and its own fields, to a
  compiled context packet; a version 1 job must carry no context binding.
\<close>

definition job_context_bound :: "ProjectionState \<Rightarrow> JobScheduledData \<Rightarrow> bool" where
  "job_context_bound st d =
     (case js_executionContract d of
        Some (ContractV2 _ _ cid cdig) \<Rightarrow>
          (case (js_capabilityManifest d, Option.bind (js_contextPacketId d) (mget (contextPackets st))) of
             (Some (ManifestV2 _ mid mdig), Some p) \<Rightarrow>
               js_contextPacketDigest d = Some (cps_packetDigest p) \<and>
               cid = Some (cp_contextPacketId (cps_packet p)) \<and>
               cdig = Some (cps_packetDigest p) \<and>
               mid = Some (cp_contextPacketId (cps_packet p)) \<and>
               mdig = Some (cps_packetDigest p)
           | _ \<Rightarrow> False)
      | _ \<Rightarrow> True)"

definition job_context_absent :: "JobScheduledData \<Rightarrow> bool" where
  "job_context_absent d =
     (case js_executionContract d of
        Some (ContractV1 _ _) \<Rightarrow>
          js_contextPacketId d = None \<and> js_contextPacketDigest d = None \<and>
          map_option cm_schemaVersion (js_capabilityManifest d) \<noteq> Some 2
      | _ \<Rightarrow> True)"

text \<open>The sequence numbers of a batch of driver events continue the cursor without a gap.\<close>

fun contiguous_from :: "nat \<Rightarrow> DriverProtocolEvent list \<Rightarrow> bool" where
  "contiguous_from expected [] = True"
| "contiguous_from expected (e # es) = (de_sequence e = expected \<and> contiguous_from (Suc expected) es)"

definition driver_events_error :: "nat \<Rightarrow> DriverEventsObservedData \<Rightarrow> string option" where
  "driver_events_error cursor d =
     (if deo_afterSequence d \<noteq> cursor
      then Some ''Driver event replay cursor does not match the attempt''
      else if \<not> contiguous_from (Suc cursor) (deo_events d)
      then Some ''Driver event replay sequence is not contiguous''
      else if deo_cursor d \<noteq> cursor + length (deo_events d)
      then Some ''Driver event replay cursor does not match its events''
      else None)"

text \<open>The driver names a receipt of either schema version may carry.\<close>

definition receipt_driver_ok :: "DriverReceipt \<Rightarrow> bool" where
  "receipt_driver_ok r =
     (case rc_version r of
        ReceiptV1 \<Rightarrow> rc_driver r = ''generic-command''
      | ReceiptV2 _ _ cost \<Rightarrow>
          (rc_driver r = ''generic-command'' \<or> rc_driver r = ''trusted-cost-adapter-v1'') \<and>
          (rc_driver r = ''generic-command'' \<longrightarrow> (case cost of CostUnavailable _ \<Rightarrow> True | _ \<Rightarrow> False)))"

text \<open>A version 2 receipt repeats the context binding of its job; a version 1 job has none.\<close>

definition receipt_context_ok :: "DriverReceipt \<Rightarrow> JobState \<Rightarrow> bool" where
  "receipt_context_ok r j =
     (case rc_version r of
        ReceiptV2 cid cdig _ \<Rightarrow>
          job_contextPacketId j = Some cid \<and> job_contextPacketDigest j = Some cdig \<and>
          map_option ec_protocolVersion (job_executionContract j) = Some 2 \<and>
          map_option cm_schemaVersion (job_capabilityManifest j) = Some 2
      | ReceiptV1 \<Rightarrow>
          job_contextPacketId j = None \<and> job_contextPacketDigest j = None \<and>
          map_option ec_protocolVersion (job_executionContract j) \<noteq> Some 2 \<and>
          map_option cm_schemaVersion (job_capabilityManifest j) \<noteq> Some 2)"

definition driver_receipt_identity_ok ::
    "(string \<Rightarrow> string) \<Rightarrow> DriverReceiptRecord \<Rightarrow> AttemptState \<Rightarrow> JobState \<Rightarrow> bool" where
  "driver_receipt_identity_ok sha d a j \<longleftrightarrow>
     (let r = drr_receipt d in
      drr_receiptDigest d = driverReceiptDigest sha r \<and>
      rc_receiptDigest r = drr_receiptDigest d \<and>
      rc_runId r = drr_runId d \<and> rc_jobId r = drr_jobId d \<and>
      rc_attemptId r = drr_attemptId d \<and>
      rc_baseRevisionId r = drr_baseRevisionId d \<and>
      rc_candidateRevisionId r = drr_candidateRevisionId d \<and>
      rc_outcome r = drr_outcome d \<and> rc_terminalReason r = drr_terminalReason d \<and>
      rc_eventCount r = att_driverCursor a \<and>
      receipt_driver_ok r \<and> receipt_context_ok r j)"

definition attempt_receipted :: "DriverReceiptRecord \<Rightarrow> AttemptState \<Rightarrow> AttemptState" where
  "attempt_receipted d a = a\<lparr>att_candidateRevisionId := drr_candidateRevisionId d,
     att_driverReceiptId := Some (drr_driverReceiptId d)\<rparr>"

definition job_receipted :: "DriverReceiptRecord \<Rightarrow> JobState \<Rightarrow> JobState" where
  "job_receipted d j = j\<lparr>job_candidateRevisionId := drr_candidateRevisionId d\<rparr>"

definition verification_receipt_ok ::
    "(string \<Rightarrow> string) \<Rightarrow> VerificationReceiptData \<Rightarrow> VerificationState \<Rightarrow> ArtifactManifest \<Rightarrow> bool" where
  "verification_receipt_ok sha d v m \<longleftrightarrow>
     verificationResultDigest sha (vrd_result d) = vrd_resultDigest d \<and>
     vr_artifactManifestDigest (vrd_result d) = am_manifestDigest m \<and>
     verificationReceiptDigest sha
       (receiptIdentity v (am_artifactManifestId m) (am_manifestDigest m)
          (verificationResultDigest sha (vrd_result d))) = vrd_receiptDigest d"

section \<open>The transition of one event\<close>

definition apply_JobScheduled ::
    "timestamp \<Rightarrow> nat \<Rightarrow> JobScheduledData \<Rightarrow> ProjectionState \<Rightarrow> ProjectionState result" where
  "apply_JobScheduled at v d st =
     (if \<not> job_context_bound st d
      then Inl ''Workflow V3 job is not bound to its immutable context packet''
      else if \<not> job_context_absent d
      then Inl ''Workflow V1/V2 job cannot carry a program context binding''
      else Inr (st\<lparr>jobs := mput (js_jobId d) (job_new d at v) (jobs st)\<rparr>))"

definition apply_AttemptStarted ::
    "timestamp \<Rightarrow> nat \<Rightarrow> uuid \<Rightarrow> uuid \<Rightarrow> uuid \<Rightarrow> nat \<Rightarrow> timestamp \<Rightarrow> ProjectionState \<Rightarrow>
       ProjectionState result" where
  "apply_AttemptStarted at v aid jid rid ordinal deadline st =
     on_job jid (job_attempt_started aid ordinal)
       (st\<lparr>attempts := mput aid (attempt_started aid jid rid ordinal deadline at v) (attempts st)\<rparr>)"

definition apply_DriverEventsObserved ::
    "nat \<Rightarrow> DriverEventsObservedData \<Rightarrow> ProjectionState \<Rightarrow> ProjectionState result" where
  "apply_DriverEventsObserved v d st =
     (case required (mget (attempts st) (deo_attemptId d)) (''Missing attempt '' @ deo_attemptId d) of
        Inl e \<Rightarrow> Inl e
      | Inr a \<Rightarrow>
          (case driver_events_error (att_driverCursor a) d of
             Some e \<Rightarrow> Inl e
           | None \<Rightarrow> on_attempt (deo_attemptId d)
                       (attempt_observed (deo_cursor d) (deo_cumulativeUsage d) v) st))"

definition apply_ArtifactManifestRecorded ::
    "(string \<Rightarrow> string) \<Rightarrow> timestamp \<Rightarrow> nat \<Rightarrow> ArtifactManifest \<Rightarrow> ProjectionState \<Rightarrow>
       ProjectionState result" where
  "apply_ArtifactManifestRecorded sha at v m st =
     (if am_manifestDigest m \<noteq> artifactManifestDigest sha (am_entries m)
      then Inl ''Artifact manifest event digest does not match its content''
      else Inr (st\<lparr>artifactManifests := mput (am_artifactManifestId m)
             \<lparr>ams_manifest = m, ams_createdAt = at, ams_version = v\<rparr> (artifactManifests st)\<rparr>))"

definition apply_DriverReceiptRecorded ::
    "(string \<Rightarrow> string) \<Rightarrow> timestamp \<Rightarrow> nat \<Rightarrow> DriverReceiptRecord \<Rightarrow> ProjectionState \<Rightarrow>
       ProjectionState result" where
  "apply_DriverReceiptRecorded sha at v d st =
     (case required (mget (attempts st) (drr_attemptId d)) (''Missing attempt '' @ drr_attemptId d) of
        Inl e \<Rightarrow> Inl e
      | Inr a \<Rightarrow>
        (case required (mget (jobs st) (drr_jobId d)) (''Missing job '' @ drr_jobId d) of
           Inl e \<Rightarrow> Inl e
         | Inr j \<Rightarrow>
             if \<not> driver_receipt_identity_ok sha d a j
             then Inl ''Driver receipt event identity does not match its content''
             else Inr (st\<lparr>driverReceipts := mput (drr_driverReceiptId d)
                           \<lparr>drs_record = d, drs_recordedAt = at, drs_version = v\<rparr> (driverReceipts st),
                         attempts := mput (att_attemptId a) (attempt_receipted d a) (attempts st),
                         jobs := mput (job_jobId j) (job_receipted d j) (jobs st)\<rparr>)))"

definition apply_VerificationReceiptRecorded ::
    "(string \<Rightarrow> string) \<Rightarrow> timestamp \<Rightarrow> nat \<Rightarrow> VerificationReceiptData \<Rightarrow> ProjectionState \<Rightarrow>
       ProjectionState result" where
  "apply_VerificationReceiptRecorded sha at v d st =
     (case required (mget (verifications st) (vrd_verificationId d))
             (''Missing verification '' @ vrd_verificationId d) of
        Inl e \<Rightarrow> Inl e
      | Inr ver \<Rightarrow>
        (case required (mget (artifactManifests st) (vrd_artifactManifestId d))
                (''Missing artifact manifest '' @ vrd_artifactManifestId d) of
           Inl e \<Rightarrow> Inl e
         | Inr m \<Rightarrow>
             if \<not> verification_receipt_ok sha d ver (ams_manifest m)
             then Inl ''Verification receipt event digest does not match its content''
             else on_verification (vrd_verificationId d) (verification_recorded d at v) st))"

text \<open>
  The cases of the source's \<open>switch\<close>, for the event's time \<open>at\<close> and stream version \<open>v\<close>.
\<close>

primrec apply_event ::
    "(string \<Rightarrow> string) \<Rightarrow> timestamp \<Rightarrow> nat \<Rightarrow> EventData \<Rightarrow> ProjectionState \<Rightarrow>
       ProjectionState result" where
  "apply_event sha at v (SourceRevisionRegistered r) =
     (\<lambda>st. if \<not> revision_digest_ok sha r
       then Inl ''Source revision event digest does not match its content''
       else Inr (st\<lparr>sourceRevisions := mput (sr_revisionId r)
              \<lparr>srs_revision = r, srs_capturedAt = at, srs_version = v\<rparr> (sourceRevisions st)\<rparr>))"
| "apply_event sha at v (ProgramCreated pid name) =
     (\<lambda>st. Inr (st\<lparr>programs := mput pid
         \<lparr>prog_programId = pid, prog_name = name, prog_programMode = ''legacy_v1'',
          prog_phase = ''legacy_active'', prog_createdAt = at, prog_version = v\<rparr> (programs st)\<rparr>))"
| "apply_event sha at v (WorkflowDefinitionRegistered w digest) =
     (\<lambda>st. if v \<noteq> wd_version w
       then Inl ''Workflow business version must match its event stream version''
       else Inr (st\<lparr>workflows := mput (workflowKey (wd_workflowId w) (wd_version w))
              \<lparr>wf_workflowId = wd_workflowId w, wf_version = wd_version w, wf_name = wd_name w,
               wf_definition = w, wf_definitionDigest = digest, wf_registeredAt = at,
               wf_streamVersion = v\<rparr> (workflows st)\<rparr>))"
| "apply_event sha at v (ContextPacketCompiled p digest) =
     (\<lambda>st. if digest_of sha (enc_ContextPacket p) \<noteq> digest
       then Inl ''Context packet event digest does not match its content''
       else Inr (st\<lparr>contextPackets := mput (cp_contextPacketId p)
              \<lparr>cps_packet = p, cps_packetDigest = digest, cps_version = v\<rparr> (contextPackets st)\<rparr>))"
| "apply_event sha at v (RunCreated rid pid wid wv) =
     (\<lambda>st. Inr (st\<lparr>runs := mput rid (run_new rid pid wid wv at v) (runs st)\<rparr>))"
| "apply_event sha at v (RunScheduled rid) = on_run rid (run_scheduled at v)"
| "apply_event sha at v (RunStarted rid) = on_run rid (run_started at v)"
| "apply_event sha at v (RunSucceeded rid) = on_run rid (run_succeeded at v)"
| "apply_event sha at v (RunFailed rid reason) = on_run rid (run_failed reason at v)"
| "apply_event sha at v (RunCancelled rid reason) = on_run rid (run_cancelled reason at v)"
| "apply_event sha at v (AttemptAllocated aid rid ordinal) =
     (\<lambda>st. Inr (st\<lparr>attempts := mput aid (attempt_allocated aid rid ordinal at v) (attempts st)\<rparr>))"
| "apply_event sha at v (AttemptCancelled aid rid reason) = on_attempt aid (attempt_cancelled reason at v)"
| "apply_event sha at v (JobScheduled d) = apply_JobScheduled at v d"
| "apply_event sha at v (JobUnblocked jid rid) = on_job jid (job_unblocked at v)"
| "apply_event sha at v (JobLeaseAcquired jid rid owner token expiry resumed) =
     on_job jid (job_lease_acquired owner token expiry at v)"
| "apply_event sha at v (JobLeaseRenewed jid rid owner token expiry) =
     on_job jid (job_lease_renewed expiry v)"
| "apply_event sha at v (JobLeaseReleased jid rid owner token) = on_job jid (job_lease_released v)"
| "apply_event sha at v (JobRetryScheduled jid rid available reason) =
     on_job jid (job_retry_scheduled available reason v)"
| "apply_event sha at v (JobSucceeded jid rid) = on_job jid (job_completed J_succeeded None at v)"
| "apply_event sha at v (JobFailed jid rid reason) =
     on_job jid (job_completed J_failed (Some reason) at v)"
| "apply_event sha at v (JobCancelled jid rid reason) =
     on_job jid (job_completed J_cancelled (Some (text_TerminationReason reason)) at v)"
| "apply_event sha at v (AttemptStarted aid jid rid ordinal deadline) =
     apply_AttemptStarted at v aid jid rid ordinal deadline"
| "apply_event sha at v (AttemptRunning aid jid rid ext) = on_attempt aid (attempt_running ext v)"
| "apply_event sha at v (DriverEventsObserved d) = apply_DriverEventsObserved v d"
| "apply_event sha at v (AttemptVerificationRequested aid jid rid vid) =
     on_attempt aid (attempt_verifying v)"
| "apply_event sha at v (AttemptFinished d) = on_attempt (af_attemptId d) (attempt_finished d at v)"
| "apply_event sha at v (OutboxEnqueued d) =
     (\<lambda>st. Inr (st\<lparr>outbox := mput (oe_outboxId d) (outbox_new d at v) (outbox st)\<rparr>))"
| "apply_event sha at v (OutboxLeaseAcquired oid rid owner token expiry deliveries) =
     on_outbox oid (outbox_lease_acquired owner token expiry deliveries at v)"
| "apply_event sha at v (OutboxDeliveryFailed oid rid available dead err) =
     on_outbox oid (outbox_delivery_failed available dead err v)"
| "apply_event sha at v (OutboxDelivered oid rid ext) = on_outbox oid (outbox_delivered ext at v)"
| "apply_event sha at v (OutboxObsoleted oid rid reason) = on_outbox oid (outbox_obsoleted reason v)"
| "apply_event sha at v (ArtifactManifestRecorded m) = apply_ArtifactManifestRecorded sha at v m"
| "apply_event sha at v (DriverReceiptRecorded d) = apply_DriverReceiptRecorded sha at v d"
| "apply_event sha at v (ApprovalRequestRecorded q) =
     (\<lambda>st. Inr (st\<lparr>approvalRequests := mput (apr_approvalRequestId q)
         \<lparr>ars_request = q, ars_requestedAt = at, ars_version = v\<rparr> (approvalRequests st)\<rparr>))"
| "apply_event sha at v (VerificationRequested q) =
     (\<lambda>st. Inr (st\<lparr>verifications := mput (vq_verificationId q) (verification_new q at v)
         (verifications st)\<rparr>))"
| "apply_event sha at v (VerificationReceiptRecorded d) = apply_VerificationReceiptRecorded sha at v d"
| "apply_event sha at v (VerificationCancelled vid rid reason) =
     on_verification vid (verification_cancelled reason at v)"

text \<open>\<open>next.lastAppliedPosition\<close> is set before the \<open>switch\<close>.\<close>

definition evolve :: "(string \<Rightarrow> string) \<Rightarrow> ProjectionState \<Rightarrow> StoredEvent \<Rightarrow> ProjectionState result" where
  "evolve sha st e = apply_event sha (se_occurredAt e) (se_streamVersion e) (ev_data e)
     (st\<lparr>lastAppliedPosition := se_globalPosition e\<rparr>)"

definition replayEvents :: "(string \<Rightarrow> string) \<Rightarrow> StoredEvent list \<Rightarrow> ProjectionState result" where
  "replayEvents sha es = try_fold (evolve sha) emptyProjectionState es"

end
