(* ===== verification/Transitions.thy ===== *)
theory Transitions
  imports Evolve
begin

text \<open>
  What the branches of \<open>decide\<close> (packages/kernel/src/domain.ts) share: decisions and errors,
  the lease checks, and the event lists with which an attempt fails, a job is cancelled and a
  run is torn down.
\<close>

section \<open>Decisions\<close>

text \<open>The error codes the modelled branches can return, by their names in the source.\<close>

datatype DomainErrorCode =
    PROGRAM_NOT_FOUND | PROGRAM_ALREADY_EXISTS | WORKFLOW_NOT_FOUND | WORKFLOW_VERSION_CONFLICT
  | RUN_NOT_FOUND | RUN_ALREADY_EXISTS | RUN_TERMINAL | RUN_NOT_SCHEDULABLE
  | RUN_ALREADY_SCHEDULED | SCHEDULE_MISMATCH | LEGACY_ACTIVE_ATTEMPT | ATTEMPT_NOT_FOUND
  | ATTEMPT_TERMINAL | ATTEMPT_NOT_ACTIVE | COMMAND_RETIRED | JOB_NOT_FOUND | JOB_NOT_CLAIMABLE
  | JOB_LEASE_CONFLICT | JOB_LEASE_EXPIRED | OUTBOX_NOT_FOUND | OUTBOX_NOT_CLAIMABLE
  | OUTBOX_LEASE_CONFLICT | OUTBOX_LEASE_EXPIRED | VERIFICATION_REQUIRED
  | SOURCE_REVISION_NOT_FOUND | SOURCE_REVISION_ALREADY_EXISTS | SOURCE_REVISION_CONFLICT
  | VERIFICATION_NOT_FOUND | VERIFICATION_NOT_ACTIVE | EVIDENCE_DIGEST_MISMATCH
  | ARTIFACT_MANIFEST_CONFLICT | PROGRAM_NOT_ADVANCEABLE | APPROVAL_REQUIRES_OPERATOR
  | GRAPH_INVALID | ATTENTION_POLICY_CONFLICT | DECISION_PACKET_STALE | DECISION_ACTION_MISMATCH
  | MILESTONE_NOT_FOUND | MILESTONE_ALREADY_EXISTS | MILESTONE_NOT_STARTABLE | PROGRAM_NOT_STARTABLE
  | INTERVIEW_NOT_FOUND | OUTCOME_PACKET_NOT_FOUND | ISSUE_NOT_FOUND | ATTENTION_SPAN_NOT_FOUND
  | MEASUREMENT_NOT_READY

datatype Detail = DText string | DNum nat

record DomainError =
  err_code :: DomainErrorCode
  err_message :: string
  err_details :: "(string \<times> Detail) list"

datatype EntityKind =
    K_source_revision | K_program | K_workflow | K_run | K_job | K_attempt | K_outbox
  | K_verification | K_driver_receipt

text \<open>
  A decision is accepted events, a domain error, or (only where the source contains a
  \<open>throw\<close>) an exception.
\<close>

datatype Decision =
    Accept "DomainEventInput list" EntityKind string
  | Reject DomainError
  | Throw string

definition failure :: "DomainErrorCode \<Rightarrow> string \<Rightarrow> (string \<times> Detail) list \<Rightarrow> DomainError" where
  "failure code message details =
     \<lparr>err_code = code, err_message = message, err_details = details\<rparr>"

section \<open>Constants and small helpers\<close>

definition OUTBOX_RETRY_DELAYS :: "nat list" where
  "OUTBOX_RETRY_DELAYS = [250, 1000, 5000, 10000, 30000, 30000, 30000]"

definition addMilliseconds :: "timestamp \<Rightarrow> nat \<Rightarrow> timestamp" where
  "addMilliseconds t ms = t + int ms"

definition atOrBefore :: "timestamp \<Rightarrow> timestamp \<Rightarrow> bool" where
  "atOrBefore t now \<longleftrightarrow> t \<le> now"

text \<open>JavaScript truthiness of an optional string: the empty string counts as absent.\<close>

fun truthy :: "string option \<Rightarrow> string option" where
  "truthy None = None"
| "truthy (Some s) = (if s = [] then None else Some s)"

text \<open>\<open>delays[n - 1] ?? 0\<close>: out of range, and at index -1, the delay is 0.\<close>

definition delay_after :: "nat list \<Rightarrow> nat \<Rightarrow> nat" where
  "delay_after delays n = (if 1 \<le> n \<and> n \<le> length delays then delays ! (n - 1) else 0)"

definition cancelOutboxId :: "(string \<Rightarrow> string) \<Rightarrow> uuid \<Rightarrow> uuid" where
  "cancelOutboxId sha attemptId = deterministicUuid sha (attemptId @ '':agent.cancel'')"

definition outboxEnqueued :: "uuid \<Rightarrow> JobState \<Rightarrow> uuid \<Rightarrow> OutboxEffect \<Rightarrow> DomainEventInput" where
  "outboxEnqueued oid job attemptId effect =
     event ST_outbox oid (OutboxEnqueued
       \<lparr>oe_outboxId = oid, oe_runId = job_runId job, oe_jobId = job_jobId job,
        oe_attemptId = attemptId, oe_effectKey = oid, oe_effect = effect,
        oe_retryDelaysMs = OUTBOX_RETRY_DELAYS\<rparr>)"

definition attemptFinished ::
    "JobState \<Rightarrow> uuid \<Rightarrow> AttemptStatus \<Rightarrow> TerminationReason \<Rightarrow> string option \<Rightarrow> DomainEventInput" where
  "attemptFinished job aid status reason detail =
     event ST_attempt aid (AttemptFinished
       \<lparr>af_attemptId = aid, af_jobId = job_jobId job, af_runId = job_runId job,
        af_status = status, af_terminationReason = reason, af_detail = detail\<rparr>)"

section \<open>Lease checks\<close>

definition validateJobLease :: "JobState \<Rightarrow> uuid \<Rightarrow> nat \<Rightarrow> timestamp \<Rightarrow> DomainError option" where
  "validateJobLease job owner token now =
     (if job_leaseOwnerId job \<noteq> Some owner \<or> job_leaseFencingToken job \<noteq> token
      then Some (failure JOB_LEASE_CONFLICT ''Job lease owner or fencing token does not match''
             [(''jobId'', DText (job_jobId job)), (''fencingToken'', DNum token)])
      else case job_leaseExpiresAt job of
          None \<Rightarrow> Some (failure JOB_LEASE_EXPIRED ''Job lease has expired''
                   [(''jobId'', DText (job_jobId job))])
        | Some expiry \<Rightarrow>
            if atOrBefore expiry now
            then Some (failure JOB_LEASE_EXPIRED ''Job lease has expired''
                   [(''jobId'', DText (job_jobId job))])
            else None)"

definition validateOutboxLease :: "OutboxState \<Rightarrow> uuid \<Rightarrow> nat \<Rightarrow> timestamp \<Rightarrow> DomainError option" where
  "validateOutboxLease b owner token now =
     (if out_leaseOwnerId b \<noteq> Some owner \<or> out_leaseFencingToken b \<noteq> token
      then Some (failure OUTBOX_LEASE_CONFLICT ''Outbox lease owner or fencing token does not match''
             [(''outboxId'', DText (out_outboxId b)), (''fencingToken'', DNum token)])
      else case out_leaseExpiresAt b of
          None \<Rightarrow> Some (failure OUTBOX_LEASE_EXPIRED ''Outbox lease has expired''
                   [(''outboxId'', DText (out_outboxId b))])
        | Some expiry \<Rightarrow>
            if atOrBefore expiry now
            then Some (failure OUTBOX_LEASE_EXPIRED ''Outbox lease has expired''
                   [(''outboxId'', DText (out_outboxId b))])
            else None)"

section \<open>Tearing down an attempt\<close>

text \<open>
  The undelivered messages of an attempt other than its cancellations become obsolete, and
  its open verification is cancelled.
\<close>

definition undelivered_work :: "uuid \<Rightarrow> OutboxState \<Rightarrow> bool" where
  "undelivered_work aid b \<longleftrightarrow> out_attemptId b = aid \<and> \<not> is_agent_cancel (out_effect b) \<and>
     (out_status b = O_pending \<or> out_status b = O_leased)"

definition obsoleteOutbox ::
    "ProjectionState \<Rightarrow> uuid \<Rightarrow> uuid option \<Rightarrow> TerminationReason \<Rightarrow> DomainEventInput list" where
  "obsoleteOutbox st aid excluded reason =
     [event ST_outbox (out_outboxId b)
        (OutboxObsoleted (out_outboxId b) (out_runId b) (text_TerminationReason reason)).
      b \<leftarrow> mvalues (outbox st), undelivered_work aid b \<and> Some (out_outboxId b) \<noteq> excluded]"

definition cancelVerification ::
    "ProjectionState \<Rightarrow> JobState \<Rightarrow> uuid \<Rightarrow> TerminationReason \<Rightarrow> DomainEventInput list" where
  "cancelVerification st job aid reason =
     (case find (\<lambda>v. ver_attemptId v = aid \<and> ver_status v = V_requested) (mvalues (verifications st)) of
        None \<Rightarrow> []
      | Some v \<Rightarrow> [event ST_verification (ver_verificationId v)
          (VerificationCancelled (ver_verificationId v) (job_runId job)
             (text_TerminationReason reason))])"

text \<open>
  \<open>cancellationEvents\<close>, returning with its events the set \<open>generatedOutboxIds\<close> it updates.
  The reason of the external cancellation is \<open>operator_cancelled\<close> in both arms of the
  source's conditional.
\<close>

definition cancelEffect ::
    "(string \<Rightarrow> string) \<Rightarrow> ProjectionState \<Rightarrow> JobState \<Rightarrow> AttemptState \<Rightarrow> uuid list \<Rightarrow>
       DomainEventInput list \<times> uuid list" where
  "cancelEffect sha st job a gen =
     (case truthy (att_externalRunId a) of
        None \<Rightarrow> ([], gen)
      | Some ext \<Rightarrow>
          (let oid = cancelOutboxId sha (att_attemptId a) in
           if \<not> mhas (outbox st) oid \<and> oid \<notin> set gen
           then ([outboxEnqueued oid job (att_attemptId a)
                    (EffectAgentCancel ext CR_operator_cancelled (att_attemptId a)
                       (job_jobId job) (job_runId job))], oid # gen)
           else ([], gen)))"

definition cancellationEvents ::
    "(string \<Rightarrow> string) \<Rightarrow> ProjectionState \<Rightarrow> JobState \<Rightarrow> TerminationReason \<Rightarrow> uuid list \<Rightarrow>
       DomainEventInput list \<times> uuid list" where
  "cancellationEvents sha st job reason gen =
     (let (evs, gen') =
        (case Option.bind (job_activeAttemptId job) (mget (attempts st)) of
           None \<Rightarrow> ([], gen)
         | Some a \<Rightarrow>
             if terminal_attempt (att_status a) then ([], gen)
             else let (cancels, gen') = cancelEffect sha st job a gen in
               (attemptFinished job (att_attemptId a) A_cancelled
                  (if reason = TR_operator_cancelled then TR_operator_cancelled else TR_run_failed)
                  (Some (text_TerminationReason reason)) #
                obsoleteOutbox st (att_attemptId a) None reason @
                cancelVerification st job (att_attemptId a) reason @ cancels, gen'))
      in (evs @ [event ST_job (job_jobId job)
                   (JobCancelled (job_jobId job) (job_runId job) reason)], gen'))"

fun cancelJobs ::
    "(string \<Rightarrow> string) \<Rightarrow> ProjectionState \<Rightarrow> TerminationReason \<Rightarrow> uuid list \<Rightarrow> JobState list \<Rightarrow>
       DomainEventInput list" where
  "cancelJobs sha st reason gen [] = []"
| "cancelJobs sha st reason gen (j # js) =
     (let (evs, gen') = cancellationEvents sha st j reason gen
      in evs @ cancelJobs sha st reason gen' js)"

definition otherLiveJobs :: "ProjectionState \<Rightarrow> JobState \<Rightarrow> JobState list" where
  "otherLiveJobs st job =
     filter (\<lambda>other. job_runId other = job_runId job \<and> job_jobId other \<noteq> job_jobId job \<and>
       \<not> terminal_job (job_status other)) (mvalues (jobs st))"

text \<open>A job fails for good: the job, its siblings and its run end.\<close>

definition jobFailureEvents ::
    "(string \<Rightarrow> string) \<Rightarrow> ProjectionState \<Rightarrow> JobState \<Rightarrow> string \<Rightarrow> DomainEventInput list" where
  "jobFailureEvents sha st job reason =
     event ST_job (job_jobId job) (JobFailed (job_jobId job) (job_runId job) reason) #
     cancelJobs sha st TR_run_failed [] (otherLiveJobs st job) @
     [event ST_run (job_runId job) (RunFailed (job_runId job) reason)]"

section \<open>Retryable and final failures\<close>

definition timeoutCancel ::
    "(string \<Rightarrow> string) \<Rightarrow> ProjectionState \<Rightarrow> JobState \<Rightarrow> AttemptState \<Rightarrow> TerminationReason \<Rightarrow>
       DomainEventInput list" where
  "timeoutCancel sha st job a reason =
     (case truthy (att_externalRunId a) of
        Some ext \<Rightarrow>
          (if reason = TR_timed_out \<and> \<not> mhas (outbox st) (cancelOutboxId sha (att_attemptId a))
           then [outboxEnqueued (cancelOutboxId sha (att_attemptId a)) job (att_attemptId a)
                   (EffectAgentCancel ext CR_timed_out (att_attemptId a)
                      (job_jobId job) (job_runId job))]
           else [])
      | None \<Rightarrow> [])"

definition failureTransitionEvents ::
    "(string \<Rightarrow> string) \<Rightarrow> ProjectionState \<Rightarrow> JobState \<Rightarrow> AttemptState \<Rightarrow> TerminationReason \<Rightarrow>
       timestamp \<Rightarrow> string option \<Rightarrow> uuid option \<Rightarrow> DomainEventInput list" where
  "failureTransitionEvents sha st job a reason now detail excluded =
     attemptFinished job (att_attemptId a)
       (if reason = TR_timed_out then A_timed_out else A_failed) reason (truthy detail) #
     obsoleteOutbox st (att_attemptId a) excluded reason @
     cancelVerification st job (att_attemptId a) reason @
     timeoutCancel sha st job a reason @
     (if job_attemptCount job < jp_maxAttempts (job_policy job)
      then [event ST_job (job_jobId job) (JobRetryScheduled (job_jobId job) (job_runId job)
              (addMilliseconds now
                 (delay_after (jp_retryDelaysMs (job_policy job)) (job_attemptCount job)))
              reason)]
      else jobFailureEvents sha st job
             (case detail of None \<Rightarrow> text_TerminationReason reason | Some d \<Rightarrow> d))"

definition nonretryableDriverFailureEvents ::
    "(string \<Rightarrow> string) \<Rightarrow> ProjectionState \<Rightarrow> JobState \<Rightarrow> AttemptState \<Rightarrow> TerminationReason \<Rightarrow>
       string \<Rightarrow> DomainEventInput list" where
  "nonretryableDriverFailureEvents sha st job a reason detail =
     attemptFinished job (att_attemptId a)
       (if reason = TR_approval_required then A_approval_required
        else if reason = TR_operator_cancelled then A_cancelled else A_failed)
       reason (Some detail) #
     [event ST_outbox (out_outboxId b)
        (OutboxObsoleted (out_outboxId b) (job_runId job) (text_TerminationReason reason)).
      b \<leftarrow> mvalues (outbox st), undelivered_work (att_attemptId a) b] @
     jobFailureEvents sha st job detail"

section \<open>Cancelling a run\<close>

definition cancellationForRun ::
    "(string \<Rightarrow> string) \<Rightarrow> ProjectionState \<Rightarrow> uuid \<Rightarrow> string \<Rightarrow> DomainError + DomainEventInput list" where
  "cancellationForRun sha st rid reason =
     (case mget (runs st) rid of
        None \<Rightarrow> Inl (failure RUN_NOT_FOUND ''Run does not exist'' [(''runId'', DText rid)])
      | Some run \<Rightarrow>
          if terminal_run (run_status run)
          then Inl (failure RUN_TERMINAL ''Run is already terminal'' [(''runId'', DText rid)])
          else Inr (
            [event ST_attempt (att_attemptId a)
               (AttemptCancelled (att_attemptId a) (run_runId run) reason).
             a \<leftarrow> mvalues (attempts st), att_runId a = run_runId run \<and> att_jobId a = None \<and>
               att_status a = A_allocated] @
            cancelJobs sha st TR_operator_cancelled []
              (filter (\<lambda>j. job_runId j = run_runId run \<and> \<not> terminal_job (job_status j))
                (mvalues (jobs st))) @
            [event ST_run (run_runId run) (RunCancelled (run_runId run) reason)]))"

section \<open>Succeeding a job\<close>

text \<open>
  What follows \<open>JobSucceeded\<close> in both branches that complete a job: the blocked jobs whose
  dependencies have now all succeeded are unblocked, and the run succeeds with its last job.
\<close>

definition dependencies_met :: "ProjectionState \<Rightarrow> JobState \<Rightarrow> JobState \<Rightarrow> bool" where
  "dependencies_met st job candidate \<longleftrightarrow>
     list_all (\<lambda>d. d = job_jobId job \<or> map_option job_status (mget (jobs st) d) = Some J_succeeded)
       (job_dependencyJobIds candidate)"

definition jobSuccessEvents :: "ProjectionState \<Rightarrow> JobState \<Rightarrow> DomainEventInput list" where
  "jobSuccessEvents st job =
     event ST_job (job_jobId job) (JobSucceeded (job_jobId job) (job_runId job)) #
     [event ST_job (job_jobId c) (JobUnblocked (job_jobId c) (job_runId c)).
      c \<leftarrow> mvalues (jobs st), job_runId c = job_runId job \<and> job_status c = J_blocked \<and>
        dependencies_met st job c] @
     (if list_all (\<lambda>c. job_jobId c = job_jobId job \<or> job_status c = J_succeeded)
          (filter (\<lambda>c. job_runId c = job_runId job) (mvalues (jobs st)))
      then [event ST_run (job_runId job) (RunSucceeded (job_runId job))] else [])"

end
