(* ===== verification/PortfolioOps.thy ===== *)
theory PortfolioOps
  imports PortfolioEvolve GraphTypes JsSort Transitions
begin

text \<open>
  The branches of \<open>decide\<close> (domain.ts) for the portfolio and its integration lane. What a
  branch reads of the other components (the run lifecycle, programs, program graphs, attention
  policies, decision packets, outcome packets) is the context \<open>cx\<close>; \<open>lc\<close> is \<open>localeCompare\<close>.
\<close>

section \<open>Decisions\<close>

text \<open>A failure is an error the branch returns or an exception it throws.\<close>

datatype PortfolioFailure = Refused DomainErrorCode string | Raised string

type_synonym portfolio_decision = "PortfolioFailure + (PortfolioInput list \<times> string \<times> uuid)"

definition accept :: "PortfolioInput list \<Rightarrow> string \<Rightarrow> uuid \<Rightarrow> portfolio_decision" where
  "accept es kind i = Inr (es, kind, i)"

definition reject :: "DomainErrorCode \<Rightarrow> string \<Rightarrow> portfolio_decision" where
  "reject code message = Inl (Refused code message)"

text \<open>\<open>holds x P\<close>: \<open>x\<close> is defined and satisfies \<open>P\<close> (optional chaining).\<close>

definition holds :: "'a option \<Rightarrow> ('a \<Rightarrow> bool) \<Rightarrow> bool" where
  "holds x P = (case x of None \<Rightarrow> False | Some v \<Rightarrow> P v)"

lemma holds_iff [simp]: "holds x P \<longleftrightarrow> (\<exists>v. x = Some v \<and> P v)"
  by (simp add: holds_def split: option.splits)

definition ref_digest_of :: "(string \<Rightarrow> string) \<Rightarrow> ImmutableReference \<Rightarrow> digest" where
  "ref_digest_of sha r = digest_of sha (enc_Reference r)"

definition opt_ref_digest :: "(string \<Rightarrow> string) \<Rightarrow> ImmutableReference option \<Rightarrow> digest" where
  "opt_ref_digest sha r = digest_of sha (case r of None \<Rightarrow> JNull | Some r \<Rightarrow> enc_Reference r)"

text \<open>\<open>canonicalDigest(target?.currentHeadRef ?? null)\<close>.\<close>

definition head_digest :: "(string \<Rightarrow> string) \<Rightarrow> IntegrationTargetState option \<Rightarrow> digest" where
  "head_digest sha t = opt_ref_digest sha (map_option ts_currentHeadRef t)"

section \<open>Policies and targets\<close>

definition active_policy :: "uuid \<Rightarrow> Portfolio \<Rightarrow> PortfolioPolicyState option" where
  "active_policy i s = find (\<lambda>e. pol_policyId (ps_policy e) = i \<and> ps_supersededAt e = None)
     (mvalues (portfolioPolicies s))"

definition policy_registry_ok :: "'a PortfolioPolicyInput_scheme \<Rightarrow> bool" where
  "policy_registry_ok p \<longleftrightarrow> distinct (map res_resourceId (pol_resources p)) \<and>
     distinct (map cc_capability (pol_capabilityCapacities p)) \<and>
     (pol_priorPolicyRef p = None \<or> holds (pol_priorPolicyRef p) (\<lambda>r. ref_kind r = ''portfolio_policy''))"

definition policy_chain_ok :: "Portfolio \<Rightarrow> PortfolioPolicyInput \<Rightarrow> bool" where
  "policy_chain_ok s p \<longleftrightarrow> \<not> mhas (portfolioPolicies s) (pol_policyRevisionId p) \<and>
     (case active_policy (pol_policyId p) s of
        Some a \<Rightarrow> pol_revision p = pol_revision (ps_policy a) + 1 \<and>
          holds (pol_priorPolicyRef p) (\<lambda>r. ref_kind r = ''portfolio_policy'' \<and>
            ref_id r = pol_policyRevisionId (ps_policy a) \<and> ref_digest r = ps_policyDigest a)
      | None \<Rightarrow> pol_revision p = 1 \<and> pol_priorPolicyRef p = None)"

definition decide_portfolio_policy_approve ::
    "(string \<Rightarrow> string) \<Rightarrow> Actor \<Rightarrow> timestamp \<Rightarrow> PortfolioContext \<Rightarrow> Portfolio \<Rightarrow> PortfolioPolicyInput \<Rightarrow> portfolio_decision" where
  "decide_portfolio_policy_approve sha actor now cx s p =
     (if actor_kind actor \<noteq> Operator
      then reject APPROVAL_REQUIRES_OPERATOR ''Portfolio policy approval requires an operator actor''
      else if \<not> policy_registry_ok p
      then reject ATTENTION_POLICY_CONFLICT ''Portfolio policy registry is invalid''
      else if \<not> policy_chain_ok s p
      then reject ATTENTION_POLICY_CONFLICT ''Portfolio policy revision chain conflicts''
      else if \<not> holds (mget (cx_attentionPolicies cx) (ref_id (pol_attentionPolicyRef p)))
          (\<lambda>a. aps_supersededAt a = None \<and> aps_policyDigest a = ref_digest (pol_attentionPolicyRef p) \<and>
             aps_maxPages a = 0)
      then reject ATTENTION_POLICY_CONFLICT
        ''Portfolio policy must pin the active zero-routine-page attention policy''
      else
        let policy = PortfolioPolicyInput.extend p (PortfolioPolicy.fields (actor_id actor) now) in
        accept [pf_event ''portfolio_policy'' (pol_policyRevisionId p)
                  (PortfolioPolicyApproved policy (digest_of sha (enc_PortfolioPolicy policy))
                     (map_option (\<lambda>a. pol_policyRevisionId (ps_policy a)) (active_policy (pol_policyId p) s)))]
          ''portfolio_policy'' (pol_policyRevisionId p))"

definition active_target :: "uuid \<Rightarrow> Portfolio \<Rightarrow> IntegrationTargetState option" where
  "active_target i s = find (\<lambda>e. tgt_targetId (ts_target e) = i \<and> ts_supersededAt e = None)
     (mvalues (integrationTargets s))"

definition managed_ref :: "uuid \<Rightarrow> string" where
  "managed_ref i = ''refs/parallelplay/integration/'' @ i"

definition target_identity_ok :: "'a IntegrationTargetInput_scheme \<Rightarrow> bool" where
  "target_identity_ok t \<longleftrightarrow> tgt_managedRef t = managed_ref (tgt_targetId t) \<and>
     ref_kind (tgt_initialHeadRef t) = ''source_revision'' \<and>
     (tgt_priorTargetRef t = None \<or> holds (tgt_priorTargetRef t) (\<lambda>r. ref_kind r = ''integration_target''))"

definition target_chain_ok :: "Portfolio \<Rightarrow> IntegrationTargetInput \<Rightarrow> bool" where
  "target_chain_ok s t \<longleftrightarrow> \<not> mhas (integrationTargets s) (tgt_targetRevisionId t) \<and>
     (case active_target (tgt_targetId t) s of
        Some a \<Rightarrow> tgt_revision t = tgt_revision (ts_target a) + 1 \<and>
          holds (tgt_priorTargetRef t) (\<lambda>r. ref_kind r = ''integration_target'' \<and>
            ref_id r = tgt_targetRevisionId (ts_target a) \<and> ref_digest r = ts_targetDigest a)
      | None \<Rightarrow> tgt_revision t = 1 \<and> tgt_priorTargetRef t = None)"

definition target_evidence_ok ::
    "(string \<Rightarrow> string) \<Rightarrow> PortfolioContext \<Rightarrow> Portfolio \<Rightarrow> IntegrationTargetInput \<Rightarrow> bool" where
  "target_evidence_ok sha cx s t \<longleftrightarrow>
     holds (mget (sourceRevisions (cx_state cx)) (ref_id (tgt_initialHeadRef t)))
       (\<lambda>r. sr_revisionDigest (srs_revision r) = ref_digest (tgt_initialHeadRef t) \<and>
          sr_repositoryId (srs_revision r) = tgt_repositoryId t) \<and>
     digest_of sha (enc_VerifierContract (tgt_verifierContract t)) = tgt_verifierContractDigest t \<and>
     vc_timeoutMs (tgt_verifierContract t) \<le> 300000 \<and>
     (case active_target (tgt_targetId t) s of
        None \<Rightarrow> True
      | Some a \<Rightarrow> ref_digest_of sha (tgt_initialHeadRef t) = ref_digest_of sha (ts_currentHeadRef a))"

definition merge_lane_registered :: "Portfolio \<Rightarrow> string \<Rightarrow> bool" where
  "merge_lane_registered s lane \<longleftrightarrow>
     holds (find (\<lambda>e. ps_supersededAt e = None) (mvalues (portfolioPolicies s)))
       (\<lambda>p. list_ex (\<lambda>r. res_resourceId r = lane \<and> res_kind r = ''merge_lane'') (pol_resources (ps_policy p)))"

definition decide_integration_target_approve ::
    "(string \<Rightarrow> string) \<Rightarrow> Actor \<Rightarrow> timestamp \<Rightarrow> PortfolioContext \<Rightarrow> Portfolio \<Rightarrow> IntegrationTargetInput \<Rightarrow> portfolio_decision" where
  "decide_integration_target_approve sha actor now cx s t =
     (if actor_kind actor \<noteq> Operator
      then reject APPROVAL_REQUIRES_OPERATOR ''Integration target approval requires an operator actor''
      else if \<not> target_identity_ok t then reject GRAPH_INVALID ''Integration target identity is invalid''
      else if \<not> target_chain_ok s t then reject GRAPH_INVALID ''Integration target revision chain conflicts''
      else if \<not> target_evidence_ok sha cx s t
      then reject EVIDENCE_DIGEST_MISMATCH ''Integration target evidence is invalid''
      else if \<not> merge_lane_registered s (tgt_mergeLaneResourceId t)
      then reject GRAPH_INVALID ''Integration target merge lane is not registered''
      else
        let target = IntegrationTargetInput.extend t (IntegrationTarget.fields (actor_id actor) now) in
        accept [pf_event ''integration_target'' (tgt_targetRevisionId t)
                  (IntegrationTargetApproved target (digest_of sha (enc_IntegrationTarget target))
                     (map_option (\<lambda>a. tgt_targetRevisionId (ts_target a)) (active_target (tgt_targetId t) s)))]
          ''integration_target'' (tgt_targetRevisionId t))"

section \<open>Leases and admissions\<close>

definition decide_portfolio_lease_renew ::
    "(string \<Rightarrow> string) \<Rightarrow> Actor \<Rightarrow> timestamp \<Rightarrow> Portfolio \<Rightarrow> uuid \<Rightarrow> uuid \<Rightarrow> nat \<Rightarrow> nat \<Rightarrow> portfolio_decision" where
  "decide_portfolio_lease_renew sha actor now s leaseId admissionId t duration =
     (if actor_kind actor \<noteq> System
      then reject PROGRAM_NOT_ADVANCEABLE ''Lease renewal requires a system actor''
      else case mget (concurrencyLeases s) leaseId of
        None \<Rightarrow> reject PROGRAM_NOT_ADVANCEABLE ''Concurrency lease owner or fence is stale''
      | Some p \<Rightarrow>
          if \<not> (ls_status p = Claim_active \<and> cl_admissionId (ls_lease p) = admissionId \<and>
                cl_fencingToken (ls_lease p) = t \<and> now < cl_expiresAt (ls_lease p))
          then reject PROGRAM_NOT_ADVANCEABLE ''Concurrency lease owner or fence is stale''
          else
            let l = (ls_lease p)\<lparr>cl_renewedAt := Some now, cl_expiresAt := addMilliseconds now duration\<rparr> in
            accept [pf_event ''concurrency_lease'' (cl_leaseId l)
                      (PortfolioLeaseRenewed l (digest_of sha (enc_ConcurrencyLease l)))]
              ''concurrency_lease'' (cl_leaseId l))"

definition admission_leases :: "uuid \<Rightarrow> Portfolio \<Rightarrow> ConcurrencyLeaseState list" where
  "admission_leases i s = filter (\<lambda>e. cl_admissionId (ls_lease e) = i) (mvalues (concurrencyLeases s))"

definition admission_current :: "Portfolio \<Rightarrow> uuid \<Rightarrow> uuid \<Rightarrow> PortfolioAdmissionState option" where
  "admission_current s i generation =
     (case mget (portfolioAdmissions s) i of
        None \<Rightarrow> None
      | Some p \<Rightarrow>
          if as_status p = Claim_active \<and> pa_generationId (as_admission p) = generation then Some p else None)"

definition decide_admission_end ::
    "ClaimStatus \<Rightarrow> Actor \<Rightarrow> timestamp \<Rightarrow> Portfolio \<Rightarrow> uuid \<Rightarrow> uuid \<Rightarrow> nat \<Rightarrow> string \<Rightarrow> portfolio_decision" where
  "decide_admission_end st actor now s i generation t reason =
     (if actor_kind actor \<noteq> System
      then reject PROGRAM_NOT_ADVANCEABLE ''Admission transition requires a system actor''
      else case admission_current s i generation of
        None \<Rightarrow> reject PROGRAM_NOT_ADVANCEABLE ''Portfolio admission is stale''
      | Some p \<Rightarrow>
          let leases = admission_leases (pa_admissionId (as_admission p)) s in
          if leases = [] \<or>
             list_ex (\<lambda>e. ls_status e \<noteq> Claim_active \<or> cl_fencingToken (ls_lease e) \<noteq> t) leases
          then reject PROGRAM_NOT_ADVANCEABLE ''Admission lease fence is stale''
          else
            accept [pf_event ''portfolio_admission'' (pa_admissionId (as_admission p))
                      (if st = Claim_released
                       then PortfolioAdmissionReleased i generation t reason now (map (\<lambda>e. cl_leaseId (ls_lease e)) leases)
                       else PortfolioAdmissionFenced i generation t reason now (map (\<lambda>e. cl_leaseId (ls_lease e)) leases))]
              ''portfolio_admission'' (pa_admissionId (as_admission p)))"

section \<open>Candidate diffs\<close>

definition surface_key :: "WorkSurface \<Rightarrow> string" where
  "surface_key f = surface_kind_text (sf_kind f) @ '':'' @ sf_path f"

definition surface_cmp :: "(string \<Rightarrow> string \<Rightarrow> int) \<Rightarrow> WorkSurface \<Rightarrow> WorkSurface \<Rightarrow> int" where
  "surface_cmp lc x y = then_by (lc (sf_path x) (sf_path y))
     (lc (surface_kind_text (sf_kind x)) (surface_kind_text (sf_kind y)))"

definition graph_surfaces :: "(string \<Rightarrow> string \<Rightarrow> int) \<Rightarrow> GraphV2 \<Rightarrow> WorkSurface list" where
  "graph_surfaces lc g = sort_by (surface_cmp lc)
     (mvalues (foldl (\<lambda>m f. mput (surface_key f) f m) [] (concat (map gm_workSurfaces (gv_milestones g)))))"

definition entry_cmp :: "(string \<Rightarrow> string \<Rightarrow> int) \<Rightarrow> CandidateDiffEntry \<Rightarrow> CandidateDiffEntry \<Rightarrow> int" where
  "entry_cmp lc x y = then_by (lc (de_path x) (de_path y)) (lc (change_text (de_change x)) (change_text (de_change y)))"

definition starts_with :: "string \<Rightarrow> string \<Rightarrow> bool" where
  "starts_with s prefix \<longleftrightarrow> take (length prefix) s = prefix"

definition surface_covers :: "WorkSurface \<Rightarrow> string \<Rightarrow> bool" where
  "surface_covers f path \<longleftrightarrow>
     (case sf_kind f of
        File \<Rightarrow> path = sf_path f
      | Subtree \<Rightarrow> path = sf_path f \<or> starts_with path (sf_path f @ ''/''))"

definition computed_violations :: "CandidateDiffManifest \<Rightarrow> string list" where
  "computed_violations m = sort (map de_path
     (filter (\<lambda>e. \<not> list_ex (\<lambda>f. surface_covers f (de_path e)) (cdm_allowedSurfaces m)) (cdm_entries m)))"

definition diff_references_ok :: "PortfolioContext \<Rightarrow> CandidateDiffManifest \<Rightarrow> bool" where
  "diff_references_ok cx m \<longleftrightarrow>
     holds (mget (cx_programGraphs cx) (cdm_graphRevisionId m))
       (\<lambda>g. gs_programId g = cdm_programId m \<and> gs_v2 g \<noteq> None) \<and>
     ref_kind (cdm_baseRevisionRef m) = ''source_revision'' \<and>
     ref_kind (cdm_candidateRevisionRef m) = ''source_revision'' \<and>
     holds (mget (sourceRevisions (cx_state cx)) (ref_id (cdm_baseRevisionRef m)))
       (\<lambda>b. sr_revisionDigest (srs_revision b) = ref_digest (cdm_baseRevisionRef m) \<and>
          holds (mget (sourceRevisions (cx_state cx)) (ref_id (cdm_candidateRevisionRef m)))
            (\<lambda>c. sr_revisionDigest (srs_revision c) = ref_digest (cdm_candidateRevisionRef m) \<and>
               sr_repositoryId (srs_revision b) = sr_repositoryId (srs_revision c)))"

definition jarray_digest :: "(string \<Rightarrow> string) \<Rightarrow> ('a \<Rightarrow> jsval) \<Rightarrow> 'a list \<Rightarrow> digest" where
  "jarray_digest sha f xs = digest_of sha (JArray (map f xs))"

definition diff_canonical ::
    "(string \<Rightarrow> string) \<Rightarrow> (string \<Rightarrow> string \<Rightarrow> int) \<Rightarrow> GraphV2 \<Rightarrow> CandidateDiffManifest \<Rightarrow> bool" where
  "diff_canonical sha lc g m \<longleftrightarrow>
     jarray_digest sha enc_CandidateDiffEntry (sort_by (entry_cmp lc) (cdm_entries m)) =
       jarray_digest sha enc_CandidateDiffEntry (cdm_entries m) \<and>
     distinct (map de_path (cdm_entries m)) \<and>
     jarray_digest sha enc_WorkSurface (cdm_allowedSurfaces m) =
       jarray_digest sha enc_WorkSurface (graph_surfaces lc g)"

definition verdict_consistent :: "(string \<Rightarrow> string) \<Rightarrow> CandidateDiffManifest \<Rightarrow> bool" where
  "verdict_consistent sha m \<longleftrightarrow>
     jarray_digest sha JString (computed_violations m) = jarray_digest sha JString (sort (cdm_violations m)) \<and>
     cdm_eligible m = (computed_violations m = [])"

definition decide_candidate_diff_record ::
    "(string \<Rightarrow> string) \<Rightarrow> (string \<Rightarrow> string \<Rightarrow> int) \<Rightarrow> Actor \<Rightarrow> PortfolioContext \<Rightarrow> Portfolio \<Rightarrow>
       CandidateDiffManifest \<Rightarrow> digest \<Rightarrow> portfolio_decision" where
  "decide_candidate_diff_record sha lc actor cx s m d =
     (if actor_kind actor \<noteq> System
      then reject APPROVAL_REQUIRES_OPERATOR ''Candidate diff evidence requires the host''
      else if digest_of sha (enc_CandidateDiffManifest m) \<noteq> d \<or> mhas (candidateDiffManifests s) (cdm_manifestId m)
      then reject EVIDENCE_DIGEST_MISMATCH ''Candidate diff manifest is invalid''
      else if \<not> diff_references_ok cx m
      then reject EVIDENCE_DIGEST_MISMATCH ''Candidate diff references are invalid''
      else if \<not> holds (mget (cx_programGraphs cx) (cdm_graphRevisionId m))
          (\<lambda>g. holds (gs_v2 g) (\<lambda>v2. diff_canonical sha lc v2 m))
      then reject EVIDENCE_DIGEST_MISMATCH ''Candidate diff entries are not canonical''
      else if \<not> verdict_consistent sha m
      then reject EVIDENCE_DIGEST_MISMATCH ''Candidate surface verdict is inconsistent''
      else
        accept [pf_event ''candidate_diff_manifest'' (cdm_manifestId m) (CandidateDiffManifestRecorded m d)]
          ''candidate_diff_manifest'' (cdm_manifestId m))"

end
