(* ===== verification/ProgramGraph.thy ===== *)
theory ProgramGraph
  imports Graph Closure PortfolioOps
begin

text \<open>
  The checks of a program graph (packages/kernel/src/schema.ts): \<open>validateProgramGraph\<close> and
  the refinements of graph versions 1 and 2, as the issues' messages in the order the code
  adds them; and what a graph without issues is.
\<close>

section \<open>The data the checks read\<close>

record GraphEntry =
  ge_milestoneId :: string
  ge_dependencies :: "string list"
  ge_sourcePredecessor :: "string option"
  ge_allowedWorkSurfaces :: "string list"

section \<open>The checks\<close>

definition issue_if :: "bool \<Rightarrow> string \<Rightarrow> string list" where
  "issue_if b message = (if b then [message] else [])"

lemma issue_if_Nil [simp]: "issue_if b message = [] \<longleftrightarrow> \<not> b"
  by (simp add: issue_if_def)

definition source_roots :: "GraphEntry list \<Rightarrow> GraphEntry list" where
  "source_roots ms = filter (\<lambda>e. ge_sourcePredecessor e = None) ms"

definition entry_issues :: "string list \<Rightarrow> GraphEntry \<Rightarrow> string list" where
  "entry_issues ids e =
     issue_if (has_repeats (ge_dependencies e)) ''Milestone dependencies must be unique'' @
     issue_if (has_repeats (ge_allowedWorkSurfaces e)) ''Allowed work surfaces must be unique'' @
     concat (map (\<lambda>d. issue_if (d \<notin> set ids \<or> d = ge_milestoneId e)
       ''Dependencies must reference another milestone in the graph'') (ge_dependencies e)) @
     (case ge_sourcePredecessor e of
        None \<Rightarrow> []
      | Some p \<Rightarrow> issue_if (p \<notin> set ids \<or> p \<notin> set (ge_dependencies e))
          ''A source predecessor must also be an in-graph dependency'')"

text \<open>How many milestones name each source predecessor.\<close>

definition source_successors :: "GraphEntry list \<Rightarrow> (string, nat) jsmap" where
  "source_successors ms = fold (\<lambda>e m. case ge_sourcePredecessor e of
     None \<Rightarrow> m
   | Some p \<Rightarrow> mput p ((case mget m p of None \<Rightarrow> 0 | Some n \<Rightarrow> n) + 1) m) ms []"

text \<open>
  The loop that collects what the source root reaches: a pass over the milestones adds those
  whose predecessor is already reached, until a pass adds none. An empty identifier is falsy.
\<close>

definition lineage_visit :: "GraphEntry \<Rightarrow> string list \<times> bool \<Rightarrow> string list \<times> bool" where
  "lineage_visit e acc = (case ge_sourcePredecessor e of
     None \<Rightarrow> acc
   | Some p \<Rightarrow>
       if p \<noteq> [] \<and> p \<in> set (fst acc) \<and> ge_milestoneId e \<notin> set (fst acc)
       then (fst acc @ [ge_milestoneId e], True) else acc)"

definition lineage_pass :: "GraphEntry list \<Rightarrow> string list \<Rightarrow> string list \<times> bool" where
  "lineage_pass ms reached = fold lineage_visit ms (reached, False)"

definition lineage_loop :: "GraphEntry list \<Rightarrow> string \<Rightarrow> (string list \<times> bool) option" where
  "lineage_loop ms root = while_option snd (\<lambda>acc. lineage_pass ms (fst acc)) ([root], True)"

definition lineage_issues :: "GraphEntry list \<Rightarrow> string list" where
  "lineage_issues ms = (case source_roots ms of
     [] \<Rightarrow> []
   | r # _ \<Rightarrow>
       if ge_milestoneId r = [] then []
       else (case lineage_loop ms (ge_milestoneId r) of
           None \<Rightarrow> []
         | Some (reached, _) \<Rightarrow> issue_if (length reached \<noteq> length ms)
             ''Every milestone must be connected to the single source root''))"

definition scope_outside :: "string list \<Rightarrow> ScopedRecord \<Rightarrow> bool" where
  "scope_outside ids r = (case scr_scope r of
     ScopeProgram \<Rightarrow> False
   | ScopeMilestones scope \<Rightarrow> list_ex (\<lambda>i. i \<notin> set ids) scope)"

definition scope_issues :: "string list \<Rightarrow> ScopedRecord list \<Rightarrow> string list" where
  "scope_issues ids entries = concat (map (\<lambda>r. issue_if (scope_outside ids r)
     ''Scoped records must reference milestones in the graph'') entries)"

definition validateProgramGraph :: "GraphEntry list \<Rightarrow> InitialContext \<Rightarrow> string list" where
  "validateProgramGraph ms cx =
     (let ids = map ge_milestoneId ms; roots = source_roots ms in
      issue_if (has_repeats ids) ''Milestone IDs must be unique'' @
      issue_if (length roots \<noteq> 1) ''A program graph must have exactly one source root'' @
      issue_if (length roots = 1 \<and> ge_dependencies (hd roots) \<noteq> [])
        ''The source root cannot depend on another milestone'' @
      concat (map (entry_issues ids) ms) @
      issue_if (list_ex (\<lambda>n. 1 < n) (mvalues (source_successors ms))) ''Source lineage cannot branch'' @
      issue_if (fst (visit_any (map_from ge_milestoneId ge_dependencies ms) [] [] ids))
        ''Program dependencies must form an acyclic graph'' @
      lineage_issues ms @
      concat (map (scope_issues ids)
        [ictx_decisions cx, ictx_assumptions cx, ictx_risks cx, ictx_unresolvedQuestions cx]))"

section \<open>Graph revisions\<close>

definition entry_v1 :: "GraphMilestoneV1 \<Rightarrow> GraphEntry" where
  "entry_v1 m = \<lparr>ge_milestoneId = gm_milestoneId m, ge_dependencies = gm_dependencies m,
     ge_sourcePredecessor = gm_sourcePredecessor m, ge_allowedWorkSurfaces = gm_allowedWorkSurfaces m\<rparr>"

definition graph_issues_v1 :: "GraphV1 \<Rightarrow> string list" where
  "graph_issues_v1 g = validateProgramGraph (map entry_v1 (g1_milestones g)) (gr_initialContext g) @
     issue_if (ref_kind (gr_intentPlaybackRef g) \<noteq> ''intent_playback'') ''Intent playback reference has the wrong kind'' @
     issue_if (ref_kind (gr_initialSourceRef g) \<noteq> ''source_revision'') ''Initial source reference has the wrong kind'' @
     (case gr_priorGraphRef g of
        None \<Rightarrow> []
      | Some r \<Rightarrow> issue_if (ref_kind r \<noteq> ''program_graph'') ''Prior graph reference has the wrong kind'')"

definition surface_text :: "WorkSurface \<Rightarrow> string" where
  "surface_text f = surface_kind_text (sf_kind f) @ '':'' @ sf_path f"

definition entry_of :: "GraphMilestone \<Rightarrow> GraphEntry" where
  "entry_of m = \<lparr>ge_milestoneId = gm_milestoneId m, ge_dependencies = gm_dependencies m,
     ge_sourcePredecessor = gm_sourcePredecessor m,
     ge_allowedWorkSurfaces = map surface_text (gm_workSurfaces m)\<rparr>"

text \<open>\<open>left\<close> is a subtree that contains the path of \<open>right\<close>.\<close>

definition contains :: "WorkSurface \<Rightarrow> WorkSurface \<Rightarrow> bool" where
  "contains l r \<longleftrightarrow> sf_kind l = Subtree \<and> (sf_path r = sf_path l \<or> starts_with (sf_path r) (sf_path l @ ''/''))"

text \<open>Every pair of surfaces, the left one earlier.\<close>

fun overlap_issues :: "WorkSurface list \<Rightarrow> string list" where
  "overlap_issues [] = []"
| "overlap_issues (l # fs) = concat (map (\<lambda>r. issue_if (contains l r \<or> contains r l)
     ''Structured work surfaces within a milestone cannot overlap'') fs) @ overlap_issues fs"

definition milestone_issues :: "GraphMilestone \<Rightarrow> string list" where
  "milestone_issues m =
     issue_if (has_repeats (map surface_text (gm_workSurfaces m))) ''Structured work surfaces must be unique'' @
     overlap_issues (gm_workSurfaces m) @
     issue_if (has_repeats (gm_resourceClaims m)) ''Resource claims must be unique'' @
     issue_if (has_repeats (gm_capabilityClaims m)) ''Capability claims must be unique''"

definition graph_issues_v2 :: "GraphV2 \<Rightarrow> string list" where
  "graph_issues_v2 g = validateProgramGraph (map entry_of (gv_milestones g)) (gr_initialContext g) @
     issue_if (ref_kind (gv_portfolioPolicyRef g) \<noteq> ''portfolio_policy'') ''Graph V2 must reference a portfolio policy'' @
     issue_if (ref_kind (gv_integrationTargetRef g) \<noteq> ''integration_target'')
       ''Graph V2 must reference an integration target'' @
     issue_if (has_repeats (map cd_programId (gv_crossProgramDependencies g)))
       ''Cross-program dependency programs must be unique'' @
     concat (map milestone_issues (gv_milestones g))"

section \<open>The loop ends\<close>

definition lineage :: "GraphEntry list \<Rightarrow> (string \<times> string) set" where
  "lineage ms = {(p, ge_milestoneId e) | p e. e \<in> set ms \<and> ge_sourcePredecessor e = Some p \<and> p \<noteq> []}"

interpretation lineage: closure_pass ge_milestoneId "\<lambda>e p. ge_sourcePredecessor e = Some p \<and> p \<noteq> []" lineage_visit
  by unfold_locales (auto simp: lineage_visit_def split: option.splits)

lemma lineage_edges: "pull_edges ge_milestoneId (\<lambda>e p. ge_sourcePredecessor e = Some p \<and> p \<noteq> []) ms = lineage ms"
  by (auto simp: pull_edges_def lineage_def)

lemma lineage_pass_appends:
  assumes "distinct r"
  shows "\<exists>xs. lineage_pass ms r = (r @ xs, xs \<noteq> []) \<and> distinct (r @ xs)"
  using lineage.pass [OF subset_refl assms, of ms False] by (auto simp: lineage_pass_def)

text \<open>
  C39. The loop that follows the source lineage ends for every list of milestones, also with
  cycles, repeated or missing identifiers, and then has collected, each once, exactly the
  milestones a chain of source predecessors connects to the root.
\<close>

theorem lineage_loop_ends:
  "\<exists>reached. lineage_loop ms root = Some (reached, False) \<and> distinct reached \<and>
     set reached = (lineage ms)\<^sup>* `` {root}"
  using lineage.loop_ends [of "[root]" ms] by (simp add: lineage_edges lineage_loop_def lineage_pass_def)

end
