(* ===== verification/ProgramGraphFacts.thy ===== *)
theory ProgramGraphFacts
  imports ProgramGraph "HOL-Library.Sublist"
begin

text \<open>
  What a program graph without issues is: an acyclic dependency graph whose source lineage is
  one chain from the root through every milestone, with disjoint work surfaces in version 2.
\<close>

section \<open>The single checks\<close>

definition entry_ok :: "string list \<Rightarrow> GraphEntry \<Rightarrow> bool" where
  "entry_ok ids e \<longleftrightarrow> distinct (ge_dependencies e) \<and> distinct (ge_allowedWorkSurfaces e) \<and>
     set (ge_dependencies e) \<subseteq> set ids - {ge_milestoneId e} \<and>
     (\<forall>p. ge_sourcePredecessor e = Some p \<longrightarrow> p \<in> set (ge_dependencies e))"

lemma entry_issues_none: "entry_issues ids e = [] \<longleftrightarrow> entry_ok ids e"
  by (auto simp: entry_issues_def entry_ok_def split: option.splits)

definition successors_of :: "GraphEntry list \<Rightarrow> string \<Rightarrow> nat" where
  "successors_of ms p = length (filter (\<lambda>e. ge_sourcePredecessor e = Some p) ms)"

lemma source_successors_fold:
  assumes "mwf m"
  defines "f \<equiv> \<lambda>e m. case ge_sourcePredecessor e of
     None \<Rightarrow> m | Some p \<Rightarrow> mput p ((case mget m p of None \<Rightarrow> 0 | Some n \<Rightarrow> n) + (1::nat)) m"
  shows "mwf (fold f ms m) \<and> mget (fold f ms m) p =
     (if successors_of ms p = 0 then mget m p
      else Some ((case mget m p of None \<Rightarrow> 0 | Some n \<Rightarrow> n) + successors_of ms p))"
  using assms(1)
proof (induction ms arbitrary: m)
  case (Cons e ms)
  have "mwf (f e m)" using Cons.prems by (auto simp: f_def split: option.splits)
  from Cons.IH [OF this] show ?case
    by (auto simp: f_def successors_of_def split: option.splits)
qed (simp add: successors_of_def)

lemma no_branch:
  "list_ex (\<lambda>n. 1 < n) (mvalues (source_successors ms)) \<longleftrightarrow> (\<exists>p. 1 < successors_of ms p)"
proof -
  have m: "mwf (source_successors ms)"
    "mget (source_successors ms) p = (if successors_of ms p = 0 then None else Some (successors_of ms p))" for p
    using source_successors_fold [of "[]" ms p] by (auto simp: source_successors_def)
  show ?thesis
    unfolding list_ex_iff Bex_def mvalues_iff [OF m(1)] m(2) by (metis less_nat_zero_code option.inject option.distinct(1))
qed

definition entry_order :: "GraphEntry list \<Rightarrow> (string \<times> string) set" where
  "entry_order ms = {(ge_milestoneId e, d) | e d. e \<in> set ms \<and> d \<in> set (ge_dependencies e)}"

lemma finite_entry_order: "finite (entry_order ms)"
proof -
  have "entry_order ms = (\<Union>e\<in>set ms. Pair (ge_milestoneId e) ` set (ge_dependencies e))"
    by (auto simp: entry_order_def)
  then show ?thesis by simp
qed

lemma depends_entries:
  assumes "distinct (map ge_milestoneId ms)"
  shows "depends (map_from ge_milestoneId ge_dependencies ms) = entry_order ms"
proof -
  note get = map_from_get [OF assms, of ge_dependencies]
  have "d \<in> set (deps_of (map_from ge_milestoneId ge_dependencies ms) i) \<longleftrightarrow>
      (\<exists>e\<in>set ms. ge_milestoneId e = i \<and> d \<in> set (ge_dependencies e))" for i d
    unfolding deps_of_def using get [of i] by (auto split: option.splits) (metis option.inject)+
  then show ?thesis by (auto simp: depends_def entry_order_def)
qed

lemma cycle_found:
  assumes "distinct (map ge_milestoneId ms)"
  shows "fst (visit_any (map_from ge_milestoneId ge_dependencies ms) [] [] (map ge_milestoneId ms)) \<longleftrightarrow>
    \<not> acyclic (entry_order ms)"
  using visit_any_acyclic [of "map_from ge_milestoneId ge_dependencies ms" "map ge_milestoneId ms"]
  unfolding depends_entries [OF assms] map_from_keys by simp

definition scopes_ok :: "string list \<Rightarrow> InitialContext \<Rightarrow> bool" where
  "scopes_ok ids cx \<longleftrightarrow> (\<forall>s \<in> set (ictx_decisions cx) \<union> set (ictx_assumptions cx) \<union> set (ictx_risks cx) \<union>
     set (ictx_unresolvedQuestions cx). \<not> scope_outside ids s)"

lemma scope_issues_none:
  "concat (map (scope_issues ids)
     [ictx_decisions cx, ictx_assumptions cx, ictx_risks cx, ictx_unresolvedQuestions cx]) = [] \<longleftrightarrow> scopes_ok ids cx"
  by (auto simp: scope_issues_def scopes_ok_def)

section \<open>The lineage\<close>

definition graph_ok :: "GraphEntry list \<Rightarrow> bool" where
  "graph_ok ms \<longleftrightarrow> distinct (map ge_milestoneId ms) \<and>
     (\<exists>r. source_roots ms = [r] \<and> ge_dependencies r = []) \<and>
     (\<forall>e\<in>set ms. entry_ok (map ge_milestoneId ms) e) \<and>
     (\<forall>p. successors_of ms p \<le> 1) \<and> acyclic (entry_order ms)"

text \<open>Every milestone is connected to the root: the last check of the code is implied by the others.\<close>

lemma graph_connected:
  assumes g: "graph_ok ms" and r: "source_roots ms = [r]" and ne: "[] \<notin> ge_milestoneId ` set ms"
    and e: "e \<in> set ms"
  shows "(ge_milestoneId r, ge_milestoneId e) \<in> (lineage ms)\<^sup>*"
proof -
  have "wf ((entry_order ms)\<inverse>)"
    using g finite_entry_order by (intro finite_acyclic_wf_converse) (auto simp: graph_ok_def)
  then have "\<forall>e\<in>set ms. ge_milestoneId e = i \<longrightarrow> (ge_milestoneId r, i) \<in> (lineage ms)\<^sup>*" for i
  proof (induction i rule: wf_induct_rule)
    case (less i)
    show ?case
    proof (intro ballI impI)
      fix e assume e: "e \<in> set ms" "ge_milestoneId e = i"
      show "(ge_milestoneId r, i) \<in> (lineage ms)\<^sup>*"
      proof (cases "ge_sourcePredecessor e")
        case None
        with e(1) have "e \<in> set (source_roots ms)" by (simp add: source_roots_def)
        with r e(2) show ?thesis by simp
      next
        case (Some p)
        with g e(1) have p: "p \<in> set (ge_dependencies e)" "p \<in> ge_milestoneId ` set ms"
          by (auto simp: graph_ok_def entry_ok_def)
        with e have "(p, i) \<in> (entry_order ms)\<inverse>" by (auto simp: entry_order_def)
        with less p(2) have "(ge_milestoneId r, p) \<in> (lineage ms)\<^sup>*" by blast
        moreover have "p \<noteq> []" using p(2) ne by blast
        with Some e have "(p, i) \<in> lineage ms" unfolding lineage_def by blast
        ultimately show ?thesis by simp
      qed
    qed
  qed
  with e show ?thesis by blast
qed

lemma lineage_in: "lineage ms \<subseteq> UNIV \<times> ge_milestoneId ` set ms"
  by (auto simp: lineage_def)

lemma lineage_all:
  assumes g: "graph_ok ms" and r: "source_roots ms = [r]" and ne: "[] \<notin> ge_milestoneId ` set ms"
  shows "(lineage ms)\<^sup>* `` {ge_milestoneId r} = ge_milestoneId ` set ms"
proof
  have "r \<in> set (source_roots ms)" using r by simp
  then have "r \<in> set ms" by (simp add: source_roots_def)
  then show "(lineage ms)\<^sup>* `` {ge_milestoneId r} \<subseteq> ge_milestoneId ` set ms"
    using lineage_in by (force elim: rtranclE)
qed (use graph_connected [OF assms] in blast)

lemma lineage_issues_none:
  assumes g: "graph_ok ms" and ne: "[] \<notin> ge_milestoneId ` set ms"
  shows "lineage_issues ms = []"
proof -
  obtain r where r: "source_roots ms = [r]" using g by (auto simp: graph_ok_def)
  obtain reached where l: "lineage_loop ms (ge_milestoneId r) = Some (reached, False)" "distinct reached"
    "set reached = (lineage ms)\<^sup>* `` {ge_milestoneId r}"
    using lineage_loop_ends by blast
  have "length reached = card (set reached)" using l(2) by (simp add: distinct_card)
  also have "\<dots> = card (set (map ge_milestoneId ms))" using l(3) lineage_all [OF g r ne] by simp
  also have "\<dots> = length ms" using g by (metis distinct_card graph_ok_def length_map)
  finally show ?thesis by (simp add: lineage_issues_def r l(1))
qed

text \<open>
  C38. A milestone list passes the graph check exactly when its identifiers are distinct, one
  milestone has no source predecessor and it has no dependency, every dependency is another
  milestone, every source predecessor is a dependency and of one milestone only, the
  dependencies have no cycle and scoped records name milestones of the graph: the depth-first
  search and the closure loop decide just that, and the check that every milestone is connected
  to the root adds nothing to the others.
\<close>

theorem validateProgramGraph_exact:
  assumes ne: "[] \<notin> ge_milestoneId ` set ms"
  shows "validateProgramGraph ms cx = [] \<longleftrightarrow> graph_ok ms \<and> scopes_ok (map ge_milestoneId ms) cx"
proof (cases "distinct (map ge_milestoneId ms)")
  case True
  have roots: "length (source_roots ms) = 1 \<and> \<not> (length (source_roots ms) = 1 \<and> ge_dependencies (hd (source_roots ms)) \<noteq> []) \<longleftrightarrow>
      (\<exists>r. source_roots ms = [r] \<and> ge_dependencies r = [])"
    by (auto simp: length_Suc_conv)
  have "validateProgramGraph ms cx = [] \<longleftrightarrow> graph_ok ms \<and> lineage_issues ms = [] \<and> scopes_ok (map ge_milestoneId ms) cx"
    unfolding validateProgramGraph_def Let_def append_is_Nil_conv issue_if_Nil scope_issues_none no_branch
      cycle_found [OF True] graph_ok_def
    using True roots by (auto simp: entry_issues_none not_less)
  with lineage_issues_none [OF _ ne] show ?thesis by blast
next
  case False
  then show ?thesis by (simp add: validateProgramGraph_def Let_def graph_ok_def)
qed

section \<open>The chain\<close>

lemma lineage_unique:
  assumes g: "graph_ok ms" and a: "(p, a) \<in> lineage ms" and b: "(p, b) \<in> lineage ms"
  shows "a = b"
proof -
  have one: "x = y" if "length xs \<le> 1" "x \<in> set xs" "y \<in> set xs" for xs and x y :: GraphEntry
    using that by (cases xs) auto
  obtain e h where "e \<in> set ms" "ge_sourcePredecessor e = Some p" "ge_milestoneId e = a"
    "h \<in> set ms" "ge_sourcePredecessor h = Some p" "ge_milestoneId h = b"
    using a b unfolding lineage_def by blast
  with g one [of "filter (\<lambda>e. ge_sourcePredecessor e = Some p) ms" e h] show ?thesis
    by (simp add: graph_ok_def successors_of_def)
qed

abbreviation linked :: "GraphEntry list \<Rightarrow> string list \<Rightarrow> bool" where
  "linked ms \<equiv> successively (\<lambda>a b. (a, b) \<in> lineage ms)"

text \<open>The loop finds the chain in its order: what is appended follows the last milestone found.\<close>

lemma linked_successor:
  assumes g: "graph_ok ms" and l: "linked ms r" and p: "p \<in> set r" "(p, i) \<in> lineage ms" "i \<notin> set r"
  shows "linked ms (r @ [i])"
proof -
  obtain xs ys where r: "r = xs @ p # ys" using p(1) by (meson split_list)
  have "ys = []"
  proof (cases ys)
    case (Cons y zs)
    with l r have "(p, y) \<in> lineage ms" by (simp add: successively_append_iff)
    then have "y = i" using lineage_unique [OF g _ p(2)] by blast
    with r Cons p(3) show ?thesis by simp
  qed
  with l r p(2) show ?thesis by (simp add: successively_append_iff)
qed

lemma linked_fold:
  assumes g: "graph_ok ms" and "set es \<subseteq> set ms" and "linked ms r" and "fold lineage_visit es (r, b) = (r', b')"
  shows "linked ms r'"
  using assms(2-4)
proof (induction es arbitrary: r b)
  case (Cons e es)
  show ?case
  proof (cases "lineage_visit e (r, b) = (r, b)")
    case True
    with Cons show ?thesis by auto
  next
    case False
    then obtain p where p: "ge_sourcePredecessor e = Some p" "p \<noteq> []" "p \<in> set r" "ge_milestoneId e \<notin> set r"
      "lineage_visit e (r, b) = (r @ [ge_milestoneId e], True)"
      by (auto simp: lineage_visit_def split: option.splits if_splits)
    have "(p, ge_milestoneId e) \<in> lineage ms" using p(1,2) Cons.prems(1) by (auto simp: lineage_def)
    from linked_successor [OF g Cons.prems(2) p(3) this p(4)] show ?thesis
      using Cons.IH [of "r @ [ge_milestoneId e]" True] Cons.prems p(5) by simp
  qed
qed simp

lemma loop_linked:
  assumes g: "graph_ok ms" and l: "lineage_loop ms root = Some acc"
  shows "linked ms (fst acc) \<and> (\<exists>xs. fst acc = root # xs)"
proof -
  let ?P = "\<lambda>acc. linked ms (fst acc) \<and> distinct (fst acc) \<and> (\<exists>xs. fst acc = root # xs)"
  have "?P acc"
  proof (rule while_option_rule [where P = ?P, OF _ l [unfolded lineage_loop_def]])
    fix a :: "string list \<times> bool" assume a: "?P a"
    then obtain xs where "lineage_pass ms (fst a) = (fst a @ xs, xs \<noteq> [])" "distinct (fst a @ xs)"
      using lineage_pass_appends by blast
    moreover from this have "linked ms (fst a @ xs)"
      using linked_fold [OF g subset_refl, of "fst a" False] a by (simp add: lineage_pass_def)
    ultimately show "?P (lineage_pass ms (fst a))" using a by auto
  qed simp
  then show ?thesis by simp
qed

text \<open>
  C40. In a valid graph the source lineage is one chain: the milestones can be listed, each once,
  from the root, which has neither source predecessor nor dependency, such that each next
  milestone has the one before it as its source predecessor and among its dependencies; and the
  closure loop computes this list.
\<close>

theorem valid_graph_is_a_chain:
  assumes "validateProgramGraph ms cx = []" and ne: "[] \<notin> ge_milestoneId ` set ms"
  shows "\<exists>r order. source_roots ms = [r] \<and> ge_dependencies r = [] \<and>
    lineage_loop ms (ge_milestoneId r) = Some (order, False) \<and> distinct order \<and>
    set order = ge_milestoneId ` set ms \<and> hd order = ge_milestoneId r \<and>
    successively (\<lambda>a b. \<exists>e\<in>set ms. ge_milestoneId e = b \<and> ge_sourcePredecessor e = Some a \<and>
      a \<in> set (ge_dependencies e)) order"
proof -
  have g: "graph_ok ms" using assms validateProgramGraph_exact by blast
  then obtain r where r: "source_roots ms = [r]" "ge_dependencies r = []" by (auto simp: graph_ok_def)
  obtain order where o': "lineage_loop ms (ge_milestoneId r) = Some (order, False)" "distinct order"
    "set order = (lineage ms)\<^sup>* `` {ge_milestoneId r}"
    using lineage_loop_ends by blast
  have "successively (\<lambda>a b. \<exists>e\<in>set ms. ge_milestoneId e = b \<and> ge_sourcePredecessor e = Some a \<and>
      a \<in> set (ge_dependencies e)) order"
  proof (rule successively_mono [of "\<lambda>a b. (a, b) \<in> lineage ms"])
    show "linked ms order" using loop_linked [OF g o'(1)] by simp
  qed (use g in \<open>auto simp: lineage_def graph_ok_def entry_ok_def\<close>)
  with r o' loop_linked [OF g o'(1)] lineage_all [OF g r(1) ne] show ?thesis by auto
qed

section \<open>Disjoint surfaces\<close>

lemma starts_with_prefix: "starts_with s p \<longleftrightarrow> prefix p s"
  by (auto simp: starts_with_def prefix_def) (metis append_take_drop_id)

lemma overlap_none: "overlap_issues fs = [] \<longleftrightarrow>
    (\<forall>i j. i < j \<longrightarrow> j < length fs \<longrightarrow> \<not> contains (fs ! i) (fs ! j) \<and> \<not> contains (fs ! j) (fs ! i))"
proof (induction fs)
  case (Cons f fs)
  have "overlap_issues (f # fs) = [] \<longleftrightarrow>
      (\<forall>j < length fs. \<not> contains f (fs ! j) \<and> \<not> contains (fs ! j) f) \<and> overlap_issues fs = []"
    by (auto simp: all_set_conv_all_nth)
  also have "\<dots> \<longleftrightarrow> (\<forall>i j. i < j \<longrightarrow> j < length (f # fs) \<longrightarrow>
      \<not> contains ((f # fs) ! i) ((f # fs) ! j) \<and> \<not> contains ((f # fs) ! j) ((f # fs) ! i))"
    unfolding Cons.IH by (auto simp: nth_Cons less_Suc_eq_0_disj split: nat.splits)
  finally show ?case .
qed simp

lemma covered_twice:
  assumes "surface_covers f path" and "surface_covers h path"
  shows "contains f h \<or> contains h f \<or> surface_text f = surface_text h"
proof (cases "sf_kind f = Subtree \<and> sf_kind h = Subtree")
  case True
  consider "path = sf_path f" | "path = sf_path h"
    | "prefix (sf_path f @ ''/'') path" "prefix (sf_path h @ ''/'') path"
    using assms True by (auto simp: surface_covers_def starts_with_prefix)
  then show ?thesis
  proof cases
    case 3
    then have "prefix (sf_path f @ ''/'') (sf_path h @ ''/'') \<or> prefix (sf_path h @ ''/'') (sf_path f @ ''/'')"
      by (rule prefix_same_cases)
    with True show ?thesis by (auto simp: contains_def starts_with_prefix)
  qed (use assms True in \<open>auto simp: contains_def surface_covers_def\<close>)
next
  case False
  then consider "sf_kind f = File" "sf_kind h = File" | "sf_kind f = Subtree" "sf_kind h = File"
    | "sf_kind f = File" "sf_kind h = Subtree"
    by (metis SurfaceKind.exhaust)
  then show ?thesis
    using assms by cases (auto simp: contains_def surface_covers_def surface_text_def)
qed

text \<open>
  In a valid graph of version 2 every path belongs to at most one work surface of a
  milestone: no two surfaces of a milestone, files or subtrees, cover the same path.
\<close>

theorem valid_surfaces_are_disjoint:
  assumes "graph_issues_v2 g = []" and "m \<in> set (gv_milestones g)"
    and "i < length (gm_workSurfaces m)" and "j < length (gm_workSurfaces m)"
    and "surface_covers (gm_workSurfaces m ! i) path" and "surface_covers (gm_workSurfaces m ! j) path"
  shows "i = j"
proof (rule ccontr)
  let ?f = "gm_workSurfaces m"
  assume "i \<noteq> j"
  have m: "milestone_issues m = []" using assms(1,2) by (auto simp: graph_issues_v2_def)
  then have "distinct (map surface_text ?f)" "overlap_issues ?f = []" by (auto simp: milestone_issues_def)
  moreover from this(1) have "surface_text (?f ! i) \<noteq> surface_text (?f ! j)"
    using assms(3,4) \<open>i \<noteq> j\<close> by (metis length_map nth_eq_iff_index_eq nth_map)
  moreover have "i < j \<or> j < i" using \<open>i \<noteq> j\<close> by auto
  ultimately show False
    using covered_twice [OF assms(5,6)] assms(3,4) unfolding overlap_none by metis
qed

section \<open>A concrete graph\<close>

definition demo_contract :: "uuid \<Rightarrow> MilestoneContract" where
  "demo_contract i = \<lparr>mc_milestoneId = i, mc_title = '''', mc_objective = '''', mc_taskType = ''chore'',
     mc_priority = ''p3'', mc_tags = [], mc_workflowId = ''w'', mc_workflowVersion = 1, mc_criteria = []\<rparr>"

definition demo_milestone :: "uuid \<Rightarrow> uuid list \<Rightarrow> uuid option \<Rightarrow> WorkSurface list \<Rightarrow> GraphMilestone" where
  "demo_milestone i ds p fs = \<lparr>gm_contract = demo_contract i, gm_dependencies = ds, gm_sourcePredecessor = p,
     gm_refs = [], gm_workSurfaces = fs, gm_resourceClaims = [], gm_capabilityClaims = [''c'']\<rparr>"

definition demo_milestones :: "GraphMilestone list" where
  "demo_milestones =
     [demo_milestone ''b'' [''a''] (Some ''a'')
        [\<lparr>sf_kind = File, sf_path = ''x''\<rparr>, \<lparr>sf_kind = Subtree, sf_path = ''y''\<rparr>],
      demo_milestone ''a'' [] None [\<lparr>sf_kind = File, sf_path = ''x''\<rparr>]]"

definition no_context :: InitialContext where
  "no_context = \<lparr>ictx_decisions = [], ictx_assumptions = [], ictx_risks = [], ictx_unresolvedQuestions = [],
     ictx_refs = []\<rparr>"

definition demo_graph :: GraphV2 where
  "demo_graph = \<lparr>gr_graphRevisionId = ''g'', gr_programId = ''p'', gr_revision = 1, gr_priorGraphRef = None,
     gr_intentPlaybackRef = reference ''intent_playback'' ''i'' '''',
     gr_initialSourceRef = reference ''source_revision'' ''s'' '''', gr_initialContext = no_context,
     gv_portfolioPolicyRef = reference ''portfolio_policy'' ''p'' '''',
     gv_integrationTargetRef = reference ''integration_target'' ''t'' '''', gv_crossProgramDependencies = [],
     gv_milestones = demo_milestones\<rparr>"

lemma demo_graph_valid:
  "validateProgramGraph (map entry_of demo_milestones) no_context = []" "graph_issues_v2 demo_graph = []"
proof -
  show v: "validateProgramGraph (map entry_of demo_milestones) no_context = []"
    by (simp add: validateProgramGraph_def issue_if_def demo_milestones_def demo_milestone_def demo_contract_def entry_of_def source_roots_def
        entry_issues_def surface_text_def source_successors_def mvalues_def map_from_def visit.simps deps_of_def
        lineage_issues_def lineage_loop_def while_option_unfold lineage_pass_def lineage_visit_def no_context_def
        scope_issues_def)
  then show "graph_issues_v2 demo_graph = []"
    by (simp add: graph_issues_v2_def demo_graph_def issue_if_def reference_def)
      (simp add: demo_milestones_def demo_milestone_def milestone_issues_def issue_if_def contains_def starts_with_def surface_text_def)
qed

lemma demo_ids: "[] \<notin> ge_milestoneId ` set (map entry_of demo_milestones)"
  by (simp add: demo_milestones_def demo_milestone_def demo_contract_def entry_of_def)

theorem validateProgramGraph_exact_witness: "graph_ok (map entry_of demo_milestones)"
  using validateProgramGraph_exact [OF demo_ids, of no_context] demo_graph_valid(1) by simp

theorem valid_graph_is_a_chain_witness:
  "\<exists>(r :: GraphEntry) order. lineage_loop (map entry_of demo_milestones) (ge_milestoneId r) = Some (order, False) \<and>
     set order = {''b'', ''a''}"
proof -
  have ids: "ge_milestoneId ` set (map entry_of demo_milestones) = {''b'', ''a''}"
    by (simp add: demo_milestones_def demo_milestone_def demo_contract_def entry_of_def)
  from valid_graph_is_a_chain [OF demo_graph_valid(1) demo_ids] show ?thesis
    unfolding ids by blast
qed

theorem valid_surfaces_are_disjoint_witness:
  "surface_covers (gm_workSurfaces (hd demo_milestones) ! 1) ''y/z'' \<and>
   \<not> surface_covers (gm_workSurfaces (hd demo_milestones) ! 0) ''y/z''"
proof -
  have c: "surface_covers (gm_workSurfaces (hd demo_milestones) ! 1) ''y/z''"
    by (simp add: demo_milestones_def demo_milestone_def surface_covers_def starts_with_def)
  have "(0::nat) = 1" if "surface_covers (gm_workSurfaces (hd demo_milestones) ! 0) ''y/z''"
    by (rule valid_surfaces_are_disjoint [OF demo_graph_valid(2) _ _ _ that c])
      (simp_all add: demo_graph_def demo_milestones_def demo_milestone_def)
  with c show ?thesis by auto
qed

end
