(* ===== verification/IntegrationOps.thy ===== *)
theory IntegrationOps
  imports PortfolioOps
begin

text \<open>
  The branches of \<open>decide\<close> (domain.ts) for the integration lane: a candidate is queued, its
  work is leased, prepared on the managed head, verified, authorized by an operator through a
  decision packet and promoted.
\<close>

section \<open>Queueing a candidate\<close>

definition dependency_candidate :: "Portfolio \<Rightarrow> CrossProgramDependency \<Rightarrow> IntegrationCandidateState option" where
  "dependency_candidate s d = find (\<lambda>e. ic_programId (cs_candidate e) = cd_programId d \<and>
       ref_id (ic_graphRevisionRef (cs_candidate e)) = cd_graphRevisionId d \<and>
       ref_digest (ic_graphRevisionRef (cs_candidate e)) = cd_graphDigest d)
     (mvalues (integrationCandidates s))"

definition expected_dependencies :: "Portfolio \<Rightarrow> GraphV2 option \<Rightarrow> string list" where
  "expected_dependencies s g =
     (case g of
        None \<Rightarrow> []
      | Some v2 \<Rightarrow> sort (map (\<lambda>d. case dependency_candidate s d of
            None \<Rightarrow> ''missing'' | Some e \<Rightarrow> ic_candidateId (cs_candidate e)) (gv_crossProgramDependencies v2)))"

text \<open>The order of candidates: by admission sequence, then by identifier.\<close>

definition precedes :: "(string \<Rightarrow> string \<Rightarrow> int) \<Rightarrow> IntegrationCandidate \<Rightarrow> IntegrationCandidate \<Rightarrow> bool" where
  "precedes lc a b \<longleftrightarrow> ic_finalAdmissionSequence a < ic_finalAdmissionSequence b \<or>
     (ic_finalAdmissionSequence a = ic_finalAdmissionSequence b \<and>
      lc (ic_candidateId a) (ic_candidateId b) < 0)"

definition manifest_paths :: "CandidateDiffManifestState option \<Rightarrow> string list" where
  "manifest_paths m = (case m of None \<Rightarrow> [] | Some m \<Rightarrow> map de_path (cdm_entries (ms_manifest m)))"

definition manifest_of :: "Portfolio \<Rightarrow> IntegrationCandidate \<Rightarrow> CandidateDiffManifestState option" where
  "manifest_of s c = mget (candidateDiffManifests s) (ref_id (ic_diffManifestRef c))"

definition expected_overlaps :: "(string \<Rightarrow> string \<Rightarrow> int) \<Rightarrow> Portfolio \<Rightarrow> IntegrationCandidate \<Rightarrow> string list" where
  "expected_overlaps lc s c = sort (map (\<lambda>e. ic_candidateId (cs_candidate e))
     (filter (\<lambda>e. list_ex (\<lambda>p. p \<in> set (manifest_paths (manifest_of s c)))
                    (manifest_paths (manifest_of s (cs_candidate e))))
       (filter (\<lambda>e. ref_id (ic_targetRef (cs_candidate e)) = ref_id (ic_targetRef c) \<and>
                    precedes lc (cs_candidate e) c)
         (mvalues (integrationCandidates s)))))"

definition candidate_evidence_ok ::
    "(string \<Rightarrow> string) \<Rightarrow> (string \<Rightarrow> string \<Rightarrow> int) \<Rightarrow> PortfolioContext \<Rightarrow> Portfolio \<Rightarrow>
       IntegrationCandidate \<Rightarrow> digest \<Rightarrow> bool" where
  "candidate_evidence_ok sha lc cx s c d \<longleftrightarrow>
     digest_of sha (enc_IntegrationCandidate c) = d \<and> \<not> mhas (integrationCandidates s) (ic_candidateId c) \<and>
     holds (manifest_of s c) (\<lambda>m. cdm_eligible (ms_manifest m) \<and>
       ms_manifestDigest m = ref_digest (ic_diffManifestRef c) \<and>
       ref_id (cdm_candidateRevisionRef (ms_manifest m)) = ref_id (ic_originalCandidateRef c) \<and>
       ref_digest (cdm_candidateRevisionRef (ms_manifest m)) = ref_digest (ic_originalCandidateRef c)) \<and>
     holds (mget (cx_programGraphs cx) (ref_id (ic_graphRevisionRef c))) (\<lambda>g.
       gs_graphDigest g = ref_digest (ic_graphRevisionRef c) \<and> gs_v2 g \<noteq> None \<and>
       gs_programId g = ic_programId c \<and>
       jarray_digest sha JString (sort (ic_dependencyCandidateIds c)) =
         jarray_digest sha JString (expected_dependencies s (gs_v2 g))) \<and>
     holds (mget (portfolioPolicies s) (ref_id (ic_policyRef c)))
       (\<lambda>p. ps_policyDigest p = ref_digest (ic_policyRef c)) \<and>
     holds (mget (integrationTargets s) (ref_id (ic_targetRef c)))
       (\<lambda>t. ts_targetDigest t = ref_digest (ic_targetRef c)) \<and>
     ref_kind (ic_originalCandidateRef c) = ''source_revision'' \<and>
     jarray_digest sha JString (sort (ic_actualOverlapPredecessorIds c)) =
       jarray_digest sha JString (expected_overlaps lc s c) \<and>
     distinct (ic_dependencyCandidateIds c) \<and> distinct (ic_actualOverlapPredecessorIds c)"

definition integration_ready :: "CandidateStatus \<Rightarrow> bool" where
  "integration_ready st \<longleftrightarrow> st \<in> {C_pending, C_blocked, C_preparing, C_verifying, C_awaiting_authorization,
     C_authorized, C_promoting}"

definition ready_count :: "Portfolio \<Rightarrow> nat" where
  "ready_count s = length (filter (\<lambda>e. integration_ready (cs_status e)) (mvalues (integrationCandidates s)))"

definition ready_limit :: "Portfolio \<Rightarrow> IntegrationCandidate \<Rightarrow> nat" where
  "ready_limit s c = (case mget (portfolioPolicies s) (ref_id (ic_policyRef c)) of
     None \<Rightarrow> 0 | Some p \<Rightarrow> lim_maxIntegrationReadyCandidates (pol_limits (ps_policy p)))"

definition new_work :: "uuid \<Rightarrow> uuid \<Rightarrow> timestamp \<Rightarrow> IntegrationWork" where
  "new_work workId c now =
     \<lparr>iw_workId = workId, iw_candidateId = c, iw_status = W_pending, iw_availableAt = now,
      iw_leaseOwnerId = None, iw_leaseFencingToken = 0, iw_leaseAcquiredAt = None,
      iw_leaseExpiresAt = None, iw_expectedHeadRef = None, iw_rebasedCandidateRef = None,
      iw_verification = None, iw_authorizationRef = None, iw_createdAt = now, iw_completedAt = None,
      iw_lastError = None\<rparr>"

definition graph_of :: "PortfolioContext \<Rightarrow> IntegrationCandidate \<Rightarrow> ProgramGraphState option" where
  "graph_of cx c = mget (cx_programGraphs cx) (ref_id (ic_graphRevisionRef c))"

text \<open>The program is told that its integration is pending, an event of the program.\<close>

definition program_pending :: "PortfolioContext \<Rightarrow> IntegrationCandidate \<Rightarrow> PortfolioInput list" where
  "program_pending cx c =
     (case graph_of cx c of
        None \<Rightarrow> []
      | Some g \<Rightarrow> [pf_event ''program'' (ic_programId c) (Planned (ProgramIntegrationPending
          (ic_programId c) (gs_graphRevisionId g) (gs_graphDigest g) (ic_candidateId c)))])"

definition decide_integration_candidate_queue ::
    "(string \<Rightarrow> string) \<Rightarrow> (string \<Rightarrow> string \<Rightarrow> int) \<Rightarrow> Actor \<Rightarrow> timestamp \<Rightarrow> PortfolioContext \<Rightarrow> Portfolio \<Rightarrow>
       IntegrationCandidate \<Rightarrow> digest \<Rightarrow> uuid \<Rightarrow> portfolio_decision" where
  "decide_integration_candidate_queue sha lc actor now cx s c d workId =
     (if actor_kind actor \<noteq> System
      then reject APPROVAL_REQUIRES_OPERATOR ''Integration candidate queueing requires the host''
      else if \<not> candidate_evidence_ok sha lc cx s c d
      then reject EVIDENCE_DIGEST_MISMATCH ''Integration candidate evidence is invalid''
      else if ready_limit s c \<le> ready_count s
      then reject PROGRAM_NOT_ADVANCEABLE ''Integration-ready capacity is full''
      else
        let w = new_work workId (ic_candidateId c) now in
        accept (pf_event ''integration_candidate'' (ic_candidateId c)
                  (IntegrationCandidateQueued c d w (digest_of sha (enc_IntegrationWork w)))
                # program_pending cx c)
          ''integration_candidate'' (ic_candidateId c))"

section \<open>Leasing the work\<close>

definition candidate_of :: "Portfolio \<Rightarrow> IntegrationWork \<Rightarrow> IntegrationCandidateState option" where
  "candidate_of s w = mget (integrationCandidates s) (iw_candidateId w)"

definition target_of :: "Portfolio \<Rightarrow> IntegrationCandidate \<Rightarrow> IntegrationTargetState option" where
  "target_of s c = mget (integrationTargets s) (ref_id (ic_targetRef c))"

definition work_claimable :: "IntegrationWork \<Rightarrow> timestamp \<Rightarrow> bool" where
  "work_claimable w now \<longleftrightarrow> iw_status w = W_pending \<or>
     (iw_status w = W_leased \<and> (case iw_leaseExpiresAt w of None \<Rightarrow> True | Some e \<Rightarrow> e \<le> now))"

definition predecessors_promoted :: "Portfolio \<Rightarrow> IntegrationCandidate \<Rightarrow> bool" where
  "predecessors_promoted s c \<longleftrightarrow>
     list_all (\<lambda>i. holds (mget (integrationCandidates s) i) (\<lambda>p. cs_status p = C_promoted))
       (ic_dependencyCandidateIds c @ ic_actualOverlapPredecessorIds c)"

definition sequence_cmp :: "(string \<Rightarrow> string \<Rightarrow> int) \<Rightarrow> IntegrationCandidateState \<Rightarrow> IntegrationCandidateState \<Rightarrow> int" where
  "sequence_cmp lc a b = then_by
     (int (ic_finalAdmissionSequence (cs_candidate a)) - int (ic_finalAdmissionSequence (cs_candidate b)))
     (lc (ic_candidateId (cs_candidate a)) (ic_candidateId (cs_candidate b)))"

text \<open>The other candidates of the target that are still under way, in their order.\<close>

definition unfinished :: "CandidateStatus \<Rightarrow> bool" where
  "unfinished st \<longleftrightarrow> st \<noteq> C_promoted \<and> st \<noteq> C_ineligible \<and> st \<noteq> C_conflicted"

definition rivals :: "(string \<Rightarrow> string \<Rightarrow> int) \<Rightarrow> Portfolio \<Rightarrow> IntegrationCandidate \<Rightarrow> IntegrationCandidateState list" where
  "rivals lc s c = sort_by (sequence_cmp lc)
     (filter (\<lambda>e. ref_id (ic_targetRef (cs_candidate e)) = ref_id (ic_targetRef c) \<and>
                  unfinished (cs_status e) \<and> ic_candidateId (cs_candidate e) \<noteq> ic_candidateId c)
       (mvalues (integrationCandidates s)))"

definition earlier_owns :: "(string \<Rightarrow> string \<Rightarrow> int) \<Rightarrow> Portfolio \<Rightarrow> IntegrationCandidate \<Rightarrow> bool" where
  "earlier_owns lc s c = (case rivals lc s c of [] \<Rightarrow> False | e # _ \<Rightarrow> precedes lc (cs_candidate e) c)"

definition target_busy :: "Portfolio \<Rightarrow> IntegrationWork \<Rightarrow> IntegrationCandidate \<Rightarrow> timestamp \<Rightarrow> bool" where
  "target_busy s w c now = list_ex (\<lambda>e.
     iw_workId (ws_work e) \<noteq> iw_workId w \<and> iw_status (ws_work e) = W_leased \<and>
     holds (iw_leaseExpiresAt (ws_work e)) (\<lambda>x. now < x) \<and>
     holds (candidate_of s (ws_work e))
       (\<lambda>o'. ref_id (ic_targetRef (cs_candidate o')) = ref_id (ic_targetRef c)))
     (mvalues (integrationWork s))"

definition decide_work_lease_acquire ::
    "(string \<Rightarrow> string \<Rightarrow> int) \<Rightarrow> Actor \<Rightarrow> timestamp \<Rightarrow> Portfolio \<Rightarrow> uuid \<Rightarrow> uuid \<Rightarrow> nat \<Rightarrow> portfolio_decision" where
  "decide_work_lease_acquire lc actor now s workId owner duration =
     (if actor_kind actor \<noteq> System
      then reject PROGRAM_NOT_ADVANCEABLE ''Integration leasing requires a system actor''
      else case mget (integrationWork s) workId of
        None \<Rightarrow> reject PROGRAM_NOT_ADVANCEABLE ''Integration work is not claimable''
      | Some p \<Rightarrow>
          if \<not> work_claimable (ws_work p) now
          then reject PROGRAM_NOT_ADVANCEABLE ''Integration work is not claimable''
          else (case candidate_of s (ws_work p) of
              None \<Rightarrow> reject PROGRAM_NOT_ADVANCEABLE ''Integration work is not claimable''
            | Some c \<Rightarrow>
                if \<not> predecessors_promoted s (cs_candidate c)
                then reject PROGRAM_NOT_ADVANCEABLE ''Integration candidate predecessors are incomplete''
                else if earlier_owns lc s (cs_candidate c)
                then reject PROGRAM_NOT_ADVANCEABLE ''An earlier integration candidate owns ordering''
                else if target_busy s (ws_work p) (cs_candidate c) now
                then reject PROGRAM_NOT_ADVANCEABLE ''The target merge lane is leased''
                else
                  accept [pf_event ''integration_work'' (iw_workId (ws_work p))
                            (IntegrationWorkLeaseAcquired (iw_workId (ws_work p)) owner
                               (iw_leaseFencingToken (ws_work p) + 1) (addMilliseconds now duration))]
                    ''integration_work'' (iw_workId (ws_work p))))"

section \<open>The holder's commands\<close>

text \<open>The lease checks; the preparation admits its holder at the very instant of expiry.\<close>

definition work_held :: "IntegrationWork \<Rightarrow> uuid \<Rightarrow> nat \<Rightarrow> bool" where
  "work_held w owner t \<longleftrightarrow> iw_leaseOwnerId w = Some owner \<and> iw_leaseFencingToken w = t"

definition work_lease_open :: "IntegrationWork \<Rightarrow> timestamp \<Rightarrow> bool" where
  "work_lease_open w now \<longleftrightarrow> holds (iw_leaseExpiresAt w) (\<lambda>e. now < e)"

definition work_lease_not_past :: "IntegrationWork \<Rightarrow> timestamp \<Rightarrow> bool" where
  "work_lease_not_past w now \<longleftrightarrow> holds (iw_leaseExpiresAt w) (\<lambda>e. now \<le> e)"

definition live_head_digest :: "(string \<Rightarrow> string) \<Rightarrow> Portfolio \<Rightarrow> IntegrationWork \<Rightarrow> digest" where
  "live_head_digest sha s w =
     head_digest sha (case candidate_of s w of None \<Rightarrow> None | Some c \<Rightarrow> target_of s (cs_candidate c))"

definition work_candidate_ok :: "Portfolio \<Rightarrow> IntegrationWork \<Rightarrow> bool" where
  "work_candidate_ok s w \<longleftrightarrow>
     holds (candidate_of s w) (\<lambda>c. ic_candidateId (cs_candidate c) = iw_candidateId w)"

definition decide_work_prepare ::
    "(string \<Rightarrow> string) \<Rightarrow> Actor \<Rightarrow> timestamp \<Rightarrow> PortfolioContext \<Rightarrow> Portfolio \<Rightarrow> uuid \<Rightarrow> uuid \<Rightarrow> nat \<Rightarrow>
       ImmutableReference \<Rightarrow> ImmutableReference \<Rightarrow> portfolio_decision" where
  "decide_work_prepare sha actor now cx s workId owner t head rebased =
     (if actor_kind actor \<noteq> System
      then reject PROGRAM_NOT_ADVANCEABLE ''Integration preparation requires a system actor''
      else case mget (integrationWork s) workId of
        None \<Rightarrow> reject PROGRAM_NOT_ADVANCEABLE ''Integration preparation fence is stale''
      | Some p \<Rightarrow>
          if iw_status (ws_work p) = W_leased \<and> work_held (ws_work p) owner t \<and>
             work_lease_not_past (ws_work p) now \<and> work_candidate_ok s (ws_work p) \<and>
             live_head_digest sha s (ws_work p) = ref_digest_of sha head \<and>
             ref_kind rebased = ''source_revision'' \<and> mhas (sourceRevisions (cx_state cx)) (ref_id rebased)
          then
            accept [pf_event ''integration_work'' (iw_workId (ws_work p))
                      (IntegrationCandidatePrepared workId (iw_candidateId (ws_work p)) owner t head rebased)]
              ''integration_work'' (iw_workId (ws_work p))
          else reject PROGRAM_NOT_ADVANCEABLE ''Integration preparation fence is stale'')"

definition decide_work_conflict ::
    "(string \<Rightarrow> string) \<Rightarrow> Actor \<Rightarrow> timestamp \<Rightarrow> Portfolio \<Rightarrow> uuid \<Rightarrow> uuid \<Rightarrow> nat \<Rightarrow>
       IntegrationConflict \<Rightarrow> digest \<Rightarrow> portfolio_decision" where
  "decide_work_conflict sha actor now s workId owner t x d =
     (if actor_kind actor \<noteq> System
      then reject PROGRAM_NOT_ADVANCEABLE ''Conflict evidence requires a system actor''
      else case mget (integrationWork s) workId of
        None \<Rightarrow> reject EVIDENCE_DIGEST_MISMATCH ''Integration conflict evidence is stale''
      | Some p \<Rightarrow>
          if iw_status (ws_work p) = W_leased \<and> work_held (ws_work p) owner t \<and>
             work_lease_open (ws_work p) now \<and> digest_of sha (enc_IntegrationConflict x) = d \<and>
             ix_candidateId x = iw_candidateId (ws_work p)
          then
            accept [pf_event ''integration_conflict'' (ix_conflictId x)
                      (IntegrationConflictRecorded workId owner t x d)]
              ''integration_conflict'' (ix_conflictId x)
          else reject EVIDENCE_DIGEST_MISMATCH ''Integration conflict evidence is stale'')"

definition verification_evidence_ok ::
    "(string \<Rightarrow> string) \<Rightarrow> Portfolio \<Rightarrow> IntegrationWork \<Rightarrow> IntegrationVerification \<Rightarrow> digest \<Rightarrow> bool" where
  "verification_evidence_ok sha s w v d \<longleftrightarrow>
     holds (iw_expectedHeadRef w) (\<lambda>head. holds (iw_rebasedCandidateRef w) (\<lambda>rebased.
       digest_of sha (enc_IntegrationVerification v) = d \<and> iv_candidateId v = iw_candidateId w \<and>
       ref_digest_of sha (iv_expectedHeadRef v) = ref_digest_of sha head \<and>
       ref_digest_of sha (iv_rebasedCandidateRef v) = ref_digest_of sha rebased \<and>
       live_head_digest sha s w = ref_digest_of sha head)) \<and>
     holds (candidate_of s w) (\<lambda>c. ic_candidateId (cs_candidate c) = iw_candidateId w \<and>
       holds (target_of s (cs_candidate c))
         (\<lambda>t. iv_verifierContractDigest v = tgt_verifierContractDigest (ts_target t)))"

definition decide_work_verify ::
    "(string \<Rightarrow> string) \<Rightarrow> Actor \<Rightarrow> timestamp \<Rightarrow> Portfolio \<Rightarrow> uuid \<Rightarrow> uuid \<Rightarrow> nat \<Rightarrow>
       IntegrationVerification \<Rightarrow> digest \<Rightarrow> portfolio_decision" where
  "decide_work_verify sha actor now s workId owner t v d =
     (if actor_kind actor \<noteq> System
      then reject PROGRAM_NOT_ADVANCEABLE ''Integration verification requires a system actor''
      else case mget (integrationWork s) workId of
        None \<Rightarrow> reject EVIDENCE_DIGEST_MISMATCH ''Integration verification is stale or invalid''
      | Some p \<Rightarrow>
          if iw_status (ws_work p) = W_prepared \<and> work_held (ws_work p) owner t \<and>
             work_lease_open (ws_work p) now \<and> verification_evidence_ok sha s (ws_work p) v d
          then
            accept [pf_event ''integration_work'' (iw_workId (ws_work p))
                      (IntegrationVerificationRecorded workId owner t v d)]
              ''integration_verification'' (iv_integrationVerificationId v)
          else reject EVIDENCE_DIGEST_MISMATCH ''Integration verification is stale or invalid'')"

section \<open>Promotion\<close>

definition decide_promote_record ::
    "(string \<Rightarrow> string) \<Rightarrow> Actor \<Rightarrow> Portfolio \<Rightarrow> PromotionReceipt \<Rightarrow> digest \<Rightarrow> portfolio_decision" where
  "decide_promote_record sha actor s r d =
     (if actor_kind actor \<noteq> System
      then reject APPROVAL_REQUIRES_OPERATOR ''Promotion receipts require the host''
      else if digest_of sha (enc_PromotionReceipt r) = d \<and>
         holds (mget (integrationCandidates s) (pr_candidateId r)) (\<lambda>c. cs_status c = C_authorized) \<and>
         holds (work_of (pr_candidateId r) s) (\<lambda>p. iw_status (ws_work p) = W_authorized \<and>
           holds (iw_authorizationRef (ws_work p)) (\<lambda>a. ref_id a = ref_id (pr_authorizationRef r)) \<and>
           opt_ref_digest sha (iw_rebasedCandidateRef (ws_work p)) = ref_digest_of sha (pr_newHeadRef r)) \<and>
         head_digest sha (mget (integrationTargets s) (ref_id (pr_targetRef r))) =
           ref_digest_of sha (pr_expectedOldHeadRef r)
      then
        accept [pf_event ''promotion_receipt'' (pr_receiptId r) (IntegrationPromotionRecorded r d)]
          ''promotion_receipt'' (pr_receiptId r)
      else reject EVIDENCE_DIGEST_MISMATCH ''Promotion receipt is stale or unauthorized'')"

definition decide_slo_record ::
    "(string \<Rightarrow> string) \<Rightarrow> Actor \<Rightarrow> Portfolio \<Rightarrow> PortfolioSloIncident \<Rightarrow> digest \<Rightarrow> portfolio_decision" where
  "decide_slo_record sha actor s i d =
     (if actor_kind actor \<noteq> System
      then reject APPROVAL_REQUIRES_OPERATOR ''Portfolio SLO evidence requires the host''
      else if digest_of sha (enc_PortfolioSloIncident i) \<noteq> d \<or>
         \<not> mhas (portfolioPolicies s) (ref_id (si_policyRef i))
      then reject EVIDENCE_DIGEST_MISMATCH ''Portfolio SLO incident is invalid''
      else
        accept [pf_event ''portfolio_slo_incident'' (si_incidentId i) (PortfolioSloIncidentRecorded i d)]
          ''portfolio_slo_incident'' (si_incidentId i))"

end
