(* ===== verification/PortfolioAdmit.thy ===== *)
theory PortfolioAdmit
  imports PortfolioOps "HOL-Library.Monad_Syntax"
begin

text \<open>
  The branch \<open>portfolio.coordinate\<close> of \<open>decide\<close> (domain.ts), which admits the next program to
  execution, with the functions that compile a context packet and start a milestone of a graph.
\<close>

section \<open>Nodes of a graph\<close>

datatype GraphNodeState = Node_v1 GraphMilestoneV1 | Node_v2 GraphMilestone

fun node_contract :: "GraphNodeState \<Rightarrow> MilestoneContract" where
  "node_contract (Node_v1 m) = gm_contract m"
| "node_contract (Node_v2 m) = gm_contract m"

fun node_refs :: "GraphNodeState \<Rightarrow> ImmutableReference list" where
  "node_refs (Node_v1 m) = gm_refs m"
| "node_refs (Node_v2 m) = gm_refs m"

fun graphNodeAllowedPaths :: "GraphNodeState \<Rightarrow> string list" where
  "graphNodeAllowedPaths (Node_v2 m) = map sf_path (gm_workSurfaces m)"
| "graphNodeAllowedPaths (Node_v1 m) = gm_allowedWorkSurfaces m"

fun graph_nodes :: "Graph \<Rightarrow> GraphNodeState list" where
  "graph_nodes (Graph_v1 g) = map Node_v1 (g1_milestones g)"
| "graph_nodes (Graph_v2 g) = map Node_v2 (gv_milestones g)"

definition graphMilestone :: "'a ProgramGraphState_scheme \<Rightarrow> uuid \<Rightarrow> GraphNodeState option" where
  "graphMilestone g i = find (\<lambda>n. mc_milestoneId (node_contract n) = i) (graph_nodes (gs_graph g))"

section \<open>Claims on work surfaces\<close>

definition workSurfacesOverlap :: "WorkSurface \<Rightarrow> WorkSurface \<Rightarrow> bool" where
  "workSurfacesOverlap l r \<longleftrightarrow> sf_path l = sf_path r \<or>
     (sf_kind l = Subtree \<and> starts_with (sf_path r) (sf_path l @ ''/'')) \<or>
     (sf_kind r = Subtree \<and> starts_with (sf_path l) (sf_path r @ ''/''))"

definition surfaceClaimKey :: "string \<Rightarrow> WorkSurface \<Rightarrow> string" where
  "surfaceClaimKey target f = ''surface:'' @ target @ '':'' @ surface_kind_text (sf_kind f) @ '':'' @ sf_path f"

text \<open>What \<open>.+\<close> matches to the end of the key: a text without line terminators that is not empty.\<close>

definition dot_plus :: "string \<Rightarrow> bool" where
  "dot_plus p \<longleftrightarrow> p \<noteq> [] \<and> list_all (\<lambda>c. c \<noteq> CHR 0x0A \<and> c \<noteq> CHR 0x0D) p"

definition parse_kind_path :: "string \<Rightarrow> WorkSurface option" where
  "parse_kind_path r =
     (if starts_with r ''file:'' \<and> dot_plus (drop 5 r) then Some \<lparr>sf_kind = File, sf_path = drop 5 r\<rparr>
      else if starts_with r ''subtree:'' \<and> dot_plus (drop 8 r)
      then Some \<lparr>sf_kind = Subtree, sf_path = drop 8 r\<rparr>
      else None)"

text \<open>The regular expression: the text up to the first colon, a kind, the rest.\<close>

definition parseSurfaceClaimKey :: "string \<Rightarrow> (string \<times> WorkSurface) option" where
  "parseSurfaceClaimKey key =
     (if \<not> starts_with key ''surface:'' then None
      else
        let target = takeWhile (\<lambda>c. c \<noteq> CHR '':'') (drop 8 key);
            rest = dropWhile (\<lambda>c. c \<noteq> CHR '':'') (drop 8 key) in
        if target = [] \<or> rest = [] then None
        else map_option (Pair target) (parse_kind_path (tl rest)))"

section \<open>Context packets\<close>

definition in_scope :: "uuid \<Rightarrow> ScopedRecord \<Rightarrow> bool" where
  "in_scope i r = (case scr_scope r of ScopeProgram \<Rightarrow> True | ScopeMilestones ids \<Rightarrow> i \<in> set ids)"

definition recordsForMilestone :: "ScopedRecord list \<Rightarrow> uuid \<Rightarrow> ScopedRecord list" where
  "recordsForMilestone rs i = filter (in_scope i) rs"

text \<open>\<open>Array.join\<close> with a colon.\<close>

fun join_colon :: "string list \<Rightarrow> string" where
  "join_colon [] = []"
| "join_colon [x] = x"
| "join_colon (x # y # xs) = x @ '':'' @ join_colon (y # xs)"

definition generationSeed :: "digest \<Rightarrow> uuid \<Rightarrow> nat \<Rightarrow> OutcomeValidation list \<Rightarrow> string" where
  "generationSeed graphDigest i n vs =
     join_colon ([''parallelplay:program:generation:v1'', graphDigest, i, string_of_nat n] @
       sort (map ov_packetDigest vs))"

fun dependency_packets :: "PortfolioContext \<Rightarrow> OutcomeValidation list \<Rightarrow> OutcomePacketState list option" where
  "dependency_packets cx [] = Some []"
| "dependency_packets cx (v # vs) = do {
     p \<leftarrow> mget (cx_outcomePackets cx) (ov_outcomePacketId v);
     ps \<leftarrow> dependency_packets cx vs;
     Some (p # ps) }"

definition packet_receipts :: "OutcomePacketState \<Rightarrow> ImmutableReference list" where
  "packet_receipts p = ops_driverReceipts p @ ops_verificationReceipts p @ ops_artifactManifests p"

definition buildContextPacket ::
    "(string \<Rightarrow> string) \<Rightarrow> PortfolioContext \<Rightarrow> ProgramGraphState \<Rightarrow> uuid \<Rightarrow> uuid \<Rightarrow> nat \<Rightarrow> uuid \<Rightarrow>
       OutcomeValidation list \<Rightarrow> timestamp \<Rightarrow> ContextPacket result" where
  "buildContextPacket sha cx g i generationId n base vs now =
     (case graphMilestone g i of
        None \<Rightarrow> Inl ''Graph milestone is missing''
      | Some node \<Rightarrow>
     (case mget (sourceRevisions (cx_state cx)) base of
        None \<Rightarrow> Inl ''Context source revision is missing''
      | Some source \<Rightarrow>
          let gr = graph_base (gs_graph g); ictx = gr_initialContext gr;
              seed = generationSeed (gs_graphDigest g) i n vs in
          if ref_id (gr_intentPlaybackRef gr) \<notin> set (cx_playbacks cx)
          then Inl ''Context intent playback is missing''
          else (case dependency_packets cx vs of
              None \<Rightarrow> Inl ''Context dependency outcome is missing''
            | Some packets \<Rightarrow> Inr
                \<lparr>cp_contextPacketId = deterministicUuid sha (seed @ '':context''),
                 cp_programId = gs_programId g, cp_milestoneId = i, cp_generationId = generationId,
                 cp_generation = n, cp_intentPlaybackRef = gr_intentPlaybackRef gr,
                 cp_graphRevisionRef = reference ''program_graph'' (gs_graphRevisionId g) (gs_graphDigest g),
                 cp_milestoneContractRef = reference ''milestone_contract'' i
                   (digest_of sha (enc_MilestoneContract (node_contract node))),
                 cp_sourceRevisionRef = reference ''source_revision''
                   (sr_revisionId (srs_revision source)) (sr_revisionDigest (srs_revision source)),
                 cp_dependencyOutcomeRefs = map (\<lambda>p. reference ''outcome_packet''
                   (ops_outcomePacketId p) (ops_packetDigest p)) packets,
                 cp_dependencyVerificationRefs = concat (map packet_receipts packets),
                 cp_decisions = recordsForMilestone (ictx_decisions ictx) i,
                 cp_assumptions = recordsForMilestone (ictx_assumptions ictx) i,
                 cp_risks = recordsForMilestone (ictx_risks ictx) i,
                 cp_unresolvedQuestions = recordsForMilestone (ictx_unresolvedQuestions ictx) i,
                 cp_refs = ictx_refs ictx @ node_refs node,
                 cp_allowedWorkSurfaces = graphNodeAllowedPaths node, cp_compiledAt = now\<rparr>)))"

section \<open>Starting a milestone\<close>

text \<open>
  The one step of a workflow of schema version 3, with the contracts such a step has: an
  execution contract of protocol 2, a capability manifest of version 2 and a verifier.
\<close>

record StepV3 =
  s3_step :: WorkflowStep
  s3_image :: string
  s3_argv :: "string list"
  s3_limits :: CapabilityLimits
  s3_verifier :: VerifierContract

definition step_v3 :: "WorkflowStep \<Rightarrow> StepV3 option" where
  "step_v3 st = (case (ws_execution st, ws_capabilities st, ws_verification st) of
     (Some (ContractV2 img argv _ _), Some (ManifestV2 limits _ _), Some v) \<Rightarrow>
       Some \<lparr>s3_step = st, s3_image = img, s3_argv = argv, s3_limits = limits, s3_verifier = v\<rparr>
   | _ \<Rightarrow> None)"

text \<open>The step of a workflow of version 3 that has one step, which depends on none.\<close>

definition single_step_v3 :: "WorkflowDefinition \<Rightarrow> WorkflowStep option" where
  "single_step_v3 d = (case wd_steps d of
     [st] \<Rightarrow> if wd_schemaVersion d = Some 3 \<and> ws_dependsOn st = [] then Some st else None
   | _ \<Rightarrow> None)"

definition milestone_step :: "PortfolioContext \<Rightarrow> MilestoneContract \<Rightarrow> (WorkflowState \<times> StepV3) option" where
  "milestone_step cx c = do {
     w \<leftarrow> mget (workflows (cx_state cx)) (workflowKey (mc_workflowId c) (mc_workflowVersion c));
     step \<leftarrow> single_step_v3 (wf_definition w);
     st \<leftarrow> step_v3 step;
     Some (w, st) }"

definition job_of_step ::
    "(string \<Rightarrow> string) \<Rightarrow> Generation \<Rightarrow> StepV3 \<Rightarrow> JobPolicy \<Rightarrow> digest \<Rightarrow> JobScheduledData" where
  "job_of_step sha n st policy packetDigest =
     (let execution = ContractV2 (s3_image st) (s3_argv st) (Some (gen_contextPacketId n)) (Some packetDigest);
          capabilities = ManifestV2 (s3_limits st) (Some (gen_contextPacketId n)) (Some packetDigest) in
      \<lparr>js_jobId = gen_jobId n, js_runId = gen_runId n, js_stepId = ws_id (s3_step st),
       js_capability = ws_capability (s3_step st), js_dependencyJobIds = [], js_initialStatus = J_ready,
       js_policy = policy, js_sourceRevisionId = Some (gen_baseRevisionId n),
       js_executionContract = Some execution,
       js_executionContractDigest = Some (digest_of sha (enc_ExecutionContract execution)),
       js_capabilityManifest = Some capabilities,
       js_capabilityManifestDigest = Some (digest_of sha (enc_CapabilityManifest capabilities)),
       js_contextPacketId = Some (gen_contextPacketId n), js_contextPacketDigest = Some packetDigest,
       js_verifierContract = Some (s3_verifier st),
       js_verifierContractDigest = Some (digest_of sha (enc_VerifierContract (s3_verifier st)))\<rparr>)"

definition generation_events ::
    "(string \<Rightarrow> string) \<Rightarrow> Generation \<Rightarrow> WorkflowState \<Rightarrow> StepV3 \<Rightarrow> JobPolicy \<Rightarrow> ContextPacket \<Rightarrow> PortfolioInput list" where
  "generation_events sha n w st policy packet =
     (let d = digest_of sha (enc_ContextPacket packet) in
      [pf_event ''context_packet'' (cp_contextPacketId packet) (Lifecycle (ContextPacketCompiled packet d)),
       pf_event ''milestone_generation'' (gen_generationId n) (Planned (MilestoneGenerationStarted n)),
       pf_event ''run'' (gen_runId n) (Planned (MilestoneRunCreated (gen_runId n) (gen_milestoneId n)
         (gen_programId n) (wf_workflowId w) (wf_version w) (Some (gen_generationId n, gen_generation n)))),
       pf_event ''job'' (gen_jobId n) (Lifecycle (JobScheduled (job_of_step sha n st policy d))),
       pf_event ''run'' (gen_runId n) (Lifecycle (RunScheduled (gen_runId n)))])"

record Started =
  st_generation :: Generation
  st_events :: "PortfolioInput list"

definition startGraphMilestoneEvents ::
    "(string \<Rightarrow> string) \<Rightarrow> PortfolioContext \<Rightarrow> ProgramGraphState \<Rightarrow> uuid \<Rightarrow> nat \<Rightarrow> uuid \<Rightarrow>
       OutcomeValidation list \<Rightarrow> JobPolicy \<Rightarrow> timestamp \<Rightarrow> PortfolioFailure + Started" where
  "startGraphMilestoneEvents sha cx g i n base vs policy now =
     (case graphMilestone g i of
        None \<Rightarrow> Inl (Refused MILESTONE_NOT_FOUND ''Graph milestone does not exist'')
      | Some node \<Rightarrow>
     (case milestone_step cx (node_contract node) of
        None \<Rightarrow> Inl (Refused WORKFLOW_NOT_FOUND ''program milestones require one-step Workflow V3'')
      | Some (w, st) \<Rightarrow>
          if jp_attemptTimeoutMs policy < vc_timeoutMs (s3_verifier st)
          then Inl (Refused VERIFICATION_REQUIRED ''Verifier timeout must fit within attempt timeout'')
          else
            let seed = generationSeed (gs_graphDigest g) i n vs;
                generationId = deterministicUuid sha (seed @ '':generation'');
                runId = deterministicUuid sha (seed @ '':run'');
                jobId = deterministicUuid sha (seed @ '':job'') in
            if generationId \<in> set (cx_generations cx) \<or> mhas (runs (cx_state cx)) runId \<or>
               mhas (jobs (cx_state cx)) jobId
            then Inl (Refused PROGRAM_NOT_ADVANCEABLE ''Deterministic generation already exists'')
            else (case buildContextPacket sha cx g i generationId n base vs now of
                Inl message \<Rightarrow> Inl (Raised message)
              | Inr packet \<Rightarrow>
                  let gen = \<lparr>gen_generationId = generationId, gen_programId = gs_programId g,
                        gen_milestoneId = i, gen_graphRevisionId = gs_graphRevisionId g,
                        gen_generation = n, gen_runId = runId, gen_jobId = jobId,
                        gen_contextPacketId = cp_contextPacketId packet,
                        gen_baseRevisionId = base, gen_startedAt = now\<rparr> in
                  Inr \<lparr>st_generation = gen, st_events = generation_events sha gen w st policy packet\<rparr>)))"

end
