(* ===== verification/PortfolioCoordinate.thy ===== *)
theory PortfolioCoordinate
  imports PortfolioAdmit
begin

text \<open>
  \<open>portfolio.coordinate\<close> (domain.ts): the eligible programs are tried in the order of their
  execution requests; the first whose graph, policy, target, dependencies and claims admit it is
  granted an admission with a lease on each of its claims, and its next milestone starts.
\<close>

section \<open>The programs\<close>

definition open_incident :: "Portfolio \<Rightarrow> bool" where
  "open_incident s = list_ex (\<lambda>e. si_status (is_incident e) = Incident_open) (mvalues (portfolioSloIncidents s))"

definition eligible :: "GraphProgramState \<Rightarrow> bool" where
  "eligible p \<longleftrightarrow> prog_programMode p = ''graph_v2'' \<and> prog_phase p = ''eligible'' \<and>
     truthy (gp_executionRequestId p) \<noteq> None \<and> gp_executionRequestedAt p \<noteq> None \<and>
     gp_executionPolicy p \<noteq> None"

definition requested_text :: "GraphProgramState \<Rightarrow> string" where
  "requested_text p = (case gp_executionRequestedAt p of None \<Rightarrow> [] | Some t \<Rightarrow> toISOString t)"

definition request_cmp :: "(string \<Rightarrow> string \<Rightarrow> int) \<Rightarrow> GraphProgramState \<Rightarrow> GraphProgramState \<Rightarrow> int" where
  "request_cmp lc a b = then_by (lc (requested_text a) (requested_text b)) (lc (prog_programId a) (prog_programId b))"

definition eligiblePrograms :: "(string \<Rightarrow> string \<Rightarrow> int) \<Rightarrow> PortfolioContext \<Rightarrow> GraphProgramState list" where
  "eligiblePrograms lc cx = sort_by (request_cmp lc) (filter eligible (mvalues (cx_programs cx)))"

definition legacy_running :: "PortfolioContext \<Rightarrow> bool" where
  "legacy_running cx = list_ex (\<lambda>p. prog_programMode p = ''graph_v1'' \<and> prog_phase p = ''running'')
     (mvalues (cx_programs cx))"

section \<open>What an admission needs\<close>

definition active_admissions :: "Portfolio \<Rightarrow> PortfolioAdmissionState list" where
  "active_admissions s = filter (\<lambda>e. as_status e = Claim_active) (mvalues (portfolioAdmissions s))"

definition active_leases :: "Portfolio \<Rightarrow> ConcurrencyLeaseState list" where
  "active_leases s = filter (\<lambda>e. ls_status e = Claim_active) (mvalues (concurrencyLeases s))"

definition claimed :: "Portfolio \<Rightarrow> string \<Rightarrow> bool" where
  "claimed s key = list_ex (\<lambda>e. cl_claimKey (ls_lease e) = key) (active_leases s)"

text \<open>Graph, policy and target of a program, where they are current.\<close>

record AdmissionTerms =
  tm_graph :: ProgramGraphState
  tm_v2 :: GraphV2
  tm_jobPolicy :: JobPolicy
  tm_policy :: PortfolioPolicyState
  tm_target :: IntegrationTargetState

definition admission_terms :: "PortfolioContext \<Rightarrow> Portfolio \<Rightarrow> GraphProgramState \<Rightarrow> AdmissionTerms option" where
  "admission_terms cx s p = do {
     i \<leftarrow> truthy (gp_activeGraphRevisionId p);
     g \<leftarrow> mget (cx_programGraphs cx) i;
     v \<leftarrow> gs_v2 g;
     job \<leftarrow> gp_executionPolicy p;
     pol \<leftarrow> mget (portfolioPolicies s) (ref_id (gv_portfolioPolicyRef v));
     t \<leftarrow> mget (integrationTargets s) (ref_id (gv_integrationTargetRef v));
     (if ps_policyDigest pol = ref_digest (gv_portfolioPolicyRef v) \<and> ps_supersededAt pol = None \<and>
         ts_targetDigest t = ref_digest (gv_integrationTargetRef v) \<and> ts_supersededAt t = None
      then Some \<lparr>tm_graph = g, tm_v2 = v, tm_jobPolicy = job, tm_policy = pol, tm_target = t\<rparr>
      else None) }"

text \<open>A promoted candidate of the very graph the dependency names.\<close>

definition dependency_promoted :: "Portfolio \<Rightarrow> CrossProgramDependency \<Rightarrow> bool" where
  "dependency_promoted s d = list_ex (\<lambda>r. pr_programId (rs_receipt r) = cd_programId d \<and>
     holds (mget (integrationCandidates s) (pr_candidateId (rs_receipt r))) (\<lambda>c.
       ref_id (ic_graphRevisionRef (cs_candidate c)) = cd_graphRevisionId d \<and>
       ref_digest (ic_graphRevisionRef (cs_candidate c)) = cd_graphDigest d))
     (mvalues (promotionReceipts s))"

definition milestone_in :: "PortfolioContext \<Rightarrow> MilestoneStatus \<Rightarrow> uuid \<Rightarrow> bool" where
  "milestone_in cx st i \<longleftrightarrow> holds (mget (cx_milestones cx) i) (\<lambda>m. mst_status m = st)"

definition next_milestone :: "PortfolioContext \<Rightarrow> GraphV2 \<Rightarrow> GraphMilestone option" where
  "next_milestone cx v = find (\<lambda>m. milestone_in cx M_approved (gm_milestoneId m) \<and>
     list_all (milestone_in cx M_outcome_ready) (gm_dependencies m)) (gv_milestones v)"

definition dependency_validation :: "PortfolioContext \<Rightarrow> uuid \<Rightarrow> OutcomeValidation option" where
  "dependency_validation cx d = do {
     m \<leftarrow> mget (cx_milestones cx) d;
     i \<leftarrow> truthy (mst_latestValidatedOutcomePacketId m);
     v \<leftarrow> find (\<lambda>v. ovs_milestoneId v = d \<and> ovs_outcomePacketId v = i) (mvalues (cx_outcomeValidations cx));
     Some (ovs_validation v) }"

definition validations_of :: "PortfolioContext \<Rightarrow> GraphMilestone \<Rightarrow> OutcomeValidation list" where
  "validations_of cx m = List.map_filter (dependency_validation cx) (gm_dependencies m)"

definition base_revision ::
    "PortfolioContext \<Rightarrow> GraphProgramState \<Rightarrow> GraphMilestone \<Rightarrow> OutcomeValidation list \<Rightarrow> uuid option" where
  "base_revision cx p m vs = do {
     i \<leftarrow> truthy (case truthy (gm_sourcePredecessor m) of
         None \<Rightarrow> gp_initialSourceRevisionId p
       | Some d \<Rightarrow> Option.bind (find (\<lambda>v. ov_milestoneId v = d) vs) ov_candidateRevisionId);
     (if mhas (sourceRevisions (cx_state cx)) i then Some i else None) }"

section \<open>The claims\<close>

definition slot_key :: "nat \<Rightarrow> string" where
  "slot_key n = ''execution-slot:'' @ string_of_nat n"

definition capability_key :: "string \<Rightarrow> nat \<Rightarrow> string" where
  "capability_key c n = ''capability:'' @ c @ '':'' @ string_of_nat n"

definition resource_key :: "string \<Rightarrow> string" where
  "resource_key r = ''resource:'' @ r"

definition executionSlot :: "Portfolio \<Rightarrow> nat option" where
  "executionSlot s = find (\<lambda>n. \<not> claimed s (slot_key n)) [1, 2]"

definition capability_slot :: "Portfolio \<Rightarrow> PortfolioPolicy \<Rightarrow> string \<Rightarrow> nat option" where
  "capability_slot s pol c = do {
     k \<leftarrow> find (\<lambda>k. cc_capability k = c) (pol_capabilityCapacities pol);
     find (\<lambda>n. \<not> claimed s (capability_key c n)) (map Suc [0..<cc_capacity k]) }"

fun capability_slots :: "Portfolio \<Rightarrow> PortfolioPolicy \<Rightarrow> string list \<Rightarrow> string list option" where
  "capability_slots s pol [] = Some []"
| "capability_slots s pol (c # cs) = do {
     n \<leftarrow> capability_slot s pol c;
     keys \<leftarrow> capability_slots s pol cs;
     Some (capability_key c n # keys) }"

definition surface_conflict :: "Portfolio \<Rightarrow> string \<Rightarrow> WorkSurface list \<Rightarrow> bool" where
  "surface_conflict s target fs = list_ex (\<lambda>f. list_ex (\<lambda>e.
     holds (parseSurfaceClaimKey (cl_claimKey (ls_lease e)))
       (\<lambda>c. fst c = target \<and> workSurfacesOverlap f (snd c))) (active_leases s)) fs"

text \<open>All that is fixed once a program passed the checks.\<close>

record AdmissionPlan = AdmissionTerms +
  ap_node :: GraphMilestone
  ap_milestone :: MilestoneState
  ap_validations :: "OutcomeValidation list"
  ap_base :: uuid
  ap_slot :: nat
  ap_capabilityKeys :: "string list"

definition ap_target :: "AdmissionPlan \<Rightarrow> string" where
  "ap_target a = tgt_targetRevisionId (ts_target (tm_target a))"

definition ap_generation :: "AdmissionPlan \<Rightarrow> nat" where
  "ap_generation a = (case mst_generation (ap_milestone a) of None \<Rightarrow> 0 | Some n \<Rightarrow> n) + 1"

definition admission_plan :: "PortfolioContext \<Rightarrow> Portfolio \<Rightarrow> GraphProgramState \<Rightarrow> AdmissionPlan option" where
  "admission_plan cx s p = do {
     tm \<leftarrow> admission_terms cx s p;
     (if lim_maxExecutingPrograms (pol_limits (ps_policy (tm_policy tm))) \<le> length (active_admissions s) \<or>
         \<not> list_all (dependency_promoted s) (gv_crossProgramDependencies (tm_v2 tm))
      then None
      else do {
        node \<leftarrow> next_milestone cx (tm_v2 tm);
        let vs = validations_of cx node;
        (if length vs \<noteq> length (gm_dependencies node) then None
         else do {
           base \<leftarrow> base_revision cx p node vs;
           slot \<leftarrow> executionSlot s;
           keys \<leftarrow> capability_slots s (ps_policy (tm_policy tm)) (gm_capabilityClaims node);
           m \<leftarrow> mget (cx_milestones cx) (gm_milestoneId node);
           (if list_ex (\<lambda>r. claimed s (resource_key r)) (gm_resourceClaims node) \<or>
               surface_conflict s (tgt_targetRevisionId (ts_target (tm_target tm))) (gm_workSurfaces node)
            then None
            else Some (AdmissionTerms.extend tm (AdmissionPlan.fields node m vs base slot keys))) }) }) }"

section \<open>The admission\<close>

definition next_sequence :: "Portfolio \<Rightarrow> nat" where
  "next_sequence s = fold max (map (\<lambda>e. pa_admissionSequence (as_admission e)) (mvalues (portfolioAdmissions s))) 0 + 1"

definition claim_keys :: "AdmissionPlan \<Rightarrow> string list" where
  "claim_keys a = slot_key (ap_slot a) # ap_capabilityKeys a @
     map resource_key (gm_resourceClaims (ap_node a)) @
     map (surfaceClaimKey (ap_target a)) (gm_workSurfaces (ap_node a))"

definition claim_kind :: "string \<Rightarrow> ClaimKind" where
  "claim_kind key =
     (if starts_with key ''execution-slot:'' then Claim_execution_slot
      else if starts_with key ''capability:'' then Claim_capability
      else if starts_with key ''resource:'' then Claim_resource
      else Claim_surface)"

definition granted_admission ::
    "(string \<Rightarrow> string) \<Rightarrow> timestamp \<Rightarrow> Portfolio \<Rightarrow> uuid \<Rightarrow> GraphProgramState \<Rightarrow> AdmissionPlan \<Rightarrow> Generation \<Rightarrow>
       PortfolioAdmission" where
  "granted_admission sha now s request p a n =
     \<lparr>pa_admissionId = deterministicUuid sha
        (''parallelplay:integration:admission:'' @ request @ '':'' @ gen_generationId n),
      pa_admissionSequence = next_sequence s, pa_requestId = request, pa_programId = prog_programId p,
      pa_graphRevisionRef = reference ''program_graph'' (gs_graphRevisionId (tm_graph a)) (gs_graphDigest (tm_graph a)),
      pa_policyRef = gv_portfolioPolicyRef (tm_v2 a), pa_targetRef = gv_integrationTargetRef (tm_v2 a),
      pa_milestoneId = gm_milestoneId (ap_node a), pa_generationId = gen_generationId n,
      pa_runId = gen_runId n, pa_executionSlot = ap_slot a,
      pa_capabilityClaims = gm_capabilityClaims (ap_node a),
      pa_resourceClaims = gm_resourceClaims (ap_node a), pa_surfaceClaims = gm_workSurfaces (ap_node a),
      pa_admittedAt = now, pa_releasedAt = None, pa_fencedAt = None\<rparr>"

definition claim_lease ::
    "(string \<Rightarrow> string) \<Rightarrow> timestamp \<Rightarrow> nat \<Rightarrow> PortfolioAdmission \<Rightarrow> string \<Rightarrow> ConcurrencyLease" where
  "claim_lease sha now duration pa key =
     \<lparr>cl_leaseId = deterministicUuid sha (''parallelplay:integration:lease:'' @ pa_admissionId pa @ '':'' @ key),
      cl_admissionId = pa_admissionId pa, cl_programId = pa_programId pa,
      cl_generationId = pa_generationId pa, cl_claimKind = claim_kind key, cl_claimKey = key,
      cl_fencingToken = pa_admissionSequence pa, cl_acquiredAt = now,
      cl_expiresAt = addMilliseconds now duration, cl_renewedAt = None, cl_releasedAt = None,
      cl_fencedAt = None\<rparr>"

definition digested_lease :: "(string \<Rightarrow> string) \<Rightarrow> ConcurrencyLease \<Rightarrow> ConcurrencyLease \<times> digest" where
  "digested_lease sha l = (l, digest_of sha (enc_ConcurrencyLease l))"

definition program_started :: "Actor \<Rightarrow> GraphProgramState \<Rightarrow> ProgramGraphState \<Rightarrow> PortfolioInput list" where
  "program_started actor p g =
     (if gp_startedAt p \<noteq> None then []
      else [pf_event ''program'' (prog_programId p) (Planned (ProgramStarted (prog_programId p)
        (gs_graphRevisionId g) (gs_graphDigest g) (actor_id actor)))])"

definition grant ::
    "(string \<Rightarrow> string) \<Rightarrow> Actor \<Rightarrow> timestamp \<Rightarrow> Portfolio \<Rightarrow> nat \<Rightarrow> uuid \<Rightarrow> GraphProgramState \<Rightarrow> AdmissionPlan \<Rightarrow>
       Started \<Rightarrow> portfolio_decision" where
  "grant sha actor now s duration request p a st =
     (let pa = granted_admission sha now s request p a (st_generation st);
          leases = map (claim_lease sha now duration pa) (claim_keys a) in
      accept (pf_event ''portfolio_admission'' (pa_admissionId pa)
                (PortfolioAdmissionGranted pa (digest_of sha (enc_PortfolioAdmission pa))
                   (map (digested_lease sha) leases))
              # program_started actor p (tm_graph a) @ st_events st)
        ''portfolio_admission'' (pa_admissionId pa))"

text \<open>One turn of the loop: \<open>None\<close> goes on with the next program, \<open>Some\<close> returns.\<close>

definition admit_program ::
    "(string \<Rightarrow> string) \<Rightarrow> Actor \<Rightarrow> timestamp \<Rightarrow> PortfolioContext \<Rightarrow> Portfolio \<Rightarrow> nat \<Rightarrow> GraphProgramState \<Rightarrow>
       portfolio_decision option" where
  "admit_program sha actor now cx s duration p = do {
     a \<leftarrow> admission_plan cx s p;
     (case startGraphMilestoneEvents sha cx (tm_graph a) (gm_milestoneId (ap_node a)) (ap_generation a)
         (ap_base a) (ap_validations a) (tm_jobPolicy a) now of
        Inl failed \<Rightarrow> Some (Inl failed)
      | Inr st \<Rightarrow> do {
          request \<leftarrow> truthy (gp_executionRequestId p);
          Some (grant sha actor now s duration request p a st) }) }"

fun first_answer :: "('a \<Rightarrow> 'b option) \<Rightarrow> 'b \<Rightarrow> 'a list \<Rightarrow> 'b" where
  "first_answer f otherwise [] = otherwise"
| "first_answer f otherwise (x # xs) = (case f x of None \<Rightarrow> first_answer f otherwise xs | Some y \<Rightarrow> y)"

definition decide_portfolio_coordinate ::
    "(string \<Rightarrow> string) \<Rightarrow> (string \<Rightarrow> string \<Rightarrow> int) \<Rightarrow> Actor \<Rightarrow> timestamp \<Rightarrow> PortfolioContext \<Rightarrow> Portfolio \<Rightarrow>
       nat \<Rightarrow> nat \<Rightarrow> portfolio_decision" where
  "decide_portfolio_coordinate sha lc actor now cx s position duration =
     (if actor_kind actor \<noteq> System
      then reject PROGRAM_NOT_ADVANCEABLE ''Portfolio coordination requires a system actor''
      else if position \<noteq> lastAppliedPosition (cx_state cx)
      then reject PROGRAM_NOT_ADVANCEABLE ''Portfolio coordination snapshot is stale''
      else if open_incident s
      then reject PROGRAM_NOT_ADVANCEABLE ''Portfolio admission is frozen by an SLO incident''
      else if legacy_running cx
      then reject PROGRAM_NOT_ADVANCEABLE ''Legacy serial execution owns the portfolio lane''
      else first_answer (admit_program sha actor now cx s duration)
        (reject PROGRAM_NOT_ADVANCEABLE ''No eligible program fits portfolio capacity'')
        (eligiblePrograms lc cx))"

end
