(* ===== verification/IntegrationDecision.thy ===== *)
theory IntegrationDecision
  imports IntegrationOps PortfolioCoordinate
begin

text \<open>
  The operator's authority over promotions (domain.ts): \<open>integration-decision.compile\<close> opens
  a decision packet for verified work, \<open>decision.integrate\<close> authorizes exactly what the
  packet's option names. Events of the attention component are given as JSON.
\<close>

section \<open>Preconditions\<close>

definition precondition_digest ::
    "(string \<Rightarrow> string) \<Rightarrow> ImmutableReference \<Rightarrow> ImmutableReference \<Rightarrow> ImmutableReference \<Rightarrow> ImmutableReference \<Rightarrow>
       ImmutableReference \<Rightarrow> ImmutableReference \<Rightarrow> ImmutableReference \<Rightarrow> ImmutableReference \<Rightarrow> ImmutableReference \<Rightarrow> digest" where
  "precondition_digest sha graph policy target head original rebased outcome manifest verification =
     digest_of sha (jobj
       [(''graph'', jref graph), (''policy'', jref policy), (''target'', jref target),
        (''expectedHead'', jref head), (''originalCandidate'', jref original),
        (''rebasedCandidate'', jref rebased), (''finalOutcome'', jref outcome),
        (''diffManifest'', jref manifest), (''integrationVerification'', jref verification)])"

text \<open>The latest outcome packet of the candidate's program for the candidate revision.\<close>

definition final_outcome ::
    "(string \<Rightarrow> string \<Rightarrow> int) \<Rightarrow> PortfolioContext \<Rightarrow> IntegrationCandidate \<Rightarrow> OutcomePacketState option" where
  "final_outcome lc cx c =
     (case sort_by (\<lambda>l r. lc (toISOString (ops_recordedAt r)) (toISOString (ops_recordedAt l)))
        (filter (\<lambda>p. ops_programId p = ic_programId c \<and>
                     ops_candidateRevisionId p = Some (ref_id (ic_originalCandidateRef c)))
          (mvalues (cx_outcomePackets cx))) of
        [] \<Rightarrow> None
      | p # _ \<Rightarrow> Some p)"

text \<open>What is found when a candidate is ready for authority.\<close>

record ReadyCandidate =
  rd_candidate :: IntegrationCandidateState
  rd_work :: IntegrationWorkState
  rd_head :: ImmutableReference
  rd_rebased :: ImmutableReference
  rd_verification :: IntegrationVerificationState
  rd_target :: IntegrationTargetState
  rd_outcome :: OutcomePacketState
  rd_attention :: AttentionPolicyState

definition work_evidence :: "Portfolio \<Rightarrow> uuid \<Rightarrow>
    (IntegrationWorkState \<times> ImmutableReference \<times> ImmutableReference \<times> IntegrationVerificationState) option" where
  "work_evidence s c =
     (case work_of c s of
        None \<Rightarrow> None
      | Some w \<Rightarrow>
          (case (iw_expectedHeadRef (ws_work w), iw_rebasedCandidateRef (ws_work w), iw_verification (ws_work w)) of
             (Some head, Some rebased, Some v) \<Rightarrow>
               (case mget (integrationVerifications s) (iv_integrationVerificationId v) of
                  None \<Rightarrow> None
                | Some vs \<Rightarrow>
                    if iw_status (ws_work w) = W_verified \<and> iv_result (vs_verification vs) = Verdict_passed
                    then Some (w, head, rebased, vs) else None)
           | _ \<Rightarrow> None))"

definition authority_evidence ::
    "(string \<Rightarrow> string \<Rightarrow> int) \<Rightarrow> PortfolioContext \<Rightarrow> Portfolio \<Rightarrow> IntegrationCandidate \<Rightarrow>
       (OutcomePacketState \<times> AttentionPolicyState) option" where
  "authority_evidence lc cx s c =
     (case (mget (portfolioPolicies s) (ref_id (ic_policyRef c)), graph_of cx c, manifest_of s c,
            final_outcome lc cx c) of
        (Some p, Some g, Some m, Some outcome) \<Rightarrow>
          (case mget (cx_attentionPolicies cx) (ref_id (pol_attentionPolicyRef (ps_policy p))) of
             None \<Rightarrow> None
           | Some a \<Rightarrow>
               if ps_policyDigest p = ref_digest (ic_policyRef c) \<and>
                  gs_graphRevisionId g = ref_id (ic_graphRevisionRef c) \<and> cdm_eligible (ms_manifest m) \<and>
                  ops_recommendation outcome = ''merge'' \<and>
                  aps_policyDigest a = ref_digest (pol_attentionPolicyRef (ps_policy p))
               then Some (outcome, a) else None)
      | _ \<Rightarrow> None)"

definition ready_candidate ::
    "(string \<Rightarrow> string) \<Rightarrow> (string \<Rightarrow> string \<Rightarrow> int) \<Rightarrow> PortfolioContext \<Rightarrow> Portfolio \<Rightarrow> uuid \<Rightarrow> ReadyCandidate option" where
  "ready_candidate sha lc cx s i =
     (case mget (integrationCandidates s) i of
        None \<Rightarrow> None
      | Some c \<Rightarrow>
          (case (work_evidence s i, authority_evidence lc cx s (cs_candidate c), target_of s (cs_candidate c)) of
             (Some (w, head, rebased, vs), Some (outcome, a), Some t) \<Rightarrow>
               if cs_status c = C_awaiting_authorization \<and>
                  ref_digest_of sha (ts_currentHeadRef t) = ref_digest_of sha head
               then Some \<lparr>rd_candidate = c, rd_work = w, rd_head = head, rd_rebased = rebased,
                 rd_verification = vs, rd_target = t, rd_outcome = outcome, rd_attention = a\<rparr>
               else None
           | _ \<Rightarrow> None))"

section \<open>The packet\<close>

definition rd_outcome_ref :: "ReadyCandidate \<Rightarrow> ImmutableReference" where
  "rd_outcome_ref r = reference ''outcome_packet'' (ops_outcomePacketId (rd_outcome r)) (ops_packetDigest (rd_outcome r))"

definition rd_verification_ref :: "ReadyCandidate \<Rightarrow> ImmutableReference" where
  "rd_verification_ref r = reference ''integration_verification''
     (iv_integrationVerificationId (vs_verification (rd_verification r))) (vs_verificationDigest (rd_verification r))"

definition rd_source :: "ReadyCandidate \<Rightarrow> ImmutableReference" where
  "rd_source r = reference ''integration_candidate'' (ic_candidateId (cs_candidate (rd_candidate r)))
     (cs_candidateDigest (rd_candidate r))"

definition rd_precondition :: "(string \<Rightarrow> string) \<Rightarrow> ReadyCandidate \<Rightarrow> digest" where
  "rd_precondition sha r = (let c = cs_candidate (rd_candidate r) in
     precondition_digest sha (ic_graphRevisionRef c) (ic_policyRef c) (ic_targetRef c) (rd_head r)
       (ic_originalCandidateRef c) (rd_rebased r) (rd_outcome_ref r) (ic_diffManifestRef c) (rd_verification_ref r))"

definition packet_id :: "(string \<Rightarrow> string) \<Rightarrow> ReadyCandidate \<Rightarrow> uuid" where
  "packet_id sha r = deterministicUuid sha (''parallelplay:integration:integration-packet:'' @
     ic_candidateId (cs_candidate (rd_candidate r)) @ '':'' @ rd_precondition sha r)"

definition revision_id :: "(string \<Rightarrow> string) \<Rightarrow> ReadyCandidate \<Rightarrow> uuid" where
  "revision_id sha r = deterministicUuid sha (packet_id sha r @ '':revision:1'')"

definition bundle_id :: "(string \<Rightarrow> string) \<Rightarrow> ReadyCandidate \<Rightarrow> uuid" where
  "bundle_id sha r = deterministicUuid sha (packet_id sha r @ '':evidence:1'')"

definition request_id :: "(string \<Rightarrow> string) \<Rightarrow> ReadyCandidate \<Rightarrow> uuid" where
  "request_id sha r = deterministicUuid sha (packet_id sha r @ '':request'')"

definition promotion_action :: "(string \<Rightarrow> string) \<Rightarrow> ReadyCandidate \<Rightarrow> PromotionAction" where
  "promotion_action sha r = (let c = cs_candidate (rd_candidate r) in
     \<lparr>pac_workId = iw_workId (ws_work (rd_work r)), pac_candidateId = ic_candidateId c,
      pac_programId = ic_programId c, pac_graphRef = ic_graphRevisionRef c, pac_policyRef = ic_policyRef c,
      pac_targetRef = ic_targetRef c, pac_expectedHeadRef = rd_head r,
      pac_originalCandidateRef = ic_originalCandidateRef c, pac_rebasedCandidateRef = rd_rebased r,
      pac_finalOutcomeRef = rd_outcome_ref r, pac_diffManifestRef = ic_diffManifestRef c,
      pac_integrationVerificationRef = rd_verification_ref r,
      pac_targetPreconditionDigest = rd_precondition sha r\<rparr>)"

definition packet_option :: "(string \<Rightarrow> string) \<Rightarrow> ReadyCandidate \<Rightarrow> DecisionOption" where
  "packet_option sha r =
     \<lparr>dop_optionId = deterministicUuid sha (packet_id sha r @ '':integrate''),
      dop_label = ''Integrate the verified candidate'',
      dop_consequences =
        [''Authorizes one compare-and-swap update of '' @ tgt_managedRef (ts_target (rd_target r)),
         ''Accepts the final outcome and records permanent operator precedent''],
      dop_reversalCost = ''A later managed promotion is required to reverse this integration'',
      dop_action = promotion_action sha r\<rparr>"

definition packet_refs :: "ReadyCandidate \<Rightarrow> ImmutableReference list" where
  "packet_refs r = (let c = cs_candidate (rd_candidate r) in
     [ic_graphRevisionRef c, ic_policyRef c, ic_targetRef c, ic_diffManifestRef c,
      rd_verification_ref r, rd_source r, rd_outcome_ref r])"

definition orientation :: "ReadyCandidate \<Rightarrow> string" where
  "orientation r = ''Promote '' @ ref_id (rd_rebased r) @ '' only if managed head '' @
     ref_id (rd_head r) @ '' is unchanged.''"

definition policy_binding :: "ReadyCandidate \<Rightarrow> ImmutableReference" where
  "policy_binding r = reference ''attention_policy'' (aps_policyRevisionId (rd_attention r))
     (aps_policyDigest (rd_attention r))"

definition evidence_bundle :: "(string \<Rightarrow> string) \<Rightarrow> timestamp \<Rightarrow> ReadyCandidate \<Rightarrow> jsval" where
  "evidence_bundle sha now r = jobj
     [(''schemaVersion'', jnum 2), (''evidenceBundleId'', jstr (bundle_id sha r)),
      (''packetId'', jstr (packet_id sha r)), (''packetRevisionId'', jstr (revision_id sha r)),
      (''programId'', jstr (ic_programId (cs_candidate (rd_candidate r)))),
      (''sourceRef'', jref (rd_source r)), (''refs'', jlist enc_Reference (packet_refs r)),
      (''orientation'', jstr (orientation r)), (''compiledAt'', jtime now)]"

definition question :: "ReadyCandidate \<Rightarrow> string" where
  "question r = ''Integrate candidate '' @ ic_candidateId (cs_candidate (rd_candidate r)) @ ''?''"

definition packet_revision :: "(string \<Rightarrow> string) \<Rightarrow> timestamp \<Rightarrow> ReadyCandidate \<Rightarrow> PacketRevision" where
  "packet_revision sha now r =
     \<lparr>prv_packetRevisionId = revision_id sha r, prv_packetId = packet_id sha r,
      prv_programId = ic_programId (cs_candidate (rd_candidate r)), prv_source = rd_source r,
      prv_originalQuestion = question r, prv_context = orientation r,
      prv_options = [packet_option sha r],
      prv_evidenceBundleRef = reference ''decision_evidence_bundle'' (bundle_id sha r)
        (digest_of sha (evidence_bundle sha now r)),
      prv_policyBinding = policy_binding r,
      prv_deduplicationKey = ref_digest_of sha (rd_source r), prv_createdAt = now\<rparr>"

definition decision_request :: "(string \<Rightarrow> string) \<Rightarrow> Actor \<Rightarrow> timestamp \<Rightarrow> ReadyCandidate \<Rightarrow> jsval" where
  "decision_request sha actor now r = jobj
     [(''schemaVersion'', jnum 2), (''requestId'', jstr (request_id sha r)),
      (''programId'', jstr (ic_programId (cs_candidate (rd_candidate r)))), (''milestoneId'', Some JNull),
      (''originalQuestion'', jstr (question r)), (''prompt'', jstr PROMPT),
      (''context'', jstr (orientation r)), (''requiredAuthority'', jstr ''operator''),
      (''riskClass'', jstr ''reserved''), (''safetyClass'', jstr ''safety_critical''),
      (''reversibility'', jstr ''one_way''),
      (''options'', jlist enc_DecisionOption [packet_option sha r]),
      (''refs'', jlist enc_Reference (packet_refs r)), (''deadlineAt'', Some JNull),
      (''requestedBy'', jstr (actor_id actor)), (''requestedAt'', jtime now)]"

definition page_delivery :: "(string \<Rightarrow> string) \<Rightarrow> timestamp \<Rightarrow> ReadyCandidate \<Rightarrow> uuid \<Rightarrow> jsval" where
  "page_delivery sha now r deliveryId = jobj
     [(''schemaVersion'', jnum 1), (''deliveryId'', jstr deliveryId),
      (''programId'', jstr (ic_programId (cs_candidate (rd_candidate r)))),
      (''packetId'', jstr (packet_id sha r)), (''packetRevisionId'', jstr (revision_id sha r)),
      (''packetRevisionDigest'', jstr (digest_of sha (enc_PacketRevision (packet_revision sha now r)))),
      (''policyBinding'', jref (policy_binding r)), (''matchedRuleId'', Some JNull),
      (''channel'', jstr ''page''), (''deepLink'', jstr (''/packets/'' @ packet_id sha r)),
      (''idempotencyKey'', jstr (''attention:'' @ revision_id sha r @ '':page'')),
      (''status'', jstr ''pending''), (''availableAt'', jtime now), (''deliveryAttempts'', jnum 0),
      (''retryDelaysMs'', jlist jnat OUTBOX_RETRY_DELAYS), (''leaseOwnerId'', Some JNull),
      (''leaseFencingToken'', jnum 0), (''leaseAcquiredAt'', Some JNull), (''leaseExpiresAt'', Some JNull),
      (''receipt'', Some JNull), (''createdAt'', jtime now), (''deliveredAt'', Some JNull),
      (''lastError'', Some JNull)]"

definition packet_events :: "(string \<Rightarrow> string) \<Rightarrow> Actor \<Rightarrow> timestamp \<Rightarrow> ReadyCandidate \<Rightarrow> PortfolioInput list" where
  "packet_events sha actor now r =
     (let request = decision_request sha actor now r; bundle = evidence_bundle sha now r;
          revision = packet_revision sha now r; d = digest_of sha (enc_PacketRevision revision);
          deliveryId = deterministicUuid sha (revision_id sha r @ '':page'') in
      [pf_event ''operator_decision_request'' (request_id sha r) (Foreign ''OperatorDecisionRequestRecorded''
         (jobj [(''request'', Some request), (''requestDigest'', jstr (digest_of sha request))])),
       pf_event ''decision_evidence_bundle'' (bundle_id sha r) (Foreign ''DecisionEvidenceBundleRecorded''
         (jobj [(''bundle'', Some bundle), (''bundleDigest'', jstr (digest_of sha bundle))])),
       pf_event ''decision_packet'' (packet_id sha r) (Foreign ''DecisionPacketOpened''
         (jobj [(''packetId'', jstr (packet_id sha r)),
                (''programId'', jstr (ic_programId (cs_candidate (rd_candidate r)))),
                (''milestoneId'', Some JNull), (''packetRevisionId'', jstr (revision_id sha r)),
                (''packetRevisionDigest'', jstr d)])),
       pf_event ''decision_packet_revision'' (revision_id sha r) (DecisionPacketRevisionRecorded revision d),
       pf_event ''attention_delivery'' deliveryId (Foreign ''AttentionDeliveryQueued''
         (jobj [(''delivery'', Some (page_delivery sha now r deliveryId))]))])"

definition decide_decision_compile ::
    "(string \<Rightarrow> string) \<Rightarrow> (string \<Rightarrow> string \<Rightarrow> int) \<Rightarrow> Actor \<Rightarrow> timestamp \<Rightarrow> PortfolioContext \<Rightarrow> Portfolio \<Rightarrow>
       uuid \<Rightarrow> nat \<Rightarrow> portfolio_decision" where
  "decide_decision_compile sha lc actor now cx s candidateId position =
     (if actor_kind actor \<noteq> System
      then reject APPROVAL_REQUIRES_OPERATOR ''Integration packet compilation requires the host''
      else if position \<noteq> lastAppliedPosition (cx_state cx)
      then reject DECISION_PACKET_STALE ''Integration packet compilation snapshot is stale''
      else case ready_candidate sha lc cx s candidateId of
        None \<Rightarrow> reject DECISION_PACKET_STALE ''Integration candidate is not ready for authority''
      | Some r \<Rightarrow>
          if mhas (cx_decisionPackets cx) (packet_id sha r)
          then accept [] ''decision_packet'' (packet_id sha r)
          else accept (packet_events sha actor now r) ''decision_packet'' (packet_id sha r))"

section \<open>The authorization\<close>

record IntegratePayload =
  ip_packetId :: uuid
  ip_packetRevisionId :: uuid
  ip_packetRevisionDigest :: digest
  ip_optionId :: uuid
  ip_targetPreconditionDigest :: digest
  ip_candidateId :: uuid
  ip_expectedHeadRef :: ImmutableReference
  ip_rebasedCandidateRef :: ImmutableReference
  ip_finalOutcomeRef :: ImmutableReference
  ip_diffManifestRef :: ImmutableReference
  ip_integrationVerificationRef :: ImmutableReference

definition open_revision ::
    "(string \<Rightarrow> string) \<Rightarrow> PortfolioContext \<Rightarrow> Portfolio \<Rightarrow> IntegratePayload \<Rightarrow> PacketRevisionState option" where
  "open_revision sha cx s p =
     (case (mget (cx_decisionPackets cx) (ip_packetId p), mget (packetRevisions s) (ip_packetRevisionId p)) of
        (Some packet, Some stored) \<Rightarrow>
          if dps_status packet = ''open'' \<and> dps_currentRevisionId packet = Some (ip_packetRevisionId p) \<and>
             dps_currentRevisionDigest packet = Some (ip_packetRevisionDigest p) \<and>
             ds_revisionDigest stored = ip_packetRevisionDigest p \<and>
             digest_of sha (enc_PacketRevision (ds_revision stored)) = ds_revisionDigest stored
          then Some stored else None
      | _ \<Rightarrow> None)"

definition action_precondition :: "(string \<Rightarrow> string) \<Rightarrow> PromotionAction \<Rightarrow> digest" where
  "action_precondition sha a = precondition_digest sha (pac_graphRef a) (pac_policyRef a) (pac_targetRef a)
     (pac_expectedHeadRef a) (pac_originalCandidateRef a) (pac_rebasedCandidateRef a) (pac_finalOutcomeRef a)
     (pac_diffManifestRef a) (pac_integrationVerificationRef a)"

text \<open>The command names what the packet's option names.\<close>

definition action_matches :: "(string \<Rightarrow> string) \<Rightarrow> IntegratePayload \<Rightarrow> PromotionAction \<Rightarrow> bool" where
  "action_matches sha p a \<longleftrightarrow>
     pac_targetPreconditionDigest a = ip_targetPreconditionDigest p \<and>
     action_precondition sha a = pac_targetPreconditionDigest a \<and>
     pac_candidateId a = ip_candidateId p \<and>
     ref_digest_of sha (pac_expectedHeadRef a) = ref_digest_of sha (ip_expectedHeadRef p) \<and>
     ref_digest_of sha (pac_rebasedCandidateRef a) = ref_digest_of sha (ip_rebasedCandidateRef p) \<and>
     ref_digest_of sha (pac_finalOutcomeRef a) = ref_digest_of sha (ip_finalOutcomeRef p) \<and>
     ref_digest_of sha (pac_diffManifestRef a) = ref_digest_of sha (ip_diffManifestRef p) \<and>
     ref_digest_of sha (pac_integrationVerificationRef a) = ref_digest_of sha (ip_integrationVerificationRef p)"

text \<open>Candidate, work, head and evidence are still what the option names.\<close>

definition action_live ::
    "(string \<Rightarrow> string) \<Rightarrow> PortfolioContext \<Rightarrow> Portfolio \<Rightarrow> PacketRevision \<Rightarrow> PromotionAction \<Rightarrow> bool" where
  "action_live sha cx s pr a \<longleftrightarrow>
     holds (mget (integrationCandidates s) (pac_candidateId a)) (\<lambda>c. cs_status c = C_awaiting_authorization \<and>
       cs_candidateDigest c = ref_digest (prv_source pr)) \<and>
     holds (mget (integrationWork s) (pac_workId a)) (\<lambda>w. iw_status (ws_work w) = W_verified \<and>
       opt_ref_digest sha (iw_expectedHeadRef (ws_work w)) = ref_digest_of sha (pac_expectedHeadRef a) \<and>
       opt_ref_digest sha (iw_rebasedCandidateRef (ws_work w)) = ref_digest_of sha (pac_rebasedCandidateRef a)) \<and>
     holds (mget (integrationTargets s) (ref_id (pac_targetRef a))) (\<lambda>t.
       ts_targetDigest t = ref_digest (pac_targetRef a) \<and>
       ref_digest_of sha (ts_currentHeadRef t) = ref_digest_of sha (pac_expectedHeadRef a)) \<and>
     holds (mget (integrationVerifications s) (ref_id (pac_integrationVerificationRef a))) (\<lambda>v.
       vs_verificationDigest v = ref_digest (pac_integrationVerificationRef a) \<and>
       iv_result (vs_verification v) = Verdict_passed) \<and>
     holds (mget (candidateDiffManifests s) (ref_id (pac_diffManifestRef a))) (\<lambda>m.
       ms_manifestDigest m = ref_digest (pac_diffManifestRef a) \<and> cdm_eligible (ms_manifest m)) \<and>
     holds (mget (cx_outcomePackets cx) (ref_id (pac_finalOutcomeRef a))) (\<lambda>outcome.
       ops_packetDigest outcome = ref_digest (pac_finalOutcomeRef a) \<and>
       ops_recommendation outcome = ''merge'' \<and>
       ops_outcomePacketId outcome \<notin> set (cx_outcomeDispositions cx))"

text \<open>Without an expected digest (\<open>None\<close>) the packet only has to exist and be undisposed.\<close>

definition outcomeDispositionEvent ::
    "(string \<Rightarrow> string) \<Rightarrow> PortfolioContext \<Rightarrow> uuid \<Rightarrow> digest option \<Rightarrow> string \<Rightarrow> string option \<Rightarrow> string \<Rightarrow>
       timestamp \<Rightarrow> (DomainErrorCode \<times> string) + PortfolioInput" where
  "outcomeDispositionEvent sha cx i expected disposition reason actorId now =
     (let stale = (if expected = None
          then (OUTCOME_PACKET_NOT_FOUND, ''Undisposed outcome packet does not exist'')
          else (DECISION_PACKET_STALE, ''Outcome packet precondition changed'')) in
      case mget (cx_outcomePackets cx) i of
        None \<Rightarrow> Inl stale
      | Some outcome \<Rightarrow>
          if i \<in> set (cx_outcomeDispositions cx) \<or>
             holds expected (\<lambda>d. ops_packetDigest outcome \<noteq> d \<or> digest_of sha (ops_packet outcome) \<noteq> d)
          then Inl stale
          else Inr (pf_event ''outcome_disposition'' (ops_outcomePacketId outcome)
            (Planned (OutcomeDispositionRecorded
              \<lparr>od_outcomePacketId = ops_outcomePacketId outcome, od_programId = ops_programId outcome,
               od_disposition = disposition, od_reason = reason, od_actorId = actorId,
               od_recordedAt = now\<rparr>))))"

definition result_id :: "(string \<Rightarrow> string) \<Rightarrow> string \<Rightarrow> PacketRevision \<Rightarrow> DecisionOption \<Rightarrow> uuid" where
  "result_id sha kind pr opt = deterministicUuid sha (''parallelplay:decision-'' @ kind @ '':v2:'' @
     prv_packetRevisionId pr @ '':'' @ dop_optionId opt)"

definition action_result ::
    "(string \<Rightarrow> string) \<Rightarrow> Actor \<Rightarrow> timestamp \<Rightarrow> uuid \<Rightarrow> PacketRevision \<Rightarrow> DecisionOption \<Rightarrow> jsval" where
  "action_result sha actor now packetId pr opt = jobj
     [(''schemaVersion'', jnum 2), (''actionResultId'', jstr (result_id sha ''action-result'' pr opt)),
      (''packetId'', jstr packetId), (''packetRevisionId'', jstr (prv_packetRevisionId pr)),
      (''optionId'', jstr (dop_optionId opt)), (''actionKind'', jstr ''integrate''),
      (''targetPreconditionDigest'', jstr (pac_targetPreconditionDigest (dop_action opt))),
      (''appliedEventTypes'', jstrs [''OutcomeDispositionRecorded'', ''IntegrationPromotionAuthorized'']),
      (''actorId'', jstr (actor_id actor)), (''appliedAt'', jtime now)]"

definition action_result_ref ::
    "(string \<Rightarrow> string) \<Rightarrow> Actor \<Rightarrow> timestamp \<Rightarrow> uuid \<Rightarrow> PacketRevision \<Rightarrow> DecisionOption \<Rightarrow> ImmutableReference" where
  "action_result_ref sha actor now packetId pr opt =
     reference ''decision_action_result'' (result_id sha ''action-result'' pr opt)
       (digest_of sha (action_result sha actor now packetId pr opt))"

definition resolution :: "(string \<Rightarrow> string) \<Rightarrow> Actor \<Rightarrow> timestamp \<Rightarrow> uuid \<Rightarrow> PacketRevisionState \<Rightarrow> DecisionOption \<Rightarrow> jsval" where
  "resolution sha actor now packetId stored opt = jobj
     [(''schemaVersion'', jnum 2), (''resolutionId'', jstr (result_id sha ''resolution'' (ds_revision stored) opt)),
      (''packetId'', jstr packetId), (''packetRevisionId'', jstr (prv_packetRevisionId (ds_revision stored))),
      (''packetRevisionDigest'', jstr (ds_revisionDigest stored)), (''optionId'', jstr (dop_optionId opt)),
      (''actionKind'', jstr ''integrate''), (''actorId'', jstr (actor_id actor)), (''resolvedAt'', jtime now)]"

definition precedent ::
    "(string \<Rightarrow> string) \<Rightarrow> Actor \<Rightarrow> timestamp \<Rightarrow> uuid \<Rightarrow> uuid \<Rightarrow> PacketRevisionState \<Rightarrow> DecisionOption \<Rightarrow> jsval" where
  "precedent sha actor now packetId programId stored opt = jobj
     [(''schemaVersion'', jnum 2), (''precedentId'', jstr (result_id sha ''precedent'' (ds_revision stored) opt)),
      (''programId'', jstr programId),
      (''packetRevisionRef'', jref (reference ''decision_packet_revision''
         (prv_packetRevisionId (ds_revision stored)) (ds_revisionDigest stored))),
      (''selectedOptionId'', jstr (dop_optionId opt)),
      (''actionResultRef'', jref (action_result_ref sha actor now packetId (ds_revision stored) opt)),
      (''evidenceBundleRef'', jref (prv_evidenceBundleRef (ds_revision stored))),
      (''policyBinding'', jref (prv_policyBinding (ds_revision stored))),
      (''authority'', jstr ''operator''), (''actorId'', jstr (actor_id actor)), (''recordedAt'', jtime now)]"

text \<open>The authorization, and the records of the decision.\<close>

definition authorization_events ::
    "(string \<Rightarrow> string) \<Rightarrow> Actor \<Rightarrow> timestamp \<Rightarrow> uuid \<Rightarrow> IntegrationWork \<Rightarrow> IntegrationCandidate \<Rightarrow>
       PacketRevisionState \<Rightarrow> DecisionOption \<Rightarrow> PortfolioInput list" where
  "authorization_events sha actor now packetId w c stored opt =
     (let pr = ds_revision stored; a = dop_action opt;
          result = action_result sha actor now packetId pr opt;
          res = resolution sha actor now packetId stored opt;
          prec = precedent sha actor now packetId (ic_programId c) stored opt in
      [pf_event ''integration_work'' (iw_workId w)
         (IntegrationPromotionAuthorized (iw_workId w) (ic_candidateId c)
            (action_result_ref sha actor now packetId pr opt) (pac_expectedHeadRef a) (pac_rebasedCandidateRef a)),
       pf_event ''decision_action_result'' (result_id sha ''action-result'' pr opt) (Foreign ''DecisionActionApplied''
         (jobj [(''result'', Some result), (''resultDigest'', jstr (digest_of sha result))])),
       pf_event ''decision_resolution'' (result_id sha ''resolution'' pr opt) (Foreign ''DecisionResolved''
         (jobj [(''resolution'', Some res), (''resolutionDigest'', jstr (digest_of sha res))])),
       pf_event ''decision_precedent'' (result_id sha ''precedent'' pr opt) (Foreign ''DecisionPrecedentRecorded''
         (jobj [(''precedent'', Some prec), (''precedentDigest'', jstr (digest_of sha prec))]))])"

definition decide_decision_integrate ::
    "(string \<Rightarrow> string) \<Rightarrow> Actor \<Rightarrow> timestamp \<Rightarrow> PortfolioContext \<Rightarrow> Portfolio \<Rightarrow> IntegratePayload \<Rightarrow> portfolio_decision" where
  "decide_decision_integrate sha actor now cx s p =
     (if actor_kind actor \<noteq> Operator
      then reject APPROVAL_REQUIRES_OPERATOR ''Integration requires an operator actor''
      else case open_revision sha cx s p of
        None \<Rightarrow> reject DECISION_PACKET_STALE ''Integration decision packet is stale''
      | Some stored \<Rightarrow>
          (case find (\<lambda>opt. dop_optionId opt = ip_optionId p) (prv_options (ds_revision stored)) of
             None \<Rightarrow> reject DECISION_ACTION_MISMATCH ''Integration option does not match''
           | Some opt \<Rightarrow>
               (case (mget (integrationCandidates s) (pac_candidateId (dop_action opt)),
                      mget (integrationWork s) (pac_workId (dop_action opt))) of
                  (Some c, Some w) \<Rightarrow>
                    if \<not> action_matches sha p (dop_action opt) \<or>
                       \<not> action_live sha cx s (ds_revision stored) (dop_action opt)
                    then reject DECISION_PACKET_STALE ''Integration evidence or target head changed''
                    else (case outcomeDispositionEvent sha cx (ref_id (pac_finalOutcomeRef (dop_action opt)))
                             (Some (ref_digest (pac_finalOutcomeRef (dop_action opt)))) ''accepted''
                             (Some ''Accepted with exact managed integration authorization'') (actor_id actor) now of
                        Inl (code, message) \<Rightarrow> reject code message
                      | Inr disposition \<Rightarrow>
                          accept (disposition # authorization_events sha actor now (ip_packetId p)
                                    (ws_work w) (cs_candidate c) stored opt)
                            ''decision_action_result'' (result_id sha ''action-result'' (ds_revision stored) opt))
                | _ \<Rightarrow> reject DECISION_PACKET_STALE ''Integration evidence or target head changed'')))"

section \<open>The commands\<close>

datatype PortfolioCommand =
    Pc_policy_approve PortfolioPolicyInput
  | Pc_coordinate nat nat \<comment> \<open>expected position, lease duration\<close>
  | Pc_target_approve IntegrationTargetInput
  | Pc_lease_renew uuid uuid nat nat \<comment> \<open>lease, admission, token, duration\<close>
  | Pc_admission_release uuid uuid nat string \<comment> \<open>admission, generation, token, reason\<close>
  | Pc_admission_fence uuid uuid nat string
  | Pc_diff_record CandidateDiffManifest digest
  | Pc_candidate_queue IntegrationCandidate digest uuid
  | Pc_work_lease_acquire uuid uuid nat \<comment> \<open>work, owner, duration\<close>
  | Pc_work_prepare uuid uuid nat ImmutableReference ImmutableReference
  | Pc_work_conflict uuid uuid nat IntegrationConflict digest
  | Pc_work_verify uuid uuid nat IntegrationVerification digest
  | Pc_decision_compile uuid nat
  | Pc_decision_integrate IntegratePayload
  | Pc_promote_record PromotionReceipt digest
  | Pc_slo_record PortfolioSloIncident digest

fun decide_portfolio ::
    "(string \<Rightarrow> string) \<Rightarrow> (string \<Rightarrow> string \<Rightarrow> int) \<Rightarrow> Actor \<Rightarrow> timestamp \<Rightarrow> PortfolioContext \<Rightarrow> Portfolio \<Rightarrow>
       PortfolioCommand \<Rightarrow> portfolio_decision" where
  "decide_portfolio sha lc a now cx s (Pc_policy_approve p) = decide_portfolio_policy_approve sha a now cx s p"
| "decide_portfolio sha lc a now cx s (Pc_coordinate n du) = decide_portfolio_coordinate sha lc a now cx s n du"
| "decide_portfolio sha lc a now cx s (Pc_target_approve t) = decide_integration_target_approve sha a now cx s t"
| "decide_portfolio sha lc a now cx s (Pc_lease_renew l ad t du) = decide_portfolio_lease_renew sha a now s l ad t du"
| "decide_portfolio sha lc a now cx s (Pc_admission_release i g t reason) =
     decide_admission_end Claim_released a now s i g t reason"
| "decide_portfolio sha lc a now cx s (Pc_admission_fence i g t reason) =
     decide_admission_end Claim_fenced a now s i g t reason"
| "decide_portfolio sha lc a now cx s (Pc_diff_record m d) = decide_candidate_diff_record sha lc a cx s m d"
| "decide_portfolio sha lc a now cx s (Pc_candidate_queue c d w) =
     decide_integration_candidate_queue sha lc a now cx s c d w"
| "decide_portfolio sha lc a now cx s (Pc_work_lease_acquire w own du) = decide_work_lease_acquire lc a now s w own du"
| "decide_portfolio sha lc a now cx s (Pc_work_prepare w own t head rebased) =
     decide_work_prepare sha a now cx s w own t head rebased"
| "decide_portfolio sha lc a now cx s (Pc_work_conflict w own t x d) = decide_work_conflict sha a now s w own t x d"
| "decide_portfolio sha lc a now cx s (Pc_work_verify w own t v d) = decide_work_verify sha a now s w own t v d"
| "decide_portfolio sha lc a now cx s (Pc_decision_compile c n) = decide_decision_compile sha lc a now cx s c n"
| "decide_portfolio sha lc a now cx s (Pc_decision_integrate p) = decide_decision_integrate sha a now cx s p"
| "decide_portfolio sha lc a now cx s (Pc_promote_record r d) = decide_promote_record sha a s r d"
| "decide_portfolio sha lc a now cx s (Pc_slo_record i d) = decide_slo_record sha a s i d"

end
