(* ===== verification/CoordinateFacts.thy ===== *)
theory CoordinateFacts
  imports PortfolioCoordinate
begin

text \<open>
  What an accepted coordination found: the program it admits, that the programs before it in the
  order were passed over, and the parts of the plan.
\<close>

lemma first_answer_cases:
  "(\<forall>x\<in>set xs. f x = None) \<and> first_answer f e xs = e \<or>
   (\<exists>pre x post y. xs = pre @ x # post \<and> (\<forall>z\<in>set pre. f z = None) \<and> f x = Some y \<and> first_answer f e xs = y)"
proof (induction xs)
  case (Cons x xs)
  show ?case
  proof (cases "f x")
    case None
    from Cons.IH show ?thesis
    proof (elim disjE exE conjE)
      fix pre z post y
      assume "xs = pre @ z # post" "\<forall>z\<in>set pre. f z = None" "f z = Some y" "first_answer f e xs = y"
      with None show ?thesis
        by (intro disjI2 exI [of _ "x # pre"] exI [of _ z] exI [of _ post] exI [of _ y]) simp
    qed (use None in simp)
  next
    case (Some y)
    then show ?thesis by (intro disjI2 exI [of _ "[]"] exI [of _ x] exI [of _ xs] exI [of _ y]) simp
  qed
qed simp

definition admits ::
    "(string \<Rightarrow> string) \<Rightarrow> timestamp \<Rightarrow> PortfolioContext \<Rightarrow> Portfolio \<Rightarrow> GraphProgramState \<Rightarrow> AdmissionPlan \<Rightarrow>
       Started \<Rightarrow> uuid \<Rightarrow> bool" where
  "admits sha now cx s p a st request \<longleftrightarrow> admission_plan cx s p = Some a \<and>
     startGraphMilestoneEvents sha cx (tm_graph a) (gm_milestoneId (ap_node a)) (ap_generation a)
       (ap_base a) (ap_validations a) (tm_jobPolicy a) now = Inr st \<and>
     truthy (gp_executionRequestId p) = Some request"

lemma admit_program_Inr:
  assumes "admit_program sha actor now cx s du p = Some (Inr r)"
  obtains a st request where "admits sha now cx s p a st request"
    "grant sha actor now s du request p a st = Inr r"
proof -
  obtain a where a: "admission_plan cx s p = Some a"
    using assms by (cases "admission_plan cx s p") (auto simp: admit_program_def)
  obtain st where st: "startGraphMilestoneEvents sha cx (tm_graph a) (gm_milestoneId (ap_node a))
      (ap_generation a) (ap_base a) (ap_validations a) (tm_jobPolicy a) now = Inr st"
    using assms a by (auto simp: admit_program_def split: sum.splits)
  obtain request where "truthy (gp_executionRequestId p) = Some request"
    using assms a st by (cases "truthy (gp_executionRequestId p)") (auto simp: admit_program_def)
  with that a st assms show thesis by (auto simp: admit_program_def admits_def)
qed

lemma coordinate_admits:
  assumes "decide_portfolio_coordinate sha lc actor now cx s n du = Inr r"
  obtains pre p post a st request where "eligiblePrograms lc cx = pre @ p # post"
    "\<forall>q\<in>set pre. admit_program sha actor now cx s du q = None" "admits sha now cx s p a st request"
    "grant sha actor now s du request p a st = Inr r" "actor_kind actor = System"
    "n = lastAppliedPosition (cx_state cx)" "\<not> open_incident s" "\<not> legacy_running cx"
proof -
  have g: "actor_kind actor = System" "n = lastAppliedPosition (cx_state cx)" "\<not> open_incident s" "\<not> legacy_running cx"
    and f: "first_answer (admit_program sha actor now cx s du)
      (reject PROGRAM_NOT_ADVANCEABLE ''No eligible program fits portfolio capacity'') (eligiblePrograms lc cx) = Inr r"
    using assms by (auto simp: decide_portfolio_coordinate_def reject_def split: if_splits)
  from first_answer_cases [of "eligiblePrograms lc cx" "admit_program sha actor now cx s du"
      "reject PROGRAM_NOT_ADVANCEABLE ''No eligible program fits portfolio capacity''"] f
  obtain pre p post where h: "eligiblePrograms lc cx = pre @ p # post"
    "\<forall>q\<in>set pre. admit_program sha actor now cx s du q = None" "admit_program sha actor now cx s du p = Some (Inr r)"
    by (auto simp: reject_def)
  from h(3) show thesis
    by (rule admit_program_Inr) (rule that [OF h(1,2) _ _ g])
qed

text \<open>What a started milestone found.\<close>

lemma started_generation:
  assumes "startGraphMilestoneEvents sha cx g i n base vs policy now = Inr st"
  obtains node w st3 packet where "graphMilestone g i = Some node"
    "milestone_step cx (node_contract node) = Some (w, st3)"
    "\<not> jp_attemptTimeoutMs policy < vc_timeoutMs (s3_verifier st3)"
    "gen_generationId (st_generation st) \<notin> set (cx_generations cx)"
    "\<not> mhas (runs (cx_state cx)) (gen_runId (st_generation st))"
    "\<not> mhas (jobs (cx_state cx)) (gen_jobId (st_generation st))"
    "buildContextPacket sha cx g i (gen_generationId (st_generation st)) n base vs now = Inr packet"
    "gen_contextPacketId (st_generation st) = cp_contextPacketId packet"
    "gen_baseRevisionId (st_generation st) = base"
    "st_events st = generation_events sha (st_generation st) w st3 policy packet"
proof -
  obtain node w st3 where n: "graphMilestone g i = Some node" "milestone_step cx (node_contract node) = Some (w, st3)"
    using assms by (auto simp: startGraphMilestoneEvents_def split: option.splits)
  from assms n show thesis
    by (auto simp: startGraphMilestoneEvents_def Let_def split: if_splits sum.splits intro!: that [OF n])
qed

section \<open>The parts of a plan\<close>

lemma admission_termsD:
  assumes "admission_terms cx s p = Some tm"
  shows "Option.bind (truthy (gp_activeGraphRevisionId p)) (mget (cx_programGraphs cx)) = Some (tm_graph tm)"
    and "gs_v2 (tm_graph tm) = Some (tm_v2 tm)" and "gp_executionPolicy p = Some (tm_jobPolicy tm)"
    and "mget (portfolioPolicies s) (ref_id (gv_portfolioPolicyRef (tm_v2 tm))) = Some (tm_policy tm)"
    and "ps_policyDigest (tm_policy tm) = ref_digest (gv_portfolioPolicyRef (tm_v2 tm))"
    and "ps_supersededAt (tm_policy tm) = None"
    and "mget (integrationTargets s) (ref_id (gv_integrationTargetRef (tm_v2 tm))) = Some (tm_target tm)"
    and "ts_targetDigest (tm_target tm) = ref_digest (gv_integrationTargetRef (tm_v2 tm))"
    and "ts_supersededAt (tm_target tm) = None"
  using assms by (auto simp: admission_terms_def bind_eq_Some_conv split: if_splits)

lemma admission_planD:
  assumes "admission_plan cx s p = Some a"
  shows "admission_terms cx s p = Some (AdmissionTerms.truncate a)"
    and "length (active_admissions s) < lim_maxExecutingPrograms (pol_limits (ps_policy (tm_policy a)))"
    and "list_all (dependency_promoted s) (gv_crossProgramDependencies (tm_v2 a))"
    and "next_milestone cx (tm_v2 a) = Some (ap_node a)"
    and "ap_validations a = validations_of cx (ap_node a)"
    and "length (ap_validations a) = length (gm_dependencies (ap_node a))"
    and "base_revision cx p (ap_node a) (ap_validations a) = Some (ap_base a)"
    and "executionSlot s = Some (ap_slot a)"
    and "capability_slots s (ps_policy (tm_policy a)) (gm_capabilityClaims (ap_node a)) = Some (ap_capabilityKeys a)"
    and "mget (cx_milestones cx) (gm_milestoneId (ap_node a)) = Some (ap_milestone a)"
    and "\<forall>r\<in>set (gm_resourceClaims (ap_node a)). \<not> claimed s (resource_key r)"
    and "\<not> surface_conflict s (ap_target a) (gm_workSurfaces (ap_node a))"
  using assms
  by (auto simp: admission_plan_def bind_eq_Some_conv AdmissionTerms.defs AdmissionPlan.defs list_ex_iff
      ap_target_def Let_def split: if_splits)

end
