(* ===== verification/IntegrationSteps.thy ===== *)
theory IntegrationSteps
  imports IntegrationDecision CoordinateFacts
begin

text \<open>
  The portfolio as a state machine: a commit stores the events of an accepted decision and
  applies them. Every commit changes the portfolio by at most one event, which \<open>writes\<close>
  names; what the events do to candidates, work and targets.
\<close>

section \<open>Commits\<close>

definition stamp :: "timestamp \<Rightarrow> PortfolioInput list \<Rightarrow> nat list \<Rightarrow> PortfolioEvent list" where
  "stamp now evs vs = map (\<lambda>(e, v). PortfolioInput.extend e (PortfolioEvent.fields v now)) (zip evs vs)"

definition portfolio_commits ::
    "(string \<Rightarrow> string) \<Rightarrow> (string \<Rightarrow> string \<Rightarrow> int) \<Rightarrow> Actor \<Rightarrow> timestamp \<Rightarrow> PortfolioContext \<Rightarrow>
       PortfolioCommand \<Rightarrow> Portfolio \<Rightarrow> Portfolio \<Rightarrow> bool" where
  "portfolio_commits sha lc a now cx c s s' \<longleftrightarrow> (\<exists>evs k i vs.
     decide_portfolio sha lc a now cx s c = Inr (evs, k, i) \<and> length vs = length evs \<and>
     try_fold (evolve_portfolio sha) s (stamp now evs vs) = Inr s')"

fun foreign :: "PortfolioData \<Rightarrow> bool" where
  "foreign (Foreign _ _) = True"
| "foreign (Lifecycle _) = True"
| "foreign (Planned _) = True"
| "foreign _ = False"

lemma foreign_skip [simp]: "foreign d \<Longrightarrow> apply_portfolio sha v at d s = Inr s"
  by (cases d) auto

lemma stamp_simps [simp]:
  "stamp now [] vs = []"
  "stamp now (e # evs) (v # vs) = PortfolioInput.extend e (PortfolioEvent.fields v now) # stamp now evs vs"
  by (simp_all add: stamp_def)

lemma evolve_stamped [simp]:
  "evolve_portfolio sha s (PortfolioInput.extend e (PortfolioEvent.fields v now)) =
     apply_portfolio sha v now (pi_data e) s"
  by (simp add: evolve_portfolio_def PortfolioInput.extend_def PortfolioEvent.fields_def)

lemma fold_foreign:
  assumes "length vs = length evs" and "\<forall>e\<in>set evs. foreign (pi_data e)"
  shows "try_fold (evolve_portfolio sha) s (stamp now evs vs) = Inr s"
  using assms by (induction evs vs arbitrary: s rule: list_induct2') auto

definition writes ::
    "(string \<Rightarrow> string) \<Rightarrow> (string \<Rightarrow> string \<Rightarrow> int) \<Rightarrow> Actor \<Rightarrow> timestamp \<Rightarrow> PortfolioContext \<Rightarrow>
       Portfolio \<Rightarrow> PortfolioCommand \<Rightarrow> PortfolioData \<Rightarrow> bool" where
  "writes sha lc a now cx s c d \<longleftrightarrow> (\<exists>evs k i. decide_portfolio sha lc a now cx s c = Inr (evs, k, i) \<and>
     d \<in> pi_data ` set evs) \<and> \<not> foreign d"

text \<open>At most one event of an accepted decision is not foreign.\<close>

definition single :: "PortfolioInput list \<Rightarrow> bool" where
  "single evs \<longleftrightarrow> (\<exists>pre e post. evs = pre @ e # post \<and> (\<forall>x\<in>set (pre @ post). foreign (pi_data x))) \<or>
     (\<forall>x\<in>set evs. foreign (pi_data x))"

lemma single_one [simp]: "single [e]"
  unfolding single_def by (metis append_Nil empty_iff empty_set list.simps(9))

lemma single_Nil [simp]: "single []"
  by (simp add: single_def)

lemma single_foreign: "\<forall>x\<in>set evs. foreign (pi_data x) \<Longrightarrow> single (e # evs)"
  unfolding single_def by (metis append_Nil)

lemma single_cons: "foreign (pi_data e) \<Longrightarrow> single evs \<Longrightarrow> single (e # evs)"
  unfolding single_def by (metis Cons_eq_appendI set_ConsD)

lemmas decide_defs = accept_def reject_def pf_event_def decide_portfolio_policy_approve_def
  decide_integration_target_approve_def decide_portfolio_lease_renew_def decide_admission_end_def
  decide_candidate_diff_record_def decide_integration_candidate_queue_def decide_work_lease_acquire_def
  decide_work_prepare_def decide_work_conflict_def decide_work_verify_def decide_decision_compile_def
  decide_decision_integrate_def decide_promote_record_def decide_slo_record_def Let_def

lemma program_pending_foreign: "e \<in> set (program_pending cx c) \<Longrightarrow> foreign (pi_data e)"
  by (auto simp: program_pending_def pf_event_def split: option.splits)

lemma packet_events_single: "single (packet_events sha a now r)"
  unfolding packet_events_def Let_def
  by (intro single_cons single_foreign) (simp_all add: pf_event_def)

lemma disposition_foreign:
  "outcomeDispositionEvent sha cx i d disposition reason actorId now = Inr e \<Longrightarrow> foreign (pi_data e)"
  by (auto simp: outcomeDispositionEvent_def pf_event_def Let_def split: option.splits if_splits)

lemma authorization_events_single: "single (authorization_events sha a now i w x st opt)"
  unfolding authorization_events_def Let_def by (intro single_foreign) (simp add: pf_event_def)

text \<open>The events that start a milestone belong to other components.\<close>

lemma started_foreign:
  assumes "admits sha now cx s p a st request" and "e \<in> set (st_events st)"
  shows "foreign (pi_data e)"
  using assms
  by (auto simp: admits_def startGraphMilestoneEvents_def generation_events_def pf_event_def Let_def
      split: option.splits if_splits sum.splits prod.splits)

lemma program_started_foreign: "e \<in> set (program_started actor p g) \<Longrightarrow> foreign (pi_data e)"
  by (auto simp: program_started_def pf_event_def split: if_splits)

lemma coordinate_single:
  assumes "decide_portfolio_coordinate sha lc actor now cx s n du = Inr (evs, k, i)"
  shows "single evs"
  using assms
proof (rule coordinate_admits)
  fix pre p post a st request
  assume "admits sha now cx s p a st request" "grant sha actor now s du request p a st = Inr (evs, k, i)"
  then show "single evs"
    by (auto simp: grant_def accept_def Let_def intro!: single_foreign
        dest: started_foreign program_started_foreign)
qed

lemma decide_single: "decide_portfolio sha lc a now cx s c = Inr (evs, k, i) \<Longrightarrow> single evs"
  by (cases c)
     (auto simp: decide_defs split: if_splits option.splits sum.splits
        intro: coordinate_single single_foreign program_pending_foreign packet_events_single single_cons disposition_foreign
          authorization_events_single)

lemma fold_single:
  assumes "single evs" and "length vs = length evs"
    and f: "try_fold (evolve_portfolio sha) s (stamp now evs vs) = Inr s'"
  shows "s' = s \<or> (\<exists>e\<in>set evs. \<exists>v. \<not> foreign (pi_data e) \<and> apply_portfolio sha v now (pi_data e) s = Inr s')"
proof (cases "\<forall>x\<in>set evs. foreign (pi_data x)")
  case True
  with fold_foreign [OF assms(2)] f show ?thesis by simp
next
  case False
  with assms(1) obtain pre e post where evs: "evs = pre @ e # post"
    and all: "\<forall>x\<in>set (pre @ post). foreign (pi_data x)"
    by (auto simp: single_def)
  obtain us v ws where vs: "vs = us @ v # ws" "length us = length pre" "length ws = length post"
  proof
    show "vs = take (length pre) vs @ vs ! length pre # drop (Suc (length pre)) vs"
      using assms(2) by (intro id_take_nth_drop) (simp add: evs)
  qed (use assms(2) in \<open>simp_all add: evs\<close>)
  have "stamp now evs vs = stamp now pre us @ stamp now (e # post) (v # ws)"
    using vs by (simp add: evs stamp_def)
  with f have "try_fold (evolve_portfolio sha) s (stamp now (e # post) (v # ws)) = Inr s'"
    using fold_foreign [of us pre] all vs by (simp add: try_fold_append)
  with fold_foreign [of ws post] all vs show ?thesis
    using evs False by (auto split: sum.splits)
qed

text \<open>A commit is a stutter or the application of one event the decision wrote.\<close>

lemma commit_cases:
  assumes "portfolio_commits sha lc a now cx c s s'"
  obtains "s' = s"
  | d v where "writes sha lc a now cx s c d" "apply_portfolio sha v now d s = Inr s'"
proof -
  obtain evs k i vs where d: "decide_portfolio sha lc a now cx s c = Inr (evs, k, i)"
    "length vs = length evs" "try_fold (evolve_portfolio sha) s (stamp now evs vs) = Inr s'"
    using assms by (auto simp: portfolio_commits_def)
  from fold_single [OF decide_single [OF d(1)] d(2,3)] that d(1) show ?thesis
    unfolding writes_def by blast
qed

section \<open>What each command writes\<close>

lemma writes_policy:
  "writes sha lc a now cx s (Pc_policy_approve p) d \<Longrightarrow> \<exists>pol pd prior. d = PortfolioPolicyApproved pol pd prior"
  by (auto simp: writes_def decide_defs split: if_splits)

lemma writes_coordinate:
  assumes "writes sha lc actor now cx s (Pc_coordinate n du) d"
  obtains pre p post a st request pa where "eligiblePrograms lc cx = pre @ p # post"
    "\<forall>q\<in>set pre. admit_program sha actor now cx s du q = None" "admits sha now cx s p a st request"
    "pa = granted_admission sha now s request p a (st_generation st)"
    "d = PortfolioAdmissionGranted pa (digest_of sha (enc_PortfolioAdmission pa))
       (map (digested_lease sha) (map (claim_lease sha now du pa) (claim_keys a)))"
    "actor_kind actor = System" "\<not> open_incident s"
proof -
  obtain evs k i where e: "decide_portfolio_coordinate sha lc actor now cx s n du = Inr (evs, k, i)"
    "d \<in> pi_data ` set evs" "\<not> foreign d"
    using assms by (auto simp: writes_def)
  from e(1) show thesis
  proof (rule coordinate_admits)
    fix pre p post a st request
    assume h: "eligiblePrograms lc cx = pre @ p # post"
      "\<forall>q\<in>set pre. admit_program sha actor now cx s du q = None" "admits sha now cx s p a st request"
      "grant sha actor now s du request p a st = Inr (evs, k, i)" "actor_kind actor = System" "\<not> open_incident s"
    with e(2,3) show thesis
      by (intro that [OF h(1-3) refl _ h(5,6)])
        (auto simp: grant_def accept_def Let_def pf_event_def dest: started_foreign program_started_foreign)
  qed
qed

lemma writes_target:
  "writes sha lc a now cx s (Pc_target_approve t) d \<Longrightarrow> \<exists>tgt td. actor_kind a = Operator \<and>
     target_identity_ok t \<and> target_chain_ok s t \<and> target_evidence_ok sha cx s t \<and>
     tgt_targetRevisionId tgt = tgt_targetRevisionId t \<and> tgt_initialHeadRef tgt = tgt_initialHeadRef t \<and>
     d = IntegrationTargetApproved tgt td
       (map_option (\<lambda>a. tgt_targetRevisionId (ts_target a)) (active_target (tgt_targetId t) s))"
  by (auto simp: writes_def decide_defs IntegrationTargetInput.extend_def split: if_splits)

lemma writes_lease_renew:
  "writes sha lc a now cx s (Pc_lease_renew l ad t du) d \<Longrightarrow> \<exists>lease ld. d = PortfolioLeaseRenewed lease ld"
  by (auto simp: writes_def decide_defs split: if_splits option.splits)

lemma writes_admission_end:
  "writes sha lc a now cx s (Pc_admission_release i g t reason) d \<Longrightarrow>
     \<exists>ls. d = PortfolioAdmissionReleased i g t reason now ls"
  "writes sha lc a now cx s (Pc_admission_fence i g t reason) d \<Longrightarrow>
     \<exists>ls. d = PortfolioAdmissionFenced i g t reason now ls"
  by (auto simp: writes_def decide_defs split: if_splits option.splits)

lemma writes_diff:
  "writes sha lc a now cx s (Pc_diff_record m md) d \<longleftrightarrow> d = CandidateDiffManifestRecorded m md \<and>
     actor_kind a = System \<and> digest_of sha (enc_CandidateDiffManifest m) = md \<and>
     \<not> mhas (candidateDiffManifests s) (cdm_manifestId m) \<and> diff_references_ok cx m \<and>
     holds (mget (cx_programGraphs cx) (cdm_graphRevisionId m)) (\<lambda>g. holds (gs_v2 g) (\<lambda>v2. diff_canonical sha lc v2 m)) \<and>
     verdict_consistent sha m"
  by (auto simp: writes_def decide_defs split: if_splits intro: ActorKind.exhaust)

lemma writes_queue:
  "writes sha lc a now cx s (Pc_candidate_queue cd dg w) d \<longleftrightarrow>
     d = IntegrationCandidateQueued cd dg (new_work w (ic_candidateId cd) now)
       (digest_of sha (enc_IntegrationWork (new_work w (ic_candidateId cd) now))) \<and>
     actor_kind a = System \<and> candidate_evidence_ok sha lc cx s cd dg \<and> ready_count s < ready_limit s cd"
  by (auto simp: writes_def decide_defs split: if_splits dest: program_pending_foreign)

lemma writes_acquire:
  "writes sha lc a now cx s (Pc_work_lease_acquire w own du) d \<longleftrightarrow> actor_kind a = System \<and>
     (\<exists>p c. mget (integrationWork s) w = Some p \<and> work_claimable (ws_work p) now \<and>
        candidate_of s (ws_work p) = Some c \<and> predecessors_promoted s (cs_candidate c) \<and>
        \<not> earlier_owns lc s (cs_candidate c) \<and> \<not> target_busy s (ws_work p) (cs_candidate c) now \<and>
        d = IntegrationWorkLeaseAcquired (iw_workId (ws_work p)) own
          (iw_leaseFencingToken (ws_work p) + 1) (addMilliseconds now du))"
  by (auto simp: writes_def decide_defs split: if_splits option.splits)

lemma writes_prepare:
  "writes sha lc a now cx s (Pc_work_prepare w own t head rebased) d \<longleftrightarrow> actor_kind a = System \<and>
     (\<exists>p. mget (integrationWork s) w = Some p \<and> iw_status (ws_work p) = W_leased \<and>
        work_held (ws_work p) own t \<and> work_lease_not_past (ws_work p) now \<and> work_candidate_ok s (ws_work p) \<and>
        live_head_digest sha s (ws_work p) = ref_digest_of sha head \<and> ref_kind rebased = ''source_revision'' \<and>
        mhas (sourceRevisions (cx_state cx)) (ref_id rebased) \<and>
        d = IntegrationCandidatePrepared w (iw_candidateId (ws_work p)) own t head rebased)"
  by (auto simp: writes_def decide_defs split: if_splits option.splits)

lemma writes_conflict:
  "writes sha lc a now cx s (Pc_work_conflict w own t x xd) d \<longleftrightarrow> actor_kind a = System \<and>
     (\<exists>p. mget (integrationWork s) w = Some p \<and> iw_status (ws_work p) = W_leased \<and>
        work_held (ws_work p) own t \<and> work_lease_open (ws_work p) now \<and>
        digest_of sha (enc_IntegrationConflict x) = xd \<and> ix_candidateId x = iw_candidateId (ws_work p) \<and>
        d = IntegrationConflictRecorded w own t x xd)"
  by (auto simp: writes_def decide_defs split: if_splits option.splits)

lemma writes_verify:
  "writes sha lc a now cx s (Pc_work_verify w own t v vd) d \<longleftrightarrow> actor_kind a = System \<and>
     (\<exists>p. mget (integrationWork s) w = Some p \<and> iw_status (ws_work p) = W_prepared \<and>
        work_held (ws_work p) own t \<and> work_lease_open (ws_work p) now \<and>
        verification_evidence_ok sha s (ws_work p) v vd \<and> d = IntegrationVerificationRecorded w own t v vd)"
  by (auto simp: writes_def decide_defs split: if_splits option.splits)

lemma writes_compile:
  "writes sha lc a now cx s (Pc_decision_compile i n) d \<Longrightarrow> \<exists>r. ready_candidate sha lc cx s i = Some r \<and>
     d = DecisionPacketRevisionRecorded (packet_revision sha now r)
       (digest_of sha (enc_PacketRevision (packet_revision sha now r)))"
  by (auto simp: writes_def decide_defs packet_events_def split: if_splits option.splits)

lemma find_member: "find P xs = Some x \<Longrightarrow> x \<in> set xs \<and> P x"
  by (auto simp: find_Some_iff)

lemma writes_integrate:
  "writes sha lc a now cx s (Pc_decision_integrate p) d \<Longrightarrow> actor_kind a = Operator \<and>
     (\<exists>st opt r w c. open_revision sha cx s p = Some st \<and> opt \<in> set (prv_options (ds_revision st)) \<and>
        mget (integrationWork s) (pac_workId (dop_action opt)) = Some w \<and>
        mget (integrationCandidates s) (pac_candidateId (dop_action opt)) = Some c \<and> dop_optionId opt = ip_optionId p \<and> action_matches sha p (dop_action opt) \<and>
        action_live sha cx s (ds_revision st) (dop_action opt) \<and>
        d = IntegrationPromotionAuthorized (iw_workId (ws_work w)) (ic_candidateId (cs_candidate c)) r
          (pac_expectedHeadRef (dop_action opt)) (pac_rebasedCandidateRef (dop_action opt)))"
  by (auto simp: writes_def decide_defs authorization_events_def
      split: if_splits option.splits sum.splits dest: disposition_foreign dest!: find_member)

lemma writes_promote:
  "writes sha lc a now cx s (Pc_promote_record r rd) d \<longleftrightarrow> actor_kind a = System \<and>
     digest_of sha (enc_PromotionReceipt r) = rd \<and>
     (\<exists>c. mget (integrationCandidates s) (pr_candidateId r) = Some c \<and> cs_status c = C_authorized) \<and>
     (\<exists>p. work_of (pr_candidateId r) s = Some p \<and> iw_status (ws_work p) = W_authorized \<and>
        (\<exists>x. iw_authorizationRef (ws_work p) = Some x \<and> ref_id x = ref_id (pr_authorizationRef r)) \<and>
        opt_ref_digest sha (iw_rebasedCandidateRef (ws_work p)) = ref_digest_of sha (pr_newHeadRef r)) \<and>
     head_digest sha (mget (integrationTargets s) (ref_id (pr_targetRef r))) = ref_digest_of sha (pr_expectedOldHeadRef r) \<and>
     d = IntegrationPromotionRecorded r rd"
  by (auto simp: writes_def decide_defs split: if_splits)

lemma writes_slo:
  "writes sha lc a now cx s (Pc_slo_record i dg) d \<Longrightarrow> d = PortfolioSloIncidentRecorded i dg"
  by (auto simp: writes_def decide_defs split: if_splits)

lemmas writes_dests = writes_policy writes_target writes_lease_renew writes_admission_end writes_compile
  writes_integrate writes_slo

lemmas writes_iffs = writes_diff writes_queue writes_acquire writes_prepare writes_conflict writes_verify
  writes_promote

end
