(* ===== verification/IntegrationFacts.thy ===== *)
theory IntegrationFacts
  imports IntegrationSteps
begin

text \<open>
  The invariant of the integration lane, in parts proved separately: how the maps are keyed,
  that candidates and their work move together, what verified, authorized and promoted work
  has recorded, that predecessors are promoted first, and that every candidate's diff stays
  inside the surfaces its graph allows.
\<close>

section \<open>What events do to candidates and work\<close>

lemma found_Inr: "found m k x f = Inr r \<longleftrightarrow> (\<exists>v. mget m k = Some v \<and> f v = Inr r)"
  by (auto simp: found_def split: option.splits)

lemma check_digest_Inr: "check_digest sha v d x r = Inr y \<longleftrightarrow> digest_of sha v = d \<and> r = Inr y"
  by (auto simp: check_digest_def)

lemmas apply_defs = found_Inr check_digest_Inr apply_policy_approved_def supersede_policy_def
  apply_target_approved_def supersede_target_def apply_admission_granted_def apply_lease_renewed_def
  apply_admission_ended_def apply_manifest_recorded_def apply_candidate_queued_def on_work_def
  set_candidate_def put_work_def apply_conflict_recorded_def apply_verification_recorded_def
  apply_promotion_authorized_def apply_promotion_recorded_def promote_work_def move_head_def
  apply_incident_recorded_def apply_revision_recorded_def

text \<open>The leases' events leave the lane alone.\<close>

definition same_lane :: "Portfolio \<Rightarrow> Portfolio \<Rightarrow> bool" where
  "same_lane s s' \<longleftrightarrow> integrationTargets s' = integrationTargets s \<and>
     candidateDiffManifests s' = candidateDiffManifests s \<and>
     integrationCandidates s' = integrationCandidates s \<and> integrationWork s' = integrationWork s \<and>
     integrationVerifications s' = integrationVerifications s \<and> packetRevisions s' = packetRevisions s"

lemma same_lane_refl [simp]: "same_lane s s"
  by (simp add: same_lane_def)

lemma same_lane_trans: "same_lane s t \<Longrightarrow> same_lane t u \<Longrightarrow> same_lane s u"
  by (simp add: same_lane_def)

lemma add_lease_lane: "add_lease sha v s e = Inr s' \<Longrightarrow> same_lane s s'"
  by (auto simp: add_lease_def check_digest_Inr same_lane_def split: prod.splits)

lemma close_lease_lane: "close_lease sha v st at s i = Inr s' \<Longrightarrow> same_lane s s'"
  by (auto simp: close_lease_def found_Inr same_lane_def Let_def)

interpretation add_leases: step_monotone "add_lease sha v" same_lane
  by unfold_locales (auto intro: same_lane_trans add_lease_lane)

interpretation close_leases: step_monotone "close_lease sha v st at" same_lane
  by unfold_locales (auto intro: same_lane_trans close_lease_lane)

lemma lease_events_lane:
  "apply_admission_granted sha v x d ls s = Inr s' \<Longrightarrow> same_lane s s'"
  "apply_lease_renewed sha v l d s = Inr s' \<Longrightarrow> same_lane s s'"
  "apply_admission_ended sha v st i reason at is s = Inr s' \<Longrightarrow> same_lane s s'"
  "apply_policy_approved sha v at p d prior s = Inr s' \<Longrightarrow> same_lane s s'"
  "apply_incident_recorded sha v inc d s = Inr s' \<Longrightarrow> same_lane s s'"
proof -
  show "apply_admission_granted sha v x d ls s = Inr s' \<Longrightarrow> same_lane s s'"
    by (auto simp: apply_admission_granted_def check_digest_Inr same_lane_def dest!: add_leases.fold_le)
  show "apply_admission_ended sha v st i reason at is s = Inr s' \<Longrightarrow> same_lane s s'"
    by (auto simp: apply_admission_ended_def found_Inr same_lane_def Let_def dest!: close_leases.fold_le)
qed (auto simp: apply_defs same_lane_def split: option.splits sum.splits)

text \<open>One work and its candidate change; nothing else of the lane does.\<close>

definition lane_update ::
    "uuid \<Rightarrow> (IntegrationWork \<Rightarrow> IntegrationWork) \<Rightarrow> uuid \<Rightarrow> CandidateStatus \<Rightarrow> Portfolio \<Rightarrow> Portfolio \<Rightarrow> bool" where
  "lane_update i f c st s s' \<longleftrightarrow>
     (\<exists>p q. mget (integrationWork s) i = Some p \<and> mget (integrationCandidates s) c = Some q \<and>
        (\<exists>p'. integrationWork s' = mput i p' (integrationWork s) \<and> ws_work p' = f (ws_work p)) \<and>
        (\<exists>q'. integrationCandidates s' = mput c q' (integrationCandidates s) \<and>
           cs_candidate q' = cs_candidate q \<and> cs_candidateDigest q' = cs_candidateDigest q \<and> cs_status q' = st)) \<and>
     candidateDiffManifests s' = candidateDiffManifests s \<and> packetRevisions s' = packetRevisions s"

lemma lane_updateI:
  "mget (integrationWork s) i = Some p \<Longrightarrow> mget (integrationCandidates s) c = Some q \<Longrightarrow>
   integrationWork s' = mput i p' (integrationWork s) \<Longrightarrow>
   integrationCandidates s' = mput c q' (integrationCandidates s) \<Longrightarrow>
   ws_work p' = f (ws_work p) \<Longrightarrow> cs_candidate q' = cs_candidate q \<Longrightarrow>
   cs_candidateDigest q' = cs_candidateDigest q \<Longrightarrow> cs_status q' = st \<Longrightarrow>
   candidateDiffManifests s' = candidateDiffManifests s \<Longrightarrow> packetRevisions s' = packetRevisions s \<Longrightarrow>
   lane_update i f c st s s'"
  unfolding lane_update_def by blast

lemma lane_update_cong:
  "lane_update i f c st t s' \<Longrightarrow> integrationWork t = integrationWork s \<Longrightarrow>
   integrationCandidates t = integrationCandidates s \<Longrightarrow> candidateDiffManifests t = candidateDiffManifests s \<Longrightarrow>
   packetRevisions t = packetRevisions s \<Longrightarrow> lane_update i f c st s s'"
  by (simp add: lane_update_def)

lemma set_candidate_update:
  assumes "set_candidate v c st (put_work sha v i p (f (ws_work p)) s) = Inr s'"
    and "mget (integrationWork s) i = Some p"
  shows "lane_update i f c st s s' \<and> integrationTargets s' = integrationTargets s \<and>
     integrationVerifications s' = integrationVerifications s"
proof -
  obtain q where q: "mget (integrationCandidates s) c = Some q"
    and s': "s' = (put_work sha v i p (f (ws_work p)) s)\<lparr>integrationCandidates :=
      mput c (q\<lparr>cs_status := st, cs_version := v\<rparr>) (integrationCandidates s)\<rparr>"
    using assms(1) by (auto simp: set_candidate_def found_Inr put_work_def)
  have w: "integrationWork s' = mput i (p\<lparr>ws_work := f (ws_work p),
      ws_workDigest := digest_of sha (enc_IntegrationWork (f (ws_work p))), ws_version := v\<rparr>) (integrationWork s)"
    and c: "integrationCandidates s' = mput c (q\<lparr>cs_status := st, cs_version := v\<rparr>) (integrationCandidates s)"
    by (simp_all add: s' put_work_def)
  have "lane_update i f c st s s'"
    by (rule lane_updateI [OF assms(2) q w c]) (simp_all add: s' put_work_def)
  then show ?thesis by (simp add: s' put_work_def)
qed

lemma on_work_update:
  assumes "on_work sha v i f st s = Inr s'" and "mget (integrationWork s) i = Some p"
  shows "lane_update i f (iw_candidateId (ws_work p)) st s s' \<and> integrationTargets s' = integrationTargets s \<and>
     integrationVerifications s' = integrationVerifications s"
  using assms set_candidate_update by (auto simp: on_work_def found_Inr)

lemma authorized_update:
  assumes "apply_promotion_authorized sha v i c r s = Inr s'"
  shows "lane_update i (work_authorized r) c C_authorized s s' \<and> integrationTargets s' = integrationTargets s \<and>
     integrationVerifications s' = integrationVerifications s"
  using assms set_candidate_update by (auto simp: apply_promotion_authorized_def found_Inr)

text \<open>Recording a conflict or a verification first stores it.\<close>

lemma conflict_update:
  assumes "apply_conflict_recorded sha v i x d s = Inr s'" and "mget (integrationWork s) i = Some p"
  shows "lane_update i (work_conflicted x) (iw_candidateId (ws_work p)) C_conflicted s s' \<and>
     integrationTargets s' = integrationTargets s"
proof -
  let ?s = "s\<lparr>integrationConflicts := mput (ix_conflictId x)
     \<lparr>xs_conflict = x, xs_conflictDigest = d, xs_version = v\<rparr> (integrationConflicts s)\<rparr>"
  have "on_work sha v i (work_conflicted x) C_conflicted ?s = Inr s'"
    using assms(1) by (simp add: apply_conflict_recorded_def check_digest_Inr)
  from on_work_update [OF this, of p] assms(2) show ?thesis by (auto intro: lane_update_cong)
qed

lemma verification_update:
  assumes "apply_verification_recorded sha v i vf d s = Inr s'" and "mget (integrationWork s) i = Some p"
  shows "lane_update i (work_verified vf) (iw_candidateId (ws_work p))
       (if iv_result vf = Verdict_passed then C_awaiting_authorization else C_ineligible) s s' \<and>
     integrationTargets s' = integrationTargets s"
proof -
  let ?s = "s\<lparr>integrationVerifications := mput (iv_integrationVerificationId vf)
     \<lparr>vs_verification = vf, vs_verificationDigest = d, vs_version = v\<rparr> (integrationVerifications s)\<rparr>"
  have "on_work sha v i (work_verified vf)
      (if iv_result vf = Verdict_passed then C_awaiting_authorization else C_ineligible) ?s = Inr s'"
    using assms(1) by (simp add: apply_verification_recorded_def check_digest_Inr)
  from on_work_update [OF this, of p] assms(2) show ?thesis by (auto intro: lane_update_cong)
qed

lemma promoted_update:
  assumes "apply_promotion_recorded sha v r d s = Inr s'" and w: "work_of (pr_candidateId r) s = Some p"
    and p: "mget (integrationWork s) (iw_workId (ws_work p)) = Some p"
  obtains t where "lane_update (iw_workId (ws_work p)) (work_promoted (pr_promotedAt r)) (pr_candidateId r) C_promoted s s'"
    "integrationVerifications s' = integrationVerifications s"
    "mget (integrationTargets s) (ref_id (pr_targetRef r)) = Some t"
    "integrationTargets s' = mput (tgt_targetRevisionId (ts_target t))
       (t\<lparr>ts_currentHeadRef := pr_newHeadRef r, ts_version := v\<rparr>) (integrationTargets s)"
proof -
  obtain q where q: "mget (integrationCandidates s) (pr_candidateId r) = Some q"
    using assms(1) by (auto simp: apply_promotion_recorded_def check_digest_Inr set_candidate_def found_def
        split: sum.splits option.splits)
  have w': "work_of (pr_candidateId r) (s\<lparr>promotionReceipts := x, integrationCandidates := y\<rparr>) = Some p" for x y
    using w by (simp add: work_of_def)
  obtain t where t: "mget (integrationTargets s) (ref_id (pr_targetRef r)) = Some t"
    using assms(1) q w' by (auto simp: apply_promotion_recorded_def check_digest_Inr set_candidate_def found_Inr
        promote_work_def put_work_def move_head_def split: sum.splits)
  have s': "s' = (put_work sha v (iw_workId (ws_work p)) p (work_promoted (pr_promotedAt r) (ws_work p)) s)
     \<lparr>promotionReceipts := mput (pr_receiptId r) \<lparr>rs_receipt = r, rs_receiptDigest = d, rs_version = v\<rparr> (promotionReceipts s),
      integrationCandidates := mput (pr_candidateId r) (q\<lparr>cs_status := C_promoted, cs_version := v\<rparr>) (integrationCandidates s),
      integrationTargets := mput (tgt_targetRevisionId (ts_target t))
       (t\<lparr>ts_currentHeadRef := pr_newHeadRef r, ts_version := v\<rparr>) (integrationTargets s)\<rparr>"
    using assms(1) q t w' by (auto simp: apply_promotion_recorded_def check_digest_Inr set_candidate_def found_Inr
        promote_work_def put_work_def move_head_def split: sum.splits)
  have c: "integrationWork s' = mput (iw_workId (ws_work p)) (p\<lparr>ws_work := work_promoted (pr_promotedAt r) (ws_work p),
      ws_workDigest := digest_of sha (enc_IntegrationWork (work_promoted (pr_promotedAt r) (ws_work p))),
      ws_version := v\<rparr>) (integrationWork s)"
    "integrationCandidates s' =
      mput (pr_candidateId r) (q\<lparr>cs_status := C_promoted, cs_version := v\<rparr>) (integrationCandidates s)"
    by (simp_all add: s' put_work_def)
  have "lane_update (iw_workId (ws_work p)) (work_promoted (pr_promotedAt r)) (pr_candidateId r) C_promoted s s'"
    by (rule lane_updateI [OF p q c]) (simp_all add: s' put_work_def)
  with t show thesis by (intro that) (simp_all add: s' put_work_def)
qed

section \<open>The parts of the invariant\<close>

definition lane_keyed :: "Portfolio \<Rightarrow> bool" where
  "lane_keyed s \<longleftrightarrow>
     keyed (\<lambda>c. ic_candidateId (cs_candidate c)) (integrationCandidates s) \<and>
     keyed (\<lambda>w. iw_workId (ws_work w)) (integrationWork s) \<and>
     keyed (\<lambda>t. tgt_targetRevisionId (ts_target t)) (integrationTargets s) \<and>
     keyed (\<lambda>m. cdm_manifestId (ms_manifest m)) (candidateDiffManifests s)"

text \<open>The status of the candidate whose work has a status.\<close>

fun stage :: "WorkStatus \<Rightarrow> CandidateStatus" where
  "stage W_pending = C_pending"
| "stage W_leased = C_preparing"
| "stage W_prepared = C_verifying"
| "stage W_verified = C_awaiting_authorization"
| "stage W_authorized = C_authorized"
| "stage W_promoted = C_promoted"
| "stage W_conflicted = C_conflicted"
| "stage W_failed = C_ineligible"
| "stage W_obsolete = C_ineligible"

definition in_step :: "Portfolio \<Rightarrow> bool" where
  "in_step s \<longleftrightarrow>
     (\<forall>i p. mget (integrationWork s) i = Some p \<longrightarrow>
        (\<exists>q. mget (integrationCandidates s) (iw_candidateId (ws_work p)) = Some q \<and>
           cs_status q = stage (iw_status (ws_work p)))) \<and>
     (\<forall>i p j p'. mget (integrationWork s) i = Some p \<longrightarrow> mget (integrationWork s) j = Some p' \<longrightarrow>
        iw_candidateId (ws_work p) = iw_candidateId (ws_work p') \<longrightarrow> i = j) \<and>
     (\<forall>c. mhas (integrationCandidates s) c \<longrightarrow>
        (\<exists>i p. mget (integrationWork s) i = Some p \<and> iw_candidateId (ws_work p) = c))"

lemma in_step_candidate:
  "in_step s \<Longrightarrow> mget (integrationWork s) i = Some p \<Longrightarrow>
   \<exists>q. mget (integrationCandidates s) (iw_candidateId (ws_work p)) = Some q \<and> cs_status q = stage (iw_status (ws_work p))"
  unfolding in_step_def by blast

lemma in_step_unique:
  "in_step s \<Longrightarrow> mget (integrationWork s) i = Some p \<Longrightarrow> mget (integrationWork s) j = Some p' \<Longrightarrow>
   iw_candidateId (ws_work p) = iw_candidateId (ws_work p') \<Longrightarrow> i = j"
  unfolding in_step_def by blast

lemma in_step_work:
  "in_step s \<Longrightarrow> mhas (integrationCandidates s) c \<Longrightarrow>
   \<exists>i p. mget (integrationWork s) i = Some p \<and> iw_candidateId (ws_work p) = c"
  unfolding in_step_def by blast

definition verified_by :: "(string \<Rightarrow> string) \<Rightarrow> IntegrationWork \<Rightarrow> bool" where
  "verified_by sha w \<longleftrightarrow> (\<exists>v head rebased. iw_verification w = Some v \<and> iw_expectedHeadRef w = Some head \<and>
     iw_rebasedCandidateRef w = Some rebased \<and> iv_result v = Verdict_passed \<and>
     iv_candidateId v = iw_candidateId w \<and> ref_digest_of sha (iv_expectedHeadRef v) = ref_digest_of sha head \<and>
     ref_digest_of sha (iv_rebasedCandidateRef v) = ref_digest_of sha rebased)"

definition work_evident :: "(string \<Rightarrow> string) \<Rightarrow> IntegrationWork \<Rightarrow> bool" where
  "work_evident sha w \<longleftrightarrow>
     (iw_status w \<in> {W_leased, W_prepared} \<longrightarrow> iw_leaseOwnerId w \<noteq> None \<and> iw_leaseExpiresAt w \<noteq> None) \<and>
     (iw_status w \<in> {W_verified, W_authorized, W_promoted} \<longrightarrow> verified_by sha w) \<and>
     (iw_status w \<in> {W_authorized, W_promoted} \<longrightarrow> iw_authorizationRef w \<noteq> None) \<and>
     iw_status w \<noteq> W_obsolete"

definition evidence_kept :: "(string \<Rightarrow> string) \<Rightarrow> Portfolio \<Rightarrow> bool" where
  "evidence_kept sha s \<longleftrightarrow> (\<forall>i p. mget (integrationWork s) i = Some p \<longrightarrow> work_evident sha (ws_work p))"

definition actions_linked :: "Portfolio \<Rightarrow> bool" where
  "actions_linked s \<longleftrightarrow> (\<forall>k st opt. mget (packetRevisions s) k = Some st \<longrightarrow> opt \<in> set (prv_options (ds_revision st)) \<longrightarrow>
     (\<exists>p. mget (integrationWork s) (pac_workId (dop_action opt)) = Some p \<and>
        iw_candidateId (ws_work p) = pac_candidateId (dop_action opt)))"

definition started :: "CandidateStatus \<Rightarrow> bool" where
  "started st \<longleftrightarrow> st \<noteq> C_pending \<and> st \<noteq> C_blocked"

definition lane_ordered :: "Portfolio \<Rightarrow> bool" where
  "lane_ordered s \<longleftrightarrow> (\<forall>c q. mget (integrationCandidates s) c = Some q \<longrightarrow> started (cs_status q) \<longrightarrow>
     predecessors_promoted s (cs_candidate q))"

definition diff_contained :: "CandidateDiffManifest \<Rightarrow> bool" where
  "diff_contained m \<longleftrightarrow> (\<forall>e\<in>set (cdm_entries m). \<exists>f\<in>set (cdm_allowedSurfaces m). surface_covers f (de_path e))"

definition lane_contained :: "Portfolio \<Rightarrow> bool" where
  "lane_contained s \<longleftrightarrow>
     (\<forall>k m. mget (candidateDiffManifests s) k = Some m \<longrightarrow> cdm_eligible (ms_manifest m) \<longrightarrow>
        diff_contained (ms_manifest m)) \<and>
     (\<forall>c q. mget (integrationCandidates s) c = Some q \<longrightarrow>
        (\<exists>m. manifest_of s (cs_candidate q) = Some m \<and> cdm_eligible (ms_manifest m)))"

definition lane_ok :: "(string \<Rightarrow> string) \<Rightarrow> Portfolio \<Rightarrow> bool" where
  "lane_ok sha s \<longleftrightarrow> lane_keyed s \<and> in_step s \<and> evidence_kept sha s \<and> actions_linked s \<and> lane_ordered s \<and>
     lane_contained s"

lemmas lane_parts = lane_keyed_def in_step_def evidence_kept_def actions_linked_def lane_ordered_def
  lane_contained_def

lemma lane_ok_empty: "lane_ok sha emptyPortfolio"
  by (simp add: lane_ok_def lane_parts emptyPortfolio_def mhas_def)

lemma lane_ok_same: "same_lane s s' \<Longrightarrow> lane_ok sha s \<Longrightarrow> lane_ok sha s'"
  unfolding lane_ok_def lane_parts same_lane_def manifest_of_def predecessors_promoted_def by simp

section \<open>Moving one work\<close>

definition moves_work :: "(IntegrationWork \<Rightarrow> IntegrationWork) \<Rightarrow> CandidateStatus \<Rightarrow> IntegrationWork \<Rightarrow> bool" where
  "moves_work f st w \<longleftrightarrow> iw_workId (f w) = iw_workId w \<and> iw_candidateId (f w) = iw_candidateId w \<and>
     stage (iw_status (f w)) = st"

lemma predecessors_promoted_iff:
  "predecessors_promoted s c \<longleftrightarrow>
     (\<forall>i\<in>set (ic_dependencyCandidateIds c) \<union> set (ic_actualOverlapPredecessorIds c).
        \<exists>p. mget (integrationCandidates s) i = Some p \<and> cs_status p = C_promoted)"
  by (auto simp: predecessors_promoted_def list_all_iff)

lemma update_keeps:
  assumes ok: "lane_ok sha s" and u: "lane_update i f c st s s'"
    and p: "mget (integrationWork s) i = Some p" "iw_candidateId (ws_work p) = c"
    and f: "moves_work f st (ws_work p)" "work_evident sha (f (ws_work p))"
    and q: "mget (integrationCandidates s) c = Some q" "cs_status q = C_promoted \<Longrightarrow> st = C_promoted"
      "started (cs_status q) \<or> predecessors_promoted s (cs_candidate q)"
    and t: "integrationTargets s' = integrationTargets s \<or>
      keyed (\<lambda>t. tgt_targetRevisionId (ts_target t)) (integrationTargets s')"
  shows "lane_ok sha s'"
proof -
  obtain p' q' where w': "integrationWork s' = mput i p' (integrationWork s)" "ws_work p' = f (ws_work p)"
    and c': "integrationCandidates s' = mput c q' (integrationCandidates s)" "cs_candidate q' = cs_candidate q"
      "cs_status q' = st"
    and rest: "candidateDiffManifests s' = candidateDiffManifests s" "packetRevisions s' = packetRevisions s"
    using u p q(1) by (auto simp: lane_update_def)
  have parts: "lane_keyed s" "in_step s" "evidence_kept sha s" "actions_linked s" "lane_ordered s" "lane_contained s"
    using ok by (simp_all add: lane_ok_def)
  have ids: "iw_workId (ws_work p) = i" "ic_candidateId (cs_candidate q) = c"
    using parts(1) p(1) q(1) by (auto simp: lane_keyed_def dest: keyedD)
  have "lane_keyed s'"
    using parts(1) ids t f(1) w' c' unfolding lane_keyed_def
    by (auto simp: rest moves_work_def intro: keyed_mput)
  moreover have "in_step s'"
  proof -
    have cands: "mhas (integrationCandidates s') k \<longleftrightarrow> mhas (integrationCandidates s) k" for k
      using q(1) by (auto simp: c'(1) mhas_def)
    have works: "(\<exists>j x. mget (integrationWork s') j = Some x \<and> iw_candidateId (ws_work x) = k)"
      if k: "mhas (integrationCandidates s) k" for k
    proof -
      obtain j x where "mget (integrationWork s) j = Some x" "iw_candidateId (ws_work x) = k"
        using parts(2) k unfolding in_step_def by blast
      then show ?thesis using p f(1) by (intro exI [of _ j]) (auto simp: w' moves_work_def)
    qed
    from parts(2) p q(1) f(1) works show ?thesis
      unfolding in_step_def cands by (auto simp: w' c' moves_work_def)
  qed
  moreover have "evidence_kept sha s'"
    using parts(3) f(2) by (auto simp: evidence_kept_def w')
  moreover have "actions_linked s'"
    using parts(4) p f(1) unfolding actions_linked_def w' rest by (fastforce simp: w'(2) moves_work_def)
  moreover have pre: "predecessors_promoted s' d" if d: "predecessors_promoted s d" for d
    unfolding predecessors_promoted_iff
  proof
    fix k assume "k \<in> set (ic_dependencyCandidateIds d) \<union> set (ic_actualOverlapPredecessorIds d)"
    with d obtain x where x: "mget (integrationCandidates s) k = Some x" "cs_status x = C_promoted"
      by (auto simp: predecessors_promoted_iff)
    show "\<exists>x. mget (integrationCandidates s') k = Some x \<and> cs_status x = C_promoted"
      using x q(1,2) c' by (cases "k = c") auto
  qed
  then have "lane_ordered s'"
    using parts(5) q(1,3) unfolding lane_ordered_def c'(1) by (auto simp: c'(2,3))
  moreover have "lane_contained s'"
    using parts(6) q(1) unfolding lane_contained_def manifest_of_def rest c'(1) by (auto simp: c'(2))
  ultimately show ?thesis by (simp add: lane_ok_def)
qed

end
