(* ===== verification/IntegrationInvariant.thy ===== *)
theory IntegrationInvariant
  imports IntegrationFacts
begin

text \<open>
  Every commit keeps the invariant of the lane, provided that a queued candidate gets work
  under a new identifier (the code does not check it). The reachable portfolios.
\<close>

definition queues_fresh :: "Portfolio \<Rightarrow> PortfolioCommand \<Rightarrow> bool" where
  "queues_fresh s c = (case c of Pc_candidate_queue _ _ w \<Rightarrow> \<not> mhas (integrationWork s) w | _ \<Rightarrow> True)"

section \<open>Commands that only add\<close>

lemma sort_Nil_iff [simp]: "sort xs = [] \<longleftrightarrow> xs = []"
  by (metis length_0_conv length_sort)

lemma diff_keeps:
  assumes ok: "lane_ok sha s" and w: "writes sha lc a now cx s (Pc_diff_record m md) d"
    and e: "apply_portfolio sha v now d s = Inr s'"
  shows "lane_ok sha s'"
proof -
  have d: "d = CandidateDiffManifestRecorded m md" "\<not> mhas (candidateDiffManifests s) (cdm_manifestId m)"
    "verdict_consistent sha m"
    using w by (auto simp: writes_diff)
  have s': "s' = s\<lparr>candidateDiffManifests := mput (cdm_manifestId m)
      \<lparr>ms_manifest = m, ms_manifestDigest = md, ms_version = v\<rparr> (candidateDiffManifests s)\<rparr>"
    using e by (simp add: d apply_manifest_recorded_def check_digest_Inr)
  have contained: "cdm_eligible m \<Longrightarrow> diff_contained m"
    using d(3) by (auto simp: verdict_consistent_def computed_violations_def diff_contained_def
        filter_empty_conv list_ex_iff)
  have "manifest_of s' c = manifest_of s c" if "manifest_of s c \<noteq> None" for c
    using that d(2) by (auto simp: manifest_of_def s' mhas_def)
  then have "lane_contained s'"
    using ok contained unfolding lane_ok_def lane_contained_def by (fastforce simp: s' split: if_splits)
  moreover have "lane_keyed s'" using ok by (auto simp: lane_ok_def lane_keyed_def s')
  ultimately show ?thesis
    using ok by (simp add: lane_ok_def lane_parts s' predecessors_promoted_def)
qed

lemma target_keeps:
  assumes ok: "lane_ok sha s" and w: "writes sha lc a now cx s (Pc_target_approve t) d"
    and e: "apply_portfolio sha v now d s = Inr s'"
  shows "lane_ok sha s'"
proof -
  obtain tgt td where d: "tgt_targetRevisionId tgt = tgt_targetRevisionId t"
    "d = IntegrationTargetApproved tgt td
       (map_option (\<lambda>a. tgt_targetRevisionId (ts_target a)) (active_target (tgt_targetId t) s))"
    using writes_target [OF w] by blast
  have k: "keyed (\<lambda>t. tgt_targetRevisionId (ts_target t)) (integrationTargets s)"
    using ok by (simp add: lane_ok_def lane_keyed_def)
  have "\<exists>m. s' = s\<lparr>integrationTargets := m\<rparr> \<and> keyed (\<lambda>t. tgt_targetRevisionId (ts_target t)) m"
  proof (cases "map_option (\<lambda>a. tgt_targetRevisionId (ts_target a)) (active_target (tgt_targetId t) s)")
    case None
    with e k show ?thesis
      by (auto simp: d apply_target_approved_def supersede_target_def split: if_splits intro!: keyed_mput exI)
  next
    case (Some i)
    then obtain p where p: "mget (integrationTargets s) i = Some p"
      using e by (auto simp: d apply_target_approved_def supersede_target_def found_Inr split: if_splits sum.splits)
    with k have "tgt_targetRevisionId (ts_target p) = i" by (auto dest: keyedD)
    with e Some p k show ?thesis
      by (auto simp: d apply_target_approved_def supersede_target_def found_def split: if_splits
          intro!: keyed_mput exI)
  qed
  with ok show ?thesis
    by (auto simp: lane_ok_def lane_parts predecessors_promoted_def manifest_of_def)
qed

lemma work_of_keyed:
  assumes "lane_keyed s" and "work_of c s = Some p"
  shows "mget (integrationWork s) (iw_workId (ws_work p)) = Some p \<and> iw_candidateId (ws_work p) = c"
proof -
  have "keyed (\<lambda>w. iw_workId (ws_work w)) (integrationWork s)" using assms(1) by (simp add: lane_keyed_def)
  from keyed_values [OF this] assms(2) show ?thesis by (auto simp: work_of_def dest!: find_member)
qed

lemma ready_candidate_work:
  assumes "ready_candidate sha lc cx s i = Some r"
  shows "mget (integrationCandidates s) i = Some (rd_candidate r) \<and> work_of i s = Some (rd_work r)"
  using assms by (auto simp: ready_candidate_def work_evidence_def split: option.splits prod.splits if_splits)

lemma compile_keeps:
  assumes ok: "lane_ok sha s" and w: "writes sha lc a now cx s (Pc_decision_compile i n) d"
    and e: "apply_portfolio sha v now d s = Inr s'"
  shows "lane_ok sha s'"
proof -
  obtain r where r: "ready_candidate sha lc cx s i = Some r"
    "d = DecisionPacketRevisionRecorded (packet_revision sha now r)
       (digest_of sha (enc_PacketRevision (packet_revision sha now r)))"
    using writes_compile [OF w] by blast
  have parts: "lane_keyed s" "actions_linked s" using ok by (simp_all add: lane_ok_def)
  have c: "ic_candidateId (cs_candidate (rd_candidate r)) = i"
    using parts(1) ready_candidate_work [OF r(1)] by (auto simp: lane_keyed_def dest: keyedD)
  have w: "mget (integrationWork s) (iw_workId (ws_work (rd_work r))) = Some (rd_work r)"
    "iw_candidateId (ws_work (rd_work r)) = i"
    using work_of_keyed [OF parts(1)] ready_candidate_work [OF r(1)] by blast+
  obtain x where s': "s' = s\<lparr>packetRevisions := mput (prv_packetRevisionId (packet_revision sha now r)) x (packetRevisions s)\<rparr>"
    "ds_revision x = packet_revision sha now r"
    using e by (auto simp: r apply_revision_recorded_def check_digest_Inr)
  have "actions_linked s'"
    using parts(2) c w unfolding actions_linked_def s'
    by (auto simp: s'(2) packet_revision_def packet_option_def promotion_action_def Let_def)
  with ok show ?thesis
    by (simp add: lane_ok_def lane_parts s' predecessors_promoted_def manifest_of_def)
qed

lemma queue_keeps:
  assumes ok: "lane_ok sha s" and w: "writes sha lc a now cx s (Pc_candidate_queue cd dg w) d"
    and fresh: "\<not> mhas (integrationWork s) w" and e: "apply_portfolio sha v now d s = Inr s'"
  shows "lane_ok sha s'"
proof -
  let ?c = "ic_candidateId cd"
  obtain p q where s': "s' = s\<lparr>integrationCandidates := mput ?c q (integrationCandidates s),
      integrationWork := mput w p (integrationWork s)\<rparr>"
    and p: "ws_work p = new_work w ?c now" and q: "cs_candidate q = cd" "cs_status q = C_pending"
    and ev: "candidate_evidence_ok sha lc cx s cd dg"
    using w e by (auto simp: writes_queue apply_candidate_queued_def new_work_def split: if_splits)
  have new: "mget (integrationCandidates s) ?c = None" "mget (integrationWork s) w = None"
    and m: "\<exists>m. manifest_of s cd = Some m \<and> cdm_eligible (ms_manifest m)"
    using ev fresh by (auto simp: candidate_evidence_ok_def mhas_def)
  have parts: "lane_keyed s" "in_step s" "evidence_kept sha s" "actions_linked s" "lane_ordered s" "lane_contained s"
    using ok by (simp_all add: lane_ok_def)
  have "lane_keyed s'" using parts(1) by (auto simp: lane_keyed_def s' p q new_work_def)
  moreover have "in_step s'"
  proof -
    have old: "iw_candidateId (ws_work x) \<noteq> ?c" if "mget (integrationWork s) j = Some x" for j x
      using in_step_candidate [OF parts(2) that] new(1) by auto
    have works: "\<exists>j x. mget (integrationWork s') j = Some x \<and> iw_candidateId (ws_work x) = k"
      if k: "mhas (integrationCandidates s') k" for k
    proof (cases "k = ?c")
      case True
      then show ?thesis by (intro exI [of _ w]) (simp add: s' p new_work_def)
    next
      case False
      then obtain j x where "mget (integrationWork s) j = Some x" "iw_candidateId (ws_work x) = k"
        using in_step_work [OF parts(2), of k] k by (auto simp: s' mhas_def)
      then show ?thesis using new(2) by (intro exI [of _ j]) (auto simp: s')
    qed
    have "\<exists>y. mget (integrationCandidates s') (iw_candidateId (ws_work x)) = Some y \<and>
        cs_status y = stage (iw_status (ws_work x))" if x: "mget (integrationWork s') j = Some x" for j x
    proof (cases "j = w")
      case True
      with x have "x = p" by (simp add: s')
      with p q show ?thesis by (simp add: s' new_work_def)
    next
      case False
      with x have "mget (integrationWork s) j = Some x" by (simp add: s')
      with in_step_candidate [OF parts(2) this] old [OF this] show ?thesis by (simp add: s')
    qed
    moreover have "j = k" if "mget (integrationWork s') j = Some x" "mget (integrationWork s') k = Some y"
      "iw_candidateId (ws_work x) = iw_candidateId (ws_work y)" for j k x y
      using that p in_step_unique [OF parts(2)] old [of k] old [of j]
      by (cases "j = w"; cases "k = w") (auto simp: s' new_work_def)
    ultimately show ?thesis using works unfolding in_step_def by blast
  qed
  moreover have "evidence_kept sha s'"
    using parts(3) by (auto simp: evidence_kept_def s' p new_work_def work_evident_def)
  moreover have "actions_linked s'"
    using parts(4) new(2) by (fastforce simp: actions_linked_def s')
  moreover have pre: "predecessors_promoted s' d" if d: "predecessors_promoted s d" for d
    unfolding predecessors_promoted_iff
  proof
    fix k assume "k \<in> set (ic_dependencyCandidateIds d) \<union> set (ic_actualOverlapPredecessorIds d)"
    with d obtain x where x: "mget (integrationCandidates s) k = Some x" "cs_status x = C_promoted"
      unfolding predecessors_promoted_iff by blast
    with new(1) have "k \<noteq> ?c" by auto
    with x show "\<exists>x. mget (integrationCandidates s') k = Some x \<and> cs_status x = C_promoted"
      by (simp add: s')
  qed
  then have "lane_ordered s'"
    using parts(5) by (auto simp: lane_ordered_def s' q started_def)
  moreover have "lane_contained s'"
    using parts(6) m by (auto simp: lane_contained_def s' q manifest_of_def)
  ultimately show ?thesis by (simp add: lane_ok_def)
qed

section \<open>Commands that move work\<close>

text \<open>A commit moves one work and its candidate, which are as the invariant has them.\<close>

definition moves_lane ::
    "(string \<Rightarrow> string) \<Rightarrow> uuid \<Rightarrow> (IntegrationWork \<Rightarrow> IntegrationWork) \<Rightarrow> CandidateStatus \<Rightarrow> Portfolio \<Rightarrow> Portfolio \<Rightarrow>
       IntegrationWorkState \<Rightarrow> IntegrationCandidateState \<Rightarrow> bool" where
  "moves_lane sha i f st s s' p q \<longleftrightarrow> mget (integrationWork s) i = Some p \<and> iw_workId (ws_work p) = i \<and>
     mget (integrationCandidates s) (iw_candidateId (ws_work p)) = Some q \<and>
     cs_status q = stage (iw_status (ws_work p)) \<and> work_evident sha (ws_work p) \<and>
     lane_update i f (iw_candidateId (ws_work p)) st s s'"

lemma lane_movesI:
  assumes "lane_ok sha s" and p: "mget (integrationWork s) i = Some p"
    and u: "lane_update i f (iw_candidateId (ws_work p)) st s s'"
  obtains q where "moves_lane sha i f st s s' p q"
proof -
  obtain q where q: "mget (integrationCandidates s) (iw_candidateId (ws_work p)) = Some q"
    "cs_status q = stage (iw_status (ws_work p))"
    using assms in_step_candidate unfolding lane_ok_def by blast
  moreover have "iw_workId (ws_work p) = i"
    using assms by (auto simp: lane_ok_def lane_keyed_def dest: keyedD)
  moreover have "work_evident sha (ws_work p)"
    using assms by (auto simp: lane_ok_def evidence_kept_def)
  ultimately show thesis using that p u by (simp add: moves_lane_def)
qed

lemma moves_keep:
  assumes ok: "lane_ok sha s" and m: "moves_lane sha i f st s s' p q"
    and f: "moves_work f st (ws_work p)" "work_evident sha (f (ws_work p))"
    and q: "iw_status (ws_work p) \<noteq> W_promoted"
      "iw_status (ws_work p) = W_pending \<Longrightarrow> predecessors_promoted s (cs_candidate q)"
    and t: "integrationTargets s' = integrationTargets s \<or>
      keyed (\<lambda>t. tgt_targetRevisionId (ts_target t)) (integrationTargets s')"
  shows "lane_ok sha s'"
proof -
  have l: "mget (integrationWork s) i = Some p" "mget (integrationCandidates s) (iw_candidateId (ws_work p)) = Some q"
    "cs_status q = stage (iw_status (ws_work p))" "lane_update i f (iw_candidateId (ws_work p)) st s s'"
    using m by (simp_all add: moves_lane_def)
  have "cs_status q \<noteq> C_promoted" "started (cs_status q) \<or> iw_status (ws_work p) = W_pending"
    using q(1) l(3) by (cases "iw_status (ws_work p)"; simp add: started_def)+
  with q(2) show ?thesis
    by (intro update_keeps [OF ok l(4,1) refl f l(2) _ _ t]) auto
qed

text \<open>What each command moves.\<close>

lemma acquire_moves:
  assumes ok: "lane_ok sha s" and w: "writes sha lc a now cx s (Pc_work_lease_acquire i own du) d"
    and e: "apply_portfolio sha v now d s = Inr s'"
  obtains p q where
    "moves_lane sha i (work_leased own (iw_leaseFencingToken (ws_work p) + 1) now (addMilliseconds now du))
       C_preparing s s' p q"
    "work_claimable (ws_work p) now" "predecessors_promoted s (cs_candidate q)"
    "\<not> earlier_owns lc s (cs_candidate q)" "integrationTargets s' = integrationTargets s"
proof -
  obtain p c where p: "mget (integrationWork s) i = Some p" "work_claimable (ws_work p) now"
    "candidate_of s (ws_work p) = Some c" "predecessors_promoted s (cs_candidate c)"
    "\<not> earlier_owns lc s (cs_candidate c)"
    "d = IntegrationWorkLeaseAcquired (iw_workId (ws_work p)) own (iw_leaseFencingToken (ws_work p) + 1)
       (addMilliseconds now du)"
    using w by (auto simp: writes_acquire)
  have i: "iw_workId (ws_work p) = i"
    using ok p(1) by (auto simp: lane_ok_def lane_keyed_def dest: keyedD)
  have "on_work sha v i (work_leased own (iw_leaseFencingToken (ws_work p) + 1) now (addMilliseconds now du))
      C_preparing s = Inr s'"
    using e by (simp add: p(6) i)
  from on_work_update [OF this p(1)] have u:
    "lane_update i (work_leased own (iw_leaseFencingToken (ws_work p) + 1) now (addMilliseconds now du))
       (iw_candidateId (ws_work p)) C_preparing s s'" "integrationTargets s' = integrationTargets s" by blast+
  obtain q where q: "moves_lane sha i (work_leased own (iw_leaseFencingToken (ws_work p) + 1) now
      (addMilliseconds now du)) C_preparing s s' p q"
    by (rule lane_movesI [OF ok p(1) u(1)])
  moreover from q p(3) have "c = q" by (simp add: candidate_of_def moves_lane_def)
  ultimately show thesis using that p(2,4,5) u(2) by blast
qed

lemma prepare_moves:
  assumes ok: "lane_ok sha s" and w: "writes sha lc a now cx s (Pc_work_prepare i own t head rebased) d"
    and e: "apply_portfolio sha v now d s = Inr s'"
  obtains p q where "moves_lane sha i (work_prepared head rebased) C_verifying s s' p q"
    "iw_status (ws_work p) = W_leased" "work_held (ws_work p) own t" "work_lease_not_past (ws_work p) now"
    "integrationTargets s' = integrationTargets s"
proof -
  obtain p where p: "mget (integrationWork s) i = Some p" "iw_status (ws_work p) = W_leased"
    "work_held (ws_work p) own t" "work_lease_not_past (ws_work p) now"
    "d = IntegrationCandidatePrepared i (iw_candidateId (ws_work p)) own t head rebased"
    using w by (auto simp: writes_prepare)
  have "on_work sha v i (work_prepared head rebased) C_verifying s = Inr s'" using e by (simp add: p(5))
  from on_work_update [OF this p(1)] that p(2-4) show thesis by (metis lane_movesI [OF ok p(1)])
qed

lemma conflict_moves:
  assumes ok: "lane_ok sha s" and w: "writes sha lc a now cx s (Pc_work_conflict i own t x xd) d"
    and e: "apply_portfolio sha v now d s = Inr s'"
  obtains p q where "moves_lane sha i (work_conflicted x) C_conflicted s s' p q"
    "iw_status (ws_work p) = W_leased" "work_held (ws_work p) own t" "work_lease_open (ws_work p) now"
    "integrationTargets s' = integrationTargets s"
proof -
  obtain p where p: "mget (integrationWork s) i = Some p" "iw_status (ws_work p) = W_leased"
    "work_held (ws_work p) own t" "work_lease_open (ws_work p) now" "d = IntegrationConflictRecorded i own t x xd"
    using w by (auto simp: writes_conflict)
  have "apply_conflict_recorded sha v i x xd s = Inr s'" using e by (simp add: p(5))
  from conflict_update [OF this p(1)] that p(2-4) show thesis by (metis lane_movesI [OF ok p(1)])
qed

lemma verify_moves:
  assumes ok: "lane_ok sha s" and w: "writes sha lc a now cx s (Pc_work_verify i own t vf vd) d"
    and e: "apply_portfolio sha v now d s = Inr s'"
  obtains p q where "moves_lane sha i (work_verified vf)
      (if iv_result vf = Verdict_passed then C_awaiting_authorization else C_ineligible) s s' p q"
    "iw_status (ws_work p) = W_prepared" "work_held (ws_work p) own t" "work_lease_open (ws_work p) now"
    "verification_evidence_ok sha s (ws_work p) vf vd" "integrationTargets s' = integrationTargets s"
proof -
  obtain p where p: "mget (integrationWork s) i = Some p" "iw_status (ws_work p) = W_prepared"
    "work_held (ws_work p) own t" "work_lease_open (ws_work p) now"
    "verification_evidence_ok sha s (ws_work p) vf vd" "d = IntegrationVerificationRecorded i own t vf vd"
    using w by (auto simp: writes_verify)
  have "apply_verification_recorded sha v i vf vd s = Inr s'" using e by (simp add: p(6))
  from verification_update [OF this p(1)] that p(2-5) show thesis by (metis lane_movesI [OF ok p(1)])
qed

lemma integrate_moves:
  assumes ok: "lane_ok sha s" and w: "writes sha lc a now cx s (Pc_decision_integrate pl) d"
    and e: "apply_portfolio sha v now d s = Inr s'"
  obtains st opt r p q where "open_revision sha cx s pl = Some st" "opt \<in> set (prv_options (ds_revision st))"
    "dop_optionId opt = ip_optionId pl" "action_matches sha pl (dop_action opt)"
    "action_live sha cx s (ds_revision st) (dop_action opt)"
    "moves_lane sha (pac_workId (dop_action opt)) (work_authorized r) C_authorized s s' p q"
    "iw_candidateId (ws_work p) = pac_candidateId (dop_action opt)" "iw_status (ws_work p) = W_verified"
    "integrationTargets s' = integrationTargets s"
proof -
  obtain st opt r x c where o': "open_revision sha cx s pl = Some st" "opt \<in> set (prv_options (ds_revision st))"
    "dop_optionId opt = ip_optionId pl" "action_matches sha pl (dop_action opt)"
    "action_live sha cx s (ds_revision st) (dop_action opt)"
    "d = IntegrationPromotionAuthorized (iw_workId (ws_work x)) (ic_candidateId (cs_candidate c)) r
       (pac_expectedHeadRef (dop_action opt)) (pac_rebasedCandidateRef (dop_action opt))"
    "mget (integrationWork s) (pac_workId (dop_action opt)) = Some x"
    "mget (integrationCandidates s) (pac_candidateId (dop_action opt)) = Some c"
    using writes_integrate [OF w] by blast
  have "iw_workId (ws_work x) = pac_workId (dop_action opt) \<and>
      ic_candidateId (cs_candidate c) = pac_candidateId (dop_action opt)"
    using ok o'(7,8) by (auto simp: lane_ok_def lane_keyed_def dest: keyedD)
  note ids = this
  have "mget (packetRevisions s) (ip_packetRevisionId pl) = Some st"
    using o'(1) by (auto simp: open_revision_def split: option.splits if_splits)
  then obtain p where p: "mget (integrationWork s) (pac_workId (dop_action opt)) = Some p"
    "iw_candidateId (ws_work p) = pac_candidateId (dop_action opt)" "iw_status (ws_work p) = W_verified"
    using ok o'(2,5) by (fastforce simp: lane_ok_def actions_linked_def action_live_def)
  have "apply_promotion_authorized sha v (pac_workId (dop_action opt)) (pac_candidateId (dop_action opt)) r s = Inr s'"
    using e ids by (simp add: o'(6))
  from authorized_update [OF this] p(2) have u:
    "lane_update (pac_workId (dop_action opt)) (work_authorized r) (iw_candidateId (ws_work p)) C_authorized s s'"
    "integrationTargets s' = integrationTargets s" by auto
  obtain q where "moves_lane sha (pac_workId (dop_action opt)) (work_authorized r) C_authorized s s' p q"
    by (rule lane_movesI [OF ok p(1) u(1)])
  from that [OF o'(1-5) this p(2,3) u(2)] show thesis .
qed

lemma promote_moves:
  assumes ok: "lane_ok sha s" and w: "writes sha lc a now cx s (Pc_promote_record r rd) d"
    and e: "apply_portfolio sha v now d s = Inr s'"
  obtains p q t where "moves_lane sha (iw_workId (ws_work p)) (work_promoted (pr_promotedAt r)) C_promoted s s' p q"
    "iw_candidateId (ws_work p) = pr_candidateId r" "iw_status (ws_work p) = W_authorized"
    "opt_ref_digest sha (iw_rebasedCandidateRef (ws_work p)) = ref_digest_of sha (pr_newHeadRef r)"
    "mget (integrationTargets s) (ref_id (pr_targetRef r)) = Some t"
    "tgt_targetRevisionId (ts_target t) = ref_id (pr_targetRef r)"
    "ref_digest_of sha (ts_currentHeadRef t) = ref_digest_of sha (pr_expectedOldHeadRef r)"
    "integrationTargets s' = mput (ref_id (pr_targetRef r))
       (t\<lparr>ts_currentHeadRef := pr_newHeadRef r, ts_version := v\<rparr>) (integrationTargets s)"
proof -
  obtain p where p: "work_of (pr_candidateId r) s = Some p" "iw_status (ws_work p) = W_authorized"
    "opt_ref_digest sha (iw_rebasedCandidateRef (ws_work p)) = ref_digest_of sha (pr_newHeadRef r)"
    "head_digest sha (mget (integrationTargets s) (ref_id (pr_targetRef r))) = ref_digest_of sha (pr_expectedOldHeadRef r)"
    "d = IntegrationPromotionRecorded r rd"
    using w by (auto simp: writes_promote)
  have k: "lane_keyed s" using ok by (simp add: lane_ok_def)
  from work_of_keyed [OF k p(1)] have i: "mget (integrationWork s) (iw_workId (ws_work p)) = Some p"
    "iw_candidateId (ws_work p) = pr_candidateId r" by blast+
  have "apply_promotion_recorded sha v r rd s = Inr s'" using e by (simp add: p(5))
  from promoted_update [OF this p(1) i(1)] obtain t where u:
    "lane_update (iw_workId (ws_work p)) (work_promoted (pr_promotedAt r)) (iw_candidateId (ws_work p)) C_promoted s s'"
    "mget (integrationTargets s) (ref_id (pr_targetRef r)) = Some t"
    "integrationTargets s' = mput (tgt_targetRevisionId (ts_target t))
       (t\<lparr>ts_currentHeadRef := pr_newHeadRef r, ts_version := v\<rparr>) (integrationTargets s)"
    by (metis i(2))
  have t: "tgt_targetRevisionId (ts_target t) = ref_id (pr_targetRef r)"
    using k u(2) by (auto simp: lane_keyed_def dest: keyedD)
  have h: "ref_digest_of sha (ts_currentHeadRef t) = ref_digest_of sha (pr_expectedOldHeadRef r)"
    using p(4) u(2) by (simp add: head_digest_def opt_ref_digest_def ref_digest_of_def)
  obtain q where "moves_lane sha (iw_workId (ws_work p)) (work_promoted (pr_promotedAt r)) C_promoted s s' p q"
    by (rule lane_movesI [OF ok i(1) u(1)])
  from that [OF this i(2) p(2,3) u(2) t h u(3) [unfolded t]] show thesis .
qed

lemmas work_changes = moves_work_def work_leased_def work_prepared_def work_conflicted_def work_verified_def
  work_authorized_def work_promoted_def work_evident_def verified_by_def

lemma moving_keeps:
  assumes ok: "lane_ok sha s" and w: "writes sha lc a now cx s c d" and e: "apply_portfolio sha v now d s = Inr s'"
  shows "c = Pc_work_lease_acquire i own du \<Longrightarrow> lane_ok sha s'"
    and "c = Pc_work_prepare i own t head rebased \<Longrightarrow> lane_ok sha s'"
    and "c = Pc_work_conflict i own t x xd \<Longrightarrow> lane_ok sha s'"
    and "c = Pc_work_verify i own t vf vd \<Longrightarrow> lane_ok sha s'"
    and "c = Pc_decision_integrate pl \<Longrightarrow> lane_ok sha s'"
    and "c = Pc_promote_record r rd \<Longrightarrow> lane_ok sha s'"
proof -
  assume c: "c = Pc_work_lease_acquire i own du"
  show "lane_ok sha s'"
    by (rule acquire_moves [OF ok w [unfolded c] e], rule moves_keep [OF ok], assumption)
      (auto simp: work_changes work_claimable_def)
next
  assume c: "c = Pc_work_prepare i own t head rebased"
  show "lane_ok sha s'"
    by (rule prepare_moves [OF ok w [unfolded c] e], rule moves_keep [OF ok], assumption)
      (auto simp: work_changes moves_lane_def)
next
  assume c: "c = Pc_work_conflict i own t x xd"
  show "lane_ok sha s'"
    by (rule conflict_moves [OF ok w [unfolded c] e], rule moves_keep [OF ok], assumption)
      (auto simp: work_changes)
next
  assume c: "c = Pc_work_verify i own t vf vd"
  show "lane_ok sha s'"
    by (rule verify_moves [OF ok w [unfolded c] e], rule moves_keep [OF ok], assumption)
      (auto simp: work_changes verification_evidence_ok_def)
next
  assume c: "c = Pc_decision_integrate pl"
  show "lane_ok sha s'"
    by (rule integrate_moves [OF ok w [unfolded c] e], rule moves_keep [OF ok], assumption)
      (auto simp: work_changes moves_lane_def)
next
  assume c: "c = Pc_promote_record r rd"
  have k: "keyed (\<lambda>t. tgt_targetRevisionId (ts_target t)) (integrationTargets s)"
    using ok by (simp add: lane_ok_def lane_keyed_def)
  show "lane_ok sha s'"
    by (rule promote_moves [OF ok w [unfolded c] e], rule moves_keep [OF ok], assumption)
      (use k in \<open>auto simp: work_changes moves_lane_def intro: keyed_mput\<close>)
qed

section \<open>Reachable portfolios\<close>

lemma commit_keeps_lane:
  assumes ok: "lane_ok sha s" and fresh: "queues_fresh s c" and c: "portfolio_commits sha lc a now cx c s s'"
  shows "lane_ok sha s'"
  using c
proof (cases rule: commit_cases)
  case 1
  with ok show ?thesis by simp
next
  case (2 d v)
  show ?thesis
  proof (cases c)
    case (Pc_candidate_queue cd dg w)
    with queue_keeps [OF ok _ _ 2(2)] 2(1) fresh show ?thesis by (auto simp: queues_fresh_def)
  next
    case (Pc_decision_compile i n)
    with compile_keeps [OF ok _ 2(2)] 2(1) show ?thesis by blast
  next
    case (Pc_decision_integrate p)
    with moving_keeps(5) [OF ok 2] show ?thesis by blast
  next
    case (Pc_target_approve t)
    with target_keeps [OF ok _ 2(2)] 2(1) show ?thesis by blast
  next
    case (Pc_diff_record m md)
    with diff_keeps [OF ok _ 2(2)] 2(1) show ?thesis by blast
  next
    case (Pc_work_lease_acquire i own du)
    with moving_keeps(1) [OF ok 2] show ?thesis by blast
  next
    case (Pc_work_prepare i own t head rebased)
    with moving_keeps(2) [OF ok 2] show ?thesis by blast
  next
    case (Pc_work_conflict i own t x xd)
    with moving_keeps(3) [OF ok 2] show ?thesis by blast
  next
    case (Pc_work_verify i own t vf vd)
    with moving_keeps(4) [OF ok 2] show ?thesis by blast
  next
    case (Pc_promote_record r rd)
    with moving_keeps(6) [OF ok 2] show ?thesis by blast
  qed (use 2 in \<open>auto elim!: writes_coordinate dest!: writes_policy writes_lease_renew writes_admission_end writes_slo
      intro: lane_ok_same [OF lease_events_lane(1) ok] lane_ok_same [OF lease_events_lane(2) ok] lane_ok_same [OF lease_events_lane(3) ok]
        lane_ok_same [OF lease_events_lane(4) ok] lane_ok_same [OF lease_events_lane(5) ok]\<close>)
qed

inductive lane_reachable :: "(string \<Rightarrow> string) \<Rightarrow> (string \<Rightarrow> string \<Rightarrow> int) \<Rightarrow> Portfolio \<Rightarrow> bool" for sha lc where
  lane_empty: "lane_reachable sha lc emptyPortfolio"
| lane_commit: "lane_reachable sha lc s \<Longrightarrow> queues_fresh s c \<Longrightarrow> portfolio_commits sha lc a now cx c s s' \<Longrightarrow>
    lane_reachable sha lc s'"

lemma reachable_lane_ok: "lane_reachable sha lc s \<Longrightarrow> lane_ok sha s"
  by (induction rule: lane_reachable.induct) (auto intro: lane_ok_empty commit_keeps_lane)

end
