(* ===== verification/IntegrationMachine.thy ===== *)
theory IntegrationMachine
  imports IntegrationInvariant
begin

text \<open>
  The integration lane as a state machine: what a commit does to candidates and their work,
  the lease of the work as an instance of the fenced lease, and the commits from an instant on.
\<close>

section \<open>Moves of work and candidates\<close>

inductive work_move ::
    "timestamp \<Rightarrow> PortfolioCommand \<Rightarrow> IntegrationWork \<Rightarrow> (IntegrationWork \<Rightarrow> IntegrationWork) \<Rightarrow> CandidateStatus \<Rightarrow> bool"
  for now where
  move_lease: "work_claimable w now \<Longrightarrow> work_move now (Pc_work_lease_acquire (iw_workId w) own du) w
     (work_leased own (iw_leaseFencingToken w + 1) now (addMilliseconds now du)) C_preparing"
| move_prepare: "iw_status w = W_leased \<Longrightarrow> work_held w own t \<Longrightarrow>
     work_move now (Pc_work_prepare (iw_workId w) own t head rebased) w (work_prepared head rebased) C_verifying"
| move_conflict: "iw_status w = W_leased \<Longrightarrow> work_held w own t \<Longrightarrow> work_lease_open w now \<Longrightarrow>
     work_move now (Pc_work_conflict (iw_workId w) own t x xd) w (work_conflicted x) C_conflicted"
| move_verify: "iw_status w = W_prepared \<Longrightarrow> work_held w own t \<Longrightarrow> work_lease_open w now \<Longrightarrow>
     work_move now (Pc_work_verify (iw_workId w) own t v vd) w (work_verified v)
       (if iv_result v = Verdict_passed then C_awaiting_authorization else C_ineligible)"
| move_authorize: "iw_status w = W_verified \<Longrightarrow>
     work_move now (Pc_decision_integrate p) w (work_authorized r) C_authorized"
| move_promote: "iw_status w = W_authorized \<Longrightarrow>
     work_move now (Pc_promote_record r rd) w (work_promoted (pr_promotedAt r)) C_promoted"

text \<open>A commit leaves the lane alone, queues a new candidate, or moves one work.\<close>

lemma lane_change:
  assumes ok: "lane_ok sha s" and c: "portfolio_commits sha lc a now cx c s s'"
  obtains (quiet) "integrationCandidates s' = integrationCandidates s" "integrationWork s' = integrationWork s"
  | (queued) cd dg w q p where "c = Pc_candidate_queue cd dg w"
    "mget (integrationCandidates s) (ic_candidateId cd) = None" "cs_candidate q = cd" "cs_status q = C_pending"
    "integrationCandidates s' = mput (ic_candidateId cd) q (integrationCandidates s)"
    "integrationWork s' = mput w p (integrationWork s)"
  | (moved) i f st p q where "work_move now c (ws_work p) f st" "moves_lane sha i f st s s' p q"
  using c
proof (cases rule: commit_cases)
  case 1
  then show ?thesis by (intro quiet) simp_all
next
  case (2 d v)
  note w = 2(1) and e = 2(2)
  show ?thesis
  proof (cases c)
    case (Pc_candidate_queue cd dg w')
    let ?q = "\<lparr>cs_candidate = cd, cs_candidateDigest = dg, cs_status = C_pending, cs_version = v\<rparr>"
    have "\<exists>p. integrationCandidates s' = mput (ic_candidateId cd) ?q (integrationCandidates s) \<and>
        integrationWork s' = mput w' p (integrationWork s)"
      using w e by (auto simp: Pc_candidate_queue writes_queue apply_candidate_queued_def new_work_def split: if_splits)
    moreover have "mget (integrationCandidates s) (ic_candidateId cd) = None"
      using w by (simp add: Pc_candidate_queue writes_queue candidate_evidence_ok_def mhas_def)
    ultimately show ?thesis using queued [OF Pc_candidate_queue, of ?q] by auto
  next
    case (Pc_work_lease_acquire i own du)
    with w have w: "writes sha lc a now cx s (Pc_work_lease_acquire i own du) d" by simp
    show ?thesis
      by (rule acquire_moves [OF ok w e])
        (metis Pc_work_lease_acquire moved moves_lane_def work_move.move_lease)
  next
    case (Pc_work_prepare i own t head rebased)
    with w have w: "writes sha lc a now cx s (Pc_work_prepare i own t head rebased) d" by simp
    show ?thesis
      by (rule prepare_moves [OF ok w e])
        (metis Pc_work_prepare moved moves_lane_def work_move.move_prepare)
  next
    case (Pc_work_conflict i own t x xd)
    with w have w: "writes sha lc a now cx s (Pc_work_conflict i own t x xd) d" by simp
    show ?thesis
      by (rule conflict_moves [OF ok w e])
        (metis Pc_work_conflict moved moves_lane_def work_move.move_conflict)
  next
    case (Pc_work_verify i own t vf vd)
    with w have w: "writes sha lc a now cx s (Pc_work_verify i own t vf vd) d" by simp
    show ?thesis
      by (rule verify_moves [OF ok w e])
        (metis Pc_work_verify moved moves_lane_def work_move.move_verify)
  next
    case (Pc_decision_integrate pl)
    with w have w: "writes sha lc a now cx s (Pc_decision_integrate pl) d" by simp
    show ?thesis
      by (rule integrate_moves [OF ok w e])
        (metis Pc_decision_integrate moved work_move.move_authorize)
  next
    case (Pc_promote_record r rd)
    with w have w: "writes sha lc a now cx s (Pc_promote_record r rd) d" by simp
    show ?thesis
      by (rule promote_moves [OF ok w e])
        (metis Pc_promote_record moved work_move.move_promote)
  next
    case (Pc_target_approve t)
    with w obtain tgt td prior where "d = IntegrationTargetApproved tgt td prior" by (auto dest!: writes_target)
    with e show ?thesis
      by (intro quiet) (auto simp: apply_target_approved_def supersede_target_def found_Inr
          split: if_splits option.splits sum.splits)
  next
    case (Pc_decision_compile i n)
    with w obtain x xd where "d = DecisionPacketRevisionRecorded x xd" by (auto dest!: writes_compile)
    with e show ?thesis
      by (intro quiet) (auto simp: apply_revision_recorded_def check_digest_Inr)
  next
    case (Pc_diff_record m md)
    with w e show ?thesis
      by (intro quiet) (auto simp: writes_diff apply_manifest_recorded_def check_digest_Inr)
  qed (use w e quiet in \<open>auto elim!: writes_coordinate dest!: writes_policy writes_lease_renew writes_admission_end writes_slo
      lease_events_lane simp: same_lane_def\<close>)
qed

section \<open>The states of a candidate\<close>

inductive candidate_move :: "PortfolioCommand \<Rightarrow> CandidateStatus \<Rightarrow> CandidateStatus \<Rightarrow> bool" where
  "candidate_move (Pc_work_lease_acquire i own du) C_pending C_preparing"
| "candidate_move (Pc_work_lease_acquire i own du) C_preparing C_preparing"
| "candidate_move (Pc_work_prepare i own t head rebased) C_preparing C_verifying"
| "candidate_move (Pc_work_conflict i own t x xd) C_preparing C_conflicted"
| "candidate_move (Pc_work_verify i own t v vd) C_verifying C_awaiting_authorization"
| "candidate_move (Pc_work_verify i own t v vd) C_verifying C_ineligible"
| "candidate_move (Pc_decision_integrate p) C_awaiting_authorization C_authorized"
| "candidate_move (Pc_promote_record r rd) C_authorized C_promoted"

inductive_cases candidate_authorized: "candidate_move c x C_authorized"
inductive_cases candidate_preparing: "candidate_move c x C_preparing"

lemma work_move_candidate: "work_move now c w f st \<Longrightarrow> candidate_move c (stage (iw_status w)) st"
  by (induction rule: work_move.induct) (auto simp: work_claimable_def intro: candidate_move.intros)

lemma candidate_machine:
  assumes ok: "lane_ok sha s" and c: "portfolio_commits sha lc a now cx c s s'"
    and q: "mget (integrationCandidates s) k = Some q"
  obtains q' where "mget (integrationCandidates s') k = Some q'" "cs_candidate q' = cs_candidate q"
    "cs_candidateDigest q' = cs_candidateDigest q"
    "cs_status q' = cs_status q \<or> candidate_move c (cs_status q) (cs_status q')"
  using ok c
proof (cases rule: lane_change)
  case quiet
  with q that show ?thesis by auto
next
  case (queued cd dg w q' p)
  with q have "ic_candidateId cd \<noteq> k" by auto
  with queued q that show ?thesis by auto
next
  case (moved i f st p q0)
  from moved(2) obtain q' where q': "integrationCandidates s' = mput (iw_candidateId (ws_work p)) q' (integrationCandidates s)"
    "cs_candidate q' = cs_candidate q0" "cs_candidateDigest q' = cs_candidateDigest q0" "cs_status q' = st"
    "mget (integrationCandidates s) (iw_candidateId (ws_work p)) = Some q0"
    "cs_status q0 = stage (iw_status (ws_work p))"
    by (auto simp: moves_lane_def lane_update_def)
  show ?thesis
  proof (cases "iw_candidateId (ws_work p) = k")
    case True
    with q q'(5) have "q0 = q" by simp
    with q' True work_move_candidate [OF moved(1)] show ?thesis by (intro that [of q']) auto
  qed (use q q' that in auto)
qed

lemma candidate_new:
  assumes ok: "lane_ok sha s" and c: "portfolio_commits sha lc a now cx c s s'"
    and q: "mget (integrationCandidates s) k = None" "mget (integrationCandidates s') k = Some q'"
  shows "cs_status q' = C_pending \<and> (\<exists>dg w. c = Pc_candidate_queue (cs_candidate q') dg w)"
  using ok c
proof (cases rule: lane_change)
  case (moved i f st p q0)
  with q show ?thesis by (auto simp: moves_lane_def lane_update_def split: if_splits)
qed (use q in \<open>auto split: if_splits\<close>)

section \<open>The heads of targets\<close>

lemma other_heads_kept:
  assumes ok: "lane_ok sha s" and w: "writes sha lc a now cx s c d" and e: "apply_portfolio sha v now d s = Inr s'"
    and t: "mget (integrationTargets s) i = Some t" "mget (integrationTargets s') i = Some t'"
      "ts_currentHeadRef t' \<noteq> ts_currentHeadRef t"
  obtains r rd where "c = Pc_promote_record r rd"
proof -
  have m: "integrationTargets s' \<noteq> integrationTargets s" using t by auto
  show thesis
  proof (cases c)
    case (Pc_promote_record r rd)
    then show ?thesis by (rule that)
  next
    case (Pc_target_approve x)
    with w have "writes sha lc a now cx s (Pc_target_approve x) d" by simp
    from writes_target [OF this] obtain tgt td where d: "tgt_targetRevisionId tgt = tgt_targetRevisionId x"
      "target_chain_ok s x" "d = IntegrationTargetApproved tgt td
         (map_option (\<lambda>a. tgt_targetRevisionId (ts_target a)) (active_target (tgt_targetId x) s))" by blast
    from d(1,2) have "\<not> mhas (integrationTargets s) (tgt_targetRevisionId tgt)" by (simp add: target_chain_ok_def)
    with d(3) e t show ?thesis
      by (auto simp: apply_target_approved_def supersede_target_def found_Inr mhas_def
          split: if_splits option.splits sum.splits)
  next
    case (Pc_candidate_queue cd dg w')
    with w e m show ?thesis by (auto simp: writes_queue apply_candidate_queued_def split: if_splits)
  next
    case (Pc_work_lease_acquire j own du)
    with w have "writes sha lc a now cx s (Pc_work_lease_acquire j own du) d" by simp
    from acquire_moves [OF ok this e] m show ?thesis by metis
  next
    case (Pc_work_prepare j own n head rebased)
    with w have "writes sha lc a now cx s (Pc_work_prepare j own n head rebased) d" by simp
    from prepare_moves [OF ok this e] m show ?thesis by metis
  next
    case (Pc_work_conflict j own n x xd)
    with w have "writes sha lc a now cx s (Pc_work_conflict j own n x xd) d" by simp
    from conflict_moves [OF ok this e] m show ?thesis by metis
  next
    case (Pc_work_verify j own n vf vd)
    with w have "writes sha lc a now cx s (Pc_work_verify j own n vf vd) d" by simp
    from verify_moves [OF ok this e] m show ?thesis by metis
  next
    case (Pc_decision_integrate pl)
    with w have "writes sha lc a now cx s (Pc_decision_integrate pl) d" by simp
    from integrate_moves [OF ok this e] m show ?thesis by metis
  next
    case (Pc_decision_compile j n)
    with w obtain x xd where "d = DecisionPacketRevisionRecorded x xd" by (auto dest!: writes_compile)
    with e m show ?thesis by (auto simp: apply_revision_recorded_def check_digest_Inr)
  next
    case (Pc_diff_record x xd)
    with w e m show ?thesis by (auto simp: writes_diff apply_manifest_recorded_def check_digest_Inr)
  qed (use w e m in \<open>auto elim!: writes_coordinate dest!: writes_policy writes_lease_renew writes_admission_end writes_slo
      lease_events_lane simp: same_lane_def\<close>)
qed

section \<open>The lease of integration work\<close>

definition laneWork :: "Portfolio \<Rightarrow> uuid \<Rightarrow> IntegrationWork option" where
  "laneWork s i = map_option ws_work (mget (integrationWork s) i)"

definition lane_token :: "Portfolio \<Rightarrow> uuid \<Rightarrow> nat" where
  "lane_token s i = (case laneWork s i of None \<Rightarrow> 0 | Some w \<Rightarrow> iw_leaseFencingToken w)"

definition work_admits :: "uuid \<Rightarrow> Portfolio \<Rightarrow> uuid \<Rightarrow> nat \<Rightarrow> timestamp \<Rightarrow> bool" where
  "work_admits i s own t now \<longleftrightarrow> holds (laneWork s i) (\<lambda>w. (iw_status w = W_leased \<or> iw_status w = W_prepared) \<and>
     work_held w own t \<and> work_lease_open w now)"

definition work_acquired ::
    "(string \<Rightarrow> string) \<Rightarrow> (string \<Rightarrow> string \<Rightarrow> int) \<Rightarrow> uuid \<Rightarrow> Portfolio \<Rightarrow> uuid \<Rightarrow> timestamp \<Rightarrow> timestamp \<Rightarrow> Portfolio \<Rightarrow> bool" where
  "work_acquired sha lc i s own now e s' \<longleftrightarrow> lane_ok sha s \<and>
     (\<exists>a cx du. e = addMilliseconds now du \<and> portfolio_commits sha lc a now cx (Pc_work_lease_acquire i own du) s s')"

definition lane_moves :: "(string \<Rightarrow> string) \<Rightarrow> (string \<Rightarrow> string \<Rightarrow> int) \<Rightarrow> Portfolio \<Rightarrow> Portfolio \<Rightarrow> bool" where
  "lane_moves sha lc s s' \<longleftrightarrow> lane_ok sha s \<and>
     (\<exists>a now cx c. queues_fresh s c \<and> portfolio_commits sha lc a now cx c s s')"

text \<open>An accepted acquisition writes exactly its event.\<close>

lemma acquire_writes:
  assumes "portfolio_commits sha lc a now cx (Pc_work_lease_acquire i own du) s s'"
  obtains d v where "writes sha lc a now cx s (Pc_work_lease_acquire i own du) d" "apply_portfolio sha v now d s = Inr s'"
proof -
  obtain evs k j vs where e: "decide_portfolio sha lc a now cx s (Pc_work_lease_acquire i own du) = Inr (evs, k, j)"
    "length vs = length evs" "try_fold (evolve_portfolio sha) s (stamp now evs vs) = Inr s'"
    using assms by (auto simp: portfolio_commits_def)
  then obtain w t x where evs: "evs = [pf_event ''integration_work'' w (IntegrationWorkLeaseAcquired w own t x)]"
    by (auto simp: decide_work_lease_acquire_def accept_def reject_def split: if_splits option.splits)
  with e(2) obtain v where "vs = [v]" by (auto simp: length_Suc_conv)
  with e evs show thesis by (intro that) (auto simp: writes_def pf_event_def split: sum.splits)
qed

lemma acquired_work:
  assumes "work_acquired sha lc i s own now e s'"
  obtains w where "laneWork s i = Some w" "work_claimable w now"
    "laneWork s' i = Some (work_leased own (iw_leaseFencingToken w + 1) now e w)"
proof -
  obtain a cx du d v where ok: "lane_ok sha s" and e: "e = addMilliseconds now du"
    and w: "writes sha lc a now cx s (Pc_work_lease_acquire i own du) d" "apply_portfolio sha v now d s = Inr s'"
    using assms by (auto simp: work_acquired_def elim: acquire_writes)
  show thesis
    by (rule acquire_moves [OF ok w], rule that)
      (auto simp: e moves_lane_def lane_update_def laneWork_def)
qed

lemma move_token: "work_move now c w f st \<Longrightarrow> iw_leaseFencingToken w \<le> iw_leaseFencingToken (f w)"
  by (induction rule: work_move.induct)
    (simp_all add: work_leased_def work_prepared_def work_conflicted_def work_verified_def work_authorized_def
      work_promoted_def)

lemma lane_moves_token:
  assumes "lane_moves sha lc s s'"
  shows "lane_token s i \<le> lane_token s' i"
proof -
  obtain a now cx c where ok: "lane_ok sha s" and f: "queues_fresh s c"
    and c: "portfolio_commits sha lc a now cx c s s'"
    using assms by (auto simp: lane_moves_def)
  from ok c show ?thesis
  proof (cases rule: lane_change)
    case (queued cd dg w q p)
    with f show ?thesis by (auto simp: queues_fresh_def mhas_def lane_token_def laneWork_def)
  next
    case (moved j g st p q)
    with move_token [OF moved(1)] show ?thesis
      by (auto simp: lane_token_def laneWork_def moves_lane_def lane_update_def)
  qed (simp add: lane_token_def laneWork_def)
qed

interpretation work_leases: fenced_lease
  "\<lambda>s. Option.bind (laneWork s i) iw_leaseOwnerId" "\<lambda>s. lane_token s i"
  "\<lambda>s. Option.bind (laneWork s i) iw_leaseExpiresAt" "work_admits i" "work_acquired sha lc i" "lane_moves sha lc"
  for sha lc i
proof (unfold_locales, goal_cases)
  case (3 s w now e s')
  then show ?case by (auto simp: lane_token_def work_leased_def elim!: acquired_work)
next
  case (4 s w now e s')
  then show ?case by (auto simp: work_leased_def elim!: acquired_work)
next
  case (5 s w now e s' w' t)
  then show ?case
    by (auto simp: work_admits_def work_claimable_def work_lease_open_def elim!: acquired_work split: option.splits)
next
  case (6 s s')
  then show ?case by (rule lane_moves_token)
qed (auto simp: work_admits_def work_held_def work_lease_open_def lane_token_def)

section \<open>Commits from an instant on\<close>

definition moves_from :: "(string \<Rightarrow> string) \<Rightarrow> (string \<Rightarrow> string \<Rightarrow> int) \<Rightarrow> timestamp \<Rightarrow> Portfolio \<Rightarrow> Portfolio \<Rightarrow> bool" where
  "moves_from sha lc e s s' \<longleftrightarrow> (\<exists>a now cx c. e \<le> now \<and> queues_fresh s c \<and> portfolio_commits sha lc a now cx c s s')"

text \<open>Prepared work whose lease is over is changed by no commit.\<close>

lemma expired_kept:
  assumes ok: "lane_ok sha s" and m: "moves_from sha lc e s s'"
    and p: "mget (integrationWork s) i = Some p" "iw_status (ws_work p) = W_prepared"
      "iw_leaseExpiresAt (ws_work p) = Some e"
  shows "lane_ok sha s' \<and> mget (integrationWork s') i = Some p"
proof -
  obtain a now cx c where n: "e \<le> now" "queues_fresh s c" and c: "portfolio_commits sha lc a now cx c s s'"
    using m by (auto simp: moves_from_def)
  have "mget (integrationWork s') i = Some p"
    using ok c
  proof (cases rule: lane_change)
    case (queued cd dg w q p')
    with n(2) p(1) show ?thesis by (auto simp: queues_fresh_def mhas_def)
  next
    case (moved j g st x q)
    have "j \<noteq> i"
    proof
      assume "j = i"
      with moved(2) p(1) have "x = p" by (simp add: moves_lane_def)
      with moved(1) p(2,3) n(1) show False
        by cases (auto simp: work_claimable_def work_lease_open_def)
    qed
    with moved(2) p(1) show ?thesis by (auto simp: moves_lane_def lane_update_def)
  qed (use p in simp)
  with commit_keeps_lane [OF ok n(2) c] show ?thesis by simp
qed

lemma expired_forever:
  assumes "(moves_from sha lc e)\<^sup>*\<^sup>* s s'" and "lane_ok sha s"
    and "mget (integrationWork s) i = Some p" "iw_status (ws_work p) = W_prepared"
      "iw_leaseExpiresAt (ws_work p) = Some e"
  shows "lane_ok sha s' \<and> mget (integrationWork s') i = Some p"
  using assms(1)
  by (induction rule: rtranclp_induct) (use assms expired_kept in blast)+

section \<open>Who may go before whom\<close>

lemma precedes_cmp: "precedes lc (cs_candidate a) (cs_candidate b) \<longleftrightarrow> sequence_cmp lc a b < 0"
  by (auto simp: precedes_def sequence_cmp_def then_by_def)

lemma sequence_consistent: "consistent lc \<Longrightarrow> consistent (sequence_cmp lc)"
  unfolding consistent_def sequence_cmp_def then_by_def by (auto split: if_splits)

lemma consistent_less: "consistent cmp \<Longrightarrow> cmp x y \<le> 0 \<Longrightarrow> cmp y z < 0 \<Longrightarrow> cmp x z < 0"
  unfolding consistent_def by (meson leD leI)

text \<open>A candidate under way holds back all that come after it on its target.\<close>

lemma holds_back:
  fixes b :: IntegrationCandidateState
  assumes lc: "consistent lc" and q: "mget (integrationCandidates s) k = Some q" "ic_candidateId (cs_candidate q) = k"
    and "unfinished (cs_status q)" "ref_id (ic_targetRef (cs_candidate q)) = ref_id (ic_targetRef (cs_candidate b))"
    and less: "precedes lc (cs_candidate q) (cs_candidate b)" and "ic_candidateId (cs_candidate b) \<noteq> k"
  shows "earlier_owns lc s (cs_candidate b)"
proof -
  from assms have "q \<in> set (rivals lc s (cs_candidate b))"
    by (auto simp: rivals_def dest: mvalues_get)
  then obtain e es where e: "rivals lc s (cs_candidate b) = e # es" by (cases "rivals lc s (cs_candidate b)") auto
  have "sequence_cmp lc e q \<le> 0"
    by (rule sort_by_first [OF sequence_consistent [OF lc] e [unfolded rivals_def]])
      (use \<open>q \<in> _\<close> in \<open>simp add: rivals_def\<close>)
  with less have "sequence_cmp lc e b < 0"
    using consistent_less [OF sequence_consistent [OF lc]] by (simp add: precedes_cmp)
  then show ?thesis by (simp add: earlier_owns_def e precedes_cmp)
qed

end
