(* ===== verification/IntegrationScenario.thy ===== *)
theory IntegrationScenario
  imports IntegrationMachine
begin

text \<open>
  A concrete lane: one target, two candidates, the first leased, prepared, verified, authorized
  by an operator and promoted. The hash is a constant function, identifiers are short texts.
\<close>

section \<open>Running commands\<close>

definition blank_sha :: "string \<Rightarrow> string" where
  "blank_sha s = ''''"

definition by_length :: "string \<Rightarrow> string \<Rightarrow> int" where
  "by_length x y = int (length x) - int (length y)"

lemma by_length_consistent: "consistent by_length"
  by (simp add: consistent_def by_length_def)

lemma blank_digest [simp]: "digest_of blank_sha v = ''''"
  by (simp add: digest_of_def canonicalDigest_def blank_sha_def split: sum.splits)

definition portfolio_step ::
    "(string \<Rightarrow> string) \<Rightarrow> Actor \<Rightarrow> timestamp \<Rightarrow> PortfolioContext \<Rightarrow> PortfolioCommand \<Rightarrow> Portfolio \<Rightarrow> Portfolio" where
  "portfolio_step sha a now cx c s = (case decide_portfolio sha by_length a now cx s c of
     Inl x \<Rightarrow> s
   | Inr (evs, k, i) \<Rightarrow>
       (case try_fold (evolve_portfolio sha) s (stamp now evs (replicate (length evs) 1)) of
          Inl x \<Rightarrow> s | Inr s' \<Rightarrow> s'))"

lemma portfolio_step_commits:
  assumes "portfolio_step sha a now cx c s \<noteq> s"
  shows "portfolio_commits sha by_length a now cx c s (portfolio_step sha a now cx c s)"
  using assms unfolding portfolio_step_def portfolio_commits_def by (auto split: sum.splits prod.splits) force

abbreviation lane_step :: "Actor \<Rightarrow> timestamp \<Rightarrow> PortfolioContext \<Rightarrow> PortfolioCommand \<Rightarrow> Portfolio \<Rightarrow> Portfolio" where
  "lane_step \<equiv> portfolio_step blank_sha"

lemma lane_step_reachable:
  assumes "lane_reachable blank_sha by_length s" and "queues_fresh s c"
  shows "lane_reachable blank_sha by_length (lane_step a now cx c s)"
  using assms portfolio_step_commits by (metis lane_commit)

section \<open>Its data\<close>

definition host :: Actor where
  "host = \<lparr>actor_kind = System, actor_id = ''host''\<rparr>"

definition operator :: Actor where
  "operator = \<lparr>actor_kind = Operator, actor_id = ''op''\<rparr>"

definition demo_ref :: "string \<Rightarrow> uuid \<Rightarrow> ImmutableReference" where
  "demo_ref k i = reference k i ''''"

definition demo_source :: "uuid \<Rightarrow> SourceRevisionState" where
  "demo_source i = \<lparr>srs_revision = \<lparr>sr_revisionId = i, sr_repositoryId = ''repo'', sr_objectFormat = Sha1,
     sr_commitOid = '''', sr_treeOid = '''', sr_storageRef = '''', sr_revisionDigest = ''''\<rparr>,
     srs_capturedAt = 0, srs_version = 1\<rparr>"

definition demo_surfaces :: "WorkSurface list" where
  "demo_surfaces = [\<lparr>sf_kind = Subtree, sf_path = ''src''\<rparr>]"

definition lane_contract :: "uuid \<Rightarrow> MilestoneContract" where
  "lane_contract i = \<lparr>mc_milestoneId = i, mc_title = '''', mc_objective = '''', mc_taskType = ''chore'',
     mc_priority = ''p3'', mc_tags = [], mc_workflowId = ''wf'', mc_workflowVersion = 1, mc_criteria = []\<rparr>"

definition lane_graph :: "uuid \<Rightarrow> uuid \<Rightarrow> uuid \<Rightarrow> WorkSurface list \<Rightarrow> GraphV2" where
  "lane_graph g p m fs = \<lparr>gr_graphRevisionId = g, gr_programId = p, gr_revision = 1, gr_priorGraphRef = None,
     gr_intentPlaybackRef = demo_ref ''intent_playback'' ''i1'',
     gr_initialSourceRef = demo_ref ''source_revision'' ''h0'',
     gr_initialContext = \<lparr>ictx_decisions = [], ictx_assumptions = [], ictx_risks = [],
       ictx_unresolvedQuestions = [], ictx_refs = []\<rparr>,
     gv_portfolioPolicyRef = demo_ref ''portfolio_policy'' ''pol1'',
     gv_integrationTargetRef = demo_ref ''integration_target'' ''t1'', gv_crossProgramDependencies = [],
     gv_milestones = [\<lparr>gm_contract = lane_contract m, gm_dependencies = [], gm_sourcePredecessor = None,
       gm_refs = [], gm_workSurfaces = fs, gm_resourceClaims = [], gm_capabilityClaims = []\<rparr>]\<rparr>"

definition demo_context :: PortfolioContext where
  "demo_context = \<lparr>
     cx_state = emptyProjectionState\<lparr>sourceRevisions := map (\<lambda>i. (i, demo_source i)) [''h0'', ''c1'', ''c2'', ''r1'']\<rparr>,
     cx_programs = [], cx_milestones = [],
     cx_programGraphs = [(''g1'', \<lparr>gs_graphRevisionId = ''g1'', gs_programId = ''p1'',
       gs_graph = Graph_v2 (lane_graph ''g1'' ''p1'' ''m1'' demo_surfaces), gs_graphDigest = ''''\<rparr>)],
     cx_playbacks = [''i1''], cx_generations = [], cx_outcomeValidations = [],
     cx_attentionPolicies = [(''at1'', \<lparr>aps_policyRevisionId = ''at1'', aps_policyDigest = '''',
       aps_supersededAt = None, aps_maxPages = 0\<rparr>)],
     cx_decisionPackets = [],
     cx_outcomePackets = [(''o1'', \<lparr>ops_outcomePacketId = ''o1'', ops_programId = ''p1'', ops_packet = JNull,
       ops_packetDigest = '''', ops_candidateRevisionId = Some ''c1'', ops_recommendation = ''merge'',
       ops_driverReceipts = [], ops_verificationReceipts = [], ops_artifactManifests = [],
       ops_recordedAt = 0\<rparr>)],
     cx_outcomeDispositions = []\<rparr>"

definition demo_portfolio_policy :: PortfolioPolicyInput where
  "demo_portfolio_policy = \<lparr>pol_policyId = ''pol'', pol_policyRevisionId = ''pol1'', pol_revision = 1,
     pol_priorPolicyRef = None,
     pol_limits = \<lparr>lim_maxExecutingPrograms = 2, lim_maxIntegrationReadyCandidates = 4, lim_maxPipelineWip = 4,
       lim_maxAttemptMs = 1, lim_maxMergeQueueAgeMs = 1, lim_maxTrialWallTimeMs = 1, lim_maxActiveHumanTimeMs = 1\<rparr>,
     pol_resources = [\<lparr>res_resourceId = ''lane'', res_kind = ''merge_lane''\<rparr>], pol_capabilityCapacities = [],
     pol_attentionPolicyRef = demo_ref ''attention_policy'' ''at1'', pol_costMode = Unpriced_local_only ''local''\<rparr>"

definition demo_target :: IntegrationTargetInput where
  "demo_target = \<lparr>tgt_targetId = ''t'', tgt_targetRevisionId = ''t1'', tgt_revision = 1, tgt_priorTargetRef = None,
     tgt_repositoryId = ''repo'', tgt_initialHeadRef = demo_ref ''source_revision'' ''h0'',
     tgt_managedRef = managed_ref ''t'', tgt_verifierContract = \<lparr>vc_argv = [''/v''], vc_cwd = ''.'',
       vc_timeoutMs = 1000, vc_environment = [], vc_toolProbes = []\<rparr>,
     tgt_verifierContractDigest = '''', tgt_mergeLaneResourceId = ''lane''\<rparr>"

definition demo_manifest :: "uuid \<Rightarrow> uuid \<Rightarrow> string \<Rightarrow> CandidateDiffManifest" where
  "demo_manifest i c path = \<lparr>cdm_manifestId = i, cdm_programId = ''p1'', cdm_graphRevisionId = ''g1'',
     cdm_generationId = ''n1'', cdm_baseRevisionRef = demo_ref ''source_revision'' ''h0'',
     cdm_candidateRevisionRef = demo_ref ''source_revision'' c,
     cdm_entries = [\<lparr>de_change = Modify, de_path = path, de_oldOid = Some ''1'', de_newOid = Some ''2''\<rparr>],
     cdm_allowedSurfaces = demo_surfaces, cdm_violations = [], cdm_eligible = True, cdm_generatedAt = ''''\<rparr>"

definition demo_candidate :: "uuid \<Rightarrow> uuid \<Rightarrow> uuid \<Rightarrow> nat \<Rightarrow> uuid list \<Rightarrow> IntegrationCandidate" where
  "demo_candidate i c m n overlaps = \<lparr>ic_candidateId = i, ic_programId = ''p1'',
     ic_graphRevisionRef = demo_ref ''program_graph_revision'' ''g1'',
     ic_policyRef = demo_ref ''portfolio_policy'' ''pol1'', ic_targetRef = demo_ref ''integration_target'' ''t1'',
     ic_originalCandidateRef = demo_ref ''source_revision'' c,
     ic_diffManifestRef = demo_ref ''candidate_diff_manifest'' m, ic_finalAdmissionSequence = n,
     ic_dependencyCandidateIds = [], ic_actualOverlapPredecessorIds = overlaps, ic_queuedAt = ''''\<rparr>"

definition demo_verification :: IntegrationVerification where
  "demo_verification = \<lparr>iv_integrationVerificationId = ''v1'', iv_candidateId = ''k1'',
     iv_expectedHeadRef = demo_ref ''source_revision'' ''h0'',
     iv_rebasedCandidateRef = demo_ref ''source_revision'' ''r1'', iv_verifierContractDigest = '''',
     iv_result = Verdict_passed, iv_exitCode = Some 0, iv_failureReason = None, iv_resultDigest = '''',
     iv_receiptDigest = '''', iv_completedAt = ''''\<rparr>"

definition demo_packet :: uuid where
  "demo_packet = ''----''"

definition decision_context :: PortfolioContext where
  "decision_context = demo_context\<lparr>cx_decisionPackets := [(demo_packet, \<lparr>dps_packetId = demo_packet,
     dps_status = ''open'', dps_currentRevisionId = Some demo_packet, dps_currentRevisionDigest = Some ''''\<rparr>)]\<rparr>"

definition demo_authorization :: IntegratePayload where
  "demo_authorization = \<lparr>ip_packetId = demo_packet, ip_packetRevisionId = demo_packet,
     ip_packetRevisionDigest = '''', ip_optionId = demo_packet, ip_targetPreconditionDigest = '''',
     ip_candidateId = ''k1'', ip_expectedHeadRef = demo_ref ''source_revision'' ''h0'',
     ip_rebasedCandidateRef = demo_ref ''source_revision'' ''r1'',
     ip_finalOutcomeRef = demo_ref ''outcome_packet'' ''o1'',
     ip_diffManifestRef = demo_ref ''candidate_diff_manifest'' ''d1'',
     ip_integrationVerificationRef = demo_ref ''integration_verification'' ''v1''\<rparr>"

definition demo_receipt :: PromotionReceipt where
  "demo_receipt = \<lparr>pr_receiptId = ''rc1'', pr_candidateId = ''k1'', pr_programId = ''p1'',
     pr_targetRef = demo_ref ''integration_target'' ''t1'', pr_managedRef = managed_ref ''t'',
     pr_expectedOldHeadRef = demo_ref ''source_revision'' ''h0'', pr_newHeadRef = demo_ref ''source_revision'' ''r1'',
     pr_authorizationRef = demo_ref ''decision_action_result'' demo_packet, pr_refEffectKey = '''',
     pr_promotedBy = ''host'', pr_promotedAt = ''''\<rparr>"

section \<open>Its states\<close>

definition lane_policy :: Portfolio where
  "lane_policy = lane_step operator 0 demo_context (Pc_policy_approve demo_portfolio_policy) emptyPortfolio"

definition lane_target :: Portfolio where
  "lane_target = lane_step operator 1 demo_context (Pc_target_approve demo_target) lane_policy"

definition lane_diff :: Portfolio where
  "lane_diff = lane_step host 2 demo_context (Pc_diff_record (demo_manifest ''d1'' ''c1'' ''src/a'') '''') lane_target"

definition lane_diffs :: Portfolio where
  "lane_diffs = lane_step host 3 demo_context (Pc_diff_record (demo_manifest ''d2'' ''c2'' ''src/a'') '''') lane_diff"

definition lane_first :: Portfolio where
  "lane_first = lane_step host 4 demo_context
     (Pc_candidate_queue (demo_candidate ''k1'' ''c1'' ''d1'' 1 []) '''' ''w1'') lane_diffs"

definition lane_queued :: Portfolio where
  "lane_queued = lane_step host 5 demo_context
     (Pc_candidate_queue (demo_candidate ''k2'' ''c2'' ''d2'' 2 [''k1'']) '''' ''w2'') lane_first"

definition lane_leased :: Portfolio where
  "lane_leased = lane_step host 6 demo_context (Pc_work_lease_acquire ''w1'' ''o1'' 100) lane_queued"

definition lane_taken :: Portfolio where
  "lane_taken = lane_step host 200 demo_context (Pc_work_lease_acquire ''w1'' ''o2'' 100) lane_leased"

definition lane_prepared :: Portfolio where
  "lane_prepared = lane_step host 7 demo_context (Pc_work_prepare ''w1'' ''o1'' 1
     (demo_ref ''source_revision'' ''h0'') (demo_ref ''source_revision'' ''r1'')) lane_leased"

definition lane_verified :: Portfolio where
  "lane_verified = lane_step host 8 demo_context (Pc_work_verify ''w1'' ''o1'' 1 demo_verification '''') lane_prepared"

definition lane_compiled :: Portfolio where
  "lane_compiled = lane_step host 9 demo_context (Pc_decision_compile ''k1'' 0) lane_verified"

definition lane_authorized :: Portfolio where
  "lane_authorized = lane_step operator 10 decision_context (Pc_decision_integrate demo_authorization) lane_compiled"

definition lane_promoted :: Portfolio where
  "lane_promoted = lane_step host 11 demo_context (Pc_promote_record demo_receipt '''') lane_authorized"

definition lane_second :: Portfolio where
  "lane_second = lane_step host 12 demo_context (Pc_work_lease_acquire ''w2'' ''o1'' 100) lane_promoted"

lemma blank_uuid [simp]: "deterministicUuid blank_sha s = demo_packet"
  by (simp add: deterministicUuid_def blank_sha_def demo_packet_def Let_def)

lemma blank_refs [simp]:
  "ref_digest_of blank_sha r = ''''" "opt_ref_digest blank_sha x = ''''" "head_digest blank_sha t = ''''"
  "jarray_digest blank_sha f xs = ''''" "live_head_digest blank_sha s w = ''''"
  by (simp_all add: ref_digest_of_def opt_ref_digest_def head_digest_def jarray_digest_def live_head_digest_def)

lemmas lane_data = lane_contract_def lane_graph_def gs_v2_def emptyProjectionState_def host_def operator_def demo_ref_def reference_def demo_source_def demo_surfaces_def
  demo_context_def demo_portfolio_policy_def demo_target_def demo_manifest_def demo_candidate_def
  demo_verification_def demo_packet_def decision_context_def demo_authorization_def demo_receipt_def

lemmas lane_ops = decide_defs portfolio_step_def stamp_def PortfolioInput.extend_def PortfolioEvent.fields_def
  PortfolioPolicyInput.extend_def PortfolioPolicy.fields_def IntegrationTargetInput.extend_def
  IntegrationTarget.fields_def evolve_portfolio_def apply_defs supersede_policy_def supersede_target_def found_def
  check_digest_def policy_registry_ok_def policy_chain_ok_def active_policy_def mvalues_def mhas_def
  active_target_def target_identity_ok_def target_chain_ok_def target_evidence_ok_def merge_lane_registered_def
  diff_references_ok_def diff_canonical_def verdict_consistent_def computed_violations_def surface_covers_def starts_with_def
  candidate_evidence_ok_def manifest_of_def ready_count_def ready_limit_def integration_ready_def new_work_def
  program_pending_def graph_of_def candidate_of_def target_of_def work_claimable_def predecessors_promoted_def
  earlier_owns_def rivals_def target_busy_def work_held_def work_lease_open_def work_lease_not_past_def
  work_candidate_ok_def verification_evidence_ok_def sequence_cmp_def then_by_def sort_by_def precedes_def
  unfinished_def addMilliseconds_def work_leased_def work_prepared_def work_verified_def emptyPortfolio_def
  by_length_def

lemmas decision_ops = ready_candidate_def work_evidence_def work_of_def authority_evidence_def final_outcome_def
  packet_events_def packet_revision_def packet_option_def promotion_action_def packet_id_def revision_id_def
  bundle_id_def request_id_def rd_source_def rd_outcome_ref_def rd_verification_ref_def policy_binding_def
  precondition_digest_def open_revision_def action_precondition_def action_matches_def action_live_def
  outcomeDispositionEvent_def authorization_events_def action_result_ref_def result_id_def rd_precondition_def
  work_authorized_def work_promoted_def promote_work_def move_head_def question_def orientation_def

declare lane_data [simp] lane_ops [simp] decision_ops [simp]

lemmas lane_policy_value [simp] = lane_policy_def [simplified]
lemmas lane_target_value [simp] = lane_target_def [simplified]
lemmas lane_diff_value [simp] = lane_diff_def [simplified]
lemmas lane_diffs_value [simp] = lane_diffs_def [simplified]
lemmas lane_first_value [simp] = lane_first_def [simplified]
lemmas lane_queued_value [simp] = lane_queued_def [simplified]
lemmas lane_leased_value [simp] = lane_leased_def [simplified]
lemmas lane_taken_value [simp] = lane_taken_def [simplified]
lemmas lane_prepared_value [simp] = lane_prepared_def [simplified]
lemmas lane_verified_value [simp] = lane_verified_def [simplified]
lemmas lane_compiled_value [simp] = lane_compiled_def [simplified]
lemmas lane_authorized_value [simp] = lane_authorized_def [simplified]
lemmas lane_promoted_value [simp] = lane_promoted_def [simplified]
lemmas lane_second_value [simp] = lane_second_def [simplified]

declare lane_data [simp del] lane_ops [simp del] decision_ops [simp del] lane_policy_value [simp del]
  lane_target_value [simp del] lane_diff_value [simp del] lane_diffs_value [simp del] lane_first_value [simp del]
  lane_queued_value [simp del] lane_leased_value [simp del] lane_taken_value [simp del] lane_prepared_value [simp del]
  lane_verified_value [simp del] lane_compiled_value [simp del] lane_authorized_value [simp del]
  lane_promoted_value [simp del] lane_second_value [simp del]

lemmas lane_values = lane_first_value lane_queued_value lane_leased_value lane_taken_value lane_prepared_value
  lane_verified_value lane_compiled_value lane_authorized_value lane_promoted_value lane_second_value

section \<open>The states are reachable\<close>

lemma lane_queues_fresh:
  "queues_fresh lane_diffs (Pc_candidate_queue (demo_candidate ''k1'' ''c1'' ''d1'' 1 []) '''' ''w1'')"
  "queues_fresh lane_first (Pc_candidate_queue (demo_candidate ''k2'' ''c2'' ''d2'' 2 [''k1'']) '''' ''w2'')"
  by (simp_all add: queues_fresh_def lane_diffs_value lane_first_value mhas_def)

abbreviation demo_reachable_lane :: "Portfolio \<Rightarrow> bool" where
  "demo_reachable_lane \<equiv> lane_reachable blank_sha by_length"

lemma lane_first_reachable: "demo_reachable_lane lane_first"
proof -
  have "demo_reachable_lane lane_diffs"
    unfolding lane_diffs_def lane_diff_def lane_target_def lane_policy_def
    by (intro lane_step_reachable lane_empty) (simp_all add: queues_fresh_def)
  then show ?thesis
    unfolding lane_first_def by (rule lane_step_reachable) (rule lane_queues_fresh(1))
qed

lemma lane_queued_reachable: "demo_reachable_lane lane_queued"
  unfolding lane_queued_def by (rule lane_step_reachable [OF lane_first_reachable lane_queues_fresh(2)])

lemma lane_states_reachable:
  "demo_reachable_lane lane_leased" "demo_reachable_lane lane_prepared" "demo_reachable_lane lane_taken"
  "demo_reachable_lane lane_compiled" "demo_reachable_lane lane_authorized" "demo_reachable_lane lane_promoted"
  "demo_reachable_lane lane_second"
  unfolding lane_second_def lane_promoted_def lane_authorized_def lane_compiled_def lane_verified_def lane_prepared_def
    lane_taken_def lane_leased_def
  by (intro lane_step_reachable lane_queued_reachable, simp_all add: queues_fresh_def)+

lemma lane_commits:
  "portfolio_commits blank_sha by_length host 200 demo_context (Pc_work_lease_acquire ''w1'' ''o2'' 100)
     lane_leased lane_taken"
  "portfolio_commits blank_sha by_length operator 10 decision_context (Pc_decision_integrate demo_authorization)
     lane_compiled lane_authorized"
  "portfolio_commits blank_sha by_length host 11 demo_context (Pc_promote_record demo_receipt '''')
     lane_authorized lane_promoted"
  using portfolio_step_commits [of blank_sha host 200 demo_context "Pc_work_lease_acquire ''w1'' ''o2'' 100" lane_leased]
    portfolio_step_commits [of blank_sha operator 10 decision_context "Pc_decision_integrate demo_authorization" lane_compiled]
    portfolio_step_commits [of blank_sha host 11 demo_context "Pc_promote_record demo_receipt ''''" lane_authorized]
  unfolding lane_taken_def [symmetric] lane_authorized_def [symmetric] lane_promoted_def [symmetric]
  by (simp_all add: lane_leased_value lane_taken_value lane_compiled_value lane_authorized_value lane_promoted_value)

end
