(* ===== verification/IntegrationProperties.thy ===== *)
theory IntegrationProperties
  imports IntegrationScenario
begin

text \<open>
  What the integration lane guarantees of every portfolio its commits can reach. The code does not
  check that the work of a queued candidate gets a new identifier, and with an old one it overwrites
  that work; here the commits (of \<open>lane_reachable\<close>, \<open>lane_moves\<close> and \<open>moves_from\<close>) are those which
  give each queued candidate work under a new identifier.
\<close>

section \<open>Evidence and order\<close>

text \<open>
  C28. What reaches a managed ref was checked: in every portfolio that commits reach which give each
  queued candidate work under a new identifier (the code does not check this), a candidate that is
  authorized or promoted has work that carries an authorization and a passed verification of
  exactly its prepared head and rebased candidate, and its diff touches only allowed surfaces.
\<close>

theorem promoted_candidates_are_verified:
  assumes "lane_reachable sha lc s" and "mget (integrationCandidates s) k = Some q"
    and "cs_status q = C_authorized \<or> cs_status q = C_promoted"
  shows "(\<exists>i p. mget (integrationWork s) i = Some p \<and> iw_candidateId (ws_work p) = k \<and>
      iw_authorizationRef (ws_work p) \<noteq> None \<and> verified_by sha (ws_work p)) \<and>
    (\<exists>m. manifest_of s (cs_candidate q) = Some m \<and> diff_contained (ms_manifest m))"
proof -
  have ok: "lane_ok sha s" using assms(1) by (rule reachable_lane_ok)
  then obtain i p where p: "mget (integrationWork s) i = Some p" "iw_candidateId (ws_work p) = k"
    using in_step_work assms(2) unfolding lane_ok_def mhas_def by blast
  with ok in_step_candidate [of s i p] assms(2) have "cs_status q = stage (iw_status (ws_work p))"
    by (auto simp: lane_ok_def)
  with assms(3) have "iw_status (ws_work p) \<in> {W_authorized, W_promoted}"
    by (cases "iw_status (ws_work p)") auto
  moreover have "work_evident sha (ws_work p)" using ok p(1) by (auto simp: lane_ok_def evidence_kept_def)
  ultimately have "iw_authorizationRef (ws_work p) \<noteq> None \<and> verified_by sha (ws_work p)"
    by (auto simp: work_evident_def)
  moreover obtain m where "manifest_of s (cs_candidate q) = Some m" "diff_contained (ms_manifest m)"
    using ok assms(2) unfolding lane_ok_def lane_contained_def manifest_of_def by metis
  ultimately show ?thesis using p by blast
qed

theorem promoted_candidates_are_verified_witness:
  "\<exists>i p. mget (integrationWork lane_promoted) i = Some p \<and> iw_candidateId (ws_work p) = ''k1'' \<and>
     verified_by blank_sha (ws_work p)"
proof -
  obtain q where q: "mget (integrationCandidates lane_promoted) ''k1'' = Some q" "cs_status q = C_promoted"
    by (simp add: lane_values)
  from promoted_candidates_are_verified [OF lane_states_reachable(6) q(1)] q(2) show ?thesis by blast
qed

text \<open>
  What queueing a candidate checks and writes, and that its data stays what it was.
\<close>

lemma queue_commits:
  assumes "portfolio_commits sha lc a now cx (Pc_candidate_queue c dg w) s s'"
  obtains q where "candidate_evidence_ok sha lc cx s c dg" "mget (integrationCandidates s') (ic_candidateId c) = Some q"
    "cs_candidate q = c"
proof -
  obtain evs k j vs where e: "decide_portfolio sha lc a now cx s (Pc_candidate_queue c dg w) = Inr (evs, k, j)"
    "length vs = length evs" "try_fold (evolve_portfolio sha) s (stamp now evs vs) = Inr s'"
    using assms by (auto simp: portfolio_commits_def)
  then have ok: "candidate_evidence_ok sha lc cx s c dg" and evs: "evs = pf_event ''integration_candidate'' (ic_candidateId c)
      (IntegrationCandidateQueued c dg (new_work w (ic_candidateId c) now)
        (digest_of sha (enc_IntegrationWork (new_work w (ic_candidateId c) now)))) # program_pending cx c"
    by (auto simp: decide_integration_candidate_queue_def accept_def reject_def Let_def split: if_splits)
  obtain v us where vs: "vs = v # us" "length us = length (program_pending cx c)"
    using e(2) evs by (auto simp: length_Suc_conv)
  obtain s1 where s1: "apply_portfolio sha v now (IntegrationCandidateQueued c dg (new_work w (ic_candidateId c) now)
      (digest_of sha (enc_IntegrationWork (new_work w (ic_candidateId c) now)))) s = Inr s1"
    "try_fold (evolve_portfolio sha) s1 (stamp now (program_pending cx c) us) = Inr s'"
    using e(3) by (auto simp: evs vs(1) pf_event_def stamp_def evolve_portfolio_def PortfolioInput.extend_def
        PortfolioEvent.fields_def split: sum.splits)
  have "s' = s1"
    using fold_foreign [OF vs(2), of sha s1 now] s1(2) program_pending_foreign by auto
  with s1(1) show thesis
    by (intro that [OF ok]) (auto simp: apply_candidate_queued_def new_work_def split: if_splits)
qed

lemma candidate_data_kept:
  assumes "(lane_moves sha lc)\<^sup>*\<^sup>* s s'" and "lane_ok sha s" and "mget (integrationCandidates s) k = Some q"
  shows "lane_ok sha s' \<and> (\<exists>q'. mget (integrationCandidates s') k = Some q' \<and> cs_candidate q' = cs_candidate q)"
  using assms(1)
proof (induction rule: rtranclp_induct)
  case (step s1 s2)
  then obtain q1 where q1: "mget (integrationCandidates s1) k = Some q1" "cs_candidate q1 = cs_candidate q"
    and ok: "lane_ok sha s1" by blast
  from step(2) obtain a now cx c where c: "queues_fresh s1 c" "portfolio_commits sha lc a now cx c s1 s2"
    by (auto simp: lane_moves_def)
  from candidate_machine [OF ok c(2) q1(1)] commit_keeps_lane [OF ok c] q1(2) show ?case by metis
qed (use assms in blast)

definition lists_collide :: "(string \<Rightarrow> string) \<Rightarrow> string list \<Rightarrow> string list \<Rightarrow> bool" where
  "lists_collide sha xs ys \<longleftrightarrow> xs \<noteq> ys \<and> jarray_digest sha JString xs = jarray_digest sha JString ys"

text \<open>
  C32. The merge order. Let a commit queue a candidate in a reachable portfolio, with its work under
  a new identifier, and let commits of that kind lead on to a portfolio in which its integration
  has started. Then each graph its own graph depends on has a promoted candidate, and so is every
  candidate that was queued before it, targets the same branch, comes before it in admission
  sequence (and identifier), and has a changed path in common with it; unless the digest that
  compares the recorded with the computed predecessors collides on these very lists. (No candidate
  has the identifier \<open>missing\<close>, which is no UUID; a candidate that is queued later is not waited for
  on account of its paths.)
\<close>

theorem predecessors_are_promoted_first:
  assumes "lane_reachable sha lc s0" and "queues_fresh s0 (Pc_candidate_queue c dg w)"
    and "portfolio_commits sha lc a now cx (Pc_candidate_queue c dg w) s0 s1" and "(lane_moves sha lc)\<^sup>*\<^sup>* s1 s"
    and "mget (integrationCandidates s) (ic_candidateId c) = Some q" and "started (cs_status q)"
    and "mget (integrationCandidates s) ''missing'' = None"
  shows "\<exists>g v. mget (cx_programGraphs cx) (ref_id (ic_graphRevisionRef c)) = Some g \<and>
    gs_graphDigest g = ref_digest (ic_graphRevisionRef c) \<and> gs_programId g = ic_programId c \<and> gs_v2 g = Some v \<and>
    ((\<forall>d\<in>set (gv_crossProgramDependencies v). \<exists>k e. mget (integrationCandidates s) k = Some e \<and>
        cs_status e = C_promoted \<and> ic_programId (cs_candidate e) = cd_programId d \<and>
        ref_id (ic_graphRevisionRef (cs_candidate e)) = cd_graphRevisionId d \<and>
        ref_digest (ic_graphRevisionRef (cs_candidate e)) = cd_graphDigest d) \<or>
      lists_collide sha (sort (ic_dependencyCandidateIds c)) (expected_dependencies s0 (Some v))) \<and>
    ((\<forall>k e m n x y. mget (integrationCandidates s0) k = Some e \<longrightarrow>
        ref_id (ic_targetRef (cs_candidate e)) = ref_id (ic_targetRef c) \<longrightarrow>
        ic_finalAdmissionSequence (cs_candidate e) < ic_finalAdmissionSequence c \<or>
          ic_finalAdmissionSequence (cs_candidate e) = ic_finalAdmissionSequence c \<and> lc k (ic_candidateId c) < 0 \<longrightarrow>
        mget (candidateDiffManifests s0) (ref_id (ic_diffManifestRef (cs_candidate e))) = Some m \<longrightarrow>
        mget (candidateDiffManifests s0) (ref_id (ic_diffManifestRef c)) = Some n \<longrightarrow>
        x \<in> set (cdm_entries (ms_manifest m)) \<longrightarrow> y \<in> set (cdm_entries (ms_manifest n)) \<longrightarrow> de_path x = de_path y \<longrightarrow>
        map_option cs_status (mget (integrationCandidates s) k) = Some C_promoted) \<or>
      lists_collide sha (sort (ic_actualOverlapPredecessorIds c)) (expected_overlaps lc s0 c))"
proof -
  have ok0: "lane_ok sha s0" using assms(1) by (rule reachable_lane_ok)
  have ok1: "lane_ok sha s1" by (rule commit_keeps_lane [OF ok0 assms(2,3)])
  obtain q1 where ev: "candidate_evidence_ok sha lc cx s0 c dg"
    and q1: "mget (integrationCandidates s1) (ic_candidateId c) = Some q1" "cs_candidate q1 = c"
    using assms(3) by (rule queue_commits)
  have ok: "lane_ok sha s" and "cs_candidate q = c"
    using candidate_data_kept [OF assms(4) ok1 q1(1)] q1(2) assms(5) by auto
  then have "predecessors_promoted s c"
    using assms(5,6) by (auto simp: lane_ok_def lane_ordered_def)
  then have promoted: "\<exists>e. mget (integrationCandidates s) k = Some e \<and> cs_status e = C_promoted"
    if "k \<in> set (ic_dependencyCandidateIds c) \<union> set (ic_actualOverlapPredecessorIds c)" for k
    using that unfolding predecessors_promoted_iff by blast
  have keyed: "ic_candidateId (cs_candidate e) = k" if "mget (integrationCandidates s0) k = Some e" for k e
    using ok0 that by (auto simp: lane_ok_def lane_keyed_def dest: keyedD)
  have stays: "\<exists>e'. mget (integrationCandidates s) k = Some e' \<and> cs_candidate e' = cs_candidate e"
    if e: "mget (integrationCandidates s0) k = Some e" for k e
  proof -
    from candidate_machine [OF ok0 assms(3) e] obtain e1 where
      e1: "mget (integrationCandidates s1) k = Some e1" "cs_candidate e1 = cs_candidate e" by blast
    from candidate_data_kept [OF assms(4) ok1 e1(1)] e1(2) show ?thesis by simp
  qed
  obtain g v where g: "mget (cx_programGraphs cx) (ref_id (ic_graphRevisionRef c)) = Some g"
    "gs_graphDigest g = ref_digest (ic_graphRevisionRef c)" "gs_programId g = ic_programId c" "gs_v2 g = Some v"
    "jarray_digest sha JString (sort (ic_dependencyCandidateIds c)) = jarray_digest sha JString (expected_dependencies s0 (Some v))"
    and overlaps: "jarray_digest sha JString (sort (ic_actualOverlapPredecessorIds c)) =
      jarray_digest sha JString (expected_overlaps lc s0 c)"
    using ev by (auto simp: candidate_evidence_ok_def split: option.splits)
  have dependencies: "\<exists>k e. mget (integrationCandidates s) k = Some e \<and> cs_status e = C_promoted \<and>
      ic_programId (cs_candidate e) = cd_programId d \<and>
      ref_id (ic_graphRevisionRef (cs_candidate e)) = cd_graphRevisionId d \<and>
      ref_digest (ic_graphRevisionRef (cs_candidate e)) = cd_graphDigest d"
    if eq: "sort (ic_dependencyCandidateIds c) = expected_dependencies s0 (Some v)"
      and d: "d \<in> set (gv_crossProgramDependencies v)" for d
  proof (cases "dependency_candidate s0 d")
    case None
    with d have "''missing'' \<in> set (expected_dependencies s0 (Some v))" by (force simp: expected_dependencies_def)
    with eq have "''missing'' \<in> set (ic_dependencyCandidateIds c)" by (metis set_sort)
    with promoted assms(7) show ?thesis by fastforce
  next
    case (Some e)
    with d have "ic_candidateId (cs_candidate e) \<in> set (expected_dependencies s0 (Some v))"
      by (force simp: expected_dependencies_def)
    with eq have r: "ic_candidateId (cs_candidate e) \<in> set (ic_dependencyCandidateIds c)" by (metis set_sort)
    have "e \<in> set (mvalues (integrationCandidates s0))"
      and m: "ic_programId (cs_candidate e) = cd_programId d" "ref_id (ic_graphRevisionRef (cs_candidate e)) = cd_graphRevisionId d"
        "ref_digest (ic_graphRevisionRef (cs_candidate e)) = cd_graphDigest d"
      using find_member [OF Some [unfolded dependency_candidate_def]] by auto
    moreover have "keyed (\<lambda>c. ic_candidateId (cs_candidate c)) (integrationCandidates s0)"
      using ok0 by (simp add: lane_ok_def lane_keyed_def)
    ultimately have "mget (integrationCandidates s0) (ic_candidateId (cs_candidate e)) = Some e"
      using keyed_values [of "\<lambda>c. ic_candidateId (cs_candidate c)" "integrationCandidates s0" e] by simp
    from stays [OF this] promoted [of "ic_candidateId (cs_candidate e)"] r m show ?thesis by fastforce
  qed
  have overlapping: "map_option cs_status (mget (integrationCandidates s) k) = Some C_promoted"
    if eq: "sort (ic_actualOverlapPredecessorIds c) = expected_overlaps lc s0 c"
      and e: "mget (integrationCandidates s0) k = Some e" "ref_id (ic_targetRef (cs_candidate e)) = ref_id (ic_targetRef c)"
      and less: "ic_finalAdmissionSequence (cs_candidate e) < ic_finalAdmissionSequence c \<or>
          ic_finalAdmissionSequence (cs_candidate e) = ic_finalAdmissionSequence c \<and> lc k (ic_candidateId c) < 0"
      and m: "mget (candidateDiffManifests s0) (ref_id (ic_diffManifestRef (cs_candidate e))) = Some m"
        "mget (candidateDiffManifests s0) (ref_id (ic_diffManifestRef c)) = Some n"
        "x \<in> set (cdm_entries (ms_manifest m))" "y \<in> set (cdm_entries (ms_manifest n))" "de_path x = de_path y"
    for k e m n x y
  proof -
    have "precedes lc (cs_candidate e) c" using less keyed [OF e(1)] by (auto simp: precedes_def)
    moreover have "list_ex (\<lambda>p. p \<in> set (manifest_paths (manifest_of s0 c))) (manifest_paths (manifest_of s0 (cs_candidate e)))"
      using m by (auto simp: list_ex_iff manifest_paths_def manifest_of_def)
    ultimately have "k \<in> set (expected_overlaps lc s0 c)"
      using e keyed [OF e(1)] by (force simp: expected_overlaps_def dest: mvalues_get)
    with eq have "k \<in> set (ic_actualOverlapPredecessorIds c)" by (metis set_sort)
    with promoted show ?thesis by fastforce
  qed
  show ?thesis
    using g(1-4)
  proof (intro exI [of _ g] exI [of _ v] conjI)
    show "(\<forall>d\<in>set (gv_crossProgramDependencies v). \<exists>k e. mget (integrationCandidates s) k = Some e \<and>
        cs_status e = C_promoted \<and> ic_programId (cs_candidate e) = cd_programId d \<and>
        ref_id (ic_graphRevisionRef (cs_candidate e)) = cd_graphRevisionId d \<and>
        ref_digest (ic_graphRevisionRef (cs_candidate e)) = cd_graphDigest d) \<or>
      lists_collide sha (sort (ic_dependencyCandidateIds c)) (expected_dependencies s0 (Some v))"
      using dependencies g(5) by (auto simp: lists_collide_def)
    show "(\<forall>k e m n x y. mget (integrationCandidates s0) k = Some e \<longrightarrow>
        ref_id (ic_targetRef (cs_candidate e)) = ref_id (ic_targetRef c) \<longrightarrow>
        ic_finalAdmissionSequence (cs_candidate e) < ic_finalAdmissionSequence c \<or>
          ic_finalAdmissionSequence (cs_candidate e) = ic_finalAdmissionSequence c \<and> lc k (ic_candidateId c) < 0 \<longrightarrow>
        mget (candidateDiffManifests s0) (ref_id (ic_diffManifestRef (cs_candidate e))) = Some m \<longrightarrow>
        mget (candidateDiffManifests s0) (ref_id (ic_diffManifestRef c)) = Some n \<longrightarrow>
        x \<in> set (cdm_entries (ms_manifest m)) \<longrightarrow> y \<in> set (cdm_entries (ms_manifest n)) \<longrightarrow> de_path x = de_path y \<longrightarrow>
        map_option cs_status (mget (integrationCandidates s) k) = Some C_promoted) \<or>
      lists_collide sha (sort (ic_actualOverlapPredecessorIds c)) (expected_overlaps lc s0 c)"
      using overlapping overlaps unfolding lists_collide_def by blast
  qed
qed

lemma lane_step_moves:
  assumes "lane_reachable blank_sha by_length s" and "queues_fresh s x"
  shows "(lane_moves blank_sha by_length)\<^sup>*\<^sup>* s (lane_step a now cx x s)"
proof (cases "lane_step a now cx x s = s")
  case False
  then have "lane_moves blank_sha by_length s (lane_step a now cx x s)"
    using assms portfolio_step_commits reachable_lane_ok unfolding lane_moves_def by metis
  then show ?thesis by simp
qed simp

lemma second_moves: "(lane_moves blank_sha by_length)\<^sup>*\<^sup>* lane_queued lane_second"
proof -
  have "(lane_moves blank_sha by_length)\<^sup>*\<^sup>* lane_queued lane_leased" unfolding lane_leased_def
    by (rule lane_step_moves [OF lane_queued_reachable]) (simp add: queues_fresh_def)
  also have "(lane_moves blank_sha by_length)\<^sup>*\<^sup>* lane_leased lane_prepared" unfolding lane_prepared_def
    by (rule lane_step_moves [OF lane_states_reachable(1)]) (simp add: queues_fresh_def)
  also have "(lane_moves blank_sha by_length)\<^sup>*\<^sup>* lane_prepared lane_verified" unfolding lane_verified_def
    by (rule lane_step_moves [OF lane_states_reachable(2)]) (simp add: queues_fresh_def)
  also have "(lane_moves blank_sha by_length)\<^sup>*\<^sup>* lane_verified lane_compiled" unfolding lane_compiled_def
    by (rule lane_step_moves) (simp_all add: queues_fresh_def lane_verified_def lane_step_reachable lane_states_reachable(2))
  also have "(lane_moves blank_sha by_length)\<^sup>*\<^sup>* lane_compiled lane_authorized" unfolding lane_authorized_def
    by (rule lane_step_moves [OF lane_states_reachable(4)]) (simp add: queues_fresh_def)
  also have "(lane_moves blank_sha by_length)\<^sup>*\<^sup>* lane_authorized lane_promoted" unfolding lane_promoted_def
    by (rule lane_step_moves [OF lane_states_reachable(5)]) (simp add: queues_fresh_def)
  also have "(lane_moves blank_sha by_length)\<^sup>*\<^sup>* lane_promoted lane_second" unfolding lane_second_def
    by (rule lane_step_moves [OF lane_states_reachable(6)]) (simp add: queues_fresh_def)
  finally show ?thesis .
qed

theorem predecessors_are_promoted_first_witness:
  "map_option cs_status (mget (integrationCandidates lane_second) ''k1'') = Some C_promoted"
proof -
  let ?c = "demo_candidate ''k2'' ''c2'' ''d2'' 2 [''k1'']"
  have "lane_queued \<noteq> lane_first" by (simp add: lane_values)
  then have commit: "portfolio_commits blank_sha by_length host 5 demo_context (Pc_candidate_queue ?c '''' ''w2'') lane_first lane_queued"
    using portfolio_step_commits unfolding lane_queued_def by metis
  obtain q where q: "mget (integrationCandidates lane_second) (ic_candidateId ?c) = Some q" "started (cs_status q)"
    "mget (integrationCandidates lane_second) ''missing'' = None"
    by (simp add: lane_values started_def demo_candidate_def)
  obtain e m n x where e: "mget (integrationCandidates lane_first) ''k1'' = Some e"
    "ref_id (ic_targetRef (cs_candidate e)) = ref_id (ic_targetRef ?c)"
    "ic_finalAdmissionSequence (cs_candidate e) < ic_finalAdmissionSequence ?c"
    "mget (candidateDiffManifests lane_first) (ref_id (ic_diffManifestRef (cs_candidate e))) = Some m"
    "mget (candidateDiffManifests lane_first) (ref_id (ic_diffManifestRef ?c)) = Some n"
    "x \<in> set (cdm_entries (ms_manifest m))" "x \<in> set (cdm_entries (ms_manifest n))"
    by (simp add: lane_values demo_candidate_def demo_ref_def reference_def)
  have "\<not> lists_collide blank_sha (sort (ic_actualOverlapPredecessorIds ?c)) (expected_overlaps by_length lane_first ?c)"
    by (simp add: lists_collide_def expected_overlaps_def lane_values demo_candidate_def demo_ref_def reference_def
        mvalues_def precedes_def manifest_paths_def manifest_of_def)
  with predecessors_are_promoted_first [OF lane_first_reachable lane_queues_fresh(2) commit second_moves q] e
  show ?thesis by blast
qed

section \<open>The state machine of a candidate\<close>

text \<open>
  C31. Refinement of a state machine: from every portfolio reached with new work identifiers, every
  commit leaves each candidate's data as queued and
  moves its status along the machine pending, preparing, verifying, awaiting authorization,
  authorized, promoted (with conflicted and ineligible as its other ends), each edge under the
  one command that names it; a candidate that is new is pending and was queued as it is.
\<close>

theorem candidates_follow_the_machine:
  assumes "lane_reachable sha lc s" and "portfolio_commits sha lc a now cx c s s'"
  shows "case mget (integrationCandidates s) k of
      Some q \<Rightarrow> (\<exists>q'. mget (integrationCandidates s') k = Some q' \<and> cs_candidate q' = cs_candidate q \<and>
        (cs_status q' = cs_status q \<or> candidate_move c (cs_status q) (cs_status q')))
    | None \<Rightarrow> (\<forall>q'. mget (integrationCandidates s') k = Some q' \<longrightarrow>
        cs_status q' = C_pending \<and> (\<exists>d w. c = Pc_candidate_queue (cs_candidate q') d w))"
proof (cases "mget (integrationCandidates s) k")
  case None
  with candidate_new [OF reachable_lane_ok [OF assms(1)] assms(2) None] show ?thesis by simp
next
  case (Some q)
  from candidate_machine [OF reachable_lane_ok [OF assms(1)] assms(2) Some] show ?thesis
    unfolding Some by (simp, metis)
qed

theorem candidates_follow_the_machine_witness:
  "\<exists>q q'. mget (integrationCandidates lane_compiled) ''k1'' = Some q \<and>
     mget (integrationCandidates lane_authorized) ''k1'' = Some q' \<and> cs_candidate q' = cs_candidate q \<and>
     candidate_move (Pc_decision_integrate demo_authorization) (cs_status q) (cs_status q')"
  using candidates_follow_the_machine [OF lane_states_reachable(4) lane_commits(2), of "''k1''"]
  by (simp add: lane_values)

section \<open>Authority\<close>

text \<open>
  C30. Only an operator authorizes: from every portfolio reached with new work identifiers, a commit
  that makes a candidate authorized is a
  \<open>decision.integrate\<close> of an operator that names the revision and option of an open decision
  packet, where head, rebased candidate, verification, diff and outcome are still those the
  option names, and the option is about this candidate.
\<close>

theorem only_operators_authorize:
  assumes "lane_reachable sha lc s" and "portfolio_commits sha lc a now cx c s s'"
    and "mget (integrationCandidates s) k = Some q" and "cs_status q \<noteq> C_authorized"
    and "mget (integrationCandidates s') k = Some q'" and "cs_status q' = C_authorized"
  shows "actor_kind a = Operator \<and> (\<exists>p st opt. c = Pc_decision_integrate p \<and>
    open_revision sha cx s p = Some st \<and> opt \<in> set (prv_options (ds_revision st)) \<and>
    dop_optionId opt = ip_optionId p \<and> action_matches sha p (dop_action opt) \<and>
    action_live sha cx s (ds_revision st) (dop_action opt) \<and> pac_candidateId (dop_action opt) = k)"
proof -
  have ok: "lane_ok sha s" using assms(1) by (rule reachable_lane_ok)
  have "candidate_move c (cs_status q) C_authorized"
    using candidate_machine [OF ok assms(2,3)] assms(4-6) by (metis option.inject)
  then obtain p where c: "c = Pc_decision_integrate p" by (auto elim: candidate_authorized)
  have "s' \<noteq> s" using assms(3-6) by auto
  with assms(2) c obtain d v where w: "writes sha lc a now cx s (Pc_decision_integrate p) d"
    and e: "apply_portfolio sha v now d s = Inr s'"
    by (auto elim: commit_cases)
  obtain st opt r x y where o': "open_revision sha cx s p = Some st" "opt \<in> set (prv_options (ds_revision st))"
    "dop_optionId opt = ip_optionId p" "action_matches sha p (dop_action opt)"
    "action_live sha cx s (ds_revision st) (dop_action opt)"
    "moves_lane sha (pac_workId (dop_action opt)) (work_authorized r) C_authorized s s' x y"
    "iw_candidateId (ws_work x) = pac_candidateId (dop_action opt)"
    by (rule integrate_moves [OF ok w e])
  have "pac_candidateId (dop_action opt) = k"
    using o'(6,7) assms(3-6) by (auto simp: moves_lane_def lane_update_def split: if_splits)
  with writes_integrate [OF w] c o'(1-5) show ?thesis by blast
qed

theorem only_operators_authorize_witness:
  "actor_kind operator = Operator \<and>
   (\<exists>st. open_revision blank_sha decision_context lane_compiled demo_authorization = Some st)"
proof -
  obtain q q' where q: "mget (integrationCandidates lane_compiled) ''k1'' = Some q" "cs_status q \<noteq> C_authorized"
    "mget (integrationCandidates lane_authorized) ''k1'' = Some q'" "cs_status q' = C_authorized"
    by (simp add: lane_values)
  from only_operators_authorize [OF lane_states_reachable(4) lane_commits(2) q] show ?thesis by auto
qed

section \<open>The managed head\<close>

text \<open>
  C29. The head of a target moves by promotions only: if, in a portfolio reached with new work
  identifiers, a commit changes the recorded head of a
  target, it is a promotion receipt of the host for authorized work; the old head is the one the
  receipt expects, the new head is the receipt's and is the rebased candidate that was verified
  and authorized, and the candidate is promoted by the same commit.
\<close>

theorem heads_move_by_promotion:
  assumes "lane_reachable sha lc s" and "portfolio_commits sha lc a now cx c s s'"
    and "mget (integrationTargets s) i = Some t" and "mget (integrationTargets s') i = Some t'"
    and "ts_currentHeadRef t' \<noteq> ts_currentHeadRef t"
  shows "actor_kind a = System \<and> (\<exists>r d j p. c = Pc_promote_record r d \<and> ref_id (pr_targetRef r) = i \<and>
    ref_digest_of sha (ts_currentHeadRef t) = ref_digest_of sha (pr_expectedOldHeadRef r) \<and>
    ts_currentHeadRef t' = pr_newHeadRef r \<and>
    mget (integrationWork s) j = Some p \<and> iw_candidateId (ws_work p) = pr_candidateId r \<and>
    iw_status (ws_work p) = W_authorized \<and> verified_by sha (ws_work p) \<and>
    opt_ref_digest sha (iw_rebasedCandidateRef (ws_work p)) = ref_digest_of sha (pr_newHeadRef r) \<and>
    (\<exists>q'. mget (integrationCandidates s') (pr_candidateId r) = Some q' \<and> cs_status q' = C_promoted))"
proof -
  have ok: "lane_ok sha s" using assms(1) by (rule reachable_lane_ok)
  have "s' \<noteq> s" using assms(3-5) by auto
  with assms(2) obtain d v where w: "writes sha lc a now cx s c d" and e: "apply_portfolio sha v now d s = Inr s'"
    by (auto elim: commit_cases)
  have m: "integrationTargets s' \<noteq> integrationTargets s" using assms(3-5) by auto
  obtain r rd where c: "c = Pc_promote_record r rd"
    by (rule other_heads_kept [OF ok w e assms(3-5)])
  from w have w: "writes sha lc a now cx s (Pc_promote_record r rd) d" by (simp add: c)
  show ?thesis
  proof (rule promote_moves [OF ok w e], goal_cases)
    case (1 p q t1)
    from 1(5,6,8) assms(3-5) have t: "ref_id (pr_targetRef r) = i" "t1 = t" "ts_currentHeadRef t' = pr_newHeadRef r"
      by (auto split: if_splits)
    have "verified_by sha (ws_work p)" using 1(1,3) by (simp add: moves_lane_def work_evident_def)
    moreover have "\<exists>q'. mget (integrationCandidates s') (pr_candidateId r) = Some q' \<and> cs_status q' = C_promoted"
      using 1(1,2) by (auto simp: moves_lane_def lane_update_def)
    moreover have "actor_kind a = System" using w by (simp add: writes_promote)
    ultimately show ?thesis using 1(1-4,7) t c by (auto simp: moves_lane_def)
  qed
qed

theorem heads_move_by_promotion_witness:
  "\<exists>p. mget (integrationWork lane_authorized) ''w1'' = Some p \<and> verified_by blank_sha (ws_work p)"
proof -
  obtain t t' where t: "mget (integrationTargets lane_authorized) ''t1'' = Some t"
    "mget (integrationTargets lane_promoted) ''t1'' = Some t'" "ts_currentHeadRef t' \<noteq> ts_currentHeadRef t"
    by (simp add: lane_values)
  from heads_move_by_promotion [OF lane_states_reachable(5) lane_commits(3) t]
  obtain j p where p: "mget (integrationWork lane_authorized) j = Some p" "iw_status (ws_work p) = W_authorized"
    "verified_by blank_sha (ws_work p)" by blast
  then have "j = ''w1''" by (auto simp: lane_values split: if_splits)
  with p show ?thesis by blast
qed

section \<open>The lease of the work\<close>

text \<open>The work, owner and fencing token a command of the integration host acts under.\<close>

fun integration_holder :: "PortfolioCommand \<Rightarrow> (uuid \<times> uuid \<times> nat) option" where
  "integration_holder (Pc_work_prepare i own t _ _) = Some (i, own, t)"
| "integration_holder (Pc_work_conflict i own t _ _) = Some (i, own, t)"
| "integration_holder (Pc_work_verify i own t _ _) = Some (i, own, t)"
| "integration_holder _ = None"

text \<open>An accepted command of a holder finds its lease in force, at its time or just before it.\<close>

lemma accepted_integration:
  assumes "integration_holder c = Some (i, own, t)" and "decide_portfolio sha lc a now cx s c = Inr r"
  shows "\<exists>n. work_admits i s own t n"
proof (cases c)
  case (Pc_work_prepare j o' t' h rb)
  with assms obtain w e where "laneWork s i = Some w" "iw_status w = W_leased" "work_held w own t"
    "iw_leaseExpiresAt w = Some e"
    by (auto simp: decide_work_prepare_def laneWork_def work_lease_not_past_def accept_def reject_def
        split: if_splits option.splits)
  then have "work_admits i s own t (e - 1)" by (simp add: work_admits_def work_lease_open_def)
  then show ?thesis by blast
qed (use assms in \<open>auto simp: decide_work_conflict_def decide_work_verify_def laneWork_def work_admits_def
      accept_def reject_def split: if_splits option.splits\<close>)

text \<open>
  Fencing of integration: once the work of a candidate was leased again, no preparation,
  conflict or verification that an earlier holder sends under its own token is ever accepted.
\<close>

theorem fenced_out_integrator_is_rejected:
  assumes "work_admits i s own t now" and "(lane_moves sha lc)\<^sup>*\<^sup>* s s1"
    and "work_acquired sha lc i s1 w1 now1 e1 s2" and "(lane_moves sha lc)\<^sup>*\<^sup>* s2 s3"
    and "integration_holder c = Some (i, own, t)"
  shows "decide_portfolio sha lc a now3 cx s3 c \<noteq> Inr r"
  using work_leases.fenced_out [OF assms(1-4)] accepted_integration [OF assms(5)] by blast

theorem fenced_out_integrator_is_rejected_witness:
  "decide_portfolio blank_sha by_length host 210 demo_context lane_taken
     (Pc_work_verify ''w1'' ''o1'' 1 demo_verification '''') \<noteq> Inr ([], '''', '''')"
proof (rule fenced_out_integrator_is_rejected)
  show "work_admits ''w1'' lane_leased ''o1'' 1 7"
    by (simp add: work_admits_def laneWork_def work_held_def work_lease_open_def lane_values)
  show "work_acquired blank_sha by_length ''w1'' lane_leased ''o2'' 200 300 lane_taken"
    unfolding work_acquired_def
    using lane_commits(1) reachable_lane_ok [OF lane_states_reachable(1)]
    by (intro conjI exI [of _ host] exI [of _ demo_context] exI [of _ 100]) (simp_all add: addMilliseconds_def)
qed simp_all

text \<open>
  C33. A weakness of the lane, as the code has it: prepared work whose lease has expired is never
  changed again by any commit that gives queued candidates work under new identifiers (a candidate
  queued under its own identifier would overwrite it, which the code allows), as only pending and
  leased work can be leased and every other command needs the lease; and while it stays, the work of every candidate that comes later on
  its target can never be leased (for any total order of identifiers).
\<close>

theorem expired_preparation_blocks_the_target:
  assumes "lane_reachable sha lc s" and "consistent lc"
    and "mget (integrationWork s) i = Some p" and "iw_status (ws_work p) = W_prepared"
    and "iw_leaseExpiresAt (ws_work p) = Some e"
    and "(moves_from sha lc e)\<^sup>*\<^sup>* s s'"
    and "mget (integrationCandidates s') (iw_candidateId (ws_work p)) = Some q"
    and "mget (integrationWork s') j = Some w" and "mget (integrationCandidates s') (iw_candidateId (ws_work w)) = Some b"
    and "ref_id (ic_targetRef (cs_candidate q)) = ref_id (ic_targetRef (cs_candidate b))"
    and "iw_candidateId (ws_work w) \<noteq> iw_candidateId (ws_work p)"
    and "precedes lc (cs_candidate q) (cs_candidate b)"
  shows "mget (integrationWork s') i = Some p \<and> cs_status q = C_verifying \<and>
    decide_portfolio sha lc a now cx s' (Pc_work_lease_acquire j own du) \<noteq> Inr r"
proof -
  from expired_forever [OF assms(6) reachable_lane_ok [OF assms(1)] assms(3-5)]
  have ok: "lane_ok sha s'" and kept: "mget (integrationWork s') i = Some p" by simp_all
  have q: "cs_status q = C_verifying"
    using in_step_candidate [of s' i p] ok kept assms(4,7) by (simp add: lane_ok_def)
  have ids: "ic_candidateId (cs_candidate q) = iw_candidateId (ws_work p)"
    "ic_candidateId (cs_candidate b) = iw_candidateId (ws_work w)"
    using ok assms(7,9) by (auto simp: lane_ok_def lane_keyed_def dest: keyedD)
  have "earlier_owns lc s' (cs_candidate b)"
    by (rule holds_back [OF assms(2,7) ids(1) _ assms(10,12)]) (use q ids assms(11) in \<open>simp_all add: unfinished_def\<close>)
  with assms(8,9) have "decide_portfolio sha lc a now cx s' (Pc_work_lease_acquire j own du) \<noteq> Inr r"
    by (simp add: decide_work_lease_acquire_def candidate_of_def reject_def)
  with kept q show ?thesis by blast
qed

theorem expired_preparation_blocks_the_target_witness:
  "decide_portfolio blank_sha by_length host 1000 demo_context lane_prepared
     (Pc_work_lease_acquire ''w2'' ''o2'' 100) \<noteq> Inr ([], '''', '''')"
proof -
  obtain p q w b where h: "mget (integrationWork lane_prepared) ''w1'' = Some p" "iw_status (ws_work p) = W_prepared"
    "iw_leaseExpiresAt (ws_work p) = Some 106"
    "mget (integrationCandidates lane_prepared) (iw_candidateId (ws_work p)) = Some q"
    "mget (integrationWork lane_prepared) ''w2'' = Some w"
    "mget (integrationCandidates lane_prepared) (iw_candidateId (ws_work w)) = Some b"
    "ref_id (ic_targetRef (cs_candidate q)) = ref_id (ic_targetRef (cs_candidate b))"
    "iw_candidateId (ws_work w) \<noteq> iw_candidateId (ws_work p)"
    "precedes by_length (cs_candidate q) (cs_candidate b)"
    by (simp add: lane_values precedes_def)
  from expired_preparation_blocks_the_target [OF lane_states_reachable(2) by_length_consistent h(1-3)
      rtranclp.rtrancl_refl h(4-9)]
  show ?thesis by blast
qed

end
