(* ===== verification/ClaimFacts.thy ===== *)
theory ClaimFacts
  imports CoordinateFacts ProgramGraphFacts
begin

text \<open>
  Claims as texts: the key of a surface claim can be read back, unless its path holds a line
  terminator; keys of the four families differ; and the keys of a new admission are apart from
  the keys of all active leases.
\<close>

section \<open>Surface claim keys\<close>

definition plain_target :: "string \<Rightarrow> bool" where
  "plain_target t \<longleftrightarrow> t \<noteq> [] \<and> CHR '':'' \<notin> set t"

lemma starts_with_append [simp]: "starts_with (p @ s) p"
  by (simp add: starts_with_def)

lemma starts_withE:
  assumes "starts_with s p"
  obtains r where "s = p @ r"
  using assms by (metis starts_with_def append_take_drop_id)

text \<open>The target a key names is what stands before its second colon.\<close>

lemma colon_split:
  assumes "CHR '':'' \<notin> set t"
  shows "takeWhile (\<lambda>c. c \<noteq> CHR '':'') (t @ CHR '':'' # r) = t"
    and "dropWhile (\<lambda>c. c \<noteq> CHR '':'') (t @ CHR '':'' # r) = CHR '':'' # r"
  using assms by (induction t) auto

lemma kind_path_roundtrip:
  "parse_kind_path r = Some f \<longleftrightarrow> r = surface_kind_text (sf_kind f) @ '':'' @ sf_path f \<and> dot_plus (sf_path f)"
proof
  assume "parse_kind_path r = Some f"
  then show "r = surface_kind_text (sf_kind f) @ '':'' @ sf_path f \<and> dot_plus (sf_path f)"
    by (auto simp: parse_kind_path_def split: if_splits elim!: starts_withE)
next
  assume "r = surface_kind_text (sf_kind f) @ '':'' @ sf_path f \<and> dot_plus (sf_path f)"
  then show "parse_kind_path r = Some f"
    by (cases f; cases "sf_kind f") (auto simp: parse_kind_path_def starts_with_def)
qed

lemma claim_key_roundtrip:
  "parseSurfaceClaimKey key = Some (t, f) \<longleftrightarrow>
     key = surfaceClaimKey t f \<and> plain_target t \<and> dot_plus (sf_path f)"
proof
  assume p: "parseSurfaceClaimKey key = Some (t, f)"
  then have "starts_with key ''surface:''" by (auto simp: parseSurfaceClaimKey_def split: if_splits)
  then obtain r where key: "key = ''surface:'' @ r" by (rule starts_withE)
  have t: "t = takeWhile (\<lambda>c. c \<noteq> CHR '':'') r" "t \<noteq> []"
    and rest: "dropWhile (\<lambda>c. c \<noteq> CHR '':'') r \<noteq> []"
    and f: "parse_kind_path (tl (dropWhile (\<lambda>c. c \<noteq> CHR '':'') r)) = Some f"
    using p by (auto simp: key parseSurfaceClaimKey_def starts_with_def Let_def split: if_splits)
  obtain c r' where r': "dropWhile (\<lambda>c. c \<noteq> CHR '':'') r = c # r'" using rest by (meson list.exhaust)
  then have "c = CHR '':''" by (auto simp: dropWhile_eq_Cons_conv)
  then have "r = t @ CHR '':'' # tl (dropWhile (\<lambda>c. c \<noteq> CHR '':'') r)"
    using takeWhile_dropWhile_id [of "\<lambda>c. c \<noteq> CHR '':''" r] unfolding r' t(1) by simp
  moreover have "CHR '':'' \<notin> set t" using t(1) by (auto dest: set_takeWhileD)
  ultimately show "key = surfaceClaimKey t f \<and> plain_target t \<and> dot_plus (sf_path f)"
    using f t(2) unfolding kind_path_roundtrip by (simp add: key surfaceClaimKey_def plain_target_def)
next
  assume h: "key = surfaceClaimKey t f \<and> plain_target t \<and> dot_plus (sf_path f)"
  then have "parse_kind_path (surface_kind_text (sf_kind f) @ '':'' @ sf_path f) = Some f"
    by (simp add: kind_path_roundtrip)
  with h show "parseSurfaceClaimKey key = Some (t, f)"
    using colon_split [of t "surface_kind_text (sf_kind f) @ '':'' @ sf_path f"]
    by (simp add: parseSurfaceClaimKey_def surfaceClaimKey_def starts_with_def plain_target_def)
qed

section \<open>Surfaces that overlap\<close>

lemma overlap_refl [simp]: "workSurfacesOverlap f f"
  by (simp add: workSurfacesOverlap_def)

lemma overlap_sym: "workSurfacesOverlap f h \<longleftrightarrow> workSurfacesOverlap h f"
  by (auto simp: workSurfacesOverlap_def)

text \<open>Surfaces that cover one path overlap.\<close>

lemma covers_overlap:
  assumes "surface_covers f path" and "surface_covers h path"
  shows "workSurfacesOverlap f h"
proof -
  have "sf_path f = sf_path h" if "surface_text f = surface_text h"
    using that by (cases "sf_kind f"; cases "sf_kind h") (auto simp: surface_text_def)
  with covered_twice [OF assms] show ?thesis
    by (auto simp: contains_def workSurfacesOverlap_def)
qed

lemma valid_surfaces_apart:
  assumes "milestone_issues m = []" and "f \<in> set (gm_workSurfaces m)" and "h \<in> set (gm_workSurfaces m)"
    and "f \<noteq> h"
  shows "\<not> workSurfacesOverlap f h"
proof -
  obtain i j where ij: "i < length (gm_workSurfaces m)" "j < length (gm_workSurfaces m)"
    "gm_workSurfaces m ! i = f" "gm_workSurfaces m ! j = h" "i \<noteq> j"
    using assms(2-4) by (metis in_set_conv_nth)
  have "overlap_issues (gm_workSurfaces m) = []" using assms(1) by (simp add: milestone_issues_def)
  with ij have c: "\<not> contains f h" "\<not> contains h f"
    unfolding overlap_none by (metis linorder_neqE_nat)+
  have "sf_kind f = Subtree \<or> sf_kind h = Subtree" if "sf_path f = sf_path h"
    using that assms(4) by (metis SurfaceKind.exhaust WorkSurface.equality old.unit.exhaust)
  with c show ?thesis by (auto simp: workSurfacesOverlap_def contains_def)
qed

section \<open>Keys that do not conflict\<close>

definition keys_apart :: "string \<Rightarrow> string \<Rightarrow> bool" where
  "keys_apart k k' \<longleftrightarrow> k \<noteq> k' \<and> (\<forall>t f h. parseSurfaceClaimKey k = Some (t, f) \<longrightarrow>
     parseSurfaceClaimKey k' = Some (t, h) \<longrightarrow> \<not> workSurfacesOverlap f h)"

lemma keys_apart_sym: "keys_apart k k' \<longleftrightarrow> keys_apart k' k"
  unfolding keys_apart_def using overlap_sym by blast

lemma parse_other [simp]:
  "parseSurfaceClaimKey (slot_key n) = None" "parseSurfaceClaimKey (capability_key c n) = None"
  "parseSurfaceClaimKey (resource_key r) = None"
  by (simp_all add: parseSurfaceClaimKey_def starts_with_def slot_key_def capability_key_def resource_key_def)

lemma kind_of_key [simp]:
  "claim_kind (slot_key n) = Claim_execution_slot" "claim_kind (capability_key c n) = Claim_capability"
  "claim_kind (resource_key r) = Claim_resource" "claim_kind (surfaceClaimKey t f) = Claim_surface"
  by (simp_all add: claim_kind_def starts_with_def slot_key_def capability_key_def resource_key_def surfaceClaimKey_def)

definition active_lease :: "Portfolio \<Rightarrow> uuid \<Rightarrow> ConcurrencyLease \<Rightarrow> bool" where
  "active_lease s i l \<longleftrightarrow>
     (\<exists>p. mget (concurrencyLeases s) i = Some p \<and> ls_status p = Claim_active \<and> ls_lease p = l)"

lemma active_lease_claimed: "active_lease s i l \<Longrightarrow> claimed s (cl_claimKey l)"
  by (auto simp: active_lease_def claimed_def active_leases_def list_ex_iff dest: mvalues_get)

lemma active_lease_conflict:
  assumes "active_lease s i l" and "parseSurfaceClaimKey (cl_claimKey l) = Some (t, h)"
    and "f \<in> set fs" and "workSurfacesOverlap f h"
  shows "surface_conflict s t fs"
  using assms
  by (auto simp: active_lease_def surface_conflict_def active_leases_def list_ex_iff dest!: mvalues_get)

lemma capability_slot_free: "capability_slot s pol c = Some n \<Longrightarrow> \<not> claimed s (capability_key c n)"
  by (auto simp: bind_eq_Some_conv capability_slot_def find_Some_iff)

lemma capability_slots_free:
  "capability_slots s pol cs = Some keys \<Longrightarrow> k \<in> set keys \<Longrightarrow>
     \<not> claimed s k \<and> (\<exists>c n. k = capability_key c n)"
proof (induction cs arbitrary: keys)
  case (Cons c cs)
  then obtain n rest where n: "capability_slot s pol c = Some n" "capability_slots s pol cs = Some rest"
    "keys = capability_key c n # rest"
    by (auto simp: bind_eq_Some_conv)
  from Cons.IH [OF n(2)] capability_slot_free [OF n(1)] Cons.prems(2) n(3) show ?case by auto
qed simp

lemma execution_slot_free: "executionSlot s = Some n \<Longrightarrow> \<not> claimed s (slot_key n) \<and> n \<in> {1, 2}"
  by (auto simp: executionSlot_def split: if_splits)

text \<open>What the schemas ensure of the graphs and targets: no issues, plain paths and identifiers.\<close>

definition graphs_admissible :: "PortfolioContext \<Rightarrow> Portfolio \<Rightarrow> bool" where
  "graphs_admissible cx s \<longleftrightarrow>
     (\<forall>i g v. mget (cx_programGraphs cx) i = Some g \<longrightarrow> gs_v2 g = Some v \<longrightarrow> graph_issues_v2 v = [] \<and>
        (\<forall>m\<in>set (gv_milestones v). \<forall>f\<in>set (gm_workSurfaces m). dot_plus (sf_path f))) \<and>
     (\<forall>i t. mget (integrationTargets s) i = Some t \<longrightarrow> plain_target (tgt_targetRevisionId (ts_target t)))"

lemma plan_admissible:
  assumes "graphs_admissible cx s" and a: "admission_plan cx s p = Some a"
  shows "milestone_issues (ap_node a) = []" and "plain_target (ap_target a)"
    and "f \<in> set (gm_workSurfaces (ap_node a)) \<Longrightarrow> dot_plus (sf_path f)"
proof -
  note tm = admission_termsD [OF admission_planD(1) [OF a]]
  have n: "ap_node a \<in> set (gv_milestones (tm_v2 a))"
    using admission_planD(4) [OF a] by (auto simp: next_milestone_def find_Some_iff)
  have g: "graph_issues_v2 (tm_v2 a) = []"
    "\<forall>m\<in>set (gv_milestones (tm_v2 a)). \<forall>f\<in>set (gm_workSurfaces m). dot_plus (sf_path f)"
    using assms(1) tm(1,2) by (auto simp: graphs_admissible_def AdmissionTerms.defs bind_eq_Some_conv)
  from g(1) n show "milestone_issues (ap_node a) = []" by (auto simp: graph_issues_v2_def)
  show "f \<in> set (gm_workSurfaces (ap_node a)) \<Longrightarrow> dot_plus (sf_path f)" using g(2) n by blast
  show "plain_target (ap_target a)"
    using assms(1) tm(7) by (auto simp: graphs_admissible_def AdmissionTerms.defs ap_target_def)
qed

text \<open>The keys of a plan, by family.\<close>

lemma claim_keys_cases:
  assumes a: "admission_plan cx s p = Some a" and k: "k \<in> set (claim_keys a)"
  obtains (slot) n where "k = slot_key n" "n \<in> {1, 2}" "\<not> claimed s k"
  | (capability) c n where "k = capability_key c n" "\<not> claimed s k"
  | (resource) r where "k = resource_key r" "\<not> claimed s k"
  | (surface) f where "k = surfaceClaimKey (ap_target a) f" "f \<in> set (gm_workSurfaces (ap_node a))"
proof -
  note p = admission_planD [OF a]
  from k consider "k = slot_key (ap_slot a)" | "k \<in> set (ap_capabilityKeys a)"
    | r where "r \<in> set (gm_resourceClaims (ap_node a))" "k = resource_key r"
    | f where "f \<in> set (gm_workSurfaces (ap_node a))" "k = surfaceClaimKey (ap_target a) f"
    by (auto simp: claim_keys_def)
  then show thesis
  proof cases
    case 1
    with execution_slot_free [OF p(8)] slot show ?thesis by blast
  next
    case 2
    with capability_slots_free [OF p(9)] capability show ?thesis by blast
  next
    case 3
    with p(11) resource show ?thesis by blast
  next
    case 4
    with surface show ?thesis by blast
  qed
qed

lemma new_key_apart_old:
  assumes adm: "graphs_admissible cx s" and a: "admission_plan cx s p = Some a" and k: "k \<in> set (claim_keys a)"
    and l: "active_lease s i l"
  shows "keys_apart k (cl_claimKey l)"
  using a k
proof (cases rule: claim_keys_cases)
  case (surface f)
  have p: "parseSurfaceClaimKey k = Some (ap_target a, f)"
    using plan_admissible [OF adm a] surface by (simp add: claim_key_roundtrip)
  have none: "\<not> workSurfacesOverlap f h" if "parseSurfaceClaimKey (cl_claimKey l) = Some (ap_target a, h)" for h
    using active_lease_conflict [OF l that surface(2)] admission_planD(12) [OF a] by blast
  with p have "k \<noteq> cl_claimKey l" by force
  with p none show ?thesis by (simp add: keys_apart_def)
qed (use active_lease_claimed [OF l] in \<open>auto simp: keys_apart_def\<close>)

lemma new_keys_apart:
  assumes adm: "graphs_admissible cx s" and a: "admission_plan cx s p = Some a"
    and k: "k \<in> set (claim_keys a)" "k' \<in> set (claim_keys a)" "k \<noteq> k'"
  shows "keys_apart k k'"
  using a k(1)
proof (cases rule: claim_keys_cases)
  case (surface f)
  note one = surface
  from a k(2) show ?thesis
  proof (cases rule: claim_keys_cases)
    case (surface h)
    have "parseSurfaceClaimKey k = Some (ap_target a, f)" "parseSurfaceClaimKey k' = Some (ap_target a, h)"
      using plan_admissible [OF adm a] one surface by (simp_all add: claim_key_roundtrip)
    moreover have "f \<noteq> h" using one(1) surface(1) k(3) by blast
    then have "\<not> workSurfacesOverlap f h"
      using valid_surfaces_apart [OF plan_admissible(1) [OF adm a]] one(2) surface(2) by blast
    ultimately show ?thesis using k(3) by (simp add: keys_apart_def)
  qed (use k(3) in \<open>auto simp: keys_apart_def\<close>)
qed (use k(3) in \<open>auto simp: keys_apart_def\<close>)

end
