(* ===== verification/ClaimInvariant.thy ===== *)
theory ClaimInvariant
  imports ClaimFacts IntegrationFacts
begin

text \<open>
  Every commit keeps the claims of active leases apart: leases change by renewals, by the end of
  an admission, and by an admission whose keys are apart from all active ones.
\<close>

section \<open>How leases change\<close>

abbreviation leases_keyed :: "Portfolio \<Rightarrow> bool" where
  "leases_keyed s \<equiv> keyed (\<lambda>p. cl_leaseId (ls_lease p)) (concurrencyLeases s)"

definition same_claim :: "ConcurrencyLease \<Rightarrow> ConcurrencyLease \<Rightarrow> bool" where
  "same_claim l' l \<longleftrightarrow> cl_claimKey l' = cl_claimKey l \<and> cl_claimKind l' = cl_claimKind l \<and>
     cl_admissionId l' = cl_admissionId l"

lemma same_claim_refl [simp]: "same_claim l l"
  by (simp add: same_claim_def)

text \<open>Every active lease afterwards was an active lease with the same claim before.\<close>

definition claims_shrink :: "Portfolio \<Rightarrow> Portfolio \<Rightarrow> bool" where
  "claims_shrink s s' \<longleftrightarrow> (leases_keyed s \<longrightarrow> leases_keyed s') \<and>
     (\<forall>i l'. active_lease s' i l' \<longrightarrow> (\<exists>l. active_lease s i l \<and> same_claim l' l))"

lemma claims_shrink_same: "concurrencyLeases s' = concurrencyLeases s \<Longrightarrow> claims_shrink s s'"
  by (auto simp: claims_shrink_def active_lease_def)

lemma claims_shrink_trans: "claims_shrink s t \<Longrightarrow> claims_shrink t u \<Longrightarrow> claims_shrink s u"
  unfolding claims_shrink_def same_claim_def by metis

lemma close_lease_shrinks:
  assumes "st \<noteq> Claim_active" and "close_lease sha v st at s i = Inr s'"
  shows "claims_shrink s s'"
proof -
  obtain p where p: "mget (concurrencyLeases s) i = Some p"
    and s': "s' = s\<lparr>concurrencyLeases := mput i (p\<lparr>ls_lease := end_lease st at (ls_lease p),
      ls_leaseDigest := digest_of sha (enc_ConcurrencyLease (end_lease st at (ls_lease p))),
      ls_status := st, ls_version := v\<rparr>) (concurrencyLeases s)\<rparr>"
    using assms(2) by (auto simp: close_lease_def found_Inr Let_def)
  have "leases_keyed s \<longrightarrow> leases_keyed s'"
    using p by (auto simp: s' end_lease_def dest: keyedD intro!: keyed_mput)
  with assms(1) show ?thesis by (auto simp: claims_shrink_def active_lease_def s')
qed

interpretation closing: step_monotone "close_lease sha v Claim_released at" claims_shrink
  by unfold_locales (auto intro: claims_shrink_same claims_shrink_trans close_lease_shrinks)

interpretation fencing: step_monotone "close_lease sha v Claim_fenced at" claims_shrink
  by unfold_locales (auto intro: claims_shrink_same claims_shrink_trans close_lease_shrinks)

lemma ended_shrinks:
  assumes "apply_admission_ended sha v st i reason at is s = Inr s'" and "st \<in> {Claim_released, Claim_fenced}"
  shows "claims_shrink s s'"
proof -
  obtain s0 where "try_fold (close_lease sha v st at) s0 is = Inr s'" "concurrencyLeases s0 = concurrencyLeases s"
    using assms(1) by (auto simp: apply_admission_ended_def found_Inr Let_def)
  then show ?thesis
    using assms(2) by (auto intro: claims_shrink_trans claims_shrink_same dest: closing.fold_le fencing.fold_le)
qed

lemma close_lease_admissions: "close_lease sha v st at s i = Inr s' \<Longrightarrow> portfolioAdmissions s' = portfolioAdmissions s"
  by (auto simp: close_lease_def found_Inr Let_def)

interpretation closed_admissions: step_monotone "close_lease sha v st at"
  "\<lambda>s s'. portfolioAdmissions s' = portfolioAdmissions s"
  by unfold_locales (auto dest: close_lease_admissions)

text \<open>The end of an admission leaves none of the leases it lists active.\<close>

lemma close_leases_closed:
  assumes "st \<in> {Claim_released, Claim_fenced}" and "try_fold (close_lease sha v st at) s is = Inr s'" and "i \<in> set is"
  shows "\<not> active_lease s' i l"
  using assms(2,3)
proof (induction "is" arbitrary: s)
  case (Cons j js)
  obtain s1 where s1: "close_lease sha v st at s j = Inr s1" "try_fold (close_lease sha v st at) s1 js = Inr s'"
    using Cons.prems(1) by (auto simp: try_fold_Cons_Inr simp del: try_fold.simps)
  show ?case
  proof (cases "i \<in> set js")
    case False
    with Cons.prems(2) have "i = j" by simp
    with s1(1) assms(1) have "\<not> active_lease s1 i m" for m
      by (auto simp: close_lease_def found_Inr Let_def active_lease_def)
    moreover have "claims_shrink s1 s'" using s1(2) assms(1) by (auto dest: closing.fold_le fencing.fold_le)
    ultimately show ?thesis unfolding claims_shrink_def by blast
  qed (use Cons.IH s1(2) in blast)
qed simp

lemma ended_closes:
  assumes k: "leases_keyed s" and st: "st \<in> {Claim_released, Claim_fenced}"
    and e: "apply_admission_ended sha v st j reason at (map (\<lambda>e. cl_leaseId (ls_lease e)) (admission_leases adm s)) s = Inr s'"
  shows "active_lease s' i l \<Longrightarrow> cl_admissionId l \<noteq> adm"
proof
  assume l: "active_lease s' i l" "cl_admissionId l = adm"
  obtain l0 where l0: "active_lease s i l0" "same_claim l l0"
    using ended_shrinks [OF e st] l(1) unfolding claims_shrink_def by blast
  then obtain p where p: "mget (concurrencyLeases s) i = Some p" "ls_lease p = l0" by (auto simp: active_lease_def)
  from p have "p \<in> set (mvalues (concurrencyLeases s))" by (auto dest: mvalues_get)
  moreover have "cl_leaseId l0 = i" using keyedD [OF k p(1)] p(2) by simp
  ultimately have "i \<in> set (map (\<lambda>e. cl_leaseId (ls_lease e)) (admission_leases adm s))"
    using l0(2) l(2) p(2) by (force simp: admission_leases_def same_claim_def)
  moreover obtain s0 where "try_fold (close_lease sha v st at) s0
      (map (\<lambda>e. cl_leaseId (ls_lease e)) (admission_leases adm s)) = Inr s'"
    using e by (auto simp: apply_admission_ended_def found_Inr Let_def)
  ultimately show False using close_leases_closed [OF st] l(1) by blast
qed

lemma renewal_writes:
  assumes "writes sha lc actor now cx s (Pc_lease_renew i ad t du) d"
  obtains p l where "mget (concurrencyLeases s) i = Some p" "ls_status p = Claim_active"
    "l = (ls_lease p)\<lparr>cl_renewedAt := Some now, cl_expiresAt := addMilliseconds now du\<rparr>"
    "d = PortfolioLeaseRenewed l (digest_of sha (enc_ConcurrencyLease l))"
  using assms by (auto simp: writes_def decide_defs split: if_splits option.splits)

lemma renewed_shrinks:
  assumes k: "leases_keyed s" and w: "writes sha lc actor now cx s (Pc_lease_renew i ad t du) d"
    and e: "apply_portfolio sha v at d s = Inr s'"
  shows "claims_shrink s s'"
  using w
proof (rule renewal_writes)
  fix p l
  assume p: "mget (concurrencyLeases s) i = Some p" "ls_status p = Claim_active"
    "l = (ls_lease p)\<lparr>cl_renewedAt := Some now, cl_expiresAt := addMilliseconds now du\<rparr>"
    "d = PortfolioLeaseRenewed l (digest_of sha (enc_ConcurrencyLease l))"
  have i: "cl_leaseId (ls_lease p) = i" using keyedD [OF k p(1)] by simp
  have s': "s' = s\<lparr>concurrencyLeases := mput i (p\<lparr>ls_lease := l,
      ls_leaseDigest := digest_of sha (enc_ConcurrencyLease l), ls_version := v\<rparr>) (concurrencyLeases s)\<rparr>"
    using e p i by (auto simp: apply_lease_renewed_def found_Inr check_digest_Inr)
  have "leases_keyed s'" using k i by (auto simp: s' p(3) intro!: keyed_mput)
  with p show ?thesis by (auto simp: claims_shrink_def active_lease_def s' same_claim_def)
qed

text \<open>An admission adds its leases, each under its own identifier.\<close>

definition new_lease :: "(ConcurrencyLease \<times> digest) list \<Rightarrow> uuid \<Rightarrow> ConcurrencyLease \<Rightarrow> bool" where
  "new_lease ls i l \<longleftrightarrow> cl_leaseId l = i \<and> l \<in> fst ` set ls"

lemma add_leases_active:
  assumes "try_fold (add_lease sha v) s ls = Inr s'" and "active_lease s' i l"
  shows "active_lease s i l \<or> new_lease ls i l"
  using assms
proof (induction ls arbitrary: s)
  case (Cons e ls)
  obtain x d s1 where e: "e = (x, d)" "add_lease sha v s (x, d) = Inr s1" "try_fold (add_lease sha v) s1 ls = Inr s'"
    using Cons.prems(1) by (cases e) (auto simp: try_fold_Cons_Inr simp del: try_fold.simps)
  have "active_lease s1 i l \<Longrightarrow> active_lease s i l \<or> (cl_leaseId l = i \<and> l = x)"
    using e(2) by (auto simp: add_lease_def check_digest_Inr active_lease_def split: if_splits)
  with Cons.IH [OF e(3) Cons.prems(2)] show ?case by (auto simp: new_lease_def e(1))
qed simp

lemma add_lease_keyed: "leases_keyed s \<Longrightarrow> add_lease sha v s e = Inr s' \<Longrightarrow> leases_keyed s'"
  by (auto simp: add_lease_def check_digest_Inr split: prod.splits intro!: keyed_mput)

interpretation adding: step_invariant "add_lease sha v" leases_keyed
  by unfold_locales (rule add_lease_keyed)

section \<open>The commits\<close>

lemma lease_change:
  assumes k: "leases_keyed s" and c: "portfolio_commits sha lc actor now cx c s s'"
  obtains (shrunk) "claims_shrink s s'"
  | (granted) n du p a st request pa where "c = Pc_coordinate n du" "admits sha now cx s p a st request"
    "pa = granted_admission sha now s request p a (st_generation st)" "leases_keyed s'"
    "\<forall>i l. active_lease s' i l \<longrightarrow> active_lease s i l \<or>
       (cl_leaseId l = i \<and> (\<exists>key\<in>set (claim_keys a). l = claim_lease sha now du pa key))"
  using c
proof (cases rule: commit_cases)
  case 1
  then show ?thesis by (intro shrunk claims_shrink_same) simp
next
  case (2 d v)
  note w = 2(1) and e = 2(2)
  show ?thesis
  proof (cases c)
    case (Pc_coordinate n du)
    with w have "writes sha lc actor now cx s (Pc_coordinate n du) d" by simp
    then show ?thesis
    proof (rule writes_coordinate)
      fix p a st request pa
      assume h: "admits sha now cx s p a st request" "pa = granted_admission sha now s request p a (st_generation st)"
        "d = PortfolioAdmissionGranted pa (digest_of sha (enc_PortfolioAdmission pa))
          (map (digested_lease sha) (map (claim_lease sha now du pa) (claim_keys a)))"
      let ?ls = "map (digested_lease sha) (map (claim_lease sha now du pa) (claim_keys a))"
      obtain s0 where s0: "try_fold (add_lease sha v) s0 ?ls = Inr s'" "concurrencyLeases s0 = concurrencyLeases s"
        using e by (auto simp: h(3) apply_admission_granted_def check_digest_Inr)
      have "active_lease s i l \<or> (cl_leaseId l = i \<and> (\<exists>key\<in>set (claim_keys a). l = claim_lease sha now du pa key))"
        if l: "active_lease s' i l" for i l
        using add_leases_active [OF s0(1) l] s0(2)
        by (auto simp: active_lease_def new_lease_def digested_lease_def)
      moreover have "leases_keyed s'" using adding.fold_keeps [OF _ s0(1)] k s0(2) by simp
      ultimately show ?thesis using granted [OF Pc_coordinate h(1,2)] by blast
    qed
  next
    case (Pc_lease_renew i ad t du)
    with renewed_shrinks [OF k _ e] w shrunk show ?thesis by blast
  next
    case (Pc_admission_release i g t reason)
    with w obtain ls where "d = PortfolioAdmissionReleased i g t reason now ls" by (auto dest!: writes_admission_end)
    with e show ?thesis by (intro shrunk) (auto intro: ended_shrinks)
  next
    case (Pc_admission_fence i g t reason)
    with w obtain ls where "d = PortfolioAdmissionFenced i g t reason now ls" by (auto dest!: writes_admission_end)
    with e show ?thesis by (intro shrunk) (auto intro: ended_shrinks)
  qed (use w e in \<open>auto dest!: writes_dests simp: writes_iffs apply_defs Let_def intro!: shrunk claims_shrink_same
      split: if_splits option.splits sum.splits\<close>)
qed

section \<open>The invariant\<close>

definition claims_apart :: "Portfolio \<Rightarrow> bool" where
  "claims_apart s \<longleftrightarrow> leases_keyed s \<and>
     (\<forall>i j l m. active_lease s i l \<longrightarrow> active_lease s j m \<longrightarrow> i \<noteq> j \<longrightarrow>
        keys_apart (cl_claimKey l) (cl_claimKey m))"

text \<open>The kind of a lease is that of its key: a slot is one of the two, a surface can be read back.\<close>

definition claim_typed :: "ConcurrencyLease \<Rightarrow> bool" where
  "claim_typed l \<longleftrightarrow>
     (cl_claimKind l = Claim_execution_slot \<longrightarrow> cl_claimKey l \<in> {slot_key 1, slot_key 2}) \<and>
     (cl_claimKind l = Claim_surface \<longrightarrow> parseSurfaceClaimKey (cl_claimKey l) \<noteq> None)"

definition claims_typed :: "Portfolio \<Rightarrow> bool" where
  "claims_typed s \<longleftrightarrow> (\<forall>i l. active_lease s i l \<longrightarrow> claim_typed l)"

lemma claims_apartD:
  "claims_apart s \<Longrightarrow> active_lease s i l \<Longrightarrow> active_lease s j m \<Longrightarrow> i \<noteq> j \<Longrightarrow>
     keys_apart (cl_claimKey l) (cl_claimKey m)"
  unfolding claims_apart_def by blast

lemma shrink_keeps_apart:
  assumes "claims_apart s" and sh: "claims_shrink s s'"
  shows "claims_apart s'"
  unfolding claims_apart_def
proof (intro conjI allI impI)
  show "leases_keyed s'" using assms by (simp add: claims_apart_def claims_shrink_def)
  fix i j l m
  assume "active_lease s' i l" "active_lease s' j m" "i \<noteq> j"
  moreover from this sh obtain l0 m0 where "active_lease s i l0" "same_claim l l0" "active_lease s j m0" "same_claim m m0"
    unfolding claims_shrink_def by blast
  ultimately show "keys_apart (cl_claimKey l) (cl_claimKey m)"
    using claims_apartD [OF assms(1)] by (simp add: same_claim_def)
qed

lemma commit_keeps_apart:
  assumes ok: "claims_apart s" and adm: "graphs_admissible cx s"
    and c: "portfolio_commits sha lc actor now cx c s s'"
  shows "claims_apart s'"
proof -
  have "leases_keyed s" using ok by (simp add: claims_apart_def)
  then show ?thesis using c
  proof (cases rule: lease_change)
    case shrunk
    with ok show ?thesis by (rule shrink_keeps_apart)
  next
    case (granted n du p a st request pa)
    let ?new = "\<lambda>i l. cl_leaseId l = i \<and> (\<exists>key\<in>set (claim_keys a). l = claim_lease sha now du pa key)"
    have a: "admission_plan cx s p = Some a" using granted(2) by (simp add: admits_def)
    have old: "keys_apart (cl_claimKey l) (cl_claimKey m)" if "?new i l" "active_lease s j m" for i j l m
      using that new_key_apart_old [OF adm a] by (auto simp: claim_lease_def)
    have new: "keys_apart (cl_claimKey l) (cl_claimKey m)" if "?new i l" "?new j m" "i \<noteq> j" for i j l m
    proof -
      obtain k k' where k: "k \<in> set (claim_keys a)" "l = claim_lease sha now du pa k"
        "k' \<in> set (claim_keys a)" "m = claim_lease sha now du pa k'" using \<open>?new i l\<close> \<open>?new j m\<close> by blast
      moreover have "k \<noteq> k'" using k that by auto
      ultimately show ?thesis using new_keys_apart [OF adm a k(1,3)] by (simp add: claim_lease_def)
    qed
    show ?thesis
      unfolding claims_apart_def
    proof (intro conjI allI impI)
      fix i j l m
      assume l: "active_lease s' i l" "active_lease s' j m" "i \<noteq> j"
      with granted(5) consider "active_lease s i l" "active_lease s j m" | "?new i l" "active_lease s j m"
        | "active_lease s i l" "?new j m" | "?new i l" "?new j m" by blast
      then show "keys_apart (cl_claimKey l) (cl_claimKey m)"
      proof cases
        case 1
        with claims_apartD [OF ok] l(3) show ?thesis by blast
      next
        case 3
        then have "keys_apart (cl_claimKey m) (cl_claimKey l)" using old by blast
        then show ?thesis by (simp add: keys_apart_sym)
      qed (use old new l(3) in blast)+
    qed (rule granted(4))
  qed
qed

lemma commit_keeps_typed:
  assumes ok: "claims_typed s" "leases_keyed s" and adm: "graphs_admissible cx s"
    and c: "portfolio_commits sha lc actor now cx c s s'"
  shows "claims_typed s'"
  using ok(2) c
proof (cases rule: lease_change)
  case shrunk
  with ok(1) show ?thesis
    unfolding claims_typed_def claims_shrink_def same_claim_def claim_typed_def by metis
next
  case (granted n du p a st request pa)
  have a: "admission_plan cx s p = Some a" using granted(2) by (simp add: admits_def)
  have "claim_typed (claim_lease sha now du pa k)" if "k \<in> set (claim_keys a)" for k
    using a that
  proof (cases rule: claim_keys_cases)
    case (surface f)
    with plan_admissible [OF adm a] have "parseSurfaceClaimKey k = Some (ap_target a, f)"
      by (simp add: claim_key_roundtrip)
    with surface show ?thesis by (simp add: claim_typed_def claim_lease_def)
  qed (auto simp: claim_typed_def claim_lease_def)
  with granted(5) ok(1) show ?thesis unfolding claims_typed_def by blast
qed

inductive claims_reachable :: "(string \<Rightarrow> string) \<Rightarrow> (string \<Rightarrow> string \<Rightarrow> int) \<Rightarrow> Portfolio \<Rightarrow> bool" for sha lc where
  claims_empty: "claims_reachable sha lc emptyPortfolio"
| claims_commit: "claims_reachable sha lc s \<Longrightarrow> graphs_admissible cx s \<Longrightarrow>
    portfolio_commits sha lc actor now cx c s s' \<Longrightarrow> claims_reachable sha lc s'"

lemma reachable_claims: "claims_reachable sha lc s \<Longrightarrow> claims_apart s \<and> claims_typed s"
proof (induction rule: claims_reachable.induct)
  case claims_empty
  show ?case by (simp add: claims_apart_def claims_typed_def active_lease_def emptyPortfolio_def)
next
  case (claims_commit s cx actor now c s')
  then show ?case
    using commit_keeps_apart [of s cx sha lc actor now c s'] commit_keeps_typed [of s cx sha lc actor now c s']
    by (simp add: claims_apart_def)
qed

end
