(* ===== verification/AdmissionScenario.thy ===== *)
theory AdmissionScenario
  imports IntegrationScenario ClaimInvariant
begin

text \<open>
  A concrete admission: one policy, one target and one program whose first milestone claims a
  capability, a resource and two work surfaces. The hash keeps the text of lease identifiers
  apart and is constant otherwise.
\<close>

section \<open>The hash\<close>

definition lease_sha :: "string \<Rightarrow> string" where
  "lease_sha s = (if starts_with s ''parallelplay:integration:lease:'' then drop 31 s else '''')"

lemma lease_digest [simp]: "digest_of lease_sha (JObject es) = ''''" "digest_of lease_sha (JArray xs) = ''''"
  "digest_of lease_sha JNull = ''''"
proof -
  have o1: "lease_sha (stringify (JObject fs)) = ''''" for fs
    by (cases fs; cases "hd fs") (auto simp: lease_sha_def starts_with_def)
  have a1: "lease_sha (stringify (JArray ys)) = ''''" for ys
    by (cases ys) (auto simp: lease_sha_def starts_with_def)
  show "digest_of lease_sha (JObject es) = ''''"
    using o1 by (auto simp: digest_of_def canonicalDigest_def canonicalJson_def split: sum.splits)
  show "digest_of lease_sha (JArray xs) = ''''"
    using a1 by (auto simp: digest_of_def canonicalDigest_def canonicalJson_def split: sum.splits)
qed (simp add: digest_of_def canonicalDigest_def canonicalJson_def lease_sha_def starts_with_def)

lemma lease_digests [simp]: "digest_of lease_sha (jobj fs) = ''''"
  by (simp add: jobj_def)

lemma lease_encodings [simp]:
  "digest_of lease_sha (enc_PortfolioPolicy p) = ''''" "digest_of lease_sha (enc_IntegrationTarget t) = ''''"
  "digest_of lease_sha (enc_VerifierContract v) = ''''" "digest_of lease_sha (enc_PortfolioAdmission a) = ''''"
  "digest_of lease_sha (enc_ConcurrencyLease l) = ''''" "digest_of lease_sha (enc_ContextPacket c) = ''''"
  "digest_of lease_sha (enc_MilestoneContract m) = ''''" "digest_of lease_sha (enc_ExecutionContract e) = ''''"
  "digest_of lease_sha (enc_CapabilityManifest k) = ''''" "ref_digest_of lease_sha r = ''''"
  by (simp_all add: enc_PortfolioPolicy_def enc_IntegrationTarget_def enc_VerifierContract_def ref_digest_of_def
      enc_PortfolioAdmission_def enc_ConcurrencyLease_def enc_ContextPacket_def enc_MilestoneContract_def
      enc_Reference_def Let_def, (cases e; simp), (cases k; simp))

lemma lease_uuid [simp]: "deterministicUuid lease_sha (generationSeed d i n vs @ x) = ''----''"
  by (simp add: deterministicUuid_def generationSeed_def lease_sha_def starts_with_def Let_def)

text \<open>A literal seed is evaluated.\<close>

lemma lease_uuid_literal: "deterministicUuid lease_sha (c # r) =
   (let hash = ((take 32 (if starts_with (c # r) ''parallelplay:integration:lease:'' then drop 31 (c # r) else ''''))
          [12 := CHR ''5''])[16 := CHR ''8''];
        slice = (\<lambda>i j. drop i (take j hash))
    in slice 0 8 @ ''-'' @ slice 8 12 @ ''-'' @ slice 12 16 @ ''-'' @ slice 16 20 @ ''-'' @ drop 20 hash)"
  by (simp only: deterministicUuid_def lease_sha_def)

section \<open>The data\<close>

definition admission_policy :: PortfolioPolicyInput where
  "admission_policy = demo_portfolio_policy\<lparr>
     pol_resources := [\<lparr>res_resourceId = ''lane'', res_kind = ''merge_lane''\<rparr>,
       \<lparr>res_resourceId = ''db'', res_kind = ''exclusive''\<rparr>],
     pol_capabilityCapacities := [\<lparr>cc_capability = ''build'', cc_capacity = 1\<rparr>]\<rparr>"

definition admission_surfaces :: "WorkSurface list" where
  "admission_surfaces = [\<lparr>sf_kind = Subtree, sf_path = ''src''\<rparr>, \<lparr>sf_kind = File, sf_path = ''doc/a''\<rparr>]"

definition admission_node :: GraphMilestone where
  "admission_node = \<lparr>gm_contract = lane_contract ''m1'', gm_dependencies = [], gm_sourcePredecessor = None,
     gm_refs = [], gm_workSurfaces = admission_surfaces, gm_resourceClaims = [''db''],
     gm_capabilityClaims = [''build'']\<rparr>"

definition admission_graph :: ProgramGraphState where
  "admission_graph = \<lparr>gs_graphRevisionId = ''g1'', gs_programId = ''p1'',
     gs_graph = Graph_v2 ((lane_graph ''g1'' ''p1'' ''m1'' [])\<lparr>gv_milestones := [admission_node]\<rparr>),
     gs_graphDigest = ''''\<rparr>"

definition admission_job_policy :: JobPolicy where
  "admission_job_policy = \<lparr>jp_maxAttempts = 1, jp_attemptTimeoutMs = 1000, jp_retryDelaysMs = []\<rparr>"

definition admission_program :: GraphProgramState where
  "admission_program = \<lparr>prog_programId = ''p1'', prog_name = ''p'', prog_programMode = ''graph_v2'',
     prog_phase = ''eligible'', prog_createdAt = 0, prog_version = 1, gp_executionRequestId = Some ''q1'',
     gp_executionRequestedAt = Some 0, gp_executionPolicy = Some admission_job_policy,
     gp_initialSourceRevisionId = Some ''h0'', gp_activeGraphRevisionId = Some ''g1'', gp_startedAt = None\<rparr>"

definition admission_workflow :: "nat \<Rightarrow> WorkflowState" where
  "admission_workflow timeout = \<lparr>wf_workflowId = ''wf'', wf_version = 1, wf_name = ''w'',
     wf_definition = \<lparr>wd_schemaVersion = Some 3, wd_workflowId = ''wf'', wd_version = 1, wd_name = ''w'',
       wd_steps = [\<lparr>ws_id = ''s'', ws_capability = ''build'', ws_dependsOn = [],
         ws_execution = Some (ContractV2 ''img'' [''run''] None None),
         ws_capabilities = Some (ManifestV2 \<lparr>cap_workspace = Read_write, cap_cpuLimit = ''1'',
           cap_memoryLimitBytes = 1, cap_pidsLimit = 1\<rparr> None None),
         ws_verification = Some \<lparr>vc_argv = [''/v''], vc_cwd = ''.'', vc_timeoutMs = timeout,
           vc_environment = [], vc_toolProbes = []\<rparr>\<rparr>]\<rparr>,
     wf_definitionDigest = '''', wf_registeredAt = 0, wf_streamVersion = 1\<rparr>"

definition admission_context :: "nat \<Rightarrow> PortfolioContext" where
  "admission_context timeout = demo_context\<lparr>
     cx_state := (cx_state demo_context)\<lparr>workflows := [(workflowKey ''wf'' 1, admission_workflow timeout)]\<rparr>,
     cx_programs := [(''p1'', admission_program)],
     cx_milestones := [(''m1'', \<lparr>mst_milestoneId = ''m1'', mst_status = M_approved, mst_generation = None,
       mst_latestValidatedOutcomePacketId = None\<rparr>)],
     cx_programGraphs := [(''g1'', admission_graph)]\<rparr>"

section \<open>The states\<close>

definition admission_first :: Portfolio where
  "admission_first =
     portfolio_step lease_sha operator 1 (admission_context 1000) (Pc_policy_approve admission_policy) emptyPortfolio"

definition admission_ready :: Portfolio where
  "admission_ready = portfolio_step lease_sha operator 2 (admission_context 1000) (Pc_target_approve demo_target) admission_first"

definition admission_granted :: Portfolio where
  "admission_granted = portfolio_step lease_sha host 3 (admission_context 1000) (Pc_coordinate 0 500) admission_ready"

definition admission_released :: Portfolio where
  "admission_released = portfolio_step lease_sha host 4 (admission_context 1000)
     (Pc_admission_release ''----'' ''----'' 1 ''done'') admission_granted"

lemma slot_one [simp]: "string_of_nat (Suc 0) = ''1''"
  by code_simp

lemmas admission_data = admission_policy_def admission_surfaces_def admission_node_def admission_graph_def
  admission_job_policy_def admission_program_def admission_workflow_def admission_context_def

lemmas admission_ops = decide_portfolio_coordinate_def open_incident_def legacy_running_def eligiblePrograms_def
  eligible_def admit_program_def admission_plan_def admission_terms_def active_admissions_def active_leases_def
  next_milestone_def milestone_in_def validations_of_def map_filter_simps base_revision_def executionSlot_def
  claimed_def capability_slot_def decide_admission_end_def admission_current_def admission_leases_def
  end_admission_def end_lease_def close_lease_def surface_conflict_def AdmissionTerms.defs AdmissionPlan.defs ap_generation_def
  ap_target_def startGraphMilestoneEvents_def graphMilestone_def milestone_step_def single_step_v3_def step_v3_def
  buildContextPacket_def recordsForMilestone_def GraphRevision.defs generation_events_def job_of_step_def
  grant_def granted_admission_def next_sequence_def claim_keys_def claim_lease_def claim_kind_def
  digested_lease_def program_started_def slot_key_def capability_key_def resource_key_def surfaceClaimKey_def
  add_lease_def gs_v2_def

declare lease_uuid_literal [simp] lane_data [simp] lane_ops [simp] admission_data [simp] admission_ops [simp]

lemmas admission_first_value [simp] = admission_first_def [simplified]
lemmas admission_ready_value [simp] = admission_ready_def [simplified]
lemmas admission_granted_value [simp] = admission_granted_def [simplified]
lemmas admission_released_value [simp] = admission_released_def [simplified]

declare lease_uuid_literal [simp del] lane_data [simp del] lane_ops [simp del] admission_data [simp del]
  admission_ops [simp del] slot_one [simp del] admission_first_value [simp del] admission_ready_value [simp del]
  admission_granted_value [simp del] admission_released_value [simp del]

section \<open>The states are reachable\<close>

lemma step_claims:
  assumes "claims_reachable sha by_length s" and "graphs_admissible cx s"
  shows "claims_reachable sha by_length (portfolio_step sha a now cx c s)"
  using assms portfolio_step_commits by (metis claims_commit)

lemma admission_graph_valid:
  "graph_issues_v2 ((lane_graph ''g1'' ''p1'' ''m1'' [])\<lparr>gv_milestones := [admission_node]\<rparr>) = []"
  by (simp add: graph_issues_v2_def validateProgramGraph_def issue_if_def lane_graph_def admission_node_def
      admission_surfaces_def entry_of_def lane_contract_def source_roots_def entry_issues_def surface_text_def
      source_successors_def mvalues_def map_from_def visit.simps deps_of_def lineage_issues_def lineage_loop_def
      while_option_unfold lineage_pass_def lineage_visit_def scope_issues_def demo_ref_def reference_def
      milestone_issues_def contains_def starts_with_def)

lemma admission_admissible:
  assumes "\<forall>i t. mget (integrationTargets s) i = Some t \<longrightarrow> plain_target (tgt_targetRevisionId (ts_target t))"
  shows "graphs_admissible (admission_context k) s"
  using assms admission_graph_valid
  by (auto simp: graphs_admissible_def admission_context_def admission_graph_def gs_v2_def dot_plus_def
      admission_node_def admission_surfaces_def split: if_splits)

lemma admission_first_reachable: "claims_reachable lease_sha by_length admission_first"
  unfolding admission_first_def
  by (intro step_claims claims_empty admission_admissible) (simp add: emptyPortfolio_def)

lemma admission_ready_reachable: "claims_reachable lease_sha by_length admission_ready"
  unfolding admission_ready_def
  by (intro step_claims admission_first_reachable admission_admissible) (simp add: admission_first_value)

lemma admission_granted_reachable: "claims_reachable lease_sha by_length admission_granted"
  unfolding admission_granted_def
  by (intro step_claims admission_ready_reachable admission_admissible)
    (auto simp: admission_ready_value plain_target_def split: if_splits)

lemma admission_differs: "admission_granted \<noteq> admission_ready" "admission_released \<noteq> admission_granted"
  by (simp_all add: admission_ready_value admission_granted_value admission_released_value)

lemma admission_commits:
  "portfolio_commits lease_sha by_length host 3 (admission_context 1000) (Pc_coordinate 0 500) admission_ready admission_granted"
  "portfolio_commits lease_sha by_length host 4 (admission_context 1000) (Pc_admission_release ''----'' ''----'' 1 ''done'')
     admission_granted admission_released"
  using portfolio_step_commits [OF admission_differs(1) [unfolded admission_granted_def]]
    portfolio_step_commits [OF admission_differs(2) [unfolded admission_released_def]]
  by (simp_all add: admission_granted_def admission_released_def)

end
