(* ===== verification/DecideRuns.thy ===== *)
theory DecideRuns
  imports Transitions
begin

text \<open>
  The branches of \<open>decide\<close> (packages/kernel/src/domain.ts) that register revisions, programs
  and workflows, create, schedule and cancel runs, and lease jobs.
\<close>

section \<open>Registration\<close>

definition oid_lengths_ok :: "SourceRevision \<Rightarrow> bool" where
  "oid_lengths_ok r =
     (case sr_objectFormat r of
        Sha1 \<Rightarrow> length (sr_commitOid r) = 40 \<and> length (sr_treeOid r) = 40
      | Sha256 \<Rightarrow> length (sr_commitOid r) = 64 \<and> length (sr_treeOid r) = 64)"

definition decide_source_revision_register ::
    "(string \<Rightarrow> string) \<Rightarrow> ProjectionState \<Rightarrow> SourceRevision \<Rightarrow> Decision" where
  "decide_source_revision_register sha st value =
     (case mget (sourceRevisions st) (sr_revisionId value) of
        Some existing \<Rightarrow> Reject (failure
          (if sr_revisionDigest (srs_revision existing) = sr_revisionDigest value
           then SOURCE_REVISION_ALREADY_EXISTS else SOURCE_REVISION_CONFLICT)
          ''Source revision identifier already exists''
          [(''revisionId'', DText (sr_revisionId value))])
      | None \<Rightarrow>
          if sr_revisionDigest value \<noteq> sourceRevisionDigest sha value
          then Reject (failure EVIDENCE_DIGEST_MISMATCH ''Source revision digest is invalid''
                 [(''revisionId'', DText (sr_revisionId value))])
          else if \<not> oid_lengths_ok value
          then Reject (failure SOURCE_REVISION_CONFLICT
                 ''Git object IDs do not match object format''
                 [(''revisionId'', DText (sr_revisionId value))])
          else Accept [event ST_source_revision (sr_revisionId value) (SourceRevisionRegistered value)]
                 K_source_revision (sr_revisionId value))"

definition decide_program_create :: "ProjectionState \<Rightarrow> uuid \<Rightarrow> string \<Rightarrow> Decision" where
  "decide_program_create st programId name =
     (if mhas (programs st) programId
      then Reject (failure PROGRAM_ALREADY_EXISTS ''Program already exists''
             [(''programId'', DText programId)])
      else Accept [event ST_program programId (ProgramCreated programId name)] K_program programId)"

definition next_workflow_version :: "ProjectionState \<Rightarrow> uuid \<Rightarrow> nat" where
  "next_workflow_version st wid =
     (let existingVersions =
        map wf_version (filter (\<lambda>w. wf_workflowId w = wid) (mvalues (workflows st)))
      in if existingVersions = [] then 1 else Max (set existingVersions) + 1)"

definition decide_workflow_register ::
    "(string \<Rightarrow> string) \<Rightarrow> ProjectionState \<Rightarrow> WorkflowDefinition \<Rightarrow> Decision" where
  "decide_workflow_register sha st w =
     (let expectedVersion = next_workflow_version st (wd_workflowId w) in
      if wd_version w \<noteq> expectedVersion
      then Reject (failure WORKFLOW_VERSION_CONFLICT
             ''Workflow versions must be registered sequentially''
             [(''workflowId'', DText (wd_workflowId w)), (''expectedVersion'', DNum expectedVersion),
              (''receivedVersion'', DNum (wd_version w))])
      else Accept [event ST_workflow (wd_workflowId w)
                     (WorkflowDefinitionRegistered w (digest_of sha (enc_WorkflowDefinition w)))]
             K_workflow (workflowKey (wd_workflowId w) (wd_version w)))"

definition decide_run_create :: "ProjectionState \<Rightarrow> uuid \<Rightarrow> uuid \<Rightarrow> uuid \<Rightarrow> nat \<Rightarrow> Decision" where
  "decide_run_create st runId programId workflowId workflowVersion =
     (if mhas (runs st) runId
      then Reject (failure RUN_ALREADY_EXISTS ''Run already exists'' [(''runId'', DText runId)])
      else if \<not> mhas (programs st) programId
      then Reject (failure PROGRAM_NOT_FOUND ''Program does not exist''
             [(''programId'', DText programId)])
      else if \<not> mhas (workflows st) (workflowKey workflowId workflowVersion)
      then Reject (failure WORKFLOW_NOT_FOUND ''Workflow version does not exist''
             [(''workflowId'', DText workflowId), (''workflowVersion'', DNum workflowVersion)])
      else Accept [event ST_run runId (RunCreated runId programId workflowId workflowVersion)]
             K_run runId)"

section \<open>Scheduling a run\<close>

text \<open>\<open>new Map(jobs.map((job) => [job.stepId, job]))\<close>: a later entry wins.\<close>

definition byStep :: "RunScheduleJob list \<Rightarrow> (string, RunScheduleJob) jsmap" where
  "byStep js = fold (\<lambda>j m. mput (rsj_stepId j) j m) js []"

definition schedule_matches ::
    "ProjectionState \<Rightarrow> WorkflowDefinition \<Rightarrow> RunScheduleJob list \<Rightarrow> bool" where
  "schedule_matches st w js \<longleftrightarrow>
     (let jobIds = remdups (map rsj_jobId js); stepIds = remdups (map rsj_stepId js);
          expectedSteps = remdups (map ws_id (wd_steps w))
      in length jobIds = length js \<and> length stepIds = length js \<and>
         length stepIds = length expectedSteps \<and>
         list_all (\<lambda>s. s \<in> set stepIds) expectedSteps \<and>
         list_all (\<lambda>j. \<not> mhas (jobs st) j) jobIds)"

definition check_step ::
    "ProjectionState \<Rightarrow> uuid \<Rightarrow> (string, RunScheduleJob) jsmap \<Rightarrow> WorkflowStep \<Rightarrow> DomainError option" where
  "check_step st runId m step =
     (case mget m (ws_id step) of
        None \<Rightarrow> Some (failure VERIFICATION_REQUIRED
                  ''Every scheduled job requires a source revision'' [(''runId'', DText runId)])
      | Some job \<Rightarrow>
        (case rsj_sourceRevisionId job of
           None \<Rightarrow> Some (failure VERIFICATION_REQUIRED
                     ''Every scheduled job requires a source revision'' [(''runId'', DText runId)])
         | Some rid \<Rightarrow>
             if \<not> mhas (sourceRevisions st) rid
             then Some (failure SOURCE_REVISION_NOT_FOUND
                    ''Scheduled source revision does not exist'' [(''revisionId'', DText rid)])
             else (case ws_verification step of
                 None \<Rightarrow> Some (failure VERIFICATION_REQUIRED
                           ''Verifier timeout must fit within the attempt timeout''
                           [(''jobId'', DText (rsj_jobId job))])
               | Some v \<Rightarrow>
                   if jp_attemptTimeoutMs (rsj_policy job) < vc_timeoutMs v
                   then Some (failure VERIFICATION_REQUIRED
                          ''Verifier timeout must fit within the attempt timeout''
                          [(''jobId'', DText (rsj_jobId job))])
                   else None)))"

fun check_steps ::
    "ProjectionState \<Rightarrow> uuid \<Rightarrow> (string, RunScheduleJob) jsmap \<Rightarrow> WorkflowStep list \<Rightarrow> DomainError option" where
  "check_steps st runId m [] = None"
| "check_steps st runId m (s # ss) =
     (case check_step st runId m s of Some e \<Rightarrow> Some e | None \<Rightarrow> check_steps st runId m ss)"

fun dependency_jobs :: "(string, RunScheduleJob) jsmap \<Rightarrow> string list \<Rightarrow> uuid list result" where
  "dependency_jobs m [] = Inr []"
| "dependency_jobs m (d # ds) =
     (case mget m d of
        None \<Rightarrow> Inl (''Missing dependency job for '' @ d)
      | Some j \<Rightarrow> (case dependency_jobs m ds of Inl e \<Rightarrow> Inl e | Inr js \<Rightarrow> Inr (rsj_jobId j # js)))"

definition scheduled_data ::
    "(string \<Rightarrow> string) \<Rightarrow> uuid \<Rightarrow> RunScheduleJob \<Rightarrow> WorkflowStep \<Rightarrow> uuid list \<Rightarrow> JobScheduledData" where
  "scheduled_data sha runId job step deps =
     \<lparr>js_jobId = rsj_jobId job, js_runId = runId, js_stepId = ws_id step,
      js_capability = ws_capability step, js_dependencyJobIds = deps,
      js_initialStatus = (if ws_dependsOn step = [] then J_ready else J_blocked),
      js_policy = rsj_policy job, js_sourceRevisionId = rsj_sourceRevisionId job,
      js_executionContract = ws_execution step,
      js_executionContractDigest =
        map_option (\<lambda>e. digest_of sha (enc_ExecutionContract e)) (ws_execution step),
      js_capabilityManifest = ws_capabilities step,
      js_capabilityManifestDigest =
        map_option (\<lambda>c. digest_of sha (enc_CapabilityManifest c)) (ws_capabilities step),
      js_contextPacketId = None, js_contextPacketDigest = None,
      js_verifierContract = ws_verification step,
      js_verifierContractDigest =
        map_option (\<lambda>c. digest_of sha (enc_VerifierContract c)) (ws_verification step)\<rparr>"

fun schedule_events ::
    "(string \<Rightarrow> string) \<Rightarrow> uuid \<Rightarrow> (string, RunScheduleJob) jsmap \<Rightarrow> WorkflowStep list \<Rightarrow>
       DomainEventInput list result" where
  "schedule_events sha runId m [] = Inr []"
| "schedule_events sha runId m (s # ss) =
     (case mget m (ws_id s) of
        None \<Rightarrow> Inl (''Missing validated job for '' @ ws_id s)
      | Some job \<Rightarrow>
        (case dependency_jobs m (ws_dependsOn s) of
           Inl e \<Rightarrow> Inl e
         | Inr deps \<Rightarrow>
           (case schedule_events sha runId m ss of
              Inl e \<Rightarrow> Inl e
            | Inr evs \<Rightarrow> Inr (event ST_job (rsj_jobId job)
                (JobScheduled (scheduled_data sha runId job s deps)) # evs))))"

definition decide_run_schedule ::
    "(string \<Rightarrow> string) \<Rightarrow> ProjectionState \<Rightarrow> uuid \<Rightarrow> RunScheduleJob list \<Rightarrow> Decision" where
  "decide_run_schedule sha st runId js =
     (case mget (runs st) runId of
        None \<Rightarrow> Reject (failure RUN_NOT_FOUND ''Run does not exist'' [(''runId'', DText runId)])
      | Some run \<Rightarrow>
          if run_status run \<noteq> R_created
          then Reject (failure
                 (if run_status run = R_scheduled \<or> run_status run = R_running
                  then RUN_ALREADY_SCHEDULED else RUN_NOT_SCHEDULABLE)
                 ''Run cannot be scheduled from its current state''
                 [(''runId'', DText (run_runId run))])
          else if list_ex (\<lambda>a. att_runId a = run_runId run \<and> att_jobId a = None \<and>
                    att_status a = A_allocated) (mvalues (attempts st))
          then Reject (failure LEGACY_ACTIVE_ATTEMPT ''Run has an active legacy attempt''
                 [(''runId'', DText (run_runId run))])
          else (case mget (workflows st) (workflowKey (run_workflowId run) (run_workflowVersion run)) of
              None \<Rightarrow> Reject (failure WORKFLOW_NOT_FOUND ''Workflow version does not exist'' [])
            | Some workflow \<Rightarrow>
                (let w = wf_definition workflow; m = byStep js in
                 if list_ex (\<lambda>s. ws_verification s = None) (wd_steps w)
                 then Reject (failure VERIFICATION_REQUIRED
                        ''Fresh schedules require verification-enabled workflow steps''
                        [(''runId'', DText (run_runId run))])
                 else if \<not> schedule_matches st w js
                 then Reject (failure SCHEDULE_MISMATCH
                        ''Schedule must contain one unique job for every workflow step''
                        [(''runId'', DText (run_runId run))])
                 else (case check_steps st (run_runId run) m (wd_steps w) of
                     Some e \<Rightarrow> Reject e
                   | None \<Rightarrow>
                       (case schedule_events sha (run_runId run) m (wd_steps w) of
                          Inl e \<Rightarrow> Throw e
                        | Inr evs \<Rightarrow>
                            Accept (evs @ [event ST_run (run_runId run) (RunScheduled (run_runId run))])
                              K_run (run_runId run))))))"

definition decide_run_cancel ::
    "(string \<Rightarrow> string) \<Rightarrow> ProjectionState \<Rightarrow> uuid \<Rightarrow> string \<Rightarrow> Decision" where
  "decide_run_cancel sha st runId reason =
     (case cancellationForRun sha st runId reason of
        Inl e \<Rightarrow> Reject e
      | Inr evs \<Rightarrow> Accept evs K_run runId)"

section \<open>Leasing a job\<close>

definition resuming :: "JobState \<Rightarrow> bool" where
  "resuming job \<longleftrightarrow> job_status job = J_active \<and> job_activeAttemptId job \<noteq> None"

text \<open>Why a job cannot be leased now, if it cannot: the checks before any event is built.\<close>

definition job_claim_error ::
    "ProjectionState \<Rightarrow> JobState \<Rightarrow> JobLeaseAcquirePayload \<Rightarrow> timestamp \<Rightarrow> DomainError option" where
  "job_claim_error st job p now =
     (let details = [(''jobId'', DText (job_jobId job))] in
      if case mget (runs st) (job_runId job) of None \<Rightarrow> True | Some r \<Rightarrow> terminal_run (run_status r)
      then Some (failure JOB_NOT_CLAIMABLE ''Job belongs to a terminal or missing run'' details)
      else if resuming job \<and>
        (case job_leaseExpiresAt job of None \<Rightarrow> False | Some t \<Rightarrow> \<not> atOrBefore t now)
      then Some (failure JOB_LEASE_CONFLICT ''Job already has an active lease'' details)
      else if \<not> resuming job \<and>
        \<not> ((job_status job = J_ready \<or> job_status job = J_retry_wait) \<and>
           atOrBefore (job_availableAt job) now \<and> job_activeAttemptId job = None)
      then Some (failure JOB_NOT_CLAIMABLE ''Job is not ready to be claimed'' details)
      else if \<not> resuming job \<and>
        (mhas (attempts st) (jla_attemptId p) \<or> mhas (outbox st) (jla_startOutboxId p))
      then Some (failure JOB_NOT_CLAIMABLE ''Attempt or outbox identifier already exists'' details)
      else None)"

definition job_context_packet :: "ProjectionState \<Rightarrow> JobState \<Rightarrow> ContextPacketState option" where
  "job_context_packet st job = Option.bind (job_contextPacketId job) (mget (contextPackets st))"

definition context_packet_valid ::
    "(string \<Rightarrow> string) \<Rightarrow> JobState \<Rightarrow> ContextPacketState option \<Rightarrow> bool" where
  "context_packet_valid sha job cp \<longleftrightarrow>
     (map_option ec_protocolVersion (job_executionContract job) = Some 2 \<longrightarrow>
        (case cp of None \<Rightarrow> False
         | Some p \<Rightarrow> job_contextPacketDigest job = Some (cps_packetDigest p) \<and>
             digest_of sha (enc_ContextPacket (cps_packet p)) = cps_packetDigest p))"

definition agent_start ::
    "JobState \<Rightarrow> uuid \<Rightarrow> timestamp \<Rightarrow> ContextPacketState option \<Rightarrow> AgentStart" where
  "agent_start job attemptId startedAt cp =
     \<lparr>as_driver = (if job_executionContract job = None then ''fake'' else ''generic-command''),
      as_capability = job_capability job, as_attemptId = attemptId,
      as_attemptStartedAt = Some startedAt, as_jobId = job_jobId job, as_runId = job_runId job,
      as_baseRevisionId = job_sourceRevisionId job,
      as_executionContract = job_executionContract job,
      as_executionContractDigest = job_executionContractDigest job,
      as_capabilityManifest = job_capabilityManifest job,
      as_capabilityManifestDigest = job_capabilityManifestDigest job,
      as_contextPacket = map_option cps_packet cp,
      as_contextPacketDigest = map_option cps_packetDigest cp\<rparr>"

definition job_claim_events ::
    "ProjectionState \<Rightarrow> JobState \<Rightarrow> JobLeaseAcquirePayload \<Rightarrow> timestamp \<Rightarrow> DomainEventInput list" where
  "job_claim_events st job p now =
     (case mget (runs st) (job_runId job) of
        Some run \<Rightarrow> (if run_status run = R_scheduled
                     then [event ST_run (run_runId run) (RunStarted (run_runId run))] else [])
      | None \<Rightarrow> []) @
     event ST_job (job_jobId job)
       (JobLeaseAcquired (job_jobId job) (job_runId job) (jla_ownerId p)
          (job_leaseFencingToken job + 1) (addMilliseconds now (jla_leaseDurationMs p))
          (resuming job)) #
     (if resuming job then []
      else [event ST_attempt (jla_attemptId p)
              (AttemptStarted (jla_attemptId p) (job_jobId job) (job_runId job)
                 (job_attemptCount job + 1)
                 (addMilliseconds now (jp_attemptTimeoutMs (job_policy job)))),
            outboxEnqueued (jla_startOutboxId p) job (jla_attemptId p)
              (EffectAgentStart (agent_start job (jla_attemptId p) now (job_context_packet st job)))])"

definition decide_job_lease_acquire ::
    "(string \<Rightarrow> string) \<Rightarrow> ProjectionState \<Rightarrow> JobLeaseAcquirePayload \<Rightarrow> timestamp \<Rightarrow> Decision" where
  "decide_job_lease_acquire sha st p now =
     (case mget (jobs st) (jla_jobId p) of
        None \<Rightarrow> Reject (failure JOB_NOT_FOUND ''Job does not exist'' [(''jobId'', DText (jla_jobId p))])
      | Some job \<Rightarrow>
        (case job_claim_error st job p now of
           Some e \<Rightarrow> Reject e
         | None \<Rightarrow>
             if \<not> context_packet_valid sha job (job_context_packet st job)
             then Reject (failure EVIDENCE_DIGEST_MISMATCH
                    ''Job context packet is missing or invalid'' [(''jobId'', DText (job_jobId job))])
             else Accept (job_claim_events st job p now) K_job (job_jobId job)))"

definition decide_job_lease_renew ::
    "ProjectionState \<Rightarrow> uuid \<Rightarrow> uuid \<Rightarrow> nat \<Rightarrow> nat \<Rightarrow> timestamp \<Rightarrow> Decision" where
  "decide_job_lease_renew st jobId owner token duration now =
     (case mget (jobs st) jobId of
        None \<Rightarrow> Reject (failure JOB_NOT_FOUND ''Job does not exist'' [(''jobId'', DText jobId)])
      | Some job \<Rightarrow>
        (case validateJobLease job owner token now of
           Some e \<Rightarrow> Reject e
         | None \<Rightarrow> Accept
             [event ST_job (job_jobId job)
                (JobLeaseRenewed (job_jobId job) (job_runId job) owner token
                   (addMilliseconds now duration))] K_job (job_jobId job)))"

definition decide_job_lease_release ::
    "ProjectionState \<Rightarrow> uuid \<Rightarrow> uuid \<Rightarrow> nat \<Rightarrow> timestamp \<Rightarrow> Decision" where
  "decide_job_lease_release st jobId owner token now =
     (case mget (jobs st) jobId of
        None \<Rightarrow> Reject (failure JOB_NOT_FOUND ''Job does not exist'' [(''jobId'', DText jobId)])
      | Some job \<Rightarrow>
        (case validateJobLease job owner token now of
           Some e \<Rightarrow> Reject e
         | None \<Rightarrow> Accept
             [event ST_job (job_jobId job)
                (JobLeaseReleased (job_jobId job) (job_runId job) owner token)]
             K_job (job_jobId job)))"

end
