(* ===== verification/AdmissionProperties.thy ===== *)
theory AdmissionProperties
  imports AdmissionScenario DecideRuns
begin

text \<open>
  What the coordination of the portfolio guarantees: claims are exclusive, an admission is due
  and its job is bound to its context, and an ended admission frees its claims.
\<close>

section \<open>Exclusive claims\<close>

lemma slots_taken:
  assumes "claims_reachable sha lc s"
  shows "card {i. \<exists>l. active_lease s i l \<and> cl_claimKind l = Claim_execution_slot} \<le> 2"
proof -
  let ?S = "{i. \<exists>l. active_lease s i l \<and> cl_claimKind l = Claim_execution_slot}"
  let ?key = "\<lambda>i. cl_claimKey (ls_lease (the (mget (concurrencyLeases s) i)))"
  have inv: "claims_apart s" "claims_typed s" using reachable_claims [OF assms] by auto
  have key: "active_lease s i l \<Longrightarrow> ?key i = cl_claimKey l" for i l
    by (auto simp: active_lease_def)
  have "inj_on ?key ?S"
  proof (rule inj_onI)
    fix i j
    assume "i \<in> ?S" "j \<in> ?S" and eq: "?key i = ?key j"
    then obtain l m where "active_lease s i l" "active_lease s j m" by blast
    with claims_apartD [OF inv(1)] key eq show "i = j" by (force simp: keys_apart_def)
  qed
  moreover have "?key ` ?S \<subseteq> {slot_key 1, slot_key 2}"
  proof
    fix k assume "k \<in> ?key ` ?S"
    then obtain i l where l: "k = ?key i" "active_lease s i l" "cl_claimKind l = Claim_execution_slot" by blast
    with inv(2) have "claim_typed l" by (simp add: claims_typed_def)
    with l key [OF l(2)] show "k \<in> {slot_key 1, slot_key 2}" by (simp add: claim_typed_def)
  qed
  ultimately have "card ?S \<le> card {slot_key 1, slot_key 2}" by (intro card_inj_on_le) auto
  also have "\<dots> \<le> 2" by (simp add: card_insert_if)
  finally show ?thesis .
qed

text \<open>
  C34. Exclusive claims: in every portfolio that commits reach with graphs that pass the checks of
  their schema, with targets identified by UUIDs (no colon), and without a line break in a path
  (which the schema of paths does not ensure; see the weakness below), two different active leases never hold the
  same claim, no path of an integration target is covered by the surfaces of two active surface
  leases, and at most two execution slots are taken.
\<close>

theorem claims_are_exclusive:
  assumes "claims_reachable sha lc s" and "active_lease s i l" and "active_lease s j m" and "i \<noteq> j"
  shows "cl_claimKey l \<noteq> cl_claimKey m \<and>
    (cl_claimKind l = Claim_surface \<longrightarrow> cl_claimKind m = Claim_surface \<longrightarrow>
      (\<exists>t f t' h. cl_claimKey l = surfaceClaimKey t f \<and> cl_claimKey m = surfaceClaimKey t' h \<and>
        (t = t' \<longrightarrow> \<not> (\<exists>path. surface_covers f path \<and> surface_covers h path)))) \<and>
    card {i. \<exists>l. active_lease s i l \<and> cl_claimKind l = Claim_execution_slot} \<le> 2"
proof (intro conjI impI)
  have inv: "claims_apart s" "claims_typed s" using reachable_claims [OF assms(1)] by auto
  have apart: "keys_apart (cl_claimKey l) (cl_claimKey m)" by (rule claims_apartD [OF inv(1) assms(2-4)])
  then show "cl_claimKey l \<noteq> cl_claimKey m" by (simp add: keys_apart_def)
  assume "cl_claimKind l = Claim_surface" "cl_claimKind m = Claim_surface"
  then obtain t f t' h where p: "parseSurfaceClaimKey (cl_claimKey l) = Some (t, f)"
    "parseSurfaceClaimKey (cl_claimKey m) = Some (t', h)"
    using inv(2) assms(2,3) by (fastforce simp: claims_typed_def claim_typed_def)
  have "\<not> (\<exists>path. surface_covers f path \<and> surface_covers h path)" if "t = t'"
    using apart p that covers_overlap by (auto simp: keys_apart_def)
  with p show "\<exists>t f t' h. cl_claimKey l = surfaceClaimKey t f \<and> cl_claimKey m = surfaceClaimKey t' h \<and>
      (t = t' \<longrightarrow> \<not> (\<exists>path. surface_covers f path \<and> surface_covers h path))"
    unfolding claim_key_roundtrip by blast
qed (rule slots_taken [OF assms(1)])

theorem claims_are_exclusive_witness:
  "\<exists>i j l m. active_lease admission_granted i l \<and> active_lease admission_granted j m \<and>
     cl_claimKind l = Claim_surface \<and> cl_claimKind m = Claim_surface \<and> cl_claimKey l \<noteq> cl_claimKey m"
proof -
  have "\<exists>i j l m. active_lease admission_granted i l \<and> active_lease admission_granted j m \<and> i \<noteq> j \<and>
      cl_claimKind l = Claim_surface \<and> cl_claimKind m = Claim_surface"
    unfolding active_lease_def admission_granted_value
    by (rule exI [of _ "''----:sur-face-5t1:-8ubt-ree:src''"], rule exI [of _ "''----:sur-face-5t1:-8ile-:doc/a''"]) simp
  then obtain i j l m where h: "active_lease admission_granted i l" "active_lease admission_granted j m" "i \<noteq> j"
    "cl_claimKind l = Claim_surface" "cl_claimKind m = Claim_surface" by blast
  with claims_are_exclusive [OF admission_granted_reachable h(1-3)] show ?thesis by blast
qed

text \<open>
  C37. The key of a surface claim is read back exactly: a text is parsed as the claim of a target
  on a surface if and only if it is the key made for them, the target has no colon, and the path
  is not empty and has no line terminator.
\<close>

theorem surface_claims_round_trip:
  "parseSurfaceClaimKey key = Some (t, f) \<longleftrightarrow>
     key = surfaceClaimKey t f \<and> t \<noteq> [] \<and> CHR '':'' \<notin> set t \<and>
     sf_path f \<noteq> [] \<and> CHR 0x0A \<notin> set (sf_path f) \<and> CHR 0x0D \<notin> set (sf_path f)"
  using claim_key_roundtrip [of key t f] by (auto simp: plain_target_def dot_plus_def list_all_iff)

text \<open>
  Consequently the claim on a surface whose path has a line break is invisible to the check: if
  all active leases are on such a surface, the very same surface can be claimed again.
\<close>

theorem line_break_hides_a_claim:
  assumes "CHR 0x0A \<in> set (sf_path f)" and "plain_target t"
    and "\<forall>e\<in>set (active_leases s). cl_claimKey (ls_lease e) = surfaceClaimKey t f"
  shows "workSurfacesOverlap f f \<and> \<not> surface_conflict s t [f]"
proof -
  have "parseSurfaceClaimKey (surfaceClaimKey t f) \<noteq> Some (t, h)" for h
  proof
    assume "parseSurfaceClaimKey (surfaceClaimKey t f) = Some (t, h)"
    then have "surface_kind_text (sf_kind f) @ '':'' @ sf_path f = surface_kind_text (sf_kind h) @ '':'' @ sf_path h"
      "dot_plus (sf_path h)" by (auto simp: claim_key_roundtrip surfaceClaimKey_def)
    then have "sf_path f = sf_path h" "dot_plus (sf_path h)" by (cases "sf_kind f"; cases "sf_kind h"; simp)+
    with assms(1) show False by (auto simp: dot_plus_def list_all_iff)
  qed
  with assms(3) show ?thesis by (auto simp: surface_conflict_def list_ex_iff)
qed

section \<open>What is admitted\<close>

lemma next_sequence_new: "e \<in> set (mvalues (portfolioAdmissions s)) \<Longrightarrow>
    pa_admissionSequence (as_admission e) < next_sequence s"
proof -
  assume e: "e \<in> set (mvalues (portfolioAdmissions s))"
  have "x \<in> set xs \<Longrightarrow> x \<le> fold max xs n" "n \<le> fold max xs n" for x n :: nat and xs
    by (induction xs arbitrary: n) (auto, (metis max.bounded_iff)+)
  with e show ?thesis by (simp add: next_sequence_def less_Suc_eq_le)
qed

text \<open>The parts of a plan, in terms of the portfolio and of the other components.\<close>

lemma unclaimed: "\<not> claimed s k \<Longrightarrow> active_lease s i l \<Longrightarrow> cl_claimKey l \<noteq> k"
  using active_lease_claimed by metis

lemma truthy_Some: "truthy x = Some y \<Longrightarrow> x = Some y"
  by (cases x) (auto split: if_splits)

lemma capability_slotsD:
  assumes "capability_slots s pol cs = Some keys"
  shows "\<exists>ns. keys = map2 capability_key cs ns \<and> list_all2 (\<lambda>c n. \<not> claimed s (capability_key c n) \<and>
    (\<exists>k\<in>set (pol_capabilityCapacities pol). cc_capability k = c \<and> 1 \<le> n \<and> n \<le> cc_capacity k)) cs ns"
  using assms
proof (induction cs arbitrary: keys)
  case (Cons c cs)
  then obtain n ks where n: "capability_slot s pol c = Some n" "capability_slots s pol cs = Some ks"
    "keys = capability_key c n # ks"
    by (auto simp: bind_eq_Some_conv)
  from n(1) have "\<not> claimed s (capability_key c n) \<and>
      (\<exists>k\<in>set (pol_capabilityCapacities pol). cc_capability k = c \<and> 1 \<le> n \<and> n \<le> cc_capacity k)"
    by (auto simp: capability_slot_def bind_eq_Some_conv dest!: find_member)
  moreover from Cons.IH [OF n(2)] obtain ns where "ks = map2 capability_key cs ns" "list_all2 (\<lambda>c n.
      \<not> claimed s (capability_key c n) \<and> (\<exists>k\<in>set (pol_capabilityCapacities pol).
        cc_capability k = c \<and> 1 \<le> n \<and> n \<le> cc_capacity k)) cs ns" by blast
  ultimately show ?case by (intro exI [of _ "n # ns"]) (simp add: n(3))
qed (simp add: exI [of _ "[]"])

lemma dependency_promotedD:
  assumes "dependency_promoted s d"
  shows "\<exists>r\<in>set (mvalues (promotionReceipts s)). \<exists>c. pr_programId (rs_receipt r) = cd_programId d \<and>
    mget (integrationCandidates s) (pr_candidateId (rs_receipt r)) = Some c \<and>
    ref_id (ic_graphRevisionRef (cs_candidate c)) = cd_graphRevisionId d \<and>
    ref_digest (ic_graphRevisionRef (cs_candidate c)) = cd_graphDigest d"
  using assms by (fastforce simp: dependency_promoted_def list_ex_iff split: option.splits)

lemma validated_dependencies:
  assumes "length (validations_of cx node) = length (gm_dependencies node)" and "d \<in> set (gm_dependencies node)"
  shows "\<exists>m x w. mget (cx_milestones cx) d = Some m \<and> mst_latestValidatedOutcomePacketId m = Some x \<and>
    w \<in> set (mvalues (cx_outcomeValidations cx)) \<and> ovs_milestoneId w = d \<and> ovs_outcomePacketId w = x"
proof -
  have all: "length (List.map_filter f xs) = length xs \<Longrightarrow> \<forall>x\<in>set xs. f x \<noteq> None" for f :: "'x \<Rightarrow> 'y option" and xs
  proof (induction xs)
    case (Cons x xs)
    have "length (List.map_filter f xs) \<le> length xs" by (simp add: map_filter_def)
    with Cons show ?case by (cases "f x") (auto simp: map_filter_simps)
  qed simp
  from all [OF assms(1) [unfolded validations_of_def]] assms(2) obtain v where "dependency_validation cx d = Some v"
    by blast
  then show ?thesis
    by (fastforce simp: dependency_validation_def bind_eq_Some_conv dest!: find_member truthy_Some)
qed

lemma base_revisionD:
  assumes "base_revision cx p node (validations_of cx node) = Some base"
  shows "mhas (sourceRevisions (cx_state cx)) base" and "case truthy (gm_sourcePredecessor node) of
       None \<Rightarrow> gp_initialSourceRevisionId p = Some base
     | Some d \<Rightarrow> \<exists>w\<in>set (mvalues (cx_outcomeValidations cx)). ov_milestoneId (ovs_validation w) = d \<and>
         ov_candidateRevisionId (ovs_validation w) = Some base"
proof -
  have i: "truthy (case truthy (gm_sourcePredecessor node) of None \<Rightarrow> gp_initialSourceRevisionId p
      | Some d \<Rightarrow> Option.bind (find (\<lambda>v. ov_milestoneId v = d) (validations_of cx node)) ov_candidateRevisionId) = Some base"
    and m: "mhas (sourceRevisions (cx_state cx)) base"
    using assms by (auto simp: base_revision_def bind_eq_Some_conv split: if_splits)
  show "mhas (sourceRevisions (cx_state cx)) base" by (rule m)
  have "\<exists>w\<in>set (mvalues (cx_outcomeValidations cx)). v = ovs_validation w" if "v \<in> set (validations_of cx node)" for v
  proof -
    have "\<exists>d. dependency_validation cx d = Some v" if "v \<in> set (List.map_filter (dependency_validation cx) ds)" for ds
      using that by (induction ds) (auto simp: map_filter_simps split: option.splits)
    with that obtain d where "dependency_validation cx d = Some v" unfolding validations_of_def by blast
    then show ?thesis by (auto simp: dependency_validation_def bind_eq_Some_conv dest!: find_member)
  qed
  then show "case truthy (gm_sourcePredecessor node) of
       None \<Rightarrow> gp_initialSourceRevisionId p = Some base
     | Some d \<Rightarrow> \<exists>w\<in>set (mvalues (cx_outcomeValidations cx)). ov_milestoneId (ovs_validation w) = d \<and>
         ov_candidateRevisionId (ovs_validation w) = Some base"
    using truthy_Some [OF i] by (fastforce simp: bind_eq_Some_conv split: option.splits dest!: find_member)
qed

lemma free_surfaces:
  assumes "\<not> surface_conflict s t fs" and "f \<in> set fs" and "active_lease s i l"
    and "parseSurfaceClaimKey (cl_claimKey l) = Some (t, h)"
  shows "\<not> (\<exists>path. surface_covers f path \<and> surface_covers h path)"
proof
  assume "\<exists>path. surface_covers f path \<and> surface_covers h path"
  then have "workSurfacesOverlap f h" using covers_overlap by blast
  with assms show False
    by (force simp: surface_conflict_def active_lease_def active_leases_def list_ex_iff dest!: mvalues_get)
qed

text \<open>
  C35. An accepted coordination comes from the host, on the snapshot it names, with no open
  incident and no legacy program running, and admits a program that is due. Every program before it
  in the order of requests could not be admitted. Its active graph's policy and integration target
  are registered with the digests the graph names and not superseded, and fewer admissions are
  active than the policy allows. Each graph it depends on has a promoted candidate. The milestone is
  a node of its graph, approved, and each dependency of the node is ready with a validation of its
  latest validated outcome. The generation that starts has a registered base revision: the program's
  initial revision, or the validated candidate of the node's source predecessor. The leases are one execution slot of two, one unit of each capability
  within the policy's capacity, each resource and each work surface of the node; none of the slot,
  capability and resource keys is held by an active lease, and no path is covered by a surface of the
  node and a surface that is claimed on the same target. All leases carry the admission's sequence
  number as fencing token, which is greater than every earlier one.
\<close>

theorem admission_is_due:
  assumes "decide_portfolio sha lc actor now cx s (Pc_coordinate n du) = Inr (evs, kind, i)"
  shows "actor_kind actor = System \<and> n = lastAppliedPosition (cx_state cx) \<and> \<not> open_incident s \<and> \<not> legacy_running cx \<and>
    (\<exists>pre p post gid g v pol t node gen ns pa leases.
      eligiblePrograms lc cx = pre @ p # post \<and> (\<forall>q\<in>set pre. admit_program sha actor now cx s du q = None) \<and>
      pi_data (hd evs) = PortfolioAdmissionGranted pa (digest_of sha (enc_PortfolioAdmission pa)) leases \<and>
      pa_programId pa = prog_programId p \<and>
      gp_activeGraphRevisionId p = Some gid \<and> mget (cx_programGraphs cx) gid = Some g \<and> gs_v2 g = Some v \<and>
      mget (portfolioPolicies s) (ref_id (gv_portfolioPolicyRef v)) = Some pol \<and>
      ps_policyDigest pol = ref_digest (gv_portfolioPolicyRef v) \<and> ps_supersededAt pol = None \<and>
      mget (integrationTargets s) (ref_id (gv_integrationTargetRef v)) = Some t \<and>
      ts_targetDigest t = ref_digest (gv_integrationTargetRef v) \<and> ts_supersededAt t = None \<and>
      length (filter (\<lambda>e. as_status e = Claim_active) (mvalues (portfolioAdmissions s))) <
        lim_maxExecutingPrograms (pol_limits (ps_policy pol)) \<and>
      (\<forall>d\<in>set (gv_crossProgramDependencies v). \<exists>r\<in>set (mvalues (promotionReceipts s)). \<exists>c.
        pr_programId (rs_receipt r) = cd_programId d \<and>
        mget (integrationCandidates s) (pr_candidateId (rs_receipt r)) = Some c \<and>
        ref_id (ic_graphRevisionRef (cs_candidate c)) = cd_graphRevisionId d \<and>
        ref_digest (ic_graphRevisionRef (cs_candidate c)) = cd_graphDigest d) \<and>
      node \<in> set (gv_milestones v) \<and> pa_milestoneId pa = gm_milestoneId node \<and>
      map_option mst_status (mget (cx_milestones cx) (gm_milestoneId node)) = Some M_approved \<and>
      (\<forall>d\<in>set (gm_dependencies node).
        map_option mst_status (mget (cx_milestones cx) d) = Some M_outcome_ready \<and>
        (\<exists>m x w. mget (cx_milestones cx) d = Some m \<and> mst_latestValidatedOutcomePacketId m = Some x \<and>
          w \<in> set (mvalues (cx_outcomeValidations cx)) \<and> ovs_milestoneId w = d \<and> ovs_outcomePacketId w = x)) \<and>
      Planned (MilestoneGenerationStarted gen) \<in> pi_data ` set evs \<and> gen_generationId gen = pa_generationId pa \<and>
      mhas (sourceRevisions (cx_state cx)) (gen_baseRevisionId gen) \<and>
      (case truthy (gm_sourcePredecessor node) of
         None \<Rightarrow> gp_initialSourceRevisionId p = Some (gen_baseRevisionId gen)
       | Some d \<Rightarrow> \<exists>w\<in>set (mvalues (cx_outcomeValidations cx)). ov_milestoneId (ovs_validation w) = d \<and>
           ov_candidateRevisionId (ovs_validation w) = Some (gen_baseRevisionId gen)) \<and>
      pa_executionSlot pa \<in> {1, 2} \<and>
      list_all2 (\<lambda>c n. \<exists>k\<in>set (pol_capabilityCapacities (ps_policy pol)).
        cc_capability k = c \<and> 1 \<le> n \<and> n \<le> cc_capacity k) (gm_capabilityClaims node) ns \<and>
      map (cl_claimKey \<circ> fst) leases = slot_key (pa_executionSlot pa) # map2 capability_key (gm_capabilityClaims node) ns @
        map resource_key (gm_resourceClaims node) @
        map (surfaceClaimKey (tgt_targetRevisionId (ts_target t))) (gm_workSurfaces node) \<and>
      (\<forall>j l. active_lease s j l \<longrightarrow> cl_claimKey l \<noteq> slot_key (pa_executionSlot pa) \<and>
        cl_claimKey l \<notin> set (map2 capability_key (gm_capabilityClaims node) ns) \<and>
        cl_claimKey l \<notin> resource_key ` set (gm_resourceClaims node) \<and>
        (\<forall>h. parseSurfaceClaimKey (cl_claimKey l) = Some (tgt_targetRevisionId (ts_target t), h) \<longrightarrow>
          (\<forall>f\<in>set (gm_workSurfaces node). \<not> (\<exists>path. surface_covers f path \<and> surface_covers h path)))) \<and>
      (\<forall>l\<in>set leases. cl_fencingToken (fst l) = pa_admissionSequence pa) \<and>
      (\<forall>e\<in>set (mvalues (portfolioAdmissions s)). pa_admissionSequence (as_admission e) < pa_admissionSequence pa))"
  using assms [unfolded decide_portfolio.simps]
proof (rule coordinate_admits)
  fix pre p post a st request
  assume o': "eligiblePrograms lc cx = pre @ p # post" "\<forall>q\<in>set pre. admit_program sha actor now cx s du q = None"
    and ad: "admits sha now cx s p a st request" and g: "grant sha actor now s du request p a st = Inr (evs, kind, i)"
    and h: "actor_kind actor = System" "n = lastAppliedPosition (cx_state cx)" "\<not> open_incident s" "\<not> legacy_running cx"
  let ?pa = "granted_admission sha now s request p a (st_generation st)"
  let ?ls = "map (digested_lease sha) (map (claim_lease sha now du ?pa) (claim_keys a))"
  let ?node = "ap_node a"
  have a: "admission_plan cx s p = Some a" using ad by (simp add: admits_def)
  note pd = admission_planD [OF a]
  note tm = admission_termsD [OF pd(1), unfolded AdmissionTerms.defs, simplified]
  obtain gid where gid: "gp_activeGraphRevisionId p = Some gid" "mget (cx_programGraphs cx) gid = Some (tm_graph a)"
    using tm(1) by (auto simp: bind_eq_Some_conv dest!: truthy_Some)
  have e: "pi_data (hd evs) = PortfolioAdmissionGranted ?pa (digest_of sha (enc_PortfolioAdmission ?pa)) ?ls"
    using g by (auto simp: grant_def accept_def Let_def pf_event_def)
  have node: "?node \<in> set (gv_milestones (tm_v2 a))"
    "map_option mst_status (mget (cx_milestones cx) (gm_milestoneId ?node)) = Some M_approved"
    "\<forall>d\<in>set (gm_dependencies ?node). map_option mst_status (mget (cx_milestones cx) d) = Some M_outcome_ready"
    using find_member [OF pd(4) [unfolded next_milestone_def]]
    by (auto simp: milestone_in_def list_all_iff split: option.splits)
  have vs: "\<forall>d\<in>set (gm_dependencies ?node). \<exists>m x w. mget (cx_milestones cx) d = Some m \<and>
      mst_latestValidatedOutcomePacketId m = Some x \<and> w \<in> set (mvalues (cx_outcomeValidations cx)) \<and>
      ovs_milestoneId w = d \<and> ovs_outcomePacketId w = x"
    using validated_dependencies pd(5,6) by metis
  have slot: "ap_slot a \<in> {1, 2}" "\<not> claimed s (slot_key (ap_slot a))"
    using find_member [OF pd(8) [unfolded executionSlot_def]] by auto
  obtain ns where ns: "ap_capabilityKeys a = map2 capability_key (gm_capabilityClaims ?node) ns"
    "list_all2 (\<lambda>c n. \<not> claimed s (capability_key c n) \<and> (\<exists>k\<in>set (pol_capabilityCapacities (ps_policy (tm_policy a))).
      cc_capability k = c \<and> 1 \<le> n \<and> n \<le> cc_capacity k)) (gm_capabilityClaims ?node) ns"
    using capability_slotsD [OF pd(9)] by blast
  have caps: "list_all2 (\<lambda>c n. \<exists>k\<in>set (pol_capabilityCapacities (ps_policy (tm_policy a))).
      cc_capability k = c \<and> 1 \<le> n \<and> n \<le> cc_capacity k) (gm_capabilityClaims ?node) ns"
    using ns(2) by (rule list_all2_mono) blast
  have "\<not> claimed s k" if "k \<in> set (map2 capability_key (gm_capabilityClaims ?node) ns)" for k
    using that ns(2) by (auto simp: list_all2_iff)
  moreover have pa: "pa_programId ?pa = prog_programId p" "pa_milestoneId ?pa = gm_milestoneId ?node"
    "gen_generationId (st_generation st) = pa_generationId ?pa" "pa_executionSlot ?pa = ap_slot a"
    "pa_admissionSequence ?pa = next_sequence s"
    by (simp_all add: granted_admission_def)
  ultimately have free: "\<forall>j l. active_lease s j l \<longrightarrow> cl_claimKey l \<noteq> slot_key (pa_executionSlot ?pa) \<and>
      cl_claimKey l \<notin> set (map2 capability_key (gm_capabilityClaims ?node) ns) \<and>
      cl_claimKey l \<notin> resource_key ` set (gm_resourceClaims ?node) \<and>
      (\<forall>h. parseSurfaceClaimKey (cl_claimKey l) = Some (tgt_targetRevisionId (ts_target (tm_target a)), h) \<longrightarrow>
        (\<forall>f\<in>set (gm_workSurfaces ?node). \<not> (\<exists>path. surface_covers f path \<and> surface_covers h path)))"
    unfolding pa(4) using unclaimed slot(2) pd(11) free_surfaces [OF pd(12) [unfolded ap_target_def]] by blast
  have keys: "map (cl_claimKey \<circ> fst) ?ls = slot_key (pa_executionSlot ?pa) #
      map2 capability_key (gm_capabilityClaims ?node) ns @ map resource_key (gm_resourceClaims ?node) @
      map (surfaceClaimKey (tgt_targetRevisionId (ts_target (tm_target a)))) (gm_workSurfaces ?node)"
    "\<forall>l\<in>set ?ls. cl_fencingToken (fst l) = pa_admissionSequence ?pa"
    by (simp add: digested_lease_def claim_lease_def o_def claim_keys_def ns(1) ap_target_def pa(4))
      (auto simp: digested_lease_def claim_lease_def)
  have "startGraphMilestoneEvents sha cx (tm_graph a) (gm_milestoneId ?node) (ap_generation a)
      (ap_base a) (ap_validations a) (tm_jobPolicy a) now = Inr st"
    using ad by (simp add: admits_def)
  then obtain w st3 packet where gen: "gen_baseRevisionId (st_generation st) = ap_base a"
    "st_events st = generation_events sha (st_generation st) w st3 (tm_jobPolicy a) packet"
    by (rule started_generation) blast
  have started: "Planned (MilestoneGenerationStarted (st_generation st)) \<in> pi_data ` set evs"
    using g by (auto simp: grant_def accept_def Let_def gen(2) generation_events_def pf_event_def)
  have base: "mhas (sourceRevisions (cx_state cx)) (gen_baseRevisionId (st_generation st))"
    "case truthy (gm_sourcePredecessor ?node) of
       None \<Rightarrow> gp_initialSourceRevisionId p = Some (gen_baseRevisionId (st_generation st))
     | Some d \<Rightarrow> \<exists>w\<in>set (mvalues (cx_outcomeValidations cx)). ov_milestoneId (ovs_validation w) = d \<and>
         ov_candidateRevisionId (ovs_validation w) = Some (gen_baseRevisionId (st_generation st))"
    unfolding gen(1) using base_revisionD [OF pd(7) [unfolded pd(5)]] by blast+
  have earlier: "\<forall>e\<in>set (mvalues (portfolioAdmissions s)). pa_admissionSequence (as_admission e) < pa_admissionSequence ?pa"
    unfolding pa(5) using next_sequence_new by blast
  have promoted: "\<forall>d\<in>set (gv_crossProgramDependencies (tm_v2 a)). \<exists>r\<in>set (mvalues (promotionReceipts s)). \<exists>c.
      pr_programId (rs_receipt r) = cd_programId d \<and>
      mget (integrationCandidates s) (pr_candidateId (rs_receipt r)) = Some c \<and>
      ref_id (ic_graphRevisionRef (cs_candidate c)) = cd_graphRevisionId d \<and>
      ref_digest (ic_graphRevisionRef (cs_candidate c)) = cd_graphDigest d"
    using pd(3) dependency_promotedD by (simp add: list_all_iff)
  have ready: "\<forall>d\<in>set (gm_dependencies ?node). map_option mst_status (mget (cx_milestones cx) d) = Some M_outcome_ready \<and>
      (\<exists>m x w. mget (cx_milestones cx) d = Some m \<and> mst_latestValidatedOutcomePacketId m = Some x \<and>
        w \<in> set (mvalues (cx_outcomeValidations cx)) \<and> ovs_milestoneId w = d \<and> ovs_outcomePacketId w = x)"
    using node(3) vs by blast
  show ?thesis
    using h o' e pa(1-3) gid tm(2,4-9) pd(2) [unfolded active_admissions_def] promoted node(1,2) ready base started
      slot(1) [folded pa(4)] caps keys free earlier
    by (intro conjI exI [of _ pre] exI [of _ p] exI [of _ post] exI [of _ gid] exI [of _ "tm_graph a"]
        exI [of _ "tm_v2 a"] exI [of _ "tm_policy a"] exI [of _ "tm_target a"] exI [of _ ?node]
        exI [of _ "st_generation st"] exI [of _ ns] exI [of _ ?pa] exI [of _ ?ls])
qed

lemma admission_decision:
  obtains evs kind i where "decide_portfolio lease_sha by_length host 3 (admission_context 1000) admission_ready
    (Pc_coordinate 0 500) = Inr (evs, kind, i)"
  using admission_commits(1) unfolding portfolio_commits_def by blast

theorem admission_is_due_witness:
  "\<exists>(evs :: PortfolioInput list) pa d leases. pi_data (hd evs) = PortfolioAdmissionGranted pa d leases \<and>
     map_option mst_status (mget (cx_milestones (admission_context 1000)) (pa_milestoneId pa)) = Some M_approved \<and>
     pa_executionSlot pa \<in> {1, 2}"
proof -
  obtain evs kind i where "decide_portfolio lease_sha by_length host 3 (admission_context 1000) admission_ready
      (Pc_coordinate 0 500) = Inr (evs, kind, i)" by (rule admission_decision)
  from admission_is_due [OF this] show ?thesis by (elim conjE exE) (metis (no_types, lifting))
qed

section \<open>The job that starts\<close>

fun lifecycle_of :: "PortfolioData \<Rightarrow> EventData list" where
  "lifecycle_of (Lifecycle d) = [d]"
| "lifecycle_of _ = []"

definition lifecycle_events :: "PortfolioInput list \<Rightarrow> EventData list" where
  "lifecycle_events evs = concat (map (\<lambda>e. lifecycle_of (pi_data e)) evs)"

lemma program_started_lifecycle [simp]: "lifecycle_events (program_started actor p g) = []"
  by (simp add: program_started_def lifecycle_events_def pf_event_def)

text \<open>
  C36. What an admission starts fits the run lifecycle: its events of that component are the
  context packet, a job and the schedule of its run; in every state of the run lifecycle
  \<open>evolve\<close> takes the packet and the job, and then the job is ready, based on a registered
  revision, with its verifier's time limit inside the attempt's, and its context packet is found
  and intact, as a worker's claim of the job requires.
\<close>

theorem admitted_job_is_bound:
  assumes "decide_portfolio sha lc actor now cx s (Pc_coordinate n du) = Inr (evs, kind, i)"
  shows "\<exists>packet d job run. lifecycle_events evs = [ContextPacketCompiled packet d, JobScheduled job, RunScheduled run] \<and>
    js_runId job = run \<and> \<not> mhas (runs (cx_state cx)) run \<and> \<not> mhas (jobs (cx_state cx)) (js_jobId job) \<and>
    (\<forall>st v v'. \<exists>st1 st2 j. apply_event sha now v (ContextPacketCompiled packet d) st = Inr st1 \<and>
       apply_event sha now v' (JobScheduled job) st1 = Inr st2 \<and>
       mget (jobs st2) (js_jobId job) = Some j \<and> job_status j = J_ready \<and>
       context_packet_valid sha j (job_context_packet st2 j) \<and>
       (\<exists>vc base. job_verifierContract j = Some vc \<and> vc_timeoutMs vc \<le> jp_attemptTimeoutMs (job_policy j) \<and>
          job_sourceRevisionId j = Some base \<and> mhas (sourceRevisions (cx_state cx)) base))"
  using assms [unfolded decide_portfolio.simps]
proof (rule coordinate_admits)
  fix p a st request
  assume ad: "admits sha now cx s p a st request" and g: "grant sha actor now s du request p a st = Inr (evs, kind, i)"
  let ?gen = "st_generation st"
  have "startGraphMilestoneEvents sha cx (tm_graph a) (gm_milestoneId (ap_node a)) (ap_generation a)
      (ap_base a) (ap_validations a) (tm_jobPolicy a) now = Inr st"
    using ad by (simp add: admits_def)
  then obtain w st3 packet where st: "\<not> jp_attemptTimeoutMs (tm_jobPolicy a) < vc_timeoutMs (s3_verifier st3)"
    "\<not> mhas (runs (cx_state cx)) (gen_runId ?gen)" "\<not> mhas (jobs (cx_state cx)) (gen_jobId ?gen)"
    "gen_contextPacketId ?gen = cp_contextPacketId packet" "gen_baseRevisionId ?gen = ap_base a"
    "st_events st = generation_events sha ?gen w st3 (tm_jobPolicy a) packet"
    by (rule started_generation) blast
  have base: "mhas (sourceRevisions (cx_state cx)) (ap_base a)"
    using ad by (auto simp: admits_def base_revision_def bind_eq_Some_conv split: if_splits dest!: admission_planD(7))
  let ?d = "digest_of sha (enc_ContextPacket packet)"
  let ?job = "job_of_step sha ?gen st3 (tm_jobPolicy a) ?d"
  have "lifecycle_events evs = lifecycle_events (st_events st)"
    using g program_started_lifecycle [of actor p "tm_graph a"]
    by (auto simp: grant_def accept_def Let_def pf_event_def lifecycle_events_def)
  then have ev: "lifecycle_events evs = [ContextPacketCompiled packet ?d, JobScheduled ?job, RunScheduled (gen_runId ?gen)]"
    by (simp add: st(6) generation_events_def lifecycle_events_def pf_event_def Let_def)
  show ?thesis
    using st(1-5) base
    by (intro exI [of _ packet] exI [of _ ?d] exI [of _ ?job] exI [of _ "gen_runId ?gen"])
      (simp add: ev job_of_step_def Let_def apply_JobScheduled_def job_context_bound_def job_context_absent_def
        job_new_def context_packet_valid_def job_context_packet_def)
qed

theorem admitted_job_is_bound_witness:
  "\<exists>evs packet d job run. lifecycle_events evs = [ContextPacketCompiled packet d, JobScheduled job, RunScheduled run] \<and>
     js_runId job = run"
proof -
  obtain evs kind i where "decide_portfolio lease_sha by_length host 3 (admission_context 1000) admission_ready
      (Pc_coordinate 0 500) = Inr (evs, kind, i)" by (rule admission_decision)
  from admitted_job_is_bound [OF this] show ?thesis by blast
qed

section \<open>The end of an admission\<close>

lemma end_writes:
  assumes "portfolio_commits sha lc actor now cx (Pc_admission_release i g t reason) s s' \<or>
    portfolio_commits sha lc actor now cx (Pc_admission_fence i g t reason) s s'"
  obtains st p v where "st \<in> {Claim_released, Claim_fenced}" "mget (portfolioAdmissions s) i = Some p"
    "as_status p = Claim_active" "pa_generationId (as_admission p) = g"
    "apply_admission_ended sha v st i reason now
       (map (\<lambda>e. cl_leaseId (ls_lease e)) (admission_leases (pa_admissionId (as_admission p)) s)) s = Inr s'"
proof -
  have "\<exists>st\<in>{Claim_released, Claim_fenced}. \<exists>evs k j vs. decide_admission_end st actor now s i g t reason = Inr (evs, k, j) \<and>
      length vs = length evs \<and> try_fold (evolve_portfolio sha) s (stamp now evs vs) = Inr s'"
    using assms by (auto simp: portfolio_commits_def)
  then obtain st evs k j vs where st: "st \<in> {Claim_released, Claim_fenced}"
    and e: "decide_admission_end st actor now s i g t reason = Inr (evs, k, j)" "length vs = length evs"
      "try_fold (evolve_portfolio sha) s (stamp now evs vs) = Inr s'"
    by blast
  then obtain p where p: "mget (portfolioAdmissions s) i = Some p" "as_status p = Claim_active"
    "pa_generationId (as_admission p) = g"
    "evs = [pf_event ''portfolio_admission'' (pa_admissionId (as_admission p))
      (let ls = map (\<lambda>e. cl_leaseId (ls_lease e)) (admission_leases (pa_admissionId (as_admission p)) s) in
       if st = Claim_released then PortfolioAdmissionReleased i g t reason now ls
       else PortfolioAdmissionFenced i g t reason now ls)]"
    by (auto simp: decide_admission_end_def admission_current_def accept_def reject_def Let_def
        split: if_splits option.splits)
  from p(4) e(2) obtain v where "vs = [v]" by (auto simp: length_Suc_conv)
  with e(3) p(4) st show thesis
    by (intro that [OF st p(1-3)]) (auto simp: pf_event_def Let_def split: sum.splits if_splits)
qed

text \<open>
  A committed release or fencing of an admission finds it active, ends it, and afterwards none
  of its claims is held: no active lease belongs to it.
\<close>

theorem ended_admission_frees_its_claims:
  assumes "claims_reachable sha lc s"
    and "portfolio_commits sha lc actor now cx (Pc_admission_release i g t reason) s s' \<or>
      portfolio_commits sha lc actor now cx (Pc_admission_fence i g t reason) s s'"
  shows "\<exists>p p'. mget (portfolioAdmissions s) i = Some p \<and> as_status p = Claim_active \<and>
    mget (portfolioAdmissions s') i = Some p' \<and> as_status p' \<noteq> Claim_active \<and>
    (\<forall>k l. active_lease s' k l \<longrightarrow> cl_admissionId l \<noteq> pa_admissionId (as_admission p))"
proof -
  have k: "leases_keyed s" using reachable_claims [OF assms(1)] by (simp add: claims_apart_def)
  from assms(2) obtain st p v where p: "st \<in> {Claim_released, Claim_fenced}" "mget (portfolioAdmissions s) i = Some p"
    "as_status p = Claim_active"
    and e: "apply_admission_ended sha v st i reason now
       (map (\<lambda>e. cl_leaseId (ls_lease e)) (admission_leases (pa_admissionId (as_admission p)) s)) s = Inr s'"
    by (rule end_writes)
  have "\<exists>p'. mget (portfolioAdmissions s') i = Some p' \<and> as_status p' = st"
    using e p(2) by (auto simp: apply_admission_ended_def found_Inr Let_def dest!: closed_admissions.fold_le)
  with p ended_closes [OF k p(1) e] show ?thesis by auto
qed

theorem ended_admission_frees_its_claims_witness:
  "\<not> (\<exists>k l. active_lease admission_released k l \<and> cl_admissionId l = ''----'')"
proof -
  from ended_admission_frees_its_claims [OF admission_granted_reachable disjI1 [OF admission_commits(2)]]
  show ?thesis by (auto simp: admission_granted_value)
qed

section \<open>A program that stops the others\<close>

text \<open>
  A weakness of the coordination, as the code has it: the first program in the order that
  passes all checks of the portfolio but whose verifier needs more time than its own attempt
  policy allows (which \<open>program.start\<close> does not check for graphs of version 2) ends the
  coordination with an error, whatever programs come after it, so none of them is admitted.
\<close>

theorem misfit_program_stops_coordination:
  assumes "actor_kind actor = System" and "n = lastAppliedPosition (cx_state cx)"
    and "\<not> open_incident s" and "\<not> legacy_running cx"
    and "eligiblePrograms lc cx = pre @ p # post"
    and "\<forall>q\<in>set pre. admission_plan cx s q = None" and "admission_plan cx s p = Some a"
    and "graphMilestone (tm_graph a) (gm_milestoneId (ap_node a)) = Some node"
    and "milestone_step cx (node_contract node) = Some (w, st)"
    and "jp_attemptTimeoutMs (tm_jobPolicy a) < vc_timeoutMs (s3_verifier st)"
  shows "decide_portfolio sha lc actor now cx s (Pc_coordinate n du) =
    Inl (Refused VERIFICATION_REQUIRED ''Verifier timeout must fit within attempt timeout'')"
proof -
  have skip: "first_answer f e (pre @ p # post) = y" if "\<forall>q\<in>set pre. f q = None" "f p = Some y"
    for f :: "GraphProgramState \<Rightarrow> portfolio_decision option" and e y
    using that by (induction pre) auto
  have "admit_program sha actor now cx s du q = None" if "q \<in> set pre" for q
    using that assms(6) by (simp add: admit_program_def)
  moreover have "admit_program sha actor now cx s du p =
      Some (Inl (Refused VERIFICATION_REQUIRED ''Verifier timeout must fit within attempt timeout''))"
    using assms(7-10) by (simp add: admit_program_def startGraphMilestoneEvents_def)
  ultimately show ?thesis
    using assms(1-5) skip by (simp add: decide_portfolio_coordinate_def)
qed

end
