(* ===== verification/Outbound.thy ===== *)
theory Outbound
  imports Schema
begin

text \<open>
  The authority over outbound effects (packages/kernel/src/outbound-authority.ts): an operator
  promotes policies, adapters ask for authorization of effects, report receipts or failures,
  and a failing effect suspends its policy. All of it is replayed from an append-only event
  table of its own.

  The inputs are the values the schemas (zod) parse; where the code parses a plain text itself
  (digests, reasons) the parse is part of the model. A row's JSON column is represented by the
  value it encodes. The clock and the identifier generator are arguments. Timestamps are texts
  here, as the code compares them as texts.
\<close>

section \<open>Actions and the global ceiling\<close>

datatype AutomaticActionKind =
    Attention_reprioritize
  | Record_approve
  | Github_check_upsert
  | Github_label_upsert
  | Github_comment_create
  | Github_candidate_branch_create
  | Github_draft_pr_create
  | Github_draft_pr_update
  | Notification_desktop_deliver
  | Notification_webhook_deliver
  | Merge
  | Ready_for_review
  | Release
  | Deploy
  | Scope_accept
  | Graph_accept
  | Outcome_accept
  | Policy_promote
  | Permission_change
  | Secret_change
  | Capability_expand

fun action_text :: "AutomaticActionKind \<Rightarrow> string" where
  "action_text Attention_reprioritize = ''attention.reprioritize''"
| "action_text Record_approve = ''record.approve''"
| "action_text Github_check_upsert = ''github.check.upsert''"
| "action_text Github_label_upsert = ''github.label.upsert''"
| "action_text Github_comment_create = ''github.comment.create''"
| "action_text Github_candidate_branch_create = ''github.candidate-branch.create''"
| "action_text Github_draft_pr_create = ''github.draft-pr.create''"
| "action_text Github_draft_pr_update = ''github.draft-pr.update''"
| "action_text Notification_desktop_deliver = ''notification.desktop.deliver''"
| "action_text Notification_webhook_deliver = ''notification.webhook.deliver''"
| "action_text Merge = ''merge''"
| "action_text Ready_for_review = ''ready-for-review''"
| "action_text Release = ''release''"
| "action_text Deploy = ''deploy''"
| "action_text Scope_accept = ''scope.accept''"
| "action_text Graph_accept = ''graph.accept''"
| "action_text Outcome_accept = ''outcome.accept''"
| "action_text Policy_promote = ''policy.promote''"
| "action_text Permission_change = ''permission.change''"
| "action_text Secret_change = ''secret.change''"
| "action_text Capability_expand = ''capability.expand''"

definition AUTOMATIC_ACTION_ALLOWLIST :: "AutomaticActionKind list" where
  "AUTOMATIC_ACTION_ALLOWLIST =
     [Attention_reprioritize, Record_approve, Github_check_upsert, Github_label_upsert,
      Github_comment_create, Github_candidate_branch_create, Github_draft_pr_create,
      Github_draft_pr_update, Notification_desktop_deliver, Notification_webhook_deliver]"

definition isAutomaticActionAllowed :: "AutomaticActionKind \<Rightarrow> bool" where
  "isAutomaticActionAllowed a \<longleftrightarrow> a \<in> set AUTOMATIC_ACTION_ALLOWLIST"

definition allowedOutboundActions :: "AutomaticActionKind list \<Rightarrow> AutomaticActionKind list" where
  "allowedOutboundActions as = filter isAutomaticActionAllowed as"

section \<open>Policies, effects and events\<close>

record OutboundPolicy =
  op_policyRevisionId :: uuid
  op_name :: string
  op_allowedActions :: "AutomaticActionKind list"
  op_targets :: "string list"
  op_expiresAt :: string

definition enc_OutboundPolicy :: "OutboundPolicy \<Rightarrow> jsval" where
  "enc_OutboundPolicy p = jobj
     [(''schemaVersion'', jnum 1), (''policyRevisionId'', jstr (op_policyRevisionId p)),
      (''name'', jstr (op_name p)), (''allowedActions'', jstrs (map action_text (op_allowedActions p))),
      (''targets'', jstrs (op_targets p)), (''expiresAt'', jstr (op_expiresAt p))]"

datatype PolicyStatus = PS_active | PS_suspended

record OutboundPolicyPromotion =
  pp_policy :: OutboundPolicy
  pp_policyDigest :: digest
  pp_promotionDigest :: digest
  pp_promotedBy :: string
  pp_promotedAt :: string
  pp_status :: PolicyStatus
  pp_suspendedAt :: "string option"
  pp_suspensionReason :: "string option"

record OutboundEffectRequest =
  er_adapterId :: string
  er_effectKey :: string
  er_action :: AutomaticActionKind
  er_target :: string
  er_payload :: jsval
  er_payloadDigest :: digest
  er_preconditionDigest :: digest
  er_policyPromotionDigest :: digest

definition enc_OutboundEffectRequest :: "OutboundEffectRequest \<Rightarrow> jsval" where
  "enc_OutboundEffectRequest r = jobj
     [(''schemaVersion'', jnum 1), (''adapterId'', jstr (er_adapterId r)),
      (''effectKey'', jstr (er_effectKey r)), (''action'', jstr (action_text (er_action r))),
      (''target'', jstr (er_target r)), (''payload'', Some (er_payload r)),
      (''payloadDigest'', jstr (er_payloadDigest r)),
      (''preconditionDigest'', jstr (er_preconditionDigest r)),
      (''policyPromotionDigest'', jstr (er_policyPromotionDigest r))]"

text \<open>The payload is any value, so taking the digest of a request may raise an exception.\<close>

definition request_digest :: "(string \<Rightarrow> string) \<Rightarrow> OutboundEffectRequest \<Rightarrow> digest result" where
  "request_digest sha r = canonicalDigest sha (enc_OutboundEffectRequest r)"

record OutboundEffectReceipt =
  rcpt_adapterId :: string
  rcpt_effectKey :: string
  rcpt_action :: AutomaticActionKind
  rcpt_payloadDigest :: digest
  rcpt_externalId :: string
  rcpt_requestId :: "string option"
  rcpt_observedStateDigest :: digest
  rcpt_acceptedAt :: string
  rcpt_receiptDigest :: digest

text \<open>The members of a receipt without its digest, which \<open>receiptDigest\<close> is taken over.\<close>

definition unsigned_members :: "OutboundEffectReceipt \<Rightarrow> (string \<times> jsval option) list" where
  "unsigned_members r =
     [(''schemaVersion'', jnum 1), (''adapterId'', jstr (rcpt_adapterId r)),
      (''effectKey'', jstr (rcpt_effectKey r)), (''action'', jstr (action_text (rcpt_action r))),
      (''payloadDigest'', jstr (rcpt_payloadDigest r)), (''externalId'', jstr (rcpt_externalId r)),
      (''requestId'', jnullable JString (rcpt_requestId r)),
      (''observedStateDigest'', jstr (rcpt_observedStateDigest r)),
      (''acceptedAt'', jstr (rcpt_acceptedAt r))]"

definition enc_unsigned :: "OutboundEffectReceipt \<Rightarrow> jsval" where
  "enc_unsigned r = jobj (unsigned_members r)"

definition enc_OutboundEffectReceipt :: "OutboundEffectReceipt \<Rightarrow> jsval" where
  "enc_OutboundEffectReceipt r = jobj (unsigned_members r @ [(''receiptDigest'', jstr (rcpt_receiptDigest r))])"

datatype EffectStatus = ES_authorized | ES_delivered | ES_failed

record EffectFailure =
  fl_retryable :: bool
  fl_reason :: string
  fl_occurredAt :: string

record EffectState =
  ef_request :: OutboundEffectRequest
  ef_requestDigest :: digest
  ef_authorizationDigest :: digest
  ef_authorizedAt :: string
  ef_status :: EffectStatus
  ef_receipt :: "OutboundEffectReceipt option"
  ef_failureCount :: nat
  ef_lastFailure :: "EffectFailure option"

datatype AuthorityData =
    PolicyPromoted OutboundPolicy digest digest string string
    \<comment> \<open>policy, policyDigest, promotionDigest, promotedBy, promotedAt\<close>
  | PolicySuspended digest string string \<comment> \<open>promotionDigest, suspendedAt, reason\<close>
  | EffectAuthorized OutboundEffectRequest digest digest string
    \<comment> \<open>request, requestDigest, authorizationDigest, authorizedAt\<close>
  | EffectReceiptRecorded string digest OutboundEffectReceipt string
    \<comment> \<open>effectKey, requestDigest, receipt, recordedAt\<close>
  | EffectFailed string digest bool string string
    \<comment> \<open>effectKey, requestDigest, retryable, reason, occurredAt\<close>

fun authority_eventType :: "AuthorityData \<Rightarrow> string" where
  "authority_eventType (PolicyPromoted _ _ _ _ _) = ''policy.promoted''"
| "authority_eventType (PolicySuspended _ _ _) = ''policy.suspended''"
| "authority_eventType (EffectAuthorized _ _ _ _) = ''effect.authorized''"
| "authority_eventType (EffectReceiptRecorded _ _ _ _) = ''effect.receipt-recorded''"
| "authority_eventType (EffectFailed _ _ _ _ _) = ''effect.failed''"

fun enc_AuthorityData :: "AuthorityData \<Rightarrow> jsval" where
  "enc_AuthorityData (PolicyPromoted p pd prd by at) = jobj
     [(''policy'', Some (enc_OutboundPolicy p)), (''policyDigest'', jstr pd),
      (''promotionDigest'', jstr prd), (''promotedBy'', jstr by), (''promotedAt'', jstr at)]"
| "enc_AuthorityData (PolicySuspended prd at reason) = jobj
     [(''promotionDigest'', jstr prd), (''suspendedAt'', jstr at), (''reason'', jstr reason)]"
| "enc_AuthorityData (EffectAuthorized r rd ad at) = jobj
     [(''request'', Some (enc_OutboundEffectRequest r)), (''requestDigest'', jstr rd),
      (''authorizationDigest'', jstr ad), (''authorizedAt'', jstr at)]"
| "enc_AuthorityData (EffectReceiptRecorded k rd rc at) = jobj
     [(''effectKey'', jstr k), (''requestDigest'', jstr rd),
      (''receipt'', Some (enc_OutboundEffectReceipt rc)), (''recordedAt'', jstr at)]"
| "enc_AuthorityData (EffectFailed k rd retryable reason at) = jobj
     [(''effectKey'', jstr k), (''requestDigest'', jstr rd), (''retryable'', Some (JBool retryable)),
      (''reason'', jstr reason), (''occurredAt'', jstr at)]"

record StoredAuthorityEvent =
  ae_globalPosition :: nat
  ae_eventId :: string
  ae_streamId :: string
  ae_data :: AuthorityData
  ae_occurredAt :: string

definition json_text :: "jsval \<Rightarrow> string" where
  "json_text v = (case canonicalJson v of Inl _ \<Rightarrow> [] | Inr s \<Rightarrow> s)"

text \<open>A loaded event still carries the text of its row's JSON column.\<close>

definition enc_StoredAuthorityEvent :: "StoredAuthorityEvent \<Rightarrow> jsval" where
  "enc_StoredAuthorityEvent e = jobj
     [(''globalPosition'', jnum (ae_globalPosition e)), (''eventId'', jstr (ae_eventId e)),
      (''eventType'', jstr (authority_eventType (ae_data e))), (''streamId'', jstr (ae_streamId e)),
      (''dataJson'', jstr (json_text (enc_AuthorityData (ae_data e)))),
      (''occurredAt'', jstr (ae_occurredAt e)), (''data'', Some (enc_AuthorityData (ae_data e)))]"

section \<open>Replay\<close>

record Authority =
  au_policies :: "(digest, OutboundPolicyPromotion) jsmap"
  au_effects :: "(string, EffectState) jsmap"

definition emptyAuthority :: Authority where
  "emptyAuthority = \<lparr>au_policies = [], au_effects = []\<rparr>"

definition policy_promoted :: "OutboundPolicy \<Rightarrow> digest \<Rightarrow> digest \<Rightarrow> string \<Rightarrow> string \<Rightarrow> OutboundPolicyPromotion" where
  "policy_promoted p pd prd by at =
     \<lparr>pp_policy = p, pp_policyDigest = pd, pp_promotionDigest = prd, pp_promotedBy = by,
      pp_promotedAt = at, pp_status = PS_active, pp_suspendedAt = None, pp_suspensionReason = None\<rparr>"

definition policy_suspended :: "string \<Rightarrow> string \<Rightarrow> OutboundPolicyPromotion \<Rightarrow> OutboundPolicyPromotion" where
  "policy_suspended at reason p =
     p\<lparr>pp_status := PS_suspended, pp_suspendedAt := Some at, pp_suspensionReason := Some reason\<rparr>"

definition effect_authorized :: "OutboundEffectRequest \<Rightarrow> digest \<Rightarrow> digest \<Rightarrow> string \<Rightarrow> EffectState" where
  "effect_authorized r rd ad at =
     \<lparr>ef_request = r, ef_requestDigest = rd, ef_authorizationDigest = ad, ef_authorizedAt = at,
      ef_status = ES_authorized, ef_receipt = None, ef_failureCount = 0, ef_lastFailure = None\<rparr>"

definition effect_delivered :: "OutboundEffectReceipt \<Rightarrow> EffectState \<Rightarrow> EffectState" where
  "effect_delivered rc e = e\<lparr>ef_status := ES_delivered, ef_receipt := Some rc\<rparr>"

definition effect_failed :: "bool \<Rightarrow> string \<Rightarrow> string \<Rightarrow> EffectState \<Rightarrow> EffectState" where
  "effect_failed retryable reason at e =
     e\<lparr>ef_status := (if retryable then ES_authorized else ES_failed),
       ef_failureCount := ef_failureCount e + 1,
       ef_lastFailure := Some \<lparr>fl_retryable = retryable, fl_reason = reason, fl_occurredAt = at\<rparr>\<rparr>"

fun apply_authority :: "(string \<Rightarrow> string) \<Rightarrow> Authority \<Rightarrow> AuthorityData \<Rightarrow> Authority result" where
  "apply_authority sha s (PolicyPromoted p pd prd by at) =
     (if digest_of sha (enc_OutboundPolicy p) \<noteq> pd then Inl ''Outbound policy digest drift''
      else Inr (s\<lparr>au_policies := mput prd (policy_promoted p pd prd by at) (au_policies s)\<rparr>))"
| "apply_authority sha s (PolicySuspended prd at reason) =
     (case mget (au_policies s) prd of
        None \<Rightarrow> Inl ''Outbound policy suspension references an unknown promotion''
      | Some p \<Rightarrow> Inr (s\<lparr>au_policies := mput prd (policy_suspended at reason p) (au_policies s)\<rparr>))"
| "apply_authority sha s (EffectAuthorized r rd ad at) =
     (case request_digest sha r of
        Inl x \<Rightarrow> Inl x
      | Inr d \<Rightarrow>
          if d \<noteq> rd then Inl ''Outbound request digest drift''
          else Inr (s\<lparr>au_effects := mput (er_effectKey r) (effect_authorized r rd ad at) (au_effects s)\<rparr>))"
| "apply_authority sha s (EffectReceiptRecorded k rd rc at) =
     (case mget (au_effects s) k of
        None \<Rightarrow> Inl ''Outbound receipt binding drift''
      | Some e \<Rightarrow>
          if ef_requestDigest e \<noteq> rd then Inl ''Outbound receipt binding drift''
          else Inr (s\<lparr>au_effects := mput k (effect_delivered rc e) (au_effects s)\<rparr>))"
| "apply_authority sha s (EffectFailed k rd retryable reason at) =
     (case mget (au_effects s) k of
        None \<Rightarrow> Inl ''Outbound failure binding drift''
      | Some e \<Rightarrow>
          if ef_requestDigest e \<noteq> rd then Inl ''Outbound failure binding drift''
          else Inr (s\<lparr>au_effects := mput k (effect_failed retryable reason at e) (au_effects s)\<rparr>))"

definition authority_step :: "(string \<Rightarrow> string) \<Rightarrow> Authority \<Rightarrow> StoredAuthorityEvent \<Rightarrow> Authority result" where
  "authority_step sha s e = apply_authority sha s (ae_data e)"

definition replay_authority :: "(string \<Rightarrow> string) \<Rightarrow> StoredAuthorityEvent list \<Rightarrow> Authority result" where
  "replay_authority sha es = try_fold (authority_step sha) emptyAuthority es"

definition throughPosition :: "StoredAuthorityEvent list \<Rightarrow> nat" where
  "throughPosition es = (case es of [] \<Rightarrow> 0 | _ \<Rightarrow> ae_globalPosition (last es))"

definition authorityEventDigest :: "(string \<Rightarrow> string) \<Rightarrow> StoredAuthorityEvent list \<Rightarrow> digest" where
  "authorityEventDigest sha es = digest_of sha (JArray (map enc_StoredAuthorityEvent es))"

end
