(* ===== verification/OutboundOps.thy ===== *)
theory OutboundOps
  imports Outbound JsSort
begin

text \<open>
  The operations of \<open>SqliteOutboundAuthority\<close> (packages/kernel/src/outbound-authority.ts): each
  takes the ledger and returns it with a result or an exception. No operation changes the
  ledger but by appending events.
\<close>

section \<open>Texts the operations parse\<close>

definition is_space :: "char \<Rightarrow> bool" where
  "is_space c \<longleftrightarrow> (of_char c :: nat) \<in> set [9, 10, 11, 12, 13, 32, 160]"

definition js_trim :: "string \<Rightarrow> string" where
  "js_trim s = rev (dropWhile is_space (rev (dropWhile is_space s)))"

text \<open>\<open>z.string().trim().min(1).max(limit).parse(raw)\<close>.\<close>

definition parse_text :: "nat \<Rightarrow> string \<Rightarrow> string result" where
  "parse_text limit raw =
     (let t = js_trim raw in if t = [] \<or> limit < length t then Inl ''ZodError'' else Inr t)"

definition is_hex :: "char \<Rightarrow> bool" where
  "is_hex c \<longleftrightarrow> is_digit c \<or> (97 \<le> (of_char c :: nat) \<and> (of_char c :: nat) \<le> 102)"

definition parse_digest :: "string \<Rightarrow> digest result" where
  "parse_digest raw = (if length raw = 64 \<and> list_all is_hex raw then Inr raw else Inl ''ZodError'')"

section \<open>The ledger\<close>

record Ledger =
  lg_events :: "StoredAuthorityEvent list"
  lg_closed :: bool
  lg_suspensionThreshold :: nat

definition open_ledger :: "StoredAuthorityEvent list \<Rightarrow> nat option \<Rightarrow> Ledger" where
  "open_ledger es threshold =
     \<lparr>lg_events = es, lg_closed = False,
      lg_suspensionThreshold = (case threshold of None \<Rightarrow> 3 | Some n \<Rightarrow> n)\<rparr>"

definition close_ledger :: "Ledger \<Rightarrow> Ledger" where
  "close_ledger l = l\<lparr>lg_closed := True\<rparr>"

text \<open>The row's position is the next of the table, its identifier must be new.\<close>

definition append_row ::
    "string \<Rightarrow> string \<Rightarrow> AuthorityData \<Rightarrow> string \<Rightarrow> StoredAuthorityEvent list \<Rightarrow> StoredAuthorityEvent list result" where
  "append_row eid stream d at es =
     (if eid \<in> ae_eventId ` set es
      then Inl ''UNIQUE constraint failed: outbound_authority_events.event_id''
      else Inr (es @ [\<lparr>ae_globalPosition = throughPosition es + 1, ae_eventId = eid,
                       ae_streamId = stream, ae_data = d, ae_occurredAt = at\<rparr>]))"

definition append_event ::
    "Ledger \<Rightarrow> string \<Rightarrow> string \<Rightarrow> AuthorityData \<Rightarrow> string \<Rightarrow> Ledger result" where
  "append_event l eid stream d at =
     (case append_row eid stream d at (lg_events l) of
        Inl x \<Rightarrow> Inl x
      | Inr es \<Rightarrow> Inr (l\<lparr>lg_events := es\<rparr>))"

text \<open>\<open>#assertOpen\<close> and \<open>replay(loadEvents(...))\<close>, which open every operation.\<close>

definition with_state ::
    "(string \<Rightarrow> string) \<Rightarrow> Ledger \<Rightarrow> (Authority \<Rightarrow> Ledger \<times> 'a result) \<Rightarrow> Ledger \<times> 'a result" where
  "with_state sha l f =
     (if lg_closed l then (l, Inl ''Outbound authority is closed'')
      else (case replay_authority sha (lg_events l) of Inl x \<Rightarrow> (l, Inl x) | Inr s \<Rightarrow> f s))"

section \<open>Policies\<close>

definition promotion_identity :: "digest \<Rightarrow> string \<Rightarrow> string \<Rightarrow> jsval" where
  "promotion_identity pd by at =
     jobj [(''policyDigest'', jstr pd), (''promotedBy'', jstr by), (''promotedAt'', jstr at)]"

definition promotion_digest :: "(string \<Rightarrow> string) \<Rightarrow> OutboundPolicy \<Rightarrow> string \<Rightarrow> string \<Rightarrow> digest" where
  "promotion_digest sha p by at =
     digest_of sha (promotion_identity (digest_of sha (enc_OutboundPolicy p)) by at)"

text \<open>The checks before the ledger is read.\<close>

definition policy_error :: "OutboundPolicy \<Rightarrow> string \<Rightarrow> string option" where
  "policy_error p now =
     (if length (remdups (op_allowedActions p)) \<noteq> length (op_allowedActions p)
      then Some ''Outbound policy actions must be unique''
      else (case find (\<lambda>a. \<not> isAutomaticActionAllowed a) (op_allowedActions p) of
          Some a \<Rightarrow> Some (''Outbound policy cannot exceed the global authority ceiling: '' @ action_text a)
        | None \<Rightarrow>
            if length (remdups (op_targets p)) \<noteq> length (op_targets p)
            then Some ''Outbound policy targets must be unique''
            else if op_expiresAt p \<le> now then Some ''Outbound policy must expire in the future''
            else None))"

definition promotePolicy ::
    "(string \<Rightarrow> string) \<Rightarrow> string \<Rightarrow> string \<Rightarrow> OutboundPolicy \<Rightarrow> string \<Rightarrow> Ledger \<Rightarrow>
       Ledger \<times> OutboundPolicyPromotion result" where
  "promotePolicy sha now eid policy actor l =
     (if lg_closed l then (l, Inl ''Outbound authority is closed'')
      else case policy_error policy now of
        Some x \<Rightarrow> (l, Inl x)
      | None \<Rightarrow> with_state sha l (\<lambda>s.
          (case find (\<lambda>e. op_policyRevisionId (pp_policy e) = op_policyRevisionId policy)
                  (mvalues (au_policies s)) of
             Some existing \<Rightarrow>
               if digest_of sha (enc_OutboundPolicy (pp_policy existing)) \<noteq> digest_of sha (enc_OutboundPolicy policy)
               then (l, Inl ''Outbound policy revision is immutable'')
               else (l, Inr existing)
           | None \<Rightarrow>
               (case append_event l eid (op_policyRevisionId policy)
                       (PolicyPromoted policy (digest_of sha (enc_OutboundPolicy policy))
                          (promotion_digest sha policy actor now) actor now) now of
                  Inl x \<Rightarrow> (l, Inl x)
                | Inr l' \<Rightarrow>
                    (case replay_authority sha (lg_events l') of
                       Inl x \<Rightarrow> (l', Inl x)
                     | Inr s' \<Rightarrow>
                         (case mget (au_policies s') (promotion_digest sha policy actor now) of
                            None \<Rightarrow> (l', Inl ''Outbound policy promotion was not recorded'')
                          | Some promoted \<Rightarrow> (l', Inr promoted)))))))"

definition suspendPolicy ::
    "(string \<Rightarrow> string) \<Rightarrow> string \<Rightarrow> string \<Rightarrow> digest \<Rightarrow> string \<Rightarrow> Ledger \<Rightarrow> Ledger \<times> unit result" where
  "suspendPolicy sha now eid promotionDigest reason l = with_state sha l (\<lambda>s.
     (case parse_digest promotionDigest of
        Inl x \<Rightarrow> (l, Inl x)
      | Inr d \<Rightarrow>
        (case mget (au_policies s) d of
           None \<Rightarrow> (l, Inl ''Outbound policy promotion does not exist'')
         | Some p \<Rightarrow>
             if pp_status p = PS_suspended then (l, Inr ())
             else (case parse_text 2000 reason of
                 Inl x \<Rightarrow> (l, Inl x)
               | Inr r \<Rightarrow>
                   (case append_event l eid (op_policyRevisionId (pp_policy p))
                           (PolicySuspended promotionDigest now r) now of
                      Inl x \<Rightarrow> (l, Inl x)
                    | Inr l' \<Rightarrow> (l', Inr ()))))))"

section \<open>Effects\<close>

definition authorization_identity :: "digest \<Rightarrow> digest \<Rightarrow> string \<Rightarrow> jsval" where
  "authorization_identity rd prd now =
     jobj [(''requestDigest'', jstr rd), (''policyPromotionDigest'', jstr prd), (''now'', jstr now)]"

text \<open>Why a policy does not cover a new request at a time, if it does not.\<close>

definition authorization_error ::
    "OutboundPolicyPromotion option \<Rightarrow> OutboundEffectRequest \<Rightarrow> string \<Rightarrow> string option" where
  "authorization_error policy r now =
     (case policy of
        None \<Rightarrow> Some ''Outbound policy is not active''
      | Some p \<Rightarrow>
          if pp_status p \<noteq> PS_active then Some ''Outbound policy is not active''
          else if op_expiresAt (pp_policy p) \<le> now then Some ''Outbound policy is expired''
          else if er_action r \<notin> set (op_allowedActions (pp_policy p))
          then Some ''Outbound action is not policy-approved''
          else if er_target r \<notin> set (op_targets (pp_policy p))
          then Some ''Outbound target is not policy-approved''
          else None)"

definition authorize ::
    "(string \<Rightarrow> string) \<Rightarrow> string \<Rightarrow> string \<Rightarrow> OutboundEffectRequest \<Rightarrow> Ledger \<Rightarrow> Ledger \<times> digest result" where
  "authorize sha now eid r l =
     (if lg_closed l then (l, Inl ''Outbound authority is closed'')
      else if \<not> isAutomaticActionAllowed (er_action r)
      then (l, Inl (''Outbound action is outside the non-configurable global authority ceiling: '' @
                    action_text (er_action r)))
      else with_state sha l (\<lambda>s.
        (case request_digest sha r of
           Inl x \<Rightarrow> (l, Inl x)
         | Inr rd \<Rightarrow>
             (case mget (au_effects s) (er_effectKey r) of
                Some prior \<Rightarrow>
                  if ef_requestDigest prior \<noteq> rd
                  then (l, Inl ''Outbound effect key was reused with different input'')
                  else if ef_status prior = ES_failed
                  then (l, Inl ''Outbound effect previously failed terminally'')
                  else (l, Inr (ef_authorizationDigest prior))
              | None \<Rightarrow>
                  (case authorization_error (mget (au_policies s) (er_policyPromotionDigest r)) r now of
                     Some x \<Rightarrow> (l, Inl x)
                   | None \<Rightarrow>
                       let ad = digest_of sha (authorization_identity rd (er_policyPromotionDigest r) now) in
                       (case append_event l eid (er_effectKey r) (EffectAuthorized r rd ad now) now of
                          Inl x \<Rightarrow> (l, Inl x)
                        | Inr l' \<Rightarrow> (l', Inr ad)))))))"

definition receipt_matches :: "OutboundEffectReceipt \<Rightarrow> OutboundEffectRequest \<Rightarrow> bool" where
  "receipt_matches rc r \<longleftrightarrow> rcpt_adapterId rc = er_adapterId r \<and> rcpt_effectKey rc = er_effectKey r \<and>
     rcpt_action rc = er_action r \<and> rcpt_payloadDigest rc = er_payloadDigest r"

text \<open>The effect a caller's request was authorized as, which receipts and failures refer to.\<close>

definition authorized_effect :: "Authority \<Rightarrow> OutboundEffectRequest \<Rightarrow> digest \<Rightarrow> EffectState result" where
  "authorized_effect s r rd =
     (case mget (au_effects s) (er_effectKey r) of
        None \<Rightarrow> Inl ''Outbound effect was not authorized''
      | Some e \<Rightarrow> if ef_requestDigest e \<noteq> rd then Inl ''Outbound effect was not authorized'' else Inr e)"

definition recordReceipt ::
    "(string \<Rightarrow> string) \<Rightarrow> string \<Rightarrow> string \<Rightarrow> OutboundEffectRequest \<Rightarrow> OutboundEffectReceipt \<Rightarrow> Ledger \<Rightarrow>
       Ledger \<times> unit result" where
  "recordReceipt sha now eid r rc l =
     (if lg_closed l then (l, Inl ''Outbound authority is closed'')
      else case request_digest sha r of
        Inl x \<Rightarrow> (l, Inl x)
      | Inr rd \<Rightarrow>
          if digest_of sha (enc_unsigned rc) \<noteq> rcpt_receiptDigest rc
          then (l, Inl ''Outbound receipt digest is invalid'')
          else if \<not> receipt_matches rc r
          then (l, Inl ''Outbound receipt does not match the authorized request'')
          else with_state sha l (\<lambda>s.
            (case authorized_effect s r rd of
               Inl x \<Rightarrow> (l, Inl x)
             | Inr e \<Rightarrow>
                 (case ef_receipt e of
                    Some old \<Rightarrow>
                      if rcpt_receiptDigest old \<noteq> rcpt_receiptDigest rc
                      then (l, Inl ''Outbound receipt conflicts with prior evidence'')
                      else (l, Inr ())
                  | None \<Rightarrow>
                      (case append_event l eid (er_effectKey r)
                              (EffectReceiptRecorded (er_effectKey r) rd rc now) now of
                         Inl x \<Rightarrow> (l, Inl x)
                       | Inr l' \<Rightarrow> (l', Inr ()))))))"

text \<open>
  A failure and the suspension it causes are one transaction: when the second row cannot be
  written the first is rolled back. \<open>parse\<close> trims the cut reason again.
\<close>

definition failsafe_reason :: "string \<Rightarrow> string" where
  "failsafe_reason reason =
     js_trim (take 2000 (''Fail-safe suspension after outbound effect failure: '' @ reason))"

definition failure_rows ::
    "string \<Rightarrow> string \<Rightarrow> string \<Rightarrow> OutboundEffectRequest \<Rightarrow> digest \<Rightarrow> bool \<Rightarrow> string \<Rightarrow>
       OutboundPolicyPromotion option \<Rightarrow> Ledger \<Rightarrow> Ledger result" where
  "failure_rows now eid eid' r rd retryable reason suspends l =
     (case append_event l eid (er_effectKey r) (EffectFailed (er_effectKey r) rd retryable reason now) now of
        Inl x \<Rightarrow> Inl x
      | Inr l' \<Rightarrow>
          (case suspends of
             None \<Rightarrow> Inr l'
           | Some p \<Rightarrow> append_event l' eid' (op_policyRevisionId (pp_policy p))
               (PolicySuspended (er_policyPromotionDigest r) now (failsafe_reason reason)) now))"

definition failure_suspends ::
    "nat \<Rightarrow> EffectState \<Rightarrow> bool \<Rightarrow> OutboundPolicyPromotion option \<Rightarrow> OutboundPolicyPromotion option" where
  "failure_suspends threshold e retryable policy =
     (if \<not> retryable \<or> threshold \<le> ef_failureCount e + 1
      then (case policy of Some p \<Rightarrow> (if pp_status p = PS_active then Some p else None) | None \<Rightarrow> None)
      else None)"

definition recordFailure ::
    "(string \<Rightarrow> string) \<Rightarrow> string \<Rightarrow> string \<Rightarrow> string \<Rightarrow> OutboundEffectRequest \<Rightarrow> bool \<Rightarrow> string \<Rightarrow> Ledger \<Rightarrow>
       Ledger \<times> unit result" where
  "recordFailure sha now eid eid' r retryable rawReason l =
     (if lg_closed l then (l, Inl ''Outbound authority is closed'')
      else case parse_text 2000 rawReason of
        Inl x \<Rightarrow> (l, Inl x)
      | Inr reason \<Rightarrow>
          (case request_digest sha r of
             Inl x \<Rightarrow> (l, Inl x)
           | Inr rd \<Rightarrow> with_state sha l (\<lambda>s.
               (case authorized_effect s r rd of
                  Inl x \<Rightarrow> (l, Inl x)
                | Inr e \<Rightarrow>
                    if ef_receipt e \<noteq> None then (l, Inr ())
                    else (case failure_rows now eid eid' r rd retryable reason
                              (failure_suspends (lg_suspensionThreshold l) e retryable
                                 (mget (au_policies s) (er_policyPromotionDigest r))) l of
                        Inl x \<Rightarrow> (l, Inl x)
                      | Inr l' \<Rightarrow> (l', Inr ()))))))"

section \<open>Reconciliation\<close>

datatype ReconciliationStatus = Not_observed | Observed_exact | Observed_conflict

record OutboundReconciliation =
  or_effectKey :: string
  or_status :: ReconciliationStatus
  or_externalId :: "string option"
  or_observedStateDigest :: "digest option"

text \<open>An adapter (a plug-in): its manifest and the answer it gives, or the exception it throws.\<close>

record OutboundAdapter =
  ad_kind :: string
  ad_contract :: string
  ad_id :: string
  ad_reconcile :: "OutboundEffectRequest \<Rightarrow> OutboundEffectReceipt option \<Rightarrow> OutboundReconciliation result"

text \<open>
  The refinement of \<open>OutboundReconcileRequestV1Schema\<close>. Its digest sorts the members of a
  receipt by locale, which for these nine names is the order of their code units.
\<close>

definition reconcile_request_ok ::
    "(string \<Rightarrow> string) \<Rightarrow> OutboundEffectRequest \<Rightarrow> OutboundEffectReceipt option \<Rightarrow> bool" where
  "reconcile_request_ok sha r receipt \<longleftrightarrow>
     (case receipt of
        None \<Rightarrow> True
      | Some rc \<Rightarrow> receipt_matches rc r \<and> digest_of sha (enc_unsigned rc) = rcpt_receiptDigest rc)"

definition reconcileEffect ::
    "(string \<Rightarrow> string) \<Rightarrow> string \<Rightarrow> OutboundAdapter \<Rightarrow> Ledger \<Rightarrow> Ledger \<times> OutboundReconciliation result" where
  "reconcileEffect sha rawKey adapter l =
     (if lg_closed l then (l, Inl ''Outbound authority is closed'')
      else case parse_text 500 rawKey of
        Inl x \<Rightarrow> (l, Inl x)
      | Inr key \<Rightarrow> with_state sha l (\<lambda>s.
        (l, case mget (au_effects s) key of
           None \<Rightarrow> Inl ''Outbound reconciliation references an unknown effect''
         | Some e \<Rightarrow>
             if ef_status e = ES_failed
             then Inl ''Terminally failed outbound effects cannot be reconciled''
             else if ad_kind adapter \<noteq> ''adapter'' \<or> ad_contract adapter \<noteq> ''outbound-adapter-v1'' \<or>
               ad_id adapter \<noteq> er_adapterId (ef_request e)
             then Inl ''Outbound reconciliation adapter identity does not match the effect''
             else if request_digest sha (ef_request e) \<noteq> Inr (ef_requestDigest e)
             then Inl ''Outbound reconciliation request digest drift''
             else if \<not> reconcile_request_ok sha (ef_request e) (ef_receipt e) then Inl ''ZodError''
             else (case ad_reconcile adapter (ef_request e) (ef_receipt e) of
                 Inl x \<Rightarrow> Inl x
               | Inr res \<Rightarrow>
                   if or_effectKey res \<noteq> key
                   then Inl ''Outbound reconciliation result does not match the effect key''
                   else if or_status res = Observed_exact \<and>
                     (case ef_receipt e of None \<Rightarrow> False
                      | Some rc \<Rightarrow> or_observedStateDigest res \<noteq> Some (rcpt_observedStateDigest rc))
                   then Inl ''Outbound reconciliation exact state conflicts with the prior receipt''
                   else Inr res))))"

section \<open>Snapshots\<close>

record EffectSummary =
  es_effectKey :: string
  es_requestDigest :: digest
  es_authorizationDigest :: digest
  es_status :: EffectStatus
  es_receiptDigest :: "digest option"
  es_failureCount :: nat

definition effect_summary :: "string \<Rightarrow> EffectState \<Rightarrow> EffectSummary" where
  "effect_summary k e =
     \<lparr>es_effectKey = k, es_requestDigest = ef_requestDigest e,
      es_authorizationDigest = ef_authorizationDigest e, es_status = ef_status e,
      es_receiptDigest = map_option rcpt_receiptDigest (ef_receipt e),
      es_failureCount = ef_failureCount e\<rparr>"

record AuthoritySnapshot =
  sn_throughPosition :: nat
  sn_policies :: "OutboundPolicyPromotion list"
  sn_effects :: "EffectSummary list"
  sn_eventDigest :: digest

text \<open>\<open>lc\<close> is \<open>localeCompare\<close>.\<close>

definition authority_snapshot ::
    "(string \<Rightarrow> string) \<Rightarrow> (string \<Rightarrow> string \<Rightarrow> int) \<Rightarrow> Ledger \<Rightarrow> Ledger \<times> AuthoritySnapshot result" where
  "authority_snapshot sha lc l = with_state sha l (\<lambda>s. (l, Inr
     \<lparr>sn_throughPosition = throughPosition (lg_events l),
      sn_policies = sort_by (\<lambda>p q. lc (pp_promotionDigest p) (pp_promotionDigest q)) (mvalues (au_policies s)),
      sn_effects = map (\<lambda>(k, e). effect_summary k e) (sort_by (\<lambda>p q. lc (fst p) (fst q)) (au_effects s)),
      sn_eventDigest = authorityEventDigest sha (lg_events l)\<rparr>))"

end
