(* ===== verification/OutboundFacts.thy ===== *)
theory OutboundFacts
  imports OutboundOps
begin

text \<open>
  The ledger as a state machine: which events an operation may append in which replayed state
  (\<open>admits\<close>), that every operation keeps to it, and the ledgers reachable by operations.
\<close>

text \<open>An element of an appended list stands in the first part, or in the second.\<close>

lemma append_split_first:
  "xs @ ys = pre @ e # post \<Longrightarrow> length pre < length xs \<Longrightarrow> \<exists>us. xs = pre @ e # us"
proof (induction pre arbitrary: xs)
  case Nil
  then show ?case by (cases xs) auto
next
  case (Cons a pre)
  then show ?case by (cases xs) auto
qed

lemma append_split_second:
  "xs @ ys = pre @ e # post \<Longrightarrow> \<not> length pre < length xs \<Longrightarrow> e \<in> set ys"
proof (induction pre arbitrary: xs)
  case Nil
  then show ?case by simp
next
  case (Cons a pre)
  then show ?case by (cases xs) auto
qed

section \<open>What may be appended\<close>

inductive admits :: "(string \<Rightarrow> string) \<Rightarrow> nat \<Rightarrow> Authority \<Rightarrow> AuthorityData list \<Rightarrow> bool"
  for sha threshold s where
  admits_promotion:
    "policy_error p now = None \<Longrightarrow>
     (\<And>e. e \<in> set (mvalues (au_policies s)) \<Longrightarrow> op_policyRevisionId (pp_policy e) \<noteq> op_policyRevisionId p) \<Longrightarrow>
     admits sha threshold s
       [PolicyPromoted p (digest_of sha (enc_OutboundPolicy p)) (promotion_digest sha p by now) by now]"
| admits_suspension:
    "mget (au_policies s) d = Some p \<Longrightarrow> pp_status p = PS_active \<Longrightarrow>
     admits sha threshold s [PolicySuspended d now reason]"
| admits_authorization:
    "isAutomaticActionAllowed (er_action r) \<Longrightarrow> request_digest sha r = Inr rd \<Longrightarrow>
     mget (au_effects s) (er_effectKey r) = None \<Longrightarrow>
     authorization_error (mget (au_policies s) (er_policyPromotionDigest r)) r now = None \<Longrightarrow>
     admits sha threshold s [EffectAuthorized r rd ad now]"
| admits_receipt:
    "request_digest sha r = Inr rd \<Longrightarrow> authorized_effect s r rd = Inr e \<Longrightarrow> ef_receipt e = None \<Longrightarrow>
     receipt_matches rc r \<Longrightarrow> digest_of sha (enc_unsigned rc) = rcpt_receiptDigest rc \<Longrightarrow>
     admits sha threshold s [EffectReceiptRecorded (er_effectKey r) rd rc now]"
| admits_failure:
    "request_digest sha r = Inr rd \<Longrightarrow> authorized_effect s r rd = Inr e \<Longrightarrow> ef_receipt e = None \<Longrightarrow>
     failure_suspends threshold e retryable (mget (au_policies s) (er_policyPromotionDigest r)) = None \<Longrightarrow>
     admits sha threshold s [EffectFailed (er_effectKey r) rd retryable reason now]"
| admits_failure_suspension:
    "request_digest sha r = Inr rd \<Longrightarrow> authorized_effect s r rd = Inr e \<Longrightarrow> ef_receipt e = None \<Longrightarrow>
     failure_suspends threshold e retryable (mget (au_policies s) (er_policyPromotionDigest r)) = Some p \<Longrightarrow>
     admits sha threshold s [EffectFailed (er_effectKey r) rd retryable reason now,
       PolicySuspended (er_policyPromotionDigest r) now reason']"

inductive_cases admitsE: "admits sha threshold s ds"

lemma authorized_effect_Inr:
  "authorized_effect s r rd = Inr e \<longleftrightarrow> mget (au_effects s) (er_effectKey r) = Some e \<and> ef_requestDigest e = rd"
  by (auto simp: authorized_effect_def split: option.splits)

lemma failure_suspends_Some:
  "failure_suspends n e retryable policy = Some p \<longleftrightarrow>
     (\<not> retryable \<or> n \<le> ef_failureCount e + 1) \<and> policy = Some p \<and> pp_status p = PS_active"
  by (auto simp: failure_suspends_def split: option.splits)

text \<open>Admitted events apply.\<close>

lemma admits_applies: "admits sha threshold s ds \<Longrightarrow> \<exists>s'. try_fold (apply_authority sha) s ds = Inr s'"
  by (erule admitsE) (auto simp: authorized_effect_Inr failure_suspends_Some)

section \<open>The operations keep to it\<close>

datatype LedgerOp =
    Op_promote string string OutboundPolicy string
  | Op_suspend string string digest string
  | Op_authorize string string OutboundEffectRequest
  | Op_receipt string string OutboundEffectRequest OutboundEffectReceipt
  | Op_failure string string string OutboundEffectRequest bool string
  | Op_close
  | Op_reopen "nat option"

fun perform :: "(string \<Rightarrow> string) \<Rightarrow> LedgerOp \<Rightarrow> Ledger \<Rightarrow> Ledger" where
  "perform sha (Op_promote now eid p by) l = fst (promotePolicy sha now eid p by l)"
| "perform sha (Op_suspend now eid d reason) l = fst (suspendPolicy sha now eid d reason l)"
| "perform sha (Op_authorize now eid r) l = fst (authorize sha now eid r l)"
| "perform sha (Op_receipt now eid r rc) l = fst (recordReceipt sha now eid r rc l)"
| "perform sha (Op_failure now eid eid' r retryable reason) l =
     fst (recordFailure sha now eid eid' r retryable reason l)"
| "perform sha Op_close l = close_ledger l"
| "perform sha (Op_reopen threshold) l = open_ledger (lg_events l) threshold"

lemma append_row_Inr:
  "append_row eid stream d at es = Inr es' \<longleftrightarrow> eid \<notin> ae_eventId ` set es \<and>
     es' = es @ [\<lparr>ae_globalPosition = throughPosition es + 1, ae_eventId = eid, ae_streamId = stream,
                  ae_data = d, ae_occurredAt = at\<rparr>]"
  by (auto simp: append_row_def)

lemma append_event_Inr:
  "append_event l eid stream d at = Inr l' \<longleftrightarrow>
     (\<exists>es. append_row eid stream d at (lg_events l) = Inr es \<and> l' = l\<lparr>lg_events := es\<rparr>)"
  by (auto simp: append_event_def split: sum.splits)

text \<open>Rows are only appended, in order and under new identifiers.\<close>

definition well_numbered :: "StoredAuthorityEvent list \<Rightarrow> bool" where
  "well_numbered es \<longleftrightarrow> map ae_globalPosition es = [1..<length es + 1] \<and> distinct (map ae_eventId es)"

lemma throughPosition_alt: "throughPosition es = (if es = [] then 0 else ae_globalPosition (last es))"
  by (cases es) (auto simp: throughPosition_def)

lemma throughPosition_numbered: "map ae_globalPosition es = [1..<length es + 1] \<Longrightarrow> throughPosition es = length es"
  by (cases es rule: rev_cases) (auto simp: throughPosition_alt)

lemma append_row_numbered:
  "append_row eid stream d at es = Inr es' \<Longrightarrow> well_numbered es \<Longrightarrow> well_numbered es'"
  using throughPosition_numbered [of es] by (auto simp: append_row_Inr well_numbered_def)

text \<open>What an operation did: nothing, or one admitted batch of events.\<close>

definition extends :: "(string \<Rightarrow> string) \<Rightarrow> Ledger \<Rightarrow> Ledger \<Rightarrow> bool" where
  "extends sha l l' \<longleftrightarrow> lg_events l' = lg_events l \<or>
     (\<exists>s es. replay_authority sha (lg_events l) = Inr s \<and> lg_events l' = lg_events l @ es \<and>
        admits sha (lg_suspensionThreshold l) s (map ae_data es) \<and>
        (well_numbered (lg_events l) \<longrightarrow> well_numbered (lg_events l')))"

lemma extends_refl [simp]: "extends sha l l"
  by (simp add: extends_def)

lemma extends_append:
  assumes "append_event l eid stream d at = Inr l'" and "replay_authority sha (lg_events l) = Inr s"
    and "admits sha (lg_suspensionThreshold l) s [d]"
  shows "extends sha l l'"
  using assms append_row_numbered by (fastforce simp: extends_def append_event_Inr append_row_Inr)

lemma with_state_cases:
  assumes "with_state sha l f = r"
    and "\<And>x. r = (l, Inl x) \<Longrightarrow> P" and "\<And>s. replay_authority sha (lg_events l) = Inr s \<Longrightarrow> f s = r \<Longrightarrow> P"
  shows P
  using assms by (auto simp: with_state_def split: if_splits sum.splits)

lemma extends_with_state:
  assumes "\<And>s. replay_authority sha (lg_events l) = Inr s \<Longrightarrow> extends sha l (fst (f s))"
  shows "extends sha l (fst (with_state sha l f))"
  using assms by (auto simp: with_state_def split: sum.splits)

lemma extends_promote: "extends sha l (fst (promotePolicy sha now eid p by l))"
proof -
  have "extends sha l l'" if e: "append_event l eid st (PolicyPromoted p (digest_of sha (enc_OutboundPolicy p))
      (promotion_digest sha p by now) by now) now = Inr l'"
    and s: "policy_error p now = None" "replay_authority sha (lg_events l) = Inr s"
    "find (\<lambda>e. op_policyRevisionId (pp_policy e) = op_policyRevisionId p) (mvalues (au_policies s)) = None"
    for l' s st
    using s by (intro extends_append [OF e s(2)] admits_promotion) (auto simp: find_None_iff)
  then show ?thesis
    unfolding promotePolicy_def
    by (auto intro!: extends_with_state split: option.splits sum.splits)
qed

lemma extends_suspend: "extends sha l (fst (suspendPolicy sha now eid d reason l))"
  unfolding suspendPolicy_def
  by (intro extends_with_state)
     (auto simp: parse_digest_def split: option.splits sum.splits if_splits
       intro!: extends_append admits_suspension intro: PolicyStatus.exhaust)

lemma extends_authorize: "extends sha l (fst (authorize sha now eid r l))"
  unfolding authorize_def
  by (auto intro!: extends_with_state split: option.splits sum.splits
       elim!: extends_append intro!: admits_authorization simp: Let_def)

lemma extends_receipt: "extends sha l (fst (recordReceipt sha now eid r rc l))"
  unfolding recordReceipt_def
  by (auto intro!: extends_with_state split: option.splits sum.splits
       elim!: extends_append intro!: admits_receipt)

lemma extends_failure: "extends sha l (fst (recordFailure sha now eid eid' r retryable reason l))"
proof -
  have "extends sha l l'"
    if s: "replay_authority sha (lg_events l) = Inr s" "request_digest sha r = Inr rd"
      "authorized_effect s r rd = Inr e" "ef_receipt e = None"
    and f: "failure_rows now eid eid' r rd retryable t
      (failure_suspends (lg_suspensionThreshold l) e retryable (mget (au_policies s) (er_policyPromotionDigest r))) l = Inr l'"
    for l' s rd e t
  proof -
    obtain l1 where l1: "append_event l eid (er_effectKey r) (EffectFailed (er_effectKey r) rd retryable t now) now = Inr l1"
      using f by (auto simp: failure_rows_def split: sum.splits)
    show ?thesis
    proof (cases "failure_suspends (lg_suspensionThreshold l) e retryable (mget (au_policies s) (er_policyPromotionDigest r))")
      case None
      with f l1 have "l' = l1" by (simp add: failure_rows_def)
      with extends_append [OF l1 s(1) admits_failure [OF s(2-4) None]] show ?thesis by simp
    next
      case (Some p)
      with f l1 have l2: "append_event l1 eid' (op_policyRevisionId (pp_policy p))
          (PolicySuspended (er_policyPromotionDigest r) now (failsafe_reason t)) now = Inr l'"
        by (simp add: failure_rows_def)
      obtain e1 e2 where es: "lg_events l1 = lg_events l @ [e1]" "ae_data e1 = EffectFailed (er_effectKey r) rd retryable t now"
        "lg_events l' = lg_events l1 @ [e2]" "ae_data e2 = PolicySuspended (er_policyPromotionDigest r) now (failsafe_reason t)"
        using l1 l2 by (auto simp: append_event_Inr append_row_Inr)
      have "well_numbered (lg_events l) \<longrightarrow> well_numbered (lg_events l')"
        using l1 l2 append_row_numbered by (fastforce simp: append_event_Inr)
      with es s(1) admits_failure_suspension [OF s(2-4) Some] show ?thesis
        unfolding extends_def by (intro disjI2 exI [of _ s] exI [of _ "[e1, e2]"]) simp
    qed
  qed
  then show ?thesis
    unfolding recordFailure_def
    by (auto intro!: extends_with_state split: option.splits sum.splits)
qed

lemma extends_same: "lg_events l' = lg_events l \<Longrightarrow> extends sha l l'"
  by (simp add: extends_def)

lemma perform_extends: "extends sha l (perform sha op l)"
  by (cases op)
     (simp_all add: extends_promote extends_suspend extends_authorize extends_receipt extends_failure
       extends_same close_ledger_def open_ledger_def)

section \<open>Reachable ledgers\<close>

text \<open>From an empty table, by the operations, closing and opening again.\<close>

inductive ledger_reachable :: "(string \<Rightarrow> string) \<Rightarrow> Ledger \<Rightarrow> bool" for sha where
  ledger_new: "ledger_reachable sha (open_ledger [] threshold)"
| ledger_performed: "ledger_reachable sha l \<Longrightarrow> ledger_reachable sha (perform sha op l)"

lemma replay_append:
  "replay_authority sha es = Inr s \<Longrightarrow>
     replay_authority sha (es @ es') = try_fold (apply_authority sha) s (map ae_data es')"
proof -
  have "try_fold (authority_step sha) s es' = try_fold (apply_authority sha) s (map ae_data es')" for s
    by (induction es' arbitrary: s) (auto simp: authority_step_def split: sum.splits)
  then show "replay_authority sha es = Inr s \<Longrightarrow> ?thesis"
    by (simp add: replay_authority_def try_fold_append)
qed

lemma ledger_replays:
  "ledger_reachable sha l \<Longrightarrow> well_numbered (lg_events l) \<and> (\<exists>s. replay_authority sha (lg_events l) = Inr s)"
proof (induction rule: ledger_reachable.induct)
  case (ledger_new threshold)
  show ?case by (simp add: open_ledger_def well_numbered_def replay_authority_def)
next
  case (ledger_performed l op)
  from perform_extends [of sha l op] ledger_performed.IH show ?case
    unfolding extends_def by (auto simp: replay_append dest: admits_applies)
qed

section \<open>What no operation changes\<close>

text \<open>
  An effect keeps its request, its authorization and, once it has one, its receipt; a policy
  promotion is never removed.
\<close>

definition effect_kept :: "EffectState \<Rightarrow> EffectState \<Rightarrow> bool" where
  "effect_kept e e' \<longleftrightarrow> ef_request e' = ef_request e \<and> ef_requestDigest e' = ef_requestDigest e \<and>
     ef_authorizationDigest e' = ef_authorizationDigest e \<and> ef_authorizedAt e' = ef_authorizedAt e \<and>
     ef_failureCount e \<le> ef_failureCount e' \<and>
     (ef_receipt e \<noteq> None \<longrightarrow> ef_receipt e' = ef_receipt e \<and> ef_status e' = ef_status e)"

definition authority_kept :: "Authority \<Rightarrow> Authority \<Rightarrow> bool" where
  "authority_kept s s' \<longleftrightarrow>
     (\<forall>k e. mget (au_effects s) k = Some e \<longrightarrow> (\<exists>e'. mget (au_effects s') k = Some e' \<and> effect_kept e e')) \<and>
     (\<forall>d. mhas (au_policies s) d \<longrightarrow> mhas (au_policies s') d)"

lemma effect_kept_refl [simp]: "effect_kept e e"
  by (simp add: effect_kept_def)

lemma effect_kept_trans: "effect_kept e f \<Longrightarrow> effect_kept f g \<Longrightarrow> effect_kept e g"
  by (auto simp: effect_kept_def)

lemma authority_kept_refl [simp]: "authority_kept s s"
  by (auto simp: authority_kept_def)

lemma authority_kept_trans: "authority_kept s t \<Longrightarrow> authority_kept t u \<Longrightarrow> authority_kept s u"
  unfolding authority_kept_def by (meson effect_kept_trans)

lemma admits_keeps:
  assumes "admits sha threshold s ds" and "try_fold (apply_authority sha) s ds = Inr s'"
  shows "authority_kept s s'"
  using assms
  by cases (auto simp: authority_kept_def authorized_effect_Inr failure_suspends_Some effect_kept_def
      effect_delivered_def effect_failed_def mhas_def)

text \<open>The replayed state, which exists for every reachable ledger.\<close>

definition ledger_state :: "(string \<Rightarrow> string) \<Rightarrow> Ledger \<Rightarrow> Authority \<Rightarrow> bool" where
  "ledger_state sha l s \<longleftrightarrow> replay_authority sha (lg_events l) = Inr s"

lemma perform_state:
  assumes "ledger_state sha l s"
  obtains "ledger_state sha (perform sha op l) s" "lg_events (perform sha op l) = lg_events l"
  | es s' where "lg_events (perform sha op l) = lg_events l @ es"
      "admits sha (lg_suspensionThreshold l) s (map ae_data es)"
      "try_fold (apply_authority sha) s (map ae_data es) = Inr s'" "ledger_state sha (perform sha op l) s'"
proof (cases "lg_events (perform sha op l) = lg_events l")
  case True
  then show ?thesis using assms that(1) by (simp add: ledger_state_def)
next
  case False
  then obtain es where es: "lg_events (perform sha op l) = lg_events l @ es"
    "admits sha (lg_suspensionThreshold l) s (map ae_data es)"
    using perform_extends [of sha l op] assms by (auto simp: extends_def ledger_state_def)
  obtain s' where "try_fold (apply_authority sha) s (map ae_data es) = Inr s'"
    using admits_applies [OF es(2)] by blast
  with es assms show ?thesis
    by (intro that(2)) (simp_all add: ledger_state_def replay_append)
qed

lemma perform_keeps:
  assumes "ledger_state sha l s" and "ledger_state sha (perform sha op l) s'"
  shows "authority_kept s s'"
  using assms(1) by (rule perform_state [of sha l s op]) (use assms(2) admits_keeps in \<open>auto simp: ledger_state_def\<close>)

lemma performs_keep:
  assumes "ledger_state sha l s"
  shows "\<exists>s'. ledger_state sha (fold (perform sha) ops l) s' \<and> authority_kept s s'"
  using assms
proof (induction ops arbitrary: l s)
  case Nil
  then show ?case by auto
next
  case (Cons op ops)
  obtain t where t: "ledger_state sha (perform sha op l) t" "authority_kept s t"
    using Cons.prems by (rule perform_state [of sha l s op])
      (use perform_keeps [OF Cons.prems] authority_kept_refl in blast)+
  from Cons.IH [OF t(1)] obtain u where "ledger_state sha (fold (perform sha) ops (perform sha op l)) u" "authority_kept t u"
    by blast
  with t(2) authority_kept_trans show ?case by auto
qed

end
