(* ===== verification/CanonicalFacts.thy ===== *)
theory CanonicalFacts
  imports Canonical
begin

text \<open>
  Canonical JSON is a faithful name for content: the printer is injective on the values
  \<open>normalize\<close> returns, key order does not matter, normalising twice changes nothing, and
  equal digests mean equal normal forms unless the hash itself collides.
\<close>

section \<open>Printable values\<close>

definition number_char :: "char \<Rightarrow> bool" where
  "number_char c \<longleftrightarrow> is_digit c \<or> c \<in> {CHR ''+'', CHR ''-'', CHR ''.'', CHR ''e''}"

definition number_text :: "string \<Rightarrow> bool" where
  "number_text s \<longleftrightarrow> s \<noteq> [] \<and> list_all number_char s"

fun plain :: "jsval \<Rightarrow> bool"
  and plain_list :: "jsval list \<Rightarrow> bool"
  and plain_members :: "(string \<times> jsval) list \<Rightarrow> bool"
where
  "plain JNull = True"
| "plain (JBool b) = True"
| "plain (JNumber s) = number_text s"
| "plain (JString s) = True"
| "plain (JArray xs) = plain_list xs"
| "plain (JObject es) = plain_members es"
| "plain JNonFinite = False"
| "plain JUndefined = False"
| "plain (JOther ty) = False"
| "plain_list [] = True"
| "plain_list (x # xs) = (plain x \<and> plain_list xs)"
| "plain_members [] = True"
| "plain_members ((k, v) # es) = (plain v \<and> plain_members es)"

lemma plain_list_iff [simp]: "plain_list xs = list_all plain xs"
  by (induction xs) auto

lemma plain_members_iff [simp]: "plain_members es = list_all (plain \<circ> snd) es"
  by (induction es) auto

section \<open>Escaping is a prefix code\<close>

definition unhex :: "char \<Rightarrow> nat" where
  "unhex c = (let n = of_char c in if n < 58 then n - 48 else n - 87)"

fun unescape :: "string \<Rightarrow> (char \<times> string) option" where
  "unescape [] = None"
| "unescape (c # r) =
     (if c \<noteq> CHR 0x5C then Some (c, r)
      else case r of [] \<Rightarrow> None
      | d # r' \<Rightarrow>
          if d = CHR ''b'' then Some (char_of (8::nat), r')
          else if d = CHR ''t'' then Some (char_of (9::nat), r')
          else if d = CHR ''n'' then Some (char_of (10::nat), r')
          else if d = CHR ''f'' then Some (char_of (12::nat), r')
          else if d = CHR ''r'' then Some (char_of (13::nat), r')
          else if d = CHR ''u'' then
            (case r' of a # b # x # y # r'' \<Rightarrow> Some (char_of (16 * unhex x + unhex y), r'')
             | _ \<Rightarrow> None)
          else Some (d, r'))"

lemma escape_control:
  "list_all (\<lambda>n. unescape (escape_char (char_of n) @ r) = Some (char_of n, r)) [0..<32]"
  by (simp add: upt_rec escape_char_def hex_char_def unhex_def Let_def)

lemma char_of_code: "(of_char c :: nat) = n \<Longrightarrow> c = char_of n"
  by (drule sym) simp

lemma code_quote: "c = CHR 0x22 \<longleftrightarrow> of_char c = (34::nat)"
proof
  assume "of_char c = (34::nat)"
  from char_of_code [OF this] show "c = CHR 0x22" by (simp add: char_of_def bit_Suc_0_iff)
qed simp

lemma code_backslash: "c = CHR 0x5C \<longleftrightarrow> of_char c = (92::nat)"
proof
  assume "of_char c = (92::nat)"
  from char_of_code [OF this] show "c = CHR 0x5C" by (simp add: char_of_def bit_Suc_0_iff)
qed simp

lemma escape_plain: "32 \<le> (of_char c :: nat) \<Longrightarrow> unescape (escape_char c @ r) = Some (c, r)"
  by (auto simp: escape_char_def Let_def code_backslash simp del: of_char_Char
      dest!: code_quote [THEN iffD2] code_backslash [THEN iffD2])

lemma unescape_escape: "unescape (escape_char c @ r) = Some (c, r)"
proof (cases "(of_char c :: nat) < 32")
  case True
  then have "of_char c \<in> set [0..<32::nat]" by simp
  then have "unescape (escape_char (char_of (of_char c :: nat)) @ r) = Some (char_of (of_char c :: nat), r)"
    using escape_control [of r] unfolding list_all_iff by blast
  then show ?thesis by simp
qed (simp add: escape_plain)

lemma escape_not_quote: "escape_char c @ xs \<noteq> CHR 0x22 # ys"
  using unescape_escape [of c xs] by (auto simp: escape_char_def Let_def code_quote split: if_splits)

lemma escape_inj: "escape_char c @ xs = escape_char d @ ys \<Longrightarrow> c = d \<and> xs = ys"
  by (metis unescape_escape option.inject prod.inject)

lemma quoted_inj:
  "concat (map escape_char s) @ CHR 0x22 # xs = concat (map escape_char t) @ CHR 0x22 # ys
   \<Longrightarrow> s = t \<and> xs = ys"
proof (induction s arbitrary: t)
  case Nil
  show ?case
  proof (cases t)
    case (Cons d t')
    with Nil have "escape_char d @ (concat (map escape_char t') @ CHR 0x22 # ys) = CHR 0x22 # xs"
      by simp
    then show ?thesis by (simp only: escape_not_quote)
  qed (use Nil in simp)
next
  case (Cons c s)
  show ?case
  proof (cases t)
    case Nil
    with Cons.prems have "escape_char c @ (concat (map escape_char s) @ CHR 0x22 # xs) = CHR 0x22 # ys"
      by simp
    then show ?thesis by (simp only: escape_not_quote)
  next
    case (Cons d t')
    with Cons.prems have "escape_char c @ (concat (map escape_char s) @ CHR 0x22 # xs)
        = escape_char d @ (concat (map escape_char t') @ CHR 0x22 # ys)" by simp
    from escape_inj [OF this] Cons.IH [of t'] Cons show ?thesis by simp
  qed
qed

lemma quote_inj: "quote s @ xs = quote t @ ys \<Longrightarrow> s = t \<and> xs = ys"
  using quoted_inj [of s xs t ys] by (simp add: quote_def)

section \<open>The printer is injective\<close>

text \<open>What may follow a value in a text: nothing, or a closing or separating character.\<close>

definition closes :: "string \<Rightarrow> bool" where
  "closes xs \<longleftrightarrow> xs = [] \<or> hd xs \<in> {CHR '','', CHR '']'', CHR ''}''}"

lemma number_inj:
  assumes "number_text s" "number_text t" "closes xs" "closes ys" "s @ xs = t @ ys"
  shows "s = t \<and> xs = ys"
proof -
  have tw: "takeWhile number_char (u @ zs) = u \<and> dropWhile number_char (u @ zs) = zs"
    if "number_text u" "closes zs" for u zs
  proof -
    have u: "\<And>c. c \<in> set u \<Longrightarrow> number_char c"
      using that(1) by (simp add: number_text_def list_all_iff)
    have "takeWhile number_char zs = [] \<and> dropWhile number_char zs = zs"
      using that(2) by (cases zs) (auto simp: closes_def number_char_def is_digit_def)
    then show ?thesis using takeWhile_append2 [of u number_char zs] dropWhile_append2 [of u number_char zs] u
      by simp
  qed
  show ?thesis using tw [OF assms(1,3)] tw [OF assms(2,4)] assms(5) by metis
qed

lemma number_head: "number_text s \<Longrightarrow> \<exists>c s'. s = c # s' \<and> number_char c"
  by (cases s) (auto simp: number_text_def)

lemma not_number_char [simp]:
  "\<not> number_char CHR ''n''" "\<not> number_char CHR ''t''" "\<not> number_char CHR ''f''"
  "\<not> number_char CHR ''[''" "\<not> number_char CHR ''{''" "\<not> number_char CHR 0x22"
  "\<not> number_char CHR '']''" "\<not> number_char CHR ''}''"
  by (simp_all add: number_char_def is_digit_def)

text \<open>The first character of a printed value tells its constructor.\<close>

fun kind_char :: "jsval \<Rightarrow> char \<Rightarrow> bool" where
  "kind_char JNull c = (c = CHR ''n'')"
| "kind_char (JBool b) c = (c = (if b then CHR ''t'' else CHR ''f''))"
| "kind_char (JNumber s) c = number_char c"
| "kind_char (JString s) c = (c = CHR 0x22)"
| "kind_char (JArray xs) c = (c = CHR ''['')"
| "kind_char (JObject es) c = (c = CHR ''{'')"
| "kind_char _ c = False"

lemma stringify_head: "plain v \<Longrightarrow> \<exists>c s. stringify v = c # s \<and> kind_char v c"
proof (cases v)
  case (JArray xs)
  then show ?thesis by (cases xs) auto
next
  case (JObject es)
  then show ?thesis by (cases es) auto
qed (auto simp: quote_def dest: number_head)

lemma kind_char_fun:
  "kind_char v c \<Longrightarrow> kind_char w c \<Longrightarrow>
   (v = JNull \<and> w = JNull) \<or> (\<exists>b. v = JBool b \<and> w = JBool b) \<or> (\<exists>s t. v = JNumber s \<and> w = JNumber t) \<or>
   (\<exists>s t. v = JString s \<and> w = JString t) \<or> (\<exists>xs ys. v = JArray xs \<and> w = JArray ys) \<or>
   (\<exists>es fs. v = JObject es \<and> w = JObject fs)"
  by (cases v; cases w; simp split: if_splits)

lemma same_kind:
  assumes "plain v" "plain w" "stringify v @ xs = stringify w @ ys"
  obtains "v = w" "xs = ys"
    | s t where "v = JNumber s" "w = JNumber t"
    | s t where "v = JString s" "w = JString t"
    | us vs where "v = JArray us" "w = JArray vs"
    | es fs where "v = JObject es" "w = JObject fs"
proof -
  from stringify_head [OF assms(1)] stringify_head [OF assms(2)] assms(3)
  obtain c where "kind_char v c" "kind_char w c" by auto
  from kind_char_fun [OF this] that assms(3) show thesis by (auto split: if_splits)
qed

lemma stringify_not_close: "plain v \<Longrightarrow> stringify v @ xs \<noteq> CHR '']'' # ys"
  using stringify_head [of v] by (cases v) (fastforce split: if_splits)+

lemma bracket_closes_simps [simp]: "closes []" "closes (CHR '','' # r)" "closes (CHR '']'' # r)" "closes (CHR ''}'' # r)"
  by (simp_all add: closes_def)

lemma closes_rest [simp]: "closes (stringify_rest us @ xs)" "closes (stringify_members es @ xs)"
  by (cases us; simp) (cases es rule: stringify_members.cases; simp)

theorem stringify_prefix_free:
  "plain v \<Longrightarrow> plain w \<Longrightarrow> closes xs \<Longrightarrow> closes ys \<Longrightarrow> stringify v @ xs = stringify w @ ys \<Longrightarrow>
     v = w \<and> xs = ys"
  "list_all plain us \<Longrightarrow> list_all plain vs \<Longrightarrow> stringify_rest us @ xs = stringify_rest vs @ ys \<Longrightarrow>
     us = vs \<and> xs = ys"
  "list_all (plain \<circ> snd) es \<Longrightarrow> list_all (plain \<circ> snd) fs \<Longrightarrow>
     stringify_members es @ xs = stringify_members fs @ ys \<Longrightarrow> es = fs \<and> xs = ys"
proof (induction v and us and es arbitrary: w xs ys and vs xs ys and fs xs ys
    rule: stringify_stringify_rest_stringify_members.induct)
  case 1
  show ?case by (rule same_kind [OF 1(1,2,5)]) auto
next
  case (2 b)
  show ?case by (rule same_kind [OF 2(1,2,5)]) auto
next
  case (3 s)
  show ?case
  proof (rule same_kind [OF 3(1,2,5)])
    fix s' t assume "JNumber s = JNumber s'" "w = JNumber t"
    with 3 number_inj [of s t xs ys] show ?thesis by simp
  qed auto
next
  case (4 s)
  show ?case
  proof (rule same_kind [OF 4(1,2,5)])
    fix s' t assume "JString s = JString s'" "w = JString t"
    with 4 quote_inj [of s xs t ys] show ?thesis by simp
  qed auto
next
  case 5
  show ?case
  proof (rule same_kind [OF 5(1,2,5)])
    fix us vs assume "JArray [] = JArray us" "w = JArray vs"
    with 5 show ?thesis by (cases vs) (auto dest: sym dest!: stringify_not_close)
  qed auto
next
  case (6 x us)
  show ?case
  proof (rule same_kind [OF 6(3,4,7)])
    fix us' vs assume "JArray (x # us) = JArray us'" and w: "w = JArray vs"
    show ?thesis
    proof (cases vs)
      case Nil
      with 6 w show ?thesis by (auto dest!: stringify_not_close)
    next
      case (Cons y vs')
      with 6(3,4) w have p: "plain x" "plain y" "list_all plain us" "list_all plain vs'" by auto
      from 6(7) w Cons have "stringify x @ (stringify_rest us @ xs) = stringify y @ (stringify_rest vs' @ ys)"
        by simp
      from 6(1) [OF p(1,2) closes_rest(1) closes_rest(1) this] 6(2) [OF p(3,4)] w Cons
      show ?thesis by auto
    qed
  qed auto
next
  case 7
  show ?case
  proof (rule same_kind [OF 7(1,2,5)])
    fix us vs assume "JObject [] = JObject us" "w = JObject vs"
    with 7 show ?thesis by (cases vs rule: stringify_members.cases) (auto simp: quote_def)
  qed auto
next
  case (8 k x es)
  show ?case
  proof (rule same_kind [OF 8(3,4,7)])
    fix us' fs assume "JObject ((k, x) # es) = JObject us'" and w: "w = JObject fs"
    show ?thesis
    proof (cases fs)
      case Nil
      with 8 w show ?thesis by (auto simp: quote_def)
    next
      case (Cons m fs')
      then obtain l y where m: "fs = (l, y) # fs'" by (cases m) auto
      with 8(3,4) w have p: "plain x" "plain y" "list_all (plain \<circ> snd) es" "list_all (plain \<circ> snd) fs'"
        by auto
      from 8(7) w m have "quote k @ (CHR '':'' # stringify x @ (stringify_members es @ xs))
          = quote l @ (CHR '':'' # stringify y @ (stringify_members fs' @ ys))"
        by simp
      from quote_inj [OF this] have kl: "k = l"
        and eq: "stringify x @ (stringify_members es @ xs) = stringify y @ (stringify_members fs' @ ys)"
        by auto
      from 8(1) [OF p(1,2) closes_rest(2) closes_rest(2) eq] 8(2) [OF p(3,4)] w m kl
      show ?thesis by auto
    qed
  qed auto
next
  case 12
  then show ?case by (cases vs) auto
next
  case (13 x us)
  show ?case
  proof (cases vs)
    case (Cons y vs')
    with 13(3,4) have p: "plain x" "plain y" "list_all plain us" "list_all plain vs'" by auto
    from 13(5) Cons have "stringify x @ (stringify_rest us @ xs) = stringify y @ (stringify_rest vs' @ ys)"
      by simp
    from 13(1) [OF p(1,2) closes_rest(1) closes_rest(1) this] 13(2) [OF p(3,4)] Cons
    show ?thesis by auto
  qed (use 13(5) in simp)
next
  case 14
  then show ?case by (cases fs rule: stringify_members.cases) auto
next
  case (15 k x es)
  show ?case
  proof (cases fs)
    case (Cons m fs')
    then obtain l y where m: "fs = (l, y) # fs'" by (cases m) auto
    with 15(3,4) have p: "plain x" "plain y" "list_all (plain \<circ> snd) es" "list_all (plain \<circ> snd) fs'"
      by (auto simp: comp_def)
    from 15(5) m have "quote k @ (CHR '':'' # stringify x @ (stringify_members es @ xs))
        = quote l @ (CHR '':'' # stringify y @ (stringify_members fs' @ ys))"
      by simp
    from quote_inj [OF this] have kl: "k = l"
      and eq: "stringify x @ (stringify_members es @ xs) = stringify y @ (stringify_members fs' @ ys)"
      by auto
    from 15(1) [OF p(1,2) closes_rest(2) closes_rest(2) eq] 15(2) [OF p(3,4)] m kl
    show ?thesis by auto
  qed (use 15(5) in simp)
qed auto

section \<open>Normal forms\<close>

fun numbers_ok :: "jsval \<Rightarrow> bool"
  and numbers_ok_list :: "jsval list \<Rightarrow> bool"
  and numbers_ok_members :: "(string \<times> jsval) list \<Rightarrow> bool"
where
  "numbers_ok (JNumber s) = number_text s"
| "numbers_ok (JArray xs) = numbers_ok_list xs"
| "numbers_ok (JObject es) = numbers_ok_members es"
| "numbers_ok _ = True"
| "numbers_ok_list [] = True"
| "numbers_ok_list (x # xs) = (numbers_ok x \<and> numbers_ok_list xs)"
| "numbers_ok_members [] = True"
| "numbers_ok_members ((k, v) # es) = (numbers_ok v \<and> numbers_ok_members es)"

lemma set_own_order [simp]: "set (own_order es) = set es"
  by (auto simp: own_order_def)

lemma try_all_mem: "try_all rs = Inr vs \<Longrightarrow> (k, v) \<in> set vs \<Longrightarrow> (k, Inr v) \<in> set rs"
  by (induction rs arbitrary: vs) (auto split: sum.splits)

lemma normalize_plain:
  "numbers_ok v \<Longrightarrow> normalize v = Inr w \<Longrightarrow> plain w"
  "numbers_ok_list xs \<Longrightarrow> normalize_list xs = Inr ys \<Longrightarrow> list_all plain ys"
  "numbers_ok_members es \<Longrightarrow> (k, Inr u) \<in> set (normalize_members es) \<Longrightarrow> plain u"
proof (induction v and xs and es arbitrary: w and ys and k u
    rule: normalize_normalize_list_normalize_members.induct)
  case (7 es)
  from 7(3) obtain vs where vs: "try_all (sort_key fst (normalize_members es)) = Inr vs"
    and w: "w = JObject (own_order (filter (\<lambda>e. fst e \<noteq> proto_key) vs))"
    by (auto split: sum.splits)
  have "plain u" if "(k, u) \<in> set vs" for k u
    using try_all_mem [OF vs that] 7(1) [of k u] 7(2) by simp
  with w show ?case by (auto simp: list_all_iff)
qed (auto split: sum.splits if_splits)

lemma normalize_members_map:
  "normalize_members es = map (\<lambda>(k, v). (k, if v = JUndefined
     then Inl ''Canonical JSON cannot contain undefined values'' else normalize v)) es"
  by (induction es) auto

section \<open>Key order does not matter\<close>

text \<open>
  Two values have the same content when they differ only in the order in which object
  members were inserted, at any depth.
\<close>

inductive same_content :: "jsval \<Rightarrow> jsval \<Rightarrow> bool" where
  same: "same_content v v"
| array: "list_all2 same_content xs ys \<Longrightarrow> same_content (JArray xs) (JArray ys)"
| object: "list_all2 (\<lambda>p q. fst p = fst q \<and> same_content (snd p) (snd q)) es fs \<Longrightarrow>
     mset fs = mset gs \<Longrightarrow> distinct (map fst fs) \<Longrightarrow> same_content (JObject es) (JObject gs)"

inductive_simps same_content_undefined [simp]:
  "same_content JUndefined w" "same_content w JUndefined"

lemma normalize_members_sort:
  assumes "mset fs = mset gs" and "distinct (map fst fs)"
  shows "sort_key fst (normalize_members fs) = sort_key fst (normalize_members gs)"
proof -
  have k: "map fst (normalize_members fs) = map fst fs"
    by (simp add: normalize_members_map case_prod_unfold comp_def)
  have "inj_on fst (set (normalize_members fs))"
    using assms(2) k by (metis distinct_map)
  moreover have "mset (normalize_members fs) = mset (sort_key fst (normalize_members gs))"
    using assms(1) by (simp add: normalize_members_map)
  ultimately show ?thesis by (intro sort_key_inj_key_eq) auto
qed

lemma same_content_normalize: "same_content v w \<Longrightarrow> normalize v = normalize w"
proof (induction rule: same_content.induct)
  case (array xs ys)
  then have "normalize_list xs = normalize_list ys"
    by (induction rule: list_all2_induct) (auto split: sum.splits)
  then show ?case by simp
next
  case (object es fs gs)
  from object(1) have "normalize_members es = normalize_members fs"
    by (induction rule: list_all2_induct) auto
  with normalize_members_sort [OF object(2,3)] show ?case by simp
qed simp

section \<open>Properties of canonical JSON\<close>

text \<open>
  Canonical JSON is independent of insertion order: values with the same content, whatever
  the order their object members were added in at any depth, have the same canonical text
  (or raise the same exception).
\<close>

theorem canonicalJson_order_independent:
  "same_content v w \<Longrightarrow> canonicalJson v = canonicalJson w"
  by (simp add: canonicalJson_def same_content_normalize)

theorem canonicalJson_order_independent_witness:
  "canonicalJson (JObject [(''b'', JNull), (''a'', JBool True)]) =
   canonicalJson (JObject [(''a'', JBool True), (''b'', JNull)])"
  by (rule canonicalJson_order_independent, rule same_content.object
      [where fs = "[(''b'', JNull), (''a'', JBool True)]"]) (auto intro: same_content.same)

lemma same_text_same_form:
  assumes "numbers_ok v" "numbers_ok w" "canonicalJson v = Inr s" "canonicalJson w = Inr s"
  shows "normalize v = normalize w"
proof -
  from assms obtain x y where xy: "normalize v = Inr x" "normalize w = Inr y"
      "stringify x @ [] = stringify y @ []"
    by (auto simp: canonicalJson_def split: sum.splits)
  from normalize_plain(1) [OF assms(1) xy(1)] normalize_plain(1) [OF assms(2) xy(2)]
  have "x = y" using stringify_prefix_free(1) [OF _ _ _ _ xy(3)] by simp
  with xy show ?thesis by simp
qed

text \<open>
  A proper value is one a JavaScript program can build and \<open>normalize\<close> can keep whole: its numbers
  have the text of a number, and each object in it has distinct keys, none of them \<open>__proto__\<close>.
\<close>

fun proper :: "jsval \<Rightarrow> bool"
  and proper_list :: "jsval list \<Rightarrow> bool"
  and proper_members :: "(string \<times> jsval) list \<Rightarrow> bool"
where
  "proper (JNumber s) = number_text s"
| "proper (JArray xs) = proper_list xs"
| "proper (JObject es) = (distinct (map fst es) \<and> proto_key \<notin> set (map fst es) \<and> proper_members es)"
| "proper _ = True"
| "proper_list [] = True"
| "proper_list (x # xs) = (proper x \<and> proper_list xs)"
| "proper_members [] = True"
| "proper_members ((k, v) # es) = (proper v \<and> proper_members es)"

lemma proper_list_iff: "proper_list xs \<longleftrightarrow> list_all proper xs"
  by (induction xs) auto

lemma proper_members_iff: "proper_members es \<longleftrightarrow> list_all (proper \<circ> snd) es"
  by (induction es) auto

lemma proper_numbers:
  "proper v \<Longrightarrow> numbers_ok v"
  "proper_list xs \<Longrightarrow> numbers_ok_list xs"
  "proper_members es \<Longrightarrow> numbers_ok_members es"
  by (induction v and xs and es rule: proper_proper_list_proper_members.induct) auto

lemma mset_map_rearrange:
  "mset (map f xs) = mset (map f ys) \<Longrightarrow> \<exists>zs. mset zs = mset ys \<and> map f zs = map f xs"
proof (induction xs arbitrary: ys)
  case (Cons x xs)
  then have "f x \<in> f ` set ys" by (metis list.set_intros(1) list.simps(9) list.set_map set_mset_mset)
  then obtain y where y: "y \<in> set ys" "f y = f x" by auto
  then have split: "mset ys = mset (y # remove1 y ys)" by simp
  then have "mset (map f ys) = mset (map f (y # remove1 y ys))" by (simp only: mset_map)
  with Cons.prems y have "mset (map f xs) = mset (map f (remove1 y ys))" by simp
  from Cons.IH [OF this] obtain zs where "mset zs = mset (remove1 y ys)" "map f zs = map f xs" by blast
  with y split have "mset (y # zs) = mset ys \<and> map f (y # zs) = map f (x # xs)" by simp
  then show ?case by blast
qed simp

text \<open>What the object that \<open>normalize\<close> builds has for members: those of its argument, normalised.\<close>

lemma mset_own_order: "mset (own_order es) = mset es"
  by (simp add: own_order_def)

lemma try_all_Inr: "try_all rs = Inr vs \<Longrightarrow> rs = map (map_prod id Inr) vs"
  by (induction rs arbitrary: vs) (auto split: sum.splits)

lemma normalize_object:
  assumes "normalize (JObject es) = Inr y" and "proto_key \<notin> set (map fst es)"
  shows "\<exists>ms. y = JObject ms \<and> mset (map (map_prod id normalize) es) = mset (map (map_prod id Inr) ms)"
proof -
  obtain vs where vs: "try_all (sort_key fst (normalize_members es)) = Inr vs"
    "y = JObject (own_order (filter (\<lambda>e. fst e \<noteq> proto_key) vs))"
    using assms(1) by (auto split: sum.splits)
  have rs: "sort_key fst (normalize_members es) = map (map_prod id Inr) vs" by (rule try_all_Inr [OF vs(1)])
  then have keys: "fst ` set (normalize_members es) = fst ` set vs"
    by (metis (no_types, lifting) fst_map_prod id_apply image_cong image_image set_map set_sort)
  have "normalize_members es = map (map_prod id normalize) es"
  proof -
    have "JUndefined \<notin> snd ` set es"
    proof
      assume "JUndefined \<in> snd ` set es"
      then obtain k where "(k, Inl ''Canonical JSON cannot contain undefined values'') \<in> set (normalize_members es)"
        by (force simp: normalize_members_map)
      then have "(k, Inl ''Canonical JSON cannot contain undefined values'') \<in> set (sort_key fst (normalize_members es))" by simp
      then show False unfolding rs by auto
    qed
    then show ?thesis by (force simp: normalize_members_map)
  qed
  moreover have "filter (\<lambda>e. fst e \<noteq> proto_key) vs = vs"
    using keys assms(2) by (force simp: normalize_members_map filter_id_conv)
  moreover have "mset (normalize_members es) = mset (map (map_prod id Inr) vs)"
    by (simp only: rs [symmetric] mset_sort)
  moreover have "mset (map (map_prod id Inr) (own_order vs)) = (mset (map (map_prod id Inr) vs) :: (string \<times> jsval result) multiset)"
    by (simp only: mset_map mset_own_order)
  ultimately show ?thesis using vs(2) by (intro exI [of _ "own_order vs"]) (simp only: refl simp_thms)
qed

lemma equal_forms_same_content:
  "proper v \<Longrightarrow> proper w \<Longrightarrow> normalize v = Inr y \<Longrightarrow> normalize w = Inr y \<Longrightarrow> same_content v w"
proof (induction v arbitrary: w y)
  case (JArray xs)
  obtain ys where ys: "w = JArray ys"
    using JArray.prems by (cases w) (auto split: sum.splits)
  with JArray.prems obtain zs where "normalize_list xs = Inr zs" "normalize_list ys = Inr zs"
    "list_all proper xs" "list_all proper ys"
    by (auto simp: proper_list_iff split: sum.splits)
  then have "list_all2 same_content xs ys" using JArray.IH
  proof (induction xs arbitrary: ys zs)
    case Nil
    then show ?case by (cases ys) (auto split: sum.splits)
  next
    case (Cons x xs)
    then show ?case by (cases ys) (auto split: sum.splits)
  qed
  with ys show ?case by (simp add: same_content.array)
next
  case (JObject es)
  obtain gs where gs: "w = JObject gs"
    using JObject.prems by (cases w) (auto split: sum.splits)
  have p: "list_all (proper \<circ> snd) es" "list_all (proper \<circ> snd) gs" "distinct (map fst gs)"
    "proto_key \<notin> set (map fst es)" "proto_key \<notin> set (map fst gs)"
    using JObject.prems(1,2) gs by (simp_all add: proper_members_iff)
  obtain ms where ms: "y = JObject ms" "mset (map (map_prod id normalize) es) = mset (map (map_prod id Inr) ms)"
    using normalize_object [OF JObject.prems(3) p(4)] by blast
  have "mset (map (map_prod id normalize) gs) = mset (map (map_prod id Inr) ms)"
    using normalize_object [of gs y] JObject.prems(4) gs p(5) ms(1) by auto
  with ms(2) have "mset (map (map_prod id normalize) es) = mset (map (map_prod id normalize) gs)" by simp
  from mset_map_rearrange [OF this] obtain fs where
    fs: "mset fs = mset gs" "map (map_prod id normalize) fs = map (map_prod id normalize) es" by blast
  have inr: "\<exists>n. normalize u = Inr n" if "(k, u) \<in> set es" for k u
  proof -
    have "map_prod id normalize (k, u) \<in> set (map (map_prod id normalize) es)"
      using that by (simp only: set_map imageI)
    then have "(k, normalize u) \<in> set (map (map_prod id Inr) ms)"
      unfolding mset_eq_setD [OF ms(2)] by simp
    then show ?thesis by auto
  qed
  have "proper (snd q)" if "q \<in> set fs" for q
    using that p(2) mset_eq_setD [OF fs(1)] by (simp add: list_all_iff)
  then have "list_all2 (\<lambda>p q. fst p = fst q \<and> same_content (snd p) (snd q)) es fs"
    using fs(2) p(1) inr JObject.IH
  proof (induction es arbitrary: fs)
    case (Cons e es)
    then obtain f fs' where f: "fs = f # fs'" by (cases fs) auto
    obtain k u k' u' where kv: "e = (k, u)" "f = (k', u')" by (cases e; cases f)
    obtain n where "normalize u = Inr n" using Cons.prems(4) [of k u] kv by auto
    then have "same_content u u'"
      using Cons.prems(1) [of f] Cons.prems(2,3) f kv by (intro Cons.prems(5) [of e u u' n]) auto
    moreover have "list_all2 (\<lambda>p q. fst p = fst q \<and> same_content (snd p) (snd q)) es fs'"
    proof (rule Cons.IH)
      show "proper (snd q)" if "q \<in> set fs'" for q using Cons.prems(1) f that by simp
      show "map (map_prod id normalize) fs' = map (map_prod id normalize) es" using Cons.prems(2) f by (simp add: id_def)
      show "list_all (proper \<circ> snd) es" using Cons.prems(3) by (simp add: comp_def)
      show "\<exists>n. normalize u = Inr n" if "(k, u) \<in> set es" for k u using Cons.prems(4) [of k u] that by simp
      show "same_content u w" if "p \<in> set es" "u \<in> Basic_BNFs.snds p" "proper u" "proper w"
        "normalize u = Inr y" "normalize w = Inr y" for p u w y
        using Cons.prems(5) [of p u w y] that by simp
    qed
    ultimately show ?case using Cons.prems(2) f kv by simp
  qed simp
  moreover have "distinct (map fst fs)"
    using p(3) fs(1) by (metis mset_eq_imp_distinct_iff mset_map)
  ultimately show ?case unfolding gs by (intro same_content.object [OF _ fs(1)])
qed (auto intro: same_content.same split: sum.splits elim: normalize.elims)

text \<open>
  C27. Canonical JSON names content: two proper values that have canonical texts have the same
  text if and only if they have the same content, that is, they differ at most in the order of
  the members of their objects. So no member, element or value is lost or confused, and key
  order does not matter.
\<close>

theorem canonicalJson_names_content:
  assumes "proper v" and "proper w" and "canonicalJson v = Inr s" and "canonicalJson w = Inr t"
  shows "s = t \<longleftrightarrow> same_content v w"
proof
  assume "s = t"
  with assms same_text_same_form [of v w s] proper_numbers(1) have "normalize v = normalize w" by blast
  moreover obtain y where y: "normalize v = Inr y" using assms(3) by (auto simp: canonicalJson_def split: sum.splits)
  ultimately show "same_content v w" using equal_forms_same_content [OF assms(1,2) y] by simp
qed (use assms(3,4) in \<open>simp add: canonicalJson_def same_content_normalize\<close>)

theorem canonicalJson_names_content_witness:
  "same_content (JObject [(''b'', JNull), (''a'', JNumber ''1'')]) (JObject [(''a'', JNumber ''1''), (''b'', JNull)]) \<and>
   \<not> same_content (JObject [(''a'', JNull), (''b'', JNull)]) (JObject [(''a'', JNull)])"
proof
  have one: "number_text ''1''" by (simp add: number_text_def number_char_def is_digit_def)
  show "same_content (JObject [(''b'', JNull), (''a'', JNumber ''1'')]) (JObject [(''a'', JNumber ''1''), (''b'', JNull)])"
    by (rule iffD1 [OF canonicalJson_names_content
          [where s = "[CHR ''{'', CHR 0x22, CHR ''a'', CHR 0x22, CHR '':'', CHR ''1'', CHR '','',
              CHR 0x22, CHR ''b'', CHR 0x22, CHR '':''] @ ''null}''"]])
      (simp_all add: one proto_key_def, code_simp+)
  show "\<not> same_content (JObject [(''a'', JNull), (''b'', JNull)]) (JObject [(''a'', JNull)])"
    by (subst canonicalJson_names_content [symmetric,
          where s = "[CHR ''{'', CHR 0x22, CHR ''a'', CHR 0x22, CHR '':''] @ ''null,'' @ [CHR 0x22, CHR ''b'', CHR 0x22, CHR '':''] @ ''null}''"
            and t = "[CHR ''{'', CHR 0x22, CHR ''a'', CHR 0x22, CHR '':''] @ ''null}''"])
      (simp_all add: proto_key_def, code_simp+)
qed

text \<open>
  A digest commits to content: two values with the same canonical digest have the same
  normal form, or the hash function collides on two concrete texts.
\<close>

theorem canonicalDigest_binds:
  assumes "numbers_ok v" "numbers_ok w" "canonicalDigest sha v = Inr d" "canonicalDigest sha w = Inr d"
  shows "normalize v = normalize w \<or> (\<exists>s t. canonicalJson v = Inr s \<and> canonicalJson w = Inr t \<and> s \<noteq> t \<and> sha s = sha t)"
proof -
  from assms(3,4) obtain s t where st: "canonicalJson v = Inr s" "canonicalJson w = Inr t" "sha s = sha t"
    by (auto simp: canonicalDigest_def split: sum.splits)
  show ?thesis
  proof (cases "s = t")
    case True
    with st same_text_same_form [OF assms(1,2)] show ?thesis by blast
  qed (use st in blast)
qed

theorem canonicalDigest_binds_witness:
  "normalize (JArray [JNull]) = normalize (JArray [JNull]) \<or>
   (\<exists>s t. canonicalJson (JArray [JNull]) = Inr s \<and> canonicalJson (JArray [JNull]) = Inr t \<and> s \<noteq> t \<and> rev s = rev t)"
  by (rule canonicalDigest_binds [where sha = rev and d = "rev ''[null]''"]) code_simp+

text \<open>
  Typed records are encoded without undefined members; for such values the digest function
  never raises.
\<close>

lemma plain_normalizes:
  "plain v \<Longrightarrow> \<exists>w. normalize v = Inr w"
  "list_all plain xs \<Longrightarrow> \<exists>ys. normalize_list xs = Inr ys"
  "list_all (plain \<circ> snd) es \<Longrightarrow> (k, r) \<in> set (normalize_members es) \<Longrightarrow> \<exists>u. r = Inr u"
proof (induction v and xs and es arbitrary: and and k r
    rule: normalize_normalize_list_normalize_members.induct)
  case (7 es)
  have "\<exists>vs. try_all rs = Inr vs" if "\<And>k r. (k, r) \<in> set rs \<Longrightarrow> \<exists>u. r = Inr u" for rs
    using that by (induction rs) (auto split: sum.splits, blast+)
  from this [of "sort_key fst (normalize_members es)"] 7 show ?case
    by (auto simp: comp_def split: sum.splits)
qed (auto split: sum.splits if_splits)

end
