(* ===== verification/OutboundProperties.thy ===== *)
theory OutboundProperties
  imports OutboundFacts CanonicalFacts
begin

text \<open>
  What the outbound authority guarantees of every ledger its operations can reach.
\<close>

section \<open>A concrete ledger\<close>

definition demo_hash :: "string \<Rightarrow> string" where
  "demo_hash s = replicate 64 CHR ''a''"

definition demo_outbound_policy :: OutboundPolicy where
  "demo_outbound_policy =
     \<lparr>op_policyRevisionId = ''p1'', op_name = ''labels'', op_allowedActions = [Github_label_upsert],
      op_targets = [''repo''], op_expiresAt = ''2030-01-01T00:00:00.000Z''\<rparr>"

definition demo_request :: OutboundEffectRequest where
  "demo_request =
     \<lparr>er_adapterId = ''github'', er_effectKey = ''k1'', er_action = Github_label_upsert,
      er_target = ''repo'', er_payload = JNull, er_payloadDigest = ''d'', er_preconditionDigest = ''d'',
      er_policyPromotionDigest = demo_hash []\<rparr>"

definition demo_outbound_receipt :: OutboundEffectReceipt where
  "demo_outbound_receipt =
     \<lparr>rcpt_adapterId = ''github'', rcpt_effectKey = ''k1'', rcpt_action = Github_label_upsert,
      rcpt_payloadDigest = ''d'', rcpt_externalId = ''x'', rcpt_requestId = None,
      rcpt_observedStateDigest = ''d'', rcpt_acceptedAt = ''2026-01-01T00:00:03.000Z'',
      rcpt_receiptDigest = demo_hash []\<rparr>"

definition demo_ledger :: "LedgerOp list \<Rightarrow> Ledger" where
  "demo_ledger ops = fold (perform demo_hash) ops (open_ledger [] None)"

lemma ledger_performs: "ledger_reachable sha l \<Longrightarrow> ledger_reachable sha (fold (perform sha) ops l)"
  by (induction ops arbitrary: l) (auto intro: ledger_performed)

lemma demo_ledger_reachable: "ledger_reachable demo_hash (demo_ledger ops)"
  unfolding demo_ledger_def by (rule ledger_performs) (rule ledger_new)

definition demo_promoted :: Ledger where
  "demo_promoted = demo_ledger [Op_promote ''2026-01-01T00:00:00.000Z'' ''e1'' demo_outbound_policy ''op'']"

definition demo_authorized :: Ledger where
  "demo_authorized =
     perform demo_hash (Op_authorize ''2026-01-01T00:00:01.000Z'' ''e2'' demo_request) demo_promoted"

definition demo_delivered :: Ledger where
  "demo_delivered = perform demo_hash
     (Op_receipt ''2026-01-01T00:00:02.000Z'' ''e3'' demo_request demo_outbound_receipt) demo_authorized"

definition demo_failed :: Ledger where
  "demo_failed = perform demo_hash
     (Op_failure ''2026-01-01T00:00:02.000Z'' ''e3'' ''e4'' demo_request False ''gone'') demo_authorized"

lemma demo_digest_of [simp]: "plain v \<Longrightarrow> digest_of demo_hash v = demo_hash []"
  using plain_normalizes(1) [of v]
  by (auto simp: digest_of_def canonicalDigest_def canonicalJson_def demo_hash_def)

lemma demo_plain [simp]:
  "plain (enc_OutboundPolicy demo_outbound_policy)" "plain (enc_OutboundEffectRequest demo_request)"
  "plain (enc_unsigned demo_outbound_receipt)" "plain (promotion_identity a b c)"
  "plain (authorization_identity a b c)"
  by (simp_all add: enc_OutboundPolicy_def enc_OutboundEffectRequest_def enc_unsigned_def
      unsigned_members_def promotion_identity_def authorization_identity_def jobj_def
      List.map_filter_def jnum_def jstr_def jstrs_def jnullable_def demo_request_def
      demo_outbound_policy_def demo_outbound_receipt_def number_text_def number_char_def
      string_of_nat.simps digit_char_def is_digit_def list_all_iff)

lemma demo_request_digest [simp]: "request_digest demo_hash demo_request = Inr (demo_hash [])"
  using plain_normalizes(1) [OF demo_plain(2)]
  by (auto simp: request_digest_def canonicalDigest_def canonicalJson_def demo_hash_def)

lemma demo_fields [simp]:
  "op_policyRevisionId demo_outbound_policy = ''p1''"
  "op_allowedActions demo_outbound_policy = [Github_label_upsert]"
  "op_targets demo_outbound_policy = [''repo'']"
  "op_expiresAt demo_outbound_policy = ''2030-01-01T00:00:00.000Z''"
  "er_effectKey demo_request = ''k1''" "er_action demo_request = Github_label_upsert"
  "er_target demo_request = ''repo''" "er_policyPromotionDigest demo_request = demo_hash []"
  "rcpt_receiptDigest demo_outbound_receipt = demo_hash []"
  "receipt_matches demo_outbound_receipt demo_request"
  by (simp_all add: demo_outbound_policy_def demo_request_def demo_outbound_receipt_def receipt_matches_def)

lemma demo_policy_ok [simp]: "policy_error demo_outbound_policy ''2026-01-01T00:00:00.000Z'' = None"
  by (simp add: policy_error_def isAutomaticActionAllowed_def AUTOMATIC_ACTION_ALLOWLIST_def)

lemmas ledger_ops = Let_def open_ledger_def promotePolicy_def with_state_def append_event_def
  append_row_def throughPosition_def isAutomaticActionAllowed_def AUTOMATIC_ACTION_ALLOWLIST_def
  promotion_digest_def replay_authority_def emptyAuthority_def authority_step_def mvalues_def
  policy_promoted_def authorize_def authorization_error_def effect_authorized_def recordReceipt_def
  recordFailure_def authorized_effect_def failure_rows_def failure_suspends_def effect_delivered_def
  effect_failed_def policy_suspended_def parse_text_def js_trim_def is_space_def

declare ledger_ops [simp]

lemmas demo_promoted_value [simp] = demo_promoted_def [unfolded demo_ledger_def, simplified]
lemmas demo_authorized_value [simp] = demo_authorized_def [simplified]
lemmas demo_delivered_value [simp] = demo_delivered_def [simplified]
lemmas demo_failed_value [simp] = demo_failed_def [simplified]

declare ledger_ops [simp del] demo_promoted_value [simp del] demo_authorized_value [simp del]
  demo_delivered_value [simp del] demo_failed_value [simp del]

lemmas demo_ledgers = ledger_ops demo_promoted_value demo_authorized_value demo_delivered_value demo_failed_value

lemma demo_ledgers_reachable:
  "ledger_reachable demo_hash demo_promoted" "ledger_reachable demo_hash demo_authorized"
  "ledger_reachable demo_hash demo_delivered" "ledger_reachable demo_hash demo_failed"
  unfolding demo_failed_def demo_delivered_def demo_authorized_def demo_promoted_def
  by (intro ledger_performed demo_ledger_reachable)+

section \<open>Authorizations\<close>

definition justified :: "(string \<Rightarrow> string) \<Rightarrow> StoredAuthorityEvent list \<Rightarrow> OutboundEffectRequest \<Rightarrow> string \<Rightarrow> bool" where
  "justified sha pre r at \<longleftrightarrow> (\<exists>s p. replay_authority sha pre = Inr s \<and>
     mget (au_policies s) (er_policyPromotionDigest r) = Some p \<and> pp_status p = PS_active \<and>
     at < op_expiresAt (pp_policy p) \<and> er_action r \<in> set (op_allowedActions (pp_policy p)) \<and>
     er_target r \<in> set (op_targets (pp_policy p)) \<and> isAutomaticActionAllowed (er_action r) \<and>
     mget (au_effects s) (er_effectKey r) = None)"

lemma admits_authorized:
  assumes "admits sha threshold s ds" and "EffectAuthorized r rd ad at \<in> set ds"
  shows "ds = [EffectAuthorized r rd ad at] \<and> isAutomaticActionAllowed (er_action r) \<and>
     mget (au_effects s) (er_effectKey r) = None \<and>
     authorization_error (mget (au_policies s) (er_policyPromotionDigest r)) r at = None"
  using assms by cases auto

lemma authorization_error_None:
  "authorization_error policy r now = None \<longleftrightarrow> (\<exists>p. policy = Some p \<and> pp_status p = PS_active \<and>
     now < op_expiresAt (pp_policy p) \<and> er_action r \<in> set (op_allowedActions (pp_policy p)) \<and>
     er_target r \<in> set (op_targets (pp_policy p)))"
  by (auto simp: authorization_error_def split: option.splits)

text \<open>
  C25. The authority ceiling: every authorization in a reachable ledger was given under a
  policy that, in the state replayed from the events before it, was active and not expired,
  named the action and the target; the action is on the global allowlist, and the effect had
  not been authorized before.
\<close>

theorem authorizations_are_justified:
  assumes "ledger_reachable sha l" and "lg_events l = pre @ e # post" and "ae_data e = EffectAuthorized r rd ad at"
  shows "justified sha pre r at"
  using assms
proof (induction arbitrary: post rule: ledger_reachable.induct)
  case (ledger_new threshold)
  then show ?case by (simp add: open_ledger_def)
next
  case (ledger_performed l op)
  obtain s where s: "ledger_state sha l s"
    using ledger_replays [OF ledger_performed.hyps] by (auto simp: ledger_state_def)
  show ?case
  proof (cases rule: perform_state [OF s, of op])
    case 1
    with ledger_performed.IH ledger_performed.prems show ?thesis by simp
  next
    case (2 es s')
    have split: "lg_events l @ es = pre @ e # post" using 2(1) ledger_performed.prems(1) by simp
    show ?thesis
    proof (cases "length pre < length (lg_events l)")
      case True
      with append_split_first [OF split] ledger_performed.IH ledger_performed.prems(2) show ?thesis by blast
    next
      case False
      then have "e \<in> set es" using append_split_second [OF split] by blast
      then have "EffectAuthorized r rd ad at \<in> set (map ae_data es)"
        using ledger_performed.prems(2) by force
      note a = admits_authorized [OF 2(2) this]
      then have "length (map ae_data es) = 1" by simp
      then have "pre = lg_events l"
        using split False by (auto simp: append_eq_append_conv2 Cons_eq_append_conv length_Suc_conv)
      with a s show ?thesis
        unfolding justified_def authorization_error_None by (auto simp: ledger_state_def)
    qed
  qed
qed

theorem authorizations_are_justified_witness:
  "justified demo_hash (lg_events demo_promoted) demo_request ''2026-01-01T00:00:01.000Z''"
  by (rule authorizations_are_justified [OF demo_ledgers_reachable(2), where
        e = "lg_events demo_authorized ! 1" and post = "[]" and rd = "demo_hash []" and ad = "demo_hash []"])
    (simp_all add: demo_ledgers)

lemma authorize_Inr:
  assumes "authorize sha now eid r l = (l', Inr ad)"
  shows "\<exists>s' e rd. ledger_state sha l' s' \<and> request_digest sha r = Inr rd \<and> isAutomaticActionAllowed (er_action r) \<and>
     mget (au_effects s') (er_effectKey r) = Some e \<and> ef_requestDigest e = rd \<and> ef_authorizationDigest e = ad"
proof -
  obtain s rd where s: "replay_authority sha (lg_events l) = Inr s" "request_digest sha r = Inr rd"
    "isAutomaticActionAllowed (er_action r)"
    using assms by (auto simp: authorize_def with_state_def split: if_splits sum.splits)
  show ?thesis
  proof (cases "mget (au_effects s) (er_effectKey r)")
    case (Some e)
    with s assms show ?thesis
      by (auto simp: authorize_def with_state_def ledger_state_def split: if_splits)
  next
    case None
    with s assms obtain e where "lg_events l' = lg_events l @ [e]" "ae_data e = EffectAuthorized r rd ad now"
      by (auto simp: authorize_def with_state_def Let_def append_event_Inr append_row_Inr
          split: if_splits option.splits sum.splits)
    with s show ?thesis
      by (auto simp: ledger_state_def replay_append effect_authorized_def)
  qed
qed

text \<open>
  Authorization is idempotent for good: after a request was authorized, whatever other
  operations follow, asking again with the same request appends nothing and answers the same
  authorization digest, unless the effect has failed terminally.
\<close>

theorem authorization_is_idempotent:
  assumes "authorize sha now eid r l = (l1, Inr ad)" and "\<not> lg_closed (fold (perform sha) ops l1)"
  shows "authorize sha now' eid' r (fold (perform sha) ops l1) \<in>
     {(fold (perform sha) ops l1, Inr ad),
      (fold (perform sha) ops l1, Inl ''Outbound effect previously failed terminally'')}"
proof -
  obtain s e rd where s: "ledger_state sha l1 s" "request_digest sha r = Inr rd"
    "isAutomaticActionAllowed (er_action r)" "mget (au_effects s) (er_effectKey r) = Some e"
    "ef_requestDigest e = rd" "ef_authorizationDigest e = ad"
    using authorize_Inr [OF assms(1)] by blast
  obtain s' where s': "ledger_state sha (fold (perform sha) ops l1) s'" "authority_kept s s'"
    using performs_keep [OF s(1)] by blast
  then obtain e' where "mget (au_effects s') (er_effectKey r) = Some e'" "effect_kept e e'"
    using s(4) unfolding authority_kept_def by blast
  with s s' assms(2) show ?thesis
    by (auto simp: authorize_def with_state_def ledger_state_def effect_kept_def)
qed

theorem authorization_is_idempotent_witness:
  "snd (authorize demo_hash ''2031-01-01T00:00:00.000Z'' ''e9'' demo_request demo_delivered) \<in>
     {Inr (demo_hash []), Inl ''Outbound effect previously failed terminally''}"
proof -
  have "authorize demo_hash ''2026-01-01T00:00:01.000Z'' ''e2'' demo_request demo_promoted =
      (demo_authorized, Inr (demo_hash []))"
    by (simp add: demo_ledgers)
  from authorization_is_idempotent [OF this, of
      "[Op_receipt ''2026-01-01T00:00:02.000Z'' ''e3'' demo_request demo_outbound_receipt]"
      "''2031-01-01T00:00:00.000Z''" "''e9''"]
  show ?thesis by (auto simp: demo_ledgers)
qed

text \<open>
  C26. Delivery is final: once an effect has a receipt, every later operation leaves its
  receipt and its delivered status as they are.
\<close>

theorem receipts_are_final:
  assumes "replay_authority sha (lg_events l) = Inr s" and "mget (au_effects s) k = Some e" and "ef_receipt e = Some rc"
  shows "\<exists>s' e'. replay_authority sha (lg_events (fold (perform sha) ops l)) = Inr s' \<and>
     mget (au_effects s') k = Some e' \<and> ef_receipt e' = Some rc \<and> ef_status e' = ef_status e \<and>
     ef_request e' = ef_request e"
proof -
  have "ledger_state sha l s" using assms(1) by (simp add: ledger_state_def)
  from performs_keep [OF this] obtain s' where "ledger_state sha (fold (perform sha) ops l) s'" "authority_kept s s'"
    by blast
  with assms(2,3) show ?thesis unfolding authority_kept_def ledger_state_def effect_kept_def by fastforce
qed

theorem receipts_are_final_witness:
  "\<exists>s' e'. replay_authority demo_hash (lg_events (fold (perform demo_hash)
       [Op_failure ''2026-01-01T00:00:04.000Z'' ''e5'' ''e6'' demo_request False ''late''] demo_delivered)) = Inr s' \<and>
     mget (au_effects s') ''k1'' = Some e' \<and> ef_receipt e' = Some demo_outbound_receipt"
proof -
  obtain s where s: "replay_authority demo_hash (lg_events demo_delivered) = Inr s"
    using ledger_replays [OF demo_ledgers_reachable(3)] by blast
  obtain e where e: "mget (au_effects s) ''k1'' = Some e" "ef_receipt e = Some demo_outbound_receipt"
    using s by (auto simp: demo_ledgers)
  show ?thesis using receipts_are_final [OF s e] by blast
qed

section \<open>Failures and suspension\<close>

text \<open>
  The fail-safe: a recorded failure that is terminal, or that reaches the threshold,
  leaves the policy of the request without authority; a new effect under it is refused.
\<close>

theorem failure_suspends_policy:
  assumes "recordFailure sha now eid eid' r retryable reason l = (l', Inr ())"
    and "replay_authority sha (lg_events l) = Inr s" and "request_digest sha r = Inr rd"
    and "authorized_effect s r rd = Inr e" and "ef_receipt e = None"
    and "\<not> retryable \<or> lg_suspensionThreshold l \<le> ef_failureCount e + 1"
    and "er_policyPromotionDigest r' = er_policyPromotionDigest r"
  shows "\<exists>s'. replay_authority sha (lg_events l') = Inr s' \<and>
     authorization_error (mget (au_policies s') (er_policyPromotionDigest r')) r' now' =
       Some ''Outbound policy is not active''"
proof -
  obtain t where f: "failure_rows now eid eid' r rd retryable t (failure_suspends (lg_suspensionThreshold l) e retryable
      (mget (au_policies s) (er_policyPromotionDigest r))) l = Inr l'"
    using assms(1-5) by (auto simp: recordFailure_def with_state_def split: if_splits sum.splits)
  then obtain l1 where l1: "append_event l eid (er_effectKey r) (EffectFailed (er_effectKey r) rd retryable t now) now = Inr l1"
    by (auto simp: failure_rows_def split: sum.splits)
  have b: "mget (au_effects s) (er_effectKey r) = Some e" "ef_requestDigest e = rd"
    using assms(4) by (simp_all add: authorized_effect_Inr)
  show ?thesis
  proof (cases "failure_suspends (lg_suspensionThreshold l) e retryable (mget (au_policies s) (er_policyPromotionDigest r))")
    case None
    then have "l' = l1" using f l1 by (simp add: failure_rows_def)
    then obtain e1 where "lg_events l' = lg_events l @ [e1]" "ae_data e1 = EffectFailed (er_effectKey r) rd retryable t now"
      using l1 by (auto simp: append_event_Inr append_row_Inr)
    with b assms(2) show ?thesis
      using None assms(6,7) by (auto simp: replay_append failure_suspends_def authorization_error_def split: option.splits if_splits)
  next
    case (Some p)
    then obtain l2 where "append_event l1 eid' (op_policyRevisionId (pp_policy p))
        (PolicySuspended (er_policyPromotionDigest r) now (failsafe_reason t)) now = Inr l2" "l' = l2"
      using f l1 by (simp add: failure_rows_def)
    then obtain e1 e2 where "lg_events l' = lg_events l @ [e1, e2]" "ae_data e1 = EffectFailed (er_effectKey r) rd retryable t now"
      "ae_data e2 = PolicySuspended (er_policyPromotionDigest r) now (failsafe_reason t)"
      using l1 by (auto simp: append_event_Inr append_row_Inr)
    with b assms(2) Some show ?thesis
      using assms(7) by (auto simp: replay_append failure_suspends_Some authorization_error_def policy_suspended_def)
  qed
qed

theorem failure_suspends_policy_witness:
  "\<exists>s'. replay_authority demo_hash (lg_events demo_failed) = Inr s' \<and>
     authorization_error (mget (au_policies s') (demo_hash [])) (demo_request\<lparr>er_effectKey := ''k2''\<rparr>)
       ''2026-01-02T00:00:00.000Z'' = Some ''Outbound policy is not active''"
proof -
  obtain s where s: "replay_authority demo_hash (lg_events demo_authorized) = Inr s"
    using ledger_replays [OF demo_ledgers_reachable(2)] by blast
  obtain e where e: "authorized_effect s demo_request (demo_hash []) = Inr e" "ef_receipt e = None"
    using s by (auto simp: demo_ledgers)
  have "recordFailure demo_hash ''2026-01-01T00:00:02.000Z'' ''e3'' ''e4'' demo_request False ''gone'' demo_authorized =
      (demo_failed, Inr ())"
    by (simp add: demo_ledgers)
  from failure_suspends_policy [OF this s demo_request_digest e, of "demo_request\<lparr>er_effectKey := ''k2''\<rparr>"]
  show ?thesis by simp
qed

section \<open>Suspension is permanent\<close>

definition suspended_in :: "Authority \<Rightarrow> digest \<Rightarrow> bool" where
  "suspended_in s d \<longleftrightarrow> (\<exists>p. mget (au_policies s) d = Some p \<and> pp_status p = PS_suspended)"

text \<open>Two revisions in the log that were promoted under one digest: a collision of the hash.\<close>

definition promotes_under :: "AuthorityData list \<Rightarrow> digest \<Rightarrow> OutboundPolicy \<Rightarrow> bool" where
  "promotes_under ds d p \<longleftrightarrow> (\<exists>pd by at. PolicyPromoted p pd d by at \<in> set ds)"

definition promotion_clash :: "AuthorityData list \<Rightarrow> digest \<Rightarrow> bool" where
  "promotion_clash ds d \<longleftrightarrow> (\<exists>p q. promotes_under ds d p \<and> promotes_under ds d q \<and>
     op_policyRevisionId p \<noteq> op_policyRevisionId q)"

definition promotions_logged :: "AuthorityData list \<Rightarrow> Authority \<Rightarrow> bool" where
  "promotions_logged ds s \<longleftrightarrow> (\<forall>d p. mget (au_policies s) d = Some p \<longrightarrow> promotes_under ds d (pp_policy p))"

lemma promotes_under_append [simp]:
  "promotes_under (ds @ ds') d p \<longleftrightarrow> promotes_under ds d p \<or> promotes_under ds' d p"
  by (auto simp: promotes_under_def)

lemma promotion_clash_append: "promotion_clash ds d \<Longrightarrow> promotion_clash (ds @ ds') d"
  by (auto simp: promotion_clash_def)

lemma admits_suspended:
  assumes "admits sha threshold s ds" and "try_fold (apply_authority sha) s ds = Inr s'"
    and "promotions_logged log s"
  shows "promotions_logged (log @ ds) s' \<and>
     (suspended_in s d \<longrightarrow> suspended_in s' d \<or> promotion_clash (log @ ds) d)"
  using assms(1)
proof cases
  case (admits_promotion p now "by")
  let ?d = "promotion_digest sha p by now"
  have new: "promotes_under ds ?d p" by (auto simp: admits_promotion(1) promotes_under_def)
  have s': "s' = s\<lparr>au_policies := mput ?d (policy_promoted p (digest_of sha (enc_OutboundPolicy p)) ?d by now)
      (au_policies s)\<rparr>"
    using assms(2) by (simp add: admits_promotion(1) split: if_splits)
  have "promotion_clash (log @ ds) d" if "mget (au_policies s) d = Some q" "d = ?d" for q
  proof -
    have "promotes_under log d (pp_policy q)" using assms(3) that(1) by (auto simp: promotions_logged_def)
    moreover have "op_policyRevisionId (pp_policy q) \<noteq> op_policyRevisionId p"
      using admits_promotion(3) mvalues_get [OF that(1)] by blast
    ultimately show ?thesis using new that(2) by (auto simp: promotion_clash_def)
  qed
  with assms(3) new show ?thesis
    by (auto simp: s' promotions_logged_def suspended_in_def policy_promoted_def)
qed (use assms(2,3) in \<open>auto simp: promotions_logged_def suspended_in_def policy_suspended_def
       authorized_effect_Inr failure_suspends_Some split: if_splits\<close>)

lemma perform_suspended:
  assumes "ledger_state sha l s" and "promotions_logged (map ae_data (lg_events l)) s"
    and "suspended_in s d \<or> promotion_clash (map ae_data (lg_events l)) d"
  obtains s' where "ledger_state sha (perform sha op l) s'"
    "promotions_logged (map ae_data (lg_events (perform sha op l))) s'"
    "suspended_in s' d \<or> promotion_clash (map ae_data (lg_events (perform sha op l))) d"
proof (cases rule: perform_state [OF assms(1), of op])
  case 1
  with assms(2,3) that show ?thesis by simp
next
  case (2 es s')
  from admits_suspended [OF 2(2,3) assms(2), of d] assms(3) 2(1,4) that show ?thesis
    using promotion_clash_append by auto
qed

lemma reachable_promotions_logged:
  "ledger_reachable sha l \<Longrightarrow> \<exists>s. ledger_state sha l s \<and> promotions_logged (map ae_data (lg_events l)) s"
proof (induction rule: ledger_reachable.induct)
  case (ledger_new threshold)
  show ?case
    by (auto simp: open_ledger_def ledger_state_def replay_authority_def emptyAuthority_def promotions_logged_def)
next
  case (ledger_performed l op)
  then obtain s where s: "ledger_state sha l s" "promotions_logged (map ae_data (lg_events l)) s" by blast
  show ?case
  proof (cases rule: perform_state [OF s(1), of op])
    case 1
    with s(2) show ?thesis by auto
  next
    case (2 es s')
    from admits_suspended [OF 2(2,3) s(2)] 2(1,4) show ?thesis by auto
  qed
qed

text \<open>
  Suspension is permanent: whatever operations follow, a suspended policy stays suspended,
  or else the log promotes two policy revisions under the same SHA-256 digest.
\<close>

theorem suspension_is_permanent:
  assumes "ledger_reachable sha l" and "replay_authority sha (lg_events l) = Inr s" and "suspended_in s d"
  shows "\<exists>s'. replay_authority sha (lg_events (fold (perform sha) ops l)) = Inr s' \<and>
     (suspended_in s' d \<or> promotion_clash (map ae_data (lg_events (fold (perform sha) ops l))) d)"
proof -
  have "\<exists>s'. ledger_state sha (fold (perform sha) ops l) s' \<and>
     (suspended_in s' d \<or> promotion_clash (map ae_data (lg_events (fold (perform sha) ops l))) d)"
    if "ledger_state sha l s" "promotions_logged (map ae_data (lg_events l)) s"
      "suspended_in s d \<or> promotion_clash (map ae_data (lg_events l)) d" for l s
    using that
  proof (induction ops arbitrary: l s)
    case Nil
    then show ?case by auto
  next
    case (Cons op ops)
    from perform_suspended [OF Cons.prems, of op] Cons.IH show ?case by (metis fold_simps(2))
  qed
  moreover have "promotions_logged (map ae_data (lg_events l)) s"
    using reachable_promotions_logged [OF assms(1)] assms(2) by (auto simp: ledger_state_def)
  ultimately show ?thesis using assms(2,3) by (auto simp: ledger_state_def)
qed

theorem suspension_is_permanent_witness:
  "\<exists>s'. replay_authority demo_hash (lg_events (perform demo_hash
       (Op_promote ''2026-01-03T00:00:00.000Z'' ''e7'' demo_outbound_policy ''op'') demo_failed)) = Inr s' \<and>
     suspended_in s' (demo_hash [])"
proof -
  let ?op = "Op_promote ''2026-01-03T00:00:00.000Z'' ''e7'' demo_outbound_policy ''op''"
  obtain s where s: "replay_authority demo_hash (lg_events demo_failed) = Inr s" "suspended_in s (demo_hash [])"
    using ledger_replays [OF demo_ledgers_reachable(4)] by (auto simp: demo_ledgers suspended_in_def)
  from suspension_is_permanent [OF demo_ledgers_reachable(4) s, of "[?op]"] show ?thesis
    by (auto simp: demo_ledgers policy_error_def promotion_clash_def promotes_under_def)
qed

section \<open>The log\<close>

text \<open>
  The log of every reachable ledger is numbered from 1 without gaps, under distinct event
  identifiers, and replays without an exception.
\<close>

theorem authority_log_is_sound:
  assumes "ledger_reachable sha l"
  shows "map ae_globalPosition (lg_events l) = [1..<length (lg_events l) + 1] \<and>
     distinct (map ae_eventId (lg_events l)) \<and> (\<exists>s. replay_authority sha (lg_events l) = Inr s)"
  using ledger_replays [OF assms] by (simp add: well_numbered_def)

theorem authority_log_is_sound_witness:
  "map ae_globalPosition (lg_events demo_failed) = [1, 2, 3, 4]"
  using authority_log_is_sound [OF demo_ledgers_reachable(4)] by (simp add: demo_ledgers upt_rec)

section \<open>Departures from the intended behaviour\<close>

text \<open>
  \<open>recordFailure\<close> does not look at the effect's status: a retryable failure reported after
  a terminal one makes the effect authorized again, although its policy is suspended.
\<close>

lemma failed_effect_revives:
  "snd (authorize demo_hash ''2026-01-01T00:00:04.000Z'' ''e9'' demo_request demo_failed) =
     Inl ''Outbound effect previously failed terminally''"
  "snd (authorize demo_hash ''2026-01-01T00:00:04.000Z'' ''e9'' demo_request
     (perform demo_hash (Op_failure ''2026-01-01T00:00:03.000Z'' ''e7'' ''e8'' demo_request True ''late'') demo_failed)) =
     Inr (demo_hash [])"
  by (simp_all add: demo_ledgers)

text \<open>
  \<open>expiresAt\<close> may carry an offset, but it is compared as a text with the clock's UTC text:
  a policy that expired at 23:30 UTC (09:30 in the offset +10:00 of the next day) is accepted at
  midnight.
\<close>

lemma expired_offset_policy_is_accepted:
  "policy_error (demo_outbound_policy\<lparr>op_expiresAt := ''2026-01-02T09:30:00.000+10:00''\<rparr>)
     ''2026-01-02T00:00:00.000Z'' = None"
  by (simp add: policy_error_def isAutomaticActionAllowed_def AUTOMATIC_ACTION_ALLOWLIST_def)

end
