(* ===== verification/DecideDriver.thy ===== *)
theory DecideDriver
  imports Transitions
begin

text \<open>
  The branches of \<open>decide\<close> (packages/kernel/src/domain.ts) through which a driver reports:
  observed protocol events, the receipt of a finished execution, and the receipt of a
  cancelled one.
\<close>

section \<open>Observed protocol events\<close>

text \<open>The variables of the loop over the observed events.\<close>

record DriverScan =
  scan_expected :: nat
  scan_terminalCount :: nat
  scan_cpuMillis :: nat
  scan_memoryPeakBytes :: nat
  scan_events :: "DomainEventInput list"

definition scan_usage :: "DriverProtocolEvent \<Rightarrow> DriverUsage \<Rightarrow> DriverUsage" where
  "scan_usage e u =
     (case de_body e of
        DE_usage cpu mem \<Rightarrow>
          \<lparr>cpuMillis = max (cpuMillis u) cpu, memoryPeakBytes = max (memoryPeakBytes u) mem\<rparr>
      | _ \<Rightarrow> u)"

definition usage_so_far :: "AttemptState \<Rightarrow> DriverUsage" where
  "usage_so_far a =
     (case att_cumulativeUsage a of None \<Rightarrow> \<lparr>cpuMillis = 0, memoryPeakBytes = 0\<rparr> | Some u \<Rightarrow> u)"

definition is_terminal_event :: "DriverProtocolEvent \<Rightarrow> bool" where
  "is_terminal_event e = (case de_body e of DE_terminal _ _ \<Rightarrow> True | _ \<Rightarrow> False)"

definition approvalRecorded ::
    "JobState \<Rightarrow> uuid \<Rightarrow> uuid \<Rightarrow> string \<Rightarrow> string \<Rightarrow> nat \<Rightarrow> DomainEventInput" where
  "approvalRecorded job aid request capability reason sequence =
     event ST_approval_request request (ApprovalRequestRecorded
       \<lparr>apr_approvalRequestId = request, apr_runId = job_runId job, apr_jobId = job_jobId job,
        apr_attemptId = aid, apr_capability = capability, apr_reason = reason,
        apr_sequence = sequence\<rparr>)"

definition scan_one :: "JobState \<Rightarrow> AttemptState \<Rightarrow> DriverProtocolEvent \<Rightarrow> DriverScan \<Rightarrow> DriverScan" where
  "scan_one job a e s =
     (let u = scan_usage e \<lparr>cpuMillis = scan_cpuMillis s, memoryPeakBytes = scan_memoryPeakBytes s\<rparr>
      in \<lparr>scan_expected = scan_expected s + 1,
          scan_terminalCount = scan_terminalCount s + (if is_terminal_event e then 1 else 0),
          scan_cpuMillis = cpuMillis u, scan_memoryPeakBytes = memoryPeakBytes u,
          scan_events = scan_events s @
            (case de_body e of
               DE_approval_requested request capability reason \<Rightarrow>
                 [approvalRecorded job (att_attemptId a) request capability reason (de_sequence e)]
             | _ \<Rightarrow> [])\<rparr>)"

fun scan_driver_events ::
    "JobState \<Rightarrow> AttemptState \<Rightarrow> DriverScan \<Rightarrow> DriverProtocolEvent list \<Rightarrow> DomainError + DriverScan" where
  "scan_driver_events job a s [] = Inr s"
| "scan_driver_events job a s (e # es) =
     (if de_sequence e \<noteq> scan_expected s
      then Inl (failure EVIDENCE_DIGEST_MISMATCH ''Driver event sequence is not contiguous''
             [(''attemptId'', DText (att_attemptId a)),
              (''expectedSequence'', DNum (scan_expected s))])
      else scan_driver_events job a (scan_one job a e s) es)"

definition scan_start :: "AttemptState \<Rightarrow> DriverScan" where
  "scan_start a =
     \<lparr>scan_expected = att_driverCursor a + 1, scan_terminalCount = 0,
      scan_cpuMillis = cpuMillis (usage_so_far a),
      scan_memoryPeakBytes = memoryPeakBytes (usage_so_far a), scan_events = []\<rparr>"

text \<open>\<open>findIndex\<close> of the first terminal event; \<open>None\<close> stands for \<open>-1\<close>.\<close>

fun terminal_index :: "DriverProtocolEvent list \<Rightarrow> nat option" where
  "terminal_index [] = None"
| "terminal_index (e # es) =
     (if is_terminal_event e then Some 0 else map_option Suc (terminal_index es))"

definition decide_driver_events_observe ::
    "ProjectionState \<Rightarrow> DriverEventsPayload \<Rightarrow> timestamp \<Rightarrow> Decision" where
  "decide_driver_events_observe st p now =
     (case mget (jobs st) (dep_jobId p) of
        None \<Rightarrow> Reject (failure JOB_NOT_FOUND ''Job does not exist'' [(''jobId'', DText (dep_jobId p))])
      | Some job \<Rightarrow>
     (case validateJobLease job (dep_ownerId p) (dep_fencingToken p) now of
        Some e \<Rightarrow> Reject e
      | None \<Rightarrow>
     (case mget (attempts st) (dep_attemptId p) of
        None \<Rightarrow> Reject (failure ATTEMPT_NOT_FOUND ''Attempt does not exist''
                 [(''attemptId'', DText (dep_attemptId p))])
      | Some a \<Rightarrow>
          if job_activeAttemptId job \<noteq> Some (att_attemptId a) \<or> att_status a \<noteq> A_running
          then Reject (failure ATTEMPT_NOT_ACTIVE ''Attempt is not active in the driver''
                 [(''attemptId'', DText (att_attemptId a))])
          else if dep_afterSequence p \<noteq> att_driverCursor a
          then Reject (failure ATTEMPT_NOT_ACTIVE ''Driver event cursor does not match''
                 [(''attemptId'', DText (att_attemptId a)),
                  (''expectedCursor'', DNum (att_driverCursor a))])
          else (case scan_driver_events job a (scan_start a) (dep_events p) of
              Inl e \<Rightarrow> Reject e
            | Inr s \<Rightarrow>
                if 1 < scan_terminalCount s
                then Reject (failure EVIDENCE_DIGEST_MISMATCH
                       ''Driver batch contains multiple terminal events''
                       [(''attemptId'', DText (att_attemptId a))])
                else if (case terminal_index (dep_events p) of None \<Rightarrow> False
                         | Some i \<Rightarrow> Suc i \<noteq> length (dep_events p))
                then Reject (failure EVIDENCE_DIGEST_MISMATCH ''Driver terminal event must be final''
                       [(''attemptId'', DText (att_attemptId a))])
                else Accept
                  (event ST_attempt (att_attemptId a) (DriverEventsObserved
                     \<lparr>deo_attemptId = att_attemptId a, deo_jobId = job_jobId job,
                      deo_runId = job_runId job, deo_afterSequence = dep_afterSequence p,
                      deo_cursor = scan_expected s - 1, deo_events = dep_events p,
                      deo_cumulativeUsage = \<lparr>cpuMillis = scan_cpuMillis s,
                        memoryPeakBytes = scan_memoryPeakBytes s\<rparr>\<rparr>) # scan_events s)
                  K_attempt (att_attemptId a)))))"

section \<open>The receipt of an execution\<close>

definition entries_total :: "ArtifactEntry list \<Rightarrow> nat" where
  "entries_total es = sum_list (map art_size es)"

text \<open>The part of the identity check that both receipt commands make against the job.\<close>

definition receipt_matches_job ::
    "(string \<Rightarrow> string) \<Rightarrow> ProjectionState \<Rightarrow> JobState \<Rightarrow> uuid \<Rightarrow> DriverReceipt \<Rightarrow> bool" where
  "receipt_matches_job sha st job attemptId r \<longleftrightarrow>
     rc_receiptDigest r = driverReceiptDigest sha r \<and> receipt_driver_ok r \<and>
     rc_runId r = job_runId job \<and> rc_jobId r = job_jobId job \<and> rc_attemptId r = attemptId \<and>
     job_sourceRevisionId job = Some (rc_baseRevisionId r) \<and>
     map_option (\<lambda>s. sr_revisionDigest (srs_revision s))
       (mget (sourceRevisions st) (rc_baseRevisionId r)) = Some (rc_baseRevisionDigest r) \<and>
     job_executionContractDigest job = Some (rc_executionContractDigest r) \<and>
     job_capabilityManifestDigest job = Some (rc_capabilityManifestDigest r) \<and>
     receipt_context_ok r job \<and>
     map_option ec_image (job_executionContract job) = Some (rc_image r)"

definition receipt_identity_ok ::
    "(string \<Rightarrow> string) \<Rightarrow> ProjectionState \<Rightarrow> JobState \<Rightarrow> AttemptState \<Rightarrow> DriverReceipt \<Rightarrow> bool" where
  "receipt_identity_ok sha st job a r \<longleftrightarrow>
     receipt_matches_job sha st job (att_attemptId a) r \<and>
     att_externalRunId a = Some (rc_externalRunId r) \<and> rc_eventCount r = att_driverCursor a"

definition artifacts_match :: "(string \<Rightarrow> string) \<Rightarrow> ArtifactEntry list \<Rightarrow> DriverReceipt \<Rightarrow> bool" where
  "artifacts_match sha es r \<longleftrightarrow>
     digest_of sha (enc_entries (canonicalArtifactEntries es)) =
     digest_of sha (enc_entries (canonicalArtifactEntries (rc_artifacts r)))"

text \<open>The candidate revision a receipt declares, and the event that registers a new one.\<close>

definition candidate_error ::
    "(string \<Rightarrow> string) \<Rightarrow> ProjectionState \<Rightarrow> AttemptState \<Rightarrow> DriverReceipt \<Rightarrow> SourceRevision option \<Rightarrow>
       DomainError option" where
  "candidate_error sha st a r candidate =
     (case candidate of
        None \<Rightarrow> None
      | Some c \<Rightarrow>
          if rc_candidateRevisionId r \<noteq> Some (sr_revisionId c) \<or>
             rc_candidateRevisionDigest r \<noteq> Some (sr_revisionDigest c) \<or>
             sr_revisionDigest c \<noteq> sourceRevisionDigest sha c
          then Some (failure EVIDENCE_DIGEST_MISMATCH
                 ''Candidate revision does not match its receipt''
                 [(''attemptId'', DText (att_attemptId a))])
          else (case mget (sourceRevisions st) (sr_revisionId c) of
              None \<Rightarrow> None
            | Some existing \<Rightarrow>
                if sr_revisionDigest (srs_revision existing) \<noteq> sr_revisionDigest c
                then Some (failure SOURCE_REVISION_CONFLICT
                       ''Candidate revision identifier conflicts''
                       [(''revisionId'', DText (sr_revisionId c))])
                else None))"

definition candidate_events :: "ProjectionState \<Rightarrow> SourceRevision option \<Rightarrow> DomainEventInput list" where
  "candidate_events st candidate =
     (case candidate of
        None \<Rightarrow> []
      | Some c \<Rightarrow> if mhas (sourceRevisions st) (sr_revisionId c) then []
                  else [event ST_source_revision (sr_revisionId c) (SourceRevisionRegistered c)])"

definition candidate_required_error ::
    "AttemptState \<Rightarrow> DriverReceipt \<Rightarrow> SourceRevision option \<Rightarrow> DomainError option" where
  "candidate_required_error a r candidate =
     (if rc_outcome r = DO_succeeded \<and> (candidate = None \<or> rc_approvals r \<noteq> [])
      then Some (failure EVIDENCE_DIGEST_MISMATCH
             ''Successful receipt requires a candidate and no approvals''
             [(''attemptId'', DText (att_attemptId a))])
      else if candidate = None \<and> rc_candidateRevisionDigest r \<noteq> None
      then Some (failure EVIDENCE_DIGEST_MISMATCH
             ''Receipt has a candidate digest without a candidate''
             [(''attemptId'', DText (att_attemptId a))])
      else None)"

definition receipt_source :: "DriverReceipt \<Rightarrow> uuid" where
  "receipt_source r = (case rc_candidateRevisionId r of None \<Rightarrow> rc_baseRevisionId r | Some c \<Rightarrow> c)"

definition agent_manifest ::
    "(string \<Rightarrow> string) \<Rightarrow> uuid \<Rightarrow> JobState \<Rightarrow> uuid \<Rightarrow> uuid \<Rightarrow> ArtifactEntry list \<Rightarrow> ArtifactManifest" where
  "agent_manifest sha manifestId job attemptId source es =
     (let entries = canonicalArtifactEntries es in
      \<lparr>am_artifactManifestId = manifestId, am_runId = job_runId job, am_jobId = job_jobId job,
       am_attemptId = attemptId, am_sourceRevisionId = source, am_producer = P_agent,
       am_entries = entries, am_manifestDigest = artifactManifestDigest sha entries,
       am_totalBytes = entries_total entries\<rparr>)"

definition receipt_record :: "uuid \<Rightarrow> JobState \<Rightarrow> uuid \<Rightarrow> DriverReceipt \<Rightarrow> DriverReceiptRecord" where
  "receipt_record receiptId job attemptId r =
     \<lparr>drr_driverReceiptId = receiptId, drr_runId = job_runId job, drr_jobId = job_jobId job,
      drr_attemptId = attemptId, drr_baseRevisionId = rc_baseRevisionId r,
      drr_candidateRevisionId = rc_candidateRevisionId r, drr_receipt = r,
      drr_receiptDigest = rc_receiptDigest r, drr_outcome = rc_outcome r,
      drr_terminalReason = rc_terminalReason r\<rparr>"

definition approval_events ::
    "ProjectionState \<Rightarrow> JobState \<Rightarrow> uuid \<Rightarrow> DriverReceipt \<Rightarrow> DomainEventInput list" where
  "approval_events st job aid r =
     [approvalRecorded job aid (appr_requestId q) (appr_capability q) (appr_reason q) (appr_sequence q).
      q \<leftarrow> rc_approvals r, \<not> mhas (approvalRequests st) (appr_requestId q)]"

text \<open>The three events that hand an attempt to the verifier.\<close>

definition verificationRequestEvents ::
    "JobState \<Rightarrow> uuid \<Rightarrow> RunState \<Rightarrow> WorkflowState \<Rightarrow> uuid \<Rightarrow> uuid \<Rightarrow> uuid \<Rightarrow> VerifierContract \<Rightarrow> digest \<Rightarrow>
       DomainEventInput list" where
  "verificationRequestEvents job aid run workflow verificationId outboxId source contract contractDigest =
     [event ST_attempt aid
        (AttemptVerificationRequested aid (job_jobId job) (job_runId job) verificationId),
      event ST_verification verificationId (VerificationRequested
        \<lparr>vq_verificationId = verificationId, vq_runId = job_runId job, vq_jobId = job_jobId job,
         vq_attemptId = aid, vq_workflowId = run_workflowId run,
         vq_workflowVersion = run_workflowVersion run,
         vq_workflowDigest = wf_definitionDigest workflow, vq_sourceRevisionId = source,
         vq_verifierContractDigest = contractDigest\<rparr>),
      outboxEnqueued outboxId job aid (EffectVerificationRun
        \<lparr>vn_verificationId = verificationId, vn_sourceRevisionId = source,
         vn_workflowId = run_workflowId run, vn_workflowVersion = run_workflowVersion run,
         vn_workflowDigest = wf_definitionDigest workflow, vn_verifierContract = contract,
         vn_verifierContractDigest = contractDigest, vn_attemptId = aid,
         vn_jobId = job_jobId job, vn_runId = job_runId job\<rparr>)]"

fun nonretryable_reason :: "DriverOutcome \<Rightarrow> TerminationReason" where
  "nonretryable_reason DO_approval_required = TR_approval_required"
| "nonretryable_reason DO_capability_violation = TR_capability_violation"
| "nonretryable_reason DO_protocol_invalid = TR_protocol_invalid"
| "nonretryable_reason DO_operator_cancelled = TR_operator_cancelled"
| "nonretryable_reason DO_succeeded = TR_completed"
| "nonretryable_reason DO_failed = TR_driver_error"
| "nonretryable_reason DO_timed_out = TR_timed_out"

text \<open>What follows the recorded evidence, by the receipt's outcome.\<close>

definition receipt_outcome_events ::
    "(string \<Rightarrow> string) \<Rightarrow> ProjectionState \<Rightarrow> JobState \<Rightarrow> AttemptState \<Rightarrow> DriverReceiptPayload \<Rightarrow>
       timestamp \<Rightarrow> DomainError + DomainEventInput list" where
  "receipt_outcome_events sha st job a p now =
     (let r = drp_receipt p in
      if rc_outcome r = DO_succeeded
      then (case (drp_verificationId p, drp_verificationOutboxId p,
                  job_verifierContract job, job_verifierContractDigest job) of
          (Some vid, Some oid, Some contract, Some contractDigest) \<Rightarrow>
            (case mget (runs st) (job_runId job) of
               None \<Rightarrow> Inl (failure RUN_NOT_FOUND ''Run does not exist''
                         [(''runId'', DText (job_runId job))])
             | Some run \<Rightarrow>
               (case mget (workflows st) (workflowKey (run_workflowId run) (run_workflowVersion run)) of
                  None \<Rightarrow> Inl (failure WORKFLOW_NOT_FOUND ''Workflow version does not exist'' [])
                | Some workflow \<Rightarrow>
                    Inr (verificationRequestEvents job (att_attemptId a) run workflow vid oid
                           (receipt_source r) contract contractDigest)))
        | _ \<Rightarrow> Inl (failure VERIFICATION_REQUIRED
                 ''Successful receipt requires verification identifiers''
                 [(''attemptId'', DText (att_attemptId a))]))
      else if rc_outcome r = DO_failed \<or> rc_outcome r = DO_timed_out
      then Inr (failureTransitionEvents sha st job a
             (if rc_outcome r = DO_timed_out then TR_timed_out else TR_driver_error) now
             (Some (rc_terminalReason r)) None)
      else Inr (nonretryableDriverFailureEvents sha st job a
             (nonretryable_reason (rc_outcome r)) (rc_terminalReason r)))"

definition receipt_evidence_events ::
    "(string \<Rightarrow> string) \<Rightarrow> ProjectionState \<Rightarrow> JobState \<Rightarrow> AttemptState \<Rightarrow> DriverReceiptPayload \<Rightarrow>
       DomainEventInput list" where
  "receipt_evidence_events sha st job a p =
     (let r = drp_receipt p; aid = att_attemptId a in
      candidate_events st (drp_candidateRevision p) @
      [event ST_artifact_manifest (drp_artifactManifestId p) (ArtifactManifestRecorded
         (agent_manifest sha (drp_artifactManifestId p) job aid (receipt_source r) (drp_entries p))),
       event ST_driver_receipt (drp_driverReceiptId p) (DriverReceiptRecorded
         (receipt_record (drp_driverReceiptId p) job aid r))] @
      approval_events st job aid r)"

text \<open>The checks between the attempt lookup and the first event.\<close>

definition receipt_error ::
    "(string \<Rightarrow> string) \<Rightarrow> ProjectionState \<Rightarrow> JobState \<Rightarrow> AttemptState \<Rightarrow> DriverReceiptPayload \<Rightarrow>
       DomainError option" where
  "receipt_error sha st job a p =
     (let r = drp_receipt p; details = [(''attemptId'', DText (att_attemptId a))] in
      if job_activeAttemptId job \<noteq> Some (att_attemptId a) \<or> att_status a \<noteq> A_running \<or>
         truthy (att_externalRunId a) = None
      then Some (failure ATTEMPT_NOT_ACTIVE ''Attempt is not active in the driver'' details)
      else if \<not> receipt_identity_ok sha st job a r
      then Some (failure EVIDENCE_DIGEST_MISMATCH
             ''Driver receipt identity does not match the attempt'' details)
      else if mhas (driverReceipts st) (drp_driverReceiptId p)
      then Some (failure ARTIFACT_MANIFEST_CONFLICT ''Driver receipt already exists''
             [(''driverReceiptId'', DText (drp_driverReceiptId p))])
      else if \<not> artifacts_match sha (drp_entries p) r
      then Some (failure EVIDENCE_DIGEST_MISMATCH
             ''Driver artifact receipt does not match entries'' details)
      else (case candidate_error sha st a r (drp_candidateRevision p) of
          Some e \<Rightarrow> Some e
        | None \<Rightarrow> candidate_required_error a r (drp_candidateRevision p)))"

definition decide_driver_receipt_record ::
    "(string \<Rightarrow> string) \<Rightarrow> ProjectionState \<Rightarrow> DriverReceiptPayload \<Rightarrow> timestamp \<Rightarrow> Decision" where
  "decide_driver_receipt_record sha st p now =
     (case mget (jobs st) (drp_jobId p) of
        None \<Rightarrow> Reject (failure JOB_NOT_FOUND ''Job does not exist'' [(''jobId'', DText (drp_jobId p))])
      | Some job \<Rightarrow>
     (case validateJobLease job (drp_ownerId p) (drp_fencingToken p) now of
        Some e \<Rightarrow> Reject e
      | None \<Rightarrow>
     (case mget (attempts st) (drp_attemptId p) of
        None \<Rightarrow> Reject (failure ATTEMPT_NOT_FOUND ''Attempt does not exist''
                 [(''attemptId'', DText (drp_attemptId p))])
      | Some a \<Rightarrow>
     (case receipt_error sha st job a p of
        Some e \<Rightarrow> Reject e
      | None \<Rightarrow>
     (case receipt_outcome_events sha st job a p now of
        Inl e \<Rightarrow> Reject e
      | Inr evs \<Rightarrow> Accept (receipt_evidence_events sha st job a p @ evs)
          K_driver_receipt (drp_driverReceiptId p))))))"

section \<open>The receipt of a cancelled execution\<close>

text \<open>The external run and the outcome a cancellation message is waiting for.\<close>

fun cancel_expects :: "OutboxEffect \<Rightarrow> (string \<times> DriverOutcome) option" where
  "cancel_expects (EffectAgentCancel ext CR_operator_cancelled _ _ _) = Some (ext, DO_operator_cancelled)"
| "cancel_expects (EffectAgentCancel ext CR_timed_out _ _ _) = Some (ext, DO_timed_out)"
| "cancel_expects (EffectAgentCancel _ CR_approval_required _ _ _) = None"
| "cancel_expects (EffectAgentStart _) = None"
| "cancel_expects (EffectVerificationRun _) = None"

definition terminal_receipt_matches ::
    "(string \<Rightarrow> string) \<Rightarrow> ProjectionState \<Rightarrow> OutboxState \<Rightarrow> JobState \<Rightarrow> AttemptState \<Rightarrow>
       TerminalReceiptPayload \<Rightarrow> bool" where
  "terminal_receipt_matches sha st b job a p \<longleftrightarrow>
     (let r = trp_receipt p in
      out_jobId b = job_jobId job \<and> out_attemptId b = att_attemptId a \<and>
      terminal_attempt (att_status a) \<and>
      cancel_expects (out_effect b) = Some (rc_externalRunId r, rc_outcome r) \<and>
      receipt_matches_job sha st job (att_attemptId a) r \<and>
      rc_candidateRevisionId r = None \<and> rc_candidateRevisionDigest r = None \<and>
      trp_afterSequence p = att_driverCursor a \<and>
      rc_eventCount r = trp_afterSequence p + length (trp_events p))"

definition terminal_receipt_events ::
    "(string \<Rightarrow> string) \<Rightarrow> JobState \<Rightarrow> AttemptState \<Rightarrow> TerminalReceiptPayload \<Rightarrow> DomainEventInput list" where
  "terminal_receipt_events sha job a p =
     (let r = trp_receipt p; aid = att_attemptId a;
          usage = fold scan_usage (trp_events p) (usage_so_far a)
      in (if trp_events p = [] then []
          else [event ST_attempt aid (DriverEventsObserved
            \<lparr>deo_attemptId = aid, deo_jobId = job_jobId job, deo_runId = job_runId job,
             deo_afterSequence = trp_afterSequence p, deo_cursor = rc_eventCount r,
             deo_events = trp_events p, deo_cumulativeUsage = usage\<rparr>)]) @
         [event ST_artifact_manifest (trp_artifactManifestId p) (ArtifactManifestRecorded
            (agent_manifest sha (trp_artifactManifestId p) job aid (rc_baseRevisionId r)
               (trp_entries p))),
          event ST_driver_receipt (trp_driverReceiptId p) (DriverReceiptRecorded
            ((receipt_record (trp_driverReceiptId p) job aid r)\<lparr>drr_candidateRevisionId := None\<rparr>))])"

fun first_gap :: "nat \<Rightarrow> DriverProtocolEvent list \<Rightarrow> nat option" where
  "first_gap expected [] = None"
| "first_gap expected (e # es) =
     (if de_sequence e \<noteq> expected then Some expected else first_gap (Suc expected) es)"

definition decide_terminal_receipt_record ::
    "(string \<Rightarrow> string) \<Rightarrow> ProjectionState \<Rightarrow> TerminalReceiptPayload \<Rightarrow> timestamp \<Rightarrow> Decision" where
  "decide_terminal_receipt_record sha st p now =
     (case mget (outbox st) (trp_outboxId p) of
        None \<Rightarrow> Reject (failure OUTBOX_NOT_FOUND ''Outbox message does not exist'' [])
      | Some b \<Rightarrow>
     (case validateOutboxLease b (trp_ownerId p) (trp_outboxFencingToken p) now of
        Some e \<Rightarrow> Reject e
      | None \<Rightarrow>
     (case mget (jobs st) (trp_jobId p) of
        None \<Rightarrow> Reject (failure JOB_NOT_FOUND ''Job does not exist'' [(''jobId'', DText (trp_jobId p))])
      | Some job \<Rightarrow>
     (case mget (attempts st) (trp_attemptId p) of
        None \<Rightarrow> Reject (failure ATTEMPT_NOT_FOUND ''Attempt does not exist''
                 [(''attemptId'', DText (trp_attemptId p))])
      | Some a \<Rightarrow>
          if \<not> terminal_receipt_matches sha st b job a p
          then Reject (failure EVIDENCE_DIGEST_MISMATCH
                 ''Terminal driver receipt does not match its cancellation''
                 [(''attemptId'', DText (att_attemptId a))])
          else if mhas (driverReceipts st) (trp_driverReceiptId p)
          then Reject (failure ARTIFACT_MANIFEST_CONFLICT ''Driver receipt already exists''
                 [(''driverReceiptId'', DText (trp_driverReceiptId p))])
          else (case first_gap (trp_afterSequence p + 1) (trp_events p) of
              Some expected \<Rightarrow> Reject (failure EVIDENCE_DIGEST_MISMATCH
                ''Terminal driver events are not contiguous''
                [(''attemptId'', DText (att_attemptId a)), (''expectedSequence'', DNum expected)])
            | None \<Rightarrow>
                if \<not> artifacts_match sha (trp_entries p) (trp_receipt p)
                then Reject (failure EVIDENCE_DIGEST_MISMATCH
                       ''Terminal driver artifacts do not match the receipt''
                       [(''attemptId'', DText (att_attemptId a))])
                else Accept (terminal_receipt_events sha job a p)
                       K_driver_receipt (trp_driverReceiptId p))))))"

end
