(* ===== verification/Decide.thy ===== *)
theory Decide
  imports DecideRuns DecideDriver
begin

text \<open>
  The branches of \<open>decide\<close> (packages/kernel/src/domain.ts) that observe attempts, complete
  verifications and deliver outbox messages, and \<open>decide\<close> itself.
\<close>

section \<open>Observing an attempt\<close>

text \<open>The checks \<open>attempt.observe\<close> and \<open>attempt.timeout\<close> share.\<close>

definition active_attempt ::
    "ProjectionState \<Rightarrow> uuid \<Rightarrow> uuid \<Rightarrow> uuid \<Rightarrow> nat \<Rightarrow> timestamp \<Rightarrow> DomainError + (JobState \<times> AttemptState)" where
  "active_attempt st jobId attemptId owner token now =
     (case mget (jobs st) jobId of
        None \<Rightarrow> Inl (failure JOB_NOT_FOUND ''Job does not exist'' [(''jobId'', DText jobId)])
      | Some job \<Rightarrow>
     (case validateJobLease job owner token now of
        Some e \<Rightarrow> Inl e
      | None \<Rightarrow>
     (case mget (attempts st) attemptId of
        None \<Rightarrow> Inl (failure ATTEMPT_NOT_FOUND ''Attempt does not exist''
                 [(''attemptId'', DText attemptId)])
      | Some a \<Rightarrow>
          if terminal_attempt (att_status a)
          then Inl (failure ATTEMPT_TERMINAL ''Attempt is already terminal''
                 [(''attemptId'', DText (att_attemptId a))])
          else if job_activeAttemptId job \<noteq> Some (att_attemptId a) \<or>
                  att_jobId a \<noteq> Some (job_jobId job)
          then Inl (failure ATTEMPT_NOT_ACTIVE ''Attempt is not active for this job''
                 [(''attemptId'', DText (att_attemptId a))])
          else Inr (job, a))))"

definition decide_attempt_timeout ::
    "(string \<Rightarrow> string) \<Rightarrow> ProjectionState \<Rightarrow> uuid \<Rightarrow> uuid \<Rightarrow> uuid \<Rightarrow> nat \<Rightarrow> timestamp \<Rightarrow> Decision" where
  "decide_attempt_timeout sha st jobId attemptId owner token now =
     (case active_attempt st jobId attemptId owner token now of
        Inl e \<Rightarrow> Reject e
      | Inr (job, a) \<Rightarrow>
          if (case att_deadlineAt a of None \<Rightarrow> True | Some d \<Rightarrow> \<not> atOrBefore d now)
          then Reject (failure ATTEMPT_NOT_ACTIVE ''Attempt deadline has not elapsed''
                 [(''attemptId'', DText (att_attemptId a))])
          else Accept (failureTransitionEvents sha st job a TR_timed_out now None None)
                 K_job (job_jobId job))"

text \<open>A successful execution of a job with a verifier is handed to it.\<close>

definition observe_verification ::
    "ProjectionState \<Rightarrow> JobState \<Rightarrow> AttemptState \<Rightarrow> AttemptObservePayload \<Rightarrow> uuid \<Rightarrow>
       VerifierContract \<Rightarrow> digest \<Rightarrow> Decision" where
  "observe_verification st job a p source contract contractDigest =
     (case (ao_verificationId p, ao_verificationOutboxId p) of
        (Some vid, Some oid) \<Rightarrow>
          if mhas (verifications st) vid \<or> mhas (outbox st) oid
          then Reject (failure VERIFICATION_NOT_ACTIVE ''Verification identifier already exists''
                 [(''verificationId'', DText vid)])
          else (case mget (runs st) (job_runId job) of
              None \<Rightarrow> Reject (failure RUN_NOT_FOUND ''Run does not exist''
                        [(''runId'', DText (job_runId job))])
            | Some run \<Rightarrow>
              (case mget (workflows st) (workflowKey (run_workflowId run) (run_workflowVersion run)) of
                 None \<Rightarrow> Reject (failure WORKFLOW_NOT_FOUND ''Workflow version does not exist'' [])
               | Some workflow \<Rightarrow> Accept
                   (verificationRequestEvents job (att_attemptId a) run workflow vid oid source
                      contract contractDigest) K_job (job_jobId job)))
      | _ \<Rightarrow> Reject (failure VERIFICATION_REQUIRED
               ''Successful execution requires verification identifiers''
               [(''attemptId'', DText (att_attemptId a))]))"

definition decide_attempt_observe ::
    "(string \<Rightarrow> string) \<Rightarrow> ProjectionState \<Rightarrow> AttemptObservePayload \<Rightarrow> timestamp \<Rightarrow> Decision" where
  "decide_attempt_observe sha st p now =
     (case active_attempt st (ao_jobId p) (ao_attemptId p) (ao_ownerId p) (ao_fencingToken p) now of
        Inl e \<Rightarrow> Reject e
      | Inr (job, a) \<Rightarrow>
          if (case att_deadlineAt a of None \<Rightarrow> False | Some d \<Rightarrow> atOrBefore d now)
          then Reject (failure ATTEMPT_NOT_ACTIVE ''Attempt deadline has elapsed''
                 [(''attemptId'', DText (att_attemptId a))])
          else if att_status a \<noteq> A_running
          then Reject (failure ATTEMPT_NOT_ACTIVE ''Attempt has not started in the driver''
                 [(''attemptId'', DText (att_attemptId a))])
          else if \<not> ao_succeeded p
          then Accept (failureTransitionEvents sha st job a TR_driver_error now (ao_detail p) None)
                 K_job (job_jobId job)
          else (case (job_sourceRevisionId job, job_verifierContract job, job_verifierContractDigest job) of
              (Some source, Some contract, Some contractDigest) \<Rightarrow>
                observe_verification st job a p source contract contractDigest
            | _ \<Rightarrow> Accept
                (attemptFinished job (att_attemptId a) A_succeeded TR_completed (truthy (ao_detail p)) #
                 jobSuccessEvents st job) K_job (job_jobId job)))"

section \<open>Completing a verification\<close>

text \<open>The lookups and lease checks of both verification commands, in the source's order.\<close>

definition verification_context ::
    "ProjectionState \<Rightarrow> uuid \<Rightarrow> uuid \<Rightarrow> uuid \<Rightarrow> uuid \<Rightarrow> nat \<Rightarrow> nat \<Rightarrow> timestamp \<Rightarrow>
       DomainError + (VerificationState \<times> JobState \<times> OutboxState)" where
  "verification_context st vid jobId outboxId owner jobToken outboxToken now =
     (case mget (verifications st) vid of
        None \<Rightarrow> Inl (failure VERIFICATION_NOT_FOUND ''Verification does not exist''
                  [(''verificationId'', DText vid)])
      | Some v \<Rightarrow>
          if ver_status v \<noteq> V_requested
          then Inl (failure VERIFICATION_NOT_ACTIVE ''Verification is already terminal''
                 [(''verificationId'', DText (ver_verificationId v))])
          else
     (case mget (jobs st) jobId of
        None \<Rightarrow> Inl (failure JOB_NOT_FOUND ''Job does not exist'' [(''jobId'', DText jobId)])
      | Some job \<Rightarrow>
     (case validateJobLease job owner jobToken now of
        Some e \<Rightarrow> Inl e
      | None \<Rightarrow>
     (case mget (outbox st) outboxId of
        None \<Rightarrow> Inl (failure OUTBOX_NOT_FOUND ''Verification outbox message does not exist''
                  [(''outboxId'', DText outboxId)])
      | Some b \<Rightarrow>
     (case validateOutboxLease b owner outboxToken now of
        Some e \<Rightarrow> Inl e
      | None \<Rightarrow> Inr (v, job, b))))))"

definition verification_active ::
    "VerificationState \<Rightarrow> JobState \<Rightarrow> OutboxState \<Rightarrow> AttemptState \<Rightarrow> bool" where
  "verification_active v job b a \<longleftrightarrow>
     att_status a = A_verifying \<and> job_activeAttemptId job = Some (att_attemptId a) \<and>
     ver_attemptId v = att_attemptId a \<and> ver_jobId v = job_jobId job \<and>
     out_attemptId b = att_attemptId a \<and> runs_verification (out_effect b) (ver_verificationId v)"

definition verification_entries_ok :: "ProjectionState \<Rightarrow> VerificationCompletePayload \<Rightarrow> bool" where
  "verification_entries_ok st p \<longleftrightarrow>
     \<not> mhas (artifactManifests st) (vcp_artifactManifestId p) \<and> length (vcp_entries p) \<le> 256 \<and>
     entries_total (vcp_entries p) \<le> 268435456 \<and>
     length (remdups (map art_path (vcp_entries p))) = length (vcp_entries p)"

definition expected_receipt_digest ::
    "(string \<Rightarrow> string) \<Rightarrow> VerificationState \<Rightarrow> VerificationCompletePayload \<Rightarrow> digest" where
  "expected_receipt_digest sha v p = verificationReceiptDigest sha
     (receiptIdentity v (vcp_artifactManifestId p) (artifactManifestDigest sha (vcp_entries p))
        (verificationResultDigest sha (vcp_result p)))"

definition verification_digests_ok ::
    "(string \<Rightarrow> string) \<Rightarrow> VerificationState \<Rightarrow> VerificationCompletePayload \<Rightarrow> bool" where
  "verification_digests_ok sha v p \<longleftrightarrow>
     vr_artifactManifestDigest (vcp_result p) = artifactManifestDigest sha (vcp_entries p) \<and>
     vcp_resultDigest p = verificationResultDigest sha (vcp_result p) \<and>
     vcp_receiptDigest p = expected_receipt_digest sha v p"

definition evidence_mutated :: "VerificationResult \<Rightarrow> bool" where
  "evidence_mutated r \<longleftrightarrow> vr_sourceStatusBeforeDigest r \<noteq> vr_sourceStatusAfterDigest r \<or>
     vr_contractDigestBefore r \<noteq> vr_contractDigestAfter r"

text \<open>The evidence of a result must not contradict its outcome.\<close>

definition result_consistent :: "(string \<Rightarrow> string) \<Rightarrow> VerificationResult \<Rightarrow> bool" where
  "result_consistent sha r \<longleftrightarrow>
     vr_environmentDigest r = vr_contractDigestBefore r \<and>
     vr_sourceStatusBeforeDigest r = sha '''' \<and>
     (vr_outcome r \<noteq> VO_invalid \<longrightarrow> \<not> evidence_mutated r) \<and>
     (vr_outcome r = VO_passed \<longrightarrow> vr_exitCode r = Some 0 \<and> vr_failureReason r = None) \<and>
     (vr_outcome r = VO_failed \<longrightarrow> vr_exitCode r \<noteq> None \<and> vr_exitCode r \<noteq> Some 0) \<and>
     (vr_outcome r \<noteq> VO_passed \<longrightarrow> vr_failureReason r \<noteq> None)"

definition verifier_manifest ::
    "(string \<Rightarrow> string) \<Rightarrow> JobState \<Rightarrow> uuid \<Rightarrow> VerificationState \<Rightarrow> VerificationCompletePayload \<Rightarrow>
       ArtifactManifest" where
  "verifier_manifest sha job aid v p =
     \<lparr>am_artifactManifestId = vcp_artifactManifestId p, am_runId = job_runId job,
      am_jobId = job_jobId job, am_attemptId = aid,
      am_sourceRevisionId = vq_sourceRevisionId (ver_request v), am_producer = P_verifier,
      am_entries = canonicalArtifactEntries (vcp_entries p),
      am_manifestDigest = artifactManifestDigest sha (vcp_entries p),
      am_totalBytes = entries_total (vcp_entries p)\<rparr>"

fun verdict_reason :: "VerificationOutcome \<Rightarrow> TerminationReason" where
  "verdict_reason VO_passed = TR_completed"
| "verdict_reason VO_failed = TR_verification_failed"
| "verdict_reason VO_invalid = TR_verification_invalid"

definition verification_events ::
    "(string \<Rightarrow> string) \<Rightarrow> ProjectionState \<Rightarrow> JobState \<Rightarrow> uuid \<Rightarrow> OutboxState \<Rightarrow> VerificationState \<Rightarrow>
       VerificationCompletePayload \<Rightarrow> DomainEventInput list" where
  "verification_events sha st job aid b v p =
     (let r = vcp_result p; expected = expected_receipt_digest sha v p in
      [event ST_artifact_manifest (vcp_artifactManifestId p)
         (ArtifactManifestRecorded (verifier_manifest sha job aid v p)),
       event ST_verification (ver_verificationId v) (VerificationReceiptRecorded
         \<lparr>vrd_verificationId = ver_verificationId v, vrd_runId = job_runId job,
          vrd_jobId = job_jobId job, vrd_attemptId = aid,
          vrd_artifactManifestId = vcp_artifactManifestId p, vrd_status = vr_outcome r,
          vrd_result = r, vrd_resultDigest = verificationResultDigest sha r,
          vrd_receiptDigest = expected, vrd_exitCode = vr_exitCode r,
          vrd_failureReason = vr_failureReason r\<rparr>),
       event ST_outbox (out_outboxId b)
         (OutboxDelivered (out_outboxId b) (out_runId b) expected),
       attemptFinished job aid (if vr_outcome r = VO_passed then A_succeeded else A_failed)
         (verdict_reason (vr_outcome r)) (truthy (vr_failureReason r))] @
      (if vr_outcome r = VO_passed then jobSuccessEvents st job
       else jobFailureEvents sha st job
              (case vr_failureReason r of Some x \<Rightarrow> x
               | None \<Rightarrow> text_VerificationOutcome (vr_outcome r))))"

definition decide_verification_complete ::
    "(string \<Rightarrow> string) \<Rightarrow> ProjectionState \<Rightarrow> VerificationCompletePayload \<Rightarrow> timestamp \<Rightarrow> Decision" where
  "decide_verification_complete sha st p now =
     (case verification_context st (vcp_verificationId p) (vcp_jobId p) (vcp_outboxId p)
             (vcp_ownerId p) (vcp_jobFencingToken p) (vcp_outboxFencingToken p) now of
        Inl e \<Rightarrow> Reject e
      | Inr (v, job, b) \<Rightarrow>
         (let details = [(''verificationId'', DText (ver_verificationId v))] in
          case mget (attempts st) (vcp_attemptId p) of
            None \<Rightarrow> Reject (failure VERIFICATION_NOT_ACTIVE
                      ''Verification is not active for this attempt'' details)
          | Some a \<Rightarrow>
              if \<not> verification_active v job b a \<or>
                 (case att_deadlineAt a of None \<Rightarrow> True | Some d \<Rightarrow> atOrBefore d now)
              then Reject (failure VERIFICATION_NOT_ACTIVE
                     ''Verification is not active for this attempt'' details)
              else if \<not> verification_entries_ok st p
              then Reject (failure ARTIFACT_MANIFEST_CONFLICT ''Artifact manifest is invalid or reused''
                     [(''artifactManifestId'', DText (vcp_artifactManifestId p))])
              else if \<not> verification_digests_ok sha v p
              then Reject (failure EVIDENCE_DIGEST_MISMATCH
                     ''Verification evidence digest is invalid'' details)
              else if \<not> result_consistent sha (vcp_result p)
              then Reject (failure EVIDENCE_DIGEST_MISMATCH
                     ''Verification outcome contradicts its evidence'' details)
              else Accept (verification_events sha st job (att_attemptId a) b v p)
                     K_verification (ver_verificationId v)))"

text \<open>The payload's \<open>reason\<close> is the literal \<open>timed_out\<close>.\<close>

definition decide_verification_execution_fail ::
    "(string \<Rightarrow> string) \<Rightarrow> ProjectionState \<Rightarrow> VerificationFailPayload \<Rightarrow> timestamp \<Rightarrow> Decision" where
  "decide_verification_execution_fail sha st p now =
     (case verification_context st (vfp_verificationId p) (vfp_jobId p) (vfp_outboxId p)
             (vfp_ownerId p) (vfp_jobFencingToken p) (vfp_outboxFencingToken p) now of
        Inl e \<Rightarrow> Reject e
      | Inr (v, job, b) \<Rightarrow>
         (let details = [(''verificationId'', DText (ver_verificationId v))] in
          case mget (attempts st) (vfp_attemptId p) of
            None \<Rightarrow> Reject (failure VERIFICATION_NOT_ACTIVE
                      ''Verification is not active for this attempt'' details)
          | Some a \<Rightarrow>
              if \<not> verification_active v job b a
              then Reject (failure VERIFICATION_NOT_ACTIVE
                     ''Verification is not active for this attempt'' details)
              else Accept
                (event ST_outbox (out_outboxId b)
                   (OutboxObsoleted (out_outboxId b) (out_runId b) (text_TerminationReason TR_timed_out)) #
                 failureTransitionEvents sha st job a TR_timed_out now (Some (vfp_detail p))
                   (Some (out_outboxId b)))
                K_job (job_jobId job)))"

section \<open>Delivering outbox messages\<close>

definition outbox_claimable :: "OutboxState \<Rightarrow> timestamp \<Rightarrow> bool" where
  "outbox_claimable b now \<longleftrightarrow>
     (out_status b = O_leased \<and> (case out_leaseExpiresAt b of None \<Rightarrow> False | Some t \<Rightarrow> atOrBefore t now)) \<or>
     (out_status b = O_pending \<and> atOrBefore (out_availableAt b) now)"

definition attempt_over :: "ProjectionState \<Rightarrow> uuid \<Rightarrow> bool" where
  "attempt_over st aid \<longleftrightarrow>
     (case mget (attempts st) aid of None \<Rightarrow> True | Some a \<Rightarrow> terminal_attempt (att_status a))"

definition decide_outbox_lease_acquire ::
    "ProjectionState \<Rightarrow> uuid \<Rightarrow> uuid \<Rightarrow> nat \<Rightarrow> timestamp \<Rightarrow> Decision" where
  "decide_outbox_lease_acquire st outboxId owner duration now =
     (case mget (outbox st) outboxId of
        None \<Rightarrow> Reject (failure OUTBOX_NOT_FOUND ''Outbox message does not exist''
                 [(''outboxId'', DText outboxId)])
      | Some b \<Rightarrow>
          if \<not> outbox_claimable b now
          then Reject (failure OUTBOX_NOT_CLAIMABLE ''Outbox message is not available''
                 [(''outboxId'', DText (out_outboxId b))])
          else if \<not> is_agent_cancel (out_effect b) \<and> attempt_over st (out_attemptId b)
          then Accept [event ST_outbox (out_outboxId b)
                 (OutboxObsoleted (out_outboxId b) (out_runId b) ''Attempt is terminal'')]
                 K_outbox (out_outboxId b)
          else Accept [event ST_outbox (out_outboxId b)
                 (OutboxLeaseAcquired (out_outboxId b) (out_runId b) owner
                    (out_leaseFencingToken b + 1) (addMilliseconds now duration)
                    (out_deliveryAttempts b + 1))]
                 K_outbox (out_outboxId b))"

text \<open>
  Delivering an \<open>agent.start\<close> makes its attempt run, or, when the attempt has ended
  meanwhile, asks for the cancellation of the external run.
\<close>

definition started_events ::
    "(string \<Rightarrow> string) \<Rightarrow> ProjectionState \<Rightarrow> OutboxState \<Rightarrow> string \<Rightarrow> DomainEventInput list" where
  "started_events sha st b ext =
     (case (mget (attempts st) (out_attemptId b), mget (jobs st) (out_jobId b)) of
        (Some a, Some job) \<Rightarrow>
          if \<not> terminal_attempt (att_status a)
          then [event ST_attempt (att_attemptId a)
                  (AttemptRunning (att_attemptId a) (job_jobId job) (job_runId job) ext)]
          else if \<not> mhas (outbox st) (cancelOutboxId sha (att_attemptId a))
          then [outboxEnqueued (cancelOutboxId sha (att_attemptId a)) job (att_attemptId a)
                  (EffectAgentCancel ext
                     (if att_terminationReason a = Some TR_timed_out
                      then CR_timed_out else CR_operator_cancelled)
                     (att_attemptId a) (job_jobId job) (job_runId job))]
          else []
      | _ \<Rightarrow> [])"

definition decide_outbox_delivery_succeed ::
    "(string \<Rightarrow> string) \<Rightarrow> ProjectionState \<Rightarrow> uuid \<Rightarrow> uuid \<Rightarrow> nat \<Rightarrow> string \<Rightarrow> timestamp \<Rightarrow> Decision" where
  "decide_outbox_delivery_succeed sha st outboxId owner token ext now =
     (case mget (outbox st) outboxId of
        None \<Rightarrow> Reject (failure OUTBOX_NOT_FOUND ''Outbox message does not exist'' [])
      | Some b \<Rightarrow>
        (case validateOutboxLease b owner token now of
           Some e \<Rightarrow> Reject e
         | None \<Rightarrow> Accept
             (event ST_outbox (out_outboxId b) (OutboxDelivered (out_outboxId b) (out_runId b) ext) #
              (if is_agent_start (out_effect b) then started_events sha st b ext else []))
             K_outbox (out_outboxId b)))"

definition dead_letter :: "OutboxState \<Rightarrow> bool" where
  "dead_letter b \<longleftrightarrow> length (out_retryDelaysMs b) + 1 \<le> out_deliveryAttempts b"

definition dead_letter_events ::
    "(string \<Rightarrow> string) \<Rightarrow> ProjectionState \<Rightarrow> OutboxState \<Rightarrow> string \<Rightarrow> timestamp \<Rightarrow> DomainEventInput list" where
  "dead_letter_events sha st b err now =
     (case (mget (attempts st) (out_attemptId b), mget (jobs st) (out_jobId b)) of
        (Some a, Some job) \<Rightarrow>
          if \<not> terminal_attempt (att_status a)
          then failureTransitionEvents sha st job a TR_driver_error now (Some err)
                 (Some (out_outboxId b))
          else []
      | _ \<Rightarrow> [])"

definition decide_outbox_delivery_fail ::
    "(string \<Rightarrow> string) \<Rightarrow> ProjectionState \<Rightarrow> uuid \<Rightarrow> uuid \<Rightarrow> nat \<Rightarrow> string \<Rightarrow> timestamp \<Rightarrow> Decision" where
  "decide_outbox_delivery_fail sha st outboxId owner token err now =
     (case mget (outbox st) outboxId of
        None \<Rightarrow> Reject (failure OUTBOX_NOT_FOUND ''Outbox message does not exist'' [])
      | Some b \<Rightarrow>
        (case validateOutboxLease b owner token now of
           Some e \<Rightarrow> Reject e
         | None \<Rightarrow> Accept
             (event ST_outbox (out_outboxId b)
                (OutboxDeliveryFailed (out_outboxId b) (out_runId b)
                   (if dead_letter b then None
                    else Some (addMilliseconds now
                           (delay_after (out_retryDelaysMs b) (out_deliveryAttempts b))))
                   (dead_letter b) err) #
              (if dead_letter b \<and> \<not> is_agent_cancel (out_effect b)
               then dead_letter_events sha st b err now else []))
             K_outbox (out_outboxId b)))"

section \<open>The dispatcher\<close>

primrec decide_body ::
    "(string \<Rightarrow> string) \<Rightarrow> ProjectionState \<Rightarrow> timestamp \<Rightarrow> CommandBody \<Rightarrow> Decision" where
  "decide_body sha st now (Cmd_source_revision_register r) = decide_source_revision_register sha st r"
| "decide_body sha st now (Cmd_program_create pid name) = decide_program_create st pid name"
| "decide_body sha st now (Cmd_workflow_register w) = decide_workflow_register sha st w"
| "decide_body sha st now (Cmd_run_create rid pid wid wv) = decide_run_create st rid pid wid wv"
| "decide_body sha st now (Cmd_run_schedule rid js) = decide_run_schedule sha st rid js"
| "decide_body sha st now Cmd_attempt_allocate =
     Reject (failure COMMAND_RETIRED ''Manual attempt commands were retired in legacy'' [])"
| "decide_body sha st now Cmd_attempt_cancel =
     Reject (failure COMMAND_RETIRED ''Manual attempt commands were retired in legacy'' [])"
| "decide_body sha st now (Cmd_run_cancel rid reason) = decide_run_cancel sha st rid reason"
| "decide_body sha st now (Cmd_job_lease_acquire p) = decide_job_lease_acquire sha st p now"
| "decide_body sha st now (Cmd_job_lease_renew jid owner token duration) =
     decide_job_lease_renew st jid owner token duration now"
| "decide_body sha st now (Cmd_job_lease_release jid owner token) =
     decide_job_lease_release st jid owner token now"
| "decide_body sha st now (Cmd_attempt_driver_events_observe p) = decide_driver_events_observe st p now"
| "decide_body sha st now (Cmd_driver_receipt_record p) = decide_driver_receipt_record sha st p now"
| "decide_body sha st now (Cmd_driver_terminal_receipt_record p) =
     decide_terminal_receipt_record sha st p now"
| "decide_body sha st now (Cmd_attempt_observe p) = decide_attempt_observe sha st p now"
| "decide_body sha st now (Cmd_attempt_timeout jid aid owner token) =
     decide_attempt_timeout sha st jid aid owner token now"
| "decide_body sha st now (Cmd_verification_complete p) = decide_verification_complete sha st p now"
| "decide_body sha st now (Cmd_verification_execution_fail p) =
     decide_verification_execution_fail sha st p now"
| "decide_body sha st now (Cmd_outbox_lease_acquire oid owner duration) =
     decide_outbox_lease_acquire st oid owner duration now"
| "decide_body sha st now (Cmd_outbox_delivery_succeed oid owner token ext) =
     decide_outbox_delivery_succeed sha st oid owner token ext now"
| "decide_body sha st now (Cmd_outbox_delivery_fail oid owner token err) =
     decide_outbox_delivery_fail sha st oid owner token err now"

definition decide :: "(string \<Rightarrow> string) \<Rightarrow> ProjectionState \<Rightarrow> Command \<Rightarrow> timestamp \<Rightarrow> Decision" where
  "decide sha st c now = decide_body sha st now (cmd_body c)"

end
