(* ===== verification/Life.thy ===== *)
theory Life
  imports Decide
begin

text \<open>
  The abstract lifecycle: of every run, job, attempt, outbox message and verification, the
  few fields that decide what may happen to it, and what each event does to them. \<open>evolve\<close>
  refines this specification; the invariants are proved on it.
\<close>

section \<open>Views of the entities\<close>

datatype EffectKind = EK_start | EK_cancel | EK_verify uuid

fun effect_kind :: "OutboxEffect \<Rightarrow> EffectKind" where
  "effect_kind (EffectAgentStart _) = EK_start"
| "effect_kind (EffectAgentCancel _ _ _ _ _) = EK_cancel"
| "effect_kind (EffectVerificationRun v) = EK_verify (vn_verificationId v)"

record JobLife =
  jl_run :: uuid
  jl_deps :: "uuid list"
  jl_max :: nat
  jl_checked :: bool
  jl_status :: JobStatus
  jl_active :: "uuid option"
  jl_count :: nat
  jl_owned :: bool

record AttemptLife =
  al_run :: uuid
  al_job :: "uuid option"
  al_ordinal :: nat
  al_status :: AttemptStatus

record OutboxLife =
  ol_job :: uuid
  ol_attempt :: uuid
  ol_kind :: EffectKind
  ol_status :: OutboxStatus
  ol_owned :: bool

record VerificationLife =
  vl_job :: uuid
  vl_attempt :: uuid
  vl_status :: VerificationStatus

definition job_life :: "JobState \<Rightarrow> JobLife" where
  "job_life j = \<lparr>jl_run = job_runId j, jl_deps = job_dependencyJobIds j,
     jl_max = jp_maxAttempts (job_policy j),
     jl_checked = (job_sourceRevisionId j \<noteq> None \<and> job_verifierContract j \<noteq> None \<and>
        job_verifierContractDigest j \<noteq> None),
     jl_status = job_status j, jl_active = job_activeAttemptId j,
     jl_count = job_attemptCount j, jl_owned = (job_leaseOwnerId j \<noteq> None)\<rparr>"

definition attempt_life :: "AttemptState \<Rightarrow> AttemptLife" where
  "attempt_life a = \<lparr>al_run = att_runId a, al_job = att_jobId a, al_ordinal = att_ordinal a,
     al_status = att_status a\<rparr>"

definition outbox_life :: "OutboxState \<Rightarrow> OutboxLife" where
  "outbox_life b = \<lparr>ol_job = out_jobId b, ol_attempt = out_attemptId b,
     ol_kind = effect_kind (out_effect b), ol_status = out_status b,
     ol_owned = (out_leaseOwnerId b \<noteq> None)\<rparr>"

definition verification_life :: "VerificationState \<Rightarrow> VerificationLife" where
  "verification_life v = \<lparr>vl_job = ver_jobId v, vl_attempt = ver_attemptId v,
     vl_status = ver_status v\<rparr>"

lemmas life_view_defs = job_life_def attempt_life_def outbox_life_def verification_life_def

record Life =
  lf_run :: "uuid \<Rightarrow> RunStatus option"
  lf_job :: "uuid \<Rightarrow> JobLife option"
  lf_att :: "uuid \<Rightarrow> AttemptLife option"
  lf_out :: "uuid \<Rightarrow> OutboxLife option"
  lf_ver :: "uuid \<Rightarrow> VerificationLife option"

definition life :: "ProjectionState \<Rightarrow> Life" where
  "life st = \<lparr>lf_run = (\<lambda>i. map_option run_status (mget (runs st) i)),
     lf_job = (\<lambda>i. map_option job_life (mget (jobs st) i)),
     lf_att = (\<lambda>i. map_option attempt_life (mget (attempts st) i)),
     lf_out = (\<lambda>i. map_option outbox_life (mget (outbox st) i)),
     lf_ver = (\<lambda>i. map_option verification_life (mget (verifications st) i))\<rparr>"

section \<open>What an event does to one entity\<close>

fun run_step :: "EventData \<Rightarrow> uuid \<Rightarrow> RunStatus option \<Rightarrow> RunStatus option" where
  "run_step (RunCreated r _ _ _) i x = (if i = r then Some R_created else x)"
| "run_step (RunScheduled r) i x = (if i = r then map_option (\<lambda>_. R_scheduled) x else x)"
| "run_step (RunStarted r) i x = (if i = r then map_option (\<lambda>_. R_running) x else x)"
| "run_step (RunSucceeded r) i x = (if i = r then map_option (\<lambda>_. R_succeeded) x else x)"
| "run_step (RunFailed r _) i x = (if i = r then map_option (\<lambda>_. R_failed) x else x)"
| "run_step (RunCancelled r _) i x = (if i = r then map_option (\<lambda>_. R_cancelled) x else x)"
| "run_step _ i x = x"

definition jl_close :: "JobStatus \<Rightarrow> JobLife \<Rightarrow> JobLife" where
  "jl_close s x = x\<lparr>jl_status := s, jl_active := None, jl_owned := False\<rparr>"

definition jl_new :: "JobScheduledData \<Rightarrow> JobLife" where
  "jl_new d = \<lparr>jl_run = js_runId d, jl_deps = js_dependencyJobIds d,
     jl_max = jp_maxAttempts (js_policy d),
     jl_checked = (js_sourceRevisionId d \<noteq> None \<and> js_verifierContract d \<noteq> None \<and>
        js_verifierContractDigest d \<noteq> None),
     jl_status = js_initialStatus d, jl_active = None, jl_count = 0, jl_owned = False\<rparr>"

fun job_step :: "EventData \<Rightarrow> uuid \<Rightarrow> JobLife option \<Rightarrow> JobLife option" where
  "job_step (JobScheduled d) i x = (if i = js_jobId d then Some (jl_new d) else x)"
| "job_step (JobUnblocked j _) i x = (if i = j then map_option (jl_status_update (\<lambda>_. J_ready)) x else x)"
| "job_step (JobLeaseAcquired j _ _ _ _ _) i x =
     (if i = j then map_option (\<lambda>y. y\<lparr>jl_status := J_active, jl_owned := True\<rparr>) x else x)"
| "job_step (JobLeaseReleased j _ _ _) i x = (if i = j then map_option (jl_owned_update (\<lambda>_. False)) x else x)"
| "job_step (JobRetryScheduled j _ _ _) i x = (if i = j then map_option (jl_close J_retry_wait) x else x)"
| "job_step (JobSucceeded j _) i x = (if i = j then map_option (jl_close J_succeeded) x else x)"
| "job_step (JobFailed j _ _) i x = (if i = j then map_option (jl_close J_failed) x else x)"
| "job_step (JobCancelled j _ _) i x = (if i = j then map_option (jl_close J_cancelled) x else x)"
| "job_step (AttemptStarted a j _ n _) i x =
     (if i = j then map_option (\<lambda>y. y\<lparr>jl_active := Some a, jl_count := n\<rparr>) x else x)"
| "job_step _ i x = x"

fun attempt_step :: "EventData \<Rightarrow> uuid \<Rightarrow> AttemptLife option \<Rightarrow> AttemptLife option" where
  "attempt_step (AttemptAllocated a r n) i x =
     (if i = a then Some \<lparr>al_run = r, al_job = None, al_ordinal = n, al_status = A_allocated\<rparr> else x)"
| "attempt_step (AttemptStarted a j r n _) i x =
     (if i = a then Some \<lparr>al_run = r, al_job = Some j, al_ordinal = n, al_status = A_starting\<rparr> else x)"
| "attempt_step (AttemptCancelled a _ _) i x =
     (if i = a then map_option (al_status_update (\<lambda>_. A_cancelled)) x else x)"
| "attempt_step (AttemptRunning a _ _ _) i x =
     (if i = a then map_option (al_status_update (\<lambda>_. A_running)) x else x)"
| "attempt_step (AttemptVerificationRequested a _ _ _) i x =
     (if i = a then map_option (al_status_update (\<lambda>_. A_verifying)) x else x)"
| "attempt_step (AttemptFinished d) i x =
     (if i = af_attemptId d then map_option (al_status_update (\<lambda>_. af_status d)) x else x)"
| "attempt_step _ i x = x"

definition ol_close :: "OutboxStatus \<Rightarrow> OutboxLife \<Rightarrow> OutboxLife" where
  "ol_close s b = b\<lparr>ol_status := s, ol_owned := False\<rparr>"

definition ol_new :: "OutboxEnqueuedData \<Rightarrow> OutboxLife" where
  "ol_new d = \<lparr>ol_job = oe_jobId d, ol_attempt = oe_attemptId d, ol_kind = effect_kind (oe_effect d),
     ol_status = O_pending, ol_owned = False\<rparr>"

fun outbox_step :: "EventData \<Rightarrow> uuid \<Rightarrow> OutboxLife option \<Rightarrow> OutboxLife option" where
  "outbox_step (OutboxEnqueued d) i x = (if i = oe_outboxId d then Some (ol_new d) else x)"
| "outbox_step (OutboxLeaseAcquired b _ _ _ _ _) i x =
     (if i = b then map_option (\<lambda>y. y\<lparr>ol_status := O_leased, ol_owned := True\<rparr>) x else x)"
| "outbox_step (OutboxDeliveryFailed b _ _ dead _) i x =
     (if i = b then map_option (ol_close (if dead then O_dead_letter else O_pending)) x else x)"
| "outbox_step (OutboxDelivered b _ _) i x = (if i = b then map_option (ol_close O_delivered) x else x)"
| "outbox_step (OutboxObsoleted b _ _) i x = (if i = b then map_option (ol_close O_obsolete) x else x)"
| "outbox_step _ i x = x"

fun verification_step :: "EventData \<Rightarrow> uuid \<Rightarrow> VerificationLife option \<Rightarrow> VerificationLife option" where
  "verification_step (VerificationRequested q) i x =
     (if i = vq_verificationId q
      then Some \<lparr>vl_job = vq_jobId q, vl_attempt = vq_attemptId q, vl_status = V_requested\<rparr> else x)"
| "verification_step (VerificationReceiptRecorded d) i x =
     (if i = vrd_verificationId d
      then map_option (vl_status_update (\<lambda>_. verification_status (vrd_status d))) x else x)"
| "verification_step (VerificationCancelled v _ _) i x =
     (if i = v then map_option (vl_status_update (\<lambda>_. V_cancelled)) x else x)"
| "verification_step _ i x = x"

definition life_step :: "EventData \<Rightarrow> Life \<Rightarrow> Life" where
  "life_step d L = \<lparr>lf_run = (\<lambda>i. run_step d i (lf_run L i)),
     lf_job = (\<lambda>i. job_step d i (lf_job L i)), lf_att = (\<lambda>i. attempt_step d i (lf_att L i)),
     lf_out = (\<lambda>i. outbox_step d i (lf_out L i)), lf_ver = (\<lambda>i. verification_step d i (lf_ver L i))\<rparr>"

end
