(* ===== verification/LifeRefinement.thy ===== *)
theory LifeRefinement
  imports Life
begin

text \<open>
  \<open>evolve\<close> keeps every entity under its own identifier and refines the abstract lifecycle:
  the view of the state after an event is what \<^const>\<open>life_step\<close> makes of the view before.
\<close>

section \<open>Entities are stored under their identifiers\<close>

definition well_keyed :: "ProjectionState \<Rightarrow> bool" where
  "well_keyed st \<longleftrightarrow> keyed run_runId (runs st) \<and> keyed att_attemptId (attempts st) \<and>
     keyed job_jobId (jobs st) \<and> keyed out_outboxId (outbox st) \<and>
     keyed ver_verificationId (verifications st)"

lemmas run_effect_defs = run_new_def run_scheduled_def run_started_def run_succeeded_def
  run_failed_def run_cancelled_def

lemmas attempt_effect_defs = attempt_allocated_def attempt_cancelled_def attempt_started_def
  attempt_running_def attempt_observed_def attempt_verifying_def attempt_finished_def
  attempt_receipted_def

lemmas job_effect_defs = job_new_def job_unblocked_def job_lease_acquired_def
  job_lease_renewed_def job_lease_released_def job_lease_cleared_def job_retry_scheduled_def
  job_completed_def job_attempt_started_def job_receipted_def

lemmas outbox_effect_defs = outbox_new_def outbox_lease_acquired_def outbox_lease_cleared_def
  outbox_delivery_failed_def outbox_delivered_def outbox_obsoleted_def

lemmas verification_effect_defs = verification_new_def verification_recorded_def
  verification_cancelled_def

lemmas effect_defs = run_effect_defs attempt_effect_defs job_effect_defs outbox_effect_defs
  verification_effect_defs

lemma required_Inr [simp]: "required x m = Inr v \<longleftrightarrow> x = Some v"
  by (simp add: required_def split: option.splits)

lemma on_run_Inr:
  "on_run i f st = Inr st' \<longleftrightarrow>
     (\<exists>r. mget (runs st) i = Some r \<and> st' = st\<lparr>runs := mput (run_runId r) (f r) (runs st)\<rparr>)"
  by (auto simp: on_run_def required_def split: option.splits)

lemma on_attempt_Inr:
  "on_attempt i f st = Inr st' \<longleftrightarrow>
     (\<exists>r. mget (attempts st) i = Some r \<and>
        st' = st\<lparr>attempts := mput (att_attemptId r) (f r) (attempts st)\<rparr>)"
  by (auto simp: on_attempt_def required_def split: option.splits)

lemma on_job_Inr:
  "on_job i f st = Inr st' \<longleftrightarrow>
     (\<exists>r. mget (jobs st) i = Some r \<and> st' = st\<lparr>jobs := mput (job_jobId r) (f r) (jobs st)\<rparr>)"
  by (auto simp: on_job_def required_def split: option.splits)

lemma on_outbox_Inr:
  "on_outbox i f st = Inr st' \<longleftrightarrow>
     (\<exists>r. mget (outbox st) i = Some r \<and> st' = st\<lparr>outbox := mput (out_outboxId r) (f r) (outbox st)\<rparr>)"
  by (auto simp: on_outbox_def required_def split: option.splits)

lemma on_verification_Inr:
  "on_verification i f st = Inr st' \<longleftrightarrow>
     (\<exists>r. mget (verifications st) i = Some r \<and>
        st' = st\<lparr>verifications := mput (ver_verificationId r) (f r) (verifications st)\<rparr>)"
  by (auto simp: on_verification_def required_def split: option.splits)

lemmas on_Inr = on_run_Inr on_attempt_Inr on_job_Inr on_outbox_Inr on_verification_Inr

lemma well_keyed_on_run:
  assumes "well_keyed st" "on_run i f st = Inr st'" "\<And>r. run_runId (f r) = run_runId r"
  shows "well_keyed st'"
  using assms by (auto simp: well_keyed_def on_run_Inr intro!: keyed_mput)

lemma well_keyed_on_attempt:
  assumes "well_keyed st" "on_attempt i f st = Inr st'" "\<And>r. att_attemptId (f r) = att_attemptId r"
  shows "well_keyed st'"
  using assms by (auto simp: well_keyed_def on_attempt_Inr intro!: keyed_mput)

lemma well_keyed_on_job:
  assumes "well_keyed st" "on_job i f st = Inr st'" "\<And>r. job_jobId (f r) = job_jobId r"
  shows "well_keyed st'"
  using assms by (auto simp: well_keyed_def on_job_Inr intro!: keyed_mput)

lemma well_keyed_on_outbox:
  assumes "well_keyed st" "on_outbox i f st = Inr st'" "\<And>r. out_outboxId (f r) = out_outboxId r"
  shows "well_keyed st'"
  using assms by (auto simp: well_keyed_def on_outbox_Inr intro!: keyed_mput)

lemma well_keyed_on_verification:
  assumes "well_keyed st" "on_verification i f st = Inr st'"
    and "\<And>r. ver_verificationId (f r) = ver_verificationId r"
  shows "well_keyed st'"
  using assms by (auto simp: well_keyed_def on_verification_Inr intro!: keyed_mput)

lemma well_keyed_position [simp]: "well_keyed (st\<lparr>lastAppliedPosition := n\<rparr>) = well_keyed st"
  by (simp add: well_keyed_def)

lemma well_keyed_JobScheduled:
  "well_keyed st \<Longrightarrow> apply_JobScheduled at v d st = Inr st' \<Longrightarrow> well_keyed st'"
  by (auto simp: apply_JobScheduled_def well_keyed_def job_new_def intro!: keyed_mput split: if_splits)

lemma well_keyed_AttemptStarted:
  assumes "well_keyed st" and "apply_AttemptStarted at v a j r n t st = Inr st'"
  shows "well_keyed st'"
proof (rule well_keyed_on_job [where f = "job_attempt_started a n" and i = j])
  show "well_keyed (st\<lparr>attempts := mput a (attempt_started a j r n t at v) (attempts st)\<rparr>)"
    using assms by (simp add: well_keyed_def attempt_started_def keyed_mput)
qed (use assms in \<open>simp_all add: apply_AttemptStarted_def job_attempt_started_def\<close>)

lemma well_keyed_DriverEventsObserved:
  assumes "well_keyed st" and "apply_DriverEventsObserved v d st = Inr st'"
  shows "well_keyed st'"
proof (rule well_keyed_on_attempt [OF assms(1)])
  show "on_attempt (deo_attemptId d) (attempt_observed (deo_cursor d) (deo_cumulativeUsage d) v) st = Inr st'"
    using assms(2) by (simp add: apply_DriverEventsObserved_def split: sum.splits option.splits)
qed (simp add: attempt_observed_def)

lemma well_keyed_ArtifactManifestRecorded:
  "well_keyed st \<Longrightarrow> apply_ArtifactManifestRecorded sha at v m st = Inr st' \<Longrightarrow> well_keyed st'"
  by (auto simp: apply_ArtifactManifestRecorded_def well_keyed_def split: if_splits)

lemma apply_DriverReceiptRecorded_Inr:
  "apply_DriverReceiptRecorded sha at v d st = Inr st' \<longleftrightarrow>
     (\<exists>a j. mget (attempts st) (drr_attemptId d) = Some a \<and> mget (jobs st) (drr_jobId d) = Some j \<and>
        driver_receipt_identity_ok sha d a j \<and>
        st' = st\<lparr>driverReceipts := mput (drr_driverReceiptId d)
                  \<lparr>drs_record = d, drs_recordedAt = at, drs_version = v\<rparr> (driverReceipts st),
                attempts := mput (att_attemptId a) (attempt_receipted d a) (attempts st),
                jobs := mput (job_jobId j) (job_receipted d j) (jobs st)\<rparr>)"
  by (auto simp: apply_DriverReceiptRecorded_def required_def split: option.splits)

lemma well_keyed_DriverReceiptRecorded:
  assumes "well_keyed st" and "apply_DriverReceiptRecorded sha at v d st = Inr st'"
  shows "well_keyed st'"
  using assms
  by (auto simp: apply_DriverReceiptRecorded_Inr well_keyed_def attempt_receipted_def
      job_receipted_def intro!: keyed_mput)

lemma well_keyed_VerificationReceiptRecorded:
  assumes "well_keyed st" and "apply_VerificationReceiptRecorded sha at v d st = Inr st'"
  shows "well_keyed st'"
proof (rule well_keyed_on_verification [OF assms(1)])
  show "on_verification (vrd_verificationId d) (verification_recorded d at v) st = Inr st'"
    using assms(2) by (simp add: apply_VerificationReceiptRecorded_def split: sum.splits if_splits)
qed (simp add: verification_recorded_def)

lemmas well_keyed_rules = well_keyed_JobScheduled well_keyed_AttemptStarted
  well_keyed_DriverEventsObserved well_keyed_ArtifactManifestRecorded
  well_keyed_DriverReceiptRecorded well_keyed_VerificationReceiptRecorded

lemmas well_keyed_on = well_keyed_on_run well_keyed_on_attempt well_keyed_on_job
  well_keyed_on_outbox well_keyed_on_verification

lemma well_keyed_apply:
  assumes w: "well_keyed st" and "apply_event sha at v d st = Inr st'"
  shows "well_keyed st'"
  using assms(2)
  by (cases d; simp)
     ((erule well_keyed_rules [OF w]
       | (erule well_keyed_on [OF w], simp add: effect_defs)
       | (use w in \<open>clarsimp simp: well_keyed_def run_new_def attempt_allocated_def outbox_new_def
            verification_new_def keyed_mput split: if_split_asm\<close>))+)

lemma well_keyed_evolve: "well_keyed st \<Longrightarrow> evolve sha st e = Inr st' \<Longrightarrow> well_keyed st'"
  by (auto simp: evolve_def elim: well_keyed_apply [rotated])

interpretation evolve_keyed: step_invariant "evolve sha" well_keyed for sha
  by unfold_locales (rule well_keyed_evolve)

lemma well_keyed_empty [simp]: "well_keyed emptyProjectionState"
  by (simp add: well_keyed_def emptyProjectionState_def)

section \<open>Refinement\<close>

lemma life_position [simp]: "life (st\<lparr>lastAppliedPosition := n\<rparr>) = life st"
  by (simp add: life_def)

lemma life_sel:
  "lf_run (life st) i = map_option run_status (mget (runs st) i)"
  "lf_job (life st) i = map_option job_life (mget (jobs st) i)"
  "lf_att (life st) i = map_option attempt_life (mget (attempts st) i)"
  "lf_out (life st) i = map_option outbox_life (mget (outbox st) i)"
  "lf_ver (life st) i = map_option verification_life (mget (verifications st) i)"
  by (simp_all add: life_def)

lemma life_on_run:
  assumes "well_keyed st" "on_run i f st = Inr st'" "\<And>x. run_status (f x) = g (run_status x)"
  shows "life st' = (life st)\<lparr>lf_run := (\<lambda>k. if k = i then map_option g (lf_run (life st) k)
           else lf_run (life st) k)\<rparr>"
  using assms by (auto simp: on_run_Inr life_def fun_eq_iff well_keyed_def dest: keyedD)

lemma life_on_attempt:
  assumes "well_keyed st" "on_attempt i f st = Inr st'"
    and "\<And>x. attempt_life (f x) = g (attempt_life x)"
  shows "life st' = (life st)\<lparr>lf_att := (\<lambda>k. if k = i then map_option g (lf_att (life st) k)
           else lf_att (life st) k)\<rparr>"
  using assms by (auto simp: on_attempt_Inr life_def fun_eq_iff well_keyed_def dest: keyedD)

lemma life_on_job:
  assumes "well_keyed st" "on_job i f st = Inr st'" "\<And>x. job_life (f x) = g (job_life x)"
  shows "life st' = (life st)\<lparr>lf_job := (\<lambda>k. if k = i then map_option g (lf_job (life st) k)
           else lf_job (life st) k)\<rparr>"
  using assms by (auto simp: on_job_Inr life_def fun_eq_iff well_keyed_def dest: keyedD)

lemma life_on_outbox:
  assumes "well_keyed st" "on_outbox i f st = Inr st'" "\<And>x. outbox_life (f x) = g (outbox_life x)"
  shows "life st' = (life st)\<lparr>lf_out := (\<lambda>k. if k = i then map_option g (lf_out (life st) k)
           else lf_out (life st) k)\<rparr>"
  using assms by (auto simp: on_outbox_Inr life_def fun_eq_iff well_keyed_def dest: keyedD)

lemma life_on_verification:
  assumes "well_keyed st" "on_verification i f st = Inr st'"
    and "\<And>x. verification_life (f x) = g (verification_life x)"
  shows "life st' = (life st)\<lparr>lf_ver := (\<lambda>k. if k = i then map_option g (lf_ver (life st) k)
           else lf_ver (life st) k)\<rparr>"
  using assms by (auto simp: on_verification_Inr life_def fun_eq_iff well_keyed_def dest: keyedD)

lemma life_step_JobScheduled:
  "apply_JobScheduled at v d st = Inr st' \<Longrightarrow> life st' = life_step (JobScheduled d) (life st)"
  by (auto simp: apply_JobScheduled_def life_def life_step_def jl_new_def job_life_def job_new_def
      split: if_split_asm)

lemma life_step_AttemptStarted:
  assumes "well_keyed st" and "apply_AttemptStarted at v a j r n t st = Inr st'"
  shows "life st' = life_step (AttemptStarted a j r n t) (life st)"
proof -
  let ?st = "st\<lparr>attempts := mput a (attempt_started a j r n t at v) (attempts st)\<rparr>"
  have w: "well_keyed ?st"
    using assms(1) by (simp add: well_keyed_def attempt_started_def keyed_mput)
  have "life st' = (life ?st)\<lparr>lf_job := (\<lambda>k. if k = j
          then map_option (\<lambda>y. y\<lparr>jl_active := Some a, jl_count := n\<rparr>) (lf_job (life ?st) k)
          else lf_job (life ?st) k)\<rparr>"
    by (rule life_on_job [OF w])
       (use assms(2) in \<open>auto simp: apply_AttemptStarted_def job_attempt_started_def job_life_def\<close>)
  then show ?thesis
    by (auto simp: life_def life_step_def attempt_life_def attempt_started_def fun_eq_iff)
qed

lemma life_step_DriverEventsObserved:
  assumes "well_keyed st" and "apply_DriverEventsObserved v d st = Inr st'"
  shows "life st' = life_step (DriverEventsObserved d) (life st)"
proof -
  have "on_attempt (deo_attemptId d) (attempt_observed (deo_cursor d) (deo_cumulativeUsage d) v) st = Inr st'"
    using assms(2) by (simp add: apply_DriverEventsObserved_def split: sum.splits option.splits)
  from life_on_attempt [OF assms(1) this, of "\<lambda>x. x"] show ?thesis
    by (cases "life st") (auto simp: attempt_observed_def attempt_life_def life_step_def
      option.map_ident fun_eq_iff)
qed

lemma life_step_DriverReceiptRecorded:
  assumes w: "well_keyed st" and "apply_DriverReceiptRecorded sha at v d st = Inr st'"
  shows "life st' = life_step (DriverReceiptRecorded d) (life st)"
proof -
  obtain a j where a: "mget (attempts st) (drr_attemptId d) = Some a"
    and j: "mget (jobs st) (drr_jobId d) = Some j"
    and st': "st' = st\<lparr>driverReceipts := mput (drr_driverReceiptId d)
                  \<lparr>drs_record = d, drs_recordedAt = at, drs_version = v\<rparr> (driverReceipts st),
                attempts := mput (att_attemptId a) (attempt_receipted d a) (attempts st),
                jobs := mput (job_jobId j) (job_receipted d j) (jobs st)\<rparr>"
    using assms(2) unfolding apply_DriverReceiptRecorded_Inr by blast
  have "att_attemptId a = drr_attemptId d" "job_jobId j = drr_jobId d"
    using w a j by (auto simp: well_keyed_def dest: keyedD)
  with a j show ?thesis
    by (auto simp: st' life_def life_step_def fun_eq_iff attempt_life_def attempt_receipted_def
        job_life_def job_receipted_def)
qed

lemma life_step_VerificationReceiptRecorded:
  assumes "well_keyed st" and "apply_VerificationReceiptRecorded sha at v d st = Inr st'"
  shows "life st' = life_step (VerificationReceiptRecorded d) (life st)"
proof -
  have "on_verification (vrd_verificationId d) (verification_recorded d at v) st = Inr st'"
    using assms(2) by (simp add: apply_VerificationReceiptRecorded_def split: sum.splits if_splits)
  from life_on_verification [OF assms(1) this,
      of "vl_status_update (\<lambda>_. verification_status (vrd_status d))"]
  show ?thesis
    by (simp add: verification_recorded_def verification_life_def life_step_def)
qed

text \<open>
  One event: the new view is the abstract step of the old one. The cases that only update
  one entity are discharged by the lemma of its map.
\<close>

lemma life_step_run:
  assumes "\<And>i x. run_step d i x = (if i = r then map_option g x else x)"
    and "\<And>i x. job_step d i x = x" "\<And>i x. attempt_step d i x = x"
    and "\<And>i x. outbox_step d i x = x" "\<And>i x. verification_step d i x = x"
    and "well_keyed st" "on_run r f st = Inr st'" "\<And>x. run_status (f x) = g (run_status x)"
  shows "life st' = life_step d (life st)"
  unfolding life_on_run [OF assms(6-8)] life_step_def assms(1-5) by (cases "life st") simp

lemma life_step_attempt:
  assumes "\<And>i x. attempt_step d i x = (if i = r then map_option g x else x)"
    and "\<And>i x. run_step d i x = x" "\<And>i x. job_step d i x = x"
    and "\<And>i x. outbox_step d i x = x" "\<And>i x. verification_step d i x = x"
    and "well_keyed st" "on_attempt r f st = Inr st'" "\<And>x. attempt_life (f x) = g (attempt_life x)"
  shows "life st' = life_step d (life st)"
  unfolding life_on_attempt [OF assms(6-8)] life_step_def assms(1-5) by (cases "life st") simp

lemma life_step_job:
  assumes "\<And>i x. job_step d i x = (if i = r then map_option g x else x)"
    and "\<And>i x. run_step d i x = x" "\<And>i x. attempt_step d i x = x"
    and "\<And>i x. outbox_step d i x = x" "\<And>i x. verification_step d i x = x"
    and "well_keyed st" "on_job r f st = Inr st'" "\<And>x. job_life (f x) = g (job_life x)"
  shows "life st' = life_step d (life st)"
  unfolding life_on_job [OF assms(6-8)] life_step_def assms(1-5) by (cases "life st") simp

lemma life_step_outbox:
  assumes "\<And>i x. outbox_step d i x = (if i = r then map_option g x else x)"
    and "\<And>i x. run_step d i x = x" "\<And>i x. job_step d i x = x"
    and "\<And>i x. attempt_step d i x = x" "\<And>i x. verification_step d i x = x"
    and "well_keyed st" "on_outbox r f st = Inr st'" "\<And>x. outbox_life (f x) = g (outbox_life x)"
  shows "life st' = life_step d (life st)"
  unfolding life_on_outbox [OF assms(6-8)] life_step_def assms(1-5) by (cases "life st") simp

lemma life_step_verification:
  assumes "\<And>i x. verification_step d i x = (if i = r then map_option g x else x)"
    and "\<And>i x. run_step d i x = x" "\<And>i x. job_step d i x = x"
    and "\<And>i x. attempt_step d i x = x" "\<And>i x. outbox_step d i x = x"
    and "well_keyed st" "on_verification r f st = Inr st'"
    and "\<And>x. verification_life (f x) = g (verification_life x)"
  shows "life st' = life_step d (life st)"
  unfolding life_on_verification [OF assms(6-8)] life_step_def assms(1-5) by (cases "life st") simp

lemma life_step_insert:
  "life (st\<lparr>sourceRevisions := a\<rparr>) = life st" "life (st\<lparr>programs := b\<rparr>) = life st"
  "life (st\<lparr>workflows := c\<rparr>) = life st" "life (st\<lparr>contextPackets := d\<rparr>) = life st"
  "life (st\<lparr>artifactManifests := e\<rparr>) = life st" "life (st\<lparr>approvalRequests := f\<rparr>) = life st"
  by (simp_all add: life_def)

lemma life_eta [simp]:
  "\<lparr>lf_run = lf_run L, lf_job = lf_job L, lf_att = lf_att L, lf_out = lf_out L, lf_ver = lf_ver L\<rparr> = L"
  by simp

lemma life_step_new:
  "life (st\<lparr>runs := mput r (run_new r p w k at v) (runs st)\<rparr>) = life_step (RunCreated r p w k) (life st)"
  "life (st\<lparr>attempts := mput a (attempt_allocated a r n at v) (attempts st)\<rparr>) =
     life_step (AttemptAllocated a r n) (life st)"
  "life (st\<lparr>outbox := mput (oe_outboxId d) (outbox_new d at v) (outbox st)\<rparr>) =
     life_step (OutboxEnqueued d) (life st)"
  "life (st\<lparr>verifications := mput (vq_verificationId q) (verification_new q at v) (verifications st)\<rparr>) =
     life_step (VerificationRequested q) (life st)"
  by (auto simp: life_def life_step_def fun_eq_iff run_new_def attempt_allocated_def attempt_life_def
      outbox_new_def outbox_life_def ol_new_def verification_new_def verification_life_def)

lemma life_step_artifact:
  "apply_ArtifactManifestRecorded sha at v m st = Inr st' \<Longrightarrow> life st' = life st"
  by (auto simp: apply_ArtifactManifestRecorded_def life_def split: if_split_asm)

lemma life_job_renewed:
  assumes "well_keyed st" and "on_job i (job_lease_renewed expiry v) st = Inr st'"
  shows "life st' = life st"
  using life_on_job [OF assms, of "\<lambda>x. x"]
  by (cases "life st") (auto simp: job_lease_renewed_def job_life_def option.map_ident fun_eq_iff)

lemma life_apply:
  assumes w: "well_keyed st" and ev: "apply_event sha at v d st = Inr st'"
  shows "life st' = life_step d (life st)"
  using ev
  by (cases d; simp)
     ((erule life_step_JobScheduled life_step_AttemptStarted [OF w]
          life_step_DriverEventsObserved [OF w] life_step_DriverReceiptRecorded [OF w]
          life_step_VerificationReceiptRecorded [OF w]
       | (rule life_step_run [OF _ _ _ _ _ w], rule run_step.simps, simp, simp, simp, simp, assumption,
          simp add: run_effect_defs)
       | (rule life_step_attempt [OF _ _ _ _ _ w], rule attempt_step.simps, simp, simp, simp, simp, assumption,
          simp add: attempt_life_def attempt_effect_defs)
       | (rule life_step_job [OF _ _ _ _ _ w], rule job_step.simps, simp, simp, simp, simp, assumption,
          simp add: job_life_def job_effect_defs jl_close_def)
       | (rule life_step_outbox [OF _ _ _ _ _ w], rule outbox_step.simps, simp, simp, simp, simp, assumption,
          simp add: outbox_life_def outbox_effect_defs ol_close_def)
       | (rule life_step_verification [OF _ _ _ _ _ w], rule verification_step.simps, simp, simp, simp, simp, assumption,
          simp add: verification_life_def verification_effect_defs)
       | (drule life_job_renewed [OF w], simp add: life_step_def)
       | (drule life_step_artifact, simp add: life_step_def)
       | (erule subst, rule life_step_new)
       | (clarsimp simp: life_step_insert life_step_def split: if_split_asm))+)

text \<open>The refinement for a stored event, and for a whole log.\<close>

lemma life_evolve:
  "well_keyed st \<Longrightarrow> evolve sha st e = Inr st' \<Longrightarrow> life st' = life_step (ev_data e) (life st)"
  using life_apply [of "st\<lparr>lastAppliedPosition := se_globalPosition e\<rparr>"]
  by (simp add: evolve_def)

lemma life_replay:
  "well_keyed st \<Longrightarrow> try_fold (evolve sha) st es = Inr st' \<Longrightarrow>
     life st' = fold life_step (map ev_data es) (life st)"
proof (induction es arbitrary: st)
  case (Cons e es)
  then obtain s1 where s1: "evolve sha st e = Inr s1" "try_fold (evolve sha) s1 es = Inr st'"
    by (auto split: sum.splits)
  show ?case
    using Cons.IH [OF well_keyed_evolve [OF Cons.prems(1) s1(1)] s1(2)]
    by (simp add: life_evolve [OF Cons.prems(1) s1(1)])
qed simp

section \<open>No event removes an entity\<close>

text \<open>
  \<open>evolve\<close> is an instance of \<open>step_monotone\<close> for the inclusion of the stored identifiers.
\<close>

definition keeps_keys :: "('k, 'v) jsmap \<Rightarrow> ('k, 'v) jsmap \<Rightarrow> bool" where
  "keeps_keys m m' \<longleftrightarrow> set (map fst m) \<subseteq> set (map fst m')"

lemma keeps_keys_refl [simp]: "keeps_keys m m"
  by (simp add: keeps_keys_def)

lemma keeps_keys_trans: "keeps_keys m m' \<Longrightarrow> keeps_keys m' m'' \<Longrightarrow> keeps_keys m m''"
  by (auto simp: keeps_keys_def)

lemma keeps_keys_mput [simp]: "keeps_keys m (mput k v m)"
  by (auto simp: keeps_keys_def update_keys)

lemma mhas_fst: "mhas m k \<longleftrightarrow> k \<in> set (map fst m)"
  by (auto simp: mhas_def map_of_eq_None_iff)

definition retains :: "ProjectionState \<Rightarrow> ProjectionState \<Rightarrow> bool" where
  "retains st st' \<longleftrightarrow> keeps_keys (programs st) (programs st') \<and>
     keeps_keys (workflows st) (workflows st') \<and> keeps_keys (runs st) (runs st') \<and>
     keeps_keys (attempts st) (attempts st') \<and> keeps_keys (jobs st) (jobs st') \<and>
     keeps_keys (outbox st) (outbox st') \<and> keeps_keys (sourceRevisions st) (sourceRevisions st') \<and>
     keeps_keys (artifactManifests st) (artifactManifests st') \<and>
     keeps_keys (verifications st) (verifications st') \<and>
     keeps_keys (driverReceipts st) (driverReceipts st') \<and>
     keeps_keys (approvalRequests st) (approvalRequests st') \<and>
     keeps_keys (contextPackets st) (contextPackets st')"

lemma retains_refl [simp]: "retains st st"
  by (simp add: retains_def)

lemma retains_trans: "retains st st' \<Longrightarrow> retains st' st'' \<Longrightarrow> retains st st''"
  unfolding retains_def by (blast intro: keeps_keys_trans)

lemma retains_on:
  "on_run i f st = Inr st' \<Longrightarrow> retains st st'"
  "on_attempt i g st = Inr st' \<Longrightarrow> retains st st'"
  "on_job i h st = Inr st' \<Longrightarrow> retains st st'"
  "on_outbox i k st = Inr st' \<Longrightarrow> retains st st'"
  "on_verification i l st = Inr st' \<Longrightarrow> retains st st'"
  by (auto simp: on_Inr retains_def)

lemma retains_apply: "apply_event sha at v d st = Inr st' \<Longrightarrow> retains st st'"
proof (cases d)
  case (AttemptStarted a j r n t)
  assume "apply_event sha at v d st = Inr st'"
  then have "retains (st\<lparr>attempts := mput a (attempt_started a j r n t at v) (attempts st)\<rparr>) st'"
    unfolding AttemptStarted by (auto simp: apply_AttemptStarted_def intro: retains_on)
  moreover have "retains st (st\<lparr>attempts := mput a (attempt_started a j r n t at v) (attempts st)\<rparr>)"
    by (simp add: retains_def)
  ultimately show ?thesis by (rule retains_trans [rotated])
qed (auto simp: retains_on apply_JobScheduled_def apply_DriverEventsObserved_def
    apply_ArtifactManifestRecorded_def apply_DriverReceiptRecorded_Inr
    apply_VerificationReceiptRecorded_def retains_def [of st "st\<lparr>runs := _\<rparr>"]
    retains_def [of st "_\<lparr>programs := _\<rparr>"] split: sum.splits option.splits if_splits
    | (auto simp: retains_def split: if_splits; fail))+

lemma retains_evolve: "evolve sha st e = Inr st' \<Longrightarrow> retains st st'"
  using retains_apply [of sha _ _ _ "st\<lparr>lastAppliedPosition := se_globalPosition e\<rparr>"]
  by (simp add: evolve_def retains_def)

interpretation evolve_retains: step_monotone "evolve sha" retains for sha
  by unfold_locales (auto intro: retains_trans retains_evolve)

end
