(* ===== verification/LifeEvents.thy ===== *)
theory LifeEvents
  imports LifeRefinement
begin

text \<open>
  What the event lists built by \<open>decide\<close> do to each abstract entity: for every list the
  branches share, its effect on a run, a job, an attempt, an outbox message and a
  verification. \<open>commits\<close> is the step of the kernel's projection on one accepted command.
\<close>

section \<open>Committing a command\<close>

definition stamped :: "timestamp \<Rightarrow> DomainEventInput list \<Rightarrow> StoredEvent list \<Rightarrow> bool" where
  "stamped now evs es \<longleftrightarrow> map DomainEventInput.truncate es = evs \<and>
     (\<forall>e\<in>set es. se_occurredAt e = now)"

definition commits ::
    "(string \<Rightarrow> string) \<Rightarrow> ProjectionState \<Rightarrow> Command \<Rightarrow> timestamp \<Rightarrow> ProjectionState \<Rightarrow> bool" where
  "commits sha st c now st' \<longleftrightarrow>
     (\<exists>evs k i es. decide sha st c now = Accept evs k i \<and> stamped now evs es \<and>
        try_fold (evolve sha) st es = Inr st')"

lemma ev_data_truncate [simp]: "ev_data (DomainEventInput.truncate e) = ev_data e"
  by (simp add: DomainEventInput.defs)

lemma stamped_data: "stamped now evs es \<Longrightarrow> map ev_data es = map ev_data evs"
  by (auto simp: stamped_def)

lemma ev_data_event [simp]: "ev_data (event ty i d) = d"
  by (simp add: event_def)

section \<open>Views of an event list\<close>

definition run_view :: "DomainEventInput list \<Rightarrow> uuid \<Rightarrow> RunStatus option \<Rightarrow> RunStatus option" where
  "run_view evs i x = fold (\<lambda>e. run_step (ev_data e) i) evs x"

definition job_view :: "DomainEventInput list \<Rightarrow> uuid \<Rightarrow> JobLife option \<Rightarrow> JobLife option" where
  "job_view evs i x = fold (\<lambda>e. job_step (ev_data e) i) evs x"

definition att_view :: "DomainEventInput list \<Rightarrow> uuid \<Rightarrow> AttemptLife option \<Rightarrow> AttemptLife option" where
  "att_view evs i x = fold (\<lambda>e. attempt_step (ev_data e) i) evs x"

definition out_view :: "DomainEventInput list \<Rightarrow> uuid \<Rightarrow> OutboxLife option \<Rightarrow> OutboxLife option" where
  "out_view evs i x = fold (\<lambda>e. outbox_step (ev_data e) i) evs x"

definition ver_view ::
    "DomainEventInput list \<Rightarrow> uuid \<Rightarrow> VerificationLife option \<Rightarrow> VerificationLife option" where
  "ver_view evs i x = fold (\<lambda>e. verification_step (ev_data e) i) evs x"

lemmas view_defs = run_view_def job_view_def att_view_def out_view_def ver_view_def

lemma view_simps [simp]:
  "run_view [] i r = r" "job_view [] i j = j" "att_view [] i a = a" "out_view [] i b = b"
  "ver_view [] i v = v"
  "run_view (e # es) i r = run_view es i (run_step (ev_data e) i r)"
  "job_view (e # es) i j = job_view es i (job_step (ev_data e) i j)"
  "att_view (e # es) i a = att_view es i (attempt_step (ev_data e) i a)"
  "out_view (e # es) i b = out_view es i (outbox_step (ev_data e) i b)"
  "ver_view (e # es) i v = ver_view es i (verification_step (ev_data e) i v)"
  "run_view (xs @ ys) i r = run_view ys i (run_view xs i r)"
  "job_view (xs @ ys) i j = job_view ys i (job_view xs i j)"
  "att_view (xs @ ys) i a = att_view ys i (att_view xs i a)"
  "out_view (xs @ ys) i b = out_view ys i (out_view xs i b)"
  "ver_view (xs @ ys) i v = ver_view ys i (ver_view xs i v)"
  by (simp_all add: view_defs)

lemma fold_life_step:
  "lf_run (fold life_step (map ev_data es) L) i = run_view es i (lf_run L i)"
  "lf_job (fold life_step (map ev_data es) L) i = job_view es i (lf_job L i)"
  "lf_att (fold life_step (map ev_data es) L) i = att_view es i (lf_att L i)"
  "lf_out (fold life_step (map ev_data es) L) i = out_view es i (lf_out L i)"
  "lf_ver (fold life_step (map ev_data es) L) i = ver_view es i (lf_ver L i)"
  by (induction es arbitrary: L) (simp_all add: life_step_def)

text \<open>The view after a commit is the view of the decided events on the view before.\<close>

lemma commits_life:
  assumes "commits sha st c now st'" and "well_keyed st"
  obtains evs k i where "decide sha st c now = Accept evs k i"
    and "\<And>i. lf_run (life st') i = run_view evs i (lf_run (life st) i)"
    and "\<And>i. lf_job (life st') i = job_view evs i (lf_job (life st) i)"
    and "\<And>i. lf_att (life st') i = att_view evs i (lf_att (life st) i)"
    and "\<And>i. lf_out (life st') i = out_view evs i (lf_out (life st) i)"
    and "\<And>i. lf_ver (life st') i = ver_view evs i (lf_ver (life st) i)"
proof -
  obtain evs k i es where d: "decide sha st c now = Accept evs k i" and s: "stamped now evs es"
    and f: "try_fold (evolve sha) st es = Inr st'"
    using assms(1) by (auto simp: commits_def)
  have "life st' = fold life_step (map ev_data evs) (life st)"
    using life_replay [OF assms(2) f] stamped_data [OF s] by simp
  with d show ?thesis by (intro that) (simp_all add: fold_life_step)
qed

lemma commits_keyed: "commits sha st c now st' \<Longrightarrow> well_keyed st \<Longrightarrow> well_keyed st'"
  by (auto simp: commits_def intro: evolve_keyed.fold_keeps)

section \<open>Lists that touch an entity at most in one way\<close>

lemma fold_touch:
  assumes "\<And>e x. e \<in> set es \<Longrightarrow> s e x = (if P e then map_option g x else x)"
    and "\<And>x. g (g x) = g x"
  shows "fold s es x = (if \<exists>e\<in>set es. P e then map_option g x else x)"
  using assms(1)
  by (induction es arbitrary: x)
     (auto simp: option.map_comp comp_def assms(2))

lemma fold_quiet: "(\<And>e x. e \<in> set es \<Longrightarrow> s e x = x) \<Longrightarrow> fold s es x = x"
  by (induction es arbitrary: x) auto

section \<open>The shared lists\<close>

lemma outboxEnqueued_data [simp]:
  "ev_data (outboxEnqueued oid job aid eff) = OutboxEnqueued
     \<lparr>oe_outboxId = oid, oe_runId = job_runId job, oe_jobId = job_jobId job,
      oe_attemptId = aid, oe_effectKey = oid, oe_effect = eff,
      oe_retryDelaysMs = OUTBOX_RETRY_DELAYS\<rparr>"
  by (simp add: outboxEnqueued_def)

lemma attemptFinished_data [simp]:
  "ev_data (attemptFinished job aid st reason detail) = AttemptFinished
     \<lparr>af_attemptId = aid, af_jobId = job_jobId job, af_runId = job_runId job,
      af_status = st, af_terminationReason = reason, af_detail = detail\<rparr>"
  by (simp add: attemptFinished_def)

text \<open>Obsoleting outbox messages, with whatever run identifier and reason.\<close>

definition obsoletes :: "ProjectionState \<Rightarrow> (OutboxState \<Rightarrow> bool) \<Rightarrow> DomainEventInput list \<Rightarrow> bool" where
  "obsoletes st P evs \<longleftrightarrow> ev_data ` set evs \<subseteq> {OutboxObsoleted o' r s | o' r s. True} \<and>
     (\<forall>i. (\<exists>r s. OutboxObsoleted i r s \<in> ev_data ` set evs) \<longleftrightarrow>
          (\<exists>b. mget (outbox st) i = Some b \<and> P b))"

lemma obsoletes_views [simp]:
  assumes "obsoletes st P evs"
  shows "run_view evs i r = r" and "job_view evs i j = j" and "att_view evs i a = a"
    and "ver_view evs i v = v"
  using assms by (auto simp: obsoletes_def view_defs intro!: fold_quiet)

lemma ol_close_close [simp]: "ol_close s (ol_close t b) = ol_close s b"
  by (simp add: ol_close_def)

lemma obsoletes_out:
  assumes "obsoletes st P evs"
  shows "out_view evs i x = (if \<exists>b. mget (outbox st) i = Some b \<and> P b
           then map_option (ol_close O_obsolete) x else x)"
proof -
  have 1: "outbox_step (ev_data e) i x = (if \<exists>r s. ev_data e = OutboxObsoleted i r s
       then map_option (ol_close O_obsolete) x else x)" if "e \<in> set evs" for e x
    using assms that by (auto simp: obsoletes_def)
  have 2: "(\<exists>e\<in>set evs. \<exists>r s. ev_data e = OutboxObsoleted i r s) \<longleftrightarrow>
      (\<exists>b. mget (outbox st) i = Some b \<and> P b)"
    using assms unfolding obsoletes_def by (metis (no_types, lifting) image_iff)
  show ?thesis
    unfolding out_view_def using fold_touch [of evs _ "\<lambda>e. \<exists>r s. ev_data e = OutboxObsoleted i r s", OF 1]
    by (simp add: 2)
qed

lemma keyed_mem:
  "keyed f m \<Longrightarrow> (\<exists>b\<in>set (mvalues m). f b = i \<and> P b) \<longleftrightarrow> (\<exists>b. mget m i = Some b \<and> P b)"
  by (metis keyed_def keyed_values mvalues_get)

lemma obsoletes_list:
  assumes "well_keyed st"
  shows "obsoletes st P [event ST_outbox (out_outboxId b) (OutboxObsoleted (out_outboxId b) (f b) s).
           b \<leftarrow> mvalues (outbox st), P b]" (is "obsoletes st P ?es")
proof -
  have "ev_data ` set ?es =
      (\<lambda>b. OutboxObsoleted (out_outboxId b) (f b) s) ` {b \<in> set (mvalues (outbox st)). P b}"
    by (auto simp: image_iff)
  moreover have "keyed out_outboxId (outbox st)"
    using assms by (simp add: well_keyed_def)
  ultimately show ?thesis
    unfolding obsoletes_def by (auto simp: keyed_mem [symmetric])
qed

lemma obsoleteOutbox_obsoletes:
  "well_keyed st \<Longrightarrow> obsoletes st (\<lambda>b. undelivered_work aid b \<and> Some (out_outboxId b) \<noteq> ex)
     (obsoleteOutbox st aid ex reason)"
  unfolding obsoleteOutbox_def by (rule obsoletes_list)

lemmas obsoleteOutbox_views [simp] = obsoletes_views [OF obsoleteOutbox_obsoletes]

lemmas obsoleteOutbox_out = obsoletes_out [OF obsoleteOutbox_obsoletes]

text \<open>Cancelling the open verification of an attempt.\<close>

definition open_request :: "ProjectionState \<Rightarrow> uuid \<Rightarrow> VerificationState option" where
  "open_request st aid = find (\<lambda>v. ver_attemptId v = aid \<and> ver_status v = V_requested)
     (mvalues (verifications st))"

lemma cancelVerification_views [simp]:
  "run_view (cancelVerification st job aid reason) i r = r"
  "job_view (cancelVerification st job aid reason) i j = j"
  "att_view (cancelVerification st job aid reason) i a = a"
  "out_view (cancelVerification st job aid reason) i b = b"
  "ver_view (cancelVerification st job aid reason) i v =
     (if \<exists>w. open_request st aid = Some w \<and> ver_verificationId w = i
      then map_option (vl_status_update (\<lambda>_. V_cancelled)) v else v)"
  by (auto simp: cancelVerification_def open_request_def split: option.splits)

text \<open>
  Lists whose only enqueued messages are cancellations under new identifiers: what they may
  leave under an identifier that was free.
\<close>

definition fresh_cancels :: "ProjectionState \<Rightarrow> DomainEventInput list \<Rightarrow> bool" where
  "fresh_cancels st evs \<longleftrightarrow> (\<forall>e\<in>set evs. \<forall>d. ev_data e = OutboxEnqueued d \<longrightarrow>
     \<not> mhas (outbox st) (oe_outboxId d) \<and> is_agent_cancel (oe_effect d))"

definition tidy :: "OutboxLife option \<Rightarrow> bool" where
  "tidy x \<longleftrightarrow> (\<forall>b. x = Some b \<longrightarrow> ol_kind b = EK_cancel \<and> (ol_owned b \<longrightarrow> ol_status b = O_leased))"

lemma tidy_None [simp]: "tidy None"
  by (simp add: tidy_def)

lemma fresh_cancels_simps [simp]:
  "fresh_cancels st []"
  "fresh_cancels st (e # es) \<longleftrightarrow> (\<forall>d. ev_data e = OutboxEnqueued d \<longrightarrow>
     \<not> mhas (outbox st) (oe_outboxId d) \<and> is_agent_cancel (oe_effect d)) \<and> fresh_cancels st es"
  "fresh_cancels st (xs @ ys) \<longleftrightarrow> fresh_cancels st xs \<and> fresh_cancels st ys"
  by (auto simp: fresh_cancels_def)

lemma kind_cancel [simp]: "effect_kind e = EK_cancel \<longleftrightarrow> is_agent_cancel e"
  by (cases e) auto

lemma tidy_step:
  assumes "tidy x" and "\<And>d. ev = OutboxEnqueued d \<Longrightarrow> is_agent_cancel (oe_effect d)"
  shows "tidy (outbox_step ev i x)"
  using assms by (cases ev) (auto simp: tidy_def ol_close_def ol_new_def)

lemma tidy_view:
  assumes "fresh_cancels st evs" and "tidy x"
  shows "tidy (out_view evs i x)"
  using assms
proof (induction evs arbitrary: x)
  case (Cons e es)
  then show ?case by (auto intro!: tidy_step)
qed simp

lemma obsoletes_fresh: "obsoletes st P evs \<Longrightarrow> fresh_cancels st evs"
  by (auto simp: obsoletes_def fresh_cancels_def)

lemma fresh_parts [simp]:
  "well_keyed st \<Longrightarrow> fresh_cancels st (obsoleteOutbox st aid ex reason)"
  "fresh_cancels st (cancelVerification st job aid reason)"
  by (auto simp: obsoletes_fresh [OF obsoleteOutbox_obsoletes] cancelVerification_def
      split: option.splits)

text \<open>The message that asks for an external cancellation.\<close>

lemma cancelEffect_views [simp]:
  "run_view (fst (cancelEffect sha st job a gen)) i r = r"
  "job_view (fst (cancelEffect sha st job a gen)) i j = j"
  "att_view (fst (cancelEffect sha st job a gen)) i y = y"
  "ver_view (fst (cancelEffect sha st job a gen)) i v = v"
  "mhas (outbox st) i \<Longrightarrow> out_view (fst (cancelEffect sha st job a gen)) i b = b"
  "fresh_cancels st (fst (cancelEffect sha st job a gen))"
  by (auto simp: cancelEffect_def Let_def split: option.splits)

lemma timeoutCancel_views [simp]:
  "run_view (timeoutCancel sha st job a reason) i r = r"
  "job_view (timeoutCancel sha st job a reason) i j = j"
  "att_view (timeoutCancel sha st job a reason) i y = y"
  "ver_view (timeoutCancel sha st job a reason) i v = v"
  "mhas (outbox st) i \<Longrightarrow> out_view (timeoutCancel sha st job a reason) i b = b"
  "fresh_cancels st (timeoutCancel sha st job a reason)"
  by (auto simp: timeoutCancel_def split: option.splits)

section \<open>Cancelling jobs\<close>

definition open_attempt :: "ProjectionState \<Rightarrow> JobState \<Rightarrow> AttemptState option" where
  "open_attempt st k = (case Option.bind (job_activeAttemptId k) (mget (attempts st)) of
     None \<Rightarrow> None | Some a \<Rightarrow> if terminal_attempt (att_status a) then None else Some a)"

lemma cancellationEvents_alt:
  "fst (cancellationEvents sha st k reason gen) =
     (case open_attempt st k of None \<Rightarrow> []
      | Some a \<Rightarrow> attemptFinished k (att_attemptId a) A_cancelled
          (if reason = TR_operator_cancelled then TR_operator_cancelled else TR_run_failed)
          (Some (text_TerminationReason reason)) #
        obsoleteOutbox st (att_attemptId a) None reason @
        cancelVerification st k (att_attemptId a) reason @ fst (cancelEffect sha st k a gen)) @
     [event ST_job (job_jobId k) (JobCancelled (job_jobId k) (job_runId k) reason)]"
  by (auto simp: cancellationEvents_def open_attempt_def Let_def split: option.splits prod.splits)

definition al_close :: "AttemptStatus \<Rightarrow> AttemptLife \<Rightarrow> AttemptLife" where
  "al_close s y = y\<lparr>al_status := s\<rparr>"

lemma al_close_update: "al_status_update (\<lambda>_. s) = al_close s"
  by (simp add: fun_eq_iff al_close_def)

lemma closes_idem [simp]:
  "al_close s (al_close t y) = al_close s y" "jl_close s' (jl_close t' x) = jl_close s' x"
  by (simp_all add: al_close_def jl_close_def)

text \<open>
  What cancelling a list of jobs closes: the jobs, their open attempts, the undelivered
  work of those attempts and their open verifications.
\<close>

definition closes :: "ProjectionState \<Rightarrow> JobState list \<Rightarrow> uuid \<Rightarrow> bool" where
  "closes st ks i \<longleftrightarrow> (\<exists>k\<in>set ks. map_option att_attemptId (open_attempt st k) = Some i)"

definition out_closed :: "ProjectionState \<Rightarrow> (uuid \<Rightarrow> bool) \<Rightarrow> uuid \<Rightarrow> bool" where
  "out_closed st A i \<longleftrightarrow>
     (\<exists>b. mget (outbox st) i = Some b \<and> A (out_attemptId b) \<and> undelivered_work (out_attemptId b) b)"

definition ver_closed :: "ProjectionState \<Rightarrow> (uuid \<Rightarrow> bool) \<Rightarrow> uuid \<Rightarrow> bool" where
  "ver_closed st A i \<longleftrightarrow> (\<exists>aid w. A aid \<and> open_request st aid = Some w \<and> ver_verificationId w = i)"

lemma closes_simps [simp]:
  "\<not> closes st [] i"
  "closes st (k # ks) i \<longleftrightarrow> map_option att_attemptId (open_attempt st k) = Some i \<or> closes st ks i"
  by (auto simp: closes_def)

lemma closed_simps [simp]:
  "\<not> out_closed st (\<lambda>_. False) i" "\<not> ver_closed st (\<lambda>_. False) i"
  "out_closed st (\<lambda>a. P a \<or> Q a) i \<longleftrightarrow> out_closed st P i \<or> out_closed st Q i"
  "ver_closed st (\<lambda>a. P a \<or> Q a) i \<longleftrightarrow> ver_closed st P i \<or> ver_closed st Q i"
  by (auto simp: out_closed_def ver_closed_def)

lemma closed_one:
  "ver_closed st ((=) aid) i \<longleftrightarrow>
     (\<exists>w. open_request st aid = Some w \<and> ver_verificationId w = i)"
  "out_closed st ((=) aid) i \<longleftrightarrow>
     (\<exists>b. mget (outbox st) i = Some b \<and> undelivered_work aid b)"
  by (auto simp: ver_closed_def out_closed_def undelivered_work_def)

lemma cancellationEvents_views:
  assumes "well_keyed st"
  shows "run_view (fst (cancellationEvents sha st k reason gen)) i r = r"
    and "job_view (fst (cancellationEvents sha st k reason gen)) i x =
           (if i = job_jobId k then map_option (jl_close J_cancelled) x else x)"
    and "att_view (fst (cancellationEvents sha st k reason gen)) i y =
           (if map_option att_attemptId (open_attempt st k) = Some i
            then map_option (al_close A_cancelled) y else y)"
    and "mhas (outbox st) i \<Longrightarrow> out_view (fst (cancellationEvents sha st k reason gen)) i b =
           (if out_closed st (\<lambda>a. map_option att_attemptId (open_attempt st k) = Some a) i
            then map_option (ol_close O_obsolete) b else b)"
    and "ver_view (fst (cancellationEvents sha st k reason gen)) i v =
           (if ver_closed st (\<lambda>a. map_option att_attemptId (open_attempt st k) = Some a) i
            then map_option (vl_status_update (\<lambda>_. V_cancelled)) v else v)"
    and "fresh_cancels st (fst (cancellationEvents sha st k reason gen))"
proof (goal_cases)
  case 4
  then show ?case
    using assms by (cases "open_attempt st k")
      (simp_all add: cancellationEvents_alt obsoleteOutbox_out closed_one)
next
  case 5
  then show ?case
    using assms by (cases "open_attempt st k") (simp_all add: cancellationEvents_alt closed_one)
qed (use assms in \<open>cases "open_attempt st k"; auto simp: cancellationEvents_alt al_close_update\<close>)+

lemma map_option_idem [simp]:
  "map_option (jl_close s) (map_option (jl_close s) x) = map_option (jl_close s) x"
  "map_option (al_close t) (map_option (al_close t) y) = map_option (al_close t) y"
  "map_option (ol_close u) (map_option (ol_close u) z) = map_option (ol_close u) z"
  "map_option (vl_status_update (\<lambda>_. c)) (map_option (vl_status_update (\<lambda>_. c)) v) =
     map_option (vl_status_update (\<lambda>_. c)) v"
  by (simp_all add: option.map_comp comp_def)

lemma cancelJobs_Cons:
  "cancelJobs sha st reason gen (k # ks) = fst (cancellationEvents sha st k reason gen) @
     cancelJobs sha st reason (snd (cancellationEvents sha st k reason gen)) ks"
  by (simp add: Let_def split: prod.splits)

lemma cancelJobs_views:
  assumes w: "well_keyed st"
  shows "run_view (cancelJobs sha st reason gen ks) i r = r"
    and "job_view (cancelJobs sha st reason gen ks) i x =
           (if \<exists>k\<in>set ks. job_jobId k = i then map_option (jl_close J_cancelled) x else x)"
    and "att_view (cancelJobs sha st reason gen ks) i y =
           (if closes st ks i then map_option (al_close A_cancelled) y else y)"
    and "mhas (outbox st) i \<Longrightarrow> out_view (cancelJobs sha st reason gen ks) i b =
           (if out_closed st (closes st ks) i then map_option (ol_close O_obsolete) b else b)"
    and "ver_view (cancelJobs sha st reason gen ks) i v =
           (if ver_closed st (closes st ks) i
            then map_option (vl_status_update (\<lambda>_. V_cancelled)) v else v)"
    and "fresh_cancels st (cancelJobs sha st reason gen ks)"
proof (induction ks arbitrary: gen r x y b v)
  case (Cons k ks)
  note c = cancellationEvents_views [OF w] and e = cancelJobs_Cons
  have cl: "closes st (k # ks) = (\<lambda>a. map_option att_attemptId (open_attempt st k) = Some a \<or> closes st ks a)"
    by (simp add: fun_eq_iff)
  {
    case 1 show ?case unfolding e view_simps c Cons.IH ..
  next
    case 2 show ?case unfolding e view_simps c Cons.IH by auto
  next
    case 3 show ?case unfolding e view_simps c Cons.IH by auto
  next
    case 4 show ?case unfolding e view_simps c(4) [OF 4] Cons.IH(4) [OF 4] cl by simp
  next
    case 5 show ?case unfolding e view_simps c Cons.IH cl by simp
  next
    case 6 show ?case unfolding e fresh_cancels_simps using c(6) Cons.IH(6) by simp
  }
qed (simp_all add: closes_def [abs_def])

end
