(* ===== verification/LifeInvariant.thy ===== *)
theory LifeInvariant
  imports LifeEvents
begin

text \<open>
  The invariants of the lifecycle, stated on its abstract view, and the changes that keep
  them: leasing a job, handing an attempt to its verifier, and the teardown of attempts that
  every way of ending one shares.
\<close>

section \<open>Jobs, attempts, messages and verifications belong together\<close>

definition live :: "AttemptStatus \<Rightarrow> bool" where
  "live s \<longleftrightarrow> s \<in> {A_starting, A_running, A_verifying}"

definition undelivered :: "OutboxStatus \<Rightarrow> bool" where
  "undelivered s \<longleftrightarrow> s \<in> {O_pending, O_leased}"

text \<open>
  A job is active exactly when it has an active attempt, which is live and its own; a live
  attempt is the active one of its job.
\<close>

definition attempts_linked :: "Life \<Rightarrow> bool" where
  "attempts_linked L \<longleftrightarrow>
     (\<forall>j x. lf_job L j = Some x \<longrightarrow> (jl_status x = J_active \<longleftrightarrow> jl_active x \<noteq> None)) \<and>
     (\<forall>j x a. lf_job L j = Some x \<and> jl_active x = Some a \<longrightarrow>
        (\<exists>y. lf_att L a = Some y \<and> live (al_status y) \<and> al_job y = Some j \<and>
             al_run y = jl_run x \<and> al_ordinal y = jl_count x)) \<and>
     (\<forall>a y. lf_att L a = Some y \<and> live (al_status y) \<longrightarrow>
        (\<exists>j x. al_job y = Some j \<and> lf_job L j = Some x \<and> jl_active x = Some a)) \<and>
     (\<forall>j x. lf_job L j = Some x \<and> jl_owned x \<longrightarrow> jl_status x = J_active)"

text \<open>
  An undelivered message that is not a cancellation works for the active attempt of its job:
  an \<open>agent.start\<close> while the attempt is starting, a \<open>verification.run\<close> while it is verifying;
  and there is at most one such message per attempt. Only leased messages have an owner.
\<close>

definition work_status :: "EffectKind \<Rightarrow> AttemptStatus" where
  "work_status k = (case k of EK_start \<Rightarrow> A_starting | _ \<Rightarrow> A_verifying)"

definition work_message :: "OutboxLife \<Rightarrow> bool" where
  "work_message b \<longleftrightarrow> ol_kind b \<noteq> EK_cancel \<and> undelivered (ol_status b)"

definition messages_linked :: "Life \<Rightarrow> bool" where
  "messages_linked L \<longleftrightarrow>
     (\<forall>i b. lf_out L i = Some b \<and> work_message b \<longrightarrow>
        (\<exists>x y. lf_job L (ol_job b) = Some x \<and> jl_active x = Some (ol_attempt b) \<and>
           lf_att L (ol_attempt b) = Some y \<and> al_status y = work_status (ol_kind b))) \<and>
     (\<forall>i i' b b'. lf_out L i = Some b \<and> work_message b \<and> lf_out L i' = Some b' \<and> work_message b' \<and>
        ol_attempt b = ol_attempt b' \<longrightarrow> i = i') \<and>
     (\<forall>i b. lf_out L i = Some b \<and> ol_owned b \<longrightarrow> ol_status b = O_leased)"

text \<open>An open verification belongs to a verifying attempt, which has only this one.\<close>

definition verifications_linked :: "Life \<Rightarrow> bool" where
  "verifications_linked L \<longleftrightarrow>
     (\<forall>v w. lf_ver L v = Some w \<and> vl_status w = V_requested \<longrightarrow>
        (\<exists>y. lf_att L (vl_attempt w) = Some y \<and> al_status y = A_verifying \<and>
             al_job y = Some (vl_job w))) \<and>
     (\<forall>v v' w w'. lf_ver L v = Some w \<and> vl_status w = V_requested \<and> lf_ver L v' = Some w' \<and>
        vl_status w' = V_requested \<and> vl_attempt w = vl_attempt w' \<longrightarrow> v = v')"

definition linked :: "Life \<Rightarrow> bool" where
  "linked L \<longleftrightarrow> attempts_linked L \<and> messages_linked L \<and> verifications_linked L"

text \<open>The links, one fact each.\<close>

lemma linked_active_iff:
  "attempts_linked L \<Longrightarrow> lf_job L j = Some x \<Longrightarrow> jl_status x = J_active \<longleftrightarrow> jl_active x \<noteq> None"
  by (auto simp: attempts_linked_def)

lemma linked_attempt:
  "attempts_linked L \<Longrightarrow> lf_job L j = Some x \<Longrightarrow> jl_active x = Some a \<Longrightarrow>
     \<exists>y. lf_att L a = Some y \<and> live (al_status y) \<and> al_job y = Some j \<and>
         al_run y = jl_run x \<and> al_ordinal y = jl_count x"
  by (auto simp: attempts_linked_def)

lemma linked_live:
  "attempts_linked L \<Longrightarrow> lf_att L a = Some y \<Longrightarrow> live (al_status y) \<Longrightarrow>
     \<exists>j x. al_job y = Some j \<and> lf_job L j = Some x \<and> jl_active x = Some a"
  by (auto simp: attempts_linked_def)

lemma linked_owned:
  "attempts_linked L \<Longrightarrow> lf_job L j = Some x \<Longrightarrow> jl_owned x \<Longrightarrow> jl_status x = J_active"
  by (auto simp: attempts_linked_def)

lemma linked_message:
  "messages_linked L \<Longrightarrow> lf_out L i = Some b \<Longrightarrow> work_message b \<Longrightarrow>
     \<exists>x y. lf_job L (ol_job b) = Some x \<and> jl_active x = Some (ol_attempt b) \<and>
         lf_att L (ol_attempt b) = Some y \<and> al_status y = work_status (ol_kind b)"
  by (auto simp: messages_linked_def)

lemma linked_message_unique:
  assumes "messages_linked L" "lf_out L i = Some b" "work_message b" "lf_out L i' = Some b'"
    "work_message b'" "ol_attempt b = ol_attempt b'"
  shows "i = i'"
  using assms unfolding messages_linked_def by blast

lemma linked_message_owned:
  "messages_linked L \<Longrightarrow> lf_out L i = Some b \<Longrightarrow> ol_owned b \<Longrightarrow> ol_status b = O_leased"
  by (auto simp: messages_linked_def)

lemma linked_verification:
  "verifications_linked L \<Longrightarrow> lf_ver L v = Some w \<Longrightarrow> vl_status w = V_requested \<Longrightarrow>
     \<exists>y. lf_att L (vl_attempt w) = Some y \<and> al_status y = A_verifying \<and> al_job y = Some (vl_job w)"
  by (auto simp: verifications_linked_def)

lemma linked_verification_unique:
  assumes "verifications_linked L" "lf_ver L v = Some w" "vl_status w = V_requested"
    "lf_ver L v' = Some w'" "vl_status w' = V_requested" "vl_attempt w = vl_attempt w'"
  shows "v = v'"
  using assms unfolding verifications_linked_def by blast

section \<open>Attempts are bounded, runs and dependencies are respected\<close>

definition attempts_bounded :: "Life \<Rightarrow> bool" where
  "attempts_bounded L \<longleftrightarrow> (\<forall>j x. lf_job L j = Some x \<longrightarrow> jl_count x \<le> jl_max x \<and>
     (jl_status x \<in> {J_blocked, J_ready, J_retry_wait} \<longrightarrow> jl_count x < jl_max x))"

definition runs_respected :: "Life \<Rightarrow> bool" where
  "runs_respected L \<longleftrightarrow> (\<forall>j x. lf_job L j = Some x \<longrightarrow>
     (\<exists>r. lf_run L (jl_run x) = Some r \<and> r \<noteq> R_created \<and>
        (terminal_run r \<longrightarrow> terminal_job (jl_status x)) \<and>
        (r = R_succeeded \<longrightarrow> jl_status x = J_succeeded) \<and>
        (jl_active x \<noteq> None \<longrightarrow> r = R_running) \<and>
        (jl_status x \<in> {J_failed, J_cancelled} \<longrightarrow> r \<in> {R_failed, R_cancelled})))"

definition dependencies_respected :: "Life \<Rightarrow> bool" where
  "dependencies_respected L \<longleftrightarrow> (\<forall>j x d. lf_job L j = Some x \<and> d \<in> set (jl_deps x) \<longrightarrow>
     (\<exists>y. lf_job L d = Some y \<and> jl_run y = jl_run x \<and>
        (jl_status x \<notin> {J_blocked, J_cancelled} \<longrightarrow> jl_status y = J_succeeded)))"

text \<open>
  What keeps a run from getting stuck: a blocked job still waits for a dependency, a run that
  was scheduled and is not over has a job that has not succeeded, and jobs do not wait for
  each other in a cycle.
\<close>

definition job_deps :: "Life \<Rightarrow> (uuid \<times> uuid) set" where
  "job_deps L = {(j, d). \<exists>x. lf_job L j = Some x \<and> d \<in> set (jl_deps x)}"

definition waiting :: "Life \<Rightarrow> uuid \<Rightarrow> bool" where
  "waiting L d \<longleftrightarrow> (\<exists>y. lf_job L d = Some y \<and> jl_status y \<noteq> J_succeeded)"

definition open_run :: "RunStatus option \<Rightarrow> bool" where
  "open_run r \<longleftrightarrow> r = Some R_scheduled \<or> r = Some R_running"

definition progressing :: "Life \<Rightarrow> bool" where
  "progressing L \<longleftrightarrow> acyclic (job_deps L) \<and>
     (\<forall>j x. lf_job L j = Some x \<and> jl_status x = J_blocked \<longrightarrow> (\<exists>d\<in>set (jl_deps x). waiting L d)) \<and>
     (\<forall>i. open_run (lf_run L i) \<longrightarrow> (\<exists>j x. lf_job L j = Some x \<and> jl_run x = i \<and> waiting L j))"

lemma progressing_blocked:
  "progressing L \<Longrightarrow> lf_job L j = Some x \<Longrightarrow> jl_status x = J_blocked \<Longrightarrow> \<exists>d\<in>set (jl_deps x). waiting L d"
  unfolding progressing_def by blast

lemma progressing_run:
  "progressing L \<Longrightarrow> open_run (lf_run L i) \<Longrightarrow> \<exists>j x. lf_job L j = Some x \<and> jl_run x = i \<and> waiting L j"
  unfolding progressing_def by blast

definition life_ok :: "Life \<Rightarrow> bool" where
  "life_ok L \<longleftrightarrow> linked L \<and> attempts_bounded L \<and> runs_respected L \<and> dependencies_respected L \<and>
     progressing L"

lemmas linked_defs = linked_def attempts_linked_def messages_linked_def verifications_linked_def

section \<open>Teardown\<close>

text \<open>
  The change every ending of an attempt makes: some jobs close with a new status, their
  active attempts end, the work of those attempts is withdrawn and their open verifications
  are decided; new messages are only cancellations.
\<close>

definition teardown ::
    "(uuid \<Rightarrow> JobStatus option) \<Rightarrow> (uuid \<Rightarrow> AttemptStatus option) \<Rightarrow> (uuid \<Rightarrow> OutboxStatus option) \<Rightarrow>
     (uuid \<Rightarrow> VerificationStatus option) \<Rightarrow> Life \<Rightarrow> Life \<Rightarrow> bool" where
  "teardown ns as os vs L L' \<longleftrightarrow>
     (\<forall>j. lf_job L' j = (case ns j of None \<Rightarrow> lf_job L j | Some s \<Rightarrow> map_option (jl_close s) (lf_job L j))) \<and>
     (\<forall>a. lf_att L' a = (case as a of None \<Rightarrow> lf_att L a | Some s \<Rightarrow> map_option (al_close s) (lf_att L a))) \<and>
     (\<forall>i b. lf_out L i = Some b \<longrightarrow>
        lf_out L' i = Some (case os i of None \<Rightarrow> b | Some s \<Rightarrow> ol_close s b)) \<and>
     (\<forall>i. lf_out L i = None \<longrightarrow> tidy (lf_out L' i)) \<and>
     (\<forall>v. lf_ver L' v = (case vs v of None \<Rightarrow> lf_ver L v
        | Some s \<Rightarrow> map_option (vl_status_update (\<lambda>_. s)) (lf_ver L v)))"

definition teardown_ok ::
    "(uuid \<Rightarrow> JobStatus option) \<Rightarrow> (uuid \<Rightarrow> AttemptStatus option) \<Rightarrow> (uuid \<Rightarrow> OutboxStatus option) \<Rightarrow>
     (uuid \<Rightarrow> VerificationStatus option) \<Rightarrow> Life \<Rightarrow> bool" where
  "teardown_ok ns as os vs L \<longleftrightarrow>
     (\<forall>j. ns j \<noteq> Some J_active) \<and> (\<forall>a s. as a = Some s \<longrightarrow> \<not> live s) \<and>
     (\<forall>i s. os i = Some s \<longrightarrow> \<not> undelivered s) \<and> (\<forall>v. vs v \<noteq> Some V_requested) \<and>
     (\<forall>j x a. lf_job L j = Some x \<and> jl_active x = Some a \<longrightarrow> (ns j = None \<longleftrightarrow> as a = None)) \<and>
     (\<forall>a y. as a \<noteq> None \<and> lf_att L a = Some y \<longrightarrow>
        (\<forall>i b. lf_out L i = Some b \<and> work_message b \<and> ol_attempt b = a \<longrightarrow> os i \<noteq> None) \<and>
        (\<forall>v w. lf_ver L v = Some w \<and> vl_status w = V_requested \<and> vl_attempt w = a \<longrightarrow> vs v \<noteq> None))"

lemma jl_close_sel [simp]:
  "jl_run (jl_close s x) = jl_run x" "jl_deps (jl_close s x) = jl_deps x"
  "jl_max (jl_close s x) = jl_max x" "jl_checked (jl_close s x) = jl_checked x"
  "jl_status (jl_close s x) = s" "jl_active (jl_close s x) = None"
  "jl_count (jl_close s x) = jl_count x" "\<not> jl_owned (jl_close s x)"
  by (simp_all add: jl_close_def)

lemma al_close_sel [simp]:
  "al_run (al_close s y) = al_run y" "al_job (al_close s y) = al_job y"
  "al_ordinal (al_close s y) = al_ordinal y" "al_status (al_close s y) = s"
  by (simp_all add: al_close_def)

lemma ol_close_sel [simp]:
  "ol_job (ol_close s b) = ol_job b" "ol_attempt (ol_close s b) = ol_attempt b"
  "ol_kind (ol_close s b) = ol_kind b" "ol_status (ol_close s b) = s" "\<not> ol_owned (ol_close s b)"
  by (simp_all add: ol_close_def)

lemma teardown_attempts:
  assumes t: "teardown ns as os vs L L'" and ok: "teardown_ok ns as os vs L"
    and inv: "attempts_linked L"
  shows "attempts_linked L'"
proof -
  have nj: "lf_job L' j = (case ns j of None \<Rightarrow> lf_job L j | Some s \<Rightarrow> map_option (jl_close s) (lf_job L j))"
    and na: "lf_att L' a = (case as a of None \<Rightarrow> lf_att L a | Some s \<Rightarrow> map_option (al_close s) (lf_att L a))" for j a
    using t by (auto simp: teardown_def)
  have keep: "ns j = None \<longleftrightarrow> as a = None" if "lf_job L j = Some x" "jl_active x = Some a" for j x a
    using ok that by (auto simp: teardown_ok_def)
  have nact: "ns j \<noteq> Some J_active" "as a = Some s \<Longrightarrow> \<not> live s" for j a s
    using ok by (auto simp: teardown_ok_def)
  have 1: "jl_status x = J_active \<longleftrightarrow> jl_active x \<noteq> None" if "lf_job L' j = Some x" for j x
    using that inv nact(1) [of j] unfolding nj attempts_linked_def by (cases "ns j") auto
  have 2: "\<exists>y. lf_att L' a = Some y \<and> live (al_status y) \<and> al_job y = Some j \<and>
             al_run y = jl_run x \<and> al_ordinal y = jl_count x"
    if "lf_job L' j = Some x" "jl_active x = Some a" for j x a
  proof -
    have n: "ns j = None" and x: "lf_job L j = Some x"
      using that unfolding nj by (cases "ns j"; auto)+
    then have "as a = None" using keep that(2) by blast
    with inv x that(2) show ?thesis unfolding attempts_linked_def na by auto
  qed
  have 3: "\<exists>j x. al_job y = Some j \<and> lf_job L' j = Some x \<and> jl_active x = Some a"
    if b: "lf_att L' a = Some y" "live (al_status y)" for a y
  proof -
    have n: "as a = None" and y: "lf_att L a = Some y"
      using b nact(2) unfolding na by (cases "as a"; auto)+
    then obtain j x where "al_job y = Some j" "lf_job L j = Some x" "jl_active x = Some a"
      using inv b(2) y unfolding attempts_linked_def by blast
    moreover have "ns j = None" using keep calculation n by blast
    ultimately show ?thesis unfolding nj by auto
  qed
  have 4: "jl_status x = J_active" if "lf_job L' j = Some x" "jl_owned x" for j x
    using that inv unfolding nj attempts_linked_def by (cases "ns j") auto
  show ?thesis unfolding attempts_linked_def using 1 2 3 4 by blast
qed

lemma teardown_messages:
  assumes t: "teardown ns as os vs L L'" and ok: "teardown_ok ns as os vs L"
    and inv: "attempts_linked L" "messages_linked L"
  shows "messages_linked L'"
proof -
  have nj: "lf_job L' j = (case ns j of None \<Rightarrow> lf_job L j | Some s \<Rightarrow> map_option (jl_close s) (lf_job L j))"
    and na: "lf_att L' a = (case as a of None \<Rightarrow> lf_att L a | Some s \<Rightarrow> map_option (al_close s) (lf_att L a))" for j a
    using t by (auto simp: teardown_def)
  have old: "lf_out L i = Some b \<and> os i = None" if "lf_out L' i = Some b" "work_message b" for i b
  proof (cases "lf_out L i")
    case None
    with t that show ?thesis by (auto simp: teardown_def tidy_def work_message_def)
  next
    case (Some b0)
    then have "lf_out L' i = Some (case os i of None \<Rightarrow> b0 | Some s \<Rightarrow> ol_close s b0)"
      using t by (auto simp: teardown_def)
    moreover have "os i = Some s \<Longrightarrow> \<not> undelivered s" for s
      using ok by (auto simp: teardown_ok_def)
    ultimately show ?thesis
      using that Some by (auto simp: work_message_def split: option.splits)
  qed
  have 1: "\<exists>x y. lf_job L' (ol_job b) = Some x \<and> jl_active x = Some (ol_attempt b) \<and>
           lf_att L' (ol_attempt b) = Some y \<and> al_status y = work_status (ol_kind b)"
    if b: "lf_out L' i = Some b" "work_message b" for i b
  proof -
    obtain x y where x: "lf_job L (ol_job b) = Some x" "jl_active x = Some (ol_attempt b)"
      and y: "lf_att L (ol_attempt b) = Some y" "al_status y = work_status (ol_kind b)"
      using inv(2) old [OF b] b(2) unfolding messages_linked_def by blast
    have "as (ol_attempt b) = None"
      using ok y(1) old [OF b] b(2) unfolding teardown_ok_def by blast
    then have "ns (ol_job b) = None"
      using ok x unfolding teardown_ok_def by blast
    with \<open>as (ol_attempt b) = None\<close> x y show ?thesis unfolding nj na by auto
  qed
  have 2: "ol_status b = O_leased" if b: "lf_out L' i = Some b" "ol_owned b" for i b
  proof (cases "lf_out L i")
    case None
    with t that show ?thesis by (auto simp: teardown_def tidy_def)
  next
    case (Some b0)
    then have "lf_out L' i = Some (case os i of None \<Rightarrow> b0 | Some s \<Rightarrow> ol_close s b0)"
      using t by (auto simp: teardown_def)
    with b inv(2) Some show ?thesis by (auto simp: messages_linked_def split: option.splits)
  qed
  have 3: "i = i'" if "lf_out L' i = Some b" "work_message b" "lf_out L' i' = Some b'"
    "work_message b'" "ol_attempt b = ol_attempt b'" for i i' b b'
    using old [OF that(1,2)] old [OF that(3,4)] inv(2) that unfolding messages_linked_def by blast
  show ?thesis unfolding messages_linked_def using 1 2 3 by blast
qed

lemma teardown_verifications:
  assumes t: "teardown ns as os vs L L'" and ok: "teardown_ok ns as os vs L"
    and inv: "verifications_linked L"
  shows "verifications_linked L'"
proof -
  have na: "lf_att L' a = (case as a of None \<Rightarrow> lf_att L a | Some s \<Rightarrow> map_option (al_close s) (lf_att L a))" for a
    using t by (auto simp: teardown_def)
  have old: "lf_ver L v = Some w \<and> vs v = None" if "lf_ver L' v = Some w" "vl_status w = V_requested" for v w
    using that t ok by (cases "vs v") (auto simp: teardown_def teardown_ok_def)
  have 1: "\<exists>y. lf_att L' (vl_attempt w) = Some y \<and> al_status y = A_verifying \<and> al_job y = Some (vl_job w)"
    if w: "lf_ver L' v = Some w" "vl_status w = V_requested" for v w
  proof -
    obtain y where y: "lf_att L (vl_attempt w) = Some y" "al_status y = A_verifying" "al_job y = Some (vl_job w)"
      using inv old [OF w] w(2) unfolding verifications_linked_def by blast
    moreover have "as (vl_attempt w) = None"
      using ok y(1) old [OF w] w(2) unfolding teardown_ok_def by blast
    ultimately show ?thesis unfolding na by auto
  qed
  have 2: "v = v'" if "lf_ver L' v = Some w" "vl_status w = V_requested" "lf_ver L' v' = Some w'"
    "vl_status w' = V_requested" "vl_attempt w = vl_attempt w'" for v v' w w'
    using old [OF that(1,2)] old [OF that(3,4)] inv that unfolding verifications_linked_def by blast
  show ?thesis unfolding verifications_linked_def using 1 2 by blast
qed

lemma teardown_linked:
  assumes "teardown ns as os vs L L'" and "teardown_ok ns as os vs L" and "linked L"
  shows "linked L'"
  using assms teardown_attempts teardown_messages teardown_verifications
  unfolding linked_def by blast

end
