(* ===== verification/LifeTeardown.thy ===== *)
theory LifeTeardown
  imports LifeInvariant
begin

text \<open>
  The event lists with which \<open>decide\<close> ends attempts are teardowns of the abstract lifecycle
  that keep its links.
\<close>

section \<open>Which attempts and jobs close together\<close>

lemma work_message_life [simp]:
  "work_message (outbox_life b) \<longleftrightarrow> undelivered_work (out_attemptId b) b"
  by (auto simp: work_message_def outbox_life_def undelivered_work_def undelivered_def)

lemma outbox_life_sel [simp]:
  "ol_job (outbox_life b) = out_jobId b" "ol_attempt (outbox_life b) = out_attemptId b"
  "ol_kind (outbox_life b) = effect_kind (out_effect b)" "ol_status (outbox_life b) = out_status b"
  "ol_owned (outbox_life b) \<longleftrightarrow> out_leaseOwnerId b \<noteq> None"
  by (simp_all add: outbox_life_def)

lemma verification_life_sel [simp]:
  "vl_job (verification_life v) = ver_jobId v" "vl_attempt (verification_life v) = ver_attemptId v"
  "vl_status (verification_life v) = ver_status v"
  by (simp_all add: verification_life_def)

lemma attempt_life_sel [simp]:
  "al_run (attempt_life a) = att_runId a" "al_job (attempt_life a) = att_jobId a"
  "al_ordinal (attempt_life a) = att_ordinal a" "al_status (attempt_life a) = att_status a"
  by (simp_all add: attempt_life_def)

lemma job_life_sel [simp]:
  "jl_run (job_life j) = job_runId j" "jl_deps (job_life j) = job_dependencyJobIds j"
  "jl_max (job_life j) = jp_maxAttempts (job_policy j)" "jl_status (job_life j) = job_status j"
  "jl_active (job_life j) = job_activeAttemptId j" "jl_count (job_life j) = job_attemptCount j"
  "jl_owned (job_life j) \<longleftrightarrow> job_leaseOwnerId j \<noteq> None"
  by (simp_all add: job_life_def)

lemma keyed_sel:
  assumes "well_keyed st"
  shows "mget (jobs st) i = Some j \<Longrightarrow> job_jobId j = i"
    and "mget (attempts st) i = Some a \<Longrightarrow> att_attemptId a = i"
    and "mget (runs st) i = Some r \<Longrightarrow> run_runId r = i"
    and "mget (outbox st) i = Some b \<Longrightarrow> out_outboxId b = i"
    and "mget (verifications st) i = Some v \<Longrightarrow> ver_verificationId v = i"
  using assms by (auto simp: well_keyed_def dest: keyedD)

lemma keyed_vals:
  assumes "well_keyed st"
  shows "j \<in> set (mvalues (jobs st)) \<longleftrightarrow> mget (jobs st) (job_jobId j) = Some j"
    and "a \<in> set (mvalues (attempts st)) \<longleftrightarrow> mget (attempts st) (att_attemptId a) = Some a"
    and "b \<in> set (mvalues (outbox st)) \<longleftrightarrow> mget (outbox st) (out_outboxId b) = Some b"
    and "v \<in> set (mvalues (verifications st)) \<longleftrightarrow> mget (verifications st) (ver_verificationId v) = Some v"
  using assms by (auto simp: well_keyed_def keyed_values)

text \<open>What the links say of the concrete entities.\<close>

lemma active_attempt_linked:
  assumes "attempts_linked (life st)" "mget (jobs st) j = Some x" "job_activeAttemptId x = Some a"
  obtains y where "mget (attempts st) a = Some y" "live (att_status y)" "att_jobId y = Some j"
    "att_runId y = job_runId x" "att_ordinal y = job_attemptCount x" "job_status x = J_active"
proof -
  have x: "lf_job (life st) j = Some (job_life x)"
    using assms(2) by (simp add: life_sel)
  have "job_status x = J_active"
    using linked_active_iff [OF assms(1) x] assms(3) by simp
  with linked_attempt [OF assms(1) x, of a] assms(3) show ?thesis
    by (auto simp: life_sel intro: that)
qed

lemma live_not_terminal [simp]: "live s \<Longrightarrow> \<not> terminal_attempt s"
  by (auto simp: live_def terminal_attempt_def)

lemma terminal_not_live [simp]: "terminal_attempt s \<Longrightarrow> \<not> live s"
  by auto

lemma live_values [simp]:
  "live A_starting" "live A_running" "live A_verifying" "\<not> live A_allocated" "\<not> live A_succeeded"
  "\<not> live A_failed" "\<not> live A_timed_out" "\<not> live A_cancelled" "\<not> live A_approval_required"
  by (simp_all add: live_def)

lemma undelivered_values [simp]:
  "undelivered O_pending" "undelivered O_leased" "\<not> undelivered O_delivered"
  "\<not> undelivered O_obsolete" "\<not> undelivered O_dead_letter"
  by (simp_all add: undelivered_def)

lemma open_attempt_active:
  assumes "well_keyed st" "attempts_linked (life st)" "mget (jobs st) (job_jobId k) = Some k"
  shows "map_option att_attemptId (open_attempt st k) = job_activeAttemptId k"
proof (cases "job_activeAttemptId k")
  case (Some a)
  then obtain y where "mget (attempts st) a = Some y" "live (att_status y)"
    using active_attempt_linked [OF assms(2,3)] by blast
  with Some assms(1) show ?thesis by (simp add: open_attempt_def keyed_sel(2))
qed (simp add: open_attempt_def)

lemma active_unique:
  assumes "attempts_linked (life st)" "mget (jobs st) j = Some x" "job_activeAttemptId x = Some a"
    "mget (jobs st) j' = Some x'" "job_activeAttemptId x' = Some a"
  shows "j = j'"
  by (metis active_attempt_linked [OF assms(1-3)] active_attempt_linked [OF assms(1,4,5)] option.inject)

text \<open>
  Closing the jobs \<open>J\<close> and the attempts \<open>A\<close>, where \<open>A\<close> holds exactly the active attempts of
  \<open>J\<close>, with their work and verifications, is an admissible teardown.
\<close>

lemma open_request_found:
  assumes wk: "well_keyed st" and inv: "verifications_linked (life st)"
    and v: "mget (verifications st) v = Some w" "ver_status w = V_requested"
  shows "open_request st (ver_attemptId w) = Some w"
proof (cases "open_request st (ver_attemptId w)")
  case None
  then show ?thesis
    using v mvalues_get [OF v(1)] by (auto simp: open_request_def find_None_iff)
next
  case (Some w')
  then have w': "w' \<in> set (mvalues (verifications st))" "ver_attemptId w' = ver_attemptId w"
    "ver_status w' = V_requested"
    by (auto simp: open_request_def find_Some_iff)
  then have g: "mget (verifications st) (ver_verificationId w') = Some w'"
    using keyed_vals(4) [OF wk] by blast
  have "ver_verificationId w' = v"
    using linked_verification_unique [OF inv, of "ver_verificationId w'" "verification_life w'" v
        "verification_life w"] v w' g by (simp add: life_sel)
  with g v(1) Some show ?thesis by simp
qed

lemma closing_ok:
  assumes wk: "well_keyed st" and inv: "linked (life st)"
    and match: "\<And>j x a. mget (jobs st) j = Some x \<Longrightarrow> job_activeAttemptId x = Some a \<Longrightarrow> J j \<longleftrightarrow> A a"
    and ns: "\<And>j. ns j = None \<longleftrightarrow> \<not> J j" "\<And>j. ns j \<noteq> Some J_active"
    and as: "\<And>a. as a = None \<longleftrightarrow> \<not> A a" "\<And>a s. as a = Some s \<Longrightarrow> \<not> live s"
    and os: "\<And>i. out_closed st A i \<Longrightarrow> os i \<noteq> None" "\<And>i s. os i = Some s \<Longrightarrow> \<not> undelivered s"
    and vs: "\<And>v. ver_closed st A v \<Longrightarrow> vs v \<noteq> None" "\<And>v. vs v \<noteq> Some V_requested"
  shows "teardown_ok ns as os vs (life st)"
  unfolding teardown_ok_def
proof (intro conjI allI impI)
  show "ns j = None \<longleftrightarrow> as a = None" if "lf_job (life st) j = Some x \<and> jl_active x = Some a" for j x a
    using match that by (auto simp: life_sel ns as)
  show "os i \<noteq> None" if a: "as a \<noteq> None \<and> lf_att (life st) a = Some y"
    and b: "lf_out (life st) i = Some b \<and> work_message b \<and> ol_attempt b = a" for a y i b
    using a b os(1) by (auto simp: life_sel as out_closed_def)
  show "vs v \<noteq> None" if a: "as a \<noteq> None \<and> lf_att (life st) a = Some y"
    and w: "lf_ver (life st) v = Some w \<and> vl_status w = V_requested \<and> vl_attempt w = a" for a y v w
  proof -
    obtain w' where g: "mget (verifications st) v = Some w'" "ver_status w' = V_requested"
      "ver_attemptId w' = a" using w by (auto simp: life_sel)
    have "open_request st a = Some w'"
      using open_request_found [OF wk _ g(1,2)] inv g(3) by (simp add: linked_def)
    then show ?thesis
      using vs(1) a as(1) keyed_sel(5) [OF wk g(1)] by (auto simp: ver_closed_def)
  qed
qed (use ns as os vs in auto)

text \<open>A job with an active attempt, and other jobs that are cancelled with it.\<close>

lemma match_main:
  assumes wk: "well_keyed st" and inv: "attempts_linked (life st)"
    and job: "mget (jobs st) j0 = Some job" "job_activeAttemptId job = Some aid"
    and K: "\<And>k. k \<in> set K \<Longrightarrow> mget (jobs st) (job_jobId k) = Some k"
    and x: "mget (jobs st) j = Some x" "job_activeAttemptId x = Some a"
  shows "(j = j0 \<or> (\<exists>k\<in>set K. job_jobId k = j)) \<longleftrightarrow> (aid = a \<or> closes st K a)"
proof -
  have c: "closes st K a \<longleftrightarrow> (\<exists>k\<in>set K. job_activeAttemptId k = Some a)"
    using open_attempt_active [OF wk inv K] by (auto simp: closes_def)
  have 1: "j = j0 \<longleftrightarrow> aid = a"
    using job x active_unique [OF inv] by auto
  have 2: "(\<exists>k\<in>set K. job_jobId k = j) \<longleftrightarrow> (\<exists>k\<in>set K. job_activeAttemptId k = Some a)"
    using K x active_unique [OF inv] by (metis option.inject)
  show ?thesis using 1 2 c by blast
qed

lemma match_list:
  assumes wk: "well_keyed st" and inv: "attempts_linked (life st)"
    and K: "\<And>k. k \<in> set K \<Longrightarrow> mget (jobs st) (job_jobId k) = Some k"
    and x: "mget (jobs st) j = Some x" "job_activeAttemptId x = Some a"
  shows "(\<exists>k\<in>set K. job_jobId k = j) \<longleftrightarrow> closes st K a"
proof -
  have c: "closes st K a \<longleftrightarrow> (\<exists>k\<in>set K. job_activeAttemptId k = Some a)"
    using open_attempt_active [OF wk inv K] by (auto simp: closes_def)
  show ?thesis
    unfolding c using K x active_unique [OF inv] by (metis option.inject)
qed

section \<open>The teardown of a job and its siblings\<close>

text \<open>
  The views of an event list that ends the job \<open>jid\<close> with status \<open>s\<close> and its attempt \<open>aid\<close>
  with status \<open>t\<close>, cancels the jobs \<open>K\<close>, and decides the messages \<open>Om\<close> and verifications
  \<open>Vm\<close> of the attempt.
\<close>

definition main_teardown ::
    "ProjectionState \<Rightarrow> JobState list \<Rightarrow> uuid \<Rightarrow> JobStatus \<Rightarrow> uuid \<Rightarrow> AttemptStatus \<Rightarrow>
     (uuid \<Rightarrow> OutboxStatus option) \<Rightarrow> (uuid \<Rightarrow> VerificationStatus option) \<Rightarrow> DomainEventInput list \<Rightarrow> bool" where
  "main_teardown st K jid s aid t Om Vm evs \<longleftrightarrow>
     (\<forall>i x. job_view evs i x =
        (if \<exists>k\<in>set K. job_jobId k = i then map_option (jl_close J_cancelled) x
         else if i = jid then map_option (jl_close s) x else x)) \<and>
     (\<forall>i y. att_view evs i y =
        (if closes st K i then map_option (al_close A_cancelled) y
         else if i = aid then map_option (al_close t) y else y)) \<and>
     (\<forall>i b. mhas (outbox st) i \<longrightarrow> out_view evs i b =
        (if out_closed st (closes st K) i then map_option (ol_close O_obsolete) b
         else case Om i of None \<Rightarrow> b | Some u \<Rightarrow> map_option (ol_close u) b)) \<and>
     (\<forall>i w. ver_view evs i w =
        (if ver_closed st (closes st K) i then map_option (vl_status_update (\<lambda>_. V_cancelled)) w
         else case Vm i of None \<Rightarrow> w | Some u \<Rightarrow> map_option (vl_status_update (\<lambda>_. u)) w)) \<and>
     fresh_cancels st evs"

definition views_of :: "DomainEventInput list \<Rightarrow> Life \<Rightarrow> Life \<Rightarrow> bool" where
  "views_of evs L L' \<longleftrightarrow>
     (\<forall>i. lf_run L' i = run_view evs i (lf_run L i)) \<and> (\<forall>i. lf_job L' i = job_view evs i (lf_job L i)) \<and>
     (\<forall>i. lf_att L' i = att_view evs i (lf_att L i)) \<and> (\<forall>i. lf_out L' i = out_view evs i (lf_out L i)) \<and>
     (\<forall>i. lf_ver L' i = ver_view evs i (lf_ver L i))"

lemma main_teardown_is_teardown:
  assumes "main_teardown st K jid s aid t Om Vm evs" and "views_of evs (life st) L'"
  shows "teardown
     (\<lambda>j. if \<exists>k\<in>set K. job_jobId k = j then Some J_cancelled else if j = jid then Some s else None)
     (\<lambda>a. if closes st K a then Some A_cancelled else if a = aid then Some t else None)
     (\<lambda>i. if out_closed st (closes st K) i then Some O_obsolete else Om i)
     (\<lambda>i. if ver_closed st (closes st K) i then Some V_cancelled else Vm i) (life st) L'"
proof -
  have "mhas (outbox st) i" if "lf_out (life st) i = Some b" for i b
    using that by (auto simp: life_sel mhas_def)
  moreover have "tidy (out_view evs i None)" for i
    by (rule tidy_view [of st]) (use assms(1) in \<open>simp_all add: main_teardown_def\<close>)
  ultimately show ?thesis
    using assms unfolding teardown_def main_teardown_def views_of_def
    by (auto split: option.splits)
qed

lemma main_teardown_linked:
  assumes wk: "well_keyed st" and inv: "linked (life st)"
    and job: "mget (jobs st) jid = Some job" "job_activeAttemptId job = Some aid"
    and K: "\<And>k. k \<in> set K \<Longrightarrow> mget (jobs st) (job_jobId k) = Some k"
    and s: "s \<noteq> J_active" and t: "\<not> live t"
    and Om: "\<And>i. out_closed st ((=) aid) i \<Longrightarrow> Om i \<noteq> None" "\<And>i u. Om i = Some u \<Longrightarrow> \<not> undelivered u"
    and Vm: "\<And>v. ver_closed st ((=) aid) v \<Longrightarrow> Vm v \<noteq> None" "\<And>v. Vm v \<noteq> Some V_requested"
    and evs: "main_teardown st K jid s aid t Om Vm evs" "views_of evs (life st) L'"
  shows "linked L'"
proof (rule teardown_linked [OF main_teardown_is_teardown [OF evs] _ inv])
  have al: "attempts_linked (life st)" using inv by (simp add: linked_def)
  show "teardown_ok
     (\<lambda>j. if \<exists>k\<in>set K. job_jobId k = j then Some J_cancelled else if j = jid then Some s else None)
     (\<lambda>a. if closes st K a then Some A_cancelled else if a = aid then Some t else None)
     (\<lambda>i. if out_closed st (closes st K) i then Some O_obsolete else Om i)
     (\<lambda>i. if ver_closed st (closes st K) i then Some V_cancelled else Vm i) (life st)"
  proof (rule closing_ok [OF wk inv, where J = "\<lambda>j. j = jid \<or> (\<exists>k\<in>set K. job_jobId k = j)"
        and A = "\<lambda>a. aid = a \<or> closes st K a"])
    show "(j = jid \<or> (\<exists>k\<in>set K. job_jobId k = j)) \<longleftrightarrow> (aid = a \<or> closes st K a)"
      if "mget (jobs st) j = Some x" "job_activeAttemptId x = Some a" for j x a
      using match_main [OF wk al job K that] by blast
  qed (use s t Om Vm in \<open>auto simp: closed_simps(3) [where P = "(=) aid"]
         closed_simps(4) [where P = "(=) aid"] split: if_splits\<close>)
qed

section \<open>The event lists of the code\<close>

definition exhausted :: "JobState \<Rightarrow> bool" where
  "exhausted job \<longleftrightarrow> \<not> job_attemptCount job < jp_maxAttempts (job_policy job)"

definition own_work :: "ProjectionState \<Rightarrow> uuid \<Rightarrow> uuid option \<Rightarrow> uuid \<Rightarrow> OutboxStatus option" where
  "own_work st aid ex i = (if out_closed st ((=) aid) i \<and> Some i \<noteq> ex then Some O_obsolete else None)"

definition own_request :: "ProjectionState \<Rightarrow> uuid \<Rightarrow> uuid \<Rightarrow> VerificationStatus option" where
  "own_request st aid v = (if ver_closed st ((=) aid) v then Some V_cancelled else None)"

lemma obsoletes_own:
  assumes wk: "well_keyed st"
  shows "out_view (obsoleteOutbox st aid ex reason) i x =
    (case own_work st aid ex i of None \<Rightarrow> x | Some u \<Rightarrow> map_option (ol_close u) x)"
  using keyed_sel(4) [OF wk, of i]
  by (auto simp: obsoleteOutbox_out [OF wk] own_work_def closed_one)

lemma cancels_own:
  "ver_view (cancelVerification st job aid reason) i w =
    (case own_request st aid i of None \<Rightarrow> w | Some u \<Rightarrow> map_option (vl_status_update (\<lambda>_. u)) w)"
  by (auto simp: own_request_def closed_one)

lemma otherLiveJobs_mem:
  assumes "well_keyed st"
  shows "k \<in> set (otherLiveJobs st job) \<longleftrightarrow> mget (jobs st) (job_jobId k) = Some k \<and>
     job_runId k = job_runId job \<and> job_jobId k \<noteq> job_jobId job \<and> \<not> terminal_job (job_status k)"
  using keyed_vals(1) [OF assms] by (auto simp: otherLiveJobs_def)

lemma otherLiveJobs_not_self:
  "(\<exists>k\<in>set (otherLiveJobs st job). job_jobId k = i) \<Longrightarrow> i \<noteq> job_jobId job"
  by (auto simp: otherLiveJobs_def)

lemma jobFailureEvents_views:
  assumes wk: "well_keyed st"
  shows "run_view (jobFailureEvents sha st job reason) i r =
           (if i = job_runId job then map_option (\<lambda>_. R_failed) r else r)"
    and "job_view (jobFailureEvents sha st job reason) i x =
           (if \<exists>k\<in>set (otherLiveJobs st job). job_jobId k = i then map_option (jl_close J_cancelled) x
            else if i = job_jobId job then map_option (jl_close J_failed) x else x)"
    and "att_view (jobFailureEvents sha st job reason) i y =
           (if closes st (otherLiveJobs st job) i then map_option (al_close A_cancelled) y else y)"
    and "mhas (outbox st) i \<Longrightarrow> out_view (jobFailureEvents sha st job reason) i b =
           (if out_closed st (closes st (otherLiveJobs st job)) i
            then map_option (ol_close O_obsolete) b else b)"
    and "ver_view (jobFailureEvents sha st job reason) i w =
           (if ver_closed st (closes st (otherLiveJobs st job)) i
            then map_option (vl_status_update (\<lambda>_. V_cancelled)) w else w)"
    and "fresh_cancels st (jobFailureEvents sha st job reason)"
  using otherLiveJobs_not_self [of st job i]
  by (auto simp: jobFailureEvents_def cancelJobs_views [OF wk])

lemma close_compose [simp]:
  "map_option (jl_close s) (map_option (jl_close s') x) = map_option (jl_close s) x"
  "map_option (al_close t) (map_option (al_close t') y) = map_option (al_close t) y"
  "map_option (ol_close u) (map_option (ol_close u') z) = map_option (ol_close u) z"
  "map_option (vl_status_update (\<lambda>_. c)) (map_option (vl_status_update (\<lambda>_. c')) v) =
     map_option (vl_status_update (\<lambda>_. c)) v"
  by (simp_all add: option.map_comp comp_def)

lemma failureTransition_teardown:
  assumes wk: "well_keyed st"
  shows "main_teardown st (if exhausted job then otherLiveJobs st job else []) (job_jobId job)
     (if exhausted job then J_failed else J_retry_wait) (att_attemptId a)
     (if reason = TR_timed_out then A_timed_out else A_failed)
     (own_work st (att_attemptId a) ex) (own_request st (att_attemptId a))
     (failureTransitionEvents sha st job a reason now detail ex)"
proof (cases "exhausted job")
  case True
  then have "\<not> job_attemptCount job < jp_maxAttempts (job_policy job)"
    by (simp add: exhausted_def)
  then show ?thesis
    using True wk by (auto simp: main_teardown_def failureTransitionEvents_def
        jobFailureEvents_views obsoletes_own cancels_own al_close_update simp del: cancelVerification_views(5)
        split: option.splits)
next
  case False
  then have "job_attemptCount job < jp_maxAttempts (job_policy job)"
    by (simp add: exhausted_def)
  then show ?thesis
    using False wk by (auto simp: main_teardown_def failureTransitionEvents_def closes_def [abs_def]
        obsoletes_own cancels_own al_close_update simp del: cancelVerification_views(5))
qed

lemma failureTransition_run:
  "well_keyed st \<Longrightarrow> run_view (failureTransitionEvents sha st job a reason now detail ex) i r =
     (if exhausted job \<and> i = job_runId job then map_option (\<lambda>_. R_failed) r else r)"
  by (auto simp: failureTransitionEvents_def exhausted_def jobFailureEvents_views)

lemma nonretryable_teardown:
  assumes wk: "well_keyed st"
  shows "main_teardown st (otherLiveJobs st job) (job_jobId job) J_failed (att_attemptId a)
     (if reason = TR_approval_required then A_approval_required
      else if reason = TR_operator_cancelled then A_cancelled else A_failed)
     (own_work st (att_attemptId a) None) (\<lambda>_. None)
     (nonretryableDriverFailureEvents sha st job a reason detail)"
proof -
  note o = obsoletes_list [OF wk, of "undelivered_work (att_attemptId a)" "\<lambda>_. job_runId job"
      "text_TerminationReason reason"]
  have out: "out_view [event ST_outbox (out_outboxId b)
        (OutboxObsoleted (out_outboxId b) (job_runId job) (text_TerminationReason reason)).
      b \<leftarrow> mvalues (outbox st), undelivered_work (att_attemptId a) b] i x =
      (case own_work st (att_attemptId a) None i of None \<Rightarrow> x | Some u \<Rightarrow> map_option (ol_close u) x)" for i x
    by (auto simp: obsoletes_out [OF o] own_work_def closed_one)
  show ?thesis
    using wk by (auto simp: main_teardown_def nonretryableDriverFailureEvents_def obsoletes_views [OF o]
        obsoletes_fresh [OF o] out jobFailureEvents_views al_close_update split: option.splits)
qed

lemma nonretryable_run:
  assumes wk: "well_keyed st"
  shows "run_view (nonretryableDriverFailureEvents sha st job a reason detail) i r =
     (if i = job_runId job then map_option (\<lambda>_. R_failed) r else r)"
  using obsoletes_views(1) [OF obsoletes_list [OF wk, of "undelivered_work (att_attemptId a)"
      "\<lambda>_. job_runId job" "text_TerminationReason reason"]]
  by (simp add: nonretryableDriverFailureEvents_def jobFailureEvents_views [OF wk])

end
