(* ===== verification/LifeChanges.thy ===== *)
theory LifeChanges
  imports LifeTeardown
begin

text \<open>
  The changes of the abstract lifecycle other than teardowns: leasing a job, handing an
  attempt to the verifier, delivering messages, unblocking jobs. Each keeps the links.
\<close>

section \<open>Events outside the lifecycle\<close>

definition quiet :: "DomainEventInput list \<Rightarrow> bool" where
  "quiet evs \<longleftrightarrow> (\<forall>e\<in>set evs. \<forall>L. life_step (ev_data e) L = L)"

lemma life_step_idD:
  assumes "\<And>L. life_step d L = L"
  shows "run_step d i r = r" "job_step d i x = x" "attempt_step d i y = y"
    "outbox_step d i b = b" "verification_step d i w = w"
  using assms [of "\<lparr>lf_run = \<lambda>_. r, lf_job = \<lambda>_. x, lf_att = \<lambda>_. y, lf_out = \<lambda>_. b, lf_ver = \<lambda>_. w\<rparr>"]
  by (auto simp: life_step_def dest!: fun_cong [where x = i])

lemma quiet_simps [simp]:
  "quiet []" "quiet (e # es) \<longleftrightarrow> (\<forall>L. life_step (ev_data e) L = L) \<and> quiet es"
  "quiet (xs @ ys) \<longleftrightarrow> quiet xs \<and> quiet ys"
  by (auto simp: quiet_def)

lemma quiet_steps [simp]:
  "life_step (SourceRevisionRegistered r) L = L" "life_step (ProgramCreated p n) L = L"
  "life_step (WorkflowDefinitionRegistered w d) L = L" "life_step (ContextPacketCompiled c d) L = L"
  "life_step (ArtifactManifestRecorded m) L = L" "life_step (DriverReceiptRecorded q) L = L"
  "life_step (ApprovalRequestRecorded u) L = L" "life_step (DriverEventsObserved v) L = L"
  "life_step (JobLeaseRenewed j k l t e) L = L"
  by (simp_all add: life_step_def)

lemma quiet_views:
  assumes "quiet evs"
  shows "run_view evs i r = r" "job_view evs i x = x" "att_view evs i y = y"
    "out_view evs i b = b" "ver_view evs i w = w"
  using assms
  by (induction evs arbitrary: r x y b w) (auto simp: life_step_idD)

lemma quiet_fresh: "quiet evs \<Longrightarrow> fresh_cancels st evs"
  unfolding quiet_def fresh_cancels_def
proof (intro ballI allI impI)
  fix e d assume q: "\<forall>e\<in>set evs. \<forall>L. life_step (ev_data e) L = L" and e: "e \<in> set evs" "ev_data e = OutboxEnqueued d"
  then have "outbox_step (OutboxEnqueued d) (oe_outboxId d) None = None"
    using life_step_idD(4) by metis
  then show "\<not> mhas (outbox st) (oe_outboxId d) \<and> is_agent_cancel (oe_effect d)"
    by simp
qed

lemma life_eqI:
  assumes "\<And>i. lf_run L i = lf_run M i" "\<And>i. lf_job L i = lf_job M i" "\<And>i. lf_att L i = lf_att M i"
    "\<And>i. lf_out L i = lf_out M i" "\<And>i. lf_ver L i = lf_ver M i"
  shows "L = (M :: Life)"
  using assms by (intro Life.equality) auto

lemma views_of_quiet: "quiet evs \<Longrightarrow> views_of evs L L' \<Longrightarrow> L' = L"
  by (rule life_eqI) (auto simp: views_of_def quiet_views)

lemma views_of_append:
  "views_of (xs @ ys) L L' \<longleftrightarrow> (\<exists>M. views_of xs L M \<and> views_of ys M L')"
proof
  assume v: "views_of (xs @ ys) L L'"
  let ?M = "\<lparr>lf_run = \<lambda>i. run_view xs i (lf_run L i), lf_job = \<lambda>i. job_view xs i (lf_job L i),
    lf_att = \<lambda>i. att_view xs i (lf_att L i), lf_out = \<lambda>i. out_view xs i (lf_out L i),
    lf_ver = \<lambda>i. ver_view xs i (lf_ver L i)\<rparr>"
  have "views_of xs L ?M" "views_of ys ?M L'"
    using v by (simp_all add: views_of_def)
  then show "\<exists>M. views_of xs L M \<and> views_of ys M L'" by blast
qed (auto simp: views_of_def)

lemma main_teardown_quiet:
  "quiet xs \<Longrightarrow> main_teardown st K jid s aid t Om Vm evs \<Longrightarrow>
   main_teardown st K jid s aid t Om Vm (xs @ evs)"
  by (simp add: main_teardown_def quiet_views quiet_fresh)

text \<open>A message decided before the teardown.\<close>

lemma main_teardown_out:
  assumes "main_teardown st K jid s aid t Om Vm evs"
    and "\<And>i x. job_step (ev_data e) i x = x" "\<And>i y. attempt_step (ev_data e) i y = y"
    and "\<And>i w. verification_step (ev_data e) i w = w" "\<And>d. ev_data e \<noteq> OutboxEnqueued d"
    and "\<And>i b. outbox_step (ev_data e) i b = (if i = i0 then map_option (ol_close u) b else b)"
  shows "main_teardown st K jid s aid t
     (\<lambda>i. if i = i0 \<and> Om i = None then Some u else Om i) Vm (e # evs)"
  using assms by (auto simp: main_teardown_def split: option.splits)

text \<open>A verification decided before the teardown.\<close>

lemma main_teardown_ver:
  assumes "main_teardown st K jid s aid t Om Vm evs"
    and "\<And>i x. job_step (ev_data e) i x = x" "\<And>i y. attempt_step (ev_data e) i y = y"
    and "\<And>i b. outbox_step (ev_data e) i b = b" "\<And>d. ev_data e \<noteq> OutboxEnqueued d"
    and "\<And>i w. verification_step (ev_data e) i w =
           (if i = v0 then map_option (vl_status_update (\<lambda>_. u)) w else w)"
  shows "main_teardown st K jid s aid t Om
     (\<lambda>i. if i = v0 \<and> Vm i = None then Some u else Vm i) (e # evs)"
  using assms by (auto simp: main_teardown_def split: option.splits)

section \<open>Changing one message\<close>

lemma message_change_linked:
  assumes inv: "linked L"
    and same: "\<And>i. lf_job L' i = lf_job L i" "\<And>i. lf_att L' i = lf_att L i" "\<And>i. lf_ver L' i = lf_ver L i"
    and out: "\<And>i. lf_out L' i = (if i = k then map_option f (lf_out L i) else lf_out L i)"
    and f: "\<And>b. lf_out L k = Some b \<Longrightarrow> ol_job (f b) = ol_job b \<and> ol_attempt (f b) = ol_attempt b \<and>
        ol_kind (f b) = ol_kind b \<and> (undelivered (ol_status (f b)) \<longrightarrow> undelivered (ol_status b)) \<and>
        (ol_owned (f b) \<longrightarrow> ol_status (f b) = O_leased)"
  shows "linked L'"
proof -
  have old: "\<exists>c. lf_out L i = Some c \<and> work_message c \<and> ol_job c = ol_job b \<and>
      ol_attempt c = ol_attempt b \<and> ol_kind c = ol_kind b"
    if "lf_out L' i = Some b" "work_message b" for i b
    using that f unfolding out by (auto simp: work_message_def split: if_splits)
  have m: "messages_linked L" using inv by (simp add: linked_def)
  have "messages_linked L'"
    unfolding messages_linked_def
  proof (intro conjI allI impI)
    fix i b assume b: "lf_out L' i = Some b \<and> work_message b"
    then show "\<exists>x y. lf_job L' (ol_job b) = Some x \<and> jl_active x = Some (ol_attempt b) \<and>
        lf_att L' (ol_attempt b) = Some y \<and> al_status y = work_status (ol_kind b)"
      using old [of i b] linked_message [OF m] unfolding same by fastforce
  next
    fix i i' b b'
    assume a: "lf_out L' i = Some b \<and> work_message b \<and> lf_out L' i' = Some b' \<and> work_message b' \<and>
      ol_attempt b = ol_attempt b'"
    obtain c where c: "lf_out L i = Some c" "work_message c" "ol_attempt c = ol_attempt b"
      using old [of i b] a by blast
    obtain c' where c': "lf_out L i' = Some c'" "work_message c'" "ol_attempt c' = ol_attempt b'"
      using old [of i' b'] a by blast
    show "i = i'"
      using linked_message_unique [OF m c(1,2) c'(1,2)] c(3) c'(3) a by simp
  next
    fix i b assume "lf_out L' i = Some b \<and> ol_owned b"
    then show "ol_status b = O_leased"
      using f linked_message_owned [OF m] unfolding out by (auto split: if_splits)
  qed
  moreover have "attempts_linked L'"
    using inv unfolding linked_def attempts_linked_def same by (elim conjE) (intro conjI; assumption)
  moreover have "verifications_linked L'"
    using inv unfolding linked_def verifications_linked_def same by (elim conjE) (intro conjI; assumption)
  ultimately show ?thesis by (simp add: linked_def)
qed

section \<open>Leasing a job\<close>

lemma lease_linked:
  assumes inv: "linked L"
    and job: "lf_job L j = Some x" "jl_active x = None" "jl_status x \<noteq> J_active"
    and fresh: "lf_att L a = None" "lf_out L oid = None"
    and jobs: "\<And>i. lf_job L' i = (if i = j
        then Some (x\<lparr>jl_status := J_active, jl_owned := True, jl_active := Some a, jl_count := n\<rparr>) else lf_job L i)"
    and atts: "\<And>i. lf_att L' i = (if i = a
        then Some \<lparr>al_run = jl_run x, al_job = Some j, al_ordinal = n, al_status = A_starting\<rparr> else lf_att L i)"
    and out: "\<And>i. lf_out L' i = (if i = oid
        then Some \<lparr>ol_job = j, ol_attempt = a, ol_kind = EK_start, ol_status = O_pending, ol_owned = False\<rparr>
        else lf_out L i)"
    and ver: "\<And>i. lf_ver L' i = lf_ver L i"
  shows "linked L'"
proof -
  have al: "attempts_linked L" and ml: "messages_linked L" and vl: "verifications_linked L"
    using inv by (simp_all add: linked_def)
  have na: "jl_active z \<noteq> Some a" if "lf_job L i = Some z" for i z
    using linked_attempt [OF al that] fresh by auto
  have no: "ol_attempt b \<noteq> a" if "lf_out L i = Some b" "work_message b" for i b
    using linked_message [OF ml that] fresh by auto
  have "attempts_linked L'"
    unfolding attempts_linked_def
  proof (intro conjI allI impI)
    fix i z assume "lf_job L' i = Some z"
    then show "(jl_status z = J_active) = (jl_active z \<noteq> None)"
      using linked_active_iff [OF al] by (auto simp: jobs split: if_splits)
  next
    fix i z b assume "lf_job L' i = Some z \<and> jl_active z = Some b"
    then show "\<exists>y. lf_att L' b = Some y \<and> live (al_status y) \<and> al_job y = Some i \<and>
        al_run y = jl_run z \<and> al_ordinal y = jl_count z"
      using linked_attempt [OF al] na by (auto simp: jobs atts split: if_splits)
  next
    fix b y assume b: "lf_att L' b = Some y \<and> live (al_status y)"
    show "\<exists>i z. al_job y = Some i \<and> lf_job L' i = Some z \<and> jl_active z = Some b"
    proof (cases "b = a")
      case False
      then obtain i z where z: "al_job y = Some i" "lf_job L i = Some z" "jl_active z = Some b"
        using linked_live [OF al, of b y] b by (auto simp: atts)
      then have "i \<noteq> j" using job by auto
      with z show ?thesis by (auto simp: jobs)
    qed (use b in \<open>auto simp: atts jobs\<close>)
  next
    fix i z assume "lf_job L' i = Some z \<and> jl_owned z"
    then show "jl_status z = J_active"
      using linked_owned [OF al] by (auto simp: jobs split: if_splits)
  qed
  moreover have "messages_linked L'"
    unfolding messages_linked_def
  proof (intro conjI allI impI)
    fix i b assume b: "lf_out L' i = Some b \<and> work_message b"
    show "\<exists>z y. lf_job L' (ol_job b) = Some z \<and> jl_active z = Some (ol_attempt b) \<and>
        lf_att L' (ol_attempt b) = Some y \<and> al_status y = work_status (ol_kind b)"
    proof (cases "i = oid")
      case False
      then have o: "lf_out L i = Some b" "work_message b" using b by (auto simp: out)
      then obtain z y where "lf_job L (ol_job b) = Some z" "jl_active z = Some (ol_attempt b)"
        "lf_att L (ol_attempt b) = Some y" "al_status y = work_status (ol_kind b)"
        using linked_message [OF ml] by blast
      with no [OF o] job show ?thesis by (auto simp: jobs atts)
    qed (use b in \<open>auto simp: out jobs atts work_status_def\<close>)
  next
    fix i i' b b'
    assume "lf_out L' i = Some b \<and> work_message b \<and> lf_out L' i' = Some b' \<and> work_message b' \<and>
      ol_attempt b = ol_attempt b'"
    then show "i = i'"
      using no [of i b] no [of i' b'] linked_message_unique [OF ml, of i b i' b']
      by (auto simp: out split: if_splits)
  next
    fix i b assume "lf_out L' i = Some b \<and> ol_owned b"
    then show "ol_status b = O_leased"
      using linked_message_owned [OF ml] by (auto simp: out split: if_splits)
  qed
  moreover have "verifications_linked L'"
    unfolding verifications_linked_def
  proof (intro conjI allI impI)
    fix v w assume "lf_ver L' v = Some w \<and> vl_status w = V_requested"
    then show "\<exists>y. lf_att L' (vl_attempt w) = Some y \<and> al_status y = A_verifying \<and> al_job y = Some (vl_job w)"
      using linked_verification [OF vl, of v w] fresh by (auto simp: ver atts)
  next
    fix v v' w w'
    assume "lf_ver L' v = Some w \<and> vl_status w = V_requested \<and> lf_ver L' v' = Some w' \<and>
      vl_status w' = V_requested \<and> vl_attempt w = vl_attempt w'"
    then show "v = v'"
      using linked_verification_unique [OF vl, of v w v' w'] by (simp add: ver)
  qed
  ultimately show ?thesis by (simp add: linked_def)
qed

section \<open>Changing the status of a live attempt\<close>

text \<open>
  A live attempt stays live with another status; \<open>k\<close> and \<open>v0\<close> are the only message and the
  only open verification it may have afterwards.
\<close>

lemma status_change_linked:
  assumes inv: "linked L"
    and att: "lf_att L a = Some y" "live (al_status y)" "live s"
    and jobs: "\<And>i. lf_job L' i = lf_job L i"
    and atts: "\<And>i. lf_att L' i = (if i = a then Some (al_close s y) else lf_att L i)"
    and out: "\<And>i b. lf_out L' i = Some b \<Longrightarrow> work_message b \<Longrightarrow>
        lf_out L i = Some b \<and> ol_attempt b \<noteq> a \<or>
        ol_attempt b = a \<and> al_job y = Some (ol_job b) \<and> s = work_status (ol_kind b) \<and> i = k"
    and owned: "\<And>i b. lf_out L' i = Some b \<Longrightarrow> ol_owned b \<Longrightarrow> ol_status b = O_leased"
    and ver: "\<And>v w. lf_ver L' v = Some w \<Longrightarrow> vl_status w = V_requested \<Longrightarrow>
        lf_ver L v = Some w \<and> vl_attempt w \<noteq> a \<or>
        vl_attempt w = a \<and> al_job y = Some (vl_job w) \<and> s = A_verifying \<and> v = v0"
  shows "linked L'"
proof -
  have al: "attempts_linked L" and ml: "messages_linked L" and vl: "verifications_linked L"
    using inv by (simp_all add: linked_def)
  have "attempts_linked L'"
    unfolding attempts_linked_def jobs
  proof (intro conjI allI impI)
    fix i z assume "lf_job L i = Some z"
    then show "(jl_status z = J_active) = (jl_active z \<noteq> None)" by (rule linked_active_iff [OF al])
  next
    fix i z b assume z: "lf_job L i = Some z \<and> jl_active z = Some b"
    then show "\<exists>y. lf_att L' b = Some y \<and> live (al_status y) \<and> al_job y = Some i \<and>
        al_run y = jl_run z \<and> al_ordinal y = jl_count z"
      using linked_attempt [OF al, of i z b] att by (auto simp: atts)
  next
    fix b y' assume b: "lf_att L' b = Some y' \<and> live (al_status y')"
    show "\<exists>i z. al_job y' = Some i \<and> lf_job L i = Some z \<and> jl_active z = Some b"
      using b linked_live [OF al, of b y'] linked_live [OF al att(1,2)]
      by (cases "b = a") (auto simp: atts)
  next
    fix i z assume "lf_job L i = Some z \<and> jl_owned z"
    then show "jl_status z = J_active" using linked_owned [OF al] by blast
  qed
  moreover have "messages_linked L'"
    unfolding messages_linked_def jobs
  proof (intro conjI allI impI)
    fix i b assume b: "lf_out L' i = Some b \<and> work_message b"
    show "\<exists>z y. lf_job L (ol_job b) = Some z \<and> jl_active z = Some (ol_attempt b) \<and>
        lf_att L' (ol_attempt b) = Some y \<and> al_status y = work_status (ol_kind b)"
    proof (cases "ol_attempt b = a")
      case True
      then have "al_job y = Some (ol_job b)" "s = work_status (ol_kind b)"
        using out [of i b] b by auto
      with linked_live [OF al att(1,2)] True show ?thesis by (auto simp: atts)
    next
      case False
      then have "lf_out L i = Some b" using out [of i b] b by blast
      from linked_message [OF ml this] b False show ?thesis by (auto simp: atts)
    qed
  next
    fix i i' b b'
    assume a': "lf_out L' i = Some b \<and> work_message b \<and> lf_out L' i' = Some b' \<and> work_message b' \<and>
      ol_attempt b = ol_attempt b'"
    show "i = i'"
    proof (cases "ol_attempt b = a")
      case True
      then show ?thesis using out [of i b] out [of i' b'] a' by auto
    next
      case False
      then have "lf_out L i = Some b" "lf_out L i' = Some b'"
        using out [of i b] out [of i' b'] a' by auto
      with a' show ?thesis using linked_message_unique [OF ml, of i b i' b'] by blast
    qed
  qed (use owned in blast)
  moreover have "verifications_linked L'"
    unfolding verifications_linked_def
  proof (intro conjI allI impI)
    fix v w assume w: "lf_ver L' v = Some w \<and> vl_status w = V_requested"
    show "\<exists>y. lf_att L' (vl_attempt w) = Some y \<and> al_status y = A_verifying \<and> al_job y = Some (vl_job w)"
    proof (cases "vl_attempt w = a")
      case True
      then show ?thesis using ver [of v w] w by (auto simp: atts)
    next
      case False
      then have "lf_ver L v = Some w" using ver [of v w] w by blast
      from linked_verification [OF vl this] w False show ?thesis by (auto simp: atts)
    qed
  next
    fix v v' w w'
    assume a': "lf_ver L' v = Some w \<and> vl_status w = V_requested \<and> lf_ver L' v' = Some w' \<and>
      vl_status w' = V_requested \<and> vl_attempt w = vl_attempt w'"
    show "v = v'"
    proof (cases "vl_attempt w = a")
      case True
      then show ?thesis using ver [of v w] ver [of v' w'] a' by auto
    next
      case False
      then have "lf_ver L v = Some w" "lf_ver L v' = Some w'"
        using ver [of v w] ver [of v' w'] a' by auto
      with a' show ?thesis using linked_verification_unique [OF vl, of v w v' w'] by blast
    qed
  qed
  ultimately show ?thesis by (simp add: linked_def)
qed

section \<open>Changing the status of jobs that are not active\<close>

lemma job_change_linked:
  assumes inv: "linked L"
    and jobs: "\<And>i. lf_job L' i = (if P i then map_option f (lf_job L i) else lf_job L i)"
    and f: "\<And>i x. lf_job L i = Some x \<Longrightarrow> P i \<Longrightarrow> jl_active (f x) = jl_active x \<and> jl_run (f x) = jl_run x \<and>
        jl_count (f x) = jl_count x \<and> (jl_status (f x) = J_active \<longleftrightarrow> jl_status x = J_active) \<and>
        (jl_owned (f x) \<longrightarrow> jl_owned x \<or> jl_status x = J_active)"
    and same: "\<And>i. lf_att L' i = lf_att L i" "\<And>i. lf_out L' i = lf_out L i" "\<And>i. lf_ver L' i = lf_ver L i"
  shows "linked L'"
proof -
  have al: "attempts_linked L" and ml: "messages_linked L" and vl: "verifications_linked L"
    using inv by (simp_all add: linked_def)
  have old: "\<exists>y. lf_job L i = Some y \<and> jl_active x = jl_active y \<and> jl_run x = jl_run y \<and>
      jl_count x = jl_count y \<and> (jl_status x = J_active \<longleftrightarrow> jl_status y = J_active) \<and>
      (jl_owned x \<longrightarrow> jl_owned y \<or> jl_status y = J_active)" if "lf_job L' i = Some x" for i x
    using that f [of i] unfolding jobs by (auto split: if_splits)
  have new: "\<exists>y. lf_job L' i = Some y \<and> jl_active y = jl_active x" if "lf_job L i = Some x" for i x
    using that f [of i x] unfolding jobs by auto
  have "attempts_linked L'"
    unfolding attempts_linked_def same
  proof (intro conjI allI impI)
    fix i z assume z: "lf_job L' i = Some z"
    obtain x where x: "lf_job L i = Some x" "jl_active z = jl_active x"
      "jl_status z = J_active \<longleftrightarrow> jl_status x = J_active" using old [OF z] by blast
    show "(jl_status z = J_active) = (jl_active z \<noteq> None)"
      using linked_active_iff [OF al x(1)] x(2,3) by simp
  next
    fix i z b assume z: "lf_job L' i = Some z \<and> jl_active z = Some b"
    then obtain x where x: "lf_job L i = Some x" "jl_active z = jl_active x" "jl_run z = jl_run x"
      "jl_count z = jl_count x" using old by blast
    show "\<exists>y. lf_att L b = Some y \<and> live (al_status y) \<and> al_job y = Some i \<and>
        al_run y = jl_run z \<and> al_ordinal y = jl_count z"
      using linked_attempt [OF al x(1), of b] x(2-4) z by simp
  next
    fix b y assume b: "lf_att L b = Some y \<and> live (al_status y)"
    then obtain i x where x: "al_job y = Some i" "lf_job L i = Some x" "jl_active x = Some b"
      using linked_live [OF al, of b y] by blast
    show "\<exists>i z. al_job y = Some i \<and> lf_job L' i = Some z \<and> jl_active z = Some b"
      using new [OF x(2)] x by auto
  next
    fix i z assume z: "lf_job L' i = Some z \<and> jl_owned z"
    then obtain x where x: "lf_job L i = Some x" "jl_owned x \<or> jl_status x = J_active"
      "jl_status z = J_active \<longleftrightarrow> jl_status x = J_active" using old by blast
    show "jl_status z = J_active" using linked_owned [OF al x(1)] x(2,3) by blast
  qed
  moreover have "messages_linked L'"
    unfolding messages_linked_def same
  proof (intro conjI allI impI)
    fix i b assume b: "lf_out L i = Some b \<and> work_message b"
    then obtain x y where x: "lf_job L (ol_job b) = Some x" "jl_active x = Some (ol_attempt b)"
      "lf_att L (ol_attempt b) = Some y" "al_status y = work_status (ol_kind b)"
      using linked_message [OF ml, of i b] by blast
    show "\<exists>z y. lf_job L' (ol_job b) = Some z \<and> jl_active z = Some (ol_attempt b) \<and>
        lf_att L (ol_attempt b) = Some y \<and> al_status y = work_status (ol_kind b)"
      using new [OF x(1)] x by auto
  next
    fix i i' b b'
    assume "lf_out L i = Some b \<and> work_message b \<and> lf_out L i' = Some b' \<and> work_message b' \<and>
      ol_attempt b = ol_attempt b'"
    then show "i = i'" using linked_message_unique [OF ml, of i b i' b'] by blast
  next
    fix i b assume "lf_out L i = Some b \<and> ol_owned b"
    then show "ol_status b = O_leased" using linked_message_owned [OF ml] by blast
  qed
  moreover have "verifications_linked L'"
    using vl unfolding verifications_linked_def same .
  ultimately show ?thesis by (simp add: linked_def)
qed

text \<open>The links do not mention runs.\<close>

lemma linked_cong:
  assumes "linked L" "\<And>i. lf_job L' i = lf_job L i" "\<And>i. lf_att L' i = lf_att L i"
    "\<And>i. lf_out L' i = lf_out L i" "\<And>i. lf_ver L' i = lf_ver L i"
  shows "linked L'"
  by (rule job_change_linked [OF assms(1), where P = "\<lambda>_. False"]) (simp_all add: assms)

lemma new_jobs_linked:
  assumes inv: "linked L"
    and jobs: "\<And>i. lf_job L' i = (case N i of None \<Rightarrow> lf_job L i | Some x \<Rightarrow> Some x)"
    and fresh: "\<And>i x. N i = Some x \<Longrightarrow> lf_job L i = None \<and> jl_active x = None \<and>
       jl_status x \<noteq> J_active \<and> \<not> jl_owned x"
    and same: "\<And>i. lf_att L' i = lf_att L i" "\<And>i. lf_out L' i = lf_out L i" "\<And>i. lf_ver L' i = lf_ver L i"
  shows "linked L'"
proof -
  have al: "attempts_linked L" and ml: "messages_linked L" and vl: "verifications_linked L"
    using inv by (simp_all add: linked_def)
  have keep: "lf_job L' i = Some x" if "lf_job L i = Some x" for i x
    using that fresh [of i] by (auto simp: jobs split: option.splits)
  have old: "lf_job L i = Some x" if "lf_job L' i = Some x" "jl_active x \<noteq> None \<or> jl_status x = J_active \<or> jl_owned x" for i x
    using that fresh [of i x] by (auto simp: jobs split: option.splits)
  have "attempts_linked L'"
    unfolding attempts_linked_def same
  proof (intro conjI allI impI)
    fix i z assume z: "lf_job L' i = Some z"
    show "(jl_status z = J_active) = (jl_active z \<noteq> None)"
      using old [OF z] linked_active_iff [OF al, of i z] by blast
  next
    fix i z b assume z: "lf_job L' i = Some z \<and> jl_active z = Some b"
    then have "lf_job L i = Some z" using old [of i z] by simp
    with z show "\<exists>y. lf_att L b = Some y \<and> live (al_status y) \<and> al_job y = Some i \<and>
        al_run y = jl_run z \<and> al_ordinal y = jl_count z"
      using linked_attempt [OF al, of i z b] by blast
  next
    fix b y assume b: "lf_att L b = Some y \<and> live (al_status y)"
    then show "\<exists>i z. al_job y = Some i \<and> lf_job L' i = Some z \<and> jl_active z = Some b"
      using linked_live [OF al, of b y] keep by blast
  next
    fix i z assume z: "lf_job L' i = Some z \<and> jl_owned z"
    then show "jl_status z = J_active" using old [of i z] linked_owned [OF al, of i z] by blast
  qed
  moreover have "messages_linked L'"
    unfolding messages_linked_def same
  proof (intro conjI allI impI)
    fix i b assume b: "lf_out L i = Some b \<and> work_message b"
    then show "\<exists>z y. lf_job L' (ol_job b) = Some z \<and> jl_active z = Some (ol_attempt b) \<and>
        lf_att L (ol_attempt b) = Some y \<and> al_status y = work_status (ol_kind b)"
      using linked_message [OF ml, of i b] keep by blast
  next
    fix i i' b b'
    assume "lf_out L i = Some b \<and> work_message b \<and> lf_out L i' = Some b' \<and> work_message b' \<and>
      ol_attempt b = ol_attempt b'"
    then show "i = i'" using linked_message_unique [OF ml, of i b i' b'] by blast
  next
    fix i b assume "lf_out L i = Some b \<and> ol_owned b"
    then show "ol_status b = O_leased" using linked_message_owned [OF ml] by blast
  qed
  moreover have "verifications_linked L'"
    using vl unfolding verifications_linked_def same .
  ultimately show ?thesis by (simp add: linked_def)
qed

section \<open>Bounds, runs and dependencies under a change of jobs\<close>

text \<open>
  How a job may change for the other invariants: \<open>c x x'\<close> relates a job before and after.
\<close>

definition job_change :: "JobLife \<Rightarrow> JobLife \<Rightarrow> bool" where
  "job_change x x' \<longleftrightarrow> jl_run x' = jl_run x \<and> jl_deps x' = jl_deps x \<and> jl_max x' = jl_max x \<and>
     jl_checked x' = jl_checked x \<and>
     (jl_status x = J_succeeded \<longrightarrow> jl_status x' = J_succeeded) \<and>
     (jl_status x' \<in> {J_blocked, J_cancelled} \<or> jl_status x \<notin> {J_blocked, J_cancelled}) \<and>
     (jl_status x' = J_blocked \<longrightarrow> jl_status x = J_blocked)"

lemma job_change_refl: "job_change x x"
  by (auto simp: job_change_def)

lemma dependencies_change:
  assumes inv: "dependencies_respected L"
    and jobs: "\<And>j x'. lf_job L' j = Some x' \<Longrightarrow> \<exists>x. lf_job L j = Some x \<and> job_change x x'"
    and total: "\<And>j x. lf_job L j = Some x \<Longrightarrow> lf_job L' j \<noteq> None"
  shows "dependencies_respected L'"
  unfolding dependencies_respected_def
proof (intro allI impI)
  fix j x' d assume a: "lf_job L' j = Some x' \<and> d \<in> set (jl_deps x')"
  then obtain x where x: "lf_job L j = Some x" "job_change x x'" using jobs by blast
  then have "d \<in> set (jl_deps x)" using a by (simp add: job_change_def)
  then obtain y where y: "lf_job L d = Some y" "jl_run y = jl_run x"
    "jl_status x \<notin> {J_blocked, J_cancelled} \<Longrightarrow> jl_status y = J_succeeded"
    using inv x(1) unfolding dependencies_respected_def by blast
  obtain y' where y': "lf_job L' d = Some y'" using total [OF y(1)] by blast
  then have "job_change y y'" using jobs [OF y'] y(1) by auto
  with x(2) y y' show "\<exists>y'. lf_job L' d = Some y' \<and> jl_run y' = jl_run x' \<and>
      (jl_status x' \<notin> {J_blocked, J_cancelled} \<longrightarrow> jl_status y' = J_succeeded)"
    by (auto simp: job_change_def)
qed

text \<open>Nothing gets stuck by a change after which the same jobs have not succeeded.\<close>

lemma job_deps_change:
  assumes "\<And>j x'. lf_job L' j = Some x' \<Longrightarrow> \<exists>x. lf_job L j = Some x \<and> jl_deps x' = jl_deps x"
    and "acyclic (job_deps L)"
  shows "acyclic (job_deps L')"
proof (rule acyclic_subset [OF assms(2)])
  show "job_deps L' \<subseteq> job_deps L" using assms(1) by (fastforce simp: job_deps_def)
qed

lemma progressing_change:
  assumes inv: "progressing L"
    and jobs: "\<And>j x'. lf_job L' j = Some x' \<Longrightarrow> \<exists>x. lf_job L j = Some x \<and> job_change x x'"
    and total: "\<And>j x. lf_job L j = Some x \<Longrightarrow> lf_job L' j \<noteq> None"
    and wait: "\<And>j. waiting L j \<Longrightarrow> waiting L' j"
    and runs: "\<And>i. open_run (lf_run L' i) \<Longrightarrow> open_run (lf_run L i)"
  shows "progressing L'"
  unfolding progressing_def
proof (intro conjI allI impI)
  show "acyclic (job_deps L')"
    using jobs inv by (intro job_deps_change [of L' L]) (fastforce simp: job_change_def progressing_def)+
next
  fix j x' assume a: "lf_job L' j = Some x' \<and> jl_status x' = J_blocked"
  then obtain x where x: "lf_job L j = Some x" "job_change x x'" using jobs by blast
  then show "\<exists>d\<in>set (jl_deps x'). waiting L' d"
    using a progressing_blocked [OF inv x(1)] wait by (auto simp: job_change_def)
next
  fix i assume "open_run (lf_run L' i)"
  then obtain j x where x: "lf_job L j = Some x" "jl_run x = i" "waiting L j"
    using progressing_run [OF inv] runs by blast
  obtain x' where x': "lf_job L' j = Some x'" using total [OF x(1)] by blast
  moreover have "jl_run x' = i" using jobs [OF x'] x by (auto simp: job_change_def)
  ultimately show "\<exists>j x. lf_job L' j = Some x \<and> jl_run x = i \<and> waiting L' j" using x wait by blast
qed

end
