(* ===== verification/LifeCommands.thy ===== *)
theory LifeCommands
  imports LifeChanges
begin

text \<open>
  Every accepted command keeps the lifecycle invariant \<^const>\<open>life_ok\<close>: one lemma per group of
  branches of \<open>decide\<close>, and the theorem for \<open>decide\<close> as a whole.
\<close>

section \<open>Parts of the invariant\<close>

lemma life_okD:
  assumes "life_ok L"
  shows "linked L" "attempts_linked L" "messages_linked L" "verifications_linked L"
    "attempts_bounded L" "runs_respected L" "dependencies_respected L" "progressing L"
  using assms by (simp_all add: life_ok_def linked_def)

lemma life_ok_cong:
  assumes "life_ok L" "\<And>i. lf_run L' i = lf_run L i" "\<And>i. lf_job L' i = lf_job L i"
    and "linked L'"
  shows "life_ok L'"
  using assms(1,4)
  unfolding life_ok_def attempts_bounded_def runs_respected_def dependencies_respected_def
    progressing_def job_deps_def waiting_def assms(2,3)
  by (elim conjE) (intro conjI; assumption)

lemma bounded_job:
  "attempts_bounded L \<Longrightarrow> lf_job L j = Some x \<Longrightarrow> jl_count x \<le> jl_max x \<and>
     (jl_status x \<in> {J_blocked, J_ready, J_retry_wait} \<longrightarrow> jl_count x < jl_max x)"
  unfolding attempts_bounded_def by blast

lemma run_of_job:
  "runs_respected L \<Longrightarrow> lf_job L j = Some x \<Longrightarrow> \<exists>r. lf_run L (jl_run x) = Some r \<and> r \<noteq> R_created \<and>
        (terminal_run r \<longrightarrow> terminal_job (jl_status x)) \<and>
        (r = R_succeeded \<longrightarrow> jl_status x = J_succeeded) \<and> (jl_active x \<noteq> None \<longrightarrow> r = R_running) \<and>
        (jl_status x \<in> {J_failed, J_cancelled} \<longrightarrow> r \<in> {R_failed, R_cancelled})"
  unfolding runs_respected_def by blast

text \<open>Changing jobs and runs together.\<close>

lemma life_ok_change:
  assumes inv: "life_ok L" and link: "linked L'"
    and jobs: "\<And>j x'. lf_job L' j = Some x' \<Longrightarrow> \<exists>x. lf_job L j = Some x \<and> job_change x x' \<and>
        (jl_count x' = jl_count x \<and> (jl_status x' \<in> {J_blocked, J_ready, J_retry_wait} \<longrightarrow> jl_count x' < jl_max x'))"
    and total: "\<And>j x. lf_job L j = Some x \<Longrightarrow> lf_job L' j \<noteq> None"
    and runs: "\<And>j x'. lf_job L' j = Some x' \<Longrightarrow> \<exists>r. lf_run L' (jl_run x') = Some r \<and> r \<noteq> R_created \<and>
        (terminal_run r \<longrightarrow> terminal_job (jl_status x')) \<and>
        (r = R_succeeded \<longrightarrow> jl_status x' = J_succeeded) \<and> (jl_active x' \<noteq> None \<longrightarrow> r = R_running) \<and>
        (jl_status x' \<in> {J_failed, J_cancelled} \<longrightarrow> r \<in> {R_failed, R_cancelled})"
    and wait: "\<And>j. waiting L j \<Longrightarrow> waiting L' j"
    and open_runs: "\<And>i. open_run (lf_run L' i) \<Longrightarrow> open_run (lf_run L i)"
  shows "life_ok L'"
  unfolding life_ok_def
proof (intro conjI)
  show "linked L'" by (rule link)
  show "attempts_bounded L'"
    unfolding attempts_bounded_def
  proof (intro allI impI)
    fix j x' assume "lf_job L' j = Some x'"
    then obtain x where x: "lf_job L j = Some x" "job_change x x'" "jl_count x' = jl_count x"
      "jl_status x' \<in> {J_blocked, J_ready, J_retry_wait} \<longrightarrow> jl_count x' < jl_max x'" using jobs by blast
    with bounded_job [OF life_okD(5) [OF inv] x(1)]
    show "jl_count x' \<le> jl_max x' \<and>
        (jl_status x' \<in> {J_blocked, J_ready, J_retry_wait} \<longrightarrow> jl_count x' < jl_max x')"
      by (auto simp: job_change_def)
  qed
  show "runs_respected L'" unfolding runs_respected_def using runs by blast
  show "dependencies_respected L'"
    using dependencies_change [OF life_okD(7) [OF inv]] jobs total by blast
  show "progressing L'"
    by (rule progressing_change [OF life_okD(8) [OF inv]])
       (use jobs total wait open_runs in \<open>blast+\<close>)
qed

section \<open>Failing a job\<close>

lemma main_teardown_job:
  "main_teardown st K jid s aid t Om Vm evs \<Longrightarrow> job_view evs i x =
     (if \<exists>k\<in>set K. job_jobId k = i then map_option (jl_close J_cancelled) x
      else if i = jid then map_option (jl_close s) x else x)"
  by (simp add: main_teardown_def)

text \<open>
  The job \<open>job\<close> of the run fails: for good, with its siblings and its run (\<open>final\<close>), or to be
  retried.
\<close>

lemma failure_life_ok:
  assumes wk: "well_keyed st" and inv: "life_ok (life st)"
    and job: "mget (jobs st) jid = Some job" "job_activeAttemptId job = Some aid"
    and retry: "\<not> final \<Longrightarrow> job_attemptCount job < jp_maxAttempts (job_policy job)"
    and t: "\<not> live t"
    and Om: "\<And>i. out_closed st ((=) aid) i \<Longrightarrow> Om i \<noteq> None" "\<And>i u. Om i = Some u \<Longrightarrow> \<not> undelivered u"
    and Vm: "\<And>v. ver_closed st ((=) aid) v \<Longrightarrow> Vm v \<noteq> None" "\<And>v. Vm v \<noteq> Some V_requested"
    and evs: "main_teardown st (if final then otherLiveJobs st job else []) jid
        (if final then J_failed else J_retry_wait) aid t Om Vm evs" "views_of evs (life st) L'"
    and run: "\<And>i r. run_view evs i r =
        (if final \<and> i = job_runId job then map_option (\<lambda>_. R_failed) r else r)"
  shows "life_ok L'"
proof (rule life_ok_change [OF inv])
  let ?K = "if final then otherLiveJobs st job else []"
  have jid: "job_jobId job = jid" using keyed_sel(1) [OF wk job(1)] .
  have K: "mget (jobs st) (job_jobId k) = Some k \<and> job_runId k = job_runId job \<and>
      job_jobId k \<noteq> jid \<and> \<not> terminal_job (job_status k)" if "k \<in> set ?K" for k
    using that jid by (auto simp: otherLiveJobs_mem [OF wk] split: if_splits)
  have L': "lf_job L' i = (if \<exists>k\<in>set ?K. job_jobId k = i then map_option (jl_close J_cancelled) (lf_job (life st) i)
         else if i = jid then map_option (jl_close (if final then J_failed else J_retry_wait)) (lf_job (life st) i)
         else lf_job (life st) i)" for i
    using evs(2) unfolding views_of_def main_teardown_job [OF evs(1)] by blast
  have R': "lf_run L' i = (if final \<and> i = job_runId job then map_option (\<lambda>_. R_failed) (lf_run (life st) i)
      else lf_run (life st) i)" for i
    using evs(2) unfolding views_of_def run by blast
  have act: "job_status job = J_active"
    using active_attempt_linked [OF life_okD(2) [OF inv] job] .
  have j0: "lf_job (life st) jid = Some (job_life job)" using job(1) by (simp add: life_sel)
  show "linked L'"
    by (rule main_teardown_linked [OF wk life_okD(1) [OF inv] job _ _ t Om Vm evs]) (use K in auto)
  show "\<exists>x. lf_job (life st) j = Some x \<and> job_change x x' \<and> jl_count x' = jl_count x \<and>
      (jl_status x' \<in> {J_blocked, J_ready, J_retry_wait} \<longrightarrow> jl_count x' < jl_max x')"
    if x': "lf_job L' j = Some x'" for j x'
  proof (cases "\<exists>k\<in>set ?K. job_jobId k = j")
    case True
    then obtain k where k: "k \<in> set ?K" "job_jobId k = j" by blast
    then have l: "lf_job (life st) j = Some (job_life k)" using K [OF k(1)] by (simp add: life_sel)
    then have "x' = jl_close J_cancelled (job_life k)" using x' True by (simp add: L')
    with l K [OF k(1)] show ?thesis by (auto simp: job_change_def terminal_job_def)
  next
    case False
    note nK = this
    show ?thesis
    proof (cases "j = jid")
      case True
      then have "x' = jl_close (if final then J_failed else J_retry_wait) (job_life job)"
        using x' nK j0 True by (auto simp: L' split: if_split_asm)
      with True j0 act retry show ?thesis by (auto simp: job_change_def)
    next
      case False
      then have "lf_job (life st) j = Some x'" using x' nK by (auto simp: L' split: if_split_asm)
      with bounded_job [OF life_okD(5) [OF inv] this] show ?thesis using job_change_refl by blast
    qed
  qed
  show "lf_job L' j \<noteq> None" if "lf_job (life st) j = Some x" for j x
    using that by (auto simp: L')
  show "waiting L' j" if "waiting (life st) j" for j
    using that by (auto simp: waiting_def L')
  show "open_run (lf_run (life st) i)" if "open_run (lf_run L' i)" for i
    using that by (auto simp: R' open_run_def split: if_split_asm)
  show "\<exists>r. lf_run L' (jl_run x') = Some r \<and> r \<noteq> R_created \<and>
        (terminal_run r \<longrightarrow> terminal_job (jl_status x')) \<and>
        (r = R_succeeded \<longrightarrow> jl_status x' = J_succeeded) \<and> (jl_active x' \<noteq> None \<longrightarrow> r = R_running) \<and>
        (jl_status x' \<in> {J_failed, J_cancelled} \<longrightarrow> r \<in> {R_failed, R_cancelled})"
    if x': "lf_job L' j = Some x'" for j x'
  proof -
    obtain x where x: "lf_job (life st) j = Some x" "jl_run x' = jl_run x"
      using x' unfolding L' by (auto split: if_split_asm)
    obtain r where r: "lf_run (life st) (jl_run x) = Some r" "r \<noteq> R_created"
      "terminal_run r \<longrightarrow> terminal_job (jl_status x)" "r = R_succeeded \<longrightarrow> jl_status x = J_succeeded"
      "jl_active x \<noteq> None \<longrightarrow> r = R_running"
      "jl_status x \<in> {J_failed, J_cancelled} \<longrightarrow> r \<in> {R_failed, R_cancelled}"
      using run_of_job [OF life_okD(6) [OF inv] x(1)] by blast
    show ?thesis
    proof (cases "final \<and> jl_run x = job_runId job")
      case True
      have "terminal_job (jl_status x') \<and> jl_active x' = None"
      proof (cases "(\<exists>k\<in>set ?K. job_jobId k = j) \<or> j = jid")
        case cl: True
        then show ?thesis using x' True unfolding L' by (auto simp: terminal_job_def split: if_split_asm)
      next
        case False
        then have xx: "x' = x" using x' x(1) unfolding L' by (auto split: if_split_asm)
        obtain k where k: "mget (jobs st) j = Some k" "x = job_life k"
          using x(1) by (auto simp: life_sel)
        have kj: "job_jobId k = j" using keyed_sel(1) [OF wk k(1)] .
        have "terminal_job (job_status k)"
          using False True k kj jid by (auto simp: otherLiveJobs_mem [OF wk])
        moreover have "job_activeAttemptId k = None"
          using calculation linked_active_iff [OF life_okD(2) [OF inv] x(1)] k(2)
          by (auto simp: terminal_job_def)
        ultimately show ?thesis using xx k(2) by simp
      qed
      with True r(1) show ?thesis by (simp add: R' x(2) terminal_run_def)
    next
      case False
      then have rr: "lf_run L' (jl_run x') = Some r" using r(1) x(2) by (auto simp: R')
      show ?thesis
      proof (cases "lf_job (life st) j = Some x'")
        case True
        then show ?thesis using rr r x(1) by auto
      next
        case ch: False
        have nf: "\<not> final"
        proof
          assume "final"
          then have "jl_run x \<noteq> job_runId job" using False by blast
          moreover have "jl_run x = job_runId job"
          proof (cases "\<exists>k\<in>set ?K. job_jobId k = j")
            case True
            then obtain k where k: "k \<in> set ?K" "job_jobId k = j" by blast
            then show ?thesis using K [OF k(1)] x(1) by (auto simp: life_sel)
          next
            case False
            then have "j = jid" using ch x' unfolding L' by (auto split: if_split_asm)
            then show ?thesis using j0 x(1) by auto
          qed
          ultimately show False by blast
        qed
        then have "j = jid" using ch x' unfolding L' by (auto split: if_split_asm)
        then have "r = R_running" "x' = jl_close J_retry_wait x"
          using r(5) x(1) j0 job(2) x' nf by (auto simp: L')
        then show ?thesis using rr by (simp add: terminal_run_def)
      qed
    qed
  qed
qed

section \<open>Cancelling a run\<close>

definition legacyCancels :: "ProjectionState \<Rightarrow> uuid \<Rightarrow> string \<Rightarrow> DomainEventInput list" where
  "legacyCancels st rid reason = [event ST_attempt (att_attemptId a)
     (AttemptCancelled (att_attemptId a) rid reason).
   a \<leftarrow> mvalues (attempts st), att_runId a = rid \<and> att_jobId a = None \<and> att_status a = A_allocated]"

definition legacy_attempt :: "ProjectionState \<Rightarrow> uuid \<Rightarrow> uuid \<Rightarrow> bool" where
  "legacy_attempt st rid i \<longleftrightarrow> (\<exists>a. mget (attempts st) i = Some a \<and> att_runId a = rid \<and>
     att_jobId a = None \<and> att_status a = A_allocated)"

lemma legacyCancels_data:
  "e \<in> set (legacyCancels st rid reason) \<Longrightarrow> \<exists>a. a \<in> set (mvalues (attempts st)) \<and> att_runId a = rid \<and>
     att_jobId a = None \<and> att_status a = A_allocated \<and>
     ev_data e = AttemptCancelled (att_attemptId a) rid reason"
  by (auto simp: legacyCancels_def split: if_split_asm)

lemma legacyCancels_views:
  assumes wk: "well_keyed st"
  shows "run_view (legacyCancels st rid reason) i r = r" "job_view (legacyCancels st rid reason) i x = x"
    "out_view (legacyCancels st rid reason) i b = b" "ver_view (legacyCancels st rid reason) i w = w"
    "fresh_cancels st (legacyCancels st rid reason)"
    "att_view (legacyCancels st rid reason) i y =
       (if legacy_attempt st rid i then map_option (al_close A_cancelled) y else y)"
proof -
  let ?es = "legacyCancels st rid reason"
  show "run_view ?es i r = r" "job_view ?es i x = x" "out_view ?es i b = b" "ver_view ?es i w = w"
    unfolding view_defs by (rule fold_quiet; auto dest!: legacyCancels_data)+
  show "fresh_cancels st ?es"
    unfolding fresh_cancels_def by (auto dest!: legacyCancels_data)
  have 1: "attempt_step (ev_data e) i y = (if ev_data e = AttemptCancelled i rid reason
      then map_option (al_close A_cancelled) y else y)" if "e \<in> set ?es" for e y
    using legacyCancels_data [OF that] by (auto simp: al_close_update)
  have 2: "(\<exists>e\<in>set ?es. ev_data e = AttemptCancelled i rid reason) \<longleftrightarrow> legacy_attempt st rid i"
  proof
    assume "\<exists>e\<in>set ?es. ev_data e = AttemptCancelled i rid reason"
    then obtain e where e: "e \<in> set ?es" "ev_data e = AttemptCancelled i rid reason" by blast
    obtain a where "a \<in> set (mvalues (attempts st))" "att_runId a = rid" "att_jobId a = None"
      "att_status a = A_allocated" "att_attemptId a = i"
      using legacyCancels_data [OF e(1)] e(2) by auto
    then show "legacy_attempt st rid i"
      using keyed_vals(2) [OF wk] by (auto simp: legacy_attempt_def)
  next
    assume "legacy_attempt st rid i"
    then obtain a where a: "mget (attempts st) i = Some a" "att_runId a = rid" "att_jobId a = None"
      "att_status a = A_allocated" by (auto simp: legacy_attempt_def)
    have "a \<in> set (mvalues (attempts st))" using mvalues_get [OF a(1)] .
    moreover have "att_attemptId a = i" using keyed_sel(2) [OF wk a(1)] .
    ultimately have "event ST_attempt i (AttemptCancelled i rid reason) \<in> set ?es"
      using a by (auto simp: legacyCancels_def intro!: bexI [of _ a])
    then show "\<exists>e\<in>set ?es. ev_data e = AttemptCancelled i rid reason"
      by (rule bexI [rotated]) simp
  qed
  show "att_view ?es i y = (if legacy_attempt st rid i then map_option (al_close A_cancelled) y else y)"
    unfolding att_view_def
    using fold_touch [of ?es _ "\<lambda>e. ev_data e = AttemptCancelled i rid reason", OF 1] by (simp add: 2)
qed

definition liveJobs :: "ProjectionState \<Rightarrow> uuid \<Rightarrow> JobState list" where
  "liveJobs st rid = filter (\<lambda>j. job_runId j = rid \<and> \<not> terminal_job (job_status j)) (mvalues (jobs st))"

lemma cancellationForRun_Inr:
  assumes "well_keyed st"
  shows "cancellationForRun sha st rid reason = Inr evs \<longleftrightarrow>
     (\<exists>run. mget (runs st) rid = Some run \<and> \<not> terminal_run (run_status run) \<and>
        evs = legacyCancels st rid reason @ cancelJobs sha st TR_operator_cancelled [] (liveJobs st rid) @
          [event ST_run rid (RunCancelled rid reason)])"
  using keyed_sel(3) [OF assms, of rid]
  by (auto simp: cancellationForRun_def legacyCancels_def liveJobs_def split: option.splits)

lemma cancel_life_ok:
  assumes wk: "well_keyed st" and inv: "life_ok (life st)"
    and run: "mget (runs st) rid = Some run"
    and evs: "views_of (legacyCancels st rid reason @ cancelJobs sha st TR_operator_cancelled [] (liveJobs st rid) @
          [event ST_run rid (RunCancelled rid reason)]) (life st) L'"
  shows "life_ok L'"
proof (rule life_ok_change [OF inv])
  let ?K = "liveJobs st rid" and ?L = "life st"
  note v = legacyCancels_views [OF wk] cancelJobs_views [OF wk]
  have K: "k \<in> set ?K \<longleftrightarrow> mget (jobs st) (job_jobId k) = Some k \<and> job_runId k = rid \<and>
      \<not> terminal_job (job_status k)" for k
    using keyed_vals(1) [OF wk] by (auto simp: liveJobs_def)
  have R: "lf_run L' i = (if i = rid then map_option (\<lambda>_. R_cancelled) (lf_run ?L i) else lf_run ?L i)"
    and J: "lf_job L' i = (if \<exists>k\<in>set ?K. job_jobId k = i then map_option (jl_close J_cancelled) (lf_job ?L i)
      else lf_job ?L i)"
    and A: "lf_att L' i = (if closes st ?K i \<or> legacy_attempt st rid i
      then map_option (al_close A_cancelled) (lf_att ?L i) else lf_att ?L i)"
    and V: "lf_ver L' i = (if ver_closed st (closes st ?K) i
      then map_option (vl_status_update (\<lambda>_. V_cancelled)) (lf_ver ?L i) else lf_ver ?L i)" for i
    using evs by (auto simp: views_of_def v)
  have O: "lf_out L' i = Some (if out_closed st (closes st ?K) i then ol_close O_obsolete b else b)"
    if "lf_out ?L i = Some b" for i b
  proof -
    have "mhas (outbox st) i" using that by (auto simp: life_sel mhas_def)
    with evs that show ?thesis by (auto simp: views_of_def v)
  qed
  have Ot: "tidy (lf_out L' i)" if "lf_out ?L i = None" for i
  proof -
    have "tidy (out_view (legacyCancels st rid reason @ cancelJobs sha st TR_operator_cancelled [] ?K @
          [event ST_run rid (RunCancelled rid reason)]) i None)"
      by (rule tidy_view [of st]) (simp_all add: v)
    with evs that show ?thesis by (simp add: views_of_def)
  qed
  have jobK: "lf_job ?L j = Some x \<Longrightarrow> (\<exists>k\<in>set ?K. job_jobId k = j) \<longleftrightarrow> jl_run x = rid \<and> \<not> terminal_job (jl_status x)" for j x
  proof -
    assume "lf_job ?L j = Some x"
    then obtain k where k: "mget (jobs st) j = Some k" "x = job_life k" by (auto simp: life_sel)
    have "job_jobId k = j" using keyed_sel(1) [OF wk k(1)] .
    then show "(\<exists>k\<in>set ?K. job_jobId k = j) \<longleftrightarrow> jl_run x = rid \<and> \<not> terminal_job (jl_status x)"
      using k K by (metis job_life_sel(1,4) option.inject)
  qed
  show "linked L'"
  proof (rule teardown_linked [OF _ _ life_okD(1) [OF inv]])
    let ?ns = "\<lambda>j. if \<exists>k\<in>set ?K. job_jobId k = j then Some J_cancelled else None"
    let ?as = "\<lambda>a. if closes st ?K a \<or> legacy_attempt st rid a then Some A_cancelled else None"
    let ?os = "\<lambda>i. if out_closed st (closes st ?K) i then Some O_obsolete else None"
    let ?vs = "\<lambda>i. if ver_closed st (closes st ?K) i then Some V_cancelled else None"
    show "teardown ?ns ?as ?os ?vs ?L L'"
      unfolding teardown_def by (simp add: J A V O Ot)
    have al: "attempts_linked ?L" and ml: "messages_linked ?L" and vl: "verifications_linked ?L"
      using life_okD [OF inv] by blast+
    have nw: "\<not> (legacy_attempt st rid (out_attemptId b) \<and> undelivered_work (out_attemptId b) b)"
      if "mget (outbox st) i = Some b" for i b
      using linked_message [OF ml, of i "outbox_life b"] that
      by (auto simp: life_sel legacy_attempt_def work_status_def split: EffectKind.splits)
    have nv: "\<not> (legacy_attempt st rid aid \<and> open_request st aid = Some w)" for aid w
    proof
      assume a: "legacy_attempt st rid aid \<and> open_request st aid = Some w"
      then have w: "w \<in> set (mvalues (verifications st))" "ver_attemptId w = aid" "ver_status w = V_requested"
        by (auto simp: open_request_def find_Some_iff)
      then have "mget (verifications st) (ver_verificationId w) = Some w"
        using keyed_vals(4) [OF wk] by blast
      then show False
        using linked_verification [OF vl, of "ver_verificationId w" "verification_life w"] w a
        by (auto simp: life_sel legacy_attempt_def)
    qed
    show "teardown_ok ?ns ?as ?os ?vs ?L"
    proof (rule closing_ok [OF wk life_okD(1) [OF inv], where
          J = "\<lambda>j. \<exists>k\<in>set ?K. job_jobId k = j" and A = "\<lambda>a. closes st ?K a \<or> legacy_attempt st rid a"])
      show "(\<exists>k\<in>set ?K. job_jobId k = j) \<longleftrightarrow> (closes st ?K a \<or> legacy_attempt st rid a)"
        if x: "mget (jobs st) j = Some x" "job_activeAttemptId x = Some a" for j x a
      proof -
        have "\<not> legacy_attempt st rid a"
          using active_attempt_linked [OF al x] by (fastforce simp: legacy_attempt_def)
        with match_list [OF wk al _ x, of ?K] K show ?thesis by blast
      qed
      show "?os i \<noteq> None" if "out_closed st (\<lambda>a. closes st ?K a \<or> legacy_attempt st rid a) i" for i
        using that nw by (auto simp: out_closed_def)
      show "?vs i \<noteq> None" if "ver_closed st (\<lambda>a. closes st ?K a \<or> legacy_attempt st rid a) i" for i
        using that nv by (auto simp: ver_closed_def)
    qed (auto split: if_splits)
  qed
  show "\<exists>x. lf_job ?L j = Some x \<and> job_change x x' \<and> jl_count x' = jl_count x \<and>
      (jl_status x' \<in> {J_blocked, J_ready, J_retry_wait} \<longrightarrow> jl_count x' < jl_max x')"
    if x': "lf_job L' j = Some x'" for j x'
  proof -
    obtain x where x: "lf_job ?L j = Some x"
      "x' = (if \<exists>k\<in>set ?K. job_jobId k = j then jl_close J_cancelled x else x)"
      using x' by (auto simp: J split: if_split_asm)
    with bounded_job [OF life_okD(5) [OF inv] x(1)] jobK [OF x(1)] show ?thesis
      by (auto simp: job_change_def terminal_job_def)
  qed
  show "lf_job L' j \<noteq> None" if "lf_job ?L j = Some x" for j x
    using that by (auto simp: J)
  show "waiting L' j" if "waiting ?L j" for j
    using that by (auto simp: waiting_def J)
  show "open_run (lf_run ?L i)" if "open_run (lf_run L' i)" for i
    using that by (auto simp: R open_run_def split: if_split_asm)
  show "\<exists>r. lf_run L' (jl_run x') = Some r \<and> r \<noteq> R_created \<and>
        (terminal_run r \<longrightarrow> terminal_job (jl_status x')) \<and>
        (r = R_succeeded \<longrightarrow> jl_status x' = J_succeeded) \<and> (jl_active x' \<noteq> None \<longrightarrow> r = R_running) \<and>
        (jl_status x' \<in> {J_failed, J_cancelled} \<longrightarrow> r \<in> {R_failed, R_cancelled})"
    if x': "lf_job L' j = Some x'" for j x'
  proof -
    obtain x where x: "lf_job ?L j = Some x"
      "x' = (if \<exists>k\<in>set ?K. job_jobId k = j then jl_close J_cancelled x else x)"
      using x' by (auto simp: J split: if_split_asm)
    obtain r where r: "lf_run ?L (jl_run x) = Some r" "r \<noteq> R_created"
      "terminal_run r \<longrightarrow> terminal_job (jl_status x)" "r = R_succeeded \<longrightarrow> jl_status x = J_succeeded"
      "jl_active x \<noteq> None \<longrightarrow> r = R_running"
      "jl_status x \<in> {J_failed, J_cancelled} \<longrightarrow> r \<in> {R_failed, R_cancelled}"
      using run_of_job [OF life_okD(6) [OF inv] x(1)] by blast
    have act: "jl_status x = J_active \<longleftrightarrow> jl_active x \<noteq> None"
      using linked_active_iff [OF life_okD(2) [OF inv] x(1)] .
    have run': "jl_run x' = jl_run x" using x(2) by simp
    show ?thesis
    proof (cases "jl_run x = rid")
      case True
      have "terminal_job (jl_status x') \<and> jl_active x' = None"
        using act jobK [OF x(1)] True x(2) by (cases "terminal_job (jl_status x)") (auto simp: terminal_job_def)
      with True r(1) run' show ?thesis by (simp add: R terminal_run_def)
    next
      case False
      then have "x' = x" using x(2) jobK [OF x(1)] by simp
      with r False show ?thesis by (simp add: R)
    qed
  qed
qed

end
