(* ===== verification/LifeSuccess.thy ===== *)
theory LifeSuccess
  imports LifeCommands
begin

text \<open>
  Succeeding a job keeps the lifecycle invariant: the job and its attempt close, the blocked
  jobs whose dependencies are now met become ready, and the run succeeds with its last job.
\<close>

definition unblockEvents :: "ProjectionState \<Rightarrow> JobState \<Rightarrow> DomainEventInput list" where
  "unblockEvents st job = [event ST_job (job_jobId c) (JobUnblocked (job_jobId c) (job_runId c)).
     c \<leftarrow> mvalues (jobs st), job_runId c = job_runId job \<and> job_status c = J_blocked \<and>
       dependencies_met st job c]"

definition unblocks :: "ProjectionState \<Rightarrow> JobState \<Rightarrow> uuid \<Rightarrow> bool" where
  "unblocks st job i \<longleftrightarrow> (\<exists>c. mget (jobs st) i = Some c \<and> job_runId c = job_runId job \<and>
     job_status c = J_blocked \<and> dependencies_met st job c)"

definition run_done :: "ProjectionState \<Rightarrow> JobState \<Rightarrow> bool" where
  "run_done st job \<longleftrightarrow> list_all (\<lambda>c. job_jobId c = job_jobId job \<or> job_status c = J_succeeded)
     (filter (\<lambda>c. job_runId c = job_runId job) (mvalues (jobs st)))"

definition runSuccess :: "ProjectionState \<Rightarrow> JobState \<Rightarrow> DomainEventInput list" where
  "runSuccess st job = (if run_done st job
     then [event ST_run (job_runId job) (RunSucceeded (job_runId job))] else [])"

lemma jobSuccessEvents_alt:
  "jobSuccessEvents st job = event ST_job (job_jobId job) (JobSucceeded (job_jobId job) (job_runId job)) #
     unblockEvents st job @ runSuccess st job"
  by (simp add: jobSuccessEvents_def unblockEvents_def runSuccess_def run_done_def)

lemma unblockEvents_data:
  "e \<in> set (unblockEvents st job) \<Longrightarrow> \<exists>c\<in>set (mvalues (jobs st)). job_runId c = job_runId job \<and>
     job_status c = J_blocked \<and> dependencies_met st job c \<and>
     ev_data e = JobUnblocked (job_jobId c) (job_runId c)"
  by (auto simp: unblockEvents_def split: if_split_asm)

definition jl_ready :: "JobLife \<Rightarrow> JobLife" where
  "jl_ready x = x\<lparr>jl_status := J_ready\<rparr>"

lemma jl_ready_sel [simp]:
  "jl_run (jl_ready x) = jl_run x" "jl_deps (jl_ready x) = jl_deps x" "jl_max (jl_ready x) = jl_max x"
  "jl_checked (jl_ready x) = jl_checked x" "jl_status (jl_ready x) = J_ready"
  "jl_active (jl_ready x) = jl_active x" "jl_count (jl_ready x) = jl_count x"
  "jl_owned (jl_ready x) = jl_owned x" "jl_ready (jl_ready x) = jl_ready x"
  by (simp_all add: jl_ready_def)

lemma unblockEvents_views:
  assumes wk: "well_keyed st"
  shows "run_view (unblockEvents st job) i r = r" "att_view (unblockEvents st job) i y = y"
    "out_view (unblockEvents st job) i b = b" "ver_view (unblockEvents st job) i w = w"
    "job_view (unblockEvents st job) i x = (if unblocks st job i then map_option jl_ready x else x)"
proof -
  let ?es = "unblockEvents st job"
  show "run_view ?es i r = r" "att_view ?es i y = y" "out_view ?es i b = b" "ver_view ?es i w = w"
    unfolding view_defs by (rule fold_quiet; auto dest!: unblockEvents_data)+
  have 1: "job_step (ev_data e) i x = (if \<exists>r. ev_data e = JobUnblocked i r
      then map_option jl_ready x else x)" if "e \<in> set ?es" for e x
    using unblockEvents_data [OF that] by (auto simp: jl_ready_def [abs_def])
  have 2: "(\<exists>e\<in>set ?es. \<exists>r. ev_data e = JobUnblocked i r) \<longleftrightarrow> unblocks st job i"
  proof
    assume "\<exists>e\<in>set ?es. \<exists>r. ev_data e = JobUnblocked i r"
    then obtain e r where e: "e \<in> set ?es" "ev_data e = JobUnblocked i r" by blast
    obtain c where "c \<in> set (mvalues (jobs st))" "job_runId c = job_runId job" "job_status c = J_blocked"
      "dependencies_met st job c" "job_jobId c = i"
      using unblockEvents_data [OF e(1)] e(2) by auto
    then show "unblocks st job i"
      using keyed_vals(1) [OF wk] by (auto simp: unblocks_def)
  next
    assume "unblocks st job i"
    then obtain c where c: "mget (jobs st) i = Some c" "job_runId c = job_runId job"
      "job_status c = J_blocked" "dependencies_met st job c" by (auto simp: unblocks_def)
    have "c \<in> set (mvalues (jobs st))" using mvalues_get [OF c(1)] .
    moreover have "job_jobId c = i" using keyed_sel(1) [OF wk c(1)] .
    ultimately have "event ST_job i (JobUnblocked i (job_runId c)) \<in> set ?es"
      using c by (auto simp: unblockEvents_def intro!: bexI [of _ c])
    then show "\<exists>e\<in>set ?es. \<exists>r. ev_data e = JobUnblocked i r"
      by (rule bexI [rotated]) auto
  qed
  show "job_view ?es i x = (if unblocks st job i then map_option jl_ready x else x)"
    unfolding job_view_def
    using fold_touch [of ?es _ "\<lambda>e. \<exists>r. ev_data e = JobUnblocked i r", OF 1] by (simp add: 2)
qed

lemma runSuccess_views:
  "run_view (runSuccess st job) i r =
     (if run_done st job \<and> i = job_runId job then map_option (\<lambda>_. R_succeeded) r else r)"
  "job_view (runSuccess st job) i x = x" "att_view (runSuccess st job) i y = y"
  "out_view (runSuccess st job) i b = b" "ver_view (runSuccess st job) i w = w"
  by (auto simp: runSuccess_def)

lemma dependencies_met_iff:
  "dependencies_met st job c \<longleftrightarrow> (\<forall>d\<in>set (job_dependencyJobIds c).
     d = job_jobId job \<or> map_option job_status (mget (jobs st) d) = Some J_succeeded)"
  by (simp add: dependencies_met_def list_all_iff)

lemma run_done_iff:
  assumes "well_keyed st"
  shows "run_done st job \<longleftrightarrow> (\<forall>j c. mget (jobs st) j = Some c \<longrightarrow> job_runId c = job_runId job \<longrightarrow>
     j = job_jobId job \<or> job_status c = J_succeeded)"
proof -
  have "run_done st job \<longleftrightarrow> (\<forall>c. c \<in> set (mvalues (jobs st)) \<longrightarrow> job_runId c = job_runId job \<longrightarrow>
      job_jobId c = job_jobId job \<or> job_status c = J_succeeded)"
    by (auto simp: run_done_def list_all_iff)
  also have "\<dots> \<longleftrightarrow> (\<forall>j c. mget (jobs st) j = Some c \<longrightarrow> job_runId c = job_runId job \<longrightarrow>
     j = job_jobId job \<or> job_status c = J_succeeded)"
    (is "?l \<longleftrightarrow> ?r")
  proof
    assume l: ?l
    show ?r
    proof (intro allI impI)
      fix j c assume c: "mget (jobs st) j = Some c" "job_runId c = job_runId job"
      then show "j = job_jobId job \<or> job_status c = J_succeeded"
        using l mvalues_get [OF c(1)] keyed_sel(1) [OF assms c(1)] by blast
    qed
  next
    assume r: ?r
    then show ?l using keyed_vals(1) [OF assms] by blast
  qed
  finally show ?thesis .
qed

lemma success_life_ok:
  assumes wk: "well_keyed st" and inv: "life_ok (life st)"
    and job: "mget (jobs st) jid = Some job" "job_activeAttemptId job = Some aid"
    and Om: "\<And>i. out_closed st ((=) aid) i \<Longrightarrow> Om i \<noteq> None" "\<And>i u. Om i = Some u \<Longrightarrow> \<not> undelivered u"
    and Vm: "\<And>v. ver_closed st ((=) aid) v \<Longrightarrow> Vm v \<noteq> None" "\<And>v. Vm v \<noteq> Some V_requested"
    and pre: "main_teardown st [] jid J_succeeded aid A_succeeded Om Vm pre" "\<And>i r. run_view pre i r = r"
    and evs: "views_of (pre @ unblockEvents st job @ runSuccess st job) (life st) L'"
  shows "life_ok L'"
proof -
  let ?L = "life st"
  note lv = unblockEvents_views [OF wk] runSuccess_views
  have jid: "job_jobId job = jid" using keyed_sel(1) [OF wk job(1)] .
  have act: "job_status job = J_active"
    using active_attempt_linked [OF life_okD(2) [OF inv] job] .
  have j0: "lf_job ?L jid = Some (job_life job)" using job(1) by (simp add: life_sel)
  have nu: "\<not> unblocks st job jid" using job(1) act by (auto simp: unblocks_def)
  obtain M where M: "views_of pre ?L M" and M': "views_of (unblockEvents st job @ runSuccess st job) M L'"
    using evs by (auto simp: views_of_append)
  have JM: "lf_job M i = (if i = jid then map_option (jl_close J_succeeded) (lf_job ?L i) else lf_job ?L i)"
    and RM: "lf_run M i = lf_run ?L i" for i
    using M main_teardown_job [OF pre(1)] by (auto simp: views_of_def pre(2))
  have J: "lf_job L' i = (if unblocks st job i then map_option jl_ready (lf_job M i) else lf_job M i)"
    and R: "lf_run L' i = (if run_done st job \<and> i = job_runId job
       then map_option (\<lambda>_. R_succeeded) (lf_run ?L i) else lf_run ?L i)"
    and S: "lf_att L' i = lf_att M i" "lf_out L' i = lf_out M i" "lf_ver L' i = lf_ver M i" for i
    using M' RM by (simp_all add: views_of_def lv)
  have unb: "jl_status x = J_blocked \<and> jl_run x = job_runId job \<and>
      (\<forall>d\<in>set (jl_deps x). d = jid \<or> (\<exists>y. lf_job ?L d = Some y \<and> jl_status y = J_succeeded))"
    if "unblocks st job i" "lf_job ?L i = Some x" for i x
    using that jid by (fastforce simp: unblocks_def life_sel dependencies_met_iff)
  have link: "linked L'"
  proof (rule job_change_linked [where P = "unblocks st job" and f = jl_ready, OF _ J _ S])
    show "linked M"
      by (rule main_teardown_linked [OF wk life_okD(1) [OF inv] job _ _ _ Om Vm pre(1) M]) auto
    show "jl_active (jl_ready x) = jl_active x \<and> jl_run (jl_ready x) = jl_run x \<and>
        jl_count (jl_ready x) = jl_count x \<and> (jl_status (jl_ready x) = J_active) = (jl_status x = J_active) \<and>
        (jl_owned (jl_ready x) \<longrightarrow> jl_owned x \<or> jl_status x = J_active)"
      if "lf_job M i = Some x" "unblocks st job i" for i x
    proof -
      have "i \<noteq> jid" using that nu by auto
      then show ?thesis using unb [OF that(2)] that(1) by (simp add: JM)
    qed
  qed
  have old: "\<exists>x. lf_job ?L i = Some x \<and> x' = (if i = jid then jl_close J_succeeded x
      else if unblocks st job i then jl_ready x else x)" if "lf_job L' i = Some x'" for i x'
    using that nu by (auto simp: J JM split: if_split_asm)
  have new: "lf_job ?L i = Some x \<Longrightarrow> lf_job L' i = Some (if i = jid then jl_close J_succeeded x
      else if unblocks st job i then jl_ready x else x)" for i x
    using nu by (auto simp: J JM)
  show ?thesis
    unfolding life_ok_def
  proof (intro conjI)
    show "linked L'" by (rule link)
    show "attempts_bounded L'"
      unfolding attempts_bounded_def
    proof (intro allI impI)
      fix i x' assume "lf_job L' i = Some x'"
      then obtain x where x: "lf_job ?L i = Some x" "x' = (if i = jid then jl_close J_succeeded x
        else if unblocks st job i then jl_ready x else x)" using old by blast
      with bounded_job [OF life_okD(5) [OF inv] x(1)] unb [of i x]
      show "jl_count x' \<le> jl_max x' \<and>
          (jl_status x' \<in> {J_blocked, J_ready, J_retry_wait} \<longrightarrow> jl_count x' < jl_max x')"
        by (auto split: if_split_asm)
    qed
    show "runs_respected L'"
      unfolding runs_respected_def
    proof (intro allI impI)
      fix i x' assume "lf_job L' i = Some x'"
      then obtain x where x: "lf_job ?L i = Some x" "x' = (if i = jid then jl_close J_succeeded x
        else if unblocks st job i then jl_ready x else x)" using old by blast
      obtain r where r: "lf_run ?L (jl_run x) = Some r" "r \<noteq> R_created"
        "terminal_run r \<longrightarrow> terminal_job (jl_status x)" "r = R_succeeded \<longrightarrow> jl_status x = J_succeeded"
        "jl_active x \<noteq> None \<longrightarrow> r = R_running"
      "jl_status x \<in> {J_failed, J_cancelled} \<longrightarrow> r \<in> {R_failed, R_cancelled}"
        using run_of_job [OF life_okD(6) [OF inv] x(1)] by blast
      have rj: "lf_run ?L (job_runId job) = Some R_running"
        using run_of_job [OF life_okD(6) [OF inv] j0] job(2) by auto
      show "\<exists>r. lf_run L' (jl_run x') = Some r \<and> r \<noteq> R_created \<and>
          (terminal_run r \<longrightarrow> terminal_job (jl_status x')) \<and>
          (r = R_succeeded \<longrightarrow> jl_status x' = J_succeeded) \<and> (jl_active x' \<noteq> None \<longrightarrow> r = R_running) \<and>
        (jl_status x' \<in> {J_failed, J_cancelled} \<longrightarrow> r \<in> {R_failed, R_cancelled})"
      proof (cases "jl_run x = job_runId job")
        case True
        show ?thesis
        proof (cases "run_done st job")
          case fin: True
          have s: "jl_status x' = J_succeeded \<and> jl_active x' = None"
          proof (cases "i = jid")
            case False
            obtain z where z: "mget (jobs st) i = Some z" "x = job_life z"
              using x(1) by (auto simp: life_sel)
            then have "jl_status x = J_succeeded"
              using fin True False jid unfolding run_done_iff [OF wk] by (metis job_life_sel(1,4))
            then show ?thesis
              using False x linked_active_iff [OF life_okD(2) [OF inv] x(1)] unb [of i x] by auto
          qed (use x in simp)
          then show ?thesis using fin True r(1) x(2) by (simp add: R terminal_job_def)
        next
          case False
          then show ?thesis using True rj r x(2) by (auto simp: R terminal_run_def)
        qed
      next
        case False
        then have "x' = x" using x unb [of i x] j0 by auto
        then show ?thesis using False r by (simp add: R)
      qed
    qed
    have wait: "waiting L' d" if "waiting ?L d" "d \<noteq> jid" for d
      using that new by (auto simp: waiting_def)
    show "progressing L'"
      unfolding progressing_def
    proof (intro conjI allI impI)
      show "acyclic (job_deps L')"
        using life_okD(8) [OF inv] old
        by (intro job_deps_change [of L' ?L]) (fastforce simp: progressing_def)+
    next
      fix i x' assume a: "lf_job L' i = Some x' \<and> jl_status x' = J_blocked"
      then obtain x where x: "lf_job ?L i = Some x" "x' = (if i = jid then jl_close J_succeeded x
        else if unblocks st job i then jl_ready x else x)" using old by blast
      then have b: "jl_status x = J_blocked" "x' = x" "\<not> unblocks st job i" using a by (auto split: if_split_asm)
      show "\<exists>d\<in>set (jl_deps x'). waiting L' d"
      proof (cases "jl_run x = job_runId job")
        case True
        then obtain d where d: "d \<in> set (jl_deps x)" "d \<noteq> jid"
          "map_option job_status (mget (jobs st) d) \<noteq> Some J_succeeded"
          using b x(1) jid by (fastforce simp: unblocks_def life_sel dependencies_met_iff)
        obtain y where "lf_job ?L d = Some y"
          using life_okD(7) [OF inv] x(1) d(1) unfolding dependencies_respected_def by blast
        then have "waiting ?L d" using d(3) by (auto simp: waiting_def life_sel)
        then show ?thesis using wait d b(2) by blast
      next
        case False
        obtain d where d: "d \<in> set (jl_deps x)" "waiting ?L d"
          using progressing_blocked [OF life_okD(8) [OF inv] x(1) b(1)] by blast
        obtain y where "lf_job ?L d = Some y" "jl_run y = jl_run x"
          using life_okD(7) [OF inv] x(1) d(1) unfolding dependencies_respected_def by blast
        then have "d \<noteq> jid" using False j0 by auto
        then show ?thesis using wait d b(2) by blast
      qed
    next
      fix i assume o: "open_run (lf_run L' i)"
      have k: "jl_run (if c = jid then jl_close J_succeeded x else if unblocks st job c then jl_ready x else x) =
          jl_run x" for c x by simp
      show "\<exists>j x. lf_job L' j = Some x \<and> jl_run x = i \<and> waiting L' j"
      proof (cases "i = job_runId job")
        case True
        then have "\<not> run_done st job" using o by (auto simp: R open_run_def split: if_split_asm)
        then obtain c y where c: "mget (jobs st) c = Some y" "job_runId y = job_runId job" "c \<noteq> jid"
          "job_status y \<noteq> J_succeeded"
          unfolding run_done_iff [OF wk] using jid by blast
        then have l: "lf_job ?L c = Some (job_life y)" by (simp add: life_sel)
        then have "waiting L' c" using wait c by (simp add: waiting_def)
        then show ?thesis using new [OF l] k c(2) True by fastforce
      next
        case False
        then obtain c y where c: "lf_job ?L c = Some y" "jl_run y = i" "waiting ?L c"
          using progressing_run [OF life_okD(8) [OF inv], of i] o by (auto simp: R)
        then have "c \<noteq> jid" using False j0 by auto
        then show ?thesis using wait [OF c(3)] new [OF c(1)] c(2) k by fastforce
      qed
    qed
    show "dependencies_respected L'"
      unfolding dependencies_respected_def
    proof (intro allI impI)
      fix i x' d assume a: "lf_job L' i = Some x' \<and> d \<in> set (jl_deps x')"
      then obtain x where x: "lf_job ?L i = Some x" "x' = (if i = jid then jl_close J_succeeded x
        else if unblocks st job i then jl_ready x else x)" using old by blast
      then have d: "d \<in> set (jl_deps x)" using a by (auto split: if_split_asm)
      then obtain y where y: "lf_job ?L d = Some y" "jl_run y = jl_run x"
        "jl_status x \<notin> {J_blocked, J_cancelled} \<Longrightarrow> jl_status y = J_succeeded"
        using life_okD(7) [OF inv] x(1) unfolding dependencies_respected_def by blast
      have s: "jl_status y = J_succeeded \<or> d = jid" if "jl_status x' \<notin> {J_blocked, J_cancelled}"
        using that x y(3) unb [of i x] d y(1) j0 act by (auto split: if_split_asm)
      show "\<exists>y'. lf_job L' d = Some y' \<and> jl_run y' = jl_run x' \<and>
          (jl_status x' \<notin> {J_blocked, J_cancelled} \<longrightarrow> jl_status y' = J_succeeded)"
      proof (intro exI conjI impI)
        show "lf_job L' d = Some (if d = jid then jl_close J_succeeded y
            else if unblocks st job d then jl_ready y else y)" by (rule new [OF y(1)])
        show "jl_run (if d = jid then jl_close J_succeeded y
            else if unblocks st job d then jl_ready y else y) = jl_run x'"
          using y(2) x(2) by simp
        show "jl_status (if d = jid then jl_close J_succeeded y
            else if unblocks st job d then jl_ready y else y) = J_succeeded"
          if h: "jl_status x' \<notin> {J_blocked, J_cancelled}"
          using s [OF h] unb [OF _ y(1)] by auto
      qed
    qed
  qed
qed

end
