(* ===== verification/LifeDecide.thy ===== *)
theory LifeDecide
  imports LifeSuccess
begin

text \<open>
  \<open>decide\<close> keeps the lifecycle invariant: the event list of every branch, applied to a state
  that satisfies it, leads to a state that satisfies it.
\<close>

section \<open>Leases\<close>

lemma validateJobLease_None:
  "validateJobLease job owner token now = None \<longleftrightarrow>
     job_leaseOwnerId job = Some owner \<and> job_leaseFencingToken job = token \<and>
     (\<exists>e. job_leaseExpiresAt job = Some e \<and> now < e)"
  by (auto simp: validateJobLease_def atOrBefore_def split: option.splits)

lemma validateOutboxLease_None:
  "validateOutboxLease b owner token now = None \<longleftrightarrow>
     out_leaseOwnerId b = Some owner \<and> out_leaseFencingToken b = token \<and>
     (\<exists>e. out_leaseExpiresAt b = Some e \<and> now < e)"
  by (auto simp: validateOutboxLease_def atOrBefore_def split: option.splits)

section \<open>Failures\<close>

lemma open_request_mem:
  "open_request st aid = Some w \<Longrightarrow> w \<in> set (mvalues (verifications st)) \<and> ver_attemptId w = aid \<and>
     ver_status w = V_requested"
  by (auto simp: open_request_def find_Some_iff)

lemma own_request_ok:
  "ver_closed st ((=) aid) v \<Longrightarrow> own_request st aid v \<noteq> None" "own_request st aid v \<noteq> Some V_requested"
  by (auto simp: own_request_def)

lemma own_work_ok: "own_work st aid ex i = Some u \<Longrightarrow> \<not> undelivered u"
  by (auto simp: own_work_def split: if_splits)

lemma failureTransition_life_ok:
  assumes wk: "well_keyed st" and inv: "life_ok (life st)"
    and job: "mget (jobs st) jid = Some job" "job_activeAttemptId job = Some aid"
    and a: "mget (attempts st) aid = Some a" and q: "quiet pre"
    and evs: "views_of (pre @ failureTransitionEvents sha st job a reason now detail None) (life st) L'"
  shows "life_ok L'"
proof (rule failure_life_ok [OF wk inv job, where final = "exhausted job"])
  have ids: "job_jobId job = jid" "att_attemptId a = aid"
    using keyed_sel(1,2) [OF wk] job(1) a by auto
  show "main_teardown st (if exhausted job then otherLiveJobs st job else []) jid
      (if exhausted job then J_failed else J_retry_wait) aid
      (if reason = TR_timed_out then A_timed_out else A_failed)
      (own_work st aid None) (own_request st aid)
      (pre @ failureTransitionEvents sha st job a reason now detail None)"
    using main_teardown_quiet [OF q failureTransition_teardown [OF wk, of job a]] ids by simp
  show "run_view (pre @ failureTransitionEvents sha st job a reason now detail None) i r =
      (if exhausted job \<and> i = job_runId job then map_option (\<lambda>_. R_failed) r else r)" for i r
    by (simp add: quiet_views [OF q] failureTransition_run [OF wk])
qed (use evs own_request_ok in \<open>auto simp: exhausted_def own_work_def split: if_splits\<close>)

text \<open>With the message that caused the failure decided first.\<close>

lemma failureTransition_decided_life_ok:
  assumes wk: "well_keyed st" and inv: "life_ok (life st)"
    and job: "mget (jobs st) jid = Some job" "job_activeAttemptId job = Some aid"
    and a: "mget (attempts st) aid = Some a" and u: "\<not> undelivered u"
    and e: "\<And>i x. run_step (ev_data e) i x = x" "\<And>i x. job_step (ev_data e) i x = x"
      "\<And>i y. attempt_step (ev_data e) i y = y"
      "\<And>i w. verification_step (ev_data e) i w = w" "\<And>d. ev_data e \<noteq> OutboxEnqueued d"
      "\<And>i b. outbox_step (ev_data e) i b = (if i = oid then map_option (ol_close u) b else b)"
    and evs: "views_of (e # failureTransitionEvents sha st job a reason now detail (Some oid)) (life st) L'"
  shows "life_ok L'"
proof (rule failure_life_ok [OF wk inv job, where final = "exhausted job"])
  have ids: "job_jobId job = jid" "att_attemptId a = aid"
    using keyed_sel(1,2) [OF wk] job(1) a by auto
  show "main_teardown st (if exhausted job then otherLiveJobs st job else []) jid
      (if exhausted job then J_failed else J_retry_wait) aid
      (if reason = TR_timed_out then A_timed_out else A_failed)
      (\<lambda>i. if i = oid \<and> own_work st aid (Some oid) i = None then Some u else own_work st aid (Some oid) i)
      (own_request st aid) (e # failureTransitionEvents sha st job a reason now detail (Some oid))"
    using main_teardown_out [OF failureTransition_teardown
        [OF wk, of job a reason "Some oid" sha now detail] e(2-6)]
    unfolding ids .
  show "run_view (e # failureTransitionEvents sha st job a reason now detail (Some oid)) i r =
      (if exhausted job \<and> i = job_runId job then map_option (\<lambda>_. R_failed) r else r)" for i r
    by (simp add: e failureTransition_run [OF wk])
qed (use evs own_request_ok u in \<open>auto simp: exhausted_def own_work_def split: if_splits\<close>)

lemma nonretryable_life_ok:
  assumes wk: "well_keyed st" and inv: "life_ok (life st)"
    and job: "mget (jobs st) jid = Some job" "job_activeAttemptId job = Some aid"
    and a: "mget (attempts st) aid = Some a" "att_status a = A_running" and q: "quiet pre"
    and evs: "views_of (pre @ nonretryableDriverFailureEvents sha st job a reason detail) (life st) L'"
  shows "life_ok L'"
proof (rule failure_life_ok [OF wk inv job, where final = True])
  have ids: "job_jobId job = jid" "att_attemptId a = aid"
    using keyed_sel(1,2) [OF wk] job(1) a(1) by auto
  show "main_teardown st (if True then otherLiveJobs st job else []) jid
      (if True then J_failed else J_retry_wait) aid
      (if reason = TR_approval_required then A_approval_required
       else if reason = TR_operator_cancelled then A_cancelled else A_failed)
      (own_work st aid None) (\<lambda>_. None)
      (pre @ nonretryableDriverFailureEvents sha st job a reason detail)"
    using main_teardown_quiet [OF q nonretryable_teardown [OF wk, of job a]] ids by simp
  show "run_view (pre @ nonretryableDriverFailureEvents sha st job a reason detail) i r =
      (if True \<and> i = job_runId job then map_option (\<lambda>_. R_failed) r else r)" for i r
    by (simp add: quiet_views [OF q] nonretryable_run [OF wk])
  show "None \<noteq> None" if v: "ver_closed st ((=) aid) v" for v
  proof -
    obtain w where w: "w \<in> set (mvalues (verifications st))" "ver_attemptId w = aid" "ver_status w = V_requested"
      using v by (auto simp: closed_one dest: open_request_mem)
    then have "mget (verifications st) (ver_verificationId w) = Some w"
      using keyed_vals(4) [OF wk] by blast
    then show ?thesis
      using linked_verification [OF life_okD(4) [OF inv], of "ver_verificationId w" "verification_life w"] w a
      by (auto simp: life_sel)
  qed
qed (use evs in \<open>auto simp: own_work_def split: if_splits\<close>)

section \<open>Handing an attempt to its verifier\<close>

lemma work_of_running:
  assumes inv: "life_ok L" and a: "lf_att L a = Some y" "al_status y = A_running"
    and b: "lf_out L i = Some b" "work_message b"
  shows "ol_attempt b \<noteq> a"
  using linked_message [OF life_okD(3) [OF inv] b] a
  by (auto simp: work_status_def split: EffectKind.splits)

lemma request_life_ok:
  assumes wk: "well_keyed st" and inv: "life_ok (life st)"
    and job: "mget (jobs st) jid = Some job" "job_activeAttemptId job = Some aid"
    and a: "mget (attempts st) aid = Some a" "att_status a = A_running" and q: "quiet pre"
    and evs: "views_of (pre @ verificationRequestEvents job aid run workflow vid oid src contract cd)
       (life st) L'"
  shows "life_ok L'"
proof (rule life_ok_cong [OF inv])
  let ?L = "life st"
  have jid: "job_jobId job = jid" using keyed_sel(1) [OF wk job(1)] .
  have y: "lf_att ?L aid = Some (attempt_life a)" using a(1) by (simp add: life_sel)
  have aj: "att_jobId a = Some jid"
    using active_attempt_linked [OF life_okD(2) [OF inv] job] a(1) by auto
  show "lf_run L' i = lf_run ?L i" and J: "lf_job L' i = lf_job ?L i" for i
    using evs by (simp_all add: views_of_def quiet_views [OF q] verificationRequestEvents_def)
  have A: "lf_att L' i = (if i = aid then Some (al_close A_verifying (attempt_life a)) else lf_att ?L i)"
    and O: "lf_out L' i = (if i = oid then Some \<lparr>ol_job = jid, ol_attempt = aid, ol_kind = EK_verify vid,
        ol_status = O_pending, ol_owned = False\<rparr> else lf_out ?L i)"
    and V: "lf_ver L' i = (if i = vid then Some \<lparr>vl_job = jid, vl_attempt = aid, vl_status = V_requested\<rparr>
        else lf_ver ?L i)" for i
    using evs y jid by (auto simp: views_of_def quiet_views [OF q] verificationRequestEvents_def
        al_close_update ol_new_def)
  show "linked L'"
  proof (rule status_change_linked [OF life_okD(1) [OF inv] y _ _ J A, where k = oid])
    show "lf_out ?L i = Some b \<and> ol_attempt b \<noteq> aid \<or>
        ol_attempt b = aid \<and> al_job (attempt_life a) = Some (ol_job b) \<and>
        A_verifying = work_status (ol_kind b) \<and> i = oid"
      if b: "lf_out L' i = Some b" "work_message b" for i b
    proof (cases "i = oid")
      case True
      with b aj show ?thesis by (auto simp: O work_status_def)
    next
      case False
      then have "lf_out ?L i = Some b" using b(1) by (simp add: O)
      with work_of_running [OF inv y _ this b(2)] a(2) show ?thesis by simp
    qed
    show "ol_status b = O_leased" if "lf_out L' i = Some b" "ol_owned b" for i b
      using that linked_message_owned [OF life_okD(3) [OF inv], of i b] by (auto simp: O split: if_splits)
    show "lf_ver ?L v = Some w \<and> vl_attempt w \<noteq> aid \<or>
        vl_attempt w = aid \<and> al_job (attempt_life a) = Some (vl_job w) \<and> A_verifying = A_verifying \<and> v = vid"
      if w: "lf_ver L' v = Some w" "vl_status w = V_requested" for v w
    proof (cases "v = vid")
      case True
      with w aj show ?thesis by (auto simp: V)
    next
      case False
      then have "lf_ver ?L v = Some w" using w(1) by (simp add: V)
      with linked_verification [OF life_okD(4) [OF inv] this w(2)] y a(2) show ?thesis by auto
    qed
  qed (use a(2) in simp_all)
qed

section \<open>Leasing and releasing a job\<close>

lemma life_ok_change_count:
  assumes inv: "life_ok L" and link: "linked L'"
    and jobs: "\<And>j x'. lf_job L' j = Some x' \<Longrightarrow> \<exists>x. lf_job L j = Some x \<and> job_change x x' \<and>
        jl_count x' \<le> jl_max x' \<and> (jl_status x' \<in> {J_blocked, J_ready, J_retry_wait} \<longrightarrow> jl_count x' < jl_max x')"
    and total: "\<And>j x. lf_job L j = Some x \<Longrightarrow> lf_job L' j \<noteq> None"
    and runs: "\<And>j x'. lf_job L' j = Some x' \<Longrightarrow> \<exists>r. lf_run L' (jl_run x') = Some r \<and> r \<noteq> R_created \<and>
        (terminal_run r \<longrightarrow> terminal_job (jl_status x')) \<and>
        (r = R_succeeded \<longrightarrow> jl_status x' = J_succeeded) \<and> (jl_active x' \<noteq> None \<longrightarrow> r = R_running) \<and>
        (jl_status x' \<in> {J_failed, J_cancelled} \<longrightarrow> r \<in> {R_failed, R_cancelled})"
    and wait: "\<And>j. waiting L j \<Longrightarrow> waiting L' j"
    and open_runs: "\<And>i. open_run (lf_run L' i) \<Longrightarrow> open_run (lf_run L i)"
  shows "life_ok L'"
  unfolding life_ok_def
proof (intro conjI)
  show "linked L'" by (rule link)
  show "attempts_bounded L'" unfolding attempts_bounded_def using jobs by blast
  show "runs_respected L'" unfolding runs_respected_def using runs by blast
  show "dependencies_respected L'"
    using dependencies_change [OF life_okD(7) [OF inv]] jobs total by blast
  show "progressing L'"
    by (rule progressing_change [OF life_okD(8) [OF inv]])
       (use jobs total wait open_runs in \<open>blast+\<close>)
qed

lemma lease_life_ok:
  assumes inv: "life_ok L"
    and job: "lf_job L j = Some x" "jl_active x = None" "jl_status x \<in> {J_ready, J_retry_wait}"
    and run: "lf_run L (jl_run x) = Some r" "\<not> terminal_run r"
    and fresh: "lf_att L a = None" "lf_out L oid = None"
    and runs: "\<And>i. lf_run L' i = (if i = jl_run x \<and> r = R_scheduled then Some R_running else lf_run L i)"
    and jobs: "\<And>i. lf_job L' i = (if i = j
        then Some (x\<lparr>jl_status := J_active, jl_owned := True, jl_active := Some a, jl_count := Suc (jl_count x)\<rparr>)
        else lf_job L i)"
    and atts: "\<And>i. lf_att L' i = (if i = a
        then Some \<lparr>al_run = jl_run x, al_job = Some j, al_ordinal = Suc (jl_count x), al_status = A_starting\<rparr>
        else lf_att L i)"
    and out: "\<And>i. lf_out L' i = (if i = oid
        then Some \<lparr>ol_job = j, ol_attempt = a, ol_kind = EK_start, ol_status = O_pending, ol_owned = False\<rparr>
        else lf_out L i)"
    and ver: "\<And>i. lf_ver L' i = lf_ver L i"
  shows "life_ok L'"
proof (rule life_ok_change_count [OF inv])
  show "linked L'"
    by (rule lease_linked [OF life_okD(1) [OF inv] job(1,2) _ fresh jobs atts out ver]) (use job(3) in auto)
  show "\<exists>y. lf_job L i = Some y \<and> job_change y x' \<and> jl_count x' \<le> jl_max x' \<and>
      (jl_status x' \<in> {J_blocked, J_ready, J_retry_wait} \<longrightarrow> jl_count x' < jl_max x')"
    if x': "lf_job L' i = Some x'" for i x'
  proof (cases "i = j")
    case True
    with x' job bounded_job [OF life_okD(5) [OF inv] job(1)] show ?thesis
      by (auto simp: jobs job_change_def)
  next
    case False
    then have "lf_job L i = Some x'" using x' by (simp add: jobs)
    with bounded_job [OF life_okD(5) [OF inv] this] job_change_refl show ?thesis by blast
  qed
  show "waiting L' i" if "waiting L i" for i
    using that job by (auto simp: waiting_def jobs)
  show "open_run (lf_run L i)" if "open_run (lf_run L' i)" for i
    using that run(1) by (auto simp: runs open_run_def split: if_split_asm)
  show "lf_job L' i \<noteq> None" if "lf_job L i = Some y" for i y
    using that by (simp add: jobs)
  have rr: "lf_run L' (jl_run x) = Some R_running"
  proof -
    have "r \<noteq> R_created" using run_of_job [OF life_okD(6) [OF inv] job(1)] run(1) by auto
    with run show ?thesis by (cases r) (auto simp: runs terminal_run_def)
  qed
  show "\<exists>r. lf_run L' (jl_run x') = Some r \<and> r \<noteq> R_created \<and>
        (terminal_run r \<longrightarrow> terminal_job (jl_status x')) \<and>
        (r = R_succeeded \<longrightarrow> jl_status x' = J_succeeded) \<and> (jl_active x' \<noteq> None \<longrightarrow> r = R_running) \<and>
        (jl_status x' \<in> {J_failed, J_cancelled} \<longrightarrow> r \<in> {R_failed, R_cancelled})"
    if x': "lf_job L' i = Some x'" for i x'
  proof (cases "jl_run x' = jl_run x")
    case True
    have "jl_status x' \<notin> {J_failed, J_cancelled}"
    proof (cases "i = j")
      case False
      then have "lf_job L i = Some x'" using x' by (simp add: jobs)
      with run_of_job [OF life_okD(6) [OF inv] this] True run show ?thesis by (auto simp: terminal_run_def)
    qed (use x' in \<open>auto simp: jobs\<close>)
    with True show ?thesis using rr by (simp add: terminal_run_def)
  next
    case False
    then have "lf_job L i = Some x'" using x' by (auto simp: jobs split: if_splits)
    with run_of_job [OF life_okD(6) [OF inv] this] False show ?thesis by (simp add: runs)
  qed
qed

lemma resume_life_ok:
  assumes inv: "life_ok L" and job: "lf_job L j = Some x" "jl_status x = J_active"
    and jobs: "\<And>i. lf_job L' i = (if i = j
        then map_option (\<lambda>y. y\<lparr>jl_status := J_active, jl_owned := b\<rparr>) (lf_job L i) else lf_job L i)"
    and same: "\<And>i. lf_run L' i = lf_run L i" "\<And>i. lf_att L' i = lf_att L i"
      "\<And>i. lf_out L' i = lf_out L i" "\<And>i. lf_ver L' i = lf_ver L i"
  shows "life_ok L'"
proof (rule life_ok_change_count [OF inv])
  show "linked L'"
    by (rule job_change_linked [OF life_okD(1) [OF inv], where P = "\<lambda>i. i = j", OF jobs _ same(2-4)])
       (use job in auto)
  show "\<exists>y. lf_job L i = Some y \<and> job_change y x' \<and> jl_count x' \<le> jl_max x' \<and>
      (jl_status x' \<in> {J_blocked, J_ready, J_retry_wait} \<longrightarrow> jl_count x' < jl_max x')"
    if x': "lf_job L' i = Some x'" for i x'
  proof (cases "i = j")
    case True
    with x' job bounded_job [OF life_okD(5) [OF inv] job(1)] show ?thesis
      by (auto simp: jobs job_change_def)
  next
    case False
    then have "lf_job L i = Some x'" using x' by (simp add: jobs)
    with bounded_job [OF life_okD(5) [OF inv] this] job_change_refl show ?thesis by blast
  qed
  show "waiting L' i" if "waiting L i" for i
    using that job by (auto simp: waiting_def jobs)
  show "open_run (lf_run L i)" if "open_run (lf_run L' i)" for i
    using that by (simp add: same)
  show "lf_job L' i \<noteq> None" if "lf_job L i = Some y" for i y
    using that by (auto simp: jobs)
  show "\<exists>r. lf_run L' (jl_run x') = Some r \<and> r \<noteq> R_created \<and>
        (terminal_run r \<longrightarrow> terminal_job (jl_status x')) \<and>
        (r = R_succeeded \<longrightarrow> jl_status x' = J_succeeded) \<and> (jl_active x' \<noteq> None \<longrightarrow> r = R_running) \<and>
        (jl_status x' \<in> {J_failed, J_cancelled} \<longrightarrow> r \<in> {R_failed, R_cancelled})"
    if x': "lf_job L' i = Some x'" for i x'
  proof -
    obtain y where "lf_job L i = Some y" "jl_run x' = jl_run y" "jl_active x' = jl_active y"
      "jl_status x' = jl_status y"
      using x' job by (auto simp: jobs split: if_splits)
    with run_of_job [OF life_okD(6) [OF inv], of i y] show ?thesis by (simp add: same)
  qed
qed

section \<open>Delivering messages\<close>

lemma message_life_ok:
  assumes inv: "life_ok L"
    and same: "\<And>i. lf_run L' i = lf_run L i" "\<And>i. lf_job L' i = lf_job L i"
      "\<And>i. lf_att L' i = lf_att L i" "\<And>i. lf_ver L' i = lf_ver L i"
    and out: "\<And>i. lf_out L' i = (if i = k then map_option f (lf_out L i) else lf_out L i)"
    and f: "\<And>b. lf_out L k = Some b \<Longrightarrow> ol_job (f b) = ol_job b \<and> ol_attempt (f b) = ol_attempt b \<and>
        ol_kind (f b) = ol_kind b \<and> (undelivered (ol_status (f b)) \<longrightarrow> undelivered (ol_status b)) \<and>
        (ol_owned (f b) \<longrightarrow> ol_status (f b) = O_leased)"
  shows "life_ok L'"
  by (rule life_ok_cong [OF inv same(1,2)],
      rule message_change_linked [OF life_okD(1) [OF inv] same(2-4) out f])

text \<open>Delivering the start of an attempt makes it run.\<close>

lemma started_life_ok:
  assumes inv: "life_ok L"
    and b: "lf_out L k = Some b" "work_message b" "ol_kind b = EK_start"
    and same: "\<And>i. lf_run L' i = lf_run L i" "\<And>i. lf_job L' i = lf_job L i" "\<And>i. lf_ver L' i = lf_ver L i"
    and atts: "\<And>i. lf_att L' i = (if i = ol_attempt b then map_option (al_close A_running) (lf_att L i)
        else lf_att L i)"
    and out: "\<And>i. lf_out L' i = (if i = k then map_option (ol_close O_delivered) (lf_out L i) else lf_out L i)"
  shows "life_ok L'"
proof (rule life_ok_cong [OF inv same(1,2)])
  obtain y where y: "lf_att L (ol_attempt b) = Some y" "al_status y = A_starting"
    using linked_message [OF life_okD(3) [OF inv] b(1,2)] b(3) by (auto simp: work_status_def)
  have A: "lf_att L' i = (if i = ol_attempt b then Some (al_close A_running y) else lf_att L i)" for i
    using atts [of i] y(1) by auto
  show "linked L'"
  proof (rule status_change_linked [OF life_okD(1) [OF inv] y(1) _ _ same(2) A])
    show "lf_out L i = Some c \<and> ol_attempt c \<noteq> ol_attempt b \<or>
        ol_attempt c = ol_attempt b \<and> al_job y = Some (ol_job c) \<and> A_running = work_status (ol_kind c) \<and> i = k"
      if c: "lf_out L' i = Some c" "work_message c" for i c
    proof -
      have "i \<noteq> k" using c b(1) by (auto simp: out work_message_def)
      then have l: "lf_out L i = Some c" using c(1) by (simp add: out)
      have "ol_attempt c \<noteq> ol_attempt b"
        using linked_message_unique [OF life_okD(3) [OF inv] l c(2) b(1,2)] \<open>i \<noteq> k\<close> by blast
      with l show ?thesis by blast
    qed
    show "ol_status c = O_leased" if "lf_out L' i = Some c" "ol_owned c" for i c
      using that b(1) linked_message_owned [OF life_okD(3) [OF inv], of i c]
      by (auto simp: out split: if_splits)
    show "lf_ver L v = Some w \<and> vl_attempt w \<noteq> ol_attempt b \<or>
        vl_attempt w = ol_attempt b \<and> al_job y = Some (vl_job w) \<and> A_running = A_verifying \<and> v = v'"
      if w: "lf_ver L' v = Some w" "vl_status w = V_requested" for v w v'
      using linked_verification [OF life_okD(4) [OF inv], of v w] w y by (auto simp: same)
  qed (use y in simp_all)
qed

section \<open>Completing a verification\<close>

lemma own_message:
  assumes inv: "life_ok (life st)" and b: "mget (outbox st) oid = Some b" "out_attemptId b = aid"
    "undelivered_work aid b" and i: "out_closed st ((=) aid) i"
  shows "i = oid"
proof -
  obtain b' where b': "mget (outbox st) i = Some b'" "undelivered_work aid b'"
    using i by (auto simp: closed_one)
  then have "out_attemptId b' = aid" by (simp add: undelivered_work_def)
  then show ?thesis
    using linked_message_unique [OF life_okD(3) [OF inv], of i "outbox_life b'" oid "outbox_life b"] b b'
    by (simp add: life_sel)
qed

lemma own_verification:
  assumes wk: "well_keyed st" and inv: "life_ok (life st)"
    and v: "mget (verifications st) vid = Some v" "ver_attemptId v = aid" "ver_status v = V_requested"
    and i: "ver_closed st ((=) aid) i"
  shows "i = vid"
proof -
  have "open_request st aid = Some v"
    using open_request_found [OF wk life_okD(4) [OF inv] v(1,3)] v(2) by simp
  then show ?thesis using i keyed_sel(5) [OF wk v(1)] by (auto simp: closed_one)
qed

lemma complete_teardown:
  assumes wk: "well_keyed st"
    and base: "main_teardown st K jid s aid t (\<lambda>_. None) (\<lambda>_. None) rest"
  shows "main_teardown st K jid s aid t
     (\<lambda>i. if i = oid then Some O_delivered else None)
     (\<lambda>i. if i = vrd_verificationId d then Some (verification_status (vrd_status d)) else None)
     (event ST_artifact_manifest mid (ArtifactManifestRecorded m) #
      event ST_verification vid (VerificationReceiptRecorded d) #
      event ST_outbox oid (OutboxDelivered oid r ext) # rest)"
proof -
  have 1: "main_teardown st K jid s aid t
      (\<lambda>i. if i = oid \<and> (None :: OutboxStatus option) = None then Some O_delivered else None)
      (\<lambda>_. None) (event ST_outbox oid (OutboxDelivered oid r ext) # rest)"
    by (rule main_teardown_out [OF base]) simp_all
  have 2: "main_teardown st K jid s aid t
      (\<lambda>i. if i = oid \<and> (None :: OutboxStatus option) = None then Some O_delivered else None)
      (\<lambda>i. if i = vrd_verificationId d \<and> (None :: VerificationStatus option) = None
           then Some (verification_status (vrd_status d)) else None)
      (event ST_verification vid (VerificationReceiptRecorded d) #
       event ST_outbox oid (OutboxDelivered oid r ext) # rest)"
    by (rule main_teardown_ver [OF 1]) simp_all
  show ?thesis
    using main_teardown_quiet [OF _ 2, of "[event ST_artifact_manifest mid (ArtifactManifestRecorded m)]"]
    by simp
qed

lemma verification_status_decided [simp]: "verification_status s \<noteq> V_requested"
  by (cases s) auto

lemma failed_base:
  assumes wk: "well_keyed st"
  shows "main_teardown st (otherLiveJobs st job) (job_jobId job) J_failed aid t (\<lambda>_. None) (\<lambda>_. None)
     (attemptFinished job aid t r d # jobFailureEvents sha st job reason)"
  by (auto simp: main_teardown_def jobFailureEvents_views [OF wk] al_close_update)

lemma succeeded_base:
  "main_teardown st [] (job_jobId job) J_succeeded aid t (\<lambda>_. None) (\<lambda>_. None)
     [attemptFinished job aid t r d, event ST_job (job_jobId job) (JobSucceeded (job_jobId job) (job_runId job))]"
  by (auto simp: main_teardown_def closes_def [abs_def] al_close_update)

end
