(* ===== verification/LifeKeeps.thy ===== *)
theory LifeKeeps
  imports LifeDecide
begin

text \<open>
  The lifecycle invariant is kept by \<open>decide\<close>, branch by branch, and hence by every commit
  and in every state the kernel can reach.
\<close>

definition keeps :: "ProjectionState \<Rightarrow> Decision \<Rightarrow> bool" where
  "keeps st d \<longleftrightarrow> (\<forall>evs k i L'. d = Accept evs k i \<longrightarrow> views_of evs (life st) L' \<longrightarrow> life_ok L')"

lemma keeps_simps [simp]:
  "keeps st (Reject e)" "keeps st (Throw m)"
  "keeps st (Accept evs k i) \<longleftrightarrow> (\<forall>L'. views_of evs (life st) L' \<longrightarrow> life_ok L')"
  by (auto simp: keeps_def)

lemma keeps_quiet: "life_ok (life st) \<Longrightarrow> quiet evs \<Longrightarrow> keeps st (Accept evs k i)"
  by (auto dest: views_of_quiet)

section \<open>Registration\<close>

lemma keeps_quiet_commands:
  assumes inv: "life_ok (life st)"
  shows "keeps st (decide_source_revision_register sha st r)"
    and "keeps st (decide_program_create st p n)"
    and "keeps st (decide_workflow_register sha st w)"
    and "keeps st (decide_job_lease_renew st j ow tok dur now)"
  using inv
  by (auto simp: decide_source_revision_register_def decide_program_create_def
      decide_workflow_register_def decide_job_lease_renew_def Let_def
      simp del: keeps_simps(3) intro!: keeps_quiet split: option.splits)

lemma scan_events_quiet:
  "quiet (scan_events s) \<Longrightarrow> scan_driver_events job a s es = Inr s' \<Longrightarrow> quiet (scan_events s')"
proof (induction es arbitrary: s)
  case (Cons e es)
  have "quiet (scan_events (scan_one job a e s))"
    using Cons.prems(1) by (auto simp: scan_one_def Let_def approvalRecorded_def split: DriverEventBody.splits)
  with Cons show ?case by (auto split: if_splits)
qed simp

lemma keeps_driver_events:
  assumes inv: "life_ok (life st)"
  shows "keeps st (decide_driver_events_observe st p now)"
  using inv scan_events_quiet [of "scan_start _"]
  by (auto simp: decide_driver_events_observe_def scan_start_def simp del: keeps_simps(3)
      intro!: keeps_quiet split: option.splits sum.splits)

lemma keeps_terminal_receipt:
  assumes inv: "life_ok (life st)"
  shows "keeps st (decide_terminal_receipt_record sha st p now)"
  using inv
  by (auto simp: decide_terminal_receipt_record_def terminal_receipt_events_def Let_def
      simp del: keeps_simps(3) intro!: keeps_quiet split: option.splits)

lemma keeps_run_create:
  assumes inv: "life_ok (life st)"
  shows "keeps st (decide_run_create st r p w v)"
proof (cases "mhas (runs st) r")
  case False
  have "life_ok L'" if "views_of [event ST_run r (RunCreated r p w v)] (life st) L'" for L'
  proof -
    have R: "lf_run L' i = (if i = r then Some R_created else lf_run (life st) i)"
      and S: "lf_job L' i = lf_job (life st) i" "lf_att L' i = lf_att (life st) i"
        "lf_out L' i = lf_out (life st) i" "lf_ver L' i = lf_ver (life st) i" for i
      using that by (simp_all add: views_of_def)
    show ?thesis
    proof (rule life_ok_change_count [OF inv])
      show "linked L'" by (rule linked_cong [OF life_okD(1) [OF inv] S])
      show "\<exists>x. lf_job (life st) j = Some x \<and> job_change x x' \<and> jl_count x' \<le> jl_max x' \<and>
          (jl_status x' \<in> {J_blocked, J_ready, J_retry_wait} \<longrightarrow> jl_count x' < jl_max x')"
        if "lf_job L' j = Some x'" for j x'
        using that bounded_job [OF life_okD(5) [OF inv], of j x'] job_change_refl by (simp add: S)
      show "lf_job L' j \<noteq> None" if "lf_job (life st) j = Some x" for j x using that by (simp add: S)
      show "waiting L' j" if "waiting (life st) j" for j using that by (simp add: waiting_def S)
      show "open_run (lf_run (life st) i)" if "open_run (lf_run L' i)" for i
        using that by (auto simp: R open_run_def split: if_split_asm)
      show "\<exists>r. lf_run L' (jl_run x') = Some r \<and> r \<noteq> R_created \<and>
          (terminal_run r \<longrightarrow> terminal_job (jl_status x')) \<and>
          (r = R_succeeded \<longrightarrow> jl_status x' = J_succeeded) \<and> (jl_active x' \<noteq> None \<longrightarrow> r = R_running) \<and>
        (jl_status x' \<in> {J_failed, J_cancelled} \<longrightarrow> r \<in> {R_failed, R_cancelled})"
        if j: "lf_job L' j = Some x'" for j x'
      proof -
        have l: "lf_job (life st) j = Some x'" using j by (simp add: S)
        then have "jl_run x' \<noteq> r"
          using run_of_job [OF life_okD(6) [OF inv] l] False by (auto simp: life_sel mhas_def)
        with run_of_job [OF life_okD(6) [OF inv] l] show ?thesis by (simp add: R)
      qed
    qed
  qed
  then show ?thesis by (auto simp: decide_run_create_def)
qed (simp add: decide_run_create_def)

lemma keeps_run_cancel:
  assumes wk: "well_keyed st" and inv: "life_ok (life st)"
  shows "keeps st (decide_run_cancel sha st r reason)"
  using cancel_life_ok [OF wk inv]
  by (auto simp: decide_run_cancel_def cancellationForRun_Inr [OF wk] split: sum.splits)

section \<open>Leasing\<close>

lemma keeps_job_lease_acquire:
  assumes wk: "well_keyed st" and inv: "life_ok (life st)"
  shows "keeps st (decide_job_lease_acquire sha st p now)"
proof -
  have "life_ok L'" if job: "mget (jobs st) (jla_jobId p) = Some job"
    and ok: "job_claim_error st job p now = None"
    and evs: "views_of (job_claim_events st job p now) (life st) L'" for job L'
  proof -
    let ?L = "life st"
    have jid: "job_jobId job = jla_jobId p" using keyed_sel(1) [OF wk job] .
    have l: "lf_job ?L (jla_jobId p) = Some (job_life job)" using job by (simp add: life_sel)
    obtain run where run: "mget (runs st) (job_runId job) = Some run" "\<not> terminal_run (run_status run)"
      using ok by (auto simp: job_claim_error_def Let_def split: option.splits if_splits)
    have rid: "run_runId run = job_runId job" using keyed_sel(3) [OF wk run(1)] .
    have rl: "lf_run ?L (jl_run (job_life job)) = Some (run_status run)"
      using run(1) by (simp add: life_sel)
    show ?thesis
    proof (cases "resuming job")
      case True
      then have act: "job_status job = J_active" "job_activeAttemptId job \<noteq> None"
        by (auto simp: resuming_def)
      have "run_status run = R_running"
        using run_of_job [OF life_okD(6) [OF inv] l] rl act(2) by auto
      then show ?thesis
        using evs True run(1) jid by (intro resume_life_ok [OF inv l, where b = True])
          (use act in \<open>auto simp: views_of_def job_claim_events_def\<close>)
    next
      case False
      then have st: "job_status job = J_ready \<or> job_status job = J_retry_wait" "job_activeAttemptId job = None"
        and fr: "\<not> mhas (attempts st) (jla_attemptId p)" "\<not> mhas (outbox st) (jla_startOutboxId p)"
        using ok by (auto simp: job_claim_error_def Let_def split: if_splits)
      show ?thesis
        by (rule lease_life_ok [OF inv l _ _ rl run(2), where a = "jla_attemptId p" and oid = "jla_startOutboxId p"])
           (use evs False run(1) jid rid st fr l in \<open>auto simp: views_of_def job_claim_events_def life_sel
              mhas_def ol_new_def\<close>)
    qed
  qed
  then show ?thesis by (auto simp: decide_job_lease_acquire_def split: option.splits)
qed

lemma keeps_job_lease_release:
  assumes wk: "well_keyed st" and inv: "life_ok (life st)"
  shows "keeps st (decide_job_lease_release st j ow tok now)"
proof -
  have "life_ok L'" if job: "mget (jobs st) j = Some job" and v: "validateJobLease job ow tok now = None"
    and evs: "views_of [event ST_job (job_jobId job) (JobLeaseReleased (job_jobId job) (job_runId job) ow tok)]
        (life st) L'" for job L'
  proof -
    have l: "lf_job (life st) j = Some (job_life job)" using job by (simp add: life_sel)
    have jid: "job_jobId job = j" using keyed_sel(1) [OF wk job] .
    have act: "job_status job = J_active"
      using linked_owned [OF life_okD(2) [OF inv] l] v by (auto simp: validateJobLease_None)
    show ?thesis
      by (rule resume_life_ok [OF inv l, where b = False])
         (use evs jid act l in \<open>auto simp: views_of_def\<close>)
  qed
  then show ?thesis by (auto simp: decide_job_lease_release_def split: option.splits)
qed

section \<open>Ending attempts\<close>

lemma active_attempt_Inr:
  assumes wk: "well_keyed st" and a: "active_attempt st jid aid ow tok now = Inr (job, a)"
  shows "mget (jobs st) jid = Some job" "job_activeAttemptId job = Some aid"
    "mget (attempts st) aid = Some a"
  using a keyed_sel(2) [OF wk]
  by (auto simp: active_attempt_def split: option.splits if_splits)

lemma keeps_attempt_timeout:
  assumes wk: "well_keyed st" and inv: "life_ok (life st)"
  shows "keeps st (decide_attempt_timeout sha st j a ow tok now)"
proof (cases "active_attempt st j a ow tok now")
  case (Inr ja)
  obtain job att where "ja = (job, att)" by (cases ja)
  with Inr have act: "active_attempt st j a ow tok now = Inr (job, att)" by simp
  show ?thesis
    using failureTransition_life_ok [OF wk inv active_attempt_Inr [OF wk act], where pre = "[]"]
    by (simp add: decide_attempt_timeout_def act)
qed (simp add: decide_attempt_timeout_def)

lemma keeps_attempt_observe:
  assumes wk: "well_keyed st" and inv: "life_ok (life st)"
  shows "keeps st (decide_attempt_observe sha st p now)"
proof -
  have fin: "life_ok L'" if act: "active_attempt st (ao_jobId p) (ao_attemptId p) (ao_ownerId p) (ao_fencingToken p) now = Inr (job, a)"
    and evs: "views_of (attemptFinished job (att_attemptId a) A_succeeded TR_completed d # jobSuccessEvents st job)
       (life st) L'" and run: "att_status a = A_running" for job a d L'
  proof -
    note aa = active_attempt_Inr [OF wk act]
    have ids: "job_jobId job = ao_jobId p" "att_attemptId a = ao_attemptId p"
      using keyed_sel(1,2) [OF wk] aa by auto
    let ?pre = "[attemptFinished job (att_attemptId a) A_succeeded TR_completed d,
      event ST_job (job_jobId job) (JobSucceeded (job_jobId job) (job_runId job))]"
    have nw: "\<not> out_closed st ((=) (ao_attemptId p)) i" for i
    proof
      assume "out_closed st ((=) (ao_attemptId p)) i"
      then obtain b where b: "mget (outbox st) i = Some b" "undelivered_work (ao_attemptId p) b"
        by (auto simp: closed_one)
      then have o: "out_attemptId b = ao_attemptId p" by (simp add: undelivered_work_def)
      have "ol_attempt (outbox_life b) \<noteq> ao_attemptId p"
        by (rule work_of_running [OF inv, of _ "attempt_life a" i]) (use b o aa(3) run in \<open>simp_all add: life_sel\<close>)
      with o show False by simp
    qed
    have nv: "\<not> ver_closed st ((=) (ao_attemptId p)) v" for v
    proof
      assume "ver_closed st ((=) (ao_attemptId p)) v"
      then obtain w where w: "w \<in> set (mvalues (verifications st))" "ver_attemptId w = ao_attemptId p"
        "ver_status w = V_requested" by (auto simp: closed_one dest: open_request_mem)
      then have "mget (verifications st) (ver_verificationId w) = Some w"
        using keyed_vals(4) [OF wk] by blast
      then show False
        using linked_verification [OF life_okD(4) [OF inv], of "ver_verificationId w" "verification_life w"]
          w aa(3) run by (auto simp: life_sel)
    qed
    show ?thesis
    proof (rule success_life_ok [OF wk inv aa(1,2), where pre = ?pre])
      show "main_teardown st [] (ao_jobId p) J_succeeded (ao_attemptId p) A_succeeded (\<lambda>_. None) (\<lambda>_. None) ?pre"
        using succeeded_base [of st job "ao_attemptId p"] ids by simp
      show "views_of (?pre @ unblockEvents st job @ runSuccess st job) (life st) L'"
        using evs by (simp add: jobSuccessEvents_alt)
    qed (use nw nv in auto)
  qed
  show ?thesis
  proof (cases "active_attempt st (ao_jobId p) (ao_attemptId p) (ao_ownerId p) (ao_fencingToken p) now")
    case (Inr ja)
    obtain job a where ja: "ja = (job, a)" by (cases ja)
    with Inr have act: "active_attempt st (ao_jobId p) (ao_attemptId p) (ao_ownerId p) (ao_fencingToken p) now
        = Inr (job, a)" by simp
    note aa = active_attempt_Inr [OF wk act]
    have aid: "att_attemptId a = ao_attemptId p" using keyed_sel(2) [OF wk aa(3)] .
    show ?thesis
      using fin [OF act] failureTransition_life_ok [OF wk inv aa, where pre = "[]"]
        request_life_ok [OF wk inv aa(1,2,3), where pre = "[]"] aid
      by (auto simp: decide_attempt_observe_def observe_verification_def act
          simp del: jobSuccessEvents_def split: option.splits)
  qed (simp add: decide_attempt_observe_def)
qed

lemma receipt_evidence_quiet: "quiet (receipt_evidence_events sha st job a p)"
proof -
  have "quiet (approval_events st job aid r)" for aid r
    by (auto simp: quiet_def approval_events_def approvalRecorded_def split: if_splits)
  then show ?thesis
    by (auto simp: receipt_evidence_events_def Let_def candidate_events_def split: option.splits)
qed

lemma keeps_driver_receipt:
  assumes wk: "well_keyed st" and inv: "life_ok (life st)"
  shows "keeps st (decide_driver_receipt_record sha st p now)"
proof -
  have "life_ok L'" if job: "mget (jobs st) (drp_jobId p) = Some job" and a: "mget (attempts st) (drp_attemptId p) = Some a"
    and ok: "receipt_error sha st job a p = None" and out: "receipt_outcome_events sha st job a p now = Inr evs"
    and v: "views_of (receipt_evidence_events sha st job a p @ evs) (life st) L'" for job a evs L'
  proof -
    have aid: "att_attemptId a = drp_attemptId p" using keyed_sel(2) [OF wk a] .
    have act: "job_activeAttemptId job = Some (drp_attemptId p)" and run: "att_status a = A_running"
      using ok aid by (auto simp: receipt_error_def Let_def split: if_splits)
    note q = receipt_evidence_quiet [of sha st job a p]
    show ?thesis
      using out v failureTransition_life_ok [OF wk inv job act a q]
        nonretryable_life_ok [OF wk inv job act a run q]
        request_life_ok [OF wk inv job act a run q] aid
      by (auto simp: receipt_outcome_events_def Let_def split: if_splits option.splits)
  qed
  then show ?thesis
    by (auto simp: decide_driver_receipt_record_def split: option.splits sum.splits)
qed

section \<open>Verifications\<close>

lemma verification_context_Inr:
  assumes "verification_context st vid jid oid ow jt ot now = Inr (v, job, b)"
  shows "mget (verifications st) vid = Some v" "ver_status v = V_requested"
    "mget (jobs st) jid = Some job" "validateJobLease job ow jt now = None"
    "mget (outbox st) oid = Some b" "validateOutboxLease b ow ot now = None"
  using assms by (auto simp: verification_context_def split: option.splits if_splits)

lemma leased_work:
  assumes inv: "life_ok (life st)" and b: "mget (outbox st) oid = Some b" "validateOutboxLease b ow t now = None"
    and k: "\<not> is_agent_cancel (out_effect b)"
  shows "undelivered_work (out_attemptId b) b"
  using linked_message_owned [OF life_okD(3) [OF inv], of oid "outbox_life b"] b k
  by (simp add: life_sel validateOutboxLease_None undelivered_work_def)

lemma runs_verification_not_cancel: "runs_verification e v \<Longrightarrow> \<not> is_agent_cancel e"
  by (cases e) auto

lemma keeps_verification_complete:
  assumes wk: "well_keyed st" and inv: "life_ok (life st)"
  shows "keeps st (decide_verification_complete sha st p now)"
proof -
  have "life_ok L'" if ctx: "verification_context st (vcp_verificationId p) (vcp_jobId p) (vcp_outboxId p)
             (vcp_ownerId p) (vcp_jobFencingToken p) (vcp_outboxFencingToken p) now = Inr (v, job, b)"
    and a: "mget (attempts st) (vcp_attemptId p) = Some a" and act: "verification_active v job b a"
    and evs: "views_of (verification_events sha st job (att_attemptId a) b v p) (life st) L'" for v job b a L'
  proof -
    note c = verification_context_Inr [OF ctx]
    let ?aid = "vcp_attemptId p"
    have ids: "job_jobId job = vcp_jobId p" "att_attemptId a = ?aid" "out_outboxId b = vcp_outboxId p"
      "ver_verificationId v = vcp_verificationId p"
      using keyed_sel [OF wk] c a by auto
    have aj: "job_activeAttemptId job = Some ?aid" and ob: "out_attemptId b = ?aid"
      and va: "ver_attemptId v = ?aid" and nk: "\<not> is_agent_cancel (out_effect b)"
      using act ids runs_verification_not_cancel by (auto simp: verification_active_def)
    have w: "undelivered_work ?aid b" using leased_work [OF inv c(5,6) nk] ob by simp
    let ?Om = "\<lambda>i. if i = vcp_outboxId p then Some O_delivered else None"
    let ?Vm = "\<lambda>i. if i = vcp_verificationId p then Some (verification_status (vr_outcome (vcp_result p))) else None"
    have Om: "out_closed st ((=) ?aid) i \<Longrightarrow> ?Om i \<noteq> None" "?Om i = Some u \<Longrightarrow> \<not> undelivered u" for i u
      using own_message [OF inv c(5) ob w] by (auto split: if_splits)
    have Vm: "ver_closed st ((=) ?aid) i \<Longrightarrow> ?Vm i \<noteq> None" "?Vm i \<noteq> Some V_requested" for i
      using own_verification [OF wk inv c(1) va c(2)] by auto
    let ?d = "\<lparr>vrd_verificationId = ver_verificationId v, vrd_runId = job_runId job,
          vrd_jobId = job_jobId job, vrd_attemptId = ?aid,
          vrd_artifactManifestId = vcp_artifactManifestId p, vrd_status = vr_outcome (vcp_result p),
          vrd_result = vcp_result p, vrd_resultDigest = verificationResultDigest sha (vcp_result p),
          vrd_receiptDigest = expected_receipt_digest sha v p, vrd_exitCode = vr_exitCode (vcp_result p),
          vrd_failureReason = vr_failureReason (vcp_result p)\<rparr>"
    let ?head = "\<lambda>rest. event ST_artifact_manifest (vcp_artifactManifestId p)
         (ArtifactManifestRecorded (verifier_manifest sha job ?aid v p)) #
       event ST_verification (ver_verificationId v) (VerificationReceiptRecorded ?d) #
       event ST_outbox (vcp_outboxId p) (OutboxDelivered (vcp_outboxId p) (out_runId b)
         (expected_receipt_digest sha v p)) # rest"
    show ?thesis
    proof (cases "vr_outcome (vcp_result p) = VO_passed")
      case True
      let ?fin = "[attemptFinished job ?aid A_succeeded (verdict_reason VO_passed) (truthy (vr_failureReason (vcp_result p))),
        event ST_job (job_jobId job) (JobSucceeded (job_jobId job) (job_runId job))]"
      have m: "main_teardown st [] (vcp_jobId p) J_succeeded ?aid A_succeeded ?Om ?Vm (?head ?fin)"
        using complete_teardown [OF wk succeeded_base [of st job ?aid],
            where oid = "vcp_outboxId p" and d = ?d] ids by (simp cong: if_cong)
      show ?thesis
        by (rule success_life_ok [OF wk inv c(3) aj Om Vm m])
           (use evs True ids in \<open>simp_all add: verification_events_def jobSuccessEvents_alt Let_def\<close>)
    next
      case False
      let ?fin = "attemptFinished job ?aid A_failed (verdict_reason (vr_outcome (vcp_result p)))
          (truthy (vr_failureReason (vcp_result p))) # jobFailureEvents sha st job
          (case vr_failureReason (vcp_result p) of Some x \<Rightarrow> x
           | None \<Rightarrow> text_VerificationOutcome (vr_outcome (vcp_result p)))"
      have m: "main_teardown st (if True then otherLiveJobs st job else []) (vcp_jobId p)
          (if True then J_failed else J_retry_wait) ?aid A_failed ?Om ?Vm (?head ?fin)"
        using complete_teardown [OF wk failed_base [OF wk, of job ?aid A_failed],
            where oid = "vcp_outboxId p" and d = ?d] ids by (simp cong: if_cong)
      have r: "run_view (?head ?fin) i r = (if True \<and> i = job_runId job then map_option (\<lambda>_. R_failed) r else r)" for i r
        by (simp add: jobFailureEvents_views [OF wk])
      have e: "views_of (?head ?fin) (life st) L'"
        using evs False ids by (simp add: verification_events_def Let_def)
      show ?thesis
        by (rule failure_life_ok [OF wk inv c(3) aj _ _ Om Vm m e r]) simp_all
    qed
  qed
  then show ?thesis
    by (auto simp: decide_verification_complete_def Let_def split: sum.splits option.splits)
qed

lemma keeps_verification_fail:
  assumes wk: "well_keyed st" and inv: "life_ok (life st)"
  shows "keeps st (decide_verification_execution_fail sha st p now)"
proof -
  have "life_ok L'" if ctx: "verification_context st (vfp_verificationId p) (vfp_jobId p) (vfp_outboxId p)
             (vfp_ownerId p) (vfp_jobFencingToken p) (vfp_outboxFencingToken p) now = Inr (v, job, b)"
    and a: "mget (attempts st) (vfp_attemptId p) = Some a" and act: "verification_active v job b a"
    and evs: "views_of (event ST_outbox (out_outboxId b)
                   (OutboxObsoleted (out_outboxId b) (out_runId b) (text_TerminationReason TR_timed_out)) #
                 failureTransitionEvents sha st job a TR_timed_out now (Some (vfp_detail p))
                   (Some (out_outboxId b))) (life st) L'" for v job b a L'
  proof -
    note c = verification_context_Inr [OF ctx]
    have "job_activeAttemptId job = Some (vfp_attemptId p)"
      using act keyed_sel(2) [OF wk a] by (auto simp: verification_active_def)
    from failureTransition_decided_life_ok [OF wk inv c(3) this a _ _ _ _ _ _ _ evs, of O_obsolete]
    show ?thesis by simp
  qed
  then show ?thesis
    by (auto simp: decide_verification_execution_fail_def Let_def split: sum.splits option.splits)
qed

section \<open>Messages\<close>

lemma keeps_outbox_lease_acquire:
  assumes wk: "well_keyed st" and inv: "life_ok (life st)"
  shows "keeps st (decide_outbox_lease_acquire st oid ow dur now)"
proof -
  have "life_ok L'" if b: "mget (outbox st) oid = Some b" and c: "outbox_claimable b now"
    and evs: "views_of [event ST_outbox (out_outboxId b)
         (OutboxLeaseAcquired (out_outboxId b) (out_runId b) ow t e n)] (life st) L'" for b t e n L'
  proof -
    have i: "out_outboxId b = oid" using keyed_sel(4) [OF wk b] .
    show ?thesis
      by (rule message_life_ok [OF inv, where k = oid and f = "\<lambda>y. y\<lparr>ol_status := O_leased, ol_owned := True\<rparr>"])
         (use evs i b c in \<open>auto simp: views_of_def life_sel outbox_claimable_def\<close>)
  qed
  moreover have "life_ok L'" if b: "mget (outbox st) oid = Some b"
    and evs: "views_of [event ST_outbox (out_outboxId b)
         (OutboxObsoleted (out_outboxId b) (out_runId b) s)] (life st) L'" for b s L'
  proof -
    have i: "out_outboxId b = oid" using keyed_sel(4) [OF wk b] .
    show ?thesis
      by (rule message_life_ok [OF inv, where k = oid and f = "ol_close O_obsolete"])
         (use evs i b in \<open>auto simp: views_of_def\<close>)
  qed
  ultimately show ?thesis
    unfolding decide_outbox_lease_acquire_def by (simp split: option.splits)
qed

text \<open>
  A leased \<open>agent.start\<close> still has a starting attempt: the branch that asks for the
  cancellation of a late start is never taken.
\<close>

lemma leased_start:
  assumes inv: "life_ok (life st)" and b: "mget (outbox st) oid = Some b" "validateOutboxLease b ow t now = None"
    and k: "\<not> is_agent_cancel (out_effect b)"
  obtains a job where "mget (attempts st) (out_attemptId b) = Some a" "\<not> terminal_attempt (att_status a)"
    "mget (jobs st) (out_jobId b) = Some job" "job_activeAttemptId job = Some (out_attemptId b)"
    "att_status a = work_status (effect_kind (out_effect b))"
proof -
  have l: "lf_out (life st) oid = Some (outbox_life b)" using b(1) by (simp add: life_sel)
  have w: "work_message (outbox_life b)" using leased_work [OF inv b k] by simp
  obtain x y where x: "lf_job (life st) (out_jobId b) = Some x" "jl_active x = Some (out_attemptId b)"
    "lf_att (life st) (out_attemptId b) = Some y" "al_status y = work_status (effect_kind (out_effect b))"
    using linked_message [OF life_okD(3) [OF inv] l w] by auto
  have "live (al_status y)" using x(4) by (simp add: work_status_def split: EffectKind.splits)
  with x show ?thesis by (auto simp: life_sel intro: that)
qed

lemma started_events_running:
  assumes wk: "well_keyed st" and inv: "life_ok (life st)"
    and b: "mget (outbox st) oid = Some b" "validateOutboxLease b ow t now = None"
    and k: "is_agent_start (out_effect b)"
  shows "\<exists>job. mget (jobs st) (out_jobId b) = Some job \<and> started_events sha st b ext =
     [event ST_attempt (out_attemptId b) (AttemptRunning (out_attemptId b) (job_jobId job) (job_runId job) ext)]"
proof -
  have nk: "\<not> is_agent_cancel (out_effect b)" using k by (cases "out_effect b") auto
  obtain a job where a: "mget (attempts st) (out_attemptId b) = Some a" "\<not> terminal_attempt (att_status a)"
    "mget (jobs st) (out_jobId b) = Some job"
    using leased_start [OF inv b nk] by metis
  have "att_attemptId a = out_attemptId b" using keyed_sel(2) [OF wk a(1)] .
  with a show ?thesis by (simp add: started_events_def)
qed

lemma keeps_outbox_delivery_succeed:
  assumes wk: "well_keyed st" and inv: "life_ok (life st)"
  shows "keeps st (decide_outbox_delivery_succeed sha st oid ow t ext now)"
proof -
  have "life_ok L'" if b: "mget (outbox st) oid = Some b" "validateOutboxLease b ow t now = None"
    and evs: "views_of (event ST_outbox (out_outboxId b) (OutboxDelivered (out_outboxId b) (out_runId b) ext) #
              (if is_agent_start (out_effect b) then started_events sha st b ext else [])) (life st) L'" for b L'
  proof -
    have i: "out_outboxId b = oid" using keyed_sel(4) [OF wk b(1)] .
    have l: "lf_out (life st) oid = Some (outbox_life b)" using b(1) by (simp add: life_sel)
    show ?thesis
    proof (cases "is_agent_start (out_effect b)")
      case True
      obtain job where j: "mget (jobs st) (out_jobId b) = Some job" "started_events sha st b ext =
         [event ST_attempt (out_attemptId b) (AttemptRunning (out_attemptId b) (job_jobId job) (job_runId job) ext)]"
        using started_events_running [OF wk inv b True, of sha ext] by blast
      have nk: "\<not> is_agent_cancel (out_effect b)" using True by (cases "out_effect b") auto
      have kd: "ol_kind (outbox_life b) = EK_start" using True by (cases "out_effect b") auto
      have w: "work_message (outbox_life b)" using leased_work [OF inv b nk] by simp
      show ?thesis
        by (rule started_life_ok [OF inv l w kd]) (use evs True j i in \<open>auto simp: views_of_def al_close_update\<close>)
    next
      case False
      show ?thesis
        by (rule message_life_ok [OF inv, where k = oid and f = "ol_close O_delivered"])
           (use evs False i in \<open>auto simp: views_of_def\<close>)
    qed
  qed
  then show ?thesis
    by (auto simp: decide_outbox_delivery_succeed_def split: option.splits)
qed

lemma keeps_outbox_delivery_fail:
  assumes wk: "well_keyed st" and inv: "life_ok (life st)"
  shows "keeps st (decide_outbox_delivery_fail sha st oid ow t err now)"
proof -
  have "life_ok L'" if b: "mget (outbox st) oid = Some b" "validateOutboxLease b ow t now = None"
    and evs: "views_of (event ST_outbox (out_outboxId b)
                (OutboxDeliveryFailed (out_outboxId b) (out_runId b) at (dead_letter b) err) #
              (if dead_letter b \<and> \<not> is_agent_cancel (out_effect b)
               then dead_letter_events sha st b err now else [])) (life st) L'" for b at L'
  proof -
    have i: "out_outboxId b = oid" using keyed_sel(4) [OF wk b(1)] .
    show ?thesis
    proof (cases "dead_letter b \<and> \<not> is_agent_cancel (out_effect b)")
      case True
      obtain a job where a: "mget (attempts st) (out_attemptId b) = Some a" "\<not> terminal_attempt (att_status a)"
        "mget (jobs st) (out_jobId b) = Some job" "job_activeAttemptId job = Some (out_attemptId b)"
        using leased_start [OF inv b] True by metis
      have "views_of (event ST_outbox oid (OutboxDeliveryFailed oid (out_runId b) at True err) #
          failureTransitionEvents sha st job a TR_driver_error now (Some err) (Some oid)) (life st) L'"
        using evs True a i by (simp add: dead_letter_events_def)
      from failureTransition_decided_life_ok [OF wk inv a(3,4,1) _ _ _ _ _ _ _ this, of O_dead_letter]
      show ?thesis by simp
    next
      case False
      have lo: "out_status b = O_leased"
        using linked_message_owned [OF life_okD(3) [OF inv], of oid "outbox_life b"] b
        by (simp add: life_sel validateOutboxLease_None)
      show ?thesis
        by (rule message_life_ok [OF inv, where k = oid and
              f = "ol_close (if dead_letter b then O_dead_letter else O_pending)"])
           (use evs False i b lo in \<open>auto simp: views_of_def life_sel\<close>)
    qed
  qed
  then show ?thesis
    by (auto simp: decide_outbox_delivery_fail_def simp del: if_split split: option.splits)
qed

end
