(* ===== verification/Emits.thy ===== *)
theory Emits
  imports LifeKeeps
begin

text \<open>
  Which events a decision may contain: a property of every event of the shared lists, from
  what it is on the events they are made of. Used for the leases (no command but a claim
  raises a fencing token), for the origin of a job's success and for terminal entities.
\<close>

definition emits :: "(EventData \<Rightarrow> bool) \<Rightarrow> DomainEventInput list \<Rightarrow> bool" where
  "emits P evs \<longleftrightarrow> (\<forall>e\<in>set evs. P (ev_data e))"

lemma emits_simps [simp]:
  "emits P []"
  "emits P (e # es) \<longleftrightarrow> P (ev_data e) \<and> emits P es"
  "emits P (xs @ ys) \<longleftrightarrow> emits P xs \<and> emits P ys"
  by (auto simp: emits_def)

lemma emits_mono: "emits P evs \<Longrightarrow> (\<And>d. P d \<Longrightarrow> Q d) \<Longrightarrow> emits Q evs"
  by (simp add: emits_def)

definition accepts :: "(EventData \<Rightarrow> bool) \<Rightarrow> Decision \<Rightarrow> bool" where
  "accepts P d \<longleftrightarrow> (\<forall>evs k i. d = Accept evs k i \<longrightarrow> emits P evs)"

lemma accepts_simps [simp]:
  "accepts P (Reject e)"
  "accepts P (Throw x)"
  "accepts P (Accept evs k i) \<longleftrightarrow> emits P evs"
  by (auto simp: accepts_def)

lemma acceptsD: "accepts P d \<Longrightarrow> d = Accept evs k i \<Longrightarrow> emits P evs"
  by (simp add: accepts_def)

definition allows_teardown :: "ProjectionState \<Rightarrow> (EventData \<Rightarrow> bool) \<Rightarrow> bool" where
  "allows_teardown st P \<longleftrightarrow> (\<forall>d. P (AttemptFinished d)) \<and> (\<forall>a r s. P (AttemptCancelled a r s)) \<and>
     (\<forall>b r s. P (OutboxObsoleted b r s)) \<and> (\<forall>v r s. P (VerificationCancelled v r s)) \<and>
     (\<forall>d. \<not> mhas (outbox st) (oe_outboxId d) \<longrightarrow> P (OutboxEnqueued d)) \<and>
     (\<forall>j r t s. P (JobRetryScheduled j r t s)) \<and> (\<forall>j r s. P (JobFailed j r s)) \<and>
     (\<forall>j r s. P (JobCancelled j r s)) \<and> (\<forall>r s. P (RunFailed r s)) \<and> (\<forall>r s. P (RunCancelled r s))"

lemma emits_obsoleteOutbox: "allows_teardown st P \<Longrightarrow> emits P (obsoleteOutbox st aid ex reason)"
  by (auto simp: emits_def obsoleteOutbox_def allows_teardown_def)

lemma emits_cancelVerification:
  "allows_teardown st P \<Longrightarrow> emits P (cancelVerification st job aid reason)"
  by (auto simp: cancelVerification_def allows_teardown_def split: option.splits)

lemma emits_cancelEffect: "allows_teardown st P \<Longrightarrow> emits P (fst (cancelEffect sha st job a gen))"
  by (auto simp: cancelEffect_def Let_def allows_teardown_def split: option.splits)

lemma emits_cancellation:
  assumes "allows_teardown st P"
  shows "emits P (fst (cancellationEvents sha st k reason gen))"
  using assms emits_obsoleteOutbox [OF assms] emits_cancelVerification [OF assms]
    emits_cancelEffect [OF assms]
  by (cases "open_attempt st k") (simp_all add: cancellationEvents_alt allows_teardown_def)

lemma emits_cancelJobs: "allows_teardown st P \<Longrightarrow> emits P (cancelJobs sha st reason gen ks)"
proof (induction ks arbitrary: gen)
  case (Cons k ks)
  then show ?case unfolding cancelJobs_Cons by (simp add: emits_cancellation)
qed simp

lemma emits_jobFailure: "allows_teardown st P \<Longrightarrow> emits P (jobFailureEvents sha st job reason)"
  by (simp add: jobFailureEvents_def emits_cancelJobs) (simp add: allows_teardown_def)

lemma emits_timeoutCancel: "allows_teardown st P \<Longrightarrow> emits P (timeoutCancel sha st job a reason)"
  by (auto simp: timeoutCancel_def allows_teardown_def split: option.splits)

lemma emits_failureTransition:
  assumes "allows_teardown st P"
  shows "emits P (failureTransitionEvents sha st job a reason now detail ex)"
  using assms emits_obsoleteOutbox [OF assms] emits_cancelVerification [OF assms]
    emits_timeoutCancel [OF assms] emits_jobFailure [OF assms]
  by (simp add: failureTransitionEvents_def) (simp add: allows_teardown_def)

lemma emits_nonretryable:
  assumes "allows_teardown st P"
  shows "emits P (nonretryableDriverFailureEvents sha st job a reason detail)"
  using assms emits_jobFailure [OF assms]
  by (auto simp: nonretryableDriverFailureEvents_def allows_teardown_def emits_def)

lemma emits_cancellationForRun:
  assumes "allows_teardown st P" and "cancellationForRun sha st rid reason = Inr evs"
  shows "emits P evs"
  using assms emits_cancelJobs [OF assms(1)]
  by (auto simp: cancellationForRun_def emits_def allows_teardown_def split: option.splits if_splits)

lemma emits_jobSuccess:
  assumes "P (JobSucceeded (job_jobId job) (job_runId job))" and "\<And>j r. P (JobUnblocked j r)"
    and "\<And>r. P (RunSucceeded r)"
  shows "emits P (jobSuccessEvents st job)"
  using assms by (auto simp: jobSuccessEvents_def emits_def)

lemma emits_verificationRequest:
  assumes "\<And>a j r v. P (AttemptVerificationRequested a j r v)" and "\<And>q. P (VerificationRequested q)"
    and "\<And>d. oe_outboxId d = oid \<Longrightarrow> P (OutboxEnqueued d)"
  shows "emits P (verificationRequestEvents job aid run workflow vid oid source contract cd)"
  using assms by (simp add: verificationRequestEvents_def)

lemma emits_scan:
  "scan_driver_events job a s es = Inr s' \<Longrightarrow> emits P (scan_events s) \<Longrightarrow>
     (\<And>q. P (ApprovalRequestRecorded q)) \<Longrightarrow> emits P (scan_events s')"
  by (induction es arbitrary: s)
     (auto simp: scan_one_def Let_def approvalRecorded_def split: if_splits DriverEventBody.splits)

lemma emits_receipt_evidence:
  assumes "\<And>r. P (SourceRevisionRegistered r)" and "\<And>m. P (ArtifactManifestRecorded m)"
    and "\<And>r. P (DriverReceiptRecorded r)" and "\<And>q. P (ApprovalRequestRecorded q)"
  shows "emits P (receipt_evidence_events sha st job a p)"
  using assms
  by (auto simp: receipt_evidence_events_def Let_def candidate_events_def approval_events_def
      approvalRecorded_def emits_def split: option.splits)

section \<open>Events that claim nothing\<close>

text \<open>
  An event claims something when it registers a workflow, compiles a context packet, schedules
  a job or acquires a lease; only four commands emit such events. A tame event claims nothing and enqueues only
  under a free identifier.
\<close>

fun claims :: "EventData \<Rightarrow> bool" where
  "claims (WorkflowDefinitionRegistered _ _) = True"
| "claims (JobScheduled _) = True"
| "claims (JobLeaseAcquired _ _ _ _ _ _) = True"
| "claims (OutboxLeaseAcquired _ _ _ _ _ _) = True"
| "claims (ContextPacketCompiled _ _) = True"
| "claims _ = False"

fun succeeds :: "EventData \<Rightarrow> bool" where
  "succeeds (JobSucceeded _ _) = True"
| "succeeds (JobScheduled d) = (js_initialStatus d = J_succeeded)"
| "succeeds _ = False"

definition tame :: "ProjectionState \<Rightarrow> EventData \<Rightarrow> bool" where
  "tame st d \<longleftrightarrow> \<not> claims d \<and> (\<forall>x. d = OutboxEnqueued x \<longrightarrow> \<not> mhas (outbox st) (oe_outboxId x))"

text \<open>A plain event is tame and lets no job succeed; all but six commands emit only such events.\<close>

definition plain :: "ProjectionState \<Rightarrow> EventData \<Rightarrow> bool" where
  "plain st d \<longleftrightarrow> tame st d \<and> \<not> succeeds d"

lemmas plain_defs = plain_def tame_def

lemma plain_tame: "accepts (plain st) d \<Longrightarrow> accepts (tame st) d"
  by (auto simp: accepts_def emits_def plain_def)

lemma teardown_allowed: "allows_teardown st (plain st)" "allows_teardown st (tame st)"
  by (simp_all add: allows_teardown_def plain_defs)

lemmas plain_emits = emits_failureTransition [OF teardown_allowed(1)] emits_nonretryable [OF teardown_allowed(1)]
  emits_jobFailure [OF teardown_allowed(1)] emits_cancellationForRun [OF teardown_allowed(1)]

lemmas tame_emits = emits_failureTransition [OF teardown_allowed(2)] emits_jobFailure [OF teardown_allowed(2)]

lemma tame_success: "emits (tame st) (jobSuccessEvents st' job)"
  by (rule emits_jobSuccess) (simp_all add: tame_def)

text \<open>
  \<open>driver.receipt.record\<close> is the one command that does not check that the message it enqueues
  is new.
\<close>

fun enqueues_fresh :: "ProjectionState \<Rightarrow> CommandBody \<Rightarrow> bool" where
  "enqueues_fresh st (Cmd_driver_receipt_record p) =
     (\<forall>oid. drp_verificationOutboxId p = Some oid \<longrightarrow> \<not> mhas (outbox st) oid)"
| "enqueues_fresh st _ = True"

lemma plain_registration:
  "accepts (plain st) (decide_source_revision_register sha st r)"
  "accepts (plain st) (decide_program_create st pid name)"
  "accepts (plain st) (decide_run_create st rid pid wid wv)"
  "accepts (plain st) (decide_job_lease_renew st jid owner token duration now)"
  "accepts (plain st) (decide_job_lease_release st jid owner token now)"
  by (auto simp: decide_source_revision_register_def decide_program_create_def
      decide_run_create_def decide_job_lease_renew_def
      decide_job_lease_release_def Let_def plain_defs split: option.splits)

lemma plain_run_cancel: "accepts (plain st) (decide_run_cancel sha st rid reason)"
  by (auto simp: decide_run_cancel_def intro: plain_emits split: sum.splits)

lemma plain_scan:
  "scan_driver_events job a (scan_start a) es = Inr s' \<Longrightarrow> emits (plain st) (scan_events s')"
  by (erule emits_scan) (simp_all add: scan_start_def plain_defs)

lemma plain_driver_events: "accepts (plain st) (decide_driver_events_observe st p now)"
  by (auto simp: decide_driver_events_observe_def dest: plain_scan split: option.splits sum.splits)
     (simp_all add: plain_defs)

lemma plain_terminal_receipt: "accepts (plain st) (decide_terminal_receipt_record sha st p now)"
  by (auto simp: decide_terminal_receipt_record_def terminal_receipt_events_def Let_def plain_defs
      split: option.splits)

lemma plain_timeout: "accepts (plain st) (decide_attempt_timeout sha st j a w t now)"
  by (auto simp: decide_attempt_timeout_def plain_emits split: sum.splits option.splits)

lemma plain_verification_fail: "accepts (plain st) (decide_verification_execution_fail sha st p now)"
  by (auto simp: decide_verification_execution_fail_def Let_def plain_emits
      split: sum.splits option.splits) (simp_all add: plain_defs)

lemma plain_delivery:
  "accepts (plain st) (decide_outbox_delivery_succeed sha st b w t ext now)"
  "accepts (plain st) (decide_outbox_delivery_fail sha st b w t err now)"
  by (auto simp: decide_outbox_delivery_succeed_def decide_outbox_delivery_fail_def started_events_def
      dead_letter_events_def plain_emits split: option.splits) (simp_all add: plain_defs)

text \<open>What a driver receipt emits, if the message it may enqueue is allowed.\<close>

lemma emits_driver_receipt:
  assumes "decide_driver_receipt_record sha st p now = Accept evs k n"
    and t: "allows_teardown st P" and P: "\<And>d. \<not> claims d \<Longrightarrow> \<not> succeeds d \<Longrightarrow> (\<And>x. d \<noteq> OutboxEnqueued x) \<Longrightarrow> P d"
    and o: "\<And>x. Some (oe_outboxId x) = drp_verificationOutboxId p \<Longrightarrow> P (OutboxEnqueued x)"
  shows "emits P evs"
proof -
  have "emits P evs'" if "receipt_outcome_events sha st job a p now = Inr evs'" for job a evs'
    using that
    by (auto simp: receipt_outcome_events_def Let_def emits_failureTransition [OF t] emits_nonretryable [OF t]
        P o split: if_splits option.splits intro!: emits_verificationRequest)
  moreover have "emits P (receipt_evidence_events sha st job a p)" for job a
    by (rule emits_receipt_evidence) (simp_all add: P)
  ultimately show ?thesis
    using assms(1) by (auto simp: decide_driver_receipt_record_def split: option.splits sum.splits)
qed

lemma plain_driver_receipt:
  assumes "enqueues_fresh st (Cmd_driver_receipt_record p)"
  shows "accepts (plain st) (decide_driver_receipt_record sha st p now)"
  using assms emits_driver_receipt [OF _ teardown_allowed(1)]
  by (fastforce simp: accepts_def plain_defs)

lemmas plain_branches = plain_registration plain_run_cancel plain_driver_events plain_terminal_receipt
  plain_timeout plain_verification_fail plain_delivery

text \<open>The two commands that may let a job succeed.\<close>

lemma tame_observe: "accepts (tame st) (decide_attempt_observe sha st p now)"
  by (auto simp: decide_attempt_observe_def observe_verification_def tame_emits tame_success
      split: sum.splits option.splits intro!: emits_verificationRequest) (simp_all add: tame_def)

lemma tame_verification_complete: "accepts (tame st) (decide_verification_complete sha st p now)"
  by (auto simp: decide_verification_complete_def verification_events_def Let_def tame_emits
      tame_success split: sum.splits option.splits) (simp_all add: tame_def)

lemmas tame_branches = plain_branches [THEN plain_tame] tame_observe tame_verification_complete

lemma tame_decide:
  assumes "decide_body sha st now body = Accept evs k n" and "enqueues_fresh st body"
  shows "emits (tame st) evs \<or>
     (\<exists>w. body = Cmd_workflow_register w \<and> decide_workflow_register sha st w = Accept evs k n) \<or>
     (\<exists>rid js. body = Cmd_run_schedule rid js \<and> decide_run_schedule sha st rid js = Accept evs k n) \<or>
     (\<exists>p. body = Cmd_job_lease_acquire p \<and> decide_job_lease_acquire sha st p now = Accept evs k n) \<or>
     (\<exists>b w d. body = Cmd_outbox_lease_acquire b w d \<and>
        decide_outbox_lease_acquire st b w d now = Accept evs k n)"
  using assms
  by (cases body) (auto dest: tame_branches [THEN acceptsD] plain_driver_receipt [THEN plain_tame, simplified, THEN acceptsD])

text \<open>A driver receipt claims nothing even where it reuses a message's identifier.\<close>

lemma claimless_receipt:
  assumes "decide_driver_receipt_record sha st p now = Accept evs k n"
  shows "emits (\<lambda>d. \<not> claims d \<and> \<not> succeeds d) evs"
  using assms by (rule emits_driver_receipt) (simp_all add: allows_teardown_def)

lemma tame_claimless: "emits (tame st) evs \<Longrightarrow> emits (\<lambda>d. \<not> claims d) evs"
  by (auto simp: emits_def tame_def)

lemma claimless_decide:
  assumes "decide_body sha st now body = Accept evs k n"
  shows "emits (\<lambda>d. \<not> claims d) evs \<or>
     (\<exists>w. body = Cmd_workflow_register w \<and> decide_workflow_register sha st w = Accept evs k n) \<or>
     (\<exists>rid js. body = Cmd_run_schedule rid js \<and> decide_run_schedule sha st rid js = Accept evs k n) \<or>
     (\<exists>p. body = Cmd_job_lease_acquire p \<and> decide_job_lease_acquire sha st p now = Accept evs k n) \<or>
     (\<exists>b w d. body = Cmd_outbox_lease_acquire b w d \<and>
        decide_outbox_lease_acquire st b w d now = Accept evs k n)"
proof (cases "enqueues_fresh st body")
  case True
  with tame_decide [OF assms True] show ?thesis by (blast dest: tame_claimless)
next
  case False
  then obtain p where "body = Cmd_driver_receipt_record p" by (cases body) auto
  then show ?thesis using assms claimless_receipt [of sha st p now evs k n] by (simp add: emits_def)
qed

text \<open>Only two commands may let a job succeed.\<close>

lemma successless_decide:
  assumes "decide_body sha st now body = Accept evs k n"
  shows "emits (\<lambda>d. \<not> succeeds d) evs \<or>
     (\<exists>p. body = Cmd_attempt_observe p \<and> decide_attempt_observe sha st p now = Accept evs k n) \<or>
     (\<exists>p. body = Cmd_verification_complete p \<and> decide_verification_complete sha st p now = Accept evs k n)"
proof -
  have p: "emits (\<lambda>d. \<not> succeeds d) evs" if "emits (plain st) evs"
    using that by (auto simp: emits_def plain_def)
  have s: "emits (\<lambda>d. \<not> succeeds d) evs'" if "schedule_events sha rid m ss = Inr evs'" for rid m ss evs'
    using that by (induction ss arbitrary: evs') (auto simp: scheduled_data_def split: option.splits sum.splits)
  have r: "emits (\<lambda>d. \<not> succeeds d) evs" if "decide_driver_receipt_record sha st q now = Accept evs k n" for q
    using claimless_receipt [OF that] by (simp add: emits_def)
  show ?thesis
    using assms p r
    by (cases body) (auto dest: plain_branches [THEN acceptsD] s
        simp: decide_workflow_register_def decide_run_schedule_def decide_job_lease_acquire_def
        job_claim_events_def decide_outbox_lease_acquire_def Let_def
        split: if_splits option.splits sum.splits)
qed

text \<open>What the events of a decision keep, its commit keeps.\<close>

lemma commits_keep:
  assumes c: "commits sha st c now st'" and inv: "I st"
    and d: "\<And>evs k n. decide_body sha st now (cmd_body c) = Accept evs k n \<Longrightarrow> emits P evs"
    and step: "\<And>s e s'. I s \<Longrightarrow> evolve sha s e = Inr s' \<Longrightarrow> P (ev_data e) \<Longrightarrow> I s'"
  shows "I st'"
proof -
  obtain evs k i es where a: "decide_body sha st now (cmd_body c) = Accept evs k i"
    and es: "stamped now evs es" "try_fold (evolve sha) st es = Inr st'"
    using c by (auto simp: commits_def decide_def)
  have "P (ev_data e)" if "e \<in> set es" for e
  proof -
    have "DomainEventInput.truncate e \<in> set evs" using es(1) that by (auto simp: stamped_def)
    with d [OF a] show ?thesis by (auto simp: emits_def DomainEventInput.defs)
  qed
  with es(2) inv show ?thesis
    by (induction es arbitrary: st) (auto split: sum.splits dest: step)
qed

end
