(* ===== verification/WorkflowCheck.thy ===== *)
theory WorkflowCheck
  imports Graph Schema
begin

text \<open>
  The graph check of workflow definitions (packages/kernel/src/schema.ts,
  \<open>validateWorkflowGraph\<close> and the refinement of version 3): the issues in the order the code
  adds them, and what a definition without issues is.
\<close>

section \<open>The issues\<close>

definition insertion_set :: "'a list \<Rightarrow> 'a list" where
  "insertion_set xs = rev (remdups (rev xs))"

lemma set_insertion_set [simp]: "set (insertion_set xs) = set xs"
  by (simp add: insertion_set_def)

fun duplicate_issues :: "string list \<Rightarrow> string list \<Rightarrow> string list" where
  "duplicate_issues stepIds [] = []"
| "duplicate_issues stepIds (i # is) =
     (if i \<in> set stepIds then [''Duplicate workflow step id: '' @ i] else []) @
     duplicate_issues (i # stepIds) is"

definition dependency_issues :: "string list \<Rightarrow> WorkflowStep \<Rightarrow> string list" where
  "dependency_issues stepIds step = concat (map (\<lambda>d.
     (if d \<notin> set stepIds then [''Unknown workflow dependency: '' @ d] else []) @
     (if d = ws_id step then [''A workflow step cannot depend on itself''] else []))
     (ws_dependsOn step))"

definition validateWorkflowGraph :: "WorkflowStep list \<Rightarrow> string list" where
  "validateWorkflowGraph steps =
     (let stepIds = insertion_set (map ws_id steps);
          dependencies = map_from ws_id ws_dependsOn steps
      in duplicate_issues [] (map ws_id steps) @
         concat (map (dependency_issues stepIds) steps) @
         (if fst (visit_any dependencies [] [] stepIds)
          then [''Workflow dependencies must form an acyclic graph''] else []))"

text \<open>A version 3 step carries no context identity before a generation is scheduled.\<close>

definition context_unbound :: "WorkflowStep \<Rightarrow> bool" where
  "context_unbound step \<longleftrightarrow>
     (case ws_execution step of Some (ContractV2 _ _ cid cdig) \<Rightarrow> cid = None \<and> cdig = None | _ \<Rightarrow> True) \<and>
     (case ws_capabilities step of Some (ManifestV2 _ cid cdig) \<Rightarrow> cid = None \<and> cdig = None | _ \<Rightarrow> True)"

definition workflow_issues :: "WorkflowDefinition \<Rightarrow> string list" where
  "workflow_issues w = validateWorkflowGraph (wd_steps w) @
     (if wd_schemaVersion w = Some 3
      then map (\<lambda>_. ''Workflow V3 context identity is bound only when a generation is scheduled'')
             (filter (\<lambda>s. \<not> context_unbound s) (wd_steps w))
      else [])"

text \<open>What the schema accepts: at least one step, and no issue.\<close>

definition workflow_valid :: "WorkflowDefinition \<Rightarrow> bool" where
  "workflow_valid w \<longleftrightarrow> wd_steps w \<noteq> [] \<and> workflow_issues w = []"

section \<open>What a workflow without issues is\<close>

lemma duplicate_issues_none: "duplicate_issues seen is = [] \<longleftrightarrow> distinct is \<and> set seen \<inter> set is = {}"
  by (induction "is" arbitrary: seen) auto

lemma dependency_issues_none:
  "dependency_issues stepIds step = [] \<longleftrightarrow> set (ws_dependsOn step) \<subseteq> set stepIds - {ws_id step}"
  by (auto simp: dependency_issues_def)

definition step_order :: "WorkflowStep list \<Rightarrow> (string \<times> string) set" where
  "step_order steps = {(ws_id s, d) | s d. s \<in> set steps \<and> d \<in> set (ws_dependsOn s)}"

lemma depends_steps:
  assumes "distinct (map ws_id steps)"
  shows "depends (map_from ws_id ws_dependsOn steps) = step_order steps"
proof -
  note get = map_from_get [OF assms, of ws_dependsOn]
  have "d \<in> set (deps_of (map_from ws_id ws_dependsOn steps) i) \<longleftrightarrow>
      (\<exists>s\<in>set steps. ws_id s = i \<and> d \<in> set (ws_dependsOn s))" for i d
  proof (cases "mget (map_from ws_id ws_dependsOn steps) i")
    case None
    then have "\<forall>s\<in>set steps. ws_id s \<noteq> i" using get by (metis option.distinct(1))
    then show ?thesis by (auto simp: deps_of_def None)
  next
    case (Some ds)
    then obtain s where s: "s \<in> set steps" "ws_id s = i" "ws_dependsOn s = ds" using get by blast
    have same: "ws_dependsOn t = ds" if "t \<in> set steps" "ws_id t = i" for t
      using get that Some by (metis option.inject)
    have "deps_of (map_from ws_id ws_dependsOn steps) i = ds" by (simp add: deps_of_def Some)
    then show ?thesis using s same by metis
  qed
  then show ?thesis by (auto simp: depends_def step_order_def)
qed

lemma validateWorkflowGraph_none:
  "validateWorkflowGraph steps = [] \<longleftrightarrow> distinct (map ws_id steps) \<and>
     Range (step_order steps) \<subseteq> ws_id ` set steps \<and> acyclic (step_order steps)"
proof (cases "distinct (map ws_id steps)")
  case True
  have v: "fst (visit_any (map_from ws_id ws_dependsOn steps) [] [] (insertion_set (map ws_id steps))) \<longleftrightarrow>
      \<not> acyclic (step_order steps)"
    using visit_any_acyclic [of "map_from ws_id ws_dependsOn steps" "insertion_set (map ws_id steps)"]
    unfolding depends_steps [OF True] map_from_keys by simp
  have r: "Range (step_order steps) \<subseteq> ws_id ` set steps \<longleftrightarrow>
      (\<forall>s\<in>set steps. set (ws_dependsOn s) \<subseteq> ws_id ` set steps)"
    by (auto simp: step_order_def Range_iff subset_iff)
  have self: "ws_id s \<notin> set (ws_dependsOn s)" if "acyclic (step_order steps)" "s \<in> set steps" for s
    using that by (auto simp: step_order_def acyclic_def dest: spec [of _ "ws_id s"])
  have d: "concat (map (dependency_issues (insertion_set (map ws_id steps))) steps) = [] \<longleftrightarrow>
      (\<forall>s\<in>set steps. set (ws_dependsOn s) \<subseteq> ws_id ` set steps - {ws_id s})"
    by (simp add: dependency_issues_none)
  show ?thesis
    unfolding r validateWorkflowGraph_def Let_def append_is_Nil_conv d
    using True v self by (auto simp: duplicate_issues_none)
qed (simp add: validateWorkflowGraph_def Let_def duplicate_issues_none)

text \<open>
  C24. A workflow passes the graph check exactly when its step identifiers are distinct, every
  dependency is one of them, and the dependency relation has no cycle: the depth-first
  search with its two sets, and the checks around it, decide acyclicity.
\<close>

theorem validateWorkflowGraph_exact:
  "validateWorkflowGraph steps = [] \<longleftrightarrow> distinct (map ws_id steps) \<and>
     Range (step_order steps) \<subseteq> ws_id ` set steps \<and> acyclic (step_order steps)"
  by (rule validateWorkflowGraph_none)

end
