(* ===== verification/LifeSchedule.thy ===== *)
theory LifeSchedule
  imports Emits WorkflowCheck
begin

text \<open>
  Scheduling a run creates its jobs with their dependencies in place; with it every branch of
  \<open>decide\<close> keeps the lifecycle invariant, and so does every commit.
\<close>

section \<open>The jobs of a schedule\<close>

lemma byStep_get:
  "mget (fold (\<lambda>j m. mput (rsj_stepId j) j m) js m) k = Some job \<Longrightarrow>
     mget m k = Some job \<or> (job \<in> set js \<and> rsj_stepId job = k)"
proof (induction js arbitrary: m)
  case (Cons a js)
  from Cons.IH [of "mput (rsj_stepId a) a m"] Cons.prems show ?case by (auto split: if_splits)
qed simp

lemma byStep_Some: "mget (byStep js) k = Some job \<Longrightarrow> job \<in> set js \<and> rsj_stepId job = k"
  using byStep_get [of js "[]" k job] by (simp add: byStep_def)

lemma dependency_jobs_Inr:
  "dependency_jobs m ds = Inr deps \<Longrightarrow>
     (ds = [] \<longleftrightarrow> deps = []) \<and> (\<forall>d\<in>set deps. \<exists>s job. s \<in> set ds \<and> mget m s = Some job \<and> rsj_jobId job = d)"
proof (induction ds arbitrary: deps)
  case (Cons a ds)
  then obtain j js where j: "mget m a = Some j" "dependency_jobs m ds = Inr js" "deps = rsj_jobId j # js"
    by (auto split: option.splits sum.splits)
  from Cons.IH [OF j(2)] j(1,3) show ?case by fastforce
qed simp

lemma schedule_events_Cons:
  "schedule_events sha rid m (s # ss) = Inr evs \<longleftrightarrow>
     (\<exists>job deps evs'. mget m (ws_id s) = Some job \<and> dependency_jobs m (ws_dependsOn s) = Inr deps \<and>
        schedule_events sha rid m ss = Inr evs' \<and>
        evs = event ST_job (rsj_jobId job) (JobScheduled (scheduled_data sha rid job s deps)) # evs')"
  by (auto split: option.splits sum.splits)

lemma schedule_events_mem:
  "schedule_events sha rid m ss = Inr evs \<Longrightarrow> e \<in> set evs \<Longrightarrow>
     \<exists>s job deps. s \<in> set ss \<and> mget m (ws_id s) = Some job \<and> dependency_jobs m (ws_dependsOn s) = Inr deps \<and>
       ev_data e = JobScheduled (scheduled_data sha rid job s deps)"
proof (induction ss arbitrary: evs)
  case (Cons s ss)
  then obtain job deps evs' where c: "mget m (ws_id s) = Some job"
    "dependency_jobs m (ws_dependsOn s) = Inr deps" "schedule_events sha rid m ss = Inr evs'"
    "evs = event ST_job (rsj_jobId job) (JobScheduled (scheduled_data sha rid job s deps)) # evs'"
    unfolding schedule_events_Cons by blast
  show ?case
  proof (cases "e \<in> set evs'")
    case True
    from Cons.IH [OF c(3) True] show ?thesis by fastforce
  next
    case False
    then have "ev_data e = JobScheduled (scheduled_data sha rid job s deps)"
      using Cons.prems(2) c(4) by simp
    with c(1,2) show ?thesis by auto
  qed
qed simp

lemma schedule_events_all:
  "schedule_events sha rid m ss = Inr evs \<Longrightarrow> s \<in> set ss \<Longrightarrow>
     \<exists>e d job. e \<in> set evs \<and> ev_data e = JobScheduled d \<and> mget m (ws_id s) = Some job \<and> js_jobId d = rsj_jobId job"
proof (induction ss arbitrary: evs)
  case (Cons a ss)
  then obtain job deps evs' where c: "mget m (ws_id a) = Some job"
    "dependency_jobs m (ws_dependsOn a) = Inr deps" "schedule_events sha rid m ss = Inr evs'"
    "evs = event ST_job (rsj_jobId job) (JobScheduled (scheduled_data sha rid job a deps)) # evs'"
    unfolding schedule_events_Cons by blast
  show ?case
  proof (cases "s = a")
    case True
    with c show ?thesis by (auto simp: scheduled_data_def)
  next
    case False
    then have "s \<in> set ss" using Cons.prems(2) by simp
    from Cons.IH [OF c(3) this] c(4) show ?thesis by auto
  qed
qed simp

definition only_schedules :: "DomainEventInput list \<Rightarrow> bool" where
  "only_schedules evs \<longleftrightarrow> (\<forall>e\<in>set evs. \<exists>d. ev_data e = JobScheduled d)"

lemma only_schedules_views:
  assumes "only_schedules evs"
  shows "run_view evs i r = r" "att_view evs i y = y" "out_view evs i b = b" "ver_view evs i w = w"
  using assms unfolding view_defs only_schedules_def by (auto intro!: fold_quiet)

lemma only_schedules_job:
  "only_schedules evs \<Longrightarrow> job_view evs i x = (case job_view evs i None of None \<Rightarrow> x | Some y \<Rightarrow> Some y)"
proof (induction evs arbitrary: x)
  case (Cons e es)
  then obtain d where d: "ev_data e = JobScheduled d" "only_schedules es"
    by (auto simp: only_schedules_def)
  show ?case
    using Cons.IH [OF d(2), of x] Cons.IH [OF d(2), of "Some (jl_new d)"] d(1)
    by (auto split: option.splits)
qed simp

lemma only_schedules_new:
  "only_schedules evs \<Longrightarrow> job_view evs i None = Some y \<Longrightarrow>
     \<exists>e d. e \<in> set evs \<and> ev_data e = JobScheduled d \<and> js_jobId d = i \<and> y = jl_new d"
proof (induction evs rule: rev_induct)
  case (snoc e es)
  then show ?case by (fastforce simp: only_schedules_def split: if_splits)
qed simp

lemma only_schedules_has:
  "only_schedules evs \<Longrightarrow> e \<in> set evs \<Longrightarrow> ev_data e = JobScheduled d \<Longrightarrow>
     job_view evs (js_jobId d) None \<noteq> None"
proof (induction evs rule: rev_induct)
  case (snoc e' es)
  then show ?case by (auto simp: only_schedules_def split: if_splits)
qed simp

lemma schedule_matches_steps:
  assumes "schedule_matches st w js" and "job \<in> set js"
  shows "\<exists>s\<in>set (wd_steps w). ws_id s = rsj_stepId job"
proof -
  let ?S = "set (map rsj_stepId js)" and ?E = "set (map ws_id (wd_steps w))"
  have "?E \<subseteq> ?S" "card ?S = card ?E"
    using assms(1) by (auto simp: schedule_matches_def Let_def list_all_iff length_remdups_card_conv)
  then have "?E = ?S" by (intro card_subset_eq) auto
  with assms(2) show ?thesis by (metis (mono_tags, lifting) image_eqI image_iff list.set_map)
qed

lemma schedule_matches_fresh:
  "schedule_matches st w js \<Longrightarrow> job \<in> set js \<Longrightarrow> \<not> mhas (jobs st) (rsj_jobId job)"
  by (auto simp: schedule_matches_def Let_def list_all_iff)

text \<open>A dependency between scheduled jobs comes from one between their steps.\<close>

lemma schedule_edges:
  assumes s: "schedule_events sha rid (byStep js) ss = Inr evs" and e: "e \<in> set evs"
    and D: "ev_data e = JobScheduled D" and d: "d \<in> set (js_dependencyJobIds D)"
  shows "\<exists>s job job'. s \<in> set ss \<and> job \<in> set js \<and> job' \<in> set js \<and> js_jobId D = rsj_jobId job \<and>
     rsj_stepId job = ws_id s \<and> d = rsj_jobId job' \<and> rsj_stepId job' \<in> set (ws_dependsOn s)"
proof -
  obtain st job deps where j: "st \<in> set ss" "mget (byStep js) (ws_id st) = Some job"
    "dependency_jobs (byStep js) (ws_dependsOn st) = Inr deps" "D = scheduled_data sha rid job st deps"
    using schedule_events_mem [OF s e] D by auto
  then have "d \<in> set deps" using d by (simp add: scheduled_data_def)
  then obtain k job' where "k \<in> set (ws_dependsOn st)" "mget (byStep js) k = Some job'" "rsj_jobId job' = d"
    using dependency_jobs_Inr [OF j(3)] by blast
  with j byStep_Some [of js] show ?thesis by (fastforce simp: scheduled_data_def)
qed

definition step_of :: "RunScheduleJob list \<Rightarrow> uuid \<Rightarrow> string" where
  "step_of js i = the (map_of (map (\<lambda>j. (rsj_jobId j, rsj_stepId j)) js) i)"

lemma step_of_job:
  assumes "schedule_matches st w js" and "job \<in> set js"
  shows "step_of js (rsj_jobId job) = rsj_stepId job"
proof -
  have "distinct (map rsj_jobId js)"
    using assms(1) by (simp add: schedule_matches_def Let_def) (metis length_map length_remdups_eq remdups_id_iff_distinct)
  then have "map_of (map (\<lambda>j. (rsj_jobId j, rsj_stepId j)) js) (rsj_jobId job) = Some (rsj_stepId job)"
    using assms(2) by (intro map_of_is_SomeI) (auto simp: comp_def)
  then show ?thesis by (simp add: step_of_def)
qed

text \<open>What the command schemas guarantee of policies and of workflow graphs.\<close>

fun command_wf :: "CommandBody \<Rightarrow> bool" where
  "command_wf (Cmd_workflow_register w) = workflow_valid w"
| "command_wf (Cmd_run_schedule _ js) = list_all (\<lambda>j. job_policy_valid (rsj_policy j)) js"
| "command_wf _ = True"

lemma schedule_life_ok:
  assumes inv: "life_ok (life st)" and run: "mget (runs st) rid = Some run" "run_status run = R_created"
    and w: "workflow_valid w" and m: "schedule_matches st w js" and pol: "\<And>j. j \<in> set js \<Longrightarrow> job_policy_valid (rsj_policy j)"
    and s: "schedule_events sha rid (byStep js) (wd_steps w) = Inr evs"
    and v: "views_of (evs @ [event ST_run rid (RunScheduled rid)]) (life st) L'"
  shows "life_ok L'"
proof -
  let ?L = "life st"
  define N where "N i = job_view evs i None" for i
  have os: "only_schedules evs"
    using schedule_events_mem [OF s] by (auto simp: only_schedules_def)
  have R: "lf_run L' i = (if i = rid then map_option (\<lambda>_. R_scheduled) (lf_run ?L i) else lf_run ?L i)"
    and S: "lf_att L' i = lf_att ?L i" "lf_out L' i = lf_out ?L i" "lf_ver L' i = lf_ver ?L i"
    and J: "lf_job L' i = (case N i of None \<Rightarrow> lf_job ?L i | Some y \<Rightarrow> Some y)" for i
    using v only_schedules_job [OF os, of i "lf_job ?L i"]
    by (simp_all add: views_of_def only_schedules_views [OF os] N_def)
  have new: "\<exists>st' job deps. st' \<in> set (wd_steps w) \<and> job \<in> set js \<and> rsj_jobId job = i \<and>
      dependency_jobs (byStep js) (ws_dependsOn st') = Inr deps \<and> y = jl_new (scheduled_data sha rid job st' deps)"
    if n: "N i = Some y" for i y
  proof -
    obtain e d where e: "e \<in> set evs" "ev_data e = JobScheduled d" "js_jobId d = i" "y = jl_new d"
      using only_schedules_new [OF os, of i y] n unfolding N_def by blast
    obtain st' job deps where "st' \<in> set (wd_steps w)" "mget (byStep js) (ws_id st') = Some job"
      "dependency_jobs (byStep js) (ws_dependsOn st') = Inr deps" "d = scheduled_data sha rid job st' deps"
      using schedule_events_mem [OF s e(1)] e(2) by auto
    moreover have "rsj_jobId job = i" using calculation(4) e(3) by (simp add: scheduled_data_def)
    ultimately show ?thesis using e(4) byStep_Some by blast
  qed
  have fresh: "lf_job ?L i = None \<and> jl_active y = None \<and> jl_run y = rid \<and> jl_count y = 0 \<and> \<not> jl_owned y \<and>
      0 < jl_max y \<and> jl_status y \<in> {J_ready, J_blocked} \<and> (jl_status y = J_ready \<longrightarrow> jl_deps y = [])"
    if n: "N i = Some y" for i y
  proof -
    obtain st' job deps where g: "job \<in> set js" "rsj_jobId job = i"
      "dependency_jobs (byStep js) (ws_dependsOn st') = Inr deps" "y = jl_new (scheduled_data sha rid job st' deps)"
      using new [OF n] by blast
    have "lf_job ?L i = None"
      using schedule_matches_fresh [OF m g(1)] g(2) by (simp add: life_sel mhas_def)
    moreover have "0 < jp_maxAttempts (rsj_policy job)"
      using pol [OF g(1)] by (simp add: job_policy_valid_def)
    ultimately show ?thesis
      using g(4) dependency_jobs_Inr [OF g(3)] by (auto simp: jl_new_def scheduled_data_def)
  qed
  have dep: "\<exists>z. N d = Some z" if n: "N i = Some y" "d \<in> set (jl_deps y)" for i y d
  proof -
    obtain st' job deps where g: "dependency_jobs (byStep js) (ws_dependsOn st') = Inr deps"
      "y = jl_new (scheduled_data sha rid job st' deps)"
      using new [OF n(1)] by blast
    then have "d \<in> set deps" using n(2) by (simp add: jl_new_def scheduled_data_def)
    then obtain k job' where k: "mget (byStep js) k = Some job'" "rsj_jobId job' = d"
      using dependency_jobs_Inr [OF g(1)] by blast
    then obtain s' where s': "s' \<in> set (wd_steps w)" "ws_id s' = k"
      using schedule_matches_steps [OF m] byStep_Some by blast
    obtain e d' where "e \<in> set evs" "ev_data e = JobScheduled d'" "js_jobId d' = d"
      using schedule_events_all [OF s s'(1)] k s'(2) by auto
    then show ?thesis using only_schedules_has [OF os] unfolding N_def by blast
  qed
  have blocked: "jl_deps y \<noteq> []" if n: "N i = Some y" "jl_status y = J_blocked" for i y
  proof -
    obtain st' job deps where "dependency_jobs (byStep js) (ws_dependsOn st') = Inr deps"
      "y = jl_new (scheduled_data sha rid job st' deps)"
      using new [OF n(1)] by blast
    then show ?thesis
      using n(2) dependency_jobs_Inr [of "byStep js" "ws_dependsOn st'" deps]
      by (auto simp: jl_new_def scheduled_data_def split: if_splits)
  qed
  have fresh_waiting: "waiting L' i" if "N i = Some y" for i y
    using fresh [OF that] by (auto simp: waiting_def J that)
  have wait: "waiting L' i" if "waiting ?L i" for i
  proof -
    have "N i = None" using fresh [of i] that by (cases "N i") (auto simp: waiting_def)
    with that show ?thesis by (simp add: waiting_def J)
  qed
  have some_job: "\<exists>j y. N j = Some y"
  proof -
    have s': "hd (wd_steps w) \<in> set (wd_steps w)" using w by (simp add: workflow_valid_def)
    obtain e d where "e \<in> set evs" "ev_data e = JobScheduled d"
      using schedule_events_all [OF s s'] by blast
    then show ?thesis using only_schedules_has [OF os] unfolding N_def by blast
  qed
  define E where "E = {(i, d). \<exists>y. N i = Some y \<and> d \<in> set (jl_deps y)}"
  define A where "A = {i. lf_job ?L i \<noteq> None}"
  have deps: "job_deps L' \<subseteq> job_deps ?L \<union> E"
    by (auto simp: job_deps_def E_def J split: option.splits)
  have old_deps: "job_deps ?L \<subseteq> A \<times> A"
    using life_okD(7) [OF inv] unfolding dependencies_respected_def job_deps_def A_def by fastforce
  have new_deps: "E \<subseteq> (- A) \<times> (- A)"
    using fresh dep unfolding E_def A_def by fastforce
  have acyc: "acyclic E"
  proof (rule acyclic_map [where f = "step_of js"])
    show "acyclic (step_order (wd_steps w))"
      using w by (auto simp: workflow_valid_def workflow_issues_def validateWorkflowGraph_none)
    show "(step_of js i, step_of js d) \<in> step_order (wd_steps w)" if ed: "(i, d) \<in> E" for i d
    proof -
      obtain y where y: "N i = Some y" "d \<in> set (jl_deps y)" using ed by (auto simp: E_def)
      obtain e D where e: "e \<in> set evs" "ev_data e = JobScheduled D" "js_jobId D = i" "y = jl_new D"
        using only_schedules_new [OF os, of i y] y(1) unfolding N_def by blast
      obtain s' job job' where "s' \<in> set (wd_steps w)" "job \<in> set js" "job' \<in> set js" "i = rsj_jobId job"
        "rsj_stepId job = ws_id s'" "d = rsj_jobId job'" "rsj_stepId job' \<in> set (ws_dependsOn s')"
        using schedule_edges [OF s e(1,2), of d] y(2) e(3,4) by (auto simp: jl_new_def)
      then show ?thesis using step_of_job [OF m] by (auto simp: step_order_def)
    qed
  qed
  have oldrun: "jl_run x \<noteq> rid" if "lf_job ?L i = Some x" for i x
    using run_of_job [OF life_okD(6) [OF inv] that] run by (auto simp: life_sel)
  show ?thesis
    unfolding life_ok_def
  proof (intro conjI)
    show "linked L'"
    proof (rule new_jobs_linked [OF life_okD(1) [OF inv] J _ S])
      show "lf_job ?L i = None \<and> jl_active x = None \<and> jl_status x \<noteq> J_active \<and> \<not> jl_owned x"
        if "N i = Some x" for i x using fresh [OF that] by auto
    qed
    show "attempts_bounded L'"
      unfolding attempts_bounded_def
    proof (intro allI impI)
      fix j x assume x: "lf_job L' j = Some x"
      show "jl_count x \<le> jl_max x \<and> (jl_status x \<in> {J_blocked, J_ready, J_retry_wait} \<longrightarrow> jl_count x < jl_max x)"
      proof (cases "N j")
        case None
        then show ?thesis using x bounded_job [OF life_okD(5) [OF inv], of j x] by (simp add: J)
      next
        case (Some y)
        then show ?thesis using x fresh [OF Some] by (simp add: J)
      qed
    qed
    show "runs_respected L'"
      unfolding runs_respected_def
    proof (intro allI impI)
      fix j x assume x: "lf_job L' j = Some x"
      show "\<exists>r. lf_run L' (jl_run x) = Some r \<and> r \<noteq> R_created \<and>
          (terminal_run r \<longrightarrow> terminal_job (jl_status x)) \<and>
          (r = R_succeeded \<longrightarrow> jl_status x = J_succeeded) \<and> (jl_active x \<noteq> None \<longrightarrow> r = R_running) \<and>
        (jl_status x \<in> {J_failed, J_cancelled} \<longrightarrow> r \<in> {R_failed, R_cancelled})"
      proof (cases "N j")
        case None
        then have l: "lf_job ?L j = Some x" using x by (simp add: J)
        show ?thesis using run_of_job [OF life_okD(6) [OF inv] l] oldrun [OF l] by (simp add: R)
      next
        case (Some y)
        then show ?thesis using x fresh [OF Some] run by (auto simp: J R life_sel terminal_run_def)
      qed
    qed
    show "progressing L'"
      unfolding progressing_def
    proof (intro conjI allI impI)
      show "acyclic (job_deps L')"
        by (rule acyclic_subset [OF _ deps]) (rule acyclic_disjoint [OF _ acyc old_deps new_deps],
          use life_okD(8) [OF inv] in \<open>simp add: progressing_def\<close>)
    next
      fix j x assume a: "lf_job L' j = Some x \<and> jl_status x = J_blocked"
      show "\<exists>d\<in>set (jl_deps x). waiting L' d"
      proof (cases "N j")
        case None
        then have "lf_job ?L j = Some x" using a by (simp add: J)
        then show ?thesis using progressing_blocked [OF life_okD(8) [OF inv]] a wait by blast
      next
        case (Some y)
        then have xy: "x = y" using a by (simp add: J)
        obtain d where d: "d \<in> set (jl_deps y)" using blocked [OF Some] a xy by (cases "jl_deps y") auto
        then show ?thesis using dep [OF Some d] fresh_waiting xy by blast
      qed
    next
      fix i assume o: "open_run (lf_run L' i)"
      show "\<exists>j x. lf_job L' j = Some x \<and> jl_run x = i \<and> waiting L' j"
      proof (cases "i = rid")
        case True
        obtain j y where n: "N j = Some y" using some_job by blast
        have "lf_job L' j = Some y" by (simp add: J n)
        then show ?thesis using True fresh [OF n] fresh_waiting [OF n] by blast
      next
        case False
        then obtain j x where x: "lf_job ?L j = Some x" "jl_run x = i" "waiting ?L j"
          using progressing_run [OF life_okD(8) [OF inv], of i] o by (auto simp: R)
        moreover have "lf_job L' j = Some x" using fresh [of j] x(1) by (cases "N j") (auto simp: J)
        ultimately show ?thesis using wait by blast
      qed
    qed
    show "dependencies_respected L'"
      unfolding dependencies_respected_def
    proof (intro allI impI)
      fix j x d assume a: "lf_job L' j = Some x \<and> d \<in> set (jl_deps x)"
      show "\<exists>y. lf_job L' d = Some y \<and> jl_run y = jl_run x \<and>
          (jl_status x \<notin> {J_blocked, J_cancelled} \<longrightarrow> jl_status y = J_succeeded)"
      proof (cases "N j")
        case None
        then have "lf_job ?L j = Some x" using a by (simp add: J)
        then obtain y where y: "lf_job ?L d = Some y" "jl_run y = jl_run x"
          "jl_status x \<notin> {J_blocked, J_cancelled} \<longrightarrow> jl_status y = J_succeeded"
          using life_okD(7) [OF inv] a unfolding dependencies_respected_def by blast
        have "N d = None" using fresh [of d] y(1) by (cases "N d") auto
        with y show ?thesis by (simp add: J)
      next
        case (Some y)
        then have xy: "x = y" using a by (simp add: J)
        obtain z where z: "N d = Some z" using dep [OF Some] a xy by blast
        have "jl_status x = J_blocked" using fresh [OF Some] a xy by auto
        with z fresh [OF z] fresh [OF Some] xy show ?thesis by (simp add: J)
      qed
    qed
  qed
qed

definition workflows_valid :: "ProjectionState \<Rightarrow> bool" where
  "workflows_valid st \<longleftrightarrow> list_all (\<lambda>w. workflow_valid (wf_definition w)) (mvalues (workflows st))"

lemma workflows_valid_get:
  "workflows_valid st \<Longrightarrow> mget (workflows st) k = Some w \<Longrightarrow> workflow_valid (wf_definition w)"
  using mvalues_get by (fastforce simp: workflows_valid_def list_all_iff)

lemma keeps_run_schedule:
  assumes wk: "well_keyed st" and inv: "life_ok (life st)"
    and wv: "workflows_valid st" and wf: "list_all (\<lambda>j. job_policy_valid (rsj_policy j)) js"
  shows "keeps st (decide_run_schedule sha st rid js)"
proof -
  have "life_ok L'" if "mget (runs st) rid = Some run" "run_status run = R_created"
    "mget (workflows st) k = Some workflow" "schedule_matches st (wf_definition workflow) js"
    "schedule_events sha (run_runId run) (byStep js) (wd_steps (wf_definition workflow)) = Inr evs"
    "views_of (evs @ [event ST_run (run_runId run) (RunScheduled (run_runId run))]) (life st) L'"
    for run k workflow evs L'
    using schedule_life_ok [OF inv that(1,2) workflows_valid_get [OF wv that(3)] that(4), of sha evs L'] that keyed_sel(3) [OF wk that(1)] wf
    by (simp add: list_all_iff)
  then show ?thesis
    by (auto simp: decide_run_schedule_def Let_def split: option.splits sum.splits)
qed

section \<open>Every command\<close>

lemma keeps_decide:
  assumes wk: "well_keyed st" and inv: "life_ok (life st)" and wv: "workflows_valid st"
    and wf: "command_wf body"
  shows "keeps st (decide_body sha st now body)"
  using keeps_quiet_commands [OF inv] keeps_driver_events [OF inv] keeps_terminal_receipt [OF inv]
    keeps_run_create [OF inv] keeps_run_cancel [OF wk inv] keeps_job_lease_acquire [OF wk inv]
    keeps_job_lease_release [OF wk inv] keeps_attempt_timeout [OF wk inv]
    keeps_attempt_observe [OF wk inv] keeps_driver_receipt [OF wk inv]
    keeps_verification_complete [OF wk inv] keeps_verification_fail [OF wk inv]
    keeps_outbox_lease_acquire [OF wk inv] keeps_outbox_delivery_succeed [OF wk inv]
    keeps_outbox_delivery_fail [OF wk inv] keeps_run_schedule [OF wk inv wv] wf
  by (cases body) simp_all

text \<open>Only a registration stores a workflow, and it stores the definition it checked.\<close>

fun registers :: "EventData \<Rightarrow> bool" where
  "registers (WorkflowDefinitionRegistered w _) = (\<not> workflow_valid w)"
| "registers _ = False"

lemma workflows_on:
  "on_run i f st = Inr st' \<Longrightarrow> workflows st' = workflows st"
  "on_attempt i g st = Inr st' \<Longrightarrow> workflows st' = workflows st"
  "on_job i h st = Inr st' \<Longrightarrow> workflows st' = workflows st"
  "on_outbox i k st = Inr st' \<Longrightarrow> workflows st' = workflows st"
  "on_verification i l st = Inr st' \<Longrightarrow> workflows st' = workflows st"
  by (auto simp: on_Inr)

lemma workflows_apply:
  "apply_event sha at v d st = Inr st' \<Longrightarrow> workflows st' =
     (case d of WorkflowDefinitionRegistered w _ \<Rightarrow> workflows st' | _ \<Rightarrow> workflows st)"
  by (cases d)
     (auto simp: apply_JobScheduled_def apply_DriverEventsObserved_def apply_AttemptStarted_def
      apply_ArtifactManifestRecorded_def apply_DriverReceiptRecorded_Inr
      apply_VerificationReceiptRecorded_def dest!: workflows_on split: sum.splits option.splits if_splits)

lemma workflows_valid_evolve:
  assumes wv: "workflows_valid st" and e: "evolve sha st e = Inr st'" and r: "\<not> registers (ev_data e)"
  shows "workflows_valid st'"
proof (cases "ev_data e")
  case (WorkflowDefinitionRegistered w digest)
  have "set (mvalues (mput k v m)) \<subseteq> insert v (set (mvalues m))" for k :: string and v :: WorkflowState and m
    by (induction m) (auto simp: mvalues_def)
  with wv e r show ?thesis
    by (fastforce simp: WorkflowDefinitionRegistered evolve_def workflows_valid_def list_all_iff split: if_splits)
qed (use wv workflows_apply [OF e [unfolded evolve_def]] in \<open>simp_all add: workflows_valid_def\<close>)

definition state_ok :: "ProjectionState \<Rightarrow> bool" where
  "state_ok st \<longleftrightarrow> well_keyed st \<and> life_ok (life st) \<and> workflows_valid st"

lemma decide_registers:
  assumes "decide_body sha st now body = Accept evs k n" and "command_wf body"
  shows "emits (\<lambda>d. \<not> registers d) evs"
proof -
  have c: "emits (\<lambda>d. \<not> registers d) evs" if "emits (\<lambda>d. \<not> claims d) evs"
    using that by (auto simp: emits_def elim!: registers.elims dest: bspec)
  have s: "emits (\<lambda>d. \<not> registers d) evs'" if "schedule_events sha rid m ss = Inr evs'" for rid m ss evs'
    using schedule_events_mem [OF that] by (fastforce simp: emits_def)
  from claimless_decide [OF assms(1)] assms(2) c show ?thesis
    by (auto simp: decide_workflow_register_def decide_run_schedule_def decide_job_lease_acquire_def
        job_claim_events_def decide_outbox_lease_acquire_def Let_def
        split: if_splits option.splits sum.splits dest: s)
qed

lemma commits_workflows:
  assumes "workflows_valid st" and "commits sha st c now st'" and "command_wf (cmd_body c)"
  shows "workflows_valid st'"
  using assms(2,1) by (rule commits_keep) (use assms(3) decide_registers workflows_valid_evolve in blast)+

lemma commits_ok:
  assumes "state_ok st" and "commits sha st c now st'" and "command_wf (cmd_body c)"
  shows "state_ok st'"
proof -
  have wk: "well_keyed st" and inv: "life_ok (life st)" and wv: "workflows_valid st"
    using assms(1) by (auto simp: state_ok_def)
  obtain evs k i where d: "decide sha st c now = Accept evs k i"
    and v: "\<And>i. lf_run (life st') i = run_view evs i (lf_run (life st) i)"
      "\<And>i. lf_job (life st') i = job_view evs i (lf_job (life st) i)"
      "\<And>i. lf_att (life st') i = att_view evs i (lf_att (life st) i)"
      "\<And>i. lf_out (life st') i = out_view evs i (lf_out (life st) i)"
      "\<And>i. lf_ver (life st') i = ver_view evs i (lf_ver (life st) i)"
    using commits_life [OF assms(2) wk] by blast
  have "views_of evs (life st) (life st')" using v by (simp add: views_of_def)
  then have "life_ok (life st')"
    using keeps_decide [OF wk inv wv assms(3), of sha now] d by (simp add: decide_def keeps_def)
  then show ?thesis
    using commits_keyed [OF assms(2) wk] commits_workflows [OF wv assms(2,3)] by (simp add: state_ok_def)
qed

lemma state_ok_empty: "state_ok emptyProjectionState"
  by (simp add: state_ok_def life_ok_def linked_defs attempts_bounded_def runs_respected_def
      dependencies_respected_def life_def emptyProjectionState_def progressing_def job_deps_def
      waiting_def open_run_def acyclic_def workflows_valid_def
      well_keyed_empty [unfolded emptyProjectionState_def])

section \<open>Reachable projections\<close>

inductive reachable :: "(string \<Rightarrow> string) \<Rightarrow> ProjectionState \<Rightarrow> bool" for sha where
  reachable_empty: "reachable sha emptyProjectionState"
| reachable_commit: "reachable sha st \<Longrightarrow> command_wf (cmd_body c) \<Longrightarrow> commits sha st c now st' \<Longrightarrow>
     reachable sha st'"

lemma reachable_ok: "reachable sha st \<Longrightarrow> state_ok st"
  by (induction rule: reachable.induct) (auto intro: state_ok_empty commits_ok)

end
