(* ===== verification/Scenario.thy ===== *)
theory Scenario
  imports LifeSchedule
begin

text \<open>
  A concrete run, for the witnesses: a workflow of two steps, the second depending on the
  first, is registered, scheduled, leased, executed and verified. The states are computed
  by the model itself; the hash is a constant of 64 digits.
\<close>

definition demo_sha :: "string \<Rightarrow> string" where
  "demo_sha s = replicate 64 CHR ''a''"

text \<open>The events of a decision as stored events, with the numbers the demonstration needs.\<close>

definition demo_event :: "timestamp \<Rightarrow> DomainEventInput \<Rightarrow> StoredEvent" where
  "demo_event now e =
     \<lparr>ev_streamType = ev_streamType e, ev_streamId = ev_streamId e, ev_data = ev_data e,
      se_eventId = [], se_commandId = [], se_globalPosition = 1, se_streamVersion = 1,
      se_occurredAt = now, se_actor = \<lparr>actor_kind = System, actor_id = ''demo''\<rparr>,
      se_correlationId = None\<rparr>"

definition advance ::
    "(string \<Rightarrow> string) \<Rightarrow> Command \<times> timestamp \<Rightarrow> ProjectionState \<Rightarrow> ProjectionState" where
  "advance sha cn st =
     (case decide sha st (fst cn) (snd cn) of
        Accept evs k i \<Rightarrow>
          (case try_fold (evolve sha) st (map (demo_event (snd cn)) evs) of
             Inr st' \<Rightarrow> st' | Inl x \<Rightarrow> st)
      | _ \<Rightarrow> st)"

lemma demo_stamped: "stamped now evs (map (demo_event now) evs)"
  by (auto simp: stamped_def demo_event_def DomainEventInput.defs comp_def intro: map_idI)

lemma advance_commits: "advance sha (c, now) st = st \<or> commits sha st c now (advance sha (c, now) st)"
  using demo_stamped [of now]
  by (auto simp: advance_def commits_def split: Decision.splits sum.splits)

lemma advance_reachable:
  "reachable sha st \<Longrightarrow> command_wf (cmd_body c) \<Longrightarrow> reachable sha (advance sha (c, now) st)"
  using advance_commits [of sha c now st] by (auto intro: reachable_commit)

lemma advance_all_reachable:
  "list_all (\<lambda>cn. command_wf (cmd_body (fst cn))) cns \<Longrightarrow> reachable sha st \<Longrightarrow>
     reachable sha (fold (advance sha) cns st)"
proof (induction cns arbitrary: st)
  case (Cons cn cns)
  then show ?case by (cases cn) (simp add: advance_reachable)
qed simp

section \<open>The commands\<close>

definition demo_command :: "string \<Rightarrow> CommandBody \<Rightarrow> Command" where
  "demo_command key body =
     \<lparr>cmd_idempotencyKey = key, cmd_actor = \<lparr>actor_kind = Operator, actor_id = ''op''\<rparr>,
      cmd_correlationId = None, cmd_body = body\<rparr>"

definition demo_revision_content :: SourceRevision where
  "demo_revision_content =
     \<lparr>sr_revisionId = ''s1'', sr_repositoryId = ''g1'', sr_objectFormat = Sha1,
      sr_commitOid = replicate 40 CHR ''c'', sr_treeOid = replicate 40 CHR ''d'',
      sr_storageRef = ''ref'', sr_revisionDigest = []\<rparr>"

definition demo_revision :: SourceRevision where
  "demo_revision = demo_revision_content
     \<lparr>sr_revisionDigest := sourceRevisionDigest demo_sha demo_revision_content\<rparr>"

lemma demo_revision_simps [simp]:
  "sr_revisionId demo_revision = ''s1''" "oid_lengths_ok demo_revision"
  "sr_revisionDigest demo_revision = sourceRevisionDigest demo_sha demo_revision"
  by (simp_all add: demo_revision_def demo_revision_content_def oid_lengths_ok_def sourceRevisionDigest_def)

definition demo_verifier :: VerifierContract where
  "demo_verifier = \<lparr>vc_argv = [''/v''], vc_cwd = ''.'', vc_timeoutMs = 1000, vc_environment = [],
     vc_toolProbes = []\<rparr>"

definition demo_step :: "string \<Rightarrow> string list \<Rightarrow> WorkflowStep" where
  "demo_step i deps =
     \<lparr>ws_id = i, ws_capability = ''c'', ws_dependsOn = deps, ws_execution = Some (ContractV1 ''i'' [''x'']),
      ws_capabilities = Some (ManifestV1 \<lparr>cap_workspace = Read_write, cap_cpuLimit = ''1'',
        cap_memoryLimitBytes = 67108864, cap_pidsLimit = 16\<rparr>),
      ws_verification = Some demo_verifier\<rparr>"

definition demo_workflow :: WorkflowDefinition where
  "demo_workflow = \<lparr>wd_schemaVersion = Some 2, wd_workflowId = ''w1'', wd_version = 1, wd_name = ''w'',
     wd_steps = [demo_step ''build'' [], demo_step ''test'' [''build'']]\<rparr>"

definition demo_policy :: JobPolicy where
  "demo_policy = \<lparr>jp_maxAttempts = 2, jp_attemptTimeoutMs = 60000, jp_retryDelaysMs = [1000]\<rparr>"


definition demo_observation :: DriverEventsPayload where
  "demo_observation = \<lparr>dep_jobId = ''j1'', dep_attemptId = ''a1'', dep_ownerId = ''o1'',
     dep_fencingToken = 1, dep_afterSequence = 0,
     dep_events = [\<lparr>de_schemaVersion = 1, de_sequence = 1, de_body = DE_started\<rparr>,
       \<lparr>de_schemaVersion = 1, de_sequence = 2, de_body = DE_usage 5 100\<rparr>]\<rparr>"

definition demo_success :: AttemptObservePayload where
  "demo_success = \<lparr>ao_jobId = ''j1'', ao_attemptId = ''a1'', ao_ownerId = ''o1'', ao_fencingToken = 1,
     ao_succeeded = True, ao_detail = None, ao_verificationId = Some ''v1'',
     ao_verificationOutboxId = Some ''b2''\<rparr>"

definition demo_failure :: AttemptObservePayload where
  "demo_failure = demo_success\<lparr>ao_succeeded := False, ao_detail := Some ''exit 1'',
     ao_verificationId := None, ao_verificationOutboxId := None\<rparr>"

definition demo_result :: VerificationResult where
  "demo_result = \<lparr>vr_outcome = VO_passed, vr_exitCode = Some 0, vr_failureReason = None,
     vr_environmentDigest = ''e'', vr_sourceStatusBeforeDigest = demo_sha [],
     vr_sourceStatusAfterDigest = demo_sha [], vr_contractDigestBefore = ''e'',
     vr_contractDigestAfter = ''e'', vr_artifactManifestDigest = artifactManifestDigest demo_sha []\<rparr>"

section \<open>The states\<close>

definition demo_registered :: ProjectionState where
  "demo_registered = advance demo_sha
     (demo_command ''k1'' (Cmd_source_revision_register demo_revision), 0) emptyProjectionState"

definition demo_program :: ProjectionState where
  "demo_program = advance demo_sha
     (demo_command ''k2'' (Cmd_program_create ''p1'' ''p''), 0) demo_registered"

definition demo_defined :: ProjectionState where
  "demo_defined = advance demo_sha
     (demo_command ''k3'' (Cmd_workflow_register demo_workflow), 0) demo_program"

definition demo_created :: ProjectionState where
  "demo_created = advance demo_sha
     (demo_command ''k4'' (Cmd_run_create ''r1'' ''p1'' ''w1'' 1), 0) demo_defined"

definition demo_schedule :: Command where
  "demo_schedule = demo_command ''k5'' (Cmd_run_schedule ''r1''
     [\<lparr>rsj_jobId = ''j1'', rsj_stepId = ''build'', rsj_sourceRevisionId = Some ''s1'',
       rsj_policy = demo_policy\<rparr>,
      \<lparr>rsj_jobId = ''j2'', rsj_stepId = ''test'', rsj_sourceRevisionId = Some ''s1'',
       rsj_policy = demo_policy\<rparr>])"

definition demo_scheduled :: ProjectionState where
  "demo_scheduled = advance demo_sha (demo_schedule, 0) demo_created"

definition demo_lease :: "string \<Rightarrow> uuid \<Rightarrow> uuid \<Rightarrow> uuid \<Rightarrow> Command" where
  "demo_lease key owner aid oid = demo_command key (Cmd_job_lease_acquire
     \<lparr>jla_jobId = ''j1'', jla_ownerId = owner, jla_leaseDurationMs = 30000, jla_attemptId = aid,
      jla_startOutboxId = oid\<rparr>)"

definition demo_leased :: ProjectionState where
  "demo_leased = advance demo_sha (demo_lease ''k6'' ''o1'' ''a1'' ''b1'', 10) demo_scheduled"

definition demo_delivering :: ProjectionState where
  "demo_delivering = advance demo_sha
     (demo_command ''k7'' (Cmd_outbox_lease_acquire ''b1'' ''o1'' 30000), 20) demo_leased"

definition demo_running :: ProjectionState where
  "demo_running = advance demo_sha
     (demo_command ''k8'' (Cmd_outbox_delivery_succeed ''b1'' ''o1'' 1 ''x1''), 30) demo_delivering"

definition demo_observed :: ProjectionState where
  "demo_observed = advance demo_sha
     (demo_command ''k9'' (Cmd_attempt_driver_events_observe demo_observation), 40) demo_running"

definition demo_retrying :: ProjectionState where
  "demo_retrying = advance demo_sha
     (demo_command ''k10'' (Cmd_attempt_observe demo_failure), 50) demo_observed"

definition demo_verifying :: ProjectionState where
  "demo_verifying = advance demo_sha
     (demo_command ''k11'' (Cmd_attempt_observe demo_success), 50) demo_observed"

definition demo_checking :: ProjectionState where
  "demo_checking = advance demo_sha
     (demo_command ''k12'' (Cmd_outbox_lease_acquire ''b2'' ''o1'' 20000), 60) demo_verifying"

definition demo_verdict :: VerificationCompletePayload where
  "demo_verdict = \<lparr>vcp_verificationId = ''v1'', vcp_outboxId = ''b2'', vcp_artifactManifestId = ''m1'',
     vcp_jobId = ''j1'', vcp_attemptId = ''a1'', vcp_ownerId = ''o1'', vcp_jobFencingToken = 1,
     vcp_outboxFencingToken = 1, vcp_result = demo_result,
     vcp_resultDigest = verificationResultDigest demo_sha demo_result,
     vcp_receiptDigest = verificationReceiptDigest demo_sha
       (receiptIdentity (the (mget (verifications demo_checking) ''v1'')) ''m1''
          (artifactManifestDigest demo_sha []) (verificationResultDigest demo_sha demo_result)),
     vcp_entries = []\<rparr>"

definition demo_verified :: ProjectionState where
  "demo_verified = advance demo_sha
     (demo_command ''k13'' (Cmd_verification_complete demo_verdict), 70) demo_checking"

definition demo_cancelled :: ProjectionState where
  "demo_cancelled = advance demo_sha (demo_command ''k14'' (Cmd_run_cancel ''r1'' ''stop''), 50) demo_observed"

lemma demo_workflow_valid [simp]: "workflow_valid demo_workflow"
  by (simp add: workflow_valid_def workflow_issues_def validateWorkflowGraph_def demo_workflow_def
      demo_step_def insertion_set_def dependency_issues_def visit.simps map_from_def deps_of_def Let_def)

lemma demo_reachable:
  "reachable demo_sha demo_registered" "reachable demo_sha demo_program"
  "reachable demo_sha demo_defined" "reachable demo_sha demo_created"
  "reachable demo_sha demo_scheduled" "reachable demo_sha demo_leased"
  "reachable demo_sha demo_delivering" "reachable demo_sha demo_running"
  "reachable demo_sha demo_observed" "reachable demo_sha demo_retrying"
  "reachable demo_sha demo_verifying" "reachable demo_sha demo_checking"
  "reachable demo_sha demo_verified" "reachable demo_sha demo_cancelled"
  unfolding demo_cancelled_def demo_verified_def demo_checking_def demo_verifying_def
    demo_retrying_def demo_observed_def demo_running_def demo_delivering_def demo_leased_def
    demo_scheduled_def demo_created_def demo_defined_def demo_program_def demo_registered_def
  by (intro advance_reachable reachable_empty;
      simp add: demo_command_def demo_lease_def demo_schedule_def demo_policy_def job_policy_valid_def)+

section \<open>Their values\<close>

lemma demo_cancelOutboxId [simp]:
  "cancelOutboxId demo_sha s = ''aaaaaaaa-aaaa-5aaa-8aaa-aaaaaaaaaaaa''"
  by (simp add: cancelOutboxId_def deterministicUuid_def demo_sha_def numeral_eq_Suc Let_def)

lemmas decision_defs = decide_def event_def failure_def decide_source_revision_register_def
  decide_program_create_def next_workflow_version_def decide_workflow_register_def
  decide_run_create_def byStep_def schedule_matches_def check_step_def scheduled_data_def
  decide_run_schedule_def resuming_def job_claim_error_def job_context_packet_def
  context_packet_valid_def agent_start_def job_claim_events_def decide_job_lease_acquire_def
  mhas_def mvalues_def addMilliseconds_def atOrBefore_def outboxEnqueued_def attemptFinished_def
  terminal_run_def terminal_attempt_def terminal_job_def workflowKey_def validateJobLease_def
  validateOutboxLease_def decide_outbox_lease_acquire_def outbox_claimable_def attempt_over_def
  decide_outbox_delivery_succeed_def started_events_def decide_driver_events_observe_def
  scan_start_def usage_so_far_def scan_one_def scan_usage_def is_terminal_event_def
  decide_attempt_observe_def active_attempt_def observe_verification_def
  verificationRequestEvents_def verification_context_def verification_active_def
  verification_entries_ok_def expected_receipt_digest_def verification_digests_ok_def
  entries_total_def evidence_mutated_def result_consistent_def verifier_manifest_def
  verification_events_def decide_verification_complete_def canonicalArtifactEntries_def
  jobSuccessEvents_def dependencies_met_def failureTransitionEvents_def jobFailureEvents_def
  obsoleteOutbox_def undelivered_work_def cancelVerification_def timeoutCancel_def delay_after_def
  decide_run_cancel_def cancellationForRun_def cancellationEvents_def cancelEffect_def
  otherLiveJobs_def OUTBOX_RETRY_DELAYS_def

lemmas transition_defs = evolve_def on_run_def on_job_def on_attempt_def on_outbox_def
  on_verification_def required_def apply_JobScheduled_def apply_AttemptStarted_def
  job_context_bound_def job_context_absent_def revision_digest_ok_def run_new_def run_scheduled_def
  run_started_def run_succeeded_def run_failed_def run_cancelled_def job_new_def
  job_lease_acquired_def job_lease_cleared_def job_unblocked_def job_completed_def
  job_retry_scheduled_def attempt_started_def attempt_running_def attempt_observed_def
  attempt_verifying_def attempt_finished_def job_attempt_started_def outbox_new_def
  outbox_lease_acquired_def outbox_lease_cleared_def outbox_delivered_def outbox_obsoleted_def
  apply_DriverEventsObserved_def driver_events_error_def verification_new_def
  apply_ArtifactManifestRecorded_def apply_VerificationReceiptRecorded_def
  verification_receipt_ok_def receiptIdentity_def verification_recorded_def
  verification_cancelled_def emptyProjectionState_def DomainEventInput.defs

lemmas demo_data = advance_def demo_event_def demo_command_def demo_workflow_def demo_step_def
  demo_verifier_def demo_policy_def demo_lease_def demo_schedule_def demo_observation_def
  demo_success_def demo_failure_def demo_result_def demo_verdict_def

declare Let_def [simp] decision_defs [simp] transition_defs [simp] demo_data [simp]
declare enc_ExecutionContract.simps [simp del] enc_CapabilityManifest.simps [simp del]

lemmas demo_registered_eq [simp] = demo_registered_def [simplified]
lemmas demo_program_eq [simp] = demo_program_def [simplified]
lemmas demo_defined_eq [simp] = demo_defined_def [simplified]
lemmas demo_created_eq [simp] = demo_created_def [simplified]
lemmas demo_scheduled_eq [simp] = demo_scheduled_def [simplified]
lemmas demo_leased_eq [simp] = demo_leased_def [simplified]
lemmas demo_delivering_eq [simp] = demo_delivering_def [simplified]
lemmas demo_running_eq [simp] = demo_running_def [simplified]
lemmas demo_observed_eq [simp] = demo_observed_def [simplified]
lemmas demo_retrying_eq [simp] = demo_retrying_def [simplified]
lemmas demo_verifying_eq [simp] = demo_verifying_def [simplified]
lemmas demo_checking_eq [simp] = demo_checking_def [simplified]
lemmas demo_verified_eq [simp] = demo_verified_def [simplified]
lemmas demo_cancelled_eq [simp] = demo_cancelled_def [simplified]

declare Let_def [simp del] decision_defs [simp del] transition_defs [simp del] demo_data [simp del]
declare enc_ExecutionContract.simps [simp] enc_CapabilityManifest.simps [simp]
declare demo_registered_eq [simp del] demo_program_eq [simp del] demo_defined_eq [simp del]
  demo_created_eq [simp del] demo_scheduled_eq [simp del] demo_leased_eq [simp del]
  demo_delivering_eq [simp del] demo_running_eq [simp del] demo_observed_eq [simp del]
  demo_retrying_eq [simp del] demo_verifying_eq [simp del] demo_checking_eq [simp del]
  demo_verified_eq [simp del] demo_cancelled_eq [simp del]

lemmas demo_values = demo_registered_eq demo_program_eq demo_defined_eq demo_created_eq
  demo_scheduled_eq demo_leased_eq demo_delivering_eq demo_running_eq demo_observed_eq
  demo_retrying_eq demo_verifying_eq demo_checking_eq demo_verified_eq demo_cancelled_eq

lemmas demo_simps = Let_def decision_defs transition_defs demo_data demo_values

end
