(* ===== verification/RunProperties.thy ===== *)
theory RunProperties
  imports Scenario
begin

text \<open>
  What the lifecycle guarantees about runs, jobs, attempts, outbox messages and
  verifications in every projection the commands of the kernel can reach. Each property is
  followed by its instance at a state of the demonstration run.
\<close>

section \<open>The parts of the invariant\<close>

lemma state_parts:
  assumes "state_ok st"
  shows "well_keyed st" and "attempts_linked (life st)" and "messages_linked (life st)"
    and "verifications_linked (life st)" and "attempts_bounded (life st)"
    and "runs_respected (life st)" and "dependencies_respected (life st)"
    and "progressing (life st)" and "workflows_valid st"
  using assms by (simp_all add: state_ok_def life_ok_def linked_def)

lemmas reachable_parts = state_parts [OF reachable_ok]

lemma life_job: "lf_job (life st) j = Some x \<longleftrightarrow> (\<exists>job. mget (jobs st) j = Some job \<and> x = job_life job)"
  by (auto simp: life_sel)

lemma life_attempt:
  "lf_att (life st) a = Some y \<longleftrightarrow> (\<exists>att. mget (attempts st) a = Some att \<and> y = attempt_life att)"
  by (auto simp: life_sel)

lemmas life_fields = life_view_defs life_job life_attempt

section \<open>Refinement of the abstract lifecycle\<close>

text \<open>
  C19. \<open>evolve\<close> refines the lifecycle specification: what an event does to the statuses,
  owners, links and attempt counts of all entities is what the abstract step of its data
  says, whatever the other fields of the state.
\<close>

theorem evolve_refines_lifecycle:
  "well_keyed st \<Longrightarrow> evolve sha st e = Inr st' \<Longrightarrow> life st' = life_step (ev_data e) (life st)"
  by (rule life_evolve)

theorem evolve_refines_lifecycle_witness:
  "\<exists>st'. evolve demo_sha demo_created (demo_event 0 (event ST_run ''r1'' (RunScheduled ''r1''))) = Inr st' \<and>
     life st' = life_step (RunScheduled ''r1'') (life demo_created)"
proof -
  obtain st' where e: "evolve demo_sha demo_created
      (demo_event 0 (event ST_run ''r1'' (RunScheduled ''r1''))) = Inr st'"
    by (simp add: demo_simps)
  show ?thesis
    using evolve_refines_lifecycle [OF reachable_parts(1) [OF demo_reachable(4)] e] e
    by (simp add: demo_event_def event_def)
qed

text \<open>
  C1. The invariant is inductive: whatever command the kernel accepts, and whatever numbers
  its events are stored with, the committed projection satisfies it again.
\<close>

theorem commit_keeps_invariant:
  "state_ok st \<Longrightarrow> commits sha st c now st' \<Longrightarrow> command_wf (cmd_body c) \<Longrightarrow> state_ok st'"
  by (rule commits_ok)

lemma demo_commit: "commits demo_sha demo_created demo_schedule 0 demo_scheduled"
proof -
  have "demo_scheduled \<noteq> demo_created" by (simp add: demo_values)
  then show ?thesis
    using advance_commits [of demo_sha demo_schedule 0 demo_created] by (simp add: demo_scheduled_def)
qed

theorem commit_keeps_invariant_witness: "state_ok demo_scheduled"
  by (rule commit_keeps_invariant [OF reachable_ok [OF demo_reachable(4)] demo_commit])
    (simp add: demo_schedule_def demo_command_def demo_policy_def job_policy_valid_def)

section \<open>Attempts\<close>

text \<open>
  C2. A job never has two live attempts: two attempts of the same job that are starting,
  running or verifying are the same attempt.
\<close>

theorem single_live_attempt:
  assumes "reachable sha st"
    and "mget (attempts st) a = Some x" and "mget (attempts st) b = Some y"
    and "live (att_status x)" and "live (att_status y)" and "att_jobId x = att_jobId y"
  shows "a = b"
  using linked_live [OF reachable_parts(2) [OF assms(1)], of a "attempt_life x"]
    linked_live [OF reachable_parts(2) [OF assms(1)], of b "attempt_life y"] assms(2-)
  by (auto simp: life_fields)

theorem single_live_attempt_witness: "fst (hd (attempts demo_running)) = ''a1''"
  by (rule single_live_attempt [OF demo_reachable(8),
        where x = "the (mget (attempts demo_running) ''a1'')"
          and y = "the (mget (attempts demo_running) ''a1'')"])
    (simp_all add: demo_values live_def)

text \<open>
  C21. A job is active exactly when it records an active attempt, and that attempt exists, is
  live, belongs to the job and its run, and has the job's attempt count as its ordinal.
\<close>

theorem active_job_has_live_attempt:
  assumes "reachable sha st" and "mget (jobs st) j = Some job"
  shows "job_status job = J_active \<longleftrightarrow>
     (\<exists>a x. job_activeAttemptId job = Some a \<and> mget (attempts st) a = Some x \<and>
        live (att_status x) \<and> att_jobId x = Some j \<and> att_runId x = job_runId job \<and>
        att_ordinal x = job_attemptCount job)"
  using linked_active_iff [OF reachable_parts(2) [OF assms(1)], of j "job_life job"]
    linked_attempt [OF reachable_parts(2) [OF assms(1)], of j "job_life job"] assms(2)
  by (auto simp: life_fields)

theorem active_job_has_live_attempt_witness:
  "\<exists>a x. job_activeAttemptId (the (mget (jobs demo_running) ''j1'')) = Some a \<and>
     mget (attempts demo_running) a = Some x \<and> live (att_status x)"
  using active_job_has_live_attempt [OF demo_reachable(8), of "''j1''" "the (mget (jobs demo_running) ''j1'')"]
  by (auto simp: demo_values)

text \<open>
  C22. A job never exceeds its policy: its attempt count is at most \<open>maxAttempts\<close>, and below
  it while the job can still be leased for another attempt.
\<close>

theorem attempts_within_policy:
  assumes "reachable sha st" and "mget (jobs st) j = Some job"
  shows "job_attemptCount job \<le> jp_maxAttempts (job_policy job) \<and>
     (job_attemptCount job < jp_maxAttempts (job_policy job) \<or>
      job_status job = J_active \<or> terminal_job (job_status job))"
  using bounded_job [OF reachable_parts(5) [OF assms(1)], of j "job_life job"] assms(2)
  by (cases "job_status job") (auto simp: life_fields terminal_job_def)

theorem attempts_within_policy_witness:
  "job_attemptCount (the (mget (jobs demo_retrying) ''j1'')) \<le>
     jp_maxAttempts (job_policy (the (mget (jobs demo_retrying) ''j1'')))"
  using attempts_within_policy [OF demo_reachable(10), of "''j1''" "the (mget (jobs demo_retrying) ''j1'')"]
  by (simp add: demo_values)

section \<open>Runs and dependencies\<close>

text \<open>
  C5. A run settles its jobs: in a terminal run every job is terminal, in a succeeded run
  every job has succeeded, and a job is active only while its run is running.
\<close>

theorem run_settles_jobs:
  assumes "reachable sha st" and "mget (jobs st) j = Some job"
  shows "\<exists>run. mget (runs st) (job_runId job) = Some run \<and> run_status run \<noteq> R_created \<and>
     (terminal_run (run_status run) \<longrightarrow> terminal_job (job_status job)) \<and>
     (run_status run = R_succeeded \<longrightarrow> job_status job = J_succeeded) \<and>
     (job_status job = J_active \<longrightarrow> run_status run = R_running)"
  using run_of_job [OF reachable_parts(6) [OF assms(1)], of j "job_life job"]
    linked_active_iff [OF reachable_parts(2) [OF assms(1)], of j "job_life job"] assms(2)
  by (auto simp: life_fields life_sel)

theorem run_settles_jobs_witness:
  "run_status (the (mget (runs demo_cancelled) ''r1'')) = R_cancelled \<and>
   terminal_job (job_status (the (mget (jobs demo_cancelled) ''j2'')))"
  using run_settles_jobs [OF demo_reachable(14), of "''j2''" "the (mget (jobs demo_cancelled) ''j2'')"]
  by (auto simp: demo_values terminal_run_def)

text \<open>
  C20. Jobs respect their dependencies: a dependency is a job of the same run, and once a
  job has left \<open>blocked\<close> other than by cancellation, all its dependencies have succeeded.
\<close>

theorem dependencies_precede_jobs:
  assumes "reachable sha st" and "mget (jobs st) j = Some job" and "d \<in> set (job_dependencyJobIds job)"
  shows "\<exists>dep. mget (jobs st) d = Some dep \<and> job_runId dep = job_runId job \<and>
     (job_status job \<notin> {J_blocked, J_cancelled} \<longrightarrow> job_status dep = J_succeeded)"
proof -
  have "\<exists>y. lf_job (life st) d = Some y \<and> jl_run y = jl_run (job_life job) \<and>
      (jl_status (job_life job) \<notin> {J_blocked, J_cancelled} \<longrightarrow> jl_status y = J_succeeded)"
    using reachable_parts(7) [OF assms(1)] assms(2,3)
    unfolding dependencies_respected_def by (fastforce simp: life_fields)
  then show ?thesis by (auto simp: life_fields)
qed

theorem dependencies_precede_jobs_witness:
  "job_status (the (mget (jobs demo_verified) ''j2'')) = J_ready \<and>
   job_status (the (mget (jobs demo_verified) ''j1'')) = J_succeeded"
  using dependencies_precede_jobs [OF demo_reachable(13), of "''j2''"
      "the (mget (jobs demo_verified) ''j2'')" "''j1''"]
  by (auto simp: demo_values)

end
