(* ===== verification/JobFrame.thy ===== *)
theory JobFrame
  imports RunProperties
begin

text \<open>
  The part of a job that its scheduling fixes (steps, dependencies, policy, source, contracts),
  that it never changes, and what it always satisfies.
\<close>

section \<open>What a job was scheduled with never changes\<close>

definition job_frame :: "JobState \<Rightarrow> JobScheduledData" where
  "job_frame j = \<lparr>js_jobId = job_jobId j, js_runId = job_runId j, js_stepId = job_stepId j,
     js_capability = job_capability j, js_dependencyJobIds = job_dependencyJobIds j,
     js_initialStatus = J_blocked, js_policy = job_policy j,
     js_sourceRevisionId = job_sourceRevisionId j,
     js_executionContract = job_executionContract j,
     js_executionContractDigest = job_executionContractDigest j,
     js_capabilityManifest = job_capabilityManifest j,
     js_capabilityManifestDigest = job_capabilityManifestDigest j,
     js_contextPacketId = job_contextPacketId j,
     js_contextPacketDigest = job_contextPacketDigest j,
     js_verifierContract = job_verifierContract j,
     js_verifierContractDigest = job_verifierContractDigest j\<rparr>"

lemma frame_updates [simp]:
  "job_frame (job_unblocked at v j) = job_frame j"
  "job_frame (job_lease_acquired w t e at v j) = job_frame j"
  "job_frame (job_lease_renewed e v j) = job_frame j"
  "job_frame (job_lease_released v j) = job_frame j"
  "job_frame (job_retry_scheduled u r v j) = job_frame j"
  "job_frame (job_completed s r' at v j) = job_frame j"
  "job_frame (job_attempt_started a n j) = job_frame j"
  "job_frame (job_receipted d j) = job_frame j"
  by (simp_all add: job_frame_def job_unblocked_def job_lease_acquired_def job_lease_renewed_def
      job_lease_released_def job_lease_cleared_def job_retry_scheduled_def job_completed_def
      job_attempt_started_def job_receipted_def)

definition framed :: "ProjectionState \<Rightarrow> ProjectionState \<Rightarrow> bool" where
  "framed st st' \<longleftrightarrow> (\<forall>i. map_option job_frame (mget (jobs st') i) = map_option job_frame (mget (jobs st) i))"

lemma framed_same: "jobs st' = jobs st \<Longrightarrow> framed st st'"
  by (simp add: framed_def)

lemma framed_on:
  "on_run i f st = Inr st' \<Longrightarrow> framed st st'"
  "on_attempt i g st = Inr st' \<Longrightarrow> framed st st'"
  "on_outbox i k st = Inr st' \<Longrightarrow> framed st st'"
  "on_verification i l st = Inr st' \<Longrightarrow> framed st st'"
  by (auto simp: on_Inr framed_def)

lemma framed_on_job:
  assumes "well_keyed st" and "on_job i f st = Inr st'" and "\<And>j. job_frame (f j) = job_frame j"
  shows "framed st st'"
proof -
  obtain j where j: "mget (jobs st) i = Some j" "st' = st\<lparr>jobs := mput (job_jobId j) (f j) (jobs st)\<rparr>"
    using assms(2) by (auto simp: on_Inr)
  with keyed_sel(1) [OF assms(1) j(1)] show ?thesis by (auto simp: framed_def assms(3))
qed

lemma framed_apply:
  assumes wk: "well_keyed st" and e: "apply_event sha at v d st = Inr st'"
  shows "framed st st' \<or> (\<exists>x. d = JobScheduled x \<and> apply_JobScheduled at v x st = Inr st')"
proof (cases d)
  case (AttemptStarted a j r n t)
  have "well_keyed (st\<lparr>attempts := mput a (attempt_started a j r n t at v) (attempts st)\<rparr>)"
    using wk by (auto simp: well_keyed_def attempt_started_def intro!: keyed_mput)
  from framed_on_job [OF this, of j "job_attempt_started a n" st'] e show ?thesis
    by (simp add: AttemptStarted apply_AttemptStarted_def framed_def)
next
  case (DriverReceiptRecorded r)
  show ?thesis
    using e keyed_sel(1) [OF wk] unfolding DriverReceiptRecorded
    by (auto simp: apply_DriverReceiptRecorded_Inr framed_def)
qed (use e framed_on_job [OF wk] in \<open>auto simp: framed_on
    apply_DriverEventsObserved_def apply_ArtifactManifestRecorded_def
    apply_VerificationReceiptRecorded_def intro: framed_same split: sum.splits option.splits if_splits\<close>)

section \<open>What is scheduled\<close>

text \<open>
  \<open>run.schedule\<close> gives every job a source revision and a verifier contract and binds no
  context packet; \<open>evolve\<close> refuses an unbound job whose contract needs a packet. No command on
  runs compiles a packet.
\<close>

definition scheduled_well :: "JobScheduledData \<Rightarrow> bool" where
  "scheduled_well d \<longleftrightarrow> js_contextPacketId d = None \<and> js_sourceRevisionId d \<noteq> None \<and>
     js_verifierContract d \<noteq> None \<and> js_verifierContractDigest d \<noteq> None"

definition runnable :: "JobScheduledData \<Rightarrow> bool" where
  "runnable d \<longleftrightarrow> map_option ec_protocolVersion (js_executionContract d) \<noteq> Some 2 \<and>
     js_sourceRevisionId d \<noteq> None \<and> js_verifierContract d \<noteq> None \<and> js_verifierContractDigest d \<noteq> None"

fun misschedules :: "EventData \<Rightarrow> bool" where
  "misschedules (JobScheduled d) = (\<not> scheduled_well d)"
| "misschedules (ContextPacketCompiled _ _) = True"
| "misschedules _ = False"

definition all_runnable :: "ProjectionState \<Rightarrow> bool" where
  "all_runnable st \<longleftrightarrow> (\<forall>i d. map_option job_frame (mget (jobs st) i) = Some d \<longrightarrow> runnable d)"

lemma all_runnable_job:
  "all_runnable st \<Longrightarrow> mget (jobs st) i = Some j \<Longrightarrow>
     map_option ec_protocolVersion (job_executionContract j) \<noteq> Some 2 \<and> job_sourceRevisionId j \<noteq> None \<and>
     job_verifierContract j \<noteq> None \<and> job_verifierContractDigest j \<noteq> None"
  by (force simp: all_runnable_def runnable_def job_frame_def)

lemma framed_runnable: "framed st st' \<Longrightarrow> all_runnable st \<Longrightarrow> all_runnable st'"
  unfolding all_runnable_def framed_def by metis

lemma unbound_contract:
  assumes b: "job_context_bound st d" and w: "scheduled_well d"
  shows "map_option ec_protocolVersion (js_executionContract d) \<noteq> Some 2"
proof (cases "js_executionContract d")
  case (Some x)
  then show ?thesis
    using b w by (cases x; cases "js_capabilityManifest d"; cases "the (js_capabilityManifest d)")
      (auto simp: job_context_bound_def scheduled_well_def)
qed simp

lemma scheduled_runnable:
  assumes e: "apply_JobScheduled at v d st = Inr st'" and w: "scheduled_well d" and u: "all_runnable st"
  shows "all_runnable st'"
proof -
  have b: "job_context_bound st d" and st': "st' = st\<lparr>jobs := mput (js_jobId d) (job_new d at v) (jobs st)\<rparr>"
    using e by (auto simp: apply_JobScheduled_def split: if_splits)
  from unbound_contract [OF b w] have "runnable (job_frame (job_new d at v))"
    using w by (simp add: runnable_def scheduled_well_def job_frame_def job_new_def)
  with u show ?thesis by (auto simp: st' all_runnable_def)
qed

lemma runnable_evolve:
  assumes "well_keyed st" and "all_runnable st" and e: "evolve sha st e = Inr st'"
    and "\<not> misschedules (ev_data e)"
  shows "all_runnable st'"
proof -
  let ?s = "st\<lparr>lastAppliedPosition := se_globalPosition e\<rparr>"
  have "well_keyed ?s" "all_runnable ?s" using assms(1,2) by (simp_all add: all_runnable_def)
  then show ?thesis
    using framed_apply [of ?s] e [unfolded evolve_def] framed_runnable [of ?s st'] assms(4)
      scheduled_runnable [of _ _ _ ?s st'] by fastforce
qed

lemma schedule_well:
  assumes "schedule_events sha rid m ss = Inr evs" and "check_steps st r m ss = None"
    and "list_all (\<lambda>s. ws_verification s \<noteq> None) ss"
  shows "emits (\<lambda>d. \<not> misschedules d) evs"
  using assms
proof (induction ss arbitrary: evs)
  case (Cons s ss)
  then show ?case
    by (auto simp: check_step_def scheduled_data_def scheduled_well_def split: option.splits sum.splits if_splits)
qed simp

lemma decide_schedules:
  assumes "decide_body sha st now body = Accept evs k n"
  shows "emits (\<lambda>d. \<not> misschedules d) evs"
proof -
  have c: "emits (\<lambda>d. \<not> misschedules d) evs" if "emits (\<lambda>d. \<not> claims d) evs"
    using that by (auto simp: emits_def elim!: misschedules.elims dest: bspec)
  from claimless_decide [OF assms] c show ?thesis
    by (auto simp: decide_workflow_register_def decide_run_schedule_def decide_job_lease_acquire_def
        job_claim_events_def decide_outbox_lease_acquire_def Let_def list_ex_iff list_all_iff
        split: if_splits option.splits sum.splits dest: schedule_well)
qed

lemma reachable_runnable: "reachable sha st \<Longrightarrow> all_runnable st"
proof (induction rule: reachable.induct)
  case reachable_empty
  show ?case by (simp add: all_runnable_def emptyProjectionState_def)
next
  case (reachable_commit st c now st')
  have "well_keyed st \<and> all_runnable st" using reachable_commit reachable_parts(1) by blast
  with reachable_commit(3) have "well_keyed st' \<and> all_runnable st'"
    by (rule commits_keep) (use decide_schedules runnable_evolve well_keyed_evolve in blast)+
  then show ?case by blast
qed

section \<open>Context packets stay intact\<close>

text \<open>
  Every job whose contract needs a context packet has it, with the digest the job was bound to.
  Commands on runs keep this, whatever jobs the start of milestones has added.
\<close>

definition packets_intact :: "(string \<Rightarrow> string) \<Rightarrow> ProjectionState \<Rightarrow> bool" where
  "packets_intact sha st \<longleftrightarrow>
     (\<forall>i job. mget (jobs st) i = Some job \<longrightarrow> context_packet_valid sha job (job_context_packet st job))"

lemma runnable_packets: "all_runnable st \<Longrightarrow> packets_intact sha st"
  using all_runnable_job by (force simp: packets_intact_def context_packet_valid_def)

lemma packets_on:
  "on_run i f st = Inr st' \<Longrightarrow> contextPackets st' = contextPackets st"
  "on_attempt i g st = Inr st' \<Longrightarrow> contextPackets st' = contextPackets st"
  "on_job i h st = Inr st' \<Longrightarrow> contextPackets st' = contextPackets st"
  "on_outbox i k st = Inr st' \<Longrightarrow> contextPackets st' = contextPackets st"
  "on_verification i l st = Inr st' \<Longrightarrow> contextPackets st' = contextPackets st"
  by (auto simp: on_Inr)

lemma packets_apply:
  "apply_event sha at v d st = Inr st' \<Longrightarrow> \<not> misschedules d \<Longrightarrow> contextPackets st' = contextPackets st"
  by (cases d)
     (auto simp: apply_JobScheduled_def apply_DriverEventsObserved_def apply_AttemptStarted_def
      apply_ArtifactManifestRecorded_def apply_DriverReceiptRecorded_Inr
      apply_VerificationReceiptRecorded_def dest!: packets_on split: sum.splits option.splits if_splits)

lemma framed_packets:
  assumes "framed st st'" and "contextPackets st' = contextPackets st" and "packets_intact sha st"
  shows "packets_intact sha st'"
  unfolding packets_intact_def
proof (intro allI impI)
  fix i job'
  assume "mget (jobs st') i = Some job'"
  then have "map_option job_frame (mget (jobs st) i) = Some (job_frame job')"
    using assms(1) [unfolded framed_def, rule_format, of i] by simp
  then obtain job where job: "mget (jobs st) i = Some job" "job_frame job = job_frame job'" by auto
  then have "job_executionContract job = job_executionContract job'" "job_contextPacketId job = job_contextPacketId job'"
    "job_contextPacketDigest job = job_contextPacketDigest job'"
    by (simp_all add: job_frame_def)
  moreover have "context_packet_valid sha job (job_context_packet st job)"
    using assms(3) job(1) by (simp add: packets_intact_def)
  ultimately show "context_packet_valid sha job' (job_context_packet st' job')"
    using assms(2) by (simp add: context_packet_valid_def job_context_packet_def split: option.splits)
qed

lemma scheduled_packets:
  assumes e: "apply_JobScheduled at v d st = Inr st'" and w: "scheduled_well d" and u: "packets_intact sha st"
  shows "packets_intact sha st'"
proof -
  have b: "job_context_bound st d" and st': "st' = st\<lparr>jobs := mput (js_jobId d) (job_new d at v) (jobs st)\<rparr>"
    using e by (auto simp: apply_JobScheduled_def split: if_splits)
  have "map_option ec_protocolVersion (js_executionContract d) \<noteq> Some 2"
    by (rule unbound_contract [OF b w])
  then show ?thesis
    using u by (auto simp: st' packets_intact_def context_packet_valid_def job_context_packet_def job_new_def)
qed

lemma packets_evolve:
  assumes "well_keyed st" and "packets_intact sha st" and e: "evolve sha st e = Inr st'"
    and m: "\<not> misschedules (ev_data e)"
  shows "packets_intact sha st'"
proof -
  let ?s = "st\<lparr>lastAppliedPosition := se_globalPosition e\<rparr>"
  have s: "well_keyed ?s" "packets_intact sha ?s"
    using assms(1,2) by (simp_all add: packets_intact_def job_context_packet_def)
  from framed_apply [OF s(1) e [unfolded evolve_def]] show ?thesis
  proof
    assume "framed ?s st'"
    then show ?thesis using framed_packets [OF _ packets_apply [OF e [unfolded evolve_def] m] s(2)] by blast
  next
    assume "\<exists>x. ev_data e = JobScheduled x \<and> apply_JobScheduled (se_occurredAt e) (se_streamVersion e) x ?s = Inr st'"
    then obtain x where "ev_data e = JobScheduled x" "apply_JobScheduled (se_occurredAt e) (se_streamVersion e) x ?s = Inr st'"
      by blast
    then show ?thesis using scheduled_packets [OF _ _ s(2)] m by simp
  qed
qed

lemma packets_commit:
  assumes "well_keyed st" and "packets_intact sha st" and "commits sha st c now st'"
  shows "packets_intact sha st'"
proof -
  have "well_keyed st \<and> packets_intact sha st" using assms by blast
  with assms(3) have "well_keyed st' \<and> packets_intact sha st'"
    by (rule commits_keep) (use decide_schedules packets_evolve well_keyed_evolve in blast)+
  then show ?thesis by blast
qed

end
