(* ===== verification/Progress.thy ===== *)
theory Progress
  imports JobFrame
begin

text \<open>
  Runs do not get stuck: while a run is scheduled or running, one of its jobs is ready, waits
  for a retry or is active, and a lease on it is granted to any worker from some time on.
\<close>

section \<open>Some job of an open run can be claimed\<close>

lemma finite_job_deps: "finite (job_deps (life st))"
proof (rule finite_subset)
  show "job_deps (life st) \<subseteq> (\<Union>(j, x)\<in>set (jobs st). {j} \<times> set (job_dependencyJobIds x))"
    by (force simp: job_deps_def life_fields dest: map_of_SomeD)
qed auto

text \<open>
  A job that has not succeeded and whose dependencies have is not blocked; one exists in every
  open run because the dependencies have no cycle.
\<close>

lemma open_run_job:
  assumes ok: "state_ok st" and run: "mget (runs st) rid = Some run"
    and o: "run_status run = R_scheduled \<or> run_status run = R_running"
  shows "\<exists>j job. mget (jobs st) j = Some job \<and> job_runId job = rid \<and>
     job_status job \<in> {J_ready, J_retry_wait, J_active}"
proof -
  let ?L = "life st"
  note inv = state_parts [OF ok]
  define Q where "Q = {j. waiting ?L j \<and> (\<exists>x. lf_job ?L j = Some x \<and> jl_run x = rid)}"
  have "open_run (lf_run ?L rid)" using run o by (auto simp: open_run_def life_sel)
  then obtain j0 where "j0 \<in> Q" using progressing_run [OF inv(8)] unfolding Q_def by blast
  moreover have "wf ((job_deps ?L)\<inverse>)"
    using finite_job_deps inv(8) by (intro finite_acyclic_wf_converse) (auto simp: progressing_def)
  ultimately obtain j where j: "j \<in> Q" "\<And>d. (j, d) \<in> job_deps ?L \<Longrightarrow> d \<notin> Q"
    by (auto elim!: wfE_min)
  obtain job where job: "mget (jobs st) j = Some job" "job_runId job = rid" "job_status job \<noteq> J_succeeded"
    using j(1) by (auto simp: Q_def waiting_def life_fields)
  have l: "lf_job ?L j = Some (job_life job)" using job(1) by (simp add: life_fields)
  have "job_status job \<noteq> J_blocked"
  proof
    assume "job_status job = J_blocked"
    then obtain d where d: "d \<in> set (job_dependencyJobIds job)" "waiting ?L d"
      using progressing_blocked [OF inv(8) l] by auto
    then obtain y where "lf_job ?L d = Some y" "jl_run y = rid"
      using inv(7) l job(2) unfolding dependencies_respected_def by fastforce
    then show False using j(2) [of d] d l by (auto simp: job_deps_def Q_def)
  qed
  moreover have "job_status job \<notin> {J_failed, J_cancelled}"
    using run_of_job [OF inv(6) l] run o job(2) by (auto simp: life_sel)
  ultimately show ?thesis using job by (cases "job_status job") auto
qed

text \<open>Such a job is leased to whoever asks once its lease has run out and its time has come.\<close>

definition claimable_from :: "JobState \<Rightarrow> timestamp" where
  "claimable_from job = max (job_availableAt job)
     (case job_leaseExpiresAt job of None \<Rightarrow> job_availableAt job | Some t \<Rightarrow> t)"

definition fresh_claim :: "ProjectionState \<Rightarrow> JobLeaseAcquirePayload \<Rightarrow> bool" where
  "fresh_claim st p \<longleftrightarrow> \<not> mhas (attempts st) (jla_attemptId p) \<and> \<not> mhas (outbox st) (jla_startOutboxId p)"

lemma claim_decided:
  assumes ok: "state_ok st" and packets: "packets_intact sha st" and job: "mget (jobs st) (jla_jobId p) = Some job"
    and s: "job_status job \<in> {J_ready, J_retry_wait, J_active}"
    and run: "mget (runs st) (job_runId job) = Some run" "\<not> terminal_run (run_status run)"
    and p: "claimable_from job \<le> now" "fresh_claim st p"
  shows "decide_body sha st now (Cmd_job_lease_acquire p) =
     Accept (job_claim_events st job p now) K_job (job_jobId job)"
proof -
  have "job_status job = J_active \<longleftrightarrow> job_activeAttemptId job \<noteq> None"
    using linked_active_iff [OF state_parts(2) [OF ok], of "jla_jobId p" "job_life job"] job
    by (auto simp: life_fields)
  then have "job_claim_error st job p now = None"
    using s run p
    by (auto simp: job_claim_error_def Let_def resuming_def atOrBefore_def claimable_from_def fresh_claim_def
        split: option.splits)
  moreover have "context_packet_valid sha job (job_context_packet st job)"
    using packets job by (simp add: packets_intact_def)
  ultimately show ?thesis using job by (simp add: decide_job_lease_acquire_def)
qed

lemma claim_committed:
  assumes wk: "well_keyed st" and job: "mget (jobs st) j = Some job"
    and run: "mget (runs st) (job_runId job) = Some run"
    and d: "decide_body sha st now (cmd_body c) = Accept (job_claim_events st job p now) k i"
  shows "\<exists>st' job'. commits sha st c now st' \<and> mget (jobs st') j = Some job' \<and> job_runId job' = job_runId job \<and>
     job_status job' = J_active \<and> job_leaseOwnerId job' = Some (jla_ownerId p)"
proof -
  let ?es = "map (demo_event now) (job_claim_events st job p now)"
  have keys: "job_jobId job = j" "run_runId run = job_runId job"
    using keyed_sel [OF wk] job run by auto
  have "\<exists>st' job'. try_fold (evolve sha) st ?es = Inr st' \<and> mget (jobs st') j = Some job' \<and>
      job_runId job' = job_runId job \<and> job_status job' = J_active \<and> job_leaseOwnerId job' = Some (jla_ownerId p)"
    using job run keys
    by (simp add: job_claim_events_def demo_event_def event_def evolve_def on_run_def on_job_def required_def
        apply_AttemptStarted_def outboxEnqueued_def job_lease_acquired_def job_attempt_started_def run_started_def)
  with d demo_stamped [of now] show ?thesis by (auto simp: commits_def decide_def)
qed

text \<open>
  C3. Liveness of runs: in every projection with the invariant of C1 whose jobs have the context
  packets they are bound to, a scheduled or running run has a job that can be worked on, be it a
  workflow's job or the packet-bound job of a milestone. From some time on, a lease on it is
  granted to any worker that asks with new identifiers, whatever happened to the workers before:
  the command is accepted, its events apply, and the job is active under that worker.
\<close>

theorem open_run_can_advance:
  assumes "state_ok st" and "packets_intact sha st" and "mget (runs st) rid = Some run"
    and "run_status run = R_scheduled \<or> run_status run = R_running"
  shows "\<exists>j t. \<forall>c p now. cmd_body c = Cmd_job_lease_acquire p \<and> jla_jobId p = j \<and> t \<le> now \<and> fresh_claim st p \<longrightarrow>
     (\<exists>st' job. commits sha st c now st' \<and> mget (jobs st') j = Some job \<and> job_runId job = rid \<and>
        job_status job = J_active \<and> job_leaseOwnerId job = Some (jla_ownerId p))"
proof -
  obtain j job where j: "mget (jobs st) j = Some job" "job_runId job = rid"
    "job_status job \<in> {J_ready, J_retry_wait, J_active}"
    using open_run_job [OF assms(1,3,4)] by blast
  have nt: "\<not> terminal_run (run_status run)" using assms(4) by (auto simp: terminal_run_def)
  show ?thesis
  proof (intro exI [of _ j] exI [of _ "claimable_from job"] allI impI, elim conjE)
    fix c :: Command and p now
    assume c: "cmd_body c = Cmd_job_lease_acquire p" "jla_jobId p = j" "claimable_from job \<le> now" "fresh_claim st p"
    have "decide_body sha st now (cmd_body c) = Accept (job_claim_events st job p now) K_job (job_jobId job)"
      unfolding c(1) by (rule claim_decided [OF assms(1,2) _ j(3) _ nt c(3,4)]) (use j c(2) assms(3) in simp_all)
    from claim_committed [OF state_parts(1) [OF assms(1)] j(1) _ this] assms(3) j(2)
    show "\<exists>st' job. commits sha st c now st' \<and> mget (jobs st') j = Some job \<and> job_runId job = rid \<and>
        job_status job = J_active \<and> job_leaseOwnerId job = Some (jla_ownerId p)"
      by fastforce
  qed
qed

text \<open>
  The witness is a run whose jobs have contracts of version 2 and a context packet, built by
  \<open>evolve\<close> from the events that schedule them. Its lifecycle is that of the demonstration's run.
\<close>

definition bound_packet :: ContextPacket where
  "bound_packet = (let r = \<lparr>ref_kind = ''source_revision'', ref_id = ''s1'', ref_digest = ''''\<rparr> in
     \<lparr>cp_contextPacketId = ''c1'', cp_programId = ''p1'', cp_milestoneId = ''m1'', cp_generationId = ''n1'',
      cp_generation = 1, cp_intentPlaybackRef = r, cp_graphRevisionRef = r, cp_milestoneContractRef = r,
      cp_sourceRevisionRef = r, cp_dependencyOutcomeRefs = [], cp_dependencyVerificationRefs = [],
      cp_decisions = [], cp_assumptions = [], cp_risks = [], cp_unresolvedQuestions = [], cp_refs = [],
      cp_allowedWorkSurfaces = [], cp_compiledAt = 0\<rparr>)"

definition bound_digest :: digest where
  "bound_digest = digest_of demo_sha (enc_ContextPacket bound_packet)"

definition bound_job :: "uuid \<Rightarrow> string \<Rightarrow> uuid list \<Rightarrow> JobStatus \<Rightarrow> JobScheduledData" where
  "bound_job j step deps status = \<lparr>js_jobId = j, js_runId = ''r1'', js_stepId = step, js_capability = ''c'',
     js_dependencyJobIds = deps, js_initialStatus = status, js_policy = demo_policy,
     js_sourceRevisionId = Some ''s1'',
     js_executionContract = Some (ContractV2 ''i'' [''x''] (Some ''c1'') (Some bound_digest)),
     js_executionContractDigest = Some '''',
     js_capabilityManifest = Some (ManifestV2 \<lparr>cap_workspace = Read_write, cap_cpuLimit = ''1'',
       cap_memoryLimitBytes = 67108864, cap_pidsLimit = 16\<rparr> (Some ''c1'') (Some bound_digest)),
     js_capabilityManifestDigest = Some '''', js_contextPacketId = Some ''c1'',
     js_contextPacketDigest = Some bound_digest, js_verifierContract = Some demo_verifier,
     js_verifierContractDigest = Some ''''\<rparr>"

definition bound_events :: "DomainEventInput list" where
  "bound_events = [event ST_context_packet ''c1'' (ContextPacketCompiled bound_packet bound_digest),
     event ST_job ''j1'' (JobScheduled (bound_job ''j1'' ''build'' [] J_ready)),
     event ST_job ''j2'' (JobScheduled (bound_job ''j2'' ''test'' [''j1''] J_blocked)),
     event ST_run ''r1'' (RunScheduled ''r1'')]"

definition bound_state :: ProjectionState where
  "bound_state = (case try_fold (evolve demo_sha) demo_created (map (demo_event 0) bound_events) of
     Inr st \<Rightarrow> st | Inl _ \<Rightarrow> demo_created)"

lemma bound_packet_id [simp]: "cp_contextPacketId bound_packet = ''c1''"
  by (simp add: bound_packet_def Let_def)

lemma bound_values:
  "jobs bound_state = [(''j1'', job_new (bound_job ''j1'' ''build'' [] J_ready) 0 1),
     (''j2'', job_new (bound_job ''j2'' ''test'' [''j1''] J_blocked) 0 1)]"
  "contextPackets bound_state = [(''c1'', \<lparr>cps_packet = bound_packet, cps_packetDigest = bound_digest, cps_version = 1\<rparr>)]"
  "runs bound_state = [(''r1'', run_scheduled 0 1 (the (mget (runs demo_created) ''r1'')))]"
  "workflows bound_state = workflows demo_created" "attempts bound_state = []" "outbox bound_state = []"
  "verifications bound_state = []"
  by (simp_all add: bound_state_def bound_events_def demo_event_def event_def evolve_def on_run_def required_def
      apply_JobScheduled_def job_context_bound_def job_context_absent_def bound_job_def bound_digest_def [symmetric]
      demo_created_eq run_scheduled_def)

lemma bound_ok: "state_ok bound_state" "packets_intact demo_sha bound_state"
proof -
  have "mget (runs bound_state) i = mget (runs demo_scheduled) i" for i
    by (simp add: bound_values demo_values run_scheduled_def)
  moreover have "map_option job_life (mget (jobs bound_state) i) = map_option job_life (mget (jobs demo_scheduled) i)" for i
    by (simp add: bound_values demo_values job_life_def job_new_def bound_job_def demo_policy_def)
  ultimately have "life bound_state = life demo_scheduled"
    by (simp add: life_def bound_values demo_values(5))
  moreover have "workflows bound_state = workflows demo_scheduled"
    by (simp add: bound_values demo_values)
  moreover have "well_keyed bound_state"
    by (auto simp: well_keyed_def keyed_def mwf_def bound_values job_new_def bound_job_def run_scheduled_def demo_values)
  ultimately show "state_ok bound_state"
    using reachable_ok [OF demo_reachable(5)] by (simp add: state_ok_def workflows_valid_def)
  show "packets_intact demo_sha bound_state"
    by (auto simp: packets_intact_def context_packet_valid_def job_context_packet_def bound_values job_new_def
        bound_job_def bound_digest_def split: if_splits)
qed

theorem open_run_can_advance_witness:
  "\<exists>j c now st'. commits demo_sha bound_state c now st' \<and>
     map_option job_leaseOwnerId (mget (jobs st') j) = Some (Some ''o2'')"
proof -
  let ?run = "the (mget (runs bound_state) ''r1'')"
  have "mget (runs bound_state) ''r1'' = Some ?run" "run_status ?run = R_scheduled \<or> run_status ?run = R_running"
    by (simp_all add: bound_values run_scheduled_def)
  from open_run_can_advance [OF bound_ok this] obtain j t where
    a: "\<forall>c p now. cmd_body c = Cmd_job_lease_acquire p \<and> jla_jobId p = j \<and> t \<le> now \<and> fresh_claim bound_state p \<longrightarrow>
      (\<exists>st' job. commits demo_sha bound_state c now st' \<and> mget (jobs st') j = Some job \<and> job_runId job = ''r1'' \<and>
        job_status job = J_active \<and> job_leaseOwnerId job = Some (jla_ownerId p))"
    by blast
  let ?p = "\<lparr>jla_jobId = j, jla_ownerId = ''o2'', jla_leaseDurationMs = 30000, jla_attemptId = ''a2'',
    jla_startOutboxId = ''b9''\<rparr>"
  have "fresh_claim bound_state ?p" by (simp add: fresh_claim_def mhas_def bound_values)
  with a [rule_format, of "demo_command ''k15'' (Cmd_job_lease_acquire ?p)" ?p t]
  show ?thesis by (fastforce simp: demo_command_def)
qed

end
