(* ===== verification/Provenance.thy ===== *)
theory Provenance
  imports JobFrame
begin

text \<open>
  Where the success of a job comes from: from a completed verification whose result passed,
  whose evidence is consistent, and which was requested for the job's active attempt; and, for a
  job scheduled before verification existed, from the report of its own attempt.
\<close>

fun succeeds_job :: "uuid \<Rightarrow> EventData \<Rightarrow> bool" where
  "succeeds_job j (JobSucceeded i _) = (i = j)"
| "succeeds_job j d = succeeds d"

lemma succeeds_jobI: "\<not> succeeds d \<Longrightarrow> \<not> succeeds_job j d"
  by (cases d) simp_all

lemma successless_view:
  assumes "emits (\<lambda>d. \<not> succeeds_job j d) evs" and "job_view evs j x = Some y" and "jl_status y = J_succeeded"
  shows "\<exists>z. x = Some z \<and> jl_status z = J_succeeded"
  using assms
proof (induction evs arbitrary: x)
  case (Cons e es)
  obtain z where z: "job_step (ev_data e) j x = Some z" "jl_status z = J_succeeded"
    using Cons by auto
  then show ?case
    using Cons.prems(1) by (cases "ev_data e") (auto simp: jl_new_def split: if_splits)
qed simp

lemma teardown_successless: "allows_teardown st (\<lambda>d. \<not> succeeds d)"
  by (simp add: allows_teardown_def)

text \<open>
  \<open>attempt.observe\<close> lets a job succeed in one case only: the job was scheduled without a source
  revision or without a verifier contract, as jobs were before verification existed.
\<close>

lemma active_attemptD:
  assumes "active_attempt st i a w t now = Inr (job, x)"
  shows "mget (jobs st) i = Some job" and "mget (attempts st) a = Some x"
    and "job_activeAttemptId job = Some (att_attemptId x)" and "validateJobLease job w t now = None"
  using assms by (auto simp: active_attempt_def split: option.splits if_splits)

lemma observe_success:
  assumes wk: "well_keyed st" and d: "decide_attempt_observe sha st p now = Accept evs k n"
    and s: "\<not> emits (\<lambda>d. \<not> succeeds_job j d) evs"
  shows "\<exists>x job. ao_jobId p = j \<and> ao_succeeded p \<and> mget (jobs st) j = Some job \<and>
     (job_sourceRevisionId job = None \<or> job_verifierContract job = None \<or> job_verifierContractDigest job = None) \<and>
     mget (attempts st) (ao_attemptId p) = Some x \<and> att_status x = A_running \<and>
     (case att_deadlineAt x of None \<Rightarrow> True | Some t \<Rightarrow> now < t) \<and>
     job_activeAttemptId job = Some (ao_attemptId p) \<and>
     validateJobLease job (ao_ownerId p) (ao_fencingToken p) now = None"
proof -
  obtain job x where a: "active_attempt st (ao_jobId p) (ao_attemptId p) (ao_ownerId p) (ao_fencingToken p) now = Inr (job, x)"
    and live: "\<not> (case att_deadlineAt x of None \<Rightarrow> False | Some d \<Rightarrow> atOrBefore d now)" "att_status x = A_running"
    using d by (auto simp: decide_attempt_observe_def split: sum.splits if_splits)
  note act = active_attemptD [OF a]
  have id: "job_jobId job = ao_jobId p" "att_attemptId x = ao_attemptId p"
    using keyed_sel [OF wk] act(1,2) by auto
  have fail: "emits (\<lambda>d. \<not> succeeds_job j d) (failureTransitionEvents sha st job x TR_driver_error now d e)" for d e
    using emits_failureTransition [OF teardown_successless] succeeds_jobI by (blast intro: emits_mono)
  have request: "emits (\<lambda>d. \<not> succeeds_job j d) (verificationRequestEvents job i run w v o' src vc cd)" for i run w v o' src vc cd
    by (rule emits_verificationRequest) simp_all
  have legacy: "job_sourceRevisionId job = None \<or> job_verifierContract job = None \<or> job_verifierContractDigest job = None"
    and "ao_succeeded p"
    and evs: "evs = attemptFinished job (att_attemptId x) A_succeeded TR_completed (truthy (ao_detail p)) # jobSuccessEvents st job"
    using d s fail request live
    by (auto simp: decide_attempt_observe_def a observe_verification_def split: option.splits if_splits)
  moreover have "ao_jobId p = j"
    using s id emits_jobSuccess [of "\<lambda>d. \<not> succeeds_job j d" job st] by (auto simp: evs attemptFinished_def)
  ultimately show ?thesis
    using act id live by (auto simp: atOrBefore_def not_le split: option.splits)
qed

lemma complete_success:
  assumes wk: "well_keyed st" and d: "decide_verification_complete sha st p now = Accept evs k n"
    and s: "\<not> emits (\<lambda>d. \<not> succeeds_job j d) evs"
  shows "\<exists>v job. vcp_jobId p = j \<and> mget (jobs st) j = Some job \<and>
     mget (verifications st) (vcp_verificationId p) = Some v \<and> ver_status v = V_requested \<and> ver_jobId v = j \<and>
     job_activeAttemptId job = Some (ver_attemptId v) \<and> vr_outcome (vcp_result p) = VO_passed \<and>
     vr_exitCode (vcp_result p) = Some 0 \<and> \<not> evidence_mutated (vcp_result p) \<and>
     vcp_receiptDigest p = expected_receipt_digest sha v p \<and>
     validateJobLease job (vcp_ownerId p) (vcp_jobFencingToken p) now = None"
proof -
  obtain v job b a where ctx: "verification_context st (vcp_verificationId p) (vcp_jobId p) (vcp_outboxId p)
      (vcp_ownerId p) (vcp_jobFencingToken p) (vcp_outboxFencingToken p) now = Inr (v, job, b)"
    and act: "verification_active v job b a" and ok: "verification_digests_ok sha v p" "result_consistent sha (vcp_result p)"
    and evs: "evs = verification_events sha st job (att_attemptId a) b v p"
    using d by (auto simp: decide_verification_complete_def Let_def split: sum.splits option.splits if_splits)
  note c = verification_context_Inr [OF ctx]
  have id: "job_jobId job = vcp_jobId p" using keyed_sel(1) [OF wk c(3)] .
  have fail: "emits (\<lambda>d. \<not> succeeds_job j d) (jobFailureEvents sha st job r)" for r
    using emits_jobFailure [OF teardown_successless] succeeds_jobI by (blast intro: emits_mono)
  have passed: "vr_outcome (vcp_result p) = VO_passed"
    using s fail by (auto simp: evs verification_events_def Let_def split: if_splits)
  moreover have "vcp_jobId p = j"
    using s passed id emits_jobSuccess [of "\<lambda>d. \<not> succeeds_job j d" job st]
    by (auto simp: evs verification_events_def Let_def)
  ultimately show ?thesis
    using act ok c id by (auto simp: verification_active_def verification_digests_ok_def result_consistent_def)
qed

text \<open>
  C4. No job with a verifier succeeds without a passed verification. When a commit makes a job
  succeed, the command is \<open>verification.complete\<close> by the holder of the job's lease, for the open
  verification of the job's active attempt, with outcome \<open>passed\<close>, exit code 0, source and
  verifier contract unchanged, and a receipt digest over exactly this evidence; or the job was
  scheduled without a source revision or verifier contract (a legacy job), and the command is
  \<open>attempt.observe\<close> by the holder of its lease, reporting the success of its active, running
  attempt before the attempt's deadline. No other command lets a job succeed.
\<close>

theorem job_success_is_verified:
  assumes "well_keyed st" and "commits sha st c now st'"
    and "mget (jobs st) j = Some job" and "job_status job \<noteq> J_succeeded"
    and "map_option job_status (mget (jobs st') j) = Some J_succeeded"
  shows "(\<exists>p v. cmd_body c = Cmd_verification_complete p \<and> vcp_jobId p = j \<and>
     mget (verifications st) (vcp_verificationId p) = Some v \<and> ver_status v = V_requested \<and> ver_jobId v = j \<and>
     job_activeAttemptId job = Some (ver_attemptId v) \<and> vr_outcome (vcp_result p) = VO_passed \<and>
     vr_exitCode (vcp_result p) = Some 0 \<and> \<not> evidence_mutated (vcp_result p) \<and>
     vcp_receiptDigest p = expected_receipt_digest sha v p \<and>
     validateJobLease job (vcp_ownerId p) (vcp_jobFencingToken p) now = None) \<or>
   (\<exists>p x. cmd_body c = Cmd_attempt_observe p \<and> ao_jobId p = j \<and> ao_succeeded p \<and>
     (job_sourceRevisionId job = None \<or> job_verifierContract job = None \<or> job_verifierContractDigest job = None) \<and>
     mget (attempts st) (ao_attemptId p) = Some x \<and> att_status x = A_running \<and>
     (case att_deadlineAt x of None \<Rightarrow> True | Some t \<Rightarrow> now < t) \<and>
     job_activeAttemptId job = Some (ao_attemptId p) \<and>
     validateJobLease job (ao_ownerId p) (ao_fencingToken p) now = None)"
proof -
  note wk = assms(1)
  obtain evs k i where d: "decide sha st c now = Accept evs k i"
    and v: "lf_job (life st') j = job_view evs j (lf_job (life st) j)"
    using commits_life [OF assms(2) wk] by metis
  obtain job' where job': "mget (jobs st') j = Some job'" "job_status job' = J_succeeded"
    using assms(5) by auto
  have s: "\<not> emits (\<lambda>d. \<not> succeeds_job j d) evs"
  proof
    assume "emits (\<lambda>d. \<not> succeeds_job j d) evs"
    from successless_view [OF this, of "lf_job (life st) j" "job_life job'"] v job' assms(3,4)
    show False by (auto simp: life_fields life_sel)
  qed
  then have "\<not> emits (\<lambda>d. \<not> succeeds d) evs" using succeeds_jobI by (blast intro: emits_mono)
  moreover have d': "decide_body sha st now (cmd_body c) = Accept evs k i" using d by (simp add: decide_def)
  ultimately consider
    (verified) p where "cmd_body c = Cmd_verification_complete p" "decide_verification_complete sha st p now = Accept evs k i"
  | (legacy) p where "cmd_body c = Cmd_attempt_observe p" "decide_attempt_observe sha st p now = Accept evs k i"
    using successless_decide [OF d'] by blast
  then show ?thesis
  proof cases
    case verified
    from complete_success [OF wk verified(2) s] verified(1) assms(3) show ?thesis by auto
  next
    case legacy
    from observe_success [OF wk legacy(2) s] legacy(1) assms(3) show ?thesis by auto
  qed
qed

lemma demo_completion:
  "commits demo_sha demo_checking (demo_command ''k13'' (Cmd_verification_complete demo_verdict)) 70 demo_verified"
proof -
  have "demo_verified \<noteq> demo_checking" by (simp add: demo_values)
  then show ?thesis
    using advance_commits [of demo_sha "demo_command ''k13'' (Cmd_verification_complete demo_verdict)" 70 demo_checking]
    by (simp add: demo_verified_def)
qed

theorem job_success_is_verified_witness:
  "vr_outcome (vcp_result demo_verdict) = VO_passed \<and>
   job_activeAttemptId (the (mget (jobs demo_checking) ''j1'')) = Some ''a1''"
  using job_success_is_verified [OF reachable_parts(1) [OF demo_reachable(12)] demo_completion, of "''j1''" "the (mget (jobs demo_checking) ''j1'')"]
  by (auto simp: demo_values demo_command_def)

end
