(* ===== verification/Leases.thy ===== *)
theory Leases
  imports Emits LifeSchedule
begin

text \<open>
  Leases of jobs and outbox messages: who holds one, under which fencing token and until
  when; what each event does to it; and the interpretations of \<open>fenced_lease\<close> for
  both, from which exclusivity and fencing follow. Tokens never decrease over the commits of the
  kernel, every acquisition takes the next token of a free lease, and the checks of holders'
  commands admit one owner and one token. The one exception, a driver receipt that reuses the
  identifier of an existing message, is excluded by hypothesis.
\<close>

section \<open>The lease of an entity\<close>

record LeaseView =
  lv_owner :: "uuid option"
  lv_token :: nat
  lv_expires :: "timestamp option"

definition lv_free :: LeaseView where
  "lv_free = \<lparr>lv_owner = None, lv_token = 0, lv_expires = None\<rparr>"

definition lv_clear :: "LeaseView \<Rightarrow> LeaseView" where
  "lv_clear x = x\<lparr>lv_owner := None, lv_expires := None\<rparr>"

definition job_lease :: "JobState \<Rightarrow> LeaseView" where
  "job_lease j = \<lparr>lv_owner = job_leaseOwnerId j, lv_token = job_leaseFencingToken j,
     lv_expires = job_leaseExpiresAt j\<rparr>"

definition out_lease :: "OutboxState \<Rightarrow> LeaseView" where
  "out_lease b = \<lparr>lv_owner = out_leaseOwnerId b, lv_token = out_leaseFencingToken b,
     lv_expires = out_leaseExpiresAt b\<rparr>"

lemmas lease_defs = lv_free_def lv_clear_def job_lease_def out_lease_def

fun job_lease_step :: "EventData \<Rightarrow> uuid \<Rightarrow> LeaseView option \<Rightarrow> LeaseView option" where
  "job_lease_step (JobScheduled d) i x = (if i = js_jobId d then Some lv_free else x)"
| "job_lease_step (JobLeaseAcquired j _ w t e _) i x =
     (if i = j then map_option (\<lambda>_. \<lparr>lv_owner = Some w, lv_token = t, lv_expires = Some e\<rparr>) x else x)"
| "job_lease_step (JobLeaseRenewed j _ _ _ e) i x =
     (if i = j then map_option (lv_expires_update (\<lambda>_. Some e)) x else x)"
| "job_lease_step (JobLeaseReleased j _ _ _) i x = (if i = j then map_option lv_clear x else x)"
| "job_lease_step (JobRetryScheduled j _ _ _) i x = (if i = j then map_option lv_clear x else x)"
| "job_lease_step (JobSucceeded j _) i x = (if i = j then map_option lv_clear x else x)"
| "job_lease_step (JobFailed j _ _) i x = (if i = j then map_option lv_clear x else x)"
| "job_lease_step (JobCancelled j _ _) i x = (if i = j then map_option lv_clear x else x)"
| "job_lease_step _ i x = x"

fun out_lease_step :: "EventData \<Rightarrow> uuid \<Rightarrow> LeaseView option \<Rightarrow> LeaseView option" where
  "out_lease_step (OutboxEnqueued d) i x = (if i = oe_outboxId d then Some lv_free else x)"
| "out_lease_step (OutboxLeaseAcquired b _ w t e _) i x =
     (if i = b then map_option (\<lambda>_. \<lparr>lv_owner = Some w, lv_token = t, lv_expires = Some e\<rparr>) x else x)"
| "out_lease_step (OutboxDeliveryFailed b _ _ _ _) i x = (if i = b then map_option lv_clear x else x)"
| "out_lease_step (OutboxDelivered b _ _) i x = (if i = b then map_option lv_clear x else x)"
| "out_lease_step (OutboxObsoleted b _ _) i x = (if i = b then map_option lv_clear x else x)"
| "out_lease_step _ i x = x"

definition jobLease :: "ProjectionState \<Rightarrow> uuid \<Rightarrow> LeaseView option" where
  "jobLease st i = map_option job_lease (mget (jobs st) i)"

definition outLease :: "ProjectionState \<Rightarrow> uuid \<Rightarrow> LeaseView option" where
  "outLease st i = map_option out_lease (mget (outbox st) i)"

section \<open>Refinement of the events\<close>

lemma lease_on [simp]:
  "on_run r f st = Inr st' \<Longrightarrow> jobs st' = jobs st \<and> outbox st' = outbox st"
  "on_attempt r g st = Inr st' \<Longrightarrow> jobs st' = jobs st \<and> outbox st' = outbox st"
  "on_verification r h st = Inr st' \<Longrightarrow> jobs st' = jobs st \<and> outbox st' = outbox st"
  by (auto simp: on_Inr)

lemma lease_on_job:
  assumes "well_keyed st" "on_job j f st = Inr st'" "\<And>x. job_lease (f x) = g (job_lease x)"
  shows "jobLease st' i = (if i = j then map_option g (jobLease st i) else jobLease st i)"
    and "outLease st' i = outLease st i"
  using assms by (auto simp: on_job_Inr jobLease_def outLease_def well_keyed_def dest: keyedD)

lemma lease_on_outbox:
  assumes "well_keyed st" "on_outbox b f st = Inr st'" "\<And>x. out_lease (f x) = g (out_lease x)"
  shows "outLease st' i = (if i = b then map_option g (outLease st i) else outLease st i)"
    and "jobLease st' i = jobLease st i"
  using assms by (auto simp: on_outbox_Inr jobLease_def outLease_def well_keyed_def dest: keyedD)

definition lease_refines :: "EventData \<Rightarrow> ProjectionState \<Rightarrow> ProjectionState \<Rightarrow> bool" where
  "lease_refines d st st' \<longleftrightarrow> (\<forall>i. jobLease st' i = job_lease_step d i (jobLease st i) \<and>
     outLease st' i = out_lease_step d i (outLease st i))"

lemma lease_refines_same:
  "jobs st' = jobs st \<Longrightarrow> outbox st' = outbox st \<Longrightarrow> (\<And>i x. job_lease_step d i x = x) \<Longrightarrow>
     (\<And>i x. out_lease_step d i x = x) \<Longrightarrow> lease_refines d st st'"
  by (simp add: lease_refines_def jobLease_def outLease_def)

lemma lease_job_event:
  assumes "well_keyed st" "on_job j f st = Inr st'" "\<And>x. job_lease (f x) = g (job_lease x)"
    and "\<And>i x. job_lease_step d i x = (if i = j then map_option g x else x)"
    and "\<And>i x. out_lease_step d i x = x"
  shows "lease_refines d st st'"
  using lease_on_job [OF assms(1,2), of g, OF assms(3)] assms(4,5) by (simp add: lease_refines_def)

lemma lease_outbox_event:
  assumes "well_keyed st" "on_outbox b f st = Inr st'" "\<And>x. out_lease (f x) = g (out_lease x)"
    and "\<And>i x. out_lease_step d i x = (if i = b then map_option g x else x)"
    and "\<And>i x. job_lease_step d i x = x"
  shows "lease_refines d st st'"
  using lease_on_outbox [OF assms(1,2), of g, OF assms(3)] assms(4,5) by (simp add: lease_refines_def)

lemma map_option_same: "(\<And>x. f x = x) \<Longrightarrow> map_option f y = y"
  by (cases y) simp_all

lemma lease_apply:
  assumes wk: "well_keyed st" and ev: "apply_event sha at v d st = Inr st'"
  shows "lease_refines d st st'"
proof (cases d)
  case (JobScheduled x)
  then show ?thesis using ev
    by (auto simp: apply_JobScheduled_def lease_refines_def jobLease_def outLease_def job_new_def
        lease_defs split: if_splits)
next
  case (JobUnblocked j r)
  show ?thesis
    by (rule lease_job_event [OF wk, of j "job_unblocked at v" _ "\<lambda>x. x"])
      (use ev JobUnblocked in \<open>simp_all add: job_unblocked_def lease_defs option.map_ident\<close>)
next
  case (JobLeaseAcquired j r w t e b)
  show ?thesis
    by (rule lease_job_event [OF wk, of j "job_lease_acquired w t e at v"])
      (use ev JobLeaseAcquired in \<open>simp_all add: job_lease_acquired_def lease_defs\<close>)
next
  case (JobLeaseRenewed j r w t e)
  show ?thesis
    by (rule lease_job_event [OF wk, of j "job_lease_renewed e v"])
      (use ev JobLeaseRenewed in \<open>simp_all add: job_lease_renewed_def lease_defs\<close>)
next
  case (JobLeaseReleased j r w t)
  show ?thesis
    by (rule lease_job_event [OF wk, of j "job_lease_released v" _ lv_clear])
      (use ev JobLeaseReleased in
        \<open>simp_all add: job_lease_released_def job_lease_cleared_def lease_defs\<close>)
next
  case (JobRetryScheduled j r t reason)
  show ?thesis
    by (rule lease_job_event [OF wk, of j "job_retry_scheduled t reason v" _ lv_clear])
      (use ev JobRetryScheduled in
        \<open>simp_all add: job_retry_scheduled_def job_lease_cleared_def lease_defs\<close>)
next
  case (JobSucceeded j r)
  show ?thesis
    by (rule lease_job_event [OF wk, of j "job_completed J_succeeded None at v" _ lv_clear])
      (use ev JobSucceeded in \<open>simp_all add: job_completed_def job_lease_cleared_def lease_defs\<close>)
next
  case (JobFailed j r reason)
  show ?thesis
    by (rule lease_job_event [OF wk, of j "job_completed J_failed (Some reason) at v" _ lv_clear])
      (use ev JobFailed in \<open>simp_all add: job_completed_def job_lease_cleared_def lease_defs\<close>)
next
  case (JobCancelled j r reason)
  show ?thesis
    by (rule lease_job_event [OF wk, of j
          "job_completed J_cancelled (Some (text_TerminationReason reason)) at v" _ lv_clear])
      (use ev JobCancelled in \<open>simp_all add: job_completed_def job_lease_cleared_def lease_defs\<close>)
next
  case (AttemptStarted a j r n t)
  let ?st = "st\<lparr>attempts := mput a (attempt_started a j r n t at v) (attempts st)\<rparr>"
  have "well_keyed ?st"
    using wk by (simp add: well_keyed_def attempt_started_def keyed_mput)
  then have "lease_refines d ?st st'"
    by (rule lease_job_event [of _ j "job_attempt_started a n" _ "\<lambda>x. x"])
      (use ev AttemptStarted in
        \<open>simp_all add: apply_AttemptStarted_def job_attempt_started_def lease_defs option.map_ident\<close>)
  then show ?thesis by (simp add: lease_refines_def jobLease_def outLease_def)
next
  case (DriverReceiptRecorded r)
  obtain a j where a: "mget (attempts st) (drr_attemptId r) = Some a"
    and j: "mget (jobs st) (drr_jobId r) = Some j"
    and st': "st' = st\<lparr>driverReceipts := mput (drr_driverReceiptId r)
                  \<lparr>drs_record = r, drs_recordedAt = at, drs_version = v\<rparr> (driverReceipts st),
                attempts := mput (att_attemptId a) (attempt_receipted r a) (attempts st),
                jobs := mput (job_jobId j) (job_receipted r j) (jobs st)\<rparr>"
    using ev unfolding DriverReceiptRecorded apply_event.simps apply_DriverReceiptRecorded_Inr by blast
  have "job_jobId j = drr_jobId r" using wk j by (auto simp: well_keyed_def dest: keyedD)
  with j show ?thesis
    by (auto simp: DriverReceiptRecorded st' lease_refines_def jobLease_def outLease_def
        job_receipted_def lease_defs)
next
  case (OutboxEnqueued x)
  then show ?thesis using ev
    by (auto simp: lease_refines_def jobLease_def outLease_def outbox_new_def lease_defs)
next
  case (OutboxLeaseAcquired b r w t e n)
  show ?thesis
    by (rule lease_outbox_event [OF wk, of b "outbox_lease_acquired w t e n at v"])
      (use ev OutboxLeaseAcquired in \<open>simp_all add: outbox_lease_acquired_def lease_defs\<close>)
next
  case (OutboxDeliveryFailed b r t dead err)
  show ?thesis
    by (rule lease_outbox_event [OF wk, of b "outbox_delivery_failed t dead err v" _ lv_clear])
      (use ev OutboxDeliveryFailed in
        \<open>simp_all add: outbox_delivery_failed_def outbox_lease_cleared_def lease_defs\<close>)
next
  case (OutboxDelivered b r ext)
  show ?thesis
    by (rule lease_outbox_event [OF wk, of b "outbox_delivered ext at v" _ lv_clear])
      (use ev OutboxDelivered in
        \<open>simp_all add: outbox_delivered_def outbox_lease_cleared_def lease_defs\<close>)
next
  case (OutboxObsoleted b r reason)
  show ?thesis
    by (rule lease_outbox_event [OF wk, of b "outbox_obsoleted reason v" _ lv_clear])
      (use ev OutboxObsoleted in
        \<open>simp_all add: outbox_obsoleted_def outbox_lease_cleared_def lease_defs\<close>)
qed (use ev in \<open>auto intro!: lease_refines_same dest: lease_on
      simp: apply_DriverEventsObserved_def apply_ArtifactManifestRecorded_def
        apply_VerificationReceiptRecorded_def split: sum.splits option.splits if_splits\<close>)

section \<open>Fencing tokens over a commit\<close>

definition token_of :: "LeaseView option \<Rightarrow> nat" where
  "token_of x = (case x of None \<Rightarrow> 0 | Some l \<Rightarrow> lv_token l)"

lemma token_of_simps [simp]: "token_of None = 0" "token_of (Some l) = lv_token l"
  by (simp_all add: token_of_def)

definition job_leases :: "DomainEventInput list \<Rightarrow> uuid \<Rightarrow> LeaseView option \<Rightarrow> LeaseView option" where
  "job_leases evs i x = fold (\<lambda>e. job_lease_step (ev_data e) i) evs x"

definition out_leases :: "DomainEventInput list \<Rightarrow> uuid \<Rightarrow> LeaseView option \<Rightarrow> LeaseView option" where
  "out_leases evs i x = fold (\<lambda>e. out_lease_step (ev_data e) i) evs x"

lemma leases_simps [simp]:
  "job_leases [] i x = x"
  "job_leases (e # es) i x = job_leases es i (job_lease_step (ev_data e) i x)"
  "job_leases (xs @ ys) i x = job_leases ys i (job_leases xs i x)"
  "out_leases [] i x = x"
  "out_leases (e # es) i x = out_leases es i (out_lease_step (ev_data e) i x)"
  "out_leases (xs @ ys) i x = out_leases ys i (out_leases xs i x)"
  by (simp_all add: job_leases_def out_leases_def)

lemma lease_evolve:
  "well_keyed st \<Longrightarrow> evolve sha st e = Inr st' \<Longrightarrow> lease_refines (ev_data e) st st'"
  using lease_apply [of "st\<lparr>lastAppliedPosition := se_globalPosition e\<rparr>"]
  by (simp add: evolve_def lease_refines_def jobLease_def outLease_def)

lemma lease_replay:
  "well_keyed st \<Longrightarrow> try_fold (evolve sha) st es = Inr st' \<Longrightarrow>
     jobLease st' i = fold (\<lambda>d. job_lease_step d i) (map ev_data es) (jobLease st i) \<and>
     outLease st' i = fold (\<lambda>d. out_lease_step d i) (map ev_data es) (outLease st i)"
proof (induction es arbitrary: st)
  case (Cons e es)
  then obtain s1 where s1: "evolve sha st e = Inr s1" "try_fold (evolve sha) s1 es = Inr st'"
    by (auto split: sum.splits)
  show ?case
    using Cons.IH [OF well_keyed_evolve [OF Cons.prems(1) s1(1)] s1(2)]
      lease_evolve [OF Cons.prems(1) s1(1)] by (simp add: lease_refines_def)
qed simp

lemma commits_leases:
  assumes "commits sha st c now st'" and "well_keyed st"
  obtains evs k n where "decide sha st c now = Accept evs k n"
    and "\<And>i. jobLease st' i = job_leases evs i (jobLease st i)"
    and "\<And>i. outLease st' i = out_leases evs i (outLease st i)"
proof -
  obtain evs k n es where d: "decide sha st c now = Accept evs k n" and s: "stamped now evs es"
    and f: "try_fold (evolve sha) st es = Inr st'"
    using assms(1) by (auto simp: commits_def)
  show thesis
    by (rule that [OF d]) (use lease_replay [OF assms(2) f] stamped_data [OF s] in
        \<open>simp_all add: job_leases_def out_leases_def fold_map comp_def\<close>)
qed

lemma token_lv_clear [simp]: "token_of (map_option lv_clear x) = token_of x"
  by (cases x) (simp_all add: lv_clear_def)

lemma token_renewed [simp]: "token_of (map_option (lv_expires_update f) x) = token_of x"
  by (cases x) simp_all

lemma job_token_tame: "emits (tame st) evs \<Longrightarrow> token_of (job_leases evs i x) = token_of x"
proof (induction evs arbitrary: x)
  case (Cons e es)
  have "token_of (job_lease_step (ev_data e) i x) = token_of x"
    using Cons.prems by (cases "ev_data e") (auto simp: tame_def)
  then show ?case using Cons by simp
qed simp

lemma out_token_tame:
  "emits (tame st) evs \<Longrightarrow> mhas (outbox st) i \<Longrightarrow> token_of (out_leases evs i x) = token_of x"
proof (induction evs arbitrary: x)
  case (Cons e es)
  have "token_of (out_lease_step (ev_data e) i x) = token_of x"
    using Cons.prems(1,2) by (cases "ev_data e") (auto simp: tame_def)
  then show ?case using Cons by simp
qed simp

lemma token_absent:
  "\<not> mhas (outbox st) i \<Longrightarrow> token_of (outLease st i) = 0"
  "\<not> mhas (jobs st) i \<Longrightarrow> token_of (jobLease st i) = 0"
  by (simp_all add: outLease_def jobLease_def mhas_def)

lemma schedule_leases:
  assumes "decide_run_schedule sha st rid js = Accept evs k n"
  shows "mhas (jobs st) i \<Longrightarrow> job_leases evs i x = x" and "out_leases evs i y = y"
proof -
  obtain r and w :: WorkflowDefinition and sevs where m: "schedule_matches st w js"
    and s: "schedule_events sha r (byStep js) (wd_steps w) = Inr sevs"
    and evs: "evs = sevs @ [event ST_run r (RunScheduled r)]"
    using assms
    by (clarsimp simp: decide_run_schedule_def Let_def split: option.splits if_splits sum.splits)
  have mem: "\<exists>d. ev_data e = JobScheduled d \<and> \<not> mhas (jobs st) (js_jobId d)" if e: "e \<in> set sevs" for e
  proof -
    obtain step job deps where g: "mget (byStep js) (ws_id step) = Some job"
      "ev_data e = JobScheduled (scheduled_data sha r job step deps)"
      using schedule_events_mem [OF s e] by blast
    have "job \<in> set js" using byStep_Some [OF g(1)] by blast
    then show ?thesis using schedule_matches_fresh [OF m] g(2) by (simp add: scheduled_data_def)
  qed
  have "out_leases sevs i y = y"
    unfolding out_leases_def by (rule fold_quiet) (use mem in fastforce)
  then show "out_leases evs i y = y" by (simp add: evs)
  assume h: "mhas (jobs st) i"
  have "job_lease_step (ev_data e) i z = z" if "e \<in> set sevs" for e z
    using mem [OF that] h by auto
  then have "job_leases sevs i x = x"
    unfolding job_leases_def by (intro fold_quiet)
  then show "job_leases evs i x = x" by (simp add: evs)
qed

lemma claim_leases:
  assumes "decide_job_lease_acquire sha st p now = Accept evs k n" and wk: "well_keyed st"
  shows "job_leases evs i x = (if i = jla_jobId p then map_option (\<lambda>_.
      \<lparr>lv_owner = Some (jla_ownerId p), lv_token = Suc (token_of (jobLease st i)),
       lv_expires = Some (addMilliseconds now (jla_leaseDurationMs p))\<rparr>) x else x)"
    and "mhas (outbox st) i \<Longrightarrow> out_leases evs i y = y"
    and "jobLease st (jla_jobId p) \<noteq> None"
proof -
  obtain job where j: "mget (jobs st) (jla_jobId p) = Some job"
    and c: "job_claim_error st job p now = None" and evs: "evs = job_claim_events st job p now"
    using assms(1) by (auto simp: decide_job_lease_acquire_def split: option.splits if_splits)
  have id: "job_jobId job = jla_jobId p" using keyed_sel(1) [OF wk j] .
  show "jobLease st (jla_jobId p) \<noteq> None" using j by (simp add: jobLease_def)
  show "job_leases evs i x = (if i = jla_jobId p then map_option (\<lambda>_.
      \<lparr>lv_owner = Some (jla_ownerId p), lv_token = Suc (token_of (jobLease st i)),
       lv_expires = Some (addMilliseconds now (jla_leaseDurationMs p))\<rparr>) x else x)"
    using j id by (auto simp: evs job_claim_events_def jobLease_def job_lease_def split: option.splits)
  assume h: "mhas (outbox st) i"
  show "out_leases evs i y = y"
  proof (cases "resuming job")
    case True
    then show ?thesis by (auto simp: evs job_claim_events_def split: option.splits)
  next
    case False
    then have "\<not> mhas (outbox st) (jla_startOutboxId p)"
      using c by (auto simp: job_claim_error_def Let_def split: if_splits)
    then show ?thesis using h by (auto simp: evs job_claim_events_def split: option.splits)
  qed
qed

lemma out_claim_leases:
  assumes "decide_outbox_lease_acquire st b w dur now = Accept evs k n" and wk: "well_keyed st"
  shows "out_leases evs i x = (if i = b
      then map_option (if \<exists>o'. mget (outbox st) b = Some o' \<and> \<not> is_agent_cancel (out_effect o') \<and>
             attempt_over st (out_attemptId o') then lv_clear
           else (\<lambda>_. \<lparr>lv_owner = Some w, lv_token = Suc (token_of (outLease st i)),
             lv_expires = Some (addMilliseconds now dur)\<rparr>)) x else x)"
    and "job_leases evs i y = y" and "outLease st b \<noteq> None"
proof -
  obtain o' where o': "mget (outbox st) b = Some o'"
    and evs: "evs = [event ST_outbox (out_outboxId o')
       (if \<not> is_agent_cancel (out_effect o') \<and> attempt_over st (out_attemptId o')
        then OutboxObsoleted (out_outboxId o') (out_runId o') ''Attempt is terminal''
        else OutboxLeaseAcquired (out_outboxId o') (out_runId o') w (out_leaseFencingToken o' + 1)
               (addMilliseconds now dur) (out_deliveryAttempts o' + 1))]"
    using assms(1) by (auto simp: decide_outbox_lease_acquire_def split: option.splits if_splits)
  have id: "out_outboxId o' = b" using keyed_sel(4) [OF wk o'] .
  show "out_leases evs i x = (if i = b
      then map_option (if \<exists>o'. mget (outbox st) b = Some o' \<and> \<not> is_agent_cancel (out_effect o') \<and>
             attempt_over st (out_attemptId o') then lv_clear
           else (\<lambda>_. \<lparr>lv_owner = Some w, lv_token = Suc (token_of (outLease st i)),
             lv_expires = Some (addMilliseconds now dur)\<rparr>)) x else x)"
    using o' id by (auto simp: evs outLease_def out_lease_def)
  show "job_leases evs i y = y" by (simp add: evs)
  show "outLease st b \<noteq> None" using o' by (simp add: outLease_def)
qed

section \<open>Jobs\<close>

definition job_admits :: "uuid \<Rightarrow> ProjectionState \<Rightarrow> uuid \<Rightarrow> nat \<Rightarrow> timestamp \<Rightarrow> bool" where
  "job_admits i st w t now =
     (case mget (jobs st) i of None \<Rightarrow> False | Some job \<Rightarrow> validateJobLease job w t now = None)"

definition message_admits :: "uuid \<Rightarrow> ProjectionState \<Rightarrow> uuid \<Rightarrow> nat \<Rightarrow> timestamp \<Rightarrow> bool" where
  "message_admits i st w t now =
     (case mget (outbox st) i of None \<Rightarrow> False | Some b \<Rightarrow> validateOutboxLease b w t now = None)"

text \<open>One commit of a parsed command, from a state that satisfies the invariant.\<close>

definition moves :: "(string \<Rightarrow> string) \<Rightarrow> ProjectionState \<Rightarrow> ProjectionState \<Rightarrow> bool" where
  "moves sha st st' \<longleftrightarrow> state_ok st \<and> (\<exists>c now. commits sha st c now st')"

definition fresh_moves :: "(string \<Rightarrow> string) \<Rightarrow> ProjectionState \<Rightarrow> ProjectionState \<Rightarrow> bool" where
  "fresh_moves sha st st' \<longleftrightarrow>
     state_ok st \<and> (\<exists>c now. enqueues_fresh st (cmd_body c) \<and> commits sha st c now st')"

definition job_acquired ::
    "(string \<Rightarrow> string) \<Rightarrow> uuid \<Rightarrow> ProjectionState \<Rightarrow> uuid \<Rightarrow> timestamp \<Rightarrow> timestamp \<Rightarrow> ProjectionState \<Rightarrow> bool" where
  "job_acquired sha i st w now e st' \<longleftrightarrow> state_ok st \<and>
     (\<exists>c p. commits sha st c now st' \<and> cmd_body c = Cmd_job_lease_acquire p \<and> jla_jobId p = i \<and>
        jla_ownerId p = w \<and> e = addMilliseconds now (jla_leaseDurationMs p))"

text \<open>
  An \<open>outbox.lease.acquire\<close> that leased the message; when the message's attempt is over the
  same command obsoletes it instead, and the message is not leased.
\<close>

definition message_acquired ::
    "(string \<Rightarrow> string) \<Rightarrow> uuid \<Rightarrow> ProjectionState \<Rightarrow> uuid \<Rightarrow> timestamp \<Rightarrow> timestamp \<Rightarrow> ProjectionState \<Rightarrow> bool" where
  "message_acquired sha i st w now e st' \<longleftrightarrow> state_ok st \<and>
     (\<exists>c d. commits sha st c now st' \<and> cmd_body c = Cmd_outbox_lease_acquire i w d \<and>
        e = addMilliseconds now d \<and> map_option out_status (mget (outbox st') i) = Some O_leased)"

lemma job_admits_lease:
  "job_admits i st w t now \<longleftrightarrow> (\<exists>l e. jobLease st i = Some l \<and> lv_owner l = Some w \<and>
     lv_token l = t \<and> lv_expires l = Some e \<and> now < e)"
  by (auto simp: job_admits_def jobLease_def job_lease_def validateJobLease_def atOrBefore_def
      split: option.splits)

lemma message_admits_lease:
  "message_admits i st w t now \<longleftrightarrow> (\<exists>l e. outLease st i = Some l \<and> lv_owner l = Some w \<and>
     lv_token l = t \<and> lv_expires l = Some e \<and> now < e)"
  by (auto simp: message_admits_def outLease_def out_lease_def validateOutboxLease_def atOrBefore_def
      split: option.splits)

lemma state_ok_keyed: "state_ok st \<Longrightarrow> well_keyed st"
  by (simp add: state_ok_def)

text \<open>A driver receipt that reuses a message's identifier still leaves the jobs' tokens alone.\<close>

lemma job_leases_receipt:
  assumes "decide_driver_receipt_record sha st p now = Accept evs k n"
  shows "token_of (job_leases evs i x) = token_of x"
proof -
  have P: "emits (\<lambda>d. \<not> claims d) evs" using claimless_receipt [OF assms] by (simp add: emits_def)
  have step: "token_of (job_lease_step d i y) = token_of y" if "\<not> claims d" for d y
    using that by (cases d) auto
  show ?thesis
    using P by (induction evs arbitrary: x) (simp_all add: step)
qed

lemma job_token_moves:
  assumes "moves sha st st'"
  shows "token_of (jobLease st i) \<le> token_of (jobLease st' i)"
proof -
  obtain c now where ok: "state_ok st" and c: "commits sha st c now st'"
    using assms by (auto simp: moves_def)
  note wk = state_ok_keyed [OF ok]
  obtain evs k n where d: "decide_body sha st now (cmd_body c) = Accept evs k n"
    and l: "jobLease st' i = job_leases evs i (jobLease st i)"
    using commits_leases [OF c wk] by (metis decide_def)
  show ?thesis
  proof (cases "enqueues_fresh st (cmd_body c)")
    case True
    from tame_decide [OF d True] show ?thesis
    proof (elim disjE exE conjE)
      assume "emits (tame st) evs"
      then show ?thesis by (simp add: l job_token_tame)
    next
      fix w assume "decide_workflow_register sha st w = Accept evs k n"
      then show ?thesis by (auto simp: decide_workflow_register_def Let_def l split: if_splits)
    next
      fix rid js assume "decide_run_schedule sha st rid js = Accept evs k n"
      from schedule_leases(1) [OF this] show ?thesis
        by (cases "mhas (jobs st) i") (simp_all add: l token_absent(2))
    next
      fix p assume "decide_job_lease_acquire sha st p now = Accept evs k n"
      from claim_leases(1) [OF this wk, of i] show ?thesis
        by (cases "jobLease st i") (auto simp: l)
    next
      fix b w du assume "decide_outbox_lease_acquire st b w du now = Accept evs k n"
      from out_claim_leases(2) [OF this wk] show ?thesis by (simp add: l)
    qed
  next
    case False
    then obtain p where "cmd_body c = Cmd_driver_receipt_record p" by (cases "cmd_body c") auto
    then show ?thesis using d job_leases_receipt [of sha st p now evs k n] by (simp add: l)
  qed
qed

lemma job_acquired_lease:
  assumes "job_acquired sha i st w now e st'"
  shows "jobLease st' i = Some \<lparr>lv_owner = Some w, lv_token = Suc (token_of (jobLease st i)),
           lv_expires = Some e\<rparr>"
    and "\<not> job_admits i st w' t now"
proof -
  obtain c p where ok: "state_ok st" and c: "commits sha st c now st'"
    and b: "cmd_body c = Cmd_job_lease_acquire p" "jla_jobId p = i" "jla_ownerId p = w"
      "e = addMilliseconds now (jla_leaseDurationMs p)"
    using assms by (auto simp: job_acquired_def)
  note wk = state_ok_keyed [OF ok]
  obtain evs k n where d: "decide_job_lease_acquire sha st p now = Accept evs k n"
    and l: "jobLease st' i = job_leases evs i (jobLease st i)"
    using commits_leases [OF c wk] b(1) by (metis decide_def decide_body.simps(9))
  show "jobLease st' i = Some \<lparr>lv_owner = Some w, lv_token = Suc (token_of (jobLease st i)),
      lv_expires = Some e\<rparr>"
    using claim_leases [OF d wk] b by (auto simp: l)
  obtain job where j: "mget (jobs st) i = Some job" and err: "job_claim_error st job p now = None"
    using d b(2) by (auto simp: decide_job_lease_acquire_def split: option.splits if_splits)
  have owned: "job_leaseOwnerId job \<noteq> None \<Longrightarrow> job_status job = J_active"
  proof -
    assume o: "job_leaseOwnerId job \<noteq> None"
    have "attempts_linked (life st)"
      using ok by (simp add: state_ok_def life_ok_def linked_def)
    from linked_owned [OF this, of i "job_life job"] show ?thesis
      using j o by (simp add: life_sel job_life_def)
  qed
  show "\<not> job_admits i st w' t now"
  proof
    assume "job_admits i st w' t now"
    then obtain x where x: "job_leaseOwnerId job = Some w'" "job_leaseExpiresAt job = Some x" "now < x"
      by (auto simp: job_admits_lease jobLease_def job_lease_def j)
    then show False
      using err owned by (auto simp: job_claim_error_def Let_def resuming_def atOrBefore_def split: if_splits)
  qed
qed

interpretation job_leases: fenced_lease
  "\<lambda>st. Option.bind (jobLease st i) lv_owner" "\<lambda>st. token_of (jobLease st i)"
  "\<lambda>st. Option.bind (jobLease st i) lv_expires" "job_admits i" "job_acquired sha i" "moves sha"
  for sha i
proof (unfold_locales, goal_cases)
  case (3 s w now e s') then show ?case by (simp add: job_acquired_lease(1))
next
  case (4 s w now e s') then show ?case by (simp add: job_acquired_lease(1))
next
  case (5 s w now e s' w' t) then show ?case by (rule job_acquired_lease(2))
next
  case (6 s s') then show ?case by (rule job_token_moves)
qed (auto simp: job_admits_lease)

section \<open>Outbox messages\<close>

lemma message_token_moves:
  assumes "fresh_moves sha st st'"
  shows "token_of (outLease st i) \<le> token_of (outLease st' i)"
proof -
  obtain c now where ok: "state_ok st" and fr: "enqueues_fresh st (cmd_body c)"
    and c: "commits sha st c now st'"
    using assms by (auto simp: fresh_moves_def)
  note wk = state_ok_keyed [OF ok]
  obtain evs k n where d: "decide_body sha st now (cmd_body c) = Accept evs k n"
    and l: "outLease st' i = out_leases evs i (outLease st i)"
    using commits_leases [OF c wk] by (metis decide_def)
  show ?thesis
  proof (cases "mhas (outbox st) i")
    case h: True
    from tame_decide [OF d fr] show ?thesis
    proof (elim disjE exE conjE)
      assume "emits (tame st) evs"
      then show ?thesis by (simp add: l out_token_tame h)
    next
      fix w assume "decide_workflow_register sha st w = Accept evs k n"
      then show ?thesis by (auto simp: decide_workflow_register_def Let_def l split: if_splits)
    next
      fix rid js assume "decide_run_schedule sha st rid js = Accept evs k n"
      from schedule_leases(2) [OF this] show ?thesis by (simp add: l)
    next
      fix p assume "decide_job_lease_acquire sha st p now = Accept evs k n"
      from claim_leases(2) [OF this wk h] show ?thesis by (simp add: l)
    next
      fix b w du assume "decide_outbox_lease_acquire st b w du now = Accept evs k n"
      from out_claim_leases(1) [OF this wk, of i] show ?thesis
        by (cases "outLease st i") (auto simp: l lv_clear_def)
    qed
  qed (simp add: token_absent)
qed

lemma message_acquired_lease:
  assumes "message_acquired sha i st w now e st'"
  shows "outLease st' i = Some \<lparr>lv_owner = Some w, lv_token = Suc (token_of (outLease st i)),
           lv_expires = Some e\<rparr>"
    and "\<not> message_admits i st w' t now"
proof -
  obtain c du where ok: "state_ok st" and c: "commits sha st c now st'"
    and b: "cmd_body c = Cmd_outbox_lease_acquire i w du" "e = addMilliseconds now du"
    and leased: "map_option out_status (mget (outbox st') i) = Some O_leased"
    using assms by (auto simp: message_acquired_def)
  note wk = state_ok_keyed [OF ok]
  obtain evs k n where d: "decide_outbox_lease_acquire st i w du now = Accept evs k n"
    and l: "outLease st' i = out_leases evs i (outLease st i)"
    using commits_leases [OF c wk] b(1) by (metis decide_def decide_body.simps(19))
  obtain o' where o': "mget (outbox st) i = Some o'" and cl: "outbox_claimable o' now"
    using d by (auto simp: decide_outbox_lease_acquire_def split: option.splits if_splits)
  have not_over: "\<not> (\<not> is_agent_cancel (out_effect o') \<and> attempt_over st (out_attemptId o'))"
  proof
    assume over: "\<not> is_agent_cancel (out_effect o') \<and> attempt_over st (out_attemptId o')"
    obtain evs' k' n' where d': "decide sha st c now = Accept evs' k' n'"
      and v: "lf_out (life st') i = out_view evs' i (lf_out (life st) i)"
      using commits_life [OF c wk] by metis
    have "evs' = [event ST_outbox (out_outboxId o')
        (OutboxObsoleted (out_outboxId o') (out_runId o') ''Attempt is terminal'')]"
      using d' o' cl over b(1) by (auto simp: decide_def decide_outbox_lease_acquire_def)
    then have "lf_out (life st') i = Some (ol_close O_obsolete (outbox_life o'))"
      using v o' keyed_sel(4) [OF wk o'] by (simp add: life_sel)
    then show False using leased by (auto simp: life_sel outbox_life_def ol_close_def)
  qed
  have "mget (outbox st) i = Some o' \<and> \<not> is_agent_cancel (out_effect o') \<and>
      attempt_over st (out_attemptId o') \<longleftrightarrow> False" using not_over by blast
  then show "outLease st' i = Some \<lparr>lv_owner = Some w, lv_token = Suc (token_of (outLease st i)),
      lv_expires = Some e\<rparr>"
    using out_claim_leases(1,3) [OF d wk] o' b(2) by (auto simp: l)
  have owned: "out_leaseOwnerId o' \<noteq> None \<Longrightarrow> out_status o' = O_leased"
  proof -
    assume o: "out_leaseOwnerId o' \<noteq> None"
    have "messages_linked (life st)"
      using ok by (simp add: state_ok_def life_ok_def linked_def)
    from linked_message_owned [OF this, of i "outbox_life o'"] show ?thesis
      using o' o by (simp add: life_sel outbox_life_def)
  qed
  show "\<not> message_admits i st w' t now"
  proof
    assume "message_admits i st w' t now"
    then obtain x where "out_leaseOwnerId o' = Some w'" "out_leaseExpiresAt o' = Some x" "now < x"
      by (auto simp: message_admits_lease outLease_def out_lease_def o')
    then show False
      using cl owned by (auto simp: outbox_claimable_def atOrBefore_def)
  qed
qed

interpretation message_leases: fenced_lease
  "\<lambda>st. Option.bind (outLease st i) lv_owner" "\<lambda>st. token_of (outLease st i)"
  "\<lambda>st. Option.bind (outLease st i) lv_expires" "message_admits i" "message_acquired sha i"
  "fresh_moves sha"
  for sha i
proof (unfold_locales, goal_cases)
  case (3 s w now e s') then show ?case by (simp add: message_acquired_lease(1))
next
  case (4 s w now e s') then show ?case by (simp add: message_acquired_lease(1))
next
  case (5 s w now e s' w' t) then show ?case by (rule message_acquired_lease(2))
next
  case (6 s s') then show ?case by (rule message_token_moves)
qed (auto simp: message_admits_lease)

end
