(* ===== verification/LeaseProperties.thy ===== *)
theory LeaseProperties
  imports Leases Scenario
begin

text \<open>
  What the leases guarantee to the processes that work on jobs and deliver messages: one
  holder at a time, every command of a holder checked, and a holder whose lease was taken
  over fenced out for good.
\<close>

section \<open>The commands of a holder\<close>

text \<open>The job, owner and fencing token a command claims to act under.\<close>

fun job_holder :: "CommandBody \<Rightarrow> (uuid \<times> uuid \<times> nat) option" where
  "job_holder (Cmd_job_lease_renew j w t _) = Some (j, w, t)"
| "job_holder (Cmd_job_lease_release j w t) = Some (j, w, t)"
| "job_holder (Cmd_attempt_driver_events_observe p) =
     Some (dep_jobId p, dep_ownerId p, dep_fencingToken p)"
| "job_holder (Cmd_driver_receipt_record p) = Some (drp_jobId p, drp_ownerId p, drp_fencingToken p)"
| "job_holder (Cmd_attempt_observe p) = Some (ao_jobId p, ao_ownerId p, ao_fencingToken p)"
| "job_holder (Cmd_attempt_timeout j _ w t) = Some (j, w, t)"
| "job_holder (Cmd_verification_complete p) = Some (vcp_jobId p, vcp_ownerId p, vcp_jobFencingToken p)"
| "job_holder (Cmd_verification_execution_fail p) =
     Some (vfp_jobId p, vfp_ownerId p, vfp_jobFencingToken p)"
| "job_holder _ = None"

fun message_holder :: "CommandBody \<Rightarrow> (uuid \<times> uuid \<times> nat) option" where
  "message_holder (Cmd_outbox_delivery_succeed b w t _) = Some (b, w, t)"
| "message_holder (Cmd_outbox_delivery_fail b w t _) = Some (b, w, t)"
| "message_holder (Cmd_driver_terminal_receipt_record p) =
     Some (trp_outboxId p, trp_ownerId p, trp_outboxFencingToken p)"
| "message_holder (Cmd_verification_complete p) =
     Some (vcp_outboxId p, vcp_ownerId p, vcp_outboxFencingToken p)"
| "message_holder (Cmd_verification_execution_fail p) =
     Some (vfp_outboxId p, vfp_ownerId p, vfp_outboxFencingToken p)"
| "message_holder _ = None"

lemma accepted_holder:
  assumes "decide_body sha st now body = Accept evs k n"
  shows "job_holder body = Some (j, w, t) \<Longrightarrow> job_admits j st w t now"
    and "message_holder body = Some (b, w, t) \<Longrightarrow> message_admits b st w t now"
  using assms
  by (cases body; auto simp: job_admits_def message_admits_def decide_job_lease_renew_def
      decide_job_lease_release_def decide_driver_events_observe_def decide_driver_receipt_record_def
      decide_attempt_observe_def decide_attempt_timeout_def active_attempt_def
      decide_verification_complete_def decide_verification_execution_fail_def
      verification_context_def decide_outbox_delivery_succeed_def decide_outbox_delivery_fail_def
      decide_terminal_receipt_record_def
      split: option.splits sum.splits if_splits)+

text \<open>
  Every command of a holder is checked: a command that names a job, an owner and a
  fencing token is accepted only while that owner holds the job's lease under that token and
  the lease has not expired; likewise for the commands that name an outbox message.
\<close>

theorem holder_commands_need_the_lease:
  assumes "decide sha st c now = Accept evs k n"
  shows "(\<forall>j w t. job_holder (cmd_body c) = Some (j, w, t) \<longrightarrow> job_admits j st w t now) \<and>
     (\<forall>b w t. message_holder (cmd_body c) = Some (b, w, t) \<longrightarrow> message_admits b st w t now)"
  using accepted_holder [OF assms [unfolded decide_def]] by blast

definition demo_renewal :: "uuid \<Rightarrow> nat \<Rightarrow> Command" where
  "demo_renewal w t = demo_command ''k20'' (Cmd_job_lease_renew ''j1'' w t 30000)"

lemma demo_renewal_accepted:
  "\<exists>evs. decide demo_sha demo_leased (demo_renewal ''o1'' 1) 20 = Accept evs K_job ''j1''"
  by (simp add: demo_renewal_def demo_simps decide_job_lease_renew_def)

theorem holder_commands_need_the_lease_witness: "job_admits ''j1'' demo_leased ''o1'' 1 20"
proof -
  obtain evs where "decide demo_sha demo_leased (demo_renewal ''o1'' 1) 20 = Accept evs K_job ''j1''"
    using demo_renewal_accepted by blast
  from holder_commands_need_the_lease [OF this] show ?thesis
    by (simp add: demo_renewal_def demo_command_def)
qed

section \<open>Fencing\<close>

text \<open>
  C6. A fenced-out worker stays out: once a job's lease was acquired again, no command the
  earlier holder sends with its owner and token is ever accepted, at any later time and in
  any later state, even if its own clock says its lease is still valid.
\<close>

theorem fenced_out_worker_is_rejected:
  assumes "job_admits j st w t now" and "(moves sha)\<^sup>*\<^sup>* st st1"
    and "job_acquired sha j st1 w1 now1 e1 st2" and "(moves sha)\<^sup>*\<^sup>* st2 st3"
    and "job_holder (cmd_body c) = Some (j, w, t)"
  shows "decide sha st3 c now3 \<noteq> Accept evs k n"
  using job_leases.fenced_out [OF assms(1-4)] accepted_holder(1) [OF _ assms(5)]
  by (metis decide_def)

text \<open>In the demonstration a second worker takes the job over after the first lease expired.\<close>

definition demo_taken :: ProjectionState where
  "demo_taken = advance demo_sha (demo_lease ''k21'' ''o2'' ''a9'' ''b9'', 40000) demo_leased"

lemma demo_taken_commit: "commits demo_sha demo_leased (demo_lease ''k21'' ''o2'' ''a9'' ''b9'') 40000 demo_taken"
proof -
  have "jobLease demo_taken ''j1'' \<noteq> jobLease demo_leased ''j1''"
    by (simp add: demo_taken_def jobLease_def lease_defs demo_simps)
  then show ?thesis
    using advance_commits [of demo_sha "demo_lease ''k21'' ''o2'' ''a9'' ''b9''" 40000 demo_leased]
    by (auto simp: demo_taken_def)
qed

lemma demo_admits: "job_admits ''j1'' demo_leased ''o1'' 1 20"
  by (simp add: job_admits_def demo_simps)

lemma demo_acquired: "job_acquired demo_sha ''j1'' demo_leased ''o2'' 40000 70000 demo_taken"
  using demo_taken_commit reachable_ok [OF demo_reachable(6)]
  by (auto simp: job_acquired_def demo_lease_def demo_command_def addMilliseconds_def)

theorem fenced_out_worker_is_rejected_witness:
  "decide demo_sha demo_taken (demo_renewal ''o1'' 1) 25 \<noteq> Accept [] K_job ''j1''"
  by (rule fenced_out_worker_is_rejected [OF demo_admits rtranclp.rtrancl_refl demo_acquired
        rtranclp.rtrancl_refl])
    (simp add: demo_renewal_def demo_command_def)

text \<open>
  Leases are exclusive and acquired only when free: at an acquisition no owner can act
  under any token, the token grows by exactly one and the new owner holds it until the
  expiry it was granted; and at no time can two owners or two tokens act on one job.
\<close>

theorem job_lease_is_exclusive:
  assumes "job_acquired sha j st w now e st'"
  shows "\<not> job_admits j st w' t now \<and>
     jobLease st' j = Some \<lparr>lv_owner = Some w, lv_token = Suc (token_of (jobLease st j)),
       lv_expires = Some e\<rparr> \<and>
     (job_admits j st' u x now1 \<longrightarrow> u = w \<and> x = Suc (token_of (jobLease st j)) \<and> now1 < e)"
  using job_acquired_lease [OF assms] by (auto simp: job_admits_lease)

theorem job_lease_is_exclusive_witness:
  "\<not> job_admits ''j1'' demo_leased ''o1'' 1 40000 \<and>
   map_option lv_token (jobLease demo_taken ''j1'') = Some (Suc (token_of (jobLease demo_leased ''j1'')))"
  using job_lease_is_exclusive [OF demo_acquired] by simp

text \<open>
  The same fencing protects the delivery of outbox messages, over commits that enqueue
  new messages under fresh identifiers: once a message was leased again, no command of the
  earlier holder is accepted.
\<close>

theorem fenced_out_deliverer_is_rejected:
  assumes "message_admits b st w t now" and "(fresh_moves sha)\<^sup>*\<^sup>* st st1"
    and "message_acquired sha b st1 w1 now1 e1 st2" and "(fresh_moves sha)\<^sup>*\<^sup>* st2 st3"
    and "message_holder (cmd_body c) = Some (b, w, t)"
  shows "decide sha st3 c now3 \<noteq> Accept evs k n"
  using message_leases.fenced_out [OF assms(1-4)] accepted_holder(2) [OF _ assms(5)]
  by (metis decide_def)

definition demo_redelivering :: ProjectionState where
  "demo_redelivering = advance demo_sha
     (demo_command ''k22'' (Cmd_outbox_lease_acquire ''b1'' ''o2'' 30000), 50000) demo_delivering"

lemma demo_redelivering_status:
  "map_option out_status (mget (outbox demo_redelivering) ''b1'') = Some O_leased"
  "outLease demo_redelivering ''b1'' \<noteq> outLease demo_delivering ''b1''"
  by (simp_all add: demo_redelivering_def outLease_def lease_defs demo_simps)

lemma demo_message_acquired:
  "message_acquired demo_sha ''b1'' demo_delivering ''o2'' 50000 80000 demo_redelivering"
proof -
  have "commits demo_sha demo_delivering (demo_command ''k22'' (Cmd_outbox_lease_acquire ''b1'' ''o2'' 30000))
      50000 demo_redelivering"
    using demo_redelivering_status(2)
      advance_commits [of demo_sha "demo_command ''k22'' (Cmd_outbox_lease_acquire ''b1'' ''o2'' 30000)"
        50000 demo_delivering]
    by (auto simp: demo_redelivering_def)
  then show ?thesis
    using reachable_ok [OF demo_reachable(7)] demo_redelivering_status(1)
    by (auto simp: message_acquired_def demo_command_def addMilliseconds_def)
qed

theorem fenced_out_deliverer_is_rejected_witness:
  "decide demo_sha demo_redelivering
     (demo_command ''k23'' (Cmd_outbox_delivery_succeed ''b1'' ''o1'' 1 ''x1'')) 60000 \<noteq>
   Accept [] K_outbox ''b1''"
proof (rule fenced_out_deliverer_is_rejected [OF _ rtranclp.rtrancl_refl demo_message_acquired
      rtranclp.rtrancl_refl])
  show "message_admits ''b1'' demo_delivering ''o1'' 1 30"
    by (simp add: message_admits_def demo_simps)
qed (simp add: demo_command_def)

end
