(* ===== verification/Store.thy ===== *)
theory Store
  imports LifeSchedule
begin

text \<open>
  The tables the kernel keeps (packages/kernel/src/sqlite-kernel.ts, projections.ts and the
  constraints of packages/kernel/migrations/001_initial.sql): the append-only event log with
  its positions and stream versions, the receipts of executed commands, and the projection.
  SQLite is represented by the rows and by the constraints its schema declares; a violated
  constraint is an exception.
\<close>

section \<open>Entities returned to the caller\<close>

datatype StateEntity =
    SE_program ProgramState
  | SE_workflow WorkflowState
  | SE_run RunState
  | SE_attempt AttemptState
  | SE_job JobState
  | SE_outbox OutboxState
  | SE_source_revision SourceRevisionState
  | SE_verification VerificationState
  | SE_driver_receipt DriverReceiptState

primrec getStateEntity :: "ProjectionState \<Rightarrow> EntityKind \<Rightarrow> string \<Rightarrow> StateEntity option" where
  "getStateEntity st K_program i = map_option SE_program (mget (programs st) i)"
| "getStateEntity st K_workflow i = map_option SE_workflow (mget (workflows st) i)"
| "getStateEntity st K_run i = map_option SE_run (mget (runs st) i)"
| "getStateEntity st K_attempt i = map_option SE_attempt (mget (attempts st) i)"
| "getStateEntity st K_job i = map_option SE_job (mget (jobs st) i)"
| "getStateEntity st K_outbox i = map_option SE_outbox (mget (outbox st) i)"
| "getStateEntity st K_source_revision i = map_option SE_source_revision (mget (sourceRevisions st) i)"
| "getStateEntity st K_verification i = map_option SE_verification (mget (verifications st) i)"
| "getStateEntity st K_driver_receipt i = map_option SE_driver_receipt (mget (driverReceipts st) i)"

section \<open>Names of streams and commands\<close>

text \<open>The key of the version cache, a template string of stream type and identifier.\<close>

definition stream_key :: "DomainEventInput \<Rightarrow> string" where
  "stream_key e = text_StreamType (ev_streamType e) @ '':'' @ ev_streamId e"

primrec event_type :: "EventData \<Rightarrow> string" where
  "event_type (SourceRevisionRegistered _) = ''SourceRevisionRegistered''"
| "event_type (ProgramCreated _ _) = ''ProgramCreated''"
| "event_type (WorkflowDefinitionRegistered _ _) = ''WorkflowDefinitionRegistered''"
| "event_type (ContextPacketCompiled _ _) = ''ContextPacketCompiled''"
| "event_type (RunCreated _ _ _ _) = ''RunCreated''"
| "event_type (RunScheduled _) = ''RunScheduled''"
| "event_type (RunStarted _) = ''RunStarted''"
| "event_type (RunSucceeded _) = ''RunSucceeded''"
| "event_type (RunFailed _ _) = ''RunFailed''"
| "event_type (RunCancelled _ _) = ''RunCancelled''"
| "event_type (AttemptAllocated _ _ _) = ''AttemptAllocated''"
| "event_type (AttemptCancelled _ _ _) = ''AttemptCancelled''"
| "event_type (JobScheduled _) = ''JobScheduled''"
| "event_type (JobUnblocked _ _) = ''JobUnblocked''"
| "event_type (JobLeaseAcquired _ _ _ _ _ _) = ''JobLeaseAcquired''"
| "event_type (JobLeaseRenewed _ _ _ _ _) = ''JobLeaseRenewed''"
| "event_type (JobLeaseReleased _ _ _ _) = ''JobLeaseReleased''"
| "event_type (JobRetryScheduled _ _ _ _) = ''JobRetryScheduled''"
| "event_type (JobSucceeded _ _) = ''JobSucceeded''"
| "event_type (JobFailed _ _ _) = ''JobFailed''"
| "event_type (JobCancelled _ _ _) = ''JobCancelled''"
| "event_type (AttemptStarted _ _ _ _ _) = ''AttemptStarted''"
| "event_type (AttemptRunning _ _ _ _) = ''AttemptRunning''"
| "event_type (DriverEventsObserved _) = ''DriverEventsObserved''"
| "event_type (AttemptVerificationRequested _ _ _ _) = ''AttemptVerificationRequested''"
| "event_type (AttemptFinished _) = ''AttemptFinished''"
| "event_type (OutboxEnqueued _) = ''OutboxEnqueued''"
| "event_type (OutboxLeaseAcquired _ _ _ _ _ _) = ''OutboxLeaseAcquired''"
| "event_type (OutboxDeliveryFailed _ _ _ _ _) = ''OutboxDeliveryFailed''"
| "event_type (OutboxDelivered _ _ _) = ''OutboxDelivered''"
| "event_type (OutboxObsoleted _ _ _) = ''OutboxObsoleted''"
| "event_type (ArtifactManifestRecorded _) = ''ArtifactManifestRecorded''"
| "event_type (DriverReceiptRecorded _) = ''DriverReceiptRecorded''"
| "event_type (ApprovalRequestRecorded _) = ''ApprovalRequestRecorded''"
| "event_type (VerificationRequested _) = ''VerificationRequested''"
| "event_type (VerificationReceiptRecorded _) = ''VerificationReceiptRecorded''"
| "event_type (VerificationCancelled _ _ _) = ''VerificationCancelled''"

primrec command_type :: "CommandBody \<Rightarrow> string" where
  "command_type (Cmd_source_revision_register _) = ''source-revision.register''"
| "command_type (Cmd_program_create _ _) = ''program.create''"
| "command_type (Cmd_workflow_register _) = ''workflow.register''"
| "command_type (Cmd_run_create _ _ _ _) = ''run.create''"
| "command_type (Cmd_run_schedule _ _) = ''run.schedule''"
| "command_type Cmd_attempt_allocate = ''attempt.allocate''"
| "command_type Cmd_attempt_cancel = ''attempt.cancel''"
| "command_type (Cmd_run_cancel _ _) = ''run.cancel''"
| "command_type (Cmd_job_lease_acquire _) = ''job.lease.acquire''"
| "command_type (Cmd_job_lease_renew _ _ _ _) = ''job.lease.renew''"
| "command_type (Cmd_job_lease_release _ _ _) = ''job.lease.release''"
| "command_type (Cmd_attempt_driver_events_observe _) = ''attempt.driver-events.observe''"
| "command_type (Cmd_driver_receipt_record _) = ''driver.receipt.record''"
| "command_type (Cmd_driver_terminal_receipt_record _) = ''driver.terminal-receipt.record''"
| "command_type (Cmd_attempt_observe _) = ''attempt.observe''"
| "command_type (Cmd_attempt_timeout _ _ _ _) = ''attempt.timeout''"
| "command_type (Cmd_verification_complete _) = ''verification.complete''"
| "command_type (Cmd_verification_execution_fail _) = ''verification.execution.fail''"
| "command_type (Cmd_outbox_lease_acquire _ _ _) = ''outbox.lease.acquire''"
| "command_type (Cmd_outbox_delivery_succeed _ _ _ _) = ''outbox.delivery.succeed''"
| "command_type (Cmd_outbox_delivery_fail _ _ _ _) = ''outbox.delivery.fail''"

section \<open>Results and receipts\<close>

datatype CommandError =
    CE_validation nat  \<comment> \<open>VALIDATION_ERROR with the number of issues\<close>
  | CE_conflict        \<comment> \<open>IDEMPOTENCY_CONFLICT\<close>
  | CE_domain DomainError

record EventSummary =
  sum_eventId :: uuid
  sum_globalPosition :: nat
  sum_streamType :: StreamType
  sum_streamId :: string
  sum_streamVersion :: nat
  sum_type :: string

definition eventSummary :: "StoredEvent \<Rightarrow> EventSummary" where
  "eventSummary e =
     \<lparr>sum_eventId = se_eventId e, sum_globalPosition = se_globalPosition e,
      sum_streamType = ev_streamType e, sum_streamId = ev_streamId e,
      sum_streamVersion = se_streamVersion e, sum_type = event_type (ev_data e)\<rparr>"

datatype CommandResult =
    Succeeded uuid string bool "EventSummary list" StateEntity
      \<comment> \<open>commandId, idempotencyKey, replayed, events, data\<close>
  | Failed "uuid option" "string option" bool CommandError
      \<comment> \<open>commandId, idempotencyKey, replayed, error\<close>

fun cr_ok :: "CommandResult \<Rightarrow> bool" where
  "cr_ok (Succeeded _ _ _ _ _) = True"
| "cr_ok (Failed _ _ _ _) = False"

text \<open>\<open>{ ...original, replayed: true }\<close>\<close>

fun as_replayed :: "CommandResult \<Rightarrow> CommandResult" where
  "as_replayed (Succeeded c k _ es d) = Succeeded c k True es d"
| "as_replayed (Failed c k _ e) = Failed c k True e"

record Receipt =
  rcp_commandId :: uuid
  rcp_idempotencyKey :: string
  rcp_commandType :: string
  rcp_requestHash :: digest
  rcp_accepted :: bool
  rcp_result :: CommandResult
  rcp_recordedAt :: timestamp

section \<open>The database\<close>

record Db =
  db_events :: "StoredEvent list"
  db_receipts :: "Receipt list"
  db_projection :: ProjectionState

definition emptyDb :: Db where
  "emptyDb = \<lparr>db_events = [], db_receipts = [], db_projection = emptyProjectionState\<rparr>"

definition receiptRow :: "Receipt list \<Rightarrow> string \<Rightarrow> Receipt option" where
  "receiptRow rs key = find (\<lambda>r. rcp_idempotencyKey r = key) rs"

text \<open>\<open>command_id\<close> is the primary key and \<open>idempotency_key\<close> is unique.\<close>

definition storeReceipt :: "Receipt \<Rightarrow> Receipt list \<Rightarrow> Receipt list result" where
  "storeReceipt r rs =
     (if list_ex (\<lambda>r'. rcp_commandId r' = rcp_commandId r) rs
      then Inl ''UNIQUE constraint failed: command_receipts.command_id''
      else if list_ex (\<lambda>r'. rcp_idempotencyKey r' = rcp_idempotencyKey r) rs
      then Inl ''UNIQUE constraint failed: command_receipts.idempotency_key''
      else Inr (rs @ [r]))"

definition same_stream :: "StreamType \<Rightarrow> string \<Rightarrow> StoredEvent \<Rightarrow> bool" where
  "same_stream ty i e \<longleftrightarrow> ev_streamType e = ty \<and> ev_streamId e = i"

text \<open>\<open>COALESCE(MAX(stream_version), 0)\<close>\<close>

definition streamVersion :: "StoredEvent list \<Rightarrow> StreamType \<Rightarrow> string \<Rightarrow> nat" where
  "streamVersion es ty i = foldr max (map se_streamVersion (filter (same_stream ty i) es)) 0"

text \<open>
  The rowid of an \<open>AUTOINCREMENT\<close> table: one more than the largest ever used. Rows are
  never deleted (a trigger forbids it) and a rolled-back transaction restores the counter.
\<close>

definition next_position :: "StoredEvent list \<Rightarrow> nat" where
  "next_position es = Suc (foldr max (map se_globalPosition es) 0)"

definition appendEvent :: "StoredEvent \<Rightarrow> StoredEvent list \<Rightarrow> StoredEvent list result" where
  "appendEvent e es =
     (if list_ex (\<lambda>x. se_eventId x = se_eventId e) es
      then Inl ''UNIQUE constraint failed: events.event_id''
      else if list_ex (\<lambda>x. same_stream (ev_streamType e) (ev_streamId e) x \<and>
                 se_streamVersion x = se_streamVersion e) es
      then Inl ''UNIQUE constraint failed: events.stream_version''
      else Inr (es @ [e]))"

section \<open>Reading the log\<close>

text \<open>
  A row's payload passes the event's schema (\<open>valid\<close>, the zod schema of its type) and a
  workflow's digest is recomputed. A row holds the value of an event, not its JSON text: writing
  and parsing that text is outside the model.
\<close>

definition workflow_digest_ok :: "(string \<Rightarrow> string) \<Rightarrow> EventData \<Rightarrow> bool" where
  "workflow_digest_ok sha d =
     (case d of WorkflowDefinitionRegistered w digest \<Rightarrow> digest_of sha (enc_WorkflowDefinition w) = digest
      | _ \<Rightarrow> True)"

definition load_event ::
    "(string \<Rightarrow> string) \<Rightarrow> (EventData \<Rightarrow> bool) \<Rightarrow> StoredEvent \<Rightarrow> StoredEvent result" where
  "load_event sha valid e =
     (if \<not> valid (ev_data e) then Inl (''Invalid payload of '' @ event_type (ev_data e))
      else if \<not> workflow_digest_ok sha (ev_data e)
      then Inl ''Workflow event definition digest does not match its content''
      else Inr e)"

fun loadEvents ::
    "(string \<Rightarrow> string) \<Rightarrow> (EventData \<Rightarrow> bool) \<Rightarrow> StoredEvent list \<Rightarrow> StoredEvent list result" where
  "loadEvents sha valid [] = Inr []"
| "loadEvents sha valid (e # es) =
     (case load_event sha valid e of
        Inl x \<Rightarrow> Inl x
      | Inr e' \<Rightarrow> (case loadEvents sha valid es of Inl x \<Rightarrow> Inl x | Inr es' \<Rightarrow> Inr (e' # es')))"

lemma load_event_Inr: "load_event sha valid e = Inr e' \<Longrightarrow> e' = e"
  by (simp add: load_event_def split: if_splits)

lemma loadEvents_Inr: "loadEvents sha valid es = Inr es' \<Longrightarrow> es' = es"
  by (induction es arbitrary: es') (auto split: sum.splits dest: load_event_Inr)

end
