(* ===== verification/Tables.thy ===== *)
theory Tables
  imports Store
begin

text \<open>
  The constraints the projection tables declare (packages/kernel/migrations/001_initial.sql)
  and that \<open>writeProjectionState\<close> (projections.ts) runs into when it replaces their rows:
  primary keys and \<open>UNIQUE\<close>, \<open>REFERENCES\<close> (foreign keys are switched on) and the numeric
  and length \<open>CHECK\<close>s. The rows are the entities themselves: the conversions between their fields
  and the columns, when rows are inserted and when \<open>readProjectionState\<close> reads them back, are outside
  the model.
\<close>

definition unique_rows :: "('v \<Rightarrow> 'c) \<Rightarrow> ('k, 'v) jsmap \<Rightarrow> bool" where
  "unique_rows f m \<longleftrightarrow> distinct (map f (mvalues m))"

definition refers :: "'c \<Rightarrow> ('v \<Rightarrow> 'c) \<Rightarrow> ('k, 'v) jsmap \<Rightarrow> bool" where
  "refers x f m \<longleftrightarrow> x \<in> set (map f (mvalues m))"

definition refers_if :: "'c option \<Rightarrow> ('v \<Rightarrow> 'c) \<Rightarrow> ('k, 'v) jsmap \<Rightarrow> bool" where
  "refers_if x f m \<longleftrightarrow> (case x of None \<Rightarrow> True | Some y \<Rightarrow> refers y f m)"

definition every_row :: "('v \<Rightarrow> bool) \<Rightarrow> ('k, 'v) jsmap \<Rightarrow> bool" where
  "every_row P m \<longleftrightarrow> list_all P (mvalues m)"

definition digest_column :: "digest \<Rightarrow> bool" where
  "digest_column d \<longleftrightarrow> length d = 64"

definition digest_column_if :: "digest option \<Rightarrow> bool" where
  "digest_column_if d \<longleftrightarrow> (case d of None \<Rightarrow> True | Some x \<Rightarrow> digest_column x)"

definition programs_table :: "ProjectionState \<Rightarrow> bool" where
  "programs_table st \<longleftrightarrow> unique_rows prog_programId (programs st) \<and>
     every_row (\<lambda>p. 0 < prog_version p) (programs st)"

definition workflows_table :: "ProjectionState \<Rightarrow> bool" where
  "workflows_table st \<longleftrightarrow> unique_rows (\<lambda>w. (wf_workflowId w, wf_version w)) (workflows st) \<and>
     every_row (\<lambda>w. 0 < wf_version w \<and> 0 < wf_streamVersion w) (workflows st)"

definition source_revisions_table :: "ProjectionState \<Rightarrow> bool" where
  "source_revisions_table st \<longleftrightarrow>
     unique_rows (\<lambda>r. sr_revisionId (srs_revision r)) (sourceRevisions st) \<and>
     every_row (\<lambda>r. digest_column (sr_revisionDigest (srs_revision r)) \<and> 0 < srs_version r)
       (sourceRevisions st)"

definition runs_table :: "ProjectionState \<Rightarrow> bool" where
  "runs_table st \<longleftrightarrow> unique_rows run_runId (runs st) \<and>
     every_row (\<lambda>r. refers (run_programId r) prog_programId (programs st) \<and>
       refers (run_workflowId r, run_workflowVersion r) (\<lambda>w. (wf_workflowId w, wf_version w)) (workflows st) \<and>
       0 < run_version r \<and> (case run_generation r of None \<Rightarrow> True | Some g \<Rightarrow> 0 < g)) (runs st)"

definition jobs_table :: "ProjectionState \<Rightarrow> bool" where
  "jobs_table st \<longleftrightarrow> unique_rows job_jobId (jobs st) \<and>
     unique_rows (\<lambda>j. (job_runId j, job_stepId j)) (jobs st) \<and>
     every_row (\<lambda>j. refers (job_runId j) run_runId (runs st) \<and>
       0 < jp_maxAttempts (job_policy j) \<and> 0 < jp_attemptTimeoutMs (job_policy j) \<and>
       0 < job_version j \<and> digest_column_if (job_verifierContractDigest j) \<and>
       digest_column_if (job_executionContractDigest j) \<and>
       digest_column_if (job_capabilityManifestDigest j) \<and>
       digest_column_if (job_contextPacketDigest j)) (jobs st)"

definition job_dependencies_table :: "ProjectionState \<Rightarrow> bool" where
  "job_dependencies_table st \<longleftrightarrow>
     every_row (\<lambda>j. distinct (job_dependencyJobIds j) \<and>
       list_all (\<lambda>d. d \<noteq> job_jobId j \<and> refers d job_jobId (jobs st)) (job_dependencyJobIds j))
       (jobs st)"

text \<open>\<open>UNIQUE (job_id, ordinal)\<close> does not compare rows whose \<open>job_id\<close> is \<open>NULL\<close>.\<close>

definition attempts_table :: "ProjectionState \<Rightarrow> bool" where
  "attempts_table st \<longleftrightarrow> unique_rows att_attemptId (attempts st) \<and>
     distinct (map (\<lambda>a. (att_jobId a, att_ordinal a))
       (filter (\<lambda>a. att_jobId a \<noteq> None) (mvalues (attempts st)))) \<and>
     every_row (\<lambda>a. refers (att_runId a) run_runId (runs st) \<and> 0 < att_ordinal a \<and>
       0 < att_version a) (attempts st)"

definition outbox_table :: "ProjectionState \<Rightarrow> bool" where
  "outbox_table st \<longleftrightarrow> unique_rows out_outboxId (outbox st) \<and>
     unique_rows out_effectKey (outbox st) \<and>
     every_row (\<lambda>b. refers (out_runId b) run_runId (runs st) \<and>
       refers (out_jobId b) job_jobId (jobs st) \<and> 0 < out_version b) (outbox st)"

definition artifact_manifests_table :: "ProjectionState \<Rightarrow> bool" where
  "artifact_manifests_table st \<longleftrightarrow>
     unique_rows (\<lambda>m. am_artifactManifestId (ams_manifest m)) (artifactManifests st) \<and>
     every_row (\<lambda>m. let x = ams_manifest m in
       refers (am_runId x) run_runId (runs st) \<and> refers (am_jobId x) job_jobId (jobs st) \<and>
       refers (am_sourceRevisionId x) (\<lambda>r. sr_revisionId (srs_revision r)) (sourceRevisions st) \<and>
       digest_column (am_manifestDigest x) \<and> 0 < ams_version m) (artifactManifests st)"

definition verifications_table :: "ProjectionState \<Rightarrow> bool" where
  "verifications_table st \<longleftrightarrow> unique_rows ver_verificationId (verifications st) \<and>
     unique_rows ver_attemptId (verifications st) \<and>
     every_row (\<lambda>v. let q = ver_request v in
       refers (vq_runId q) run_runId (runs st) \<and> refers (vq_jobId q) job_jobId (jobs st) \<and>
       refers (vq_sourceRevisionId q) (\<lambda>r. sr_revisionId (srs_revision r)) (sourceRevisions st) \<and>
       refers_if (ver_artifactManifestId v) (\<lambda>m. am_artifactManifestId (ams_manifest m))
         (artifactManifests st) \<and>
       digest_column (vq_workflowDigest q) \<and> digest_column (vq_verifierContractDigest q) \<and>
       digest_column_if (ver_resultDigest v) \<and> digest_column_if (ver_receiptDigest v) \<and>
       0 < ver_version v) (verifications st)"

definition driver_receipts_table :: "ProjectionState \<Rightarrow> bool" where
  "driver_receipts_table st \<longleftrightarrow>
     unique_rows (\<lambda>r. drr_driverReceiptId (drs_record r)) (driverReceipts st) \<and>
     unique_rows (\<lambda>r. drr_attemptId (drs_record r)) (driverReceipts st) \<and>
     every_row (\<lambda>r. let x = drs_record r in
       refers (drr_runId x) run_runId (runs st) \<and> refers (drr_jobId x) job_jobId (jobs st) \<and>
       refers (drr_baseRevisionId x) (\<lambda>s. sr_revisionId (srs_revision s)) (sourceRevisions st) \<and>
       refers_if (drr_candidateRevisionId x) (\<lambda>s. sr_revisionId (srs_revision s)) (sourceRevisions st) \<and>
       digest_column (drr_receiptDigest x) \<and> 0 < drs_version r) (driverReceipts st)"

definition approval_requests_table :: "ProjectionState \<Rightarrow> bool" where
  "approval_requests_table st \<longleftrightarrow>
     unique_rows (\<lambda>q. apr_approvalRequestId (ars_request q)) (approvalRequests st) \<and>
     unique_rows (\<lambda>q. (apr_attemptId (ars_request q), apr_sequence (ars_request q))) (approvalRequests st) \<and>
     every_row (\<lambda>q. let x = ars_request q in
       refers (apr_runId x) run_runId (runs st) \<and> refers (apr_jobId x) job_jobId (jobs st) \<and>
       0 < apr_sequence x \<and> 0 < ars_version q) (approvalRequests st)"

text \<open>
  The tables in the order \<open>writeProjectionState\<close> fills them; the first violated one is
  named by the exception.
\<close>

definition table_violation :: "ProjectionState \<Rightarrow> string option" where
  "table_violation st =
     (if \<not> programs_table st then Some ''programs_projection''
      else if \<not> workflows_table st then Some ''workflows_projection''
      else if \<not> source_revisions_table st then Some ''source_revisions_projection''
      else if \<not> runs_table st then Some ''runs_projection''
      else if \<not> jobs_table st then Some ''jobs_projection''
      else if \<not> job_dependencies_table st then Some ''job_dependencies_projection''
      else if \<not> attempts_table st then Some ''attempts_projection''
      else if \<not> outbox_table st then Some ''outbox_projection''
      else if \<not> artifact_manifests_table st then Some ''artifact_manifests_projection''
      else if \<not> verifications_table st then Some ''verifications_projection''
      else if \<not> driver_receipts_table st then Some ''driver_receipts_projection''
      else if \<not> approval_requests_table st then Some ''approval_requests_projection''
      else None)"

definition writeProjectionState :: "ProjectionState \<Rightarrow> Db \<Rightarrow> Db result" where
  "writeProjectionState st db =
     (case table_violation st of
        Some table \<Rightarrow> Inl (''constraint failed: '' @ table)
      | None \<Rightarrow> Inr (db\<lparr>db_projection := st\<rparr>))"

lemma writeProjectionState_Inr:
  "writeProjectionState st db = Inr db' \<longleftrightarrow> table_violation st = None \<and> db' = db\<lparr>db_projection := st\<rparr>"
  by (auto simp: writeProjectionState_def split: option.splits)

lemma no_violation:
  "table_violation st = None \<Longrightarrow>
     programs_table st \<and> workflows_table st \<and> source_revisions_table st \<and> runs_table st \<and>
     jobs_table st \<and> job_dependencies_table st \<and> attempts_table st \<and> outbox_table st \<and>
     artifact_manifests_table st \<and> verifications_table st \<and> driver_receipts_table st \<and>
     approval_requests_table st"
  by (simp add: table_violation_def split: if_splits)

end
