(* ===== verification/Kernel.thy ===== *)
theory Kernel
  imports Tables
begin

text \<open>
  \<open>SqliteKernel.execute\<close> (packages/kernel/src/sqlite-kernel.ts): a command is parsed, its
  idempotency key looked up, the state replayed from the log, the decision taken, and its
  events, the projection and the receipt are written in one transaction. What the code calls
  but does not define is an argument: the hash, the command parser and the payload schemas
  (zod), the identifier generator and the clock.
\<close>

section \<open>The environment of a kernel\<close>

datatype FaultPoint = After_events_appended | After_projection_written

text \<open>
  \<open>env_parse\<close> is \<open>CommandSchema.safeParse\<close>: the number of issues, or the parsed value with
  the command it denotes. \<open>env_fault\<close> is the fault injector tests may pass to the
  constructor: the message it throws at a point, if it throws.
\<close>

record Env =
  env_sha :: "string \<Rightarrow> string"
  env_parse :: "jsval \<Rightarrow> nat + (jsval \<times> Command)"
  env_valid :: "EventData \<Rightarrow> bool"
  env_fault :: "FaultPoint \<Rightarrow> string option"

section \<open>Appending events\<close>

text \<open>
  The variables of the loop \<open>appendInputs\<close>: the events table, the cache of stream versions,
  the state and the events stored so far. The generator's first identifier is the command's,
  the others are the events'.
\<close>

record Appending =
  ap_table :: "StoredEvent list"
  ap_versions :: "(string, nat) jsmap"
  ap_state :: ProjectionState
  ap_stored :: "StoredEvent list"

definition input_version :: "Appending \<Rightarrow> DomainEventInput \<Rightarrow> nat" where
  "input_version s e =
     (case mget (ap_versions s) (stream_key e) of
        Some v \<Rightarrow> v
      | None \<Rightarrow> streamVersion (ap_table s) (ev_streamType e) (ev_streamId e)) + 1"

definition stored_event ::
    "(nat \<Rightarrow> uuid) \<Rightarrow> Command \<Rightarrow> timestamp \<Rightarrow> Appending \<Rightarrow> DomainEventInput \<Rightarrow> StoredEvent" where
  "stored_event ids c now s e =
     \<lparr>ev_streamType = ev_streamType e, ev_streamId = ev_streamId e, ev_data = ev_data e,
      se_eventId = ids (Suc (length (ap_stored s))), se_commandId = ids 0,
      se_globalPosition = next_position (ap_table s), se_streamVersion = input_version s e,
      se_occurredAt = now, se_actor = cmd_actor c, se_correlationId = cmd_correlationId c\<rparr>"

definition append_input ::
    "Env \<Rightarrow> (nat \<Rightarrow> uuid) \<Rightarrow> Command \<Rightarrow> timestamp \<Rightarrow> Appending \<Rightarrow> DomainEventInput \<Rightarrow> Appending result" where
  "append_input env ids c now s e =
     (let row = stored_event ids c now s e in
      case appendEvent row (ap_table s) of
        Inl x \<Rightarrow> Inl x
      | Inr table \<Rightarrow>
        (case evolve (env_sha env) (ap_state s) row of
           Inl x \<Rightarrow> Inl x
         | Inr st \<Rightarrow> Inr
             \<lparr>ap_table = table, ap_versions = mput (stream_key e) (input_version s e) (ap_versions s),
              ap_state = st, ap_stored = ap_stored s @ [row]\<rparr>))"

definition appendInputs ::
    "Env \<Rightarrow> (nat \<Rightarrow> uuid) \<Rightarrow> Command \<Rightarrow> timestamp \<Rightarrow> Appending \<Rightarrow> DomainEventInput list \<Rightarrow>
       Appending result" where
  "appendInputs env ids c now = try_fold (append_input env ids c now)"

text \<open>
  The terminal runs an outcome packet is derived for are those bound to a milestone; the runs
  of this model are created without one (\<open>no_milestone_runs\<close> below), so
  \<open>deriveOutcomeEvents\<close> adds no event.
\<close>

definition terminal_event_run :: "EventData \<Rightarrow> uuid option" where
  "terminal_event_run d =
     (case d of RunSucceeded r \<Rightarrow> Some r | RunFailed r _ \<Rightarrow> Some r | RunCancelled r _ \<Rightarrow> Some r
      | _ \<Rightarrow> None)"

definition terminalRunIds :: "StoredEvent list \<Rightarrow> uuid list" where
  "terminalRunIds es = List.map_filter (\<lambda>e. terminal_event_run (ev_data e)) es"

definition milestone_runs :: "ProjectionState \<Rightarrow> uuid list \<Rightarrow> uuid list" where
  "milestone_runs st ids =
     filter (\<lambda>i. Option.bind (mget (runs st) i) run_milestoneId \<noteq> None) ids"

section \<open>The transaction\<close>

definition command_receipt ::
    "Command \<Rightarrow> uuid \<Rightarrow> digest \<Rightarrow> CommandResult \<Rightarrow> timestamp \<Rightarrow> Receipt" where
  "command_receipt c commandId hash result now =
     \<lparr>rcp_commandId = commandId, rcp_idempotencyKey = cmd_idempotencyKey c,
      rcp_commandType = command_type (cmd_body c), rcp_requestHash = hash,
      rcp_accepted = cr_ok result, rcp_result = result, rcp_recordedAt = now\<rparr>"

definition record_result ::
    "Command \<Rightarrow> uuid \<Rightarrow> digest \<Rightarrow> timestamp \<Rightarrow> CommandResult \<Rightarrow> Db \<Rightarrow> (Db \<times> CommandResult) result" where
  "record_result c commandId hash now result db =
     (case storeReceipt (command_receipt c commandId hash result now) (db_receipts db) of
        Inl x \<Rightarrow> Inl x
      | Inr rs \<Rightarrow> Inr (db\<lparr>db_receipts := rs\<rparr>, result))"

definition fault_at :: "Env \<Rightarrow> FaultPoint \<Rightarrow> 'a result \<Rightarrow> 'a result" where
  "fault_at env p k = (case env_fault env p of Some x \<Rightarrow> Inl x | None \<Rightarrow> k)"

text \<open>An accepted decision: events, projection and receipt.\<close>

definition commit_accepted ::
    "Env \<Rightarrow> (nat \<Rightarrow> uuid) \<Rightarrow> timestamp \<Rightarrow> Command \<Rightarrow> digest \<Rightarrow> Db \<Rightarrow> ProjectionState \<Rightarrow>
       DomainEventInput list \<Rightarrow> EntityKind \<Rightarrow> string \<Rightarrow> (Db \<times> CommandResult) result" where
  "commit_accepted env ids now c hash db st evs kind rid =
     (case appendInputs env ids c now
             \<lparr>ap_table = db_events db, ap_versions = [], ap_state = st, ap_stored = []\<rparr> evs of
        Inl x \<Rightarrow> Inl x
      | Inr a \<Rightarrow> fault_at env After_events_appended
        (case writeProjectionState (ap_state a) (db\<lparr>db_events := ap_table a\<rparr>) of
           Inl x \<Rightarrow> Inl x
         | Inr db' \<Rightarrow> fault_at env After_projection_written
           (case getStateEntity (ap_state a) kind rid of
              None \<Rightarrow> Inl ''Command result projection is missing''
            | Some entity \<Rightarrow>
                record_result c (ids 0) hash now
                  (Succeeded (ids 0) (cmd_idempotencyKey c) False
                     (map eventSummary (ap_stored a)) entity) db')))"

definition commit_decision ::
    "Env \<Rightarrow> (nat \<Rightarrow> uuid) \<Rightarrow> timestamp \<Rightarrow> Command \<Rightarrow> digest \<Rightarrow> Db \<Rightarrow> (Db \<times> CommandResult) result" where
  "commit_decision env ids now c hash db =
     (case loadEvents (env_sha env) (env_valid env) (db_events db) of
        Inl x \<Rightarrow> Inl x
      | Inr es \<Rightarrow>
        (case replayEvents (env_sha env) es of
           Inl x \<Rightarrow> Inl x
         | Inr st \<Rightarrow>
           (case decide (env_sha env) st c now of
              Throw x \<Rightarrow> Inl x
            | Reject e \<Rightarrow>
                record_result c (ids 0) hash now
                  (Failed (Some (ids 0)) (Some (cmd_idempotencyKey c)) False (CE_domain e)) db
            | Accept evs kind rid \<Rightarrow> commit_accepted env ids now c hash db st evs kind rid)))"

text \<open>
  The transaction: a known idempotency key is answered from its receipt and changes nothing.
\<close>

definition transact ::
    "Env \<Rightarrow> (nat \<Rightarrow> uuid) \<Rightarrow> timestamp \<Rightarrow> Command \<Rightarrow> digest \<Rightarrow> Db \<Rightarrow> (Db \<times> CommandResult) result" where
  "transact env ids now c hash db =
     (case receiptRow (db_receipts db) (cmd_idempotencyKey c) of
        Some r \<Rightarrow> Inr (db,
          if rcp_requestHash r \<noteq> hash
          then Failed (Some (ids 0)) (Some (cmd_idempotencyKey c)) False CE_conflict
          else as_replayed (rcp_result r))
      | None \<Rightarrow> commit_decision env ids now c hash db)"

text \<open>An exception rolls the transaction back: the database is the one before.\<close>

definition execute ::
    "Env \<Rightarrow> (nat \<Rightarrow> uuid) \<Rightarrow> timestamp \<Rightarrow> jsval \<Rightarrow> Db \<Rightarrow> Db \<times> CommandResult result" where
  "execute env ids now input db =
     (case env_parse env input of
        Inl issues \<Rightarrow> (db, Inr (Failed None None False (CE_validation issues)))
      | Inr (v, c) \<Rightarrow>
        (case canonicalDigest (env_sha env) v of
           Inl x \<Rightarrow> (db, Inl x)
         | Inr hash \<Rightarrow>
           (case transact env ids now c hash db of
              Inl x \<Rightarrow> (db, Inl x)
            | Inr (db', result) \<Rightarrow> (db', Inr result))))"

end
