(* ===== verification/KernelFacts.thy ===== *)
theory KernelFacts
  imports Kernel
begin

text \<open>
  What the kernel's transaction guarantees: positions and stream versions without gaps, a log
  and receipts that only grow, a projection that is the replay of the log, and the refinement
  of every execution to a step of the projection (\<^const>\<open>commits\<close>) or to no step at all.
\<close>

section \<open>Positions and stream versions\<close>

definition gapless :: "nat list \<Rightarrow> bool" where
  "gapless ns \<longleftrightarrow> ns = [1..<Suc (length ns)]"

lemma gapless_Nil [simp]: "gapless []"
  by (simp add: gapless_def)

lemma foldr_max_append: "foldr max (xs @ [n]) (0::nat) = max (foldr max xs 0) n"
  by (induction xs) (simp_all add: max.assoc)

lemma foldr_max_upt: "foldr max [1..<Suc n] (0::nat) = n"
  by (induction n) (simp_all add: foldr_max_append del: foldr_append)

lemma gapless_max: "gapless ns \<Longrightarrow> foldr max ns 0 = length ns"
  using foldr_max_upt [of "length ns"] by (simp only: gapless_def)

lemma gapless_snoc: "gapless ns \<Longrightarrow> gapless (ns @ [Suc (length ns)])"
  unfolding gapless_def by simp

definition log_ok :: "StoredEvent list \<Rightarrow> bool" where
  "log_ok es \<longleftrightarrow> gapless (map se_globalPosition es) \<and>
     (\<forall>ty i. gapless (map se_streamVersion (filter (same_stream ty i) es))) \<and>
     distinct (map se_eventId es)"

lemma log_ok_Nil [simp]: "log_ok []"
  by (simp add: log_ok_def)

lemma next_position_log: "log_ok es \<Longrightarrow> next_position es = Suc (length es)"
  using gapless_max [of "map se_globalPosition es"] by (simp add: log_ok_def next_position_def)

lemma streamVersion_log:
  "log_ok es \<Longrightarrow> streamVersion es ty i = length (filter (same_stream ty i) es)"
  using gapless_max [of "map se_streamVersion (filter (same_stream ty i) es)"]
  by (simp add: log_ok_def streamVersion_def)

section \<open>The version cache\<close>

lemma text_StreamType_no_colon: "CHR '':'' \<notin> set (text_StreamType ty)"
  by (cases ty) simp_all

lemma text_StreamType_inj: "text_StreamType a = text_StreamType b \<Longrightarrow> a = b"
  by (cases a; cases b) simp_all

lemma split_at_colon:
  "a @ CHR '':'' # x = b @ CHR '':'' # y \<Longrightarrow> CHR '':'' \<notin> set a \<Longrightarrow> CHR '':'' \<notin> set b \<Longrightarrow> a = b \<and> x = y"
proof (induction a arbitrary: b)
  case Nil then show ?case by (cases b) auto
next
  case (Cons c a) then show ?case by (cases b) auto
qed

lemma stream_key_inj:
  "stream_key e = stream_key e' \<longleftrightarrow> ev_streamType e = ev_streamType e' \<and> ev_streamId e = ev_streamId e'"
  using split_at_colon [OF _ text_StreamType_no_colon text_StreamType_no_colon,
      of "ev_streamType e" "ev_streamId e" "ev_streamType e'" "ev_streamId e'"]
  by (auto simp: stream_key_def dest: text_StreamType_inj)

definition cache_ok :: "Appending \<Rightarrow> bool" where
  "cache_ok s \<longleftrightarrow> (\<forall>e v. mget (ap_versions s) (stream_key e) = Some v \<longrightarrow>
     v = streamVersion (ap_table s) (ev_streamType e) (ev_streamId e))"

lemma input_version_cache:
  "cache_ok s \<Longrightarrow> input_version s e = Suc (streamVersion (ap_table s) (ev_streamType e) (ev_streamId e))"
  by (simp add: cache_ok_def input_version_def split: option.splits)

lemma log_ok_append:
  assumes log: "log_ok es" and row: "appendEvent row es = Inr es'"
    and pos: "se_globalPosition row = next_position es"
    and ver: "se_streamVersion row = Suc (streamVersion es (ev_streamType row) (ev_streamId row))"
  shows "log_ok es'" and "es' = es @ [row]"
proof -
  show es': "es' = es @ [row]" using row by (simp add: appendEvent_def split: if_splits)
  have new: "se_eventId row \<notin> se_eventId ` set es"
    using row by (auto simp: appendEvent_def list_ex_iff split: if_splits)
  have "gapless (map se_streamVersion (filter (same_stream ty i) es'))" for ty i
  proof (cases "same_stream ty i row")
    case True
    then have "se_streamVersion row = Suc (length (filter (same_stream ty i) es))"
      using ver streamVersion_log [OF log] by (simp add: same_stream_def)
    with True show ?thesis
      using gapless_snoc [of "map se_streamVersion (filter (same_stream ty i) es)"] log
      by (simp add: es' log_ok_def)
  qed (use log in \<open>simp add: es' log_ok_def\<close>)
  moreover have "gapless (map se_globalPosition es')"
    using gapless_snoc [of "map se_globalPosition es"] log pos next_position_log [OF log]
    by (simp add: es' log_ok_def)
  ultimately show "log_ok es'" using log new by (simp add: log_ok_def es')
qed

lemma stored_event_simps [simp]:
  "ev_streamType (stored_event ids c now s e) = ev_streamType e"
  "ev_streamId (stored_event ids c now s e) = ev_streamId e"
  "ev_data (stored_event ids c now s e) = ev_data e"
  "se_globalPosition (stored_event ids c now s e) = next_position (ap_table s)"
  "se_streamVersion (stored_event ids c now s e) = input_version s e"
  "se_occurredAt (stored_event ids c now s e) = now"
  "se_commandId (stored_event ids c now s e) = ids 0"
  "DomainEventInput.truncate (stored_event ids c now s e) = e"
  by (simp_all add: stored_event_def DomainEventInput.defs)

lemma append_input_ok:
  assumes a: "append_input env ids c now s e = Inr s'" and log: "log_ok (ap_table s)" and cache: "cache_ok s"
  defines "row \<equiv> stored_event ids c now s e"
  shows "ap_table s' = ap_table s @ [row]" and "ap_stored s' = ap_stored s @ [row]"
    and "evolve (env_sha env) (ap_state s) row = Inr (ap_state s')"
    and "log_ok (ap_table s')" and "cache_ok s'"
proof -
  obtain table st where t: "appendEvent row (ap_table s) = Inr table"
    and ev: "evolve (env_sha env) (ap_state s) row = Inr st"
    and s': "s' = \<lparr>ap_table = table,
      ap_versions = mput (stream_key e) (input_version s e) (ap_versions s),
      ap_state = st, ap_stored = ap_stored s @ [row]\<rparr>"
    using a by (auto simp: append_input_def Let_def row_def split: sum.splits)
  have v: "se_streamVersion row = Suc (streamVersion (ap_table s) (ev_streamType row) (ev_streamId row))"
    by (simp add: row_def input_version_cache [OF cache])
  note l = log_ok_append [OF log t _ v]
  have tab: "table = ap_table s @ [row]" and lt: "log_ok table" using l by (simp_all add: row_def)
  show "ap_table s' = ap_table s @ [row]" "ap_stored s' = ap_stored s @ [row]"
    "evolve (env_sha env) (ap_state s) row = Inr (ap_state s')" "log_ok (ap_table s')"
    using s' tab ev lt by simp_all
  show "cache_ok s'"
    unfolding cache_ok_def
  proof (intro allI impI)
    fix e' v assume g: "mget (ap_versions s') (stream_key e') = Some v"
    show "v = streamVersion (ap_table s') (ev_streamType e') (ev_streamId e')"
    proof (cases "stream_key e' = stream_key e")
      case True
      then have i: "ev_streamType e' = ev_streamType e" "ev_streamId e' = ev_streamId e"
        by (simp_all add: stream_key_inj)
      have "v = input_version s e" using g True s' by simp
      also have "\<dots> = streamVersion table (ev_streamType e) (ev_streamId e)"
        using streamVersion_log [OF lt] streamVersion_log [OF log] input_version_cache [OF cache]
        by (simp add: tab row_def same_stream_def)
      finally show ?thesis using i s' by simp
    next
      case False
      then have "v = streamVersion (ap_table s) (ev_streamType e') (ev_streamId e')"
        using g s' cache by (simp add: cache_ok_def)
      moreover have "\<not> same_stream (ev_streamType e') (ev_streamId e') row"
        using False by (auto simp: same_stream_def row_def stream_key_inj)
      ultimately show ?thesis using s' tab by (simp add: streamVersion_def)
    qed
  qed
qed

lemma appendInputs_ok:
  assumes "appendInputs env ids c now s evs = Inr s'" and "log_ok (ap_table s)" and "cache_ok s"
  shows "\<exists>rows. ap_table s' = ap_table s @ rows \<and> ap_stored s' = ap_stored s @ rows \<and>
     stamped now evs rows \<and> (\<forall>r\<in>set rows. se_commandId r = ids 0) \<and>
     try_fold (evolve (env_sha env)) (ap_state s) rows = Inr (ap_state s') \<and> log_ok (ap_table s')"
  using assms
proof (induction evs arbitrary: s)
  case Nil
  then show ?case by (simp add: appendInputs_def stamped_def)
next
  case (Cons e evs)
  obtain s1 where a: "append_input env ids c now s e = Inr s1"
    and rest: "appendInputs env ids c now s1 evs = Inr s'"
    using Cons.prems(1) by (auto simp: appendInputs_def split: sum.splits)
  note one = append_input_ok [OF a Cons.prems(2,3)]
  obtain rows where r: "ap_table s' = ap_table s1 @ rows" "ap_stored s' = ap_stored s1 @ rows"
    "stamped now evs rows" "\<forall>r\<in>set rows. se_commandId r = ids 0"
    "try_fold (evolve (env_sha env)) (ap_state s1) rows = Inr (ap_state s')" "log_ok (ap_table s')"
    using Cons.IH [OF rest one(4,5)] by blast
  show ?case
    by (rule exI [of _ "stored_event ids c now s e # rows"])
      (use one(1-3) r in \<open>simp add: stamped_def\<close>)
qed

section \<open>What an execution does to the database\<close>

text \<open>The two ways a transaction writes: a rejected command and an accepted one.\<close>

definition writes_rejection ::
    "Env \<Rightarrow> (nat \<Rightarrow> uuid) \<Rightarrow> timestamp \<Rightarrow> Command \<Rightarrow> digest \<Rightarrow> Db \<Rightarrow> Db \<Rightarrow> CommandResult \<Rightarrow> bool" where
  "writes_rejection env ids now c hash db db' res \<longleftrightarrow>
     (\<exists>st e. replayEvents (env_sha env) (db_events db) = Inr st \<and>
        decide (env_sha env) st c now = Reject e \<and>
        res = Failed (Some (ids 0)) (Some (cmd_idempotencyKey c)) False (CE_domain e) \<and>
        db' = db\<lparr>db_receipts := db_receipts db @ [command_receipt c (ids 0) hash res now]\<rparr>)"

definition writes_events ::
    "Env \<Rightarrow> (nat \<Rightarrow> uuid) \<Rightarrow> timestamp \<Rightarrow> Command \<Rightarrow> digest \<Rightarrow> Db \<Rightarrow> Db \<Rightarrow> CommandResult \<Rightarrow> bool" where
  "writes_events env ids now c hash db db' res \<longleftrightarrow>
     (\<exists>st evs kind rid rows st' entity.
        replayEvents (env_sha env) (db_events db) = Inr st \<and>
        decide (env_sha env) st c now = Accept evs kind rid \<and>
        stamped now evs rows \<and> (\<forall>r\<in>set rows. se_commandId r = ids 0) \<and>
        try_fold (evolve (env_sha env)) st rows = Inr st' \<and>
        table_violation st' = None \<and> getStateEntity st' kind rid = Some entity \<and>
        log_ok (db_events db @ rows) \<and>
        res = Succeeded (ids 0) (cmd_idempotencyKey c) False (map eventSummary rows) entity \<and>
        db' = \<lparr>db_events = db_events db @ rows,
               db_receipts = db_receipts db @ [command_receipt c (ids 0) hash res now],
               db_projection = st'\<rparr>)"

lemma record_result_Inr:
  "record_result c i hash now res db = Inr (db', res') \<longleftrightarrow>
     storeReceipt (command_receipt c i hash res now) (db_receipts db) =
       Inr (db_receipts db @ [command_receipt c i hash res now]) \<and> res' = res \<and>
     db' = db\<lparr>db_receipts := db_receipts db @ [command_receipt c i hash res now]\<rparr>"
  by (auto simp: record_result_def storeReceipt_def split: sum.splits if_splits)

lemma fault_at_Inr: "fault_at env p k = Inr x \<longleftrightarrow> env_fault env p = None \<and> k = Inr x"
  by (simp add: fault_at_def split: option.splits)

lemma commit_accepted_Inr:
  assumes log: "log_ok (db_events db)"
    and r: "replayEvents (env_sha env) (db_events db) = Inr st"
    and d: "decide (env_sha env) st c now = Accept evs kind rid"
    and m: "commit_accepted env ids now c hash db st evs kind rid = Inr (db', res)"
  shows "writes_events env ids now c hash db db' res"
proof -
  let ?s = "\<lparr>ap_table = db_events db, ap_versions = [], ap_state = st, ap_stored = []\<rparr>"
  obtain a entity where a: "appendInputs env ids c now ?s evs = Inr a"
    and t: "table_violation (ap_state a) = None"
    and g: "getStateEntity (ap_state a) kind rid = Some entity"
    and w: "record_result c (ids 0) hash now
      (Succeeded (ids 0) (cmd_idempotencyKey c) False (map eventSummary (ap_stored a)) entity)
      (db\<lparr>db_events := ap_table a, db_projection := ap_state a\<rparr>) = Inr (db', res)"
    using m by (auto simp: commit_accepted_def fault_at_Inr writeProjectionState_def
        split: sum.splits option.splits)
  have c0: "cache_ok ?s" by (simp add: cache_ok_def)
  obtain rows where rows: "ap_table a = db_events db @ rows" "ap_stored a = rows"
    "stamped now evs rows" "\<forall>r\<in>set rows. se_commandId r = ids 0"
    "try_fold (evolve (env_sha env)) st rows = Inr (ap_state a)" "log_ok (ap_table a)"
    using appendInputs_ok [OF a _ c0] log by auto
  show ?thesis
    unfolding writes_events_def
    by (intro exI [of _ st] exI [of _ evs] exI [of _ kind] exI [of _ rid] exI [of _ rows]
        exI [of _ "ap_state a"] exI [of _ entity])
      (use r d t g w rows in \<open>auto simp: record_result_Inr\<close>)
qed

lemma commit_decision_Inr:
  assumes log: "log_ok (db_events db)" and m: "commit_decision env ids now c hash db = Inr (db', res)"
  shows "writes_rejection env ids now c hash db db' res \<or> writes_events env ids now c hash db db' res"
proof -
  obtain st where r: "replayEvents (env_sha env) (db_events db) = Inr st"
    and k: "(case decide (env_sha env) st c now of
              Throw x \<Rightarrow> Inl x
            | Reject e \<Rightarrow>
                record_result c (ids 0) hash now
                  (Failed (Some (ids 0)) (Some (cmd_idempotencyKey c)) False (CE_domain e)) db
            | Accept evs kind rid \<Rightarrow> commit_accepted env ids now c hash db st evs kind rid) = Inr (db', res)"
    using m by (auto simp: commit_decision_def split: sum.splits dest: loadEvents_Inr)
  show ?thesis
  proof (cases "decide (env_sha env) st c now")
    case (Accept evs kind rid)
    then show ?thesis using commit_accepted_Inr [OF log r Accept] k by simp
  next
    case (Reject e)
    then show ?thesis using k r by (auto simp: writes_rejection_def record_result_Inr)
  qed (use k in simp)
qed

text \<open>Every execution leaves the database alone or writes exactly one receipt.\<close>

lemma execute_cases:
  assumes log: "log_ok (db_events db)" and x: "execute env ids now input db = (db', out)"
  obtains "db' = db"
  | v c hash res where "env_parse env input = Inr (v, c)" "canonicalDigest (env_sha env) v = Inr hash"
      "receiptRow (db_receipts db) (cmd_idempotencyKey c) = None"
      "commit_decision env ids now c hash db = Inr (db', res)" "out = Inr res"
      "writes_rejection env ids now c hash db db' res \<or> writes_events env ids now c hash db db' res"
proof (cases "env_parse env input")
  case (Inl issues)
  then show thesis using x that(1) by (simp add: execute_def)
next
  case (Inr p)
  obtain v c where p: "p = (v, c)" by (cases p)
  show thesis
  proof (cases "canonicalDigest (env_sha env) v")
    case (Inl m)
    then show thesis using x Inr p that(1) by (simp add: execute_def)
  next
    case hash: (Inr hash)
    show thesis
    proof (cases "receiptRow (db_receipts db) (cmd_idempotencyKey c)")
      case (Some r)
      then show thesis using x Inr p hash that(1) by (simp add: execute_def transact_def)
    next
      case None
      show thesis
      proof (cases "commit_decision env ids now c hash db")
        case (Inl m)
        then show thesis using x Inr p hash None that(1) by (simp add: execute_def transact_def)
      next
        case fin: (Inr q)
        obtain db2 res where q: "q = (db2, res)" by (cases q)
        then have "db' = db2" "out = Inr res"
          using x Inr p hash None fin by (simp_all add: execute_def transact_def)
        then show thesis
          using that(2) [of v c hash res] Inr p hash None fin q commit_decision_Inr [OF log] by blast
      qed
    qed
  qed
qed

section \<open>Reachable databases\<close>

definition parses_well :: "Env \<Rightarrow> bool" where
  "parses_well env \<longleftrightarrow> (\<forall>input v c. env_parse env input = Inr (v, c) \<longrightarrow> command_wf (cmd_body c))"

inductive kernel_reachable :: "Env \<Rightarrow> Db \<Rightarrow> bool" for env where
  kernel_open: "kernel_reachable env emptyDb"
| kernel_execute: "kernel_reachable env db \<Longrightarrow> execute env ids now input db = (db', out) \<Longrightarrow>
     kernel_reachable env db'"

inductive_cases kernel_reachableE: "kernel_reachable env db"

definition db_ok :: "Env \<Rightarrow> Db \<Rightarrow> bool" where
  "db_ok env db \<longleftrightarrow> log_ok (db_events db) \<and> distinct (map rcp_idempotencyKey (db_receipts db)) \<and>
     replayEvents (env_sha env) (db_events db) = Inr (db_projection db) \<and>
     reachable (env_sha env) (db_projection db)"

lemma db_okD:
  assumes "db_ok env db"
  shows "log_ok (db_events db)" and "distinct (map rcp_idempotencyKey (db_receipts db))"
    and "replayEvents (env_sha env) (db_events db) = Inr (db_projection db)"
    and "reachable (env_sha env) (db_projection db)"
  using assms by (simp_all add: db_ok_def)

lemma db_ok_empty: "db_ok env emptyDb"
  by (simp add: db_ok_def emptyDb_def replayEvents_def reachable_empty)

lemma receiptRow_None:
  "receiptRow rs key = None \<longleftrightarrow> key \<notin> set (map rcp_idempotencyKey rs)"
  by (auto simp: receiptRow_def find_None_iff)

lemma command_receipt_simps [simp]:
  "rcp_idempotencyKey (command_receipt c i hash res now) = cmd_idempotencyKey c"
  "rcp_requestHash (command_receipt c i hash res now) = hash"
  "rcp_result (command_receipt c i hash res now) = res"
  by (simp_all add: command_receipt_def)

lemma writes_events_commits:
  assumes "db_ok env db" and "writes_events env ids now c hash db db' res"
  shows "commits (env_sha env) (db_projection db) c now (db_projection db')"
  using assms unfolding writes_events_def commits_def db_ok_def by fastforce

lemma db_ok_execute:
  assumes ok: "db_ok env db" and wf: "parses_well env" and x: "execute env ids now input db = (db', out)"
  shows "db_ok env db'"
proof (rule execute_cases [OF db_okD(1) [OF ok] x])
  assume "db' = db"
  then show ?thesis using ok by simp
next
  fix v c hash res
  assume p: "env_parse env input = Inr (v, c)"
    and new: "receiptRow (db_receipts db) (cmd_idempotencyKey c) = None"
    and w: "writes_rejection env ids now c hash db db' res \<or> writes_events env ids now c hash db db' res"
  from w show ?thesis
  proof
    assume "writes_rejection env ids now c hash db db' res"
    then show ?thesis
      using ok new by (auto simp: writes_rejection_def db_ok_def receiptRow_None)
  next
    assume e: "writes_events env ids now c hash db db' res"
    have "command_wf (cmd_body c)" using wf p by (auto simp: parses_well_def)
    then have "reachable (env_sha env) (db_projection db')"
      using writes_events_commits [OF ok e] db_okD(4) [OF ok] by (auto intro: reachable_commit)
    moreover have "replayEvents (env_sha env) (db_events db') = Inr (db_projection db')"
      using e db_okD(3) [OF ok] by (auto simp: writes_events_def replayEvents_def try_fold_append_Inr)
    ultimately show ?thesis
      using e new db_okD(2) [OF ok] by (auto simp: writes_events_def db_ok_def receiptRow_None)
  qed
qed

lemma kernel_reachable_ok: "kernel_reachable env db \<Longrightarrow> parses_well env \<Longrightarrow> db_ok env db"
  by (induction rule: kernel_reachable.induct) (auto intro: db_ok_empty db_ok_execute)

end
