(* ===== verification/KernelProperties.thy ===== *)
theory KernelProperties
  imports KernelFacts Scenario
begin

text \<open>
  What \<open>SqliteKernel.execute\<close> guarantees, on every database the kernel can reach from an
  empty one: the log and the receipts only grow, the projection is the replay of the log,
  commands are idempotent, and nothing is written unless everything is.
\<close>

section \<open>A demonstration kernel\<close>

definition demo_parse :: "jsval \<Rightarrow> nat + (jsval \<times> Command)" where
  "demo_parse v =
     (if v = JString ''k1'' then Inr (v, demo_command ''k1'' (Cmd_program_create ''p1'' ''p''))
      else if v = JString ''k2'' then Inr (v, demo_command ''k2'' (Cmd_program_create ''p1'' ''q''))
      else if v = JString ''k3'' then Inr (v, demo_command ''k1'' (Cmd_program_create ''p2'' ''p''))
      else Inl 1)"

text \<open>Two environments: one without faults, one that fails after the events are appended.\<close>

definition demo_env :: Env where
  "demo_env = \<lparr>env_sha = (\<lambda>s. s), env_parse = demo_parse, env_valid = (\<lambda>_. True), env_fault = (\<lambda>_. None)\<rparr>"

definition demo_faulty_env :: Env where
  "demo_faulty_env = demo_env
     \<lparr>env_fault := (\<lambda>p. if p = After_events_appended then Some ''injected'' else None)\<rparr>"

definition demo_ids :: "string \<Rightarrow> nat \<Rightarrow> uuid" where
  "demo_ids tag n = replicate n CHR ''-'' @ tag"

definition demo_db :: Db where
  "demo_db = fst (execute demo_env (demo_ids ''1'') 0 (JString ''k1'') emptyDb)"

definition demo_db2 :: Db where
  "demo_db2 = fst (execute demo_env (demo_ids ''2'') 5 (JString ''k2'') demo_db)"

lemma demo_digest [simp]: "canonicalDigest f (JString s) = Inr (f (quote s))"
  by (simp add: canonicalDigest_def canonicalJson_def)

lemma demo_parses_well: "parses_well demo_env" "parses_well demo_faulty_env"
  by (auto simp: parses_well_def demo_faulty_env_def demo_env_def demo_parse_def demo_command_def
      split: if_splits)

lemmas demo_kernel_defs = execute_def transact_def commit_decision_def commit_accepted_def
  record_result_def storeReceipt_def receiptRow_def appendInputs_def append_input_def
  stored_event_def input_version_def appendEvent_def streamVersion_def next_position_def
  same_stream_def fault_at_def command_receipt_def writeProjectionState_def table_violation_def
  programs_table_def workflows_table_def source_revisions_table_def runs_table_def
  jobs_table_def job_dependencies_table_def attempts_table_def outbox_table_def
  artifact_manifests_table_def verifications_table_def driver_receipts_table_def
  approval_requests_table_def unique_rows_def every_row_def load_event_def workflow_digest_ok_def
  replayEvents_def eventSummary_def emptyDb_def demo_env_def demo_parse_def demo_ids_def
  decide_def decide_program_create_def demo_command_def event_def evolve_def mhas_def mvalues_def
  emptyProjectionState_def failure_def Let_def

declare demo_kernel_defs [simp]
lemmas demo_db_eq = demo_db_def [simplified]
lemmas demo_db2_eq = demo_db2_def [unfolded demo_db_eq, simplified]
declare demo_kernel_defs [simp del]

lemma demo_execute:
  "execute demo_env (demo_ids ''1'') 0 (JString ''k1'') emptyDb =
     (demo_db, Inr (rcp_result (hd (db_receipts demo_db))))"
  "execute demo_env (demo_ids ''2'') 5 (JString ''k2'') demo_db =
     (demo_db2, Inr (rcp_result (last (db_receipts demo_db2))))"
  by (simp_all add: demo_db_eq demo_db2_eq demo_kernel_defs)

lemma demo_db_reachable:
  "kernel_reachable demo_env demo_db" "kernel_reachable demo_env demo_db2"
  using demo_execute kernel_open kernel_execute by metis+

section \<open>The steps of a kernel\<close>

definition kernel_step :: "Env \<Rightarrow> Db \<Rightarrow> Db \<Rightarrow> bool" where
  "kernel_step env db db' \<longleftrightarrow> (\<exists>ids now input out. execute env ids now input db = (db', out))"

lemma demo_step: "(kernel_step demo_env)\<^sup>*\<^sup>* demo_db demo_db2"
  unfolding kernel_step_def by (rule r_into_rtranclp) (intro exI, rule demo_execute(2))

text \<open>What one execution adds to the log and to the receipts.\<close>

lemma execute_adds:
  assumes "db_ok env db" and "execute env ids now input db = (db', out)"
  shows "\<exists>rows rs. db_events db' = db_events db @ rows \<and> db_receipts db' = db_receipts db @ rs \<and>
     length rs \<le> 1 \<and> (rows \<noteq> [] \<longrightarrow> rs \<noteq> []) \<and> (\<forall>e\<in>set rows. \<forall>r\<in>set rs. se_commandId e = rcp_commandId r \<and> rcp_accepted r)"
  by (rule execute_cases [OF db_okD(1) [OF assms(1)] assms(2)])
    (auto simp: writes_rejection_def writes_events_def command_receipt_def)

lemma step_extends:
  assumes "db_ok env db" and "kernel_step env db db'"
  shows "\<exists>rows rs. db_events db' = db_events db @ rows \<and> db_receipts db' = db_receipts db @ rs"
  using execute_adds [OF assms(1)] assms(2) unfolding kernel_step_def by blast

lemma steps_ok:
  assumes "(kernel_step env)\<^sup>*\<^sup>* db db'" and "db_ok env db" and "parses_well env"
  shows "db_ok env db'"
  using assms by (induction rule: rtranclp_induct) (auto simp: kernel_step_def intro: db_ok_execute)

lemma steps_extend:
  assumes "(kernel_step env)\<^sup>*\<^sup>* db db'" and "db_ok env db" and "parses_well env"
  shows "\<exists>rows rs. db_events db' = db_events db @ rows \<and> db_receipts db' = db_receipts db @ rs"
  using assms
proof (induction rule: rtranclp_induct)
  case (step y z)
  then show ?case using step_extends [OF steps_ok [OF step.hyps(1) step.prems] step.hyps(2)] by fastforce
qed simp

section \<open>The log\<close>

text \<open>
  The projection is never ahead of or behind the log: it is exactly the replay of the
  stored events from the empty state, and it is a projection of the run lifecycle.
\<close>

theorem projection_is_replay:
  assumes "kernel_reachable env db" and "parses_well env"
  shows "replayEvents (env_sha env) (db_events db) = Inr (db_projection db) \<and>
     reachable (env_sha env) (db_projection db)"
  using db_okD(3,4) [OF kernel_reachable_ok [OF assms]] by simp

theorem projection_is_replay_witness:
  "replayEvents (env_sha demo_env) (db_events demo_db) = Inr (db_projection demo_db)"
  using projection_is_replay [OF demo_db_reachable(1) demo_parses_well(1)] by simp

text \<open>
  C23. The log has no gaps: the global positions are 1, 2, and so on in the order of the
  rows, the versions of every stream are 1, 2, and so on, and no event identifier repeats.
\<close>

theorem log_has_no_gaps:
  assumes "kernel_reachable env db" and "parses_well env"
  shows "map se_globalPosition (db_events db) = [1..<Suc (length (db_events db))] \<and>
     map se_streamVersion (filter (same_stream ty i) (db_events db)) =
       [1..<Suc (length (filter (same_stream ty i) (db_events db)))] \<and>
     distinct (map se_eventId (db_events db))"
  using db_okD(1) [OF kernel_reachable_ok [OF assms]] by (simp add: log_ok_def gapless_def)

theorem log_has_no_gaps_witness: "map se_globalPosition (db_events demo_db) = [1]"
  using log_has_no_gaps [OF demo_db_reachable(1) demo_parses_well(1)] by (simp add: demo_db_eq)

text \<open>
  History is append-only: whatever is executed afterwards, the events and receipts of
  an earlier database are a prefix of those of a later one.
\<close>

theorem history_is_append_only:
  assumes "kernel_reachable env db" and "parses_well env" and "(kernel_step env)\<^sup>*\<^sup>* db db'"
  shows "take (length (db_events db)) (db_events db') = db_events db \<and>
     take (length (db_receipts db)) (db_receipts db') = db_receipts db"
  using steps_extend [OF assms(3) kernel_reachable_ok [OF assms(1,2)] assms(2)] by auto

theorem history_is_append_only_witness:
  "take (length (db_receipts demo_db)) (db_receipts demo_db2) = db_receipts demo_db"
  using history_is_append_only [OF demo_db_reachable(1) demo_parses_well(1) demo_step] by simp

text \<open>
  Every stored event was written by an accepted command: its command identifier is that
  of a receipt marked as accepted.
\<close>

theorem events_have_accepted_receipts:
  assumes "kernel_reachable env db" and "parses_well env" and "e \<in> set (db_events db)"
  shows "\<exists>r\<in>set (db_receipts db). rcp_commandId r = se_commandId e \<and> rcp_accepted r"
  using assms
proof (induction arbitrary: e rule: kernel_reachable.induct)
  case (kernel_execute db ids now input db' out)
  obtain rows rs where new: "db_events db' = db_events db @ rows" "db_receipts db' = db_receipts db @ rs"
    "rows \<noteq> [] \<longrightarrow> rs \<noteq> []" "\<forall>x\<in>set rows. \<forall>r\<in>set rs. se_commandId x = rcp_commandId r \<and> rcp_accepted r"
    using execute_adds [OF kernel_reachable_ok [OF kernel_execute.hyps(1) kernel_execute.prems(1)]
        kernel_execute.hyps(2)] by blast
  show ?case
  proof (cases "e \<in> set rows")
    case True
    then obtain r where "r \<in> set rs" using new(3) by (cases rs) auto
    then show ?thesis using new True by (intro bexI [of _ r]) auto
  next
    case False
    then show ?thesis using kernel_execute.IH [of e] kernel_execute.prems new by auto
  qed
qed (simp add: emptyDb_def)

theorem events_have_accepted_receipts_witness:
  "\<exists>r\<in>set (db_receipts demo_db). rcp_commandId r = ''1'' \<and> rcp_accepted r"
  using events_have_accepted_receipts [OF demo_db_reachable(1) demo_parses_well(1),
      of "hd (db_events demo_db)"]
  by (simp add: demo_db_eq)

section \<open>Idempotency\<close>

lemma receiptRow_prefix: "receiptRow rs key = Some r \<Longrightarrow> receiptRow (rs @ rs') key = Some r"
  by (induction rs) (auto simp: receiptRow_def split: if_splits)

lemma receiptRow_snoc:
  "receiptRow rs (rcp_idempotencyKey r) = None \<Longrightarrow> receiptRow (rs @ [r]) (rcp_idempotencyKey r) = Some r"
  by (induction rs) (auto simp: receiptRow_def split: if_splits)

lemma receiptRow_unique:
  "r \<in> set rs \<Longrightarrow> distinct (map rcp_idempotencyKey rs) \<Longrightarrow> receiptRow rs (rcp_idempotencyKey r) = Some r"
  by (induction rs) (auto simp: receiptRow_def)

lemma execute_receipted:
  assumes "env_parse env input = Inr (v, c)" and "canonicalDigest (env_sha env) v = Inr hash"
    and "receiptRow (db_receipts db) (cmd_idempotencyKey c) = Some r"
  shows "execute env ids now input db = (db, Inr (if rcp_requestHash r \<noteq> hash
     then Failed (Some (ids 0)) (Some (cmd_idempotencyKey c)) False CE_conflict
     else as_replayed (rcp_result r)))"
  using assms by (simp add: execute_def transact_def)

text \<open>A command that ran to its end left its receipt.\<close>

lemma executed_receipt:
  assumes ok: "db_ok env db" and p: "env_parse env input = Inr (v, c)"
    and h: "canonicalDigest (env_sha env) v = Inr hash"
    and new: "receiptRow (db_receipts db) (cmd_idempotencyKey c) = None"
    and x: "execute env ids now input db = (db1, Inr res)"
  shows "receiptRow (db_receipts db1) (cmd_idempotencyKey c) = Some (command_receipt c (ids 0) hash res now)"
proof -
  obtain db2 res2 where d: "commit_decision env ids now c hash db = Inr (db2, res2)" "db1 = db2" "res = res2"
    using x p h new by (auto simp: execute_def transact_def split: sum.splits)
  have "writes_rejection env ids now c hash db db1 res \<or> writes_events env ids now c hash db db1 res"
    using commit_decision_Inr [OF db_okD(1) [OF ok] d(1)] d(2,3) by simp
  then have "db_receipts db1 = db_receipts db @ [command_receipt c (ids 0) hash res now]"
    by (auto simp: writes_rejection_def writes_events_def)
  then show ?thesis
    using receiptRow_snoc [of "db_receipts db" "command_receipt c (ids 0) hash res now"] new by simp
qed

text \<open>
  C7. Commands are idempotent: once a new command has returned a result, repeating the same
  input at any later time, after any other commands, returns that result marked as a replay
  and changes nothing, also when the first result was a rejection.
\<close>

theorem repeated_command_replays:
  assumes "kernel_reachable env db" and "parses_well env"
    and "env_parse env input = Inr (v, c)"
    and "receiptRow (db_receipts db) (cmd_idempotencyKey c) = None"
    and "execute env ids now input db = (db1, Inr res)"
    and "(kernel_step env)\<^sup>*\<^sup>* db1 db2"
  shows "execute env ids' now' input db2 = (db2, Inr (as_replayed res))"
proof -
  note ok = kernel_reachable_ok [OF assms(1,2)]
  obtain hash where h: "canonicalDigest (env_sha env) v = Inr hash"
    using assms(3,5) by (auto simp: execute_def split: sum.splits)
  note r = executed_receipt [OF ok assms(3) h assms(4,5)]
  obtain rs where "db_receipts db2 = db_receipts db1 @ rs"
    using steps_extend [OF assms(6) db_ok_execute [OF ok assms(2,5)] assms(2)] by blast
  then have "receiptRow (db_receipts db2) (cmd_idempotencyKey c) =
      Some (command_receipt c (ids 0) hash res now)"
    using receiptRow_prefix [OF r] by simp
  from execute_receipted [OF assms(3) h this] show ?thesis by simp
qed

theorem repeated_command_replays_witness:
  "execute demo_env (demo_ids ''9'') 99 (JString ''k1'') demo_db2 =
     (demo_db2, Inr (as_replayed (rcp_result (hd (db_receipts demo_db)))))"
  by (rule repeated_command_replays [OF kernel_open demo_parses_well(1) _ _ demo_execute(1) demo_step])
    (simp_all add: demo_kernel_defs)

text \<open>
  Reusing a key for other input is refused without touching the database: the result is
  \<open>IDEMPOTENCY_CONFLICT\<close> and the log, the receipts and the projection stay as they are.
\<close>

theorem reused_key_conflicts:
  assumes "env_parse env input = Inr (v, c)" and "canonicalDigest (env_sha env) v = Inr hash"
    and "r \<in> set (db_receipts db)" and "rcp_idempotencyKey r = cmd_idempotencyKey c"
    and "distinct (map rcp_idempotencyKey (db_receipts db))" and "rcp_requestHash r \<noteq> hash"
  shows "execute env ids now input db =
     (db, Inr (Failed (Some (ids 0)) (Some (cmd_idempotencyKey c)) False CE_conflict))"
proof -
  have "receiptRow (db_receipts db) (cmd_idempotencyKey c) = Some r"
    using receiptRow_unique [OF assms(3,5)] assms(4) by simp
  from execute_receipted [OF assms(1,2) this] show ?thesis using assms(6) by simp
qed

theorem reused_key_conflicts_witness:
  "execute demo_env (demo_ids ''3'') 7 (JString ''k3'') demo_db =
     (demo_db, Inr (Failed (Some ''3'') (Some ''k1'') False CE_conflict))"
proof -
  have "quote ''k1'' \<noteq> quote ''k3''" by code_simp
  then show ?thesis
    using reused_key_conflicts [of demo_env "JString ''k3''" "JString ''k3''"
        "demo_command ''k1'' (Cmd_program_create ''p2'' ''p'')" "quote ''k3''" "hd (db_receipts demo_db)"
        demo_db "demo_ids ''3''" 7]
    by (simp add: demo_db_eq demo_kernel_defs)
qed

section \<open>All or nothing\<close>

text \<open>
  C8. A command that does not succeed writes no event: when the result is a rejection of any
  kind, or when an exception leaves \<open>execute\<close> (a thrown error, a violated constraint or an
  injected fault, at whatever point of the transaction), log and projection are unchanged;
  after an exception the receipts are unchanged too.
\<close>

theorem failure_writes_nothing:
  assumes "kernel_reachable env db" and "parses_well env"
    and "execute env ids now input db = (db', out)" and "\<forall>res. out = Inr res \<longrightarrow> \<not> cr_ok res"
  shows "db_events db' = db_events db \<and> db_projection db' = db_projection db \<and>
     (\<forall>x. out = Inl x \<longrightarrow> db' = db)"
  by (rule execute_cases [OF db_okD(1) [OF kernel_reachable_ok [OF assms(1,2)]] assms(3)])
    (use assms(4) in \<open>auto simp: writes_rejection_def writes_events_def\<close>)

theorem failure_writes_nothing_witness:
  "fst (execute demo_faulty_env (demo_ids ''1'') 0 (JString ''k1'') emptyDb) = emptyDb"
proof -
  have "execute demo_faulty_env (demo_ids ''1'') 0 (JString ''k1'') emptyDb = (emptyDb, Inl ''injected'')"
    by (simp add: demo_faulty_env_def demo_kernel_defs)
  then show ?thesis
    using failure_writes_nothing [OF kernel_open demo_parses_well(2)] by fastforce
qed

text \<open>
  A success reports what it wrote: the events of the result are exactly the appended
  rows, the returned entity is read from the committed projection, and the receipt stores
  this result under the command's key.
\<close>

theorem success_reports_its_writes:
  assumes "kernel_reachable env db" and "parses_well env" and "env_parse env input = Inr (v, c)"
    and "receiptRow (db_receipts db) (cmd_idempotencyKey c) = None"
    and "execute env ids now input db = (db', Inr res)" and "cr_ok res"
  shows "\<exists>rows kind i entity. db_events db' = db_events db @ rows \<and>
     res = Succeeded (ids 0) (cmd_idempotencyKey c) False (map eventSummary rows) entity \<and>
     getStateEntity (db_projection db') kind i = Some entity \<and>
     map_option rcp_result (receiptRow (db_receipts db') (cmd_idempotencyKey c)) = Some res"
proof -
  note ok = kernel_reachable_ok [OF assms(1,2)]
  obtain hash where h: "canonicalDigest (env_sha env) v = Inr hash"
    using assms(3,5) by (auto simp: execute_def split: sum.splits)
  obtain db2 res2 where d: "commit_decision env ids now c hash db = Inr (db2, res2)" "db' = db2" "res = res2"
    using assms(3-5) h by (auto simp: execute_def transact_def split: sum.splits)
  have "writes_events env ids now c hash db db' res"
    using commit_decision_Inr [OF db_okD(1) [OF ok] d(1)] d(2,3) assms(6)
    by (auto simp: writes_rejection_def)
  moreover have "map_option rcp_result (receiptRow (db_receipts db') (cmd_idempotencyKey c)) = Some res"
    using executed_receipt [OF ok assms(3) h assms(4,5)] by simp
  ultimately show ?thesis unfolding writes_events_def by fastforce
qed

theorem success_reports_its_writes_witness:
  "map_option rcp_result (receiptRow (db_receipts demo_db) ''k1'') =
     Some (rcp_result (hd (db_receipts demo_db)))"
proof -
  have "env_parse demo_env (JString ''k1'') =
      Inr (JString ''k1'', demo_command ''k1'' (Cmd_program_create ''p1'' ''p''))"
    by (simp add: demo_kernel_defs)
  from success_reports_its_writes [OF kernel_open demo_parses_well(1) this _ demo_execute(1)]
  show ?thesis by (auto simp: demo_kernel_defs demo_db_eq)
qed

text \<open>
  The kernel refines the projection's transition system: an execution leaves the
  projection as it is, or takes it from a reachable projection to the next one by a commit
  of a decision on exactly that projection.
\<close>

theorem execution_refines_projection:
  assumes "kernel_reachable env db" and "parses_well env" and "execute env ids now input db = (db', out)"
  shows "reachable (env_sha env) (db_projection db) \<and>
     (db_projection db' = db_projection db \<or>
      (\<exists>c. commits (env_sha env) (db_projection db) c now (db_projection db')))"
proof -
  note ok = kernel_reachable_ok [OF assms(1,2)]
  note r = db_okD(4) [OF ok]
  show ?thesis
  proof (rule execute_cases [OF db_okD(1) [OF ok] assms(3)])
    fix v c hash res
    assume "writes_rejection env ids now c hash db db' res \<or> writes_events env ids now c hash db db' res"
    then show ?thesis
      using r writes_events_commits [OF ok, of ids now c hash db' res]
      by (auto simp: writes_rejection_def)
  qed (use r in simp)
qed

theorem execution_refines_projection_witness:
  "\<exists>c. commits (env_sha demo_env) (db_projection emptyDb) c 0 (db_projection demo_db)"
  using execution_refines_projection [OF kernel_open demo_parses_well(1) demo_execute(1)]
  by (auto simp: demo_db_eq emptyDb_def emptyProjectionState_def)

end
