(* ===== verification/PlanEvolve.thy ===== *)
theory PlanEvolve
  imports PortfolioEvolve Transitions
begin

text \<open>
  The state of the program component and the cases of \<open>evolve\<close> (model.ts) for its events, one
  function per event type; \<open>v\<close> is the event's stream version and \<open>at\<close> its time.
\<close>

section \<open>The state\<close>

record Plan =
  pl_programs :: "(uuid, ProgramEntity) jsmap"
  pl_milestones :: "(uuid, MilestoneEntity) jsmap"
  pl_outcomePackets :: "(uuid, OutcomePacketEntity) jsmap"
  pl_interviews :: "(uuid, InterviewState) jsmap"
  pl_graphs :: "(uuid, GraphEntity) jsmap"
  pl_generations :: "(uuid, GenerationState) jsmap"
  pl_validations :: "(uuid, ValidationState) jsmap"
  pl_issues :: "(uuid, IssueState) jsmap"
  pl_spans :: "(uuid, AttentionSpan) jsmap"
  pl_dispositions :: "(uuid, OutcomeDisposition) jsmap"

definition emptyPlan :: Plan where
  "emptyPlan =
     \<lparr>pl_programs = [], pl_milestones = [], pl_outcomePackets = [], pl_interviews = [], pl_graphs = [],
      pl_generations = [], pl_validations = [], pl_issues = [], pl_spans = [], pl_dispositions = []\<rparr>"

section \<open>Programs\<close>

text \<open>What \<open>ProgramCreated\<close> and \<open>ProgramKickedOff\<close> write; they differ in mode, phase and source.\<close>

definition new_program ::
    "uuid \<Rightarrow> string \<Rightarrow> string \<Rightarrow> string \<Rightarrow> (uuid \<times> digest) option \<Rightarrow> nat \<Rightarrow> timestamp \<Rightarrow> ProgramEntity" where
  "new_program i name mode phase source v at =
     \<lparr>prog_programId = i, prog_name = name, prog_programMode = mode, prog_phase = phase,
      prog_createdAt = at, prog_version = v, gp_executionRequestId = None,
      gp_executionRequestedAt = None, gp_executionPolicy = None,
      gp_initialSourceRevisionId = map_option fst source, gp_activeGraphRevisionId = None,
      gp_startedAt = None, pge_intent = None, pge_intentDigest = None, pge_approvedBy = None,
      pge_approvedAt = None, pge_resumePhase = None, pge_attentionPriority = ''p2'',
      pge_initialSourceRevisionDigest = map_option snd source, pge_activeGraphDigest = None\<rparr>"

definition put_program :: "ProgramEntity \<Rightarrow> Plan \<Rightarrow> Plan" where
  "put_program p pl = pl\<lparr>pl_programs := mput (prog_programId p) p (pl_programs pl)\<rparr>"

text \<open>A change of a program that must exist, which also sets its version.\<close>

definition on_program ::
    "uuid \<Rightarrow> nat \<Rightarrow> (ProgramEntity \<Rightarrow> ProgramEntity) \<Rightarrow> Plan \<Rightarrow> Plan result" where
  "on_program i v f pl = found (pl_programs pl) i (''Missing program '' @ i)
     (\<lambda>p. Inr (put_program (f (p\<lparr>prog_version := v\<rparr>)) pl))"

definition program_phase :: "string \<Rightarrow> ProgramEntity \<Rightarrow> ProgramEntity" where
  "program_phase phase p = p\<lparr>prog_phase := phase\<rparr>"

definition graph_approved :: "Graph \<Rightarrow> digest \<Rightarrow> string \<Rightarrow> timestamp \<Rightarrow> ProgramEntity \<Rightarrow> ProgramEntity" where
  "graph_approved g d by at p = p\<lparr>
     prog_programMode := (case g of Graph_v1 _ \<Rightarrow> prog_programMode p | Graph_v2 _ \<Rightarrow> ''graph_v2''),
     prog_phase := (if prog_phase p = ''running'' then ''running'' else ''approved''),
     gp_activeGraphRevisionId := Some (gr_graphRevisionId (graph_base g)),
     pge_activeGraphDigest := Some d, pge_approvedBy := Some by, pge_approvedAt := Some at\<rparr>"

definition program_started_at :: "uuid \<Rightarrow> digest \<Rightarrow> timestamp \<Rightarrow> ProgramEntity \<Rightarrow> ProgramEntity" where
  "program_started_at g d at p = p\<lparr>prog_phase := ''running'', gp_activeGraphRevisionId := Some g,
     pge_activeGraphDigest := Some d, gp_startedAt := Some at\<rparr>"

definition execution_requested :: "uuid \<Rightarrow> JobPolicy \<Rightarrow> timestamp \<Rightarrow> ProgramEntity \<Rightarrow> ProgramEntity" where
  "execution_requested request policy at p = p\<lparr>prog_programMode := ''graph_v2'',
     prog_phase := ''eligible'', pge_resumePhase := None, gp_executionRequestId := Some request,
     gp_executionRequestedAt := Some at, gp_executionPolicy := Some policy\<rparr>"

definition program_parked :: "ProgramEntity \<Rightarrow> ProgramEntity" where
  "program_parked p = p\<lparr>prog_phase := ''parked'', pge_resumePhase :=
     (if prog_programMode p \<noteq> ''graph_v2'' then None
      else if prog_phase p = ''running'' then Some ''eligible''
      else if prog_phase p = ''eligible'' \<or> prog_phase p = ''integration_pending'' then Some (prog_phase p)
      else None)\<rparr>"

definition program_resumed :: "ProgramEntity \<Rightarrow> ProgramEntity" where
  "program_resumed p = p\<lparr>prog_phase :=
     (if prog_programMode p = ''graph_v2''
      then (case pge_resumePhase p of None \<Rightarrow> ''eligible'' | Some phase \<Rightarrow> phase)
      else ''running''), pge_resumePhase := None\<rparr>"

definition program_approved :: "ProgramIntent \<Rightarrow> digest \<Rightarrow> string \<Rightarrow> timestamp \<Rightarrow> ProgramEntity \<Rightarrow> ProgramEntity" where
  "program_approved n d by at p = p\<lparr>pge_intent := Some n, pge_intentDigest := Some d,
     pge_approvedBy := Some by, pge_approvedAt := Some at\<rparr>"

section \<open>Interviews and graphs\<close>

definition apply_interview_captured ::
    "(string \<Rightarrow> string) \<Rightarrow> nat \<Rightarrow> timestamp \<Rightarrow> Interview \<Rightarrow> Plan \<Rightarrow> Plan result" where
  "apply_interview_captured sha v at n pl =
     (if digest_of sha (enc_transcript (ivw_transcript n)) \<noteq> ivw_transcriptDigest n \<or>
         digest_of sha (enc_IntentPlayback (ivw_playback n)) \<noteq> ivw_playbackDigest n
      then Inl ''Program interview event digest does not match its content''
      else Inr (pl\<lparr>pl_interviews := mput (ivw_interviewId n)
        (Interview.extend n (InterviewState.fields at v)) (pl_interviews pl)\<rparr>))"

definition graph_entity :: "Graph \<Rightarrow> digest \<Rightarrow> string \<Rightarrow> nat \<Rightarrow> timestamp \<Rightarrow> GraphEntity" where
  "graph_entity g d by v at = (let b = graph_base g in
     \<lparr>gs_graphRevisionId = gr_graphRevisionId b, gs_programId = gr_programId b, gs_graph = g,
      gs_graphDigest = d, gre_priorGraphRevisionId = map_option ref_id (gr_priorGraphRef b),
      gre_approvedBy = by, gre_approvedAt = at, gre_supersededAt = None, gre_version = v\<rparr>)"

definition put_graph :: "GraphEntity \<Rightarrow> Plan \<Rightarrow> Plan" where
  "put_graph g pl = pl\<lparr>pl_graphs := mput (gs_graphRevisionId g) g (pl_graphs pl)\<rparr>"

definition apply_graph_approved ::
    "(string \<Rightarrow> string) \<Rightarrow> nat \<Rightarrow> timestamp \<Rightarrow> Graph \<Rightarrow> digest \<Rightarrow> string \<Rightarrow> Plan \<Rightarrow> Plan result" where
  "apply_graph_approved sha v at g d by pl =
     check_digest sha (enc_Graph g) d ''Program graph event digest does not match its content''
       (map_sum id (put_graph (graph_entity g d by v at))
          (on_program (gr_programId (graph_base g)) v (graph_approved g d by at) pl))"

definition apply_graph_superseded :: "nat \<Rightarrow> timestamp \<Rightarrow> uuid \<Rightarrow> Plan \<Rightarrow> Plan result" where
  "apply_graph_superseded v at i pl = found (pl_graphs pl) i (''Missing graph '' @ i)
     (\<lambda>g. Inr (put_graph (g\<lparr>gre_supersededAt := Some at, gre_version := v\<rparr>) pl))"

section \<open>Milestones and generations\<close>

definition approved_milestone :: "MilestoneApproval \<Rightarrow> nat \<Rightarrow> timestamp \<Rightarrow> MilestoneEntity" where
  "approved_milestone a v at =
     \<lparr>mst_milestoneId = mla_milestoneId a, mst_status = M_approved, mst_generation = Some 0,
      mst_latestValidatedOutcomePacketId = None, mle_approval = a, mle_activeGenerationId = None,
      mle_runId = None, mle_jobId = None, mle_baseRevisionId = None, mle_outcomePacketId = None,
      mle_recommendation = None, mle_pauseReason = None, mle_approvedAt = at, mle_startedAt = None,
      mle_completedAt = None, mle_version = v\<rparr>"

definition put_milestone :: "MilestoneEntity \<Rightarrow> Plan \<Rightarrow> Plan" where
  "put_milestone m pl = pl\<lparr>pl_milestones := mput (mst_milestoneId m) m (pl_milestones pl)\<rparr>"

definition put_generation :: "GenerationState \<Rightarrow> Plan \<Rightarrow> Plan" where
  "put_generation g pl = pl\<lparr>pl_generations := mput (gen_generationId g) g (pl_generations pl)\<rparr>"

definition on_milestone :: "uuid \<Rightarrow> (MilestoneEntity \<Rightarrow> MilestoneEntity) \<Rightarrow> Plan \<Rightarrow> Plan result" where
  "on_milestone i f pl = found (pl_milestones pl) i (''Missing milestone '' @ i)
     (\<lambda>m. Inr (put_milestone (f m) pl))"

definition apply_milestone_approved ::
    "(string \<Rightarrow> string) \<Rightarrow> nat \<Rightarrow> timestamp \<Rightarrow> MilestoneApproval \<Rightarrow> Plan \<Rightarrow> Plan result" where
  "apply_milestone_approved sha v at a pl =
     check_digest sha (enc_MilestoneContract (mla_contract a)) (mla_contractDigest a)
       ''Milestone contract event digest does not match its content''
       (Inr (put_milestone (approved_milestone a v at) pl))"

definition started_generation :: "Generation \<Rightarrow> nat \<Rightarrow> GenerationState" where
  "started_generation n v = Generation.extend n (GenerationState.fields Gen_running None None None v)"

definition milestone_running :: "Generation \<Rightarrow> nat \<Rightarrow> MilestoneEntity \<Rightarrow> MilestoneEntity" where
  "milestone_running n v m = m\<lparr>mst_status := M_running, mst_generation := Some (gen_generation n),
     mle_activeGenerationId := Some (gen_generationId n), mle_runId := Some (gen_runId n),
     mle_jobId := Some (gen_jobId n), mle_baseRevisionId := Some (gen_baseRevisionId n),
     mle_outcomePacketId := None, mle_recommendation := None, mle_pauseReason := None,
     mle_startedAt := Some (gen_startedAt n), mle_completedAt := None, mle_version := v\<rparr>"

definition apply_generation_started :: "nat \<Rightarrow> Generation \<Rightarrow> Plan \<Rightarrow> Plan result" where
  "apply_generation_started v n pl =
     on_milestone (gen_milestoneId n) (milestone_running n v) (put_generation (started_generation n v) pl)"

definition milestone_started :: "uuid \<Rightarrow> uuid \<Rightarrow> uuid \<Rightarrow> timestamp \<Rightarrow> nat \<Rightarrow> MilestoneEntity \<Rightarrow> MilestoneEntity" where
  "milestone_started run job base at v m = m\<lparr>mst_status := M_running, mle_runId := Some run,
     mle_jobId := Some job, mle_baseRevisionId := Some base, mle_startedAt := Some at, mle_version := v\<rparr>"

definition milestone_outcome :: "uuid \<Rightarrow> Recommendation \<Rightarrow> timestamp \<Rightarrow> nat \<Rightarrow> MilestoneEntity \<Rightarrow> MilestoneEntity" where
  "milestone_outcome packet r at v m = m\<lparr>
     mst_status := (if truthy (mle_pauseReason m) = None then M_outcome_ready else M_paused),
     mle_activeGenerationId := None, mle_outcomePacketId := Some packet, mle_recommendation := Some r,
     mle_completedAt := Some at, mle_version := v\<rparr>"

definition generation_outcome :: "uuid \<Rightarrow> Recommendation \<Rightarrow> timestamp \<Rightarrow> nat \<Rightarrow> GenerationState \<Rightarrow> GenerationState" where
  "generation_outcome packet r at v g = g\<lparr>
     gen_status := (if gen_status g = Gen_paused then Gen_paused else Gen_outcome_ready),
     gen_outcomePacketId := Some packet, gen_recommendation := Some r,
     gen_completedAt := Some at, gen_version := v\<rparr>"

section \<open>Outcomes\<close>

definition apply_packet_recorded ::
    "(string \<Rightarrow> string) \<Rightarrow> nat \<Rightarrow> timestamp \<Rightarrow> OutcomePacket \<Rightarrow> digest \<Rightarrow> Plan \<Rightarrow> Plan result" where
  "apply_packet_recorded sha v at p d pl =
     check_digest sha (enc_OutcomePacket p) d ''Outcome packet event digest does not match its content''
       (Inr (pl\<lparr>pl_outcomePackets := mput (opk_outcomePacketId p)
          \<lparr>ope_packet = p, ope_packetDigest = d, ope_recordedAt = at, ope_version = v\<rparr> (pl_outcomePackets pl)\<rparr>))"

definition validated :: "uuid \<Rightarrow> MilestoneEntity \<Rightarrow> MilestoneEntity" where
  "validated packet m = m\<lparr>mst_latestValidatedOutcomePacketId := Some packet\<rparr>"

definition apply_validation_recorded ::
    "(string \<Rightarrow> string) \<Rightarrow> nat \<Rightarrow> ValidationRecord \<Rightarrow> digest \<Rightarrow> Plan \<Rightarrow> Plan result" where
  "apply_validation_recorded sha v n d pl =
     check_digest sha (enc_ValidationRecord n) d ''Outcome validation event digest does not match its content''
       (on_milestone (ov_milestoneId n) (validated (ov_outcomePacketId n))
          (pl\<lparr>pl_validations := mput (ov_validationId n)
             \<lparr>vds_validation = n, vds_validationDigest = d, vds_version = v\<rparr> (pl_validations pl)\<rparr>))"

section \<open>Issues\<close>

definition put_issue :: "(string \<Rightarrow> string) \<Rightarrow> nat \<Rightarrow> RoutedIssue \<Rightarrow> Plan \<Rightarrow> Plan" where
  "put_issue sha v i pl = pl\<lparr>pl_issues := mput (iss_issueId i)
     \<lparr>ris_issue = i, ris_issueDigest = digest_of sha (enc_RoutedIssue i), ris_version = v\<rparr> (pl_issues pl)\<rparr>"

definition pause_generation :: "uuid option \<Rightarrow> Plan \<Rightarrow> Plan" where
  "pause_generation i pl = (case Option.bind (truthy i) (mget (pl_generations pl)) of
     None \<Rightarrow> pl
   | Some g \<Rightarrow> put_generation (g\<lparr>gen_status := Gen_paused\<rparr>) pl)"

definition pause_milestone :: "uuid \<Rightarrow> Plan \<Rightarrow> uuid \<Rightarrow> Plan result" where
  "pause_milestone issue pl i = found (pl_milestones pl) i (''Missing milestone '' @ i)
     (\<lambda>m. Inr (pause_generation (mle_activeGenerationId m)
        (pl\<lparr>pl_milestones := mput i (m\<lparr>mst_status := M_paused, mle_pauseReason := Some issue\<rparr>)
           (pl_milestones pl)\<rparr>)))"

definition apply_issue_raised ::
    "(string \<Rightarrow> string) \<Rightarrow> nat \<Rightarrow> RoutedIssue \<Rightarrow> digest \<Rightarrow> uuid list \<Rightarrow> Plan \<Rightarrow> Plan result" where
  "apply_issue_raised sha v i d paused pl =
     check_digest sha (enc_RoutedIssue i) d ''Routed issue event digest does not match its content''
       (try_fold (pause_milestone (iss_issueId i)) (put_issue sha v i pl) paused)"

definition resume_milestone :: "Plan \<Rightarrow> uuid \<Rightarrow> Plan result" where
  "resume_milestone pl i = found (pl_milestones pl) i (''Missing milestone '' @ i)
     (\<lambda>m. Inr (pl\<lparr>pl_milestones := mput i (m\<lparr>mst_status := M_approved,
        mle_activeGenerationId := None, mle_pauseReason := None\<rparr>) (pl_milestones pl)\<rparr>))"

definition resolved_issue :: "IssueAction \<Rightarrow> string \<Rightarrow> string \<Rightarrow> timestamp \<Rightarrow> RoutedIssue \<Rightarrow> RoutedIssue" where
  "resolved_issue action text by at i = i\<lparr>
     iss_status := (if action = Action_graph_revision then Issue_requires_graph_revision else Issue_resolved),
     iss_resolution := Some \<lparr>isr_action = action, isr_text = text, isr_resolvedBy = by,
       isr_resolvedAt = at, isr_satisfiedBy = None\<rparr>\<rparr>"

definition apply_issue_resolved ::
    "(string \<Rightarrow> string) \<Rightarrow> nat \<Rightarrow> timestamp \<Rightarrow> uuid \<Rightarrow> IssueAction \<Rightarrow> string \<Rightarrow> string \<Rightarrow> uuid list \<Rightarrow>
       Plan \<Rightarrow> Plan result" where
  "apply_issue_resolved sha v at i action text by resumed pl =
     found (pl_issues pl) i (''Missing routed issue '' @ i)
       (\<lambda>e. try_fold resume_milestone
          (put_issue sha v (resolved_issue action text by at (ris_issue e)) pl) resumed)"

definition apply_issue_satisfied ::
    "(string \<Rightarrow> string) \<Rightarrow> nat \<Rightarrow> uuid \<Rightarrow> uuid \<Rightarrow> uuid \<Rightarrow> Plan \<Rightarrow> Plan result" where
  "apply_issue_satisfied sha v i program graph pl =
     found (pl_issues pl) i (''Missing routed issue '' @ i)
       (\<lambda>e. case iss_resolution (ris_issue e) of
            None \<Rightarrow> Inl ''Graph revision cannot satisfy this routed issue''
          | Some r \<Rightarrow>
              if iss_programId (ris_issue e) \<noteq> program \<or>
                 iss_status (ris_issue e) \<noteq> Issue_requires_graph_revision
              then Inl ''Graph revision cannot satisfy this routed issue''
              else Inr (put_issue sha v ((ris_issue e)\<lparr>iss_status := Issue_resolved,
                iss_resolution := Some (r\<lparr>isr_satisfiedBy := Some graph\<rparr>)\<rparr>) pl))"

section \<open>The dispatch\<close>

fun apply_plan :: "(string \<Rightarrow> string) \<Rightarrow> nat \<Rightarrow> timestamp \<Rightarrow> PlanData \<Rightarrow> Plan \<Rightarrow> Plan result" where
  "apply_plan sha v at (ProgramKickedOff i name source d) pl =
     Inr (put_program (new_program i name ''graph_v1'' ''draft'' (Some (source, d)) v at) pl)"
| "apply_plan sha v at (ProgramInterviewCaptured n) pl = apply_interview_captured sha v at n pl"
| "apply_plan sha v at (ProgramGraphApproved g d by) pl = apply_graph_approved sha v at g d by pl"
| "apply_plan sha v at (ProgramGraphSuperseded i p by) pl = apply_graph_superseded v at i pl"
| "apply_plan sha v at (ProgramStarted i g d by) pl = on_program i v (program_started_at g d at) pl"
| "apply_plan sha v at (ProgramExecutionRequested r i g d policy by) pl =
     on_program i v (execution_requested r policy at) pl"
| "apply_plan sha v at (ProgramIntegrationPending i g d c) pl =
     on_program i v (program_phase ''integration_pending'') pl"
| "apply_plan sha v at (ProgramCompleted i g d) pl = on_program i v (program_phase ''completed'') pl"
| "apply_plan sha v at (ProgramParked i reason by) pl = on_program i v program_parked pl"
| "apply_plan sha v at (ProgramResumed i by) pl = on_program i v program_resumed pl"
| "apply_plan sha v at (ProgramAttentionPriorityChanged i priority by) pl =
     on_program i v (\<lambda>p. p\<lparr>pge_attentionPriority := priority\<rparr>) pl"
| "apply_plan sha v at (ProgramApproved i n d by) pl =
     check_digest sha (enc_ProgramIntent n) d ''Program intent event digest does not match its content''
       (on_program i v (program_approved n d by at) pl)"
| "apply_plan sha v at (MilestoneApproved a) pl = apply_milestone_approved sha v at a pl"
| "apply_plan sha v at (MilestoneGenerationStarted n) pl = apply_generation_started v n pl"
| "apply_plan sha v at (MilestoneRunCreated r m p w n g) pl = Inr pl"
| "apply_plan sha v at (MilestoneStarted i run job base) pl =
     on_milestone i (milestone_started run job base at v) pl"
| "apply_plan sha v at (MilestoneOutcomeReady i run packet r) pl =
     on_milestone i (milestone_outcome packet r at v) pl"
| "apply_plan sha v at (MilestoneGenerationOutcomeReady i packet r) pl =
     found (pl_generations pl) i (''Missing generation '' @ i)
       (\<lambda>g. Inr (put_generation (generation_outcome packet r at v g) pl))"
| "apply_plan sha v at (OutcomePacketRecorded p d) pl = apply_packet_recorded sha v at p d pl"
| "apply_plan sha v at (OutcomeValidationRecorded n d) pl = apply_validation_recorded sha v n d pl"
| "apply_plan sha v at (RoutedIssueRaised i d paused) pl = apply_issue_raised sha v i d paused pl"
| "apply_plan sha v at (RoutedIssueResolved i p action text by resumed) pl =
     apply_issue_resolved sha v at i action text by resumed pl"
| "apply_plan sha v at (RoutedIssueGraphRevisionSatisfied i p g by) pl = apply_issue_satisfied sha v i p g pl"
| "apply_plan sha v at (AttentionSpanStarted n) pl =
     Inr (pl\<lparr>pl_spans := mput (asp_attentionSpanId n) (n\<lparr>asp_version := v\<rparr>) (pl_spans pl)\<rparr>)"
| "apply_plan sha v at (AttentionSpanStopped i p stopped) pl =
     found (pl_spans pl) i (''Missing attention span '' @ i)
       (\<lambda>n. Inr (pl\<lparr>pl_spans := mput (asp_attentionSpanId n) (n\<lparr>asp_stoppedAt := Some stopped, asp_version := v\<rparr>) (pl_spans pl)\<rparr>))"
| "apply_plan sha v at (OutcomeDispositionRecorded n) pl =
     Inr (pl\<lparr>pl_dispositions := mput (od_outcomePacketId n) n (pl_dispositions pl)\<rparr>)"

section \<open>Programs under the events of other components\<close>

text \<open>
  \<open>ProgramCreated\<close>, and the events of the portfolio that also set the phase of a program; the
  end of an admission looks its program up by the admission.
\<close>

definition admission_ended_phase :: "nat \<Rightarrow> Portfolio \<Rightarrow> uuid \<Rightarrow> Plan \<Rightarrow> Plan" where
  "admission_ended_phase v s i pl =
     (case Option.bind (mget (portfolioAdmissions s) i) (\<lambda>a. mget (pl_programs pl) (pa_programId (as_admission a))) of
        None \<Rightarrow> pl
      | Some p \<Rightarrow>
          if prog_programMode p = ''graph_v2'' \<and> prog_phase p = ''running''
          then put_program (p\<lparr>prog_phase := ''eligible'', prog_version := v\<rparr>) pl else pl)"

fun apply_to_plan :: "(string \<Rightarrow> string) \<Rightarrow> nat \<Rightarrow> timestamp \<Rightarrow> Portfolio \<Rightarrow> PortfolioData \<Rightarrow> Plan \<Rightarrow> Plan result" where
  "apply_to_plan sha v at s (Planned d) pl = apply_plan sha v at d pl"
| "apply_to_plan sha v at s (Lifecycle (ProgramCreated i name)) pl =
     Inr (put_program (new_program i name ''legacy_v1'' ''legacy_active'' None v at) pl)"
| "apply_to_plan sha v at s (PortfolioAdmissionGranted a d ls) pl =
     on_program (pa_programId a) v (program_phase ''running'') pl"
| "apply_to_plan sha v at s (PortfolioAdmissionReleased i g t reason released ls) pl =
     Inr (admission_ended_phase v s i pl)"
| "apply_to_plan sha v at s (PortfolioAdmissionFenced i g t reason fenced ls) pl =
     Inr (admission_ended_phase v s i pl)"
| "apply_to_plan sha v at s (IntegrationPromotionRecorded r d) pl =
     on_program (pr_programId r) v (program_phase ''completed'') pl"
| "apply_to_plan sha v at s _ pl = Inr pl"

end
