(* ===== verification/PlanOps.thy ===== *)
theory PlanOps
  imports PlanEvolve PortfolioAdmit WorkflowCheck
begin

text \<open>
  The branches of \<open>decide\<close> (domain.ts) that create programs, capture interviews, approve graphs
  and milestones, and start milestones outside of graphs. They read the run lifecycle (\<open>st\<close>), the
  portfolio (\<open>s\<close>) and the program component (\<open>pl\<close>).
\<close>

section \<open>Events and views\<close>

definition plan_event :: "string \<Rightarrow> uuid \<Rightarrow> PlanData \<Rightarrow> PortfolioInput" where
  "plan_event ty i d = pf_event ty i (Planned d)"

definition lifecycle_event :: "DomainEventInput \<Rightarrow> PortfolioInput" where
  "lifecycle_event e = pf_event (text_StreamType (ev_streamType e)) (ev_streamId e) (Lifecycle (ev_data e))"

definition operator :: "Actor \<Rightarrow> bool" where
  "operator actor \<longleftrightarrow> actor_kind actor = Operator"

definition graph_mode :: "ProgramEntity \<Rightarrow> bool" where
  "graph_mode p \<longleftrightarrow> prog_programMode p = ''graph_v1'' \<or> prog_programMode p = ''graph_v2''"

definition activeGenerationForProgram :: "Plan \<Rightarrow> uuid \<Rightarrow> GenerationState option" where
  "activeGenerationForProgram pl i =
     find (\<lambda>g. gen_programId g = i \<and> gen_status g = Gen_running) (mvalues (pl_generations pl))"

text \<open>The graph a program's \<open>activeGraphRevisionId\<close> names.\<close>

definition active_graph :: "Plan \<Rightarrow> ProgramEntity \<Rightarrow> GraphEntity option" where
  "active_graph pl p = Option.bind (truthy (gp_activeGraphRevisionId p)) (mget (pl_graphs pl))"

section \<open>program.kickoff and interview.capture\<close>

definition decide_kickoff ::
    "Actor \<Rightarrow> ProjectionState \<Rightarrow> Plan \<Rightarrow> uuid \<Rightarrow> string \<Rightarrow> uuid \<Rightarrow> digest \<Rightarrow> portfolio_decision" where
  "decide_kickoff actor st pl i name source d =
     (if \<not> operator actor then reject APPROVAL_REQUIRES_OPERATOR ''Program kickoff requires an operator actor''
      else if mhas (pl_programs pl) i then reject PROGRAM_ALREADY_EXISTS ''Program already exists''
      else (case mget (sourceRevisions st) source of
          None \<Rightarrow> reject SOURCE_REVISION_NOT_FOUND ''Initial source revision does not exist''
        | Some r \<Rightarrow>
            if sr_revisionDigest (srs_revision r) \<noteq> d
            then reject EVIDENCE_DIGEST_MISMATCH ''Initial source revision digest does not match''
            else accept [plan_event ''program'' i (ProgramKickedOff i name source d)] ''program'' i))"

record InterviewCapture =
  icp_interviewId :: uuid
  icp_playbackId :: uuid
  icp_programId :: uuid
  icp_transcript :: "InterviewTurn list"
  icp_answers :: InterviewAnswers

definition captured_interview :: "(string \<Rightarrow> string) \<Rightarrow> InterviewCapture \<Rightarrow> Interview" where
  "captured_interview sha c =
     (let td = digest_of sha (enc_transcript (icp_transcript c));
          p = InterviewAnswers.extend (icp_answers c)
                (IntentPlayback.fields (icp_playbackId c) (icp_interviewId c) (icp_programId c) td) in
      \<lparr>ivw_interviewId = icp_interviewId c, ivw_programId = icp_programId c,
       ivw_transcript = icp_transcript c, ivw_transcriptDigest = td, ivw_playback = p,
       ivw_playbackDigest = digest_of sha (enc_IntentPlayback p)\<rparr>)"

definition has_playback :: "Plan \<Rightarrow> uuid \<Rightarrow> bool" where
  "has_playback pl i = list_ex (\<lambda>n. ip_playbackId (ivw_playback n) = i) (mvalues (pl_interviews pl))"

definition decide_interview_capture ::
    "(string \<Rightarrow> string) \<Rightarrow> Actor \<Rightarrow> Plan \<Rightarrow> InterviewCapture \<Rightarrow> portfolio_decision" where
  "decide_interview_capture sha actor pl c =
     (if \<not> operator actor then reject APPROVAL_REQUIRES_OPERATOR ''Interview capture requires an operator actor''
      else (case mget (pl_programs pl) (icp_programId c) of
          None \<Rightarrow> reject PROGRAM_NOT_FOUND ''Draft graph program does not exist''
        | Some p \<Rightarrow>
            if \<not> graph_mode p then reject PROGRAM_NOT_FOUND ''Draft graph program does not exist''
            else if prog_phase p \<noteq> ''draft''
            then reject PROGRAM_NOT_STARTABLE ''Interview capture is closed after graph approval''
            else if mhas (pl_interviews pl) (icp_interviewId c)
            then reject PROGRAM_NOT_STARTABLE ''Interview identifier already exists''
            else if has_playback pl (icp_playbackId c)
            then reject PROGRAM_NOT_STARTABLE ''Playback identifier already exists''
            else accept [plan_event ''program_interview'' (icp_interviewId c)
                (ProgramInterviewCaptured (captured_interview sha c))] ''program_interview'' (icp_interviewId c)))"

section \<open>program-graph.approve\<close>

definition graph_source_ok :: "ProjectionState \<Rightarrow> ProgramEntity \<Rightarrow> ImmutableReference \<Rightarrow> bool" where
  "graph_source_ok st p r \<longleftrightarrow> ref_kind r = ''source_revision'' \<and>
     holds (mget (sourceRevisions st) (ref_id r)) (\<lambda>x. sr_revisionDigest (srs_revision x) = ref_digest r \<and>
       Some (sr_revisionId (srs_revision x)) = gp_initialSourceRevisionId p \<and>
       Some (sr_revisionDigest (srs_revision x)) = pge_initialSourceRevisionDigest p)"

definition graph_playback_ok :: "Plan \<Rightarrow> uuid \<Rightarrow> ImmutableReference \<Rightarrow> bool" where
  "graph_playback_ok pl program r \<longleftrightarrow> ref_kind r = ''intent_playback'' \<and>
     holds (find (\<lambda>n. ip_playbackId (ivw_playback n) = ref_id r) (mvalues (pl_interviews pl)))
       (\<lambda>n. ivw_programId n = program \<and> ivw_playbackDigest n = ref_digest r)"

definition graph_extends :: "GraphEntity option \<Rightarrow> GraphRevision \<Rightarrow> bool" where
  "graph_extends active g = (case active of
     None \<Rightarrow> gr_revision g = 1 \<and> gr_priorGraphRef g = None
   | Some a \<Rightarrow> gr_revision g = gr_revision (graph_base (gs_graph a)) + 1 \<and>
       holds (gr_priorGraphRef g) (\<lambda>r. ref_id r = gs_graphRevisionId a \<and> ref_digest r = gs_graphDigest a))"

text \<open>
  \<open>reachesProgram\<close>: whether a graph, by the cross-program dependencies of graphs of version 2,
  leads to a graph of the program. The second component is the set \<open>seen\<close> afterwards, which the
  calls share; the first call is the lookup of the dependency itself.
\<close>

definition unseen :: "(uuid, GraphEntity) jsmap \<Rightarrow> uuid list \<Rightarrow> nat" where
  "unseen gs seen = card (gs_graphRevisionId ` set (mvalues gs) - set seen)"

lemma unseen_less:
  assumes "mget gs i = Some c" and "gs_graphRevisionId c \<notin> set seen"
  shows "unseen gs (gs_graphRevisionId c # seen) < unseen gs seen"
proof -
  have "c \<in> set (mvalues gs)" using assms(1) by (force simp: mvalues_def dest: map_of_SomeD)
  then show ?thesis unfolding unseen_def using assms(2) by (intro psubset_card_mono) auto
qed

lemma unseen_le: "set seen \<subseteq> set seen' \<Longrightarrow> unseen gs seen' \<le> unseen gs seen"
  unfolding unseen_def by (intro card_mono) auto

function reaches :: "(uuid, GraphEntity) jsmap \<Rightarrow> uuid \<Rightarrow> uuid list \<Rightarrow> uuid \<Rightarrow> bool \<times> uuid list"
  and reaches_any :: "(uuid, GraphEntity) jsmap \<Rightarrow> uuid \<Rightarrow> uuid list \<Rightarrow> CrossProgramDependency list \<Rightarrow> bool \<times> uuid list"
where
  "reaches gs target seen i =
     (case mget gs i of
        None \<Rightarrow> (False, seen)
      | Some c \<Rightarrow>
          if gs_programId c = target then (True, seen)
          else if gs_graphRevisionId c \<in> set seen then (False, seen)
          else (case gs_v2 c of
              None \<Rightarrow> (False, seen)
            | Some v \<Rightarrow> reaches_any gs target (gs_graphRevisionId c # seen) (gv_crossProgramDependencies v)))"
| "reaches_any gs target seen [] = (False, seen)"
| "reaches_any gs target seen (d # ds) =
     (case reaches gs target seen (cd_graphRevisionId d) of
        (True, seen') \<Rightarrow> (True, seen')
      | (False, seen') \<Rightarrow> reaches_any gs target seen' ds)"
  by pat_completeness auto

text \<open>The calls only add to the set, which the termination of the nested recursion rests on.\<close>

lemma reaches_grows:
  "reaches_reaches_any_dom (Inl (gs, target, seen, i)) \<Longrightarrow> set seen \<subseteq> set (snd (reaches gs target seen i))"
  "reaches_reaches_any_dom (Inr (gs, target, seen, ds)) \<Longrightarrow> set seen \<subseteq> set (snd (reaches_any gs target seen ds))"
proof (induction rule: reaches_reaches_any.pinduct)
  case (1 gs target seen i)
  then show ?case by (auto simp: reaches.psimps split: option.splits)
next
  case (2 gs target seen)
  then show ?case by (simp add: reaches_any.psimps)
next
  case (3 gs target seen d ds)
  obtain b seen' where r: "reaches gs target seen (cd_graphRevisionId d) = (b, seen')" by fastforce
  with 3 show ?case by (cases b) (force simp: reaches_any.psimps)+
qed

termination reaches
proof (relation "measures [\<lambda>x. case x of Inl (gs, t, seen, i) \<Rightarrow> unseen gs seen | Inr (gs, t, seen, ds) \<Rightarrow> unseen gs seen,
    \<lambda>x. case x of Inl _ \<Rightarrow> 0 | Inr (gs, t, seen, ds) \<Rightarrow> length ds]", goal_cases)
  case (2 gs target seen i c v)
  then show ?case using unseen_less by simp
next
  case (4 gs target seen d ds b seen')
  have "set seen \<subseteq> set (snd (reaches gs target seen (cd_graphRevisionId d)))" by (rule reaches_grows) (rule 4)
  then have "set seen \<subseteq> set seen'" by (simp flip: 4(1))
  then have "unseen gs seen' \<le> unseen gs seen" by (rule unseen_le)
  then show ?case by auto
qed auto

declare reaches.simps [simp del]

definition dependency_ok :: "Plan \<Rightarrow> GraphV2 \<Rightarrow> CrossProgramDependency \<Rightarrow> bool" where
  "dependency_ok pl g d \<longleftrightarrow> cd_programId d \<noteq> gr_programId g \<and>
     holds (mget (pl_graphs pl) (cd_graphRevisionId d)) (\<lambda>x.
       gs_programId x = cd_programId d \<and> gs_graphDigest x = cd_graphDigest d \<and>
       holds (gs_v2 x) (\<lambda>v. ref_id (gv_integrationTargetRef v) = ref_id (gv_integrationTargetRef g)))"

fun dependencies_issue :: "Plan \<Rightarrow> GraphV2 \<Rightarrow> CrossProgramDependency list \<Rightarrow> string option" where
  "dependencies_issue pl g [] = None"
| "dependencies_issue pl g (d # ds) =
     (if \<not> dependency_ok pl g d then Some ''Cross-program dependency is stale or incompatible''
      else if fst (reaches (pl_graphs pl) (gr_programId g) [] (cd_graphRevisionId d))
      then Some ''Cross-program dependencies must be acyclic''
      else dependencies_issue pl g ds)"

definition policy_available :: "PortfolioPolicyState option \<Rightarrow> ImmutableReference \<Rightarrow> bool" where
  "policy_available p r \<longleftrightarrow> ref_kind r = ''portfolio_policy'' \<and>
     holds p (\<lambda>p. ps_policyDigest p = ref_digest r \<and> ps_supersededAt p = None)"

definition target_available :: "string \<Rightarrow> IntegrationTargetState option \<Rightarrow> ImmutableReference \<Rightarrow> bool" where
  "target_available repository t r \<longleftrightarrow> ref_kind r = ''integration_target'' \<and>
     holds t (\<lambda>t. ts_targetDigest t = ref_digest r \<and> ts_supersededAt t = None \<and>
       tgt_repositoryId (ts_target t) = repository)"

definition lane_in_policy :: "PortfolioPolicyState option \<Rightarrow> IntegrationTargetState option \<Rightarrow> bool" where
  "lane_in_policy p t = holds p (\<lambda>p. holds t (\<lambda>t.
     holds (find (\<lambda>r. res_resourceId r = tgt_mergeLaneResourceId (ts_target t)) (pol_resources (ps_policy p)))
       (\<lambda>r. res_kind r = ''merge_lane'')))"

definition graph_v2_issue :: "Portfolio \<Rightarrow> Plan \<Rightarrow> string \<Rightarrow> GraphV2 \<Rightarrow> string option" where
  "graph_v2_issue s pl repository g =
     (let p = mget (portfolioPolicies s) (ref_id (gv_portfolioPolicyRef g));
          t = mget (integrationTargets s) (ref_id (gv_integrationTargetRef g)) in
      if \<not> policy_available p (gv_portfolioPolicyRef g)
      then Some ''Graph V2 portfolio policy reference is unavailable''
      else if \<not> target_available repository t (gv_integrationTargetRef g)
      then Some ''Graph V2 integration target reference is unavailable''
      else if \<not> lane_in_policy p t then Some ''Integration target merge lane is not in the policy''
      else dependencies_issue pl g (gv_crossProgramDependencies g))"

text \<open>The members of the nodes of both versions.\<close>

fun node_dependencies :: "GraphNodeState \<Rightarrow> uuid list" where
  "node_dependencies (Node_v1 m) = gm_dependencies m"
| "node_dependencies (Node_v2 m) = gm_dependencies m"

fun node_predecessor :: "GraphNodeState \<Rightarrow> uuid option" where
  "node_predecessor (Node_v1 m) = gm_sourcePredecessor m"
| "node_predecessor (Node_v2 m) = gm_sourcePredecessor m"

fun graphNodeStructuredSurfaces :: "GraphNodeState \<Rightarrow> WorkSurface list" where
  "graphNodeStructuredSurfaces (Node_v2 m) = gm_workSurfaces m"
| "graphNodeStructuredSurfaces (Node_v1 m) = []"

fun node_resources :: "GraphNodeState \<Rightarrow> string list" where
  "node_resources (Node_v2 m) = gm_resourceClaims m"
| "node_resources (Node_v1 m) = []"

fun node_capabilities :: "GraphNodeState \<Rightarrow> string list" where
  "node_capabilities (Node_v2 m) = gm_capabilityClaims m"
| "node_capabilities (Node_v1 m) = []"

abbreviation node_id :: "GraphNodeState \<Rightarrow> uuid" where
  "node_id n \<equiv> mc_milestoneId (node_contract n)"

definition strings_digest :: "(string \<Rightarrow> string) \<Rightarrow> string list \<Rightarrow> digest" where
  "strings_digest sha xs = digest_of sha (JArray (map JString xs))"

definition surfaces_digest :: "(string \<Rightarrow> string) \<Rightarrow> WorkSurface list \<Rightarrow> digest" where
  "surfaces_digest sha fs = digest_of sha (JArray (map enc_WorkSurface fs))"

text \<open>A milestone that was approved before is approved again only with the same content.\<close>

definition same_history :: "(string \<Rightarrow> string) \<Rightarrow> MilestoneApproval \<Rightarrow> GraphNodeState \<Rightarrow> bool" where
  "same_history sha a n \<longleftrightarrow>
     mla_contractDigest a = digest_of sha (enc_MilestoneContract (node_contract n)) \<and>
     strings_digest sha (mla_dependencies a) = strings_digest sha (node_dependencies n) \<and>
     mla_sourcePredecessorMilestoneId a = node_predecessor n \<and>
     strings_digest sha (mla_allowedWorkSurfaces a) = strings_digest sha (graphNodeAllowedPaths n) \<and>
     surfaces_digest sha (mla_structuredWorkSurfaces a) = surfaces_digest sha (graphNodeStructuredSurfaces n) \<and>
     strings_digest sha (mla_resourceClaims a) = strings_digest sha (node_resources n) \<and>
     strings_digest sha (mla_capabilityClaims a) = strings_digest sha (node_capabilities n)"

definition contract_workflow :: "ProjectionState \<Rightarrow> MilestoneContract \<Rightarrow> WorkflowState option" where
  "contract_workflow st c = mget (workflows st) (workflowKey (mc_workflowId c) (mc_workflowVersion c))"

definition resource_known :: "PortfolioPolicy \<Rightarrow> string \<Rightarrow> bool" where
  "resource_known pol i = holds (find (\<lambda>r. res_resourceId r = i) (pol_resources pol))
     (\<lambda>r. res_kind r \<noteq> ''merge_lane'')"

text \<open>What version 2 asks of a node besides; \<open>None\<close> for version 1.\<close>

definition node_v2_issue ::
    "Portfolio \<Rightarrow> WorkflowStep \<Rightarrow> Graph \<Rightarrow> GraphNodeState \<Rightarrow> (DomainErrorCode \<times> string) option" where
  "node_v2_issue s step g n = (case g of
     Graph_v1 _ \<Rightarrow> None
   | Graph_v2 v \<Rightarrow>
       (case mget (portfolioPolicies s) (ref_id (gv_portfolioPolicyRef v)) of
          None \<Rightarrow> Some (WORKFLOW_NOT_FOUND, ''Graph V2 requires a one-step Workflow V3'')
        | Some p \<Rightarrow>
            if node_capabilities n \<noteq> [ws_capability step] \<or>
               \<not> list_ex (\<lambda>c. cc_capability c = ws_capability step) (pol_capabilityCapacities (ps_policy p))
            then Some (GRAPH_INVALID, ''Graph V2 capability claims must exactly match the workflow'')
            else if \<not> list_all (resource_known (ps_policy p)) (node_resources n)
            then Some (GRAPH_INVALID, ''Graph V2 contains an unknown resource claim'')
            else None))"

definition node_issue ::
    "(string \<Rightarrow> string) \<Rightarrow> ProjectionState \<Rightarrow> Portfolio \<Rightarrow> Plan \<Rightarrow> Graph \<Rightarrow> GraphNodeState \<Rightarrow>
       (DomainErrorCode \<times> string) option" where
  "node_issue sha st s pl g n =
     (let existing = map_option mle_approval (mget (pl_milestones pl) (node_id n)) in
      if holds existing (\<lambda>a. mla_programId a \<noteq> gr_programId (graph_base g))
      then Some (MILESTONE_ALREADY_EXISTS, ''Milestone belongs to another program'')
      else if holds existing (\<lambda>a. \<not> same_history sha a n)
      then Some (MILESTONE_ALREADY_EXISTS, ''Replacement graphs cannot rewrite a historical milestone contract'')
      else (case Option.bind (contract_workflow st (node_contract n)) (\<lambda>w. single_step_v3 (wf_definition w)) of
          None \<Rightarrow> Some (WORKFLOW_NOT_FOUND, ''Every program milestone requires Workflow V3'')
        | Some step \<Rightarrow>
            (case node_v2_issue s step g n of
               Some x \<Rightarrow> Some x
             | None \<Rightarrow>
                 if list_ex (\<lambda>k. mcr_verificationStepId k \<noteq> ws_id step) (mc_criteria (node_contract n))
                 then Some (SCHEDULE_MISMATCH, ''Milestone criteria must bind to the Workflow V3 step'')
                 else None)))"

fun first_issue :: "('a \<Rightarrow> 'b option) \<Rightarrow> 'a list \<Rightarrow> 'b option" where
  "first_issue f [] = None"
| "first_issue f (x # xs) = (case f x of None \<Rightarrow> first_issue f xs | Some y \<Rightarrow> Some y)"

text \<open>The checks before those of the nodes, in the order of the code.\<close>

definition graph_issue :: "ProjectionState \<Rightarrow> Portfolio \<Rightarrow> Plan \<Rightarrow> ProgramEntity \<Rightarrow> Graph \<Rightarrow>
    (DomainErrorCode \<times> string) option" where
  "graph_issue st s pl p g =
     (let b = graph_base g in
      if activeGenerationForProgram pl (gr_programId b) \<noteq> None
      then Some (PROGRAM_NOT_STARTABLE, ''Cannot replace a graph during active execution'')
      else if \<not> graph_source_ok st p (gr_initialSourceRef b)
      then Some (EVIDENCE_DIGEST_MISMATCH, ''Graph initial source does not match kickoff'')
      else if \<not> graph_playback_ok pl (gr_programId b) (gr_intentPlaybackRef b)
      then Some (INTERVIEW_NOT_FOUND, ''Approved intent playback is unavailable'')
      else if \<not> graph_extends (active_graph pl p) b
      then Some (GRAPH_INVALID, ''Graph revision does not extend the active graph'')
      else if mhas (pl_graphs pl) (gr_graphRevisionId b)
      then Some (GRAPH_INVALID, ''Graph revision identifier already exists'')
      else (case g of
          Graph_v1 _ \<Rightarrow> None
        | Graph_v2 v \<Rightarrow>
            map_option (Pair GRAPH_INVALID) (graph_v2_issue s pl
              (case mget (sourceRevisions st) (ref_id (gr_initialSourceRef b)) of
                 None \<Rightarrow> [] | Some r \<Rightarrow> sr_repositoryId (srs_revision r)) v)))"

definition milestone_approval ::
    "(string \<Rightarrow> string) \<Rightarrow> Actor \<Rightarrow> Graph \<Rightarrow> WorkflowState \<Rightarrow> GraphNodeState \<Rightarrow> MilestoneApproval" where
  "milestone_approval sha actor g w n =
     \<lparr>mla_milestoneId = node_id n, mla_programId = gr_programId (graph_base g),
      mla_contract = node_contract n, mla_contractDigest = digest_of sha (enc_MilestoneContract (node_contract n)),
      mla_workflowDigest = wf_definitionDigest w, mla_approvedBy = actor_id actor,
      mla_graphRevisionId = Some (gr_graphRevisionId (graph_base g)), mla_dependencies = node_dependencies n,
      mla_sourcePredecessorMilestoneId = node_predecessor n,
      mla_allowedWorkSurfaces = graphNodeAllowedPaths n,
      mla_structuredWorkSurfaces = graphNodeStructuredSurfaces n, mla_resourceClaims = node_resources n,
      mla_capabilityClaims = node_capabilities n\<rparr>"

text \<open>The events: the approval of a milestone is left out when the milestone is known.\<close>

definition superseded_events :: "Graph \<Rightarrow> GraphEntity option \<Rightarrow> PortfolioInput list" where
  "superseded_events g active = (case active of
     None \<Rightarrow> []
   | Some a \<Rightarrow> [plan_event ''program_graph'' (gs_graphRevisionId a)
       (ProgramGraphSuperseded (gs_graphRevisionId a) (gr_programId (graph_base g)) (gr_graphRevisionId (graph_base g)))])"

definition satisfied_events :: "Actor \<Rightarrow> Plan \<Rightarrow> Graph \<Rightarrow> GraphEntity option \<Rightarrow> PortfolioInput list" where
  "satisfied_events actor pl g active = (if active = None then [] else
     map (\<lambda>e. plan_event ''routed_issue'' (iss_issueId (ris_issue e))
         (RoutedIssueGraphRevisionSatisfied (iss_issueId (ris_issue e)) (gr_programId (graph_base g))
            (gr_graphRevisionId (graph_base g)) (actor_id actor)))
       (filter (\<lambda>e. iss_programId (ris_issue e) = gr_programId (graph_base g) \<and>
          iss_status (ris_issue e) = Issue_requires_graph_revision) (mvalues (pl_issues pl))))"

fun approval_events ::
    "(string \<Rightarrow> string) \<Rightarrow> Actor \<Rightarrow> ProjectionState \<Rightarrow> Plan \<Rightarrow> Graph \<Rightarrow> GraphNodeState list \<Rightarrow> PortfolioInput list option" where
  "approval_events sha actor st pl g [] = Some []"
| "approval_events sha actor st pl g (n # ns) =
     (if mhas (pl_milestones pl) (node_id n) then approval_events sha actor st pl g ns
      else do {
        w \<leftarrow> contract_workflow st (node_contract n);
        es \<leftarrow> approval_events sha actor st pl g ns;
        Some (plan_event ''milestone'' (node_id n) (MilestoneApproved (milestone_approval sha actor g w n)) # es) })"

definition graph_events ::
    "(string \<Rightarrow> string) \<Rightarrow> Actor \<Rightarrow> Plan \<Rightarrow> ProgramEntity \<Rightarrow> Graph \<Rightarrow> PortfolioInput list" where
  "graph_events sha actor pl p g =
     (let active = active_graph pl p in
      superseded_events g active @
      plan_event ''program_graph'' (gr_graphRevisionId (graph_base g))
        (ProgramGraphApproved g (digest_of sha (enc_Graph g)) (actor_id actor)) #
      satisfied_events actor pl g active)"

fun is_v1 :: "Graph \<Rightarrow> bool" where
  "is_v1 (Graph_v1 _) = True"
| "is_v1 (Graph_v2 _) = False"

definition decide_graph_approve ::
    "(string \<Rightarrow> string) \<Rightarrow> Actor \<Rightarrow> ProjectionState \<Rightarrow> Portfolio \<Rightarrow> Plan \<Rightarrow> Graph \<Rightarrow> portfolio_decision" where
  "decide_graph_approve sha actor st s pl g =
     (if \<not> operator actor then reject APPROVAL_REQUIRES_OPERATOR ''Program graph approval requires an operator actor''
      else (case mget (pl_programs pl) (gr_programId (graph_base g)) of
          None \<Rightarrow> reject PROGRAM_NOT_FOUND ''Graph program does not exist''
        | Some p \<Rightarrow>
            if \<not> graph_mode p \<or> (is_v1 g \<and> prog_programMode p \<noteq> ''graph_v1'')
            then reject PROGRAM_NOT_FOUND ''Graph program does not exist''
            else (case graph_issue st s pl p g of
                Some (code, message) \<Rightarrow> reject code message
              | None \<Rightarrow>
                  (case first_issue (node_issue sha st s pl g) (graph_nodes g) of
                     Some (code, message) \<Rightarrow> reject code message
                   | None \<Rightarrow>
                       (case approval_events sha actor st pl g (graph_nodes g) of
                          None \<Rightarrow> Inl (Raised ''Validated graph workflow is missing'')
                        | Some es \<Rightarrow> accept (graph_events sha actor pl p g @ es) ''program_graph''
                            (gr_graphRevisionId (graph_base g)))))))"

end
