(* ===== verification/PlanAdvance.thy ===== *)
theory PlanAdvance
  imports PlanOps
begin

text \<open>
  \<open>program.start\<close> and \<open>program.advance\<close> (domain.ts): the start of a program, and its step from
  validated outcomes to the next milestone, to integration, or to completion.
\<close>

section \<open>The context of a decision\<close>

text \<open>What the shared functions read of the component, as the records of GraphTypes.\<close>

definition view_map :: "('a \<Rightarrow> 'b) \<Rightarrow> ('k, 'a) jsmap \<Rightarrow> ('k, 'b) jsmap" where
  "view_map f m = map (\<lambda>(k, v). (k, f v)) m"

lemma mget_view_map [simp, jsmap_simps]: "mget (view_map f m) k = map_option f (mget m k)"
  by (induction m) (auto simp: view_map_def)

lemma mhas_view_map [simp, jsmap_simps]: "mhas (view_map f m) k = mhas m k"
  by (simp add: mhas_def)

lemma mvalues_view_map [simp, jsmap_simps]: "mvalues (view_map f m) = map f (mvalues m)"
  by (induction m) (auto simp: view_map_def mvalues_def)

definition validation_view :: "ValidationState \<Rightarrow> OutcomeValidationState" where
  "validation_view e = \<lparr>ovs_milestoneId = ov_milestoneId (vds_validation e),
     ovs_outcomePacketId = ov_outcomePacketId (vds_validation e),
     ovs_validation = OutcomeValidation.truncate (vds_validation e)\<rparr>"

definition packet_view :: "OutcomePacketEntity \<Rightarrow> OutcomePacketState" where
  "packet_view e = (let p = ope_packet e in
     \<lparr>ops_outcomePacketId = opk_outcomePacketId p, ops_programId = opk_programId p,
      ops_packet = enc_OutcomePacket p, ops_packetDigest = ope_packetDigest e,
      ops_candidateRevisionId = opk_candidateRevisionId p,
      ops_recommendation = recommendation_text (opk_recommendation p),
      ops_driverReceipts = opk_driverReceipts p, ops_verificationReceipts = opk_verificationReceipts p,
      ops_artifactManifests = opk_artifactManifests p, ops_recordedAt = ope_recordedAt e\<rparr>)"

definition plan_context :: "ProjectionState \<Rightarrow> Plan \<Rightarrow> PortfolioContext" where
  "plan_context st pl =
     \<lparr>cx_state = st, cx_programs = view_map GraphProgramState.truncate (pl_programs pl),
      cx_milestones = view_map MilestoneState.truncate (pl_milestones pl),
      cx_programGraphs = view_map ProgramGraphState.truncate (pl_graphs pl),
      cx_playbacks = map (\<lambda>n. ip_playbackId (ivw_playback n)) (mvalues (pl_interviews pl)),
      cx_generations = map fst (pl_generations pl),
      cx_outcomeValidations = view_map validation_view (pl_validations pl),
      cx_attentionPolicies = [], cx_decisionPackets = [],
      cx_outcomePackets = view_map packet_view (pl_outcomePackets pl),
      cx_outcomeDispositions = map fst (pl_dispositions pl)\<rparr>"

section \<open>program.start\<close>

definition pipelineWip :: "Plan \<Rightarrow> nat" where
  "pipelineWip pl = length (filter (\<lambda>p. prog_programMode p = ''graph_v2'' \<and>
     prog_phase p \<in> set [''eligible'', ''running'', ''integration_pending'']) (mvalues (pl_programs pl)))"

text \<open>The active graph, where program and command name it with its digest.\<close>

definition named_graph :: "Plan \<Rightarrow> ProgramEntity \<Rightarrow> uuid \<Rightarrow> digest \<Rightarrow> GraphEntity option" where
  "named_graph pl p i d = do {
     g \<leftarrow> mget (pl_graphs pl) i;
     (if gp_activeGraphRevisionId p = Some i \<and> pge_activeGraphDigest p = Some d \<and> gs_graphDigest g = d
      then Some g else None) }"

definition startable_v2 :: "Portfolio \<Rightarrow> Plan \<Rightarrow> uuid \<Rightarrow> uuid \<Rightarrow> digest \<Rightarrow> JobPolicy \<Rightarrow> bool" where
  "startable_v2 s pl i graphId d policy = holds (mget (pl_programs pl) i) (\<lambda>p.
     prog_programMode p = ''graph_v2'' \<and> prog_phase p = ''approved'' \<and>
     holds (named_graph pl p graphId d) (\<lambda>g. holds (gs_v2 g) (\<lambda>v.
       holds (mget (portfolioPolicies s) (ref_id (gv_portfolioPolicyRef v))) (\<lambda>pol.
         pipelineWip pl < lim_maxPipelineWip (pol_limits (ps_policy pol)) \<and>
         jp_attemptTimeoutMs policy \<le> lim_maxAttemptMs (pol_limits (ps_policy pol))))))"

definition decide_program_start_v2 ::
    "Actor \<Rightarrow> Portfolio \<Rightarrow> Plan \<Rightarrow> uuid \<Rightarrow> uuid \<Rightarrow> uuid \<Rightarrow> digest \<Rightarrow> JobPolicy \<Rightarrow> portfolio_decision" where
  "decide_program_start_v2 actor s pl request i graphId d policy =
     (if \<not> operator actor then reject APPROVAL_REQUIRES_OPERATOR ''Program start requires an operator actor''
      else if \<not> startable_v2 s pl i graphId d policy
      then reject PROGRAM_NOT_STARTABLE ''Graph V2 program is not eligible to queue''
      else accept [plan_event ''program'' i (ProgramExecutionRequested request i graphId d policy (actor_id actor))]
        ''program'' i)"

text \<open>Both versions of the graph have milestones; the root is the one without predecessor.\<close>

definition root_node :: "GraphEntity \<Rightarrow> GraphNodeState option" where
  "root_node g = find (\<lambda>n. node_predecessor n = None) (graph_nodes (gs_graph g))"

definition startable_v1 :: "Plan \<Rightarrow> uuid \<Rightarrow> uuid \<Rightarrow> digest \<Rightarrow> (ProgramEntity \<times> GraphEntity) option" where
  "startable_v1 pl i graphId d = do {
     p \<leftarrow> mget (pl_programs pl) i;
     g \<leftarrow> named_graph pl p graphId d;
     (if prog_programMode p = ''graph_v1'' \<and> prog_phase p = ''approved'' then Some (p, g) else None) }"

definition decide_program_start_v1 ::
    "(string \<Rightarrow> string) \<Rightarrow> Actor \<Rightarrow> timestamp \<Rightarrow> ProjectionState \<Rightarrow> Plan \<Rightarrow> uuid \<Rightarrow> uuid \<Rightarrow> digest \<Rightarrow> JobPolicy \<Rightarrow>
       portfolio_decision" where
  "decide_program_start_v1 sha actor now st pl i graphId d policy =
     (if \<not> operator actor then reject APPROVAL_REQUIRES_OPERATOR ''Program start requires an operator actor''
      else (case startable_v1 pl i graphId d of
          None \<Rightarrow> reject PROGRAM_NOT_STARTABLE ''Program and active graph are not startable''
        | Some (p, g) \<Rightarrow>
            if list_ex (\<lambda>n. gen_status n = Gen_running) (mvalues (pl_generations pl))
            then reject PROGRAM_NOT_STARTABLE ''Graph V1 uses the global legacy-serial lane''
            else (case (root_node g, truthy (gp_initialSourceRevisionId p)) of
                (Some root, Some base) \<Rightarrow>
                  (case startGraphMilestoneEvents sha (plan_context st pl) (ProgramGraphState.truncate g)
                      (node_id root) 1 base [] policy now of
                     Inl failed \<Rightarrow> Inl failed
                   | Inr started \<Rightarrow>
                       accept (plan_event ''program'' i (ProgramStarted i graphId d (actor_id actor)) #
                           st_events started) ''run'' (gen_runId (st_generation started)))
              | _ \<Rightarrow> reject GRAPH_INVALID ''Active graph root or pinned source is missing'')))"

section \<open>program.advance\<close>

record ProgramAdvance =
  adv_programId :: uuid
  adv_graphRevisionId :: uuid
  adv_graphDigest :: digest
  adv_expectedMilestoneId :: "uuid option"
  adv_expectedGeneration :: "nat option"
  adv_dependencyValidations :: "ValidationRecord list"
  adv_policy :: JobPolicy

definition advanceable :: "Plan \<Rightarrow> ProgramAdvance \<Rightarrow> (ProgramEntity \<times> GraphEntity) option" where
  "advanceable pl v = do {
     p \<leftarrow> mget (pl_programs pl) (adv_programId v);
     g \<leftarrow> named_graph pl p (adv_graphRevisionId v) (adv_graphDigest v);
     (if prog_phase p = ''running'' \<or> prog_programMode p = ''graph_v2'' \<and> prog_phase p = ''eligible''
      then Some (p, g) else None) }"

definition blocking_issue :: "Plan \<Rightarrow> uuid \<Rightarrow> bool" where
  "blocking_issue pl i = list_ex (\<lambda>e. iss_programId (ris_issue e) = i \<and>
     iss_status (ris_issue e) \<noteq> Issue_resolved \<and> iss_route (ris_issue e) \<noteq> Record_only) (mvalues (pl_issues pl))"

text \<open>A packet that a validation may name: of the program and milestone, unchanged, recommended
  for merging with every criterion passed, for the candidate the validation names.\<close>

definition packet_validates ::
    "(string \<Rightarrow> string) \<Rightarrow> uuid \<Rightarrow> ValidationRecord \<Rightarrow> OutcomePacketEntity \<Rightarrow> bool" where
  "packet_validates sha program v e \<longleftrightarrow> (let p = ope_packet e in
     opk_programId p = program \<and> opk_milestoneId p = ov_milestoneId v \<and>
     ope_packetDigest e = ov_packetDigest v \<and> digest_of sha (enc_OutcomePacket p) = ov_computedDigest v \<and>
     ov_packetDigest v = ov_computedDigest v \<and>
     list_all (\<lambda>c. ocr_result c = Criterion_pass) (opk_criteriaResults p) \<and>
     opk_recommendation p = Rec_merge \<and> opk_candidateRevisionId p \<noteq> None \<and>
     ov_recommendation v = Rec_merge \<and> ov_candidateRevisionId v = opk_candidateRevisionId p \<and>
     ov_criteriaPassed v)"

definition primary_digests :: "OutcomePacket \<Rightarrow> digest list" where
  "primary_digests p = sort (map ref_digest (opk_driverReceipts p) @
     map ref_digest (opk_verificationReceipts p) @ map ref_digest (opk_artifactManifests p))"

definition validateInput ::
    "(string \<Rightarrow> string) \<Rightarrow> Plan \<Rightarrow> uuid \<Rightarrow> ValidationRecord \<Rightarrow> (DomainErrorCode \<times> string) option" where
  "validateInput sha pl program v =
     (case mget (pl_outcomePackets pl) (ov_outcomePacketId v) of
        None \<Rightarrow> Some (EVIDENCE_DIGEST_MISMATCH, ''Dependency outcome validation is invalid'')
      | Some e \<Rightarrow>
          if \<not> packet_validates sha program v e
          then Some (EVIDENCE_DIGEST_MISMATCH, ''Dependency outcome validation is invalid'')
          else if strings_digest sha (primary_digests (ope_packet e)) \<noteq>
              strings_digest sha (sort (ov_primaryEvidenceDigests v))
          then Some (EVIDENCE_DIGEST_MISMATCH, ''Primary evidence digest set does not match'')
          else None)"

definition validation_event :: "(string \<Rightarrow> string) \<Rightarrow> ValidationRecord \<Rightarrow> PortfolioInput" where
  "validation_event sha v = plan_event ''outcome_validation'' (ov_validationId v)
     (OutcomeValidationRecorded v (digest_of sha (enc_ValidationRecord v)))"

definition plan_milestone_in :: "Plan \<Rightarrow> MilestoneStatus \<Rightarrow> uuid \<Rightarrow> bool" where
  "plan_milestone_in pl status i = holds (mget (pl_milestones pl) i) (\<lambda>m. mst_status m = status)"

definition nextNode :: "Plan \<Rightarrow> GraphEntity \<Rightarrow> GraphNodeState option" where
  "nextNode pl g = find (\<lambda>n. plan_milestone_in pl M_approved (node_id n) \<and>
     list_all (plan_milestone_in pl M_outcome_ready) (node_dependencies n)) (graph_nodes (gs_graph g))"

subsection \<open>No milestone is left\<close>

definition prospectiveValidated :: "Plan \<Rightarrow> ValidationRecord list \<Rightarrow> uuid \<Rightarrow> bool" where
  "prospectiveValidated pl vs i \<longleftrightarrow>
     list_ex (\<lambda>m. mst_milestoneId m = i \<and> truthy (mst_latestValidatedOutcomePacketId m) \<noteq> None)
       (mvalues (pl_milestones pl)) \<or> i \<in> set (map ov_milestoneId vs)"

text \<open>The packet of the last validation, or the latest packet of the program.\<close>

definition finalPacket ::
    "(string \<Rightarrow> string \<Rightarrow> int) \<Rightarrow> Plan \<Rightarrow> uuid \<Rightarrow> ValidationRecord list \<Rightarrow> OutcomePacketEntity option" where
  "finalPacket lc pl program vs =
     (if vs \<noteq> [] then mget (pl_outcomePackets pl) (ov_outcomePacketId (last vs))
      else (case sort_by (\<lambda>l r. lc (toISOString (ope_recordedAt r)) (toISOString (ope_recordedAt l)))
          (filter (\<lambda>e. opk_programId (ope_packet e) = program) (mvalues (pl_outcomePackets pl))) of
        [] \<Rightarrow> None | e # _ \<Rightarrow> Some e))"

definition finish_program ::
    "(string \<Rightarrow> string) \<Rightarrow> (string \<Rightarrow> string \<Rightarrow> int) \<Rightarrow> Plan \<Rightarrow> ProgramAdvance \<Rightarrow> ProgramEntity \<Rightarrow> GraphEntity \<Rightarrow>
       portfolio_decision" where
  "finish_program sha lc pl v p g =
     (let vs = adv_dependencyValidations v; es = map (validation_event sha) vs; i = prog_programId p in
      if adv_expectedMilestoneId v \<noteq> None \<or> adv_expectedGeneration v \<noteq> None
      then reject PROGRAM_NOT_ADVANCEABLE ''No milestone is eligible for the expected advance''
      else if list_ex (\<lambda>n. \<not> prospectiveValidated pl vs (node_id n)) (graph_nodes (gs_graph g))
      then reject PROGRAM_NOT_ADVANCEABLE ''Final milestone outcome is not validated''
      else (case gs_v2 g of
          None \<Rightarrow> accept (es @ [plan_event ''program'' i
            (ProgramCompleted i (gs_graphRevisionId g) (gs_graphDigest g))]) ''program'' i
        | Some _ \<Rightarrow>
            (case Option.bind (finalPacket lc pl i vs) (\<lambda>e. truthy (opk_candidateRevisionId (ope_packet e))) of
               None \<Rightarrow> reject PROGRAM_NOT_ADVANCEABLE ''Final candidate revision is missing''
             | Some c \<Rightarrow> accept (es @ [plan_event ''program'' i (ProgramIntegrationPending i
                   (gs_graphRevisionId g) (gs_graphDigest g) (deterministicUuid sha
                     (''parallelplay:integration:integration-candidate:'' @ i @ '':'' @
                      gs_graphRevisionId g @ '':'' @ c)))]) ''program'' i)))"

subsection \<open>The next milestone\<close>

definition validationByMilestone :: "ValidationRecord list \<Rightarrow> (uuid, ValidationRecord) jsmap" where
  "validationByMilestone vs = map_from ov_milestoneId id vs"

definition advance_base :: "ProgramEntity \<Rightarrow> GraphNodeState \<Rightarrow> ValidationRecord list \<Rightarrow> uuid option" where
  "advance_base p n vs = truthy (case truthy (node_predecessor n) of
     None \<Rightarrow> gp_initialSourceRevisionId p
   | Some d \<Rightarrow> Option.bind (mget (validationByMilestone vs) d) ov_candidateRevisionId)"

definition advance_to ::
    "(string \<Rightarrow> string) \<Rightarrow> timestamp \<Rightarrow> ProjectionState \<Rightarrow> Plan \<Rightarrow> ProgramAdvance \<Rightarrow> ProgramEntity \<Rightarrow> GraphEntity \<Rightarrow>
       GraphNodeState \<Rightarrow> MilestoneEntity \<Rightarrow> portfolio_decision" where
  "advance_to sha now st pl v p g n m =
     (let vs = adv_dependencyValidations v; es = map (validation_event sha) vs;
          expected = (case mst_generation m of None \<Rightarrow> 0 | Some k \<Rightarrow> k) + 1 in
      if adv_expectedMilestoneId v \<noteq> Some (node_id n) \<or> adv_expectedGeneration v \<noteq> Some expected
      then reject PROGRAM_NOT_ADVANCEABLE ''Expected milestone generation does not match''
      else if length (node_dependencies n) \<noteq> length (validationByMilestone vs) \<or>
         list_ex (\<lambda>d. \<not> mhas (validationByMilestone vs) d) (node_dependencies n)
      then reject PROGRAM_NOT_ADVANCEABLE ''Every dependency requires a live validation''
      else (case advance_base p n vs of
          None \<Rightarrow> reject SOURCE_REVISION_NOT_FOUND ''Eligible candidate source revision is missing''
        | Some base \<Rightarrow>
            if \<not> mhas (sourceRevisions st) base
            then reject SOURCE_REVISION_NOT_FOUND ''Eligible candidate source revision is missing''
            else (case gs_v2 g of
                Some _ \<Rightarrow>
                  (case vs of
                     [] \<Rightarrow> reject PROGRAM_NOT_ADVANCEABLE ''Graph V2 advance requires validation evidence''
                   | r # _ \<Rightarrow> accept es ''outcome_validation'' (ov_validationId r))
              | None \<Rightarrow>
                  (case startGraphMilestoneEvents sha (plan_context st pl) (ProgramGraphState.truncate g)
                      (node_id n) expected base (map OutcomeValidation.truncate vs) (adv_policy v) now of
                     Inl failed \<Rightarrow> Inl failed
                   | Inr started \<Rightarrow> accept (es @ st_events started) ''run'' (gen_runId (st_generation started))))))"

definition decide_program_advance ::
    "(string \<Rightarrow> string) \<Rightarrow> (string \<Rightarrow> string \<Rightarrow> int) \<Rightarrow> Actor \<Rightarrow> timestamp \<Rightarrow> ProjectionState \<Rightarrow> Plan \<Rightarrow> ProgramAdvance \<Rightarrow>
       portfolio_decision" where
  "decide_program_advance sha lc actor now st pl v =
     (if actor_kind actor \<noteq> System
      then reject PROGRAM_NOT_ADVANCEABLE ''Program advance requires a system actor''
      else (case advanceable pl v of
          None \<Rightarrow> reject PROGRAM_NOT_ADVANCEABLE ''Active program graph does not match''
        | Some (p, g) \<Rightarrow>
            if activeGenerationForProgram pl (adv_programId v) \<noteq> None
            then reject PROGRAM_NOT_ADVANCEABLE ''Program already has an active generation''
            else if blocking_issue pl (adv_programId v)
            then reject PROGRAM_NOT_ADVANCEABLE ''Program has an unresolved blocking issue''
            else (case first_issue (validateInput sha pl (adv_programId v)) (adv_dependencyValidations v) of
                Some (code, message) \<Rightarrow> reject code message
              | None \<Rightarrow>
                  (case nextNode pl g of
                     None \<Rightarrow> finish_program sha lc pl v p g
                   | Some n \<Rightarrow>
                       (case mget (pl_milestones pl) (node_id n) of
                          None \<Rightarrow> Inl (Raised ''Approved graph milestone projection is missing'')
                        | Some m \<Rightarrow> advance_to sha now st pl v p g n m)))))"

end
