(* ===== verification/PlanIssues.thy ===== *)
theory PlanIssues
  imports PlanAdvance IntegrationDecision Closure
begin

text \<open>
  Issues, dispositions of outcomes, attention spans, and the approval and start of single
  milestones (domain.ts).
\<close>

section \<open>issue.raise\<close>

record IssueRaise =
  irs_issueId :: uuid
  irs_programId :: uuid
  irs_originalText :: string
  irs_proposedClass :: IssueClass
  irs_resultImpact :: ResultImpact
  irs_affectedMilestoneIds :: "uuid list"
  irs_refs :: "ImmutableReference list"
  irs_source :: "IssueSource option"

definition route_of :: "IssueClass \<Rightarrow> ResultImpact \<Rightarrow> IssueRoute" where
  "route_of c r =
     (if c = New_idea \<or> c = Clarification \<and> r = Impact_none then Record_only
      else if c = Blocker then Retry_exhausted
      else if c = Authority_boundary then Operator_required
      else Pause_affected)"

text \<open>The job a milestone runs, and whether it can be tried again.\<close>

definition milestone_job :: "ProjectionState \<Rightarrow> Plan \<Rightarrow> uuid \<Rightarrow> JobState option" where
  "milestone_job st pl i = do {
     m \<leftarrow> mget (pl_milestones pl) i;
     j \<leftarrow> truthy (mle_jobId m);
     mget (jobs st) j }"

definition retryAvailable :: "ProjectionState \<Rightarrow> Plan \<Rightarrow> uuid list \<Rightarrow> bool" where
  "retryAvailable st pl is = list_ex (\<lambda>i. holds (milestone_job st pl i)
     (\<lambda>j. job_attemptCount j < jp_maxAttempts (job_policy j))) is"

text \<open>
  The milestones a contradiction pauses: the loop adds every milestone of which a dependency is
  paused, until a pass over the graph adds none.
\<close>

definition pause_visit :: "GraphNodeState \<Rightarrow> uuid list \<times> bool \<Rightarrow> uuid list \<times> bool" where
  "pause_visit n acc =
     (if list_ex (\<lambda>d. d \<in> set (fst acc)) (node_dependencies n) \<and> node_id n \<notin> set (fst acc)
      then (fst acc @ [node_id n], True) else acc)"

definition pause_loop :: "GraphNodeState list \<Rightarrow> uuid list \<Rightarrow> (uuid list \<times> bool) option" where
  "pause_loop ns start = while_option snd (\<lambda>acc. fold pause_visit ns (fst acc, False)) (start, True)"

definition paused_milestones :: "GraphNodeState list \<Rightarrow> IssueRaise \<Rightarrow> uuid list" where
  "paused_milestones ns r =
     (if route_of (irs_proposedClass r) (irs_resultImpact r) = Record_only then []
      else let affected = insertion_set (irs_affectedMilestoneIds r) in
        if irs_proposedClass r = Contradiction
        then (case pause_loop ns affected of None \<Rightarrow> [] | Some (reached, _) \<Rightarrow> reached)
        else affected)"

definition milestone_run :: "ProjectionState \<Rightarrow> Plan \<Rightarrow> uuid \<Rightarrow> RunState option" where
  "milestone_run st pl i = do {
     m \<leftarrow> mget (pl_milestones pl) i;
     r \<leftarrow> truthy (mle_runId m);
     mget (runs st) r }"

text \<open>The events that stop what a paused milestone runs; \<open>cancelled\<close> lists the runs already stopped.\<close>

fun stop_events ::
    "(string \<Rightarrow> string) \<Rightarrow> ProjectionState \<Rightarrow> Plan \<Rightarrow> uuid \<Rightarrow> uuid list \<Rightarrow> uuid list \<Rightarrow> DomainEventInput list" where
  "stop_events sha st pl issue cancelled [] = []"
| "stop_events sha st pl issue cancelled (i # is) =
     (case milestone_run st pl i of
        None \<Rightarrow> stop_events sha st pl issue cancelled is
      | Some r \<Rightarrow>
          if run_status r = R_running \<or> run_status r = R_scheduled
          then
            (case milestone_job st pl i of
               None \<Rightarrow> []
             | Some j \<Rightarrow> if terminal_job (job_status j) then []
                 else fst (cancellationEvents sha st j TR_operator_cancelled [])) @
            (if run_runId r \<in> set cancelled then []
             else [event ST_run (run_runId r) (RunCancelled (run_runId r) (''routed_issue:'' @ issue))]) @
            stop_events sha st pl issue (run_runId r # cancelled) is
          else stop_events sha st pl issue cancelled is)"

definition raised_issue :: "timestamp \<Rightarrow> IssueRaise \<Rightarrow> RoutedIssue" where
  "raised_issue now r =
     \<lparr>iss_issueId = irs_issueId r, iss_programId = irs_programId r,
      iss_originalText = irs_originalText r, iss_proposedClass = irs_proposedClass r,
      iss_resultImpact = irs_resultImpact r, iss_affectedMilestoneIds = irs_affectedMilestoneIds r,
      iss_refs = irs_refs r, iss_route = route_of (irs_proposedClass r) (irs_resultImpact r),
      iss_source = (case irs_source r of None \<Rightarrow> Source_command | Some x \<Rightarrow> x),
      iss_status = Issue_open, iss_resolution = None, iss_raisedAt = now\<rparr>"

definition decide_issue_raise ::
    "(string \<Rightarrow> string) \<Rightarrow> timestamp \<Rightarrow> ProjectionState \<Rightarrow> Plan \<Rightarrow> IssueRaise \<Rightarrow> portfolio_decision" where
  "decide_issue_raise sha now st pl r =
     (case mget (pl_programs pl) (irs_programId r) of
        None \<Rightarrow> reject PROGRAM_NOT_FOUND ''Active graph program does not exist''
      | Some p \<Rightarrow>
          if \<not> graph_mode p \<or> truthy (gp_activeGraphRevisionId p) = None
          then reject PROGRAM_NOT_FOUND ''Active graph program does not exist''
          else if mhas (pl_issues pl) (irs_issueId r)
          then reject ISSUE_NOT_FOUND ''Routed issue identifier already exists''
          else (case active_graph pl p of
              None \<Rightarrow> reject GRAPH_INVALID ''Issue scope must reference the active graph''
            | Some g \<Rightarrow>
                if list_ex (\<lambda>i. graphMilestone g i = None) (irs_affectedMilestoneIds r)
                then reject GRAPH_INVALID ''Issue scope must reference the active graph''
                else if irs_proposedClass r = Blocker \<and> retryAvailable st pl (irs_affectedMilestoneIds r)
                then reject PROGRAM_NOT_ADVANCEABLE ''Blockers route only after retries are exhausted''
                else
                  let paused = paused_milestones (graph_nodes (gs_graph g)) r; issue = raised_issue now r in
                  accept (map lifecycle_event (stop_events sha st pl (irs_issueId r) [] paused) @
                      [plan_event ''routed_issue'' (irs_issueId r)
                         (RoutedIssueRaised issue (digest_of sha (enc_RoutedIssue issue)) (sort paused))])
                    ''routed_issue'' (irs_issueId r)))"

section \<open>issue.resolve\<close>

definition resumed_milestones :: "Plan \<Rightarrow> RoutedIssue \<Rightarrow> IssueAction \<Rightarrow> uuid list" where
  "resumed_milestones pl i action =
     (if action \<noteq> Action_resume then []
      else filter (\<lambda>m. holds (mget (pl_milestones pl) m) (\<lambda>e. mle_pauseReason e = Some (iss_issueId i)))
        (iss_affectedMilestoneIds i))"

text \<open>Without an expected digest (\<open>None\<close>) the issue only has to be open.\<close>

definition issueResolutionEvent ::
    "(string \<Rightarrow> string) \<Rightarrow> Plan \<Rightarrow> uuid \<Rightarrow> digest option \<Rightarrow> IssueAction \<Rightarrow> string \<Rightarrow> string \<Rightarrow>
       (DomainErrorCode \<times> string) + PortfolioInput" where
  "issueResolutionEvent sha pl i expected action text actorId =
     (let stale = (if expected = None then (ISSUE_NOT_FOUND, ''Open routed issue does not exist'')
          else (DECISION_PACKET_STALE, ''Routed issue precondition changed'')) in
      case mget (pl_issues pl) i of
        None \<Rightarrow> Inl stale
      | Some e \<Rightarrow>
          if iss_status (ris_issue e) \<noteq> Issue_open \<or>
             holds expected (\<lambda>d. ris_issueDigest e \<noteq> d \<or> digest_of sha (enc_RoutedIssue (ris_issue e)) \<noteq> d)
          then Inl stale
          else Inr (plan_event ''routed_issue'' (iss_issueId (ris_issue e))
            (RoutedIssueResolved (iss_issueId (ris_issue e)) (iss_programId (ris_issue e)) action text actorId
               (resumed_milestones pl (ris_issue e) action))))"

definition decide_issue_resolve ::
    "(string \<Rightarrow> string) \<Rightarrow> Actor \<Rightarrow> Plan \<Rightarrow> uuid \<Rightarrow> IssueAction \<Rightarrow> string \<Rightarrow> portfolio_decision" where
  "decide_issue_resolve sha actor pl i action text =
     (if \<not> operator actor then reject APPROVAL_REQUIRES_OPERATOR ''Issue resolution requires an operator actor''
      else (case issueResolutionEvent sha pl i None action text (actor_id actor) of
          Inl (code, message) \<Rightarrow> reject code message
        | Inr e \<Rightarrow> accept [e] ''routed_issue'' i))"

section \<open>outcome-packet.disposition and attention spans\<close>

definition decide_disposition ::
    "(string \<Rightarrow> string) \<Rightarrow> Actor \<Rightarrow> timestamp \<Rightarrow> ProjectionState \<Rightarrow> Plan \<Rightarrow> uuid \<Rightarrow> string \<Rightarrow> string option \<Rightarrow>
       portfolio_decision" where
  "decide_disposition sha actor now st pl i disposition reason =
     (if \<not> operator actor
      then reject APPROVAL_REQUIRES_OPERATOR ''Outcome disposition requires an operator actor''
      else if mhas (pl_dispositions pl) i
      then reject PROGRAM_NOT_ADVANCEABLE ''Outcome packet already has a disposition''
      else (case outcomeDispositionEvent sha (plan_context st pl) i None disposition reason (actor_id actor) now of
          Inl (code, message) \<Rightarrow> reject code message
        | Inr e \<Rightarrow> accept [e] ''outcome_disposition'' i))"

definition decide_attention_start ::
    "Actor \<Rightarrow> timestamp \<Rightarrow> Plan \<Rightarrow> uuid \<Rightarrow> uuid \<Rightarrow> string \<Rightarrow> portfolio_decision" where
  "decide_attention_start actor now pl i program label =
     (if \<not> operator actor then reject APPROVAL_REQUIRES_OPERATOR ''Attention spans require an operator actor''
      else if \<not> mhas (pl_programs pl) program then reject PROGRAM_NOT_FOUND ''Program does not exist''
      else if mhas (pl_spans pl) i
      then reject ATTENTION_SPAN_NOT_FOUND ''Attention span identifier already exists''
      else if list_ex (\<lambda>n. asp_programId n = program \<and> asp_actorId n = actor_id actor \<and> asp_stoppedAt n = None)
          (mvalues (pl_spans pl))
      then reject MEASUREMENT_NOT_READY ''Actor already has an open attention span''
      else accept [plan_event ''attention_span'' i (AttentionSpanStarted
          \<lparr>asp_attentionSpanId = i, asp_programId = program, asp_actorId = actor_id actor,
           asp_label = label, asp_startedAt = now, asp_stoppedAt = None, asp_version = 0\<rparr>)]
        ''attention_span'' i)"

definition decide_attention_stop :: "Actor \<Rightarrow> timestamp \<Rightarrow> Plan \<Rightarrow> uuid \<Rightarrow> portfolio_decision" where
  "decide_attention_stop actor now pl i =
     (if \<not> operator actor then reject APPROVAL_REQUIRES_OPERATOR ''Attention spans require an operator actor''
      else (case mget (pl_spans pl) i of
          None \<Rightarrow> reject ATTENTION_SPAN_NOT_FOUND ''Open attention span does not exist''
        | Some n \<Rightarrow>
            if asp_stoppedAt n \<noteq> None \<or> asp_actorId n \<noteq> actor_id actor
            then reject ATTENTION_SPAN_NOT_FOUND ''Open attention span does not exist''
            else accept [plan_event ''attention_span'' (asp_attentionSpanId n)
              (AttentionSpanStopped (asp_attentionSpanId n) (asp_programId n) now)]
              ''attention_span'' (asp_attentionSpanId n)))"

section \<open>program.approve and milestone.start\<close>

record ProgramApproval =
  pga_programId :: uuid
  pga_name :: string
  pga_intent :: ProgramIntent
  pga_milestone :: MilestoneContract

definition decide_program_approve ::
    "(string \<Rightarrow> string) \<Rightarrow> Actor \<Rightarrow> ProjectionState \<Rightarrow> Plan \<Rightarrow> ProgramApproval \<Rightarrow> portfolio_decision" where
  "decide_program_approve sha actor st pl a =
     (let m = pga_milestone a; i = mc_milestoneId m; p = pga_programId a in
      if \<not> operator actor then reject APPROVAL_REQUIRES_OPERATOR ''Program approval requires an operator actor''
      else if mhas (pl_programs pl) p then reject PROGRAM_ALREADY_EXISTS ''Program already exists''
      else if mhas (pl_milestones pl) i then reject MILESTONE_ALREADY_EXISTS ''Milestone already exists''
      else (case contract_workflow st m of
          None \<Rightarrow> reject WORKFLOW_NOT_FOUND ''Workflow version does not exist''
        | Some w \<Rightarrow>
            if wd_schemaVersion (wf_definition w) = None
            then reject WORKFLOW_NOT_FOUND ''Approved milestones require a Workflow V2 definition''
            else (case wd_steps (wf_definition w) of
                [step] \<Rightarrow>
                  if ws_dependsOn step \<noteq> []
                  then reject SCHEDULE_MISMATCH ''Approved milestones require exactly one independent workflow step''
                  else if list_ex (\<lambda>k. mcr_verificationStepId k \<noteq> ws_id step) (mc_criteria m)
                  then reject SCHEDULE_MISMATCH
                    ''Every milestone criterion must bind to the workflow verification step''
                  else accept
                    [pf_event ''program'' p (Lifecycle (ProgramCreated p (pga_name a))),
                     plan_event ''program'' p (ProgramApproved p (pga_intent a)
                       (digest_of sha (enc_ProgramIntent (pga_intent a))) (actor_id actor)),
                     plan_event ''milestone'' i (MilestoneApproved
                       \<lparr>mla_milestoneId = i, mla_programId = p, mla_contract = m,
                        mla_contractDigest = digest_of sha (enc_MilestoneContract m),
                        mla_workflowDigest = wf_definitionDigest w, mla_approvedBy = actor_id actor,
                        mla_graphRevisionId = None, mla_dependencies = [],
                        mla_sourcePredecessorMilestoneId = None, mla_allowedWorkSurfaces = [],
                        mla_structuredWorkSurfaces = [], mla_resourceClaims = [],
                        mla_capabilityClaims = []\<rparr>)]
                    ''milestone'' i
              | _ \<Rightarrow> reject SCHEDULE_MISMATCH
                  ''Approved milestones require exactly one independent workflow step'')))"

record MilestoneStart =
  mss_milestoneId :: uuid
  mss_runId :: uuid
  mss_jobId :: uuid
  mss_sourceRevisionId :: uuid
  mss_policy :: JobPolicy

text \<open>The step of the approved workflow, with the contracts a step has from version 2 on.\<close>

definition approved_step :: "ProjectionState \<Rightarrow> MilestoneApproval \<Rightarrow>
    (WorkflowState \<times> WorkflowStep \<times> ExecutionContract \<times> CapabilityManifest \<times> VerifierContract) option" where
  "approved_step st a = do {
     w \<leftarrow> contract_workflow st (mla_contract a);
     (if wf_definitionDigest w = mla_workflowDigest a \<and> wd_schemaVersion (wf_definition w) \<noteq> None
      then (case wd_steps (wf_definition w) of
          [step] \<Rightarrow> do {
            x \<leftarrow> ws_execution step;
            c \<leftarrow> ws_capabilities step;
            v \<leftarrow> ws_verification step;
            Some (w, step, x, c, v) }
        | _ \<Rightarrow> None)
      else None) }"

definition single_job ::
    "(string \<Rightarrow> string) \<Rightarrow> MilestoneStart \<Rightarrow> WorkflowStep \<Rightarrow> ExecutionContract \<Rightarrow> CapabilityManifest \<Rightarrow>
       VerifierContract \<Rightarrow> JobScheduledData" where
  "single_job sha v step x c k =
     \<lparr>js_jobId = mss_jobId v, js_runId = mss_runId v, js_stepId = ws_id step,
      js_capability = ws_capability step, js_dependencyJobIds = [], js_initialStatus = J_ready,
      js_policy = mss_policy v, js_sourceRevisionId = Some (mss_sourceRevisionId v),
      js_executionContract = Some x, js_executionContractDigest = Some (digest_of sha (enc_ExecutionContract x)),
      js_capabilityManifest = Some c,
      js_capabilityManifestDigest = Some (digest_of sha (enc_CapabilityManifest c)),
      js_contextPacketId = None, js_contextPacketDigest = None, js_verifierContract = Some k,
      js_verifierContractDigest = Some (digest_of sha (enc_VerifierContract k))\<rparr>"

definition decide_milestone_start ::
    "(string \<Rightarrow> string) \<Rightarrow> Actor \<Rightarrow> ProjectionState \<Rightarrow> Plan \<Rightarrow> MilestoneStart \<Rightarrow> portfolio_decision" where
  "decide_milestone_start sha actor st pl v =
     (if \<not> operator actor then reject APPROVAL_REQUIRES_OPERATOR ''Milestone start requires an operator actor''
      else (case mget (pl_milestones pl) (mss_milestoneId v) of
          None \<Rightarrow> reject MILESTONE_NOT_FOUND ''Milestone does not exist''
        | Some m \<Rightarrow>
            if mla_graphRevisionId (mle_approval m) \<noteq> None
            then reject MILESTONE_NOT_STARTABLE ''program graph milestones start only through the program coordinator''
            else if mst_status m \<noteq> M_approved \<or> mle_runId m \<noteq> None
            then reject MILESTONE_NOT_STARTABLE ''Milestone has already started''
            else if mhas (runs st) (mss_runId v) then reject RUN_ALREADY_EXISTS ''Run already exists''
            else if mhas (jobs st) (mss_jobId v) then reject SCHEDULE_MISMATCH ''Job already exists''
            else if \<not> mhas (sourceRevisions st) (mss_sourceRevisionId v)
            then reject SOURCE_REVISION_NOT_FOUND ''Source revision does not exist''
            else (case approved_step st (mle_approval m) of
                None \<Rightarrow> reject WORKFLOW_NOT_FOUND ''Approved workflow contract is unavailable''
              | Some (w, step, x, c, k) \<Rightarrow>
                  if jp_attemptTimeoutMs (mss_policy v) < vc_timeoutMs k
                  then reject VERIFICATION_REQUIRED ''Verifier timeout must fit within the attempt timeout''
                  else accept
                    [plan_event ''milestone'' (mst_milestoneId m) (MilestoneStarted (mst_milestoneId m)
                       (mss_runId v) (mss_jobId v) (mss_sourceRevisionId v)),
                     plan_event ''run'' (mss_runId v) (MilestoneRunCreated (mss_runId v) (mst_milestoneId m)
                       (mla_programId (mle_approval m)) (wf_workflowId w) (wf_version w) None),
                     pf_event ''job'' (mss_jobId v) (Lifecycle (JobScheduled (single_job sha v step x c k))),
                     pf_event ''run'' (mss_runId v) (Lifecycle (RunScheduled (mss_runId v)))]
                    ''run'' (mss_runId v))))"

section \<open>The commands\<close>

datatype PlanCommand =
    Ln_kickoff uuid string uuid digest
  | Ln_interview InterviewCapture
  | Ln_graph_approve Graph
  | Ln_start_v1 uuid uuid digest JobPolicy
  | Ln_start_v2 uuid uuid uuid digest JobPolicy
  | Ln_advance ProgramAdvance
  | Ln_issue_raise IssueRaise
  | Ln_issue_resolve uuid IssueAction string
  | Ln_disposition uuid string "string option"
  | Ln_attention_start uuid uuid string
  | Ln_attention_stop uuid
  | Ln_program_approve ProgramApproval
  | Ln_milestone_start MilestoneStart

fun decide_plan ::
    "(string \<Rightarrow> string) \<Rightarrow> (string \<Rightarrow> string \<Rightarrow> int) \<Rightarrow> Actor \<Rightarrow> timestamp \<Rightarrow> ProjectionState \<Rightarrow> Portfolio \<Rightarrow> Plan \<Rightarrow>
       PlanCommand \<Rightarrow> portfolio_decision" where
  "decide_plan sha lc a now st s pl (Ln_kickoff i name r d) = decide_kickoff a st pl i name r d"
| "decide_plan sha lc a now st s pl (Ln_interview c) = decide_interview_capture sha a pl c"
| "decide_plan sha lc a now st s pl (Ln_graph_approve g) = decide_graph_approve sha a st s pl g"
| "decide_plan sha lc a now st s pl (Ln_start_v1 i g d p) = decide_program_start_v1 sha a now st pl i g d p"
| "decide_plan sha lc a now st s pl (Ln_start_v2 r i g d p) = decide_program_start_v2 a s pl r i g d p"
| "decide_plan sha lc a now st s pl (Ln_advance v) = decide_program_advance sha lc a now st pl v"
| "decide_plan sha lc a now st s pl (Ln_issue_raise r) = decide_issue_raise sha now st pl r"
| "decide_plan sha lc a now st s pl (Ln_issue_resolve i action text) = decide_issue_resolve sha a pl i action text"
| "decide_plan sha lc a now st s pl (Ln_disposition i d reason) = decide_disposition sha a now st pl i d reason"
| "decide_plan sha lc a now st s pl (Ln_attention_start i p label) = decide_attention_start a now pl i p label"
| "decide_plan sha lc a now st s pl (Ln_attention_stop i) = decide_attention_stop a now pl i"
| "decide_plan sha lc a now st s pl (Ln_program_approve x) = decide_program_approve sha a st pl x"
| "decide_plan sha lc a now st s pl (Ln_milestone_start v) = decide_milestone_start sha a st pl v"

end
