(* ===== verification/Outcome.thy ===== *)
theory Outcome
  imports PlanIssues
begin

text \<open>
  outcome.ts: the outcome packet derived from the evidence of a milestone's run, the events that
  record the outcomes of runs that have ended, and the verification of a stored packet.
  \<open>valid\<close> is what the schemas of the packet (zod) admit; \<open>lc\<close> is \<open>localeCompare\<close>.
\<close>

section \<open>Helpers\<close>

definition uniqueSorted :: "(string \<Rightarrow> string \<Rightarrow> int) \<Rightarrow> string list \<Rightarrow> string list" where
  "uniqueSorted lc xs = sort_by lc (insertion_set xs)"

definition requireValue :: "'a option \<Rightarrow> string \<Rightarrow> 'a result" where
  "requireValue x message = (case x of None \<Rightarrow> Inl message | Some v \<Rightarrow> Inr v)"

definition outcomePacketId :: "(string \<Rightarrow> string) \<Rightarrow> uuid \<Rightarrow> uuid \<Rightarrow> uuid" where
  "outcomePacketId sha m r = deterministicUuid sha (''parallelplay:outcome-packet:v1:'' @ m @ '':'' @ r)"

fun run_status_text :: "RunStatus \<Rightarrow> string" where
  "run_status_text R_created = ''created''"
| "run_status_text R_scheduled = ''scheduled''"
| "run_status_text R_running = ''running''"
| "run_status_text R_succeeded = ''succeeded''"
| "run_status_text R_failed = ''failed''"
| "run_status_text R_cancelled = ''cancelled''"

definition by_time :: "(string \<Rightarrow> string \<Rightarrow> int) \<Rightarrow> ('a \<Rightarrow> timestamp) \<Rightarrow> ('a \<Rightarrow> string) \<Rightarrow> 'a \<Rightarrow> 'a \<Rightarrow> int" where
  "by_time lc time key l r = then_by (lc (toISOString (time l)) (toISOString (time r))) (lc (key l) (key r))"

section \<open>What the packet is derived from\<close>

text \<open>
  The run with its generation, job, base revision and end: the lookups of \<open>buildOutcomePacket\<close>,
  each of which may raise an exception.
\<close>

record OutcomeSource =
  src_milestone :: MilestoneEntity
  src_program :: ProgramEntity
  src_run :: RunState
  src_generation :: "GenerationState option"
  src_job :: JobState
  src_base :: uuid
  src_endedAt :: timestamp
  src_graph :: "GraphEntity option"
  src_intentDigest :: digest

abbreviation (input) try_bind :: "'a result \<Rightarrow> ('a \<Rightarrow> 'b result) \<Rightarrow> 'b result" where
  "try_bind x f \<equiv> (case x of Inl e \<Rightarrow> Inl e | Inr v \<Rightarrow> f v)"

definition outcome_source :: "ProjectionState \<Rightarrow> Plan \<Rightarrow> uuid \<Rightarrow> uuid option \<Rightarrow> OutcomeSource result" where
  "outcome_source st pl i selected =
     try_bind (requireValue (mget (pl_milestones pl) i) ''Milestone is missing'') (\<lambda>m.
     try_bind (requireValue (mget (pl_programs pl) (mla_programId (mle_approval m))) ''Program is missing'') (\<lambda>p.
     try_bind (case selected of Some r \<Rightarrow> Inr r
                 | None \<Rightarrow> requireValue (mle_runId m) ''Milestone has not started'') (\<lambda>runId.
     try_bind (requireValue (mget (runs st) runId) ''Milestone run is missing'') (\<lambda>run.
     let gen = find (\<lambda>g. gen_runId g = runId) (mvalues (pl_generations pl)) in
     try_bind (case gen of Some g \<Rightarrow> Inr (gen_jobId g)
                 | None \<Rightarrow> requireValue (mle_jobId m) ''Milestone job is missing'') (\<lambda>jobId.
     try_bind (requireValue (mget (jobs st) jobId) ''Milestone job is missing'') (\<lambda>job.
     try_bind (requireValue (case gen of Some g \<Rightarrow> Some (gen_baseRevisionId g) | None \<Rightarrow> mle_baseRevisionId m)
                 ''Milestone base revision is missing'') (\<lambda>base.
     try_bind (requireValue (run_completedAt run) ''Milestone run is not terminal'') (\<lambda>at.
     let graph = Option.bind gen (\<lambda>g. mget (pl_graphs pl) (gen_graphRevisionId g)) in
     try_bind (case graph of Some g \<Rightarrow> Inr (ref_digest (gr_intentPlaybackRef (graph_base (gs_graph g))))
                 | None \<Rightarrow> requireValue (pge_intentDigest p) ''Approved program intent is missing'') (\<lambda>intent.
     Inr \<lparr>src_milestone = m, src_program = p, src_run = run, src_generation = gen, src_job = job,
          src_base = base, src_endedAt = at, src_graph = graph, src_intentDigest = intent\<rparr>)))))))))"

definition run_attempts :: "(string \<Rightarrow> string \<Rightarrow> int) \<Rightarrow> ProjectionState \<Rightarrow> uuid \<Rightarrow> uuid \<Rightarrow> AttemptState list" where
  "run_attempts lc st runId jobId =
     sort_by (\<lambda>l r. then_by (int (att_ordinal l) - int (att_ordinal r)) (lc (att_attemptId l) (att_attemptId r)))
       (filter (\<lambda>a. att_runId a = runId \<and> att_jobId a = Some jobId) (mvalues (attempts st)))"

definition run_receipts :: "(string \<Rightarrow> string \<Rightarrow> int) \<Rightarrow> ProjectionState \<Rightarrow> uuid \<Rightarrow> uuid \<Rightarrow> DriverReceiptState list" where
  "run_receipts lc st runId jobId =
     sort_by (by_time lc drs_recordedAt (\<lambda>r. drr_driverReceiptId (drs_record r)))
       (filter (\<lambda>r. drr_runId (drs_record r) = runId \<and> drr_jobId (drs_record r) = jobId) (mvalues (driverReceipts st)))"

definition run_verifications :: "(string \<Rightarrow> string \<Rightarrow> int) \<Rightarrow> ProjectionState \<Rightarrow> uuid \<Rightarrow> uuid \<Rightarrow> VerificationState list" where
  "run_verifications lc st runId jobId =
     sort_by (by_time lc ver_requestedAt ver_verificationId)
       (filter (\<lambda>v. vq_runId (ver_request v) = runId \<and> ver_jobId v = jobId) (mvalues (verifications st)))"

definition run_manifests :: "(string \<Rightarrow> string \<Rightarrow> int) \<Rightarrow> ProjectionState \<Rightarrow> uuid \<Rightarrow> uuid \<Rightarrow> ArtifactManifestState list" where
  "run_manifests lc st runId jobId =
     sort_by (by_time lc ams_createdAt (\<lambda>m. am_artifactManifestId (ams_manifest m)))
       (filter (\<lambda>m. am_runId (ams_manifest m) = runId \<and> am_jobId (ams_manifest m) = jobId)
         (mvalues (artifactManifests st)))"

section \<open>The packet\<close>

definition final_of :: "'a list \<Rightarrow> 'a option" where
  "final_of xs = (if xs = [] then None else Some (last xs))"

definition criterion_verdict :: "VerificationState option \<Rightarrow> CriterionVerdict" where
  "criterion_verdict v =
     (if map_option ver_status v = Some V_passed then Criterion_pass
      else if map_option ver_status v = Some V_failed then Criterion_fail else Criterion_unverified)"

definition primary_evidence :: "VerificationState option \<Rightarrow> ImmutableReference list" where
  "primary_evidence v = (case v of
     None \<Rightarrow> []
   | Some f \<Rightarrow> (case ver_receiptDigest f of
       None \<Rightarrow> [] | Some d \<Rightarrow> [reference ''verification'' (ver_verificationId f) d]))"

definition criteria_results :: "MilestoneContract \<Rightarrow> VerificationState option \<Rightarrow> OutcomeCriterion list" where
  "criteria_results c v = map (\<lambda>k. \<lparr>ocr_criterionId = mcr_criterionId k, ocr_statement = mcr_statement k,
     ocr_result = criterion_verdict v, ocr_evidenceRefs = primary_evidence v\<rparr>) (mc_criteria c)"

definition any_failed :: "OutcomeCriterion list \<Rightarrow> bool" where
  "any_failed cs = list_ex (\<lambda>c. ocr_result c = Criterion_fail) cs"

definition recommendation_of :: "OutcomeCriterion list \<Rightarrow> RunState \<Rightarrow> JobState \<Rightarrow> Recommendation" where
  "recommendation_of cs run job =
     (if any_failed cs then Rec_reject
      else if list_all (\<lambda>c. ocr_result c = Criterion_pass) cs \<and> run_status run = R_succeeded \<and>
         job_candidateRevisionId job \<noteq> None
      then Rec_merge else Rec_investigate)"

definition deviation_reasons ::
    "OutcomeCriterion list \<Rightarrow> RunState \<Rightarrow> JobState \<Rightarrow> VerificationState option \<Rightarrow> DriverReceiptState list \<Rightarrow>
       AttemptState list \<Rightarrow> string list" where
  "deviation_reasons cs run job v receipts as =
     (if job_candidateRevisionId job = None then [''candidate_missing''] else []) @
     (if v = None then [''verification_missing''] else []) @
     (if map_option ver_status v = Some V_invalid then [''verification_invalid''] else []) @
     (if map_option ver_status v = Some V_cancelled \<or> map_option ver_status v = Some V_requested
      then [''verification_incomplete''] else []) @
     (if any_failed cs then [''criterion_failed''] else []) @
     map (\<lambda>r. text_DriverOutcome (drr_outcome (drs_record r)))
       (filter (\<lambda>r. drr_outcome (drs_record r) \<noteq> DO_succeeded) receipts) @
     map text_TerminationReason (List.map_filter att_terminationReason as) @
     (if run_status run = R_cancelled then [''operator_cancelled''] else []) @
     (if run_status run = R_failed \<and> \<not> any_failed cs then [''run_failed''] else [])"

definition summary_text :: "Recommendation \<Rightarrow> OutcomeCriterion list \<Rightarrow> string" where
  "summary_text r cs = (let n = string_of_nat (length cs) in case r of
     Rec_merge \<Rightarrow> ''All '' @ n @ '' milestone criteria passed verification.''
   | Rec_reject \<Rightarrow> string_of_nat (length (filter (\<lambda>c. ocr_result c = Criterion_fail) cs)) @ '' of '' @ n @
       '' milestone criteria failed verification.''
   | Rec_investigate \<Rightarrow>
       ''Milestone ended without complete trustworthy verification; operator investigation is required.'')"

fun evidence_focus :: "Recommendation \<Rightarrow> string list" where
  "evidence_focus Rec_merge = [''Review the candidate diff and verification receipt before merging.'']"
| "evidence_focus Rec_reject =
     [''Review the failed verification receipt and candidate diff before rejecting.'']"
| "evidence_focus Rec_investigate =
     [''Review the terminal reason, attempt history, and available receipts before deciding next steps.'']"

definition terminal_reason :: "RunState \<Rightarrow> string" where
  "terminal_reason run =
     (if run_status run = R_succeeded then ''verified_success''
      else if run_status run = R_failed
      then (case run_failureReason run of None \<Rightarrow> ''run_failed'' | Some x \<Rightarrow> x)
      else (case run_cancellationReason run of None \<Rightarrow> ''operator_cancelled'' | Some x \<Rightarrow> x))"

definition verification_refs :: "VerificationState list \<Rightarrow> ImmutableReference list" where
  "verification_refs vs = concat (map (\<lambda>v. primary_evidence (Some v)) vs)"

definition packet_v1 ::
    "(string \<Rightarrow> string) \<Rightarrow> (string \<Rightarrow> string \<Rightarrow> int) \<Rightarrow> ProjectionState \<Rightarrow> OutcomeSource \<Rightarrow> OutcomePacket" where
  "packet_v1 sha lc st x =
     (let m = src_milestone x; run = src_run x; job = src_job x; runId = run_runId run; jobId = job_jobId job;
          as = run_attempts lc st runId jobId; receipts = run_receipts lc st runId jobId;
          vs = run_verifications lc st runId jobId; manifests = run_manifests lc st runId jobId;
          cs = criteria_results (mla_contract (mle_approval m)) (final_of vs);
          r = recommendation_of cs run job in
      \<lparr>opk_outcomePacketId = outcomePacketId sha (mst_milestoneId m) runId,
       opk_programId = prog_programId (src_program x), opk_milestoneId = mst_milestoneId m,
       opk_runId = runId, opk_baseRevisionId = src_base x,
       opk_candidateRevisionId = job_candidateRevisionId job, opk_intentDigest = src_intentDigest x,
       opk_milestoneContractDigest = mla_contractDigest (mle_approval m),
       opk_workflowDigest = mla_workflowDigest (mle_approval m), opk_criteriaResults = cs,
       opk_attemptHistory = map (\<lambda>a. \<lparr>oat_attemptId = att_attemptId a, oat_jobId = jobId,
         oat_ordinal = att_ordinal a, oat_status = att_status a,
         oat_terminationReason = att_terminationReason a, oat_usage = att_cumulativeUsage a\<rparr>) as,
       opk_driverReceipts = map (\<lambda>r. reference ''driver_receipt'' (drr_driverReceiptId (drs_record r))
         (drr_receiptDigest (drs_record r))) receipts,
       opk_verificationReceipts = verification_refs vs,
       opk_artifactManifests = map (\<lambda>m. reference ''artifact_manifest''
         (am_artifactManifestId (ams_manifest m)) (am_manifestDigest (ams_manifest m))) manifests,
       opk_capabilitiesUsed = uniqueSorted lc (concat (map (\<lambda>r. rc_capabilitiesUsed (drr_receipt (drs_record r))) receipts)),
       opk_terminalReason = terminal_reason run, opk_summary = summary_text r cs,
       opk_deviationReasons = uniqueSorted lc (deviation_reasons cs run job (final_of vs) receipts as),
       opk_recommendation = r, opk_humanEvidenceFocus = evidence_focus r,
       opk_generatedAt = src_endedAt x, opk_binding = None\<rparr>)"

text \<open>The binding to graph, generation and context packet of version 2.\<close>

definition outcome_binding ::
    "(string \<Rightarrow> string \<Rightarrow> int) \<Rightarrow> Plan \<Rightarrow> GenerationState \<Rightarrow> GraphEntity \<Rightarrow> ContextPacketState \<Rightarrow> OutcomeBinding" where
  "outcome_binding lc pl g graph context =
     (let refs = cp_dependencyOutcomeRefs (cps_packet context);
          vs = sort_by (\<lambda>l r. lc (ov_validationId (vds_validation l)) (ov_validationId (vds_validation r)))
            (filter (\<lambda>v. list_ex (\<lambda>r. ref_id r = ov_outcomePacketId (vds_validation v)) refs)
              (mvalues (pl_validations pl))) in
      \<lparr>obn_generationId = gen_generationId g, obn_generation = gen_generation g,
       obn_graphRevisionId = gs_graphRevisionId graph, obn_graphDigest = gs_graphDigest graph,
       obn_contextPacketId = cp_contextPacketId (cps_packet context),
       obn_contextPacketDigest = cps_packetDigest context, obn_dependencyOutcomeRefs = refs,
       obn_dependencyValidationRefs = map (\<lambda>v. reference ''outcome_validation''
         (ov_validationId (vds_validation v)) (vds_validationDigest v)) vs\<rparr>)"

definition parsed :: "(OutcomePacket \<Rightarrow> bool) \<Rightarrow> OutcomePacket \<Rightarrow> OutcomePacket result" where
  "parsed valid p = (if valid p then Inr p else Inl ''Outcome packet does not match its schema'')"

definition buildOutcomePacket ::
    "(OutcomePacket \<Rightarrow> bool) \<Rightarrow> (string \<Rightarrow> string) \<Rightarrow> (string \<Rightarrow> string \<Rightarrow> int) \<Rightarrow> ProjectionState \<Rightarrow> Plan \<Rightarrow> uuid \<Rightarrow>
       uuid option \<Rightarrow> OutcomePacket result" where
  "buildOutcomePacket valid sha lc st pl i selected =
     try_bind (outcome_source st pl i selected) (\<lambda>x.
     try_bind (parsed valid (packet_v1 sha lc st x)) (\<lambda>v1.
       case (src_generation x, src_graph x) of
         (Some g, Some graph) \<Rightarrow>
           try_bind (requireValue (mget (contextPackets st) (gen_contextPacketId g))
               ''Milestone context packet is missing'') (\<lambda>context.
             parsed valid (v1\<lparr>opk_binding := Some (outcome_binding lc pl g graph context)\<rparr>))
       | _ \<Rightarrow> Inr v1))"

section \<open>The events of ended runs\<close>

text \<open>The release of the generation's admission with the run's end.\<close>

definition generation_release :: "Portfolio \<Rightarrow> RunState \<Rightarrow> uuid \<Rightarrow> PortfolioInput list" where
  "generation_release s run generationId =
     (case find (\<lambda>e. as_status e = Claim_active \<and> pa_generationId (as_admission e) = generationId)
         (mvalues (portfolioAdmissions s)) of
        None \<Rightarrow> []
      | Some a \<Rightarrow>
          let i = pa_admissionId (as_admission a);
              leases = admission_leases i s;
              at = (case run_completedAt run of Some t \<Rightarrow> t
                | None \<Rightarrow> (case run_cancelledAt run of Some t \<Rightarrow> t | None \<Rightarrow> run_createdAt run)) in
          (case leases of
             [] \<Rightarrow> []
           | l # _ \<Rightarrow>
               let token = cl_fencingToken (ls_lease l) in
               if token \<noteq> 0 \<and> list_all (\<lambda>e. cl_fencingToken (ls_lease e) = token) leases
               then [pf_event ''portfolio_admission'' i (PortfolioAdmissionReleased i generationId token
                 (''terminal_run:'' @ run_status_text (run_status run)) at
                 (map (\<lambda>e. cl_leaseId (ls_lease e)) leases))]
               else []))"

definition outcome_events ::
    "(string \<Rightarrow> string) \<Rightarrow> Portfolio \<Rightarrow> MilestoneEntity \<Rightarrow> RunState \<Rightarrow> OutcomePacket \<Rightarrow> PortfolioInput list" where
  "outcome_events sha s m run p =
     [plan_event ''outcome_packet'' (opk_outcomePacketId p)
        (OutcomePacketRecorded p (digest_of sha (enc_OutcomePacket p))),
      plan_event ''milestone'' (mst_milestoneId m)
        (MilestoneOutcomeReady (mst_milestoneId m) (run_runId run) (opk_outcomePacketId p) (opk_recommendation p))] @
     (case opk_binding p of
        None \<Rightarrow> []
      | Some b \<Rightarrow>
          plan_event ''milestone_generation'' (obn_generationId b)
            (MilestoneGenerationOutcomeReady (obn_generationId b) (opk_outcomePacketId p) (opk_recommendation p)) #
          generation_release s run (obn_generationId b))"

text \<open>A run whose milestone waits for its outcome.\<close>

definition awaiting_outcome :: "ProjectionState \<Rightarrow> Plan \<Rightarrow> uuid \<Rightarrow> (RunState \<times> MilestoneEntity) option" where
  "awaiting_outcome st pl runId = do {
     run \<leftarrow> mget (runs st) runId;
     i \<leftarrow> truthy (run_milestoneId run);
     m \<leftarrow> mget (pl_milestones pl) i;
     (if (mst_status m = M_running \<or> mst_status m = M_paused) \<and> mle_outcomePacketId m = None
      then Some (run, m) else None) }"

fun derive_outcomes ::
    "(OutcomePacket \<Rightarrow> bool) \<Rightarrow> (string \<Rightarrow> string) \<Rightarrow> (string \<Rightarrow> string \<Rightarrow> int) \<Rightarrow> ProjectionState \<Rightarrow> Portfolio \<Rightarrow>
       Plan \<Rightarrow> uuid list \<Rightarrow> PortfolioInput list result" where
  "derive_outcomes valid sha lc st s pl [] = Inr []"
| "derive_outcomes valid sha lc st s pl (r # rs) =
     (case awaiting_outcome st pl r of
        None \<Rightarrow> derive_outcomes valid sha lc st s pl rs
      | Some (run, m) \<Rightarrow>
          try_bind (buildOutcomePacket valid sha lc st pl (mst_milestoneId m) (Some r)) (\<lambda>p.
            if mhas (pl_outcomePackets pl) (opk_outcomePacketId p) then derive_outcomes valid sha lc st s pl rs
            else map_sum id (\<lambda>es. outcome_events sha s m run p @ es) (derive_outcomes valid sha lc st s pl rs)))"

definition deriveOutcomeEvents ::
    "(OutcomePacket \<Rightarrow> bool) \<Rightarrow> (string \<Rightarrow> string) \<Rightarrow> (string \<Rightarrow> string \<Rightarrow> int) \<Rightarrow> ProjectionState \<Rightarrow> Portfolio \<Rightarrow>
       Plan \<Rightarrow> uuid list \<Rightarrow> PortfolioInput list result" where
  "deriveOutcomeEvents valid sha lc st s pl terminal =
     derive_outcomes valid sha lc st s pl (uniqueSorted lc terminal)"

section \<open>The verification of a packet\<close>

definition binding_failures :: "ProjectionState \<Rightarrow> Plan \<Rightarrow> OutcomePacket \<Rightarrow> OutcomeBinding \<Rightarrow> string list" where
  "binding_failures st pl p b =
     (if map_option gs_graphDigest (mget (pl_graphs pl) (obn_graphRevisionId b)) \<noteq> Some (obn_graphDigest b)
      then [''program graph digest mismatch''] else []) @
     (if map_option cps_packetDigest (mget (contextPackets st) (obn_contextPacketId b)) \<noteq>
         Some (obn_contextPacketDigest b)
      then [''context packet digest mismatch''] else []) @
     (if \<not> holds (mget (pl_generations pl) (obn_generationId b)) (\<lambda>g. gen_runId g = opk_runId p \<and>
         gen_contextPacketId g = obn_contextPacketId b \<and> gen_generation g = obn_generation b)
      then [''milestone generation binding mismatch''] else []) @
     concat (map (\<lambda>r.
       if map_option ope_packetDigest (mget (pl_outcomePackets pl) (ref_id r)) \<noteq> Some (ref_digest r)
       then [''dependency outcome digest mismatch: '' @ ref_id r] else []) (obn_dependencyOutcomeRefs b)) @
     concat (map (\<lambda>r.
       if map_option vds_validationDigest (mget (pl_validations pl) (ref_id r)) \<noteq> Some (ref_digest r)
       then [''dependency validation digest mismatch: '' @ ref_id r] else []) (obn_dependencyValidationRefs b))"

definition revision_failures ::
    "(string \<Rightarrow> string) \<Rightarrow> ProjectionState \<Rightarrow> string \<Rightarrow> uuid \<Rightarrow> string list" where
  "revision_failures sha st which i = (case mget (sourceRevisions st) i of
     None \<Rightarrow> [which @ '' source revision missing'']
   | Some r \<Rightarrow>
       if sourceRevisionDigest sha (srs_revision r) \<noteq> sr_revisionDigest (srs_revision r)
       then [which @ '' source revision digest mismatch''] else [])"

definition receipt_failures :: "(string \<Rightarrow> string) \<Rightarrow> ProjectionState \<Rightarrow> ImmutableReference \<Rightarrow> string list" where
  "receipt_failures sha st r = (case mget (driverReceipts st) (ref_id r) of
     None \<Rightarrow> [''driver receipt missing: '' @ ref_id r]
   | Some x \<Rightarrow>
       if drr_receiptDigest (drs_record x) \<noteq> ref_digest r \<or>
          driverReceiptDigest sha (drr_receipt (drs_record x)) \<noteq> drr_receiptDigest (drs_record x)
       then [''driver receipt digest mismatch: '' @ ref_id r] else [])"

definition manifest_failures :: "(string \<Rightarrow> string) \<Rightarrow> ProjectionState \<Rightarrow> ImmutableReference \<Rightarrow> string list" where
  "manifest_failures sha st r = (case mget (artifactManifests st) (ref_id r) of
     None \<Rightarrow> [''artifact manifest missing: '' @ ref_id r]
   | Some x \<Rightarrow>
       if am_manifestDigest (ams_manifest x) \<noteq> ref_digest r \<or>
          artifactManifestDigest sha (am_entries (ams_manifest x)) \<noteq> am_manifestDigest (ams_manifest x)
       then [''artifact manifest digest mismatch: '' @ ref_id r] else [])"

text \<open>The receipt of a verification, where all of its parts are there.\<close>

definition receipt_parts :: "ProjectionState \<Rightarrow> uuid \<Rightarrow>
    (VerificationState \<times> ArtifactManifestState \<times> VerificationResult \<times> digest \<times> digest) option" where
  "receipt_parts st i = do {
     v \<leftarrow> mget (verifications st) i;
     a \<leftarrow> truthy (ver_artifactManifestId v);
     m \<leftarrow> mget (artifactManifests st) a;
     r \<leftarrow> ver_result v;
     rd \<leftarrow> truthy (ver_resultDigest v);
     d \<leftarrow> truthy (ver_receiptDigest v);
     Some (v, m, r, rd, d) }"

definition verification_failures :: "(string \<Rightarrow> string) \<Rightarrow> ProjectionState \<Rightarrow> ImmutableReference \<Rightarrow> string list" where
  "verification_failures sha st r = (case receipt_parts st (ref_id r) of
     None \<Rightarrow> [''verification receipt missing: '' @ ref_id r]
   | Some (v, m, result, rd, d) \<Rightarrow>
       if d \<noteq> ref_digest r \<or> verificationResultDigest sha result \<noteq> rd \<or>
          verificationReceiptDigest sha (receiptIdentity v (am_artifactManifestId (ams_manifest m))
            (am_manifestDigest (ams_manifest m)) rd) \<noteq> d
       then [''verification receipt digest mismatch: '' @ ref_id r] else [])"

definition rederived_failures ::
    "(OutcomePacket \<Rightarrow> bool) \<Rightarrow> (string \<Rightarrow> string) \<Rightarrow> (string \<Rightarrow> string \<Rightarrow> int) \<Rightarrow> ProjectionState \<Rightarrow> Plan \<Rightarrow>
       OutcomePacket \<Rightarrow> string list" where
  "rederived_failures valid sha lc st pl p =
     (case buildOutcomePacket valid sha lc st pl (opk_milestoneId p) (Some (opk_runId p)) of
        Inl message \<Rightarrow> [message]
      | Inr expected \<Rightarrow>
          if canonicalJson (enc_OutcomePacket expected) \<noteq> canonicalJson (enc_OutcomePacket p)
          then [''outcome packet does not match authoritative evidence''] else [])"

definition packet_failures ::
    "(OutcomePacket \<Rightarrow> bool) \<Rightarrow> (string \<Rightarrow> string) \<Rightarrow> (string \<Rightarrow> string \<Rightarrow> int) \<Rightarrow> ProjectionState \<Rightarrow> Plan \<Rightarrow>
       OutcomePacketEntity \<Rightarrow> string list" where
  "packet_failures valid sha lc st pl e =
     (let p = ope_packet e in
      (if digest_of sha (enc_OutcomePacket p) \<noteq> ope_packetDigest e then [''outcome packet digest mismatch''] else []) @
      (case opk_binding p of None \<Rightarrow> [] | Some b \<Rightarrow> binding_failures st pl p b) @
      revision_failures sha st ''base'' (opk_baseRevisionId p) @
      (case truthy (opk_candidateRevisionId p) of
         None \<Rightarrow> [] | Some c \<Rightarrow> revision_failures sha st ''candidate'' c) @
      concat (map (receipt_failures sha st) (opk_driverReceipts p)) @
      concat (map (manifest_failures sha st) (opk_artifactManifests p)) @
      concat (map (verification_failures sha st) (opk_verificationReceipts p)) @
      rederived_failures valid sha lc st pl p)"

record PacketVerification =
  pvf_outcomePacketId :: uuid
  pvf_valid :: bool
  pvf_packetDigest :: "digest option"
  pvf_computedDigest :: "digest option"
  pvf_failures :: "string list"

definition verifyOutcomePacketState ::
    "(OutcomePacket \<Rightarrow> bool) \<Rightarrow> (string \<Rightarrow> string) \<Rightarrow> (string \<Rightarrow> string \<Rightarrow> int) \<Rightarrow> ProjectionState \<Rightarrow> Plan \<Rightarrow>
       OutcomePacketEntity option \<Rightarrow> PacketVerification" where
  "verifyOutcomePacketState valid sha lc st pl stored = (case stored of
     None \<Rightarrow> \<lparr>pvf_outcomePacketId = ''missing'', pvf_valid = False, pvf_packetDigest = None,
       pvf_computedDigest = None, pvf_failures = [''outcome packet missing'']\<rparr>
   | Some e \<Rightarrow>
       let failures = packet_failures valid sha lc st pl e in
       \<lparr>pvf_outcomePacketId = opk_outcomePacketId (ope_packet e), pvf_valid = (failures = []),
        pvf_packetDigest = Some (ope_packetDigest e),
        pvf_computedDigest = Some (digest_of sha (enc_OutcomePacket (ope_packet e))), pvf_failures = failures\<rparr>)"

end
