(* ===== verification/World.thy ===== *)
theory World
  imports Outcome Decide
begin

text \<open>
  The kernel's state as a whole: the run lifecycle, the portfolio and the program component.
  An event is applied to each (model.ts), a command is decided by the branch of its component
  (domain.ts), and a commit also records the outcomes of the runs its events end
  (sqlite-kernel.ts). \<open>world_reachable\<close> are the states commits lead to.
\<close>

section \<open>Events\<close>

record World =
  wd_state :: ProjectionState
  wd_portfolio :: Portfolio
  wd_plan :: Plan

definition emptyWorld :: World where
  "emptyWorld = \<lparr>wd_state = emptyProjectionState, wd_portfolio = emptyPortfolio, wd_plan = emptyPlan\<rparr>"

text \<open>\<open>MilestoneRunCreated\<close> is the one event of the program component that writes the lifecycle.\<close>

definition milestone_run_new ::
    "uuid \<Rightarrow> uuid \<Rightarrow> uuid \<Rightarrow> uuid \<Rightarrow> nat \<Rightarrow> (uuid \<times> nat) option \<Rightarrow> timestamp \<Rightarrow> nat \<Rightarrow> RunState" where
  "milestone_run_new r m p w n g at v = (run_new r p w n at v)\<lparr>run_milestoneId := Some m,
     run_generationId := map_option fst g, run_generation := map_option snd g\<rparr>"

fun apply_lifecycle :: "(string \<Rightarrow> string) \<Rightarrow> timestamp \<Rightarrow> nat \<Rightarrow> PortfolioData \<Rightarrow> ProjectionState \<Rightarrow> ProjectionState result" where
  "apply_lifecycle sha at v (Lifecycle d) st = apply_event sha at v d st"
| "apply_lifecycle sha at v (Planned (MilestoneRunCreated r m p w n g)) st =
     Inr (st\<lparr>runs := mput r (milestone_run_new r m p w n g at v) (runs st)\<rparr>)"
| "apply_lifecycle sha at v _ st = Inr st"

text \<open>The programs as the lifecycle reads them.\<close>

definition program_view :: "Plan \<Rightarrow> (uuid, ProgramState) jsmap" where
  "program_view pl = view_map ProgramState.truncate (pl_programs pl)"

definition evolve_world ::
    "(string \<Rightarrow> string) \<Rightarrow> timestamp \<Rightarrow> World \<Rightarrow> PortfolioInput \<times> nat \<Rightarrow> World result" where
  "evolve_world sha at w x =
     (let d = pi_data (fst x); v = snd x in
      try_bind (apply_to_plan sha v at (wd_portfolio w) d (wd_plan w)) (\<lambda>pl.
      try_bind (apply_portfolio sha v at d (wd_portfolio w)) (\<lambda>s.
      try_bind (apply_lifecycle sha at v d (wd_state w)) (\<lambda>st.
        Inr \<lparr>wd_state = st\<lparr>programs := program_view pl,
               lastAppliedPosition := Suc (lastAppliedPosition (wd_state w))\<rparr>,
             wd_portfolio = s, wd_plan = pl\<rparr>))))"

abbreviation evolve_all ::
    "(string \<Rightarrow> string) \<Rightarrow> timestamp \<Rightarrow> World \<Rightarrow> PortfolioInput list \<Rightarrow> nat list \<Rightarrow> World result" where
  "evolve_all sha at w es vs \<equiv> try_fold (evolve_world sha at) w (zip es vs)"

section \<open>Commands\<close>

text \<open>
  What the program component does not keep is open: \<open>policies\<close> and \<open>packets\<close> are the attention
  policies and the decision packets.
\<close>

definition world_context ::
    "(uuid, AttentionPolicyState) jsmap \<Rightarrow> (uuid, DecisionPacketState) jsmap \<Rightarrow> World \<Rightarrow> PortfolioContext" where
  "world_context policies packets w = (plan_context (wd_state w) (wd_plan w))
     \<lparr>cx_attentionPolicies := policies, cx_decisionPackets := packets\<rparr>"

datatype WorldCommand =
    Wc_lifecycle CommandBody
  | Wc_portfolio PortfolioCommand
  | Wc_plan PlanCommand

fun world_events ::
    "(string \<Rightarrow> string) \<Rightarrow> (string \<Rightarrow> string \<Rightarrow> int) \<Rightarrow> Actor \<Rightarrow> timestamp \<Rightarrow> PortfolioContext \<Rightarrow> World \<Rightarrow> WorldCommand \<Rightarrow>
       PortfolioInput list option" where
  "world_events sha lc a now cx w (Wc_lifecycle body) = (case decide_body sha (wd_state w) now body of
     Accept es k i \<Rightarrow> Some (map lifecycle_event es) | _ \<Rightarrow> None)"
| "world_events sha lc a now cx w (Wc_portfolio c) = (case decide_portfolio sha lc a now cx (wd_portfolio w) c of
     Inl x \<Rightarrow> None | Inr (es, k, i) \<Rightarrow> Some es)"
| "world_events sha lc a now cx w (Wc_plan c) =
     (case decide_plan sha lc a now (wd_state w) (wd_portfolio w) (wd_plan w) c of
        Inl x \<Rightarrow> None | Inr (es, k, i) \<Rightarrow> Some es)"

section \<open>Commits\<close>

fun ended_run :: "PortfolioData \<Rightarrow> uuid option" where
  "ended_run (Lifecycle (RunSucceeded r)) = Some r"
| "ended_run (Lifecycle (RunFailed r reason)) = Some r"
| "ended_run (Lifecycle (RunCancelled r reason)) = Some r"
| "ended_run _ = None"

definition ended_runs :: "PortfolioInput list \<Rightarrow> uuid list" where
  "ended_runs es = List.map_filter (\<lambda>e. ended_run (pi_data e)) es"

text \<open>The events of a decision, then those that \<open>deriveOutcomeEvents\<close> adds; \<open>vs\<close> and \<open>us\<close> are their versions.\<close>

definition commit_world ::
    "(OutcomePacket \<Rightarrow> bool) \<Rightarrow> (string \<Rightarrow> string) \<Rightarrow> (string \<Rightarrow> string \<Rightarrow> int) \<Rightarrow> timestamp \<Rightarrow> World \<Rightarrow>
       PortfolioInput list \<Rightarrow> nat list \<Rightarrow> nat list \<Rightarrow> World result" where
  "commit_world valid sha lc now w es vs us =
     try_bind (evolve_all sha now w es vs) (\<lambda>w1.
     try_bind (deriveOutcomeEvents valid sha lc (wd_state w1) (wd_portfolio w1) (wd_plan w1) (ended_runs es))
       (\<lambda>os. if length us = length os then evolve_all sha now w1 os us
             else Inl ''Every event has a version''))"

definition world_commits ::
    "(OutcomePacket \<Rightarrow> bool) \<Rightarrow> (string \<Rightarrow> string) \<Rightarrow> (string \<Rightarrow> string \<Rightarrow> int) \<Rightarrow> Actor \<Rightarrow> timestamp \<Rightarrow>
       PortfolioContext \<Rightarrow> WorldCommand \<Rightarrow> World \<Rightarrow> World \<Rightarrow> bool" where
  "world_commits valid sha lc a now cx c w w' \<longleftrightarrow> (\<exists>es vs us. world_events sha lc a now cx w c = Some es \<and>
     length vs = length es \<and> commit_world valid sha lc now w es vs us = Inr w')"

text \<open>
  Commands that other components decide write these events of the program component: decisions
  of the operator park and resume programs, set their priority, resolve issues and dispose of
  outcomes.
\<close>

inductive decided_elsewhere :: "(string \<Rightarrow> string) \<Rightarrow> World \<Rightarrow> PortfolioInput \<Rightarrow> bool" for sha w where
  "decided_elsewhere sha w (plan_event ''program'' i (ProgramParked i reason by))"
| "decided_elsewhere sha w (plan_event ''program'' i (ProgramResumed i by))"
| "decided_elsewhere sha w (plan_event ''program'' i (ProgramAttentionPriorityChanged i priority by))"
| "issueResolutionEvent sha (wd_plan w) i (Some d) action text by = Inr e \<Longrightarrow> decided_elsewhere sha w e"
| "outcomeDispositionEvent sha (plan_context (wd_state w) (wd_plan w)) i (Some d) disposition reason by now = Inr e \<Longrightarrow>
     decided_elsewhere sha w e"

text \<open>The schemas admit only non-empty identifiers, of which the model needs that of a graph.\<close>

fun well_named :: "WorldCommand \<Rightarrow> bool" where
  "well_named (Wc_plan (Ln_graph_approve g)) = (gr_graphRevisionId (graph_base g) \<noteq> '''')"
| "well_named _ = True"

inductive world_reachable ::
    "(OutcomePacket \<Rightarrow> bool) \<Rightarrow> (string \<Rightarrow> string) \<Rightarrow> (string \<Rightarrow> string \<Rightarrow> int) \<Rightarrow> World \<Rightarrow> World \<Rightarrow> bool"
  for valid sha lc w0 where
  world_start: "world_reachable valid sha lc w0 w0"
| world_commit: "world_reachable valid sha lc w0 w \<Longrightarrow> well_named c \<Longrightarrow>
    world_commits valid sha lc a now (world_context policies packets w) c w w' \<Longrightarrow> world_reachable valid sha lc w0 w'"
| world_elsewhere: "world_reachable valid sha lc w0 w \<Longrightarrow> decided_elsewhere sha w e \<Longrightarrow>
    evolve_world sha now w (e, v) = Inr w' \<Longrightarrow> world_reachable valid sha lc w0 w'"

text \<open>Every state keeps the lifecycle's programs as the view of the component's.\<close>

definition in_step :: "World \<Rightarrow> bool" where
  "in_step w \<longleftrightarrow> programs (wd_state w) = program_view (wd_plan w)"

lemma in_step_evolve: "evolve_world sha at w x = Inr w' \<Longrightarrow> in_step w'"
  by (auto simp: evolve_world_def in_step_def Let_def split: sum.splits)

lemma try_fold_invariant:
  assumes "try_fold f s es = Inr s'" and "P s" and "\<And>s e s'. f s e = Inr s' \<Longrightarrow> P s \<Longrightarrow> P s'"
  shows "P s'"
  using assms by (induction es arbitrary: s) (auto split: sum.splits)

lemma in_step_all: "evolve_all sha at w es vs = Inr w' \<Longrightarrow> in_step w \<Longrightarrow> in_step w'"
  by (rule try_fold_invariant) (auto intro: in_step_evolve)

lemma commit_worldE:
  assumes "commit_world valid sha lc now w es vs us = Inr w'"
  obtains w1 os where "evolve_all sha now w es vs = Inr w1"
    "deriveOutcomeEvents valid sha lc (wd_state w1) (wd_portfolio w1) (wd_plan w1) (ended_runs es) = Inr os"
    "length us = length os" "evolve_all sha now w1 os us = Inr w'"
  using assms by (auto simp: commit_world_def split: sum.splits if_splits)

lemma in_step_commit: "commit_world valid sha lc now w es vs us = Inr w' \<Longrightarrow> in_step w \<Longrightarrow> in_step w'"
  by (elim commit_worldE) (auto intro: in_step_all)

lemma reachable_in_step: "world_reachable valid sha lc w0 w \<Longrightarrow> in_step w0 \<Longrightarrow> in_step w"
  by (induction rule: world_reachable.induct) (auto simp: world_commits_def intro: in_step_commit in_step_evolve)

lemma empty_in_step [simp]: "in_step emptyWorld"
  by (simp add: in_step_def emptyWorld_def emptyProjectionState_def emptyPlan_def program_view_def view_map_def)

end
