(* ===== verification/PlanFacts.thy ===== *)
theory PlanFacts
  imports World
begin

text \<open>
  What every event keeps of the program component: each entity stands under its own identifier
  with the digest of its content, and an event that overwrites nothing keeps the records that
  are never to change.
\<close>

section \<open>Typed maps\<close>

definition typed_map :: "('k \<Rightarrow> 'v \<Rightarrow> bool) \<Rightarrow> ('k, 'v) jsmap \<Rightarrow> bool" where
  "typed_map P m \<longleftrightarrow> mwf m \<and> (\<forall>k v. mget m k = Some v \<longrightarrow> P k v)"

lemma typed_map_Nil [simp]: "typed_map P []"
  by (simp add: typed_map_def)

lemma typed_map_mput [intro!]: "typed_map P m \<Longrightarrow> P k v \<Longrightarrow> typed_map P (mput k v m)"
  by (simp add: typed_map_def)

lemma typed_mapD: "typed_map P m \<Longrightarrow> mget m k = Some v \<Longrightarrow> P k v"
  by (simp add: typed_map_def)

lemma typed_map_values: "typed_map P m \<Longrightarrow> v \<in> set (mvalues m) \<Longrightarrow> \<exists>k. mget m k = Some v \<and> P k v"
  using mvalues_iff [of m v] by (auto simp: typed_map_def)

section \<open>Typed entities\<close>

definition program_typed :: "(string \<Rightarrow> string) \<Rightarrow> uuid \<Rightarrow> ProgramEntity \<Rightarrow> bool" where
  "program_typed sha i p \<longleftrightarrow> prog_programId p = i \<and>
     pge_intentDigest p = map_option (\<lambda>n. digest_of sha (enc_ProgramIntent n)) (pge_intent p)"

definition milestone_typed :: "(string \<Rightarrow> string) \<Rightarrow> uuid \<Rightarrow> MilestoneEntity \<Rightarrow> bool" where
  "milestone_typed sha i m \<longleftrightarrow> mst_milestoneId m = i \<and> mla_milestoneId (mle_approval m) = i \<and>
     mla_contractDigest (mle_approval m) = digest_of sha (enc_MilestoneContract (mla_contract (mle_approval m)))"

definition packet_typed :: "(string \<Rightarrow> string) \<Rightarrow> uuid \<Rightarrow> OutcomePacketEntity \<Rightarrow> bool" where
  "packet_typed sha i e \<longleftrightarrow> opk_outcomePacketId (ope_packet e) = i \<and>
     ope_packetDigest e = digest_of sha (enc_OutcomePacket (ope_packet e))"

definition interview_typed :: "(string \<Rightarrow> string) \<Rightarrow> uuid \<Rightarrow> InterviewState \<Rightarrow> bool" where
  "interview_typed sha i n \<longleftrightarrow> ivw_interviewId n = i \<and>
     ivw_transcriptDigest n = digest_of sha (enc_transcript (ivw_transcript n)) \<and>
     ivw_playbackDigest n = digest_of sha (enc_IntentPlayback (ivw_playback n))"

definition graph_typed :: "(string \<Rightarrow> string) \<Rightarrow> uuid \<Rightarrow> GraphEntity \<Rightarrow> bool" where
  "graph_typed sha i g \<longleftrightarrow> gs_graphRevisionId g = i \<and> gr_graphRevisionId (graph_base (gs_graph g)) = i \<and>
     gs_programId g = gr_programId (graph_base (gs_graph g)) \<and> gs_graphDigest g = digest_of sha (enc_Graph (gs_graph g)) \<and>
     gre_priorGraphRevisionId g = map_option ref_id (gr_priorGraphRef (graph_base (gs_graph g)))"

definition validation_typed :: "(string \<Rightarrow> string) \<Rightarrow> uuid \<Rightarrow> ValidationState \<Rightarrow> bool" where
  "validation_typed sha i e \<longleftrightarrow> ov_validationId (vds_validation e) = i \<and>
     vds_validationDigest e = digest_of sha (enc_ValidationRecord (vds_validation e))"

definition issue_typed :: "(string \<Rightarrow> string) \<Rightarrow> uuid \<Rightarrow> IssueState \<Rightarrow> bool" where
  "issue_typed sha i e \<longleftrightarrow> iss_issueId (ris_issue e) = i \<and>
     ris_issueDigest e = digest_of sha (enc_RoutedIssue (ris_issue e))"

definition plan_typed :: "(string \<Rightarrow> string) \<Rightarrow> Plan \<Rightarrow> bool" where
  "plan_typed sha pl \<longleftrightarrow> typed_map (program_typed sha) (pl_programs pl) \<and>
     typed_map (milestone_typed sha) (pl_milestones pl) \<and> typed_map (packet_typed sha) (pl_outcomePackets pl) \<and>
     typed_map (interview_typed sha) (pl_interviews pl) \<and> typed_map (graph_typed sha) (pl_graphs pl) \<and>
     typed_map (\<lambda>i g. gen_generationId g = i) (pl_generations pl) \<and>
     typed_map (validation_typed sha) (pl_validations pl) \<and> typed_map (issue_typed sha) (pl_issues pl) \<and>
     typed_map (\<lambda>i n. asp_attentionSpanId n = i) (pl_spans pl) \<and>
     typed_map (\<lambda>i n. od_outcomePacketId n = i) (pl_dispositions pl)"

lemmas typed_defs = program_typed_def milestone_typed_def packet_typed_def interview_typed_def graph_typed_def
  validation_typed_def issue_typed_def

lemma empty_typed [simp]: "plan_typed sha emptyPlan"
  by (simp add: plan_typed_def emptyPlan_def)

lemma typed_ids:
  assumes "plan_typed sha pl"
  shows "mget (pl_programs pl) i = Some p \<Longrightarrow> prog_programId p = i"
    and "mget (pl_milestones pl) i = Some m \<Longrightarrow> mst_milestoneId m = i"
    and "mget (pl_graphs pl) i = Some g \<Longrightarrow> gs_graphRevisionId g = i"
    and "mget (pl_generations pl) i = Some n \<Longrightarrow> gen_generationId n = i"
    and "mget (pl_issues pl) i = Some e \<Longrightarrow> iss_issueId (ris_issue e) = i"
    and "mget (pl_spans pl) i = Some t \<Longrightarrow> asp_attentionSpanId t = i"
    and "mget (pl_outcomePackets pl) i = Some k \<Longrightarrow> opk_outcomePacketId (ope_packet k) = i"
  using assms by (auto simp: plan_typed_def typed_map_def typed_defs)

lemma typed_at:
  assumes "plan_typed sha pl"
  shows "mget (pl_programs pl) i = Some p \<Longrightarrow> program_typed sha i p"
    and "mget (pl_milestones pl) i = Some m \<Longrightarrow> milestone_typed sha i m"
    and "mget (pl_graphs pl) i = Some g \<Longrightarrow> graph_typed sha i g"
    and "mget (pl_issues pl) i = Some e \<Longrightarrow> issue_typed sha i e"
    and "mget (pl_interviews pl) i = Some n \<Longrightarrow> interview_typed sha i n"
    and "mget (pl_outcomePackets pl) i = Some k \<Longrightarrow> packet_typed sha i k"
  using assms by (auto simp: plan_typed_def typed_map_def)

section \<open>Every event keeps the types\<close>

lemma put_typed:
  assumes "plan_typed sha pl"
  shows "program_typed sha (prog_programId p) p \<Longrightarrow> plan_typed sha (put_program p pl)"
    and "graph_typed sha (gs_graphRevisionId g) g \<Longrightarrow> plan_typed sha (put_graph g pl)"
    and "milestone_typed sha (mst_milestoneId m) m \<Longrightarrow> plan_typed sha (put_milestone m pl)"
    and "plan_typed sha (put_generation n pl)"
    and "plan_typed sha (put_issue sha v e pl)"
  using assms
  by (auto simp: plan_typed_def put_program_def put_graph_def put_milestone_def put_generation_def put_issue_def
      issue_typed_def)

lemma on_program_typed:
  assumes "plan_typed sha pl" and "on_program i v f pl = Inr pl'"
    and "\<And>p. program_typed sha i p \<Longrightarrow> program_typed sha i (f (p\<lparr>prog_version := v\<rparr>))"
  shows "plan_typed sha pl'"
proof -
  obtain p where p: "mget (pl_programs pl) i = Some p" "pl' = put_program (f (p\<lparr>prog_version := v\<rparr>)) pl"
    using assms(2) by (auto simp: on_program_def found_def split: option.splits)
  have "program_typed sha i p" using assms(1) p(1) by (auto simp: plan_typed_def typed_map_def)
  with assms(3) have "program_typed sha i (f (p\<lparr>prog_version := v\<rparr>))" by blast
  then show ?thesis using put_typed(1) [OF assms(1)] p(2) by (auto simp: program_typed_def)
qed

lemma on_milestone_typed:
  assumes "plan_typed sha pl" and "on_milestone i f pl = Inr pl'"
    and "\<And>m. milestone_typed sha i m \<Longrightarrow> milestone_typed sha i (f m)"
  shows "plan_typed sha pl'"
proof -
  obtain m where m: "mget (pl_milestones pl) i = Some m" "pl' = put_milestone (f m) pl"
    using assms(2) by (auto simp: on_milestone_def found_def split: option.splits)
  have "milestone_typed sha i m" using assms(1) m(1) by (auto simp: plan_typed_def typed_map_def)
  with assms(3) have "milestone_typed sha i (f m)" by blast
  then show ?thesis using put_typed(3) [OF assms(1)] m(2) by (auto simp: milestone_typed_def)
qed

text \<open>The changes of programs and milestones that events make.\<close>

lemma program_changes_typed [simp]:
  "program_typed sha i (program_phase phase p) \<longleftrightarrow> program_typed sha i p"
  "program_typed sha i (graph_approved g d by at p) \<longleftrightarrow> program_typed sha i p"
  "program_typed sha i (program_started_at k d at p) \<longleftrightarrow> program_typed sha i p"
  "program_typed sha i (execution_requested r policy at p) \<longleftrightarrow> program_typed sha i p"
  "program_typed sha i (program_parked p) \<longleftrightarrow> program_typed sha i p"
  "program_typed sha i (program_resumed p) \<longleftrightarrow> program_typed sha i p"
  "program_typed sha i (p\<lparr>prog_version := v\<rparr>) \<longleftrightarrow> program_typed sha i p"
  "program_typed sha i (p\<lparr>prog_phase := phase\<rparr>) \<longleftrightarrow> program_typed sha i p"
  "program_typed sha i (p\<lparr>pge_attentionPriority := priority\<rparr>) \<longleftrightarrow> program_typed sha i p"
  "program_typed sha i (program_approved n (digest_of sha (enc_ProgramIntent n)) by at p) \<longleftrightarrow> prog_programId p = i"
  "program_typed sha i (new_program j name mode phase source v at) \<longleftrightarrow> i = j"
  by (auto simp: program_typed_def program_phase_def graph_approved_def program_started_at_def execution_requested_def
      program_parked_def program_resumed_def program_approved_def new_program_def)

lemma milestone_changes_typed [simp]:
  "milestone_typed sha i (milestone_running n v m) \<longleftrightarrow> milestone_typed sha i m"
  "milestone_typed sha i (milestone_started run job base at v m) \<longleftrightarrow> milestone_typed sha i m"
  "milestone_typed sha i (milestone_outcome packet r at v m) \<longleftrightarrow> milestone_typed sha i m"
  "milestone_typed sha i (validated packet m) \<longleftrightarrow> milestone_typed sha i m"
  "milestone_typed sha i (m\<lparr>mst_status := s, mle_pauseReason := x\<rparr>) \<longleftrightarrow> milestone_typed sha i m"
  "milestone_typed sha i (m\<lparr>mst_status := s, mle_activeGenerationId := g, mle_pauseReason := x\<rparr>) \<longleftrightarrow> milestone_typed sha i m"
  by (simp_all add: milestone_typed_def milestone_running_def milestone_started_def milestone_outcome_def validated_def)

lemma new_program_typed: "plan_typed sha pl \<Longrightarrow> plan_typed sha (put_program (new_program i name mode phase source v at) pl)"
  by (rule put_typed(1)) (simp_all add: new_program_def program_typed_def)

lemma check_digestE:
  assumes "check_digest sha x d message r = Inr y"
  obtains "d = digest_of sha x" "r = Inr y"
  using assms by (auto simp: check_digest_def split: if_splits)

lemma foundE:
  assumes "found m k message f = Inr y"
  obtains v where "mget m k = Some v" "f v = Inr y"
  using assms by (auto simp: found_def split: option.splits)

lemma pause_typed:
  assumes "plan_typed sha pl" and "pause_milestone issue pl i = Inr pl'"
  shows "plan_typed sha pl'"
proof -
  obtain m where m: "mget (pl_milestones pl) i = Some m"
    "pl' = pause_generation (mle_activeGenerationId m)
       (pl\<lparr>pl_milestones := mput i (m\<lparr>mst_status := M_paused, mle_pauseReason := Some issue\<rparr>) (pl_milestones pl)\<rparr>)"
    using assms(2) by (auto simp: pause_milestone_def elim!: foundE)
  have "plan_typed sha (pl\<lparr>pl_milestones := mput i (m\<lparr>mst_status := M_paused, mle_pauseReason := Some issue\<rparr>)
      (pl_milestones pl)\<rparr>)"
    using assms(1) typed_at(2) [OF assms(1) m(1)] by (auto simp: plan_typed_def)
  then show ?thesis by (auto simp: m(2) pause_generation_def intro: put_typed split: option.splits)
qed

lemma resume_typed:
  assumes "plan_typed sha pl" and "resume_milestone pl i = Inr pl'"
  shows "plan_typed sha pl'"
  using assms(2) unfolding resume_milestone_def
proof (elim foundE)
  fix m assume m: "mget (pl_milestones pl) i = Some m"
    and p: "Inr (pl\<lparr>pl_milestones := mput i (m\<lparr>mst_status := M_approved, mle_activeGenerationId := None,
      mle_pauseReason := None\<rparr>) (pl_milestones pl)\<rparr>) = Inr pl'"
  from p show ?thesis using assms(1) typed_at(2) [OF assms(1) m] by (auto simp: plan_typed_def)
qed

lemma graph_approved_typed:
  assumes "plan_typed sha pl" and "apply_graph_approved sha v at g d by pl = Inr pl'"
  shows "plan_typed sha pl'"
proof -
  obtain pl1 where "on_program (gr_programId (graph_base g)) v (graph_approved g d by at) pl = Inr pl1"
    and pl': "pl' = put_graph (graph_entity g d by v at) pl1" and d: "d = digest_of sha (enc_Graph g)"
    using assms(2) by (auto simp: apply_graph_approved_def map_sum_def elim!: check_digestE split: sum.splits)
  then have "plan_typed sha pl1" by (intro on_program_typed [OF assms(1)]) auto
  then show ?thesis
    unfolding pl' by (rule put_typed(2)) (simp add: graph_entity_def graph_typed_def Let_def d)
qed

lemma issue_events_typed:
  assumes t: "plan_typed sha pl"
  shows "apply_issue_raised sha v i d paused pl = Inr pl' \<Longrightarrow> plan_typed sha pl'"
    and "apply_issue_resolved sha v at j action text by resumed pl = Inr pl' \<Longrightarrow> plan_typed sha pl'"
    and "apply_issue_satisfied sha v j program graph pl = Inr pl' \<Longrightarrow> plan_typed sha pl'"
proof -
  show "plan_typed sha pl'" if "apply_issue_raised sha v i d paused pl = Inr pl'"
    using that unfolding apply_issue_raised_def
    by (elim check_digestE, elim try_fold_invariant) (auto intro: put_typed t pause_typed)
  show "plan_typed sha pl'" if "apply_issue_resolved sha v at j action text by resumed pl = Inr pl'"
    using that unfolding apply_issue_resolved_def
    by (elim foundE, elim try_fold_invariant) (auto intro: put_typed t resume_typed)
  show "plan_typed sha pl'" if "apply_issue_satisfied sha v j program graph pl = Inr pl'"
    using that put_typed(5) [OF t] by (auto simp: apply_issue_satisfied_def elim!: foundE split: option.splits if_splits)
qed

lemma outcome_events_typed:
  assumes t: "plan_typed sha pl"
  shows "apply_generation_started v n pl = Inr pl' \<Longrightarrow> plan_typed sha pl'"
    and "apply_packet_recorded sha v at p d pl = Inr pl' \<Longrightarrow> plan_typed sha pl'"
    and "apply_validation_recorded sha v x d pl = Inr pl' \<Longrightarrow> plan_typed sha pl'"
proof -
  show "plan_typed sha pl'" if "apply_generation_started v n pl = Inr pl'"
    using that unfolding apply_generation_started_def
    by (rule on_milestone_typed [OF put_typed(4) [OF t]]) simp
  show "plan_typed sha pl'" if "apply_packet_recorded sha v at p d pl = Inr pl'"
    using that t by (auto simp: apply_packet_recorded_def plan_typed_def packet_typed_def elim!: check_digestE)
  show "plan_typed sha pl'" if "apply_validation_recorded sha v x d pl = Inr pl'"
    using that unfolding apply_validation_recorded_def
    by (elim check_digestE, elim on_milestone_typed [rotated])
       (use t in \<open>auto simp: plan_typed_def validation_typed_def\<close>)
qed

lemma approval_events_typed:
  assumes t: "plan_typed sha pl"
  shows "apply_interview_captured sha v at n pl = Inr pl' \<Longrightarrow> plan_typed sha pl'"
    and "apply_milestone_approved sha v at a pl = Inr pl' \<Longrightarrow> plan_typed sha pl'"
    and "apply_graph_superseded v at i pl = Inr pl' \<Longrightarrow> plan_typed sha pl'"
proof -
  show "plan_typed sha pl'" if "apply_interview_captured sha v at n pl = Inr pl'"
    using that t by (auto simp: apply_interview_captured_def plan_typed_def interview_typed_def Interview.defs
        InterviewState.defs split: if_splits)
  show "plan_typed sha pl'" if "apply_milestone_approved sha v at a pl = Inr pl'"
    using that by (auto simp: apply_milestone_approved_def approved_milestone_def milestone_typed_def elim!: check_digestE
        intro!: put_typed t)
  show "plan_typed sha pl'" if "apply_graph_superseded v at i pl = Inr pl'"
    using that unfolding apply_graph_superseded_def
    by (elim foundE) (auto simp: graph_typed_def dest: typed_at(3) [OF t] intro!: put_typed t)
qed

lemma apply_plan_typed:
  assumes t: "plan_typed sha pl" and a: "apply_plan sha v at d pl = Inr pl'"
  shows "plan_typed sha pl'"
proof (cases d)
  case (MilestoneGenerationOutcomeReady i packet r)
  with a show ?thesis by (auto elim!: foundE intro: put_typed t)
next
  case (AttentionSpanStopped i p stopped)
  with a obtain n where "mget (pl_spans pl) i = Some n"
    "pl' = pl\<lparr>pl_spans := mput (asp_attentionSpanId n) (n\<lparr>asp_stoppedAt := Some stopped, asp_version := v\<rparr>) (pl_spans pl)\<rparr>"
    by (auto elim!: foundE)
  then show ?thesis using t by (auto simp: plan_typed_def)
next
  case (ProgramApproved i n k u)
  with a show ?thesis
    by (auto elim!: check_digestE on_program_typed [OF t] simp: program_typed_def program_approved_def)
next
  case (AttentionSpanStarted n)
  with a t show ?thesis by (auto simp: plan_typed_def)
next
  case (OutcomeDispositionRecorded n)
  with a t show ?thesis by (auto simp: plan_typed_def)
qed (insert a t, auto dest: graph_approved_typed [OF t] issue_events_typed [OF t] outcome_events_typed [OF t]
    approval_events_typed [OF t] intro: new_program_typed [OF t] t,
    ((erule on_program_typed [OF t] | erule on_milestone_typed [OF t]), simp)+)

lemma admission_ended_typed:
  assumes "plan_typed sha pl"
  shows "plan_typed sha (admission_ended_phase v s i pl)"
proof (cases "Option.bind (mget (portfolioAdmissions s) i) (\<lambda>a. mget (pl_programs pl) (pa_programId (as_admission a)))")
  case (Some p)
  then obtain j where "program_typed sha j p" using assms by (auto simp: plan_typed_def bind_eq_Some_conv dest: typed_mapD)
  then show ?thesis
    using Some assms put_typed(1) [OF assms, of "p\<lparr>prog_phase := ''eligible'', prog_version := v\<rparr>"]
    by (auto simp: admission_ended_phase_def program_typed_def)
qed (simp add: admission_ended_phase_def assms)

lemma apply_to_plan_typed:
  assumes t: "plan_typed sha pl" and a: "apply_to_plan sha v at s d pl = Inr pl'"
  shows "plan_typed sha pl'"
  using a
proof (cases rule: apply_to_plan.cases [of "(sha, v, at, s, d, pl)"])
  case (2 sha' v' at' s' i name pl'')
  with a t show ?thesis by (auto intro: new_program_typed)
qed (insert t, auto intro: admission_ended_typed dest: apply_plan_typed, (erule on_program_typed, assumption, simp)+)

section \<open>Records that are never to change\<close>

definition kept :: "('v \<Rightarrow> 'f) \<Rightarrow> ('k, 'v) jsmap \<Rightarrow> ('k, 'v) jsmap \<Rightarrow> bool" where
  "kept f m m' \<longleftrightarrow> (\<forall>k v. mget m k = Some v \<longrightarrow> (\<exists>v'. mget m' k = Some v' \<and> f v' = f v))"

lemma kept_refl [simp]: "kept f m m"
  by (simp add: kept_def)

lemma kept_trans: "kept f m m' \<Longrightarrow> kept f m' m'' \<Longrightarrow> kept f m m''"
  by (fastforce simp: kept_def)

lemma kept_new: "kept f m0 m \<Longrightarrow> mget m0 k = None \<Longrightarrow> kept f m0 (mput k v m)"
  by (auto simp: kept_def)

lemma kept_update: "kept f m0 m \<Longrightarrow> mget m k = Some v1 \<Longrightarrow> f v = f v1 \<Longrightarrow> kept f m0 (mput k v m)"
  by (fastforce simp: kept_def)

text \<open>
  The contents of graphs, what was approved of milestones, interviews, outcome packets, the
  identities of generations, and dispositions.
\<close>

definition records_kept :: "Plan \<Rightarrow> Plan \<Rightarrow> bool" where
  "records_kept pl pl' \<longleftrightarrow> kept (\<lambda>g. (gs_graph g, gs_graphDigest g)) (pl_graphs pl) (pl_graphs pl') \<and>
     kept mle_approval (pl_milestones pl) (pl_milestones pl') \<and> kept id (pl_interviews pl) (pl_interviews pl') \<and>
     kept id (pl_outcomePackets pl) (pl_outcomePackets pl') \<and>
     kept Generation.truncate (pl_generations pl) (pl_generations pl') \<and>
     kept id (pl_dispositions pl) (pl_dispositions pl')"

lemma records_kept_refl [simp]: "records_kept pl pl"
  by (simp add: records_kept_def)

lemma records_kept_trans: "records_kept pl pl' \<Longrightarrow> records_kept pl' pl'' \<Longrightarrow> records_kept pl pl''"
  by (auto simp: records_kept_def intro: kept_trans)

text \<open>An event that records only what is not there yet.\<close>

fun unwritten_plan :: "Plan \<Rightarrow> PlanData \<Rightarrow> bool" where
  "unwritten_plan pl (ProgramInterviewCaptured n) = (mget (pl_interviews pl) (ivw_interviewId n) = None)"
| "unwritten_plan pl (ProgramGraphApproved g d u) = (mget (pl_graphs pl) (gr_graphRevisionId (graph_base g)) = None)"
| "unwritten_plan pl (MilestoneApproved a) = (mget (pl_milestones pl) (mla_milestoneId a) = None)"
| "unwritten_plan pl (MilestoneGenerationStarted n) = (mget (pl_generations pl) (gen_generationId n) = None)"
| "unwritten_plan pl (OutcomePacketRecorded p d) = (mget (pl_outcomePackets pl) (opk_outcomePacketId p) = None)"
| "unwritten_plan pl (OutcomeDispositionRecorded n) = (mget (pl_dispositions pl) (od_outcomePacketId n) = None)"
| "unwritten_plan pl _ = True"

fun unwritten :: "Plan \<Rightarrow> PortfolioData \<Rightarrow> bool" where
  "unwritten pl (Planned d) = unwritten_plan pl d"
| "unwritten pl _ = True"

lemma kept_put:
  assumes "records_kept pl0 pl"
  shows "records_kept pl0 (put_program p pl)"
    and "records_kept pl0 (put_issue sha v e pl)"
    and "mget (pl_milestones pl) (mst_milestoneId m) = Some m1 \<Longrightarrow> mle_approval m = mle_approval m1 \<Longrightarrow>
      records_kept pl0 (put_milestone m pl)"
    and "mget (pl_generations pl) (gen_generationId n) = Some n1 \<Longrightarrow> Generation.truncate n = Generation.truncate n1 \<Longrightarrow>
      records_kept pl0 (put_generation n pl)"
    and "mget (pl_graphs pl) (gs_graphRevisionId g) = Some g1 \<Longrightarrow> gs_graph g = gs_graph g1 \<Longrightarrow>
      gs_graphDigest g = gs_graphDigest g1 \<Longrightarrow> records_kept pl0 (put_graph g pl)"
  using assms
  by (auto simp: records_kept_def put_program_def put_issue_def put_milestone_def put_generation_def put_graph_def
      intro: kept_update)

lemma kept_put_new:
  assumes "records_kept pl0 pl"
  shows "mget (pl_milestones pl0) (mst_milestoneId m) = None \<Longrightarrow> records_kept pl0 (put_milestone m pl)"
    and "mget (pl_generations pl0) (gen_generationId n) = None \<Longrightarrow> records_kept pl0 (put_generation n pl)"
    and "mget (pl_graphs pl0) (gs_graphRevisionId g) = None \<Longrightarrow> records_kept pl0 (put_graph g pl)"
  using assms
  by (auto simp: records_kept_def put_milestone_def put_generation_def put_graph_def intro: kept_new)

lemma on_program_kept: "records_kept pl0 pl \<Longrightarrow> on_program i v f pl = Inr pl' \<Longrightarrow> records_kept pl0 pl'"
  by (auto simp: on_program_def elim!: foundE intro: kept_put)

lemma on_milestone_kept:
  assumes "plan_typed sha pl" and "records_kept pl0 pl" and "on_milestone i f pl = Inr pl'"
    and "\<And>m. mst_milestoneId (f m) = mst_milestoneId m \<and> mle_approval (f m) = mle_approval m"
  shows "records_kept pl0 pl'"
  using assms(3) unfolding on_milestone_def
proof (elim foundE)
  fix m assume m: "mget (pl_milestones pl) i = Some m" and "Inr (put_milestone (f m) pl) = Inr pl'"
  moreover have "mst_milestoneId m = i" using typed_ids(2) [OF assms(1) m] .
  ultimately show ?thesis using kept_put(3) [OF assms(2), of "f m" m] assms(4) [of m] by simp
qed

lemma pause_generation_kept:
  assumes "plan_typed sha pl" and "records_kept pl0 pl"
  shows "records_kept pl0 (pause_generation i pl)"
proof (cases "Option.bind (truthy i) (mget (pl_generations pl))")
  case (Some g)
  then obtain j where "mget (pl_generations pl) j = Some g" by (auto simp: bind_eq_Some_conv)
  with typed_ids(4) [OF assms(1) this] show ?thesis
    using Some kept_put(4) [OF assms(2), of "g\<lparr>gen_status := Gen_paused\<rparr>" g]
    by (simp add: pause_generation_def Generation.defs)
qed (simp add: pause_generation_def assms(2))

lemma milestone_kept:
  assumes "records_kept pl0 pl" and "mget (pl_milestones pl) i = Some m1" and "mle_approval m = mle_approval m1"
  shows "records_kept pl0 (pl\<lparr>pl_milestones := mput i m (pl_milestones pl)\<rparr>)"
  using assms by (auto simp: records_kept_def intro: kept_update)

lemma pause_kept:
  assumes t: "plan_typed sha pl" and "records_kept pl0 pl" and "pause_milestone issue pl i = Inr pl'"
  shows "records_kept pl0 pl'"
  using assms(3) unfolding pause_milestone_def
proof (elim foundE)
  fix m let ?pl = "pl\<lparr>pl_milestones := mput i (m\<lparr>mst_status := M_paused, mle_pauseReason := Some issue\<rparr>) (pl_milestones pl)\<rparr>"
  assume m: "mget (pl_milestones pl) i = Some m" and p: "Inr (pause_generation (mle_activeGenerationId m) ?pl) = Inr pl'"
  have "plan_typed sha ?pl" using t typed_at(2) [OF t m] by (auto simp: plan_typed_def)
  moreover have "records_kept pl0 ?pl" using milestone_kept [OF assms(2) m] by simp
  ultimately show ?thesis using p pause_generation_kept by auto
qed

lemma resume_kept: "records_kept pl0 pl \<Longrightarrow> resume_milestone pl i = Inr pl' \<Longrightarrow> records_kept pl0 pl'"
  unfolding resume_milestone_def by (elim foundE) (auto intro: milestone_kept)

lemma fold_kept:
  assumes "try_fold f pl is = Inr pl'" and "plan_typed sha pl" and "records_kept pl0 pl"
    and "\<And>p i p'. f p i = Inr p' \<Longrightarrow> plan_typed sha p \<Longrightarrow> plan_typed sha p'"
    and "\<And>p i p'. f p i = Inr p' \<Longrightarrow> plan_typed sha p \<Longrightarrow> records_kept pl0 p \<Longrightarrow> records_kept pl0 p'"
  shows "records_kept pl0 pl'"
  using assms(1-3) by (induction "is" arbitrary: pl) (auto split: sum.splits intro: assms(4,5))

lemma issue_events_kept:
  assumes t: "plan_typed sha pl" and k: "records_kept pl0 pl"
  shows "apply_issue_raised sha v i d paused pl = Inr pl' \<Longrightarrow> records_kept pl0 pl'"
    and "apply_issue_resolved sha v at j action text u resumed pl = Inr pl' \<Longrightarrow> records_kept pl0 pl'"
    and "apply_issue_satisfied sha v j program graph pl = Inr pl' \<Longrightarrow> records_kept pl0 pl'"
proof -
  show "records_kept pl0 pl'" if "apply_issue_raised sha v i d paused pl = Inr pl'"
    using that unfolding apply_issue_raised_def
    by (elim check_digestE, elim fold_kept) (auto intro: put_typed t kept_put k pause_typed pause_kept)
  show "records_kept pl0 pl'" if "apply_issue_resolved sha v at j action text u resumed pl = Inr pl'"
    using that unfolding apply_issue_resolved_def
    by (elim foundE, elim fold_kept) (auto intro: put_typed t kept_put k resume_typed resume_kept)
  show "records_kept pl0 pl'" if "apply_issue_satisfied sha v j program graph pl = Inr pl'"
    using that kept_put(2) [OF k] by (auto simp: apply_issue_satisfied_def elim!: foundE split: option.splits if_splits)
qed

lemma graph_approved_kept:
  assumes "records_kept pl0 pl" and "mget (pl_graphs pl0) (gr_graphRevisionId (graph_base g)) = None"
    and "apply_graph_approved sha v at g d u pl = Inr pl'"
  shows "records_kept pl0 pl'"
proof -
  obtain pl1 where "on_program (gr_programId (graph_base g)) v (graph_approved g d u at) pl = Inr pl1"
    and pl': "pl' = put_graph (graph_entity g d u v at) pl1"
    using assms(3) by (auto simp: apply_graph_approved_def map_sum_def elim!: check_digestE split: sum.splits)
  with assms(1) have "records_kept pl0 pl1" by (auto intro: on_program_kept)
  with assms(2) show ?thesis unfolding pl' by (intro kept_put_new(3)) (simp_all add: graph_entity_def Let_def)
qed

lemma generation_started_kept:
  assumes "plan_typed sha pl" and "records_kept pl0 pl" and "mget (pl_generations pl0) (gen_generationId n) = None"
    and "apply_generation_started v n pl = Inr pl'"
  shows "records_kept pl0 pl'"
proof -
  have "records_kept pl0 (put_generation (started_generation n v) pl)"
    by (rule kept_put_new(2) [OF assms(2)]) (simp add: started_generation_def Generation.defs GenerationState.defs assms(3))
  from on_milestone_kept [OF put_typed(4) [OF assms(1)] this assms(4) [unfolded apply_generation_started_def]]
  show ?thesis by (simp add: milestone_running_def)
qed

lemma superseded_kept:
  assumes "plan_typed sha pl" and "records_kept pl0 pl" and "apply_graph_superseded v at i pl = Inr pl'"
  shows "records_kept pl0 pl'"
  using assms(3) unfolding apply_graph_superseded_def
proof (elim foundE)
  fix g assume g: "mget (pl_graphs pl) i = Some g" and "Inr (put_graph (g\<lparr>gre_supersededAt := Some at, gre_version := v\<rparr>) pl) = Inr pl'"
  with typed_ids(3) [OF assms(1) g] kept_put(5) [OF assms(2), of "g\<lparr>gre_supersededAt := Some at, gre_version := v\<rparr>" g]
  show ?thesis by simp
qed

lemma outcome_ready_kept:
  assumes "plan_typed sha pl" and "records_kept pl0 pl" and "mget (pl_generations pl) i = Some g"
  shows "records_kept pl0 (put_generation (generation_outcome packet r at v g) pl)"
  using kept_put(4) [OF assms(2), of "generation_outcome packet r at v g" g] typed_ids(4) [OF assms(1,3)] assms(3)
  by (simp add: generation_outcome_def Generation.defs)

lemma records_kept_fields:
  assumes "records_kept pl0 pl"
  shows "records_kept pl0 (pl\<lparr>pl_spans := spans\<rparr>)" and "records_kept pl0 (pl\<lparr>pl_validations := vs\<rparr>)"
    and "mget (pl_interviews pl0) i = None \<Longrightarrow> records_kept pl0 (pl\<lparr>pl_interviews := mput i n (pl_interviews pl)\<rparr>)"
    and "mget (pl_outcomePackets pl0) i = None \<Longrightarrow>
      records_kept pl0 (pl\<lparr>pl_outcomePackets := mput i k (pl_outcomePackets pl)\<rparr>)"
    and "mget (pl_dispositions pl0) i = None \<Longrightarrow>
      records_kept pl0 (pl\<lparr>pl_dispositions := mput i o' (pl_dispositions pl)\<rparr>)"
  using assms by (auto simp: records_kept_def intro: kept_new)

lemma validation_recorded_kept:
  assumes t: "plan_typed sha pl" and k: "records_kept pl0 pl" and a: "apply_validation_recorded sha v x d pl = Inr pl'"
  shows "records_kept pl0 pl'"
proof -
  let ?pl = "pl\<lparr>pl_validations := mput (ov_validationId x)
    \<lparr>vds_validation = x, vds_validationDigest = d, vds_version = v\<rparr> (pl_validations pl)\<rparr>"
  from a have d: "d = digest_of sha (enc_ValidationRecord x)"
    and m: "on_milestone (ov_milestoneId x) (validated (ov_outcomePacketId x)) ?pl = Inr pl'"
    by (auto simp: apply_validation_recorded_def elim!: check_digestE)
  have "plan_typed sha ?pl" using t by (auto simp: plan_typed_def validation_typed_def d)
  then show ?thesis
    using m by (rule on_milestone_kept [OF _ records_kept_fields(2) [OF k]]) (simp add: validated_def)
qed

lemma apply_plan_kept:
  assumes t: "plan_typed sha pl" and k: "records_kept pl0 pl" and n: "unwritten_plan pl0 d"
    and a: "apply_plan sha v at d pl = Inr pl'"
  shows "records_kept pl0 pl'"
proof (cases d)
  case (MilestoneApproved x)
  with a n show ?thesis
    by (auto simp: apply_milestone_approved_def approved_milestone_def elim!: check_digestE intro!: kept_put_new k)
next
  case (MilestoneStarted i run job base)
  with a show ?thesis using on_milestone_kept [OF t k] by (simp add: milestone_started_def)
next
  case (MilestoneOutcomeReady i run packet r)
  with a show ?thesis using on_milestone_kept [OF t k] by (simp add: milestone_outcome_def)
qed (insert a n k, auto simp: apply_packet_recorded_def apply_interview_captured_def split: if_splits
    elim!: foundE check_digestE
    intro: kept_put records_kept_fields k superseded_kept [OF t] outcome_ready_kept [OF t]
    dest: on_program_kept [OF k] issue_events_kept [OF t k] graph_approved_kept [OF k] generation_started_kept [OF t k]
      superseded_kept [OF t k] validation_recorded_kept [OF t k])

lemma apply_to_plan_kept:
  assumes t: "plan_typed sha pl" and k: "records_kept pl0 pl" and n: "unwritten pl0 d"
    and a: "apply_to_plan sha v at s d pl = Inr pl'"
  shows "records_kept pl0 pl'"
  using a
proof (cases rule: apply_to_plan.cases [of "(sha, v, at, s, d, pl)"])
  case (1 sha' v' at' s' d' pl'')
  with a n show ?thesis using apply_plan_kept [OF t k] by auto
qed (insert k, auto simp: admission_ended_phase_def intro: kept_put dest: on_program_kept split: option.splits)

end
