(* ===== verification/PlanCommits.thy ===== *)
theory PlanCommits
  imports PlanFacts IntegrationSteps
begin

text \<open>
  What the events of a commit are to the program component: none of them overwrites a record
  that is there when the command is decided, so that the records which are never to change are
  kept by every commit.
\<close>

section \<open>The events of a decision\<close>

abbreviation all_unwritten :: "Plan \<Rightarrow> PortfolioInput list \<Rightarrow> bool" where
  "all_unwritten pl es \<equiv> \<forall>e\<in>set es. unwritten pl (pi_data e)"

lemma plan_event_data [simp]: "pi_data (plan_event ty i d) = Planned d"
  by (simp add: plan_event_def pf_event_def)

lemma lifecycle_event_data [simp]: "pi_data (lifecycle_event e) = Lifecycle (ev_data e)"
  by (simp add: lifecycle_event_def pf_event_def)

lemma accept_Inr [simp]: "accept evs k i = Inr (evs', k', i') \<longleftrightarrow> evs = evs' \<and> k = k' \<and> i = i'"
  by (simp add: accept_def)

lemma reject_not_Inr [simp]: "reject code message = Inr x \<longleftrightarrow> False"
  by (simp add: reject_def)

lemma context_simps [simp]:
  "cx_state (plan_context st pl) = st"
  "cx_generations (plan_context st pl) = map fst (pl_generations pl)"
  "cx_outcomeDispositions (plan_context st pl) = map fst (pl_dispositions pl)"
  "cx_programs (plan_context st pl) = view_map GraphProgramState.truncate (pl_programs pl)"
  "cx_milestones (plan_context st pl) = view_map MilestoneState.truncate (pl_milestones pl)"
  "cx_programGraphs (plan_context st pl) = view_map ProgramGraphState.truncate (pl_graphs pl)"
  "cx_outcomePackets (plan_context st pl) = view_map packet_view (pl_outcomePackets pl)"
  by (simp_all add: plan_context_def)

lemma world_context_simps [simp]:
  "cx_state (world_context policies packets w) = wd_state w"
  "cx_generations (world_context policies packets w) = map fst (pl_generations (wd_plan w))"
  "cx_outcomeDispositions (world_context policies packets w) = map fst (pl_dispositions (wd_plan w))"
  "cx_programs (world_context policies packets w) = view_map GraphProgramState.truncate (pl_programs (wd_plan w))"
  "cx_milestones (world_context policies packets w) = view_map MilestoneState.truncate (pl_milestones (wd_plan w))"
  "cx_programGraphs (world_context policies packets w) = view_map ProgramGraphState.truncate (pl_graphs (wd_plan w))"
  by (simp_all add: world_context_def)

lemma started_unwritten:
  assumes "startGraphMilestoneEvents sha cx g i n base vs policy now = Inr st"
    and "cx_generations cx = map fst (pl_generations pl)"
  shows "all_unwritten pl (st_events st)"
  using assms(1)
proof (rule started_generation)
  fix node w st3 packet
  assume "gen_generationId (st_generation st) \<notin> set (cx_generations cx)"
    and "st_events st = generation_events sha (st_generation st) w st3 policy packet"
  then show ?thesis using assms(2) by (simp add: generation_events_def pf_event_def Let_def map_of_eq_None_iff)
qed

lemma disposition_unwritten:
  assumes "outcomeDispositionEvent sha cx i d disposition reason u now = Inr e"
    and "cx_outcomeDispositions cx = map fst (pl_dispositions pl)"
    and "\<forall>k. mget (cx_outcomePackets cx) i = Some k \<longrightarrow> ops_outcomePacketId k = i"
  shows "unwritten pl (pi_data e)"
  using assms
  by (auto simp: outcomeDispositionEvent_def pf_event_def Let_def map_of_eq_None_iff image_iff
      split: option.splits if_splits)

lemma packet_view_id:
  assumes "plan_typed sha pl" and "mget (view_map packet_view (pl_outcomePackets pl)) i = Some k"
  shows "ops_outcomePacketId k = i"
  using assms(2) typed_ids(7) [OF assms(1)] by (auto simp: packet_view_def Let_def)

definition opens_on :: "Plan \<Rightarrow> PortfolioContext \<Rightarrow> bool" where
  "opens_on pl cx \<longleftrightarrow> cx_generations cx = map fst (pl_generations pl) \<and>
     cx_outcomeDispositions cx = map fst (pl_dispositions pl) \<and>
     (\<forall>i k. mget (cx_outcomePackets cx) i = Some k \<longrightarrow> ops_outcomePacketId k = i)"

lemma disposed_once:
  assumes "outcomeDispositionEvent sha cx i d disposition reason u now = Inr e" and "opens_on pl cx"
  shows "unwritten pl (pi_data e)"
  using assms(2) unfolding opens_on_def by (intro disposition_unwritten [OF assms(1)]) blast+

lemma plan_context_opens: "plan_typed sha pl \<Longrightarrow> opens_on pl (plan_context st pl)"
  by (auto simp: opens_on_def intro: packet_view_id)

lemma world_context_opens: "plan_typed sha (wd_plan w) \<Longrightarrow> opens_on (wd_plan w) (world_context policies packets w)"
  by (auto simp: opens_on_def world_context_def intro: packet_view_id)

lemma coordinate_unwritten:
  assumes "decide_portfolio_coordinate sha lc actor now cx s n du = Inr (evs, k, i)" and "opens_on pl cx"
  shows "all_unwritten pl evs"
  using assms(1)
proof (rule coordinate_admits)
  fix pre p post a st request
  assume a: "admits sha now cx s p a st request" and g: "grant sha actor now s du request p a st = Inr (evs, k, i)"
  have "all_unwritten pl (st_events st)"
    using a assms(2) unfolding admits_def opens_on_def by (intro started_unwritten) blast+
  with g show ?thesis by (auto simp: grant_def pf_event_def program_started_def Let_def split: if_splits)
qed

lemma packet_events_unwritten: "all_unwritten pl (packet_events sha a now r)"
  by (simp add: packet_events_def pf_event_def Let_def)

lemma authorization_events_unwritten: "all_unwritten pl (authorization_events sha a now i w x st opt)"
  by (simp add: authorization_events_def pf_event_def Let_def)

lemma program_pending_unwritten: "all_unwritten pl (program_pending cx c)"
  by (auto simp: program_pending_def pf_event_def split: option.splits)

lemma integrate_Inr:
  assumes "decide_decision_integrate sha a now cx s p = Inr (evs, k, i)"
  obtains d st opt w c j e u reason where "evs = d # authorization_events sha a now j w c st opt"
    "outcomeDispositionEvent sha cx u (Some e) ''accepted'' (Some reason) (actor_id a) now = Inr d"
  using assms
  by (auto simp: decide_decision_integrate_def Let_def split: if_splits option.splits sum.splits prod.splits)

lemma compile_Inr:
  assumes "decide_decision_compile sha lc a now cx s c n = Inr (evs, k, i)"
  obtains "evs = []" | r where "evs = packet_events sha a now r"
  using assms by (auto simp: decide_decision_compile_def Let_def split: if_splits option.splits sum.splits)

lemma portfolio_unwritten:
  assumes "decide_portfolio sha lc a now cx s c = Inr (evs, k, i)" and o: "opens_on pl cx"
  shows "all_unwritten pl evs"
proof (cases c)
  case (Pc_decision_integrate p)
  with assms(1) obtain d st opt w c' j e u reason where "evs = d # authorization_events sha a now j w c' st opt"
    and d: "outcomeDispositionEvent sha cx u (Some e) ''accepted'' (Some reason) (actor_id a) now = Inr d"
    by (auto elim: integrate_Inr)
  moreover have "unwritten pl (pi_data d)" by (rule disposed_once [OF d o])
  ultimately show ?thesis using authorization_events_unwritten by simp
next
  case (Pc_coordinate n du)
  with assms coordinate_unwritten show ?thesis by simp
next
  case (Pc_decision_compile i' n)
  with assms(1) show ?thesis by (auto elim!: compile_Inr simp: packet_events_unwritten)
next
  case (Pc_candidate_queue cd d w)
  with assms(1) program_pending_unwritten show ?thesis
    by (auto simp: decide_integration_candidate_queue_def pf_event_def Let_def split: if_splits option.splits)
qed (insert assms(1), auto simp: decide_defs split: if_splits option.splits)

lemma first_issue_None: "first_issue f xs = None \<longleftrightarrow> (\<forall>x\<in>set xs. f x = None)"
  by (induction xs) (auto split: option.splits)

lemma approval_events_set:
  assumes "PlanOps.approval_events sha actor st pl g ns = Some es" and "e \<in> set es"
  obtains n w where "n \<in> set ns" "\<not> mhas (pl_milestones pl) (node_id n)"
    "contract_workflow st (node_contract n) = Some w"
    "e = plan_event ''milestone'' (node_id n) (MilestoneApproved (milestone_approval sha actor g w n))"
  using assms
proof (induction ns arbitrary: es thesis)
  case (Cons n ns)
  show ?case
  proof (cases "mhas (pl_milestones pl) (node_id n)")
    case True
    with Cons.prems(2) have "PlanOps.approval_events sha actor st pl g ns = Some es" by simp
    from Cons.IH [OF _ this Cons.prems(3)] Cons.prems(1) show ?thesis by (metis list.set_intros(2))
  next
    case False
    with Cons.prems(2) obtain w fs where w: "contract_workflow st (node_contract n) = Some w"
      "PlanOps.approval_events sha actor st pl g ns = Some fs"
      "es = plan_event ''milestone'' (node_id n) (MilestoneApproved (milestone_approval sha actor g w n)) # fs"
      by (auto simp: bind_eq_Some_conv)
    show ?thesis
    proof (cases "e \<in> set fs")
      case True
      from Cons.IH [OF _ w(2) True] Cons.prems(1) show ?thesis by (metis list.set_intros(2))
    next
      case F: False
      with w(3) Cons.prems(3) Cons.prems(1) [of n w] False w(1) show ?thesis by simp
    qed
  qed
qed simp

lemma approval_events_unwritten:
  "PlanOps.approval_events sha actor st pl g ns = Some es \<Longrightarrow> all_unwritten pl es"
  by (auto elim!: approval_events_set simp: milestone_approval_def mhas_def)

lemma graph_events_unwritten:
  "mget (pl_graphs pl) (gr_graphRevisionId (graph_base g)) = None \<Longrightarrow> all_unwritten pl (graph_events sha actor pl p g)"
  by (auto simp: graph_events_def superseded_events_def satisfied_events_def Let_def split: option.splits)

lemma graph_issue_None:
  assumes "graph_issue st s pl p g = None"
  shows "mget (pl_graphs pl) (gr_graphRevisionId (graph_base g)) = None"
    and "activeGenerationForProgram pl (gr_programId (graph_base g)) = None"
    and "graph_source_ok st p (gr_initialSourceRef (graph_base g))"
    and "graph_extends (active_graph pl p) (graph_base g)"
    and "g = Graph_v2 v \<Longrightarrow> dependencies_issue pl v (gv_crossProgramDependencies v) = None"
  using assms by (auto simp: graph_issue_def mhas_def graph_v2_issue_def Let_def split: if_splits Graph.splits)

text \<open>What an accepted \<open>program-graph.approve\<close> found.\<close>

lemma graph_approve_Inr:
  assumes "decide_graph_approve sha actor st s pl g = Inr (evs, k, i)"
  obtains p es where "mget (pl_programs pl) (gr_programId (graph_base g)) = Some p" "graph_mode p"
    "is_v1 g \<longrightarrow> prog_programMode p = ''graph_v1''" "graph_issue st s pl p g = None"
    "\<forall>n\<in>set (graph_nodes g). node_issue sha st s pl g n = None"
    "PlanOps.approval_events sha actor st pl g (graph_nodes g) = Some es" "evs = graph_events sha actor pl p g @ es"
  using assms
  by (auto simp: decide_graph_approve_def first_issue_None split: if_splits option.splits)

lemma graph_approve_unwritten:
  assumes "decide_graph_approve sha actor st s pl g = Inr (evs, k, i)"
  shows "all_unwritten pl evs"
  using assms
proof (rule graph_approve_Inr)
  fix p es assume "graph_issue st s pl p g = None" "PlanOps.approval_events sha actor st pl g (graph_nodes g) = Some es"
    "evs = graph_events sha actor pl p g @ es"
  then show ?thesis
    using graph_events_unwritten [OF graph_issue_None(1)] approval_events_unwritten by (auto simp: ball_Un)
qed

text \<open>What an accepted \<open>program.start\<close> or \<open>program.advance\<close> started.\<close>

lemma start_v1_Inr:
  assumes "decide_program_start_v1 sha actor now st pl i d k policy = Inr (evs, kind, j)"
  obtains p g root base started where "startable_v1 pl i d k = Some (p, g)"
    "\<forall>n\<in>set (mvalues (pl_generations pl)). gen_status n \<noteq> Gen_running" "root_node g = Some root"
    "truthy (gp_initialSourceRevisionId p) = Some base"
    "startGraphMilestoneEvents sha (plan_context st pl) (ProgramGraphState.truncate g) (node_id root) 1 base [] policy now = Inr started"
    "evs = plan_event ''program'' i (ProgramStarted i d k (actor_id actor)) # st_events started"
  using assms
  by (auto simp: decide_program_start_v1_def list_ex_iff split: if_splits option.splits sum.splits prod.splits)

definition advances_to ::
    "(string \<Rightarrow> string) \<Rightarrow> timestamp \<Rightarrow> ProjectionState \<Rightarrow> Plan \<Rightarrow> ProgramAdvance \<Rightarrow> ProgramEntity \<Rightarrow> GraphEntity \<Rightarrow>
       GraphNodeState \<Rightarrow> MilestoneEntity \<Rightarrow> uuid \<Rightarrow> Started \<Rightarrow> bool" where
  "advances_to sha now st pl v p g n m base started \<longleftrightarrow> nextNode pl g = Some n \<and>
     mget (pl_milestones pl) (node_id n) = Some m \<and> gs_v2 g = None \<and>
     advance_base p n (adv_dependencyValidations v) = Some base \<and> mhas (sourceRevisions st) base \<and>
     adv_expectedMilestoneId v = Some (node_id n) \<and>
     adv_expectedGeneration v = Some ((case mst_generation m of None \<Rightarrow> 0 | Some k \<Rightarrow> k) + 1) \<and>
     length (node_dependencies n) = length (validationByMilestone (adv_dependencyValidations v)) \<and>
     (\<forall>d\<in>set (node_dependencies n). mhas (validationByMilestone (adv_dependencyValidations v)) d) \<and>
     startGraphMilestoneEvents sha (plan_context st pl) (ProgramGraphState.truncate g) (node_id n)
       ((case mst_generation m of None \<Rightarrow> 0 | Some k \<Rightarrow> k) + 1) base
       (map OutcomeValidation.truncate (adv_dependencyValidations v)) (adv_policy v) now = Inr started"

definition advance_checked :: "(string \<Rightarrow> string) \<Rightarrow> Actor \<Rightarrow> Plan \<Rightarrow> ProgramAdvance \<Rightarrow> ProgramEntity \<Rightarrow> GraphEntity \<Rightarrow> bool" where
  "advance_checked sha actor pl v p g \<longleftrightarrow> actor_kind actor = System \<and> advanceable pl v = Some (p, g) \<and>
     activeGenerationForProgram pl (adv_programId v) = None \<and> \<not> blocking_issue pl (adv_programId v) \<and>
     (\<forall>x\<in>set (adv_dependencyValidations v). validateInput sha pl (adv_programId v) x = None)"

abbreviation validation_events :: "(string \<Rightarrow> string) \<Rightarrow> ProgramAdvance \<Rightarrow> PortfolioInput list" where
  "validation_events sha v \<equiv> map (validation_event sha) (adv_dependencyValidations v)"

lemma advance_Inr:
  assumes "decide_program_advance sha lc actor now st pl v = Inr (evs, kind, j)"
  obtains (recorded) p g where "advance_checked sha actor pl v p g" "gs_v2 g \<noteq> None" "evs = validation_events sha v"
      "nextNode pl g \<noteq> None"
  | (finished) p g e where "advance_checked sha actor pl v p g" "nextNode pl g = None"
      "evs = validation_events sha v @ [plan_event ''program'' (prog_programId p) e]"
      "gs_v2 g = None \<and> e = ProgramCompleted (prog_programId p) (gs_graphRevisionId g) (gs_graphDigest g) \<or>
       gs_v2 g \<noteq> None \<and> (\<exists>c. e = ProgramIntegrationPending (prog_programId p) (gs_graphRevisionId g) (gs_graphDigest g) c)"
      "\<forall>n\<in>set (graph_nodes (gs_graph g)). prospectiveValidated pl (adv_dependencyValidations v) (node_id n)"
  | (started) p g n m base started where "advance_checked sha actor pl v p g"
      "advances_to sha now st pl v p g n m base started" "evs = validation_events sha v @ st_events started"
proof -
  obtain p g where c: "advance_checked sha actor pl v p g"
    and d: "(case nextNode pl g of None \<Rightarrow> finish_program sha lc pl v p g
      | Some n \<Rightarrow> (case mget (pl_milestones pl) (node_id n) of
          None \<Rightarrow> Inl (Raised ''Approved graph milestone projection is missing'')
        | Some m \<Rightarrow> advance_to sha now st pl v p g n m)) = Inr (evs, kind, j)"
    using assms
    by (auto simp: decide_program_advance_def advance_checked_def first_issue_None split: if_splits option.splits prod.splits)
  show thesis
  proof (cases "nextNode pl g")
    case None
    with d have f: "finish_program sha lc pl v p g = Inr (evs, kind, j)" by simp
    then have all: "\<forall>n\<in>set (graph_nodes (gs_graph g)). prospectiveValidated pl (adv_dependencyValidations v) (node_id n)"
      by (auto simp: finish_program_def Let_def list_ex_iff split: if_splits)
    show thesis
    proof (cases "gs_v2 g")
      case None
      with f show thesis
        by (intro finished [OF c \<open>nextNode pl g = None\<close> _ _ all,
              of "ProgramCompleted (prog_programId p) (gs_graphRevisionId g) (gs_graphDigest g)"])
           (auto simp: finish_program_def Let_def split: if_splits)
    next
      case (Some x)
      with f obtain k where "evs = validation_events sha v @ [plan_event ''program'' (prog_programId p)
          (ProgramIntegrationPending (prog_programId p) (gs_graphRevisionId g) (gs_graphDigest g) k)]"
        by (auto simp: finish_program_def Let_def split: if_splits option.splits)
      with Some show thesis by (intro finished [OF c \<open>nextNode pl g = None\<close> _ _ all]) auto
    qed
  next
    case (Some n)
    with d obtain m where m: "mget (pl_milestones pl) (node_id n) = Some m" "advance_to sha now st pl v p g n m = Inr (evs, kind, j)"
      by (auto split: option.splits)
    show thesis
    proof (cases "gs_v2 g")
      case None
      with m Some c show thesis
        by (auto simp: advance_to_def advances_to_def list_ex_iff Let_def split: if_splits option.splits sum.splits
            intro!: started)
    next
      case (Some x)
      with m c \<open>nextNode pl g = Some n\<close> show thesis
        by (intro recorded [OF c]) (auto simp: advance_to_def Let_def split: if_splits option.splits list.splits)
    qed
  qed
qed

lemma validations_unwritten: "all_unwritten pl (validation_events sha v)"
  by (auto simp: validation_event_def)

lemma advance_unwritten:
  assumes "decide_program_advance sha lc actor now st pl v = Inr (evs, kind, j)"
  shows "all_unwritten pl evs"
  using assms
proof (cases rule: advance_Inr)
  case (started p g n m base started)
  then have "all_unwritten pl (st_events started)"
    unfolding advances_to_def by (elim conjE started_unwritten) simp
  with started validations_unwritten show ?thesis by (auto simp: ball_Un)
qed (use validations_unwritten in \<open>auto simp: ball_Un\<close>)

lemma start_v1_unwritten:
  assumes "decide_program_start_v1 sha actor now st pl i d k policy = Inr (evs, kind, j)"
  shows "all_unwritten pl evs"
  using assms
proof (rule start_v1_Inr)
  fix p g root base started
  assume "startGraphMilestoneEvents sha (plan_context st pl) (ProgramGraphState.truncate g) (node_id root) 1 base [] policy now =
      Inr started" "evs = plan_event ''program'' i (ProgramStarted i d k (actor_id actor)) # st_events started"
  moreover from this(1) have "all_unwritten pl (st_events started)" by (rule started_unwritten) simp
  ultimately show ?thesis by simp
qed

lemma plan_unwritten:
  assumes t: "plan_typed sha pl" and d: "decide_plan sha lc a now st s pl c = Inr (evs, k, i)"
  shows "all_unwritten pl evs"
proof (cases c)
  case (Ln_graph_approve g)
  with d graph_approve_unwritten show ?thesis by simp
next
  case (Ln_start_v1 i g d p)
  with d start_v1_unwritten show ?thesis by simp
next
  case (Ln_advance v)
  with d advance_unwritten show ?thesis by simp
next
  case (Ln_disposition j x reason)
  with d obtain e where "outcomeDispositionEvent sha (plan_context st pl) j None x reason (actor_id a) now = Inr e" "evs = [e]"
    by (auto simp: decide_disposition_def split: if_splits sum.splits prod.splits)
  moreover have "unwritten pl (pi_data e)"
    by (rule disposed_once [OF calculation(1) plan_context_opens [OF t]])
  ultimately show ?thesis by simp
next
  case (Ln_interview x)
  with d show ?thesis
    by (auto simp: decide_interview_capture_def captured_interview_def mhas_def Let_def split: if_splits option.splits)
next
  case (Ln_program_approve x)
  with d show ?thesis
    by (auto simp: decide_program_approve_def mhas_def pf_event_def Let_def split: if_splits option.splits list.splits)
next
  case (Ln_issue_raise x)
  with d show ?thesis by (auto simp: decide_issue_raise_def Let_def split: if_splits option.splits)
qed (insert d, auto simp: decide_kickoff_def decide_program_start_v2_def decide_issue_resolve_def issueResolutionEvent_def
    decide_attention_start_def decide_attention_stop_def decide_milestone_start_def pf_event_def Let_def
    split: if_splits option.splits sum.splits prod.splits)

lemma world_events_unwritten:
  assumes "plan_typed sha (wd_plan w)" and "world_events sha lc a now (world_context policies packets w) w c = Some es"
  shows "all_unwritten (wd_plan w) es"
proof (cases c)
  case (Wc_portfolio x)
  with assms(2) show ?thesis
    using portfolio_unwritten [OF _ world_context_opens [OF assms(1)]] by (auto split: sum.splits)
next
  case (Wc_plan x)
  with assms(2) plan_unwritten [OF assms(1)] show ?thesis by (auto split: sum.splits)
qed (use assms(2) in \<open>auto split: Decision.splits\<close>)

section \<open>Derived outcomes\<close>

lemma outcome_events_unwritten:
  "\<not> mhas (pl_outcomePackets pl) (opk_outcomePacketId p) \<Longrightarrow> all_unwritten pl (outcome_events sha s m run p)"
  by (auto simp: outcome_events_def generation_release_def pf_event_def mhas_def Let_def split: option.splits list.splits if_splits)

lemma derive_outcomes_set:
  assumes "derive_outcomes valid sha lc st s pl rs = Inr os" and "e \<in> set os"
  obtains r run m p where "r \<in> set rs" "awaiting_outcome st pl r = Some (run, m)"
    "buildOutcomePacket valid sha lc st pl (mst_milestoneId m) (Some r) = Inr p"
    "\<not> mhas (pl_outcomePackets pl) (opk_outcomePacketId p)" "e \<in> set (outcome_events sha s m run p)"
  using assms
proof (induction rs arbitrary: os thesis)
  case (Cons r rs)
  have later: thesis if "derive_outcomes valid sha lc st s pl rs = Inr os'" "e \<in> set os'" for os'
    using Cons.IH [OF _ that] Cons.prems(1) by (metis list.set_intros(2))
  show ?case
  proof (cases "awaiting_outcome st pl r")
    case None
    with Cons.prems(2) have "derive_outcomes valid sha lc st s pl rs = Inr os" by simp
    from later [OF this Cons.prems(3)] show ?thesis .
  next
    case (Some x)
    then obtain run m where x: "awaiting_outcome st pl r = Some (run, m)" by (cases x) auto
    with Cons.prems(2) obtain p where p: "buildOutcomePacket valid sha lc st pl (mst_milestoneId m) (Some r) = Inr p"
      by (cases "buildOutcomePacket valid sha lc st pl (mst_milestoneId m) (Some r)") simp_all
    show ?thesis
    proof (cases "mhas (pl_outcomePackets pl) (opk_outcomePacketId p)")
      case True
      with x p Cons.prems(2) have "derive_outcomes valid sha lc st s pl rs = Inr os" by simp
      from later [OF this Cons.prems(3)] show ?thesis .
    next
      case False
      with x p Cons.prems(2) obtain os' where os': "derive_outcomes valid sha lc st s pl rs = Inr os'"
        "os = outcome_events sha s m run p @ os'"
        by (cases "derive_outcomes valid sha lc st s pl rs") simp_all
      show ?thesis
      proof (cases "e \<in> set os'")
        case True
        from later [OF os'(1) this] show ?thesis .
      next
        case 1: False
        with os'(2) Cons.prems(3) have "e \<in> set (outcome_events sha s m run p)" by simp
        from Cons.prems(1) [OF _ x p False this] show ?thesis by simp
      qed
    qed
  qed
qed simp

lemma derived_unwritten:
  "deriveOutcomeEvents valid sha lc st s pl rs = Inr os \<Longrightarrow> all_unwritten pl os"
  unfolding deriveOutcomeEvents_def by (auto elim!: derive_outcomes_set dest: outcome_events_unwritten)

section \<open>Commits keep types and records\<close>

lemma evolve_worldE:
  assumes "evolve_world sha at w x = Inr w'"
  obtains "apply_to_plan sha (snd x) at (wd_portfolio w) (pi_data (fst x)) (wd_plan w) = Inr (wd_plan w')"
    "apply_portfolio sha (snd x) at (pi_data (fst x)) (wd_portfolio w) = Inr (wd_portfolio w')"
  using assms by (auto simp: evolve_world_def Let_def split: sum.splits)

lemma evolve_world_typed:
  "evolve_world sha at w x = Inr w' \<Longrightarrow> plan_typed sha (wd_plan w) \<Longrightarrow> plan_typed sha (wd_plan w')"
  by (elim evolve_worldE) (rule apply_to_plan_typed)

lemma evolve_all_typed:
  "evolve_all sha at w es vs = Inr w' \<Longrightarrow> plan_typed sha (wd_plan w) \<Longrightarrow> plan_typed sha (wd_plan w')"
  by (rule try_fold_invariant) (auto intro: evolve_world_typed)

lemma evolve_all_kept:
  assumes "evolve_all sha at w es vs = Inr w'" and "plan_typed sha (wd_plan w)" and "all_unwritten pl0 es"
    and "records_kept pl0 (wd_plan w)"
  shows "records_kept pl0 (wd_plan w')"
  using assms
proof (induction es vs arbitrary: w rule: list_induct2')
  case (4 e es v vs)
  then obtain w1 where w1: "evolve_world sha at w (e, v) = Inr w1" "evolve_all sha at w1 es vs = Inr w'"
    by (auto split: sum.splits)
  have "records_kept pl0 (wd_plan w1)"
    using w1(1) 4 by (elim evolve_worldE) (rule apply_to_plan_kept, auto)
  with 4 w1 evolve_world_typed show ?case by auto
qed auto

lemma commit_keeps:
  assumes c: "commit_world valid sha lc now w es vs us = Inr w'" and t: "plan_typed sha (wd_plan w)"
    and "all_unwritten (wd_plan w) es"
  shows "plan_typed sha (wd_plan w') \<and> records_kept (wd_plan w) (wd_plan w')"
  using c
proof (rule commit_worldE)
  fix w1 os
  assume 1: "evolve_all sha now w es vs = Inr w1" and 2: "evolve_all sha now w1 os us = Inr w'"
    and d: "deriveOutcomeEvents valid sha lc (wd_state w1) (wd_portfolio w1) (wd_plan w1) (ended_runs es) = Inr os"
  have t1: "plan_typed sha (wd_plan w1)" by (rule evolve_all_typed [OF 1 t])
  have "records_kept (wd_plan w) (wd_plan w1)" by (rule evolve_all_kept [OF 1 t assms(3)]) simp
  moreover have "records_kept (wd_plan w1) (wd_plan w')" by (rule evolve_all_kept [OF 2 t1 derived_unwritten [OF d]]) simp
  ultimately show ?thesis using records_kept_trans evolve_all_typed [OF 2 t1] by blast
qed

lemma elsewhere_unwritten:
  "decided_elsewhere sha w e \<Longrightarrow> plan_typed sha (wd_plan w) \<Longrightarrow> unwritten (wd_plan w) (pi_data e)"
proof (induction rule: decided_elsewhere.induct)
  case (4 i d action t u e)
  then show ?case by (auto simp: issueResolutionEvent_def Let_def split: option.splits if_splits)
next
  case (5 i d disposition reason u now e)
  from disposed_once [OF 5(1) plan_context_opens [OF 5(2)]] show ?case .
qed simp_all

lemma reachable_keeps:
  assumes "world_reachable valid sha lc w0 w" and "plan_typed sha (wd_plan w0)"
  shows "plan_typed sha (wd_plan w) \<and> records_kept (wd_plan w0) (wd_plan w)"
  using assms
proof (induction rule: world_reachable.induct)
  case (world_commit w c a now policies packets w')
  then have t: "plan_typed sha (wd_plan w)" and k: "records_kept (wd_plan w0) (wd_plan w)" by auto
  from world_commit(3) obtain es vs us where "world_events sha lc a now (world_context policies packets w) w c = Some es"
    "commit_world valid sha lc now w es vs us = Inr w'"
    by (auto simp: world_commits_def)
  with commit_keeps [OF _ t] world_events_unwritten [OF t] records_kept_trans [OF k] show ?case by blast
next
  case (world_elsewhere w e now v w')
  then have t: "plan_typed sha (wd_plan w)" and k: "records_kept (wd_plan w0) (wd_plan w)" by auto
  from elsewhere_unwritten [OF world_elsewhere(2) t] have "records_kept (wd_plan w) (wd_plan w')"
    using world_elsewhere(3) by (elim evolve_worldE) (auto intro: apply_to_plan_kept [OF t records_kept_refl])
  with records_kept_trans [OF k] evolve_world_typed [OF world_elsewhere(3) t] show ?case by blast
qed simp

end
