(* ===== verification/PlanChain.thy ===== *)
theory PlanChain
  imports PlanCommits Emits
begin

text \<open>
  The graph revisions of the programs: what each event does to the graphs and to the graph a
  program names as active, and the chain that every commit keeps.
\<close>

section \<open>Events that leave graphs alone\<close>

definition links :: "Plan \<Rightarrow> uuid \<Rightarrow> (uuid option \<times> digest option) option" where
  "links pl i = map_option (\<lambda>p. (gp_activeGraphRevisionId p, pge_activeGraphDigest p)) (mget (pl_programs pl) i)"

definition same_links :: "Plan \<Rightarrow> Plan \<Rightarrow> bool" where
  "same_links pl pl' \<longleftrightarrow> pl_graphs pl' = pl_graphs pl \<and> links pl' = links pl"

lemma same_links_refl [simp]: "same_links pl pl"
  by (simp add: same_links_def)

lemma same_links_trans: "same_links pl pl' \<Longrightarrow> same_links pl' pl'' \<Longrightarrow> same_links pl pl''"
  by (simp add: same_links_def)

fun quiet_plan :: "Plan \<Rightarrow> PlanData \<Rightarrow> bool" where
  "quiet_plan pl (ProgramKickedOff i name source d) = False"
| "quiet_plan pl (ProgramGraphApproved g d u) = False"
| "quiet_plan pl (ProgramGraphSuperseded i p u) = False"
| "quiet_plan pl (ProgramStarted i g d u) = (links pl i = Some (Some g, Some d))"
| "quiet_plan pl _ = True"

fun quiet :: "Plan \<Rightarrow> PortfolioData \<Rightarrow> bool" where
  "quiet pl (Planned d) = quiet_plan pl d"
| "quiet pl (Lifecycle (ProgramCreated i name)) = False"
| "quiet pl _ = True"

abbreviation all_quiet :: "Plan \<Rightarrow> PortfolioInput list \<Rightarrow> bool" where
  "all_quiet pl es \<equiv> \<forall>e\<in>set es. quiet pl (pi_data e)"

definition program_frame :: "Plan \<Rightarrow> Plan \<Rightarrow> bool" where
  "program_frame pl pl' \<longleftrightarrow> pl_programs pl' = pl_programs pl \<and> pl_graphs pl' = pl_graphs pl"

lemma frame_same_links: "program_frame pl pl' \<Longrightarrow> same_links pl pl'"
  by (simp add: program_frame_def same_links_def links_def fun_eq_iff)

lemma put_frames [simp]:
  "program_frame pl (put_milestone m pl)" "program_frame pl (put_generation g pl)"
  "program_frame pl (put_issue sha v e pl)" "program_frame pl pl"
  by (simp_all add: program_frame_def put_milestone_def put_generation_def put_issue_def)

lemma frame_trans: "program_frame pl pl' \<Longrightarrow> program_frame pl' pl'' \<Longrightarrow> program_frame pl pl''"
  by (simp add: program_frame_def)

lemma fold_frame:
  assumes "try_fold f p is = Inr pl'" and "program_frame pl p" and "\<And>p i p'. f p i = Inr p' \<Longrightarrow> program_frame p p'"
  shows "program_frame pl pl'"
  by (rule try_fold_invariant [OF assms(1), where P = "program_frame pl"]) (blast intro: assms(2,3) frame_trans)+

lemma pause_frame: "pause_milestone issue pl i = Inr pl' \<Longrightarrow> program_frame pl pl'"
  by (auto simp: pause_milestone_def pause_generation_def program_frame_def put_generation_def elim!: foundE split: option.splits)

lemma resume_frame: "resume_milestone pl i = Inr pl' \<Longrightarrow> program_frame pl pl'"
  by (auto simp: resume_milestone_def program_frame_def elim!: foundE)

lemma on_milestone_frame: "on_milestone i f pl = Inr pl' \<Longrightarrow> program_frame pl pl'"
  by (auto simp: on_milestone_def elim!: foundE)

lemma event_frames:
  shows "apply_issue_raised sha v x d paused pl = Inr pl' \<Longrightarrow> program_frame pl pl'"
    and "apply_issue_resolved sha v at j action t u resumed pl = Inr pl' \<Longrightarrow> program_frame pl pl'"
    and "apply_issue_satisfied sha v j program graph pl = Inr pl' \<Longrightarrow> program_frame pl pl'"
    and "apply_generation_started v n pl = Inr pl' \<Longrightarrow> program_frame pl pl'"
    and "apply_validation_recorded sha v k d pl = Inr pl' \<Longrightarrow> program_frame pl pl'"
    and "apply_packet_recorded sha v at q d pl = Inr pl' \<Longrightarrow> program_frame pl pl'"
    and "apply_interview_captured sha v at r pl = Inr pl' \<Longrightarrow> program_frame pl pl'"
    and "apply_milestone_approved sha v at a pl = Inr pl' \<Longrightarrow> program_frame pl pl'"
proof -
  show "program_frame pl pl'" if "apply_issue_raised sha v x d paused pl = Inr pl'"
    using that unfolding apply_issue_raised_def by (elim check_digestE fold_frame) (auto intro: pause_frame)
  show "program_frame pl pl'" if "apply_issue_resolved sha v at j action t u resumed pl = Inr pl'"
    using that unfolding apply_issue_resolved_def by (elim foundE fold_frame) (auto intro: resume_frame)
  show "program_frame pl pl'" if "apply_issue_satisfied sha v j program graph pl = Inr pl'"
    using that by (auto simp: apply_issue_satisfied_def elim!: foundE split: option.splits if_splits)
  show "program_frame pl pl'" if "apply_generation_started v n pl = Inr pl'"
    using that by (auto simp: apply_generation_started_def intro: frame_trans [OF put_frames(2)] dest: on_milestone_frame)
  show "program_frame pl pl'" if "apply_validation_recorded sha v k d pl = Inr pl'"
    using that by (auto simp: apply_validation_recorded_def program_frame_def elim!: check_digestE dest!: on_milestone_frame)
qed (auto simp: apply_packet_recorded_def apply_interview_captured_def apply_milestone_approved_def elim!: check_digestE
    split: if_splits simp: program_frame_def put_milestone_def)

lemma put_program_links:
  assumes "mget (pl_programs pl) (prog_programId p) = Some q"
    and "gp_activeGraphRevisionId p = gp_activeGraphRevisionId q" and "pge_activeGraphDigest p = pge_activeGraphDigest q"
  shows "same_links pl (put_program p pl)"
  using assms by (auto simp: same_links_def links_def put_program_def fun_eq_iff)

lemma on_program_links:
  assumes t: "plan_typed sha pl" and "on_program i v f pl = Inr pl'"
    and f: "\<And>p. mget (pl_programs pl) i = Some p \<Longrightarrow> prog_programId (f (p\<lparr>prog_version := v\<rparr>)) = prog_programId p \<and>
      gp_activeGraphRevisionId (f (p\<lparr>prog_version := v\<rparr>)) = gp_activeGraphRevisionId p \<and>
      pge_activeGraphDigest (f (p\<lparr>prog_version := v\<rparr>)) = pge_activeGraphDigest p"
  shows "same_links pl pl'"
  using assms(2) unfolding on_program_def
proof (elim foundE)
  fix p assume p: "mget (pl_programs pl) i = Some p" and "Inr (put_program (f (p\<lparr>prog_version := v\<rparr>)) pl) = Inr pl'"
  moreover have "same_links pl (put_program (f (p\<lparr>prog_version := v\<rparr>)) pl)"
    using f [OF p] typed_ids(1) [OF t p] p by (intro put_program_links) auto
  ultimately show ?thesis by simp
qed

lemma linksD: "links pl i = Some (a, d) \<Longrightarrow> \<exists>p. mget (pl_programs pl) i = Some p \<and>
    gp_activeGraphRevisionId p = a \<and> pge_activeGraphDigest p = d"
  by (auto simp: links_def)

lemma quiet_plan_links:
  assumes t: "plan_typed sha pl" and q: "quiet_plan pl d" and a: "apply_plan sha v at d pl = Inr pl'"
  shows "same_links pl pl'"
proof (cases d)
  case (ProgramStarted i g k u)
  with q obtain p where "mget (pl_programs pl) i = Some p" "gp_activeGraphRevisionId p = Some g" "pge_activeGraphDigest p = Some k"
    by (auto dest: linksD)
  moreover from ProgramStarted a have "on_program i v (program_started_at g k at) pl = Inr pl'" by simp
  ultimately show ?thesis by (auto elim!: on_program_links [OF t] simp: program_started_at_def)
next
  case (ProgramExecutionRequested r i g k policy u)
  with a have "on_program i v (execution_requested r policy at) pl = Inr pl'" by simp
  then show ?thesis by (rule on_program_links [OF t]) (simp add: execution_requested_def)
next
  case (ProgramIntegrationPending i g k c)
  with a have "on_program i v (program_phase ''integration_pending'') pl = Inr pl'" by simp
  then show ?thesis by (rule on_program_links [OF t]) (simp add: program_phase_def)
next
  case (ProgramCompleted i g k)
  with a have "on_program i v (program_phase ''completed'') pl = Inr pl'" by simp
  then show ?thesis by (rule on_program_links [OF t]) (simp add: program_phase_def)
next
  case (ProgramParked i reason u)
  with a have "on_program i v program_parked pl = Inr pl'" by simp
  then show ?thesis by (rule on_program_links [OF t]) (simp add: program_parked_def)
next
  case (ProgramResumed i u)
  with a have "on_program i v program_resumed pl = Inr pl'" by simp
  then show ?thesis by (rule on_program_links [OF t]) (simp add: program_resumed_def)
next
  case (ProgramAttentionPriorityChanged i k u)
  with a have "on_program i v (\<lambda>p. p\<lparr>pge_attentionPriority := k\<rparr>) pl = Inr pl'" by simp
  then show ?thesis by (rule on_program_links [OF t]) simp
next
  case (ProgramApproved i n k u)
  with a have "on_program i v (program_approved n k u at) pl = Inr pl'" by (auto elim: check_digestE)
  then show ?thesis by (rule on_program_links [OF t]) (simp add: program_approved_def)
qed (use q a in \<open>auto intro!: frame_same_links dest: event_frames on_milestone_frame elim!: foundE simp: program_frame_def put_generation_def\<close>)

lemma admission_ended_links: "plan_typed sha pl \<Longrightarrow> same_links pl (admission_ended_phase v s i pl)"
proof -
  assume t: "plan_typed sha pl"
  show ?thesis
  proof (cases "Option.bind (mget (portfolioAdmissions s) i) (\<lambda>a. mget (pl_programs pl) (pa_programId (as_admission a)))")
    case (Some p)
    then obtain j where j: "mget (pl_programs pl) j = Some p" by (auto simp: bind_eq_Some_conv)
    with typed_ids(1) [OF t j]
    have "same_links pl (put_program (p\<lparr>prog_phase := ''eligible'', prog_version := v\<rparr>) pl)"
      by (intro put_program_links) simp_all
    then show ?thesis using Some by (simp add: admission_ended_phase_def)
  qed (simp add: admission_ended_phase_def)
qed

lemma quiet_links:
  assumes t: "plan_typed sha pl" and q: "quiet pl d" and a: "apply_to_plan sha v at s d pl = Inr pl'"
  shows "same_links pl pl'"
  using a
proof (cases rule: apply_to_plan.cases [of "(sha, v, at, s, d, pl)"])
  case (3 sha' v' at' s' x d' ls pl'')
  with a have "on_program (pa_programId x) v (program_phase ''running'') pl = Inr pl'" by simp
  then show ?thesis by (rule on_program_links [OF t]) (simp add: program_phase_def)
next
  case (6 sha' v' at' s' r d' pl'')
  with a have "on_program (pr_programId r) v (program_phase ''completed'') pl = Inr pl'" by simp
  then show ?thesis by (rule on_program_links [OF t]) (simp add: program_phase_def)
qed (use q a admission_ended_links [OF t] quiet_plan_links [OF t] in auto)

lemma quiet_same: "same_links pl pl' \<Longrightarrow> quiet pl' d = quiet pl d"
proof -
  assume s: "same_links pl pl'"
  then have "quiet_plan pl' x = quiet_plan pl x" for x by (cases x) (auto simp: same_links_def)
  then show ?thesis by (cases "(pl, d)" rule: quiet.cases) auto
qed

lemma quiet_all_links:
  assumes "evolve_all sha at w es vs = Inr w'" and "plan_typed sha (wd_plan w)" and "all_quiet pl es" and "same_links pl (wd_plan w)"
  shows "same_links pl (wd_plan w')"
  using assms
proof (induction es vs arbitrary: w rule: list_induct2')
  case (4 e es v vs)
  then obtain w1 where w1: "evolve_world sha at w (e, v) = Inr w1" "evolve_all sha at w1 es vs = Inr w'"
    by (auto split: sum.splits)
  have "same_links (wd_plan w) (wd_plan w1)"
    using w1(1) 4(3,4,5) quiet_same by (elim evolve_worldE) (rule quiet_links, auto)
  with 4 w1 evolve_world_typed same_links_trans show ?case by auto
qed auto

section \<open>The chain of graph revisions\<close>

abbreviation revision_of :: "GraphEntity \<Rightarrow> nat" where
  "revision_of g \<equiv> gr_revision (graph_base (gs_graph g))"

abbreviation prior_of :: "GraphEntity \<Rightarrow> ImmutableReference option" where
  "prior_of g \<equiv> gr_priorGraphRef (graph_base (gs_graph g))"

text \<open>A graph is the first of its program or follows a superseded one, which it names by digest.\<close>

definition follows :: "(uuid \<Rightarrow> GraphEntity option) \<Rightarrow> GraphEntity \<Rightarrow> bool" where
  "follows G g \<longleftrightarrow> revision_of g = 1 \<and> prior_of g = None \<or>
     (\<exists>r h. prior_of g = Some r \<and> G (ref_id r) = Some h \<and> gs_programId h = gs_programId g \<and>
        ref_digest r = gs_graphDigest h \<and> revision_of g = revision_of h + 1 \<and> gre_supersededAt h \<noteq> None)"

text \<open>The graph a program names as active is its last one and not superseded.\<close>

definition latest :: "(uuid \<Rightarrow> GraphEntity option) \<Rightarrow> uuid \<Rightarrow> uuid \<Rightarrow> digest option \<Rightarrow> bool" where
  "latest G i a d \<longleftrightarrow> a \<noteq> '''' \<and> (\<exists>g. G a = Some g \<and> gs_programId g = i \<and> gre_supersededAt g = None \<and>
     d = Some (gs_graphDigest g) \<and> (\<forall>k h. G k = Some h \<and> gs_programId h = i \<longrightarrow> revision_of h \<le> revision_of g))"

definition chain ::
    "(uuid \<Rightarrow> GraphEntity option) \<Rightarrow> (uuid \<Rightarrow> (uuid option \<times> digest option) option) \<Rightarrow> bool" where
  "chain G L \<longleftrightarrow> (\<forall>i a d. L i = Some (Some a, d) \<longrightarrow> latest G i a d) \<and>
     (\<forall>k g. G k = Some g \<longrightarrow> (\<exists>a d. L (gs_programId g) = Some (Some a, d) \<and> (gre_supersededAt g = None \<longrightarrow> a = k))) \<and>
     (\<forall>k g. G k = Some g \<longrightarrow> follows G g) \<and>
     (\<forall>k g k' g'. G k = Some g \<and> G k' = Some g' \<and> gs_programId g = gs_programId g' \<and>
        revision_of g = revision_of g' \<longrightarrow> k = k')"

lemma chain_latest: "chain G L \<Longrightarrow> L i = Some (Some a, d) \<Longrightarrow> latest G i a d"
  by (simp add: chain_def)

lemma chain_linked: "chain G L \<Longrightarrow> G k = Some g \<Longrightarrow>
    \<exists>a d. L (gs_programId g) = Some (Some a, d) \<and> (gre_supersededAt g = None \<longrightarrow> a = k)"
  by (simp add: chain_def)

lemma chain_follows: "chain G L \<Longrightarrow> G k = Some g \<Longrightarrow> follows G g"
  by (simp add: chain_def)

lemma chain_inj: "chain G L \<Longrightarrow> G k = Some g \<Longrightarrow> G k' = Some g' \<Longrightarrow> gs_programId g = gs_programId g' \<Longrightarrow>
    revision_of g = revision_of g' \<Longrightarrow> k = k'"
  unfolding chain_def by blast

lemma chain_new_program:
  assumes c: "chain G L" and i: "L i = None"
  shows "chain G (L(i := Some (None, None)))"
  unfolding chain_def
proof (intro conjI allI impI)
  fix k g assume g: "G k = Some g"
  from chain_linked [OF c g] i show "\<exists>a d. (L(i := Some (None, None))) (gs_programId g) = Some (Some a, d) \<and>
      (gre_supersededAt g = None \<longrightarrow> a = k)"
    by (metis fun_upd_other option.distinct(1))
qed (auto intro: chain_latest [OF c] chain_follows [OF c] chain_inj [OF c] split: if_splits)

lemma chain_first:
  assumes c: "chain G L" and l: "L (gs_programId e) = Some (None, d0)" and k: "G n = None" "n \<noteq> ''''"
    and e: "gre_supersededAt e = None" "revision_of e = 1" "prior_of e = None"
  shows "chain (G(n \<mapsto> e)) (L(gs_programId e := Some (Some n, Some (gs_graphDigest e))))" (is "chain ?G ?L")
proof -
  have none: "gs_programId g \<noteq> gs_programId e" if "G j = Some g" for j g
    using chain_linked [OF c that] l by auto
  have f: "follows ?G g" if "G j = Some g" for j g
    using chain_follows [OF c that] k by (auto simp: follows_def)
  have t: "latest ?G i a d" if "L i = Some (Some a, d)" "i \<noteq> gs_programId e" for i a d
  proof -
    from chain_latest [OF c that(1)] obtain g where "a \<noteq> ''''" "G a = Some g" "gs_programId g = i"
      "gre_supersededAt g = None" "d = Some (gs_graphDigest g)"
      "\<forall>k h. G k = Some h \<and> gs_programId h = i \<longrightarrow> revision_of h \<le> revision_of g"
      unfolding latest_def by blast
    with k that(2) show ?thesis unfolding latest_def by (auto intro!: exI [of _ g])
  qed
  show ?thesis
    unfolding chain_def
  proof (intro conjI allI impI)
    fix i a d assume "?L i = Some (Some a, d)"
    with t k none e show "latest ?G i a d" by (cases "i = gs_programId e") (auto simp: latest_def)
  next
    fix j g assume "?G j = Some g"
    with chain_linked [OF c, of j g] none [of j g] show "\<exists>a d. ?L (gs_programId g) = Some (Some a, d) \<and>
        (gre_supersededAt g = None \<longrightarrow> a = j)"
      by (cases "j = n") auto
  next
    fix j g assume "?G j = Some g"
    with f [of j g] e show "follows ?G g" by (cases "j = n") (auto simp: follows_def)
  next
    fix j g j' g' assume j: "?G j = Some g \<and> ?G j' = Some g' \<and> gs_programId g = gs_programId g' \<and> revision_of g = revision_of g'"
    show "j = j'"
    proof (cases "j = n \<or> j' = n")
      case True
      with j none [of j g] none [of j' g'] show ?thesis by (simp split: if_splits)
    next
      case False
      with j have "G j = Some g" "G j' = Some g'" "gs_programId g = gs_programId g'" "revision_of g = revision_of g'"
        by simp_all
      then show ?thesis by (rule chain_inj [OF c])
    qed
  qed
qed

lemma chain_next:
  assumes c: "chain G L" and l: "L (gs_programId e) = Some (Some a, d0)" and k: "G n = None" "n \<noteq> ''''"
    and h: "G a = Some h" and e: "gre_supersededAt e = None" "revision_of e = revision_of h + 1"
    and r: "prior_of e = Some r" "ref_id r = a" "ref_digest r = gs_graphDigest h"
    and h': "gs_graph h' = gs_graph h" "gs_graphDigest h' = gs_graphDigest h" "gs_programId h' = gs_programId h"
      "gre_supersededAt h' \<noteq> None"
  shows "chain (G(a \<mapsto> h', n \<mapsto> e)) (L(gs_programId e := Some (Some n, Some (gs_graphDigest e))))" (is "chain ?G ?L")
proof -
  have an: "a \<noteq> n" using h k by auto
  from chain_latest [OF c l] h have hp: "gs_programId h = gs_programId e" and hl: "gre_supersededAt h = None"
    and hm: "\<And>j g. G j = Some g \<Longrightarrow> gs_programId g = gs_programId e \<Longrightarrow> revision_of g \<le> revision_of h"
    by (auto simp: latest_def)
  have prev: "\<exists>g0. G j = Some g0 \<and> gs_graph g0 = gs_graph g \<and> gs_graphDigest g0 = gs_graphDigest g \<and>
      gs_programId g0 = gs_programId g \<and> (gre_supersededAt g = None \<longrightarrow> j \<noteq> a \<and> gre_supersededAt g0 = None)"
    if "?G j = Some g" "j \<noteq> n" for j g
    using that h h' by (cases "j = a") auto
  have later: "\<exists>g1. ?G j = Some g1 \<and> gs_graph g1 = gs_graph g \<and> gs_graphDigest g1 = gs_graphDigest g \<and>
      gs_programId g1 = gs_programId g \<and> (gre_supersededAt g \<noteq> None \<longrightarrow> gre_supersededAt g1 \<noteq> None)"
    if "G j = Some g" for j g
    using that h h' k by (cases "j = a") auto
  have f: "follows ?G g" if g: "?G j = Some g" "j \<noteq> n" for j g
  proof -
    obtain g0 where g0: "G j = Some g0" "gs_graph g0 = gs_graph g" "gs_programId g0 = gs_programId g"
      using prev [OF g] by blast
    from chain_follows [OF c g0(1)] show ?thesis
      unfolding follows_def
    proof (elim disjE exE conjE)
      fix r0 h0 assume "prior_of g0 = Some r0" "G (ref_id r0) = Some h0" "gs_programId h0 = gs_programId g0"
        "ref_digest r0 = gs_graphDigest h0" "revision_of g0 = revision_of h0 + 1" "gre_supersededAt h0 \<noteq> None"
      moreover from later [OF this(2)] obtain h1 where "?G (ref_id r0) = Some h1" "gs_graph h1 = gs_graph h0"
        "gs_graphDigest h1 = gs_graphDigest h0" "gs_programId h1 = gs_programId h0" "gre_supersededAt h0 \<noteq> None \<longrightarrow> gre_supersededAt h1 \<noteq> None"
        by blast
      ultimately show "revision_of g = 1 \<and> prior_of g = None \<or> (\<exists>r h. prior_of g = Some r \<and> ?G (ref_id r) = Some h \<and>
          gs_programId h = gs_programId g \<and> ref_digest r = gs_graphDigest h \<and> revision_of g = revision_of h + 1 \<and>
          gre_supersededAt h \<noteq> None)"
        using g0 by (intro disjI2 exI [of _ r0] exI [of _ h1]) simp
    qed (use g0 in simp)
  qed
  have t: "latest ?G i b d" if "L i = Some (Some b, d)" "i \<noteq> gs_programId e" for i b d
  proof -
    from chain_latest [OF c that(1)] obtain g where g: "b \<noteq> ''''" "G b = Some g" "gs_programId g = i"
      "gre_supersededAt g = None" "d = Some (gs_graphDigest g)"
      "\<forall>k h. G k = Some h \<and> gs_programId h = i \<longrightarrow> revision_of h \<le> revision_of g"
      unfolding latest_def by blast
    have "b \<noteq> a" using g(2,3) h hp that(2) by auto
    then have "?G b = Some g" using g(2) k by auto
    moreover have "revision_of x \<le> revision_of g" if x: "?G j = Some x" "gs_programId x = i" for j x
    proof -
      from x \<open>i \<noteq> gs_programId e\<close> have "j \<noteq> n" by auto
      from prev [OF x(1) this] obtain g0 where "G j = Some g0" "gs_graph g0 = gs_graph x" "gs_programId g0 = gs_programId x"
        by blast
      with g(6) x(2) show ?thesis by metis
    qed
    ultimately show ?thesis using g unfolding latest_def by blast
  qed
  have top: "revision_of x \<le> revision_of e" if "?G j = Some x" "gs_programId x = gs_programId e" for j x
  proof (cases "j = n")
    case False
    with prev [OF that(1)] that(2) hm e(2) show ?thesis by fastforce
  qed (use that in simp)
  show ?thesis
    unfolding chain_def
  proof (intro conjI allI impI)
    fix i b d assume "?L i = Some (Some b, d)"
    then show "latest ?G i b d"
    proof (cases "i = gs_programId e")
      case True
      with \<open>?L i = Some (Some b, d)\<close> have "b = n" "d = Some (gs_graphDigest e)" by simp_all
      moreover have "?G n = Some e" by simp
      ultimately show ?thesis using True k(2) e(1) top unfolding latest_def by blast
    qed (use t in simp)
  next
    fix j g assume g: "?G j = Some g"
    show "\<exists>b d. ?L (gs_programId g) = Some (Some b, d) \<and> (gre_supersededAt g = None \<longrightarrow> b = j)"
    proof (cases "j = n")
      case False
      obtain g0 where g0: "G j = Some g0" "gs_programId g0 = gs_programId g"
        "gre_supersededAt g = None \<longrightarrow> j \<noteq> a \<and> gre_supersededAt g0 = None"
        by (rule exE [OF prev [OF g False]]) simp
      obtain b d where b: "L (gs_programId g) = Some (Some b, d)" "gre_supersededAt g0 = None \<longrightarrow> b = j"
        using chain_linked [OF c g0(1)] g0(2) by auto
      show ?thesis
      proof (cases "gs_programId g = gs_programId e")
        case True
        with b l g0(3) show ?thesis by auto
      qed (use b g0(3) in auto)
    qed (use g in simp)
  next
    fix j g assume g: "?G j = Some g"
    show "follows ?G g"
    proof (cases "j = n")
      case True
      with g r e h' hp an show ?thesis by (auto simp: follows_def intro!: exI [of _ h'])
    qed (use f [OF g] in simp)
  next
    fix j g j' g' assume j: "?G j = Some g \<and> ?G j' = Some g' \<and> gs_programId g = gs_programId g' \<and> revision_of g = revision_of g'"
    have small: "revision_of x < revision_of e" if "?G i = Some x" "i \<noteq> n" "gs_programId x = gs_programId e" for i x
      using prev [OF that(1,2)] that(3) hm e(2) by fastforce
    show "j = j'"
    proof (cases "j = n \<or> j' = n")
      case True
      show ?thesis
      proof (rule ccontr)
        assume ne: "j \<noteq> j'"
        consider "j = n" "j' \<noteq> n" | "j' = n" "j \<noteq> n" using True ne by blast
        then show False
        proof cases
          case 1
          with j have "g = e" by simp
          with 1 j small [of j' g'] show False by simp
        next
          case 2
          with j have "g' = e" by simp
          with 2 j small [of j g] show False by simp
        qed
      qed
    next
      case False
      with j obtain g0 g0' where "G j = Some g0" "gs_graph g0 = gs_graph g" "gs_programId g0 = gs_programId g"
        "G j' = Some g0'" "gs_graph g0' = gs_graph g'" "gs_programId g0' = gs_programId g'"
        using prev [of j g] prev [of j' g'] by blast
      then show ?thesis using j chain_inj [OF c \<open>G j = Some g0\<close> \<open>G j' = Some g0'\<close>] by simp
    qed
  qed
qed

section \<open>Commits keep the chain\<close>

definition chained :: "Plan \<Rightarrow> bool" where
  "chained pl \<longleftrightarrow> chain (mget (pl_graphs pl)) (links pl)"

lemma empty_chained [simp]: "chained emptyPlan"
  by (simp add: chained_def chain_def emptyPlan_def links_def)

lemma chained_same: "same_links pl pl' \<Longrightarrow> chained pl \<Longrightarrow> chained pl'"
  by (simp add: chained_def same_links_def)

lemma chained_quiet:
  assumes "evolve_all sha at w es vs = Inr w'" and "plan_typed sha (wd_plan w)" and "all_quiet (wd_plan w) es"
    and "chained (wd_plan w)"
  shows "chained (wd_plan w')"
  using quiet_all_links [OF assms(1-3) same_links_refl] assms(4) chained_same by blast

text \<open>The events that write graphs or programs anew.\<close>

lemma new_program_links:
  assumes "prog_programId p = i" and "gp_activeGraphRevisionId p = None" and "pge_activeGraphDigest p = None"
  shows "pl_graphs (put_program p pl) = pl_graphs pl \<and> links (put_program p pl) = (links pl)(i := Some (None, None))"
  using assms by (auto simp: put_program_def links_def fun_eq_iff)

lemma chained_new:
  assumes "chained pl" and "links pl i = None"
  shows "chained (put_program (new_program i name mode phase source v at) pl)"
proof -
  have "prog_programId (new_program i name mode phase source v at) = i"
    "gp_activeGraphRevisionId (new_program i name mode phase source v at) = None"
    "pge_activeGraphDigest (new_program i name mode phase source v at) = None"
    by (simp_all add: new_program_def)
  from new_program_links [OF this] chain_new_program [OF assms(1) [unfolded chained_def] assms(2)]
  show ?thesis by (simp add: chained_def)
qed

lemma graph_approved_links:
  assumes t: "plan_typed sha pl" and "apply_graph_approved sha v at g d u pl = Inr pl'"
  shows "pl_graphs pl' = mput (gr_graphRevisionId (graph_base g)) (graph_entity g d u v at) (pl_graphs pl)"
    and "links pl' = (links pl)(gr_programId (graph_base g) := Some (Some (gr_graphRevisionId (graph_base g)), Some d))"
proof -
  let ?i = "gr_programId (graph_base g)" and ?e = "graph_entity g d u v at"
  obtain pl1 where o: "on_program ?i v (graph_approved g d u at) pl = Inr pl1" and pl': "pl' = put_graph ?e pl1"
    using assms(2) by (auto simp: apply_graph_approved_def map_sum_def elim!: check_digestE split: sum.splits)
  from o obtain p where p: "mget (pl_programs pl) ?i = Some p"
    "pl1 = put_program (graph_approved g d u at (p\<lparr>prog_version := v\<rparr>)) pl"
    by (auto simp: on_program_def elim!: foundE)
  have "prog_programId p = ?i" by (rule typed_ids(1) [OF t p(1)])
  then show "links pl' = (links pl)(?i := Some (Some (gr_graphRevisionId (graph_base g)), Some d))"
    by (auto simp: pl' p(2) links_def put_graph_def put_program_def graph_approved_def fun_eq_iff)
  show "pl_graphs pl' = mput (gr_graphRevisionId (graph_base g)) ?e (pl_graphs pl)"
    by (simp add: pl' p(2) put_graph_def put_program_def graph_entity_def Let_def)
qed

lemma superseded_links:
  assumes t: "plan_typed sha pl" and "apply_graph_superseded v at i pl = Inr pl'"
  obtains h where "mget (pl_graphs pl) i = Some h"
    "pl_graphs pl' = mput i (h\<lparr>gre_supersededAt := Some at, gre_version := v\<rparr>) (pl_graphs pl)" "links pl' = links pl"
proof -
  from assms(2) obtain h where h: "mget (pl_graphs pl) i = Some h"
    "pl' = put_graph (h\<lparr>gre_supersededAt := Some at, gre_version := v\<rparr>) pl"
    by (auto simp: apply_graph_superseded_def elim!: foundE)
  from that [OF h(1)] typed_ids(3) [OF t h(1)] show thesis by (simp add: h(2) put_graph_def links_def fun_eq_iff)
qed

text \<open>The approval of a graph: the supersession of the active one, the graph, and quiet events.\<close>

lemma graph_events_rest:
  assumes "PlanOps.approval_events sha actor st pl g ns = Some es"
  shows "all_quiet pl0 (satisfied_events actor pl g active @ es)"
proof -
  have "quiet pl0 (pi_data e)" if "e \<in> set es" for e
    by (rule approval_events_set [OF assms that]) simp
  then show ?thesis by (auto simp: satisfied_events_def split: if_splits)
qed

lemma evolve_consE:
  assumes "evolve_all sha at w (e # es) vs = Inr w'" and "length vs = length (e # es)"
  obtains v us w1 where "vs = v # us" "evolve_world sha at w (e, v) = Inr w1" "evolve_all sha at w1 es us = Inr w'"
    "length us = length es"
  using assms by (cases vs) (auto split: sum.splits)

lemma active_graph_cases:
  assumes "plan_typed sha pl" and "chained pl" and "mget (pl_programs pl) i = Some p"
  obtains "active_graph pl p = None" "links pl i = Some (None, pge_activeGraphDigest p)"
  | a h where "active_graph pl p = Some h" "links pl i = Some (Some a, pge_activeGraphDigest p)"
      "mget (pl_graphs pl) a = Some h" "gs_graphRevisionId h = a"
proof (cases "gp_activeGraphRevisionId p")
  case None
  with that(1) assms(3) show thesis by (simp add: active_graph_def links_def)
next
  case (Some a)
  with assms(3) have l: "links pl i = Some (Some a, pge_activeGraphDigest p)" by (simp add: links_def)
  from chain_latest [OF assms(2) [unfolded chained_def] l] obtain h where "a \<noteq> ''''" "mget (pl_graphs pl) a = Some h"
    unfolding latest_def by blast
  with that(2) [OF _ l] Some typed_ids(3) [OF assms(1)] show thesis by (simp add: active_graph_def)
qed

lemma graph_approve_chained:
  assumes d: "decide_graph_approve sha actor st s (wd_plan w) g = Inr (evs, k, i)"
    and e: "evolve_all sha at w evs vs = Inr w'" "length vs = length evs"
    and t: "plan_typed sha (wd_plan w)" and c: "chained (wd_plan w)" and n: "gr_graphRevisionId (graph_base g) \<noteq> ''''"
  shows "chained (wd_plan w')"
  using d
proof (rule graph_approve_Inr)
  let ?pl = "wd_plan w" and ?b = "graph_base g"
  let ?n = "gr_graphRevisionId ?b" and ?i = "gr_programId ?b" and ?d = "digest_of sha (enc_Graph g)"
  fix p es
  assume p: "mget (pl_programs ?pl) ?i = Some p" and gi: "graph_issue st s ?pl p g = None"
    and es: "PlanOps.approval_events sha actor st ?pl g (graph_nodes g) = Some es"
    and evs: "evs = graph_events sha actor ?pl p g @ es"
  let ?a = "active_graph ?pl p"
  let ?rest = "satisfied_events actor ?pl g ?a @ es"
  let ?new = "plan_event ''program_graph'' ?n (ProgramGraphApproved g ?d (actor_id actor))"
  have q: "all_quiet pl0 ?rest" for pl0 by (rule graph_events_rest [OF es])
  have free: "mget (pl_graphs ?pl) ?n = None" by (rule graph_issue_None(1) [OF gi])
  have ext: "graph_extends ?a ?b" by (rule graph_issue_None(4) [OF gi])
  have approved: "chained (wd_plan w')"
    if ev: "evolve_all sha at w1 (?new # ?rest) us = Inr w'" "length us = length (?new # ?rest)"
      and t1: "plan_typed sha (wd_plan w1)"
      and ch: "\<And>v. chain ((mget (pl_graphs (wd_plan w1)))(?n \<mapsto> graph_entity g ?d (actor_id actor) v at))
        ((links (wd_plan w1))(?i := Some (Some ?n, Some ?d)))" for w1 us
    using ev
  proof (rule evolve_consE)
    fix v us' w2
    assume w2: "evolve_world sha at w1 (?new, v) = Inr w2" "evolve_all sha at w2 ?rest us' = Inr w'"
    from w2(1) have a: "apply_graph_approved sha v at g ?d (actor_id actor) (wd_plan w1) = Inr (wd_plan w2)"
      by (elim evolve_worldE) simp
    have "chained (wd_plan w2)"
      using graph_approved_links [OF t1 a] ch [of v] by (simp add: chained_def update_conv fun_upd_def)
    from chained_quiet [OF w2(2) evolve_world_typed [OF w2(1) t1] q this] show ?thesis .
  qed
  note ent = graph_entity_def Let_def
  show ?thesis
    using t c p
  proof (cases rule: active_graph_cases)
    case 1
    with e evs have ev: "evolve_all sha at w (?new # ?rest) vs = Inr w'" "length vs = length (?new # ?rest)"
      by (simp_all add: graph_events_def superseded_events_def Let_def)
    show ?thesis
    proof (rule approved [OF ev t])
      fix v let ?e = "graph_entity g ?d (actor_id actor) v at"
      have "chain ((mget (pl_graphs ?pl))(?n \<mapsto> ?e)) ((links ?pl)(gs_programId ?e := Some (Some ?n, Some (gs_graphDigest ?e))))"
        by (rule chain_first [OF c [unfolded chained_def], of _ "pge_activeGraphDigest p"])
           (use 1 ext free n in \<open>simp_all add: ent graph_extends_def\<close>)
      then show "chain ((mget (pl_graphs ?pl))(?n \<mapsto> ?e)) ((links ?pl)(?i := Some (Some ?n, Some ?d)))"
        by (simp add: ent)
    qed
  next
    case (2 a h)
    let ?sup = "plan_event ''program_graph'' a (ProgramGraphSuperseded a ?i ?n)"
    from 2 e evs have ev: "evolve_all sha at w (?sup # ?new # ?rest) vs = Inr w'" "length vs = length (?sup # ?new # ?rest)"
      by (simp_all add: graph_events_def superseded_events_def Let_def)
    from ev show ?thesis
    proof (rule evolve_consE)
      fix v us w1
      assume w1: "evolve_world sha at w (?sup, v) = Inr w1"
        and ev1: "evolve_all sha at w1 (?new # ?rest) us = Inr w'" "length us = length (?new # ?rest)"
      from w1 have "apply_graph_superseded v at a ?pl = Inr (wd_plan w1)" by (elim evolve_worldE) simp
      then obtain h0 where h0: "mget (pl_graphs ?pl) a = Some h0"
        "pl_graphs (wd_plan w1) = mput a (h0\<lparr>gre_supersededAt := Some at, gre_version := v\<rparr>) (pl_graphs ?pl)"
        "links (wd_plan w1) = links ?pl"
        by (rule superseded_links [OF t])
      let ?h' = "h\<lparr>gre_supersededAt := Some at, gre_version := v\<rparr>"
      from h0(1) 2(3) have hh: "h0 = h" by simp
      from ext 2 obtain r where r: "gr_priorGraphRef ?b = Some r" "ref_id r = a" "ref_digest r = gs_graphDigest h"
        "gr_revision ?b = gr_revision (graph_base (gs_graph h)) + 1"
        by (auto simp: graph_extends_def split: option.splits)
      show ?thesis
      proof (rule approved [OF ev1 evolve_world_typed [OF w1 t]])
        fix v' let ?e = "graph_entity g ?d (actor_id actor) v' at"
        have "chain ((mget (pl_graphs ?pl))(a \<mapsto> ?h', ?n \<mapsto> ?e)) ((links ?pl)(gs_programId ?e := Some (Some ?n, Some (gs_graphDigest ?e))))"
          by (rule chain_next [OF c [unfolded chained_def], of _ _ "pge_activeGraphDigest p" _ h r])
             (use 2 r free n in \<open>simp_all add: ent\<close>)
        then show "chain ((mget (pl_graphs (wd_plan w1)))(?n \<mapsto> ?e)) ((links (wd_plan w1))(?i := Some (Some ?n, Some ?d)))"
          by (simp add: ent h0(2,3) hh update_conv fun_upd_def)
      qed
    qed
  qed
qed

section \<open>Every command\<close>

definition creates :: "EventData \<Rightarrow> bool" where
  "creates d \<longleftrightarrow> (\<exists>i name. d = ProgramCreated i name)"

abbreviation uncreating :: "EventData \<Rightarrow> bool" where
  "uncreating d \<equiv> \<not> creates d"

lemma creates_simps [simp]: "allows_teardown st uncreating"
  by (simp add: allows_teardown_def creates_def)

lemmas uncreating_emits = emits_failureTransition [OF creates_simps] emits_nonretryable [OF creates_simps]
  emits_jobFailure [OF creates_simps] emits_cancellationForRun [OF creates_simps]

lemma uncreating_success: "emits uncreating (jobSuccessEvents st job)"
  by (rule emits_jobSuccess) (simp_all add: creates_def)

lemma uncreating_branches:
  "accepts uncreating (decide_source_revision_register sha st r)"
  "accepts uncreating (decide_run_create st rid pid wid wv)"
  "accepts uncreating (decide_workflow_register sha st wd)"
  "accepts uncreating (decide_job_lease_renew st jid owner token duration now)"
  "accepts uncreating (decide_job_lease_release st jid owner token now)"
  "accepts uncreating (decide_run_cancel sha st rid reason)"
  "accepts uncreating (decide_terminal_receipt_record sha st tp now)"
  "accepts uncreating (decide_attempt_timeout sha st j a w t now)"
  "accepts uncreating (decide_verification_execution_fail sha st vp now)"
  "accepts uncreating (decide_outbox_lease_acquire st b w d now)"
  "accepts uncreating (decide_outbox_delivery_succeed sha st b w t ext now)"
  "accepts uncreating (decide_outbox_delivery_fail sha st b w t err now)"
  "accepts uncreating (decide_verification_complete sha st cp now)"
  by (auto simp: decide_source_revision_register_def decide_run_create_def decide_workflow_register_def
      decide_job_lease_renew_def decide_job_lease_release_def decide_run_cancel_def decide_terminal_receipt_record_def
      terminal_receipt_events_def decide_attempt_timeout_def decide_verification_execution_fail_def
      decide_outbox_lease_acquire_def decide_outbox_delivery_succeed_def decide_outbox_delivery_fail_def
      decide_verification_complete_def verification_events_def started_events_def dead_letter_events_def
      uncreating_emits uncreating_success Let_def split: option.splits sum.splits)
     (simp_all add: creates_def)

lemma uncreating_stop: "emits uncreating (stop_events sha st pl n cs ms)"
proof -
  have *: "emits (\<lambda>d. \<forall>i name. d \<noteq> ProgramCreated i name) (fst (cancellationEvents sha st j r gs))" for sha st j r gs
    by (rule emits_cancellation) (simp add: allows_teardown_def)
  show ?thesis
    by (induction sha st pl n cs ms rule: stop_events.induct) (auto simp: creates_def * split: option.splits)
qed

lemma uncreating_schedule: "schedule_events sha rid m ws = Inr evs \<Longrightarrow> emits uncreating evs"
  by (induction ws arbitrary: evs)
     (auto simp: creates_def split: sum.splits option.splits)

lemma uncreating_rest:
  "accepts uncreating (decide_run_schedule sha st rid js)"
  "accepts uncreating (decide_job_lease_acquire sha st p now)"
  "accepts uncreating (decide_driver_events_observe st q now)"
  "accepts uncreating (decide_driver_receipt_record sha st r now)"
  "accepts uncreating (decide_attempt_observe sha st o' now)"
proof -
  show "accepts uncreating (decide_run_schedule sha st rid js)"
    by (auto simp: decide_run_schedule_def Let_def creates_def dest: uncreating_schedule [unfolded creates_def]
        split: option.splits sum.splits)
  show "accepts uncreating (decide_job_lease_acquire sha st p now)"
    by (auto simp: decide_job_lease_acquire_def job_claim_events_def Let_def creates_def split: option.splits)
  have "emits uncreating (scan_events s')" if "scan_driver_events job a (scan_start a) es = Inr s'" for job a es s'
    using that by (rule emits_scan) (simp_all add: scan_start_def creates_def)
  then show "accepts uncreating (decide_driver_events_observe st q now)"
    by (auto simp: decide_driver_events_observe_def split: option.splits sum.splits) (simp_all add: creates_def)
  show "accepts uncreating (decide_driver_receipt_record sha st r now)"
  proof -
    have "emits uncreating evs" if "receipt_outcome_events sha st job a r now = Inr evs" for job a evs
      using that
      by (auto simp: receipt_outcome_events_def Let_def uncreating_emits split: if_splits option.splits
          intro!: emits_verificationRequest) (simp_all add: creates_def)
    moreover have "emits uncreating (receipt_evidence_events sha st job a r)" for job a
      by (rule emits_receipt_evidence) (simp_all add: creates_def)
    ultimately show ?thesis
      by (auto simp: decide_driver_receipt_record_def split: option.splits sum.splits)
  qed
  show "accepts uncreating (decide_attempt_observe sha st o' now)"
    by (auto simp: decide_attempt_observe_def observe_verification_def uncreating_emits uncreating_success
        split: sum.splits option.splits intro!: emits_verificationRequest) (simp_all add: creates_def)
qed

lemma uncreating_decide:
  assumes "decide_body sha st now body = Accept es k n" and "\<And>i name. body \<noteq> Cmd_program_create i name"
  shows "emits uncreating es"
  using assms
  by (cases body) (auto dest: uncreating_branches [THEN acceptsD] uncreating_rest [THEN acceptsD])

text \<open>The events of a command: a new program and quiet events, only quiet events, or a graph approved.\<close>

definition founding :: "Plan \<Rightarrow> PortfolioInput list \<Rightarrow> bool" where
  "founding pl es \<longleftrightarrow> (\<exists>e es' i name. es = e # es' \<and> links pl i = None \<and> (\<forall>pl0. all_quiet pl0 es') \<and>
     (pi_data e = Lifecycle (ProgramCreated i name) \<or> (\<exists>r d. pi_data e = Planned (ProgramKickedOff i name r d))))"

lemma lifecycle_founding:
  assumes s: "in_step w" and d: "decide_body sha (wd_state w) now body = Accept es k n"
  shows "all_quiet (wd_plan w) (map lifecycle_event es) \<or> founding (wd_plan w) (map lifecycle_event es)"
proof (cases "\<exists>i name. body = Cmd_program_create i name")
  case True
  then obtain i name where b: "body = Cmd_program_create i name" by blast
  with d have "es = [event ST_program i (ProgramCreated i name)]" "\<not> mhas (programs (wd_state w)) i"
    by (auto simp: decide_program_create_def split: if_splits)
  moreover from this(2) s have "links (wd_plan w) i = None"
    by (simp add: in_step_def program_view_def links_def mhas_def)
  ultimately show ?thesis by (auto simp: founding_def event_def)
next
  case False
  then have "emits uncreating es" using uncreating_decide [OF d] by blast
  moreover have "quiet pl (Lifecycle d)" if "uncreating d" for pl d
    using that by (cases d) (auto simp: creates_def)
  ultimately show ?thesis by (auto simp: emits_def)
qed

lemma started_quiet:
  "startGraphMilestoneEvents sha cx g i n base vs policy now = Inr st \<Longrightarrow> all_quiet pl (st_events st)"
  by (erule started_generation) (simp add: generation_events_def pf_event_def Let_def)

lemma named_graph_links:
  assumes "named_graph pl p k d = Some g" and "mget (pl_programs pl) i = Some p"
  shows "links pl i = Some (Some k, Some d)" and "mget (pl_graphs pl) k = Some g" and "gs_graphDigest g = d"
  using assms by (auto simp: named_graph_def links_def bind_eq_Some_conv split: if_splits)

text \<open>The admitted program of a coordination names the graph it is started with.\<close>

lemma eligible_program:
  assumes "p \<in> set (eligiblePrograms lc cx)"
  shows "p \<in> set (mvalues (cx_programs cx))" "prog_programMode p = ''graph_v2''" "prog_phase p = ''eligible''"
  using assms by (auto simp: eligiblePrograms_def eligible_def)

lemma coordinate_quiet:
  assumes d: "decide_portfolio_coordinate sha lc actor now (world_context policies packets w) s n du = Inr (evs, k, i)"
    and t: "plan_typed sha (wd_plan w)" and c: "chained (wd_plan w)"
  shows "all_quiet (wd_plan w) evs"
  using d
proof (rule coordinate_admits)
  let ?pl = "wd_plan w" and ?cx = "world_context policies packets w"
  fix pre p post a st request
  assume e: "eligiblePrograms lc ?cx = pre @ p # post" and a: "admits sha now ?cx s p a st request"
    and g: "grant sha actor now s du request p a st = Inr (evs, k, i)"
  have "p \<in> set (mvalues (cx_programs ?cx))" by (rule eligible_program [of _ lc]) (simp add: e)
  then obtain q where q: "q \<in> set (mvalues (pl_programs ?pl))" "p = GraphProgramState.truncate q" by auto
  from t have "typed_map (program_typed sha) (pl_programs ?pl)" by (simp add: plan_typed_def)
  from typed_map_values [OF this q(1)] obtain j where j: "mget (pl_programs ?pl) j = Some q" "prog_programId q = j"
    by (auto simp: program_typed_def)
  have "admission_plan ?cx s p = Some a" using a by (simp add: admits_def)
  from admission_termsD(1) [OF admission_planD(1) [OF this]] obtain b h where
    b: "truthy (gp_activeGraphRevisionId q) = Some b" "mget (pl_graphs ?pl) b = Some h"
      "tm_graph a = ProgramGraphState.truncate h"
    by (auto simp: bind_eq_Some_conv q(2) GraphProgramState.defs AdmissionTerms.defs)
  from b(1) have act: "gp_activeGraphRevisionId q = Some b" by (cases "gp_activeGraphRevisionId q") (auto split: if_splits)
  with j have l: "links ?pl j = Some (Some b, pge_activeGraphDigest q)" by (simp add: links_def)
  from chain_latest [OF c [unfolded chained_def] l] b(2) have "pge_activeGraphDigest q = Some (gs_graphDigest h)"
    by (auto simp: latest_def)
  moreover have "gs_graphRevisionId h = b" by (rule typed_ids(3) [OF t b(2)])
  ultimately have "all_quiet ?pl (program_started actor p (tm_graph a))"
    using l j(2) by (simp add: program_started_def pf_event_def b(3) q(2) ProgramGraphState.defs GraphProgramState.defs)
  moreover have "all_quiet ?pl (st_events st)" 
    using a unfolding admits_def by (elim conjE started_quiet)
  ultimately show ?thesis using g by (auto simp: grant_def pf_event_def Let_def)
qed

lemma portfolio_quiet:
  assumes d: "decide_portfolio sha lc a now (world_context policies packets w) s c = Inr (evs, k, i)"
    and t: "plan_typed sha (wd_plan w)" and ch: "chained (wd_plan w)"
  shows "all_quiet (wd_plan w) evs"
proof (cases c)
  case (Pc_decision_integrate p)
  with d obtain x st opt v c' j e u reason where "evs = x # authorization_events sha a now j v c' st opt"
    "outcomeDispositionEvent sha (world_context policies packets w) u (Some e) ''accepted'' (Some reason) (actor_id a) now = Inr x"
    by (auto elim: integrate_Inr)
  then show ?thesis
    by (auto simp: authorization_events_def outcomeDispositionEvent_def pf_event_def Let_def split: option.splits if_splits)
next
  case (Pc_coordinate n du)
  with d coordinate_quiet [OF _ t ch] show ?thesis by simp
next
  case (Pc_decision_compile i' n)
  with d show ?thesis by (auto elim!: compile_Inr simp: packet_events_def pf_event_def Let_def)
next
  case (Pc_candidate_queue cd x v)
  with d show ?thesis
    by (auto simp: decide_integration_candidate_queue_def program_pending_def pf_event_def Let_def
        split: if_splits option.splits)
qed (insert d, auto simp: decide_defs split: if_splits option.splits)

lemma advance_quiet:
  assumes "decide_program_advance sha lc actor now st pl v = Inr (evs, kind, j)"
  shows "all_quiet pl evs"
  using assms
proof (cases rule: advance_Inr)
  case (started p g n m base started)
  then have "all_quiet pl (st_events started)" 
    unfolding advances_to_def by (elim conjE started_quiet)
  with started show ?thesis by (auto simp: validation_event_def ball_Un)
qed (auto simp: validation_event_def ball_Un)

lemma start_v1_quiet:
  assumes "decide_program_start_v1 sha actor now st pl i d k policy = Inr (evs, kind, j)"
  shows "all_quiet pl evs"
  using assms
proof (rule start_v1_Inr)
  fix p g root base started
  assume s: "startable_v1 pl i d k = Some (p, g)"
    and st: "startGraphMilestoneEvents sha (plan_context st pl) (ProgramGraphState.truncate g) (node_id root) 1 base [] policy now = Inr started"
    and evs: "evs = plan_event ''program'' i (ProgramStarted i d k (actor_id actor)) # st_events started"
  from s have "links pl i = Some (Some d, Some k)"
    by (auto simp: startable_v1_def bind_eq_Some_conv split: if_splits intro: named_graph_links(1))
  with started_quiet [OF st] evs show ?thesis by simp
qed

lemma plan_founding:
  assumes d: "decide_plan sha lc a now st s pl c = Inr (evs, k, i)" and "\<And>g. c \<noteq> Ln_graph_approve g"
  shows "all_quiet pl evs \<or> founding pl evs"
proof (cases c)
  case (Ln_graph_approve g)
  with assms(2) show ?thesis by blast
next
  case (Ln_start_v1 i g d p)
  with d start_v1_quiet show ?thesis by simp
next
  case (Ln_advance v)
  with d advance_quiet show ?thesis by simp
next
  case (Ln_kickoff j name r x)
  with d have "evs = [plan_event ''program'' j (ProgramKickedOff j name r x)]" "\<not> mhas (pl_programs pl) j"
    by (auto simp: decide_kickoff_def split: if_splits option.splits)
  then show ?thesis by (auto simp: founding_def links_def mhas_def)
next
  case (Ln_program_approve x)
  with d obtain y z where "evs = [pf_event ''program'' (pga_programId x) (Lifecycle (ProgramCreated (pga_programId x) (pga_name x))), y, z]"
    "\<forall>pl0. quiet pl0 (pi_data y) \<and> quiet pl0 (pi_data z)" "\<not> mhas (pl_programs pl) (pga_programId x)"
    by (auto simp: decide_program_approve_def Let_def split: if_splits option.splits list.splits)
  then show ?thesis by (auto simp: founding_def links_def mhas_def pf_event_def)
next
  case (Ln_disposition j x reason)
  with d show ?thesis
    by (auto simp: decide_disposition_def outcomeDispositionEvent_def pf_event_def Let_def
        split: if_splits option.splits sum.splits prod.splits)
next
  case (Ln_issue_raise x)
  have q: "all_quiet pl (map lifecycle_event (stop_events sha st pl n cs ms))" for n cs ms
  proof -
    have "emits uncreating (stop_events sha st pl n cs ms)" by (rule uncreating_stop)
    moreover have "quiet pl (Lifecycle d)" if "uncreating d" for d using that by (cases d) (auto simp: creates_def)
    ultimately show ?thesis by (auto simp: emits_def)
  qed
  from Ln_issue_raise d show ?thesis
    using q by (auto simp: decide_issue_raise_def Let_def split: if_splits option.splits)
next
  case (Ln_interview x)
  with d show ?thesis by (auto simp: decide_interview_capture_def split: if_splits option.splits)
qed (insert d, auto simp: decide_program_start_v2_def decide_issue_resolve_def issueResolutionEvent_def
    decide_attention_start_def decide_attention_stop_def decide_milestone_start_def pf_event_def Let_def
    split: if_splits option.splits sum.splits prod.splits)

lemma founded_chained:
  assumes f: "founding (wd_plan w) es" and e: "evolve_all sha at w es vs = Inr w'" "length vs = length es"
    and t: "plan_typed sha (wd_plan w)" and c: "chained (wd_plan w)"
  shows "chained (wd_plan w')"
proof -
  from f obtain x es' i name where x: "es = x # es'" "links (wd_plan w) i = None" "\<forall>pl0. all_quiet pl0 es'"
    "pi_data x = Lifecycle (ProgramCreated i name) \<or> (\<exists>r d. pi_data x = Planned (ProgramKickedOff i name r d))"
    by (auto simp: founding_def)
  from e [unfolded x(1)] show ?thesis
  proof (rule evolve_consE)
    fix v us w1
    assume w1: "evolve_world sha at w (x, v) = Inr w1" "evolve_all sha at w1 es' us = Inr w'"
    have "chained (wd_plan w1)"
      using x(4)
    proof
      assume d: "pi_data x = Lifecycle (ProgramCreated i name)"
      from w1(1) have "wd_plan w1 = put_program (new_program i name ''legacy_v1'' ''legacy_active'' None v at) (wd_plan w)"
        by (elim evolve_worldE) (simp add: d)
      then show ?thesis by (simp add: chained_new [OF c x(2)])
    next
      assume "\<exists>r d. pi_data x = Planned (ProgramKickedOff i name r d)"
      then obtain r d where d: "pi_data x = Planned (ProgramKickedOff i name r d)" by blast
      from w1(1) have "wd_plan w1 = put_program (new_program i name ''graph_v1'' ''draft'' (Some (r, d)) v at) (wd_plan w)"
        by (elim evolve_worldE) (simp add: d)
      then show ?thesis by (simp add: chained_new [OF c x(2)])
    qed
    then show ?thesis using chained_quiet [OF w1(2) evolve_world_typed [OF w1(1) t]] x(3) by blast
  qed
qed

lemma derived_quiet: "deriveOutcomeEvents valid sha lc st s pl rs = Inr os \<Longrightarrow> all_quiet pl0 os"
  unfolding deriveOutcomeEvents_def
  by (auto elim!: derive_outcomes_set simp: outcome_events_def generation_release_def pf_event_def Let_def
      split: option.splits list.splits if_splits)

lemma commit_chained:
  assumes c: "commit_world valid sha lc now w es vs us = Inr w'" and t: "plan_typed sha (wd_plan w)"
    and e: "\<And>w1. evolve_all sha now w es vs = Inr w1 \<Longrightarrow> chained (wd_plan w1)"
  shows "chained (wd_plan w')"
  using c
proof (rule commit_worldE)
  fix w1 os
  assume 1: "evolve_all sha now w es vs = Inr w1" and 2: "evolve_all sha now w1 os us = Inr w'"
    and d: "deriveOutcomeEvents valid sha lc (wd_state w1) (wd_portfolio w1) (wd_plan w1) (ended_runs es) = Inr os"
  show ?thesis by (rule chained_quiet [OF 2 evolve_all_typed [OF 1 t] derived_quiet [OF d] e [OF 1]])
qed

lemma world_events_chained:
  assumes "world_events sha lc a now (world_context policies packets w) w c = Some es" and "well_named c"
    and s: "in_step w" and t: "plan_typed sha (wd_plan w)" and ch: "chained (wd_plan w)"
    and e: "evolve_all sha now w es vs = Inr w1" "length vs = length es"
  shows "chained (wd_plan w1)"
proof (cases "\<exists>g. c = Wc_plan (Ln_graph_approve g)")
  case True
  then obtain g k i where "c = Wc_plan (Ln_graph_approve g)"
    "decide_graph_approve sha a (wd_state w) (wd_portfolio w) (wd_plan w) g = Inr (es, k, i)"
    using assms(1) by (auto split: sum.splits)
  with assms(2) show ?thesis by (auto intro: graph_approve_chained [OF _ e t ch])
next
  case False
  have "all_quiet (wd_plan w) es \<or> founding (wd_plan w) es"
  proof (cases c)
    case (Wc_lifecycle body)
    with assms(1) obtain ls k i where d: "decide_body sha (wd_state w) now body = Accept ls k i" "es = map lifecycle_event ls"
      by (auto split: Decision.splits)
    show ?thesis unfolding d(2) by (rule lifecycle_founding [OF s d(1)])
  next
    case (Wc_portfolio x)
    with assms(1) show ?thesis using portfolio_quiet [OF _ t ch] by (auto split: sum.splits)
  next
    case (Wc_plan x)
    with assms(1) obtain k i where d: "decide_plan sha lc a now (wd_state w) (wd_portfolio w) (wd_plan w) x = Inr (es, k, i)"
      by (auto split: sum.splits)
    show ?thesis by (rule plan_founding [OF d]) (use Wc_plan False in blast)
  qed
  then show ?thesis using chained_quiet [OF e(1) t _ ch] founded_chained [OF _ e t ch] by blast
qed

lemma elsewhere_quiet: "decided_elsewhere sha w e \<Longrightarrow> quiet pl (pi_data e)"
proof (induction rule: decided_elsewhere.induct)
  case (4 i d action t u e)
  then show ?case by (auto simp: issueResolutionEvent_def Let_def split: option.splits if_splits)
next
  case (5 i d disposition reason u now e)
  then show ?case by (auto simp: outcomeDispositionEvent_def pf_event_def Let_def split: option.splits if_splits)
qed simp_all

lemma reachable_chained:
  assumes "world_reachable valid sha lc w0 w" and "in_step w0" and "plan_typed sha (wd_plan w0)" and "chained (wd_plan w0)"
  shows "chained (wd_plan w)"
  using assms
proof (induction rule: world_reachable.induct)
  case (world_commit w c a now policies packets w')
  then have t: "plan_typed sha (wd_plan w)" and s: "in_step w" and ch: "chained (wd_plan w)"
    using reachable_keeps reachable_in_step by blast+
  from world_commit(3) obtain es vs us where es: "world_events sha lc a now (world_context policies packets w) w c = Some es"
    "length vs = length es" and cm: "commit_world valid sha lc now w es vs us = Inr w'"
    by (auto simp: world_commits_def)
  show ?case by (rule commit_chained [OF cm t]) (rule world_events_chained [OF es(1) world_commit(2) s t ch _ es(2)])
next
  case (world_elsewhere w e now v w')
  then have t: "plan_typed sha (wd_plan w)" and ch: "chained (wd_plan w)" using reachable_keeps by blast+
  have "same_links (wd_plan w) (wd_plan w')"
    using world_elsewhere(3) by (elim evolve_worldE) (auto intro: quiet_links [OF t] elsewhere_quiet [OF world_elsewhere(2)])
  then show ?case using ch by (rule chained_same)
qed simp

end
