(* ===== verification/PlanScenario.thy ===== *)
theory PlanScenario
  imports PlanChain AdmissionScenario Scenario
begin

text \<open>
  A concrete program: its source and workflow are registered, it is kicked off and interviewed,
  two revisions of its graph are approved, each with two milestones of which the second depends
  on the first. A contradiction about the first pauses both; its resolution resumes the first.
\<close>

section \<open>Running commands\<close>

definition world_step :: "Actor \<Rightarrow> timestamp \<Rightarrow> WorldCommand \<Rightarrow> World \<Rightarrow> World" where
  "world_step a now c w =
     (case world_events blank_sha by_length a now (world_context [] [] w) w c of
        None \<Rightarrow> w
      | Some es \<Rightarrow>
          (case commit_world (\<lambda>p. True) blank_sha by_length now w es (replicate (length es) 1) [] of
             Inl x \<Rightarrow> w | Inr w' \<Rightarrow> w'))"

abbreviation plan_reachable :: "World \<Rightarrow> World \<Rightarrow> bool" where
  "plan_reachable \<equiv> world_reachable (\<lambda>p. True) blank_sha by_length"

lemma world_step_reachable:
  assumes "plan_reachable w0 w" and "well_named c"
  shows "plan_reachable w0 (world_step a now c w)"
proof (cases "world_events blank_sha by_length a now (world_context [] [] w) w c")
  case None
  with assms show ?thesis by (simp add: world_step_def)
next
  case (Some es)
  show ?thesis
  proof (cases "commit_world (\<lambda>p. True) blank_sha by_length now w es (replicate (length es) 1) []")
    case (Inl x)
    with Some assms show ?thesis by (simp add: world_step_def)
  next
    case (Inr w')
    with Some have "world_commits (\<lambda>p. True) blank_sha by_length a now (world_context [] [] w) c w w'"
      unfolding world_commits_def by (intro exI [of _ es] exI [of _ "replicate (length es) 1"] exI [of _ "[]"]) simp
    with Some Inr assms show ?thesis by (simp add: world_step_def world_commit)
  qed
qed

lemma world_step_decides:
  assumes "world_step a now (Wc_plan c) w \<noteq> w"
  obtains es k i where "decide_plan blank_sha by_length a now (wd_state w) (wd_portfolio w) (wd_plan w) c = Inr (es, k, i)"
    "evolve_all blank_sha now w es (replicate (length es) 1) = Inr (world_step a now (Wc_plan c) w)"
  using assms by (auto simp: world_step_def commit_world_def split: option.splits sum.splits if_splits)

lemma plan_reachable_trans: "world_reachable valid sha lc w0 w \<Longrightarrow> world_reachable valid sha lc w w' \<Longrightarrow> world_reachable valid sha lc w0 w'"
  by (rotate_tac 1, induction rule: world_reachable.induct) (auto intro: world_reachable.intros)

section \<open>Its data\<close>

definition plan_source :: SourceRevision where
  "plan_source = \<lparr>sr_revisionId = ''h0'', sr_repositoryId = ''repo'', sr_objectFormat = Sha1,
     sr_commitOid = replicate 40 CHR ''c'', sr_treeOid = replicate 40 CHR ''d'', sr_storageRef = '''', sr_revisionDigest = ''''\<rparr>"

definition plan_workflow :: WorkflowDefinition where
  "plan_workflow = wf_definition (admission_workflow 1000)"

definition plan_interview :: InterviewCapture where
  "plan_interview = \<lparr>icp_interviewId = ''n1'', icp_playbackId = ''i1'', icp_programId = ''p1'', icp_transcript = [],
     icp_answers = \<lparr>ia_objective = '''', ia_desiredBehaviors = [], ia_nonGoals = [], ia_edgeCases = [],
       ia_ownershipBoundaries = [], ia_successMeasures = [], ia_riskTolerance = '''', ia_tenets = []\<rparr>\<rparr>"

definition plan_node :: "uuid \<Rightarrow> uuid option \<Rightarrow> GraphMilestoneV1" where
  "plan_node m d = \<lparr>gm_contract = lane_contract m, gm_dependencies = (case d of None \<Rightarrow> [] | Some x \<Rightarrow> [x]),
     gm_sourcePredecessor = d, gm_refs = [], gm_allowedWorkSurfaces = [''src/+'']\<rparr>"

definition plan_graph :: "uuid \<Rightarrow> nat \<Rightarrow> ImmutableReference option \<Rightarrow> Graph" where
  "plan_graph i n prior = Graph_v1 \<lparr>gr_graphRevisionId = i, gr_programId = ''p1'', gr_revision = n,
     gr_priorGraphRef = prior, gr_intentPlaybackRef = demo_ref ''intent_playback'' ''i1'',
     gr_initialSourceRef = demo_ref ''source_revision'' ''h0'',
     gr_initialContext = \<lparr>ictx_decisions = [], ictx_assumptions = [], ictx_risks = [],
       ictx_unresolvedQuestions = [], ictx_refs = []\<rparr>,
     g1_milestones = [plan_node ''m1'' None, plan_node ''m2'' (Some ''m1'')]\<rparr>"

definition plan_issue :: IssueRaise where
  "plan_issue = \<lparr>irs_issueId = ''x1'', irs_programId = ''p1'', irs_originalText = '''',
     irs_proposedClass = Contradiction, irs_resultImpact = Impact_none, irs_affectedMilestoneIds = [''m1''],
     irs_refs = [], irs_source = None\<rparr>"

section \<open>Its states\<close>

definition plan_registered :: World where
  "plan_registered = world_step host 0 (Wc_lifecycle (Cmd_source_revision_register plan_source)) emptyWorld"

definition plan_defined :: World where
  "plan_defined = world_step host 1 (Wc_lifecycle (Cmd_workflow_register plan_workflow)) plan_registered"

definition plan_kicked_off :: World where
  "plan_kicked_off = world_step IntegrationScenario.operator 2 (Wc_plan (Ln_kickoff ''p1'' ''p'' ''h0'' '''')) plan_defined"

definition plan_interviewed :: World where
  "plan_interviewed = world_step IntegrationScenario.operator 3 (Wc_plan (Ln_interview plan_interview)) plan_kicked_off"

definition plan_first :: World where
  "plan_first = world_step IntegrationScenario.operator 4 (Wc_plan (Ln_graph_approve (plan_graph ''g1'' 1 None))) plan_interviewed"

definition plan_second :: World where
  "plan_second = world_step IntegrationScenario.operator 5
     (Wc_plan (Ln_graph_approve (plan_graph ''g2'' 2 (Some (demo_ref ''program_graph_revision'' ''g1''))))) plan_first"

definition plan_raised :: World where
  "plan_raised = world_step host 6 (Wc_plan (Ln_issue_raise plan_issue)) plan_second"

definition plan_resolved :: World where
  "plan_resolved = world_step IntegrationScenario.operator 7 (Wc_plan (Ln_issue_resolve ''x1'' Action_resume ''t'')) plan_raised"

lemmas plan_data = plan_source_def plan_workflow_def plan_interview_def plan_node_def plan_graph_def plan_issue_def
  admission_workflow_def

lemmas world_ops = world_step_def commit_world_def evolve_world_def world_context_def plan_context_def view_map_def
  program_view_def ended_runs_def map_filter_simps deriveOutcomeEvents_def uniqueSorted_def insertion_set_def
  sort_by_def lifecycle_event_def plan_event_def pf_event_def event_def mhas_def mvalues_def emptyWorld_def
  emptyPortfolio_def emptyPlan_def emptyProjectionState_def found_def check_digest_def Let_def
  map_from_def PlanOps.operator_def host_def IntegrationScenario.operator_def

lemmas register_ops = decide_source_revision_register_def oid_lengths_ok_def sourceRevisionDigest_def
  decide_workflow_register_def next_workflow_version_def workflowKey_def revision_digest_ok_def

lemmas plan_ops = accept_def reject_def decide_kickoff_def decide_interview_capture_def captured_interview_def has_playback_def
  graph_mode_def put_program_def new_program_def on_program_def apply_interview_captured_def InterviewAnswers.extend_def
  IntentPlayback.fields_def Interview.extend_def InterviewState.fields_def

lemmas graph_ops = decide_graph_approve_def graph_issue_def activeGenerationForProgram_def graph_source_ok_def
  graph_playback_ok_def graph_extends_def active_graph_def node_issue_def same_history_def contract_workflow_def
  single_step_v3_def node_v2_issue_def graph_events_def superseded_events_def satisfied_events_def
  milestone_approval_def lane_contract_def demo_ref_def reference_def GraphRevision.defs apply_graph_approved_def
  apply_graph_superseded_def graph_approved_def graph_entity_def put_graph_def apply_milestone_approved_def
  put_milestone_def approved_milestone_def strings_digest_def surfaces_digest_def

lemmas issue_ops = decide_issue_raise_def retryAvailable_def milestone_job_def paused_milestones_def route_of_def
  pause_loop_def while_option_unfold pause_visit_def milestone_run_def raised_issue_def apply_issue_raised_def
  put_issue_def pause_milestone_def pause_generation_def graphMilestone_def decide_issue_resolve_def
  issueResolutionEvent_def resumed_milestones_def apply_issue_resolved_def resolved_issue_def resume_milestone_def

declare plan_data [simp] world_ops [simp] register_ops [simp] plan_ops [simp] graph_ops [simp] issue_ops [simp]
  slot_one [simp] holds_iff [simp del] holds_def [simp]

lemmas plan_registered_value [simp] = plan_registered_def [simplified]
lemmas plan_defined_value [simp] = plan_defined_def [simplified]
lemmas plan_kicked_off_value [simp] = plan_kicked_off_def [simplified]
lemmas plan_interviewed_value [simp] = plan_interviewed_def [simplified]
lemmas plan_first_value [simp] = plan_first_def [simplified]
lemmas plan_second_value [simp] = plan_second_def [simplified]
lemmas plan_raised_value [simp] = plan_raised_def [simplified]
lemmas plan_resolved_value [simp] = plan_resolved_def [simplified]

declare plan_data [simp del] world_ops [simp del] register_ops [simp del] plan_ops [simp del] graph_ops [simp del]
  issue_ops [simp del] slot_one [simp del] holds_iff [simp] holds_def [simp del] plan_registered_value [simp del]
  plan_defined_value [simp del] plan_kicked_off_value [simp del] plan_interviewed_value [simp del]
  plan_first_value [simp del] plan_second_value [simp del] plan_raised_value [simp del] plan_resolved_value [simp del]

section \<open>The states are reachable\<close>

lemma plan_first_reachable: "plan_reachable emptyWorld plan_first"
  unfolding plan_first_def plan_interviewed_def plan_kicked_off_def plan_defined_def plan_registered_def
  by (intro world_step_reachable world_start) (simp_all add: plan_graph_def GraphRevision.defs)

lemma plan_resolved_reachable: "plan_reachable plan_first plan_resolved"
  unfolding plan_resolved_def plan_raised_def plan_second_def
  by (intro world_step_reachable world_start) (simp_all add: plan_graph_def GraphRevision.defs)

lemma plan_moves: "plan_raised \<noteq> plan_second" "plan_resolved \<noteq> plan_raised"
  by (simp_all add: plan_second_value plan_raised_value plan_resolved_value)

lemma plan_raise_decision:
  obtains es k i where "decide_issue_raise blank_sha 6 (wd_state plan_second) (wd_plan plan_second) plan_issue = Inr (es, k, i)"
    "evolve_all blank_sha 6 plan_second es (replicate (length es) 1) = Inr plan_raised"
  by (rule world_step_decides [OF plan_moves(1) [unfolded plan_raised_def]]) (simp add: plan_raised_def)

lemma plan_resolve_decision:
  obtains es k i where "decide_issue_resolve blank_sha IntegrationScenario.operator (wd_plan plan_raised) ''x1'' Action_resume ''t'' = Inr (es, k, i)"
    "evolve_all blank_sha 7 plan_raised es (replicate (length es) 1) = Inr plan_resolved"
  by (rule world_step_decides [OF plan_moves(2) [unfolded plan_resolved_def]]) (simp add: plan_resolved_def)

lemma plan_raised_reachable: "plan_reachable emptyWorld plan_raised"
  unfolding plan_raised_def plan_second_def
  by (intro world_step_reachable plan_first_reachable) (simp_all add: plan_graph_def GraphRevision.defs)

end
