(* ===== verification/PlanIssueFacts.thy ===== *)
theory PlanIssueFacts
  imports PlanChain
begin

text \<open>
  The two searches of the program component: the loop that collects what a contradiction pauses,
  and the recursion over cross-program dependencies. Also what raising and resolving an issue
  writes.
\<close>

section \<open>The milestones a contradiction pauses\<close>

definition depends_on :: "GraphNodeState \<Rightarrow> uuid \<Rightarrow> bool" where
  "depends_on n d \<longleftrightarrow> d \<in> set (node_dependencies n)"

interpretation pause: closure_pass node_id depends_on pause_visit
  by unfold_locales (auto simp: pause_visit_def depends_on_def list_ex_iff)

abbreviation dependents :: "GraphNodeState list \<Rightarrow> (uuid \<times> uuid) set" where
  "dependents ns \<equiv> {(d, node_id n) | d n. n \<in> set ns \<and> d \<in> set (node_dependencies n)}"

lemma pause_edges: "pull_edges node_id depends_on ns = dependents ns"
  by (simp add: pull_edges_def depends_on_def)

lemma distinct_insertion_set [simp]: "distinct (insertion_set xs)"
  by (simp add: insertion_set_def)

lemma pause_ends:
  "\<exists>reached. pause_loop ns (insertion_set is) = Some (reached, False) \<and> distinct reached \<and>
     set reached = (dependents ns)\<^sup>* `` set is"
  using pause.loop_ends [of "insertion_set is" ns] by (simp add: pause_loop_def pause_edges)

lemma paused_contradiction:
  assumes "irs_proposedClass r = Contradiction"
  shows "set (paused_milestones ns r) = (dependents ns)\<^sup>* `` set (irs_affectedMilestoneIds r)"
    and "distinct (paused_milestones ns r)"
proof -
  obtain x where "pause_loop ns (insertion_set (irs_affectedMilestoneIds r)) = Some (x, False)" "distinct x"
    "set x = (dependents ns)\<^sup>* `` set (irs_affectedMilestoneIds r)"
    using pause_ends by blast
  with assms show "set (paused_milestones ns r) = (dependents ns)\<^sup>* `` set (irs_affectedMilestoneIds r)"
    and "distinct (paused_milestones ns r)"
    by (simp_all add: paused_milestones_def route_of_def)
qed

section \<open>Cross-program dependencies\<close>

text \<open>The steps from graph to graph, and the graphs of a program.\<close>

definition graph_edges :: "(uuid, GraphEntity) jsmap \<Rightarrow> (uuid \<times> uuid) set" where
  "graph_edges gs = {(i, cd_graphRevisionId d) | i d c v. mget gs i = Some c \<and> gs_v2 c = Some v \<and>
     d \<in> set (gv_crossProgramDependencies v)}"

definition of_program :: "(uuid, GraphEntity) jsmap \<Rightarrow> uuid \<Rightarrow> uuid \<Rightarrow> bool" where
  "of_program gs p i \<longleftrightarrow> (\<exists>c. mget gs i = Some c \<and> gs_programId c = p)"

lemma reaches_sound:
  "fst (reaches gs p seen i) \<Longrightarrow> \<exists>j. (i, j) \<in> (graph_edges gs)\<^sup>* \<and> of_program gs p j"
  "fst (reaches_any gs p seen ds) \<Longrightarrow>
     \<exists>d\<in>set ds. \<exists>j. (cd_graphRevisionId d, j) \<in> (graph_edges gs)\<^sup>* \<and> of_program gs p j"
proof (induction gs p seen i and gs p seen ds rule: reaches_reaches_any.induct)
  case (1 gs target seen i)
  obtain c where c: "mget gs i = Some c" using 1(2) by (cases "mget gs i") (simp_all add: reaches.simps [of gs target seen i])
  show ?case
  proof (cases "gs_programId c = target")
    case True
    with c show ?thesis by (auto simp: of_program_def)
  next
    case False
    with 1(2) c obtain v where v: "gs_graphRevisionId c \<notin> set seen" "gs_v2 c = Some v"
      "fst (reaches_any gs target (gs_graphRevisionId c # seen) (gv_crossProgramDependencies v))"
      by (auto simp: reaches.simps split: if_splits option.splits)
    from 1(1) [OF c False v(1,2,3)] obtain d j where d: "d \<in> set (gv_crossProgramDependencies v)"
      "(cd_graphRevisionId d, j) \<in> (graph_edges gs)\<^sup>*" "of_program gs target j" by blast
    have "(i, cd_graphRevisionId d) \<in> graph_edges gs" using c v(2) d(1) by (auto simp: graph_edges_def)
    with d(2,3) show ?thesis by (blast intro: converse_rtrancl_into_rtrancl)
  qed
next
  case (3 gs target seen d ds)
  obtain b seen' where r: "reaches gs target seen (cd_graphRevisionId d) = (b, seen')" by fastforce
  show ?case
  proof (cases b)
    case True
    with 3(1) r show ?thesis by auto
  next
    case False
    with 3(2) [OF r [symmetric]] 3(3) r show ?thesis by auto
  qed
qed simp

text \<open>
  A search without success leaves the set closed: no graph it added is of the program, and each
  step from one leads into the set, or to a graph that has no steps and is not of the program.
\<close>

definition settled :: "(uuid, GraphEntity) jsmap \<Rightarrow> uuid \<Rightarrow> uuid list \<Rightarrow> uuid \<Rightarrow> bool" where
  "settled gs p seen i \<longleftrightarrow> \<not> of_program gs p i \<and> (i \<in> set seen \<or> i \<notin> Domain (graph_edges gs))"

definition closed_over :: "(uuid, GraphEntity) jsmap \<Rightarrow> uuid \<Rightarrow> uuid list \<Rightarrow> uuid list \<Rightarrow> bool" where
  "closed_over gs p seen seen' \<longleftrightarrow> set seen \<subseteq> set seen' \<and>
     (\<forall>i j. i \<in> set seen' - set seen \<and> (i, j) \<in> graph_edges gs \<longrightarrow> settled gs p seen' j)"

lemma settled_mono: "settled gs p seen i \<Longrightarrow> set seen \<subseteq> set seen' \<Longrightarrow> settled gs p seen' i"
  by (auto simp: settled_def)

lemma closed_over_trans:
  assumes "closed_over gs p seen seen'" and "closed_over gs p seen' seen''"
  shows "closed_over gs p seen seen''"
  using assms settled_mono [of gs p seen' _ seen''] unfolding closed_over_def by blast

text \<open>Every graph stands under its own identifier, and those the search has seen are not of the program.\<close>

definition own_keys :: "(uuid, GraphEntity) jsmap \<Rightarrow> bool" where
  "own_keys gs \<longleftrightarrow> (\<forall>i c. mget gs i = Some c \<longrightarrow> gs_graphRevisionId c = i)"

lemma reaches_complete:
  "own_keys gs \<Longrightarrow> reaches gs p seen i = (False, seen') \<Longrightarrow> closed_over gs p seen seen' \<and> settled gs p seen' i"
  "own_keys gs \<Longrightarrow> reaches_any gs p seen ds = (False, seen') \<Longrightarrow>
     closed_over gs p seen seen' \<and> (\<forall>d\<in>set ds. settled gs p seen' (cd_graphRevisionId d))"
proof (induction gs p seen i and gs p seen ds arbitrary: seen' and seen' rule: reaches_reaches_any.induct)
  case (1 gs target seen i)
  show ?case
  proof (cases "mget gs i")
    case None
    with 1(3) show ?thesis by (auto simp: reaches.simps closed_over_def settled_def of_program_def graph_edges_def)
  next
    case (Some c)
    with 1(2) have key: "gs_graphRevisionId c = i" by (simp add: own_keys_def)
    from 1(3) Some have t: "gs_programId c \<noteq> target" by (auto simp: reaches.simps split: if_splits)
    then have nt: "\<not> of_program gs target i" using Some by (simp add: of_program_def)
    show ?thesis
    proof (cases "i \<in> set seen")
      case True
      with 1(3) Some key t nt show ?thesis by (auto simp: reaches.simps closed_over_def settled_def)
    next
      case F: False
      show ?thesis
      proof (cases "gs_v2 c")
        case None
        with 1(3) Some key t nt F show ?thesis
          by (auto simp: reaches.simps closed_over_def settled_def graph_edges_def)
      next
        case (Some v)
        with 1(3) \<open>mget gs i = Some c\<close> key t F
        have r: "reaches_any gs target (i # seen) (gv_crossProgramDependencies v) = (False, seen')"
          by (simp add: reaches.simps)
        from 1(1) [OF \<open>mget gs i = Some c\<close> t, unfolded key, OF F Some 1(2) r]
        have c: "closed_over gs target (i # seen) seen'"
          "\<forall>d\<in>set (gv_crossProgramDependencies v). settled gs target seen' (cd_graphRevisionId d)" by blast+
        have "settled gs target seen' j" if "(i, j) \<in> graph_edges gs" for j
          using that c(2) \<open>mget gs i = Some c\<close> Some by (auto simp: graph_edges_def)
        then have "\<forall>k j. k \<in> set seen' - set seen \<and> (k, j) \<in> graph_edges gs \<longrightarrow> settled gs target seen' j"
          using c(1) unfolding closed_over_def by (metis DiffE DiffI insertE list.simps(15))
        with c(1) nt show ?thesis by (simp add: closed_over_def settled_def)
      qed
    qed
  qed
next
  case (3 gs target seen d ds)
  obtain b seen1 where r: "reaches gs target seen (cd_graphRevisionId d) = (b, seen1)" by fastforce
  with 3(4) have r: "reaches gs target seen (cd_graphRevisionId d) = (False, seen1)" by (cases b) auto
  with 3(4) have any: "reaches_any gs target seen1 ds = (False, seen')" by simp
  from 3(1) [OF 3(3) r] have 1: "closed_over gs target seen seen1" "settled gs target seen1 (cd_graphRevisionId d)"
    by blast+
  from 3(2) [OF r [symmetric] refl 3(3) any]
  have 2: "closed_over gs target seen1 seen'" "\<forall>d\<in>set ds. settled gs target seen' (cd_graphRevisionId d)" by blast+
  have "settled gs target seen' (cd_graphRevisionId d)"
    using settled_mono [OF 1(2)] 2(1) by (simp add: closed_over_def)
  with closed_over_trans [OF 1(1) 2(1)] 2(2) show ?case by simp
qed (simp add: closed_over_def)

lemma reaches_iff:
  assumes "own_keys gs"
  shows "fst (reaches gs p [] i) \<longleftrightarrow> (\<exists>j. (i, j) \<in> (graph_edges gs)\<^sup>* \<and> of_program gs p j)"
proof
  assume ex: "\<exists>j. (i, j) \<in> (graph_edges gs)\<^sup>* \<and> of_program gs p j"
  show "fst (reaches gs p [] i)"
  proof (rule ccontr)
    assume "\<not> fst (reaches gs p [] i)"
    then obtain seen where "reaches gs p [] i = (False, seen)" by (cases "reaches gs p [] i") auto
    from reaches_complete(1) [OF assms this] have c: "closed_over gs p [] seen" and i: "settled gs p seen i" by blast+
    have "settled gs p seen j" if "(i, j) \<in> (graph_edges gs)\<^sup>*" for j
      using that i by induction (use c in \<open>auto simp: closed_over_def settled_def\<close>)
    with ex show False by (auto simp: settled_def)
  qed
qed (rule reaches_sound(1))

lemma typed_own_keys: "plan_typed sha pl \<Longrightarrow> own_keys (pl_graphs pl)"
  by (simp add: own_keys_def typed_ids)

section \<open>What issues write\<close>

text \<open>A milestone that an issue pauses, and one that a resolution resumes.\<close>

definition paused_by :: "uuid \<Rightarrow> MilestoneEntity \<Rightarrow> MilestoneEntity" where
  "paused_by x m = m\<lparr>mst_status := M_paused, mle_pauseReason := Some x\<rparr>"

definition resumed :: "MilestoneEntity \<Rightarrow> MilestoneEntity" where
  "resumed m = m\<lparr>mst_status := M_approved, mle_activeGenerationId := None, mle_pauseReason := None\<rparr>"

definition on_all :: "('k \<Rightarrow> bool) \<Rightarrow> ('v \<Rightarrow> 'v) \<Rightarrow> ('k, 'v) jsmap \<Rightarrow> ('k, 'v) jsmap \<Rightarrow> bool" where
  "on_all P f m m' \<longleftrightarrow> (\<forall>k. mget m' k = (if P k then map_option f (mget m k) else mget m k))"

lemma on_allD: "on_all P f m m' \<Longrightarrow> mget m' k = (if P k then map_option f (mget m k) else mget m k)"
  by (simp add: on_all_def)

lemma on_all_step:
  assumes "on_all (\<lambda>k. k \<in> set ks) f m1 m'" and "mget m x = Some y" and "m1 = mput x (f y) m" and "\<And>y. f (f y) = f y"
  shows "on_all (\<lambda>k. k \<in> set (x # ks)) f m m'"
  using assms by (auto simp: on_all_def)

lemma pause_generation_milestones [simp]: "pl_milestones (pause_generation i pl) = pl_milestones pl"
  by (simp add: pause_generation_def put_generation_def split: option.splits)

lemma pause_all:
  "try_fold (pause_milestone x) pl ks = Inr pl' \<Longrightarrow>
     on_all (\<lambda>k. k \<in> set ks) (paused_by x) (pl_milestones pl) (pl_milestones pl')"
proof (induction ks arbitrary: pl)
  case (Cons k ks)
  from Cons.prems obtain m pl1 where m: "mget (pl_milestones pl) k = Some m" "try_fold (pause_milestone x) pl1 ks = Inr pl'"
    "pl_milestones pl1 = mput k (paused_by x m) (pl_milestones pl)"
    by (auto simp: pause_milestone_def [of x pl k] found_def paused_by_def split: option.splits)
  show ?case by (rule on_all_step [OF Cons.IH [OF m(2)] m(1,3)]) (simp add: paused_by_def)
qed (simp add: on_all_def)

lemma resume_all:
  "try_fold resume_milestone pl ks = Inr pl' \<Longrightarrow>
     on_all (\<lambda>k. k \<in> set ks) resumed (pl_milestones pl) (pl_milestones pl')"
proof (induction ks arbitrary: pl)
  case (Cons k ks)
  from Cons.prems obtain m pl1 where m: "mget (pl_milestones pl) k = Some m" "try_fold resume_milestone pl1 ks = Inr pl'"
    "pl_milestones pl1 = mput k (resumed m) (pl_milestones pl)"
    by (auto simp: resume_milestone_def [of pl k] found_def resumed_def split: option.splits)
  show ?case by (rule on_all_step [OF Cons.IH [OF m(2)] m(1,3)]) (simp add: resumed_def)
qed (simp add: on_all_def)

text \<open>The lifecycle events of a command create no program and leave the component as it is.\<close>

lemma uncreating_keeps:
  assumes "emits uncreating es" and "evolve_all sha at w (map lifecycle_event es) vs = Inr w'"
    and "length vs = length es"
  shows "wd_plan w' = wd_plan w"
  using assms
proof (induction es arbitrary: w vs)
  case (Cons e es)
  from Cons.prems(2,3) obtain v us w1 where w1: "vs = v # us" "evolve_world sha at w (lifecycle_event e, v) = Inr w1"
    "evolve_all sha at w1 (map lifecycle_event es) us = Inr w'" "length us = length es"
    by (auto elim: evolve_consE)
  have "uncreating (ev_data e)" "emits uncreating es" using Cons.prems(1) by (simp_all add: emits_def)
  moreover from w1(2) have "apply_to_plan sha v at (wd_portfolio w) (Lifecycle (ev_data e)) (wd_plan w) = Inr (wd_plan w1)"
    by (elim evolve_worldE) (simp add: lifecycle_event_def pf_event_def)
  ultimately have "wd_plan w1 = wd_plan w" by (cases "ev_data e") (auto simp: creates_def)
  with Cons.IH [OF \<open>emits uncreating es\<close> w1(3,4)] show ?case by simp
qed simp

lemma issue_raise_Inr:
  assumes "decide_issue_raise sha now st pl r = Inr (evs, k, i)"
  obtains p g where "mget (pl_programs pl) (irs_programId r) = Some p" "active_graph pl p = Some g"
    "\<forall>m\<in>set (irs_affectedMilestoneIds r). graphMilestone g m \<noteq> None"
    "evs = map lifecycle_event (stop_events sha st pl (irs_issueId r) [] (paused_milestones (graph_nodes (gs_graph g)) r)) @
       [plan_event ''routed_issue'' (irs_issueId r) (RoutedIssueRaised (raised_issue now r)
         (digest_of sha (enc_RoutedIssue (raised_issue now r))) (sort (paused_milestones (graph_nodes (gs_graph g)) r)))]"
  using assms by (auto simp: decide_issue_raise_def list_ex_iff Let_def split: if_splits option.splits)

lemma issue_resolve_Inr:
  assumes "decide_issue_resolve sha actor pl i action text = Inr (evs, k, j)"
  obtains e where "mget (pl_issues pl) i = Some e" "iss_status (ris_issue e) = Issue_open"
    "evs = [plan_event ''routed_issue'' (iss_issueId (ris_issue e)) (RoutedIssueResolved (iss_issueId (ris_issue e))
       (iss_programId (ris_issue e)) action text (actor_id actor) (resumed_milestones pl (ris_issue e) action))]"
  using assms by (auto simp: decide_issue_resolve_def issueResolutionEvent_def Let_def split: if_splits option.splits sum.splits)

end
