(* ===== verification/PlanProperties.thy ===== *)
theory PlanProperties
  imports PlanScenario PlanIssueFacts
begin

text \<open>
  The properties of programs, graphs, milestones, issues and outcome packets, each with a witness
  where it has hypotheses, most of them on the program of PlanScenario.
\<close>

section \<open>The records\<close>

text \<open>
  C15. Types of the program component: in every world the kernel reaches from the empty one, each
  program, milestone, interview, graph, generation, outcome packet, validation, issue, attention
  span and disposition stands under its own identifier, once, and every digest is the digest of
  the content beside it; the lifecycle's programs are those of the component.
\<close>

theorem reachable_worlds_are_typed:
  assumes "world_reachable valid sha lc emptyWorld w"
  shows "plan_typed sha (wd_plan w) \<and> programs (wd_state w) = program_view (wd_plan w)"
  using reachable_keeps [OF assms] reachable_in_step [OF assms empty_in_step] by (simp add: emptyWorld_def World.in_step_def)

theorem reachable_worlds_are_typed_witness:
  "plan_typed blank_sha (wd_plan plan_first) \<and> programs (wd_state plan_first) = program_view (wd_plan plan_first)"
  using reachable_worlds_are_typed [OF plan_first_reachable] .

lemma reachable_typed: "world_reachable valid sha lc emptyWorld w \<Longrightarrow> plan_typed sha (wd_plan w)"
  using reachable_keeps by (force simp: emptyWorld_def)

lemma reachable_chain: "world_reachable valid sha lc emptyWorld w \<Longrightarrow> chained (wd_plan w)"
  using reachable_chained [OF _ empty_in_step] by (force simp: emptyWorld_def)

lemma chain_parts:
  assumes "chain G L" and "G k = Some g"
  shows "\<exists>a d. L (gs_programId g) = Some (Some a, d) \<and> (gre_supersededAt g = None \<longrightarrow> a = k)"
    and "follows G g"
    and "G k' = Some g' \<Longrightarrow> gs_programId g' = gs_programId g \<Longrightarrow> revision_of g' = revision_of g \<Longrightarrow> k' = k"
  using assms by (simp_all add: chain_def)

text \<open>
  C9. Permanent records: whatever is committed after a reachable world, the content and digest of
  every approved graph, the approval of every milestone (contract, workflow, dependencies,
  claims), every interview, outcome packet and disposition, and the identity of every generation
  stay as they are.
\<close>

theorem records_are_permanent:
  assumes "world_reachable valid sha lc emptyWorld w" and "world_reachable valid sha lc w w'"
  shows "(\<forall>i g. mget (pl_graphs (wd_plan w)) i = Some g \<longrightarrow> (\<exists>g'. mget (pl_graphs (wd_plan w')) i = Some g' \<and>
      gs_graph g' = gs_graph g \<and> gs_graphDigest g' = gs_graphDigest g)) \<and>
    (\<forall>i m. mget (pl_milestones (wd_plan w)) i = Some m \<longrightarrow> (\<exists>m'. mget (pl_milestones (wd_plan w')) i = Some m' \<and>
      mle_approval m' = mle_approval m)) \<and>
    (\<forall>i n. mget (pl_interviews (wd_plan w)) i = Some n \<longrightarrow> mget (pl_interviews (wd_plan w')) i = Some n) \<and>
    (\<forall>i e. mget (pl_outcomePackets (wd_plan w)) i = Some e \<longrightarrow> mget (pl_outcomePackets (wd_plan w')) i = Some e) \<and>
    (\<forall>i n. mget (pl_generations (wd_plan w)) i = Some n \<longrightarrow> (\<exists>n'. mget (pl_generations (wd_plan w')) i = Some n' \<and>
      Generation.truncate n' = Generation.truncate n)) \<and>
    (\<forall>i d. mget (pl_dispositions (wd_plan w)) i = Some d \<longrightarrow> mget (pl_dispositions (wd_plan w')) i = Some d)"
proof -
  have "records_kept (wd_plan w) (wd_plan w')" using reachable_keeps [OF assms(2) reachable_typed [OF assms(1)]] by blast
  then show ?thesis by (force simp: records_kept_def kept_def)
qed

theorem records_are_permanent_witness:
  "\<exists>m. mget (pl_milestones (wd_plan plan_resolved)) ''m1'' = Some m \<and> mla_graphRevisionId (mle_approval m) = Some ''g1''"
proof -
  obtain m where m: "mget (pl_milestones (wd_plan plan_first)) ''m1'' = Some m" "mla_graphRevisionId (mle_approval m) = Some ''g1''"
    by (simp add: plan_first_value)
  from records_are_permanent [OF plan_first_reachable plan_resolved_reachable] m show ?thesis by metis
qed

section \<open>Graph revisions\<close>

text \<open>
  C10. The chain of graph revisions: in every reachable world a graph is the first revision of its
  program, without predecessor, or the successor of a superseded graph of the same program, which
  it names with its digest; no two graphs of a program have the same revision; and the program
  names as active, with its digest, its last graph, which is the only one that is not superseded.
\<close>

theorem graph_revisions_form_a_chain:
  assumes "world_reachable valid sha lc emptyWorld w" and "mget (pl_graphs (wd_plan w)) k = Some g"
  shows "(revision_of g = 1 \<and> prior_of g = None \<or>
      (\<exists>r h. prior_of g = Some r \<and> mget (pl_graphs (wd_plan w)) (ref_id r) = Some h \<and> gs_programId h = gs_programId g \<and>
         ref_digest r = gs_graphDigest h \<and> revision_of g = revision_of h + 1 \<and> gre_supersededAt h \<noteq> None)) \<and>
    (\<forall>k' g'. mget (pl_graphs (wd_plan w)) k' = Some g' \<and> gs_programId g' = gs_programId g \<and>
       revision_of g' = revision_of g \<longrightarrow> k' = k) \<and>
    (\<exists>p a h. mget (pl_programs (wd_plan w)) (gs_programId g) = Some p \<and> gp_activeGraphRevisionId p = Some a \<and>
       mget (pl_graphs (wd_plan w)) a = Some h \<and> pge_activeGraphDigest p = Some (gs_graphDigest h) \<and>
       revision_of g \<le> revision_of h \<and> (gre_supersededAt g = None \<longleftrightarrow> k = a))"
proof -
  have c: "chain (mget (pl_graphs (wd_plan w))) (links (wd_plan w))"
    using reachable_chain [OF assms(1)] by (simp add: chained_def)
  from chain_parts(1) [OF c assms(2)] obtain a d
    where l: "links (wd_plan w) (gs_programId g) = Some (Some a, d)" "gre_supersededAt g = None \<longrightarrow> a = k"
    by (elim exE conjE)
  from chain_latest [OF c l(1)] obtain h where h: "mget (pl_graphs (wd_plan w)) a = Some h" "gre_supersededAt h = None"
    "d = Some (gs_graphDigest h)" "revision_of g \<le> revision_of h"
    using assms(2) by (auto simp: latest_def)
  have "k = a \<Longrightarrow> gre_supersededAt g = None" using h(1,2) assms(2) by simp
  moreover have "follows (mget (pl_graphs (wd_plan w))) g" by (rule chain_parts(2) [OF c assms(2)])
  moreover have "\<forall>k' g'. mget (pl_graphs (wd_plan w)) k' = Some g' \<and> gs_programId g' = gs_programId g \<and>
      revision_of g' = revision_of g \<longrightarrow> k' = k"
    using chain_parts(3) [OF c assms(2)] by blast
  ultimately show ?thesis using l h by (auto simp: follows_def links_def)
qed

theorem graph_revisions_form_a_chain_witness:
  "\<exists>h. mget (pl_graphs (wd_plan plan_resolved)) ''g1'' = Some h \<and> gre_supersededAt h \<noteq> None"
proof -
  obtain g where g: "mget (pl_graphs (wd_plan plan_resolved)) ''g2'' = Some g" "revision_of g = 2"
      "prior_of g = Some (demo_ref ''program_graph_revision'' ''g1'')"
    by (simp add: plan_resolved_value demo_ref_def reference_def GraphRevision.defs)
  from graph_revisions_form_a_chain [OF plan_reachable_trans [OF plan_first_reachable plan_resolved_reachable] g(1)] g(2,3)
  show ?thesis by (auto simp: demo_ref_def reference_def)
qed

section \<open>Raising an issue\<close>

text \<open>
  C14. Termination of the pause loop of \<open>issue.raise\<close>: on every graph, cyclic or not, and every
  set of affected milestones the loop ends, and it collects exactly the affected milestones and
  all that depend on them over any number of steps, each once.
\<close>

theorem pause_loop_ends:
  "\<exists>reached. pause_loop (graph_nodes g) (insertion_set affected) = Some (reached, False) \<and> distinct reached \<and>
     set reached = {(d, node_id n) | d n. n \<in> set (graph_nodes g) \<and> d \<in> set (node_dependencies n)}\<^sup>* `` set affected"
  by (rule pause_ends)

lemma raised_milestones:
  assumes "decide_issue_raise sha now (wd_state w) (wd_plan w) r = Inr (evs, k, i)"
    and "evolve_all sha at w evs vs = Inr w'" and "length vs = length evs"
  obtains p g where "mget (pl_programs (wd_plan w)) (irs_programId r) = Some p" "active_graph (wd_plan w) p = Some g"
    "on_all (\<lambda>m. m \<in> set (paused_milestones (graph_nodes (gs_graph g)) r)) (paused_by (irs_issueId r))
       (pl_milestones (wd_plan w)) (pl_milestones (wd_plan w'))"
  using assms(1)
proof (rule issue_raise_Inr)
  fix p and g :: GraphEntity
  let ?ps = "paused_milestones (graph_nodes (gs_graph g)) r" and ?i = "raised_issue now r"
  let ?stop = "stop_events sha (wd_state w) (wd_plan w) (irs_issueId r) [] ?ps"
  let ?e = "plan_event ''routed_issue'' (irs_issueId r) (RoutedIssueRaised ?i (digest_of sha (enc_RoutedIssue ?i)) (sort ?ps))"
  assume p: "mget (pl_programs (wd_plan w)) (irs_programId r) = Some p" "active_graph (wd_plan w) p = Some g"
    and evs: "evs = map lifecycle_event ?stop @ [?e]"
  from assms(3) obtain us v where vs: "vs = us @ [v]" "length us = length ?stop"
    by (auto simp: evs length_Suc_conv_rev)
  from assms(2) obtain w1 where w1: "evolve_all sha at w (map lifecycle_event ?stop) us = Inr w1"
    "evolve_world sha at w1 (?e, v) = Inr w'"
    by (auto simp: evs vs try_fold_append split: sum.splits)
  have "wd_plan w1 = wd_plan w" by (rule uncreating_keeps [OF uncreating_stop w1(1) vs(2)])
  moreover from w1(2) have "apply_issue_raised sha v ?i (digest_of sha (enc_RoutedIssue ?i)) (sort ?ps) (wd_plan w1) = Inr (wd_plan w')"
    by (elim evolve_worldE) (simp add: plan_event_def pf_event_def)
  ultimately have "try_fold (pause_milestone (irs_issueId r)) (put_issue sha v ?i (wd_plan w)) (sort ?ps) = Inr (wd_plan w')"
    by (simp add: apply_issue_raised_def check_digest_def raised_issue_def)
  from pause_all [OF this] have "on_all (\<lambda>m. m \<in> set ?ps) (paused_by (irs_issueId r))
      (pl_milestones (wd_plan w)) (pl_milestones (wd_plan w'))" by (simp add: put_issue_def)
  with p show thesis by (rule that)
qed

text \<open>
  C12. A contradiction stops its consequences: when \<open>issue.raise\<close> accepts a contradiction, its
  commit pauses the affected milestones and every milestone of the active graph that depends on
  them over any number of steps, naming the issue as the reason, and no other milestone changes.
\<close>

theorem contradiction_pauses_dependents:
  assumes "decide_issue_raise sha now (wd_state w) (wd_plan w) r = Inr (evs, k, i)" and "irs_proposedClass r = Contradiction"
    and "evolve_all sha at w evs vs = Inr w'" and "length vs = length evs"
  shows "\<exists>p g. mget (pl_programs (wd_plan w)) (irs_programId r) = Some p \<and> active_graph (wd_plan w) p = Some g \<and>
    (\<forall>m. mget (pl_milestones (wd_plan w')) m =
      (if m \<in> {(d, node_id n) | d n. n \<in> set (graph_nodes (gs_graph g)) \<and> d \<in> set (node_dependencies n)}\<^sup>* ``
            set (irs_affectedMilestoneIds r)
       then map_option (\<lambda>x. x\<lparr>mst_status := M_paused, mle_pauseReason := Some (irs_issueId r)\<rparr>)
         (mget (pl_milestones (wd_plan w)) m)
       else mget (pl_milestones (wd_plan w)) m))"
  using assms(1,3,4)
proof (rule raised_milestones)
  fix p and g :: GraphEntity
  assume "mget (pl_programs (wd_plan w)) (irs_programId r) = Some p" "active_graph (wd_plan w) p = Some g"
    and "on_all (\<lambda>m. m \<in> set (paused_milestones (graph_nodes (gs_graph g)) r)) (paused_by (irs_issueId r))
       (pl_milestones (wd_plan w)) (pl_milestones (wd_plan w'))"
  then show ?thesis
    by (intro exI [of _ p] exI [of _ g]) (simp add: on_all_def paused_contradiction [OF assms(2)] paused_by_def [abs_def])
qed

theorem contradiction_pauses_dependents_witness:
  "\<exists>m. mget (pl_milestones (wd_plan plan_raised)) ''m2'' = Some m \<and> mst_status m = M_paused \<and> mle_pauseReason m = Some ''x1''"
proof -
  obtain es k i where d: "decide_issue_raise blank_sha 6 (wd_state plan_second) (wd_plan plan_second) plan_issue = Inr (es, k, i)"
    "evolve_all blank_sha 6 plan_second es (replicate (length es) 1) = Inr plan_raised" by (rule plan_raise_decision)
  obtain p g m where p: "mget (pl_programs (wd_plan plan_second)) ''p1'' = Some p" "active_graph (wd_plan plan_second) p = Some g"
    "mget (pl_milestones (wd_plan plan_second)) ''m2'' = Some m"
    "graph_nodes (gs_graph g) = [Node_v1 (plan_node ''m1'' None), Node_v1 (plan_node ''m2'' (Some ''m1''))]"
    by (simp add: plan_second_value active_graph_def plan_node_def lane_contract_def)
  let ?edges = "{(d, node_id n) | d n. n \<in> set (graph_nodes (gs_graph g)) \<and> d \<in> set (node_dependencies n)}"
  have i: "irs_proposedClass plan_issue = Contradiction" "irs_programId plan_issue = ''p1''"
    "irs_issueId plan_issue = ''x1''" "irs_affectedMilestoneIds plan_issue = [''m1'']" by (simp_all add: plan_issue_def)
  have "(''m1'', ''m2'') \<in> ?edges" 
    by (intro CollectI exI [of _ "''m1''"] exI [of _ "Node_v1 (plan_node ''m2'' (Some ''m1''))"])
      (simp add: p(4) plan_node_def lane_contract_def)
  then have e: "''m2'' \<in> ?edges\<^sup>* `` set [''m1'']" by auto
  from contradiction_pauses_dependents [OF d(1) i(1) d(2)] show ?thesis using p(1-3) e by (auto simp: i)
qed

section \<open>Resolving an issue\<close>

text \<open>
  C17. A resolution resumes only the scope of its issue: when \<open>issue.resolve\<close> accepts a resumption
  in a reachable world, exactly the affected milestones that the issue pauses are approved again.
  A milestone that a contradiction paused because it depends on them stays paused.
\<close>

theorem resolution_resumes_only_the_scope:
  assumes "world_reachable valid sha lc emptyWorld w"
    and "decide_issue_resolve sha actor (wd_plan w) i Action_resume text = Inr (evs, k, j)"
    and "evolve_all sha at w evs vs = Inr w'" and "length vs = length evs"
  shows "\<exists>e. mget (pl_issues (wd_plan w)) i = Some e \<and> iss_status (ris_issue e) = Issue_open \<and>
    (\<forall>m. mget (pl_milestones (wd_plan w')) m =
      (if m \<in> set (iss_affectedMilestoneIds (ris_issue e)) \<and>
          (\<exists>x. mget (pl_milestones (wd_plan w)) m = Some x \<and> mle_pauseReason x = Some i)
       then map_option (\<lambda>x. x\<lparr>mst_status := M_approved, mle_activeGenerationId := None, mle_pauseReason := None\<rparr>)
         (mget (pl_milestones (wd_plan w)) m)
       else mget (pl_milestones (wd_plan w)) m))"
  using assms(2)
proof (rule issue_resolve_Inr)
  fix e :: IssueState
  let ?r = "resumed_milestones (wd_plan w) (ris_issue e) Action_resume"
  assume e: "mget (pl_issues (wd_plan w)) i = Some e" "iss_status (ris_issue e) = Issue_open"
    and evs: "evs = [plan_event ''routed_issue'' (iss_issueId (ris_issue e)) (RoutedIssueResolved (iss_issueId (ris_issue e))
       (iss_programId (ris_issue e)) Action_resume text (actor_id actor) ?r)]"
  have id: "iss_issueId (ris_issue e) = i"
    using typed_ids(5) [OF _ e(1)] reachable_keeps [OF assms(1)] by (force simp: emptyWorld_def)
  from assms(4) evs obtain v where vs: "vs = [v]" by (cases vs) auto
  from assms(3) have "apply_issue_resolved sha v at i Action_resume text (actor_id actor) ?r (wd_plan w) = Inr (wd_plan w')"
    by (auto simp: evs vs id plan_event_def pf_event_def elim: evolve_worldE split: sum.splits)
  then obtain x where "try_fold resume_milestone (put_issue sha v x (wd_plan w)) ?r = Inr (wd_plan w')"
    by (auto simp: apply_issue_resolved_def found_def e(1))
  from resume_all [OF this] have "on_all (\<lambda>m. m \<in> set ?r) resumed (pl_milestones (wd_plan w)) (pl_milestones (wd_plan w'))"
    by (simp add: put_issue_def)
  with e show ?thesis
    by (intro exI [of _ e]) (simp add: on_all_def resumed_milestones_def id resumed_def [abs_def])
qed

theorem resolution_resumes_only_the_scope_witness:
  "\<exists>m1 m2. mget (pl_milestones (wd_plan plan_resolved)) ''m1'' = Some m1 \<and> mst_status m1 = M_approved \<and>
     mget (pl_milestones (wd_plan plan_resolved)) ''m2'' = Some m2 \<and> mst_status m2 = M_paused"
proof -
  obtain es k j where d: "decide_issue_resolve blank_sha IntegrationScenario.operator (wd_plan plan_raised) ''x1'' Action_resume ''t'' = Inr (es, k, j)"
    "evolve_all blank_sha 7 plan_raised es (replicate (length es) 1) = Inr plan_resolved" by (rule plan_resolve_decision)
  obtain m1 m2 where m: "mget (pl_milestones (wd_plan plan_raised)) ''m1'' = Some m1" "mle_pauseReason m1 = Some ''x1''"
    "mget (pl_milestones (wd_plan plan_raised)) ''m2'' = Some m2" "mst_status m2 = M_paused"
    by (simp add: plan_raised_value)
  obtain e where e: "mget (pl_issues (wd_plan plan_raised)) ''x1'' = Some e" "iss_affectedMilestoneIds (ris_issue e) = [''m1'']"
    by (simp add: plan_raised_value)
  from resolution_resumes_only_the_scope [OF plan_raised_reachable d(1,2)] e m show ?thesis by auto
qed

section \<open>Cross-program dependencies\<close>

text \<open>
  C16. The cycle check is a reachability check: for the graphs of a reachable world, the search
  with its shared set of visited graphs succeeds exactly when some graph of the program is
  reachable over the cross-program dependencies of graphs of version 2.
\<close>

theorem reaches_is_reachability:
  assumes "world_reachable valid sha lc emptyWorld w"
  shows "fst (reaches (pl_graphs (wd_plan w)) p [] i) \<longleftrightarrow>
    (\<exists>j c. (i, j) \<in> {(x, cd_graphRevisionId d) | x d c v. mget (pl_graphs (wd_plan w)) x = Some c \<and>
          gs_v2 c = Some v \<and> d \<in> set (gv_crossProgramDependencies v)}\<^sup>* \<and>
       mget (pl_graphs (wd_plan w)) j = Some c \<and> gs_programId c = p)"
proof -
  have "own_keys (pl_graphs (wd_plan w))"
    using typed_own_keys reachable_keeps [OF assms] by (force simp: emptyWorld_def)
  from reaches_iff [OF this, of p i] show ?thesis by (auto simp: graph_edges_def of_program_def)
qed

theorem reaches_is_reachability_witness:
  "\<not> fst (reaches (pl_graphs (wd_plan plan_first)) ''p2'' [] ''g1'')"
proof -
  have "mget (pl_graphs (wd_plan plan_first)) j = Some c \<Longrightarrow> gs_programId c \<noteq> ''p2''" for j c
    by (auto simp: plan_first_value split: if_splits)
  with reaches_is_reachability [OF plan_first_reachable, of "''p2''" "''g1''"] show ?thesis by blast
qed

section \<open>Advancing a program\<close>

lemma started_fields:
  assumes "startGraphMilestoneEvents sha cx g i n base vs policy now = Inr st"
  shows "gen_programId (st_generation st) = gs_programId g" "gen_milestoneId (st_generation st) = i"
    "gen_generation (st_generation st) = n" "gen_baseRevisionId (st_generation st) = base"
    "gen_graphRevisionId (st_generation st) = gs_graphRevisionId g"
  using assms by (auto simp: startGraphMilestoneEvents_def Let_def split: option.splits prod.splits if_splits sum.splits)

lemma started_generation_of:
  assumes "startGraphMilestoneEvents sha cx g i n base vs policy now = Inr st" and "e \<in> set (st_events st)"
    and "pi_data e = Planned (MilestoneGenerationStarted x)"
  shows "x = st_generation st"
  using assms(1)
proof (rule started_generation)
  fix node w st3 packet
  assume "st_events st = generation_events sha (st_generation st) w st3 policy packet"
  with assms(2,3) show ?thesis by (auto simp: generation_events_def pf_event_def Let_def)
qed

lemma nextNodeD:
  assumes "nextNode pl g = Some n"
  shows "n \<in> set (graph_nodes (gs_graph g))" "plan_milestone_in pl M_approved (node_id n)"
    "\<forall>d\<in>set (node_dependencies n). plan_milestone_in pl M_outcome_ready d"
  using find_Some_iff [of _ _ n] assms by (auto simp: nextNode_def list_all_iff)

lemma no_active_generation:
  "activeGenerationForProgram pl i = None \<longleftrightarrow> (\<forall>g\<in>set (mvalues (pl_generations pl)). gen_programId g = i \<longrightarrow> gen_status g \<noteq> Gen_running)"
  by (auto simp: activeGenerationForProgram_def find_None_iff)

lemma validated_dependency:
  assumes "mhas (validationByMilestone vs) d"
  shows "\<exists>x\<in>set vs. ov_milestoneId x = d"
proof -
  have "mhas (map_from ov_milestoneId id vs) d \<longleftrightarrow> d \<in> set (map fst (map_from ov_milestoneId id vs))"
    by (simp add: mhas_def map_of_eq_None_iff)
  with assms show ?thesis by (auto simp: validationByMilestone_def map_from_keys simp del: set_map)
qed

text \<open>
  C11. A milestone starts only when it is due: if an accepted \<open>program.advance\<close> starts a generation,
  the actor is the system, the program has no running generation and no unresolved blocking issue,
  and the generation is the next one of an approved milestone of the program's active graph, each
  of whose dependencies has an outcome and a validation in the command. That validation names a
  packet of the program for the milestone, unchanged, recommended for merging, with every criterion
  passed.
\<close>

theorem advance_starts_what_is_due:
  assumes "decide_program_advance sha lc actor now st pl v = Inr (evs, kind, j)" and "e \<in> set evs"
    and "pi_data e = Planned (MilestoneGenerationStarted x)"
  shows "actor_kind actor = System \<and> \<not> blocking_issue pl (adv_programId v) \<and>
    (\<forall>g\<in>set (mvalues (pl_generations pl)). gen_programId g = adv_programId v \<longrightarrow> gen_status g \<noteq> Gen_running) \<and>
    (\<exists>p g n m. mget (pl_programs pl) (adv_programId v) = Some p \<and> gp_activeGraphRevisionId p = Some (adv_graphRevisionId v) \<and>
       mget (pl_graphs pl) (adv_graphRevisionId v) = Some g \<and> n \<in> set (graph_nodes (gs_graph g)) \<and>
       node_id n = gen_milestoneId x \<and> mget (pl_milestones pl) (gen_milestoneId x) = Some m \<and>
       mst_status m = M_approved \<and> gen_generation x = (case mst_generation m of None \<Rightarrow> 0 | Some k \<Rightarrow> k) + 1 \<and>
       (\<forall>d\<in>set (node_dependencies n). plan_milestone_in pl M_outcome_ready d \<and>
          (\<exists>y\<in>set (adv_dependencyValidations v). ov_milestoneId y = d \<and>
             (\<exists>k. mget (pl_outcomePackets pl) (ov_outcomePacketId y) = Some k \<and>
                packet_validates sha (adv_programId v) y k))))"
  using assms(1)
proof (cases rule: advance_Inr)
  case (started p g n m base s)
  note c = started(1) [unfolded advance_checked_def] and t = started(2) [unfolded advances_to_def]
  have "e \<in> set (st_events s)" using assms(2,3) started(3) by (auto simp: validation_event_def plan_event_def pf_event_def)
  from t have st: "startGraphMilestoneEvents sha (plan_context st pl) (ProgramGraphState.truncate g) (node_id n)
       ((case mst_generation m of None \<Rightarrow> 0 | Some k \<Rightarrow> k) + 1) base
       (map OutcomeValidation.truncate (adv_dependencyValidations v)) (adv_policy v) now = Inr s" by blast
  have x: "x = st_generation s" by (rule started_generation_of [OF st \<open>e \<in> set (st_events s)\<close> assms(3)])
  from c have pg: "mget (pl_programs pl) (adv_programId v) = Some p" "gp_activeGraphRevisionId p = Some (adv_graphRevisionId v)"
    "mget (pl_graphs pl) (adv_graphRevisionId v) = Some g"
    by (auto simp: advanceable_def named_graph_def bind_eq_Some_conv split: if_splits)
  have valid: "\<exists>k. mget (pl_outcomePackets pl) (ov_outcomePacketId y) = Some k \<and> packet_validates sha (adv_programId v) y k"
    if "y \<in> set (adv_dependencyValidations v)" for y
    using c that by (auto simp: validateInput_def split: option.splits if_splits)
  have deps: "\<exists>y\<in>set (adv_dependencyValidations v). ov_milestoneId y = d" if "d \<in> set (node_dependencies n)" for d
    using t that by (blast intro: validated_dependency)
  have nn: "nextNode pl g = Some n" and m: "mget (pl_milestones pl) (node_id n) = Some m" using t by blast+
  then have "mst_status m = M_approved" using nextNodeD(2) [OF nn] by (simp add: plan_milestone_in_def)
  with c pg m st nextNodeD [OF nn] deps valid show ?thesis
    by (intro conjI exI [of _ p] exI [of _ g] exI [of _ n] exI [of _ m])
      (auto simp: x started_fields no_active_generation)
qed (use assms(2,3) in \<open>auto simp: validation_event_def plan_event_def pf_event_def\<close>)

text \<open>A running program whose first milestone has an outcome.\<close>

definition advance_packet :: OutcomePacket where
  "advance_packet = \<lparr>opk_outcomePacketId = ''o1'', opk_programId = ''p1'', opk_milestoneId = ''m1'', opk_runId = ''r1'',
     opk_baseRevisionId = ''h0'', opk_candidateRevisionId = Some ''h0'', opk_intentDigest = '''',
     opk_milestoneContractDigest = '''', opk_workflowDigest = '''', opk_criteriaResults = [], opk_attemptHistory = [],
     opk_driverReceipts = [], opk_verificationReceipts = [], opk_artifactManifests = [], opk_capabilitiesUsed = [],
     opk_terminalReason = '''', opk_summary = '''', opk_deviationReasons = [], opk_recommendation = Rec_merge,
     opk_humanEvidenceFocus = [], opk_generatedAt = 0, opk_binding = None\<rparr>"

definition advance_plan :: Plan where
  "advance_plan = (wd_plan plan_second)
     \<lparr>pl_programs := map (\<lambda>(i, p). (i, p\<lparr>prog_phase := ''running''\<rparr>)) (pl_programs (wd_plan plan_second)),
      pl_milestones := map (\<lambda>(i, m). (i, if i = ''m1'' then m\<lparr>mst_status := M_outcome_ready\<rparr> else m))
        (pl_milestones (wd_plan plan_second)),
      pl_outcomePackets := [(''o1'', \<lparr>ope_packet = advance_packet, ope_packetDigest = '''', ope_recordedAt = 0,
        ope_version = 1\<rparr>)]\<rparr>"

definition advance_command :: ProgramAdvance where
  "advance_command = \<lparr>adv_programId = ''p1'', adv_graphRevisionId = ''g2'', adv_graphDigest = '''',
     adv_expectedMilestoneId = Some ''m2'', adv_expectedGeneration = Some 1,
     adv_dependencyValidations = [\<lparr>ov_validationId = ''v1'', ov_programId = ''p1'', ov_milestoneId = ''m1'',
       ov_outcomePacketId = ''o1'', ov_packetDigest = '''', ov_candidateRevisionId = Some ''h0'', ov_computedDigest = '''',
       ov_primaryEvidenceDigests = [], ov_criteriaPassed = True, ov_recommendation = Rec_merge, ov_validatedAt = 0\<rparr>],
     adv_policy = admission_job_policy\<rparr>"

lemmas advance_ops = decide_program_advance_def advanceable_def named_graph_def activeGenerationForProgram_def
  blocking_issue_def validateInput_def packet_validates_def primary_digests_def strings_digest_def nextNode_def
  plan_milestone_in_def advance_to_def validationByMilestone_def map_from_def advance_base_def
  startGraphMilestoneEvents_def graphMilestone_def milestone_step_def single_step_v3_def step_v3_def
  buildContextPacket_def recordsForMilestone_def plan_context_def view_map_def packet_view_def validation_view_def
  ProgramGraphState.defs OutcomeValidation.defs GraphRevision.defs admission_job_policy_def lane_contract_def
  plan_node_def mvalues_def mhas_def accept_def reject_def Let_def workflowKey_def slot_one generation_events_def
  pf_event_def host_def lane_data gs_v2_def map_filter_simps

fun starts :: "uuid \<Rightarrow> PortfolioData \<Rightarrow> bool" where
  "starts m (Planned (MilestoneGenerationStarted x)) = (gen_milestoneId x = m)"
| "starts m _ = False"

lemma startsD: "starts m d \<Longrightarrow> \<exists>x. d = Planned (MilestoneGenerationStarted x) \<and> gen_milestoneId x = m"
  by (cases "(m, d)" rule: starts.cases) auto

lemma advance_decision:
  obtains evs k j where "decide_program_advance blank_sha by_length host 9 (wd_state plan_second) advance_plan advance_command = Inr (evs, k, j)"
    "list_ex (\<lambda>e. starts ''m2'' (pi_data e)) evs"
  by (simp add: advance_ops validation_event_def advance_plan_def advance_command_def advance_packet_def plan_second_value plan_event_def
      holds_def del: holds_iff)

theorem advance_starts_what_is_due_witness:
  "\<exists>k. mget (pl_outcomePackets advance_plan) ''o1'' = Some k \<and>
     packet_validates blank_sha ''p1'' (hd (adv_dependencyValidations advance_command)) k"
proof -
  obtain evs k j where d: "decide_program_advance blank_sha by_length host 9 (wd_state plan_second) advance_plan advance_command = Inr (evs, k, j)"
    "list_ex (\<lambda>e. starts ''m2'' (pi_data e)) evs"
    by (rule advance_decision)
  then obtain e x where e: "e \<in> set evs" "pi_data e = Planned (MilestoneGenerationStarted x)" "gen_milestoneId x = ''m2''"
    by (auto simp: list_ex_iff dest!: startsD)
  obtain g where g: "mget (pl_graphs advance_plan) ''g2'' = Some g"
    "graph_nodes (gs_graph g) = [Node_v1 (plan_node ''m1'' None), Node_v1 (plan_node ''m2'' (Some ''m1''))]"
    by (simp add: advance_plan_def plan_second_value plan_node_def lane_contract_def)
  have ids: "node_id (Node_v1 (plan_node ''m1'' None)) \<noteq> ''m2''"
    "node_dependencies (Node_v1 (plan_node ''m2'' (Some ''m1''))) = [''m1'']" by (simp_all add: plan_node_def lane_contract_def)
  from advance_starts_what_is_due [OF d(1) e(1,2)] g ids e(3) show ?thesis
    by (auto simp: advance_command_def)
qed

section \<open>The limit on programs\<close>

lemma filter_mput: "length (filter P (mvalues (mput k v m))) \<le> length (filter P (mvalues m)) + 1"
  by (induction m) (auto simp: mvalues_def)

text \<open>
  C18. The pipeline limit: an accepted \<open>program.start\<close> of a version 2 program leaves at most
  \<open>maxPipelineWip\<close> programs of version 2 eligible, running or pending integration, the limit of the
  policy its active graph names.
\<close>

theorem program_start_keeps_the_pipeline_limit:
  assumes "decide_program_start_v2 actor s pl request i k d policy = Inr (evs, kind, j)"
    and "try_fold (\<lambda>pl e. apply_to_plan sha v at s (pi_data e) pl) pl evs = Inr pl'"
  shows "\<exists>g gv p. mget (pl_graphs pl) k = Some g \<and> gs_v2 g = Some gv \<and>
    mget (portfolioPolicies s) (ref_id (gv_portfolioPolicyRef gv)) = Some p \<and>
    pipelineWip pl' \<le> lim_maxPipelineWip (pol_limits (ps_policy p))"
proof -
  from assms(1) have "startable_v2 s pl i k d policy"
    and evs: "evs = [plan_event ''program'' i (ProgramExecutionRequested request i k d policy (actor_id actor))]"
    by (auto simp: decide_program_start_v2_def split: if_splits)
  then obtain g gv p where g: "mget (pl_graphs pl) k = Some g" "gs_v2 g = Some gv"
    "mget (portfolioPolicies s) (ref_id (gv_portfolioPolicyRef gv)) = Some p"
    "pipelineWip pl < lim_maxPipelineWip (pol_limits (ps_policy p))"
    by (auto simp: startable_v2_def named_graph_def bind_eq_Some_conv split: if_splits)
  from assms(2) obtain q where "pl' = put_program q pl"
    by (auto simp: evs plan_event_def pf_event_def on_program_def found_def split: option.splits)
  then have "pipelineWip pl' \<le> pipelineWip pl + 1"
    using filter_mput by (simp add: pipelineWip_def put_program_def)
  with g show ?thesis by fastforce
qed

text \<open>A program of version 2 that is approved.\<close>

definition waiting_plan :: Plan where
  "waiting_plan = emptyPlan
     \<lparr>pl_programs := [(''p1'', (new_program ''p1'' ''p'' ''graph_v2'' ''approved'' None 1 0)
        \<lparr>gp_activeGraphRevisionId := Some ''g1'', pge_activeGraphDigest := Some ''''\<rparr>)],
      pl_graphs := [(''g1'', graph_entity (Graph_v2 (lane_graph ''g1'' ''p1'' ''m1'' [])) '''' ''op'' 1 0)]\<rparr>"

theorem program_start_keeps_the_pipeline_limit_witness:
  "\<exists>pl' p. mget (portfolioPolicies lane_policy) ''pol1'' = Some p \<and>
     pipelineWip pl' = 1 \<and> pipelineWip pl' \<le> lim_maxPipelineWip (pol_limits (ps_policy p))"
proof -
  let ?policy = "\<lparr>jp_maxAttempts = 1, jp_attemptTimeoutMs = 1, jp_retryDelaysMs = []\<rparr>"
  obtain evs k j where d: "decide_program_start_v2 IntegrationScenario.operator lane_policy waiting_plan ''q'' ''p1'' ''g1'' '''' ?policy = Inr (evs, k, j)"
    by (simp add: decide_program_start_v2_def startable_v2_def named_graph_def waiting_plan_def emptyPlan_def
        new_program_def graph_entity_def lane_data GraphRevision.defs pipelineWip_def mvalues_def lane_policy_value
        PlanOps.operator_def accept_def)
  then obtain pl' where f: "try_fold (\<lambda>pl e. apply_to_plan blank_sha 2 0 lane_policy (pi_data e) pl) waiting_plan evs = Inr pl'"
    "pipelineWip pl' = 1"
    by (auto simp: decide_program_start_v2_def plan_event_def pf_event_def on_program_def found_def waiting_plan_def
        emptyPlan_def new_program_def put_program_def execution_requested_def pipelineWip_def mvalues_def accept_def
        reject_def split: if_splits)
  have g: "mget (pl_graphs waiting_plan) ''g1'' = Some g \<Longrightarrow> gs_v2 g = Some v \<Longrightarrow> ref_id (gv_portfolioPolicyRef v) = ''pol1''" for g v
    by (auto simp: waiting_plan_def emptyPlan_def graph_entity_def lane_data Let_def)
  from program_start_keeps_the_pipeline_limit [OF d f(1)] f(2) g show ?thesis by force
qed

section \<open>Outcome packets\<close>

lemma buildOutcomePacketE:
  assumes "buildOutcomePacket valid sha lc st pl i selected = Inr p"
  obtains x b where "outcome_source st pl i selected = Inr x" "p = (packet_v1 sha lc st x)\<lparr>opk_binding := b\<rparr>"
proof -
  obtain x where x: "outcome_source st pl i selected = Inr x" using assms by (auto simp: buildOutcomePacket_def split: sum.splits)
  moreover have "p = packet_v1 sha lc st x \<or> (\<exists>b. p = (packet_v1 sha lc st x)\<lparr>opk_binding := b\<rparr>)"
    using assms x by (auto simp: buildOutcomePacket_def parsed_def requireValue_def split: sum.splits if_splits option.splits)
  moreover have "packet_v1 sha lc st x = (packet_v1 sha lc st x)\<lparr>opk_binding := None\<rparr>" by (simp add: packet_v1_def Let_def)
  ultimately show thesis using that by metis
qed

lemma requireValue_Inr: "requireValue x message = Inr v \<longleftrightarrow> x = Some v"
  by (simp add: requireValue_def split: option.splits)

text \<open>The run and the job a packet is about.\<close>

lemma outcome_sourceD:
  assumes "outcome_source st pl i selected = Inr x"
  shows "\<exists>r j. mget (pl_milestones pl) i = Some (src_milestone x) \<and>
    (case selected of Some s \<Rightarrow> r = s | None \<Rightarrow> mle_runId (src_milestone x) = Some r) \<and>
    mget (runs st) r = Some (src_run x) \<and> mget (jobs st) j = Some (src_job x) \<and>
    ((\<exists>g\<in>set (mvalues (pl_generations pl)). gen_runId g = r \<and> gen_jobId g = j) \<or>
      (\<forall>g\<in>set (mvalues (pl_generations pl)). gen_runId g \<noteq> r) \<and> mle_jobId (src_milestone x) = Some j)"
  using assms unfolding outcome_source_def Let_def
  by (auto simp: requireValue_Inr find_None_iff split: sum.splits option.splits dest!: find_member) blast+

text \<open>
  Sorting by time and then by identifier with a consistent \<open>localeCompare\<close> puts a latest entry last.
\<close>

lemma consistent_ties:
  assumes "consistent cmp" and "cmp x y \<le> 0" and "cmp y z \<le> 0" and "cmp x z = 0"
  shows "cmp x y = 0 \<and> cmp y z = 0"
proof -
  have "cmp z x \<le> 0" using assms(1,4) unfolding consistent_def by (metis less_irrefl not_le)
  then have "cmp z y \<le> 0" "cmp y x \<le> 0" using assms(2,3) consistent_trans [OF assms(1)] by blast+
  then have "\<not> cmp y z < 0" "\<not> cmp x y < 0" using assms(1) unfolding consistent_def by (metis not_le)+
  with assms(2,3) show ?thesis by simp
qed

lemma consistent_by_time:
  assumes lc: "consistent lc"
  shows "consistent (by_time lc time key)"
  unfolding consistent_def
proof (intro conjI allI impI)
  fix x y
  have sign: "0 < lc a b \<longleftrightarrow> lc b a < 0" for a b using lc by (simp add: consistent_def)
  have zero: "lc a b = 0 \<longleftrightarrow> lc b a = 0" for a b using sign [of a b] sign [of b a] by presburger
  show "0 < by_time lc time key x y \<longleftrightarrow> by_time lc time key y x < 0"
    using sign zero [of "toISOString (time x)"] by (auto simp: by_time_def then_by_def)
next
  fix x y z
  let ?t = "\<lambda>x y. lc (toISOString (time x)) (toISOString (time y))"
  assume h: "by_time lc time key x y \<le> 0" "by_time lc time key y z \<le> 0"
  then have le: "?t x y \<le> 0" "?t y z \<le> 0" by (auto simp: by_time_def then_by_def split: if_splits)
  then have "?t x z \<le> 0" using consistent_trans [OF lc] by blast
  moreover have "lc (key x) (key z) \<le> 0" if "?t x z = 0"
    using h consistent_ties [OF lc le that] consistent_trans [OF lc, of "key x" "key y" "key z"]
    by (simp add: by_time_def then_by_def)
  ultimately show "by_time lc time key x z \<le> 0" by (simp add: by_time_def then_by_def)
qed

lemma sort_by_last:
  assumes c: "consistent cmp" and x: "x \<in> set xs"
  shows "cmp x (last (sort_by cmp xs)) \<le> 0"
proof -
  let ?s = "sort_by cmp xs"
  have s: "?s = butlast ?s @ [last ?s]" using x by (metis append_butlast_last_id empty_iff list.set(1) sort_by_empty_iff)
  with sorted_sort_by [OF c, of xs] have "\<forall>y\<in>set (butlast ?s). cmp y (last ?s) \<le> 0"
    by (metis list.set_intros(1) sorted_wrt_append)
  moreover have "x \<in> set (butlast ?s @ [last ?s])" using x by (simp only: s [symmetric] set_sort_by)
  ultimately show ?thesis using consistent_refl [OF c] by auto
qed

lemma final_verification:
  assumes "consistent lc"
  shows "(final_of (run_verifications lc st r j) = None \<longrightarrow>
      \<not> (\<exists>v\<in>set (mvalues (verifications st)). vq_runId (ver_request v) = r \<and> ver_jobId v = j)) \<and>
    (\<forall>v. final_of (run_verifications lc st r j) = Some v \<longrightarrow>
      v \<in> set (mvalues (verifications st)) \<and> vq_runId (ver_request v) = r \<and> ver_jobId v = j \<and>
      (\<forall>u\<in>set (mvalues (verifications st)). vq_runId (ver_request u) = r \<longrightarrow> ver_jobId u = j \<longrightarrow>
        by_time lc ver_requestedAt ver_verificationId u v \<le> 0))"
proof -
  let ?vs = "filter (\<lambda>v. vq_runId (ver_request v) = r \<and> ver_jobId v = j) (mvalues (verifications st))"
  let ?cmp = "by_time lc ver_requestedAt ver_verificationId"
  have "last (sort_by ?cmp ?vs) \<in> set ?vs" if "?vs \<noteq> []"
    using last_in_set [of "sort_by ?cmp ?vs"] that unfolding set_sort_by sort_by_empty_iff by blast
  moreover have "?cmp u (last (sort_by ?cmp ?vs)) \<le> 0" if "u \<in> set ?vs" for u
    using sort_by_last [OF consistent_by_time [OF assms] that] .
  ultimately show ?thesis by (auto simp: final_of_def run_verifications_def filter_empty_conv)
qed

text \<open>
  C13. The recommendation is earned. A derived outcome packet is about the run that was selected
  (or the milestone's run) and about the job of that run's generation (or the milestone's job), and
  it answers each criterion of the milestone's contract with the same verdict. The verdict is
  \<open>unverified\<close> if the run and job have no verification; otherwise it follows the latest of their
  verifications in order of request time and identifier: \<open>pass\<close> exactly when that one passed, \<open>fail\<close>
  exactly when it failed. The packet recommends merging exactly when the run succeeded, the job
  recorded a candidate and every criterion passed, and rejecting exactly when one failed.
\<close>

theorem recommendation_is_earned:
  assumes "consistent lc" and "well_keyed st" and "buildOutcomePacket valid sha lc st pl i selected = Inr p"
  shows "\<exists>m r run j job verdict. mget (pl_milestones pl) i = Some m \<and>
    (case selected of Some s \<Rightarrow> r = s | None \<Rightarrow> mle_runId m = Some r) \<and> mget (runs st) r = Some run \<and> opk_runId p = r \<and>
    ((\<exists>g\<in>set (mvalues (pl_generations pl)). gen_runId g = r \<and> gen_jobId g = j) \<or>
     (\<forall>g\<in>set (mvalues (pl_generations pl)). gen_runId g \<noteq> r) \<and> mle_jobId m = Some j) \<and>
    mget (jobs st) j = Some job \<and> opk_candidateRevisionId p = job_candidateRevisionId job \<and>
    map (\<lambda>c. (ocr_criterionId c, ocr_statement c, ocr_result c)) (opk_criteriaResults p) =
      map (\<lambda>k. (mcr_criterionId k, mcr_statement k, verdict)) (mc_criteria (mla_contract (mle_approval m))) \<and>
    (verdict = Criterion_unverified \<and>
       \<not> (\<exists>v\<in>set (mvalues (verifications st)). vq_runId (ver_request v) = r \<and> ver_jobId v = j) \<or>
     (\<exists>v\<in>set (mvalues (verifications st)). vq_runId (ver_request v) = r \<and> ver_jobId v = j \<and>
       (\<forall>u\<in>set (mvalues (verifications st)). vq_runId (ver_request u) = r \<longrightarrow> ver_jobId u = j \<longrightarrow>
         lc (toISOString (ver_requestedAt u)) (toISOString (ver_requestedAt v)) < 0 \<or>
         lc (toISOString (ver_requestedAt u)) (toISOString (ver_requestedAt v)) = 0 \<and>
         lc (ver_verificationId u) (ver_verificationId v) \<le> 0) \<and>
       (verdict = Criterion_pass \<longleftrightarrow> ver_status v = V_passed) \<and> (verdict = Criterion_fail \<longleftrightarrow> ver_status v = V_failed))) \<and>
    (opk_recommendation p = Rec_merge \<longleftrightarrow> run_status run = R_succeeded \<and> job_candidateRevisionId job \<noteq> None \<and>
       (\<forall>c\<in>set (opk_criteriaResults p). ocr_result c = Criterion_pass)) \<and>
    (opk_recommendation p = Rec_reject \<longleftrightarrow> (\<exists>c\<in>set (opk_criteriaResults p). ocr_result c = Criterion_fail))"
proof -
  obtain x b where x: "outcome_source st pl i selected = Inr x" "p = (packet_v1 sha lc st x)\<lparr>opk_binding := b\<rparr>"
    using assms(3) by (rule buildOutcomePacketE)
  obtain r j where src: "mget (pl_milestones pl) i = Some (src_milestone x)"
    "case selected of Some s \<Rightarrow> r = s | None \<Rightarrow> mle_runId (src_milestone x) = Some r"
    "mget (runs st) r = Some (src_run x)" "mget (jobs st) j = Some (src_job x)"
    "(\<exists>g\<in>set (mvalues (pl_generations pl)). gen_runId g = r \<and> gen_jobId g = j) \<or>
      (\<forall>g\<in>set (mvalues (pl_generations pl)). gen_runId g \<noteq> r) \<and> mle_jobId (src_milestone x) = Some j"
    using outcome_sourceD [OF x(1)] by blast
  have id: "run_runId (src_run x) = r" "job_jobId (src_job x) = j"
    using keyed_sel [OF assms(2)] src(3,4) by auto
  let ?f = "final_of (run_verifications lc st r j)"
  have packet: "opk_runId p = r" "opk_candidateRevisionId p = job_candidateRevisionId (src_job x)"
    "opk_criteriaResults p = criteria_results (mla_contract (mle_approval (src_milestone x))) ?f"
    "opk_recommendation p = recommendation_of (opk_criteriaResults p) (src_run x) (src_job x)"
    by (simp_all add: x(2) packet_v1_def Let_def id)
  have verdict: "criterion_verdict ?f = Criterion_unverified \<and>
       \<not> (\<exists>v\<in>set (mvalues (verifications st)). vq_runId (ver_request v) = r \<and> ver_jobId v = j) \<or>
     (\<exists>v\<in>set (mvalues (verifications st)). vq_runId (ver_request v) = r \<and> ver_jobId v = j \<and>
       (\<forall>u\<in>set (mvalues (verifications st)). vq_runId (ver_request u) = r \<longrightarrow> ver_jobId u = j \<longrightarrow>
         lc (toISOString (ver_requestedAt u)) (toISOString (ver_requestedAt v)) < 0 \<or>
         lc (toISOString (ver_requestedAt u)) (toISOString (ver_requestedAt v)) = 0 \<and>
         lc (ver_verificationId u) (ver_verificationId v) \<le> 0) \<and>
       (criterion_verdict ?f = Criterion_pass \<longleftrightarrow> ver_status v = V_passed) \<and>
       (criterion_verdict ?f = Criterion_fail \<longleftrightarrow> ver_status v = V_failed))"
  proof (cases ?f)
    case None
    then show ?thesis using final_verification [OF assms(1), of st r j] by (simp add: criterion_verdict_def)
  next
    case (Some v)
    have "lc (toISOString (ver_requestedAt u)) (toISOString (ver_requestedAt v)) < 0 \<or>
        lc (toISOString (ver_requestedAt u)) (toISOString (ver_requestedAt v)) = 0 \<and>
        lc (ver_verificationId u) (ver_verificationId v) \<le> 0"
      if "by_time lc ver_requestedAt ver_verificationId u v \<le> 0" for u
      using that by (auto simp: by_time_def then_by_def split: if_splits)
    with Some show ?thesis
      using final_verification [OF assms(1), of st r j]
      by (intro disjI2 bexI [of _ v]) (auto simp: criterion_verdict_def)
  qed
  have rec: "opk_recommendation p = Rec_merge \<longleftrightarrow> run_status (src_run x) = R_succeeded \<and>
      job_candidateRevisionId (src_job x) \<noteq> None \<and> (\<forall>c\<in>set (opk_criteriaResults p). ocr_result c = Criterion_pass)"
    "opk_recommendation p = Rec_reject \<longleftrightarrow> (\<exists>c\<in>set (opk_criteriaResults p). ocr_result c = Criterion_fail)"
    unfolding packet(4) by (auto simp: recommendation_of_def any_failed_def list_all_iff list_ex_iff)
  have answers: "map (\<lambda>c. (ocr_criterionId c, ocr_statement c, ocr_result c)) (opk_criteriaResults p) =
      map (\<lambda>k. (mcr_criterionId k, mcr_statement k, criterion_verdict ?f)) (mc_criteria (mla_contract (mle_approval (src_milestone x))))"
    by (simp add: packet(3) criteria_results_def)
  show ?thesis
    using src packet(1,2) answers verdict rec
    by (intro exI [of _ "src_milestone x"] exI [of _ r] exI [of _ "src_run x"] exI [of _ j] exI [of _ "src_job x"]
        exI [of _ "criterion_verdict ?f"] conjI)
qed

text \<open>A run that succeeded, with a candidate and a passed verification.\<close>

definition ended_state :: ProjectionState where
  "ended_state = emptyProjectionState
     \<lparr>runs := [(''r1'', run_succeeded 9 2 (run_new ''r1'' ''p1'' ''wf'' 1 0 1))],
      jobs := [(''j1'', (job_new \<lparr>js_jobId = ''j1'', js_runId = ''r1'', js_stepId = ''s'', js_capability = ''build'',
        js_dependencyJobIds = [], js_initialStatus = J_ready, js_policy = admission_job_policy,
        js_sourceRevisionId = Some ''h0'', js_executionContract = None, js_executionContractDigest = None,
        js_capabilityManifest = None, js_capabilityManifestDigest = None, js_contextPacketId = None,
        js_contextPacketDigest = None, js_verifierContract = None, js_verifierContractDigest = None\<rparr> 0 1)
        \<lparr>job_candidateRevisionId := Some ''c1''\<rparr>)],
      verifications := [(''v1'', (verification_new \<lparr>vq_verificationId = ''v1'', vq_runId = ''r1'', vq_jobId = ''j1'',
        vq_attemptId = ''a1'', vq_workflowId = ''wf'', vq_workflowVersion = 1, vq_workflowDigest = '''',
        vq_sourceRevisionId = ''c1'', vq_verifierContractDigest = ''''\<rparr> 8 1)\<lparr>ver_status := V_passed\<rparr>)]\<rparr>"

definition ended_plan :: Plan where
  "ended_plan = emptyPlan
     \<lparr>pl_programs := [(''p1'', (new_program ''p1'' ''p'' ''legacy_v1'' ''legacy_active'' None 1 0)\<lparr>pge_intentDigest := Some ''''\<rparr>)],
      pl_milestones := [(''m1'', (approved_milestone \<lparr>mla_milestoneId = ''m1'', mla_programId = ''p1'',
        mla_contract = (lane_contract ''m1'')\<lparr>mc_criteria := [\<lparr>mcr_criterionId = ''k'', mcr_statement = ''k'',
          mcr_verificationStepId = ''s''\<rparr>]\<rparr>, mla_contractDigest = '''', mla_workflowDigest = '''', mla_approvedBy = ''op'',
        mla_graphRevisionId = None, mla_dependencies = [], mla_sourcePredecessorMilestoneId = None,
        mla_allowedWorkSurfaces = [], mla_structuredWorkSurfaces = [], mla_resourceClaims = [],
        mla_capabilityClaims = []\<rparr> 1 0)
        \<lparr>mst_status := M_running, mle_runId := Some ''r1'', mle_jobId := Some ''j1'', mle_baseRevisionId := Some ''h0''\<rparr>)]\<rparr>"

theorem recommendation_is_earned_witness:
  "\<exists>p. buildOutcomePacket (\<lambda>x. True) blank_sha by_length ended_state ended_plan ''m1'' None = Inr p \<and>
     opk_recommendation p = Rec_merge"
proof -
  obtain p c where p: "buildOutcomePacket (\<lambda>x. True) blank_sha by_length ended_state ended_plan ''m1'' None = Inr p"
    "opk_candidateRevisionId p = Some ''c1''" "opk_criteriaResults p = [c]" "ocr_result c = Criterion_pass"
    by (simp add: buildOutcomePacket_def outcome_source_def requireValue_def parsed_def packet_v1_def run_attempts_def
        run_receipts_def run_verifications_def run_manifests_def criteria_results_def criterion_verdict_def final_of_def
        ended_plan_def ended_state_def emptyPlan_def emptyProjectionState_def new_program_def approved_milestone_def
        run_new_def run_succeeded_def job_new_def verification_new_def mvalues_def sort_by_def Let_def)
  have run: "run_status run = R_succeeded" if "mget (runs ended_state) r = Some run" for r run
    using that by (auto simp: ended_state_def emptyProjectionState_def run_succeeded_def split: if_splits)
  have keys: "well_keyed ended_state"
    by (auto simp: well_keyed_def keyed_def mwf_def ended_state_def emptyProjectionState_def run_succeeded_def run_new_def
        job_new_def verification_new_def)
  obtain r run and job :: JobState where "mget (runs ended_state) r = Some run" "opk_candidateRevisionId p = job_candidateRevisionId job"
    "opk_recommendation p = Rec_merge \<longleftrightarrow> run_status run = R_succeeded \<and> job_candidateRevisionId job \<noteq> None \<and>
       (\<forall>c\<in>set (opk_criteriaResults p). ocr_result c = Criterion_pass)"
    using recommendation_is_earned [OF by_length_consistent keys p(1)] by (elim exE conjE) (rule that)
  with run p show ?thesis by auto
qed

end
