(* ===== verification/Spec2Isabelle.thy ===== *)
theory Spec2Isabelle
  imports ProgramGraphFacts IntegrationProperties AdmissionProperties OutboundProperties Progress Provenance LeaseProperties KernelProperties
    PlanProperties
begin

text \<open>
  A model of the Parallelplay kernel (packages/kernel/src): the event-sourced core that plans
  runs of workflows, leases their jobs to supervisors, delivers effects through an outbox and
  accepts verified results. The kernel keeps an append-only event log in SQLite; a command is
  decided over the state replayed from the log (\<open>decide\<close>, domain.ts), its events are appended
  and applied (\<open>evolve\<close>, model.ts), and log, projection and receipt are written in one
  transaction (\<open>SqliteKernel.execute\<close>, sqlite-kernel.ts).

  Parts and theories:
    \<^item> Prelude: insertion-ordered maps (\<open>Map\<close>), exceptions, and the interfaces as locales: a
      keyed store, an event fold that keeps an invariant or a preorder, a fenced lease.
    \<^item> Canonical, CanonicalFacts: canonical.ts (\<open>normalize\<close>, \<open>JSON.stringify\<close>,
      \<open>canonicalJson\<close>, \<open>canonicalDigest\<close>) and \<open>deterministicUuid\<close>; canonical texts are equal exactly
      for values of the same content.
    \<^item> Schema, State, Evidence: the records and unions of schema.ts and model.ts (entities,
      events, commands), and the digests of evidence.ts.
    \<^item> Evolve: \<open>evolve\<close> and \<open>replayEvents\<close>, one function per event type.
    \<^item> Transitions, DecideRuns, DecideDriver, Decide: \<open>decide\<close>, one function per command and
      one per event list the commands share; every guard, in the source's order.
    \<^item> Life, LifeRefinement: the abstract lifecycle and the proof that \<open>evolve\<close> refines it;
      no event removes an entity.
    \<^item> LifeEvents, LifeInvariant, LifeTeardown, LifeChanges, LifeCommands, LifeSuccess,
      LifeDecide, LifeKeeps, LifeSchedule: the lifecycle invariant and its preservation by
      every command; the reachable projections.
    \<^item> Emits, Leases: which events a decision may contain, the leases of jobs and
      messages, and the interpretations of the fenced-lease interface for both.
    \<^item> JobFrame, Progress, Provenance: what commits leave of a job and of the context packet it is
      bound to; an open run can advance; a job succeeds by a passed verification, or, scheduled
      without a verifier, by the report of its attempt.
    \<^item> Store, Tables, Kernel, KernelFacts: the event log, the receipts, the constraints of the
      projection tables, and \<open>SqliteKernel.execute\<close> as a function from a database to a
      database and a result.
    \<^item> Scenario: a concrete run, computed by the model, on which the properties are
      instantiated.
    \<^item> RunProperties, LeaseProperties, KernelProperties: the properties of runs, leases and of
      the kernel's transactions.
    \<^item> Graph: the depth-first search both graph checks of schema.ts use. WorkflowCheck:
      \<open>validateWorkflowGraph\<close>, which accepts exactly the acyclic workflows. ProgramGraph,
      ProgramGraphFacts: \<open>validateProgramGraph\<close> and the refinements of graph versions 1 and
      2; its closure loop ends, and a valid graph is one chain of source predecessors with
      disjoint work surfaces.
    \<^item> Outbound, OutboundOps, OutboundFacts, OutboundProperties: outbound-authority.ts, the
      ledger of policies and effects on external systems: its events and their replay, the
      operations over the rows of its table, the transition relation the operations admit, and
      what holds of every ledger they reach.
    \<^item> GraphTypes: program graphs of both versions, and what the portfolio reads of programs,
      milestones and outcomes (schema.ts).
    \<^item> JsSort: \<open>Array.prototype.sort\<close> with a comparison. PortfolioTypes, PortfolioState,
      PortfolioEvolve: the records, the state and the events of portfolio and integration lane
      (schema.ts, model.ts). PortfolioOps, IntegrationOps, IntegrationDecision: their commands
      in domain.ts, from the approval of policies and targets over candidate diffs, queueing,
      leasing, preparing and verifying to the operator's authorization and the promotion.
    \<^item> PortfolioAdmit, PortfolioCoordinate: \<open>portfolio.coordinate\<close>, which admits the next
      program: its claims on slots, capabilities, resources and work surfaces, the context
      packet (\<open>buildContextPacket\<close>) and the events that start a milestone
      (\<open>startGraphMilestoneEvents\<close>). CoordinateFacts, ClaimFacts, ClaimInvariant: what an
      admission implies, and the invariant that claims of active leases are exclusive.
      AdmissionScenario, AdmissionProperties: concrete admissions, and the properties.
    \<^item> IntegrationSteps: every commit changes the portfolio by at most one event.
      IntegrationFacts, IntegrationInvariant: the invariant of the lane (candidates and work
      move together, evidence is kept, predecessors are promoted first, diffs stay inside the
      allowed surfaces) and its preservation. IntegrationMachine: the lane as a state machine
      and the fenced lease of the work. IntegrationScenario, IntegrationProperties: a concrete
      lane, and the properties.
    \<^item> PlanTypes, PlanEvolve: programs, interviews, graph revisions, milestones, generations,
      validations, issues, attention spans and outcome dispositions (schema.ts), their state
      and the cases of \<open>evolve\<close> for their events. PlanOps, PlanAdvance, PlanIssues: their
      commands in domain.ts, from \<open>program.kickoff\<close> and \<open>program-graph.approve\<close> over
      \<open>program.start\<close> and \<open>program.advance\<close> to \<open>issue.raise\<close>, \<open>issue.resolve\<close> and the
      disposition of outcomes. Closure: the closure loop of schema.ts and domain.ts as a
      locale, interpreted for the loop that collects what a contradiction pauses.
    \<^item> Outcome: outcome.ts, the packet derived from the evidence of a milestone's run, the
      events that record the outcomes of ended runs, and the verification of a stored packet.
    \<^item> World: lifecycle, portfolio and program component together. An event is applied to each,
      a command is decided by its component, and a commit adds the outcomes of the runs its
      events end; \<open>world_reachable\<close> are the states commits lead to.
    \<^item> PlanFacts, PlanCommits: every event keeps the types of the program component, and no
      command overwrites a permanent record. PlanChain: the revisions of a program's graph are
      a chain. PlanIssueFacts: the two searches of the component and what issues write.
      PlanScenario: a concrete program. PlanProperties: the properties.

  Parameters of the model (code that is not under src/): SHA-256 is a function \<open>sha\<close> on
  texts; the command parser and the payload schemas (zod) are \<open>env_parse\<close> and \<open>env_valid\<close>;
  the clock and the identifier generator are the arguments \<open>now\<close> and \<open>ids\<close> of \<open>execute\<close>;
  \<open>localeCompare\<close> is \<open>lc\<close>; the adapters of the outbound authority are arguments of its
  reconciliation. SQLite is represented by its rows and the constraints the schema declares.
  The portfolio's commands read the run lifecycle, programs, milestones, program graphs,
  attention policies, decision and outcome packets through the record \<open>cx\<close>. The theories of the
  portfolio leave it open at every commit; in World it is computed from the state
  (\<open>plan_context\<close>), but for attention policies and open decision packets. What operator
  decisions write to the program component (parking, resuming, priorities, resolutions,
  dispositions) are the steps \<open>decided_elsewhere\<close> of World. The schema of outcome packets is the
  predicate \<open>valid\<close>. The events the portfolio's commands write for the
  lifecycle are its events (\<open>Lifecycle\<close>), those for other components carry their JSON
  (\<open>Foreign\<close>). Assumed are: that scheduled jobs carry policies that \<open>JobPolicySchema\<close> admits
  (\<open>parses_well\<close>); that new outbox messages and new integration work get new identifiers
  (\<open>enqueues_fresh\<close>, \<open>queues_fresh\<close>), which the code does not check (the reachable portfolios of the
  lane, \<open>lane_reachable\<close>, are those reached so); for the claims of
  admissions, what the schemas ensure of graphs and targets, and that the paths of graphs have
  no line break, which they do not (\<open>graphs_admissible\<close>); and, for the order of
  candidates, that \<open>lc\<close> is a consistent comparison.

  Timestamps are integers (milliseconds); the kernel compares only timestamps produced by
  \<open>toISOString\<close>, whose text order is the order of instants. Numbers of the modelled records
  are natural numbers; none of the modelled code overflows JavaScript's safe integers
  except by counting past them. Recursion is structural, but for the depth-first search (the
  milestones not yet on its path are its measure), the search over cross-program dependencies
  (the graphs not yet seen) and the closure loops of program graphs and of issues, each a
  \<open>while_option\<close> whose end is a theorem; no fuel is needed.

  Not modelled: the conversions between values and columns (the JSON text of stored events, the
  columns that \<open>writeProjectionState\<close> inserts and \<open>readProjectionState\<close> reads back): a stored event is
  its value and the stored projection the value \<open>db_projection\<close>, so what a conversion could lose is
  outside the model, as are the exceptions of \<open>canonicalJson\<close> while an event is serialised. Further the
  portfolio's measurement report, and the attention, decision and advisor
  subsystems of the kernel, with their tables; the issues that driver events raise; the queries
  and backups of \<open>SqliteKernel\<close>; and everything outside the kernel package (supervisors,
  drivers, adapters, applications, scripts), which is I/O that sends the commands modelled here.
\<close>

end
